(* ===== verification/Doubles.thy ===== *)
theory Doubles
  imports Complex_Main "HOL-Library.Log_Nat"
begin

text \<open>
  The numbers of the language.  A JavaScript number is a binary floating-point number of 64 bits; a
  division or a product is the exact result rounded to the nearest such number, ties to the even
  significand.  A finite number is the rational number it stands for, and \<open>dbl\<close> is the rounding.  The largest exponent is
  left out: none of the operations modelled with \<open>dbl\<close> makes a number larger than its arguments and a hundred.
\<close>

section \<open>Rounding\<close>

text \<open>The exponent \<open>e\<close> of a positive number: \<open>2 ^ e \<le> x < 2 ^ (e + 1)\<close>.\<close>

definition exponent :: "rat \<Rightarrow> int" where
  "exponent x =
     (if 1 \<le> x then int (floorlog 2 (nat \<lfloor>x\<rfloor>)) - 1 else - int (floorlog 2 (nat (\<lceil>1 / x\<rceil> - 1))))"

definition pow2 :: "int \<Rightarrow> rat" where
  "pow2 e = (if 0 \<le> e then 2 ^ nat e else 1 / 2 ^ nat (- e))"

text \<open>The distance of neighbouring numbers: 52 bits behind the leading one, and no finer than the smallest
  subnormal number.\<close>

definition spacing :: "rat \<Rightarrow> rat" where
  "spacing x = pow2 (max (exponent x - 52) (- 1074))"

definition half_even :: "rat \<Rightarrow> int" where
  "half_even y =
     (let f = \<lfloor>y\<rfloor>; d = y - of_int f
      in if d < 1 / 2 then f else if 1 / 2 < d then f + 1 else if even f then f else f + 1)"

definition dbl :: "rat \<Rightarrow> rat" where
  "dbl x =
     (if x = 0 then 0
      else if 0 < x then spacing x * of_int (half_even (x / spacing x))
      else - (spacing (- x) * of_int (half_even (- x / spacing (- x)))))"

text \<open>\<^verbatim>\<open>Math.round\<close>: the nearest integer, ties upwards.\<close>

definition math_round :: "rat \<Rightarrow> int" where
  "math_round x = \<lfloor>x + 1 / 2\<rfloor>"

section \<open>Powers of two\<close>

lemma pow2_pos [simp]: "0 < pow2 e" by (simp add: pow2_def)

lemma pow2_ne [simp]: "pow2 e \<noteq> 0" using pow2_pos [of e] by linarith

lemma pow2_powi: "pow2 e = 2 powi e"
  by (simp add: pow2_def power_int_def inverse_eq_divide power_one_over)

lemma pow2_add: "pow2 (a + b) = pow2 a * pow2 b"
  by (simp add: pow2_powi power_int_add)

lemma pow2_mono: "a \<le> b \<Longrightarrow> pow2 a \<le> pow2 b"
  by (simp add: pow2_powi power_int_increasing)

lemma pow2_nat: "pow2 (int n) = 2 ^ n" "pow2 (- int n) = 1 / 2 ^ n"
  by (auto simp: pow2_def)

lemma pow2_div: "pow2 a / pow2 b = pow2 (a - b)"
  by (simp add: pow2_powi power_int_diff)

section \<open>The exponent\<close>

lemma floorlog_rat:
  assumes "0 < n"
  shows "(2 :: rat) ^ (floorlog 2 n - 1) \<le> of_nat n" "(of_nat n :: rat) + 1 \<le> 2 ^ floorlog 2 n" "0 < floorlog 2 n"
proof -
  have b: "2 ^ (floorlog 2 n - 1) \<le> n" "Suc n \<le> 2 ^ floorlog 2 n" using floorlog_bounds [of n 2] assms by auto
  have "of_nat (2 ^ (floorlog 2 n - 1)) \<le> (of_nat n :: rat)" using b(1) by (simp only: of_nat_le_iff)
  then show "(2 :: rat) ^ (floorlog 2 n - 1) \<le> of_nat n" by simp
  have "of_nat (Suc n) \<le> (of_nat (2 ^ floorlog 2 n) :: rat)" using b(2) by (simp only: of_nat_le_iff)
  then show "(of_nat n :: rat) + 1 \<le> 2 ^ floorlog 2 n" by simp
  show "0 < floorlog 2 n" using assms by (simp add: floorlog_def)
qed

lemma exponent_large: "1 \<le> x \<Longrightarrow> pow2 (exponent x) \<le> x \<and> x < pow2 (exponent x + 1)"
proof -
  assume x: "1 \<le> x"
  define n where "n = nat \<lfloor>x\<rfloor>"
  define k where "k = floorlog 2 n"
  have n: "0 < n" "of_nat n \<le> x" "x < of_nat n + 1"
    using x by (simp_all add: n_def le_floor_iff) linarith+
  note f = floorlog_rat [OF n(1), folded k_def]
  have "pow2 (exponent x) = 2 ^ (k - 1)" "pow2 (exponent x + 1) = 2 ^ k"
    using x f(3) pow2_nat(1) [of "k - 1"] pow2_nat(1) [of k]
    by (simp_all add: exponent_def n_def [symmetric] k_def [symmetric] of_nat_diff)
  then show ?thesis using n f by linarith
qed

lemma exponent_small: "0 < x \<Longrightarrow> x < 1 \<Longrightarrow> pow2 (exponent x) \<le> x \<and> x < pow2 (exponent x + 1)"
proof -
  assume x: "0 < x" "x < 1"
  define n where "n = nat (\<lceil>1 / x\<rceil> - 1)"
  define k where "k = floorlog 2 n"
  have "1 < 1 / x" using x by simp
  then have c: "1 < \<lceil>1 / x\<rceil>" by (simp add: less_ceiling_iff)
  then have n: "0 < n" "of_nat n < 1 / x" "1 / x \<le> of_nat n + 1"
    by (simp_all add: n_def) linarith+
  note f = floorlog_rat [OF n(1), folded k_def]
  have "1 / x \<le> 2 ^ k" "2 ^ (k - 1) < 1 / x" using n f by linarith+
  then have b: "1 / 2 ^ k \<le> x" "x < 1 / 2 ^ (k - 1)" using x by (simp_all add: field_simps)
  have "pow2 (exponent x) = 1 / 2 ^ k" "pow2 (exponent x + 1) = 1 / 2 ^ (k - 1)"
    using x f(3) pow2_nat(2) [of "k - 1"] pow2_nat(2) [of k]
    by (simp_all add: exponent_def n_def [symmetric] k_def [symmetric] of_nat_diff)
  then show ?thesis using b by simp
qed

lemma exponent_bounds:
  assumes "0 < x"
  shows "pow2 (exponent x) \<le> x" "x < pow2 (exponent x + 1)"
  using assms exponent_large [of x] exponent_small [of x] by linarith+

section \<open>The rounding error\<close>

lemma half_even_near: "\<bar>of_int (half_even y) - y\<bar> \<le> 1 / 2"
proof -
  have "of_int \<lfloor>y\<rfloor> \<le> y" "y < of_int \<lfloor>y\<rfloor> + 1" by linarith+
  then show ?thesis unfolding half_even_def Let_def by (simp split: if_split)
qed

lemma half_even_le: "y \<le> of_int m \<Longrightarrow> half_even y \<le> m"
proof -
  assume y: "y \<le> of_int m"
  show ?thesis
  proof (cases "y = of_int m")
    case False
    with y have "\<lfloor>y\<rfloor> < m" by (simp add: floor_less_iff)
    then show ?thesis by (auto simp: half_even_def Let_def)
  qed (simp add: half_even_def)
qed

lemma half_even_ge: "of_int m \<le> y \<Longrightarrow> m \<le> half_even y"
  by (auto simp: half_even_def Let_def le_floor_iff) linarith+

lemma spacing_pos [simp]: "0 < spacing x"
  by (simp add: spacing_def)

lemma spacing_ne [simp]: "spacing x \<noteq> 0"
  using spacing_pos [of x] by linarith

lemma dbl_pos: "0 < x \<Longrightarrow> dbl x = spacing x * of_int (half_even (x / spacing x))"
  by (simp add: dbl_def)

lemma dbl_zero [simp]: "dbl 0 = 0"
  by (simp add: dbl_def)

text \<open>A bound that lies on the grid of a number is kept by its rounding.\<close>

lemma dbl_le_grid:
  assumes "0 < x" "x \<le> of_int m * spacing x"
  shows "dbl x \<le> of_int m * spacing x"
proof -
  have "x / spacing x \<le> of_int m" using assms(2) by (simp add: pos_divide_le_eq)
  then have "half_even (x / spacing x) \<le> m" by (rule half_even_le)
  then show ?thesis using assms(1) spacing_pos [of x] by (simp add: dbl_pos mult.commute)
qed

lemma dbl_ge_grid:
  assumes "0 < x" "of_int m * spacing x \<le> x"
  shows "of_int m * spacing x \<le> dbl x"
proof -
  have "of_int m \<le> x / spacing x" using assms(2) by (simp add: pos_le_divide_eq)
  then have "m \<le> half_even (x / spacing x)" by (rule half_even_ge)
  then show ?thesis using assms(1) spacing_pos [of x] by (simp add: dbl_pos mult.commute)
qed

lemma dbl_nonneg: "0 \<le> x \<Longrightarrow> 0 \<le> dbl x"
  using dbl_ge_grid [of x 0] by (cases "x = 0") auto

text \<open>Small natural numbers are on every grid below them.\<close>

lemma grid_nat:
  assumes "0 < x" "x \<le> of_nat c" "c < 2 ^ 53"
  shows "\<exists>m. of_nat c = of_int m * spacing x"
proof -
  have "x < 2 ^ 53" using assms(2,3) of_nat_less_iff [of c "2 ^ 53", where 'a = rat] by simp
  then have "pow2 (exponent x) < pow2 53" using exponent_bounds(1) [OF assms(1)] pow2_nat(1) [of 53] by simp
  then have "exponent x < 53" using pow2_mono [of 53 "exponent x"] by linarith
  then have "max (exponent x - 52) (- 1074) = - int (nat (- max (exponent x - 52) (- 1074)))" by simp
  then obtain n where n: "max (exponent x - 52) (- 1074) = - int n" by blast
  have "of_nat c = of_int (int c * 2 ^ n) * spacing x" by (simp add: spacing_def n pow2_nat)
  then show ?thesis by blast
qed

lemma dbl_le_nat: "0 \<le> x \<Longrightarrow> x \<le> of_nat c \<Longrightarrow> c < 2 ^ 53 \<Longrightarrow> dbl x \<le> of_nat c"
  using grid_nat [of x c] dbl_le_grid [of x] by (cases "x = 0") force+

lemma dbl_ge_one:
  assumes "1 \<le> x"
  shows "1 \<le> dbl x"
proof -
  have x: "0 < x" using assms by simp
  have "pow2 0 < pow2 (exponent x + 1)" using exponent_bounds(2) [OF x] assms by (simp add: pow2_def)
  then have e: "0 \<le> exponent x" using pow2_mono [of "exponent x + 1" 0] by linarith
  then have s: "spacing x = pow2 (exponent x - 52)" by (simp add: spacing_def)
  have g: "of_int (2 ^ 52) * spacing x = pow2 (exponent x)"
    using pow2_add [of 52 "exponent x - 52"] pow2_nat(1) [of 52] by (simp add: s)
  have "pow2 0 \<le> pow2 (exponent x)" using e by (rule pow2_mono)
  then have "1 \<le> of_int (2 ^ 52) * spacing x" unfolding g by (simp add: pow2_def)
  also have "\<dots> \<le> dbl x" using x exponent_bounds(1) [OF x] unfolding g [symmetric] by (rule dbl_ge_grid)
  finally show ?thesis .
qed

text \<open>Half a unit in the last place.\<close>

lemma dbl_error:
  assumes "1 \<le> x"
  shows "\<bar>dbl x - x\<bar> \<le> x / 2 ^ 53"
proof -
  have x: "0 < x" using assms by simp
  have "pow2 0 < pow2 (exponent x + 1)" using exponent_bounds(2) [OF x] assms by (simp add: pow2_def)
  then have "0 \<le> exponent x" using pow2_mono [of "exponent x + 1" 0] by linarith
  then have s: "spacing x = pow2 (exponent x) / 2 ^ 52"
    using pow2_div [of "exponent x" 52] pow2_nat(1) [of 52] by (simp add: spacing_def)
  have "dbl x - x = spacing x * (of_int (half_even (x / spacing x)) - x / spacing x)"
    using x spacing_pos [of x] by (simp add: dbl_pos right_diff_distrib)
  then have "\<bar>dbl x - x\<bar> \<le> spacing x * (1 / 2)"
    using mult_left_mono [OF half_even_near [of "x / spacing x"], of "spacing x"] spacing_pos [of x]
    by (simp add: abs_mult less_imp_le)
  also have "\<dots> \<le> x / 2 ^ 53" using exponent_bounds(1) [OF x] by (simp add: s)
  finally show ?thesis .
qed

lemma math_round_bounds: "0 \<le> x \<Longrightarrow> 0 \<le> math_round x" "x \<le> of_int n \<Longrightarrow> math_round x \<le> n"
  by (auto simp: math_round_def le_floor_iff floor_le_iff)

text \<open>The rounding is visible: 57 of 200 is 28 percent, although the exact quotient would round to 29; and
  1001 divided by a thousand and multiplied by it is not 1001.\<close>

lemma dbl_examples:
  "math_round (dbl (dbl (57 / 200) * 100)) = 28" "math_round (57 / 200 * 100) = 29"
  "dbl (dbl (1001 / 1000) * 1000) < 1001"
  by code_simp+

end
