(* ===== verification/Prelude.thy ===== *)
theory Prelude
  imports Main
begin

text \<open>
  Shared vocabulary of the development: the parts of the ECMAScript standard library that the
  dashboard under \<^verbatim>\<open>src/frontend\<close> uses on strings, arrays and optional values, and the generic
  lemmas the component theories share.

  A JavaScript string is modelled by \<^typ>\<open>string\<close>: a list of code units, each of which is a
  \<^typ>\<open>char\<close>, so the model covers the strings whose code units are below 256 (ASCII and Latin-1).
  An optional field or a nullable value is an \<^typ>\<open>'a option\<close>; \<^verbatim>\<open>null\<close> and \<^verbatim>\<open>undefined\<close> are both
  \<^const>\<open>None\<close>, as the sources only ever test for both of them or use \<^verbatim>\<open>??\<close> and \<^verbatim>\<open>||\<close>.
  Counters, versions and offsets are \<^typ>\<open>int\<close> (they stay far below the 2 to the 53 where a
  double stops counting exactly).
\<close>

named_theorems js_simps \<open>evaluation rules of the JavaScript string and array functions\<close>
named_theorems inv_intros \<open>preservation facts: every operation keeps its component's invariant\<close>

text \<open>The translator that \<^verbatim>\<open>usePreferences\<close> hands to every component: a message key and the values
  of its placeholders.\<close>

type_synonym translator = "string \<Rightarrow> (string \<times> string) list \<Rightarrow> string"

section \<open>Truthiness and defaults\<close>

definition or_str :: "string \<Rightarrow> string \<Rightarrow> string" where
  "or_str s d = (if s = [] then d else s)"

definition opt_str :: "string \<Rightarrow> string option" where
  "opt_str s = (if s = [] then None else Some s)"

definition or_list :: "'a list option \<Rightarrow> 'a list" where
  "or_list xs = (case xs of None \<Rightarrow> [] | Some ys \<Rightarrow> ys)"

definition or_int :: "int option \<Rightarrow> int \<Rightarrow> int" where
  "or_int n d = (case n of None \<Rightarrow> d | Some v \<Rightarrow> if v = 0 then d else v)"

definition truthy_str :: "string option \<Rightarrow> bool" where
  "truthy_str s \<longleftrightarrow> (case s of None \<Rightarrow> False | Some v \<Rightarrow> v \<noteq> [])"

lemma or_str_simps [js_simps, simp]:
  "or_str [] d = d"
  "s \<noteq> [] \<Longrightarrow> or_str s d = s"
  by (simp_all add: or_str_def)

lemma or_str_nonempty [simp]: "or_str s d = [] \<longleftrightarrow> s = [] \<and> d = []"
  by (simp add: or_str_def)

lemma opt_str_simps [js_simps, simp]:
  "opt_str [] = None"
  "s \<noteq> [] \<Longrightarrow> opt_str s = Some s"
  by (simp_all add: opt_str_def)

lemma opt_str_eq_Some [simp]: "opt_str s = Some v \<longleftrightarrow> s = v \<and> v \<noteq> []"
  by (auto simp: opt_str_def)

lemma opt_str_eq_None [simp]: "opt_str s = None \<longleftrightarrow> s = []"
  by (simp add: opt_str_def)

lemma or_list_simps [js_simps, simp]:
  "or_list None = []"
  "or_list (Some xs) = xs"
  by (simp_all add: or_list_def)

section \<open>Strings\<close>

text \<open>The white space that \<^verbatim>\<open>trim\<close> removes, within the code units of the model.\<close>

definition is_ws :: "char \<Rightarrow> bool" where
  "is_ws c \<longleftrightarrow> (of_char c :: nat) \<in> {9, 10, 11, 12, 13, 32, 160}"

definition trim :: "string \<Rightarrow> string" where
  "trim s = rev (dropWhile is_ws (rev (dropWhile is_ws s)))"

definition starts_with :: "string \<Rightarrow> string \<Rightarrow> bool" where
  "starts_with p s \<longleftrightarrow> take (length p) s = p"

fun includes_str :: "string \<Rightarrow> string \<Rightarrow> bool" where
  "includes_str p [] \<longleftrightarrow> p = []"
| "includes_str p (c # cs) \<longleftrightarrow> starts_with p (c # cs) \<or> includes_str p cs"

definition is_digit :: "char \<Rightarrow> bool" where
  "is_digit c \<longleftrightarrow> 48 \<le> (of_char c :: nat) \<and> (of_char c :: nat) \<le> 57"

definition is_word_char :: "char \<Rightarrow> bool" where
  "is_word_char c \<longleftrightarrow> (let n = (of_char c :: nat) in
     (48 \<le> n \<and> n \<le> 57) \<or> (65 \<le> n \<and> n \<le> 90) \<or> n = 95 \<or> (97 \<le> n \<and> n \<le> 122))"

definition lower_char :: "char \<Rightarrow> char" where
  "lower_char c = (let n = (of_char c :: nat) in
     if (65 \<le> n \<and> n \<le> 90) \<or> (192 \<le> n \<and> n \<le> 222 \<and> n \<noteq> 215) then char_of (n + 32) else c)"

definition to_lower :: "string \<Rightarrow> string" where
  "to_lower = map lower_char"

definition upper_ascii :: "char \<Rightarrow> char" where
  "upper_ascii c = (let n = (of_char c :: nat) in if 97 \<le> n \<and> n \<le> 122 then char_of (n - 32) else c)"

text \<open>\<^verbatim>\<open>replaceAll\<close> of one code unit by a fixed string without \<^verbatim>\<open>$\<close> patterns.\<close>

definition replace_char :: "char \<Rightarrow> string \<Rightarrow> string \<Rightarrow> string" where
  "replace_char c r s = concat (map (\<lambda>x. if x = c then r else [x]) s)"

fun join :: "string \<Rightarrow> string list \<Rightarrow> string" where
  "join sep [] = []"
| "join sep [x] = x"
| "join sep (x # y # ys) = x @ sep @ join sep (y # ys)"

fun split_char :: "char \<Rightarrow> string \<Rightarrow> string list" where
  "split_char c [] = [[]]"
| "split_char c (x # xs) =
     (if x = c then [] # split_char c xs
      else (case split_char c xs of [] \<Rightarrow> [[x]] | w # ws \<Rightarrow> (x # w) # ws))"

lemma split_char_nonempty [simp]: "split_char c s \<noteq> []"
  by (induction s) (auto split: list.splits)

lemma split_char_free: "c \<notin> set w \<Longrightarrow> split_char c w = [w]"
  by (induction w) auto

lemma split_char_append: "c \<notin> set w \<Longrightarrow> split_char c (w @ c # rest) = w # split_char c rest"
  by (induction w) auto

text \<open>Joining pieces that do not contain the separator is injective: splitting undoes it.\<close>

lemma split_char_join:
  "ws \<noteq> [] \<Longrightarrow> \<forall>w \<in> set ws. c \<notin> set w \<Longrightarrow> split_char c (join [c] ws) = ws"
proof (induction "[c]" ws rule: join.induct)
  case (3 x y ys)
  then show ?case by (simp add: split_char_append)
qed (simp_all add: split_char_free)

lemma join_inject:
  assumes "ws \<noteq> []" "vs \<noteq> []"
    and "\<forall>w \<in> set ws. c \<notin> set w" "\<forall>w \<in> set vs. c \<notin> set w"
    and "join [c] ws = join [c] vs"
  shows "ws = vs"
  using assms split_char_join by metis

section \<open>Trimming\<close>

lemma dropWhile_idem' [simp]: "dropWhile P (dropWhile P xs) = dropWhile P xs"
  by (induction xs) auto

lemma dropWhile_eq_self_iff': "dropWhile P xs = xs \<longleftrightarrow> xs = [] \<or> \<not> P (hd xs)"
  by (cases xs) (auto dest: arg_cong [where f = length] simp: dropWhile_eq_Cons_conv)

lemma trim_Nil [simp]: "trim [] = []"
  by (simp add: trim_def)

lemma hd_trim: "trim s \<noteq> [] \<Longrightarrow> \<not> is_ws (hd (trim s))"
proof -
  assume ne: "trim s \<noteq> []"
  let ?u = "dropWhile is_ws s"
  from ne have u: "?u \<noteq> []" unfolding trim_def by fastforce
  then have h: "\<not> is_ws (hd ?u)" by (rule hd_dropWhile)
  obtain zs where zs: "rev ?u = zs @ dropWhile is_ws (rev ?u)"
    using takeWhile_dropWhile_id by metis
  then have "?u = rev (dropWhile is_ws (rev ?u)) @ rev zs"
    by (metis rev_append rev_rev_ident)
  then have "?u = trim s @ rev zs" by (simp add: trim_def)
  with ne have "hd ?u = hd (trim s)" by (metis hd_append2)
  with h show ?thesis by simp
qed

lemma last_trim: "trim s \<noteq> [] \<Longrightarrow> \<not> is_ws (last (trim s))"
  by (simp add: trim_def last_rev hd_dropWhile)

lemma trim_id: "s = [] \<or> (\<not> is_ws (hd s) \<and> \<not> is_ws (last s)) \<Longrightarrow> trim s = s"
proof (cases "s = []")
  case False
  assume "s = [] \<or> (\<not> is_ws (hd s) \<and> \<not> is_ws (last s))"
  with False have "\<not> is_ws (hd s)" "\<not> is_ws (hd (rev s))" by (auto simp: hd_rev)
  then have "dropWhile is_ws s = s" "dropWhile is_ws (rev s) = rev s"
    by (simp_all only: dropWhile_eq_self_iff' simp_thms)
  then show ?thesis by (simp add: trim_def)
qed simp

lemma trim_trim [simp]: "trim (trim s) = trim s"
  by (rule trim_id) (use hd_trim last_trim in blast)

section \<open>Prefixes\<close>

lemma starts_with_Nil [js_simps, simp]: "starts_with [] s"
  by (simp add: starts_with_def)

lemma starts_with_Cons [js_simps, simp]:
  "starts_with (c # cs) [] \<longleftrightarrow> False"
  "starts_with (c # cs) (d # ds) \<longleftrightarrow> c = d \<and> starts_with cs ds"
  by (auto simp: starts_with_def)

lemma starts_with_append [simp]: "starts_with p (p @ s)"
  by (simp add: starts_with_def)

lemma starts_with_iff: "starts_with p s \<longleftrightarrow> (\<exists>t. s = p @ t)"
  by (metis append_take_drop_id starts_with_append starts_with_def)

section \<open>Arrays\<close>

text \<open>\<^verbatim>\<open>[...new Set(xs)]\<close>: the first occurrences, in order.\<close>

fun uniq_acc :: "'a list \<Rightarrow> 'a list \<Rightarrow> 'a list" where
  "uniq_acc seen [] = []"
| "uniq_acc seen (x # xs) = (if x \<in> set seen then uniq_acc seen xs else x # uniq_acc (x # seen) xs)"

definition uniq :: "'a list \<Rightarrow> 'a list" where
  "uniq xs = uniq_acc [] xs"

lemma set_uniq_acc: "set (uniq_acc seen xs) = set xs - set seen"
  by (induction seen xs rule: uniq_acc.induct) auto

lemma distinct_uniq_acc: "distinct (uniq_acc seen xs)"
  by (induction seen xs rule: uniq_acc.induct) (auto simp: set_uniq_acc)

lemma set_uniq [simp]: "set (uniq xs) = set xs"
  by (simp add: uniq_def set_uniq_acc)

lemma distinct_uniq [simp]: "distinct (uniq xs)"
  by (simp add: uniq_def distinct_uniq_acc)

lemma uniq_eq_Nil [simp]: "uniq xs = [] \<longleftrightarrow> xs = []"
  by (metis set_empty set_uniq)

text \<open>\<^verbatim>\<open>new Map(xs.map(...))\<close> keeps the last value of a key; \<^verbatim>\<open>get\<close> looks it up.\<close>

definition js_map_get :: "('k \<times> 'v) list \<Rightarrow> 'k \<Rightarrow> 'v option" where
  "js_map_get kvs k = map_of (rev kvs) k"

lemma js_map_get_append [simp]:
  "js_map_get (kvs @ [(k, v)]) k' = (if k' = k then Some v else js_map_get kvs k')"
  by (simp add: js_map_get_def)

lemma js_map_get_Nil [simp]: "js_map_get [] k = None"
  by (simp add: js_map_get_def)

text \<open>The membership toggle of every check list of the console: \<^verbatim>\<open>current.includes(x)\<close>
  \<^verbatim>\<open>? current.filter((item) => item !== x) : [...current, x]\<close>.\<close>

definition toggle :: "'a \<Rightarrow> 'a list \<Rightarrow> 'a list" where
  "toggle x xs = (if x \<in> set xs then filter (\<lambda>y. y \<noteq> x) xs else xs @ [x])"

lemma set_toggle: "set (toggle x xs) = (if x \<in> set xs then set xs - {x} else insert x (set xs))"
  by (auto simp: toggle_def)

lemma distinct_toggle [inv_intros]: "distinct xs \<Longrightarrow> distinct (toggle x xs)"
  by (simp add: toggle_def)

lemma toggle_toggle: "distinct xs \<Longrightarrow> set (toggle x (toggle x xs)) = set xs"
  by (auto simp: set_toggle)

definition find_first :: "('a \<Rightarrow> bool) \<Rightarrow> 'a list \<Rightarrow> 'a option" where
  "find_first p xs = List.find p xs"

lemma find_first_Some: "find_first p xs = Some x \<Longrightarrow> x \<in> set xs \<and> p x"
  by (auto simp: find_first_def find_Some_iff)

lemma find_first_None [simp]: "find_first p xs = None \<longleftrightarrow> (\<forall>x \<in> set xs. \<not> p x)"
  by (auto simp: find_first_def find_None_iff)

definition head_opt :: "'a list \<Rightarrow> 'a option" where
  "head_opt xs = (case xs of [] \<Rightarrow> None | x # _ \<Rightarrow> Some x)"

lemma head_opt_simps [js_simps, simp]:
  "head_opt [] = None"
  "head_opt (x # xs) = Some x"
  by (simp_all add: head_opt_def)

lemma head_opt_eq_None [simp]: "head_opt xs = None \<longleftrightarrow> xs = []"
  by (cases xs) auto

lemma head_opt_in: "head_opt xs = Some x \<Longrightarrow> x \<in> set xs"
  by (cases xs) auto

definition or_else :: "'a option \<Rightarrow> 'a option \<Rightarrow> 'a option" where
  "or_else a b = (case a of None \<Rightarrow> b | Some x \<Rightarrow> Some x)"

lemma or_else_simps [js_simps, simp]:
  "or_else None b = b"
  "or_else (Some x) b = Some x"
  by (simp_all add: or_else_def)

text \<open>\<^verbatim>\<open>xs.slice(-n)\<close>, the last \<open>n\<close> elements.\<close>

definition last_n :: "nat \<Rightarrow> 'a list \<Rightarrow> 'a list" where
  "last_n n xs = drop (length xs - n) xs"

lemma length_last_n [simp]: "length (last_n n xs) = min n (length xs)"
  by (simp add: last_n_def)

end
