(* ===== verification/Encoding.thy ===== *)
theory Encoding
  imports Prelude
begin

text \<open>
  The text encodings of the ECMAScript and web platform libraries that the API client relies on:
  \<^verbatim>\<open>String(number)\<close>, \<^verbatim>\<open>encodeURIComponent\<close> and \<^verbatim>\<open>URLSearchParams\<close>.  Each is given as an
  executable function with the lemma that it loses nothing: a numeral reads back as the number,
  and percent-encoding is a prefix code, so it is injective.
\<close>

section \<open>Decimal numerals\<close>

definition digit :: "nat \<Rightarrow> char" where
  "digit n = char_of (48 + n)"

fun show_nat :: "nat \<Rightarrow> string" where
  "show_nat n = (if n < 10 then [digit n] else show_nat (n div 10) @ [digit (n mod 10)])"

declare show_nat.simps [simp del]

definition show_int :: "int \<Rightarrow> string" where
  "show_int i = (if i < 0 then CHR ''-'' # show_nat (nat (- i)) else show_nat (nat i))"

definition read_nat :: "string \<Rightarrow> nat" where
  "read_nat s = foldl (\<lambda>a c. 10 * a + (of_char c - 48)) 0 s"

lemma of_char_digit [simp]: "n < 10 \<Longrightarrow> of_char (digit n) = 48 + n"
  by (simp add: digit_def of_char_of take_bit_eq_mod)

lemma is_digit_digit [simp]: "n < 10 \<Longrightarrow> is_digit (digit n)"
  by (simp add: is_digit_def)

lemma read_nat_append [simp]: "read_nat (s @ [c]) = 10 * read_nat s + (of_char c - 48)"
  by (simp add: read_nat_def)

lemma read_show_nat [simp]: "read_nat (show_nat n) = n"
proof (induction n rule: show_nat.induct)
  case (1 n)
  show ?case
  proof (cases "n < 10")
    case True
    then show ?thesis by (simp add: show_nat.simps [of n] read_nat_def)
  next
    case False
    with 1 show ?thesis by (simp add: show_nat.simps [of n])
  qed
qed

lemma show_nat_digits: "c \<in> set (show_nat n) \<Longrightarrow> is_digit c"
proof (induction n rule: show_nat.induct)
  case (1 n)
  then show ?case by (cases "n < 10") (auto simp: show_nat.simps [of n])
qed

lemma show_nat_nonempty [simp]: "show_nat n \<noteq> []"
  by (simp add: show_nat.simps [of n])

lemma show_nat_inject [simp]: "show_nat m = show_nat n \<longleftrightarrow> m = n"
  by (metis read_show_nat)

lemma digit_not_minus: "is_digit c \<Longrightarrow> c \<noteq> CHR ''-''"
  by (auto simp: is_digit_def)

lemma hd_show_nat: "is_digit (hd (show_nat n))"
  by (rule show_nat_digits [of _ n]) simp

lemma show_int_nonempty [simp]: "show_int i \<noteq> []"
  by (simp add: show_int_def)

lemma show_nat_not_minus: "show_nat n \<noteq> CHR ''-'' # s"
  using hd_show_nat [of n] by (auto simp: is_digit_def)

lemma show_int_inject [simp]: "show_int i = show_int j \<longleftrightarrow> i = j"
  using show_nat_not_minus show_nat_not_minus [symmetric]
  by (auto simp: show_int_def)

lemma show_int_chars: "c \<in> set (show_int i) \<Longrightarrow> is_digit c \<or> c = CHR ''-''"
  by (auto simp: show_int_def dest: show_nat_digits split: if_splits)

section \<open>Percent encoding\<close>

definition hex_digit :: "nat \<Rightarrow> char" where
  "hex_digit n = (if n < 10 then char_of (48 + n) else char_of (55 + n))"

definition hex_val :: "char \<Rightarrow> nat" where
  "hex_val c = (let n = of_char c in if n < 58 then n - 48 else n - 55)"

definition percent_byte :: "nat \<Rightarrow> string" where
  "percent_byte b = [CHR ''%'', hex_digit (b div 16), hex_digit (b mod 16)]"

text \<open>The UTF-8 bytes of a code point below 256.\<close>

definition utf8 :: "char \<Rightarrow> nat list" where
  "utf8 c = (let n = of_char c in if n < 128 then [n] else [192 + n div 64, 128 + n mod 64])"

definition percent_encode :: "(char \<Rightarrow> bool) \<Rightarrow> char \<Rightarrow> string" where
  "percent_encode keep c = (if keep c then [c] else concat (map percent_byte (utf8 c)))"

definition uri_unreserved :: "char \<Rightarrow> bool" where
  "uri_unreserved c \<longleftrightarrow> (is_word_char c \<or> c \<in> set ''-.!~*()'' \<or> c = CHR 0x27)"

definition encodeURIComponent :: "string \<Rightarrow> string" where
  "encodeURIComponent s = concat (map (percent_encode uri_unreserved) s)"

definition form_unreserved :: "char \<Rightarrow> bool" where
  "form_unreserved c \<longleftrightarrow> is_word_char c \<or> c \<in> set ''*-.''"

definition form_encode_char :: "char \<Rightarrow> string" where
  "form_encode_char c = (if c = CHR '' '' then ''+'' else percent_encode form_unreserved c)"

definition form_encode :: "string \<Rightarrow> string" where
  "form_encode s = concat (map form_encode_char s)"

text \<open>The code point that starts an encoded text, read back.\<close>

definition decode_byte :: "string \<Rightarrow> nat" where
  "decode_byte s = 16 * hex_val (s ! 1) + hex_val (s ! 2)"

definition decode_head :: "string \<Rightarrow> nat" where
  "decode_head s =
     (if hd s = CHR ''%'' then
        (let b = decode_byte s in
         if b < 128 then b else 64 * (b - 192) + (decode_byte (drop 3 s) - 128))
      else of_char (hd s))"

lemma hex_val_digit [simp]: "n < 16 \<Longrightarrow> hex_val (hex_digit n) = n"
  by (auto simp: hex_val_def hex_digit_def of_char_of take_bit_eq_mod Let_def)

lemma decode_percent_byte [simp]: "b < 256 \<Longrightarrow> decode_byte (percent_byte b @ s) = b"
  by (simp add: decode_byte_def percent_byte_def)

lemma length_percent_byte [simp]: "length (percent_byte b) = 3"
  by (simp add: percent_byte_def)

lemma hd_percent_byte [simp]: "hd (percent_byte b @ s) = CHR ''%''"
  by (simp add: percent_byte_def)

lemma decode_head_percent:
  assumes "\<not> keep (CHR ''%'')"
  shows "decode_head (percent_encode keep c @ s) = of_char c"
proof -
  let ?n = "of_char c :: nat"
  have "?n < 4 * 64" using nat_of_char_less_256 [of c] by simp
  then have d: "?n div 64 < 4" by (rule less_mult_imp_div_less)
  show ?thesis
  proof (cases "keep c")
    case True
    with assms have "c \<noteq> CHR ''%''" by auto
    with True show ?thesis by (simp add: percent_encode_def decode_head_def)
  next
    case False
    show ?thesis
    proof (cases "?n < 128")
      case True
      with False show ?thesis
        by (simp add: percent_encode_def decode_head_def utf8_def)
    next
      case big: False
      then have "decode_head (percent_encode keep c @ s) = 64 * (?n div 64) + ?n mod 64"
        using False d by (simp add: percent_encode_def decode_head_def utf8_def Let_def)
      then show ?thesis by simp
    qed
  qed
qed

text \<open>A prefix code extends to an injective encoding of texts.\<close>

lemma prefix_code_inject:
  assumes head: "\<And>c s. dec (enc c @ s) = f c" and inj: "inj f" and ne: "\<And>c. enc c \<noteq> []"
  shows "concat (map enc s) = concat (map enc t) \<Longrightarrow> s = t"
proof (induction s arbitrary: t)
  case Nil
  with ne show ?case by (cases t) auto
next
  case (Cons c s)
  show ?case
  proof (cases t)
    case Nil
    with Cons.prems ne show ?thesis by simp
  next
    case t: (Cons d t')
    with Cons.prems have eq: "enc c @ concat (map enc s) = enc d @ concat (map enc t')" by simp
    then have "f c = f d" by (metis head)
    with inj have "c = d" by (simp add: inj_eq)
    with eq have "concat (map enc s) = concat (map enc t')" by simp
    with Cons.IH \<open>c = d\<close> t show ?thesis by simp
  qed
qed

lemma inj_of_char_nat: "inj (of_char :: char \<Rightarrow> nat)"
  by (rule injI) simp

lemma percent_encode_nonempty [simp]: "percent_encode keep c \<noteq> []"
  by (simp add: percent_encode_def utf8_def percent_byte_def Let_def)

lemma encodeURIComponent_inject [simp]: "encodeURIComponent s = encodeURIComponent t \<longleftrightarrow> s = t"
proof
  assume "encodeURIComponent s = encodeURIComponent t"
  then show "s = t"
    unfolding encodeURIComponent_def
    by (rule prefix_code_inject [where dec = decode_head and f = of_char, rotated 3])
       (auto simp: decode_head_percent uri_unreserved_def is_word_char_def inj_of_char_nat)
qed simp

text \<open>What an encoded component can contain: unreserved characters, percent signs and digits.\<close>

lemma hex_digit_word: "n < 16 \<Longrightarrow> is_word_char (hex_digit n)"
  by (auto simp: is_word_char_def hex_digit_def of_char_of take_bit_eq_mod Let_def)

lemma percent_byte_chars: "b < 256 \<Longrightarrow> x \<in> set (percent_byte b) \<Longrightarrow> x = CHR ''%'' \<or> is_word_char x"
  by (auto simp: percent_byte_def intro: hex_digit_word)

lemma utf8_bytes: "b \<in> set (utf8 c) \<Longrightarrow> b < 256"
proof -
  assume b: "b \<in> set (utf8 c)"
  have "(of_char c :: nat) < 4 * 64" using nat_of_char_less_256 [of c] by simp
  then have "(of_char c :: nat) div 64 < 4" by (rule less_mult_imp_div_less)
  moreover have "(of_char c :: nat) mod 64 < 64" by simp
  ultimately show ?thesis using b by (auto simp: utf8_def Let_def split: if_splits)
qed

lemma percent_encode_chars:
  "x \<in> set (percent_encode keep c) \<Longrightarrow> x = CHR ''%'' \<or> is_word_char x \<or> keep x"
  by (auto simp: percent_encode_def dest!: utf8_bytes percent_byte_chars split: if_splits)

lemma encodeURIComponent_chars:
  "x \<in> set (encodeURIComponent s) \<Longrightarrow> x = CHR ''%'' \<or> uri_unreserved x"
  by (auto simp: encodeURIComponent_def uri_unreserved_def dest!: percent_encode_chars)

lemma encodeURIComponent_no_colon: "CHR '':'' \<notin> set (encodeURIComponent s)"
  by (auto dest!: encodeURIComponent_chars simp: uri_unreserved_def is_word_char_def)

lemma encodeURIComponent_no_slash: "CHR ''/'' \<notin> set (encodeURIComponent s)"
  by (auto dest!: encodeURIComponent_chars simp: uri_unreserved_def is_word_char_def)

lemma form_encode_no_amp_eq:
  "CHR ''&'' \<notin> set (form_encode s)" "CHR ''='' \<notin> set (form_encode s)"
  by (auto simp: form_encode_def form_encode_char_def form_unreserved_def is_word_char_def
      dest!: percent_encode_chars split: if_splits)

lemma decode_head_form:
  "(if hd (form_encode_char c @ s) = CHR ''+'' then 32 else decode_head (form_encode_char c @ s))
   = of_char c"
proof (cases "c = CHR '' ''")
  case True
  then show ?thesis by (simp add: form_encode_char_def)
next
  case False
  have "hd (percent_encode form_unreserved c @ s) \<noteq> CHR ''+''"
    by (auto simp: percent_encode_def utf8_def percent_byte_def form_unreserved_def is_word_char_def
        Let_def)
  moreover have "decode_head (percent_encode form_unreserved c @ s) = of_char c"
    by (rule decode_head_percent) (simp add: form_unreserved_def is_word_char_def)
  ultimately show ?thesis using False by (simp add: form_encode_char_def)
qed

lemma form_encode_char_nonempty: "form_encode_char c \<noteq> []"
  by (simp add: form_encode_char_def)

lemma form_encode_inject [simp]: "form_encode s = form_encode t \<longleftrightarrow> s = t"
proof
  assume "form_encode s = form_encode t"
  then show "s = t"
    unfolding form_encode_def
    by (rule prefix_code_inject [where f = of_char and
          dec = "\<lambda>s. if hd s = CHR ''+'' then 32 else decode_head s", rotated 3])
       (simp_all only: decode_head_form inj_of_char_nat form_encode_char_nonempty not_False_eq_True)
qed simp

section \<open>Query strings\<close>

text \<open>A \<^verbatim>\<open>URLSearchParams\<close> object is its list of pairs; \<^verbatim>\<open>set\<close> replaces the first pair of a name
  and drops the others, or appends a new one.\<close>

type_synonym query_params = "(string \<times> string) list"

definition params_set :: "string \<Rightarrow> string \<Rightarrow> query_params \<Rightarrow> query_params" where
  "params_set k v ps =
     (if k \<in> fst ` set ps then
        (let pre = takeWhile (\<lambda>p. fst p \<noteq> k) ps;
             post = filter (\<lambda>p. fst p \<noteq> k) (dropWhile (\<lambda>p. fst p \<noteq> k) ps)
         in pre @ (k, v) # post)
      else ps @ [(k, v)])"

definition params_set_opt :: "string \<Rightarrow> string option \<Rightarrow> query_params \<Rightarrow> query_params" where
  "params_set_opt k v ps =
     (case v of None \<Rightarrow> ps | Some s \<Rightarrow> if s = [] then ps else params_set k s ps)"

definition params_set_int :: "string \<Rightarrow> int option \<Rightarrow> query_params \<Rightarrow> query_params" where
  "params_set_int k v ps =
     (case v of None \<Rightarrow> ps | Some n \<Rightarrow> if n = 0 then ps else params_set k (show_int n) ps)"

definition params_to_string :: "query_params \<Rightarrow> string" where
  "params_to_string ps = join ''&'' (map (\<lambda>(k, v). form_encode k @ ''='' @ form_encode v) ps)"

definition query_suffix :: "query_params \<Rightarrow> string" where
  "query_suffix ps = (if ps = [] then [] else CHR ''?'' # params_to_string ps)"

lemma eq_split_inject:
  "c \<notin> set a \<Longrightarrow> c \<notin> set a' \<Longrightarrow> a @ c # b = a' @ c # b' \<Longrightarrow> a = a' \<and> b = b'"
proof (induction a arbitrary: a')
  case Nil
  then show ?case by (cases a') auto
next
  case (Cons x a)
  then show ?case by (cases a') auto
qed

lemma param_pair_inject:
  "form_encode k @ CHR ''='' # form_encode v = form_encode k' @ CHR ''='' # form_encode v'
   \<longleftrightarrow> k = k' \<and> v = v'"
  by (auto dest!: eq_split_inject [OF form_encode_no_amp_eq(2) form_encode_no_amp_eq(2)])

lemma param_pair_no_amp:
  "CHR ''&'' \<notin> set (form_encode k @ ''='' @ form_encode v)"
  using form_encode_no_amp_eq by simp

text \<open>Different filter selections give different query strings.\<close>

lemma params_to_string_inject:
  assumes "ps \<noteq> []" "qs \<noteq> []" "params_to_string ps = params_to_string qs"
  shows "ps = qs"
proof -
  let ?e = "\<lambda>(k, v). form_encode k @ ''='' @ form_encode v"
  have "map ?e ps = map ?e qs"
    using assms param_pair_no_amp
    by (intro join_inject [of _ _ "CHR ''&''"]) (auto simp: params_to_string_def)
  moreover have "inj ?e" by (auto simp: inj_def param_pair_inject)
  ultimately show ?thesis by (simp add: inj_map_eq_map)
qed

lemma params_to_string_nonempty: "ps \<noteq> [] \<Longrightarrow> params_to_string ps \<noteq> []"
  by (cases ps rule: list.exhaust; cases "tl ps") (auto simp: params_to_string_def)

lemma query_suffix_inject [simp]: "query_suffix ps = query_suffix qs \<longleftrightarrow> ps = qs"
  by (auto simp: query_suffix_def intro: params_to_string_inject split: if_splits)

lemma params_set_fresh [simp]: "k \<notin> fst ` set ps \<Longrightarrow> params_set k v ps = ps @ [(k, v)]"
  by (simp add: params_set_def)

lemma params_set_opt_simps [simp]:
  "params_set_opt k None ps = ps"
  "params_set_opt k (Some []) ps = ps"
  by (simp_all add: params_set_opt_def)

lemma params_set_get: "js_map_get (params_set k v ps) k = Some v"
proof (cases "k \<in> fst ` set ps")
  case True
  let ?post = "filter (\<lambda>p. fst p \<noteq> k) (dropWhile (\<lambda>p. fst p \<noteq> k) ps)"
  have "map_of (rev ?post) k = None"
    by (auto simp: map_of_eq_None_iff)
  with True show ?thesis
    by (simp add: params_set_def js_map_get_def map_add_def Let_def)
qed (simp add: params_set_def)

end
