(* ===== verification/Json.thy ===== *)
theory Json
  imports Encoding
begin

text \<open>
  JSON values and \<^verbatim>\<open>JSON.stringify\<close> without indentation, as the API client and the routing
  editor use it: request bodies, the dirty check of the routing editor and the fingerprint of an
  import preview are such texts.  An object is the list of its members in insertion order, which
  is the order \<^verbatim>\<open>JSON.stringify\<close> writes them in.  Numbers are the integers of the model.

  The main result is that two values with the same text are the same value
  (\<open>stringify_inject\<close>), so comparing texts is comparing values.
\<close>

datatype json =
    JNull
  | JBool bool
  | JNum int
  | JStr string
  | JArr "json list"
  | JObj "(string \<times> json) list"

section \<open>String literals\<close>

definition low_hex :: "nat \<Rightarrow> char" where
  "low_hex n = (if n < 10 then char_of (48 + n) else char_of (87 + n))"

definition low_hex_val :: "char \<Rightarrow> nat" where
  "low_hex_val c = (let n = of_char c in if n < 58 then n - 48 else n - 87)"

definition esc :: "char \<Rightarrow> string" where
  "esc c = (let n = (of_char c :: nat) in
     if n = 34 then [CHR 0x5C, CHR 0x22]
     else if n = 92 then [CHR 0x5C, CHR 0x5C]
     else if n = 8 then [CHR 0x5C, CHR ''b'']
     else if n = 12 then [CHR 0x5C, CHR ''f'']
     else if n = 10 then [CHR 0x5C, CHR ''n'']
     else if n = 13 then [CHR 0x5C, CHR ''r'']
     else if n = 9 then [CHR 0x5C, CHR ''t'']
     else if n < 32 then [CHR 0x5C, CHR ''u'', CHR ''0'', CHR ''0'', low_hex (n div 16), low_hex (n mod 16)]
     else [c])"

definition quote :: "string \<Rightarrow> string" where
  "quote s = CHR 0x22 # concat (map esc s) @ [CHR 0x22]"

text \<open>The character that an escape sequence stands for.\<close>

definition unesc_head :: "string \<Rightarrow> nat" where
  "unesc_head s =
     (if hd s = CHR 0x5C then
        (if s ! 1 = CHR ''b'' then 8
         else if s ! 1 = CHR ''f'' then 12
         else if s ! 1 = CHR ''n'' then 10
         else if s ! 1 = CHR ''r'' then 13
         else if s ! 1 = CHR ''t'' then 9
         else if s ! 1 = CHR ''u'' then 16 * low_hex_val (s ! 4) + low_hex_val (s ! 5)
         else of_char (s ! 1))
      else of_char (hd s))"

lemma low_hex_val_digit [simp]: "n < 16 \<Longrightarrow> low_hex_val (low_hex n) = n"
  by (auto simp: low_hex_val_def low_hex_def of_char_of take_bit_eq_mod Let_def)

lemma of_char_eq_numeral: "(of_char c :: nat) = n \<Longrightarrow> c = char_of n"
  by (metis char_of_char)

lemma unesc_head_esc: "unesc_head (esc c @ s) = of_char c"
proof -
  let ?n = "of_char c :: nat"
  consider "?n = 34" | "?n = 92" | "?n \<in> {8, 9, 10, 12, 13}"
    | "?n < 32" "?n \<notin> {8, 9, 10, 12, 13}" | "32 \<le> ?n" "?n \<noteq> 34" "?n \<noteq> 92"
    by fastforce
  then show ?thesis
  proof cases
    case 4
    then have "?n div 16 < 16" "?n mod 16 < 16" by simp_all
    with 4 show ?thesis by (simp add: esc_def unesc_head_def Let_def)
  next
    case 5
    then have "c \<noteq> CHR 0x5C" by auto
    with 5 show ?thesis by (simp add: esc_def unesc_head_def)
  qed (auto simp: esc_def unesc_head_def)
qed

lemma hd_esc: "hd (esc c @ s) \<noteq> CHR 0x22"
  by (auto simp: esc_def Let_def)

lemma esc_not_quote: "esc c @ s \<noteq> CHR 0x22 # r"
  using hd_esc [of c s] by auto

lemma esc_nonempty [simp]: "esc c \<noteq> []"
  by (simp add: esc_def Let_def)

lemma esc_text_inject:
  "concat (map esc s) @ CHR 0x22 # r = concat (map esc s') @ CHR 0x22 # r' \<Longrightarrow> s = s' \<and> r = r'"
proof (induction s arbitrary: s')
  case Nil
  show ?case
  proof (cases s')
    case (Cons d s'')
    with Nil have "esc d @ (concat (map esc s'') @ CHR 0x22 # r') = CHR 0x22 # r" by simp
    then show ?thesis using esc_not_quote by blast
  qed (use Nil in simp)
next
  case (Cons c s)
  show ?case
  proof (cases s')
    case Nil
    with Cons.prems have "esc c @ (concat (map esc s) @ CHR 0x22 # r) = CHR 0x22 # r'" by simp
    then show ?thesis using esc_not_quote by blast
  next
    case s': (Cons d s'')
    with Cons.prems have eq: "esc c @ concat (map esc s) @ CHR 0x22 # r
      = esc d @ concat (map esc s'') @ CHR 0x22 # r'" by simp
    then have "of_char c = (of_char d :: nat)" by (metis unesc_head_esc)
    then have "c = d" by simp
    with eq Cons.IH s' show ?thesis by auto
  qed
qed

lemma quote_append_inject: "quote s @ r = quote s' @ r' \<Longrightarrow> s = s' \<and> r = r'"
  unfolding quote_def by (auto dest: esc_text_inject)

section \<open>Values\<close>

fun stringify :: "json \<Rightarrow> string"
  and items_text :: "json list \<Rightarrow> string"
  and members_text :: "(string \<times> json) list \<Rightarrow> string" where
  "stringify JNull = ''null''"
| "stringify (JBool b) = (if b then ''true'' else ''false'')"
| "stringify (JNum n) = show_int n"
| "stringify (JStr s) = quote s"
| "stringify (JArr js) = (case js of [] \<Rightarrow> ''[]'' | _ \<Rightarrow> CHR ''['' # items_text js)"
| "stringify (JObj ms) = (case ms of [] \<Rightarrow> ''{}'' | _ \<Rightarrow> CHR ''{'' # members_text ms)"
| "items_text [] = []"
| "items_text (j # js) = stringify j @ (case js of [] \<Rightarrow> '']'' | _ \<Rightarrow> CHR '','' # items_text js)"
| "members_text [] = []"
| "members_text ((k, j) # ms) =
     quote k @ CHR '':'' # stringify j @ (case ms of [] \<Rightarrow> ''}'' | _ \<Rightarrow> CHR '','' # members_text ms)"

text \<open>A rest of a text that cannot continue a numeral.\<close>

definition stops :: "string \<Rightarrow> bool" where
  "stops r \<longleftrightarrow> r = [] \<or> \<not> is_digit (hd r)"

lemma stops_simps [simp]:
  "stops []"
  "stops (CHR '','' # r)" "stops (CHR '']'' # r)" "stops (CHR ''}'' # r)"
  by (auto simp: stops_def is_digit_def)

lemma digits_stop_inject:
  assumes "\<forall>c \<in> set a. is_digit c" "\<forall>c \<in> set b. is_digit c" "stops r" "stops r'" "a @ r = b @ r'"
  shows "a = b \<and> r = r'"
proof -
  have "takeWhile is_digit (a @ r) = a" "takeWhile is_digit (b @ r') = b"
    using assms(1-4) by (cases r; cases r'; auto simp: stops_def takeWhile_append)+
  with assms(5) show ?thesis by simp
qed

lemma show_nat_append_inject:
  "show_nat m @ r = show_nat n @ r' \<Longrightarrow> stops r \<Longrightarrow> stops r' \<Longrightarrow> m = n \<and> r = r'"
  using digits_stop_inject [of "show_nat m" "show_nat n" r r'] show_nat_digits by fastforce

lemma hd_show_nat_append: "is_digit (hd (show_nat n @ r))"
  using hd_show_nat [of n] by simp

lemma show_nat_append_not_minus: "show_nat n @ r \<noteq> CHR ''-'' # s" "CHR ''-'' # s \<noteq> show_nat n @ r"
  by (metis hd_show_nat_append digit_not_minus list.sel(1))+

lemma show_int_append_inject:
  assumes "show_int i @ r = show_int j @ r'" "stops r" "stops r'"
  shows "i = j \<and> r = r'"
proof (cases "i < 0"; cases "j < 0")
  assume "i < 0" "j < 0"
  with assms show ?thesis by (auto simp: show_int_def dest: show_nat_append_inject)
next
  assume "\<not> i < 0" "\<not> j < 0"
  with assms show ?thesis by (auto simp: show_int_def dest: show_nat_append_inject)
next
  assume "i < 0" "\<not> j < 0"
  with assms(1) show ?thesis by (simp add: show_int_def show_nat_append_not_minus)
next
  assume "\<not> i < 0" "j < 0"
  with assms(1) show ?thesis by (simp add: show_int_def show_nat_append_not_minus)
qed

text \<open>The first character of a text tells the kind of value.\<close>

definition kind_of :: "json \<Rightarrow> nat" where
  "kind_of j = (case j of JNull \<Rightarrow> 0 | JBool True \<Rightarrow> 1 | JBool False \<Rightarrow> 2 | JNum _ \<Rightarrow> 3
     | JStr _ \<Rightarrow> 4 | JArr _ \<Rightarrow> 5 | JObj _ \<Rightarrow> 6)"

definition kind_of_char :: "char \<Rightarrow> nat" where
  "kind_of_char c = (if c = CHR ''n'' then 0 else if c = CHR ''t'' then 1 else if c = CHR ''f'' then 2
     else if c = CHR 0x22 then 4 else if c = CHR ''['' then 5 else if c = CHR ''{'' then 6 else 3)"

lemma hd_show_int: "is_digit (hd (show_int i @ r)) \<or> hd (show_int i @ r) = CHR ''-''"
  using hd_show_nat by (auto simp: show_int_def)

lemma kind_of_hd: "kind_of_char (hd (stringify j @ r)) = kind_of j"
proof (cases j)
  case (JNum n)
  then show ?thesis using hd_show_int [of n r]
    by (auto simp: kind_of_char_def kind_of_def is_digit_def)
qed (auto simp: kind_of_char_def kind_of_def quote_def split: list.splits bool.splits)

lemma kind_of_same:
  assumes "stringify j @ r = stringify j' @ r'"
  shows "kind_of j = kind_of j'"
  by (metis assms kind_of_hd)

lemma kind_of_cases:
  "kind_of j = 0 \<longleftrightarrow> j = JNull"
  "kind_of j = 1 \<longleftrightarrow> j = JBool True"
  "kind_of j = 2 \<longleftrightarrow> j = JBool False"
  "kind_of j = 3 \<longleftrightarrow> (\<exists>n. j = JNum n)"
  "kind_of j = 4 \<longleftrightarrow> (\<exists>s. j = JStr s)"
  "kind_of j = 5 \<longleftrightarrow> (\<exists>js. j = JArr js)"
  "kind_of j = 6 \<longleftrightarrow> (\<exists>ms. j = JObj ms)"
  by (auto simp: kind_of_def split: json.splits bool.splits)

lemma stringify_hd_not: "stringify j @ r \<noteq> CHR '']'' # s" 
proof
  assume "stringify j @ r = CHR '']'' # s"
  then have "kind_of_char (CHR '']'') = kind_of j" by (metis kind_of_hd list.sel(1))
  then obtain n where "j = JNum n" by (auto simp: kind_of_char_def kind_of_cases dest!: sym [of 3])
  with \<open>stringify j @ r = CHR '']'' # s\<close> hd_show_int [of n r] show False
    by (auto simp: is_digit_def)
qed

lemma items_text_hd_not: "js \<noteq> [] \<Longrightarrow> items_text js @ r \<noteq> CHR '']'' # s"
  using stringify_hd_not by (cases js) auto

lemma members_text_hd_not: "ms \<noteq> [] \<Longrightarrow> members_text ms @ r \<noteq> CHR ''}'' # s"
  by (cases ms) (auto simp: quote_def)

text \<open>What follows the first item or member.\<close>

definition items_rest :: "json list \<Rightarrow> string \<Rightarrow> string" where
  "items_rest js r = (case js of [] \<Rightarrow> CHR '']'' # r | _ \<Rightarrow> CHR '','' # items_text js @ r)"

definition members_rest :: "(string \<times> json) list \<Rightarrow> string \<Rightarrow> string" where
  "members_rest ms r = (case ms of [] \<Rightarrow> CHR ''}'' # r | _ \<Rightarrow> CHR '','' # members_text ms @ r)"

lemma items_text_rest: "items_text (j # js) @ r = stringify j @ items_rest js r"
  by (cases js) (simp_all add: items_rest_def)

lemma members_text_rest:
  "members_text ((k, j) # ms) @ r = quote k @ CHR '':'' # stringify j @ members_rest ms r"
  by (cases ms) (simp_all add: members_rest_def)

lemma stops_rest: "stops (items_rest js r)" "stops (members_rest ms r)"
  by (simp_all add: items_rest_def members_rest_def split: list.splits)

text \<open>Unique readability: a text determines the value it starts with and what follows it.\<close>

lemma stringify_unique:
  "\<And>j' r r'. stops r \<Longrightarrow> stops r' \<Longrightarrow> stringify j @ r = stringify j' @ r' \<Longrightarrow> j = j' \<and> r = r'"
  "\<And>js' r r'. js \<noteq> [] \<Longrightarrow> js' \<noteq> [] \<Longrightarrow> items_text js @ r = items_text js' @ r' \<Longrightarrow> js = js' \<and> r = r'"
  "\<And>ms' r r'. ms \<noteq> [] \<Longrightarrow> ms' \<noteq> [] \<Longrightarrow> members_text ms @ r = members_text ms' @ r' \<Longrightarrow> ms = ms' \<and> r = r'"
proof (induction j and js and ms rule: stringify_items_text_members_text.induct)
  case 1
  then have "kind_of j' = 0" by (metis kind_of_same kind_of_cases(1))
  with 1 show ?case by (simp add: kind_of_cases)
next
  case (2 b)
  then have "kind_of j' = kind_of (JBool b)" by (metis kind_of_same)
  with 2 show ?case by (cases b) (auto simp: kind_of_def kind_of_cases split: json.splits bool.splits)
next
  case (3 n)
  then have "kind_of j' = 3" by (metis kind_of_same kind_of_cases(4))
  with 3 show ?case by (auto simp: kind_of_cases dest: show_int_append_inject)
next
  case (4 s)
  then have "kind_of j' = 4" by (metis kind_of_same kind_of_cases(5))
  with 4 show ?case by (auto simp: kind_of_cases dest!: quote_append_inject)
next
  case (5 js)
  then have "kind_of j' = 5" by (metis kind_of_same kind_of_cases(6))
  then obtain js' where j': "j' = JArr js'" by (auto simp: kind_of_cases)
  show ?case
  proof (cases js)
    case Nil
    with "5.prems"(3) j' items_text_hd_not [of js' r' r] show ?thesis
      by (cases js') auto
  next
    case x: (Cons y ys)
    then have ne: "js \<noteq> []" by simp
    have ne': "js' \<noteq> []"
    proof
      assume "js' = []"
      with "5.prems"(3) j' x have "items_text js @ r = CHR '']'' # r'" by simp
      with items_text_hd_not [OF ne] show False by blast
    qed
    have "items_text js @ r = items_text js' @ r'"
      using "5.prems"(3) j' x ne' by (cases js') (auto simp del: items_text.simps)
    then have "js = js' \<and> r = r'" by (rule "5.IH" [OF x ne ne'])
    with j' show ?thesis by simp
  qed
next
  case (6 ms)
  then have "kind_of j' = 6" by (metis kind_of_same kind_of_cases(7))
  then obtain ms' where j': "j' = JObj ms'" by (auto simp: kind_of_cases)
  show ?case
  proof (cases ms)
    case Nil
    with "6.prems"(3) j' members_text_hd_not [of ms' r' r] show ?thesis
      by (cases ms') auto
  next
    case x: (Cons y ys)
    then have ne: "ms \<noteq> []" by simp
    have ne': "ms' \<noteq> []"
    proof
      assume "ms' = []"
      with "6.prems"(3) j' x have "members_text ms @ r = CHR ''}'' # r'" by simp
      with members_text_hd_not [OF ne] show False by blast
    qed
    have "members_text ms @ r = members_text ms' @ r'"
      using "6.prems"(3) j' x ne' by (cases ms') (auto simp del: members_text.simps)
    then have "ms = ms' \<and> r = r'" by (rule "6.IH" [OF x ne ne'])
    with j' show ?thesis by simp
  qed
next
  case 7
  then show ?case by simp
next
  case (8 j js)
  then obtain j' js'' where js': "js' = j' # js''" by (cases js') auto
  have t: "stringify j @ items_rest js r = stringify j' @ items_rest js'' r'"
    using "8.prems"(3) by (simp only: js' items_text_rest)
  from "8.IH"(1) [OF stops_rest(1) stops_rest(1) t]
  have j: "j = j'" and eq: "items_rest js r = items_rest js'' r'" by simp_all
  show ?case
  proof (cases js)
    case Nil
    with eq j js' show ?thesis by (cases js'') (auto simp: items_rest_def)
  next
    case x: (Cons y ys)
    then have ne: "js \<noteq> []" by simp
    from eq x have ne': "js'' \<noteq> []" by (auto simp: items_rest_def)
    have "items_text js @ r = items_text js'' @ r'"
      using eq x ne' by (cases js'') (auto simp: items_rest_def simp del: items_text.simps)
    then have "js = js'' \<and> r = r'" by (rule "8.IH"(2) [OF x ne ne'])
    with j js' show ?thesis by simp
  qed
next
  case 9
  then show ?case by simp
next
  case (10 k j ms)
  then obtain k' j' ms'' where ms': "ms' = (k', j') # ms''" by (cases ms') auto
  have "quote k @ CHR '':'' # stringify j @ members_rest ms r
      = quote k' @ CHR '':'' # stringify j' @ members_rest ms'' r'"
    using "10.prems"(3) by (simp only: ms' members_text_rest)
  then have k: "k = k'" and t: "stringify j @ members_rest ms r = stringify j' @ members_rest ms'' r'"
    by (auto dest!: quote_append_inject)
  from "10.IH"(1) [OF stops_rest(2) stops_rest(2) t]
  have j: "j = j'" and eq: "members_rest ms r = members_rest ms'' r'" by simp_all
  show ?case
  proof (cases ms)
    case Nil
    with eq j k ms' show ?thesis by (cases ms'') (auto simp: members_rest_def)
  next
    case x: (Cons y ys)
    then have ne: "ms \<noteq> []" by simp
    from eq x have ne': "ms'' \<noteq> []" by (auto simp: members_rest_def)
    have "members_text ms @ r = members_text ms'' @ r'"
      using eq x ne' by (cases ms'') (auto simp: members_rest_def simp del: members_text.simps)
    then have "ms = ms'' \<and> r = r'" by (rule "10.IH"(2) [OF x ne ne'])
    with j k ms' show ?thesis by simp
  qed
qed

lemma stringify_inject [simp]: "stringify j = stringify j' \<longleftrightarrow> j = j'"
  using stringify_unique(1) [of "[]" "[]" j j'] by auto

text \<open>An object literal whose field may be \<^verbatim>\<open>undefined\<close> drops that field from its text.\<close>

definition opt_member :: "string \<Rightarrow> json option \<Rightarrow> (string \<times> json) list" where
  "opt_member k v = (case v of None \<Rightarrow> [] | Some j \<Rightarrow> [(k, j)])"

definition str_array :: "string list \<Rightarrow> json" where
  "str_array xs = JArr (map JStr xs)"

lemma str_array_inject [simp]: "str_array xs = str_array ys \<longleftrightarrow> xs = ys"
proof -
  have "inj JStr" by (rule injI) simp
  then show ?thesis by (simp add: str_array_def inj_map_eq_map)
qed

end
