(* ===== verification/Api_Types.thy ===== *)
theory Api_Types
  imports Json Complex_Main
begin

text \<open>
  The data model of \<^verbatim>\<open>src/frontend/lib/api.ts\<close>: the types of the values that the control plane
  exchanges with the dashboard.  Each exported type is a record of the same name; a field of the
  source is prefixed with a short tag of its record (\<^verbatim>\<open>Node.site_id\<close> is \<open>node_site_id\<close>), because
  record fields share one name space.  A union of string literals is a datatype with one
  constructor for each literal and a function that gives the literal's text; an optional or nullable
  field is an option; \<^verbatim>\<open>Record<string, unknown>\<close> is a JSON value.  Averages, which the back end
  sends as fractions, are rationals; all other numbers are integers.
\<close>

section \<open>String literal unions\<close>

datatype VerificationPurpose = PurposeRegister | PurposePasswordChange | PurposeGquanLogin

datatype SessionRole = RoleRoot | RoleAdmin | RoleEmployee

datatype RuleKind = KindDomain | KindDomainSuffix | KindIpCidr

datatype RuleAction = ActionDirect | ActionProxy | ActionReject

datatype RoutingMode = ModeRule

datatype RouteFinal = FinalProxy | FinalDirect

datatype ServiceQualityWindow = Window1h | Window24h | Window7d | Window30d

datatype Direction = DirSource | DirDestination

datatype EntryKind = EntryIp | EntryCidr | EntryDomain

datatype DistributionState = DistReleased | DistNoNodes | DistNoEffect

datatype MutationKind = MutCreated | MutUpdated | MutDeleted

datatype AccessMode = AccessDeny | AccessAllow

datatype SourceType = SourceHttp | SourceUpload | SourceSingleNode

datatype SubscriptionFormat = FormatClash | FormatSip008 | FormatSingBox | FormatUnknown

datatype EventLevel = LevelInfo | LevelSuccess | LevelWarning | LevelError

datatype AccessEnvironment = EnvTest | EnvProduction

datatype BackupOrigin = OriginManual | OriginScheduled

fun purpose_text :: "VerificationPurpose \<Rightarrow> string" where
  "purpose_text PurposeRegister = ''register''"
| "purpose_text PurposePasswordChange = ''password_change''"
| "purpose_text PurposeGquanLogin = ''gquan_login''"

fun role_text :: "SessionRole \<Rightarrow> string" where
  "role_text RoleRoot = ''root''"
| "role_text RoleAdmin = ''admin''"
| "role_text RoleEmployee = ''employee''"

fun rule_kind_text :: "RuleKind \<Rightarrow> string" where
  "rule_kind_text KindDomain = ''domain''"
| "rule_kind_text KindDomainSuffix = ''domain_suffix''"
| "rule_kind_text KindIpCidr = ''ip_cidr''"

fun rule_action_text :: "RuleAction \<Rightarrow> string" where
  "rule_action_text ActionDirect = ''direct''"
| "rule_action_text ActionProxy = ''proxy''"
| "rule_action_text ActionReject = ''reject''"

fun route_final_text :: "RouteFinal \<Rightarrow> string" where
  "route_final_text FinalProxy = ''proxy''"
| "route_final_text FinalDirect = ''direct''"

fun window_text :: "ServiceQualityWindow \<Rightarrow> string" where
  "window_text Window1h = ''1h''"
| "window_text Window24h = ''24h''"
| "window_text Window7d = ''7d''"
| "window_text Window30d = ''30d''"

fun direction_text :: "Direction \<Rightarrow> string" where
  "direction_text DirSource = ''source''"
| "direction_text DirDestination = ''destination''"

fun entry_kind_text :: "EntryKind \<Rightarrow> string" where
  "entry_kind_text EntryIp = ''ip''"
| "entry_kind_text EntryCidr = ''cidr''"
| "entry_kind_text EntryDomain = ''domain''"

fun access_mode_text :: "AccessMode \<Rightarrow> string" where
  "access_mode_text AccessDeny = ''deny''"
| "access_mode_text AccessAllow = ''allow''"

fun source_type_text :: "SourceType \<Rightarrow> string" where
  "source_type_text SourceHttp = ''http''"
| "source_type_text SourceUpload = ''upload''"
| "source_type_text SourceSingleNode = ''single_node''"

fun format_text :: "SubscriptionFormat \<Rightarrow> string" where
  "format_text FormatClash = ''clash''"
| "format_text FormatSip008 = ''sip008''"
| "format_text FormatSingBox = ''sing-box''"
| "format_text FormatUnknown = ''unknown''"

section \<open>Records\<close>

record NodeTraffic =
  nt_node_id :: string
  nt_name :: string
  nt_site_id :: string
  nt_liveness_status :: string
  nt_active_connections :: int
  nt_bytes_up :: int
  nt_bytes_down :: int
  nt_rx_bps :: int
  nt_tx_bps :: int

record Overview =
  ov_sites :: int
  ov_nodes :: int
  ov_online_nodes :: int
  ov_in_sync_nodes :: int
  ov_drifted_nodes :: int
  ov_connections :: int
  ov_bytes_up :: "int option"
  ov_bytes_down :: "int option"
  ov_rx_bps :: "int option"
  ov_tx_bps :: "int option"
  ov_node_traffic :: "NodeTraffic list option"
  ov_open_circuits :: int
  ov_open_alerts :: int
  ov_http_only :: bool

record AuthSession =
  as_access_token :: string
  as_token_type :: string
  as_itcode :: string
  as_role :: SessionRole
  as_expires_at :: string

record VerificationChallenge =
  vc_challenge_id :: string
  vc_expires_at :: string
  vc_resend_available_at :: string

record RoutingRule =
  rr_kind :: RuleKind
  rr_pattern :: string
  rr_action :: RuleAction

record RoutingPolicy =
  rp_mode :: RoutingMode
  rp_private_direct :: bool
  rp_cn_direct :: bool
  rp_final :: RouteFinal
  rp_rules :: "RoutingRule list"

record RoutingPolicyResponse =
  rpr_site_id :: string
  rpr_revision :: int
  rpr_policy :: RoutingPolicy

record Site =
  site_id :: string
  site_slug :: string
  site_name :: string
  site_dns_note :: string
  site_shutdown :: bool
  site_config_revision :: int

record Node =
  node_id :: string
  node_site_id :: string
  node_name :: string
  node_agent_id :: string
  node_advertise_ip :: string
  node_monitor_version :: string
  node_singbox_version :: string
  node_last_seen_at :: "string option"
  node_desired_version :: int
  node_applied_version :: int
  node_applied_hash :: string
  node_liveness_status :: string
  node_config_status :: string
  node_service_status :: string
  node_subscription_status :: string
  node_probe_status :: string
  node_active_connections :: "int option"
  node_bytes_up :: "int option"
  node_bytes_down :: "int option"
  node_rx_bps :: "int option"
  node_tx_bps :: "int option"
  node_last_error :: string

record ProxyHistoryPoint =
  php_at :: "string option"
  php_delay_ms :: "int option"

record ProxyEndpoint =
  pe_name :: string
  pe_type :: string
  pe_udp :: bool
  pe_alive :: "bool option"
  pe_delay_ms :: "int option"
  pe_history :: "ProxyHistoryPoint list"

record ProxyGroup =
  pg_name :: string
  pg_type :: string
  pg_now :: string
  pg_all :: "string list"
  pg_nodes :: "ProxyEndpoint list"
  pg_udp :: bool
  pg_delay_ms :: "int option"
  pg_history :: "ProxyHistoryPoint list"

record ProxyConfigSnapshot =
  pcs_id :: string
  pcs_node_id :: string
  pcs_site_id :: string
  pcs_sampled_at :: string
  pcs_api_available :: bool
  pcs_groups :: "ProxyGroup list"
  pcs_error :: string
  pcs_received_at :: string

record ServiceQualityStat =
  sqs_node_id :: string
  sqs_node_name :: string
  sqs_site_id :: string
  sqs_site_name :: string
  sqs_service :: string
  sqs_outbound_tag :: string
  sqs_average_latency_ms :: "rat option"
  sqs_min_latency_ms :: "int option"
  sqs_max_latency_ms :: "int option"
  sqs_success_rate :: "rat option"
  sqs_sample_count :: int
  sqs_successful_samples :: int
  sqs_failed_samples :: int
  sqs_last_latency_ms :: "int option"
  sqs_last_success :: "bool option"
  sqs_last_sampled_at :: "string option"

record ServiceQualityResponse =
  sqr_window :: ServiceQualityWindow
  sqr_from_at :: string
  sqr_until :: string
  sqr_service :: string
  sqr_samples :: int
  sqr_entries :: "ServiceQualityStat list"

record ServiceQualityDefinition =
  sqd_green_max_ms :: int
  sqd_yellow_max_ms :: int

record SystemSettings =
  ss_settings_id :: string
  ss_service_quality :: ServiceQualityDefinition
  ss_default_probe_url :: string
  ss_updated_at :: string
  ss_updated_by :: string

record ProxySelectionRequest =
  psr_group :: string
  psr_outbound :: string
  psr_expected_current_version :: "int option"
  psr_note :: "string option"

record SourceBlacklistRule =
  sbr_id :: "string option"
  sbr_node_id :: "string option"
  sbr_direction :: Direction
  sbr_kind :: EntryKind
  sbr_pattern :: string

record SourceBlacklist =
  sb_id :: string
  sb_node_id :: string
  sb_direction :: Direction
  sb_kind :: EntryKind
  sb_pattern :: string
  sb_comment :: string
  sb_enabled :: bool
  sb_created_by :: string
  sb_created_at :: string

record NetworkGroupEntry =
  nge_kind :: EntryKind
  nge_pattern :: string

record NetworkGroup =
  ng_id :: string
  ng_name :: string
  ng_entries :: "NetworkGroupEntry list"
  ng_created_by :: string
  ng_created_at :: string
  ng_updated_at :: string

record AccessControlRule =
  acr_id :: string
  acr_node_ids :: "string list"
  acr_network_group_ids :: "string list"
  acr_network_group_names :: "string list"
  acr_mode :: AccessMode
  acr_direction :: Direction
  acr_reason :: string
  acr_enabled :: bool
  acr_created_by :: string
  acr_created_at :: string
  acr_updated_at :: string

record 't ListPage =
  lp_items :: "'t list"
  lp_total :: int
  lp_limit :: int
  lp_offset :: int
  lp_has_more :: bool

record SubscriptionSource =
  src_id :: string
  src_name :: string
  src_source_type :: SourceType
  src_url_hint :: string
  src_fetch_interval_sec :: int
  src_max_body_bytes :: int
  src_redirect_limit :: int
  src_enabled :: bool
  src_refreshable :: bool
  src_last_refresh_at :: "string option"
  src_last_refresh_attempt_at :: "string option"
  src_last_refresh_error :: string
  src_consecutive_failures :: int
  src_created_at :: string
  src_updated_at :: string

record SubscriptionVersion =
  sv_id :: string
  sv_source_id :: string
  sv_version :: int
  sv_content_hash :: string
  sv_size_bytes :: int
  sv_format :: SubscriptionFormat
  sv_fetched_at :: string
  sv_parse_ok :: bool
  sv_parse_error :: string
  sv_node_count :: int
  sv_published :: bool
  sv_created_at :: string

record SubscriptionVersionContent = SubscriptionVersion +
  svc_content :: string
  svc_encoding :: string

record SiteSubscription =
  sisub_site_id :: string
  sisub_source_id :: string
  sisub_subscription_version_id :: string
  sisub_previous_subscription_version_id :: "string option"
  sisub_updated_at :: string

record SubscriptionCatalog =
  cat_sources :: "SubscriptionSource list"
  cat_versions :: "SubscriptionVersion list"
  cat_site_subscriptions :: "SiteSubscription list"

record SubscriptionUploadResponse =
  sur_source :: SubscriptionSource
  sur_version :: SubscriptionVersion

record DraftValidation =
  dv_valid :: "bool option"
  dv_errors :: "string list option"
  dv_blacklist :: "SourceBlacklistRule list option"
  dv_source_blacklist :: "SourceBlacklistRule list option"

record Draft =
  draft_id :: string
  draft_site_id :: string
  draft_node_ids :: "string list"
  draft_source_revision :: int
  draft_diff :: json
  draft_validation :: DraftValidation
  draft_risk_level :: string
  draft_status :: string
  draft_expires_at :: string
  draft_created_at :: string
  draft_updated_at :: string

record Release =
  rel_release_id :: string
  rel_site_id :: string
  rel_node_ids :: "string list"
  rel_desired_release_id :: string
  rel_previous_release_id :: "string option"
  rel_task_id :: "string option"
  rel_status :: string
  rel_stage :: string
  rel_progress :: int
  rel_error :: string
  rel_rollback_reason :: string
  rel_started_at :: "string option"
  rel_finished_at :: "string option"
  rel_created_at :: string
  rel_subscription_name :: string
  rel_subscription_source_id :: string
  rel_change_categories :: "string list option"

record SourceBlacklistDistribution =
  sbd_site_id :: string
  sbd_node_ids :: "string list"
  sbd_state :: DistributionState
  sbd_release :: "Release option"

record SourceBlacklistMutation =
  sbm_rule :: SourceBlacklist
  sbm_rules :: "SourceBlacklist list option"
  sbm_operation :: MutationKind
  sbm_distribution :: "SourceBlacklistDistribution list"

record AccessControlMutation =
  acm_rules :: "AccessControlRule list"
  acm_operation :: MutationKind
  acm_distribution :: "SourceBlacklistDistribution list"

record SubscriptionPublishResponse =
  spr_version :: SubscriptionVersion
  spr_releases :: "Release list"

record Task =
  task_task_id :: string
  task_task_type :: string
  task_target_type :: string
  task_target_id :: string
  task_status :: string
  task_progress :: int
  task_stage :: string
  task_progress_message :: string
  task_retry_count :: int
  task_max_retries :: int
  task_error :: string
  task_result :: json
  task_created_at :: string
  task_finished_at :: "string option"
  task_next_run_at :: string
  task_locked_by :: string
  task_lease_expires_at :: "string option"

record SubscriptionRefreshResponse =
  srr_source :: SubscriptionSource
  srr_task :: Task
  srr_merged :: bool

record AgentAck =
  ack_node_id :: string
  ack_release_id :: string
  ack_desired_version :: int
  ack_applied_version :: int
  ack_bundle_hash :: string
  ack_applied_hash :: string
  ack_ok :: bool
  ack_singbox_ok :: bool
  ack_nft_ok :: bool
  ack_health_ok :: bool
  ack_rollback_attempted :: bool
  ack_rollback_ok :: bool
  ack_last_good_version :: int
  ack_stage :: string
  ack_error_code :: string
  ack_error_message :: string
  ack_sequence :: int
  ack_received_at :: string

record ReleaseEvent =
  evt_timestamp :: string
  evt_source :: string
  evt_message :: string
  evt_level :: EventLevel

record ReleaseDetail =
  rd_release :: Release
  rd_task :: "Task option"
  rd_acknowledgements :: "AgentAck list"
  rd_events :: "ReleaseEvent list"

record AuditEvent =
  ae_event_id :: string
  ae_actor :: string
  ae_actor_role :: string
  ae_request_id :: string
  ae_source_ip :: string
  ae_action :: string
  ae_target_type :: string
  ae_target_id :: string
  ae_before :: json
  ae_after :: json
  ae_result :: string
  ae_error :: string
  ae_immutable_hash :: string
  ae_previous_hash :: string
  ae_at :: string

record AccessLog =
  al_id :: string
  al_ts :: string
  al_site_id :: string
  al_node_id :: string
  al_policy_version :: int
  al_src_ip :: string
  al_src_cidr_match :: string
  al_username :: string
  al_cert_fp :: string
  al_dst_host :: string
  al_dst_port :: int
  al_action :: AccessMode
  al_deny_reason :: string
  al_bytes_up :: int
  al_bytes_down :: int
  al_duration_ms :: int

record ConnectionTopItem =
  cti_label :: string
  cti_connections :: int
  cti_bytes_up :: int
  cti_bytes_down :: int

record ConnectionLiveItem =
  cli_id :: string
  cli_src_ip :: string
  cli_src_port :: string
  cli_dst_host :: string
  cli_dst_ip :: string
  cli_dst_port :: string
  cli_network :: string
  cli_inbound :: string
  cli_outbound_chain :: "string list"
  cli_bytes_up :: int
  cli_bytes_down :: int
  cli_start :: string
  cli_rule :: string

record ConnectionSnapshot =
  cs_id :: string
  cs_node_id :: string
  cs_site_id :: string
  cs_sampled_at :: string
  cs_active_connections :: int
  cs_bytes_up :: int
  cs_bytes_down :: int
  cs_rx_bps :: "int option"
  cs_tx_bps :: "int option"
  cs_top_sources :: "ConnectionTopItem list"
  cs_top_destinations :: "ConnectionTopItem list"
  cs_top_users :: "ConnectionTopItem list"
  cs_connections :: "ConnectionLiveItem list option"
  cs_api_available :: bool
  cs_received_at :: string

record ConnectionHistoryResponse =
  chr_items :: "ConnectionSnapshot list"
  chr_total :: int
  chr_limit :: int
  chr_offset :: int
  chr_has_more :: bool

record ProbeHistory =
  ph_id :: string
  ph_node_id :: string
  ph_site_id :: string
  ph_outbound_tag :: string
  ph_target_url :: string
  ph_success :: bool
  ph_latency_ms :: int
  ph_error_class :: string
  ph_sampled_at :: string

record ProbeCircuit =
  pc_node_id :: string
  pc_site_id :: string
  pc_outbound_tag :: string
  pc_state :: string
  pc_consecutive_failures :: int
  pc_consecutive_successes :: int
  pc_opened_at :: "string option"
  pc_half_open_at :: "string option"
  pc_last_success_at :: "string option"
  pc_last_failure_at :: "string option"
  pc_last_latency_ms :: int
  pc_last_error_class :: string
  pc_reason :: string
  pc_updated_at :: string

record ProbeOverview =
  po_node_id :: string
  po_history :: "ProbeHistory list"
  po_circuits :: "ProbeCircuit list"

record Alert =
  alert_id :: string
  alert_fingerprint :: string
  alert_category :: string
  alert_severity :: string
  alert_site_id :: string
  alert_node_id :: string
  alert_title :: string
  alert_detail :: string
  alert_status :: string
  alert_first_seen_at :: string
  alert_last_seen_at :: string
  alert_resolved_at :: "string option"

record AccessConfig =
  acfg_environment :: AccessEnvironment
  acfg_fqdn :: string
  acfg_port :: int
  acfg_protocol :: string
  acfg_macos_shortcut_url :: string

record Employee =
  emp_itcode :: string
  emp_role :: SessionRole
  emp_auth_source :: string
  emp_is_active :: bool
  emp_created_at :: string
  emp_password_changed_at :: "string option"
  emp_last_login_at :: "string option"

record BackupRecord =
  bk_backup_id :: string
  bk_scope :: string
  bk_origin :: BackupOrigin
  bk_artifact_paths :: "string list"
  bk_format :: string
  bk_checksum :: string
  bk_encrypted :: bool
  bk_storage_ref :: string
  bk_status :: string
  bk_created_by :: string
  bk_created_at :: string
  bk_verified_at :: "string option"
  bk_last_rehearsed_at :: "string option"
  bk_restore_task_id :: "string option"
  bk_error :: string
  bk_size_bytes :: int
  bk_manifest :: json

record BackupCreateResponse =
  bcr_backup :: BackupRecord
  bcr_task :: Task

record BackupRestoreResponse =
  brr_backup :: BackupRecord
  brr_task :: Task

section \<open>JSON texts of the payload types\<close>

definition routing_rule_json :: "RoutingRule \<Rightarrow> json" where
  "routing_rule_json r = JObj
     [(''kind'', JStr (rule_kind_text (rr_kind r))),
      (''pattern'', JStr (rr_pattern r)),
      (''action'', JStr (rule_action_text (rr_action r)))]"

definition routing_policy_json :: "RoutingPolicy \<Rightarrow> json" where
  "routing_policy_json p = JObj
     [(''mode'', JStr ''rule''),
      (''private_direct'', JBool (rp_private_direct p)),
      (''cn_direct'', JBool (rp_cn_direct p)),
      (''final'', JStr (route_final_text (rp_final p))),
      (''rules'', JArr (map routing_rule_json (rp_rules p)))]"

definition network_group_entry_json :: "NetworkGroupEntry \<Rightarrow> json" where
  "network_group_entry_json e = JObj
     [(''kind'', JStr (entry_kind_text (nge_kind e))), (''pattern'', JStr (nge_pattern e))]"

lemma literal_text_inject [simp]:
  shows "rule_kind_text a = rule_kind_text a' \<longleftrightarrow> a = a'"
  and "rule_action_text b = rule_action_text b' \<longleftrightarrow> b = b'"
  and "route_final_text c = route_final_text c' \<longleftrightarrow> c = c'"
  and "entry_kind_text d = entry_kind_text d' \<longleftrightarrow> d = d'"
  and "role_text e = role_text e' \<longleftrightarrow> e = e'"
  by ((cases a; cases a'; simp), (cases b; cases b'; simp), (cases c; cases c'; simp),
      (cases d; cases d'; simp), (cases e; cases e'; simp))

lemma routing_rule_json_inject [simp]: "routing_rule_json r = routing_rule_json r' \<longleftrightarrow> r = r'"
  by (cases r; cases r') (auto simp: routing_rule_json_def)

lemma routing_mode_unique: "(m :: RoutingMode) = m'"
  by (cases m; cases m') simp

lemma routing_policy_json_inject [simp]:
  "routing_policy_json p = routing_policy_json p' \<longleftrightarrow> p = p'"
proof -
  have "inj routing_rule_json" by (rule injI) simp
  then show ?thesis
    by (cases p; cases p')
       (auto simp: routing_policy_json_def inj_map_eq_map intro: routing_mode_unique)
qed

end
