(* ===== verification/Session.thy ===== *)
theory Session
  imports Api_Types
begin

text \<open>
  The management session of the dashboard, as \<^verbatim>\<open>src/frontend/lib/api.ts\<close> keeps it in the browser:
  the token, the role and the expiry instant in \<^verbatim>\<open>localStorage\<close>, the reason of the last forced
  sign-out in \<^verbatim>\<open>sessionStorage\<close>, and the redirects to the login page.

  The browser is an explicit state.  \<open>has_window\<close> is false while the code runs on the server;
  \<open>session_storage_ok\<close> is false where \<^verbatim>\<open>sessionStorage\<close> throws, which the code catches.
  \<^verbatim>\<open>window.location.replace\<close> only schedules a navigation, so it is recorded in \<open>redirects\<close> and the
  path changes later.  The clock and \<^verbatim>\<open>Date.parse\<close> are arguments (\<open>now\<close>, \<open>parse\<close>; \<open>None\<close> is \<open>NaN\<close>).
\<close>

record browser =
  has_window :: bool
  local_storage :: "string \<rightharpoonup> string"
  session_storage :: "string \<rightharpoonup> string"
  session_storage_ok :: bool
  pathname :: string
  redirects :: "string list"

section \<open>Web storage as an interface\<close>

text \<open>Everything the session code needs of a \<^verbatim>\<open>Storage\<close> object: what a read returns after a write
  and after a removal.\<close>

locale web_storage =
  fixes get_item :: "'s \<Rightarrow> string \<Rightarrow> string option"
    and set_item :: "string \<Rightarrow> string \<Rightarrow> 's \<Rightarrow> 's"
    and remove_item :: "string \<Rightarrow> 's \<Rightarrow> 's"
  assumes get_set: "get_item (set_item k v s) k' = (if k' = k then Some v else get_item s k')"
    and get_remove: "get_item (remove_item k s) k' = (if k' = k then None else get_item s k')"
begin

lemmas get_simps = get_set get_remove

definition set_all :: "(string \<times> string) list \<Rightarrow> 's \<Rightarrow> 's" where
  "set_all kvs s = fold (\<lambda>(k, v). set_item k v) kvs s"

definition remove_all :: "string list \<Rightarrow> 's \<Rightarrow> 's" where
  "remove_all ks s = fold remove_item ks s"

text \<open>A group of keys that is only ever written and removed as a whole.\<close>

definition all_or_none :: "string list \<Rightarrow> 's \<Rightarrow> bool" where
  "all_or_none ks s \<longleftrightarrow>
     (\<forall>k \<in> set ks. get_item s k \<noteq> None) \<or> (\<forall>k \<in> set ks. get_item s k = None)"

lemma get_remove_all: "get_item (remove_all ks s) k = (if k \<in> set ks then None else get_item s k)"
  by (induction ks arbitrary: s) (auto simp: remove_all_def get_simps)

lemma get_set_all_other: "k \<notin> fst ` set kvs \<Longrightarrow> get_item (set_all kvs s) k = get_item s k"
  by (induction kvs arbitrary: s) (auto simp: set_all_def get_simps)

lemma get_set_all_present: "k \<in> fst ` set kvs \<Longrightarrow> get_item (set_all kvs s) k \<noteq> None"
proof (induction kvs arbitrary: s)
  case (Cons kv kvs)
  obtain a v where kv: "kv = (a, v)" by force
  show ?case
  proof (cases "k \<in> fst ` set kvs")
    case True
    with Cons.IH [of "set_item a v s"] kv show ?thesis by (simp add: set_all_def)
  next
    case False
    with Cons.prems kv have "k = a" by auto
    with False get_set_all_other [of k kvs "set_item a v s"] kv show ?thesis
      by (simp add: set_all_def get_simps)
  qed
qed simp

lemma all_or_none_set_all: "all_or_none (map fst kvs) (set_all kvs s)"
  using get_set_all_present by (auto simp: all_or_none_def)

lemma all_or_none_remove_all: "all_or_none ks (remove_all ks s)"
  by (simp add: all_or_none_def get_remove_all)

lemma all_or_none_frame:
  "k \<notin> set ks \<Longrightarrow> all_or_none ks s \<Longrightarrow> all_or_none ks (set_item k v s)"
  "k \<notin> set ks \<Longrightarrow> all_or_none ks s \<Longrightarrow> all_or_none ks (remove_item k s)"
  by (auto simp: all_or_none_def get_simps)

end

definition local_get :: "browser \<Rightarrow> string \<Rightarrow> string option" where
  "local_get b k = local_storage b k"

definition local_set :: "string \<Rightarrow> string \<Rightarrow> browser \<Rightarrow> browser" where
  "local_set k v b = b\<lparr>local_storage := (local_storage b)(k \<mapsto> v)\<rparr>"

definition local_remove :: "string \<Rightarrow> browser \<Rightarrow> browser" where
  "local_remove k b = b\<lparr>local_storage := (local_storage b)(k := None)\<rparr>"

interpretation ls: web_storage local_get local_set local_remove
  by unfold_locales (auto simp: local_get_def local_set_def local_remove_def)

text \<open>The session storage behind its \<^verbatim>\<open>try\<close> blocks: a write or a removal that throws changes
  nothing.\<close>

definition notice_get :: "browser \<Rightarrow> string \<Rightarrow> string option" where
  "notice_get b k = (if session_storage_ok b then session_storage b k else None)"

definition try_notice_set :: "string \<Rightarrow> string \<Rightarrow> browser \<Rightarrow> browser" where
  "try_notice_set k v b =
     (if session_storage_ok b then b\<lparr>session_storage := (session_storage b)(k \<mapsto> v)\<rparr> else b)"

definition try_notice_remove :: "string \<Rightarrow> browser \<Rightarrow> browser" where
  "try_notice_remove k b =
     (if session_storage_ok b then b\<lparr>session_storage := (session_storage b)(k := None)\<rparr> else b)"

section \<open>Keys and codes\<close>

definition tokenKey :: string where "tokenKey = ''grouproxy.management_token''"

definition roleKey :: string where "roleKey = ''grouproxy.session_role''"

definition expiresAtKey :: string where "expiresAtKey = ''grouproxy.session_expires_at''"

definition authNoticeKey :: string where "authNoticeKey = ''grouproxy.authentication_notice''"

definition authenticationFailureCodes :: "string list" where
  "authenticationFailureCodes =
     [''management_auth_required'', ''management_session_expired'', ''management_session_revoked'',
      ''management_session_invalid'', ''management_account_inactive'']"

lemma keys_distinct [simp]:
  "tokenKey \<noteq> roleKey" "tokenKey \<noteq> expiresAtKey" "roleKey \<noteq> expiresAtKey"
  "roleKey \<noteq> tokenKey" "expiresAtKey \<noteq> tokenKey" "expiresAtKey \<noteq> roleKey"
  by (simp_all add: tokenKey_def roleKey_def expiresAtKey_def)

section \<open>Operations\<close>

definition storedSessionExpired :: "(string \<Rightarrow> int option) \<Rightarrow> int \<Rightarrow> browser \<Rightarrow> bool" where
  "storedSessionExpired parse now b =
     (if \<not> has_window b then False
      else (case local_get b expiresAtKey of
          None \<Rightarrow> False
        | Some v \<Rightarrow> if v = [] then False
            else (case parse v of None \<Rightarrow> False | Some expiresAt \<Rightarrow> expiresAt \<le> now)))"

definition clearManagementSession :: "browser \<Rightarrow> browser" where
  "clearManagementSession b =
     (if has_window b
      then local_remove expiresAtKey (local_remove roleKey (local_remove tokenKey b)) else b)"

definition redirectForAuthenticationFailure :: "string \<Rightarrow> browser \<Rightarrow> browser" where
  "redirectForAuthenticationFailure detail b =
     (if \<not> has_window b then b
      else
        (let b1 = clearManagementSession b;
             b2 = try_notice_set authNoticeKey detail b1
         in if pathname b2 \<noteq> ''/login''
            then b2\<lparr>redirects := redirects b2 @ [''/login?reason='' @ encodeURIComponent detail]\<rparr>
            else b2))"

definition isPublicAccessPath :: "browser \<Rightarrow> bool" where
  "isPublicAccessPath b =
     (if \<not> has_window b then False else pathname b = ''/'' \<or> pathname b = ''/access'')"

definition managementToken :: "browser \<Rightarrow> string" where
  "managementToken b =
     (if has_window b then (case local_get b tokenKey of None \<Rightarrow> [] | Some t \<Rightarrow> t) else [])"

definition activeManagementToken ::
    "(string \<Rightarrow> int option) \<Rightarrow> int \<Rightarrow> browser \<Rightarrow> string \<times> browser" where
  "activeManagementToken parse now b =
     (let token = managementToken b
      in if token \<noteq> [] \<and> storedSessionExpired parse now b then
           (if isPublicAccessPath b then
              ([], try_notice_set authNoticeKey ''management_session_expired''
                     (clearManagementSession b))
            else ([], redirectForAuthenticationFailure ''management_session_expired'' b))
         else (token, b))"

definition managementSessionRole :: "browser \<Rightarrow> SessionRole option" where
  "managementSessionRole b =
     (if \<not> has_window b then None
      else (let role = local_get b roleKey
            in if role = Some ''root'' then Some RoleRoot
               else if role = Some ''admin'' then Some RoleAdmin
               else if role = Some ''employee'' then Some RoleEmployee
               else None))"

definition hasManagementSession ::
    "(string \<Rightarrow> int option) \<Rightarrow> int \<Rightarrow> browser \<Rightarrow> bool \<times> browser" where
  "hasManagementSession parse now b =
     (let (token, b') = activeManagementToken parse now b
      in (token \<noteq> [] \<and> managementSessionRole b' \<noteq> Some RoleEmployee, b'))"

definition hasAuthenticatedSession ::
    "(string \<Rightarrow> int option) \<Rightarrow> int \<Rightarrow> browser \<Rightarrow> bool \<times> browser" where
  "hasAuthenticatedSession parse now b =
     (let (token, b') = activeManagementToken parse now b in (token \<noteq> [], b'))"

definition saveManagementSession :: "string \<Rightarrow> SessionRole \<Rightarrow> string \<Rightarrow> browser \<Rightarrow> browser" where
  "saveManagementSession token role expiresAt b =
     (if has_window b then
        (let b1 = local_set tokenKey token b;
             b2 = local_set roleKey (role_text role) b1;
             b3 = local_set expiresAtKey expiresAt b2
         in try_notice_remove authNoticeKey b3)
      else b)"

definition consumeAuthenticationNotice :: "browser \<Rightarrow> string \<times> browser" where
  "consumeAuthenticationNotice b =
     (if \<not> has_window b then ([], b)
      else
        (let detail = (case notice_get b authNoticeKey of None \<Rightarrow> [] | Some d \<Rightarrow> d)
         in (detail, try_notice_remove authNoticeKey b)))"

section \<open>Behaviour\<close>

lemmas storage_defs =
  local_get_def local_set_def local_remove_def notice_get_def try_notice_set_def try_notice_remove_def

lemmas session_defs =
  storedSessionExpired_def clearManagementSession_def redirectForAuthenticationFailure_def
  isPublicAccessPath_def managementToken_def activeManagementToken_def managementSessionRole_def
  hasManagementSession_def hasAuthenticatedSession_def saveManagementSession_def
  consumeAuthenticationNotice_def

text \<open>Frame facts: the session operations touch neither the window nor the path.\<close>

lemma clear_frame [simp]:
  "has_window (clearManagementSession b) = has_window b"
  "pathname (clearManagementSession b) = pathname b"
  "redirects (clearManagementSession b) = redirects b"
  "session_storage (clearManagementSession b) = session_storage b"
  "session_storage_ok (clearManagementSession b) = session_storage_ok b"
  by (simp_all add: clearManagementSession_def storage_defs)

lemma notice_frame [simp]:
  "has_window (try_notice_set k v b) = has_window b"
  "pathname (try_notice_set k v b) = pathname b"
  "redirects (try_notice_set k v b) = redirects b"
  "local_storage (try_notice_set k v b) = local_storage b"
  "session_storage_ok (try_notice_set k v b) = session_storage_ok b"
  "has_window (try_notice_remove k b) = has_window b"
  "pathname (try_notice_remove k b) = pathname b"
  "redirects (try_notice_remove k b) = redirects b"
  "local_storage (try_notice_remove k b) = local_storage b"
  "session_storage_ok (try_notice_remove k b) = session_storage_ok b"
  by (simp_all add: storage_defs)

lemma redirect_frame [simp]:
  "has_window (redirectForAuthenticationFailure d b) = has_window b"
  "pathname (redirectForAuthenticationFailure d b) = pathname b"
  "session_storage_ok (redirectForAuthenticationFailure d b) = session_storage_ok b"
  by (simp_all add: redirectForAuthenticationFailure_def Let_def)

lemma local_get_cong:
  "local_storage b = local_storage b' \<Longrightarrow> local_get b k = local_get b' k"
  by (simp add: local_get_def)

lemma local_get_notice [simp]:
  "local_get (try_notice_set k v b) = local_get b"
  "local_get (try_notice_remove k b) = local_get b"
  by (auto simp: local_get_def fun_eq_iff)

lemma local_get_clear:
  "has_window b \<Longrightarrow> local_get (clearManagementSession b) k
     = (if k \<in> {tokenKey, roleKey, expiresAtKey} then None else local_get b k)"
  by (auto simp: clearManagementSession_def ls.get_simps)

lemma local_get_redirect:
  "has_window b \<Longrightarrow> local_get (redirectForAuthenticationFailure d b) k
     = (if k \<in> {tokenKey, roleKey, expiresAtKey} then None else local_get b k)"
proof -
  assume w: "has_window b"
  have "local_storage (redirectForAuthenticationFailure d b) = local_storage (clearManagementSession b)"
    using w by (simp add: redirectForAuthenticationFailure_def Let_def)
  from local_get_cong [OF this] w show ?thesis by (simp add: local_get_clear)
qed

lemma local_get_save:
  "has_window b \<Longrightarrow> local_get (saveManagementSession t r e b) k
     = (if k = tokenKey then Some t else if k = roleKey then Some (role_text r)
        else if k = expiresAtKey then Some e else local_get b k)"
  by (auto simp: saveManagementSession_def ls.get_simps Let_def)

lemma save_frame [simp]:
  "has_window (saveManagementSession t r e b) = has_window b"
  "pathname (saveManagementSession t r e b) = pathname b"
  "redirects (saveManagementSession t r e b) = redirects b"
  by (simp_all add: saveManagementSession_def Let_def local_set_def)

lemma managementToken_clear [simp]: "managementToken (clearManagementSession b) = []"
  by (cases "has_window b") (simp_all add: managementToken_def local_get_clear)

lemma managementToken_redirect [simp]:
  "managementToken (redirectForAuthenticationFailure d b) = []"
  by (cases "has_window b") (simp_all add: managementToken_def local_get_redirect)

lemma managementToken_notice [simp]:
  "managementToken (try_notice_set k v b) = managementToken b"
  "managementToken (try_notice_remove k b) = managementToken b"
  by (simp_all add: managementToken_def)

lemma managementToken_save [simp]: "has_window b \<Longrightarrow> managementToken (saveManagementSession t r e b) = t"
  by (simp add: managementToken_def local_get_save)

lemma role_text_cases [simp]:
  "role_text r = ''root'' \<longleftrightarrow> r = RoleRoot"
  "role_text r = ''admin'' \<longleftrightarrow> r = RoleAdmin"
  "role_text r = ''employee'' \<longleftrightarrow> r = RoleEmployee"
  by (cases r; simp)+

lemma managementSessionRole_save [simp]:
  "has_window b \<Longrightarrow> managementSessionRole (saveManagementSession t r e b) = Some r"
  by (cases r) (simp_all add: managementSessionRole_def local_get_save)

lemma storedSessionExpired_save [simp]:
  "has_window b \<Longrightarrow> storedSessionExpired parse now (saveManagementSession t r e b)
     \<longleftrightarrow> e \<noteq> [] \<and> (\<exists>x. parse e = Some x \<and> x \<le> now)"
  by (auto simp: storedSessionExpired_def local_get_save split: option.splits)

text \<open>An expired session never yields a token, and it is gone afterwards.\<close>

lemma active_token_expired:
  assumes "managementToken b \<noteq> []" "storedSessionExpired parse now b"
  shows "fst (activeManagementToken parse now b) = []"
    and "managementToken (snd (activeManagementToken parse now b)) = []"
proof -
  show "fst (activeManagementToken parse now b) = []"
    using assms by (simp add: activeManagementToken_def)
  show "managementToken (snd (activeManagementToken parse now b)) = []"
    using assms by (simp add: activeManagementToken_def)
qed

lemma active_token_valid:
  "\<not> storedSessionExpired parse now b \<Longrightarrow> activeManagementToken parse now b = (managementToken b, b)"
  by (simp add: activeManagementToken_def)

lemma active_token_none:
  "managementToken b = [] \<Longrightarrow> activeManagementToken parse now b = ([], b)"
  by (simp add: activeManagementToken_def)

text \<open>Asking for the token twice gives the same answer and changes nothing more.\<close>

lemma active_token_idem:
  "activeManagementToken parse now (snd (activeManagementToken parse now b))
     = (fst (activeManagementToken parse now b), snd (activeManagementToken parse now b))"
proof (cases "managementToken b \<noteq> [] \<and> storedSessionExpired parse now b")
  case True
  with active_token_expired [of b parse now] show ?thesis by (simp add: active_token_none)
next
  case False
  then have "activeManagementToken parse now b = (managementToken b, b)"
    by (auto simp: activeManagementToken_def)
  then show ?thesis by simp
qed

text \<open>The three session keys are written and removed together.\<close>

definition session_keys :: "string list" where
  "session_keys = [tokenKey, roleKey, expiresAtKey]"

definition session_wf :: "browser \<Rightarrow> bool" where
  "session_wf b \<longleftrightarrow> ls.all_or_none session_keys b"

lemma session_wf_cong:
  "local_get b = local_get b' \<Longrightarrow> session_wf b = session_wf b'"
  by (simp add: session_wf_def ls.all_or_none_def)

lemma session_wf_clear [inv_intros]: "session_wf b \<Longrightarrow> session_wf (clearManagementSession b)"
proof (cases "has_window b")
  case True
  then show ?thesis by (auto simp: session_wf_def ls.all_or_none_def session_keys_def local_get_clear)
next
  case False
  moreover assume "session_wf b"
  ultimately show ?thesis by (simp add: clearManagementSession_def)
qed

lemma session_wf_redirect [inv_intros]:
  "session_wf b \<Longrightarrow> session_wf (redirectForAuthenticationFailure d b)"
proof (cases "has_window b")
  case True
  then show ?thesis by (auto simp: session_wf_def ls.all_or_none_def session_keys_def local_get_redirect)
next
  case False
  moreover assume "session_wf b"
  ultimately show ?thesis by (simp add: redirectForAuthenticationFailure_def)
qed

lemma session_wf_save [inv_intros]: "session_wf b \<Longrightarrow> session_wf (saveManagementSession t r e b)"
proof (cases "has_window b")
  case True
  then show ?thesis by (auto simp: session_wf_def ls.all_or_none_def session_keys_def local_get_save)
next
  case False
  moreover assume "session_wf b"
  ultimately show ?thesis by (simp add: saveManagementSession_def)
qed

lemma session_wf_notice [inv_intros]:
  "session_wf b \<Longrightarrow> session_wf (try_notice_set k v b)"
  "session_wf b \<Longrightarrow> session_wf (try_notice_remove k b)"
  by (simp_all add: session_wf_def ls.all_or_none_def)

lemma session_wf_active [inv_intros]:
  "session_wf b \<Longrightarrow> session_wf (snd (activeManagementToken parse now b))"
  by (auto simp: activeManagementToken_def Let_def intro: inv_intros)

lemma session_wf_consume [inv_intros]:
  "session_wf b \<Longrightarrow> session_wf (snd (consumeAuthenticationNotice b))"
  by (auto simp: consumeAuthenticationNotice_def Let_def intro: inv_intros)

section \<open>Properties\<close>

lemma not_expired_after_save:
  "parse e = Some x \<Longrightarrow> now < x \<Longrightarrow> has_window b \<Longrightarrow>
     \<not> storedSessionExpired parse now (saveManagementSession t r e b)"
  by (simp add: storedSessionExpired_def local_get_save)

text \<open>C2: a session that was saved is read back: until its expiry instant the token is active, the
  role is the one that was saved, and the session opens the management console exactly when
  the role is not employee.  Reading changes nothing.\<close>

theorem saved_session_read_back:
  assumes "has_window b" "token \<noteq> []" "parse expiresAt = Some instant" "now < instant"
  shows "let b' = saveManagementSession token role expiresAt b in
     activeManagementToken parse now b' = (token, b') \<and>
     managementSessionRole b' = Some role \<and>
     hasAuthenticatedSession parse now b' = (True, b') \<and>
     hasManagementSession parse now b' = (role \<noteq> RoleEmployee, b')"
  using assms
  by (simp add: Let_def active_token_valid not_expired_after_save hasAuthenticatedSession_def
        hasManagementSession_def)

definition demo_browser :: browser where
  "demo_browser = \<lparr>has_window = True, local_storage = Map.empty, session_storage = Map.empty,
     session_storage_ok = True, pathname = ''/overview'', redirects = []\<rparr>"

theorem saved_session_read_back_witness:
  "let b' = saveManagementSession ''tok'' RoleAdmin ''later'' demo_browser in
     activeManagementToken (\<lambda>_. Some 200) 100 b' = (''tok'', b') \<and>
     managementSessionRole b' = Some RoleAdmin \<and>
     hasAuthenticatedSession (\<lambda>_. Some 200) 100 b' = (True, b') \<and>
     hasManagementSession (\<lambda>_. Some 200) 100 b' = (True, b')"
  using saved_session_read_back [of demo_browser "''tok''" "\<lambda>_. Some 200" "''later''" 200 100 RoleAdmin]
  by (simp add: demo_browser_def)

text \<open>C3: when the stored session has expired, asking for the token yields none and removes all
  three session keys; the reason is left for the login page, and a page that is not public is
  sent to the login page with that reason.\<close>

theorem expired_session_is_dropped:
  assumes "has_window b" "managementToken b \<noteq> []" "storedSessionExpired parse now b"
  shows "let (token, b') = activeManagementToken parse now b in
     token = [] \<and> (\<forall>k \<in> set session_keys. local_get b' k = None) \<and>
     (session_storage_ok b \<longrightarrow> notice_get b' authNoticeKey = Some ''management_session_expired'') \<and>
     redirects b' = (if pathname b \<in> {''/'', ''/access'', ''/login''} then redirects b
                     else redirects b @ [''/login?reason=management_session_expired''])"
proof -
  have enc: "encodeURIComponent ''management_session_expired'' = ''management_session_expired''"
    by code_simp
  let ?b = "snd (activeManagementToken parse now b)"
  have "local_get ?b k = None" if "k \<in> set session_keys" for k
    using assms that
    by (auto simp: activeManagementToken_def Let_def local_get_clear local_get_redirect session_keys_def)
  moreover have "session_storage_ok b \<Longrightarrow> notice_get ?b authNoticeKey = Some ''management_session_expired''"
    using assms
    by (auto simp: activeManagementToken_def redirectForAuthenticationFailure_def Let_def
          notice_get_def try_notice_set_def)
  moreover have "redirects ?b = (if pathname b \<in> {''/'', ''/access'', ''/login''} then redirects b
                     else redirects b @ [''/login?reason=management_session_expired''])"
    using assms
    by (auto simp: activeManagementToken_def isPublicAccessPath_def Let_def
          redirectForAuthenticationFailure_def enc)
  ultimately show ?thesis using active_token_expired(1) [OF assms(2,3)] by (simp add: split_beta Let_def)
qed

theorem expired_session_is_dropped_witness:
  "let b = saveManagementSession ''tok'' RoleAdmin ''past'' demo_browser;
       (token, b') = activeManagementToken (\<lambda>_. Some 50) 100 b in
     token = [] \<and> (\<forall>k \<in> set session_keys. local_get b' k = None) \<and>
     redirects b' = [''/login?reason=management_session_expired'']"
proof -
  let ?b = "saveManagementSession ''tok'' RoleAdmin ''past'' demo_browser"
  have "has_window ?b" "managementToken ?b \<noteq> []" "storedSessionExpired (\<lambda>_. Some 50) 100 ?b"
    by (simp_all add: demo_browser_def)
  from expired_session_is_dropped [OF this] show ?thesis
    by (simp add: Let_def split_beta demo_browser_def)
qed

end
