(* ===== verification/Http_Client.thy ===== *)
theory Http_Client
  imports Session
begin

text \<open>
  The request functions of \<^verbatim>\<open>src/frontend/lib/api.ts\<close>: the error class, the reading of error
  bodies, \<^verbatim>\<open>apiFetch\<close> and the five callers built on it.  Each authenticated caller suspends while
  the response is on its way, so it is split at that point: a \<open>_send\<close> function computes the
  request and captures the token, a \<open>_receive\<close> function handles the answer in the browser state
  of that later moment.  The network is whatever answer \<open>_receive\<close> is given.
\<close>

section \<open>Requests, responses, errors\<close>

datatype form_value = FormText string | FormFile string string

datatype req_body = TextBody string | FormBody "(string \<times> form_value) list"

record RequestInit =
  init_method :: "string option"
  init_headers :: "(string \<times> string) list"
  init_body :: "req_body option"

definition empty_init :: RequestInit where
  "empty_init = \<lparr>init_method = None, init_headers = [], init_body = None\<rparr>"

record http_request =
  hr_url :: string
  hr_method :: string
  hr_headers :: "(string \<times> string) list"
  hr_body :: "req_body option"
  hr_cache :: string

record http_response =
  res_status :: int
  res_statusText :: string
  res_json :: "json option"
  res_text :: string

definition res_ok :: "http_response \<Rightarrow> bool" where
  "res_ok r \<longleftrightarrow> 200 \<le> res_status r \<and> res_status r \<le> 299"

datatype fetch_result = NetworkFailure | Response http_response

datatype client_error = ApiError int string | InvalidJson

text \<open>The message of an \<^verbatim>\<open>ApiError\<close>; what a failed \<^verbatim>\<open>response.json()\<close> says is the engine's business.\<close>

fun error_message :: "string \<Rightarrow> client_error \<Rightarrow> string" where
  "error_message engine (ApiError status detail) =
     or_str detail (''API request failed ('' @ show_int status @ '')'')"
| "error_message engine InvalidJson = engine"

text \<open>A \<^verbatim>\<open>Headers\<close> object compares names without regard to case.\<close>

definition header_set :: "string \<Rightarrow> string \<Rightarrow> (string \<times> string) list \<Rightarrow> (string \<times> string) list" where
  "header_set k v hs = params_set (to_lower k) v hs"

definition headers_of :: "(string \<times> string) list \<Rightarrow> (string \<times> string) list" where
  "headers_of kvs = fold (\<lambda>(k, v). header_set k v) kvs []"

definition header_get :: "(string \<times> string) list \<Rightarrow> string \<Rightarrow> string option" where
  "header_get hs k = js_map_get hs (to_lower k)"

lemma header_get_set [simp]: "header_get (header_set k v hs) k = Some v"
  by (simp add: header_get_def header_set_def params_set_get)

section \<open>Error bodies\<close>

definition errorDetail :: "json \<Rightarrow> string" where
  "errorDetail body =
     (case body of
        JObj ms \<Rightarrow>
          (case js_map_get ms ''detail'' of
             None \<Rightarrow> ''request_failed''
           | Some (JStr s) \<Rightarrow> s
           | Some (JArr _) \<Rightarrow> ''validation_error''
           | Some (JObj ds) \<Rightarrow>
               (case js_map_get ds ''code'' of Some (JStr c) \<Rightarrow> c | _ \<Rightarrow> ''request_failed'')
           | Some _ \<Rightarrow> ''request_failed'')
      | _ \<Rightarrow> ''request_failed'')"

definition readError :: "http_response \<Rightarrow> string" where
  "readError r =
     (let fallback = (if res_status r \<ge> 500 then ''network_error''
                      else or_str (res_statusText r) ''request_failed'')
      in case res_json r of
           None \<Rightarrow> fallback
         | Some body \<Rightarrow>
             (let detail = errorDetail body
              in if detail \<noteq> ''request_failed'' then detail else fallback))"

section \<open>Fetching\<close>

text \<open>\<^verbatim>\<open>baseURL\<close>: the configured address without one trailing slash.\<close>

definition baseURL :: "string \<Rightarrow> string" where
  "baseURL configured =
     (if configured \<noteq> [] \<and> last configured = CHR ''/'' then butlast configured else configured)"

definition fetch_target :: "string \<Rightarrow> string \<Rightarrow> string" where
  "fetch_target base path =
     (if base \<noteq> [] \<and> (path = base \<or> starts_with (base @ ''/'') path) then path else base @ path)"

definition apiFetch_request :: "string \<Rightarrow> string \<Rightarrow> RequestInit \<Rightarrow> http_request" where
  "apiFetch_request base path init =
     \<lparr>hr_url = fetch_target base path,
      hr_method = (case init_method init of None \<Rightarrow> ''GET'' | Some m \<Rightarrow> m),
      hr_headers = headers_of (init_headers init),
      hr_body = init_body init,
      hr_cache = ''no-store''\<rparr>"

definition apiFetch_result :: "fetch_result \<Rightarrow> client_error + http_response" where
  "apiFetch_result res =
     (case res of NetworkFailure \<Rightarrow> Inl (ApiError 0 ''network_error'') | Response r \<Rightarrow> Inr r)"

text \<open>The common tail of the authenticated callers on a response that is not ok.\<close>

definition reject_response ::
    "string \<Rightarrow> http_response \<Rightarrow> browser \<Rightarrow> client_error \<times> browser" where
  "reject_response token r b =
     (let detail = readError r
      in (ApiError (res_status r) detail,
          if res_status r = 401 \<and> token \<noteq> [] \<and> detail \<in> set authenticationFailureCodes
          then redirectForAuthenticationFailure detail b else b))"

definition request_headers :: "string \<Rightarrow> RequestInit \<Rightarrow> (string \<times> string) list" where
  "request_headers token init =
     (let hs = header_set ''Accept'' ''application/json'' (headers_of (init_headers init))
      in if token \<noteq> [] then header_set ''Authorization'' (''Bearer '' @ token) hs else hs)"

definition request_send ::
    "string \<Rightarrow> (string \<Rightarrow> int option) \<Rightarrow> int \<Rightarrow> string \<Rightarrow> RequestInit \<Rightarrow> browser
       \<Rightarrow> string \<times> http_request \<times> browser" where
  "request_send base parse now path init b =
     (let (token, b') = activeManagementToken parse now b
      in (token,
          (apiFetch_request base path init)\<lparr>hr_headers := request_headers token init\<rparr>, b'))"

definition request_receive ::
    "string \<Rightarrow> fetch_result \<Rightarrow> browser \<Rightarrow> (client_error + json option) \<times> browser" where
  "request_receive token res b =
     (case apiFetch_result res of
        Inl e \<Rightarrow> (Inl e, b)
      | Inr r \<Rightarrow>
          if \<not> res_ok r then (let (e, b') = reject_response token r b in (Inl e, b'))
          else if res_status r = 204 then (Inr None, b)
          else (case res_json r of None \<Rightarrow> (Inl InvalidJson, b) | Some v \<Rightarrow> (Inr (Some v), b)))"

definition requestPublic_send :: "string \<Rightarrow> string \<Rightarrow> http_request" where
  "requestPublic_send base path =
     apiFetch_request base path
       (empty_init\<lparr>init_headers := [(''Accept'', ''application/json'')]\<rparr>)"

definition requestPublic_receive :: "fetch_result \<Rightarrow> client_error + json option" where
  "requestPublic_receive res =
     (case apiFetch_result res of
        Inl e \<Rightarrow> Inl e
      | Inr r \<Rightarrow>
          if \<not> res_ok r then Inl (ApiError (res_status r) (readError r))
          else if res_status r = 204 then Inr None
          else (case res_json r of None \<Rightarrow> Inl InvalidJson | Some v \<Rightarrow> Inr (Some v)))"

definition requestPublicText_send :: "string \<Rightarrow> string \<Rightarrow> http_request" where
  "requestPublicText_send base path =
     apiFetch_request base path (empty_init\<lparr>init_headers := [(''Accept'', ''text/plain'')]\<rparr>)"

definition requestPublicText_receive :: "fetch_result \<Rightarrow> client_error + string" where
  "requestPublicText_receive res =
     (case apiFetch_result res of
        Inl e \<Rightarrow> Inl e
      | Inr r \<Rightarrow> if \<not> res_ok r then Inl (ApiError (res_status r) (readError r)) else Inr (res_text r))"

definition requestText_send ::
    "string \<Rightarrow> (string \<Rightarrow> int option) \<Rightarrow> int \<Rightarrow> string \<Rightarrow> browser
       \<Rightarrow> string \<times> http_request \<times> browser" where
  "requestText_send base parse now path b =
     (let (token, b') = activeManagementToken parse now b
      in (token,
          apiFetch_request base path
            (empty_init\<lparr>init_headers :=
               (if token \<noteq> [] then [(''Authorization'', ''Bearer '' @ token)] else [])\<rparr>), b'))"

definition requestText_receive ::
    "string \<Rightarrow> fetch_result \<Rightarrow> browser \<Rightarrow> (client_error + string) \<times> browser" where
  "requestText_receive token res b =
     (case apiFetch_result res of
        Inl e \<Rightarrow> (Inl e, b)
      | Inr r \<Rightarrow>
          if \<not> res_ok r then (let (e, b') = reject_response token r b in (Inl e, b'))
          else (Inr (res_text r), b))"

definition requestForm_send ::
    "string \<Rightarrow> (string \<Rightarrow> int option) \<Rightarrow> int \<Rightarrow> string \<Rightarrow> (string \<times> form_value) list \<Rightarrow> browser
       \<Rightarrow> string \<times> http_request \<times> browser" where
  "requestForm_send base parse now path form b =
     (let (token, b') = activeManagementToken parse now b;
          headers = (if token \<noteq> [] then header_set ''Authorization'' (''Bearer '' @ token) [] else [])
      in (token,
          (apiFetch_request base path
             (empty_init\<lparr>init_method := Some ''POST'', init_body := Some (FormBody form)\<rparr>))
             \<lparr>hr_headers := headers\<rparr>, b'))"

definition requestForm_receive ::
    "string \<Rightarrow> fetch_result \<Rightarrow> browser \<Rightarrow> (client_error + json) \<times> browser" where
  "requestForm_receive token res b =
     (case apiFetch_result res of
        Inl e \<Rightarrow> (Inl e, b)
      | Inr r \<Rightarrow>
          if \<not> res_ok r then (let (e, b') = reject_response token r b in (Inl e, b'))
          else (case res_json r of None \<Rightarrow> (Inl InvalidJson, b) | Some v \<Rightarrow> (Inr v, b)))"

definition jsonRequest :: "string \<Rightarrow> json option \<Rightarrow> RequestInit" where
  "jsonRequest meth body =
     \<lparr>init_method = Some meth,
      init_headers = (case body of None \<Rightarrow> [] | Some _ \<Rightarrow> [(''Content-Type'', ''application/json'')]),
      init_body = map_option (\<lambda>j. TextBody (stringify j)) body\<rparr>"

text \<open>\<^verbatim>\<open>createIdempotencyKey\<close>: \<open>uuid\<close> is what \<^verbatim>\<open>crypto.randomUUID\<close> returns, \<open>None\<close> where it is missing;
  then the clock and the hexadecimal digits of a random number are used.\<close>

definition createIdempotencyKey :: "string option \<Rightarrow> int \<Rightarrow> string \<Rightarrow> string \<Rightarrow> string" where
  "createIdempotencyKey uuid now random_hex prefix =
     (let suffix = (case uuid of Some u \<Rightarrow> u | None \<Rightarrow> show_int now @ ''-'' @ drop 2 random_hex)
      in prefix @ '':'' @ suffix)"

section \<open>The contract of an authenticated call\<close>

text \<open>What the three authenticated callers share, and what follows from it for the session; \<open>own\<close> is the
  authorization that the caller itself put into the request.\<close>

locale authenticated_call =
  fixes send :: "(string \<Rightarrow> int option) \<Rightarrow> int \<Rightarrow> browser \<Rightarrow> string \<times> http_request \<times> browser"
    and receive :: "string \<Rightarrow> fetch_result \<Rightarrow> browser \<Rightarrow> (client_error + 'r) \<times> browser"
    and own :: "string option"
  assumes send_token: "fst (send parse now b) = fst (activeManagementToken parse now b)"
    and send_browser: "snd (snd (send parse now b)) = snd (activeManagementToken parse now b)"
    and send_header: "fst (send parse now b) \<noteq> [] \<Longrightarrow>
       header_get (hr_headers (fst (snd (send parse now b)))) ''Authorization''
         = Some (''Bearer '' @ fst (send parse now b))"
    and send_no_header: "fst (send parse now b) = [] \<Longrightarrow>
       header_get (hr_headers (fst (snd (send parse now b)))) ''Authorization'' = own"
    and send_no_store: "hr_cache (fst (snd (send parse now b))) = ''no-store''"
    and receive_down: "receive token NetworkFailure b = (Inl (ApiError 0 ''network_error''), b)"
    and receive_ok: "res_ok r \<Longrightarrow> snd (receive token (Response r) b) = b"
    and receive_bad: "\<not> res_ok r \<Longrightarrow> receive token (Response r) b
       = (Inl (fst (reject_response token r b)), snd (reject_response token r b))"
begin

lemma send_bearer_current:
  assumes "fst (send parse now b) \<noteq> []"
  shows "fst (send parse now b) = managementToken b" "\<not> storedSessionExpired parse now b"
    and "snd (snd (send parse now b)) = b"
  using assms send_token [of parse now b] send_browser [of parse now b]
  by (auto simp: activeManagementToken_def Let_def split: if_splits)

text \<open>The authorization of a request, as a function of the stored session.\<close>

lemma send_authorization:
  "header_get (hr_headers (fst (snd (send parse now b)))) ''Authorization'' =
     (if managementToken b = [] \<or> storedSessionExpired parse now b then own else Some (''Bearer '' @ managementToken b))"
proof (cases "fst (send parse now b) = []")
  case True
  then have "managementToken b = [] \<or> storedSessionExpired parse now b"
    using send_token [of parse now b] by (auto simp: activeManagementToken_def Let_def split: if_splits)
  with send_no_header [OF True] show ?thesis by simp
next
  case False
  with send_header [OF False] send_bearer_current [OF False] show ?thesis by simp
qed

lemma send_expired:
  assumes "managementToken b \<noteq> []" "storedSessionExpired parse now b"
  shows "fst (send parse now b) = []" "managementToken (snd (snd (send parse now b))) = []"
  using active_token_expired [OF assms] by (simp_all add: send_token send_browser)

lemma receive_session_loss:
  assumes "managementToken (snd (receive token res b)) \<noteq> managementToken b"
  obtains r where "res = Response r" "res_status r = 401" "token \<noteq> []"
    "readError r \<in> set authenticationFailureCodes"
    "snd (receive token res b) = redirectForAuthenticationFailure (readError r) b"
proof (cases res)
  case NetworkFailure
  with assms show ?thesis by (simp add: receive_down)
next
  case (Response r)
  show ?thesis
  proof (cases "res_ok r")
    case True
    with assms Response show ?thesis by (simp add: receive_ok)
  next
    case False
    with assms Response that show ?thesis
      by (auto simp: receive_bad reject_response_def Let_def split: if_splits)
  qed
qed

lemma receive_wf [inv_intros]: "session_wf b \<Longrightarrow> session_wf (snd (receive token res b))"
proof (cases res)
  case NetworkFailure
  moreover assume "session_wf b"
  ultimately show ?thesis by (simp add: receive_down)
next
  case (Response r)
  moreover assume "session_wf b"
  ultimately show ?thesis
    by (cases "res_ok r")
       (auto simp: receive_ok receive_bad reject_response_def Let_def intro: inv_intros)
qed

lemma send_wf [inv_intros]: "session_wf b \<Longrightarrow> session_wf (snd (snd (send parse now b)))"
  by (auto simp: send_browser intro: inv_intros)

end

lemma js_map_get_filter: "k' \<noteq> k \<Longrightarrow> js_map_get (filter (\<lambda>p. fst p \<noteq> k) ps) k' = js_map_get ps k'"
  by (induction ps) (auto simp: js_map_get_def map_add_def split: option.splits)

lemma params_set_other: "k' \<noteq> k \<Longrightarrow> js_map_get (params_set k v ps) k' = js_map_get ps k'"
proof -
  assume k: "k' \<noteq> k"
  let ?n = "\<lambda>p. fst p \<noteq> k"
  have "filter ?n ps = filter ?n (takeWhile ?n ps) @ filter ?n (dropWhile ?n ps)"
    by (metis filter_append takeWhile_dropWhile_id)
  then have "filter ?n (params_set k v ps) = filter ?n ps" by (simp add: params_set_def Let_def)
  then show ?thesis using js_map_get_filter [OF k, of "params_set k v ps"] js_map_get_filter [OF k, of ps] by simp
qed

lemma header_get_set_other: "to_lower k \<noteq> to_lower k' \<Longrightarrow> header_get (header_set k v hs) k' = header_get hs k'"
  by (simp add: header_get_def header_set_def params_set_other)

lemma accept_not_authorization: "to_lower ''Accept'' \<noteq> to_lower ''Authorization''"
  by code_simp

lemma header_get_none [simp]: "header_get [] k = None" "headers_of [] = []"
  by (simp_all add: header_get_def js_map_get_def headers_of_def)

lemma header_get_single [simp]: "header_get (headers_of [(k, v)]) k = Some v"
  by (simp add: headers_of_def)

lemma reject_response_split:
  "(let (e, b') = reject_response token r b in (Inl e, b'))
   = (Inl (fst (reject_response token r b)), snd (reject_response token r b))"
  by (simp add: split_beta)

interpretation rq: authenticated_call
    "\<lambda>parse now. request_send base parse now path init" request_receive
    "header_get (headers_of (init_headers init)) ''Authorization''"
  by unfold_locales
     (auto simp: request_send_def request_receive_def request_headers_def apiFetch_request_def
        apiFetch_result_def Let_def split_beta header_get_set_other accept_not_authorization split: option.splits)

interpretation rt: authenticated_call
    "\<lambda>parse now. requestText_send base parse now path" requestText_receive None
  by unfold_locales
     (auto simp: requestText_send_def requestText_receive_def apiFetch_request_def
        apiFetch_result_def Let_def split_beta)

interpretation rf: authenticated_call
    "\<lambda>parse now. requestForm_send base parse now path form" requestForm_receive None
  by unfold_locales
     (auto simp: requestForm_send_def requestForm_receive_def apiFetch_request_def
        apiFetch_result_def Let_def split_beta split: option.splits)

section \<open>Further lemmas\<close>

lemma fetch_target_prefixed:
  "starts_with ''/'' path \<Longrightarrow> fetch_target base (fetch_target base path) = fetch_target base path"
  by (auto simp: fetch_target_def starts_with_iff)

lemma errorDetail_not_object: "(\<And>ms. body \<noteq> JObj ms) \<Longrightarrow> errorDetail body = ''request_failed''"
  by (cases body) (auto simp: errorDetail_def)

lemma readError_server:
  "res_status r \<ge> 500 \<Longrightarrow> res_json r = None \<Longrightarrow> readError r = ''network_error''"
  by (simp add: readError_def)

lemma jsonRequest_body_inject:
  "init_body (jsonRequest m (Some j)) = init_body (jsonRequest m' (Some j')) \<longleftrightarrow> j = j'"
  by (simp add: jsonRequest_def)

section \<open>Properties\<close>

text \<open>C4: an authenticated request, of any of the three kinds, whose caller sets no authorization itself, carries
  the stored token as its bearer when there is one and the stored session has not expired, and no
  authorization at all otherwise; an expired session is never sent.  Sending with a current session
  changes nothing in the browser.\<close>

theorem bearer_is_current:
  assumes "header_get (headers_of (init_headers init)) ''Authorization'' = None"
    and "(token, req, b') \<in> {request_send base parse now path init b, requestText_send base parse now path b,
           requestForm_send base parse now path form b}"
  shows "header_get (hr_headers req) ''Authorization'' =
           (if managementToken b = [] \<or> storedSessionExpired parse now b then None
            else Some (''Bearer '' @ managementToken b)) \<and>
         token = (if storedSessionExpired parse now b then [] else managementToken b) \<and>
         (token \<noteq> [] \<longrightarrow> b' = b)"
proof -
  have tok: "fst (activeManagementToken parse now b) = (if storedSessionExpired parse now b then [] else managementToken b)"
    by (simp add: activeManagementToken_def Let_def)
  have "b' = b" if "token \<noteq> []"
    using assms(2) that rq.send_bearer_current(3) [where base = base and path = path and init = init and parse = parse and now = now and b = b]
      rt.send_bearer_current(3) [where base = base and path = path and parse = parse and now = now and b = b]
      rf.send_bearer_current(3) [where base = base and path = path and form = form and parse = parse and now = now and b = b]
    by (metis (no_types, lifting) fst_conv insert_iff singleton_iff snd_conv)
  moreover have "token = fst (activeManagementToken parse now b)"
    using assms(2) rq.send_token [where base = base and path = path and init = init and parse = parse and now = now and b = b]
      rt.send_token [where base = base and path = path and parse = parse and now = now and b = b]
      rf.send_token [where base = base and path = path and form = form and parse = parse and now = now and b = b]
    by (metis fst_conv insert_iff singleton_iff)
  moreover have "header_get (hr_headers req) ''Authorization'' =
      (if managementToken b = [] \<or> storedSessionExpired parse now b then None else Some (''Bearer '' @ managementToken b))"
    using assms rq.send_authorization [where base = base and path = path and init = init and parse = parse and now = now and b = b]
      rt.send_authorization [where base = base and path = path and parse = parse and now = now and b = b]
      rf.send_authorization [where base = base and path = path and form = form and parse = parse and now = now and b = b]
    by (metis (no_types, lifting) fst_conv insert_iff singleton_iff snd_conv)
  ultimately show ?thesis using tok by simp
qed

theorem bearer_is_current_witness:
  "header_get (hr_headers (fst (snd (request_send ''https://cp'' (\<lambda>_. Some 200) 100 ''/api/v1/sites'' empty_init
       (saveManagementSession ''tok'' RoleAdmin ''later'' demo_browser))))) ''Authorization'' = Some ''Bearer tok'' \<and>
   header_get (hr_headers (fst (snd (request_send ''https://cp'' (\<lambda>_. Some 200) 300 ''/api/v1/sites'' empty_init
       (saveManagementSession ''tok'' RoleAdmin ''later'' demo_browser))))) ''Authorization'' = None"
proof -
  let ?b = "saveManagementSession ''tok'' RoleAdmin ''later'' demo_browser"
  have i: "header_get (headers_of (init_headers empty_init)) ''Authorization'' = None" by (simp add: empty_init_def)
  have tok: "managementToken ?b = ''tok''" "\<not> storedSessionExpired (\<lambda>_. Some 200) 100 ?b" "storedSessionExpired (\<lambda>_. Some 200) 300 ?b"
    by code_simp+
  have r: "request_send base parse now path init b \<in> {request_send base parse now path init b, requestText_send base parse now path b,
      requestForm_send base parse now path [] b}" for base parse now path init b by simp
  show ?thesis
    using bearer_is_current [OF i, where token = "fst (request_send ''https://cp'' (\<lambda>_. Some 200) 100 ''/api/v1/sites'' empty_init ?b)"
        and req = "fst (snd (request_send ''https://cp'' (\<lambda>_. Some 200) 100 ''/api/v1/sites'' empty_init ?b))"
        and b' = "snd (snd (request_send ''https://cp'' (\<lambda>_. Some 200) 100 ''/api/v1/sites'' empty_init ?b))"
        and base = "''https://cp''" and parse = "\<lambda>_. Some 200" and now = 100 and path = "''/api/v1/sites''" and b = ?b and form = "[]"]
      bearer_is_current [OF i, where token = "fst (request_send ''https://cp'' (\<lambda>_. Some 200) 300 ''/api/v1/sites'' empty_init ?b)"
        and req = "fst (snd (request_send ''https://cp'' (\<lambda>_. Some 200) 300 ''/api/v1/sites'' empty_init ?b))"
        and b' = "snd (snd (request_send ''https://cp'' (\<lambda>_. Some 200) 300 ''/api/v1/sites'' empty_init ?b))"
        and base = "''https://cp''" and parse = "\<lambda>_. Some 200" and now = 300 and path = "''/api/v1/sites''" and b = ?b and form = "[]"]
    by (simp add: tok)
qed

text \<open>C5: a response takes the stored session away only when it is a 401 whose error code is one of
  the five authentication failure codes and the request carried a token; then all session keys
  are gone and the client has been sent to the login page (unless it is there already).  Every other
  response, a network failure included, leaves the browser as it was.\<close>

theorem session_lost_only_on_401:
  shows "let (result, b') = request_receive token res b in
     b' = b \<or>
     (\<exists>r. res = Response r \<and> res_status r = 401 \<and> token \<noteq> [] \<and>
          readError r \<in> set authenticationFailureCodes \<and> \<not> res_ok r \<and>
          result = Inl (ApiError 401 (readError r)) \<and>
          b' = redirectForAuthenticationFailure (readError r) b)"
  by (auto simp: request_receive_def reject_response_def apiFetch_result_def Let_def
        split: fetch_result.splits option.splits)

text \<open>The address that is fetched never gets the base prefix twice: a path that already starts
  with the configured base is fetched as it is, every other path exactly once below it.\<close>

theorem fetch_target_prefix_once:
  assumes "starts_with ''/'' path"
  shows "fetch_target base (fetch_target base path) = fetch_target base path \<and>
     starts_with base (fetch_target base path)"
  using assms fetch_target_prefixed by (auto simp: fetch_target_def starts_with_iff)

theorem fetch_target_prefix_once_witness:
  "fetch_target ''/cp'' ''/api'' = ''/cp/api'' \<and>
   fetch_target ''/cp'' (fetch_target ''/cp'' ''/api'') = fetch_target ''/cp'' ''/api'' \<and>
   starts_with ''/cp'' (fetch_target ''/cp'' ''/api'')"
  using fetch_target_prefix_once [of "''/api''" "''/cp''"] by (simp add: fetch_target_def)

end
