(* ===== verification/Formatters.thy ===== *)
theory Formatters
  imports Http_Client Doubles
begin

text \<open>
  The presentation helpers of \<^verbatim>\<open>src/frontend/lib/utils.ts\<close>.

  The \<^verbatim>\<open>Intl\<close> formatters depend on the locale data of the browser, so they are parameters:
  \<open>nf\<close> is \<^verbatim>\<open>new Intl.NumberFormat(locale, options)\<close> and what its \<^verbatim>\<open>format\<close> answers, \<open>df\<close> the two date
  formatters, \<open>rtf\<close> the relative-time formatter.  A number is \<open>Finite\<close> with a rational value, or
  \<open>NotFinite\<close> (\<open>NaN\<close> and the infinities); a quotient is rounded as the language does (\<open>dbl\<close>).  The memo table of number formatters is an explicit state.
\<close>

datatype js_number = Finite rat | NotFinite

type_synonym number_format = "json option \<Rightarrow> rat \<Rightarrow> string"
type_synonym format_cache = "string \<rightharpoonup> (rat \<Rightarrow> string)"

definition cn :: "string option list \<Rightarrow> string" where
  "cn values = join '' '' (filter (\<lambda>v. v \<noteq> []) (map (\<lambda>v. case v of None \<Rightarrow> [] | Some s \<Rightarrow> s) values))"

fun upper_at_boundaries :: "bool \<Rightarrow> string \<Rightarrow> string" where
  "upper_at_boundaries after_word [] = []"
| "upper_at_boundaries after_word (c # cs) =
     (if is_word_char c \<and> \<not> after_word then upper_ascii c else c)
       # upper_at_boundaries (is_word_char c) cs"

definition label :: "string \<Rightarrow> string" where
  "label value = upper_at_boundaries False (replace_char (CHR ''_'') '' '' value)"

definition shortHash :: "string \<Rightarrow> nat \<Rightarrow> string" where
  "shortHash value len =
     (if value = [] then ''-''
      else if length value \<le> len then value else take len value @ ''...'')"

section \<open>The memo table of number formatters\<close>

definition numberFormatter ::
    "number_format \<Rightarrow> json option \<Rightarrow> format_cache \<Rightarrow> (rat \<Rightarrow> string) \<times> format_cache" where
  "numberFormatter nf options cache =
     (let key = stringify (case options of None \<Rightarrow> JObj [] | Some j \<Rightarrow> j)
      in case cache key of
           Some formatter \<Rightarrow> (formatter, cache)
         | None \<Rightarrow> (nf options, cache(key \<mapsto> nf options)))"

definition formatNumber ::
    "number_format \<Rightarrow> js_number option \<Rightarrow> json option \<Rightarrow> format_cache \<Rightarrow> string \<times> format_cache" where
  "formatNumber nf value options cache =
     (case value of
        Some (Finite x) \<Rightarrow>
          (let (formatter, cache') = numberFormatter nf options cache in (formatter x, cache'))
      | _ \<Rightarrow> (''-'', cache))"

section \<open>Dates\<close>

definition formatDate ::
    "(bool \<Rightarrow> int \<Rightarrow> string) \<Rightarrow> (string \<Rightarrow> int option) \<Rightarrow> string option \<Rightarrow> bool \<Rightarrow> string" where
  "formatDate df parse value withTime =
     (if \<not> truthy_str value then ''-''
      else (case parse (the value) of None \<Rightarrow> ''-'' | Some time \<Rightarrow> df withTime time))"

text \<open>\<^verbatim>\<open>Math.round(milliseconds / 60_000)\<close>: the nearest minute, halves upwards.  A quotient that is not a half
  is further from one than its rounding error, so the integers decide.\<close>

definition round_minutes :: "int \<Rightarrow> int" where
  "round_minutes ms = (2 * ms + 60000) div 120000"

definition formatDurationUntil ::
    "(int \<Rightarrow> string \<Rightarrow> string) \<Rightarrow> (string \<Rightarrow> int option) \<Rightarrow> int \<Rightarrow> string option \<Rightarrow> string" where
  "formatDurationUntil rtf parse now value =
     (if \<not> truthy_str value then ''-''
      else (case parse (the value) of
              None \<Rightarrow> ''-''
            | Some time \<Rightarrow>
                (let minutes = round_minutes (time - now)
                 in if minutes < 0 then rtf 0 ''minute''
                    else if minutes < 60 then rtf minutes ''minute''
                    else (let hours = minutes div 60
                          in if hours < 48 then rtf hours ''hour''
                             else rtf (hours div 24) ''day''))))"

section \<open>Scaled numbers\<close>

definition percent_options :: json where
  "percent_options = JObj [(''style'', JStr ''percent''), (''maximumFractionDigits'', JNum 0)]"

definition formatPercent ::
    "number_format \<Rightarrow> js_number option \<Rightarrow> format_cache \<Rightarrow> string \<times> format_cache" where
  "formatPercent nf value cache =
     (case value of
        Some (Finite x) \<Rightarrow> formatNumber nf (Some (Finite (dbl (x / 100)))) (Some percent_options) cache
      | _ \<Rightarrow> (''-'', cache))"

definition unit_options :: "string \<Rightarrow> int \<Rightarrow> json" where
  "unit_options unit digits =
     JObj [(''style'', JStr ''unit''), (''unit'', JStr unit), (''unitDisplay'', JStr ''short''),
           (''maximumFractionDigits'', JNum digits)]"

definition byte_units :: "string list" where
  "byte_units = [''byte'', ''kilobyte'', ''megabyte'', ''gigabyte'', ''terabyte'']"

function scale_bytes :: "rat \<Rightarrow> nat \<Rightarrow> rat \<times> nat" where
  "scale_bytes amount unitIndex =
     (if amount \<ge> 1000 \<and> unitIndex < length byte_units - 1
      then scale_bytes (dbl (amount / 1000)) (unitIndex + 1) else (amount, unitIndex))"
  by pat_completeness auto
termination by (relation "measure (\<lambda>(_, i). length byte_units - i)") auto

declare scale_bytes.simps [simp del]

definition formatBytes ::
    "number_format \<Rightarrow> js_number option \<Rightarrow> format_cache \<Rightarrow> string \<times> format_cache" where
  "formatBytes nf value cache =
     (case value of
        Some (Finite x) \<Rightarrow>
          if x < 0 then (''-'', cache)
          else (let (amount, unitIndex) = scale_bytes x 0;
                    (formatter, cache') =
                      numberFormatter nf
                        (Some (unit_options (byte_units ! unitIndex) (if unitIndex = 0 then 0 else 1)))
                        cache
                in (formatter amount, cache'))
      | _ \<Rightarrow> (''-'', cache))"

definition formatDuration ::
    "number_format \<Rightarrow> js_number option \<Rightarrow> format_cache \<Rightarrow> string \<times> format_cache" where
  "formatDuration nf value cache =
     (case value of
        Some (Finite x) \<Rightarrow>
          if x < 0 then (''-'', cache)
          else if x < 1000 then formatNumber nf value (Some (unit_options ''millisecond'' 0)) cache
          else if x < 60000
            then formatNumber nf (Some (Finite (dbl (x / 1000)))) (Some (unit_options ''second'' 1)) cache
          else if x < 3600000
            then formatNumber nf (Some (Finite (dbl (x / 60000)))) (Some (unit_options ''minute'' 1)) cache
          else formatNumber nf (Some (Finite (dbl (x / 3600000)))) (Some (unit_options ''hour'' 1)) cache
      | _ \<Rightarrow> (''-'', cache))"

section \<open>Lemmas\<close>

text \<open>A memo table is sound when each entry is the formatter of the options its key was printed
  from.  Printing options is injective, so a hit never returns the formatter of other options.\<close>

definition cache_sound :: "number_format \<Rightarrow> format_cache \<Rightarrow> bool" where
  "cache_sound nf cache \<longleftrightarrow>
     (\<forall>options f. cache (stringify options) = Some f \<longrightarrow> f = nf (Some options))"

lemma cache_sound_empty: "cache_sound nf Map.empty"
  by (simp add: cache_sound_def)

lemma numberFormatter_sound:
  assumes sound: "cache_sound nf cache" and undef: "nf None = nf (Some (JObj []))"
  shows "fst (numberFormatter nf options cache) = nf options"
    and "cache_sound nf (snd (numberFormatter nf options cache))"
proof -
  define j where "j = (case options of None \<Rightarrow> JObj [] | Some j \<Rightarrow> j)"
  have j: "nf (Some j) = nf options" using undef by (simp add: j_def split: option.splits)
  have step: "numberFormatter nf options cache =
      (case cache (stringify j) of Some f \<Rightarrow> (f, cache)
       | None \<Rightarrow> (nf options, cache(stringify j \<mapsto> nf options)))"
    unfolding numberFormatter_def Let_def j_def [symmetric] ..
  show "fst (numberFormatter nf options cache) = nf options"
    using sound j by (auto simp: step cache_sound_def split: option.splits)
  show "cache_sound nf (snd (numberFormatter nf options cache))"
    using sound j by (auto simp: step cache_sound_def split: option.splits)
qed

text \<open>Each division keeps the amount up to half a unit in the last place.\<close>

lemma scale_step:
  assumes "1000 \<le> (amount :: rat)"
  shows "amount * (1 - 1 / 2 ^ 53) \<le> dbl (amount / 1000) * 1000" "dbl (amount / 1000) * 1000 \<le> amount * (1 + 1 / 2 ^ 53)"
proof -
  have "\<bar>dbl (amount / 1000) - amount / 1000\<bar> \<le> amount / 1000 / 2 ^ 53" using assms by (intro dbl_error) simp
  then have "dbl (amount / 1000) - amount / 1000 \<le> amount / 1000 / 2 ^ 53" "amount / 1000 - dbl (amount / 1000) \<le> amount / 1000 / 2 ^ 53"
    by linarith+
  then show "amount * (1 - 1 / 2 ^ 53) \<le> dbl (amount / 1000) * 1000" "dbl (amount / 1000) * 1000 \<le> amount * (1 + 1 / 2 ^ 53)"
    by (simp_all add: field_simps)
qed

lemma scale_bytes_value:
  "scale_bytes amount i = (a, u) \<Longrightarrow> 0 \<le> amount \<Longrightarrow>
     i \<le> u \<and> amount * (1 - 1 / 2 ^ 53) ^ (u - i) \<le> a * 1000 ^ (u - i) \<and>
     a * 1000 ^ (u - i) \<le> amount * (1 + 1 / 2 ^ 53) ^ (u - i)"
proof (induction amount i rule: scale_bytes.induct)
  case (1 amount i)
  show ?case
  proof (cases "amount \<ge> 1000 \<and> i < length byte_units - 1")
    case True
    let ?b = "dbl (amount / 1000)" and ?lo = "1 - 1 / 2 ^ 53 :: rat" and ?hi = "1 + 1 / 2 ^ 53 :: rat"
    have s: "scale_bytes ?b (i + 1) = (a, u)" using True "1.prems"(1) by (simp add: scale_bytes.simps [of amount i])
    have ih: "i + 1 \<le> u" "?b * ?lo ^ (u - (i + 1)) \<le> a * 1000 ^ (u - (i + 1))" "a * 1000 ^ (u - (i + 1)) \<le> ?b * ?hi ^ (u - (i + 1))"
      using "1.IH" [OF True s] dbl_nonneg [of "amount / 1000"] "1.prems"(2) by simp_all
    then have u: "u - i = Suc (u - (i + 1))" by simp
    have st: "amount * ?lo \<le> ?b * 1000" "?b * 1000 \<le> amount * ?hi" using True scale_step [of amount] by blast+
    have "amount * ?lo * ?lo ^ (u - (i + 1)) \<le> ?b * 1000 * ?lo ^ (u - (i + 1))" by (rule mult_right_mono [OF st(1)]) simp
    also have "\<dots> \<le> a * 1000 ^ (u - (i + 1)) * 1000" using mult_right_mono [OF ih(2), of 1000] by (simp add: mult_ac)
    finally have lo: "amount * ?lo ^ (u - i) \<le> a * 1000 ^ (u - i)" unfolding u by (simp add: mult_ac)
    have "a * 1000 ^ (u - (i + 1)) * 1000 \<le> ?b * 1000 * ?hi ^ (u - (i + 1))" using mult_right_mono [OF ih(3), of 1000] by (simp add: mult_ac)
    also have "\<dots> \<le> amount * ?hi * ?hi ^ (u - (i + 1))" by (rule mult_right_mono [OF st(2)]) simp
    finally have "a * 1000 ^ (u - i) \<le> amount * ?hi ^ (u - i)" unfolding u by (simp add: mult_ac)
    with lo ih(1) show ?thesis by simp
  next
    case False
    with "1.prems" show ?thesis by (simp add: scale_bytes.simps [of amount i] split: if_splits)
  qed
qed

lemma scale_bytes_bounds:
  "scale_bytes amount i = (a, u) \<Longrightarrow> i \<le> 4 \<Longrightarrow> amount \<ge> 0 \<Longrightarrow> (i > 0 \<longrightarrow> amount \<ge> 1)
     \<Longrightarrow> u \<le> 4 \<and> 0 \<le> a \<and> (u < 4 \<longrightarrow> a < 1000) \<and> (u > 0 \<longrightarrow> a \<ge> 1)"
proof (induction amount i rule: scale_bytes.induct)
  case (1 amount i)
  show ?case
  proof (cases "amount \<ge> 1000 \<and> i < length byte_units - 1")
    case True
    then have "1 \<le> dbl (amount / 1000)" by (intro dbl_ge_one) simp
    with True 1 show ?thesis by (auto simp: scale_bytes.simps [of amount i] byte_units_def)
  next
    case False
    with "1.prems" show ?thesis
      by (auto simp: scale_bytes.simps [of amount i] byte_units_def split: if_splits)
  qed
qed

lemma round_minutes_nearest: "2 * \<bar>60000 * round_minutes ms - ms\<bar> \<le> 60000"
proof -
  define q r where "q = (2 * ms + 60000) div 120000" and "r = (2 * ms + 60000) mod 120000"
  have "2 * ms + 60000 = 120000 * q + r" "0 \<le> r" "r < 120000"
    by (simp_all add: q_def r_def)
  then show ?thesis unfolding round_minutes_def q_def [symmetric] by (simp add: abs_le_iff)
qed

lemma length_label [simp]: "length (label s) = length s"
proof -
  have "length (upper_at_boundaries b xs) = length xs" for b xs
    by (induction b xs rule: upper_at_boundaries.induct) auto
  moreover have "length (replace_char c [d] xs) = length xs" for c d xs
    by (induction xs) (auto simp: replace_char_def)
  ultimately show ?thesis by (simp add: label_def)
qed

section \<open>Properties\<close>

text \<open>C38: the memo table of number formatters is invisible: starting from a sound table, every
  lookup answers with the formatter of exactly the options asked for and leaves a sound table.  The
  hypothesis on \<open>nf\<close> is the documented behaviour of \<^verbatim>\<open>Intl.NumberFormat\<close>: missing options count as an
  empty object.\<close>

theorem number_format_cache_transparent:
  assumes "cache_sound nf cache" and "nf None = nf (Some (JObj []))"
  shows "formatNumber nf (Some (Finite x)) options cache
           = (nf options x, snd (numberFormatter nf options cache)) \<and>
         cache_sound nf (snd (formatNumber nf value options cache))"
proof
  show "formatNumber nf (Some (Finite x)) options cache
           = (nf options x, snd (numberFormatter nf options cache))"
    using numberFormatter_sound(1) [OF assms, of options] by (simp add: formatNumber_def split_beta)
  show "cache_sound nf (snd (formatNumber nf value options cache))"
    using assms numberFormatter_sound(2) [OF assms, of options]
    by (simp add: formatNumber_def split_beta split: option.splits js_number.splits)
qed

definition demo_format :: number_format where
  "demo_format options x =
     (case options of Some (JObj (m # ms)) \<Rightarrow> ''unit'' | _ \<Rightarrow> ''plain'')"

lemma demo_unit: "demo_format (Some percent_options) x = ''unit''"
  by (simp add: demo_format_def percent_options_def)

theorem number_format_cache_transparent_witness:
  "fst (formatNumber demo_format (Some (Finite 3)) (Some percent_options) Map.empty) = ''unit'' \<and>
   cache_sound demo_format (snd (formatNumber demo_format (Some (Finite 3)) (Some percent_options) Map.empty))"
proof -
  have "demo_format None = demo_format (Some (JObj []))" by (simp add: demo_format_def fun_eq_iff)
  from number_format_cache_transparent [OF cache_sound_empty this, of 3 "Some percent_options"
      "Some (Finite 3)"]
  show ?thesis by (metis (no_types, lifting) fst_conv demo_unit)
qed

text \<open>C39: a byte count is shown in the largest unit that fits: the loop ends for every
  non-negative amount; the scaled amount times the unit is the original amount up to the rounding of
  the divisions, half a unit in the last place for each; it is below 1000
  unless the unit is the largest one, and at least 1 unless the unit is the byte.\<close>

theorem scale_bytes_correct:
  assumes "0 \<le> x"
  shows "let (amount, u) = scale_bytes x 0 in
     x * (1 - 1 / 2 ^ 53) ^ u \<le> amount * 1000 ^ u \<and> amount * 1000 ^ u \<le> x * (1 + 1 / 2 ^ 53) ^ u \<and>
     u < length byte_units \<and> (u < length byte_units - 1 \<longrightarrow> amount < 1000) \<and> (0 < u \<longrightarrow> 1 \<le> amount)"
proof -
  obtain a u where r: "scale_bytes x 0 = (a, u)" by fastforce
  from scale_bytes_value [OF r assms] scale_bytes_bounds [OF r] assms show ?thesis
    by (auto simp: r byte_units_def)
qed

theorem scale_bytes_correct_witness:
  "scale_bytes 1500000 0 = (3 / 2, 2) \<and>
   1500000 * (1 - 1 / 2 ^ 53) ^ 2 \<le> (3 / 2 :: rat) * 1000 ^ 2 \<and> (3 / 2 :: rat) * 1000 ^ 2 \<le> 1500000 * (1 + 1 / 2 ^ 53) ^ 2"
proof -
  have s: "scale_bytes 1500000 0 = (3 / 2, 2)" by code_simp
  with scale_bytes_correct [of 1500000] show ?thesis by simp
qed

end
