(* ===== verification/Preferences.thy ===== *)
theory Preferences
  imports Session
begin

text \<open>
  Locale, theme and messages: \<^verbatim>\<open>src/frontend/lib/preferences.tsx\<close>.

  \<open>msgs\<close> is the lookup \<^verbatim>\<open>messages[locale][key]\<close>; the dictionaries themselves are in \<open>Dictionary\<close>.  \<^verbatim>\<open>replaceAll\<close> with a
  string replacement expands the patterns \<open>$$\<close>, \<open>$&\<close>, \<open>$`\<close> and \<open>$'\<close> of the replacement, as the
  language defines, and the model does the same.
\<close>

datatype Locale = LocaleZh | LocaleEn | LocaleEs

datatype Theme = ThemeLight | ThemeDark

fun locale_text :: "Locale \<Rightarrow> string" where
  "locale_text LocaleZh = ''zh-CN''"
| "locale_text LocaleEn = ''en''"
| "locale_text LocaleEs = ''es''"

fun theme_text :: "Theme \<Rightarrow> string" where
  "theme_text ThemeLight = ''light''"
| "theme_text ThemeDark = ''dark''"

definition saved_locale :: "string option \<Rightarrow> Locale option" where
  "saved_locale v =
     (if v = Some ''zh-CN'' then Some LocaleZh else if v = Some ''en'' then Some LocaleEn
      else if v = Some ''es'' then Some LocaleEs else None)"

definition saved_theme :: "string option \<Rightarrow> Theme option" where
  "saved_theme v =
     (if v = Some ''light'' then Some ThemeLight else if v = Some ''dark'' then Some ThemeDark else None)"

definition localeStorageKey :: string where "localeStorageKey = ''grouproxy.locale''"

definition themeStorageKey :: string where "themeStorageKey = ''grouproxy.theme''"

section \<open>Messages\<close>

definition normalizeMessageKey :: "string \<Rightarrow> string" where
  "normalizeMessageKey key = replace_char (CHR ''.'') '' '' (replace_char (CHR ''_'') '' '' key)"

text \<open>The expansion of a replacement string of \<^verbatim>\<open>String.prototype.replaceAll\<close>: \<open>pre\<close> and \<open>post\<close> are the
  text before and after the match \<open>m\<close>.\<close>

fun expand_replacement :: "string \<Rightarrow> string \<Rightarrow> string \<Rightarrow> string \<Rightarrow> string" where
  "expand_replacement pre m post (CHR ''$'' # c # cs) =
     (if c = CHR ''$'' then CHR ''$'' # expand_replacement pre m post cs
      else if c = CHR ''&'' then m @ expand_replacement pre m post cs
      else if c = CHR 0x60 then pre @ expand_replacement pre m post cs
      else if c = CHR 0x27 then post @ expand_replacement pre m post cs
      else CHR ''$'' # expand_replacement pre m post (c # cs))"
| "expand_replacement pre m post (c # cs) = c # expand_replacement pre m post cs"
| "expand_replacement pre m post [] = []"

text \<open>\<^verbatim>\<open>replaceAll\<close> for a search string that is not empty; \<open>pre\<close> is what precedes the rest in the
  original text.\<close>

function replace_from :: "string \<Rightarrow> string \<Rightarrow> string \<Rightarrow> string \<Rightarrow> string" where
  "replace_from p r pre [] = []"
| "replace_from p r pre (c # cs) =
     (if starts_with p (c # cs)
      then (let post = drop (length p - 1) cs
            in expand_replacement pre p post r @ replace_from p r (pre @ p) post)
      else c # replace_from p r (pre @ [c]) cs)"
  by pat_completeness auto
termination by (relation "measure (\<lambda>(p, r, pre, s). length s)") auto

definition replaceAll :: "string \<Rightarrow> string \<Rightarrow> string \<Rightarrow> string" where
  "replaceAll p r s = replace_from p r [] s"

definition placeholder :: "string \<Rightarrow> string" where
  "placeholder name = ''{'' @ name @ ''}''"

definition lookup_message :: "(Locale \<Rightarrow> string \<Rightarrow> string option) \<Rightarrow> Locale \<Rightarrow> string \<Rightarrow> string" where
  "lookup_message msgs loc key =
     (if truthy_str (msgs loc key) then the (msgs loc key)
      else if truthy_str (msgs loc (normalizeMessageKey key)) then the (msgs loc (normalizeMessageKey key))
      else key)"

definition translate ::
    "(Locale \<Rightarrow> string \<Rightarrow> string option) \<Rightarrow> Locale \<Rightarrow> string \<Rightarrow> (string \<times> string) list \<Rightarrow> string" where
  "translate msgs loc key values =
     fold (\<lambda>(name, value) message. replaceAll (placeholder name) value message) values
       (lookup_message msgs loc key)"

section \<open>The provider\<close>

record preferences =
  pref_locale :: Locale
  pref_theme :: Theme
  doc_lang :: string
  doc_theme :: string
  doc_colorScheme :: string
  pref_browser :: browser

text \<open>The two effects that run after a render whose locale or theme changed.\<close>

definition apply_locale :: "preferences \<Rightarrow> preferences" where
  "apply_locale s =
     s\<lparr>doc_lang := locale_text (pref_locale s),
       pref_browser := local_set localeStorageKey (locale_text (pref_locale s)) (pref_browser s)\<rparr>"

definition apply_theme :: "preferences \<Rightarrow> preferences" where
  "apply_theme s =
     s\<lparr>doc_theme := theme_text (pref_theme s), doc_colorScheme := theme_text (pref_theme s),
       pref_browser := local_set themeStorageKey (theme_text (pref_theme s)) (pref_browser s)\<rparr>"

definition setLocale :: "Locale \<Rightarrow> preferences \<Rightarrow> preferences" where
  "setLocale l s =
     (if l = pref_locale s then s else apply_locale (s\<lparr>pref_locale := l\<rparr>))"

definition setTheme :: "Theme \<Rightarrow> preferences \<Rightarrow> preferences" where
  "setTheme th s =
     (if th = pref_theme s then s else apply_theme (s\<lparr>pref_theme := th\<rparr>))"

text \<open>Mounting: the first effect reads both saved values before the other two write the defaults;
  the state updates it scheduled are rendered afterwards.\<close>

definition PreferencesProvider_mount :: "browser \<Rightarrow> preferences" where
  "PreferencesProvider_mount b =
     (let savedLocale = saved_locale (local_get b localeStorageKey);
          savedTheme = saved_theme (local_get b themeStorageKey);
          s0 = apply_theme (apply_locale
                 \<lparr>pref_locale = LocaleZh, pref_theme = ThemeLight, doc_lang = [], doc_theme = [], doc_colorScheme = [],
                  pref_browser = b\<rparr>);
          s1 = (case savedLocale of None \<Rightarrow> s0 | Some l \<Rightarrow> setLocale l s0)
      in case savedTheme of None \<Rightarrow> s1 | Some th \<Rightarrow> setTheme th s1)"

section \<open>Lemmas\<close>

lemma saved_locale_text [simp]: "saved_locale (Some (locale_text l)) = Some l"
  by (cases l) (simp_all add: saved_locale_def)

lemma saved_theme_text [simp]: "saved_theme (Some (theme_text th)) = Some th"
  by (cases th) (simp_all add: saved_theme_def)

lemma pref_keys_neq [simp]:
  "localeStorageKey \<noteq> themeStorageKey" "themeStorageKey \<noteq> localeStorageKey"
  by (simp_all add: localeStorageKey_def themeStorageKey_def)

text \<open>A replacement without \<open>$\<close> is inserted as it is.\<close>

lemma expand_plain: "CHR ''$'' \<notin> set r \<Longrightarrow> expand_replacement pre m post r = r"
  by (induction pre m post r rule: expand_replacement.induct) auto

text \<open>A message template is text without an opening brace and holes.\<close>

datatype piece = Lit string | Hole string

fun piece_text :: "piece \<Rightarrow> string" where
  "piece_text (Lit s) = s"
| "piece_text (Hole n) = placeholder n"

definition template_text :: "piece list \<Rightarrow> string" where
  "template_text ps = concat (map piece_text ps)"

definition name_ok :: "string \<Rightarrow> bool" where
  "name_ok n \<longleftrightarrow> CHR ''{'' \<notin> set n \<and> CHR ''}'' \<notin> set n"

definition value_ok :: "string \<Rightarrow> bool" where
  "value_ok v \<longleftrightarrow> CHR ''{'' \<notin> set v \<and> CHR ''$'' \<notin> set v"

fun piece_ok :: "piece \<Rightarrow> bool" where
  "piece_ok (Lit s) \<longleftrightarrow> CHR ''{'' \<notin> set s"
| "piece_ok (Hole n) \<longleftrightarrow> name_ok n"

fun fill :: "(string \<times> string) list \<Rightarrow> piece \<Rightarrow> piece" where
  "fill vals (Lit s) = Lit s"
| "fill vals (Hole n) = (case map_of vals n of None \<Rightarrow> Hole n | Some v \<Rightarrow> Lit v)"

lemma template_text_simps [simp]:
  "template_text [] = []"
  "template_text (p # ps) = piece_text p @ template_text ps"
  by (simp_all add: template_text_def)

lemma replace_from_plain:
  "CHR ''{'' \<notin> set s \<Longrightarrow>
     replace_from (placeholder n) r pre (s @ t) = s @ replace_from (placeholder n) r (pre @ s) t"
  by (induction s arbitrary: pre) (auto simp: placeholder_def)

lemma brace_split:
  assumes "CHR ''}'' \<notin> set n" "CHR ''}'' \<notin> set m" "n @ CHR ''}'' # s = m @ CHR ''}'' # t"
  shows "n = m"
  using assms
proof (induction n arbitrary: m)
  case Nil
  then show ?case by (cases m) auto
next
  case (Cons c n)
  then show ?case by (cases m) auto
qed

lemma starts_with_placeholder:
  assumes "name_ok n" "name_ok m"
  shows "starts_with (placeholder n) (placeholder m @ t) \<longleftrightarrow> n = m"
proof
  assume "starts_with (placeholder n) (placeholder m @ t)"
  then obtain u where "placeholder m @ t = placeholder n @ u" by (auto simp: starts_with_iff)
  with assms show "n = m"
    by (auto simp: placeholder_def name_ok_def dest: brace_split [rotated 2])
qed simp

lemma replace_from_hole_same:
  assumes "CHR ''$'' \<notin> set r"
  shows "replace_from (placeholder n) r pre (placeholder n @ t)
           = r @ replace_from (placeholder n) r (pre @ placeholder n) t"
proof -
  have "starts_with (placeholder n) (placeholder n @ t)" by simp
  then have "starts_with (placeholder n) (CHR ''{'' # n @ ''}'' @ t)"
    by (simp add: placeholder_def)
  moreover have "drop (length (placeholder n) - 1) (n @ ''}'' @ t) = t"
    by (simp add: placeholder_def)
  ultimately have "replace_from (placeholder n) r pre (CHR ''{'' # n @ ''}'' @ t)
      = r @ replace_from (placeholder n) r (pre @ placeholder n) t"
    using assms by (simp add: Let_def expand_plain del: starts_with_Cons)
  then show ?thesis by (simp add: placeholder_def)
qed

lemma replace_from_hole_other:
  assumes "name_ok n" "name_ok m" "n \<noteq> m"
  shows "replace_from (placeholder n) r pre (placeholder m @ t)
           = placeholder m @ replace_from (placeholder n) r (pre @ placeholder m) t"
proof -
  have "\<not> starts_with (placeholder n) (placeholder m @ t)"
    using assms by (simp add: starts_with_placeholder)
  then have "\<not> starts_with (placeholder n) (CHR ''{'' # (m @ ''}'') @ t)"
    by (simp add: placeholder_def)
  then have "replace_from (placeholder n) r pre (CHR ''{'' # (m @ ''}'') @ t)
      = CHR ''{'' # replace_from (placeholder n) r (pre @ ''{'') ((m @ ''}'') @ t)"
    by (simp only: replace_from.simps if_False)
  also have "\<dots> = CHR ''{'' # (m @ ''}'') @
      replace_from (placeholder n) r ((pre @ ''{'') @ (m @ ''}'')) t"
    using assms by (subst replace_from_plain) (simp_all add: name_ok_def)
  finally have "replace_from (placeholder n) r pre (CHR ''{'' # (m @ ''}'') @ t)
      = CHR ''{'' # (m @ ''}'') @ replace_from (placeholder n) r ((pre @ ''{'') @ (m @ ''}'')) t" .
  then show ?thesis by (simp add: placeholder_def)
qed

lemma replace_from_template:
  "\<forall>p \<in> set ps. piece_ok p \<Longrightarrow> name_ok n \<Longrightarrow> CHR ''$'' \<notin> set v \<Longrightarrow>
     replace_from (placeholder n) v pre (template_text ps) = template_text (map (fill [(n, v)]) ps)"
proof (induction ps arbitrary: pre)
  case (Cons p ps)
  show ?case
  proof (cases p)
    case (Lit s)
    with Cons show ?thesis by (simp add: replace_from_plain)
  next
    case (Hole m)
    with Cons show ?thesis
      by (cases "m = n") (simp_all add: replace_from_hole_same replace_from_hole_other)
  qed
qed simp

lemma fill_ok: "piece_ok p \<Longrightarrow> value_ok v \<Longrightarrow> piece_ok (fill [(n, v)] p)"
  by (cases p) (auto simp: value_ok_def)

lemma fill_fill: "fill vals (fill [(n, v)] p) = fill ((n, v) # vals) p"
  by (cases p) auto

text \<open>Replacing one placeholder after the other fills every hole at once.\<close>

lemma fold_replace_template:
  "\<forall>p \<in> set ps. piece_ok p \<Longrightarrow> \<forall>(n, v) \<in> set vals. name_ok n \<and> value_ok v \<Longrightarrow>
     fold (\<lambda>(name, value) message. replaceAll (placeholder name) value message) vals (template_text ps)
       = template_text (map (fill vals) ps)"
proof (induction vals arbitrary: ps)
  case Nil
  have "fill [] p = p" for p by (cases p) auto
  then show ?case by simp
next
  case (Cons nv vals)
  obtain n v where [simp]: "nv = (n, v)" by (cases nv)
  have "replaceAll (placeholder n) v (template_text ps) = template_text (map (fill [(n, v)]) ps)"
    using Cons.prems by (simp add: replaceAll_def replace_from_template value_ok_def)
  moreover have "\<forall>p \<in> set (map (fill [(n, v)]) ps). piece_ok p"
    using Cons.prems by (auto intro: fill_ok)
  ultimately show ?case using Cons.prems Cons.IH [of "map (fill [(n, v)]) ps"]
    by (simp add: fill_fill comp_def)
qed

text \<open>What a provider keeps true: the document and the storage show the current choice.\<close>

definition preferences_synced :: "preferences \<Rightarrow> bool" where
  "preferences_synced s \<longleftrightarrow>
     doc_lang s = locale_text (pref_locale s) \<and> doc_theme s = theme_text (pref_theme s) \<and>
     doc_colorScheme s = theme_text (pref_theme s) \<and>
     local_get (pref_browser s) localeStorageKey = Some (locale_text (pref_locale s)) \<and>
     local_get (pref_browser s) themeStorageKey = Some (theme_text (pref_theme s))"

lemma synced_setLocale [inv_intros]: "preferences_synced s \<Longrightarrow> preferences_synced (setLocale l s)"
  by (simp add: preferences_synced_def setLocale_def apply_locale_def ls.get_simps)

lemma synced_setTheme [inv_intros]: "preferences_synced s \<Longrightarrow> preferences_synced (setTheme th s)"
  by (simp add: preferences_synced_def setTheme_def apply_theme_def ls.get_simps)

lemma synced_initial [inv_intros]:
  "preferences_synced (apply_theme (apply_locale s))"
  by (simp add: preferences_synced_def apply_locale_def apply_theme_def ls.get_simps)

lemma synced_mount [inv_intros]: "preferences_synced (PreferencesProvider_mount b)"
  by (auto simp: PreferencesProvider_mount_def Let_def split: option.splits intro: inv_intros)

lemma locale_setLocale [simp]:
  "pref_locale (setLocale l s) = l" "pref_theme (setLocale l s) = pref_theme s"
  by (simp_all add: setLocale_def apply_locale_def)

lemma theme_setTheme [simp]:
  "pref_theme (setTheme th s) = th" "pref_locale (setTheme th s) = pref_locale s"
  by (simp_all add: setTheme_def apply_theme_def)

lemma mount_choice:
  "pref_locale (PreferencesProvider_mount b)
     = (case saved_locale (local_get b localeStorageKey) of None \<Rightarrow> LocaleZh | Some l \<Rightarrow> l)"
  "pref_theme (PreferencesProvider_mount b)
     = (case saved_theme (local_get b themeStorageKey) of None \<Rightarrow> ThemeLight | Some th \<Rightarrow> th)"
  by (simp_all add: PreferencesProvider_mount_def Let_def apply_locale_def apply_theme_def
        split: option.splits)

section \<open>Properties\<close>

text \<open>Translation fills every placeholder of a message exactly once with its own value, whatever
  order the values come in, provided the values contain neither an opening brace nor a dollar
  sign; placeholders without a value stay as they are.\<close>

theorem translate_fills_placeholders:
  assumes "lookup_message msgs loc key = template_text ps"
    and "\<forall>p \<in> set ps. piece_ok p" "\<forall>(n, v) \<in> set values. name_ok n \<and> value_ok v"
  shows "translate msgs loc key values = template_text (map (fill values) ps)"
  using assms by (simp add: translate_def fold_replace_template)

theorem translate_fills_placeholders_witness:
  "translate (\<lambda>_ _. None) LocaleEn ''Send in {seconds}s'' [(''seconds'', ''5'')] = ''Send in 5s''"
proof -
  let ?ps = "[Lit ''Send in '', Hole ''seconds'', Lit ''s'']"
  have "translate (\<lambda>_ _. None) LocaleEn ''Send in {seconds}s'' [(''seconds'', ''5'')]
      = template_text (map (fill [(''seconds'', ''5'')]) ?ps)"
    by (rule translate_fills_placeholders)
       (simp_all add: lookup_message_def truthy_str_def placeholder_def name_ok_def value_ok_def)
  then show ?thesis by simp
qed

text \<open>Without that condition the substitution is not literal: a value with \<^verbatim>\<open>$&\<close> puts the
  placeholder back, and a value that looks like another placeholder is filled in turn.\<close>

theorem translate_not_literal:
  "translate (\<lambda>_ _. None) LocaleEn ''Node agent: {node}'' [(''node'', ''a$&b'')]
     = ''Node agent: a{node}b'' \<and>
   translate (\<lambda>_ _. None) LocaleEn ''Task {taskId} entered {status} state.''
       [(''taskId'', ''{status}''), (''status'', ''queued'')]
     = ''Task queued entered queued state.''"
  by (rule conjI; code_simp)

text \<open>C37: the locale and theme a user chose survive a reload: mounting the provider again on the
  storage the choices were written to restores both, and document and storage always show the
  current choice.\<close>

theorem preferences_survive_reload:
  assumes "preferences_synced s"
  shows "let s' = PreferencesProvider_mount (pref_browser (setTheme th (setLocale l s))) in
     pref_locale s' = l \<and> pref_theme s' = th \<and> preferences_synced s'"
proof -
  have "preferences_synced (setTheme th (setLocale l s))" by (intro inv_intros assms)
  then show ?thesis
    by (simp add: Let_def mount_choice synced_mount) (simp add: preferences_synced_def)
qed

theorem preferences_survive_reload_witness:
  "let s' = PreferencesProvider_mount (pref_browser (setTheme ThemeDark (setLocale LocaleEs
       (PreferencesProvider_mount demo_browser)))) in
     pref_locale s' = LocaleEs \<and> pref_theme s' = ThemeDark \<and> preferences_synced s'"
  using preferences_survive_reload [OF synced_mount [of demo_browser], of ThemeDark LocaleEs] .

end
