(* ===== verification/Release_Text.thy ===== *)
theory Release_Text
  imports Prelude
begin

text \<open>
  The text of release events and categories: \<^verbatim>\<open>src/frontend/lib/release-events.ts\<close> and
  \<^verbatim>\<open>src/frontend/lib/release-categories.ts\<close>.

  Each regular expression of the source is a matcher that returns its captures.  A class with \<open>+\<close>
  is always followed by a character outside the class (or by the final dot and the end of the text),
  so the greedy match of the engine is the longest run and never needs to be given back, except
  for the final dot that \<open>match_completed\<close> takes off the run.
\<close>

section \<open>Matchers\<close>

definition strip :: "string \<Rightarrow> string \<Rightarrow> string option" where
  "strip p s = (if starts_with p s then Some (drop (length p) s) else None)"

definition capture :: "(char \<Rightarrow> bool) \<Rightarrow> string \<Rightarrow> (string \<times> string) option" where
  "capture P s = (if takeWhile P s = [] then None else Some (takeWhile P s, dropWhile P s))"

definition non_space :: "char \<Rightarrow> bool" where
  "non_space c \<longleftrightarrow> \<not> is_ws c"

definition match_agent :: "string \<Rightarrow> string option" where
  "match_agent s =
     (case strip ''agent:'' s of
        None \<Rightarrow> None
      | Some rest \<Rightarrow>
          if rest \<noteq> [] \<and> CHR 0x0A \<notin> set rest \<and> CHR 0x0D \<notin> set rest then Some rest else None)"

definition match_created :: "string \<Rightarrow> (string \<times> string) option" where
  "match_created s =
     Option.bind (strip ''Release '' s) (\<lambda>r1.
     Option.bind (capture non_space r1) (\<lambda>(releaseId, r2).
     Option.bind (strip '' created for '' r2) (\<lambda>r3.
     Option.bind (capture is_digit r3) (\<lambda>(count, r4).
     if r4 = '' node(s).'' then Some (releaseId, count) else None))))"

definition match_entered :: "string \<Rightarrow> (string \<times> string) option" where
  "match_entered s =
     Option.bind (strip ''Task '' s) (\<lambda>r1.
     Option.bind (capture non_space r1) (\<lambda>(taskId, r2).
     Option.bind (strip '' entered '' r2) (\<lambda>r3.
     Option.bind (capture non_space r3) (\<lambda>(status, r4).
     if r4 = '' state.'' then Some (taskId, status) else None))))"

definition match_outcome :: "string \<Rightarrow> (string \<times> string) option" where
  "match_outcome s =
     (case strip ''pass'' s of
        Some rest \<Rightarrow> Some (''pass'', rest)
      | None \<Rightarrow> (case strip ''fail'' s of Some rest \<Rightarrow> Some (''fail'', rest) | None \<Rightarrow> None))"

definition match_acknowledgement :: "string \<Rightarrow> (string \<times> string \<times> string \<times> string) option" where
  "match_acknowledgement s =
     Option.bind (strip ''Node ACK received: '' s) (\<lambda>r1.
     Option.bind (capture (\<lambda>c. c \<noteq> CHR '';'') r1) (\<lambda>(stage, r2).
     Option.bind (strip ''; sing-box='' r2) (\<lambda>r3.
     Option.bind (match_outcome r3) (\<lambda>(singbox, r4).
     Option.bind (strip '', nftables='' r4) (\<lambda>r5.
     Option.bind (match_outcome r5) (\<lambda>(nftables, r6).
     Option.bind (strip '', health='' r6) (\<lambda>r7.
     Option.bind (match_outcome r7) (\<lambda>(health, r8).
     if r8 = ''.'' then Some (stage, singbox, nftables, health) else None))))))))"

definition match_completed :: "string \<Rightarrow> string option" where
  "match_completed s =
     Option.bind (strip ''Release completed with status '' s) (\<lambda>r1.
     if r1 \<noteq> [] \<and> last r1 = CHR ''.'' \<and> butlast r1 \<noteq> [] \<and> list_all non_space (butlast r1)
     then Some (butlast r1) else None)"

section \<open>Formatting\<close>

definition formatReleaseEventSource :: "string \<Rightarrow> translator \<Rightarrow> string" where
  "formatReleaseEventSource source t =
     (if source = ''orchestrator'' then t ''Release orchestrator'' []
      else if source = ''task'' then t ''Task worker'' []
      else if source = ''coordinator'' then t ''Release coordinator'' []
      else (case match_agent source of
              Some node \<Rightarrow> t ''Node agent: {node}'' [(''node'', node)]
            | None \<Rightarrow> source))"

definition formatReleaseEventMessage :: "string \<Rightarrow> translator \<Rightarrow> string" where
  "formatReleaseEventMessage message t =
     (case match_created message of
        Some (releaseId, count) \<Rightarrow>
          t ''Release {releaseId} created for {count} nodes.''
            [(''releaseId'', releaseId), (''count'', count)]
      | None \<Rightarrow>
     (case match_entered message of
        Some (taskId, status) \<Rightarrow>
          t ''Task {taskId} entered {status} state.'' [(''taskId'', taskId), (''status'', t status [])]
      | None \<Rightarrow>
     (case match_acknowledgement message of
        Some (stage, singbox, nftables, health) \<Rightarrow>
          t ''Node acknowledgement received: {stage}; sing-box={singbox}, nftables={nftables}, health={health}.''
            [(''stage'', t stage []), (''singbox'', t singbox []), (''nftables'', t nftables []),
             (''health'', t health [])]
      | None \<Rightarrow>
     (case match_completed message of
        Some status \<Rightarrow> t ''Release completed with status {status}.'' [(''status'', t status [])]
      | None \<Rightarrow> message))))"

definition categoryLabels :: "string \<Rightarrow> string option" where
  "categoryLabels =
     map_of [(''access_rules'', ''Access rules''), (''routing_rules'', ''Routing rules''),
             (''outbound_service'', ''Outbound service''), (''subscription'', ''Subscription'')]"

definition releaseCategoryLabels :: "string list option \<Rightarrow> string list" where
  "releaseCategoryLabels categories =
     (let labels = map (\<lambda>category. case categoryLabels category of None \<Rightarrow> ''Other changes'' | Some l \<Rightarrow> l)
                     (uniq (or_list categories))
      in if labels \<noteq> [] then uniq labels else [''Other changes''])"

section \<open>The canonical event texts\<close>

text \<open>The operational messages the control plane records, as values.\<close>

datatype release_event =
    Created string string
  | Entered string string
  | Acknowledged string bool bool bool
  | Completed string

fun event_ok :: "release_event \<Rightarrow> bool" where
  "event_ok (Created i n) \<longleftrightarrow> i \<noteq> [] \<and> list_all non_space i \<and> n \<noteq> [] \<and> list_all is_digit n"
| "event_ok (Entered i st) \<longleftrightarrow> i \<noteq> [] \<and> list_all non_space i \<and> st \<noteq> [] \<and> list_all non_space st"
| "event_ok (Acknowledged stage a b c) \<longleftrightarrow> stage \<noteq> [] \<and> CHR '';'' \<notin> set stage"
| "event_ok (Completed st) \<longleftrightarrow> st \<noteq> [] \<and> list_all non_space st"

definition outcome_text :: "bool \<Rightarrow> string" where
  "outcome_text b = (if b then ''pass'' else ''fail'')"

fun event_text :: "release_event \<Rightarrow> string" where
  "event_text (Created i n) = ''Release '' @ i @ '' created for '' @ n @ '' node(s).''"
| "event_text (Entered i st) = ''Task '' @ i @ '' entered '' @ st @ '' state.''"
| "event_text (Acknowledged stage a b c) =
     ''Node ACK received: '' @ stage @ ''; sing-box='' @ outcome_text a @ '', nftables='' @ outcome_text b
       @ '', health='' @ outcome_text c @ ''.''"
| "event_text (Completed st) = ''Release completed with status '' @ st @ ''.''"

fun event_message :: "translator \<Rightarrow> release_event \<Rightarrow> string" where
  "event_message t (Created i n) =
     t ''Release {releaseId} created for {count} nodes.'' [(''releaseId'', i), (''count'', n)]"
| "event_message t (Entered i st) =
     t ''Task {taskId} entered {status} state.'' [(''taskId'', i), (''status'', t st [])]"
| "event_message t (Acknowledged stage a b c) =
     t ''Node acknowledgement received: {stage}; sing-box={singbox}, nftables={nftables}, health={health}.''
       [(''stage'', t stage []), (''singbox'', t (outcome_text a) []),
        (''nftables'', t (outcome_text b) []), (''health'', t (outcome_text c) [])]"
| "event_message t (Completed st) =
     t ''Release completed with status {status}.'' [(''status'', t st [])]"

section \<open>Lemmas\<close>

lemma strip_eq_Some [simp]: "strip p s = Some r \<longleftrightarrow> s = p @ r"
  by (auto simp: strip_def starts_with_iff)

lemma strip_append [simp]: "strip p (p @ r) = Some r"
  by simp

lemma capture_append:
  "w \<noteq> [] \<Longrightarrow> list_all P w \<Longrightarrow> (r = [] \<or> \<not> P (hd r)) \<Longrightarrow> capture P (w @ r) = Some (w, r)"
proof -
  assume w: "w \<noteq> []" "list_all P w" and r: "r = [] \<or> \<not> P (hd r)"
  have "takeWhile P (w @ r) = w @ takeWhile P r" "dropWhile P (w @ r) = dropWhile P r"
    using w by (auto simp: list_all_iff takeWhile_append2 dropWhile_append2)
  moreover have "takeWhile P r = []" "dropWhile P r = r" using r by (cases r; simp)+
  ultimately show ?thesis using w by (simp add: capture_def)
qed

lemma capture_Some:
  "capture P s = Some (w, r) \<Longrightarrow> s = w @ r \<and> w \<noteq> [] \<and> list_all P w"
  by (auto simp: capture_def list_all_iff split: if_splits dest: set_takeWhileD)

lemma match_outcome_text [simp]: "match_outcome (outcome_text b @ r) = Some (outcome_text b, r)"
  by (cases b) (simp_all add: match_outcome_def outcome_text_def strip_def)

lemma match_outcome_Some:
  "match_outcome s = Some (w, r) \<Longrightarrow> \<exists>b. w = outcome_text b \<and> s = outcome_text b @ r"
  by (auto simp: match_outcome_def outcome_text_def split: option.splits
        intro: exI [of _ True] exI [of _ False])

lemma match_created_iff:
  "match_created s = Some (i, n) \<longleftrightarrow> s = event_text (Created i n) \<and> event_ok (Created i n)"
proof
  assume "match_created s = Some (i, n)"
  then show "s = event_text (Created i n) \<and> event_ok (Created i n)"
    by (auto simp: match_created_def bind_eq_Some_conv dest!: capture_Some split: if_splits)
next
  assume "s = event_text (Created i n) \<and> event_ok (Created i n)"
  then show "match_created s = Some (i, n)"
    by (simp add: match_created_def capture_append non_space_def is_ws_def is_digit_def del: append_Cons)
qed

lemma match_entered_iff:
  "match_entered s = Some (i, st) \<longleftrightarrow> s = event_text (Entered i st) \<and> event_ok (Entered i st)"
proof
  assume "match_entered s = Some (i, st)"
  then show "s = event_text (Entered i st) \<and> event_ok (Entered i st)"
    by (auto simp: match_entered_def bind_eq_Some_conv dest!: capture_Some split: if_splits)
next
  assume "s = event_text (Entered i st) \<and> event_ok (Entered i st)"
  then show "match_entered s = Some (i, st)"
    by (simp add: match_entered_def capture_append non_space_def is_ws_def del: append_Cons)
qed

lemma snoc_iff: "(r \<noteq> [] \<and> last r = c \<and> butlast r = w) \<longleftrightarrow> r = w @ [c]"
  by (metis append_butlast_last_id butlast_snoc last_snoc snoc_eq_iff_butlast)

lemma match_completed_iff:
  "match_completed s = Some st \<longleftrightarrow> s = event_text (Completed st) \<and> event_ok (Completed st)"
proof -
  have "match_completed s = Some st \<longleftrightarrow>
      (\<exists>r. s = ''Release completed with status '' @ r \<and>
           (r \<noteq> [] \<and> last r = CHR ''.'' \<and> butlast r = st) \<and> event_ok (Completed st))"
    by (auto simp: match_completed_def bind_eq_Some_conv simp del: append_Cons)
  then show ?thesis unfolding snoc_iff by simp
qed

lemma match_acknowledgement_text:
  assumes "event_ok (Acknowledged stage a b c)"
  shows "match_acknowledgement (event_text (Acknowledged stage a b c))
     = Some (stage, outcome_text a, outcome_text b, outcome_text c)"
proof -
  have "list_all (\<lambda>c. c \<noteq> CHR '';'') stage" using assms by (auto simp: list_all_iff)
  with assms show ?thesis by (simp add: match_acknowledgement_def capture_append del: append_Cons)
qed

lemma match_acknowledgement_Some:
  "match_acknowledgement s = Some (stage, x, y, z) \<Longrightarrow>
     \<exists>a b c. x = outcome_text a \<and> y = outcome_text b \<and> z = outcome_text c \<and>
       s = event_text (Acknowledged stage a b c) \<and> event_ok (Acknowledged stage a b c)"
  by (fastforce simp: match_acknowledgement_def bind_eq_Some_conv list_all_iff
        dest!: capture_Some match_outcome_Some split: if_splits)

section \<open>Properties\<close>

text \<open>Every canonical event text is recognised and its parts are handed to the translator
  unchanged: the four shapes are told apart and each capture is the part that was printed.\<close>

theorem event_text_recognised:
  assumes "event_ok e"
  shows "formatReleaseEventMessage (event_text e) t = event_message t e"
proof (cases e)
  case (Created i n)
  with assms match_created_iff [of "event_text e" i n] show ?thesis
    by (simp add: formatReleaseEventMessage_def del: event_text.simps event_ok.simps)
next
  case (Entered i st)
  have "match_created (event_text e) = None"
    by (cases "match_created (event_text e)") (auto simp: match_created_iff Entered)
  with Entered assms match_entered_iff [of "event_text e" i st] show ?thesis
    by (simp add: formatReleaseEventMessage_def del: event_text.simps event_ok.simps)
next
  case (Acknowledged stage a b c)
  have "match_created (event_text e) = None"
    by (cases "match_created (event_text e)") (auto simp: match_created_iff Acknowledged)
  moreover have "match_entered (event_text e) = None"
    by (cases "match_entered (event_text e)") (auto simp: match_entered_iff Acknowledged)
  ultimately show ?thesis using Acknowledged assms
    by (simp add: formatReleaseEventMessage_def match_acknowledgement_text
          del: event_text.simps event_ok.simps)
next
  case (Completed st)
  have "match_created (event_text e) = None"
  proof (cases "match_created (event_text e)")
    case (Some p)
    then have *: "event_text e = event_text (Created (fst p) (snd p))" "event_ok (Created (fst p) (snd p))"
      using match_created_iff [of "event_text e" "fst p" "snd p"] by simp_all
    have "capture non_space (fst p @ '' created for '' @ snd p @ '' node(s).'')
        = Some (fst p, '' created for '' @ snd p @ '' node(s).'')"
      using * by (intro capture_append) (auto simp: non_space_def is_ws_def)
    moreover have "capture non_space (''completed'' @ '' with status '' @ st @ ''.'')
        = Some (''completed'', '' with status '' @ st @ ''.'')"
      by (intro capture_append) (auto simp: non_space_def is_ws_def)
    moreover have "fst p @ '' created for '' @ snd p @ '' node(s).''
        = ''completed'' @ '' with status '' @ st @ ''.''"
      using * Completed by simp
    ultimately have "'' created for '' @ snd p @ '' node(s).'' = '' with status '' @ st @ ''.''"
      by (metis option.inject prod.inject)
    then show ?thesis by simp
  qed simp
  moreover have "match_entered (event_text e) = None"
    by (cases "match_entered (event_text e)") (auto simp: match_entered_iff Completed)
  moreover have "match_acknowledgement (event_text e) = None"
    by (cases "match_acknowledgement (event_text e)")
       (auto simp: Completed dest: match_acknowledgement_Some)
  ultimately show ?thesis using Completed assms match_completed_iff [of "event_text e" st]
    by (simp add: formatReleaseEventMessage_def del: event_text.simps event_ok.simps)
qed

theorem event_text_recognised_witness:
  "formatReleaseEventMessage (event_text (Acknowledged ''apply'' True True False)) (\<lambda>k _. k)
     = event_message (\<lambda>k _. k) (Acknowledged ''apply'' True True False)"
  by (rule event_text_recognised) simp

text \<open>Nothing else is rewritten: a message that is not one of the canonical texts is shown
  exactly as it was recorded.\<close>

theorem other_messages_unchanged:
  assumes "\<And>e. event_ok e \<Longrightarrow> message \<noteq> event_text e"
  shows "formatReleaseEventMessage message t = message"
proof -
  have "match_created message = None"
    using assms by (metis match_created_iff not_None_eq surj_pair)
  moreover have "match_entered message = None"
    using assms by (metis match_entered_iff not_None_eq surj_pair)
  moreover have "match_acknowledgement message = None"
    using assms by (metis match_acknowledgement_Some not_None_eq surj_pair)
  moreover have "match_completed message = None"
    using assms by (metis match_completed_iff not_None_eq)
  ultimately show ?thesis by (simp add: formatReleaseEventMessage_def)
qed

theorem other_messages_unchanged_witness:
  "formatReleaseEventMessage ''drained'' (\<lambda>k _. k) = ''drained''"
proof (rule other_messages_unchanged)
  show "''drained'' \<noteq> event_text e" for e by (cases e) simp_all
qed

end
