(* ===== verification/Clipboard.thy ===== *)
theory Clipboard
  imports Prelude
begin

text \<open>
  Copying text: \<^verbatim>\<open>src/frontend/lib/clipboard.ts\<close>.

  The page is what the function can observe: whether there is a document body, which nodes the body
  holds, which element has the focus, and what the clipboard holds.  What the browser decides
  is an argument: how \<^verbatim>\<open>navigator.clipboard.writeText\<close> answers, and how the legacy copy ends
  (it may copy, refuse, or one of the four calls of the \<^verbatim>\<open>try\<close> block may throw).
\<close>

datatype clipboard_api = ApiMissing | ApiAccepts | ApiRejects

datatype copy_command = CopyDone | CopyRefused | CopyThrows

record page =
  has_body :: bool
  body_nodes :: "string list"
  focused :: "string option"
  clipboard_text :: string

datatype clipboard_result = ClipboardOk | ClipboardUnavailable

definition textarea_node :: string where "textarea_node = ''textarea''"

text \<open>The \<^verbatim>\<open>try\<close> block: the text area takes the focus, its content is selected and copied.\<close>

definition legacy_copy :: "copy_command \<Rightarrow> string \<Rightarrow> page \<Rightarrow> bool \<times> page" where
  "legacy_copy cmd value p =
     (case cmd of
        CopyDone \<Rightarrow> (True, p\<lparr>focused := Some textarea_node, clipboard_text := value\<rparr>)
      | CopyRefused \<Rightarrow> (False, p\<lparr>focused := Some textarea_node\<rparr>)
      | CopyThrows \<Rightarrow> (False, p\<lparr>focused := Some textarea_node\<rparr>))"

text \<open>The \<^verbatim>\<open>finally\<close> block: removing the focused node leaves no element focused.\<close>

definition remove_textarea :: "page \<Rightarrow> page" where
  "remove_textarea p =
     p\<lparr>body_nodes := butlast (body_nodes p),
       focused := (if focused p = Some textarea_node then None else focused p)\<rparr>"

definition restore_focus :: "string option \<Rightarrow> page \<Rightarrow> page" where
  "restore_focus previous p =
     (case previous of None \<Rightarrow> p | Some element \<Rightarrow> p\<lparr>focused := Some element\<rparr>)"

definition writeClipboard ::
    "clipboard_api \<Rightarrow> copy_command \<Rightarrow> string \<Rightarrow> page \<Rightarrow> clipboard_result \<times> page" where
  "writeClipboard api cmd value p =
     (if api = ApiAccepts then (ClipboardOk, p\<lparr>clipboard_text := value\<rparr>)
      else if \<not> has_body p then (ClipboardUnavailable, p)
      else (let previouslyFocused = focused p;
                p1 = p\<lparr>body_nodes := body_nodes p @ [textarea_node]\<rparr>;
                (copied, p2) = legacy_copy cmd value p1;
                p3 = restore_focus previouslyFocused (remove_textarea p2)
            in (if copied then ClipboardOk else ClipboardUnavailable, p3)))"

section \<open>Lemmas\<close>

text \<open>Whatever the browser does, the page is left as it was; only the clipboard may change.\<close>

lemma writeClipboard_page:
  "snd (writeClipboard api cmd value p)
     = p\<lparr>clipboard_text := clipboard_text (snd (writeClipboard api cmd value p))\<rparr>"
  by (cases cmd; cases "focused p")
     (simp_all add: writeClipboard_def legacy_copy_def remove_textarea_def restore_focus_def Let_def)

lemma writeClipboard_result:
  "fst (writeClipboard api cmd value p) = ClipboardOk \<longleftrightarrow>
     api = ApiAccepts \<or> (has_body p \<and> cmd = CopyDone)"
  by (cases cmd) (simp_all add: writeClipboard_def legacy_copy_def Let_def)

lemma writeClipboard_text:
  "clipboard_text (snd (writeClipboard api cmd value p)) =
     (if fst (writeClipboard api cmd value p) = ClipboardOk then value else clipboard_text p)"
  by (cases cmd)
     (simp_all add: writeClipboard_def legacy_copy_def remove_textarea_def restore_focus_def Let_def
        split: option.splits)

section \<open>Properties\<close>

text \<open>Copying never leaves a trace in the page: for every way the browser can answer, the body
  holds the same nodes and the same element has the focus as before; the clipboard holds the text
  exactly when success is reported and is untouched otherwise.\<close>

theorem clipboard_leaves_page_unchanged:
  "let (result, p') = writeClipboard api cmd value p in
     p' = p\<lparr>clipboard_text := (if result = ClipboardOk then value else clipboard_text p)\<rparr> \<and>
     (result = ClipboardOk \<longleftrightarrow> api = ApiAccepts \<or> has_body p \<and> cmd = CopyDone)"
  using writeClipboard_page [of api cmd "value" p] writeClipboard_result [of api cmd "value" p]
    writeClipboard_text [of api cmd "value" p]
  by (simp add: split_beta Let_def)

end
