(* ===== verification/Endpoints.thy ===== *)
theory Endpoints
  imports Http_Client
begin

text \<open>
  The exported endpoint functions of \<^verbatim>\<open>src/frontend/lib/api.ts\<close>.  Each is the request it makes: an
  \<open>api_call\<close> names the request function that is used and carries its path and its init object.
  \<open>call_send\<close> runs such a call up to the moment the request leaves the browser.
  Where the source builds an \<^verbatim>\<open>Idempotency-Key\<close> from randomness, the random suffix generator is the
  argument \<open>gen\<close>: the key made from a prefix (\<^const>\<open>createIdempotencyKey\<close> with its inputs fixed).
\<close>

datatype api_call =
    Request string RequestInit
  | RequestPublic string
  | RequestPublicText string
  | RequestText string
  | RequestForm string "(string \<times> form_value) list"

type_synonym key_gen = "string \<Rightarrow> string"

abbreviation get :: "string \<Rightarrow> api_call" where
  "get path \<equiv> Request path empty_init"

abbreviation send_json :: "string \<Rightarrow> string \<Rightarrow> json \<Rightarrow> api_call" where
  "send_json meth path body \<equiv> Request path (jsonRequest meth (Some body))"

definition keyed_post :: "string \<Rightarrow> json \<Rightarrow> string \<Rightarrow> api_call" where
  "keyed_post path body key =
     Request path ((jsonRequest ''POST'' (Some body))
       \<lparr>init_headers := [(''Content-Type'', ''application/json''), (''Idempotency-Key'', key)]\<rparr>)"

definition call_send ::
    "string \<Rightarrow> (string \<Rightarrow> int option) \<Rightarrow> int \<Rightarrow> api_call \<Rightarrow> browser
       \<Rightarrow> string \<times> http_request \<times> browser" where
  "call_send base parse now c b =
     (case c of
        Request path init \<Rightarrow> request_send base parse now path init b
      | RequestPublic path \<Rightarrow> ([], requestPublic_send base path, b)
      | RequestPublicText path \<Rightarrow> ([], requestPublicText_send base path, b)
      | RequestText path \<Rightarrow> requestText_send base parse now path b
      | RequestForm path form \<Rightarrow> requestForm_send base parse now path form b)"

section \<open>Authentication\<close>

definition loginWithPassword :: "string \<Rightarrow> string \<Rightarrow> api_call" where
  "loginWithPassword itcode password =
     send_json ''POST'' ''/api/v1/auth/login''
       (JObj [(''itcode'', JStr itcode), (''password'', JStr password)])"

definition requestAuthVerificationCode :: "string \<Rightarrow> VerificationPurpose \<Rightarrow> api_call" where
  "requestAuthVerificationCode itcode purpose =
     send_json ''POST'' ''/api/v1/auth/verification-codes''
       (JObj [(''itcode'', JStr itcode), (''purpose'', JStr (purpose_text purpose))])"

definition account_payload :: "string \<Rightarrow> string \<Rightarrow> string \<Rightarrow> string \<Rightarrow> json" where
  "account_payload itcode password challenge_id verification_code =
     JObj [(''itcode'', JStr itcode), (''password'', JStr password),
           (''challenge_id'', JStr challenge_id), (''verification_code'', JStr verification_code)]"

definition registerAccount :: "string \<Rightarrow> string \<Rightarrow> string \<Rightarrow> string \<Rightarrow> api_call" where
  "registerAccount itcode password challenge_id verification_code =
     send_json ''POST'' ''/api/v1/auth/register''
       (account_payload itcode password challenge_id verification_code)"

definition loginWithGQuan :: "string \<Rightarrow> string \<Rightarrow> string \<Rightarrow> api_call" where
  "loginWithGQuan itcode challenge_id verification_code =
     send_json ''POST'' ''/api/v1/auth/gquan/login''
       (JObj [(''itcode'', JStr itcode), (''challenge_id'', JStr challenge_id),
              (''verification_code'', JStr verification_code)])"

definition changeAccountPassword :: "string \<Rightarrow> string \<Rightarrow> string \<Rightarrow> string \<Rightarrow> api_call" where
  "changeAccountPassword itcode password challenge_id verification_code =
     send_json ''POST'' ''/api/v1/auth/password/change''
       (account_payload itcode password challenge_id verification_code)"

definition logoutManagementSession :: api_call where
  "logoutManagementSession = Request ''/api/v1/auth/logout'' (jsonRequest ''POST'' None)"

section \<open>Sites, routing, accounts, nodes\<close>

definition getOverview :: api_call where "getOverview = get ''/api/v1/overview''"

definition getSites :: api_call where "getSites = get ''/api/v1/sites''"

definition getRoutingPolicy :: "string \<Rightarrow> api_call" where
  "getRoutingPolicy siteId = get (''/api/v1/sites/'' @ encodeURIComponent siteId @ ''/routing'')"

datatype ImportMode = ImportAppend | ImportReplace

fun import_mode_text :: "ImportMode \<Rightarrow> string" where
  "import_mode_text ImportAppend = ''append''"
| "import_mode_text ImportReplace = ''replace''"

definition previewRoutingImport :: "string \<Rightarrow> ImportMode \<Rightarrow> RoutingPolicy \<Rightarrow> api_call" where
  "previewRoutingImport content mode policy =
     send_json ''POST'' ''/api/v1/routing/import''
       (JObj [(''content'', JStr content), (''mode'', JStr (import_mode_text mode)),
              (''policy'', routing_policy_json policy)])"

definition saveRoutingPolicy :: "string \<Rightarrow> int \<Rightarrow> RoutingPolicy \<Rightarrow> api_call" where
  "saveRoutingPolicy siteId expectedRevision policy =
     send_json ''PUT'' (''/api/v1/sites/'' @ encodeURIComponent siteId @ ''/routing'')
       (JObj [(''expected_revision'', JNum expectedRevision), (''policy'', routing_policy_json policy)])"

definition publishRoutingPolicy :: "string \<Rightarrow> int \<Rightarrow> api_call" where
  "publishRoutingPolicy siteId expectedRevision =
     send_json ''POST'' (''/api/v1/sites/'' @ encodeURIComponent siteId @ ''/routing/publish'')
       (JObj [(''expected_revision'', JNum expectedRevision)])"

definition updateSiteName :: "string \<Rightarrow> string \<Rightarrow> api_call" where
  "updateSiteName siteId name =
     send_json ''PATCH'' (''/api/v1/sites/'' @ encodeURIComponent siteId)
       (JObj [(''name'', JStr name)])"

definition getEmployees :: api_call where "getEmployees = get ''/api/v1/employees''"

definition updateUserRole :: "string \<Rightarrow> SessionRole \<Rightarrow> api_call" where
  "updateUserRole itcode role =
     send_json ''PATCH'' (''/api/v1/users/'' @ encodeURIComponent itcode @ ''/role'')
       (JObj [(''role'', JStr (role_text role))])"

definition getNodes :: api_call where "getNodes = get ''/api/v1/nodes''"

definition updateNodeName :: "string \<Rightarrow> string \<Rightarrow> api_call" where
  "updateNodeName nodeId name =
     send_json ''PATCH'' (''/api/v1/nodes/'' @ encodeURIComponent nodeId)
       (JObj [(''name'', JStr name)])"

definition getProxyConfigs :: "string option \<Rightarrow> string option \<Rightarrow> api_call" where
  "getProxyConfigs siteId nodeId =
     (let query = params_set_opt ''node_id'' nodeId (params_set_opt ''site_id'' siteId []);
          suffix = (if params_to_string query \<noteq> [] then CHR ''?'' # params_to_string query else [])
      in get (''/api/v1/proxy-configs'' @ suffix))"

definition getServiceQuality ::
    "ServiceQualityWindow option \<Rightarrow> string option \<Rightarrow> string option \<Rightarrow> api_call" where
  "getServiceQuality window siteId nodeId =
     (let w = (case window of None \<Rightarrow> ''24h'' | Some v \<Rightarrow> window_text v);
          query = params_set_opt ''node_id'' nodeId
                    (params_set_opt ''site_id'' siteId (params_set ''window'' w []))
      in get (''/api/v1/service-quality?'' @ params_to_string query))"

definition getSystemSettings :: api_call where
  "getSystemSettings = get ''/api/v1/system-settings''"

definition updateSystemSettings :: "ServiceQualityDefinition \<Rightarrow> string \<Rightarrow> api_call" where
  "updateSystemSettings service_quality default_probe_url =
     send_json ''PATCH'' ''/api/v1/system-settings''
       (JObj [(''service_quality'',
                 JObj [(''green_max_ms'', JNum (sqd_green_max_ms service_quality)),
                       (''yellow_max_ms'', JNum (sqd_yellow_max_ms service_quality))]),
              (''default_probe_url'', JStr default_probe_url)])"

definition getNodeProxyConfig :: "string \<Rightarrow> api_call" where
  "getNodeProxyConfig nodeId =
     get (''/api/v1/nodes/'' @ encodeURIComponent nodeId @ ''/proxy-config'')"

definition proxy_selection_json :: "ProxySelectionRequest \<Rightarrow> json" where
  "proxy_selection_json v =
     JObj ([(''group'', JStr (psr_group v)), (''outbound'', JStr (psr_outbound v))]
       @ [(''expected_current_version'',
             (case psr_expected_current_version v of None \<Rightarrow> JNull | Some n \<Rightarrow> JNum n))]
       @ opt_member ''note'' (map_option JStr (psr_note v)))"

definition proxy_selection_key :: "string \<Rightarrow> ProxySelectionRequest \<Rightarrow> string" where
  "proxy_selection_key nodeId v =
     join '':''
       [''proxy-selection'',
        encodeURIComponent nodeId,
        encodeURIComponent (trim (psr_group v)),
        encodeURIComponent (trim (psr_outbound v)),
        encodeURIComponent
          (case psr_expected_current_version v of None \<Rightarrow> ''latest'' | Some n \<Rightarrow> show_int n)]"

definition selectNodeProxy :: "string \<Rightarrow> ProxySelectionRequest \<Rightarrow> api_call" where
  "selectNodeProxy nodeId v =
     keyed_post (''/api/v1/nodes/'' @ encodeURIComponent nodeId @ ''/proxy-selection'')
       (proxy_selection_json v) (proxy_selection_key nodeId v)"

definition setSiteShutdown :: "string \<Rightarrow> bool \<Rightarrow> api_call" where
  "setSiteShutdown siteId shutdown =
     send_json ''POST'' (''/api/v1/sites/'' @ siteId @ ''/shutdown'')
       (JObj [(''shutdown'', JBool shutdown)])"

section \<open>Access control\<close>

definition getSourceBlacklist :: api_call where "getSourceBlacklist = get ''/api/v1/blacklist''"

definition getNetworkGroups ::
    "string option \<Rightarrow> EntryKind option \<Rightarrow> int option \<Rightarrow> int option \<Rightarrow> api_call" where
  "getNetworkGroups search kind limit offset =
     (let query = params_set_int ''offset'' offset (params_set_int ''limit'' limit
            (params_set_opt ''kind'' (map_option entry_kind_text kind)
              (params_set_opt ''search'' search [])))
      in get (''/api/v1/network-groups'' @ query_suffix query))"

definition network_group_payload :: "string \<Rightarrow> NetworkGroupEntry list \<Rightarrow> json" where
  "network_group_payload name entries =
     JObj [(''name'', JStr name), (''entries'', JArr (map network_group_entry_json entries))]"

definition createNetworkGroup :: "string \<Rightarrow> NetworkGroupEntry list \<Rightarrow> api_call" where
  "createNetworkGroup name entries =
     send_json ''POST'' ''/api/v1/network-groups'' (network_group_payload name entries)"

definition updateNetworkGroup :: "string \<Rightarrow> string \<Rightarrow> NetworkGroupEntry list \<Rightarrow> api_call" where
  "updateNetworkGroup groupId name entries =
     send_json ''PATCH'' (''/api/v1/network-groups/'' @ encodeURIComponent groupId)
       (network_group_payload name entries)"

definition deleteNetworkGroup :: "string \<Rightarrow> api_call" where
  "deleteNetworkGroup groupId =
     Request (''/api/v1/network-groups/'' @ encodeURIComponent groupId) (jsonRequest ''DELETE'' None)"

definition getAccessControl ::
    "string option \<Rightarrow> string option \<Rightarrow> string option \<Rightarrow> AccessMode option \<Rightarrow> Direction option
       \<Rightarrow> int option \<Rightarrow> int option \<Rightarrow> api_call" where
  "getAccessControl search nodeId networkGroupId mode direction limit offset =
     (let query = params_set_int ''offset'' offset (params_set_int ''limit'' limit
            (params_set_opt ''direction'' (map_option direction_text direction)
              (params_set_opt ''mode'' (map_option access_mode_text mode)
                (params_set_opt ''network_group_id'' networkGroupId
                  (params_set_opt ''node_id'' nodeId
                    (params_set_opt ''search'' search []))))))
      in get (''/api/v1/access-control'' @ query_suffix query))"

definition access_control_payload ::
    "string list \<Rightarrow> string list \<Rightarrow> AccessMode \<Rightarrow> Direction \<Rightarrow> string \<Rightarrow> bool option \<Rightarrow> json" where
  "access_control_payload node_ids network_group_ids mode direction reason enabled =
     JObj ([(''node_ids'', str_array node_ids),
            (''network_group_ids'', str_array network_group_ids),
            (''mode'', JStr (access_mode_text mode)),
            (''direction'', JStr (direction_text direction)),
            (''reason'', JStr reason)]
       @ opt_member ''enabled'' (map_option JBool enabled))"

definition createAccessControl ::
    "string list \<Rightarrow> string list \<Rightarrow> AccessMode \<Rightarrow> Direction \<Rightarrow> string \<Rightarrow> bool option \<Rightarrow> api_call" where
  "createAccessControl node_ids network_group_ids mode direction reason enabled =
     send_json ''POST'' ''/api/v1/access-control''
       (access_control_payload node_ids network_group_ids mode direction reason enabled)"

definition updateAccessControl ::
    "string \<Rightarrow> string list \<Rightarrow> string list \<Rightarrow> AccessMode \<Rightarrow> Direction \<Rightarrow> string \<Rightarrow> bool option
       \<Rightarrow> api_call" where
  "updateAccessControl ruleId node_ids network_group_ids mode direction reason enabled =
     send_json ''PATCH'' (''/api/v1/access-control/'' @ encodeURIComponent ruleId)
       (access_control_payload node_ids network_group_ids mode direction reason enabled)"

definition deleteAccessControl :: "string \<Rightarrow> api_call" where
  "deleteAccessControl ruleId =
     Request (''/api/v1/access-control/'' @ encodeURIComponent ruleId) (jsonRequest ''DELETE'' None)"

definition createSourceBlacklist ::
    "string list \<Rightarrow> Direction \<Rightarrow> EntryKind \<Rightarrow> string \<Rightarrow> string option \<Rightarrow> bool option \<Rightarrow> api_call" where
  "createSourceBlacklist node_ids direction kind pattern comment enabled =
     send_json ''POST'' ''/api/v1/blacklist''
       (JObj ([(''node_ids'', str_array node_ids),
               (''direction'', JStr (direction_text direction)),
               (''kind'', JStr (entry_kind_text kind)),
               (''pattern'', JStr pattern)]
          @ opt_member ''comment'' (map_option JStr comment)
          @ opt_member ''enabled'' (map_option JBool enabled)))"

definition deleteSourceBlacklist :: "string \<Rightarrow> api_call" where
  "deleteSourceBlacklist entryId =
     Request (''/api/v1/blacklist/'' @ encodeURIComponent entryId) (jsonRequest ''DELETE'' None)"

section \<open>Subscriptions\<close>

definition getSubscriptions :: api_call where "getSubscriptions = get ''/api/v1/subscriptions''"

definition getSubscriptionVersionContent :: "string \<Rightarrow> string \<Rightarrow> api_call" where
  "getSubscriptionVersionContent sourceId versionId =
     get (''/api/v1/subscriptions/'' @ encodeURIComponent sourceId @ ''/versions/''
          @ encodeURIComponent versionId @ ''/content'')"

datatype SourceScheme = SchemeHttp | SchemeHttps

fun scheme_text :: "SourceScheme \<Rightarrow> string" where
  "scheme_text SchemeHttp = ''http''"
| "scheme_text SchemeHttps = ''https''"

definition createSubscriptionSource ::
    "key_gen \<Rightarrow> string \<Rightarrow> string \<Rightarrow> SourceScheme option \<Rightarrow> int option \<Rightarrow> int option \<Rightarrow> int option
       \<Rightarrow> api_call" where
  "createSubscriptionSource gen name url scheme fetch_interval_sec max_body_bytes redirect_limit =
     keyed_post ''/api/v1/subscriptions''
       (JObj ([(''name'', JStr name), (''url'', JStr url)]
          @ opt_member ''scheme'' (map_option (JStr \<circ> scheme_text) scheme)
          @ opt_member ''fetch_interval_sec'' (map_option JNum fetch_interval_sec)
          @ opt_member ''max_body_bytes'' (map_option JNum max_body_bytes)
          @ opt_member ''redirect_limit'' (map_option JNum redirect_limit)))
       (gen ''subscription.create'')"

definition uploadSubscription :: "string \<Rightarrow> string \<Rightarrow> string \<Rightarrow> api_call" where
  "uploadSubscription name file_name file_content =
     RequestForm ''/api/v1/subscriptions/upload''
       [(''name'', FormText name), (''file'', FormFile file_name file_content)]"

definition createSingleNodeSubscription :: "key_gen \<Rightarrow> string \<Rightarrow> string \<Rightarrow> api_call" where
  "createSingleNodeSubscription gen name uri =
     keyed_post ''/api/v1/subscriptions/single-node''
       (JObj [(''name'', JStr name), (''uri'', JStr uri)]) (gen ''subscription.single-node'')"

definition refreshSubscription :: "key_gen \<Rightarrow> string \<Rightarrow> api_call" where
  "refreshSubscription gen sourceId =
     keyed_post (''/api/v1/subscriptions/'' @ sourceId @ ''/refresh'') (JObj [])
       (gen (''subscription.refresh:'' @ sourceId))"

definition publishSubscriptionVersion ::
    "key_gen \<Rightarrow> string \<Rightarrow> string \<Rightarrow> string list \<Rightarrow> api_call" where
  "publishSubscriptionVersion gen sourceId versionId siteIds =
     keyed_post (''/api/v1/subscriptions/'' @ sourceId @ ''/versions/'' @ versionId @ ''/publish'')
       (JObj [(''site_ids'', str_array siteIds),
              (''note'', JStr ''Published from operations console'')])
       (gen (''subscription.publish:'' @ versionId))"

definition rollbackSiteSubscription :: "key_gen \<Rightarrow> string \<Rightarrow> api_call" where
  "rollbackSiteSubscription gen siteId =
     keyed_post (''/api/v1/subscriptions/sites/'' @ siteId @ ''/rollback'') (JObj [])
       (gen (''subscription.rollback:'' @ siteId))"

section \<open>Releases and tasks\<close>

definition getDrafts :: api_call where "getDrafts = get ''/api/v1/config/drafts''"

definition getReleases ::
    "string option \<Rightarrow> string option \<Rightarrow> string option \<Rightarrow> string option \<Rightarrow> api_call" where
  "getReleases siteId status since until =
     (let query = params_set_opt ''until'' until (params_set_opt ''since'' since
            (params_set_opt ''status'' status (params_set_opt ''site_id'' siteId [])))
      in get (''/api/v1/config/releases'' @ query_suffix query))"

definition getRelease :: "string \<Rightarrow> api_call" where
  "getRelease releaseId = get (''/api/v1/config/releases/'' @ releaseId)"

definition getReleaseDetail :: "string \<Rightarrow> api_call" where
  "getReleaseDetail releaseId = get (''/api/v1/config/releases/'' @ releaseId @ ''/detail'')"

definition getReleaseAcks :: "string \<Rightarrow> api_call" where
  "getReleaseAcks releaseId = get (''/api/v1/config/releases/'' @ releaseId @ ''/acks'')"

definition publishRelease ::
    "key_gen \<Rightarrow> string \<Rightarrow> string \<Rightarrow> string list option \<Rightarrow> int option option \<Rightarrow> string option
       \<Rightarrow> api_call" where
  "publishRelease gen draftId siteId node_ids expected_current_version note =
     keyed_post ''/api/v1/config/releases''
       (JObj ([(''draft_id'', JStr draftId), (''site_id'', JStr siteId)]
          @ opt_member ''node_ids'' (map_option str_array node_ids)
          @ opt_member ''expected_current_version''
              (map_option (\<lambda>v. case v of None \<Rightarrow> JNull | Some n \<Rightarrow> JNum n) expected_current_version)
          @ opt_member ''note'' (map_option JStr note)))
       (gen (''config.publish:'' @ draftId))"

definition getTasks ::
    "string option \<Rightarrow> string option \<Rightarrow> string option \<Rightarrow> string option \<Rightarrow> api_call" where
  "getTasks status taskType since until =
     (let query = params_set_opt ''until'' until (params_set_opt ''since'' since
            (params_set_opt ''task_type'' taskType (params_set_opt ''status'' status [])))
      in get (''/api/v1/tasks'' @ query_suffix query))"

definition getTask :: "string \<Rightarrow> api_call" where
  "getTask taskId = get (''/api/v1/tasks/'' @ encodeURIComponent taskId)"

definition cancelTask :: "string \<Rightarrow> api_call" where
  "cancelTask taskId = send_json ''POST'' (''/api/v1/tasks/'' @ taskId @ ''/cancel'') (JObj [])"

section \<open>Observation\<close>

definition getLogs ::
    "string option \<Rightarrow> string option \<Rightarrow> AccessMode option \<Rightarrow> string option \<Rightarrow> string option
       \<Rightarrow> string option \<Rightarrow> api_call" where
  "getLogs siteId nodeId action since until search =
     (let query = params_set_opt ''search'' search (params_set_opt ''until'' until
            (params_set_opt ''since'' since
              (params_set_opt ''action'' (map_option access_mode_text action)
                (params_set_opt ''node_id'' nodeId (params_set_opt ''site_id'' siteId [])))))
      in get (''/api/v1/logs'' @ query_suffix query))"

definition getConnections ::
    "string option \<Rightarrow> string option \<Rightarrow> string option \<Rightarrow> string option \<Rightarrow> int option \<Rightarrow> api_call" where
  "getConnections siteId nodeId since until limit =
     (let query = params_set_int ''limit'' limit (params_set_opt ''until'' until
            (params_set_opt ''since'' since
              (params_set_opt ''node_id'' nodeId (params_set_opt ''site_id'' siteId []))))
      in get (''/api/v1/connections'' @ query_suffix query))"

definition getLiveConnections :: "string option \<Rightarrow> string option \<Rightarrow> api_call" where
  "getLiveConnections siteId nodeId =
     (let query = params_set_opt ''node_id'' nodeId (params_set_opt ''site_id'' siteId [])
      in get (''/api/v1/connections/live'' @ query_suffix query))"

record HistoryFilters =
  hf_siteId :: "string option"
  hf_nodeId :: "string option"
  hf_since :: "string option"
  hf_until :: "string option"
  hf_sourceIp :: "string option"
  hf_destination :: "string option"
  hf_network :: "string option"
  hf_outbound :: "string option"
  hf_search :: "string option"
  hf_limit :: "int option"
  hf_offset :: "int option"

definition history_query :: "HistoryFilters \<Rightarrow> query_params" where
  "history_query f =
     params_set_int ''offset'' (hf_offset f) (params_set_int ''limit'' (hf_limit f)
       (params_set_opt ''search'' (hf_search f) (params_set_opt ''outbound'' (hf_outbound f)
         (params_set_opt ''network'' (hf_network f) (params_set_opt ''destination'' (hf_destination f)
           (params_set_opt ''source_ip'' (hf_sourceIp f) (params_set_opt ''until'' (hf_until f)
             (params_set_opt ''since'' (hf_since f) (params_set_opt ''node_id'' (hf_nodeId f)
               (params_set_opt ''site_id'' (hf_siteId f) []))))))))))"

definition getConnectionHistory :: "HistoryFilters \<Rightarrow> api_call" where
  "getConnectionHistory f = get (''/api/v1/connections/history?'' @ params_to_string (history_query f))"

definition getNodeProbes :: "string \<Rightarrow> api_call" where
  "getNodeProbes nodeId = get (''/api/v1/nodes/'' @ encodeURIComponent nodeId @ ''/probes'')"

definition createNodeProbe ::
    "key_gen \<Rightarrow> string \<Rightarrow> string option \<Rightarrow> string list option \<Rightarrow> api_call" where
  "createNodeProbe gen nodeId target_url outbound_tags =
     keyed_post (''/api/v1/nodes/'' @ encodeURIComponent nodeId @ ''/probes'')
       (JObj (opt_member ''target_url'' (map_option JStr target_url)
          @ opt_member ''outbound_tags'' (map_option str_array outbound_tags)))
       (gen (''node.probe:'' @ nodeId))"

datatype AlertStatus = AlertOpen | AlertResolved

fun alert_status_text :: "AlertStatus \<Rightarrow> string" where
  "alert_status_text AlertOpen = ''open''"
| "alert_status_text AlertResolved = ''resolved''"

definition getAlerts :: "AlertStatus option \<Rightarrow> api_call" where
  "getAlerts status =
     get (''/api/v1/alerts'' @
       (case status of None \<Rightarrow> [] | Some s \<Rightarrow> ''?status_filter='' @ alert_status_text s))"

definition getAudit ::
    "string option \<Rightarrow> string option \<Rightarrow> string option \<Rightarrow> string option \<Rightarrow> api_call" where
  "getAudit since until action actor =
     (let query = params_set_opt ''actor'' actor (params_set_opt ''action'' action
            (params_set_opt ''until'' until (params_set_opt ''since'' since [])))
      in get (''/api/v1/audit'' @ query_suffix query))"

definition verifyAudit :: api_call where "verifyAudit = get ''/api/v1/audit/verify''"

datatype ExportFormat = ExportJson | ExportNdjson

fun export_format_text :: "ExportFormat \<Rightarrow> string" where
  "export_format_text ExportJson = ''json''"
| "export_format_text ExportNdjson = ''ndjson''"

definition getAuditExport :: "ExportFormat \<Rightarrow> api_call" where
  "getAuditExport exportFormat =
     RequestText (''/api/v1/audit/export?export_format='' @ export_format_text exportFormat)"

section \<open>Backups and public access assets\<close>

definition getBackups :: api_call where "getBackups = get ''/api/v1/backups''"

definition createBackup :: "key_gen \<Rightarrow> api_call" where
  "createBackup gen =
     keyed_post ''/api/v1/backups'' (JObj [(''scope'', JStr ''control_plane'')]) (gen ''backup.create'')"

definition restoreBackup :: "key_gen \<Rightarrow> string \<Rightarrow> bool \<Rightarrow> api_call" where
  "restoreBackup gen backupId confirm =
     keyed_post (''/api/v1/backups/'' @ encodeURIComponent backupId @ ''/restore'')
       (JObj [(''confirm'', JBool confirm)])
       (gen (''backup.restore:'' @ backupId @ '':'' @ (if confirm then ''apply'' else ''rehearsal'')))"

definition getLinuxSetupScript :: api_call where
  "getLinuxSetupScript = RequestPublicText ''/api/v1/access/linux-setup.sh''"

definition getWindowsSetupScript :: api_call where
  "getWindowsSetupScript = RequestPublicText ''/api/v1/access/windows-setup.ps1''"

definition getAccessConfig :: api_call where
  "getAccessConfig = RequestPublic ''/api/v1/access/config''"

definition getProxyPAC :: api_call where
  "getProxyPAC = RequestPublicText ''/api/v1/access/proxy.pac''"

section \<open>Lemmas\<close>

text \<open>Setting a fresh parameter appends it, so a query built from distinct names lists the filters
  that are present, in the order of the code.\<close>

definition opt_param :: "string \<Rightarrow> string option \<Rightarrow> query_params" where
  "opt_param k v = (case v of None \<Rightarrow> [] | Some s \<Rightarrow> if s = [] then [] else [(k, s)])"

definition int_param :: "string \<Rightarrow> int option \<Rightarrow> query_params" where
  "int_param k v = (case v of None \<Rightarrow> [] | Some n \<Rightarrow> if n = 0 then [] else [(k, show_int n)])"

lemma params_set_opt_fresh:
  "k \<notin> fst ` set ps \<Longrightarrow> params_set_opt k v ps = ps @ opt_param k v"
  by (auto simp: params_set_opt_def opt_param_def split: option.splits)

lemma params_set_int_fresh:
  "k \<notin> fst ` set ps \<Longrightarrow> params_set_int k v ps = ps @ int_param k v"
  by (auto simp: params_set_int_def int_param_def split: option.splits)

lemma keys_opt_param: "k \<in> fst ` set (opt_param k' v) \<longleftrightarrow> k = k' \<and> opt_param k' v \<noteq> []"
  by (cases v) (auto simp: opt_param_def)

lemma keys_int_param: "k \<in> fst ` set (int_param k' v) \<longleftrightarrow> k = k' \<and> int_param k' v \<noteq> []"
  by (cases v) (auto simp: int_param_def)

lemmas query_order = params_set_opt_fresh params_set_int_fresh image_Un keys_opt_param keys_int_param

lemma history_query_eq:
  "history_query f =
     opt_param ''site_id'' (hf_siteId f) @ opt_param ''node_id'' (hf_nodeId f) @
     opt_param ''since'' (hf_since f) @ opt_param ''until'' (hf_until f) @
     opt_param ''source_ip'' (hf_sourceIp f) @ opt_param ''destination'' (hf_destination f) @
     opt_param ''network'' (hf_network f) @ opt_param ''outbound'' (hf_outbound f) @
     opt_param ''search'' (hf_search f) @ int_param ''limit'' (hf_limit f) @
     int_param ''offset'' (hf_offset f)"
  by (simp add: history_query_def query_order del: in_set_conv_nth image_iff)

text \<open>What a filter becomes on the wire: an empty text or a zero is the same as no filter.\<close>

definition filter_text :: "string option \<Rightarrow> string option" where
  "filter_text v = (case v of None \<Rightarrow> None | Some s \<Rightarrow> opt_str s)"

definition filter_int :: "int option \<Rightarrow> int option" where
  "filter_int v = (case v of None \<Rightarrow> None | Some n \<Rightarrow> if n = 0 then None else Some n)"

definition effective_filters :: "HistoryFilters \<Rightarrow> HistoryFilters" where
  "effective_filters f =
     \<lparr>hf_siteId = filter_text (hf_siteId f), hf_nodeId = filter_text (hf_nodeId f),
      hf_since = filter_text (hf_since f), hf_until = filter_text (hf_until f),
      hf_sourceIp = filter_text (hf_sourceIp f), hf_destination = filter_text (hf_destination f),
      hf_network = filter_text (hf_network f), hf_outbound = filter_text (hf_outbound f),
      hf_search = filter_text (hf_search f), hf_limit = filter_int (hf_limit f),
      hf_offset = filter_int (hf_offset f)\<rparr>"

lemma or_else_None [simp]: "or_else a None = a"
  by (cases a) auto

lemma map_of_opt_param:
  "map_of (opt_param k v @ r) k' = (if k' = k then or_else (filter_text v) (map_of r k') else map_of r k')"
  by (cases v) (auto simp: opt_param_def filter_text_def)

lemma map_of_int_param:
  "map_of (int_param k v @ r) k' =
     (if k' = k then or_else (map_option show_int (filter_int v)) (map_of r k') else map_of r k')"
  by (cases v) (auto simp: int_param_def filter_int_def)

lemmas map_of_params = map_of_opt_param map_of_int_param
  map_of_int_param [where r = "[]", unfolded append_Nil2]

lemma map_option_show_int_inject: "map_option show_int a = map_option show_int b \<longleftrightarrow> a = b"
  by (cases a; cases b) auto

lemma opt_param_filter: "opt_param k (filter_text v) = opt_param k v"
  by (cases v) (auto simp: opt_param_def filter_text_def)

lemma int_param_filter: "int_param k (filter_int v) = int_param k v"
  by (cases v) (auto simp: int_param_def filter_int_def)

lemma history_query_effective: "history_query (effective_filters f) = history_query f"
  by (simp add: history_query_eq effective_filters_def opt_param_filter int_param_filter)

lemma history_query_lookup:
  "map_of (history_query f) ''site_id'' = filter_text (hf_siteId f)"
  "map_of (history_query f) ''node_id'' = filter_text (hf_nodeId f)"
  "map_of (history_query f) ''since'' = filter_text (hf_since f)"
  "map_of (history_query f) ''until'' = filter_text (hf_until f)"
  "map_of (history_query f) ''source_ip'' = filter_text (hf_sourceIp f)"
  "map_of (history_query f) ''destination'' = filter_text (hf_destination f)"
  "map_of (history_query f) ''network'' = filter_text (hf_network f)"
  "map_of (history_query f) ''outbound'' = filter_text (hf_outbound f)"
  "map_of (history_query f) ''search'' = filter_text (hf_search f)"
  "map_of (history_query f) ''limit'' = map_option show_int (filter_int (hf_limit f))"
  "map_of (history_query f) ''offset'' = map_option show_int (filter_int (hf_offset f))"
  by (simp_all add: history_query_eq map_of_params del: map_of_append)

lemma params_to_string_eqD: "params_to_string ps = params_to_string qs \<Longrightarrow> ps = qs"
proof (cases "ps = [] \<or> qs = []")
  case True
  assume "params_to_string ps = params_to_string qs"
  moreover have "params_to_string [] = []" by (simp add: params_to_string_def)
  ultimately show ?thesis using True params_to_string_nonempty by metis
next
  case False
  assume "params_to_string ps = params_to_string qs"
  with False show ?thesis by (blast intro: params_to_string_inject)
qed

lemma history_query_inject:
  assumes "history_query f = history_query g"
  shows "effective_filters f = effective_filters g"
  using history_query_lookup [of f, unfolded assms history_query_lookup]
  by (simp add: effective_filters_def map_option_show_int_inject)

section \<open>Properties\<close>

lemma latest_not_number: "encodeURIComponent ''latest'' \<noteq> encodeURIComponent (show_int n)"
proof
  assume "encodeURIComponent ''latest'' = encodeURIComponent (show_int n)"
  then have "CHR ''l'' \<in> set (show_int n)" by (metis encodeURIComponent_inject list.set_intros(1))
  then show False using show_int_chars by (fastforce simp: is_digit_def)
qed

text \<open>C6: the idempotency key of a proxy selection identifies the request: two selections share a
  key only if they are for the same node, group, outbound (up to surrounding white space) and
  expected version, so a retry is recognised and no other selection is mistaken for it.\<close>

theorem proxy_selection_key_identifies:
  "proxy_selection_key n v = proxy_selection_key m w \<longleftrightarrow>
     n = m \<and> trim (psr_group v) = trim (psr_group w) \<and> trim (psr_outbound v) = trim (psr_outbound w) \<and>
     psr_expected_current_version v = psr_expected_current_version w"
proof
  assume "proxy_selection_key n v = proxy_selection_key m w"
  then have "[''proxy-selection'', encodeURIComponent n, encodeURIComponent (trim (psr_group v)),
        encodeURIComponent (trim (psr_outbound v)),
        encodeURIComponent (case psr_expected_current_version v of None \<Rightarrow> ''latest'' | Some k \<Rightarrow> show_int k)]
      = [''proxy-selection'', encodeURIComponent m, encodeURIComponent (trim (psr_group w)),
        encodeURIComponent (trim (psr_outbound w)),
        encodeURIComponent (case psr_expected_current_version w of None \<Rightarrow> ''latest'' | Some k \<Rightarrow> show_int k)]"
    unfolding proxy_selection_key_def
    by (intro join_inject [where c = "CHR '':''"]) (simp_all add: encodeURIComponent_no_colon)
  then show "n = m \<and> trim (psr_group v) = trim (psr_group w) \<and>
      trim (psr_outbound v) = trim (psr_outbound w) \<and>
      psr_expected_current_version v = psr_expected_current_version w"
    using latest_not_number latest_not_number [symmetric] by (auto split: option.splits)
qed (simp add: proxy_selection_key_def)

text \<open>The address of a connection history query determines its filters: two filter sets give
  the same request exactly when they agree after empty texts and zeros are dropped, so no
  combination of filter values can be mistaken for another one.\<close>

theorem history_request_identifies_filters:
  "getConnectionHistory f = getConnectionHistory g \<longleftrightarrow> effective_filters f = effective_filters g"
proof
  assume "getConnectionHistory f = getConnectionHistory g"
  then have "params_to_string (history_query f) = params_to_string (history_query g)"
    by (simp add: getConnectionHistory_def)
  then show "effective_filters f = effective_filters g"
    by (rule history_query_inject [OF params_to_string_eqD])
next
  assume "effective_filters f = effective_filters g"
  then have "history_query f = history_query g" by (metis history_query_effective)
  then show "getConnectionHistory f = getConnectionHistory g" by (simp add: getConnectionHistory_def)
qed

text \<open>Saving a routing policy sends exactly that policy: two saves make the same request only
  for the same site, the same expected revision and the same policy, rule by rule.\<close>

theorem save_routing_policy_faithful:
  "saveRoutingPolicy s n p = saveRoutingPolicy s' n' p' \<longleftrightarrow> s = s' \<and> n = n' \<and> p = p'"
proof
  assume eq: "saveRoutingPolicy s n p = saveRoutingPolicy s' n' p'"
  then have "encodeURIComponent s = encodeURIComponent s'" by (simp add: saveRoutingPolicy_def)
  moreover from eq have "init_body (jsonRequest ''PUT'' (Some (JObj [(''expected_revision'', JNum n), (''policy'', routing_policy_json p)])))
      = init_body (jsonRequest ''PUT'' (Some (JObj [(''expected_revision'', JNum n'), (''policy'', routing_policy_json p')])))"
    by (simp add: saveRoutingPolicy_def)
  ultimately show "s = s' \<and> n = n' \<and> p = p'"
    by (simp add: jsonRequest_body_inject routing_policy_json_inject)
qed simp

end
