(* ===== verification/View.thy ===== *)
theory View
  imports Prelude
begin

text \<open>
  What a component renders, as far as a user can act on it: texts, groups, buttons, links, inputs,
  selects, check boxes and dialogs, with the conditions under which they appear and are enabled.
  Class names, icons and other decoration of the JSX are left out.  \<open>'c\<close> names the click handlers
  of a component, \<open>'f\<close> its fields with a change handler.

  The functions \<open>clicks\<close> and \<open>edits\<close> collect what a user can trigger in a rendered view; they turn the
  markup of a page into the guards of its user events.
\<close>

datatype ('c, 'f) view =
    Txt string
  | Grp string "('c, 'f) view list"
  | Btn string bool 'c
  | Href string string
  | Inp string string bool 'f
  | Sel string string "(string \<times> string) list" bool 'f
  | Chk string bool bool 'c
  | Dlg bool string "('c, 'f) view list"

text \<open>\<^verbatim>\<open>cond ? element : null\<close> and \<^verbatim>\<open>cond && element\<close>.\<close>

definition show_if :: "bool \<Rightarrow> ('c, 'f) view list \<Rightarrow> ('c, 'f) view list" where
  "show_if b vs = (if b then vs else [])"

fun clicks :: "('c, 'f) view \<Rightarrow> 'c list" where
  "clicks (Txt s) = []"
| "clicks (Grp n vs) = concat (map clicks vs)"
| "clicks (Btn l disabled c) = (if disabled then [] else [c])"
| "clicks (Href h l) = []"
| "clicks (Inp l v disabled f) = []"
| "clicks (Sel l v opts disabled f) = []"
| "clicks (Chk l checked disabled c) = (if disabled then [] else [c])"
| "clicks (Dlg opened title vs) = (if opened then concat (map clicks vs) else [])"

text \<open>The fields that can be edited; a select only takes the values of its options.\<close>

fun edits :: "('c, 'f) view \<Rightarrow> ('f \<times> string list option) list" where
  "edits (Txt s) = []"
| "edits (Grp n vs) = concat (map edits vs)"
| "edits (Btn l disabled c) = []"
| "edits (Href h l) = []"
| "edits (Inp l v disabled f) = (if disabled then [] else [(f, None)])"
| "edits (Sel l v opts disabled f) = (if disabled then [] else [(f, Some (map fst opts))])"
| "edits (Chk l checked disabled c) = []"
| "edits (Dlg opened title vs) = (if opened then concat (map edits vs) else [])"

fun texts :: "('c, 'f) view \<Rightarrow> string list" where
  "texts (Txt s) = [s]"
| "texts (Grp n vs) = concat (map texts vs)"
| "texts (Btn l disabled c) = [l]"
| "texts (Href h l) = [l]"
| "texts (Inp l v disabled f) = [l]"
| "texts (Sel l v opts disabled f) = l # map snd opts"
| "texts (Chk l checked disabled c) = [l]"
| "texts (Dlg opened title vs) = (if opened then title # concat (map texts vs) else [])"

definition can_click :: "('c, 'f) view \<Rightarrow> 'c \<Rightarrow> bool" where
  "can_click v c \<longleftrightarrow> c \<in> set (clicks v)"

definition can_edit :: "('c, 'f) view \<Rightarrow> 'f \<Rightarrow> string \<Rightarrow> bool" where
  "can_edit v f s \<longleftrightarrow>
     (\<exists>(f', allowed) \<in> set (edits v). f' = f \<and> (case allowed of None \<Rightarrow> True | Some vs \<Rightarrow> s \<in> set vs))"

lemma show_if_simps [simp, js_simps]: "show_if True vs = vs" "show_if False vs = []"
  by (simp_all add: show_if_def)

lemma can_click_simps [simp, js_simps]:
  "can_click (Txt s) c \<longleftrightarrow> False"
  "can_click (Grp n vs) c \<longleftrightarrow> list_ex (\<lambda>v. can_click v c) vs"
  "can_click (Btn l d c') c \<longleftrightarrow> \<not> d \<and> c = c'"
  "can_click (Href h l) c \<longleftrightarrow> False"
  "can_click (Inp l v d f) c \<longleftrightarrow> False"
  "can_click (Sel l v opts d f) c \<longleftrightarrow> False"
  "can_click (Chk l b d c') c \<longleftrightarrow> \<not> d \<and> c = c'"
  "can_click (Dlg opened title vs) c \<longleftrightarrow> opened \<and> list_ex (\<lambda>v. can_click v c) vs"
  by (auto simp: can_click_def list_ex_iff)

lemma can_edit_simps [simp, js_simps]:
  "can_edit (Txt s) f x \<longleftrightarrow> False"
  "can_edit (Grp n vs) f x \<longleftrightarrow> list_ex (\<lambda>v. can_edit v f x) vs"
  "can_edit (Btn l d c) f x \<longleftrightarrow> False"
  "can_edit (Href h l) f x \<longleftrightarrow> False"
  "can_edit (Inp l v d f') f x \<longleftrightarrow> \<not> d \<and> f = f'"
  "can_edit (Sel l v opts d f') f x \<longleftrightarrow> \<not> d \<and> f = f' \<and> x \<in> fst ` set opts"
  "can_edit (Chk l b d c) f x \<longleftrightarrow> False"
  "can_edit (Dlg opened title vs) f x \<longleftrightarrow> opened \<and> list_ex (\<lambda>v. can_edit v f x) vs"
  by (auto simp: can_edit_def list_ex_iff)

lemma list_ex_show_if [simp]: "list_ex P (show_if b vs) \<longleftrightarrow> b \<and> list_ex P vs"
  by (simp add: show_if_def)

lemma list_ex_map_view [simp]: "list_ex P (map f xs) \<longleftrightarrow> (\<exists>x \<in> set xs. P (f x))"
  by (auto simp: list_ex_iff)

section \<open>Pages as machines\<close>

text \<open>A component in use: its state, what it renders, how it answers a click, an edit and a message
  from outside (a query result, a mutation result, a timer).  What is rendered may also depend on an
  environment \<open>'e\<close> (the clock, the results of queries).  The user can only do what the current view
  offers.  A property that every such event keeps holds in all states that can be reached.\<close>

locale component =
  fixes start :: "'s \<Rightarrow> bool"
    and render :: "'e \<Rightarrow> 's \<Rightarrow> ('c, 'f) view"
    and on_click :: "'c \<Rightarrow> 's \<Rightarrow> 's"
    and on_edit :: "'f \<Rightarrow> string \<Rightarrow> 's \<Rightarrow> 's"
    and on_message :: "'m \<Rightarrow> 's \<Rightarrow> 's"
    and inv :: "'s \<Rightarrow> bool"
  assumes inv_start: "start s \<Longrightarrow> inv s"
    and inv_click: "inv s \<Longrightarrow> can_click (render e s) c \<Longrightarrow> inv (on_click c s)"
    and inv_edit: "inv s \<Longrightarrow> can_edit (render e s) f v \<Longrightarrow> inv (on_edit f v s)"
    and inv_message: "inv s \<Longrightarrow> inv (on_message m s)"
begin

inductive reachable :: "'s \<Rightarrow> bool" where
  reach_start: "start s \<Longrightarrow> reachable s"
| reach_click: "reachable s \<Longrightarrow> can_click (render e s) c \<Longrightarrow> reachable (on_click c s)"
| reach_edit: "reachable s \<Longrightarrow> can_edit (render e s) f v \<Longrightarrow> reachable (on_edit f v s)"
| reach_message: "reachable s \<Longrightarrow> reachable (on_message m s)"

lemma reachable_inv: "reachable s \<Longrightarrow> inv s"
  by (induction rule: reachable.induct) (auto intro: inv_start inv_click inv_edit inv_message)

end

end
