(* ===== verification/Toasts.thy ===== *)
theory Toasts
  imports Prelude
begin

text \<open>
  Transient notifications: \<^verbatim>\<open>src/frontend/components/toast.tsx\<close> and the mutation cache of
  \<^verbatim>\<open>src/frontend/app/providers.tsx\<close> that feeds them.

  A notification raised while no provider listens waits in \<open>pendingToasts\<close>; mounting the provider
  shows what waits.  The identifier of a toast (clock plus a random number) is an argument.
\<close>

datatype ToastVariant = VariantDefault | VariantSuccess | VariantDestructive

record ToastInput =
  toast_title :: string
  toast_description :: "string option"
  toast_variant :: "ToastVariant option"
  toast_duration :: "int option"

record ToastItem =
  item_input :: ToastInput
  item_id :: int
  item_open :: bool

record toast_state =
  toast_listening :: bool
  pendingToasts :: "ToastInput list"
  toast_items :: "ToastItem list"

section \<open>Operations\<close>

definition pending_push :: "ToastInput \<Rightarrow> ToastInput list \<Rightarrow> ToastInput list" where
  "pending_push input pending =
     (let pending' = pending @ [input] in if length pending' > 5 then tl pending' else pending')"

definition items_push :: "ToastInput \<times> int \<Rightarrow> ToastItem list \<Rightarrow> ToastItem list" where
  "items_push = (\<lambda>(input, ident) items.
     last_n 4 items @ [\<lparr>item_input = input, item_id = ident, item_open = True\<rparr>])"

definition toast :: "int \<Rightarrow> ToastInput \<Rightarrow> toast_state \<Rightarrow> toast_state" where
  "toast ident input s = s\<lparr>toast_items := items_push (input, ident) (toast_items s)\<rparr>"

definition notifyToast :: "int \<Rightarrow> ToastInput \<Rightarrow> toast_state \<Rightarrow> toast_state" where
  "notifyToast ident input s =
     (if \<not> toast_listening s then s\<lparr>pendingToasts := pending_push input (pendingToasts s)\<rparr>
      else toast ident input s)"

text \<open>\<open>ids\<close> supplies one identifier per waiting notification.\<close>

definition ToastProvider_mount :: "(nat \<Rightarrow> int) \<Rightarrow> toast_state \<Rightarrow> toast_state" where
  "ToastProvider_mount ids s =
     (let waiting = pendingToasts s
      in fold (\<lambda>(input, ident). toast ident input) (zip waiting (map ids [0..<length waiting]))
           (s\<lparr>toast_listening := True, pendingToasts := [], toast_items := []\<rparr>))"

definition ToastProvider_unmount :: "toast_state \<Rightarrow> toast_state" where
  "ToastProvider_unmount s = s\<lparr>toast_listening := False, toast_items := []\<rparr>"

definition toast_onOpenChange :: "int \<Rightarrow> bool \<Rightarrow> toast_state \<Rightarrow> toast_state" where
  "toast_onOpenChange ident opened s =
     (if \<not> opened then s\<lparr>toast_items := filter (\<lambda>entry. item_id entry \<noteq> ident) (toast_items s)\<rparr>
      else s)"

text \<open>What a toast shows: its class, its duration, its description when there is one.\<close>

definition toast_class :: "ToastInput \<Rightarrow> string" where
  "toast_class i =
     (case toast_variant i of
        None \<Rightarrow> ''toast-default''
      | Some VariantDefault \<Rightarrow> ''toast-default''
      | Some VariantSuccess \<Rightarrow> ''toast-success''
      | Some VariantDestructive \<Rightarrow> ''toast-destructive'')"

definition toast_shown_duration :: "ToastInput \<Rightarrow> int" where
  "toast_shown_duration i = (case toast_duration i of None \<Rightarrow> 5000 | Some d \<Rightarrow> d)"

text \<open>An error is its message where the thrown value is an \<^verbatim>\<open>Error\<close>, \<open>None\<close> otherwise.\<close>

definition toastErrorMessage :: "string option \<Rightarrow> string \<Rightarrow> string" where
  "toastErrorMessage err fallback = (if truthy_str err then the err else fallback)"

definition defaultErrorMessage :: string where
  "defaultErrorMessage = ''The operation could not be completed.''"

section \<open>The mutation cache\<close>

text \<open>\<open>meta_toast\<close> is \<^verbatim>\<open>mutation.meta?.toast\<close>, \<open>t\<close> the current translator.\<close>

definition mutation_onError ::
    "(string \<Rightarrow> string) \<Rightarrow> bool option \<Rightarrow> string option \<Rightarrow> int \<Rightarrow> toast_state \<Rightarrow> toast_state" where
  "mutation_onError t meta_toast err ident s =
     (if meta_toast = Some False then s
      else notifyToast ident
             \<lparr>toast_title = t ''Operation failed'',
              toast_description = Some (t (toastErrorMessage err defaultErrorMessage)),
              toast_variant = Some VariantDestructive, toast_duration = None\<rparr> s)"

definition mutation_onSuccess ::
    "(string \<Rightarrow> string) \<Rightarrow> bool option \<Rightarrow> int \<Rightarrow> toast_state \<Rightarrow> toast_state" where
  "mutation_onSuccess t meta_toast ident s =
     (if meta_toast = Some False then s
      else notifyToast ident
             \<lparr>toast_title = t ''Operation completed'', toast_description = None,
              toast_variant = Some VariantSuccess, toast_duration = None\<rparr> s)"

section \<open>A window that slides over a stream\<close>

lemma last_n_append: "last_n n (last_n n xs @ ys) = last_n n (xs @ ys)"
proof -
  have "last_n n xs @ ys = drop (length xs - n) (xs @ ys)" by (simp add: last_n_def)
  then show ?thesis by (cases "n \<le> length xs") (simp_all add: last_n_def ac_simps)
qed

text \<open>Both queues keep the newest five entries, by different means.\<close>

locale sliding_window =
  fixes push :: "'a \<Rightarrow> 'b list \<Rightarrow> 'b list" and entry :: "'a \<Rightarrow> 'b" and cap :: nat
  assumes push_window: "length xs \<le> cap \<Longrightarrow> push x xs = last_n cap (xs @ [entry x])"
    and cap_pos: "0 < cap"
begin

lemma length_push: "length xs \<le> cap \<Longrightarrow> length (push x xs) \<le> cap"
  by (simp add: push_window)

lemma fold_push:
  "length ys \<le> cap \<Longrightarrow> fold push xs ys = last_n cap (ys @ map entry xs)"
proof (induction xs arbitrary: ys)
  case Nil
  then show ?case by (simp add: last_n_def)
next
  case (Cons x xs)
  then have "fold push (x # xs) ys = last_n cap (last_n cap (ys @ [entry x]) @ map entry xs)"
    by (simp add: length_push push_window)
  also have "\<dots> = last_n cap (ys @ map entry (x # xs))"
    by (simp add: last_n_append)
  finally show ?case .
qed

lemma fold_push_empty: "fold push xs [] = last_n cap (map entry xs)"
  by (simp add: fold_push)

lemma newest_kept: "length ys \<le> cap \<Longrightarrow> last (push x ys) = entry x"
  using cap_pos by (simp add: push_window last_n_def)

end

interpretation pq: sliding_window pending_push "\<lambda>i. i" 5
proof unfold_locales
  show "length xs \<le> 5 \<Longrightarrow> pending_push x xs = last_n 5 (xs @ [x])" for x xs
    by (cases xs) (auto simp: pending_push_def last_n_def Let_def le_Suc_eq numeral_eq_Suc)
qed simp

interpretation iq: sliding_window items_push
    "\<lambda>(input, ident). \<lparr>item_input = input, item_id = ident, item_open = True\<rparr>" 5
  by unfold_locales (auto simp: items_push_def last_n_def)

section \<open>Reachable states\<close>

inductive toast_step :: "toast_state \<Rightarrow> toast_state \<Rightarrow> bool" where
  step_notify: "toast_step s (notifyToast ident input s)"
| step_mount: "\<not> toast_listening s \<Longrightarrow> toast_step s (ToastProvider_mount ids s)"
| step_unmount: "toast_listening s \<Longrightarrow> toast_step s (ToastProvider_unmount s)"
| step_close: "toast_step s (toast_onOpenChange ident opened s)"

definition toast_init :: toast_state where
  "toast_init = \<lparr>toast_listening = False, pendingToasts = [], toast_items = []\<rparr>"

inductive toast_reachable :: "toast_state \<Rightarrow> bool" where
  reach_init: "toast_reachable toast_init"
| reach_step: "toast_reachable s \<Longrightarrow> toast_step s s' \<Longrightarrow> toast_reachable s'"

definition toast_inv :: "toast_state \<Rightarrow> bool" where
  "toast_inv s \<longleftrightarrow>
     length (pendingToasts s) \<le> 5 \<and> length (toast_items s) \<le> 5 \<and>
     (if toast_listening s then pendingToasts s = [] else toast_items s = [])"

section \<open>Lemmas\<close>

lemma fold_toast_items:
  "fold (\<lambda>(input, ident). toast ident input) xs s
     = s\<lparr>toast_items := fold items_push xs (toast_items s)\<rparr>"
  by (induction xs arbitrary: s) (auto simp: toast_def)

lemma mount_eq:
  "ToastProvider_mount ids s =
     s\<lparr>toast_listening := True, pendingToasts := [],
       toast_items := last_n 5 (map (\<lambda>(input, ident).
           \<lparr>item_input = input, item_id = ident, item_open = True\<rparr>)
         (zip (pendingToasts s) (map ids [0..<length (pendingToasts s)])))\<rparr>"
  by (simp add: ToastProvider_mount_def Let_def fold_toast_items iq.fold_push_empty)

lemma toast_inv_notify [inv_intros]: "toast_inv s \<Longrightarrow> toast_inv (notifyToast ident input s)"
  using pq.length_push [of "pendingToasts s" input] iq.length_push [of "toast_items s" "(input, ident)"]
  by (auto simp: toast_inv_def notifyToast_def toast_def)

lemma toast_inv_mount [inv_intros]: "toast_inv (ToastProvider_mount ids s)"
  by (simp add: toast_inv_def mount_eq)

lemma toast_inv_unmount [inv_intros]:
  "toast_inv s \<Longrightarrow> toast_inv (ToastProvider_unmount s)"
  by (simp add: toast_inv_def ToastProvider_unmount_def)

lemma toast_inv_close [inv_intros]: "toast_inv s \<Longrightarrow> toast_inv (toast_onOpenChange ident opened s)"
  by (auto simp: toast_inv_def toast_onOpenChange_def intro: le_trans [OF length_filter_le])

lemma toast_reachable_inv: "toast_reachable s \<Longrightarrow> toast_inv s"
proof (induction rule: toast_reachable.induct)
  case reach_init
  show ?case by (simp add: toast_inv_def toast_init_def)
next
  case (reach_step s s')
  from reach_step.hyps(2) reach_step.IH show ?case
    by cases (auto intro: inv_intros)
qed

lemma fold_notify_waiting:
  "\<not> toast_listening s \<Longrightarrow>
     fold (\<lambda>(input, ident). notifyToast ident input) xs s
       = s\<lparr>pendingToasts := fold pending_push (map fst xs) (pendingToasts s)\<rparr>"
  by (induction xs arbitrary: s) (auto simp: notifyToast_def)

lemma fold_notify_listening:
  "toast_listening s \<Longrightarrow>
     fold (\<lambda>(input, ident). notifyToast ident input) xs s
       = s\<lparr>toast_items := fold items_push xs (toast_items s)\<rparr>"
  by (induction xs arbitrary: s) (auto simp: notifyToast_def toast_def)

lemma map_last_n: "map f (last_n n xs) = last_n n (map f xs)"
  by (simp add: last_n_def drop_map)

lemma last_n_last_n [simp]: "last_n n (last_n n xs) = last_n n xs"
  by (simp add: last_n_def)

lemma map_fst_zip_ids [simp]: "map (f \<circ> fst) (zip xs (map ids [0..<length xs])) = map f xs"
  by (metis length_map list.map_comp map_fst_zip map_nth)

text \<open>The notifications on display, oldest first, do not depend on whether they were raised before
  or after the provider was mounted.\<close>

lemma shown_after_mount:
  "map item_input (toast_items
     (ToastProvider_mount ids (fold (\<lambda>(input, ident). notifyToast ident input) xs toast_init)))
   = last_n 5 (map fst xs)"
proof -
  let ?p = "last_n 5 (map fst xs)"
  have "map item_input (last_n 5 (map (\<lambda>(input, ident).
      \<lparr>item_input = input, item_id = ident, item_open = True\<rparr>) (zip ?p (map ids [0..<length ?p]))))
    = last_n 5 (map fst (zip ?p (map ids [0..<length ?p])))"
    by (simp add: map_last_n split_beta comp_def)
  also have "\<dots> = ?p" by simp
  finally show ?thesis
    by (simp add: fold_notify_waiting toast_init_def mount_eq pq.fold_push_empty)
qed

lemma shown_when_mounted:
  "map item_input (toast_items (fold (\<lambda>(input, ident). notifyToast ident input) xs
     (ToastProvider_mount ids toast_init)))
   = last_n 5 (map fst xs)"
  by (simp add: fold_notify_listening mount_eq toast_init_def iq.fold_push map_last_n split_beta
        comp_def) (simp add: last_n_def)

section \<open>Properties\<close>

text \<open>At most five notifications wait and at most five are shown, nothing waits while a provider
  listens, and nothing is shown while none does, in every reachable state.\<close>

theorem toast_queues_bounded:
  assumes "toast_reachable s"
  shows "length (pendingToasts s) \<le> 5 \<and> length (toast_items s) \<le> 5 \<and>
     (toast_listening s \<longrightarrow> pendingToasts s = []) \<and> (\<not> toast_listening s \<longrightarrow> toast_items s = [])"
  using toast_reachable_inv [OF assms] by (simp add: toast_inv_def split: if_splits)

theorem toast_queues_bounded_witness:
  "length (pendingToasts (notifyToast 1 \<lparr>toast_title = ''x'', toast_description = None,
      toast_variant = None, toast_duration = None\<rparr> toast_init)) \<le> 5"
  using toast_queues_bounded [OF reach_step [OF reach_init step_notify]] by blast

text \<open>No notification is lost to timing: what is on display after a sequence of notifications
  is the newest five of them in order, whether they were raised before the provider was mounted or
  after.\<close>

theorem toasts_independent_of_mount:
  "map item_input (toast_items
     (ToastProvider_mount ids (fold (\<lambda>(input, ident). notifyToast ident input) xs toast_init)))
   = map item_input (toast_items (fold (\<lambda>(input, ident). notifyToast ident input) xs
     (ToastProvider_mount ids toast_init))) \<and>
   map item_input (toast_items
     (ToastProvider_mount ids (fold (\<lambda>(input, ident). notifyToast ident input) xs toast_init)))
   = last_n 5 (map fst xs)"
  by (simp only: shown_after_mount shown_when_mounted)

end
