(* ===== verification/Dates.thy ===== *)
theory Dates
  imports Encoding
begin

text \<open>
  \<^verbatim>\<open>Date.prototype.toISOString\<close>: instants are milliseconds since the epoch, printed in UTC on
  the proleptic Gregorian calendar.  The calendar is computed on years that start in March, so that
  the leap day is the last day of a year and months have a regular length pattern.
\<close>

definition civil_of_days :: "int \<Rightarrow> int \<times> int \<times> int" where
  "civil_of_days z =
     (let z' = z + 719468;
          era = z' div 146097;
          doe = z' mod 146097;
          yoe = (doe - doe div 1460 + doe div 36524 - doe div 146096) div 365;
          doy = doe - (365 * yoe + yoe div 4 - yoe div 100);
          mp = (5 * doy + 2) div 153;
          d = doy - (153 * mp + 2) div 5 + 1;
          m = (if mp < 10 then mp + 3 else mp - 9);
          y = yoe + era * 400 + (if m \<le> 2 then 1 else 0)
      in (y, m, d))"

definition pad :: "nat \<Rightarrow> int \<Rightarrow> string" where
  "pad n v = (let s = show_nat (nat v) in replicate (n - length s) (CHR ''0'') @ s)"

definition iso_year :: "int \<Rightarrow> string" where
  "iso_year y =
     (if 0 \<le> y \<and> y \<le> 9999 then pad 4 y
      else if y < 0 then CHR ''-'' # pad 6 (- y) else CHR ''+'' # pad 6 y)"

definition toISOString :: "int \<Rightarrow> string" where
  "toISOString ms =
     (let (y, m, d) = civil_of_days (ms div 86400000);
          t = ms mod 86400000
      in iso_year y @ ''-'' @ pad 2 m @ ''-'' @ pad 2 d @ ''T''
         @ pad 2 (t div 3600000) @ '':'' @ pad 2 (t div 60000 mod 60) @ '':''
         @ pad 2 (t div 1000 mod 60) @ ''.'' @ pad 3 (t mod 1000) @ ''Z'')"

lemma length_pad: "length (show_nat (nat v)) \<le> n \<Longrightarrow> length (pad n v) = n"
  by (simp add: pad_def Let_def)

end
