(* ===== verification/Ui_Components.thy ===== *)
theory Ui_Components
  imports View Toasts Dates Session
begin

text \<open>
  The shared components: \<^verbatim>\<open>src/frontend/components/ui.tsx\<close>, \<^verbatim>\<open>data-state.tsx\<close>, \<^verbatim>\<open>list-filters.tsx\<close>,
  \<^verbatim>\<open>page-header.tsx\<close> and \<^verbatim>\<open>session-gate.tsx\<close>.  A component is a function from its properties to a view; \<open>t\<close> is the
  translator.  The refresh button has a state of its own and is modelled as a machine.
\<close>

section \<open>The refresh button\<close>

datatype RefreshState = Idle | Refreshing | Succeeded

text \<open>What a refresh resolves to: an array of results, an object with an \<^verbatim>\<open>error\<close> member (\<open>None\<close> for
  \<^verbatim>\<open>null\<close>, otherwise the message of the error), or anything else.\<close>

datatype refresh_value =
    ResultArray "refresh_value list"
  | ResultObject "string option"
  | ResultOther

fun refreshResultError :: "refresh_value \<Rightarrow> string option" where
  "refreshResultError (ResultArray vs) =
     (case filter (\<lambda>e. e \<noteq> None) (map refreshResultError vs) of [] \<Rightarrow> None | e # _ \<Rightarrow> e)"
| "refreshResultError (ResultObject e) = e"
| "refreshResultError ResultOther = None"

text \<open>A refresh ends by resolving to a value or by throwing (with the message where the thrown value
  is an \<^verbatim>\<open>Error\<close>).\<close>

datatype refresh_outcome = Resolved refresh_value | Thrown "string option"

text \<open>\<open>rb_rendered\<close> is the state the handler on screen has captured; a state update is only seen by the
  handler after the next render.  \<open>rb_inflight\<close> counts the refreshes that were started and have not
  ended, \<open>rb_timers\<close> the success timers that are set.\<close>

record refresh_button =
  rb_state :: RefreshState
  rb_rendered :: RefreshState
  rb_lock :: bool
  rb_inflight :: nat
  rb_timers :: nat
  rb_toasts :: "string list"

definition refresh :: "bool \<Rightarrow> refresh_button \<Rightarrow> refresh_button" where
  "refresh disabled s =
     (if disabled \<or> rb_lock s \<or> rb_rendered s \<noteq> Idle then s
      else s\<lparr>rb_lock := True, rb_state := Refreshing, rb_inflight := rb_inflight s + 1\<rparr>)"

definition refresh_failed :: "translator \<Rightarrow> string option \<Rightarrow> refresh_button \<Rightarrow> refresh_button" where
  "refresh_failed t err s =
     s\<lparr>rb_lock := False, rb_state := Idle,
       rb_toasts := rb_toasts s @ [t (toastErrorMessage err defaultErrorMessage) []]\<rparr>"

definition refresh_end :: "translator \<Rightarrow> refresh_outcome \<Rightarrow> refresh_button \<Rightarrow> refresh_button" where
  "refresh_end t outcome s =
     (let s' = s\<lparr>rb_inflight := rb_inflight s - 1\<rparr>
      in case outcome of
           Thrown err \<Rightarrow> refresh_failed t err s'
         | Resolved value \<Rightarrow>
             (case refreshResultError value of
                Some e \<Rightarrow> refresh_failed t (Some e) s'
              | None \<Rightarrow> s'\<lparr>rb_state := Succeeded, rb_timers := rb_timers s' + 1\<rparr>))"

definition refresh_timer :: "refresh_button \<Rightarrow> refresh_button" where
  "refresh_timer s = s\<lparr>rb_lock := False, rb_state := Idle, rb_timers := rb_timers s - 1\<rparr>"

definition refresh_render :: "refresh_button \<Rightarrow> refresh_button" where
  "refresh_render s = s\<lparr>rb_rendered := rb_state s\<rparr>"

definition refresh_label :: "string \<Rightarrow> RefreshState \<Rightarrow> string" where
  "refresh_label label st =
     (case st of Refreshing \<Rightarrow> ''Working...'' | Succeeded \<Rightarrow> ''succeeded'' | Idle \<Rightarrow> label)"

definition RefreshButton :: "translator \<Rightarrow> string \<Rightarrow> bool \<Rightarrow> 'c \<Rightarrow> refresh_button \<Rightarrow> ('c, 'f) view" where
  "RefreshButton t label disabled click s =
     Btn (t (refresh_label label (rb_rendered s)) []) (disabled \<or> rb_rendered s \<noteq> Idle) click"

inductive refresh_step :: "refresh_button \<Rightarrow> refresh_button \<Rightarrow> bool" where
  refresh_click: "refresh_step s (refresh disabled s)"
| refresh_ends: "rb_inflight s > 0 \<Longrightarrow> refresh_step s (refresh_end t outcome s)"
| refresh_resets: "rb_timers s > 0 \<Longrightarrow> refresh_step s (refresh_timer s)"
| refresh_renders: "refresh_step s (refresh_render s)"

definition refresh_init :: refresh_button where
  "refresh_init = \<lparr>rb_state = Idle, rb_rendered = Idle, rb_lock = False, rb_inflight = 0,
     rb_timers = 0, rb_toasts = []\<rparr>"

text \<open>The lock is held exactly while a refresh or its success timer is outstanding, and there is
  never more than one of them.\<close>

definition refresh_inv :: "refresh_button \<Rightarrow> bool" where
  "refresh_inv s \<longleftrightarrow>
     (case rb_state s of
        Idle \<Rightarrow> \<not> rb_lock s \<and> rb_inflight s = 0 \<and> rb_timers s = 0
      | Refreshing \<Rightarrow> rb_lock s \<and> rb_inflight s = 1 \<and> rb_timers s = 0
      | Succeeded \<Rightarrow> rb_lock s \<and> rb_inflight s = 0 \<and> rb_timers s = 1)"

lemma refresh_inv_step: "refresh_step s s' \<Longrightarrow> refresh_inv s \<Longrightarrow> refresh_inv s'"
proof (induction rule: refresh_step.induct)
  case (refresh_click s disabled)
  then show ?case by (auto simp: refresh_def refresh_inv_def split: RefreshState.splits)
next
  case (refresh_ends s t outcome)
  then show ?case
    by (auto simp: refresh_end_def refresh_failed_def refresh_inv_def Let_def
          split: RefreshState.splits refresh_outcome.splits option.splits)
next
  case (refresh_resets s)
  then show ?case by (auto simp: refresh_timer_def refresh_inv_def split: RefreshState.splits)
next
  case (refresh_renders s)
  then show ?case by (auto simp: refresh_render_def refresh_inv_def split: RefreshState.splits)
qed

lemma refresh_inv_reachable: "refresh_step\<^sup>*\<^sup>* refresh_init s \<Longrightarrow> refresh_inv s"
  by (induction rule: rtranclp_induct)
     (auto simp: refresh_inv_def refresh_init_def intro: refresh_inv_step [unfolded refresh_inv_def])

section \<open>Badges, dialogs, states\<close>

definition status_normalized :: "string \<Rightarrow> string" where
  "status_normalized status = replace_char (CHR ''_'') ''-'' (to_lower status)"

definition status_tone :: "string \<Rightarrow> string" where
  "status_tone status =
     (let normalized = status_normalized status
      in if normalized \<in> set [''online'', ''in-sync'', ''healthy'', ''succeeded'', ''allowed'',
              ''enabled'', ''valid'', ''active'', ''current'', ''published'', ''ready'']
         then ''success''
         else if normalized \<in> set [''offline'', ''failed'', ''rollback-failed'', ''unhealthy'',
              ''dead-letter'', ''denied'', ''shutdown'']
         then ''danger''
         else if normalized \<in> set [''critical''] then ''danger''
         else if normalized \<in> set [''applying'', ''health-check'', ''queued'', ''running'', ''degraded'',
              ''drift'', ''pending'', ''attention'', ''high'', ''medium'', ''warning'', ''expired'',
              ''rolled-back'']
         then ''warning''
         else if normalized \<in> set [''resolved''] then ''success''
         else ''neutral'')"

definition StatusBadge :: "translator \<Rightarrow> string \<Rightarrow> ('c, 'f) view" where
  "StatusBadge t status = Grp (''status-'' @ status_tone status) [Txt (t status [])]"

definition IconButton :: "translator \<Rightarrow> string \<Rightarrow> bool \<Rightarrow> 'c \<Rightarrow> ('c, 'f) view" where
  "IconButton t label disabled click = Btn (t label []) disabled click"

definition ConfirmDialog ::
    "translator \<Rightarrow> bool \<Rightarrow> string \<Rightarrow> string \<Rightarrow> string \<Rightarrow> bool \<Rightarrow> 'c \<Rightarrow> 'c
       \<Rightarrow> ('c, 'f) view list \<Rightarrow> ('c, 'f) view" where
  "ConfirmDialog t opened title description confirmLabel busy close confirm children =
     Grp ''Dialog.Root''
       (children @
        [Dlg opened (t title [])
           [Txt (t description []),
            IconButton t ''Close dialog'' False close,
            Btn (t ''Cancel'' []) busy close,
            Btn (if busy then t ''Working...'' [] else t confirmLabel []) busy confirm]])"

definition DetailDialog ::
    "translator \<Rightarrow> bool \<Rightarrow> string \<Rightarrow> string option \<Rightarrow> 'c \<Rightarrow> ('c, 'f) view list \<Rightarrow> ('c, 'f) view" where
  "DetailDialog t opened title description close children =
     Dlg opened (t title [])
       (show_if (truthy_str description) [Txt (t (the description) [])] @
        [IconButton t ''Close details'' False close, Grp ''dialog-body'' children])"

definition LoadingState :: "translator \<Rightarrow> nat \<Rightarrow> ('c, 'f) view" where
  "LoadingState t rows = Grp (t ''Loading'' []) (replicate rows (Grp ''loading-line'' []))"

definition EmptyState :: "translator \<Rightarrow> string \<Rightarrow> string option \<Rightarrow> ('c, 'f) view list \<Rightarrow> ('c, 'f) view" where
  "EmptyState t title detail action =
     Grp ''empty-state''
       ([Txt (t title [])] @ show_if (truthy_str detail) [Txt (t (the detail) [])] @ action)"

definition ErrorState :: "translator \<Rightarrow> string \<Rightarrow> 'c option \<Rightarrow> ('c, 'f) view" where
  "ErrorState t err onRetry =
     Grp ''error-state''
       ([Txt (t ''Unable to load this workspace'' []), Txt (t err [])] @
        (case onRetry of None \<Rightarrow> [] | Some retry \<Rightarrow> [Btn (t ''Retry'' []) False retry]))"

definition PageHeader ::
    "translator \<Rightarrow> string option \<Rightarrow> string \<Rightarrow> string option \<Rightarrow> ('c, 'f) view list \<Rightarrow> ('c, 'f) view" where
  "PageHeader t eyebrow title description actions =
     Grp ''page-header''
       (show_if (truthy_str eyebrow) [Txt (t (the eyebrow) [])] @ [Txt (t title [])] @
        show_if (truthy_str description) [Txt (t (the description) [])] @ actions)"

section \<open>List filters\<close>

datatype TimeRange = Range1h | Range24h | Range7d | Range30d | RangeAll

fun range_text :: "TimeRange \<Rightarrow> string" where
  "range_text Range1h = ''1h''"
| "range_text Range24h = ''24h''"
| "range_text Range7d = ''7d''"
| "range_text Range30d = ''30d''"
| "range_text RangeAll = ''all''"

definition range_hours :: "TimeRange \<Rightarrow> int" where
  "range_hours value =
     (if value = Range1h then 1 else if value = Range24h then 24
      else if value = Range7d then 24 * 7 else 24 * 30)"

definition timeRangeStart :: "int \<Rightarrow> TimeRange \<Rightarrow> string option" where
  "timeRangeStart now value =
     (if value = RangeAll then None
      else Some (toISOString (now - range_hours value * 60 * 60 * 1000)))"

definition FilterSelect ::
    "translator \<Rightarrow> string \<Rightarrow> string \<Rightarrow> 'f \<Rightarrow> (string \<times> string) list \<Rightarrow> ('c, 'f) view" where
  "FilterSelect t label value setValue options =
     Sel (t label []) value (map (\<lambda>(v, l). (v, t l [])) options) False setValue"

definition FilterSearch :: "translator \<Rightarrow> string \<Rightarrow> string \<Rightarrow> 'f \<Rightarrow> 'c \<Rightarrow> ('c, 'f) view" where
  "FilterSearch t value placeholder setValue clear =
     Grp ''filter-search''
       ([Txt (t ''Search'' []), Inp (t placeholder []) value False setValue] @
        show_if (value \<noteq> []) [IconButton t ''Clear search'' False clear])"

record 'f filter_select =
  fs_label :: string
  fs_value :: string
  fs_set :: 'f
  fs_options :: "(string \<times> string) list"

definition range_options :: "(string \<times> string) list" where
  "range_options = [(''1h'', ''Last hour''), (''24h'', ''Last 24 hours''), (''7d'', ''Last 7 days''),
     (''30d'', ''Last 30 days''), (''all'', ''All time'')]"

text \<open>\<open>search\<close> is the search text with its handlers, where the page passes both.\<close>

definition ListFilters ::
    "translator \<Rightarrow> TimeRange \<Rightarrow> 'f \<Rightarrow> 'f filter_select list \<Rightarrow> (string \<times> 'f \<times> 'c) option \<Rightarrow> string
       \<Rightarrow> ('c, 'f) view" where
  "ListFilters t timeRange setTimeRange selects search searchPlaceholder =
     Grp ''list-filters''
       ((case search of
           None \<Rightarrow> []
         | Some (value, setSearch, clear) \<Rightarrow>
             [FilterSearch t value (or_str searchPlaceholder ''Search'') setSearch clear]) @
        map (\<lambda>s. FilterSelect t (fs_label s) (fs_value s) (fs_set s) (fs_options s)) selects @
        [FilterSelect t ''Time range'' (range_text timeRange) setTimeRange range_options])"

section \<open>Session gates\<close>

text \<open>The hooks answer \<open>None\<close> until their effect has run on the client.\<close>

definition useManagementSession :: "(string \<Rightarrow> int option) \<Rightarrow> int \<Rightarrow> bool \<Rightarrow> browser \<Rightarrow> bool option \<times> browser" where
  "useManagementSession parse now mounted b =
     (if \<not> mounted then (None, b)
      else (let (r, b') = hasManagementSession parse now b in (Some r, b')))"

definition useAuthenticatedSession :: "(string \<Rightarrow> int option) \<Rightarrow> int \<Rightarrow> bool \<Rightarrow> browser \<Rightarrow> bool option \<times> browser" where
  "useAuthenticatedSession parse now mounted b =
     (if \<not> mounted then (None, b)
      else (let (r, b') = hasAuthenticatedSession parse now b in (Some r, b')))"

definition SessionGate :: "translator \<Rightarrow> ('c, 'f) view" where
  "SessionGate t =
     Grp ''session-gate''
       [Txt (t ''Sign in required'' []),
        Txt (t ''Use a control-plane administrator account to load operational data.'' []),
        Href ''/login'' (t ''Sign in'' [])]"

definition ManagementAdminGate :: "translator \<Rightarrow> ('c, 'f) view" where
  "ManagementAdminGate t =
     Grp ''session-gate''
       [Txt (t ''Administrator access required'' []),
        Txt (t ''Only system administrators can manage system settings.'' []),
        Href ''/'' (t ''Return to Access'' [])]"

section \<open>Lemmas\<close>

lemma range_text_inject [simp]: "range_text a = range_text b \<longleftrightarrow> a = b"
  by (cases a; cases b) simp_all

lemma range_options_complete: "range_text r \<in> fst ` set range_options"
  by (cases r) (simp_all add: range_options_def)

lemma can_click_dialogs [simp]:
  "can_click (ConfirmDialog t opened title d l busy close confirm vs) c \<longleftrightarrow>
     list_ex (\<lambda>v. can_click v c) vs \<or> opened \<and> (c = close \<or> \<not> busy \<and> c = confirm)"
  "can_click (DetailDialog t opened title' d' close' vs') c \<longleftrightarrow>
     opened \<and> (c = close' \<or> list_ex (\<lambda>v. can_click v c) vs')"
  by (auto simp: ConfirmDialog_def DetailDialog_def IconButton_def)

lemma can_click_states [simp]:
  "can_click (StatusBadge t s) c \<longleftrightarrow> False"
  "can_click (IconButton t l d c') c \<longleftrightarrow> \<not> d \<and> c = c'"
  "can_click (LoadingState t n) c \<longleftrightarrow> False"
  "can_click (EmptyState t title detail action) c \<longleftrightarrow> list_ex (\<lambda>v. can_click v c) action"
  "can_click (ErrorState t err r) c \<longleftrightarrow> r = Some c"
  "can_click (FilterSelect t l v f opts) c \<longleftrightarrow> False"
  "can_click (SessionGate t) c \<longleftrightarrow> False"
  by (auto simp: StatusBadge_def IconButton_def LoadingState_def EmptyState_def ErrorState_def
        FilterSelect_def SessionGate_def split: option.splits)
     (simp add: list_ex_iff)

lemma can_edit_components [simp]:
  "can_edit (ConfirmDialog t opened title d l busy close confirm vs) f x \<longleftrightarrow>
     list_ex (\<lambda>v. can_edit v f x) vs"
  "can_edit (DetailDialog t opened title' d' close' vs') f x \<longleftrightarrow>
     opened \<and> list_ex (\<lambda>v. can_edit v f x) vs'"
  "can_edit (StatusBadge t st) f x \<longleftrightarrow> False"
  "can_edit (IconButton t l' dis c') f x \<longleftrightarrow> False"
  "can_edit (ErrorState t err r) f x \<longleftrightarrow> False"
  "can_edit (EmptyState t title detail action) f x \<longleftrightarrow> list_ex (\<lambda>v. can_edit v f x) action"
  "can_edit (FilterSelect t l'' v f' opts) f x \<longleftrightarrow> f = f' \<and> x \<in> fst ` set opts"
  "can_edit (SessionGate t) f x \<longleftrightarrow> False"
  by (auto simp: ConfirmDialog_def DetailDialog_def StatusBadge_def IconButton_def ErrorState_def
        EmptyState_def FilterSelect_def SessionGate_def image_iff split_beta split: option.splits)

lemma can_click_controls [simp]:
  "can_click (RefreshButton t l d c' rb) c \<longleftrightarrow> \<not> d \<and> rb_rendered rb = Idle \<and> c = c'"
  "can_click (PageHeader t e title desc vs) c \<longleftrightarrow> list_ex (\<lambda>v. can_click v c) vs"
  "can_click (FilterSearch t val pl fld c') c \<longleftrightarrow> val \<noteq> [] \<and> c = c'"
  "can_click (ManagementAdminGate t) c \<longleftrightarrow> False"
  by (auto simp: RefreshButton_def PageHeader_def FilterSearch_def ManagementAdminGate_def)

lemma can_edit_controls [simp]:
  "can_edit (RefreshButton t l d c' rb) f x \<longleftrightarrow> False"
  "can_edit (PageHeader t e title desc vs) f x \<longleftrightarrow> list_ex (\<lambda>v. can_edit v f x) vs"
  "can_edit (FilterSearch t val pl fld c') f x \<longleftrightarrow> f = fld"
  "can_edit (LoadingState t n) f x \<longleftrightarrow> False"
  "can_edit (ManagementAdminGate t) f x \<longleftrightarrow> False"
  by (auto simp: RefreshButton_def PageHeader_def FilterSearch_def LoadingState_def list_ex_iff
        show_if_def ManagementAdminGate_def split: if_splits)

lemma can_use_ListFilters [simp]:
  "can_click (ListFilters t rg fld selects search pl) c \<longleftrightarrow>
     (\<exists>v f. search = Some (v, f, c) \<and> v \<noteq> [])"
  "can_edit (ListFilters t rg fld selects search' pl) f x \<longleftrightarrow>
     (\<exists>v c. search' = Some (v, f, c)) \<or>
     (\<exists>s \<in> set selects. f = fs_set s \<and> x \<in> fst ` set (fs_options s)) \<or>
     f = fld \<and> x \<in> fst ` set range_options"
  by (auto simp: ListFilters_def split: option.splits)

section \<open>Properties\<close>

text \<open>The refresh button never runs two refreshes at once: in every state it can reach, a
  started refresh and a success timer exclude each other and hold the lock, and with neither
  outstanding the lock is free and the button is idle again, whatever the clicks, renders and
  outcomes were.\<close>

theorem refresh_exclusive:
  assumes "refresh_step\<^sup>*\<^sup>* refresh_init s"
  shows "rb_inflight s + rb_timers s \<le> 1 \<and> (rb_lock s \<longleftrightarrow> rb_inflight s + rb_timers s = 1) \<and>
     (rb_state s = Idle \<longleftrightarrow> rb_inflight s + rb_timers s = 0)"
  using refresh_inv_reachable [OF assms] by (auto simp: refresh_inv_def split: RefreshState.splits)

theorem refresh_exclusive_witness:
  "rb_inflight (refresh False refresh_init) + rb_timers (refresh False refresh_init) = 1 \<and>
   rb_lock (refresh False refresh_init)"
proof -
  have "refresh_step\<^sup>*\<^sup>* refresh_init (refresh False refresh_init)"
    by (intro r_into_rtranclp refresh_click)
  from refresh_exclusive [OF this] show ?thesis by (simp add: refresh_def refresh_init_def)
qed

end
