(* ===== verification/Login_Page.thy ===== *)
theory Login_Page
  imports Ui_Components Endpoints
begin

text \<open>
  The login page: \<^verbatim>\<open>src/frontend/app/login/page.tsx\<close>.

  Every state variable of the page is a field of \<open>login_page\<close>.  An asynchronous handler is two
  functions: its part up to the \<^verbatim>\<open>await\<close>, which leaves the call and what the continuation has
  captured in a pending field, and its continuation, which gets the result (\<open>Inl\<close> the message of the
  thrown error).  Toasts, route changes and the stored session are part of the state.
\<close>

datatype LoginMode = ModePassword | ModeGQuan

datatype AccountAction = ActRegister | ActPasswordChange

datatype AuthBusy = BusySend | BusySubmit

fun login_mode_purpose :: "LoginMode \<Rightarrow> VerificationPurpose option" where
  "login_mode_purpose ModePassword = None"
| "login_mode_purpose ModeGQuan = Some PurposeGquanLogin"

fun login_mode_label :: "LoginMode \<Rightarrow> string" where
  "login_mode_label ModePassword = ''Password''"
| "login_mode_label ModeGQuan = ''GQuan code''"

record account_action_info =
  aa_label :: string
  aa_title :: string
  aa_description :: string
  aa_purpose :: VerificationPurpose

fun accountActions :: "AccountAction \<Rightarrow> account_action_info" where
  "accountActions ActRegister =
     \<lparr>aa_label = ''Create account'', aa_title = ''Create account'',
      aa_description = ''Verify your IT code before setting a password.'',
      aa_purpose = PurposeRegister\<rparr>"
| "accountActions ActPasswordChange =
     \<lparr>aa_label = ''Reset password'', aa_title = ''Reset password'',
      aa_description = ''Verify your IT code before choosing a new password.'',
      aa_purpose = PurposePasswordChange\<rparr>"

definition auth_messages :: "string \<Rightarrow> string option" where
  "auth_messages = map_of
    [(''account_not_registered'', ''No active account is registered for this IT code.''),
     (''gquan_delivery_unavailable'', ''GQuan verification delivery is unavailable.''),
     (''gquan_delivery_rejected'', ''GQuan did not accept the verification request.''),
     (''gquan_quota_exceeded'', ''GQuan verification quota is currently exhausted.''),
     (''gquan_stub_not_allowed'', ''GQuan stub delivery is not allowed in this environment.''),
     (''gquan_test_code_not_configured'', ''GQuan test verification is not configured.''),
     (''invalid_credentials'', ''The IT code or password is not valid.''),
     (''invalid_itcode'', ''Enter a valid IT code.''),
     (''invalid_password'', ''Passwords must contain at least 12 characters.''),
     (''itcode_already_registered'', ''This IT code already has an account.''),
     (''password_confirmation_mismatch'', ''The password confirmation does not match.''),
     (''verification_code_attempts_exceeded'', ''This code can no longer be used. Request another one.''),
     (''verification_code_expired'', ''This verification code has expired. Request another one.''),
     (''verification_code_invalid'', ''The verification code is not valid.''),
     (''verification_code_rate_limited'', ''A code was sent recently. Wait before requesting another.''),
     (''network_error'', ''Unable to reach the control plane. Check the local service and retry.''),
     (''validation_error'', ''The request contains invalid fields.'')]"

definition authErrorMessage :: "string option \<Rightarrow> translator \<Rightarrow> string" where
  "authErrorMessage err t =
     (let code = (case err of None \<Rightarrow> ''request_failed'' | Some m \<Rightarrow> m)
      in t (case auth_messages code of None \<Rightarrow> ''The request could not be completed.'' | Some m \<Rightarrow> m) [])"

section \<open>State\<close>

datatype login_pending = PendingLoginCode | PendingLogin

text \<open>The account continuation uses the action and the IT code of the render that submitted it.\<close>

datatype account_pending = PendingAccountCode | PendingAccount AccountAction string

record login_page =
  loginMode :: LoginMode
  loginItcode :: string
  loginPassword :: string
  loginVerificationCode :: string
  loginChallenge :: "VerificationChallenge option"
  loginBusy :: "AuthBusy option"
  accountAction :: "AccountAction option"
  accountItcode :: string
  accountPassword :: string
  accountConfirmation :: string
  accountVerificationCode :: string
  accountChallenge :: "VerificationChallenge option"
  accountBusy :: "AuthBusy option"
  login_calls :: "api_call list"
  login_waiting :: "login_pending option"
  account_waiting :: "account_pending option"
  login_toasts :: "ToastInput list"
  login_routes :: "string list"
  login_browser :: browser

definition success_toast :: "string \<Rightarrow> string option \<Rightarrow> ToastInput" where
  "success_toast title description =
     \<lparr>toast_title = title, toast_description = description, toast_variant = Some VariantSuccess,
      toast_duration = None\<rparr>"

definition failure_toast :: "string \<Rightarrow> string \<Rightarrow> ToastInput" where
  "failure_toast title description =
     \<lparr>toast_title = title, toast_description = Some description,
      toast_variant = Some VariantDestructive, toast_duration = None\<rparr>"

definition login_notify :: "ToastInput \<Rightarrow> login_page \<Rightarrow> login_page" where
  "login_notify i s = s\<lparr>login_toasts := login_toasts s @ [i]\<rparr>"

definition login_call :: "api_call \<Rightarrow> login_page \<Rightarrow> login_page" where
  "login_call c s = s\<lparr>login_calls := login_calls s @ [c]\<rparr>"

section \<open>Handlers\<close>

definition login_notices :: "string \<Rightarrow> string option" where
  "login_notices = map_of
    [(''management_auth_required'', ''Authentication is required. Sign in again.''),
     (''management_session_expired'', ''Your management session has expired. Sign in again.''),
     (''management_session_revoked'', ''Your management session was revoked. Sign in again.''),
     (''management_session_invalid'', ''Your saved management session is invalid. Sign in again.''),
     (''management_account_inactive'', ''This account is no longer active. Contact an administrator.'')]"

text \<open>The effect on mount; \<open>query_reason\<close> is the \<^verbatim>\<open>reason\<close> of the query string.  The flag says whether the
  address is replaced by \<^verbatim>\<open>/login\<close>.\<close>

definition login_mount_effect ::
    "translator \<Rightarrow> string option \<Rightarrow> login_page \<Rightarrow> bool \<times> login_page" where
  "login_mount_effect t query_reason s =
     (let queryReason = (case query_reason of None \<Rightarrow> [] | Some r \<Rightarrow> r);
          (notice, b) = consumeAuthenticationNotice (login_browser s);
          reason = or_str notice queryReason;
          s' = s\<lparr>login_browser := b\<rparr>
      in case login_notices reason of
           None \<Rightarrow> (False, s')
         | Some m \<Rightarrow>
             (True, login_notify \<lparr>toast_title = t m [], toast_description = None,
                      toast_variant = Some VariantDestructive, toast_duration = Some 8000\<rparr> s'))"

definition selectLoginMode :: "LoginMode \<Rightarrow> login_page \<Rightarrow> login_page" where
  "selectLoginMode nextMode s =
     s\<lparr>loginMode := nextMode, loginPassword := [], loginVerificationCode := [], loginChallenge := None\<rparr>"

definition updateLoginItcode :: "string \<Rightarrow> login_page \<Rightarrow> login_page" where
  "updateLoginItcode value s =
     s\<lparr>loginItcode := value, loginChallenge := None, loginVerificationCode := []\<rparr>"

definition resetAccountForm :: "login_page \<Rightarrow> login_page" where
  "resetAccountForm s =
     s\<lparr>accountItcode := [], accountPassword := [], accountConfirmation := [],
       accountVerificationCode := [], accountChallenge := None\<rparr>"

definition openAccountAction :: "AccountAction \<Rightarrow> login_page \<Rightarrow> login_page" where
  "openAccountAction action s =
     (resetAccountForm s)\<lparr>accountItcode := loginItcode s, accountAction := Some action\<rparr>"

definition closeAccountAction :: "login_page \<Rightarrow> login_page" where
  "closeAccountAction s =
     (if accountBusy s \<noteq> None then s else resetAccountForm (s\<lparr>accountAction := None\<rparr>))"

definition updateAccountItcode :: "string \<Rightarrow> login_page \<Rightarrow> login_page" where
  "updateAccountItcode value s =
     s\<lparr>accountItcode := value, accountChallenge := None, accountVerificationCode := []\<rparr>"

definition code_sent_toast :: "translator \<Rightarrow> ToastInput" where
  "code_sent_toast t =
     success_toast (t ''Verification code sent through GQuan.'' [])
       (Some (t ''Open GQuan and enter the 6-digit code.'' []))"

definition sendLoginCode :: "login_page \<Rightarrow> login_page" where
  "sendLoginCode s =
     (case login_mode_purpose (loginMode s) of
        None \<Rightarrow> s
      | Some purpose \<Rightarrow>
          if trim (loginItcode s) = [] then s
          else login_call (requestAuthVerificationCode (trim (loginItcode s)) purpose)
                 (s\<lparr>loginBusy := Some BusySend, login_waiting := Some PendingLoginCode\<rparr>))"

definition sendLoginCode_done ::
    "translator \<Rightarrow> string option + VerificationChallenge \<Rightarrow> login_page \<Rightarrow> login_page" where
  "sendLoginCode_done t result s =
     (let s' = (case result of
                  Inr challenge \<Rightarrow> login_notify (code_sent_toast t) (s\<lparr>loginChallenge := Some challenge\<rparr>)
                | Inl err \<Rightarrow>
                    login_notify (failure_toast (t ''Operation failed'' []) (authErrorMessage err t)) s)
      in s'\<lparr>loginBusy := None, login_waiting := None\<rparr>)"

definition sendAccountCode :: "login_page \<Rightarrow> login_page" where
  "sendAccountCode s =
     (case accountAction s of
        None \<Rightarrow> s
      | Some action \<Rightarrow>
          if trim (accountItcode s) = [] then s
          else login_call
                 (requestAuthVerificationCode (trim (accountItcode s)) (aa_purpose (accountActions action)))
                 (s\<lparr>accountBusy := Some BusySend, account_waiting := Some PendingAccountCode\<rparr>))"

definition sendAccountCode_done ::
    "translator \<Rightarrow> string option + VerificationChallenge \<Rightarrow> login_page \<Rightarrow> login_page" where
  "sendAccountCode_done t result s =
     (let s' = (case result of
                  Inr challenge \<Rightarrow> login_notify (code_sent_toast t) (s\<lparr>accountChallenge := Some challenge\<rparr>)
                | Inl err \<Rightarrow>
                    login_notify (failure_toast (t ''Operation failed'' []) (authErrorMessage err t)) s)
      in s'\<lparr>accountBusy := None, account_waiting := None\<rparr>)"

definition submitLogin_done ::
    "translator \<Rightarrow> string option + AuthSession \<Rightarrow> login_page \<Rightarrow> login_page" where
  "submitLogin_done t result s =
     (let s' = (case result of
                  Inr session \<Rightarrow>
                    s\<lparr>login_browser := saveManagementSession (as_access_token session) (as_role session)
                         (as_expires_at session) (login_browser s),
                      login_routes := login_routes s @
                        [if as_role session = RoleEmployee then ''/'' else ''/overview'']\<rparr>
                | Inl err \<Rightarrow>
                    login_notify (failure_toast (t ''Sign in failed'' []) (authErrorMessage err t)) s)
      in s'\<lparr>loginBusy := None, login_waiting := None\<rparr>)"

definition submitLogin :: "translator \<Rightarrow> login_page \<Rightarrow> login_page" where
  "submitLogin t s =
     (let s' = s\<lparr>loginBusy := Some BusySubmit\<rparr>
      in if loginMode s = ModePassword
         then login_call (loginWithPassword (trim (loginItcode s)) (loginPassword s))
                (s'\<lparr>login_waiting := Some PendingLogin\<rparr>)
         else (case loginChallenge s of
                 None \<Rightarrow> submitLogin_done t (Inl (Some ''verification_code_invalid'')) s'
               | Some challenge \<Rightarrow>
                   login_call (loginWithGQuan (trim (loginItcode s)) (vc_challenge_id challenge)
                       (loginVerificationCode s))
                     (s'\<lparr>login_waiting := Some PendingLogin\<rparr>)))"

definition account_failed :: "translator \<Rightarrow> string option \<Rightarrow> login_page \<Rightarrow> login_page" where
  "account_failed t err s =
     (login_notify (failure_toast (t ''Operation failed'' []) (authErrorMessage err t)) s)
       \<lparr>accountBusy := None, account_waiting := None\<rparr>"

definition submitAccountAction :: "translator \<Rightarrow> login_page \<Rightarrow> login_page" where
  "submitAccountAction t s =
     (case accountAction s of
        None \<Rightarrow> s
      | Some action \<Rightarrow>
          (let s' = s\<lparr>accountBusy := Some BusySubmit\<rparr>
           in case accountChallenge s of
                None \<Rightarrow> account_failed t (Some ''verification_code_invalid'') s'
              | Some challenge \<Rightarrow>
                  if accountPassword s \<noteq> accountConfirmation s
                  then account_failed t (Some ''password_confirmation_mismatch'') s'
                  else login_call
                    ((if action = ActRegister then registerAccount else changeAccountPassword)
                       (trim (accountItcode s)) (accountPassword s) (vc_challenge_id challenge)
                       (accountVerificationCode s))
                    (s'\<lparr>account_waiting := Some (PendingAccount action (trim (accountItcode s)))\<rparr>)))"

definition submitAccountAction_done ::
    "translator \<Rightarrow> AccountAction \<Rightarrow> string \<Rightarrow> string option + unit \<Rightarrow> login_page \<Rightarrow> login_page" where
  "submitAccountAction_done t action itcode result s =
     (case result of
        Inl err \<Rightarrow> account_failed t err s
      | Inr _ \<Rightarrow>
          resetAccountForm
            ((login_notify
                (success_toast
                  (if action = ActRegister
                   then t ''Account registered. Sign in with the password you set.'' []
                   else t ''Password reset. Sign in with the new password.'' []) None) s)
             \<lparr>loginItcode := itcode, loginPassword := [], loginMode := ModePassword,
              accountBusy := None, account_waiting := None, accountAction := None\<rparr>))"

section \<open>What is rendered\<close>

datatype login_click =
    ClickMode LoginMode
  | ClickSendLogin
  | ClickSubmitLogin
  | ClickOpen AccountAction
  | ClickClose
  | ClickSendAccount
  | ClickSubmitAccount

datatype login_field =
    FieldItcode | FieldPassword | FieldCode
  | FieldAccountItcode | FieldAccountPassword | FieldConfirmation | FieldAccountCode

definition wait_seconds :: "(string \<Rightarrow> int option) \<Rightarrow> int \<Rightarrow> VerificationChallenge option \<Rightarrow> int" where
  "wait_seconds parse now challenge =
     (case challenge of
        None \<Rightarrow> 0
      | Some c \<Rightarrow>
          (case parse (vc_resend_available_at c) of
             None \<Rightarrow> 0
           | Some resendAt \<Rightarrow> max 0 ((resendAt - now + 999) div 1000)))"

definition code_input :: "string \<Rightarrow> string" where
  "code_input value = take 6 (filter is_digit value)"

definition VerificationCodeField ::
    "translator \<Rightarrow> (string \<Rightarrow> int option) \<Rightarrow> int \<Rightarrow> string \<Rightarrow> 'f \<Rightarrow> 'c \<Rightarrow> bool \<Rightarrow> AuthBusy option
       \<Rightarrow> VerificationChallenge option \<Rightarrow> ('c, 'f) view" where
  "VerificationCodeField t parse now code onChange onSend canSend busy challenge =
     (let waitSeconds = wait_seconds parse now challenge;
          waitingToResend = waitSeconds > 0
      in Grp ''verification-row''
           [Inp (t ''Verification code'' []) code False onChange,
            Btn (if busy = Some BusySend then t ''Sending...'' []
                 else if waitingToResend then t ''Send in {seconds}s'' [(''seconds'', show_int waitSeconds)]
                 else if challenge \<noteq> None then t ''Send again'' [] else t ''Send code'' [])
              (\<not> canSend \<or> busy \<noteq> None \<or> waitingToResend) onSend])"

definition login_form ::
    "translator \<Rightarrow> (string \<Rightarrow> int option) \<Rightarrow> int \<Rightarrow> login_page \<Rightarrow> (login_click, login_field) view" where
  "login_form t parse now s =
     (let gquanLogin = (loginMode s = ModeGQuan)
      in Grp ''login-form''
           ([Inp (t ''IT code'' []) (loginItcode s) False FieldItcode] @
            show_if (\<not> gquanLogin) [Inp (t ''Password'' []) (loginPassword s) False FieldPassword] @
            show_if gquanLogin
              [VerificationCodeField t parse now (loginVerificationCode s) FieldCode ClickSendLogin
                 (trim (loginItcode s) \<noteq> []) (loginBusy s) (loginChallenge s)] @
            [Btn (if loginBusy s = Some BusySubmit then t ''Working...'' []
                  else if gquanLogin then t ''Sign in with code'' [] else t ''Sign in'' [])
               (loginBusy s \<noteq> None \<or>
                gquanLogin \<and> (loginChallenge s = None \<or> length (loginVerificationCode s) \<noteq> 6))
               ClickSubmitLogin]))"

definition account_form ::
    "translator \<Rightarrow> (string \<Rightarrow> int option) \<Rightarrow> int \<Rightarrow> login_page \<Rightarrow> AccountAction
       \<Rightarrow> (login_click, login_field) view" where
  "account_form t parse now s action =
     DetailDialog t True (aa_title (accountActions action)) (Some (aa_description (accountActions action)))
       ClickClose
       [Inp (t ''IT code'' []) (accountItcode s) False FieldAccountItcode,
        Inp (t (if action = ActRegister then ''Password'' else ''New password'') []) (accountPassword s)
          False FieldAccountPassword,
        Inp (t ''Confirm password'' []) (accountConfirmation s) False FieldConfirmation,
        VerificationCodeField t parse now (accountVerificationCode s) FieldAccountCode ClickSendAccount
          (trim (accountItcode s) \<noteq> []) (accountBusy s) (accountChallenge s),
        Btn (if accountBusy s = Some BusySubmit then t ''Working...'' []
             else t (aa_label (accountActions action)) [])
          (accountBusy s \<noteq> None \<or> accountChallenge s = None \<or> length (accountVerificationCode s) \<noteq> 6)
          ClickSubmitAccount]"

definition LoginPage ::
    "translator \<Rightarrow> (string \<Rightarrow> int option) \<Rightarrow> int \<Rightarrow> login_page \<Rightarrow> (login_click, login_field) view" where
  "LoginPage t parse now s =
     Grp ''main''
       ([Href ''/'' (t ''Back to console'' []), Txt ''GROUPROXY'', Txt (t ''Control plane access'' []),
         Grp ''tablist''
           (map (\<lambda>item. Btn (t (login_mode_label item) []) False (ClickMode item)) [ModePassword, ModeGQuan]),
         login_form t parse now s,
         Btn (t ''Create account'' []) (loginBusy s \<noteq> None) (ClickOpen ActRegister),
         Btn (t ''Reset password'' []) (loginBusy s \<noteq> None) (ClickOpen ActPasswordChange)] @
        (case accountAction s of None \<Rightarrow> [] | Some action \<Rightarrow> [account_form t parse now s action]))"

fun login_on_click :: "translator \<Rightarrow> login_click \<Rightarrow> login_page \<Rightarrow> login_page" where
  "login_on_click t (ClickMode m) s = selectLoginMode m s"
| "login_on_click t ClickSendLogin s = sendLoginCode s"
| "login_on_click t ClickSubmitLogin s = submitLogin t s"
| "login_on_click t (ClickOpen action) s = openAccountAction action s"
| "login_on_click t ClickClose s = closeAccountAction s"
| "login_on_click t ClickSendAccount s = sendAccountCode s"
| "login_on_click t ClickSubmitAccount s = submitAccountAction t s"

fun login_on_edit :: "login_field \<Rightarrow> string \<Rightarrow> login_page \<Rightarrow> login_page" where
  "login_on_edit FieldItcode v s = updateLoginItcode v s"
| "login_on_edit FieldPassword v s = s\<lparr>loginPassword := v\<rparr>"
| "login_on_edit FieldCode v s = s\<lparr>loginVerificationCode := code_input v\<rparr>"
| "login_on_edit FieldAccountItcode v s = updateAccountItcode v s"
| "login_on_edit FieldAccountPassword v s = s\<lparr>accountPassword := v\<rparr>"
| "login_on_edit FieldConfirmation v s = s\<lparr>accountConfirmation := v\<rparr>"
| "login_on_edit FieldAccountCode v s = s\<lparr>accountVerificationCode := code_input v\<rparr>"

text \<open>Results of the calls the page waits for.\<close>

datatype login_message =
    GotLoginCode "string option + VerificationChallenge"
  | GotLogin "string option + AuthSession"
  | GotAccountCode "string option + VerificationChallenge"
  | GotAccount "string option + unit"

fun login_on_message :: "translator \<Rightarrow> login_message \<Rightarrow> login_page \<Rightarrow> login_page" where
  "login_on_message t (GotLoginCode r) s =
     (if login_waiting s = Some PendingLoginCode then sendLoginCode_done t r s else s)"
| "login_on_message t (GotLogin r) s =
     (if login_waiting s = Some PendingLogin then submitLogin_done t r s else s)"
| "login_on_message t (GotAccountCode r) s =
     (if account_waiting s = Some PendingAccountCode then sendAccountCode_done t r s else s)"
| "login_on_message t (GotAccount r) s =
     (case account_waiting s of
        Some (PendingAccount action itcode) \<Rightarrow> submitAccountAction_done t action itcode r s
      | _ \<Rightarrow> s)"

definition login_start :: "login_page \<Rightarrow> bool" where
  "login_start s \<longleftrightarrow>
     loginMode s = ModePassword \<and> loginItcode s = [] \<and> loginPassword s = [] \<and>
     loginVerificationCode s = [] \<and> loginChallenge s = None \<and> loginBusy s = None \<and>
     accountAction s = None \<and> accountItcode s = [] \<and> accountPassword s = [] \<and>
     accountConfirmation s = [] \<and> accountVerificationCode s = [] \<and> accountChallenge s = None \<and>
     accountBusy s = None \<and> login_waiting s = None \<and> account_waiting s = None \<and>
     session_wf (login_browser s)"

section \<open>Invariant\<close>

definition code_wf :: "string \<Rightarrow> bool" where
  "code_wf c \<longleftrightarrow> length c \<le> 6 \<and> list_all is_digit c"

definition account_closed :: "login_page \<Rightarrow> bool" where
  "account_closed s \<longleftrightarrow>
     accountItcode s = [] \<and> accountPassword s = [] \<and> accountConfirmation s = [] \<and>
     accountVerificationCode s = [] \<and> accountChallenge s = None \<and> accountBusy s = None"

definition login_inv :: "login_page \<Rightarrow> bool" where
  "login_inv s \<longleftrightarrow>
     code_wf (loginVerificationCode s) \<and> code_wf (accountVerificationCode s) \<and>
     (loginBusy s = None \<longleftrightarrow> login_waiting s = None) \<and>
     (accountBusy s = None \<longleftrightarrow> account_waiting s = None) \<and>
     (accountAction s = None \<longrightarrow> account_closed s) \<and> session_wf (login_browser s)"

lemma code_wf_simps [simp]: "code_wf []" "code_wf (code_input v)"
  by (auto simp: code_wf_def code_input_def list_all_iff dest: in_set_takeD)

lemmas login_handler_defs =
  selectLoginMode_def updateLoginItcode_def resetAccountForm_def openAccountAction_def
  closeAccountAction_def updateAccountItcode_def sendLoginCode_def sendLoginCode_done_def
  sendAccountCode_def sendAccountCode_done_def submitLogin_def submitLogin_done_def
  submitAccountAction_def submitAccountAction_done_def account_failed_def login_notify_def
  login_call_def

text \<open>Which events the rendered page offers.\<close>

lemma can_click_code_field [simp]:
  "can_click (VerificationCodeField t parse now code f c' canSend busy ch) c \<longleftrightarrow>
     c = c' \<and> canSend \<and> busy = None \<and> wait_seconds parse now ch \<le> 0"
  by (auto simp: VerificationCodeField_def Let_def)

lemma can_edit_code_field [simp]:
  "can_edit (VerificationCodeField t parse now code f' c' canSend busy ch) f x \<longleftrightarrow> f = f'"
  by (auto simp: VerificationCodeField_def Let_def)

lemma login_click_guards:
  "can_click (LoginPage t parse now s) ClickSendLogin \<Longrightarrow> loginMode s = ModeGQuan \<and> loginBusy s = None"
  "can_click (LoginPage t parse now s) ClickSubmitLogin \<Longrightarrow>
     loginBusy s = None \<and>
     (loginMode s = ModeGQuan \<longrightarrow> loginChallenge s \<noteq> None \<and> length (loginVerificationCode s) = 6)"
  "can_click (LoginPage t parse now s) ClickSendAccount \<Longrightarrow> accountAction s \<noteq> None \<and> accountBusy s = None"
  "can_click (LoginPage t parse now s) ClickSubmitAccount \<Longrightarrow>
     accountAction s \<noteq> None \<and> accountBusy s = None \<and> accountChallenge s \<noteq> None \<and>
     length (accountVerificationCode s) = 6"
  by (auto simp: LoginPage_def login_form_def account_form_def Let_def split: option.splits)

lemma account_edit_guard:
  "can_edit (LoginPage t parse now s) f x \<Longrightarrow>
     f \<in> {FieldItcode, FieldPassword, FieldCode} \<or> accountAction s \<noteq> None"
  by (auto simp: LoginPage_def login_form_def Let_def split: option.splits)

lemma login_inv_click:
  assumes inv: "login_inv s" and can: "can_click (LoginPage t parse now s) c"
  shows "login_inv (login_on_click t c s)"
proof (cases c)
  case ClickSubmitLogin
  with can login_click_guards(2) have "loginBusy s = None" by blast
  with inv ClickSubmitLogin show ?thesis
    by (auto simp: login_inv_def account_closed_def login_handler_defs Let_def split: option.splits)
next
  case ClickSubmitAccount
  with can login_click_guards(4) have "accountAction s \<noteq> None" by blast
  with inv ClickSubmitAccount show ?thesis
    by (auto simp: login_inv_def account_closed_def login_handler_defs Let_def split: option.splits)
next
  case ClickSendAccount
  with can login_click_guards(3) have "accountAction s \<noteq> None" by blast
  with inv ClickSendAccount show ?thesis
    by (auto simp: login_inv_def account_closed_def login_handler_defs Let_def split: option.splits)
qed (use inv in \<open>auto simp: login_inv_def account_closed_def login_handler_defs Let_def
       split: option.splits\<close>)

lemma login_inv_edit:
  assumes inv: "login_inv s" and can: "can_edit (LoginPage t parse now s) f x"
  shows "login_inv (login_on_edit f x s)"
  using inv account_edit_guard [OF can]
  by (cases f) (auto simp: login_inv_def account_closed_def login_handler_defs)

lemma login_inv_message: "login_inv s \<Longrightarrow> login_inv (login_on_message t m s)"
  by (cases m)
     (auto simp: login_inv_def account_closed_def login_handler_defs Let_def intro: inv_intros
        split: option.splits sum.splits account_pending.splits)

interpretation lg: component login_start "\<lambda>(parse, now). LoginPage t parse now"
    "login_on_click t" login_on_edit "login_on_message t" login_inv
  by unfold_locales
     (auto simp: login_inv_click login_inv_edit login_inv_message,
      simp add: login_start_def login_inv_def account_closed_def)

section \<open>Properties\<close>

text \<open>C8: in every state of the login page that clicks, edits and responses can reach, closing the
  account dialog has wiped its form (no password, confirmation, code or challenge stays behind),
  verification codes are at most six digits, and the page is busy exactly while it waits
  for a response.\<close>

theorem login_page_safe:
  assumes "lg.reachable t s"
  shows "(accountAction s = None \<longrightarrow> accountPassword s = [] \<and> accountConfirmation s = [] \<and>
            accountVerificationCode s = [] \<and> accountChallenge s = None \<and> accountBusy s = None) \<and>
     length (loginVerificationCode s) \<le> 6 \<and> list_all is_digit (loginVerificationCode s) \<and>
     length (accountVerificationCode s) \<le> 6 \<and> list_all is_digit (accountVerificationCode s) \<and>
     (loginBusy s \<noteq> None \<longleftrightarrow> login_waiting s \<noteq> None) \<and> (accountBusy s \<noteq> None \<longleftrightarrow> account_waiting s \<noteq> None) \<and>
     session_wf (login_browser s)"
  using lg.reachable_inv [OF assms]
  by (auto simp: login_inv_def account_closed_def code_wf_def)

definition demo_login :: login_page where
  "demo_login = \<lparr>loginMode = ModePassword, loginItcode = [], loginPassword = [],
     loginVerificationCode = [], loginChallenge = None, loginBusy = None, accountAction = None,
     accountItcode = [], accountPassword = [], accountConfirmation = [], accountVerificationCode = [],
     accountChallenge = None, accountBusy = None, login_calls = [], login_waiting = None,
     account_waiting = None, login_toasts = [], login_routes = [], login_browser = demo_browser\<rparr>"

lemma demo_login_start: "login_start demo_login"
  by (simp add: login_start_def demo_login_def demo_browser_def session_wf_def ls.all_or_none_def
        local_get_def session_keys_def)

theorem login_page_safe_witness:
  "accountPassword demo_login = [] \<and> session_wf (login_browser demo_login)"
  using login_page_safe [OF lg.reach_start [OF demo_login_start]] by (simp add: demo_login_def)

text \<open>The sign-in button of the code form sends a request only with a challenge and a code of
  exactly six digits, and it sends the trimmed IT code, that challenge and that code.\<close>

theorem gquan_submit_complete:
  assumes "lg.reachable t s" "can_click (LoginPage t parse now s) ClickSubmitLogin"
    and "loginMode s = ModeGQuan"
  shows "\<exists>c. loginChallenge s = Some c \<and> length (loginVerificationCode s) = 6 \<and>
     list_all is_digit (loginVerificationCode s) \<and>
     login_calls (submitLogin t s) = login_calls s @
       [loginWithGQuan (trim (loginItcode s)) (vc_challenge_id c) (loginVerificationCode s)]"
  using login_click_guards(2) [OF assms(2)] assms(3) lg.reachable_inv [OF assms(1)]
  by (auto simp: submitLogin_def login_call_def login_inv_def code_wf_def Let_def)

definition demo_challenge :: VerificationChallenge where
  "demo_challenge = \<lparr>vc_challenge_id = ''ch'', vc_expires_at = ''e'', vc_resend_available_at = ''r''\<rparr>"

definition demo_gquan :: login_page where
  "demo_gquan = login_on_edit FieldCode ''123456''
     (login_on_message (\<lambda>k _. k) (GotLoginCode (Inr demo_challenge))
       (login_on_click (\<lambda>k _. k) ClickSendLogin
         (login_on_edit FieldItcode '' jdoe ''
           (login_on_click (\<lambda>k _. k) (ClickMode ModeGQuan) demo_login))))"

lemma demo_gquan_reachable: "lg.reachable (\<lambda>k _. k) demo_gquan"
  unfolding demo_gquan_def
  by (intro lg.reach_edit [where e = "(\<lambda>_. None, 0)"] lg.reach_message
        lg.reach_click [where e = "(\<lambda>_. None, 0)"] lg.reach_start demo_login_start)
     (simp_all add: LoginPage_def login_form_def demo_login_def login_handler_defs trim_def is_ws_def
        code_sent_toast_def wait_seconds_def)

theorem gquan_submit_complete_witness:
  "login_calls (submitLogin (\<lambda>k _. k) demo_gquan) = login_calls demo_gquan @
     [loginWithGQuan ''jdoe'' ''ch'' ''123456'']"
proof -
  have fields: "loginMode demo_gquan = ModeGQuan" "loginChallenge demo_gquan = Some demo_challenge"
      "trim (loginItcode demo_gquan) = ''jdoe''" "loginVerificationCode demo_gquan = ''123456''"
      "loginBusy demo_gquan = None"
    by (simp_all add: demo_gquan_def demo_login_def login_handler_defs trim_def is_ws_def
          code_input_def is_digit_def code_sent_toast_def)
  have "can_click (LoginPage (\<lambda>k _. k) (\<lambda>_. None) 0 demo_gquan) ClickSubmitLogin"
    by (simp add: LoginPage_def login_form_def fields)
  from gquan_submit_complete [OF demo_gquan_reachable this fields(1)] show ?thesis
    by (simp add: fields demo_challenge_def)
qed

end
