(* ===== verification/Console_Session.thy ===== *)
theory Console_Session
  imports Endpoints Login_Page
begin

text \<open>
  The session while the console is in use.  Requests are sent and answered in any order, the user
  signs in and out, the clock runs, pages change: one step relation over the operations of
  \<^verbatim>\<open>src/frontend/lib/api.ts\<close>, with the tokens of the requests in flight.
\<close>

record console =
  con_browser :: browser
  con_now :: int
  con_flight :: "string list"
  con_log :: "(api_call \<times> http_request \<times> browser \<times> int) list"

text \<open>The log has each request that was sent, with the call it was made for and the browser and the
  time at that moment.  The calls are those of \<open>Endpoints\<close>, none of which sets an authorization itself.\<close>

definition plain_call :: "api_call \<Rightarrow> bool" where
  "plain_call c \<longleftrightarrow>
     (case c of Request path init \<Rightarrow> header_get (headers_of (init_headers init)) ''Authorization'' = None | _ \<Rightarrow> True)"

fun public_call :: "api_call \<Rightarrow> bool" where
  "public_call (RequestPublic path) = True"
| "public_call (RequestPublicText path) = True"
| "public_call c = False"

inductive console_step :: "string \<Rightarrow> (string \<Rightarrow> int option) \<Rightarrow> console \<Rightarrow> console \<Rightarrow> bool"
  for base parse where
  con_send: "plain_call c \<Longrightarrow> call_send base parse (con_now s) c (con_browser s) = (token, req, b') \<Longrightarrow>
     console_step base parse s
       (s\<lparr>con_browser := b', con_flight := token # con_flight s,
          con_log := (c, req, con_browser s, con_now s) # con_log s\<rparr>)"
| con_receive: "token \<in> set (con_flight s) \<Longrightarrow>
     b' \<in> {snd (request_receive token res (con_browser s)), snd (requestText_receive token res (con_browser s)),
            snd (requestForm_receive token res (con_browser s))} \<Longrightarrow>
     console_step base parse s
       (s\<lparr>con_browser := b', con_flight := remove1 token (con_flight s)\<rparr>)"
| con_login: "console_step base parse s
     (s\<lparr>con_browser := saveManagementSession (as_access_token (a :: AuthSession)) (as_role a) (as_expires_at a)
          (con_browser s)\<rparr>)"
| con_logout: "console_step base parse s
     (s\<lparr>con_browser := clearManagementSession (con_browser s)\<rparr>)"
| con_notice: "console_step base parse s
     (s\<lparr>con_browser := snd (consumeAuthenticationNotice (con_browser s))\<rparr>)"
| con_navigate: "console_step base parse s (s\<lparr>con_browser := (con_browser s)\<lparr>pathname := p\<rparr>\<rparr>)"
| con_tick: "0 \<le> d \<Longrightarrow> console_step base parse s (s\<lparr>con_now := con_now s + d\<rparr>)"

definition login_redirect :: "string \<Rightarrow> bool" where
  "login_redirect r \<longleftrightarrow>
     r \<in> set (map (\<lambda>code. ''/login?reason='' @ encodeURIComponent code) authenticationFailureCodes)"

definition authorized :: "(string \<Rightarrow> int option) \<Rightarrow> api_call \<times> http_request \<times> browser \<times> int \<Rightarrow> bool" where
  "authorized parse e \<longleftrightarrow>
     (case e of (c, req, b, now) \<Rightarrow>
        header_get (hr_headers req) ''Authorization'' =
          (if public_call c \<or> managementToken b = [] \<or> storedSessionExpired parse now b then None
           else Some (''Bearer '' @ managementToken b)))"

definition console_inv :: "(string \<Rightarrow> int option) \<Rightarrow> console \<Rightarrow> bool" where
  "console_inv parse s \<longleftrightarrow>
     session_wf (con_browser s) \<and> list_all login_redirect (redirects (con_browser s)) \<and>
     (\<forall>d. session_storage (con_browser s) authNoticeKey = Some d \<longrightarrow> d \<in> set authenticationFailureCodes) \<and>
     list_all (authorized parse) (con_log s)"

text \<open>The part of the invariant that speaks of the browser, and the operations that keep it.\<close>

definition browser_inv :: "browser \<Rightarrow> bool" where
  "browser_inv b \<longleftrightarrow>
     session_wf b \<and> list_all login_redirect (redirects b) \<and>
     (\<forall>d. session_storage b authNoticeKey = Some d \<longrightarrow> d \<in> set authenticationFailureCodes)"

lemma console_inv_browser:
  "console_inv parse s \<longleftrightarrow> browser_inv (con_browser s) \<and> list_all (authorized parse) (con_log s)"
  by (auto simp: console_inv_def browser_inv_def)

lemma expired_code [simp]: "''management_session_expired'' \<in> set authenticationFailureCodes"
  by (simp add: authenticationFailureCodes_def)

lemma login_redirect_code:
  "d \<in> set authenticationFailureCodes \<Longrightarrow> login_redirect (''/login?reason='' @ encodeURIComponent d)"
  by (auto simp: login_redirect_def)

lemma notice_storage:
  "session_storage (try_notice_set k v b) = (if session_storage_ok b then (session_storage b)(k \<mapsto> v) else session_storage b)"
  "session_storage (try_notice_remove k b) = (if session_storage_ok b then (session_storage b)(k := None) else session_storage b)"
  by (simp_all add: try_notice_set_def try_notice_remove_def)

lemma browser_inv_clear [inv_intros]: "browser_inv b \<Longrightarrow> browser_inv (clearManagementSession b)"
  by (auto simp: browser_inv_def intro: session_wf_clear)

lemma session_wf_frame [simp]:
  "session_wf (b\<lparr>redirects := rs\<rparr>) = session_wf b" "session_wf (b\<lparr>pathname := p\<rparr>) = session_wf b"
  by (rule session_wf_cong, simp add: local_get_def fun_eq_iff)+

lemma browser_inv_redirect [inv_intros]:
  "browser_inv b \<Longrightarrow> d \<in> set authenticationFailureCodes \<Longrightarrow>
     browser_inv (redirectForAuthenticationFailure d b)"
  using login_redirect_code [of d]
  by (auto simp: browser_inv_def redirectForAuthenticationFailure_def Let_def notice_storage
        simp del: append_Cons append.simps intro: session_wf_clear session_wf_notice split: if_splits)

lemma browser_inv_path [inv_intros]: "browser_inv b \<Longrightarrow> browser_inv (b\<lparr>pathname := p\<rparr>)"
  by (simp add: browser_inv_def)

lemma browser_inv_save [inv_intros]: "browser_inv b \<Longrightarrow> browser_inv (saveManagementSession t r e b)"
  by (auto simp: browser_inv_def intro: session_wf_save)
     (auto simp: saveManagementSession_def Let_def notice_storage local_set_def split: if_splits)

lemma browser_inv_notice [inv_intros]:
  "browser_inv b \<Longrightarrow> d \<in> set authenticationFailureCodes \<Longrightarrow> browser_inv (try_notice_set authNoticeKey d b)"
  by (auto simp: browser_inv_def notice_storage intro: session_wf_notice)

lemma browser_inv_consume [inv_intros]:
  "browser_inv b \<Longrightarrow> browser_inv (snd (consumeAuthenticationNotice b))"
  by (auto simp: browser_inv_def consumeAuthenticationNotice_def notice_storage Let_def
        intro: session_wf_notice)

lemma browser_inv_active [inv_intros]:
  "browser_inv b \<Longrightarrow> browser_inv (snd (activeManagementToken parse now b))"
  by (auto simp: activeManagementToken_def Let_def intro: inv_intros)

lemma browser_inv_reject [inv_intros]:
  "browser_inv b \<Longrightarrow> browser_inv (snd (reject_response token r b))"
  by (auto simp: reject_response_def Let_def intro: inv_intros)

lemma browser_inv_receive [inv_intros]:
  assumes "browser_inv b"
  shows "browser_inv (snd (request_receive token res b))" "browser_inv (snd (requestText_receive token res b))"
    "browser_inv (snd (requestForm_receive token res b))"
proof -
  have "browser_inv (snd (request_receive token res b)) \<and> browser_inv (snd (requestText_receive token res b)) \<and>
      browser_inv (snd (requestForm_receive token res b))"
  proof (cases res)
    case NetworkFailure
    then show ?thesis using assms by (simp add: rq.receive_down rt.receive_down rf.receive_down)
  next
    case (Response r)
    then show ?thesis using assms
      by (cases "res_ok r")
         (simp_all add: rq.receive_ok rt.receive_ok rf.receive_ok rq.receive_bad rt.receive_bad rf.receive_bad browser_inv_reject)
  qed
  then show "browser_inv (snd (request_receive token res b))" "browser_inv (snd (requestText_receive token res b))"
    "browser_inv (snd (requestForm_receive token res b))" by blast+
qed

lemma call_send_browser:
  "snd (snd (call_send base parse now c b)) \<in> {b, snd (activeManagementToken parse now b)}"
  by (cases c) (simp_all add: call_send_def rq.send_browser rt.send_browser rf.send_browser)

lemma call_send_authorized:
  assumes "plain_call c"
  shows "authorized parse (c, fst (snd (call_send base parse now c b)), b, now)"
proof -
  have [simp]: "header_get (headers_of [(''Accept'', v)]) ''Authorization'' = None" for v
    by (simp add: headers_of_def header_get_set_other accept_not_authorization)
  show ?thesis using assms
    by (cases c)
       (simp_all add: authorized_def plain_call_def call_send_def rq.send_authorization rt.send_authorization rf.send_authorization
          requestPublic_send_def requestPublicText_send_def apiFetch_request_def)
qed

text \<open>The calls of \<open>Endpoints\<close> are made in one of these ways.\<close>

lemma plain_calls:
  "plain_call (get path)" "plain_call (send_json meth path body)" "plain_call (keyed_post path body key)"
  "plain_call (Request path (jsonRequest meth None))" "plain_call (RequestPublic path)" "plain_call (RequestPublicText path)"
  "plain_call (RequestText path)" "plain_call (RequestForm path form)"
proof -
  have o: "to_lower ''Content-Type'' \<noteq> to_lower ''Authorization''" "to_lower ''Idempotency-Key'' \<noteq> to_lower ''Authorization''" by code_simp+
  show "plain_call (get path)" "plain_call (send_json meth path body)" "plain_call (keyed_post path body key)"
    "plain_call (Request path (jsonRequest meth None))" "plain_call (RequestPublic path)" "plain_call (RequestPublicText path)"
    "plain_call (RequestText path)" "plain_call (RequestForm path form)"
    by (simp_all add: plain_call_def empty_init_def jsonRequest_def keyed_post_def headers_of_def header_get_set_other o)
qed

lemma console_inv_step: "console_step base parse s s' \<Longrightarrow> console_inv parse s \<Longrightarrow> console_inv parse s'"
proof (induction rule: console_step.induct)
  case (con_send c s token req b')
  then have "b' \<in> {con_browser s, snd (activeManagementToken parse (con_now s) (con_browser s))}"
      "authorized parse (c, req, con_browser s, con_now s)"
    using call_send_browser [of base parse "con_now s" c "con_browser s"] call_send_authorized [of c parse base "con_now s" "con_browser s"]
    by simp_all
  with con_send(3) show ?case by (auto simp: console_inv_browser intro: inv_intros)
next
  case (con_receive token s b' res)
  then show ?case by (auto simp: console_inv_browser intro: inv_intros)
qed (auto simp: console_inv_browser intro: inv_intros)

lemma console_inv_reachable:
  "(console_step base parse)\<^sup>*\<^sup>* s s' \<Longrightarrow> console_inv parse s \<Longrightarrow> console_inv parse s'"
  by (induction rule: rtranclp_induct) (auto intro: console_inv_step)

lemma notices_cover_codes: "d \<in> set authenticationFailureCodes \<Longrightarrow> login_notices d \<noteq> None"
  by (auto simp: authenticationFailureCodes_def login_notices_def)

section \<open>Properties\<close>

definition console_init :: "browser \<Rightarrow> int \<Rightarrow> console" where
  "console_init b now = \<lparr>con_browser = b, con_now = now, con_flight = [], con_log = []\<rparr>"

text \<open>C1: however requests, responses, sign-ins, sign-outs and page changes interleave, the token,
  role and expiry of the session are stored all together or not at all; every request that was sent carries
  the token that was stored at that moment as its bearer if the stored session had not expired then, and no
  authorization otherwise or when it is public; and the client is only ever redirected to
  the login page with one of the five authentication failure codes.\<close>

theorem console_session_safe:
  assumes "(console_step base parse)\<^sup>*\<^sup>* (console_init b now) s"
    and "session_wf b" "redirects b = []" "session_storage b authNoticeKey = None"
  shows "((\<forall>k \<in> set session_keys. local_get (con_browser s) k \<noteq> None) \<or>
          (\<forall>k \<in> set session_keys. local_get (con_browser s) k = None)) \<and>
     (\<forall>(c, req, b', t) \<in> set (con_log s).
        header_get (hr_headers req) ''Authorization'' =
          (if public_call c \<or> managementToken b' = [] \<or> storedSessionExpired parse t b' then None
           else Some (''Bearer '' @ managementToken b'))) \<and>
     (\<forall>r \<in> set (redirects (con_browser s)). \<exists>code \<in> set authenticationFailureCodes.
        r = ''/login?reason='' @ encodeURIComponent code)"
proof -
  have "console_inv parse (console_init b now)" using assms by (simp add: console_inv_def console_init_def)
  from console_inv_reachable [OF assms(1) this]
  have inv: "session_wf (con_browser s)" "list_all login_redirect (redirects (con_browser s))" "list_all (authorized parse) (con_log s)"
    by (simp_all add: console_inv_def)
  from inv(1) have "(\<forall>k \<in> set session_keys. local_get (con_browser s) k \<noteq> None) \<or>
      (\<forall>k \<in> set session_keys. local_get (con_browser s) k = None)"
    by (auto simp: session_wf_def ls.all_or_none_def)
  moreover from inv(2) have "\<forall>r \<in> set (redirects (con_browser s)). \<exists>code \<in> set authenticationFailureCodes.
      r = ''/login?reason='' @ encodeURIComponent code"
    by (auto simp: list_all_iff login_redirect_def)
  moreover from inv(3) have "\<forall>(c, req, b', t) \<in> set (con_log s).
        header_get (hr_headers req) ''Authorization'' =
          (if public_call c \<or> managementToken b' = [] \<or> storedSessionExpired parse t b' then None
           else Some (''Bearer '' @ managementToken b'))"
    unfolding list_all_iff authorized_def .
  ultimately show ?thesis by blast
qed

text \<open>An administrator signs in and reads the sites before the session expires.\<close>

definition demo_signed_in :: console where
  "demo_signed_in = (console_init demo_browser 0)\<lparr>con_browser := saveManagementSession ''tok'' RoleAdmin ''later'' demo_browser\<rparr>"

definition demo_request :: http_request where
  "demo_request = fst (snd (call_send ''https://cp'' (\<lambda>_. Some 100) 0 getSites (con_browser demo_signed_in)))"

theorem console_session_safe_witness:
  "header_get (hr_headers demo_request) ''Authorization'' = Some ''Bearer tok''"
proof -
  let ?a = "\<lparr>as_access_token = ''tok'', as_token_type = ''bearer'', as_itcode = ''jdoe'',
     as_role = RoleAdmin, as_expires_at = ''later''\<rparr>"
  let ?r = "call_send ''https://cp'' (\<lambda>_. Some 100) (con_now demo_signed_in) getSites (con_browser demo_signed_in)"
  let ?s = "demo_signed_in\<lparr>con_browser := snd (snd ?r), con_flight := fst ?r # con_flight demo_signed_in,
      con_log := (getSites, fst (snd ?r), con_browser demo_signed_in, con_now demo_signed_in) # con_log demo_signed_in\<rparr>"
  have "console_step ''https://cp'' (\<lambda>_. Some 100) (console_init demo_browser 0) demo_signed_in"
    using con_login [of "''https://cp''" "\<lambda>_. Some 100" "console_init demo_browser 0" ?a]
    by (simp add: demo_signed_in_def console_init_def)
  moreover have "console_step ''https://cp'' (\<lambda>_. Some 100) demo_signed_in ?s"
    by (rule con_send) (simp_all add: getSites_def plain_calls)
  ultimately have path: "(console_step ''https://cp'' (\<lambda>_. Some 100))\<^sup>*\<^sup>* (console_init demo_browser 0) ?s"
    by (meson converse_rtranclp_into_rtranclp r_into_rtranclp)
  have "session_wf demo_browser" "redirects demo_browser = []"
      "session_storage demo_browser authNoticeKey = None"
    by (simp_all add: demo_browser_def session_wf_def ls.all_or_none_def local_get_def)
  from console_session_safe [OF path this]
  have "header_get (hr_headers (fst (snd ?r))) ''Authorization'' =
      (if public_call getSites \<or> managementToken (con_browser demo_signed_in) = [] \<or>
          storedSessionExpired (\<lambda>_. Some 100) (con_now demo_signed_in) (con_browser demo_signed_in) then None
       else Some (''Bearer '' @ managementToken (con_browser demo_signed_in)))" by simp
  moreover have "managementToken (con_browser demo_signed_in) = ''tok''" "\<not> storedSessionExpired (\<lambda>_. Some 100) 0 (con_browser demo_signed_in)"
      "con_now demo_signed_in = 0" by code_simp+
  ultimately show ?thesis by (simp add: demo_request_def getSites_def)
qed

text \<open>Every forced sign-out is explained: when a request is rejected with an authentication
  failure, the login page shows the message of exactly that code, whether it reads it from the
  session storage or, where that is unavailable, from the address.\<close>

theorem forced_sign_out_explained:
  assumes "has_window b" "code \<in> set authenticationFailureCodes"
    and "login_browser s = redirectForAuthenticationFailure code b"
  shows "\<exists>m. login_notices code = Some m \<and>
     map toast_title (login_toasts (snd (login_mount_effect t (Some code) s)))
       = map toast_title (login_toasts s) @ [t m []]"
proof -
  obtain m where m: "login_notices code = Some m" using notices_cover_codes [OF assms(2)] by auto
  have "fst (consumeAuthenticationNotice (login_browser s)) =
      (if session_storage_ok b then code else [])"
    using assms
    by (simp add: consumeAuthenticationNotice_def redirectForAuthenticationFailure_def Let_def
          notice_get_def notice_storage)
  moreover have "code \<noteq> []" using assms(2) by (auto simp: authenticationFailureCodes_def)
  ultimately have "or_str (fst (consumeAuthenticationNotice (login_browser s))) code = code" by simp
  with m show ?thesis
    by (simp add: login_mount_effect_def login_notify_def Let_def split_beta)
qed

theorem forced_sign_out_explained_witness:
  "\<exists>m. login_notices ''management_session_revoked'' = Some m \<and>
     map toast_title (login_toasts (snd (login_mount_effect (\<lambda>k _. k)
       (Some ''management_session_revoked'')
       (demo_login\<lparr>login_browser := redirectForAuthenticationFailure ''management_session_revoked'' demo_browser\<rparr>))))
       = [m]"
  using forced_sign_out_explained [of demo_browser "''management_session_revoked''"
      "demo_login\<lparr>login_browser := redirectForAuthenticationFailure ''management_session_revoked'' demo_browser\<rparr>"
      "\<lambda>k _. k"]
  by (simp add: demo_browser_def authenticationFailureCodes_def demo_login_def)

text \<open>A response is judged by the token its request carried and not by the session it then
  removes: when a request of an old session is rejected after a new session was saved, the new
  session is lost too.\<close>

theorem stale_rejection_drops_new_session:
  assumes "has_window b" "old \<noteq> []" "\<not> res_ok r" "res_status r = 401"
    and "readError r \<in> set authenticationFailureCodes"
  shows "managementToken (snd (request_receive old (Response r)
           (saveManagementSession new role expiresAt b))) = []"
  using assms by (simp add: request_receive_def apiFetch_result_def reject_response_def Let_def)

definition revoked_response :: http_response where
  "revoked_response = \<lparr>res_status = 401, res_statusText = ''Unauthorized'',
     res_json = Some (JObj [(''detail'', JStr ''management_session_revoked'')]), res_text = []\<rparr>"

theorem stale_rejection_drops_new_session_witness:
  "managementToken (snd (request_receive ''old'' (Response revoked_response)
     (saveManagementSession ''new'' RoleAdmin ''later'' demo_browser))) = []"
  by (rule stale_rejection_drops_new_session)
     (simp_all add: demo_browser_def revoked_response_def res_ok_def readError_def errorDetail_def
        authenticationFailureCodes_def js_map_get_def)

end
