(* ===== verification/App_Shell.thy ===== *)
theory App_Shell
  imports Preferences Ui_Components Endpoints
begin

text \<open>
  The frame around every page: \<^verbatim>\<open>src/frontend/components/app-shell.tsx\<close> and
  \<^verbatim>\<open>preferences-controls.tsx\<close>.

  The shell stays mounted while the router changes pages, so its state outlives a sign-out.  The
  handler \<^verbatim>\<open>signOut\<close> is split at its \<^verbatim>\<open>await\<close>: \<open>signOut\<close> sends the request, \<open>signOut_finally\<close> is the
  \<^verbatim>\<open>finally\<close> block, which runs however the request ends.  A link with a click handler is a button
  whose handler also hands its address to the router.
\<close>

section \<open>Navigation\<close>

record NavigationItem =
  nav_href :: string
  nav_label :: string
  nav_matches :: "string list option"

definition nav_item :: "string \<Rightarrow> string \<Rightarrow> NavigationItem" where
  "nav_item href label = \<lparr>nav_href = href, nav_label = label, nav_matches = None\<rparr>"

definition navigation :: "(string \<times> NavigationItem list) list" where
  "navigation =
     [(''OPERATE'',
        [nav_item ''/'' ''Access'', nav_item ''/overview'' ''Overview'', nav_item ''/nodes'' ''Nodes'',
         nav_item ''/proxies'' ''Outbound services'']),
      (''POLICY'',
        [(nav_item ''/access-control/groups'' ''Access groups'')
           \<lparr>nav_matches := Some [''/access-control/groups'', ''/blacklist'']\<rparr>,
         nav_item ''/access-control/rules'' ''Access rules'', nav_item ''/routing'' ''Routing rules'']),
      (''DEPLOY'',
        [nav_item ''/subscriptions'' ''Subscriptions'', nav_item ''/releases'' ''Releases'',
         nav_item ''/tasks'' ''Tasks'']),
      (''OBSERVE'',
        [nav_item ''/logs'' ''Logs'', nav_item ''/connections'' ''Connections'',
         nav_item ''/service-quality'' ''Service quality'', nav_item ''/probes'' ''Probes'',
         nav_item ''/alerts'' ''Alerts'']),
      (''GOVERN'',
        [nav_item ''/employees'' ''Roles'', nav_item ''/audit'' ''Audit'', nav_item ''/backups'' ''Backups'',
         nav_item ''/settings'' ''Settings''])]"

definition employeeNavigation :: "(string \<times> NavigationItem list) list" where
  "employeeNavigation = [(''GOVERN'', [nav_item ''/'' ''Access''])]"

definition nav_paths :: "NavigationItem \<Rightarrow> string list" where
  "nav_paths item = (case nav_matches item of None \<Rightarrow> [nav_href item] | Some paths \<Rightarrow> paths)"

definition isCurrent :: "string \<Rightarrow> NavigationItem \<Rightarrow> bool" where
  "isCurrent path item =
     (if nav_href item = ''/'' then path = ''/''
      else list_ex (\<lambda>p. starts_with p path) (nav_paths item))"

fun first_label :: "string \<Rightarrow> (string \<times> NavigationItem list) list \<Rightarrow> string" where
  "first_label path [] = ''Control plane''"
| "first_label path ((l, items) # groups) =
     (case find_first (isCurrent path) items of
        Some item \<Rightarrow> nav_label item
      | None \<Rightarrow> first_label path groups)"

definition pageLabel :: "string \<Rightarrow> string" where
  "pageLabel path = (if path = ''/access'' then ''Access'' else first_label path navigation)"

section \<open>State\<close>

definition sidebarCollapsedStorageKey :: string where
  "sidebarCollapsedStorageKey = ''grouproxy.sidebar.collapsed''"

text \<open>Beside the state variables of the component: the browser, the requests it sent and
  whether the sign-out request is on its way, the addresses it gave to the router, and how often the query cache was cleared.\<close>

record app_shell =
  mobileOpen :: bool
  sidebarCollapsed :: bool
  signOutConfirmOpen :: bool
  signingOut :: bool
  shell_role :: "SessionRole option"
  authenticated :: bool
  shell_browser :: browser
  shell_calls :: "api_call list"
  shell_waiting :: bool
  shell_routes :: "string list"
  shell_cache_clears :: nat

definition shell_init :: "browser \<Rightarrow> app_shell" where
  "shell_init b =
     \<lparr>mobileOpen = False, sidebarCollapsed = False, signOutConfirmOpen = False, signingOut = False,
      shell_role = None, authenticated = False, shell_browser = b, shell_calls = [],
      shell_waiting = False, shell_routes = [], shell_cache_clears = 0\<rparr>"

text \<open>The effect of a changed path and the effect of mounting.\<close>

definition path_effect :: "(string \<Rightarrow> int option) \<Rightarrow> int \<Rightarrow> app_shell \<Rightarrow> app_shell" where
  "path_effect parse now s =
     (let (auth, b) = hasAuthenticatedSession parse now (shell_browser s)
      in s\<lparr>authenticated := auth, shell_role := managementSessionRole b, shell_browser := b\<rparr>)"

definition sidebar_effect :: "app_shell \<Rightarrow> app_shell" where
  "sidebar_effect s =
     s\<lparr>sidebarCollapsed := (local_get (shell_browser s) sidebarCollapsedStorageKey = Some ''true'')\<rparr>"

definition closeMobile :: "app_shell \<Rightarrow> app_shell" where
  "closeMobile s = s\<lparr>mobileOpen := False\<rparr>"

definition bool_text :: "bool \<Rightarrow> string" where
  "bool_text b = (if b then ''true'' else ''false'')"

definition toggleSidebar :: "app_shell \<Rightarrow> app_shell" where
  "toggleSidebar s =
     (let next = \<not> sidebarCollapsed s
      in s\<lparr>sidebarCollapsed := next,
           shell_browser := local_set sidebarCollapsedStorageKey (bool_text next) (shell_browser s)\<rparr>)"

definition activeNavigation :: "app_shell \<Rightarrow> (string \<times> NavigationItem list) list" where
  "activeNavigation s = (if shell_role s = Some RoleEmployee then employeeNavigation else navigation)"

definition signOut :: "app_shell \<Rightarrow> app_shell" where
  "signOut s =
     (if signingOut s then s
      else s\<lparr>signingOut := True, shell_calls := shell_calls s @ [logoutManagementSession],
             shell_waiting := True\<rparr>)"

definition signOut_finally :: "app_shell \<Rightarrow> app_shell" where
  "signOut_finally s =
     s\<lparr>shell_browser := clearManagementSession (shell_browser s),
       shell_cache_clears := shell_cache_clears s + 1,
       signOutConfirmOpen := False, shell_waiting := False,
       shell_routes := shell_routes s @ [''/login'']\<rparr>"

section \<open>What is rendered\<close>

datatype shell_click =
    ClickCloseMobile | ClickOpenMobile | ClickSidebar | ClickNav string | ClickThemeToggle
  | ClickSignOut | ClickCloseSignOut | ClickConfirmSignOut | ClickRefreshWorkspace

datatype shell_field = FieldLocale

text \<open>\<open>zh\<close> is the label of the Chinese option.\<close>

definition localeOptions :: "string \<Rightarrow> (string \<times> string) list" where
  "localeOptions zh =
     [(''zh-CN'', zh), (''en'', ''English''), (''es'', ''Espa'' @ [CHR 0xF1] @ ''ol'')]"

definition PreferencesControls ::
    "translator \<Rightarrow> string \<Rightarrow> preferences \<Rightarrow> (shell_click, shell_field) view" where
  "PreferencesControls t zh p =
     (let dark = (pref_theme p = ThemeDark)
      in Grp ''preferences-controls''
        [Sel (t ''Language'' []) (locale_text (pref_locale p)) (localeOptions zh) False FieldLocale,
         IconButton t (t (if dark then ''Switch to light mode'' else ''Switch to dark mode'') []) False
           ClickThemeToggle])"

definition nav_link :: "translator \<Rightarrow> string \<Rightarrow> NavigationItem \<Rightarrow> (shell_click, shell_field) view" where
  "nav_link t path item =
     Grp (if isCurrent path item then ''page'' else [])
       [Btn (t (nav_label item) []) False (ClickNav (nav_href item))]"

definition nav_group ::
    "translator \<Rightarrow> string \<Rightarrow> string \<times> NavigationItem list \<Rightarrow> (shell_click, shell_field) view" where
  "nav_group t path = (\<lambda>(l, items). Grp ''nav-group'' (Txt (t l []) # map (nav_link t path) items))"

text \<open>The page inside \<^verbatim>\<open>app-main\<close> has a state and a view of its own.\<close>

definition AppShell ::
    "translator \<Rightarrow> string \<Rightarrow> preferences \<Rightarrow> refresh_button \<Rightarrow> string
       \<Rightarrow> app_shell \<Rightarrow> (shell_click, shell_field) view" where
  "AppShell t zh p rb path s =
     (if path = ''/login'' then Grp [] [PreferencesControls t zh p]
      else Grp ''app-shell''
        [Btn (t ''Close navigation'' []) False ClickCloseMobile,
         Grp ''sidebar''
           [Btn ''Grouproxy'' False (ClickNav ''/''),
            IconButton t (t ''Close navigation'' []) False ClickCloseMobile,
            Grp ''sidebar-nav'' (map (nav_group t path) (activeNavigation s))],
         Grp ''topbar''
           ([IconButton t (if sidebarCollapsed s then ''Expand sidebar'' else ''Collapse sidebar'') False
               ClickSidebar,
             IconButton t (t ''Open navigation'' []) False ClickOpenMobile,
             Txt (t ''Control plane'' []), Txt (t (pageLabel path) []), PreferencesControls t zh p] @
            (if authenticated s
             then [RefreshButton t ''Refresh workspace'' False ClickRefreshWorkspace rb,
                   IconButton t (t ''Sign out'' []) (signingOut s) ClickSignOut]
             else [Href ''/login'' (t ''Sign in'' [])])),
         Grp ''app-main'' [],
         ConfirmDialog t (signOutConfirmOpen s) ''Sign out of the control plane?''
           ''You will need to sign in again to access the control plane.'' ''Sign out'' (signingOut s)
           ClickCloseSignOut ClickConfirmSignOut []])"

section \<open>Events\<close>

fun shell_on_click :: "shell_click \<Rightarrow> app_shell \<Rightarrow> app_shell" where
  "shell_on_click ClickCloseMobile s = closeMobile s"
| "shell_on_click ClickOpenMobile s = s\<lparr>mobileOpen := True\<rparr>"
| "shell_on_click ClickSidebar s = toggleSidebar s"
| "shell_on_click (ClickNav href) s = (closeMobile s)\<lparr>shell_routes := shell_routes s @ [href]\<rparr>"
| "shell_on_click ClickThemeToggle s = s"
| "shell_on_click ClickSignOut s = s\<lparr>signOutConfirmOpen := True\<rparr>"
| "shell_on_click ClickCloseSignOut s = (if signingOut s then s else s\<lparr>signOutConfirmOpen := False\<rparr>)"
| "shell_on_click ClickConfirmSignOut s = signOut s"
| "shell_on_click ClickRefreshWorkspace s = s"

text \<open>The preferences are kept by their provider, and so are the toggles of \<^verbatim>\<open>PreferencesControls\<close>.\<close>

fun controls_on_click :: "shell_click \<Rightarrow> preferences \<Rightarrow> preferences" where
  "controls_on_click ClickThemeToggle p =
     setTheme (if pref_theme p = ThemeDark then ThemeLight else ThemeDark) p"
| "controls_on_click _ p = p"

definition controls_on_edit :: "shell_field \<Rightarrow> string \<Rightarrow> preferences \<Rightarrow> preferences" where
  "controls_on_edit f v p = (case saved_locale (Some v) of None \<Rightarrow> p | Some l \<Rightarrow> setLocale l p)"

text \<open>From outside: the path changed (at a given time, with the clock and the browser of that
  moment), the component was mounted, the sign-out request ended, and other parts of the console
  changed the browser.\<close>

datatype shell_message =
    PathChanged "string \<Rightarrow> int option" int
  | ShellMounted
  | SignOutEnded
  | BrowserChanged browser

fun shell_on_message :: "shell_message \<Rightarrow> app_shell \<Rightarrow> app_shell" where
  "shell_on_message (PathChanged parse now) s = path_effect parse now s"
| "shell_on_message ShellMounted s = sidebar_effect s"
| "shell_on_message SignOutEnded s = (if shell_waiting s then signOut_finally s else s)"
| "shell_on_message (BrowserChanged b) s = s\<lparr>shell_browser := b\<rparr>"

section \<open>Lemmas\<close>

lemma can_click_shell_parts [simp]:
  "can_click (PreferencesControls t zh p) c \<longleftrightarrow> c = ClickThemeToggle"
  "can_click (nav_group t path g) c \<longleftrightarrow> (\<exists>item \<in> set (snd g). c = ClickNav (nav_href item))"
  by (auto simp: PreferencesControls_def nav_group_def nav_link_def Let_def split_beta)

lemma can_click_shell:
  "can_click (AppShell t zh p rb path s) c \<longleftrightarrow>
     c = ClickThemeToggle \<or>
     path \<noteq> ''/login'' \<and>
       (c \<in> {ClickCloseMobile, ClickOpenMobile, ClickSidebar, ClickNav ''/''} \<or>
        (\<exists>g \<in> set (activeNavigation s). \<exists>item \<in> set (snd g). c = ClickNav (nav_href item)) \<or>
        authenticated s \<and> (c = ClickRefreshWorkspace \<and> rb_rendered rb = Idle \<or> c = ClickSignOut \<and> \<not> signingOut s) \<or>
        signOutConfirmOpen s \<and> (c = ClickCloseSignOut \<or> c = ClickConfirmSignOut \<and> \<not> signingOut s))"
  by (auto simp: AppShell_def)

text \<open>Two paths that are both prefixes of a third are comparable, so items whose paths are pairwise
  incomparable cannot both be current.\<close>

lemma starts_with_comparable:
  "starts_with p s \<Longrightarrow> starts_with q s \<Longrightarrow> starts_with p q \<or> starts_with q p"
  by (auto simp: starts_with_iff append_eq_append_conv2)

definition all_items :: "NavigationItem list" where
  "all_items = concat (map snd navigation)"

definition items_apart :: "NavigationItem \<Rightarrow> NavigationItem \<Rightarrow> bool" where
  "items_apart a b \<longleftrightarrow>
     (if nav_href a = ''/'' then list_all (\<lambda>q. \<not> starts_with q ''/'') (nav_paths b)
      else if nav_href b = ''/'' then list_all (\<lambda>p. \<not> starts_with p ''/'') (nav_paths a)
      else list_all (\<lambda>p. list_all (\<lambda>q. \<not> starts_with p q \<and> \<not> starts_with q p) (nav_paths b)) (nav_paths a))"

lemma items_apart_exclusive:
  "items_apart a b \<Longrightarrow> \<not> (nav_href a = ''/'' \<and> nav_href b = ''/'') \<Longrightarrow> isCurrent path a \<Longrightarrow> \<not> isCurrent path b"
  using starts_with_comparable [of _ path]
  by (auto simp: items_apart_def isCurrent_def list_all_iff list_ex_iff split: if_splits; blast)

lemma navigation_apart:
  "sorted_wrt (\<lambda>a b. items_apart a b \<and> \<not> (nav_href a = ''/'' \<and> nav_href b = ''/'')) all_items"
  by code_simp

lemma filter_exclusive:
  "sorted_wrt R xs \<Longrightarrow> (\<And>a b. R a b \<Longrightarrow> P a \<Longrightarrow> \<not> P b) \<Longrightarrow> length (filter P xs) \<le> 1"
  by (induction xs) (auto simp: filter_empty_conv)

lemma current_at_most_one: "length (filter (isCurrent path) all_items) \<le> 1"
  using navigation_apart by (rule filter_exclusive) (auto dest: items_apart_exclusive)

lemma find_first_filter: "find_first P xs = head_opt (filter P xs)"
  by (induction xs) (auto simp: find_first_def)

lemma first_label_head:
  "first_label path groups =
     (case filter (isCurrent path) (concat (map snd groups)) of [] \<Rightarrow> ''Control plane'' | i # _ \<Rightarrow> nav_label i)"
  by (induction path groups rule: first_label.induct)
     (auto simp: find_first_filter head_opt_def split: list.splits option.splits)

section \<open>Invariant\<close>

text \<open>The sign-out request is sent at most once in the life of the shell, and the collapsed sidebar
  is what the storage says once it was toggled.\<close>

definition shell_inv :: "app_shell \<Rightarrow> bool" where
  "shell_inv s \<longleftrightarrow>
     shell_calls s = (if signingOut s then [logoutManagementSession] else []) \<and>
     (shell_waiting s \<longrightarrow> signingOut s) \<and>
     shell_cache_clears s = (if signingOut s \<and> \<not> shell_waiting s then 1 else 0)"

lemma shell_ops_frame [simp]:
  "signingOut (closeMobile s) = signingOut s" "shell_calls (closeMobile s) = shell_calls s"
  "shell_waiting (closeMobile s) = shell_waiting s" "shell_cache_clears (closeMobile s) = shell_cache_clears s"
  "signingOut (toggleSidebar s) = signingOut s" "shell_calls (toggleSidebar s) = shell_calls s"
  "shell_waiting (toggleSidebar s) = shell_waiting s" "shell_cache_clears (toggleSidebar s) = shell_cache_clears s"
  "signingOut (path_effect parse now s) = signingOut s" "shell_calls (path_effect parse now s) = shell_calls s"
  "shell_waiting (path_effect parse now s) = shell_waiting s"
  "shell_cache_clears (path_effect parse now s) = shell_cache_clears s"
  by (simp_all add: closeMobile_def toggleSidebar_def path_effect_def Let_def split_beta)

lemma shell_inv_init: "shell_inv (shell_init b)"
  by (simp add: shell_inv_def shell_init_def)

lemma shell_inv_click: "shell_inv s \<Longrightarrow> shell_inv (shell_on_click c s)"
  by (cases c) (auto simp: shell_inv_def signOut_def split: if_splits)

lemma shell_inv_message: "shell_inv s \<Longrightarrow> shell_inv (shell_on_message m s)"
  by (cases m) (auto simp: shell_inv_def sidebar_effect_def signOut_finally_def split: if_splits)

interpretation sh: component "\<lambda>s. \<exists>b. s = shell_init b"
    "\<lambda>(t, zh, p, rb, path). AppShell t zh p rb path" shell_on_click "\<lambda>f v s. s" shell_on_message shell_inv
  by unfold_locales (auto intro: shell_inv_init shell_inv_click shell_inv_message)

text \<open>Once a sign-out was confirmed, no event takes the mark back.\<close>

lemma signingOut_sticks:
  "signingOut s \<Longrightarrow> signingOut (shell_on_click c s)" "signingOut s \<Longrightarrow> signingOut (shell_on_message m s)"
  by (cases c; simp add: signOut_def) (cases m; simp add: sidebar_effect_def signOut_finally_def)

interpretation so: component signingOut
    "\<lambda>(t, zh, p, rb, path). AppShell t zh p rb path" shell_on_click "\<lambda>f v s. s" shell_on_message signingOut
  by unfold_locales (auto intro: signingOut_sticks)

section \<open>Properties\<close>

text \<open>The navigation is unambiguous: at every address at most one item is marked as the current
  page, and the title in the top bar is the label of exactly that item (\<^verbatim>\<open>Control plane\<close> where there is
  none; the address \<^verbatim>\<open>/access\<close> is titled like the front page).\<close>

theorem navigation_unambiguous:
  "length (filter (isCurrent path) (concat (map snd navigation))) \<le> 1 \<and>
   pageLabel path =
     (if path = ''/access'' then ''Access''
      else case filter (isCurrent path) (concat (map snd navigation)) of
             [] \<Rightarrow> ''Control plane'' | item # _ \<Rightarrow> nav_label item)"
  using current_at_most_one [of path] by (simp add: pageLabel_def first_label_head all_items_def)

text \<open>Signing out is complete and happens once: in every reachable state of the shell at most one
  sign-out request was sent; when it ends, however it ends, no part of the session is stored any more,
  the query cache has been cleared exactly once, the dialog is closed and the router goes to the
  login page; and a user with the role employee is only offered the front page.\<close>

theorem sign_out_complete:
  assumes "sh.reachable s"
  shows "length (shell_calls s) \<le> 1 \<and>
     (shell_waiting s \<and> has_window (shell_browser s) \<longrightarrow>
        (let s' = shell_on_message SignOutEnded s in
           (\<forall>k \<in> set session_keys. local_get (shell_browser s') k = None) \<and>
           fst (hasAuthenticatedSession parse now (shell_browser s')) = False \<and>
           shell_cache_clears s' = 1 \<and> \<not> signOutConfirmOpen s' \<and> last (shell_routes s') = ''/login'')) \<and>
     (shell_role s = Some RoleEmployee \<and> can_click (AppShell t zh p rb path s) (ClickNav href) \<longrightarrow> href = ''/'')"
proof -
  from sh.reachable_inv [OF assms] have inv: "shell_inv s" .
  moreover have "fst (activeManagementToken parse now (clearManagementSession b)) = []" for b
    by (simp add: activeManagementToken_def Let_def)
  ultimately show ?thesis
    by (auto simp: shell_inv_def signOut_finally_def local_get_clear session_keys_def Let_def
          hasAuthenticatedSession_def split_beta can_click_shell activeNavigation_def
          employeeNavigation_def nav_item_def)
qed


theorem sign_out_complete_witness:
  "let s = shell_on_click ClickConfirmSignOut (shell_on_click ClickSignOut
         (shell_on_message (PathChanged (\<lambda>_. Some 100) 0)
            (shell_init (saveManagementSession ''tok'' RoleAdmin ''later'' demo_browser))));
       s' = shell_on_message SignOutEnded s
   in length (shell_calls s) = 1 \<and> shell_waiting s \<and> shell_cache_clears s' = 1 \<and> last (shell_routes s') = ''/login'' \<and>
      local_get (shell_browser s') tokenKey = None"
proof -
  let ?b = "saveManagementSession ''tok'' RoleAdmin ''later'' demo_browser"
  let ?s0 = "shell_on_message (PathChanged (\<lambda>_. Some 100) 0) (shell_init ?b)"
  let ?s1 = "shell_on_click ClickSignOut ?s0"
  let ?s2 = "shell_on_click ClickConfirmSignOut ?s1"
  let ?e = "((\<lambda>k _. k), [], PreferencesProvider_mount demo_browser, refresh_init, ''/overview'')"
  have w: "has_window demo_browser" by (simp add: demo_browser_def)
  then have auth: "authenticated ?s0" "shell_browser ?s0 = ?b"
    by (simp_all add: path_effect_def shell_init_def hasAuthenticatedSession_def active_token_valid
          not_expired_after_save Let_def split_beta)
  have s0: "\<not> signingOut ?s0" by (simp add: shell_init_def)
  have "sh.reachable ?s0" by (intro sh.reach_message sh.reach_start) blast
  moreover have "can_click ((\<lambda>(t, zh, p, rb, path). AppShell t zh p rb path) ?e ?s0) ClickSignOut"
    using auth s0 by (simp add: can_click_shell)
  ultimately have r1: "sh.reachable ?s1" by (rule sh.reach_click)
  moreover have "can_click ((\<lambda>(t, zh, p, rb, path). AppShell t zh p rb path) ?e ?s1) ClickConfirmSignOut"
    using s0 by (simp add: can_click_shell)
  ultimately have "sh.reachable ?s2" by (rule sh.reach_click)
  from sign_out_complete [OF this] auth s0 w show ?thesis
    by (simp add: signOut_def Let_def session_keys_def shell_init_def)
qed

text \<open>The mark that a sign-out is running is never taken back, although the shell stays mounted
  while the next user signs in: from the first sign-out on, whatever happens, the sign-out button of
  that shell is disabled, also for a session that is saved later.\<close>

theorem second_sign_out_impossible:
  assumes "so.reachable s"
  shows "\<not> can_click (AppShell t zh p rb path s) ClickSignOut \<and>
     \<not> can_click (AppShell t zh p rb path s) ClickConfirmSignOut"
  using so.reachable_inv [OF assms] by (simp add: can_click_shell)

theorem second_sign_out_impossible_witness:
  "let s = shell_on_message (PathChanged (\<lambda>_. Some 100) 0)
         (shell_on_message (BrowserChanged (saveManagementSession ''new'' RoleAdmin ''later'' demo_browser))
           (shell_on_message SignOutEnded (signOut (shell_init demo_browser))))
   in authenticated s \<and> \<not> can_click (AppShell (\<lambda>k _. k) [] (PreferencesProvider_mount demo_browser) refresh_init
        ''/overview'' s) ClickSignOut"
proof -
  let ?s = "shell_on_message (PathChanged (\<lambda>_. Some 100) 0)
         (shell_on_message (BrowserChanged (saveManagementSession ''new'' RoleAdmin ''later'' demo_browser))
           (shell_on_message SignOutEnded (signOut (shell_init demo_browser))))"
  have "so.reachable ?s"
    by (intro so.reach_message so.reach_start) (simp add: signOut_def shell_init_def)
  from second_sign_out_impossible [OF this] show ?thesis
    by (simp add: path_effect_def hasAuthenticatedSession_def active_token_valid
          not_expired_after_save demo_browser_def Let_def split_beta)
qed

end
