(* ===== verification/Query.thy ===== *)
theory Query
  imports View
begin

text \<open>
  What the pages see of the query library (\<^verbatim>\<open>@tanstack/react-query\<close>), as it is documented: a query is
  its latest data, its error, and whether it is loading; a mutation is idle, pending, succeeded or
  failed, \<^verbatim>\<open>reset\<close> makes it idle and detaches it from the call in flight, and the result of a call is
  only seen while the mutation that made it is pending.  \<^verbatim>\<open>keepPreviousData\<close>, the default of
  \<^verbatim>\<open>src/frontend/app/providers.tsx\<close>, shows the data of the previous key until the new key has its own.
\<close>

record 'd query =
  q_data :: "'d option"
  q_error :: "string option"
  q_loading :: bool
  q_fetching :: bool

definition q_isError :: "'d query \<Rightarrow> bool" where
  "q_isError q \<longleftrightarrow> q_error q \<noteq> None"

definition query_list :: "'d list query \<Rightarrow> 'd list" where
  "query_list q = or_list (q_data q)"

definition empty_query :: "'d query" where
  "empty_query = \<lparr>q_data = None, q_error = None, q_loading = True, q_fetching = True\<rparr>"

definition loaded :: "'d \<Rightarrow> 'd query" where
  "loaded d = \<lparr>q_data = Some d, q_error = None, q_loading = False, q_fetching = False\<rparr>"

datatype ('v, 'd) mutation =
    MutIdle
  | MutPending 'v
  | MutSuccess 'd
  | MutError string

definition mut_pending :: "('v, 'd) mutation \<Rightarrow> bool" where
  "mut_pending m \<longleftrightarrow> (case m of MutPending _ \<Rightarrow> True | _ \<Rightarrow> False)"

definition mut_error :: "('v, 'd) mutation \<Rightarrow> string option" where
  "mut_error m = (case m of MutError e \<Rightarrow> Some e | _ \<Rightarrow> None)"

definition mut_data :: "('v, 'd) mutation \<Rightarrow> 'd option" where
  "mut_data m = (case m of MutSuccess d \<Rightarrow> Some d | _ \<Rightarrow> None)"

text \<open>The end of a call: \<open>f\<close> builds the data from the variables of the call and its response.\<close>

definition mut_settle :: "('v \<Rightarrow> 'r \<Rightarrow> 'd) \<Rightarrow> string + 'r \<Rightarrow> ('v, 'd) mutation \<Rightarrow> ('v, 'd) mutation" where
  "mut_settle f result m =
     (case m of
        MutPending v \<Rightarrow> (case result of Inr r \<Rightarrow> MutSuccess (f v r) | Inl e \<Rightarrow> MutError e)
      | _ \<Rightarrow> m)"

lemma mut_simps [simp]:
  "mut_pending MutIdle = False" "mut_pending (MutPending v) = True"
  "mut_pending (MutSuccess d) = False" "mut_pending (MutError e) = False"
  "mut_error MutIdle = None" "mut_error (MutPending v) = None"
  "mut_error (MutSuccess d) = None" "mut_error (MutError e) = Some e"
  "mut_data MutIdle = None" "mut_data (MutPending v) = None"
  "mut_data (MutSuccess d) = Some d" "mut_data (MutError e) = None"
  by (simp_all add: mut_pending_def mut_error_def mut_data_def)

lemma mut_settle_simps [simp]:
  "mut_settle f (Inr r) (MutPending v) = MutSuccess (f v r)"
  "mut_settle f (Inl e) (MutPending v) = MutError e"
  "\<not> mut_pending m \<Longrightarrow> mut_settle f res m = m"
  by (auto simp: mut_settle_def mut_pending_def split: mutation.splits)

lemma mut_data_Some [simp]: "mut_data m = Some d \<longleftrightarrow> m = MutSuccess d"
  by (cases m) auto

text \<open>\<^verbatim>\<open>placeholderData: keepPreviousData\<close>.\<close>

definition keep_previous :: "'d option \<Rightarrow> 'd option \<Rightarrow> 'd option" where
  "keep_previous previous current = or_else current previous"

text \<open>An HTML fieldset that is disabled disables every control inside it.\<close>

fun fieldset :: "bool \<Rightarrow> ('c, 'f) view \<Rightarrow> ('c, 'f) view" where
  "fieldset off (Txt s) = Txt s"
| "fieldset off (Grp n vs) = Grp n (map (fieldset off) vs)"
| "fieldset off (Btn l d c) = Btn l (d \<or> off) c"
| "fieldset off (Href h l) = Href h l"
| "fieldset off (Inp l v d f) = Inp l v (d \<or> off) f"
| "fieldset off (Sel l v opts d f) = Sel l v opts (d \<or> off) f"
| "fieldset off (Chk l b d c) = Chk l b (d \<or> off) c"
| "fieldset off (Dlg opened title vs) = Dlg opened title (map (fieldset off) vs)"

lemma in_show_if [simp]: "x \<in> set (show_if b vs) \<longleftrightarrow> b \<and> x \<in> set vs"
  by (simp add: show_if_def)

lemma can_click_fieldset [simp]: "can_click (fieldset off v) c \<longleftrightarrow> \<not> off \<and> can_click v c"
  by (induction v) (auto simp: list_ex_iff)

lemma can_edit_fieldset [simp]: "can_edit (fieldset off v) f x \<longleftrightarrow> \<not> off \<and> can_edit v f x"
  by (induction v) (auto simp: list_ex_iff)

end
