(* ===== verification/Routing_Page.thy ===== *)
theory Routing_Page
  imports Query Ui_Components Endpoints
begin

text \<open>
  Routing rules: \<^verbatim>\<open>src/frontend/app/routing/page.tsx\<close> and \<^verbatim>\<open>routing-import.tsx\<close>.

  The import panel, the editor of one site and the page that chooses the site are three states.
  React keeps the state of a component as long as its \<^verbatim>\<open>key\<close> stays the same and starts it afresh
  otherwise; \<open>routing_render\<close> does exactly that for the editor.  Policies are printed with the member
  order of their type.
\<close>

section \<open>Importing rules\<close>

definition maxFileBytes :: int where "maxFileBytes = 1024 * 1024"

record import_response =
  imp_policy :: RoutingPolicy
  imp_source_rules :: int
  imp_imported_rules :: int

type_synonym import_request = "string \<times> ImportMode \<times> RoutingPolicy"

definition fingerprint :: "import_request \<Rightarrow> string" where
  "fingerprint = (\<lambda>(content, mode, policy).
     stringify (JObj [(''content'', JStr content), (''mode'', JStr (import_mode_text mode)),
                      (''policy'', routing_policy_json policy)]))"

text \<open>\<open>pv_request\<close> remembers which request a preview answers; the code only keeps its fingerprint.\<close>

record preview_data =
  pv_response :: import_response
  pv_fingerprint :: string
  pv_request :: import_request

record routing_import =
  ri_content :: string
  ri_mode :: ImportMode
  ri_fileError :: string
  ri_reading :: bool
  ri_fileName :: string
  ri_applied :: bool
  ri_preview :: "(import_request, preview_data) mutation"

definition import_init :: routing_import where
  "import_init = \<lparr>ri_content = [], ri_mode = ImportAppend, ri_fileError = [], ri_reading = False,
     ri_fileName = [], ri_applied = False, ri_preview = MutIdle\<rparr>"

definition import_result :: "RoutingPolicy \<Rightarrow> routing_import \<Rightarrow> preview_data option" where
  "import_result policy s =
     (case mut_data (ri_preview s) of
        Some d \<Rightarrow> if pv_fingerprint d = fingerprint (ri_content s, ri_mode s, policy) then Some d else None
      | None \<Rightarrow> None)"

definition import_busy :: "routing_import \<Rightarrow> bool" where
  "import_busy s \<longleftrightarrow> ri_reading s \<or> mut_pending (ri_preview s)"

definition updateContent :: "string \<Rightarrow> routing_import \<Rightarrow> routing_import" where
  "updateContent v s =
     s\<lparr>ri_content := v, ri_fileName := [], ri_applied := False, ri_fileError := [], ri_preview := MutIdle\<rparr>"

text \<open>\<open>file\<close> is the chosen file's size, if one was chosen; the reading ends with its text and name or with
  an exception.\<close>

definition readFile :: "int option \<Rightarrow> routing_import \<Rightarrow> routing_import" where
  "readFile file s =
     (case file of
        None \<Rightarrow> s
      | Some bytes \<Rightarrow>
          (let s' = s\<lparr>ri_preview := MutIdle, ri_applied := False\<rparr>
           in if bytes > maxFileBytes
              then s'\<lparr>ri_fileError := ''Routing import files must not exceed 1 MiB.''\<rparr>
              else s'\<lparr>ri_reading := True, ri_fileError := []\<rparr>))"

definition readFile_done :: "(string \<times> string) option \<Rightarrow> routing_import \<Rightarrow> routing_import" where
  "readFile_done result s =
     (let s' = (case result of
                  Some (text, name) \<Rightarrow> (updateContent text s)\<lparr>ri_fileName := name\<rparr>
                | None \<Rightarrow> s\<lparr>ri_fileError := ''Unable to read the routing file.''\<rparr>)
      in s'\<lparr>ri_reading := False\<rparr>)"

definition setImportMode :: "ImportMode \<Rightarrow> routing_import \<Rightarrow> routing_import" where
  "setImportMode behavior s = s\<lparr>ri_mode := behavior, ri_preview := MutIdle, ri_applied := False\<rparr>"

definition startPreview :: "RoutingPolicy \<Rightarrow> routing_import \<Rightarrow> routing_import" where
  "startPreview policy s =
     s\<lparr>ri_applied := False, ri_preview := MutPending (ri_content s, ri_mode s, policy)\<rparr>"

definition preview_done :: "string + import_response \<Rightarrow> routing_import \<Rightarrow> routing_import" where
  "preview_done result s =
     s\<lparr>ri_preview := mut_settle
        (\<lambda>req r. \<lparr>pv_response = r, pv_fingerprint = fingerprint req, pv_request = req\<rparr>)
        result (ri_preview s)\<rparr>"

text \<open>Applying hands the previewed policy to the editor.\<close>

definition applyImport :: "RoutingPolicy \<Rightarrow> routing_import \<Rightarrow> RoutingPolicy \<times> routing_import" where
  "applyImport policy s =
     (case import_result policy s of
        None \<Rightarrow> (policy, s)
      | Some d \<Rightarrow> (imp_policy (pv_response d), (updateContent [] s)\<lparr>ri_applied := True\<rparr>))"

section \<open>The editor of one site\<close>

record routing_editor =
  ed_policy :: RoutingPolicy
  ed_confirm :: bool
  ed_releaseId :: string
  ed_save :: "(api_call, RoutingPolicyResponse) mutation"
  ed_publish :: "(api_call, string) mutation"
  ed_import :: routing_import

definition editor_init :: "RoutingPolicyResponse \<Rightarrow> routing_editor" where
  "editor_init d = \<lparr>ed_policy = rpr_policy d, ed_confirm = False, ed_releaseId = [], ed_save = MutIdle,
     ed_publish = MutIdle, ed_import = import_init\<rparr>"

definition dirty :: "RoutingPolicyResponse \<Rightarrow> routing_editor \<Rightarrow> bool" where
  "dirty d e \<longleftrightarrow> stringify (routing_policy_json (ed_policy e)) \<noteq> stringify (routing_policy_json (rpr_policy d))"

definition editor_busy :: "routing_editor \<Rightarrow> bool" where
  "editor_busy e \<longleftrightarrow> mut_pending (ed_save e) \<or> mut_pending (ed_publish e)"

definition saveRouting :: "RoutingPolicyResponse \<Rightarrow> routing_editor \<Rightarrow> routing_editor" where
  "saveRouting d e =
     e\<lparr>ed_save := MutPending (saveRoutingPolicy (rpr_site_id d) (rpr_revision d) (ed_policy e))\<rparr>"

definition publishRouting :: "RoutingPolicyResponse \<Rightarrow> routing_editor \<Rightarrow> routing_editor" where
  "publishRouting d e =
     e\<lparr>ed_publish := MutPending (publishRoutingPolicy (rpr_site_id d) (rpr_revision d))\<rparr>"

definition publish_done :: "string + string \<Rightarrow> routing_editor \<Rightarrow> routing_editor" where
  "publish_done result e =
     (let e' = e\<lparr>ed_publish := mut_settle (\<lambda>_ releaseId. releaseId) result (ed_publish e)\<rparr>
      in case result of
           Inr releaseId \<Rightarrow>
             if mut_pending (ed_publish e) then e'\<lparr>ed_releaseId := releaseId, ed_confirm := False\<rparr> else e'
         | Inl _ \<Rightarrow> e')"

section \<open>What is rendered\<close>

datatype routing_click =
    ClickSave | ClickPublish | ClickConfirmPublish | ClickCloseConfirm
  | ClickPrivateDirect | ClickCnDirect | ClickFinal RouteFinal
  | ClickChooseFile | ClickImportMode ImportMode | ClickPreview | ClickApply
  | ClickSite string | ClickRetry

datatype routing_field = FieldContent

definition RoutingImport ::
    "translator \<Rightarrow> RoutingPolicy \<Rightarrow> routing_import \<Rightarrow> (routing_click, routing_field) view" where
  "RoutingImport t policy s =
     (let busy = import_busy s; result = import_result policy s
      in Grp ''importer''
        ([Txt (t ''Import sing-box rules'' []),
          Txt (t ''Upload or paste UTF-8 JSON: a full sing-box configuration, a route object, or a rules array. Only routing rules and route.final are imported; node credentials, DNS and other settings are ignored.'' []),
          Txt (t ''Supported matchers: domain, domain_suffix, ip_cidr. Actions: route with direct / subscription / proxy, or reject. Unsupported matchers, logical rules and rule-set references are rejected, never silently skipped.'' []),
          Btn (t ''Choose routing file'' []) busy ClickChooseFile,
          Txt (or_str (ri_fileName s) (t ''No routing file selected'' [])),
          Grp ''radiogroup''
            (map (\<lambda>behavior.
               Chk (t (if behavior = ImportAppend then ''Append to custom rules'' else ''Replace custom rules'') [])
                 (ri_mode s = behavior) busy (ClickImportMode behavior)) [ImportAppend, ImportReplace]),
          Href ''/templates/sing-box-routing.json'' (t ''Download sing-box template'' []),
          Inp (t ''Sing-box JSON configuration'' []) (ri_content s) busy FieldContent,
          Btn (t ''Validate and preview import'' []) (busy \<or> trim (ri_content s) = []) ClickPreview,
          Btn (t ''Apply import to editor'' []) (busy \<or> result = None) ClickApply] @
         show_if (ri_fileError s \<noteq> [] \<or> mut_error (ri_preview s) \<noteq> None)
           [Txt (t (or_str (ri_fileError s)
              (case mut_error (ri_preview s) of
                 None \<Rightarrow> ''Operation failed'' | Some m \<Rightarrow> or_str m ''Operation failed'')) [])] @
         (case result of
            None \<Rightarrow> []
          | Some d \<Rightarrow>
              [Txt (t ''Import preview: {source} source rules expand to {imported} entries; {total} custom rules after import.''
                 [(''source'', show_int (imp_source_rules (pv_response d))),
                  (''imported'', show_int (imp_imported_rules (pv_response d))),
                  (''total'', show_nat (length (rp_rules (imp_policy (pv_response d)))))]),
               Txt (t ''Unmatched destinations'' []),
               Txt (t (if rp_final (imp_policy (pv_response d)) = FinalProxy then ''Proxy outbound'' else ''Direct outbound'') []),
               Txt (t ''Private and China direct settings remain unchanged. Applying only updates the editor; save and publish separately.'' []),
               Txt (t ''View converted routing policy'' [])]) @
         show_if (ri_applied s)
           [Txt (t ''Import applied to the editor. Review the rules, then save and publish.'' [])]))"

definition RoutingEditor ::
    "translator \<Rightarrow> RoutingPolicyResponse \<Rightarrow> bool \<Rightarrow> string option \<Rightarrow> routing_editor
       \<Rightarrow> (routing_click, routing_field) view" where
  "RoutingEditor t d hasNodes release_status e =
     (let busy = editor_busy e; policy = ed_policy e
      in Grp ''editor''
        ([Txt (t ''Rule mode'' []),
          Txt (t ''Saved revision'' [] @ '': '' @ show_int (rpr_revision d) @ '' ''
               @ (if dirty d e then t ''Unsaved changes'' [] else [])),
          Btn (t ''Save routing rules'' [])
            (busy \<or> (\<not> dirty d e \<and> rpr_revision d > 0) \<or>
             list_ex (\<lambda>rule. trim (rr_pattern rule) = []) (rp_rules policy)) ClickSave,
          Btn (t ''Publish routing rules'' [])
            (busy \<or> dirty d e \<or> rpr_revision d = 0 \<or> \<not> hasNodes) ClickPublish,
          fieldset busy (Grp ''fieldset''
            ([Chk (t ''Private addresses direct'' []) (rp_private_direct policy) False ClickPrivateDirect,
              Chk (t ''China domains and IPs direct'' []) (rp_cn_direct policy) False ClickCnDirect,
              Txt (t ''Unmatched destinations'' []),
              Grp ''radiogroup''
                (map (\<lambda>outbound.
                   Chk (t (if outbound = FinalDirect then ''Direct outbound'' else ''Proxy outbound'') [])
                     (rp_final policy = outbound) False (ClickFinal outbound)) [FinalDirect, FinalProxy]),
              Txt (t ''Access restrictions run first. Custom rules match from top to bottom, followed by private and China direct rules, then the fallback.'' []),
              Txt (t ''Saving changes does not publish them. Publish the saved revision to all nodes in this site and inspect the release acknowledgements.'' []),
              RoutingImport t policy (ed_import e)] @
             show_if (rp_rules policy \<noteq> [])
               [Txt (t ''View current routing rules'' [] @ '' ('' @ show_nat (length (rp_rules policy)) @ '')'')]))] @
         show_if (mut_error (ed_save e) \<noteq> None \<or> mut_error (ed_publish e) \<noteq> None)
           [Txt (t (or_str (the (or_else (mut_error (ed_save e)) (mut_error (ed_publish e)))) ''Operation failed'') [])] @
         show_if (ed_releaseId e \<noteq> [])
           [Href ''/releases'' (t ''Routing release'' [] @ '': '' @ ed_releaseId e),
            StatusBadge t (case release_status of None \<Rightarrow> ''pending'' | Some st \<Rightarrow> or_str st ''pending'')] @
         [ConfirmDialog t (ed_confirm e) ''Publish routing rules''
            (t ''Apply the saved routing rules to every node in this site. Nodes validate the signed bundle and roll back if the health check fails.'' [])
            ''Publish routing rules'' (mut_pending (ed_publish e)) ClickCloseConfirm ClickConfirmPublish []]))"

fun editor_on_click :: "RoutingPolicyResponse \<Rightarrow> routing_click \<Rightarrow> routing_editor \<Rightarrow> routing_editor" where
  "editor_on_click d ClickSave e = saveRouting d e"
| "editor_on_click d ClickPublish e = e\<lparr>ed_confirm := True\<rparr>"
| "editor_on_click d ClickConfirmPublish e = publishRouting d e"
| "editor_on_click d ClickCloseConfirm e = e\<lparr>ed_confirm := False\<rparr>"
| "editor_on_click d ClickPrivateDirect e =
     e\<lparr>ed_policy := (ed_policy e)\<lparr>rp_private_direct := \<not> rp_private_direct (ed_policy e)\<rparr>\<rparr>"
| "editor_on_click d ClickCnDirect e =
     e\<lparr>ed_policy := (ed_policy e)\<lparr>rp_cn_direct := \<not> rp_cn_direct (ed_policy e)\<rparr>\<rparr>"
| "editor_on_click d (ClickFinal outbound) e =
     e\<lparr>ed_policy := (ed_policy e)\<lparr>rp_final := outbound\<rparr>\<rparr>"
| "editor_on_click d (ClickImportMode m) e = e\<lparr>ed_import := setImportMode m (ed_import e)\<rparr>"
| "editor_on_click d ClickPreview e = e\<lparr>ed_import := startPreview (ed_policy e) (ed_import e)\<rparr>"
| "editor_on_click d ClickApply e =
     (let (policy, imp) = applyImport (ed_policy e) (ed_import e)
      in e\<lparr>ed_policy := policy, ed_import := imp\<rparr>)"
| "editor_on_click d ClickChooseFile e = e"
| "editor_on_click d (ClickSite _) e = e"
| "editor_on_click d ClickRetry e = e"

section \<open>The page\<close>

text \<open>The cache holds what the server answered per site; \<open>rt_shown\<close> is the data of the last render
  (\<^verbatim>\<open>routing.data\<close>, kept while another site loads).\<close>

record routing_page =
  rt_selected :: string
  rt_sites :: "Site list query"
  rt_nodes :: "Node list query"
  rt_cache :: "string \<rightharpoonup> RoutingPolicyResponse"
  rt_failed :: bool
  rt_shown :: "RoutingPolicyResponse option"
  rt_editor :: "(string \<times> routing_editor) option"

definition routing_site :: "routing_page \<Rightarrow> string" where
  "routing_site s =
     or_str (rt_selected s)
       (or_str (case query_list (rt_nodes s) of n # _ \<Rightarrow> node_site_id n | [] \<Rightarrow> [])
         (case query_list (rt_sites s) of x # _ \<Rightarrow> site_id x | [] \<Rightarrow> []))"

definition editor_key :: "string \<Rightarrow> RoutingPolicyResponse \<Rightarrow> string" where
  "editor_key siteId d = siteId @ '':'' @ show_int (rpr_revision d)"

text \<open>One render: the data of the current site or else the previous data, and the editor under its
  key.\<close>

definition routing_render :: "routing_page \<Rightarrow> routing_page" where
  "routing_render s =
     (let siteId = routing_site s;
          shown = keep_previous (rt_shown s) (rt_cache s siteId)
      in case shown of
           None \<Rightarrow> s\<lparr>rt_shown := None, rt_editor := None\<rparr>
         | Some d \<Rightarrow>
             (let key = editor_key siteId d;
                  editor = (case rt_editor s of
                              Some (k, e) \<Rightarrow> if k = key then e else editor_init d
                            | None \<Rightarrow> editor_init d)
              in s\<lparr>rt_shown := Some d, rt_editor := Some (key, editor)\<rparr>))"

definition RoutingPage ::
    "translator \<Rightarrow> bool option \<Rightarrow> string option \<Rightarrow> routing_page \<Rightarrow> (routing_click, routing_field) view" where
  "RoutingPage t session release_status s =
     (if session = None then LoadingState t 5
      else if session = Some False then SessionGate t
      else if q_isError (rt_sites s) \<or> rt_failed s \<or> q_isError (rt_nodes s)
      then ErrorState t (t ''Unable to load routing policy'' []) (Some ClickRetry)
      else Grp ''page-stack''
        ([Txt (t ''Routing rules'' []),
          Txt (t ''Rule mode routes each destination using ordered rules instead of sending all traffic through the proxy.'' []),
          Txt (t ''Sites'' []),
          Grp ''radiogroup''
            (map (\<lambda>site. Chk (site_name site) (routing_site s = site_id site) False (ClickSite (site_id site)))
              (query_list (rt_sites s)))] @
         (case (rt_shown s, rt_editor s) of
            (Some d, Some (_, e)) \<Rightarrow>
              [RoutingEditor t d
                 (list_ex (\<lambda>n. node_site_id n = routing_site s) (query_list (rt_nodes s))) release_status e]
          | _ \<Rightarrow> if q_loading (rt_sites s) \<or> routing_site s \<noteq> [] then [LoadingState t 4]
                 else [Txt (t ''No sites available'' [])])))"

definition routing_on_click :: "routing_click \<Rightarrow> routing_page \<Rightarrow> routing_page" where
  "routing_on_click c s =
     (case c of
        ClickSite x \<Rightarrow> routing_render (s\<lparr>rt_selected := x\<rparr>)
      | ClickRetry \<Rightarrow> s
      | _ \<Rightarrow> (case (rt_shown s, rt_editor s) of
                (Some d, Some (k, e)) \<Rightarrow> s\<lparr>rt_editor := Some (k, editor_on_click d c e)\<rparr>
              | _ \<Rightarrow> s))"

text \<open>A policy arrives: from a query, or as the response of a save (\<^verbatim>\<open>setQueryData\<close>).\<close>

definition routing_loaded :: "string \<Rightarrow> RoutingPolicyResponse \<Rightarrow> routing_page \<Rightarrow> routing_page" where
  "routing_loaded siteId d s = routing_render (s\<lparr>rt_cache := (rt_cache s)(siteId \<mapsto> d)\<rparr>)"

text \<open>A save ends; \<open>siteId\<close> is the site it was made for.  The editor may have been replaced meanwhile, the
  cache is updated all the same.\<close>

definition save_done :: "string \<Rightarrow> string + RoutingPolicyResponse \<Rightarrow> routing_page \<Rightarrow> routing_page" where
  "save_done siteId result s =
     (let s' = s\<lparr>rt_editor := map_option (\<lambda>(k, e).
                   (k, e\<lparr>ed_save := mut_settle (\<lambda>_ r. r) result (ed_save e)\<rparr>)) (rt_editor s)\<rparr>
      in case result of Inr response \<Rightarrow> routing_loaded siteId response s' | Inl _ \<Rightarrow> s')"

section \<open>Lemmas\<close>

lemma import_mode_text_inject [simp]: "import_mode_text m = import_mode_text m' \<longleftrightarrow> m = m'"
  by (cases m; cases m') simp_all

lemma fingerprint_inject [simp]: "fingerprint r = fingerprint r' \<longleftrightarrow> r = r'"
  by (cases r; cases r') (simp add: fingerprint_def del: stringify.simps)

lemma dirty_iff: "dirty d e \<longleftrightarrow> ed_policy e \<noteq> rpr_policy d"
  by (simp add: dirty_def)

lemma no_blank_iff: "list_ex (\<lambda>rule. trim (rr_pattern rule) = []) rs \<longleftrightarrow>
    \<not> (\<forall>rule \<in> set rs. trim (rr_pattern rule) \<noteq> [])"
  by (simp add: list_ex_iff)

text \<open>What the import panel keeps true: a preview carries the fingerprint of its own request.\<close>

definition import_inv :: "routing_import \<Rightarrow> bool" where
  "import_inv s \<longleftrightarrow>
     (\<forall>d. mut_data (ri_preview s) = Some d \<longrightarrow> pv_fingerprint d = fingerprint (pv_request d))"

lemma import_inv_ops [inv_intros]:
  "import_inv import_init"
  "import_inv (updateContent v s)"
  "import_inv s \<Longrightarrow> import_inv (readFile file s)"
  "import_inv s \<Longrightarrow> import_inv (readFile_done r s)"
  "import_inv (setImportMode m s)"
  "import_inv (startPreview p s)"
  "import_inv s \<Longrightarrow> import_inv (preview_done res s)"
  "import_inv s \<Longrightarrow> import_inv (snd (applyImport p s))"
  by (auto simp: import_inv_def import_init_def updateContent_def readFile_def readFile_done_def
        setImportMode_def startPreview_def preview_done_def applyImport_def mut_settle_def Let_def
        split: option.splits mutation.splits sum.splits)

lemma import_result_current:
  "import_inv s \<Longrightarrow> import_result policy s = Some d \<Longrightarrow> pv_request d = (ri_content s, ri_mode s, policy)"
  by (auto simp: import_result_def import_inv_def split: option.splits if_splits)

text \<open>Which events the editor offers.\<close>

lemma can_click_import:
  "can_click (RoutingImport t policy s) ClickApply \<longleftrightarrow> \<not> import_busy s \<and> import_result policy s \<noteq> None"
  "can_click (RoutingImport t policy s) ClickPreview \<longleftrightarrow> \<not> import_busy s \<and> trim (ri_content s) \<noteq> []"
  "\<not> can_click (RoutingImport t policy s) ClickSave"
  "\<not> can_click (RoutingImport t policy s) ClickPublish"
  "\<not> can_click (RoutingImport t policy s) ClickConfirmPublish"
  by (auto simp: RoutingImport_def Let_def split: option.splits)

lemma can_click_editor:
  "can_click (RoutingEditor t d hasNodes st e) ClickSave \<longleftrightarrow>
     \<not> editor_busy e \<and> (dirty d e \<or> rpr_revision d \<le> 0) \<and>
     (\<forall>rule \<in> set (rp_rules (ed_policy e)). trim (rr_pattern rule) \<noteq> [])"
  "can_click (RoutingEditor t d hasNodes st e) ClickPublish \<longleftrightarrow>
     \<not> editor_busy e \<and> \<not> dirty d e \<and> rpr_revision d \<noteq> 0 \<and> hasNodes"
  "can_click (RoutingEditor t d hasNodes st e) ClickConfirmPublish \<longleftrightarrow>
     ed_confirm e \<and> \<not> mut_pending (ed_publish e)"
  "can_click (RoutingEditor t d hasNodes st e) ClickApply \<longleftrightarrow>
     \<not> editor_busy e \<and> \<not> import_busy (ed_import e) \<and> import_result (ed_policy e) (ed_import e) \<noteq> None"
  by (auto simp: RoutingEditor_def Let_def can_click_import no_blank_iff)

text \<open>The editor as a component: its data and the nodes are its environment.\<close>

datatype editor_message =
    MsgFile "int option" | MsgFileRead "(string \<times> string) option"
  | MsgPreview "string + import_response" | MsgPublish "string + string"
  | MsgSave "string + RoutingPolicyResponse"

fun editor_on_message :: "editor_message \<Rightarrow> routing_editor \<Rightarrow> routing_editor" where
  "editor_on_message (MsgFile f) e = e\<lparr>ed_import := readFile f (ed_import e)\<rparr>"
| "editor_on_message (MsgFileRead r) e = e\<lparr>ed_import := readFile_done r (ed_import e)\<rparr>"
| "editor_on_message (MsgPreview r) e = e\<lparr>ed_import := preview_done r (ed_import e)\<rparr>"
| "editor_on_message (MsgPublish r) e = publish_done r e"
| "editor_on_message (MsgSave r) e = e\<lparr>ed_save := mut_settle (\<lambda>_ r. r) r (ed_save e)\<rparr>"

fun editor_on_edit :: "routing_field \<Rightarrow> string \<Rightarrow> routing_editor \<Rightarrow> routing_editor" where
  "editor_on_edit FieldContent v e = e\<lparr>ed_import := updateContent v (ed_import e)\<rparr>"

text \<open>Only the two requests of the data on screen are ever pending.\<close>

definition editor_inv :: "RoutingPolicyResponse \<Rightarrow> routing_editor \<Rightarrow> bool" where
  "editor_inv d e \<longleftrightarrow>
     import_inv (ed_import e) \<and>
     (\<forall>c. ed_publish e = MutPending c \<longrightarrow> c = publishRoutingPolicy (rpr_site_id d) (rpr_revision d)) \<and>
     (\<forall>c. ed_save e = MutPending c \<longrightarrow>
        (\<exists>p. c = saveRoutingPolicy (rpr_site_id d) (rpr_revision d) p \<and>
             (\<forall>rule \<in> set (rp_rules p). trim (rr_pattern rule) \<noteq> [])))"

lemma editor_inv_click:
  assumes "editor_inv d e" "can_click (RoutingEditor t d hasNodes st e) c"
  shows "editor_inv d (editor_on_click d c e)"
proof (cases c)
  case ClickSave
  with assms(2) can_click_editor(1) have "\<forall>rule \<in> set (rp_rules (ed_policy e)). trim (rr_pattern rule) \<noteq> []"
    by blast
  with assms(1) ClickSave show ?thesis by (auto simp: editor_inv_def saveRouting_def)
qed (use assms(1) in \<open>auto simp: editor_inv_def publishRouting_def split_beta intro: inv_intros\<close>)

lemma settle_pending: "mut_settle f r m = MutPending v \<Longrightarrow> m = MutPending v"
  by (auto simp: mut_settle_def split: mutation.splits sum.splits)

lemma editor_inv_message: "editor_inv d e \<Longrightarrow> editor_inv d (editor_on_message m e)"
  by (cases m)
     (auto simp: editor_inv_def publish_done_def Let_def intro: inv_intros dest: settle_pending
        split: sum.splits)

interpretation re: component "\<lambda>e. e = editor_init d" "\<lambda>(t, hasNodes, st). RoutingEditor t d hasNodes st"
    "editor_on_click d" editor_on_edit editor_on_message "editor_inv d"
proof unfold_locales
  show "editor_inv d (editor_on_edit f v s)" if "editor_inv d s" for f v s
    using that by (cases f) (auto simp: editor_inv_def intro: inv_intros)
qed (auto simp: editor_inv_click editor_inv_message, simp add: editor_inv_def editor_init_def import_inv_ops)

section \<open>Properties\<close>

text \<open>C9: an import is applied to the editor only if its preview was computed for exactly the text,
  the import mode and the policy that are in the editor at that moment; then the editor holds the
  previewed policy.  Editing any of the three withdraws the preview.\<close>

theorem import_applied_is_current:
  assumes "re.reachable d e" "can_click (RoutingEditor t d hasNodes st e) ClickApply"
  shows "\<exists>p. ri_preview (ed_import e) = MutSuccess p \<and>
     pv_request p = (ri_content (ed_import e), ri_mode (ed_import e), ed_policy e) \<and>
     ed_policy (editor_on_click d ClickApply e) = imp_policy (pv_response p)"
proof -
  from assms(2) obtain p where p: "import_result (ed_policy e) (ed_import e) = Some p"
    by (auto simp: can_click_editor)
  moreover have "import_inv (ed_import e)"
    using re.reachable_inv [OF assms(1)] by (simp add: editor_inv_def)
  ultimately show ?thesis using import_result_current
    by (auto simp: import_result_def applyImport_def Let_def split: option.splits if_splits)
qed

definition demo_policy :: RoutingPolicy where
  "demo_policy = \<lparr>rp_mode = ModeRule, rp_private_direct = True, rp_cn_direct = False,
     rp_final = FinalProxy, rp_rules = []\<rparr>"

definition demo_rule :: RoutingRule where
  "demo_rule = \<lparr>rr_kind = KindDomain, rr_pattern = ''example.com'', rr_action = ActionDirect\<rparr>"

definition demo_routing :: RoutingPolicyResponse where
  "demo_routing = \<lparr>rpr_site_id = ''site-a'', rpr_revision = 1, rpr_policy = demo_policy\<rparr>"

definition demo_editor :: routing_editor where
  "demo_editor = editor_on_message
     (MsgPreview (Inr \<lparr>imp_policy = demo_policy\<lparr>rp_rules := [demo_rule]\<rparr>, imp_source_rules = 1,
        imp_imported_rules = 1\<rparr>))
     (editor_on_click demo_routing ClickPreview
       (editor_on_edit FieldContent ''[]'' (editor_init demo_routing)))"

lemma demo_editor_reachable: "re.reachable demo_routing demo_editor"
  unfolding demo_editor_def
  by (intro re.reach_message re.reach_click [where e = "(\<lambda>k _. k, True, None)"]
        re.reach_edit [where e = "(\<lambda>k _. k, True, None)"] re.reach_start)
     (simp_all add: RoutingEditor_def RoutingImport_def Let_def editor_init_def import_init_def
        editor_busy_def import_busy_def updateContent_def import_result_def trim_def is_ws_def)

theorem import_applied_is_current_witness:
  "\<exists>p. ri_preview (ed_import demo_editor) = MutSuccess p \<and>
     ed_policy (editor_on_click demo_routing ClickApply demo_editor) = demo_policy\<lparr>rp_rules := [demo_rule]\<rparr>"
proof -
  have preview: "ri_preview (ed_import demo_editor) = MutSuccess
      \<lparr>pv_response = \<lparr>imp_policy = demo_policy\<lparr>rp_rules := [demo_rule]\<rparr>, imp_source_rules = 1,
         imp_imported_rules = 1\<rparr>,
       pv_fingerprint = fingerprint (''[]'', ImportAppend, demo_policy),
       pv_request = (''[]'', ImportAppend, demo_policy)\<rparr>"
    by (simp add: demo_editor_def editor_init_def import_init_def updateContent_def startPreview_def
          preview_done_def demo_routing_def)
  have "can_click (RoutingEditor (\<lambda>k _. k) demo_routing True None demo_editor) ClickApply"
    unfolding can_click_editor import_result_def preview
    by (simp add: demo_editor_def editor_init_def import_init_def updateContent_def startPreview_def
          preview_done_def demo_routing_def editor_busy_def import_busy_def)
  from import_applied_is_current [OF demo_editor_reachable this] preview show ?thesis by auto
qed

text \<open>C10: saving and publishing follow the revision protocol: the editor reports unsaved changes
  exactly when its policy differs from the saved one; a save is offered only for changes (or a
  site that was never saved) with no blank pattern and sends the edited policy against the revision
  on screen; publishing is offered only for a saved, unchanged policy of a site with nodes and
  always names the saved revision.\<close>

theorem routing_save_publish_protocol:
  assumes "re.reachable d e"
  shows "(dirty d e \<longleftrightarrow> ed_policy e \<noteq> rpr_policy d) \<and>
     (can_click (RoutingEditor t d hasNodes st e) ClickSave \<longrightarrow>
        (ed_policy e \<noteq> rpr_policy d \<or> rpr_revision d \<le> 0) \<and>
        (\<forall>rule \<in> set (rp_rules (ed_policy e)). trim (rr_pattern rule) \<noteq> []) \<and>
        ed_save (editor_on_click d ClickSave e)
          = MutPending (saveRoutingPolicy (rpr_site_id d) (rpr_revision d) (ed_policy e))) \<and>
     (can_click (RoutingEditor t d hasNodes st e) ClickPublish \<longrightarrow>
        ed_policy e = rpr_policy d \<and> rpr_revision d \<noteq> 0 \<and> hasNodes) \<and>
     (\<forall>c. ed_publish e = MutPending c \<longrightarrow> c = publishRoutingPolicy (rpr_site_id d) (rpr_revision d))"
  using re.reachable_inv [OF assms]
  by (auto simp: can_click_editor dirty_iff editor_inv_def saveRouting_def)

theorem routing_save_publish_protocol_witness:
  "\<not> dirty demo_routing (editor_init demo_routing) \<and>
   \<not> can_click (RoutingEditor (\<lambda>k _. k) demo_routing True None (editor_init demo_routing)) ClickSave"
  using routing_save_publish_protocol [OF re.reach_start [OF refl], of demo_routing "\<lambda>k _. k" True None]
  by (simp add: editor_init_def demo_routing_def)

text \<open>C11: the editor's key does not contain the site its data belongs to.  While the policy of a newly
  selected site loads, the page shows the previous site's policy under the new site's key; when the
  new policy arrives with the same revision number, the key is unchanged and the editor keeps the
  previous site's policy as an unsaved edit of the new site, which a save then writes to it.\<close>

theorem site_switch_keeps_foreign_policy:
  assumes shown: "rt_shown s = Some a" and cache: "rt_cache s x = None" "x \<noteq> []"
    and rev: "rpr_revision b = rpr_revision a" "rpr_site_id b = x"
    and fresh: "fst (the (rt_editor s)) \<noteq> editor_key x a"
  shows "let s' = routing_loaded x b (routing_on_click (ClickSite x) s) in
     rt_shown s' = Some b \<and>
     map_option (\<lambda>(k, e). ed_save (editor_on_click b ClickSave e)) (rt_editor s')
       = Some (MutPending (saveRoutingPolicy x (rpr_revision b) (rpr_policy a)))"
proof -
  let ?s1 = "routing_on_click (ClickSite x) s"
  have s1: "rt_shown ?s1 = Some a" "rt_editor ?s1 = Some (editor_key x a, editor_init a)"
      "rt_selected ?s1 = x" "rt_cache ?s1 = rt_cache s" "rt_nodes ?s1 = rt_nodes s" "rt_sites ?s1 = rt_sites s"
    using shown cache fresh
    by (auto simp: routing_on_click_def routing_render_def routing_site_def keep_previous_def Let_def
          split: option.splits prod.splits)
  have key: "editor_key x b = editor_key x a" using rev by (simp add: editor_key_def)
  show ?thesis
    using s1 cache rev
    by (simp add: routing_loaded_def routing_render_def routing_site_def keep_previous_def key Let_def
          saveRouting_def editor_init_def)
qed

definition demo_routing_page :: routing_page where
  "demo_routing_page = routing_loaded ''site-a'' demo_routing
     \<lparr>rt_selected = ''site-a'', rt_sites = empty_query, rt_nodes = empty_query, rt_cache = Map.empty,
      rt_failed = False, rt_shown = None, rt_editor = None\<rparr>"

definition demo_other :: RoutingPolicyResponse where
  "demo_other = \<lparr>rpr_site_id = ''site-b'', rpr_revision = 1,
     rpr_policy = demo_policy\<lparr>rp_rules := [demo_rule]\<rparr>\<rparr>"

theorem site_switch_keeps_foreign_policy_witness:
  "let s' = routing_loaded ''site-b'' demo_other (routing_on_click (ClickSite ''site-b'') demo_routing_page) in
     rt_shown s' = Some demo_other \<and>
     map_option (\<lambda>(k, e). ed_save (editor_on_click demo_other ClickSave e)) (rt_editor s')
       = Some (MutPending (saveRoutingPolicy ''site-b'' (rpr_revision demo_other) demo_policy))"
proof -
  have page: "rt_shown demo_routing_page = Some demo_routing" "rt_cache demo_routing_page ''site-b'' = None"
      "fst (the (rt_editor demo_routing_page)) \<noteq> editor_key ''site-b'' demo_routing"
    by (simp_all add: demo_routing_page_def routing_loaded_def routing_render_def routing_site_def
          keep_previous_def editor_key_def Let_def)
  show ?thesis
    using site_switch_keeps_foreign_policy [OF page(1,2) _ _ _ page(3), of demo_other]
    by (simp add: demo_other_def demo_routing_def)
qed

end
