(* ===== verification/List_Controls.thy ===== *)
theory List_Controls
  imports Query Ui_Components
begin

text \<open>
  The controls the list pages share: \<^verbatim>\<open>src/frontend/app/access-control/list-controls.tsx\<close> (the debounced
  search text and the pagination bar), and the offset that goes back to the first page when a
  filter changes, which the rules page, the groups page and others keep in the same way.
\<close>

definition ACCESS_PAGE_SIZE :: int where "ACCESS_PAGE_SIZE = 50"

section \<open>Debouncing\<close>

text \<open>The effect sets one timer for the current value and clears the previous one; \<open>db_timer\<close> is its
  deadline.\<close>

record debounce =
  db_value :: string
  db_debounced :: string
  db_timer :: "int option"

definition useDebouncedValue :: "int \<Rightarrow> int \<Rightarrow> string \<Rightarrow> debounce" where
  "useDebouncedValue delay now v = \<lparr>db_value = v, db_debounced = v, db_timer = Some (now + delay)\<rparr>"

definition debounce_change :: "int \<Rightarrow> int \<Rightarrow> string \<Rightarrow> debounce \<Rightarrow> debounce" where
  "debounce_change delay now v s =
     (if v = db_value s then s else s\<lparr>db_value := v, db_timer := Some (now + delay)\<rparr>)"

definition debounce_tick :: "int \<Rightarrow> debounce \<Rightarrow> debounce" where
  "debounce_tick now s =
     (case db_timer s of
        Some deadline \<Rightarrow> if deadline \<le> now then s\<lparr>db_debounced := db_value s, db_timer := None\<rparr> else s
      | None \<Rightarrow> s)"

datatype debounce_event = Typed int string | Ticked int

fun debounce_apply :: "int \<Rightarrow> debounce_event \<Rightarrow> debounce \<Rightarrow> debounce" where
  "debounce_apply delay (Typed now v) s = debounce_change delay now v s"
| "debounce_apply delay (Ticked now) s = debounce_tick now s"

definition debounce_inv :: "int \<Rightarrow> int \<Rightarrow> debounce \<Rightarrow> bool" where
  "debounce_inv delay now s \<longleftrightarrow>
     (case db_timer s of None \<Rightarrow> db_debounced s = db_value s | Some deadline \<Rightarrow> deadline \<le> now + delay)"

fun event_time :: "debounce_event \<Rightarrow> int" where
  "event_time (Typed now v) = now"
| "event_time (Ticked now) = now"

lemma debounce_inv_event:
  "debounce_inv delay now s \<Longrightarrow> now \<le> event_time ev \<Longrightarrow> debounce_inv delay (event_time ev) (debounce_apply delay ev s)"
  by (cases ev)
     (auto simp: debounce_inv_def debounce_change_def debounce_tick_def split: option.splits)

lemma debounce_inv_events:
  "debounce_inv delay now s \<Longrightarrow> sorted (now # map event_time evs) \<Longrightarrow>
     debounce_inv delay (last (now # map event_time evs)) (fold (debounce_apply delay) evs s)"
proof (induction evs arbitrary: now s)
  case (Cons ev evs)
  then have "debounce_inv delay (event_time ev) (debounce_apply delay ev s)"
    by (simp add: debounce_inv_event)
  with Cons show ?case by simp
qed simp

section \<open>Pagination\<close>

definition ListPagination ::
    "translator \<Rightarrow> (int \<Rightarrow> string) \<Rightarrow> int \<Rightarrow> int \<Rightarrow> int \<Rightarrow> bool \<Rightarrow> 'c \<Rightarrow> 'c \<Rightarrow> ('c, 'f) view" where
  "ListPagination t formatNumber offset pageCount totalCount fetching onPrevious onNext =
     (let from = (if totalCount \<noteq> 0 then offset + 1 else 0);
          last_shown = min (offset + pageCount) totalCount
      in Grp ''pagination''
        [Txt (t ''Showing {from}-{to} of {count}''
            [(''from'', show_int from), (''to'', show_int last_shown), (''count'', formatNumber totalCount)]),
         Btn (t ''Previous'' []) (offset = 0 \<or> fetching) onPrevious,
         Btn (t ''Next'' []) (offset + pageCount \<ge> totalCount \<or> fetching) onNext])"

lemma can_click_pagination [simp]:
  "can_click (ListPagination t fmt offset pageCount totalCount fetching prev nxt) c \<longleftrightarrow>
     \<not> fetching \<and> (c = prev \<and> offset \<noteq> 0 \<or> c = nxt \<and> offset + pageCount < totalCount)"
  by (auto simp: ListPagination_def Let_def)

lemma can_edit_pagination [simp]:
  "can_edit (ListPagination t fmt offset pageCount totalCount fetching prev nxt) f x \<longleftrightarrow> False"
  by (auto simp: ListPagination_def Let_def)

text \<open>The page state: the filters it was made for and the offset.  A render with other filters starts
  again at the first page.\<close>

record page_state =
  ps_filterKey :: string
  ps_offset :: int

definition page_render :: "string \<Rightarrow> page_state \<Rightarrow> page_state" where
  "page_render filterKey s =
     (if ps_filterKey s \<noteq> filterKey then \<lparr>ps_filterKey = filterKey, ps_offset = 0\<rparr> else s)"

definition page_previous :: "page_state \<Rightarrow> page_state" where
  "page_previous s = s\<lparr>ps_offset := max 0 (ps_offset s - ACCESS_PAGE_SIZE)\<rparr>"

definition page_next :: "page_state \<Rightarrow> page_state" where
  "page_next s = s\<lparr>ps_offset := ps_offset s + ACCESS_PAGE_SIZE\<rparr>"

definition offset_ok :: "page_state \<Rightarrow> bool" where
  "offset_ok s \<longleftrightarrow> 0 \<le> ps_offset s \<and> ps_offset s mod ACCESS_PAGE_SIZE = 0"

lemma offset_ok_ops [inv_intros]:
  "offset_ok s \<Longrightarrow> offset_ok (page_render k s)"
  "offset_ok s \<Longrightarrow> offset_ok (page_previous s)"
  "offset_ok s \<Longrightarrow> offset_ok (page_next s)"
  by (auto simp: offset_ok_def page_render_def page_previous_def page_next_def ACCESS_PAGE_SIZE_def
        max_def)

text \<open>The server's answer for an offset, as the API documents it: the items from there on, at most a
  page of them.\<close>

definition server_page :: "'a list \<Rightarrow> int \<Rightarrow> 'a ListPage" where
  "server_page xs offset =
     (let items = take (nat ACCESS_PAGE_SIZE) (drop (nat offset) xs)
      in \<lparr>lp_items = items, lp_total = int (length xs), lp_limit = ACCESS_PAGE_SIZE, lp_offset = offset,
          lp_has_more = (offset + int (length items) < int (length xs))\<rparr>)"

text \<open>A user who presses the next button as long as it is enabled.\<close>

function walk_pages :: "'a list \<Rightarrow> page_state \<Rightarrow> 'a list list" where
  "walk_pages xs s =
     (let page = server_page xs (ps_offset s)
      in lp_items page #
         (if ps_offset s \<ge> 0 \<and>
             can_click (ListPagination (\<lambda>k _. k) show_int (lp_offset page) (int (length (lp_items page)))
                (lp_total page) False False True :: (bool, unit) view) True
          then walk_pages xs (page_next s) else []))"
  by pat_completeness auto
termination
  by (relation "measure (\<lambda>(xs, s). nat (int (length xs) - ps_offset s))")
     (auto simp: server_page_def page_next_def ACCESS_PAGE_SIZE_def Let_def)

declare walk_pages.simps [simp del]

lemma walk_pages_concat:
  "0 \<le> ps_offset s \<Longrightarrow> concat (walk_pages xs s) = drop (nat (ps_offset s)) xs"
proof (induction xs s rule: walk_pages.induct)
  case (1 xs s)
  let ?o = "nat (ps_offset s)" and ?items = "take 50 (drop (nat (ps_offset s)) xs)"
  show ?case
  proof (cases "?o + length ?items < length xs")
    case True
    then have full: "length ?items = 50" by (auto simp: min_def split: if_splits)
    from True 1 have "concat (walk_pages xs (page_next s)) = drop (nat (ps_offset (page_next s))) xs"
      by (simp add: server_page_def Let_def ACCESS_PAGE_SIZE_def page_next_def)
    moreover have "nat (ps_offset (page_next s)) = 50 + ?o"
      using "1.prems" by (simp add: page_next_def ACCESS_PAGE_SIZE_def nat_add_distrib)
    ultimately have "concat (walk_pages xs (page_next s)) = drop 50 (drop ?o xs)" by simp
    with True "1.prems" append_take_drop_id [of 50 "drop ?o xs"] show ?thesis
      by (subst walk_pages.simps) (simp add: server_page_def Let_def ACCESS_PAGE_SIZE_def)
  next
    case False
    then have "?items = drop ?o xs" by (auto simp: min_def split: if_splits)
    moreover have "\<not> ps_offset s + int (length ?items) < int (length xs)"
      using False "1.prems" by linarith
    ultimately show ?thesis
      by (subst walk_pages.simps) (simp add: server_page_def Let_def ACCESS_PAGE_SIZE_def)
  qed
qed

section \<open>Properties\<close>

text \<open>The debounced search follows the text: after any typing, once no key was pressed for the
  delay, the next timer tick makes the debounced value the current text; the deadline is never
  further away than the delay, so typing cannot postpone it for longer.\<close>

theorem debounce_settles:
  assumes "sorted (t0 # map event_time evs)" "last (t0 # map event_time evs) + delay \<le> now"
  shows "let s = fold (debounce_apply delay) evs (useDebouncedValue delay t0 v) in
     db_debounced (debounce_tick now s) = db_value s \<and> db_timer (debounce_tick now s) = None"
proof -
  have "debounce_inv delay t0 (useDebouncedValue delay t0 v)"
    by (simp add: debounce_inv_def useDebouncedValue_def)
  from debounce_inv_events [OF this assms(1)] assms(2) show ?thesis
    by (auto simp: debounce_inv_def debounce_tick_def Let_def split: option.splits)
qed

theorem debounce_settles_witness:
  "let s = fold (debounce_apply 300) [Typed 10 ''a'', Typed 200 ''ab''] (useDebouncedValue 300 0 []) in
     db_debounced (debounce_tick 500 s) = db_value s \<and> db_timer (debounce_tick 500 s) = None"
  using debounce_settles [of 0 "[Typed 10 ''a'', Typed 200 ''ab'']" 300 500 "[]"] by simp

text \<open>C40: paging is complete and without repetition: pressing the next button as long as it is
  enabled ends, and the pages shown, one after the other, are exactly the list of the server.\<close>

theorem paging_visits_everything:
  "concat (walk_pages xs \<lparr>ps_filterKey = k, ps_offset = 0\<rparr>) = xs"
  by (simp add: walk_pages_concat)

end
