(* ===== verification/Access_Rules_Page.thy ===== *)
theory Access_Rules_Page
  imports List_Controls Endpoints
begin

text \<open>
  Access rules: \<^verbatim>\<open>src/frontend/app/access-control/rules/page.tsx\<close>.  The results of the three queries are the
  environment of the page; the form of the rule that is open in the dialog is part of its state.
\<close>

record RuleDraft =
  rd_id :: "string option"
  rd_nodeIds :: "string list"
  rd_groupIds :: "string list"
  rd_groupNames :: "string list"
  rd_mode :: AccessMode
  rd_direction :: Direction
  rd_reason :: string

definition modeLabel :: "AccessMode \<Rightarrow> translator \<Rightarrow> string" where
  "modeLabel mode t = t (if mode = AccessAllow then ''Whitelist'' else ''Blacklist'') []"

definition directionLabel :: "Direction \<Rightarrow> translator \<Rightarrow> string" where
  "directionLabel direction t =
     t (if direction = DirDestination then ''Destination group'' else ''source'') []"

section \<open>The rule form\<close>

record rule_form =
  rf_draft :: RuleDraft
  rf_nodeIds :: "string list"
  rf_groupIds :: "string list"
  rf_mode :: AccessMode
  rf_direction :: Direction
  rf_reason :: string
  rf_save :: "(api_call, unit) mutation"

definition rule_form_init :: "RuleDraft \<Rightarrow> rule_form" where
  "rule_form_init d = \<lparr>rf_draft = d, rf_nodeIds = rd_nodeIds d, rf_groupIds = rd_groupIds d,
     rf_mode = rd_mode d, rf_direction = rd_direction d, rf_reason = rd_reason d, rf_save = MutIdle\<rparr>"

definition rule_save_call :: "rule_form \<Rightarrow> api_call" where
  "rule_save_call f =
     (case rd_id (rf_draft f) of
        Some ruleId \<Rightarrow> if ruleId \<noteq> []
          then updateAccessControl ruleId (rf_nodeIds f) (rf_groupIds f) (rf_mode f) (rf_direction f)
                 (trim (rf_reason f)) (Some True)
          else createAccessControl (rf_nodeIds f) (rf_groupIds f) (rf_mode f) (rf_direction f)
                 (trim (rf_reason f)) (Some True)
      | None \<Rightarrow> createAccessControl (rf_nodeIds f) (rf_groupIds f) (rf_mode f) (rf_direction f)
                 (trim (rf_reason f)) (Some True))"

definition rule_complete :: "rule_form \<Rightarrow> bool" where
  "rule_complete f \<longleftrightarrow> rf_groupIds f \<noteq> [] \<and> rf_nodeIds f \<noteq> [] \<and> trim (rf_reason f) \<noteq> []"

definition rule_submit :: "rule_form \<Rightarrow> rule_form" where
  "rule_submit f =
     (if rule_complete f \<and> \<not> mut_pending (rf_save f)
      then f\<lparr>rf_save := MutPending (rule_save_call f)\<rparr> else f)"

definition toggleNode :: "string \<Rightarrow> rule_form \<Rightarrow> rule_form" where
  "toggleNode agentId f = f\<lparr>rf_nodeIds := toggle agentId (rf_nodeIds f)\<rparr>"

definition toggleGroup :: "string \<Rightarrow> rule_form \<Rightarrow> rule_form" where
  "toggleGroup gid f = f\<lparr>rf_groupIds := toggle gid (rf_groupIds f)\<rparr>"

text \<open>The groups offered: those of the query, then the groups of the draft that the query did not
  return, under the names the rule carries.  A position outside the names has no name.\<close>

fun index_of :: "'a \<Rightarrow> 'a list \<Rightarrow> nat" where
  "index_of x [] = 0"
| "index_of x (y # ys) = (if x = y then 0 else Suc (index_of x ys))"

definition groupChoices :: "NetworkGroup list \<Rightarrow> RuleDraft \<Rightarrow> (string \<times> string option) list" where
  "groupChoices groups d =
     map (\<lambda>g. (ng_id g, Some (ng_name g))) groups @
     map (\<lambda>i. (i, (let k = index_of i (rd_groupIds d)
                   in if k < length (rd_groupNames d) then Some (rd_groupNames d ! k) else None)))
       (filter (\<lambda>i. \<not> list_ex (\<lambda>g. ng_id g = i) groups) (rd_groupIds d))"

datatype rules_click =
    ClickNew | ClickEdit AccessControlRule | ClickDelete AccessControlRule | ClickClearSearch
  | ClickPrevious | ClickNext | ClickCloseEditor | ClickToggleNode string | ClickToggleGroup string
  | ClickSubmit | ClickCancel | ClickCloseDelete | ClickConfirmDelete | ClickReload

datatype rules_field =
    FieldSearch | FieldNode | FieldGroup | FieldMode | FieldDirection
  | FieldRuleMode | FieldRuleDirection | FieldReason

definition RuleForm ::
    "translator \<Rightarrow> (int \<Rightarrow> string) \<Rightarrow> NetworkGroup list \<Rightarrow> Node list \<Rightarrow> rule_form
       \<Rightarrow> (rules_click, rules_field) view" where
  "RuleForm t formatNumber groups nodes f =
     Grp ''form''
       [Txt (t ''Access groups'' []),
        Grp ''groups''
          (map (\<lambda>(i, name). Chk (case name of None \<Rightarrow> [] | Some n \<Rightarrow> n) (i \<in> set (rf_groupIds f)) False
                 (ClickToggleGroup i)) (groupChoices groups (rf_draft f))),
        Txt (t ''Select nodes'' []),
        Txt (t ''{count} selected'' [(''count'', formatNumber (int (length (rf_nodeIds f))))]),
        Grp ''nodes''
          (map (\<lambda>n. Chk (node_name n) (node_agent_id n \<in> set (rf_nodeIds f)) False
                 (ClickToggleNode (node_agent_id n))) nodes),
        Txt (t ''Choose one or more nodes. Nothing is selected by default.'' []),
        Sel (t ''Mode'' []) (access_mode_text (rf_mode f))
          [(''deny'', t ''Blacklist'' []), (''allow'', t ''Whitelist'' [])] False FieldRuleMode,
        Sel (t ''Direction'' []) (direction_text (rf_direction f))
          [(''source'', t ''source'' []), (''destination'', t ''Destination group'' [])] False FieldRuleDirection,
        Txt (t ''A whitelist does not change the default allow-all policy. It only exempts traffic that also matches a blacklist.'' []),
        Inp (t ''Reason'' []) (rf_reason f) False FieldReason,
        Btn (t ''Cancel'' []) (mut_pending (rf_save f)) ClickCancel,
        Btn (if mut_pending (rf_save f) then t ''Saving...'' []
             else t (if truthy_str (rd_id (rf_draft f)) then ''Save changes'' else ''Create'') [])
          (\<not> rule_complete f \<or> mut_pending (rf_save f)) ClickSubmit]"

section \<open>The page\<close>

record rules_page =
  ru_editor :: "rule_form option"
  ru_pendingDelete :: "AccessControlRule option"
  ru_search :: string
  ru_deferredSearch :: string
  ru_nodeId :: string
  ru_groupId :: string
  ru_mode :: string
  ru_direction :: string
  ru_pageState :: page_state
  ru_remove :: "(api_call, unit) mutation"
  ru_toasts :: "ToastInput list"

definition rules_filterKey :: "rules_page \<Rightarrow> string" where
  "rules_filterKey s =
     ru_deferredSearch s @ ''|'' @ ru_nodeId s @ ''|'' @ ru_groupId s @ ''|'' @ ru_mode s @ ''|'' @ ru_direction s"

definition rules_render :: "rules_page \<Rightarrow> rules_page" where
  "rules_render s = s\<lparr>ru_pageState := page_render (rules_filterKey s) (ru_pageState s)\<rparr>"

definition mode_of :: "string \<Rightarrow> AccessMode option" where
  "mode_of s = (if s = ''deny'' then Some AccessDeny else if s = ''allow'' then Some AccessAllow else None)"

definition direction_of :: "string \<Rightarrow> Direction option" where
  "direction_of s =
     (if s = ''source'' then Some DirSource else if s = ''destination'' then Some DirDestination else None)"

definition rules_query :: "rules_page \<Rightarrow> api_call" where
  "rules_query s =
     getAccessControl (opt_str (ru_deferredSearch s)) (opt_str (ru_nodeId s)) (opt_str (ru_groupId s))
       (mode_of (ru_mode s)) (direction_of (ru_direction s)) (Some ACCESS_PAGE_SIZE)
       (Some (ps_offset (ru_pageState s)))"

definition openEditor :: "AccessControlRule option \<Rightarrow> rules_page \<Rightarrow> rules_page" where
  "openEditor rule s =
     s\<lparr>ru_editor := Some (rule_form_init
        (case rule of
           Some r \<Rightarrow> \<lparr>rd_id = Some (acr_id r), rd_nodeIds = acr_node_ids r,
              rd_groupIds = acr_network_group_ids r, rd_groupNames = acr_network_group_names r,
              rd_mode = acr_mode r, rd_direction = acr_direction r, rd_reason = acr_reason r\<rparr>
         | None \<Rightarrow> \<lparr>rd_id = None, rd_nodeIds = [], rd_groupIds = [], rd_groupNames = [],
              rd_mode = AccessDeny, rd_direction = DirSource, rd_reason = []\<rparr>))\<rparr>"

definition nodeName :: "Node list \<Rightarrow> string \<Rightarrow> string" where
  "nodeName nodes agentId =
     (case find_first (\<lambda>n. node_agent_id n = agentId) nodes of
        None \<Rightarrow> agentId | Some n \<Rightarrow> or_str (node_name n) agentId)"

definition rule_row ::
    "translator \<Rightarrow> Node list \<Rightarrow> AccessControlRule \<Rightarrow> (rules_click, rules_field) view" where
  "rule_row t nodes r =
     Grp ''tr''
       [Grp ''td'' (concat (map (\<lambda>n. [Txt (nodeName nodes n), Txt n]) (acr_node_ids r))),
        Grp ''td'' (map Txt (acr_network_group_names r)),
        Txt (modeLabel (acr_mode r) t), Txt (directionLabel (acr_direction r) t), Txt (acr_reason r),
        IconButton t (t ''Edit {name}'' [(''name'', join '', '' (acr_network_group_names r))]) False (ClickEdit r),
        IconButton t ''Delete access rule'' False (ClickDelete r)]"

definition rules_filters ::
    "translator \<Rightarrow> Node list \<Rightarrow> NetworkGroup list \<Rightarrow> rules_page \<Rightarrow> (rules_click, rules_field) view" where
  "rules_filters t nodes groups s =
     Grp ''list-filters''
       [FilterSearch t (ru_search s) ''Search access rules'' FieldSearch ClickClearSearch,
        FilterSelect t ''Node'' (ru_nodeId s) FieldNode
          (([], ''All nodes'') # map (\<lambda>n. (node_agent_id n, node_name n)) nodes),
        FilterSelect t ''Access groups'' (ru_groupId s) FieldGroup
          (([], ''All groups'') # map (\<lambda>g. (ng_id g, ng_name g)) groups),
        FilterSelect t ''Mode'' (ru_mode s) FieldMode
          [([], ''All modes''), (''deny'', ''Blacklist''), (''allow'', ''Whitelist'')],
        FilterSelect t ''Direction'' (ru_direction s) FieldDirection
          [([], ''All directions''), (''source'', ''source''), (''destination'', ''Destination group'')]]"

definition AccessRulesPage ::
    "translator \<Rightarrow> (int \<Rightarrow> string) \<Rightarrow> bool option \<Rightarrow> AccessControlRule ListPage query
       \<Rightarrow> NetworkGroup ListPage query \<Rightarrow> Node list query \<Rightarrow> rules_page \<Rightarrow> (rules_click, rules_field) view" where
  "AccessRulesPage t formatNumber session rules groups nodes s =
     (if session = None then LoadingState t 6
      else if session = Some False then SessionGate t
      else if q_loading rules \<or> q_loading nodes then LoadingState t 8
      else if q_isError rules \<or> q_data rules = None
      then ErrorState t (t ''Unable to load access control.'' []) (Some ClickReload)
      else
       (let page = the (q_data rules);
            nodeItems = query_list nodes;
            groupItems = (case q_data groups of None \<Rightarrow> [] | Some g \<Rightarrow> lp_items g);
            filtering = (ru_deferredSearch s \<noteq> [] \<or> ru_nodeId s \<noteq> [] \<or> ru_groupId s \<noteq> [] \<or>
                         ru_mode s \<noteq> [] \<or> ru_direction s \<noteq> [])
        in Grp ''page''
          [Txt (t ''Access rules'' []),
           Btn (t ''New access rule'' []) False ClickNew,
           Txt (t ''{count} access rules'' [(''count'', formatNumber (lp_total page))]),
           rules_filters t nodeItems groupItems s,
           (if lp_items page \<noteq> [] then Grp ''table'' (map (rule_row t nodeItems) (lp_items page))
            else EmptyState t (if filtering then ''No matching access rules'' else ''No access rules'')
              (Some (if filtering then ''No access rules match the current filters.''
                     else ''Bind an access group to one or more nodes.'')) []),
           ListPagination t formatNumber (lp_offset page) (int (length (lp_items page))) (lp_total page)
             (q_fetching rules) ClickPrevious ClickNext,
           DetailDialog t (ru_editor s \<noteq> None)
             (case ru_editor s of
                Some f \<Rightarrow> if truthy_str (rd_id (rf_draft f)) then ''Edit access rule'' else ''New access rule''
              | None \<Rightarrow> ''New access rule'')
             (case ru_editor s of
                Some f \<Rightarrow> if truthy_str (rd_id (rf_draft f))
                  then Some ''Change the selected nodes, mode, direction, or reason. Clearing a node removes this rule from that node.''
                  else None
              | None \<Rightarrow> None) ClickCloseEditor
             (case ru_editor s of None \<Rightarrow> [] | Some f \<Rightarrow> [RuleForm t formatNumber groupItems nodeItems f]),
           ConfirmDialog t (ru_pendingDelete s \<noteq> None) ''Delete access rule''
             ''Delete this access rule? The change is released to the node automatically.''
             ''Delete access rule'' (mut_pending (ru_remove s)) ClickCloseDelete ClickConfirmDelete []]))"

section \<open>Events\<close>

definition on_form :: "(rule_form \<Rightarrow> rule_form) \<Rightarrow> rules_page \<Rightarrow> rules_page" where
  "on_form g s = s\<lparr>ru_editor := map_option g (ru_editor s)\<rparr>"

fun rules_on_click :: "rules_click \<Rightarrow> rules_page \<Rightarrow> rules_page" where
  "rules_on_click ClickNew s = openEditor None s"
| "rules_on_click (ClickEdit r) s = openEditor (Some r) s"
| "rules_on_click (ClickDelete r) s = s\<lparr>ru_pendingDelete := Some r\<rparr>"
| "rules_on_click ClickClearSearch s = s\<lparr>ru_search := []\<rparr>"
| "rules_on_click ClickPrevious s = s\<lparr>ru_pageState := page_previous (ru_pageState s)\<rparr>"
| "rules_on_click ClickNext s = s\<lparr>ru_pageState := page_next (ru_pageState s)\<rparr>"
| "rules_on_click ClickCloseEditor s = s\<lparr>ru_editor := None\<rparr>"
| "rules_on_click (ClickToggleNode n) s = on_form (toggleNode n) s"
| "rules_on_click (ClickToggleGroup g) s = on_form (toggleGroup g) s"
| "rules_on_click ClickSubmit s = on_form rule_submit s"
| "rules_on_click ClickCancel s = s\<lparr>ru_editor := None\<rparr>"
| "rules_on_click ClickCloseDelete s =
     (if \<not> mut_pending (ru_remove s) then s\<lparr>ru_pendingDelete := None\<rparr> else s)"
| "rules_on_click ClickConfirmDelete s =
     (case ru_pendingDelete s of
        None \<Rightarrow> s | Some r \<Rightarrow> s\<lparr>ru_remove := MutPending (deleteAccessControl (acr_id r))\<rparr>)"
| "rules_on_click ClickReload s = s"

fun rules_on_edit :: "rules_field \<Rightarrow> string \<Rightarrow> rules_page \<Rightarrow> rules_page" where
  "rules_on_edit FieldSearch v s = s\<lparr>ru_search := v\<rparr>"
| "rules_on_edit FieldNode v s = rules_render (s\<lparr>ru_nodeId := v\<rparr>)"
| "rules_on_edit FieldGroup v s = rules_render (s\<lparr>ru_groupId := v\<rparr>)"
| "rules_on_edit FieldMode v s = rules_render (s\<lparr>ru_mode := v\<rparr>)"
| "rules_on_edit FieldDirection v s = rules_render (s\<lparr>ru_direction := v\<rparr>)"
| "rules_on_edit FieldRuleMode v s =
     on_form (\<lambda>f. case mode_of v of None \<Rightarrow> f | Some m \<Rightarrow> f\<lparr>rf_mode := m\<rparr>) s"
| "rules_on_edit FieldRuleDirection v s =
     on_form (\<lambda>f. case direction_of v of None \<Rightarrow> f | Some d \<Rightarrow> f\<lparr>rf_direction := d\<rparr>) s"
| "rules_on_edit FieldReason v s = on_form (\<lambda>f. f\<lparr>rf_reason := v\<rparr>) s"

text \<open>Messages: the debounce timer, the end of a save, the end of a deletion.  The success handler of
  a save closes whatever editor is open then.\<close>

datatype rules_message =
    SearchSettled | SaveDone "string option + unit" | RemoveDone "string option + unit"

definition rules_failure :: "translator \<Rightarrow> string option \<Rightarrow> ToastInput" where
  "rules_failure t err =
     \<lparr>toast_title = t ''Operation failed'' [],
      toast_description = Some (t (toastErrorMessage err defaultErrorMessage) []),
      toast_variant = Some VariantDestructive, toast_duration = None\<rparr>"

definition settle_form :: "string option + unit \<Rightarrow> rule_form \<Rightarrow> rule_form" where
  "settle_form r f =
     f\<lparr>rf_save := mut_settle (\<lambda>_ _. ())
        (case r of Inl e \<Rightarrow> Inl (case e of None \<Rightarrow> [] | Some m \<Rightarrow> m) | Inr u \<Rightarrow> Inr u) (rf_save f)\<rparr>"

fun rules_on_message :: "translator \<Rightarrow> rules_message \<Rightarrow> rules_page \<Rightarrow> rules_page" where
  "rules_on_message t SearchSettled s = rules_render (s\<lparr>ru_deferredSearch := trim (ru_search s)\<rparr>)"
| "rules_on_message t (SaveDone r) s =
     (case r of
        Inr _ \<Rightarrow> s\<lparr>ru_editor := None\<rparr>
      | Inl err \<Rightarrow> (on_form (settle_form r) s)\<lparr>ru_toasts := ru_toasts s @ [rules_failure t err]\<rparr>)"
| "rules_on_message t (RemoveDone r) s =
     (case r of
        Inr _ \<Rightarrow> s\<lparr>ru_pendingDelete := None, ru_remove := MutSuccess ()\<rparr>
      | Inl err \<Rightarrow> s\<lparr>ru_remove := MutError (case err of None \<Rightarrow> [] | Some m \<Rightarrow> m),
                     ru_toasts := ru_toasts s @ [rules_failure t err]\<rparr>)"

definition rules_start :: "rules_page \<Rightarrow> bool" where
  "rules_start s \<longleftrightarrow>
     ru_editor s = None \<and> ru_pendingDelete s = None \<and> ru_search s = [] \<and> ru_deferredSearch s = [] \<and>
     ru_nodeId s = [] \<and> ru_groupId s = [] \<and> ru_mode s = [] \<and> ru_direction s = [] \<and>
     ru_pageState s = \<lparr>ps_filterKey = rules_filterKey s, ps_offset = 0\<rparr> \<and> ru_remove s = MutIdle"

section \<open>Invariant\<close>

text \<open>A pending save is complete: it names at least one node and one group, and gives a reason.\<close>

definition save_complete :: "rule_form \<Rightarrow> bool" where
  "save_complete f \<longleftrightarrow>
     (\<forall>c. rf_save f = MutPending c \<longrightarrow>
        (\<exists>ns gs m d r ident. ns \<noteq> [] \<and> gs \<noteq> [] \<and> r \<noteq> [] \<and> trim r = r \<and>
           (c = createAccessControl ns gs m d r (Some True) \<or>
            c = updateAccessControl ident ns gs m d r (Some True))))"

definition rules_inv :: "rules_page \<Rightarrow> bool" where
  "rules_inv s \<longleftrightarrow>
     offset_ok (ru_pageState s) \<and> ps_filterKey (ru_pageState s) = rules_filterKey s \<and>
     (\<forall>f. ru_editor s = Some f \<longrightarrow> save_complete f) \<and>
     (ru_mode s = [] \<or> mode_of (ru_mode s) \<noteq> None) \<and>
     (ru_direction s = [] \<or> direction_of (ru_direction s) \<noteq> None)"

lemma save_complete_submit: "save_complete f \<Longrightarrow> save_complete (rule_submit f)"
  unfolding save_complete_def rule_submit_def rule_complete_def rule_save_call_def
  by (auto split: option.splits) (metis trim_trim)+

lemma save_complete_frame [inv_intros]:
  "save_complete f \<Longrightarrow> save_complete (toggleNode n f)"
  "save_complete f \<Longrightarrow> save_complete (toggleGroup g f)"
  "save_complete f \<Longrightarrow> save_complete (f\<lparr>rf_mode := m\<rparr>)"
  "save_complete f \<Longrightarrow> save_complete (f\<lparr>rf_direction := d\<rparr>)"
  "save_complete f \<Longrightarrow> save_complete (f\<lparr>rf_reason := r\<rparr>)"
  "save_complete (rule_form_init dr)"
  by (simp_all add: save_complete_def toggleNode_def toggleGroup_def rule_form_init_def)

lemma save_complete_settle [inv_intros]: "save_complete f \<Longrightarrow> save_complete (settle_form r f)"
  by (auto simp: save_complete_def settle_form_def mut_settle_def split: mutation.splits sum.splits)

lemma filterKey_frame [simp]:
  "rules_filterKey (s\<lparr>ru_editor := e\<rparr>) = rules_filterKey s"
  "rules_filterKey (s\<lparr>ru_pendingDelete := p\<rparr>) = rules_filterKey s"
  "rules_filterKey (s\<lparr>ru_search := q\<rparr>) = rules_filterKey s"
  "rules_filterKey (s\<lparr>ru_pageState := ps\<rparr>) = rules_filterKey s"
  "rules_filterKey (s\<lparr>ru_remove := m\<rparr>) = rules_filterKey s"
  "rules_filterKey (s\<lparr>ru_toasts := ts\<rparr>) = rules_filterKey s"
  by (simp_all add: rules_filterKey_def)

lemma page_key_frame [simp]:
  "ps_filterKey (page_previous ps) = ps_filterKey ps" "ps_filterKey (page_next ps) = ps_filterKey ps"
  "ps_filterKey (page_render k ps) = k"
  by (simp_all add: page_previous_def page_next_def page_render_def)

lemma rules_inv_form:
  "rules_inv s \<Longrightarrow> (\<And>f. save_complete f \<Longrightarrow> save_complete (g f)) \<Longrightarrow> rules_inv (on_form g s)"
  by (auto simp: rules_inv_def on_form_def)

lemma rules_inv_render:
  "offset_ok (ru_pageState s) \<Longrightarrow> (\<forall>f. ru_editor s = Some f \<longrightarrow> save_complete f) \<Longrightarrow>
   (ru_mode s = [] \<or> mode_of (ru_mode s) \<noteq> None) \<Longrightarrow>
   (ru_direction s = [] \<or> direction_of (ru_direction s) \<noteq> None) \<Longrightarrow> rules_inv (rules_render s)"
  by (auto simp: rules_inv_def rules_render_def intro: inv_intros)

lemma rules_inv_update:
  "rules_inv s \<Longrightarrow> rules_inv (s\<lparr>ru_editor := None\<rparr>)"
  "rules_inv s \<Longrightarrow> rules_inv (s\<lparr>ru_pendingDelete := p\<rparr>)"
  "rules_inv s \<Longrightarrow> rules_inv (s\<lparr>ru_search := q\<rparr>)"
  "rules_inv s \<Longrightarrow> rules_inv (s\<lparr>ru_remove := m\<rparr>)"
  "rules_inv s \<Longrightarrow> rules_inv (s\<lparr>ru_toasts := ts\<rparr>)"
  "rules_inv s \<Longrightarrow> rules_inv (s\<lparr>ru_pageState := page_previous (ru_pageState s)\<rparr>)"
  "rules_inv s \<Longrightarrow> rules_inv (s\<lparr>ru_pageState := page_next (ru_pageState s)\<rparr>)"
  "rules_inv s \<Longrightarrow> rules_inv (openEditor r s)"
  by (auto simp: rules_inv_def openEditor_def intro: inv_intros)

lemma rules_inv_click: "rules_inv s \<Longrightarrow> rules_inv (rules_on_click c s)"
  by (cases c)
     (auto intro: rules_inv_update rules_inv_form inv_intros save_complete_submit split: option.splits)

lemma can_edit_rules_parts [simp]:
  "can_edit (rule_row t nodes r) f v = False"
  by (auto simp: rule_row_def list_ex_iff)

lemma can_edit_rule_form:
  "can_edit (RuleForm t fmt groups nodes g) f v \<Longrightarrow> f \<in> {FieldRuleMode, FieldRuleDirection, FieldReason}"
  by (auto simp: RuleForm_def)

lemma can_edit_rules_filters:
  "can_edit (rules_filters t nodes groups s) FieldMode v \<Longrightarrow> v = [] \<or> mode_of v \<noteq> None"
  "can_edit (rules_filters t nodes groups s) FieldDirection v \<Longrightarrow> v = [] \<or> direction_of v \<noteq> None"
  by (auto simp: rules_filters_def mode_of_def direction_of_def)

lemma can_edit_rules_page:
  "can_edit (AccessRulesPage t fmt session rules groups nodes s) f v \<Longrightarrow>
     f \<in> {FieldRuleMode, FieldRuleDirection, FieldReason} \<or> (\<exists>ns gs. can_edit (rules_filters t ns gs s) f v)"
  by (auto simp: AccessRulesPage_def Let_def split: if_splits option.splits dest: can_edit_rule_form)

lemma rules_inv_edit:
  assumes inv: "rules_inv s" and can: "can_edit (AccessRulesPage t fmt session rules groups nodes s) f v"
  shows "rules_inv (rules_on_edit f v s)"
proof -
  have select: "f = FieldMode \<Longrightarrow> v = [] \<or> mode_of v \<noteq> None"
      "f = FieldDirection \<Longrightarrow> v = [] \<or> direction_of v \<noteq> None"
    using can_edit_rules_page [OF can] can_edit_rules_filters by blast+
  show ?thesis
    using inv select
    by (cases f)
       (auto simp: rules_inv_def rules_render_def on_form_def intro: inv_intros split: option.splits)
qed

lemma rules_inv_message: "rules_inv s \<Longrightarrow> rules_inv (rules_on_message t m s)"
  by (cases m)
     (auto simp: rules_inv_def rules_render_def on_form_def intro: inv_intros split: sum.splits)

interpretation ar: component rules_start
    "\<lambda>(t, fmt, session, rules, groups, nodes). AccessRulesPage t fmt session rules groups nodes"
    rules_on_click rules_on_edit "rules_on_message t" rules_inv
proof unfold_locales
  show "rules_start s \<Longrightarrow> rules_inv s" for s
    by (simp add: rules_start_def rules_inv_def offset_ok_def)
qed (auto simp: rules_inv_click rules_inv_message intro: rules_inv_edit)

section \<open>Properties\<close>

text \<open>C24: in every state of the access rules page that a user can reach, the offset is a multiple of
  the page size and belongs to the filters in force, and a save that is under way names at least one
  node, at least one group and a trimmed reason that is not empty.\<close>

theorem access_rules_page_safe:
  assumes "ar.reachable t s"
  shows "0 \<le> ps_offset (ru_pageState s) \<and> ps_offset (ru_pageState s) mod ACCESS_PAGE_SIZE = 0 \<and>
     ps_filterKey (ru_pageState s) = rules_filterKey s \<and>
     (\<forall>f c. ru_editor s = Some f \<longrightarrow> rf_save f = MutPending c \<longrightarrow>
        (\<exists>ns gs m d r ident. ns \<noteq> [] \<and> gs \<noteq> [] \<and> r \<noteq> [] \<and> trim r = r \<and>
           (c = createAccessControl ns gs m d r (Some True) \<or>
            c = updateAccessControl ident ns gs m d r (Some True))))"
  using ar.reachable_inv [OF assms] by (simp add: rules_inv_def offset_ok_def save_complete_def)

definition demo_rules :: rules_page where
  "demo_rules = \<lparr>ru_editor = None, ru_pendingDelete = None, ru_search = [], ru_deferredSearch = [],
     ru_nodeId = [], ru_groupId = [], ru_mode = [], ru_direction = [],
     ru_pageState = \<lparr>ps_filterKey = ''||||'', ps_offset = 0\<rparr>, ru_remove = MutIdle, ru_toasts = []\<rparr>"

lemma demo_rules_start: "rules_start demo_rules"
  by (simp add: rules_start_def demo_rules_def rules_filterKey_def)

theorem access_rules_page_safe_witness:
  "ps_offset (ru_pageState demo_rules) mod ACCESS_PAGE_SIZE = 0"
  using access_rules_page_safe [OF ar.reach_start [OF demo_rules_start]] by blast

text \<open>Changing one filter goes back to the first page: whichever single filter takes another value,
  the next query asks for offset zero.\<close>

theorem filter_change_resets_offset:
  assumes "rules_inv s"
    and "s' \<in> {s\<lparr>ru_nodeId := v\<rparr>, s\<lparr>ru_groupId := v\<rparr>, s\<lparr>ru_mode := v\<rparr>, s\<lparr>ru_direction := v\<rparr>,
               s\<lparr>ru_deferredSearch := v\<rparr>}"
    and "(ru_nodeId s', ru_groupId s', ru_mode s', ru_direction s', ru_deferredSearch s')
          \<noteq> (ru_nodeId s, ru_groupId s, ru_mode s, ru_direction s, ru_deferredSearch s)"
  shows "ps_offset (ru_pageState (rules_render s')) = 0"
proof -
  have "rules_filterKey s' \<noteq> rules_filterKey s" using assms(2,3) by (auto simp: rules_filterKey_def)
  moreover have "ru_pageState s' = ru_pageState s" using assms(2) by auto
  ultimately show ?thesis using assms(1)
    by (simp add: rules_render_def page_render_def rules_inv_def)
qed

theorem filter_change_resets_offset_witness:
  "ps_offset (ru_pageState (rules_render (demo_rules\<lparr>ru_mode := ''deny''\<rparr>))) = 0"
proof (rule filter_change_resets_offset)
  show "rules_inv demo_rules" by (rule ar.inv_start [OF demo_rules_start])
  show "demo_rules\<lparr>ru_mode := ''deny''\<rparr> \<in> {demo_rules\<lparr>ru_nodeId := ''deny''\<rparr>, demo_rules\<lparr>ru_groupId := ''deny''\<rparr>,
      demo_rules\<lparr>ru_mode := ''deny''\<rparr>, demo_rules\<lparr>ru_direction := ''deny''\<rparr>, demo_rules\<lparr>ru_deferredSearch := ''deny''\<rparr>}"
    by simp
qed (simp add: demo_rules_def)

text \<open>The success of a save closes whatever editor is open at that moment: a rule opened after the
  dialog of the saved rule was closed loses its edits.\<close>

theorem late_save_closes_other_editor:
  "ru_editor (rules_on_message t (SaveDone (Inr ())) (rules_on_click (ClickEdit other)
     (rules_on_click ClickCloseEditor (rules_on_click ClickSubmit s)))) = None \<and>
   ru_editor (rules_on_click (ClickEdit other) (rules_on_click ClickCloseEditor (rules_on_click ClickSubmit s))) \<noteq> None"
  by (simp add: openEditor_def)

text \<open>Saving an edited rule always enables it: the request of an unchanged form of a disabled rule
  is the request that enables the rule.\<close>

theorem editing_enables_rule:
  assumes "acr_id r \<noteq> []" "ru_editor (openEditor (Some r) s) = Some f"
  shows "rule_save_call f = updateAccessControl (acr_id r) (acr_node_ids r) (acr_network_group_ids r)
     (acr_mode r) (acr_direction r) (trim (acr_reason r)) (Some True)"
  using assms by (auto simp: openEditor_def rule_form_init_def rule_save_call_def)

definition demo_rule :: AccessControlRule where
  "demo_rule = \<lparr>acr_id = ''r1'', acr_node_ids = [''n1''], acr_network_group_ids = [''g1''],
     acr_network_group_names = [''G''], acr_mode = AccessDeny, acr_direction = DirSource,
     acr_reason = ''abuse'', acr_enabled = False, acr_created_by = [], acr_created_at = [], acr_updated_at = []\<rparr>"

theorem editing_enables_rule_witness:
  "\<not> acr_enabled demo_rule \<and>
   rule_save_call (the (ru_editor (openEditor (Some demo_rule) demo_rules)))
     = updateAccessControl ''r1'' [''n1''] [''g1''] AccessDeny DirSource (trim ''abuse'') (Some True)"
  using editing_enables_rule [of demo_rule demo_rules "the (ru_editor (openEditor (Some demo_rule) demo_rules))"]
  by (simp add: demo_rule_def openEditor_def)

end
