(* ===== verification/Access_Groups_Page.thy ===== *)
theory Access_Groups_Page
  imports List_Controls Endpoints
begin

text \<open>
  Access groups: \<^verbatim>\<open>src/frontend/app/access-control/groups/page.tsx\<close>.  The module counter that names the rows
  of the form is part of the page state.
\<close>

record DraftEntry =
  de_key :: string
  de_kind :: EntryKind
  de_pattern :: string

definition row_key :: "nat \<Rightarrow> string" where
  "row_key n = ''entry-'' @ show_nat n"

definition nextEntryKey :: "nat \<Rightarrow> string \<times> nat" where
  "nextEntryKey entryKey = (row_key (entryKey + 1), entryKey + 1)"

fun key_entries :: "NetworkGroupEntry list \<Rightarrow> nat \<Rightarrow> DraftEntry list \<times> nat" where
  "key_entries [] n = ([], n)"
| "key_entries (e # es) n =
     (let (k, n') = nextEntryKey n; (ds, n'') = key_entries es n'
      in (\<lparr>de_key = k, de_kind = nge_kind e, de_pattern = nge_pattern e\<rparr> # ds, n''))"

definition draftEntries :: "NetworkGroup option \<Rightarrow> nat \<Rightarrow> DraftEntry list \<times> nat" where
  "draftEntries groupOpt n =
     (let source = (case groupOpt of
                      Some g \<Rightarrow> if ng_entries g \<noteq> [] then ng_entries g
                               else [\<lparr>nge_kind = EntryDomain, nge_pattern = []\<rparr>]
                    | None \<Rightarrow> [\<lparr>nge_kind = EntryDomain, nge_pattern = []\<rparr>])
      in key_entries source n)"

definition kindLabel :: "EntryKind \<Rightarrow> translator \<Rightarrow> string" where
  "kindLabel kind t =
     (if kind = EntryIp then t ''IP'' [] else if kind = EntryCidr then t ''CIDR'' [] else t ''domain'' [])"

definition entry_kind_of :: "string \<Rightarrow> EntryKind option" where
  "entry_kind_of s =
     (if s = ''domain'' then Some EntryDomain else if s = ''ip'' then Some EntryIp
      else if s = ''cidr'' then Some EntryCidr else None)"

section \<open>The group form\<close>

record group_form =
  gf_group :: "NetworkGroup option"
  gf_name :: string
  gf_entries :: "DraftEntry list"
  gf_save :: "(api_call, unit) mutation"

definition group_form_init :: "NetworkGroup option \<Rightarrow> nat \<Rightarrow> group_form \<times> nat" where
  "group_form_init g n =
     (let (entries, n') = draftEntries g n
      in (\<lparr>gf_group = g, gf_name = (case g of None \<Rightarrow> [] | Some x \<Rightarrow> ng_name x), gf_entries = entries,
           gf_save = MutIdle\<rparr>, n'))"

definition group_payload_entries :: "group_form \<Rightarrow> NetworkGroupEntry list" where
  "group_payload_entries f =
     map (\<lambda>e. \<lparr>nge_kind = de_kind e, nge_pattern = trim (de_pattern e)\<rparr>) (gf_entries f)"

definition group_save_call :: "group_form \<Rightarrow> api_call" where
  "group_save_call f =
     (case gf_group f of
        Some g \<Rightarrow> updateNetworkGroup (ng_id g) (trim (gf_name f)) (group_payload_entries f)
      | None \<Rightarrow> createNetworkGroup (trim (gf_name f)) (group_payload_entries f))"

definition group_complete :: "group_form \<Rightarrow> bool" where
  "group_complete f \<longleftrightarrow>
     length (trim (gf_name f)) > 0 \<and> length (gf_entries f) > 0 \<and>
     list_all (\<lambda>e. trim (de_pattern e) \<noteq> []) (gf_entries f)"

definition group_submit :: "group_form \<Rightarrow> group_form" where
  "group_submit f =
     (if group_complete f \<and> \<not> mut_pending (gf_save f)
      then f\<lparr>gf_save := MutPending (group_save_call f)\<rparr> else f)"

definition set_entry_kind :: "string \<Rightarrow> EntryKind \<Rightarrow> group_form \<Rightarrow> group_form" where
  "set_entry_kind key kind f =
     f\<lparr>gf_entries := map (\<lambda>item. if de_key item = key then item\<lparr>de_kind := kind\<rparr> else item) (gf_entries f)\<rparr>"

definition set_entry_pattern :: "string \<Rightarrow> string \<Rightarrow> group_form \<Rightarrow> group_form" where
  "set_entry_pattern key pattern f =
     f\<lparr>gf_entries := map (\<lambda>item. if de_key item = key then item\<lparr>de_pattern := pattern\<rparr> else item) (gf_entries f)\<rparr>"

definition remove_entry :: "string \<Rightarrow> group_form \<Rightarrow> group_form" where
  "remove_entry key f = f\<lparr>gf_entries := filter (\<lambda>item. de_key item \<noteq> key) (gf_entries f)\<rparr>"

definition add_entry :: "nat \<Rightarrow> group_form \<Rightarrow> group_form \<times> nat" where
  "add_entry n f =
     (let (k, n') = nextEntryKey n
      in (f\<lparr>gf_entries := gf_entries f @ [\<lparr>de_key = k, de_kind = EntryDomain, de_pattern = []\<rparr>]\<rparr>, n'))"

datatype groups_click =
    ClickNewGroup | ClickEditGroup NetworkGroup | ClickDeleteGroup NetworkGroup | ClickClearSearch
  | ClickPrevious | ClickNext | ClickCloseEditor | ClickRemoveEntry string | ClickAddEntry
  | ClickSubmit | ClickCancel | ClickCloseDelete | ClickConfirmDelete | ClickReload

datatype groups_field = FieldSearch | FieldKind | FieldName | FieldEntryKind string | FieldEntryPattern string

definition GroupForm :: "translator \<Rightarrow> group_form \<Rightarrow> (groups_click, groups_field) view" where
  "GroupForm t f =
     Grp ''form''
       [Inp (t ''Name'' []) (gf_name f) False FieldName,
        Txt (t ''Network entries'' []),
        Grp ''entries''
          (map (\<lambda>e. Grp (de_key e)
             [Sel (t ''Entry type'' []) (entry_kind_text (de_kind e))
                [(''domain'', t ''domain'' []), (''ip'', t ''IP'' []), (''cidr'', t ''CIDR'' [])] False
                (FieldEntryKind (de_key e)),
              Inp (t ''Entry value'' []) (de_pattern e) False (FieldEntryPattern (de_key e)),
              IconButton t ''Remove entry'' False (ClickRemoveEntry (de_key e))]) (gf_entries f)),
        Btn (t ''Add entry'' []) False ClickAddEntry,
        Btn (t ''Cancel'' []) (mut_pending (gf_save f)) ClickCancel,
        Btn (if mut_pending (gf_save f) then t ''Saving...'' []
             else t (if gf_group f \<noteq> None then ''Save changes'' else ''Create'') [])
          (\<not> group_complete f \<or> mut_pending (gf_save f)) ClickSubmit]"

section \<open>The page\<close>

record groups_page =
  gp_entryKey :: nat
  gp_editor :: "group_form option"
  gp_pendingDelete :: "NetworkGroup option"
  gp_search :: string
  gp_deferredSearch :: string
  gp_kind :: string
  gp_pageState :: page_state
  gp_remove :: "(api_call, unit) mutation"
  gp_toasts :: "ToastInput list"

definition groups_filterKey :: "groups_page \<Rightarrow> string" where
  "groups_filterKey s = gp_deferredSearch s @ ''|'' @ gp_kind s"

definition groups_render :: "groups_page \<Rightarrow> groups_page" where
  "groups_render s = s\<lparr>gp_pageState := page_render (groups_filterKey s) (gp_pageState s)\<rparr>"

definition groups_query :: "groups_page \<Rightarrow> api_call" where
  "groups_query s =
     getNetworkGroups (opt_str (gp_deferredSearch s)) (entry_kind_of (gp_kind s))
       (Some ACCESS_PAGE_SIZE) (Some (ps_offset (gp_pageState s)))"

definition open_group :: "NetworkGroup option \<Rightarrow> groups_page \<Rightarrow> groups_page" where
  "open_group g s =
     (let (f, n) = group_form_init g (gp_entryKey s) in s\<lparr>gp_editor := Some f, gp_entryKey := n\<rparr>)"

definition group_row ::
    "translator \<Rightarrow> (string \<Rightarrow> string) \<Rightarrow> NetworkGroup \<Rightarrow> (groups_click, groups_field) view" where
  "group_row t formatDate g =
     Grp ''tr''
       [Txt (ng_name g), Txt (ng_id g),
        Grp ''td'' (map (\<lambda>e. Txt (kindLabel (nge_kind e) t @ '' '' @ nge_pattern e)) (ng_entries g)),
        Txt (formatDate (ng_updated_at g)),
        IconButton t (t ''Edit {name}'' [(''name'', ng_name g)]) False (ClickEditGroup g),
        IconButton t (t ''Delete network group'' []) False (ClickDeleteGroup g)]"

definition AccessGroupsPage ::
    "translator \<Rightarrow> (int \<Rightarrow> string) \<Rightarrow> (string \<Rightarrow> string) \<Rightarrow> bool option \<Rightarrow> NetworkGroup ListPage query
       \<Rightarrow> groups_page \<Rightarrow> (groups_click, groups_field) view" where
  "AccessGroupsPage t formatNumber formatDate session groups s =
     (if session = None then LoadingState t 6
      else if session = Some False then SessionGate t
      else if q_loading groups then LoadingState t 8
      else if q_isError groups \<or> q_data groups = None
      then ErrorState t (t ''Unable to load access control.'' []) (Some ClickReload)
      else
       (let page = the (q_data groups);
            filtering = (gp_deferredSearch s \<noteq> [] \<or> gp_kind s \<noteq> [])
        in Grp ''page''
          [Txt (t ''Access groups'' []),
           Btn (t ''New access group'' []) False ClickNewGroup,
           Txt (t ''{count} access groups'' [(''count'', formatNumber (lp_total page))]),
           FilterSearch t (gp_search s) ''Search access groups'' FieldSearch ClickClearSearch,
           FilterSelect t ''Entry type'' (gp_kind s) FieldKind
             [([], ''All types''), (''domain'', ''domain''), (''ip'', ''IP''), (''cidr'', ''CIDR'')],
           (if lp_items page \<noteq> [] then Grp ''table'' (map (group_row t formatDate) (lp_items page))
            else EmptyState t (if filtering then ''No matching access groups'' else ''No access groups'')
              (Some (if filtering then ''No access groups match the current filters.''
                     else ''Create a named collection of IP, CIDR, and domain values.'')) []),
           ListPagination t formatNumber (lp_offset page) (int (length (lp_items page))) (lp_total page)
             (q_fetching groups) ClickPrevious ClickNext,
           DetailDialog t (gp_editor s \<noteq> None)
             (case gp_editor s of
                Some f \<Rightarrow> if gf_group f \<noteq> None then ''Edit access group'' else ''New access group''
              | None \<Rightarrow> ''New access group'')
             (case gp_editor s of
                Some f \<Rightarrow> if gf_group f \<noteq> None then Some ''Change the access group name and its network entries.''
                         else None
              | None \<Rightarrow> None) ClickCloseEditor
             (case gp_editor s of None \<Rightarrow> [] | Some f \<Rightarrow> [GroupForm t f]),
           ConfirmDialog t (gp_pendingDelete s \<noteq> None) ''Delete network group''
             (case gp_pendingDelete s of
                None \<Rightarrow> []
              | Some g \<Rightarrow> t ''Delete access group {name}? Rules that still use it must be removed first.''
                           [(''name'', ng_name g)])
             ''Delete network group'' (mut_pending (gp_remove s)) ClickCloseDelete ClickConfirmDelete []]))"

section \<open>Events\<close>

definition on_group_form :: "(group_form \<Rightarrow> group_form) \<Rightarrow> groups_page \<Rightarrow> groups_page" where
  "on_group_form h s = s\<lparr>gp_editor := map_option h (gp_editor s)\<rparr>"

fun groups_on_click :: "groups_click \<Rightarrow> groups_page \<Rightarrow> groups_page" where
  "groups_on_click ClickNewGroup s = open_group None s"
| "groups_on_click (ClickEditGroup g) s = open_group (Some g) s"
| "groups_on_click (ClickDeleteGroup g) s = s\<lparr>gp_pendingDelete := Some g\<rparr>"
| "groups_on_click ClickClearSearch s = s\<lparr>gp_search := []\<rparr>"
| "groups_on_click ClickPrevious s = s\<lparr>gp_pageState := page_previous (gp_pageState s)\<rparr>"
| "groups_on_click ClickNext s = s\<lparr>gp_pageState := page_next (gp_pageState s)\<rparr>"
| "groups_on_click ClickCloseEditor s = s\<lparr>gp_editor := None\<rparr>"
| "groups_on_click (ClickRemoveEntry k) s = on_group_form (remove_entry k) s"
| "groups_on_click ClickAddEntry s =
     (case gp_editor s of
        None \<Rightarrow> s
      | Some f \<Rightarrow> (let (f', n) = add_entry (gp_entryKey s) f in s\<lparr>gp_editor := Some f', gp_entryKey := n\<rparr>))"
| "groups_on_click ClickSubmit s = on_group_form group_submit s"
| "groups_on_click ClickCancel s = s\<lparr>gp_editor := None\<rparr>"
| "groups_on_click ClickCloseDelete s =
     (if \<not> mut_pending (gp_remove s) then s\<lparr>gp_pendingDelete := None\<rparr> else s)"
| "groups_on_click ClickConfirmDelete s =
     (case gp_pendingDelete s of
        None \<Rightarrow> s | Some g \<Rightarrow> s\<lparr>gp_remove := MutPending (deleteNetworkGroup (ng_id g))\<rparr>)"
| "groups_on_click ClickReload s = s"

fun groups_on_edit :: "groups_field \<Rightarrow> string \<Rightarrow> groups_page \<Rightarrow> groups_page" where
  "groups_on_edit FieldSearch v s = s\<lparr>gp_search := v\<rparr>"
| "groups_on_edit FieldKind v s = groups_render (s\<lparr>gp_kind := v\<rparr>)"
| "groups_on_edit FieldName v s = on_group_form (\<lambda>f. f\<lparr>gf_name := v\<rparr>) s"
| "groups_on_edit (FieldEntryKind k) v s =
     on_group_form (\<lambda>f. case entry_kind_of v of None \<Rightarrow> f | Some kind \<Rightarrow> set_entry_kind k kind f) s"
| "groups_on_edit (FieldEntryPattern k) v s = on_group_form (set_entry_pattern k v) s"

datatype groups_message =
    SearchSettled | SaveDone "string option + unit" | RemoveDone "string option + unit"

definition groups_failure :: "translator \<Rightarrow> string option \<Rightarrow> ToastInput" where
  "groups_failure t err =
     \<lparr>toast_title = t ''Operation failed'' [],
      toast_description = Some (t (toastErrorMessage err defaultErrorMessage) []),
      toast_variant = Some VariantDestructive, toast_duration = None\<rparr>"

fun groups_on_message :: "translator \<Rightarrow> groups_message \<Rightarrow> groups_page \<Rightarrow> groups_page" where
  "groups_on_message t SearchSettled s = groups_render (s\<lparr>gp_deferredSearch := trim (gp_search s)\<rparr>)"
| "groups_on_message t (SaveDone r) s =
     (case r of
        Inr _ \<Rightarrow> s\<lparr>gp_editor := None\<rparr>
      | Inl err \<Rightarrow>
          (on_group_form (\<lambda>f. f\<lparr>gf_save := mut_settle (\<lambda>_ _. ())
              (Inl (case err of None \<Rightarrow> [] | Some m \<Rightarrow> m) :: string + unit) (gf_save f)\<rparr>) s)
            \<lparr>gp_toasts := gp_toasts s @ [groups_failure t err]\<rparr>)"
| "groups_on_message t (RemoveDone r) s =
     (case r of
        Inr _ \<Rightarrow> s\<lparr>gp_pendingDelete := None, gp_remove := MutSuccess ()\<rparr>
      | Inl err \<Rightarrow> s\<lparr>gp_remove := MutError (case err of None \<Rightarrow> [] | Some m \<Rightarrow> m),
                     gp_toasts := gp_toasts s @ [groups_failure t err]\<rparr>)"

definition groups_start :: "groups_page \<Rightarrow> bool" where
  "groups_start s \<longleftrightarrow>
     gp_editor s = None \<and> gp_pendingDelete s = None \<and> gp_search s = [] \<and> gp_deferredSearch s = [] \<and>
     gp_kind s = [] \<and> gp_pageState s = \<lparr>ps_filterKey = groups_filterKey s, ps_offset = 0\<rparr> \<and>
     gp_remove s = MutIdle"

section \<open>Invariant\<close>

text \<open>The keys of the rows are distinct and come from counts that were already handed out.\<close>

definition key_used :: "nat \<Rightarrow> string \<Rightarrow> bool" where
  "key_used n k \<longleftrightarrow> (\<exists>m \<le> n. k = row_key m)"

definition keys_ok :: "nat \<Rightarrow> group_form \<Rightarrow> bool" where
  "keys_ok n f \<longleftrightarrow> distinct (map de_key (gf_entries f)) \<and> list_all (\<lambda>e. key_used n (de_key e)) (gf_entries f)"

lemma row_key_inject [simp]: "row_key m = row_key n \<longleftrightarrow> m = n"
  by (simp add: row_key_def)

lemma key_used_mono: "key_used n k \<Longrightarrow> n \<le> m \<Longrightarrow> key_used m k"
  by (auto simp: key_used_def intro: le_trans)

lemma key_used_new: "\<not> key_used n (row_key (Suc n))"
  by (auto simp: key_used_def)

lemma key_entries_ok:
  "key_entries es n = (ds, n') \<Longrightarrow>
     n' = n + length es \<and> distinct (map de_key ds) \<and> list_all (\<lambda>e. key_used n' (de_key e) \<and> \<not> key_used n (de_key e)) ds"
proof (induction es arbitrary: n ds n')
  case (Cons e es)
  obtain ds' n'' where step: "key_entries es (Suc n) = (ds', n'')" by fastforce
  with Cons.prems have ds: "ds = \<lparr>de_key = row_key (Suc n), de_kind = nge_kind e,
      de_pattern = nge_pattern e\<rparr> # ds'" "n'' = n'"
    by (auto simp: nextEntryKey_def)
  note ih = Cons.IH [OF step]
  have "key_used (Suc n) (row_key (Suc n))" by (auto simp: key_used_def)
  with ih ds have "row_key (Suc n) \<notin> de_key ` set ds'"
    by (auto simp: list_all_iff)
  moreover have "key_used n' (row_key (Suc n))"
    using ih ds by (auto simp: key_used_def)
  moreover have "\<not> key_used n (de_key e')" if "e' \<in> set ds'" for e'
    using that ih key_used_mono [of n "de_key e'" "Suc n"] by (auto simp: list_all_iff)
  ultimately show ?case using ih ds key_used_new [of n] by (auto simp: list_all_iff)
qed simp

definition groups_inv :: "groups_page \<Rightarrow> bool" where
  "groups_inv s \<longleftrightarrow>
     offset_ok (gp_pageState s) \<and> ps_filterKey (gp_pageState s) = groups_filterKey s \<and>
     (\<forall>f. gp_editor s = Some f \<longrightarrow> keys_ok (gp_entryKey s) f)"

lemma keys_ok_init: "group_form_init g n = (f, n') \<Longrightarrow> keys_ok n' f"
proof -
  assume "group_form_init g n = (f, n')"
  then have "\<exists>es. key_entries es n = (gf_entries f, n')"
    by (auto simp: group_form_init_def draftEntries_def Let_def simp del: key_entries.simps split: prod.splits)
  then show ?thesis using key_entries_ok by (fastforce simp: keys_ok_def list_all_iff)
qed

lemma keys_map [simp]:
  "map de_key (map (\<lambda>item. if de_key item = k then item\<lparr>de_kind := x\<rparr> else item) es) = map de_key es"
  "map de_key (map (\<lambda>item. if de_key item = k then item\<lparr>de_pattern := y\<rparr> else item) es) = map de_key es"
  by (induction es) auto

lemma list_all_keys: "list_all (\<lambda>e. P (de_key e)) es \<longleftrightarrow> list_all P (map de_key es)"
  by (simp add: list_all_iff)

lemma keys_ok_edits [inv_intros]:
  "keys_ok n f \<Longrightarrow> keys_ok n (set_entry_kind k x f)"
  "keys_ok n f \<Longrightarrow> keys_ok n (set_entry_pattern k y f)"
  "keys_ok n f \<Longrightarrow> keys_ok n (remove_entry k f)"
  "keys_ok n f \<Longrightarrow> keys_ok n (f\<lparr>gf_name := v\<rparr>)"
  "keys_ok n f \<Longrightarrow> keys_ok n (f\<lparr>gf_save := m\<rparr>)"
  "keys_ok n f \<Longrightarrow> keys_ok n (group_submit f)"
  by (auto simp: keys_ok_def set_entry_kind_def set_entry_pattern_def remove_entry_def
        group_submit_def list_all_keys [where P = "key_used n"] distinct_map_filter simp del: map_map)
     (auto simp: list_all_iff)

lemma keys_ok_add: "keys_ok n f \<Longrightarrow> add_entry n f = (f', n') \<Longrightarrow> keys_ok n' f'"
proof -
  assume ok: "keys_ok n f" and add: "add_entry n f = (f', n')"
  have f': "gf_entries f' = gf_entries f @ [\<lparr>de_key = row_key (Suc n), de_kind = EntryDomain,
      de_pattern = []\<rparr>]" "n' = Suc n"
    using add by (auto simp: add_entry_def nextEntryKey_def)
  have "key_used (Suc n) (row_key (Suc n))" by (auto simp: key_used_def)
  with ok f' key_used_new [of n] show ?thesis
    by (auto simp: keys_ok_def list_all_iff intro: key_used_mono)
qed

lemma groups_key_frame [simp]:
  "groups_filterKey (s\<lparr>gp_editor := e\<rparr>) = groups_filterKey s"
  "groups_filterKey (s\<lparr>gp_entryKey := n\<rparr>) = groups_filterKey s"
  "groups_filterKey (s\<lparr>gp_pendingDelete := p\<rparr>) = groups_filterKey s"
  "groups_filterKey (s\<lparr>gp_search := q\<rparr>) = groups_filterKey s"
  "groups_filterKey (s\<lparr>gp_pageState := ps\<rparr>) = groups_filterKey s"
  "groups_filterKey (s\<lparr>gp_remove := m\<rparr>) = groups_filterKey s"
  "groups_filterKey (s\<lparr>gp_toasts := ts\<rparr>) = groups_filterKey s"
  by (simp_all add: groups_filterKey_def)

lemma page_filterKey [simp]:
  "ps_filterKey (page_previous ps) = ps_filterKey ps" "ps_filterKey (page_next ps) = ps_filterKey ps"
  "ps_filterKey (page_render k ps) = k"
  by (simp_all add: page_previous_def page_next_def page_render_def)

lemma groups_inv_open: "groups_inv s \<Longrightarrow> groups_inv (open_group g s)"
  using keys_ok_init [of g "gp_entryKey s"] by (auto simp: groups_inv_def open_group_def split: prod.splits)

lemma groups_inv_click: "groups_inv s \<Longrightarrow> groups_inv (groups_on_click c s)"
  by (cases c)
     (auto simp: groups_inv_open,
      auto simp: groups_inv_def on_group_form_def intro: inv_intros dest: keys_ok_add
        split: option.splits prod.splits)

lemma groups_inv_edit: "groups_inv s \<Longrightarrow> groups_inv (groups_on_edit f v s)"
  by (cases f)
     (auto simp: groups_inv_def groups_render_def on_group_form_def intro: inv_intros split: option.splits)

lemma groups_inv_message: "groups_inv s \<Longrightarrow> groups_inv (groups_on_message t m s)"
  by (cases m)
     (auto simp: groups_inv_def groups_render_def on_group_form_def intro: inv_intros split: sum.splits)

interpretation ag: component groups_start
    "\<lambda>(t, fmt, fmtDate, session, groups). AccessGroupsPage t fmt fmtDate session groups"
    groups_on_click groups_on_edit "groups_on_message t" groups_inv
proof unfold_locales
  show "groups_start s \<Longrightarrow> groups_inv s" for s
    by (simp add: groups_start_def groups_inv_def offset_ok_def)
qed (auto simp: groups_inv_click groups_inv_edit groups_inv_message)

section \<open>Properties\<close>

lemma edit_one_entry:
  assumes "distinct (map de_key es)" "i < length es"
  shows "map (\<lambda>item. if de_key item = de_key (es ! i) then g item else item) es = es[i := g (es ! i)]"
proof (rule nth_equalityI)
  fix j
  assume "j < length (map (\<lambda>item. if de_key item = de_key (es ! i) then g item else item) es)"
  then have j: "j < length es" by simp
  have "de_key (es ! j) = de_key (es ! i) \<longleftrightarrow> j = i"
    using assms j nth_eq_iff_index_eq [of "map de_key es" j i] by simp
  with j assms show "map (\<lambda>item. if de_key item = de_key (es ! i) then g item else item) es ! j = es[i := g (es ! i)] ! j"
    by (simp add: nth_list_update)
qed simp

lemma remove_one_entry:
  assumes "distinct (map de_key es)" "i < length es"
  shows "filter (\<lambda>item. de_key item \<noteq> de_key (es ! i)) es = take i es @ drop (Suc i) es"
proof -
  have split: "es = take i es @ es ! i # drop (Suc i) es" using assms(2) by (rule id_take_nth_drop)
  then have "distinct (map de_key (take i es @ es ! i # drop (Suc i) es))" using assms(1) by simp
  then have "\<forall>e \<in> set (take i es) \<union> set (drop (Suc i) es). de_key e \<noteq> de_key (es ! i)" by (auto simp: image_iff)
  then have "filter (\<lambda>item. de_key item \<noteq> de_key (es ! i)) (take i es @ es ! i # drop (Suc i) es) = take i es @ drop (Suc i) es"
    by (simp add: filter_id_conv)
  then show ?thesis by (simp flip: split)
qed

lemma entry_kind_of_text: "entry_kind_of (entry_kind_text kind) = Some kind"
  by (cases kind) (simp_all add: entry_kind_of_def)

text \<open>C25: the rows of an open group form are independent in every reachable state.  Their keys are distinct; choosing the kind
  of a row or typing its pattern changes this field of this row and nothing else of the form; removing a row takes out exactly this
  row; adding one appends an empty row whose key no other row has.\<close>

theorem group_rows_independent:
  assumes "ag.reachable t s" "gp_editor s = Some f" "i < length (gf_entries f)"
  shows "let row = gf_entries f ! i in distinct (map de_key (gf_entries f)) \<and>
     gp_editor (groups_on_edit (FieldEntryPattern (de_key row)) v s)
       = Some (f\<lparr>gf_entries := (gf_entries f)[i := row\<lparr>de_pattern := v\<rparr>]\<rparr>) \<and>
     gp_editor (groups_on_edit (FieldEntryKind (de_key row)) (entry_kind_text kind) s)
       = Some (f\<lparr>gf_entries := (gf_entries f)[i := row\<lparr>de_kind := kind\<rparr>]\<rparr>) \<and>
     gp_editor (groups_on_click (ClickRemoveEntry (de_key row)) s)
       = Some (f\<lparr>gf_entries := take i (gf_entries f) @ drop (Suc i) (gf_entries f)\<rparr>) \<and>
     (\<exists>k. k \<notin> de_key ` set (gf_entries f) \<and>
        gp_editor (groups_on_click ClickAddEntry s)
          = Some (f\<lparr>gf_entries := gf_entries f @ [\<lparr>de_key = k, de_kind = EntryDomain, de_pattern = []\<rparr>]\<rparr>))"
proof -
  have ok: "keys_ok (gp_entryKey s) f" using ag.reachable_inv [OF assms(1)] assms(2) by (simp add: groups_inv_def)
  then have d: "distinct (map de_key (gf_entries f))" by (simp add: keys_ok_def)
  have "row_key (Suc (gp_entryKey s)) \<notin> de_key ` set (gf_entries f)"
    using ok key_used_new [of "gp_entryKey s"] by (auto simp: keys_ok_def list_all_iff)
  then have "\<exists>k. k \<notin> de_key ` set (gf_entries f) \<and>
        gp_editor (groups_on_click ClickAddEntry s)
          = Some (f\<lparr>gf_entries := gf_entries f @ [\<lparr>de_key = k, de_kind = EntryDomain, de_pattern = []\<rparr>]\<rparr>)"
    using assms(2) by (auto simp: add_entry_def nextEntryKey_def)
  moreover note edit_one_entry [OF d assms(3), of "\<lambda>item. item\<lparr>de_pattern := v\<rparr>"]
    edit_one_entry [OF d assms(3), of "\<lambda>item. item\<lparr>de_kind := kind\<rparr>"] remove_one_entry [OF d assms(3)]
  ultimately show ?thesis using assms(2) d
    by (simp add: on_group_form_def set_entry_pattern_def set_entry_kind_def remove_entry_def entry_kind_of_text Let_def)
qed

definition demo_groups :: groups_page where
  "demo_groups = \<lparr>gp_entryKey = 0, gp_editor = None, gp_pendingDelete = None, gp_search = [],
     gp_deferredSearch = [], gp_kind = [], gp_pageState = \<lparr>ps_filterKey = ''|'', ps_offset = 0\<rparr>,
     gp_remove = MutIdle, gp_toasts = []\<rparr>"

definition demo_group_page :: groups_page where
  "demo_group_page = groups_on_click ClickAddEntry (groups_on_click ClickNewGroup demo_groups)"

lemma demo_group_page_reachable: "ag.reachable (\<lambda>k _. k) demo_group_page"
proof -
  let ?env = "(\<lambda>k _. k, show_int, \<lambda>d. d, Some True,
      loaded \<lparr>lp_items = [], lp_total = 0, lp_limit = 50, lp_offset = 0, lp_has_more = False\<rparr>)"
  have "groups_start demo_groups"
    by (simp add: groups_start_def demo_groups_def groups_filterKey_def)
  then have new: "ag.reachable (\<lambda>k _. k) (groups_on_click ClickNewGroup demo_groups)"
    by (intro ag.reach_click [where e = ?env] ag.reach_start)
       (simp_all add: AccessGroupsPage_def loaded_def q_isError_def Let_def)
  have "can_click ((\<lambda>(t, fmt, fmtDate, session, groups). AccessGroupsPage t fmt fmtDate session groups) ?env
      (groups_on_click ClickNewGroup demo_groups)) ClickAddEntry"
    by (simp add: AccessGroupsPage_def loaded_def q_isError_def Let_def open_group_def group_form_init_def
          draftEntries_def nextEntryKey_def GroupForm_def)
  with new show ?thesis unfolding demo_group_page_def by (rule ag.reach_click)
qed

theorem group_rows_independent_witness:
  "map_option gf_entries (gp_editor (groups_on_edit (FieldEntryPattern ''entry-2'') ''10.0.0.1'' demo_group_page))
     = Some [\<lparr>de_key = ''entry-1'', de_kind = EntryDomain, de_pattern = []\<rparr>,
             \<lparr>de_key = ''entry-2'', de_kind = EntryDomain, de_pattern = ''10.0.0.1''\<rparr>] \<and>
   map_option gf_entries (gp_editor (groups_on_edit (FieldEntryKind ''entry-2'') ''ip'' demo_group_page))
     = Some [\<lparr>de_key = ''entry-1'', de_kind = EntryDomain, de_pattern = []\<rparr>,
             \<lparr>de_key = ''entry-2'', de_kind = EntryIp, de_pattern = []\<rparr>] \<and>
   map_option gf_entries (gp_editor (groups_on_click (ClickRemoveEntry ''entry-2'') demo_group_page))
     = Some [\<lparr>de_key = ''entry-1'', de_kind = EntryDomain, de_pattern = []\<rparr>]"
proof -
  have keys: "row_key 1 = ''entry-1''" "row_key 2 = ''entry-2''" by code_simp+
  have form: "gp_editor demo_group_page = Some \<lparr>gf_group = None, gf_name = [],
      gf_entries = [\<lparr>de_key = ''entry-1'', de_kind = EntryDomain, de_pattern = []\<rparr>,
                    \<lparr>de_key = ''entry-2'', de_kind = EntryDomain, de_pattern = []\<rparr>], gf_save = MutIdle\<rparr>"
    using keys
    by (simp add: demo_group_page_def demo_groups_def open_group_def group_form_init_def draftEntries_def
          nextEntryKey_def add_entry_def numeral_2_eq_2)
  from group_rows_independent [OF demo_group_page_reachable form, of 1 "''10.0.0.1''" EntryIp] show ?thesis by (simp add: Let_def entry_kind_of_def)
qed

text \<open>A group is only submitted when it is complete, and what is sent is trimmed: the name and
  every pattern are non-empty and carry no surrounding white space, in the order of the form.\<close>

theorem group_submit_payload:
  assumes "gf_save (group_submit f) \<noteq> gf_save f"
  shows "gf_save (group_submit f) = MutPending (group_save_call f) \<and> trim (gf_name f) \<noteq> [] \<and>
     gf_entries f \<noteq> [] \<and>
     (\<forall>e \<in> set (group_payload_entries f). nge_pattern e \<noteq> [] \<and> trim (nge_pattern e) = nge_pattern e) \<and>
     map nge_kind (group_payload_entries f) = map de_kind (gf_entries f)"
  using assms
  by (auto simp: group_submit_def group_complete_def group_payload_entries_def list_all_iff split: if_splits)

theorem group_submit_payload_witness:
  "let f = \<lparr>gf_group = None, gf_name = '' lab '', gf_entries = [\<lparr>de_key = ''k'', de_kind = EntryIp,
         de_pattern = '' 10.0.0.1''\<rparr>], gf_save = MutIdle\<rparr> in
     gf_save (group_submit f) = MutPending (group_save_call f) \<and> trim (gf_name f) \<noteq> []"
proof -
  let ?f = "\<lparr>gf_group = None, gf_name = '' lab '', gf_entries = [\<lparr>de_key = ''k'', de_kind = EntryIp,
         de_pattern = '' 10.0.0.1''\<rparr>], gf_save = MutIdle\<rparr>"
  have "gf_save (group_submit ?f) \<noteq> gf_save ?f"
    by (simp add: group_submit_def group_complete_def trim_def is_ws_def)
  from group_submit_payload [OF this] show ?thesis by (simp add: Let_def)
qed

end
