(* ===== verification/Page_Kit.thy ===== *)
theory Page_Kit
  imports Query Ui_Components
begin

text \<open>
  What the pages of the console share: the formatters that \<^verbatim>\<open>usePreferences\<close> hands to a component, the
  early returns every page starts with (no session yet, not signed in, loading, failed), and React's
  rule that an effect runs when one of its dependencies changed.
\<close>

text \<open>The formatters with the locale of the user applied (see \<^verbatim>\<open>Formatters\<close> for what they do).
  \<open>None\<close> stands for \<^verbatim>\<open>null\<close> and \<^verbatim>\<open>undefined\<close>.\<close>

record formats =
  fm_date :: "string option \<Rightarrow> string"
  fm_number :: "int option \<Rightarrow> string"
  fm_bytes :: "int option \<Rightarrow> string"
  fm_duration :: "rat option \<Rightarrow> string"
  fm_percent :: "rat option \<Rightarrow> string"

abbreviation number_of :: "formats \<Rightarrow> nat \<Rightarrow> string" where
  "number_of fm n \<equiv> fm_number fm (Some (int n))"

text \<open>\<^verbatim>\<open>if (session === null) return <LoadingState/>; if (!session) return <SessionGate/>\<close>.\<close>

definition gated :: "translator \<Rightarrow> nat \<Rightarrow> bool option \<Rightarrow> ('c, 'f) view \<Rightarrow> ('c, 'f) view" where
  "gated t rows session body =
     (case session of None \<Rightarrow> LoadingState t rows | Some signed \<Rightarrow> if signed then body else SessionGate t)"

text \<open>\<^verbatim>\<open>if (loading) return <LoadingState/>; if (failed) return <ErrorState onRetry=.../>\<close>; the message is
  the one of the first query that failed.\<close>

definition first_error :: "string option list \<Rightarrow> string option" where
  "first_error es = head_opt (concat (map (\<lambda>e. case e of None \<Rightarrow> [] | Some m \<Rightarrow> [m]) es))"

definition guarded ::
    "translator \<Rightarrow> nat \<Rightarrow> bool \<Rightarrow> string option \<Rightarrow> 'c \<Rightarrow> ('c, 'f) view \<Rightarrow> ('c, 'f) view" where
  "guarded t rows loading err retry body =
     (if loading then LoadingState t rows
      else case err of Some m \<Rightarrow> ErrorState t m (Some retry) | None \<Rightarrow> body)"

lemma can_use_gated [simp]:
  "can_click (gated t rows session body) c \<longleftrightarrow> session = Some True \<and> can_click body c"
  "can_edit (gated t rows session body) f x \<longleftrightarrow> session = Some True \<and> can_edit body f x"
  by (auto simp: gated_def split: option.splits)

lemma can_use_guarded [simp]:
  "can_click (guarded t rows loading err retry body) c \<longleftrightarrow>
     \<not> loading \<and> (if err = None then can_click body c else c = retry)"
  "can_edit (guarded t rows loading err retry body) f x \<longleftrightarrow> \<not> loading \<and> err = None \<and> can_edit body f x"
  by (auto simp: guarded_def split: option.splits)

lemma first_error_None: "first_error es = None \<longleftrightarrow> (\<forall>e \<in> set es. e = None)"
  by (auto simp: first_error_def split: option.splits)

text \<open>The options of a select that offers everything or one of a list of things.\<close>

definition all_or_one :: "string \<Rightarrow> ('a \<Rightarrow> string) \<Rightarrow> ('a \<Rightarrow> string) \<Rightarrow> 'a list \<Rightarrow> (string \<times> string) list" where
  "all_or_one everything ident name items = ([], everything) # map (\<lambda>x. (ident x, name x)) items"

lemma fst_all_or_one [simp]: "fst ` set (all_or_one e ident name items) = insert [] (ident ` set items)"
  by (auto simp: all_or_one_def image_iff)

text \<open>\<^verbatim>\<open>names.get(key) || key\<close> on a map built from a list.\<close>

definition name_or :: "('a \<Rightarrow> string) \<Rightarrow> ('a \<Rightarrow> string) \<Rightarrow> 'a list \<Rightarrow> string \<Rightarrow> string" where
  "name_or ident name items key =
     (case js_map_get (map (\<lambda>x. (ident x, name x)) items) key of None \<Rightarrow> key | Some n \<Rightarrow> or_str n key)"

text \<open>A time range as the text its select carries.\<close>

definition range_of_text :: "string \<Rightarrow> TimeRange option" where
  "range_of_text s =
     find_first (\<lambda>r. range_text r = s) [Range1h, Range24h, Range7d, Range30d, RangeAll]"

lemma range_of_range_text [simp]: "range_of_text (range_text r) = Some r"
  by (cases r) (simp_all add: range_of_text_def find_first_def)

text \<open>A filter by time range: the boundary is computed when the range is chosen and then stays, so the
  key of the query stays the same (\<^verbatim>\<open>useMemo(() => timeRangeStart(timeRange), [timeRange])\<close>).\<close>

record range_filter =
  rg_range :: TimeRange
  rg_since :: "string option"

definition range_init :: "int \<Rightarrow> TimeRange \<Rightarrow> range_filter" where
  "range_init now r = \<lparr>rg_range = r, rg_since = timeRangeStart now r\<rparr>"

definition range_choose :: "int \<Rightarrow> TimeRange \<Rightarrow> range_filter \<Rightarrow> range_filter" where
  "range_choose now r s = (if r = rg_range s then s else range_init now r)"

section \<open>Sample data\<close>

text \<open>Concrete inputs for the witnesses of the page theories.\<close>

definition sample_formats :: formats where
  "sample_formats =
     \<lparr>fm_date = (\<lambda>d. case d of None \<Rightarrow> ''-'' | Some s \<Rightarrow> s),
      fm_number = (\<lambda>n. case n of None \<Rightarrow> ''-'' | Some i \<Rightarrow> show_int i),
      fm_bytes = (\<lambda>n. case n of None \<Rightarrow> ''-'' | Some i \<Rightarrow> show_int i),
      fm_duration = (\<lambda>_. ''-''), fm_percent = (\<lambda>_. ''-'')\<rparr>"

definition sample_site :: "string \<Rightarrow> Site" where
  "sample_site i =
     \<lparr>site_id = i, site_slug = i, site_name = i, site_dns_note = [], site_shutdown = False,
      site_config_revision = 1\<rparr>"

definition sample_node :: "string \<Rightarrow> string \<Rightarrow> Node" where
  "sample_node site i =
     \<lparr>node_id = i, node_site_id = site, node_name = i, node_agent_id = ''agent-'' @ i, node_advertise_ip = [],
      node_monitor_version = ''1'', node_singbox_version = ''1'', node_last_seen_at = None,
      node_desired_version = 3, node_applied_version = 3, node_applied_hash = [],
      node_liveness_status = ''online'', node_config_status = ''in_sync'', node_service_status = ''healthy'',
      node_subscription_status = ''current'', node_probe_status = ''healthy'',
      node_active_connections = Some 2, node_bytes_up = None, node_bytes_down = None,
      node_rx_bps = Some 20, node_tx_bps = Some 10, node_last_error = []\<rparr>"

abbreviation plain :: translator where
  "plain \<equiv> \<lambda>k _. k"

lemma sample_node_simps [simp]:
  "node_id (sample_node a b) = b" "node_site_id (sample_node a b) = a" "node_agent_id (sample_node a b) = ''agent-'' @ b"
  "site_id (sample_site a) = a"
  by (simp_all add: sample_node_def sample_site_def)

end
