(* ===== verification/Source_Document.thy ===== *)
theory Source_Document
  imports Prelude
begin

text \<open>
  The source view of a subscription version: \<^verbatim>\<open>highlightLine\<close> and \<^verbatim>\<open>HighlightedDocument\<close> of
  \<^verbatim>\<open>src/frontend/app/subscriptions/page.tsx\<close>.

  The token pattern is one regular expression with seven alternatives that are tried in order at each
  position.  Each alternative is a function that returns the length of its match; \<open>prev\<close> is the
  character before the position, which the word boundaries look at.
\<close>

section \<open>The token pattern\<close>

definition word_before :: "char option \<Rightarrow> bool" where
  "word_before prev \<longleftrightarrow> (case prev of None \<Rightarrow> False | Some c \<Rightarrow> is_word_char c)"

definition word_at :: "string \<Rightarrow> bool" where
  "word_at s \<longleftrightarrow> (case s of [] \<Rightarrow> False | c # _ \<Rightarrow> is_word_char c)"

text \<open>\<^verbatim>\<open>#[^\n]*\<close> and \<^verbatim>\<open>//[^\n]*\<close>\<close>

definition match_hash :: "string \<Rightarrow> nat option" where
  "match_hash s =
     (if starts_with ''#'' s then Some (length (takeWhile (\<lambda>c. c \<noteq> CHR 0x0A) s)) else None)"

definition match_slashes :: "string \<Rightarrow> nat option" where
  "match_slashes s =
     (if starts_with ''//'' s then Some (length (takeWhile (\<lambda>c. c \<noteq> CHR 0x0A) s)) else None)"

text \<open>\<^verbatim>\<open>"(?:\\.|[^"\\])*"\<close>, after the opening quote; the dot excludes line ends.\<close>

fun double_rest :: "string \<Rightarrow> nat option" where
  "double_rest [] = None"
| "double_rest (c # cs) =
     (if c = CHR 0x22 then Some 1
      else if c = CHR 0x5C then
        (case cs of
           [] \<Rightarrow> None
         | d # ds \<Rightarrow> if d = CHR 0x0A \<or> d = CHR 0x0D then None else map_option (\<lambda>n. n + 2) (double_rest ds))
      else map_option (\<lambda>n. n + 1) (double_rest cs))"

definition match_double :: "string \<Rightarrow> nat option" where
  "match_double s =
     (case s of [] \<Rightarrow> None | c # cs \<Rightarrow> if c = CHR 0x22 then map_option Suc (double_rest cs) else None)"

text \<open>\<^verbatim>\<open>'(?:''|[^'])*'\<close>, after the opening quote: a pair of quotes is taken as part of the text if a
  closing quote follows later, otherwise its first quote closes.\<close>

fun single_rest :: "string \<Rightarrow> nat option" where
  "single_rest [] = None"
| "single_rest (c # cs) =
     (if c = CHR 0x27 then
        (case cs of
           [] \<Rightarrow> Some 1
         | d # ds \<Rightarrow> if d = CHR 0x27
             then (case single_rest ds of Some n \<Rightarrow> Some (n + 2) | None \<Rightarrow> Some 1) else Some 1)
      else map_option (\<lambda>n. n + 1) (single_rest cs))"

definition match_single :: "string \<Rightarrow> nat option" where
  "match_single s =
     (case s of [] \<Rightarrow> None | c # cs \<Rightarrow> if c = CHR 0x27 then map_option Suc (single_rest cs) else None)"

definition literal_words :: "string list" where
  "literal_words = [''true'', ''false'', ''null'', ''yes'', ''no'', ''on'', ''off'']"

definition match_word :: "char option \<Rightarrow> string \<Rightarrow> nat option" where
  "match_word prev s =
     (if word_before prev then None
      else map_option length
             (find_first (\<lambda>w. starts_with w s \<and> \<not> word_at (drop (length w) s)) literal_words))"

text \<open>\<^verbatim>\<open>-?\b\d+(?:\.\d+)?\b\<close>\<close>

definition match_digits :: "bool \<Rightarrow> string \<Rightarrow> nat option" where
  "match_digits boundary s =
     (let ds = takeWhile is_digit s; rest = dropWhile is_digit s
      in if ds = [] \<or> \<not> boundary then None
         else (case rest of
                 [] \<Rightarrow> Some (length ds)
               | c # cs \<Rightarrow>
                   if c = CHR ''.'' then
                     (let fs = takeWhile is_digit cs
                      in if fs \<noteq> [] \<and> \<not> word_at (dropWhile is_digit cs) then Some (length ds + 1 + length fs)
                         else Some (length ds))
                   else if is_word_char c then None else Some (length ds)))"

definition match_number :: "char option \<Rightarrow> string \<Rightarrow> nat option" where
  "match_number prev s =
     (case s of
        [] \<Rightarrow> None
      | c # cs \<Rightarrow> if c = CHR ''-'' then map_option Suc (match_digits True cs)
                 else match_digits (\<not> word_before prev) s)"

text \<open>\<^verbatim>\<open>[A-Za-z_][A-Za-z0-9_.-]*(?=\s*:)\<close>\<close>

definition key_char :: "char \<Rightarrow> bool" where
  "key_char c \<longleftrightarrow> is_word_char c \<or> c = CHR ''.'' \<or> c = CHR ''-''"

definition match_key :: "string \<Rightarrow> nat option" where
  "match_key s =
     (case s of
        [] \<Rightarrow> None
      | c # cs \<Rightarrow>
          if is_word_char c \<and> \<not> is_digit c \<and> starts_with '':'' (dropWhile is_ws (dropWhile key_char s))
          then Some (length (takeWhile key_char s)) else None)"

definition match_token :: "char option \<Rightarrow> string \<Rightarrow> nat option" where
  "match_token prev s =
     or_else (match_hash s) (or_else (match_slashes s) (or_else (match_double s)
       (or_else (match_single s) (or_else (match_word prev s) (or_else (match_number prev s)
         (match_key s))))))"

section \<open>Highlighting\<close>

datatype part = Plain string | Token string string

definition token_class :: "string \<Rightarrow> string" where
  "token_class token =
     (if starts_with ''#'' token \<or> starts_with ''//'' token then ''source-token-comment''
      else if starts_with [CHR 0x22] token \<or> starts_with [CHR 0x27] token then ''source-token-string''
      else if to_lower token \<in> set literal_words then ''source-token-bool''
      else if (case token of c # cs \<Rightarrow> is_digit c \<or> (c = CHR ''-'' \<and> (case cs of d # _ \<Rightarrow> is_digit d | [] \<Rightarrow> False))
                         | [] \<Rightarrow> False) then ''source-token-number''
      else ''source-token-key'')"

definition flush :: "string \<Rightarrow> part list" where
  "flush acc = (if acc = [] then [] else [Plain acc])"

text \<open>The loop over \<^verbatim>\<open>tokenPattern.exec\<close>: \<open>acc\<close> is the text between the cursor and the position.\<close>

function highlight_from :: "char option \<Rightarrow> string \<Rightarrow> string \<Rightarrow> part list" where
  "highlight_from prev acc [] = flush acc"
| "highlight_from prev acc (c # cs) =
     (case match_token prev (c # cs) of
        Some n \<Rightarrow>
          (let token = c # take (n - 1) cs
           in flush acc @ Token (token_class token) token
                # highlight_from (Some (last token)) [] (drop (n - 1) cs))
      | None \<Rightarrow> highlight_from (Some c) (acc @ [c]) cs)"
  by pat_completeness auto
termination by (relation "measure (\<lambda>(prev, acc, s). length s)") auto

definition highlightLine :: "string \<Rightarrow> part list" where
  "highlightLine line = highlight_from None [] line"

text \<open>\<^verbatim>\<open>content.split(/\r?\n/)\<close>\<close>

fun split_lines :: "string \<Rightarrow> string list" where
  "split_lines [] = [[]]"
| "split_lines (c # cs) =
     (if c = CHR 0x0A then [] # split_lines cs
      else if c = CHR 0x0D \<and> starts_with [CHR 0x0A] cs then [] # split_lines (drop 1 cs)
      else (case split_lines cs of [] \<Rightarrow> [[c]] | l # ls \<Rightarrow> (c # l) # ls))"

definition document_language :: "string \<Rightarrow> string" where
  "document_language format =
     (if format = ''clash'' then ''yaml'' else if format = ''unknown'' then ''text'' else ''json'')"

definition HighlightedDocument :: "string \<Rightarrow> part list" where
  "HighlightedDocument content =
     (let lines = split_lines content
      in concat (map (\<lambda>(line, index). highlightLine line @
           (if index < length lines - 1 then [Plain [CHR 0x0A]] else [])) (zip lines [0..<length lines])))"

section \<open>Lemmas\<close>

fun part_text :: "part \<Rightarrow> string" where
  "part_text (Plain s) = s"
| "part_text (Token cls s) = s"

definition parts_text :: "part list \<Rightarrow> string" where
  "parts_text ps = concat (map part_text ps)"

lemma parts_text_simps [simp]:
  "parts_text [] = []" "parts_text (p # ps) = part_text p @ parts_text ps"
  "parts_text (ps @ qs) = parts_text ps @ parts_text qs" "parts_text (flush acc) = acc"
  by (simp_all add: parts_text_def flush_def)

lemma highlight_from_text: "parts_text (highlight_from prev acc s) = acc @ s"
  by (induction prev acc s rule: highlight_from.induct)
     (simp_all add: Let_def split: option.splits)

text \<open>Line ends are normalised, everything else is kept.\<close>

fun unix_lines :: "string \<Rightarrow> string" where
  "unix_lines [] = []"
| "unix_lines (c # cs) =
     (if c = CHR 0x0D \<and> starts_with [CHR 0x0A] cs then CHR 0x0A # unix_lines (drop 1 cs)
      else c # unix_lines cs)"

lemma split_lines_nonempty [simp]: "split_lines s \<noteq> []"
  by (induction s rule: split_lines.induct) (auto split: list.splits)

lemma join_split_lines: "join [CHR 0x0A] (split_lines s) = unix_lines s"
proof (induction s rule: split_lines.induct)
  case (2 c cs)
  have join_Cons: "join [x] (l # ls) = (if ls = [] then l else l @ x # join [x] ls)" for x l ls
    by (cases ls) simp_all
  show ?case
  proof (cases "c = CHR 0x0A \<or> c = CHR 0x0D \<and> starts_with [CHR 0x0A] cs")
    case True
    with 2 show ?thesis by (auto simp: join_Cons)
  next
    case False
    obtain l ls where ls: "split_lines cs = l # ls" by (cases "split_lines cs") auto
    with False 2 show ?thesis by (auto simp: join_Cons)
  qed
qed simp

lemma document_text:
  "parts_text (concat (map (\<lambda>(line, index). highlightLine line @
       (if index < length lines - 1 then [Plain [CHR 0x0A]] else [])) (zip lines [0..<length lines])))
     = join [CHR 0x0A] lines"
proof -
  have gen: "parts_text (concat (map (\<lambda>(line, index). highlightLine line @
       (if index < k + length lines - 1 then [Plain [CHR 0x0A]] else [])) (zip lines [k..<k + length lines])))
     = join [CHR 0x0A] lines" for k and lines :: "string list"
  proof (induction lines arbitrary: k)
    case (Cons l ls)
    have "[k..<k + length (l # ls)] = k # [Suc k..<Suc k + length ls]"
      by (simp add: upt_rec)
    with Cons [of "Suc k"] show ?case
      by (cases ls) (simp_all add: highlightLine_def highlight_from_text)
  qed simp
  from gen [of 0 lines] show ?thesis by simp
qed

section \<open>Properties\<close>

text \<open>Highlighting never alters the text: the scan ends for every line, the parts put together
  are the line, and the rendered document is the source with its line ends normalised.\<close>

theorem highlighting_lossless:
  "parts_text (highlightLine line) = line \<and> parts_text (HighlightedDocument content) = unix_lines content"
proof
  show "parts_text (highlightLine line) = line" by (simp add: highlightLine_def highlight_from_text)
  show "parts_text (HighlightedDocument content) = unix_lines content"
    unfolding HighlightedDocument_def Let_def document_text join_split_lines ..
qed

end
