(* ===== verification/Subscriptions_Page.thy ===== *)
theory Subscriptions_Page
  imports Page_Kit Endpoints Source_Document Formatters Clipboard
begin

text \<open>
  Subscriptions: \<^verbatim>\<open>src/frontend/app/subscriptions/page.tsx\<close>.  The queries of the catalog, the sites and the nodes
  are kept in the page state because the effects of the page depend on them.  The effects run after every render
  (\<open>subs_effects\<close>).  Every refreshable source has a refresh button of its own, kept by the identifier of the source.
\<close>

section \<open>Source addresses\<close>

text \<open>\<^verbatim>\<open>/^(https?):\/\//i\<close> at the start of a text: the scheme and the rest.\<close>

definition match_scheme :: "string \<Rightarrow> (SourceScheme \<times> string) option" where
  "match_scheme s =
     (if to_lower (take 8 s) = ''https://'' then Some (SchemeHttps, drop 8 s)
      else if to_lower (take 7 s) = ''http://'' then Some (SchemeHttp, drop 7 s)
      else None)"

definition strip_scheme :: "string \<Rightarrow> string" where
  "strip_scheme s = (case match_scheme s of Some (_, rest) \<Rightarrow> rest | None \<Rightarrow> s)"

definition composeSourceURL :: "SourceScheme \<Rightarrow> string \<Rightarrow> string" where
  "composeSourceURL scheme v = scheme_text scheme @ ''://'' @ strip_scheme (trim v)"

definition schemeFromURL :: "string \<Rightarrow> SourceScheme option" where
  "schemeFromURL v = map_option fst (match_scheme (trim v))"

definition applySourceURLInput :: "string \<Rightarrow> SourceScheme option \<times> string" where
  "applySourceURLInput v =
     (case schemeFromURL v of
        None \<Rightarrow> (None, v)
      | Some detected \<Rightarrow> (Some detected, strip_scheme (trim v)))"

section \<open>Refreshing a source\<close>

datatype SourceState = StateCurrent | StateFailed | StatePending

fun source_state_text :: "SourceState \<Rightarrow> string" where
  "source_state_text StateCurrent = ''current''"
| "source_state_text StateFailed = ''failed''"
| "source_state_text StatePending = ''pending''"

definition sourceRefreshState :: "SubscriptionSource \<Rightarrow> SourceState" where
  "sourceRefreshState source =
     (if src_last_refresh_error source \<noteq> [] then StateFailed
      else if truthy_str (src_last_refresh_at source) then StateCurrent else StatePending)"

definition isFinishedRefreshTask :: "Task \<Rightarrow> bool" where
  "isFinishedRefreshTask task \<longleftrightarrow>
     task_status task \<in> set [''succeeded'', ''failed'', ''cancelled'', ''dead_letter'']"

text \<open>The polling loop; \<open>poll n\<close> is the outcome of the \<open>n\<close>-th request for the task.\<close>

partial_function (option) wait_from ::
    "(nat \<Rightarrow> string + Task) \<Rightarrow> nat \<Rightarrow> (string + Task) option" where
  "wait_from poll n =
     (case poll n of
        Inl err \<Rightarrow> Some (Inl err)
      | Inr task \<Rightarrow>
          if isFinishedRefreshTask task
          then (if task_status task \<noteq> ''succeeded''
                then Some (Inl (or_str (task_error task) ''subscription_refresh_failed''))
                else Some (Inr task))
          else wait_from poll (n + 1))"

definition waitForRefreshTask :: "(nat \<Rightarrow> string + Task) \<Rightarrow> (string + Task) option" where
  "waitForRefreshTask poll = wait_from poll 0"

section \<open>State\<close>

record subscriptions_page =
  formAdd :: bool
  sourceType :: SourceType
  sourceTypeFilter :: "SourceType option"
  sourceStateFilter :: "SourceState option"
  sourceName :: string
  sourceScheme :: SourceScheme
  sourceURL :: string
  fetchInterval :: string
  singleNodeURI :: string
  uploadFile :: "(string \<times> string) option"
  selectedSourceId :: string
  selectedVersionId :: string
  selectedSiteIds :: "string list"
  publishTarget :: "SubscriptionVersion option"
  confirmTarget :: "SubscriptionVersion option"
  previousVersionId :: string
  sourceCreate :: "(api_call, unit) mutation"
  singleNodeCreate :: "(api_call, unit) mutation"
  upload :: "(api_call, unit) mutation"
  refreshSource :: "(api_call, unit) mutation"
  publish :: "(api_call, unit) mutation"
  refreshButtons :: "string \<Rightarrow> refresh_button"
  catalog :: "SubscriptionCatalog query"
  subs_sites :: "Site list query"
  subs_nodes :: "Node list query"
  subs_routes :: "string list"

definition sourceItems :: "subscriptions_page \<Rightarrow> SubscriptionSource list" where
  "sourceItems s = (case q_data (catalog s) of None \<Rightarrow> [] | Some c \<Rightarrow> cat_sources c)"

definition versionItems :: "subscriptions_page \<Rightarrow> SubscriptionVersion list" where
  "versionItems s = (case q_data (catalog s) of None \<Rightarrow> [] | Some c \<Rightarrow> cat_versions c)"

definition deployableSiteIds :: "subscriptions_page \<Rightarrow> string list" where
  "deployableSiteIds s = uniq (map node_site_id (query_list (subs_nodes s)))"

definition currentSource :: "subscriptions_page \<Rightarrow> SubscriptionSource option" where
  "currentSource s =
     or_else (find_first (\<lambda>item. src_id item = selectedSourceId s) (sourceItems s))
       (head_opt (sourceItems s))"

definition currentVersions :: "subscriptions_page \<Rightarrow> SubscriptionVersion list" where
  "currentVersions s =
     (case currentSource s of
        None \<Rightarrow> [] | Some src \<Rightarrow> filter (\<lambda>item. sv_source_id item = src_id src) (versionItems s))"

definition currentVersion :: "subscriptions_page \<Rightarrow> SubscriptionVersion option" where
  "currentVersion s =
     or_else (find_first (\<lambda>item. sv_id item = selectedVersionId s) (currentVersions s))
       (head_opt (currentVersions s))"

text \<open>\<open>time\<close> is \<^verbatim>\<open>Date.parse\<close> on the creation dates of the catalog.  The sort is stable, newest first.\<close>

definition filteredSourceItems ::
    "(string \<Rightarrow> int) \<Rightarrow> subscriptions_page \<Rightarrow> SubscriptionSource list" where
  "filteredSourceItems time s =
     sort_key (\<lambda>src. - time (src_created_at src))
       (filter (\<lambda>src.
          (case sourceTypeFilter s of None \<Rightarrow> True | Some ty \<Rightarrow> src_source_type src = ty) \<and>
          (case sourceStateFilter s of None \<Rightarrow> True | Some st \<Rightarrow> sourceRefreshState src = st))
        (sourceItems s))"

section \<open>Effects\<close>

definition select_source_effect :: "(string \<Rightarrow> int) \<Rightarrow> subscriptions_page \<Rightarrow> subscriptions_page" where
  "select_source_effect time s =
     (case filteredSourceItems time s of
        src # _ \<Rightarrow> if selectedSourceId s = [] then s\<lparr>selectedSourceId := src_id src\<rparr> else s
      | [] \<Rightarrow> s)"

definition select_version_effect :: "subscriptions_page \<Rightarrow> subscriptions_page" where
  "select_version_effect s =
     (case currentVersion s of
        None \<Rightarrow> s
      | Some v \<Rightarrow>
          if selectedVersionId s = [] \<or> \<not> list_ex (\<lambda>item. sv_id item = selectedVersionId s) (currentVersions s)
          then s\<lparr>selectedVersionId := sv_id v\<rparr> else s)"

definition reset_sites_effect :: "subscriptions_page \<Rightarrow> subscriptions_page" where
  "reset_sites_effect s =
     (case currentVersion s of
        None \<Rightarrow> s
      | Some v \<Rightarrow>
          if previousVersionId s \<noteq> sv_id v then s\<lparr>previousVersionId := sv_id v, selectedSiteIds := []\<rparr> else s)"

text \<open>The three effects of one render all see the values of that render; their updates touch
  different fields.\<close>

definition subs_effects :: "(string \<Rightarrow> int) \<Rightarrow> subscriptions_page \<Rightarrow> subscriptions_page" where
  "subs_effects time s =
     (let s1 = select_source_effect time s;
          s2 = select_version_effect s;
          s3 = reset_sites_effect s
      in s\<lparr>selectedSourceId := selectedSourceId s1, selectedVersionId := selectedVersionId s2,
           previousVersionId := previousVersionId s3, selectedSiteIds := selectedSiteIds s3\<rparr>)"

section \<open>Handlers\<close>

definition open_add_form :: "subscriptions_page \<Rightarrow> subscriptions_page" where
  "open_add_form s =
     s\<lparr>sourceCreate := MutIdle, singleNodeCreate := MutIdle, upload := MutIdle,
       sourceType := SourceHttp, sourceScheme := SchemeHttp, formAdd := True\<rparr>"

definition sourcePending :: "subscriptions_page \<Rightarrow> bool" where
  "sourcePending s \<longleftrightarrow>
     mut_pending (sourceCreate s) \<or> mut_pending (singleNodeCreate s) \<or> mut_pending (upload s)"

definition interval_seconds :: "string \<Rightarrow> int" where
  "interval_seconds v = int (read_nat v)"

definition submitSource :: "key_gen \<Rightarrow> subscriptions_page \<Rightarrow> subscriptions_page" where
  "submitSource gen s =
     (if sourceType s = SourceHttp \<and> trim (sourceName s) \<noteq> [] \<and> trim (sourceURL s) \<noteq> []
      then s\<lparr>sourceCreate := MutPending (createSubscriptionSource gen (trim (sourceName s))
             (composeSourceURL (sourceScheme s) (sourceURL s)) (Some (sourceScheme s))
             (Some (interval_seconds (fetchInterval s))) None None)\<rparr>
      else if sourceType s = SourceSingleNode \<and> trim (singleNodeURI s) \<noteq> []
      then s\<lparr>singleNodeCreate := MutPending
             (createSingleNodeSubscription gen (trim (sourceName s)) (trim (singleNodeURI s)))\<rparr>
      else (case uploadFile s of
              Some (name, content) \<Rightarrow>
                if sourceType s = SourceUpload \<and> trim (sourceName s) \<noteq> []
                then s\<lparr>upload := MutPending (uploadSubscription (trim (sourceName s)) name content)\<rparr> else s
            | None \<Rightarrow> s))"

definition toggleSite :: "string \<Rightarrow> subscriptions_page \<Rightarrow> subscriptions_page" where
  "toggleSite siteId s = s\<lparr>selectedSiteIds := toggle siteId (selectedSiteIds s)\<rparr>"

definition open_publish :: "subscriptions_page \<Rightarrow> subscriptions_page" where
  "open_publish s =
     (case currentVersion s of
        None \<Rightarrow> s | Some v \<Rightarrow> s\<lparr>selectedSiteIds := [], publishTarget := Some v\<rparr>)"

definition continue_publish :: "subscriptions_page \<Rightarrow> subscriptions_page" where
  "continue_publish s =
     (case publishTarget s of
        None \<Rightarrow> s | Some v \<Rightarrow> s\<lparr>confirmTarget := Some v, publishTarget := None\<rparr>)"

definition confirm_publish :: "key_gen \<Rightarrow> subscriptions_page \<Rightarrow> subscriptions_page" where
  "confirm_publish gen s =
     (case confirmTarget s of
        None \<Rightarrow> s
      | Some v \<Rightarrow>
          s\<lparr>publish := MutPending (publishSubscriptionVersion gen (sv_source_id v) (sv_id v) (selectedSiteIds s))\<rparr>)"

text \<open>The handler of a refresh button: if the button takes the click, the refresh of its source is requested.\<close>

definition refresh_source :: "key_gen \<Rightarrow> string \<Rightarrow> subscriptions_page \<Rightarrow> subscriptions_page" where
  "refresh_source gen i s =
     (let b = refresh (mut_pending (refreshSource s)) (refreshButtons s i)
      in if rb_inflight b = rb_inflight (refreshButtons s i) then s
         else s\<lparr>refreshButtons := (refreshButtons s)(i := b),
                refreshSource := MutPending (refreshSubscription gen i)\<rparr>)"

text \<open>What the refresh of a source ends with: the error of the request, otherwise the outcome of waiting for its
  task.  A task is an object with an \<^verbatim>\<open>error\<close> member.\<close>

definition waited_outcome :: "string + Task \<Rightarrow> refresh_outcome" where
  "waited_outcome r =
     (case r of
        Inl err \<Rightarrow> Thrown (Some err)
      | Inr task \<Rightarrow> Resolved (ResultObject (if task_error task = [] then None else Some (task_error task))))"

definition end_refresh :: "translator \<Rightarrow> string \<Rightarrow> refresh_outcome \<Rightarrow> subscriptions_page \<Rightarrow> subscriptions_page" where
  "end_refresh t i outcome s =
     (if rb_inflight (refreshButtons s i) = 0 then s
      else s\<lparr>refreshButtons := (refreshButtons s)(i := refresh_end t outcome (refreshButtons s i))\<rparr>)"

definition refresh_answered ::
    "translator \<Rightarrow> string \<Rightarrow> string + string \<Rightarrow> subscriptions_page \<Rightarrow> subscriptions_page" where
  "refresh_answered t i r s =
     (case r of
        Inr taskId \<Rightarrow> s\<lparr>refreshSource := MutSuccess ()\<rparr>
      | Inl e \<Rightarrow> end_refresh t i (Thrown (Some e)) (s\<lparr>refreshSource := MutError e\<rparr>))"

definition refresh_waited ::
    "translator \<Rightarrow> string \<Rightarrow> (nat \<Rightarrow> string + Task) \<Rightarrow> subscriptions_page \<Rightarrow> subscriptions_page" where
  "refresh_waited t i poll s =
     (case waitForRefreshTask poll of None \<Rightarrow> s | Some r \<Rightarrow> end_refresh t i (waited_outcome r) s)"

definition created_source :: "string \<Rightarrow> subscriptions_page \<Rightarrow> subscriptions_page" where
  "created_source newId s =
     s\<lparr>sourceCreate := MutSuccess (), sourceName := [], sourceScheme := SchemeHttp, sourceURL := [],
       singleNodeURI := [], formAdd := False, selectedSourceId := newId\<rparr>"

definition created_single_node :: "string \<Rightarrow> string \<Rightarrow> subscriptions_page \<Rightarrow> subscriptions_page" where
  "created_single_node newId versionId s =
     s\<lparr>singleNodeCreate := MutSuccess (), sourceName := [], singleNodeURI := [], formAdd := False,
       selectedSourceId := newId, selectedVersionId := versionId\<rparr>"

definition uploaded :: "string \<Rightarrow> string \<Rightarrow> subscriptions_page \<Rightarrow> subscriptions_page" where
  "uploaded newId versionId s =
     s\<lparr>upload := MutSuccess (), sourceName := [], uploadFile := None, formAdd := False,
       selectedSourceId := newId, selectedVersionId := versionId\<rparr>"

definition published :: "string list \<Rightarrow> subscriptions_page \<Rightarrow> subscriptions_page" where
  "published releaseIds s =
     (let s' = s\<lparr>publish := MutSuccess (), publishTarget := None, confirmTarget := None\<rparr>
      in case releaseIds of
           [] \<Rightarrow> s'
         | r # _ \<Rightarrow> s'\<lparr>subs_routes := subs_routes s @ [''/releases?release='' @ r]\<rparr>)"

section \<open>The version document\<close>

text \<open>Copying and downloading the content of a version: the toast that is raised, and the file that is
  handed out.\<close>

definition copyContent ::
    "translator \<Rightarrow> clipboard_api \<Rightarrow> copy_command \<Rightarrow> string option \<Rightarrow> page \<Rightarrow> ToastInput list \<times> page" where
  "copyContent t api cmd content p =
     (if \<not> truthy_str content then ([], p)
      else (let (result, p') = writeClipboard api cmd (the content) p
            in case result of
                 ClipboardOk \<Rightarrow>
                   ([\<lparr>toast_title = t ''Copied'' [], toast_description = None,
                      toast_variant = Some VariantSuccess, toast_duration = None\<rparr>], p')
               | ClipboardUnavailable \<Rightarrow>
                   ([\<lparr>toast_title = t ''Operation failed'' [],
                      toast_description = Some (t (toastErrorMessage (Some ''clipboard_unavailable'')
                        ''Unable to copy source content.'') []),
                      toast_variant = Some VariantDestructive, toast_duration = None\<rparr>], p')))"

definition downloadContent :: "SubscriptionVersion \<Rightarrow> string option \<Rightarrow> (string \<times> string) option" where
  "downloadContent version content =
     (if \<not> truthy_str content then None
      else (let extension = (if sv_format version = FormatClash then ''yaml''
                             else if sv_format version = FormatUnknown then ''txt'' else ''json'')
            in Some (''subscription-v'' @ show_int (sv_version version) @ ''.'' @ extension, the content)))"

definition versionLabel :: "(int \<Rightarrow> string) \<Rightarrow> SubscriptionVersion option \<Rightarrow> string" where
  "versionLabel fnum version =
     (case version of
        None \<Rightarrow> ''-''
      | Some v \<Rightarrow> ''v'' @ fnum (sv_version v) @ '' '' @ [CHR 0xB7] @ '' '' @ shortHash (sv_content_hash v) 10)"

section \<open>What is rendered\<close>

datatype subs_click =
    ClickPublish | ClickAdd | ClickCloseForm | ClickType SourceType | ClickCancelForm | ClickSubmitForm
  | ClickSource string | ClickRefresh string | ClickToggleSite string | ClickClosePublish
  | ClickContinue | ClickCloseConfirm | ClickConfirm | ClickWrap | ClickCopy | ClickDownload | ClickRetry
  | ClickRetryAll

datatype subs_field =
    FieldName | FieldScheme | FieldURL | FieldInterval | FieldURI | FieldTypeFilter | FieldStateFilter

definition source_form_blocked :: "subscriptions_page \<Rightarrow> bool" where
  "source_form_blocked s \<longleftrightarrow>
     sourcePending s \<or>
     (case sourceType s of
        SourceHttp \<Rightarrow> trim (sourceName s) = [] \<or> trim (sourceURL s) = []
      | SourceSingleNode \<Rightarrow> trim (singleNodeURI s) = []
      | SourceUpload \<Rightarrow> trim (sourceName s) = [] \<or> uploadFile s = None)"

definition SourceForm :: "translator \<Rightarrow> subscriptions_page \<Rightarrow> (subs_click, subs_field) view" where
  "SourceForm t s =
     DetailDialog t (formAdd s) ''Add source''
       (Some ''Choose a subscription site connection or paste one VLESS / VMess node.'') ClickCloseForm
       ([Txt (t ''Source type'' []),
         Chk (t ''Subscription site connection'' []) (sourceType s = SourceHttp) False (ClickType SourceHttp),
         Chk (t ''Single node'' []) (sourceType s = SourceSingleNode) False (ClickType SourceSingleNode),
         Chk (t ''Subscription file'' []) (sourceType s = SourceUpload) False (ClickType SourceUpload),
         Inp (t (if sourceType s = SourceSingleNode then ''Name (optional)'' else ''Name'') []) (sourceName s)
           False FieldName] @
        (case sourceType s of
           SourceHttp \<Rightarrow>
             [Sel (t ''Protocol'' []) (scheme_text (sourceScheme s)) [(''http'', ''HTTP''), (''https'', ''HTTPS'')]
                False FieldScheme,
              Inp (t ''Subscription URL'' []) (sourceURL s) False FieldURL,
              Sel (t ''Refresh interval'' []) (fetchInterval s)
                [(''3600'', t ''1 hour'' []), (''21600'', t ''6 hours'' []), (''86400'', t ''24 hours'' [])]
                False FieldInterval]
         | SourceSingleNode \<Rightarrow> [Inp (t ''Single-node URI'' []) (singleNodeURI s) False FieldURI]
         | SourceUpload \<Rightarrow> [Txt (t ''Subscription file'' [])]) @
        [Btn (t ''Cancel'' []) (sourcePending s) ClickCancelForm,
         Btn (if sourcePending s then t ''Adding...'' [] else t ''Add source'' []) (source_form_blocked s)
           ClickSubmitForm])"

definition source_row ::
    "translator \<Rightarrow> (string \<Rightarrow> string) \<Rightarrow> bool \<Rightarrow> (string \<Rightarrow> refresh_button) \<Rightarrow> SubscriptionSource
       \<Rightarrow> (subs_click, subs_field) view" where
  "source_row t fdate refreshing buttons src =
     Grp (src_id src)
       ([Btn (src_name src) False (ClickSource (src_id src)),
         Txt (if src_source_type src = SourceHttp then src_url_hint src
              else t (if src_source_type src = SourceSingleNode then ''Single VLESS or VMess node''
                      else ''Imported file'') []),
         Txt (t ''Created {date}'' [(''date'', fdate (src_created_at src))]),
         Txt (t ''Updated {date}'' [(''date'', fdate (src_updated_at src))])] @
        show_if (src_refreshable src)
          [RefreshButton t (t ''Refresh {name}'' [(''name'', src_name src)]) refreshing (ClickRefresh (src_id src))
             (buttons (src_id src))] @
        [StatusBadge t (source_state_text (sourceRefreshState src))])"

definition PublishSitesDialog ::
    "translator \<Rightarrow> (int \<Rightarrow> string) \<Rightarrow> (string \<Rightarrow> string) \<Rightarrow> subscriptions_page \<Rightarrow> (subs_click, subs_field) view" where
  "PublishSitesDialog t fnum fdate s =
     DetailDialog t (publishTarget s \<noteq> None) ''Publish subscription version''
       (Some ''Review the selected source and choose one or more deployment sites.'') ClickClosePublish
       (case publishTarget s of
          None \<Rightarrow> []
        | Some v \<Rightarrow>
            [Txt (case currentSource s of None \<Rightarrow> [] | Some src \<Rightarrow> src_name src),
             Txt (fdate (sv_fetched_at v)),
             StatusBadge t (if sv_published v then ''published'' else ''ready''),
             Txt (t ''{count} selected'' [(''count'', fnum (int (length (selectedSiteIds s))))]),
             Grp ''sites''
               (map (\<lambda>site. Chk (t (site_name site) []) (site_id site \<in> set (selectedSiteIds s))
                      (site_id site \<notin> set (deployableSiteIds s)) (ClickToggleSite (site_id site)))
                 (query_list (subs_sites s))),
             Txt (t ''Choose one or more sites to create a release. No sites are selected by default.'' []),
             Btn (t ''Cancel'' []) False ClickClosePublish,
             Btn (t ''Continue'' []) (selectedSiteIds s = []) ClickContinue])"

definition VersionDetail ::
    "translator \<Rightarrow> (int \<Rightarrow> string) \<Rightarrow> (int \<Rightarrow> string) \<Rightarrow> (string \<Rightarrow> string) \<Rightarrow> string
       \<Rightarrow> SubscriptionVersionContent query \<Rightarrow> bool \<Rightarrow> SubscriptionVersion \<Rightarrow> (subs_click, subs_field) view" where
  "VersionDetail t fnum fbytes fdate sourceNm content wrapLines version =
     (let available = truthy_str (map_option svc_content (q_data content))
      in Grp ''detail''
        [Txt (t ''SELECTED VERSION'' []), Txt sourceNm,
         Txt (format_text (sv_format version)), Txt (fbytes (sv_size_bytes version)),
         Txt (t ''Fetched {date}'' [(''date'', fdate (sv_fetched_at version))]),
         StatusBadge t (if sv_parse_ok version then ''valid'' else ''failed''),
         Txt (versionLabel fnum (Some version)), Txt (shortHash (sv_content_hash version) 18),
         Txt (fnum (sv_node_count version)),
         StatusBadge t (if sv_published version then ''published'' else ''ready''),
         Btn (t (if wrapLines then ''No wrap'' else ''Wrap lines'') []) False ClickWrap,
         Btn (t ''Copy'' []) (\<not> available) ClickCopy,
         Btn (t ''Download'' []) (\<not> available) ClickDownload,
         (if q_loading content then LoadingState t 8
          else if q_isError content then ErrorState t (the (q_error content)) (Some ClickRetry)
          else case q_data content of
                 Some d \<Rightarrow> Grp (document_language (format_text (sv_format version)))
                             (map (\<lambda>p. Txt (part_text p)) (HighlightedDocument (svc_content d)))
               | None \<Rightarrow> EmptyState t (t ''No source content'' []) None [])])"

definition SubscriptionsPage ::
    "translator \<Rightarrow> (int \<Rightarrow> string) \<Rightarrow> (int \<Rightarrow> string) \<Rightarrow> (string \<Rightarrow> string) \<Rightarrow> (string \<Rightarrow> int)
       \<Rightarrow> bool option \<Rightarrow> SubscriptionVersionContent query \<Rightarrow> bool \<Rightarrow> subscriptions_page \<Rightarrow> (subs_click, subs_field) view" where
  "SubscriptionsPage t fnum fbytes fdate time session content wrapLines s =
     gated t 8 session
      (guarded t 8 (q_loading (catalog s) \<or> q_loading (subs_sites s) \<or> q_loading (subs_nodes s))
        (first_error [q_error (catalog s), q_error (subs_sites s), q_error (subs_nodes s)]) ClickRetryAll
      (Grp ''page''
       [Txt (t ''Subscriptions'' []),
        Btn (t ''Publish'' [])
          (case currentVersion s of None \<Rightarrow> True | Some v \<Rightarrow> \<not> sv_parse_ok v) ClickPublish,
        Btn (t ''Add source'' []) False ClickAdd,
        SourceForm t s,
        Txt (t ''{count} shown'' [(''count'', fnum (int (length (filteredSourceItems time s))))]),
        FilterSelect t ''Source type'' (case sourceTypeFilter s of None \<Rightarrow> [] | Some ty \<Rightarrow> source_type_text ty)
          FieldTypeFilter
          [([], ''All types''), (''http'', ''Subscription site connection''), (''single_node'', ''Single node''),
           (''upload'', ''Subscription file'')],
        FilterSelect t ''State'' (case sourceStateFilter s of None \<Rightarrow> [] | Some st \<Rightarrow> source_state_text st)
          FieldStateFilter
          [([], ''All states''), (''current'', ''current''), (''failed'', ''failed''), (''pending'', ''pending'')],
        (if sourceItems s \<noteq> [] then
           (if filteredSourceItems time s \<noteq> [] then
              Grp ''sources'' (map (source_row t fdate (mut_pending (refreshSource s)) (refreshButtons s))
               (filteredSourceItems time s))
            else EmptyState t ''No matching sources'' (Some ''Change the source type or state filter.'') [])
         else EmptyState t ''No subscription sources'' (Some ''Add a subscription site or a single node.'') []),
        (case currentVersion s of
           Some v \<Rightarrow> VersionDetail t fnum fbytes fdate
                      (case currentSource s of None \<Rightarrow> [] | Some src \<Rightarrow> src_name src) content wrapLines v
         | None \<Rightarrow> EmptyState t ''Select a source version''
                    (Some ''Parsed versions are available after a refresh or file import.'') []),
        PublishSitesDialog t fnum fdate s,
        ConfirmDialog t (confirmTarget s \<noteq> None) ''Publish subscription version''
          (case confirmTarget s of
             None \<Rightarrow> []
           | Some v \<Rightarrow> t ''Release {version} to {count} selected sites. Each edge node validates and acknowledges the new outbound configuration independently.''
               [(''version'', versionLabel fnum (Some v)),
                (''count'', fnum (int (length (selectedSiteIds s))))])
          ''Publish version'' (mut_pending (publish s)) ClickCloseConfirm ClickConfirm []]))"

section \<open>Events\<close>

fun subs_on_click :: "key_gen \<Rightarrow> subs_click \<Rightarrow> subscriptions_page \<Rightarrow> subscriptions_page" where
  "subs_on_click gen ClickPublish s = open_publish s"
| "subs_on_click gen ClickAdd s = open_add_form s"
| "subs_on_click gen ClickCloseForm s = (if \<not> sourcePending s then s\<lparr>formAdd := False\<rparr> else s)"
| "subs_on_click gen (ClickType ty) s = s\<lparr>sourceType := ty\<rparr>"
| "subs_on_click gen ClickCancelForm s = s\<lparr>formAdd := False\<rparr>"
| "subs_on_click gen ClickSubmitForm s = submitSource gen s"
| "subs_on_click gen (ClickSource i) s = s\<lparr>selectedSourceId := i, selectedVersionId := []\<rparr>"
| "subs_on_click gen (ClickRefresh i) s = refresh_source gen i s"
| "subs_on_click gen (ClickToggleSite i) s = toggleSite i s"
| "subs_on_click gen ClickClosePublish s = s\<lparr>publishTarget := None\<rparr>"
| "subs_on_click gen ClickContinue s = continue_publish s"
| "subs_on_click gen ClickCloseConfirm s = s\<lparr>confirmTarget := None\<rparr>"
| "subs_on_click gen ClickConfirm s = confirm_publish gen s"
| "subs_on_click gen ClickWrap s = s"
| "subs_on_click gen ClickCopy s = s"
| "subs_on_click gen ClickDownload s = s"
| "subs_on_click gen ClickRetry s = s"
| "subs_on_click gen ClickRetryAll s = s"

definition scheme_of :: "string \<Rightarrow> SourceScheme" where
  "scheme_of v = (if v = ''https'' then SchemeHttps else SchemeHttp)"

fun subs_on_edit :: "subs_field \<Rightarrow> string \<Rightarrow> subscriptions_page \<Rightarrow> subscriptions_page" where
  "subs_on_edit FieldName v s = s\<lparr>sourceName := v\<rparr>"
| "subs_on_edit FieldScheme v s = s\<lparr>sourceScheme := scheme_of v, sourceURL := strip_scheme (sourceURL s)\<rparr>"
| "subs_on_edit FieldURL v s =
     (let (scheme, url) = applySourceURLInput v
      in (case scheme of None \<Rightarrow> s | Some x \<Rightarrow> s\<lparr>sourceScheme := x\<rparr>)\<lparr>sourceURL := url\<rparr>)"
| "subs_on_edit FieldInterval v s = s\<lparr>fetchInterval := v\<rparr>"
| "subs_on_edit FieldURI v s = s\<lparr>singleNodeURI := v\<rparr>"
| "subs_on_edit FieldTypeFilter v s =
     s\<lparr>sourceTypeFilter := (if v = ''http'' then Some SourceHttp else if v = ''single_node'' then Some SourceSingleNode
        else if v = ''upload'' then Some SourceUpload else None)\<rparr>"
| "subs_on_edit FieldStateFilter v s =
     s\<lparr>sourceStateFilter := (if v = ''current'' then Some StateCurrent else if v = ''failed'' then Some StateFailed
        else if v = ''pending'' then Some StatePending else None)\<rparr>"

text \<open>Messages: query results, a chosen file, effects after a render, ends of mutations; for a refresh button the
  end of the wait for its task, the end of its success mark, its rendering, and a new mount of its row, which
  starts with a fresh button.\<close>

datatype subs_message =
    GotCatalog "SubscriptionCatalog query" | GotSites "Site list query" | GotNodes "Node list query"
  | GotFile "(string \<times> string) option" | RanEffects "string \<Rightarrow> int"
  | CreatedSource "string + string" | CreatedSingle "string + string \<times> string"
  | Uploaded "string + string \<times> string" | Published "string + string list"
  | Refreshed translator string "string + string" | RefreshWaited translator string "nat \<Rightarrow> string + Task"
  | RefreshMarkEnds string | RefreshRendered string | RefreshMounted string

fun subs_on_message :: "subs_message \<Rightarrow> subscriptions_page \<Rightarrow> subscriptions_page" where
  "subs_on_message (GotCatalog q) s = s\<lparr>catalog := q\<rparr>"
| "subs_on_message (GotSites q) s = s\<lparr>subs_sites := q\<rparr>"
| "subs_on_message (GotNodes q) s = s\<lparr>subs_nodes := q\<rparr>"
| "subs_on_message (GotFile f) s = s\<lparr>uploadFile := f\<rparr>"
| "subs_on_message (RanEffects time) s = subs_effects time s"
| "subs_on_message (CreatedSource r) s =
     (case r of Inr i \<Rightarrow> created_source i s | Inl e \<Rightarrow> s\<lparr>sourceCreate := MutError e\<rparr>)"
| "subs_on_message (CreatedSingle r) s =
     (case r of Inr (i, v) \<Rightarrow> created_single_node i v s | Inl e \<Rightarrow> s\<lparr>singleNodeCreate := MutError e\<rparr>)"
| "subs_on_message (Uploaded r) s =
     (case r of Inr (i, v) \<Rightarrow> uploaded i v s | Inl e \<Rightarrow> s\<lparr>upload := MutError e\<rparr>)"
| "subs_on_message (Refreshed t i r) s = refresh_answered t i r s"
| "subs_on_message (RefreshWaited t i poll) s = refresh_waited t i poll s"
| "subs_on_message (RefreshMarkEnds i) s =
     (if rb_timers (refreshButtons s i) = 0 then s
      else s\<lparr>refreshButtons := (refreshButtons s)(i := refresh_timer (refreshButtons s i))\<rparr>)"
| "subs_on_message (RefreshRendered i) s =
     s\<lparr>refreshButtons := (refreshButtons s)(i := refresh_render (refreshButtons s i))\<rparr>"
| "subs_on_message (RefreshMounted i) s = s\<lparr>refreshButtons := (refreshButtons s)(i := refresh_init)\<rparr>"
| "subs_on_message (Published r) s =
     (case r of Inr ids \<Rightarrow> published ids s | Inl e \<Rightarrow> s\<lparr>publish := MutError e\<rparr>)"

definition subs_start :: "subscriptions_page \<Rightarrow> bool" where
  "subs_start s \<longleftrightarrow>
     \<not> formAdd s \<and> selectedSiteIds s = [] \<and> publishTarget s = None \<and> confirmTarget s = None \<and>
     publish s = MutIdle \<and> refreshButtons s = (\<lambda>_. refresh_init)"

section \<open>Invariant\<close>

definition subs_inv :: "subscriptions_page \<Rightarrow> bool" where
  "subs_inv s \<longleftrightarrow>
     distinct (selectedSiteIds s) \<and>
     (\<forall>v. publishTarget s = Some v \<longrightarrow> sv_parse_ok v) \<and>
     (\<forall>v. confirmTarget s = Some v \<longrightarrow> sv_parse_ok v) \<and>
     (\<forall>i. refresh_inv (refreshButtons s i))"

lemma can_click_publish_parts:
  "\<not> can_click (SourceForm t s) ClickPublish" "\<not> can_click (source_row t fd b bs src) ClickPublish"
  "\<not> can_click (PublishSitesDialog t fn fd s) ClickPublish"
  "\<not> can_click (VersionDetail t fn fb fd nm content wrap v) ClickPublish"
  by (auto simp: SourceForm_def source_row_def RefreshButton_def PublishSitesDialog_def VersionDetail_def Let_def list_ex_iff
        split: option.splits SourceType.splits if_splits)

lemma can_click_confirm_parts:
  "\<not> can_click (SourceForm t s) ClickConfirm" "\<not> can_click (source_row t fd b bs src) ClickConfirm"
  "\<not> can_click (PublishSitesDialog t fn fd s) ClickConfirm"
  "\<not> can_click (VersionDetail t fn fb fd nm content wrap v) ClickConfirm"
  by (auto simp: SourceForm_def source_row_def RefreshButton_def PublishSitesDialog_def VersionDetail_def Let_def list_ex_iff
        split: option.splits SourceType.splits if_splits)

lemma can_click_continue_parts:
  "\<not> can_click (SourceForm t s) ClickContinue" "\<not> can_click (source_row t fd b bs src) ClickContinue"
  "can_click (PublishSitesDialog t fn fd s) ClickContinue \<Longrightarrow> selectedSiteIds s \<noteq> []"
  "\<not> can_click (VersionDetail t fn fb fd nm content wrap v) ClickContinue"
  by (auto simp: SourceForm_def source_row_def RefreshButton_def PublishSitesDialog_def VersionDetail_def Let_def list_ex_iff
        split: option.splits SourceType.splits if_splits)

lemma can_click_publish:
  "can_click (SubscriptionsPage t fn fb fd time session content wrap s) ClickPublish \<Longrightarrow>
     \<exists>v. currentVersion s = Some v \<and> sv_parse_ok v"
  by (auto simp: SubscriptionsPage_def can_click_publish_parts split: option.splits if_splits)

lemma can_click_confirm:
  "can_click (SubscriptionsPage t fn fb fd time session content wrap s) ClickConfirm \<Longrightarrow> \<not> mut_pending (publish s)"
  by (auto simp: SubscriptionsPage_def can_click_confirm_parts split: option.splits if_splits)

lemma can_click_continue:
  "can_click (SubscriptionsPage t fn fb fd time session content wrap s) ClickContinue \<Longrightarrow> selectedSiteIds s \<noteq> []"
  by (auto simp: SubscriptionsPage_def can_click_continue_parts split: option.splits if_splits)

lemma currentVersion_listed: "currentVersion s = Some v \<Longrightarrow> v \<in> set (versionItems s)"
  by (auto simp: currentVersion_def currentVersions_def or_else_def dest!: find_first_Some head_opt_in
      split: option.splits)

text \<open>What the events do to the publishing state.\<close>

lemma click_publishes:
  "publish (subs_on_click gen c s) \<noteq> publish s \<Longrightarrow>
     c = ClickConfirm \<and> (\<exists>v. confirmTarget s = Some v \<and>
       publish (subs_on_click gen c s) =
         MutPending (publishSubscriptionVersion gen (sv_source_id v) (sv_id v) (selectedSiteIds s)))"
  by (cases c) (auto simp: open_publish_def open_add_form_def submitSource_def toggleSite_def continue_publish_def
      confirm_publish_def refresh_source_def Let_def split: option.splits if_splits)

lemma click_targets:
  "confirmTarget (subs_on_click gen c s) = Some v \<Longrightarrow>
     confirmTarget s = Some v \<or> c = ClickContinue \<and> publishTarget s = Some v"
  "publishTarget (subs_on_click gen c s) = Some v \<Longrightarrow>
     publishTarget s = Some v \<or> c = ClickPublish \<and> currentVersion s = Some v"
  by (cases c; auto simp: open_publish_def open_add_form_def submitSource_def toggleSite_def continue_publish_def
      confirm_publish_def refresh_source_def Let_def split: option.splits if_splits)+

lemmas message_defs =
  subs_effects_def created_source_def created_single_node_def uploaded_def published_def refresh_answered_def
  refresh_waited_def end_refresh_def Let_def

lemma message_publishes_nothing:
  "mut_pending (publish (subs_on_message m s)) \<Longrightarrow> publish (subs_on_message m s) = publish s"
  "publishTarget (subs_on_message m s) \<in> {None, publishTarget s}"
  "confirmTarget (subs_on_message m s) \<in> {None, confirmTarget s}"
  by (cases m; auto simp: message_defs split: sum.splits option.splits list.splits if_splits)+

lemma edit_publishes_nothing:
  "publish (subs_on_edit f v s) = publish s" "publishTarget (subs_on_edit f v s) = publishTarget s"
  "confirmTarget (subs_on_edit f v s) = confirmTarget s" "selectedSiteIds (subs_on_edit f v s) = selectedSiteIds s"
  "refreshButtons (subs_on_edit f v s) = refreshButtons s"
  by (cases f; auto simp: split_beta Let_def split: option.splits)+

text \<open>The buttons of the rows follow the machine of the refresh button.\<close>

lemma buttons_click:
  "refreshButtons (subs_on_click gen c s) i = refreshButtons s i \<or>
   (\<exists>disabled. refreshButtons (subs_on_click gen c s) i = refresh disabled (refreshButtons s i))"
  by (cases c) (auto simp: open_publish_def open_add_form_def submitSource_def toggleSite_def continue_publish_def
      confirm_publish_def refresh_source_def Let_def split: option.splits)

lemma buttons_message:
  "refreshButtons (subs_on_message m s) i \<in> {refreshButtons s i, refresh_init} \<or>
   refresh_step (refreshButtons s i) (refreshButtons (subs_on_message m s) i)"
  by (cases m) (auto simp: message_defs intro: refresh_step.intros split: sum.splits option.splits list.splits)

lemma sites_distinct:
  "distinct (selectedSiteIds s) \<Longrightarrow> distinct (selectedSiteIds (subs_on_click gen c s))"
  "distinct (selectedSiteIds s) \<Longrightarrow> distinct (selectedSiteIds (subs_on_message m s))"
  by (cases c; auto simp: open_publish_def open_add_form_def submitSource_def toggleSite_def continue_publish_def
      confirm_publish_def refresh_source_def Let_def intro: inv_intros split: option.splits)
     (cases m; auto simp: message_defs reset_sites_effect_def split: sum.splits option.splits list.splits)

lemma subs_inv_click:
  assumes "subs_inv s" "can_click (SubscriptionsPage t fn fb fd time session content wrap s) c"
  shows "subs_inv (subs_on_click gen c s)"
  unfolding subs_inv_def
proof (intro conjI allI impI)
  fix v i
  show "sv_parse_ok v" if "publishTarget (subs_on_click gen c s) = Some v"
    using click_targets(2) [OF that] assms can_click_publish by (fastforce simp: subs_inv_def)
  show "sv_parse_ok v" if "confirmTarget (subs_on_click gen c s) = Some v"
    using click_targets(1) [OF that] assms(1) by (auto simp: subs_inv_def)
  show "refresh_inv (refreshButtons (subs_on_click gen c s) i)"
    using buttons_click [of gen c s i] assms(1) refresh_inv_step [OF refresh_click] by (auto simp: subs_inv_def)
qed (use assms(1) sites_distinct(1) in \<open>auto simp: subs_inv_def\<close>)

lemma subs_inv_message:
  assumes "subs_inv s"
  shows "subs_inv (subs_on_message m s)"
  unfolding subs_inv_def
proof (intro conjI allI impI)
  fix v i
  show "sv_parse_ok v" if "publishTarget (subs_on_message m s) = Some v"
    using message_publishes_nothing(2) [of m s] that assms by (auto simp: subs_inv_def)
  show "sv_parse_ok v" if "confirmTarget (subs_on_message m s) = Some v"
    using message_publishes_nothing(3) [of m s] that assms by (auto simp: subs_inv_def)
  have "refresh_inv refresh_init" by (simp add: refresh_init_def refresh_inv_def)
  then show "refresh_inv (refreshButtons (subs_on_message m s) i)"
    using buttons_message [of m s i] assms refresh_inv_step by (auto simp: subs_inv_def)
qed (use assms sites_distinct(2) in \<open>auto simp: subs_inv_def\<close>)

interpretation sp: component subs_start
    "\<lambda>(t, fn, fb, fd, time, session, content, wrap). SubscriptionsPage t fn fb fd time session content wrap"
    "subs_on_click gen" subs_on_edit subs_on_message subs_inv
proof unfold_locales
  show "subs_inv s" if "subs_start s" for s
    using that by (simp add: subs_start_def subs_inv_def refresh_init_def refresh_inv_def)
  show "subs_inv (subs_on_edit f v s)" if "subs_inv s" for f v s
    using that by (simp add: subs_inv_def edit_publishes_nothing)
qed (auto simp: subs_inv_click subs_inv_message)

section \<open>Properties\<close>

text \<open>C12: only parsed versions are published, and exactly as the operator confirmed.  In every reachable state the
  publish dialog and the confirmation are about a version that parsed; the publish dialog opens only on the
  version on display, which the catalog lists; the confirmation opens only on the version of the publish dialog,
  with a site selected.  A publish request starts only with the confirmation, when none is under way, and asks for
  the source and the version that are being confirmed and for the selected sites, each once; no other click, no
  edit and no message starts one or puts another version up for publishing.\<close>

theorem only_parsed_versions_published:
  assumes "sp.reachable gen s" "can_click (SubscriptionsPage t fn fb fd time session content wrap s) c"
  shows "(\<forall>v. publishTarget s = Some v \<or> confirmTarget s = Some v \<longrightarrow> sv_parse_ok v) \<and>
     distinct (selectedSiteIds s) \<and>
     (\<forall>v. publishTarget (subs_on_click gen c s) = Some v \<and> publishTarget s \<noteq> Some v \<longrightarrow>
        c = ClickPublish \<and> currentVersion s = Some v \<and> v \<in> set (versionItems s)) \<and>
     (\<forall>v. confirmTarget (subs_on_click gen c s) = Some v \<and> confirmTarget s \<noteq> Some v \<longrightarrow>
        c = ClickContinue \<and> publishTarget s = Some v \<and> selectedSiteIds s \<noteq> []) \<and>
     (publish (subs_on_click gen c s) \<noteq> publish s \<longrightarrow>
        c = ClickConfirm \<and> \<not> mut_pending (publish s) \<and>
        (\<exists>v. confirmTarget s = Some v \<and> sv_parse_ok v \<and>
           publish (subs_on_click gen c s) =
             MutPending (keyed_post
               (''/api/v1/subscriptions/'' @ sv_source_id v @ ''/versions/'' @ sv_id v @ ''/publish'')
               (JObj [(''site_ids'', JArr (map JStr (selectedSiteIds s))),
                      (''note'', JStr ''Published from operations console'')])
               (gen (''subscription.publish:'' @ sv_id v))))) \<and>
     (\<forall>f x. publish (subs_on_edit f x s) = publish s \<and> publishTarget (subs_on_edit f x s) = publishTarget s \<and>
        confirmTarget (subs_on_edit f x s) = confirmTarget s) \<and>
     (\<forall>m. (mut_pending (publish (subs_on_message m s)) \<longrightarrow> publish (subs_on_message m s) = publish s) \<and>
        publishTarget (subs_on_message m s) \<in> {None, publishTarget s} \<and>
        confirmTarget (subs_on_message m s) \<in> {None, confirmTarget s})"
proof -
  have inv: "subs_inv s" by (rule sp.reachable_inv [OF assms(1)])
  have "publish (subs_on_click gen c s) \<noteq> publish s \<longrightarrow>
        c = ClickConfirm \<and> \<not> mut_pending (publish s) \<and>
        (\<exists>v. confirmTarget s = Some v \<and> sv_parse_ok v \<and>
           publish (subs_on_click gen c s) =
             MutPending (publishSubscriptionVersion gen (sv_source_id v) (sv_id v) (selectedSiteIds s)))"
    using click_publishes [of gen c s] can_click_confirm assms(2) inv by (auto simp: subs_inv_def)
  moreover have "confirmTarget (subs_on_click gen c s) = Some v \<and> confirmTarget s \<noteq> Some v \<longrightarrow>
        c = ClickContinue \<and> publishTarget s = Some v \<and> selectedSiteIds s \<noteq> []" for v
    using click_targets(1) [of gen c s v] can_click_continue assms(2) by auto
  moreover have "publishTarget (subs_on_click gen c s) = Some v \<and> publishTarget s \<noteq> Some v \<longrightarrow>
        c = ClickPublish \<and> currentVersion s = Some v \<and> v \<in> set (versionItems s)" for v
    using click_targets(2) [of gen c s v] currentVersion_listed by auto
  moreover have "\<forall>v. publishTarget s = Some v \<or> confirmTarget s = Some v \<longrightarrow> sv_parse_ok v" "distinct (selectedSiteIds s)"
    using inv by (auto simp: subs_inv_def)
  ultimately show ?thesis
    using message_publishes_nothing [of _ s] edit_publishes_nothing(1-3) [of _ _ s]
    unfolding publishSubscriptionVersion_def str_array_def by blast
qed

definition demo_subs :: subscriptions_page where
  "demo_subs = \<lparr>formAdd = False, sourceType = SourceHttp, sourceTypeFilter = None, sourceStateFilter = None,
     sourceName = [], sourceScheme = SchemeHttp, sourceURL = [], fetchInterval = ''21600'', singleNodeURI = [],
     uploadFile = None, selectedSourceId = [], selectedVersionId = [], selectedSiteIds = [],
     publishTarget = None, confirmTarget = None, previousVersionId = [], sourceCreate = MutIdle,
     singleNodeCreate = MutIdle, upload = MutIdle, refreshSource = MutIdle, publish = MutIdle,
     refreshButtons = (\<lambda>_. refresh_init),
     catalog = empty_query, subs_sites = empty_query, subs_nodes = empty_query, subs_routes = []\<rparr>"

definition demo_version :: "string \<Rightarrow> SubscriptionVersion" where
  "demo_version i = \<lparr>sv_id = i, sv_source_id = ''src'', sv_version = 1, sv_content_hash = ''h'',
     sv_size_bytes = 1, sv_format = FormatClash, sv_fetched_at = [], sv_parse_ok = True, sv_parse_error = [],
     sv_node_count = 1, sv_published = False, sv_created_at = []\<rparr>"

definition demo_source :: SubscriptionSource where
  "demo_source = \<lparr>src_id = ''src'', src_name = ''S'', src_source_type = SourceHttp, src_url_hint = [],
     src_fetch_interval_sec = 3600, src_max_body_bytes = 1, src_redirect_limit = 1, src_enabled = True,
     src_refreshable = True, src_last_refresh_at = None, src_last_refresh_attempt_at = None,
     src_last_refresh_error = [], src_consecutive_failures = 0, src_created_at = [], src_updated_at = []\<rparr>"

text \<open>The demonstration page has loaded one source with one parsed version and one site with a node.\<close>

definition demo_subs_loaded :: subscriptions_page where
  "demo_subs_loaded = demo_subs\<lparr>catalog :=
       loaded \<lparr>cat_sources = [demo_source], cat_versions = [demo_version ''v1''], cat_site_subscriptions = []\<rparr>,
     subs_sites := loaded [sample_site ''b''], subs_nodes := loaded [sample_node ''b'' ''n1'']\<rparr>"

lemmas demo_subs_simps =
  demo_subs_loaded_def demo_subs_def demo_source_def demo_version_def sample_site_def sample_node_def loaded_def
  query_list_def first_error_def find_first_def currentVersion_def currentVersions_def currentSource_def
  sourceItems_def versionItems_def deployableSiteIds_def toggle_def

theorem only_parsed_versions_published_witness:
  "let s = fold (subs_on_click (\<lambda>k. k)) [ClickPublish, ClickToggleSite ''b'', ClickContinue] demo_subs_loaded
   in publish (subs_on_click (\<lambda>k. k) ClickConfirm s) =
        MutPending (keyed_post ''/api/v1/subscriptions/src/versions/v1/publish''
          (JObj [(''site_ids'', JArr [JStr ''b'']), (''note'', JStr ''Published from operations console'')])
          ''subscription.publish:v1'')"
proof -
  let ?g = "\<lambda>k. k :: string"
  let ?e = "(plain, (\<lambda>_. []), (\<lambda>_. []), (\<lambda>_. []), (\<lambda>_. 0), Some True, empty_query, False)"
  let ?R = "\<lambda>(t, fn, fb, fd, time, session, content, wrap). SubscriptionsPage t fn fb fd time session content wrap"
  let ?s1 = "subs_on_click ?g ClickPublish demo_subs_loaded"
  let ?s2 = "subs_on_click ?g (ClickToggleSite ''b'') ?s1"
  let ?s3 = "subs_on_click ?g ClickContinue ?s2"
  have "sp.reachable ?g demo_subs_loaded"
    by (rule sp.reach_start) (simp add: subs_start_def demo_subs_loaded_def demo_subs_def)
  moreover have "can_click (?R ?e demo_subs_loaded) ClickPublish"
    by (simp add: SubscriptionsPage_def demo_subs_simps)
  ultimately have r1: "sp.reachable ?g ?s1" by (rule sp.reach_click)
  have s1: "?s1 = demo_subs_loaded\<lparr>publishTarget := Some (demo_version ''v1'')\<rparr>"
    by (simp add: open_publish_def demo_subs_simps)
  have "can_click (?R ?e ?s1) (ClickToggleSite ''b'')"
    unfolding s1 by (simp add: SubscriptionsPage_def PublishSitesDialog_def demo_subs_simps)
  with r1 have r2: "sp.reachable ?g ?s2" by (rule sp.reach_click)
  have s2: "?s2 = demo_subs_loaded\<lparr>publishTarget := Some (demo_version ''v1''), selectedSiteIds := [''b'']\<rparr>"
    unfolding s1 by (simp add: toggleSite_def demo_subs_simps)
  have "can_click (?R ?e ?s2) ClickContinue"
    unfolding s2 by (simp add: SubscriptionsPage_def PublishSitesDialog_def demo_subs_simps)
  with r2 have r3: "sp.reachable ?g ?s3" by (rule sp.reach_click)
  have s3: "?s3 = demo_subs_loaded\<lparr>confirmTarget := Some (demo_version ''v1''), selectedSiteIds := [''b'']\<rparr>"
    unfolding s2 by (simp add: continue_publish_def demo_subs_simps)
  have "can_click (?R ?e ?s3) ClickConfirm"
    unfolding s3 by (simp add: SubscriptionsPage_def demo_subs_simps)
  then have c: "can_click (SubscriptionsPage plain (\<lambda>_. []) (\<lambda>_. []) (\<lambda>_. []) (\<lambda>_. 0) (Some True) empty_query False ?s3) ClickConfirm"
    by (simp only: prod.case)
  have "publish (subs_on_click ?g ClickConfirm ?s3) \<noteq> publish ?s3" "confirmTarget ?s3 = Some (demo_version ''v1'')"
      "selectedSiteIds ?s3 = [''b'']"
    unfolding s3 by (simp_all add: confirm_publish_def demo_subs_loaded_def demo_subs_def)
  with only_parsed_versions_published [OF r3 c] show ?thesis by (auto simp: demo_version_def Let_def)
qed

lemma match_scheme_compose:
  "match_scheme (scheme_text sch @ ''://'' @ r) = Some (sch, r)"
  by (cases sch) (simp_all add: match_scheme_def to_lower_def lower_char_def)

lemma match_scheme_suffix: "match_scheme s = Some (sch, r) \<Longrightarrow> \<exists>p. p \<noteq> [] \<and> s = p @ r"
proof -
  assume m: "match_scheme s = Some (sch, r)"
  then have "s \<noteq> []" by (auto simp: match_scheme_def to_lower_def)
  with m obtain n where n: "r = drop n s" "take n s \<noteq> []"
    unfolding match_scheme_def by (metis option.inject option.distinct(1) prod.inject take_eq_Nil zero_neq_numeral)
  then show ?thesis by (metis append_take_drop_id)
qed

lemma last_strip_scheme: "strip_scheme s \<noteq> [] \<Longrightarrow> last (strip_scheme s) = last s"
  by (auto simp: strip_scheme_def split: option.splits dest!: match_scheme_suffix)

lemma trim_compose: "trim (composeSourceURL sch v) = composeSourceURL sch v"
proof (rule trim_id)
  let ?r = "strip_scheme (trim v)"
  have "\<not> is_ws (last (composeSourceURL sch v))"
  proof (cases "?r = []")
    case True
    then show ?thesis by (simp add: composeSourceURL_def is_ws_def)
  next
    case False
    then have "trim v \<noteq> []"
      by (metis strip_scheme_def match_scheme_suffix append_is_Nil_conv option.case_eq_if option.exhaust_sel prod.collapse
          prod.case_eq_if option.simps(5))
    with False show ?thesis using last_strip_scheme last_trim by (simp add: composeSourceURL_def)
  qed
  moreover have "\<not> is_ws (hd (composeSourceURL sch v))"
    by (cases sch) (simp_all add: composeSourceURL_def is_ws_def)
  ultimately show "composeSourceURL sch v = [] \<or>
      \<not> is_ws (hd (composeSourceURL sch v)) \<and> \<not> is_ws (last (composeSourceURL sch v))" by blast
qed

text \<open>The address of a source always carries the chosen scheme exactly as chosen: it is read back
  from the composed address, and composing an address again changes nothing.\<close>

theorem source_url_scheme:
  "schemeFromURL (composeSourceURL scheme v) = Some scheme \<and>
   composeSourceURL scheme (composeSourceURL scheme v) = composeSourceURL scheme v \<and>
   applySourceURLInput (composeSourceURL scheme v) = (Some scheme, strip_scheme (trim v))"
proof -
  have m: "match_scheme (trim (composeSourceURL scheme v)) = Some (scheme, strip_scheme (trim v))"
    by (simp only: trim_compose) (simp add: composeSourceURL_def match_scheme_compose del: append.simps)
  then have "schemeFromURL (composeSourceURL scheme v) = Some scheme" by (simp add: schemeFromURL_def)
  moreover from m have "strip_scheme (trim (composeSourceURL scheme v)) = strip_scheme (trim v)"
    by (simp add: strip_scheme_def [of "trim (composeSourceURL scheme v)"])
  ultimately show ?thesis by (simp add: applySourceURLInput_def composeSourceURL_def [of scheme "composeSourceURL scheme v"])
       (simp add: composeSourceURL_def)
qed

definition decisive :: "string + Task \<Rightarrow> bool" where
  "decisive r \<longleftrightarrow> (case r of Inl _ \<Rightarrow> True | Inr task \<Rightarrow> isFinishedRefreshTask task)"

definition outcome :: "string + Task \<Rightarrow> string + Task" where
  "outcome r =
     (case r of
        Inl err \<Rightarrow> Inl err
      | Inr task \<Rightarrow> if task_status task \<noteq> ''succeeded''
          then Inl (or_str (task_error task) ''subscription_refresh_failed'') else Inr task)"

lemma wait_from_decisive: "decisive (poll n) \<Longrightarrow> wait_from poll n = Some (outcome (poll n))"
  by (subst wait_from.simps) (auto simp: decisive_def outcome_def split: sum.splits)

lemma wait_from_next: "\<not> decisive (poll n) \<Longrightarrow> wait_from poll n = wait_from poll (Suc n)"
  by (subst wait_from.simps) (auto simp: decisive_def split: sum.splits)

lemma wait_from_first:
  "(\<forall>i < k. \<not> decisive (poll (n + i))) \<Longrightarrow> wait_from poll n = wait_from poll (n + k)"
proof (induction k)
  case (Suc k)
  then have "wait_from poll n = wait_from poll (n + k)" by simp
  with Suc.prems wait_from_next [of poll "n + k"] show ?case by simp
qed simp

lemma wait_from_sound: "wait_from poll n = Some r \<Longrightarrow> \<exists>k. decisive (poll (n + k))"
proof (rule wait_from.raw_induct [where P = "\<lambda>poll n r. \<exists>k. decisive (poll (n + k))"])
  fix f and poll :: "nat \<Rightarrow> string + Task" and n :: nat and r
  assume ih: "\<And>poll n r. f poll n = Some r \<Longrightarrow> \<exists>k. decisive (poll (n + k))"
    and body: "(case poll n of
        Inl err \<Rightarrow> Some (Inl err)
      | Inr task \<Rightarrow>
          if isFinishedRefreshTask task
          then (if task_status task \<noteq> ''succeeded''
                then Some (Inl (or_str (task_error task) ''subscription_refresh_failed''))
                else Some (Inr task))
          else f poll (n + 1)) = Some r"
  show "\<exists>k. decisive (poll (n + k))"
  proof (cases "decisive (poll n)")
    case True
    then have "decisive (poll (n + 0))" by simp
    then show ?thesis ..
  next
    case False
    with body have "f poll (n + 1) = Some r" by (auto simp: decisive_def split: sum.splits)
    from ih [OF this] obtain k where "decisive (poll (n + 1 + k))" by blast
    then have "decisive (poll (n + (1 + k)))" by (simp add: add.assoc)
    then show ?thesis ..
  qed
qed

lemma wait_from_result:
  "decisive (poll n) \<Longrightarrow> (\<forall>i < n. \<not> decisive (poll i)) \<Longrightarrow> wait_from poll 0 = Some (outcome (poll n))"
  using wait_from_first [of n poll 0] wait_from_decisive [of poll n] by simp

text \<open>C23: waiting for a refresh ends exactly when some request for the task fails or reports a finished
  task, and then with the first of them: the task if it succeeded, its error otherwise.  As long as
  no such answer comes the loop keeps polling.\<close>

theorem wait_for_refresh_complete:
  "waitForRefreshTask poll =
     (if \<exists>n. decisive (poll n) then Some (outcome (poll (LEAST n. decisive (poll n)))) else None)"
proof (cases "\<exists>n. decisive (poll n)")
  case True
  then have "decisive (poll (LEAST n. decisive (poll n)))" by (rule LeastI_ex)
  moreover have "\<forall>i < (LEAST n. decisive (poll n)). \<not> decisive (poll i)" using not_less_Least by blast
  ultimately have "wait_from poll 0 = Some (outcome (poll (LEAST n. decisive (poll n))))"
    by (rule wait_from_result)
  then show ?thesis unfolding waitForRefreshTask_def by (simp only: True if_True)
next
  case False
  have "wait_from poll 0 = None"
  proof (cases "wait_from poll 0")
    case (Some r)
    from wait_from_sound [OF this] False show ?thesis by blast
  qed
  with False show ?thesis by (simp add: waitForRefreshTask_def)
qed

text \<open>The confirmation does not check its sites again: when the version on display changes while
  the confirmation is open (a catalog without that version arrives), the selection is cleared and the
  publish request that follows names no site at all.\<close>

theorem confirm_after_version_change_publishes_nowhere:
  assumes "confirmTarget s = Some v" "currentVersion s = Some w" "previousVersionId s \<noteq> sv_id w"
  shows "publish (confirm_publish gen (subs_effects time s))
     = MutPending (publishSubscriptionVersion gen (sv_source_id v) (sv_id v) [])"
  using assms by (simp add: subs_effects_def reset_sites_effect_def confirm_publish_def Let_def)

theorem confirm_after_version_change_publishes_nowhere_witness:
  "publish (confirm_publish (\<lambda>k. k) (subs_effects (\<lambda>_. 0) (demo_subs\<lparr>catalog :=
       loaded \<lparr>cat_sources = [demo_source], cat_versions = [demo_version ''new''], cat_site_subscriptions = []\<rparr>,
       selectedVersionId := ''old'', previousVersionId := ''old'', selectedSiteIds := [''site-a''],
       confirmTarget := Some (demo_version ''old'')\<rparr>)))
     = MutPending (publishSubscriptionVersion (\<lambda>k. k) ''src'' ''old'' [])"
proof -
  let ?s = "demo_subs\<lparr>catalog :=
       loaded \<lparr>cat_sources = [demo_source], cat_versions = [demo_version ''new''], cat_site_subscriptions = []\<rparr>,
       selectedVersionId := ''old'', previousVersionId := ''old'', selectedSiteIds := [''site-a''],
       confirmTarget := Some (demo_version ''old'')\<rparr>"
  have "confirmTarget ?s = Some (demo_version ''old'')" "currentVersion ?s = Some (demo_version ''new'')"
      "previousVersionId ?s \<noteq> sv_id (demo_version ''new'')"
    by (simp_all add: currentVersion_def currentVersions_def currentSource_def sourceItems_def versionItems_def
          demo_subs_def demo_source_def demo_version_def find_first_def loaded_def)
  from confirm_after_version_change_publishes_nowhere [OF this] show ?thesis by (simp add: demo_version_def)
qed

end
