(* ===== verification/Connections_Page.thy ===== *)
theory Connections_Page
  imports Page_Kit Endpoints
begin

text \<open>
  Connections: \<^verbatim>\<open>src/frontend/app/connections/page.tsx\<close>.  A live view of the connections of all nodes, and
  a history that is read page by page with filters.  The results of the four queries are the
  environment of the page; its clock is part of the state, because the lower time boundary of the
  history is computed when a range is chosen.  Arrow symbols outside the character range of the model
  are parameters.
\<close>

datatype ConnectionView = ViewLive | ViewHistory

record LiveRow = ConnectionLiveItem +
  lr_node_id :: string
  lr_sampled_at :: string

record HistoryRow =
  hr_snapshot :: ConnectionSnapshot
  hr_connection :: "ConnectionLiveItem option"
  hr_key :: string

section \<open>Rows\<close>

definition with_port :: "string \<Rightarrow> string \<Rightarrow> string" where
  "with_port host port = host @ (if port \<noteq> [] then '':'' @ port else [])"

definition destinationLabel :: "'a ConnectionLiveItem_scheme option \<Rightarrow> string" where
  "destinationLabel connection =
     (case connection of
        None \<Rightarrow> []
      | Some c \<Rightarrow> with_port (or_str (cli_dst_host c) (cli_dst_ip c)) (cli_dst_port c))"

definition sourceLabel :: "'a ConnectionLiveItem_scheme option \<Rightarrow> string" where
  "sourceLabel connection =
     (case connection of None \<Rightarrow> [] | Some c \<Rightarrow> with_port (cli_src_ip c) (cli_src_port c))"

definition liveRowsFromSnapshots :: "ConnectionSnapshot list \<Rightarrow> LiveRow list" where
  "liveRowsFromSnapshots snapshots =
     concat (map (\<lambda>s. map (\<lambda>c. ConnectionLiveItem.extend c (LiveRow.fields (cs_node_id s) (cs_sampled_at s)))
                        (or_list (cs_connections s))) snapshots)"

text \<open>The loop pushes the rows of one snapshot after the other.\<close>

fun connection_rows :: "ConnectionSnapshot \<Rightarrow> nat \<Rightarrow> ConnectionLiveItem list \<Rightarrow> HistoryRow list" where
  "connection_rows s index [] = []"
| "connection_rows s index (c # cs) =
     \<lparr>hr_snapshot = s, hr_connection = Some c,
      hr_key = cs_id s @ '':'' @ or_str (cli_id c) (show_nat index)\<rparr> # connection_rows s (index + 1) cs"

fun history_rows :: "HistoryRow list \<Rightarrow> ConnectionSnapshot list \<Rightarrow> HistoryRow list" where
  "history_rows rows [] = rows"
| "history_rows rows (s # ss) =
     (let connections = or_list (cs_connections s)
      in if connections = []
         then history_rows (rows @ [\<lparr>hr_snapshot = s, hr_connection = None, hr_key = cs_id s @ '':summary''\<rparr>]) ss
         else history_rows (rows @ connection_rows s 0 connections) ss)"

definition historyRowsFromSnapshots :: "ConnectionSnapshot list \<Rightarrow> HistoryRow list" where
  "historyRowsFromSnapshots snapshots = history_rows [] snapshots"

section \<open>State\<close>

record connections_page =
  cp_viewMode :: ConnectionView
  cp_siteId :: string
  cp_nodeId :: string
  cp_range :: range_filter
  cp_network :: string
  cp_search :: string
  cp_sourceIp :: string
  cp_destination :: string
  cp_outbound :: string
  historyOffset :: int
  cp_clock :: int

definition connections_init :: "int \<Rightarrow> connections_page" where
  "connections_init now =
     \<lparr>cp_viewMode = ViewLive, cp_siteId = [], cp_nodeId = [], cp_range = range_init now Range24h,
      cp_network = [], cp_search = [], cp_sourceIp = [], cp_destination = [], cp_outbound = [],
      historyOffset = 0, cp_clock = now\<rparr>"

text \<open>The keys under which the query library caches the answers, and the requests behind them.\<close>

definition live_key :: "connections_page \<Rightarrow> json" where
  "live_key s = JArr [JStr ''connections-live'', JStr (cp_siteId s), JStr (cp_nodeId s)]"

definition live_request :: "connections_page \<Rightarrow> api_call" where
  "live_request s = getLiveConnections (opt_str (cp_siteId s)) (opt_str (cp_nodeId s))"

definition history_key :: "connections_page \<Rightarrow> json" where
  "history_key s =
     JArr [JStr ''connections-history'', JStr (cp_siteId s), JStr (cp_nodeId s),
       (case rg_since (cp_range s) of None \<Rightarrow> JNull | Some v \<Rightarrow> JStr v), JStr (cp_network s),
       JStr (cp_search s), JStr (cp_sourceIp s), JStr (cp_destination s), JStr (cp_outbound s),
       JNum (historyOffset s)]"

definition history_filters :: "connections_page \<Rightarrow> HistoryFilters" where
  "history_filters s =
     \<lparr>hf_siteId = opt_str (cp_siteId s), hf_nodeId = opt_str (cp_nodeId s),
      hf_since = rg_since (cp_range s), hf_until = None,
      hf_sourceIp = opt_str (trim (cp_sourceIp s)), hf_destination = opt_str (trim (cp_destination s)),
      hf_network = opt_str (cp_network s), hf_outbound = opt_str (trim (cp_outbound s)),
      hf_search = opt_str (trim (cp_search s)), hf_limit = Some 100, hf_offset = Some (historyOffset s)\<rparr>"

definition history_request :: "connections_page \<Rightarrow> api_call" where
  "history_request s = getConnectionHistory (history_filters s)"

section \<open>Handlers\<close>

definition changeSite :: "string \<Rightarrow> connections_page \<Rightarrow> connections_page" where
  "changeSite v s = s\<lparr>cp_siteId := v, cp_nodeId := [], historyOffset := 0\<rparr>"

definition changeNode :: "string \<Rightarrow> connections_page \<Rightarrow> connections_page" where
  "changeNode v s = s\<lparr>cp_nodeId := v, historyOffset := 0\<rparr>"

definition changeTimeRange :: "TimeRange \<Rightarrow> connections_page \<Rightarrow> connections_page" where
  "changeTimeRange r s = s\<lparr>cp_range := range_choose (cp_clock s) r (cp_range s), historyOffset := 0\<rparr>"

definition history_previous :: "connections_page \<Rightarrow> connections_page" where
  "history_previous s = s\<lparr>historyOffset := max 0 (historyOffset s - 100)\<rparr>"

definition history_next :: "connections_page \<Rightarrow> connections_page" where
  "history_next s = s\<lparr>historyOffset := historyOffset s + 100\<rparr>"

section \<open>What is rendered\<close>

datatype conn_click =
    ClickLive | ClickHistory | ClickConnRefresh | ClickConnRetry | ClickConnClear | ClickConnPrevious | ClickConnNext

datatype conn_field =
    ConnSite | ConnNode | ConnRange | ConnNetwork | ConnSearch | ConnSourceIp | ConnDestination | ConnOutbound

record conn_env =
  ce_session :: "bool option"
  ce_sites :: "Site list query"
  ce_nodes :: "Node list query"
  ce_live :: "ConnectionSnapshot list query"
  ce_history :: "ConnectionHistoryResponse query"
  ce_refresh :: refresh_button

record conn_symbols =
  sym_arrow :: string
  sym_down :: string
  sym_up :: string

definition ConnectionTextFilter :: "translator \<Rightarrow> string \<Rightarrow> string \<Rightarrow> string \<Rightarrow> 'f \<Rightarrow> ('c, 'f) view" where
  "ConnectionTextFilter t label placeholder value setValue =
     Grp ''connection-text-filter'' [Txt (t label []), Inp (t placeholder []) value False setValue]"

definition node_names :: "Node list \<Rightarrow> string \<Rightarrow> string" where
  "node_names nodes agentId =
     (case js_map_get (map (\<lambda>n. (node_agent_id n, node_name n)) nodes) agentId of
        None \<Rightarrow> agentId | Some name \<Rightarrow> or_str name agentId)"

definition protocol_text :: "'a ConnectionLiveItem_scheme \<Rightarrow> string" where
  "protocol_text c =
     or_str (join ('' '' @ [CHR 0xB7] @ '' '') (filter (\<lambda>x. x \<noteq> []) [cli_inbound c, cli_network c])) ''-''"

definition chain_text :: "conn_symbols \<Rightarrow> string list \<Rightarrow> string" where
  "chain_text sy chain = (if chain \<noteq> [] then join (sym_arrow sy) chain else ''-'')"

definition traffic_cell ::
    "translator \<Rightarrow> formats \<Rightarrow> conn_symbols \<Rightarrow> int \<Rightarrow> int \<Rightarrow> ('c, 'f) view" where
  "traffic_cell t fm sy down up =
     Grp ''td''
       [Txt (t (sym_down sy @ '' {value}'') [(''value'', fm_bytes fm (Some down))]),
        Txt (t (sym_up sy @ '' {value}'') [(''value'', fm_bytes fm (Some up))])]"

definition live_row ::
    "translator \<Rightarrow> formats \<Rightarrow> conn_symbols \<Rightarrow> Node list \<Rightarrow> LiveRow \<Rightarrow> ('c, 'f) view" where
  "live_row t fm sy nodes e =
     Grp ''tr''
       [Txt (node_names nodes (lr_node_id e)),
        Txt (t ''Sampled at'' [] @ '': '' @ fm_date fm (Some (lr_sampled_at e))),
        Txt (or_str (sourceLabel (Some e)) ''-''), Txt (or_str (destinationLabel (Some e)) ''-''),
        Txt (protocol_text e), Txt (chain_text sy (cli_outbound_chain e)),
        traffic_cell t fm sy (cli_bytes_down e) (cli_bytes_up e),
        Txt (fm_date fm (Some (or_str (cli_start e) (lr_sampled_at e))))]"

definition LiveConnectionsTable ::
    "translator \<Rightarrow> formats \<Rightarrow> conn_symbols \<Rightarrow> Node list \<Rightarrow> LiveRow list \<Rightarrow> ('c, 'f) view" where
  "LiveConnectionsTable t fm sy nodes rows =
     Grp ''table''
       (map (\<lambda>h. Txt (t h [])) [''Node'', ''Source IP'', ''Destination'', ''Protocol'', ''Outbound'', ''Traffic'', ''Started''] @
        (if rows \<noteq> [] then map (live_row t fm sy nodes) rows
         else [EmptyState t ''No live connections recorded.'' None []]))"

definition history_row ::
    "translator \<Rightarrow> formats \<Rightarrow> conn_symbols \<Rightarrow> Node list \<Rightarrow> HistoryRow \<Rightarrow> ('c, 'f) view" where
  "history_row t fm sy nodes row =
     (let s = hr_snapshot row; connection = hr_connection row;
          up = (case connection of Some c \<Rightarrow> cli_bytes_up c | None \<Rightarrow> cs_bytes_up s);
          down = (case connection of Some c \<Rightarrow> cli_bytes_down c | None \<Rightarrow> cs_bytes_down s)
      in Grp (hr_key row)
        [Txt (node_names nodes (cs_node_id s)),
         Txt (t (if cs_api_available s then ''Available'' else ''Unavailable'') []),
         Txt (fm_date fm (Some (cs_sampled_at s))),
         Txt (or_str (sourceLabel connection) (t ''Snapshot summary'' [])),
         Txt (or_str (destinationLabel connection) ''-''),
         Txt (case connection of Some c \<Rightarrow> protocol_text c | None \<Rightarrow> ''-''),
         Txt (case connection of Some c \<Rightarrow> chain_text sy (cli_outbound_chain c) | None \<Rightarrow> ''-''),
         traffic_cell t fm sy down up,
         Txt (fm_number fm (Some (cs_active_connections s)))])"

definition HistoryConnectionsTable ::
    "translator \<Rightarrow> formats \<Rightarrow> conn_symbols \<Rightarrow> Node list \<Rightarrow> HistoryRow list \<Rightarrow> ('c, 'f) view" where
  "HistoryConnectionsTable t fm sy nodes rows =
     Grp ''table''
       (map (\<lambda>h. Txt (t h [])) [''Node'', ''Sampled at'', ''Source IP'', ''Destination'', ''Protocol'', ''Outbound'',
           ''Traffic'', ''Active connections''] @
        (if rows \<noteq> [] then map (history_row t fm sy nodes) rows
         else [EmptyState t ''No connection history recorded.'' None []]))"

definition conn_options :: "conn_env \<Rightarrow> connections_page \<Rightarrow> (string \<times> string) list \<times> (string \<times> string) list" where
  "conn_options e s =
     (all_or_one ''All sites'' site_id site_name (query_list (ce_sites e)),
      all_or_one ''All nodes'' node_id node_name
        (filter (\<lambda>n. cp_siteId s = [] \<or> node_site_id n = cp_siteId s) (query_list (ce_nodes e))))"

definition conn_filters :: "translator \<Rightarrow> conn_env \<Rightarrow> connections_page \<Rightarrow> (conn_click, conn_field) view" where
  "conn_filters t e s =
     (let (siteOptions, nodeOptions) = conn_options e s
      in if cp_viewMode s = ViewLive
         then Grp ''connections-live-filters''
           [FilterSelect t ''Site'' (cp_siteId s) ConnSite siteOptions,
            FilterSelect t ''Node'' (cp_nodeId s) ConnNode nodeOptions]
         else Grp ''connections-history-filters''
           [ListFilters t (rg_range (cp_range s)) ConnRange
              [\<lparr>fs_label = ''Site'', fs_value = cp_siteId s, fs_set = ConnSite, fs_options = siteOptions\<rparr>,
               \<lparr>fs_label = ''Node'', fs_value = cp_nodeId s, fs_set = ConnNode, fs_options = nodeOptions\<rparr>,
               \<lparr>fs_label = ''Protocol'', fs_value = cp_network s, fs_set = ConnNetwork,
                fs_options = [([], ''All protocols''), (''tcp'', ''TCP''), (''udp'', ''UDP'')]\<rparr>]
              (Some (cp_search s, ConnSearch, ClickConnClear)) ''Search connection history'',
            ConnectionTextFilter t ''Source IP'' ''Source IP'' (cp_sourceIp s) ConnSourceIp,
            ConnectionTextFilter t ''Destination'' ''Destination'' (cp_destination s) ConnDestination,
            ConnectionTextFilter t ''Outbound'' ''Outbound'' (cp_outbound s) ConnOutbound])"

definition history_pagination ::
    "translator \<Rightarrow> formats \<Rightarrow> ConnectionHistoryResponse query \<Rightarrow> connections_page \<Rightarrow> (conn_click, conn_field) view" where
  "history_pagination t fm q s =
     (let total = (case q_data q of None \<Rightarrow> 0 | Some d \<Rightarrow> chr_total d);
          count = (case q_data q of None \<Rightarrow> 0 | Some d \<Rightarrow> int (length (chr_items d)));
          more = (case q_data q of None \<Rightarrow> False | Some d \<Rightarrow> chr_has_more d)
      in Grp ''connection-history-pagination''
        [Txt (t ''Showing {from}-{to} of {count} snapshots''
           [(''from'', show_int (if total \<noteq> 0 then historyOffset s + 1 else 0)),
            (''to'', show_int (min (historyOffset s + count) total)),
            (''count'', fm_number fm (Some total))]),
         Btn (t ''Previous'' []) (historyOffset s = 0 \<or> q_fetching q) ClickConnPrevious,
         Btn (t ''Next'' []) (\<not> more \<or> q_fetching q) ClickConnNext])"

definition ConnectionsPage ::
    "translator \<Rightarrow> formats \<Rightarrow> conn_symbols \<Rightarrow> conn_env \<Rightarrow> connections_page \<Rightarrow> (conn_click, conn_field) view" where
  "ConnectionsPage t fm sy e s =
     gated t 6 (ce_session e)
      (guarded t 6 (q_loading (ce_sites e) \<or> q_loading (ce_nodes e))
         (first_error [q_error (ce_sites e), q_error (ce_nodes e)]) ClickConnRetry
      (guarded t 6 False
         (if cp_viewMode s = ViewLive then q_error (ce_live e) else q_error (ce_history e)) ClickConnRetry
       (let live = (cp_viewMode s = ViewLive);
            nodes = query_list (ce_nodes e);
            liveRows = liveRowsFromSnapshots (query_list (ce_live e));
            items = (case q_data (ce_history e) of None \<Rightarrow> [] | Some d \<Rightarrow> chr_items d);
            total = (case q_data (ce_history e) of None \<Rightarrow> 0 | Some d \<Rightarrow> chr_total d);
            historyRows = historyRowsFromSnapshots items
        in Grp ''connections-page''
          ([PageHeader t (Some ''OBSERVE'') (t ''Connections'' [])
              (Some (t ''Live connection information and retained history for audit.'' []))
              [RefreshButton t (t ''Refresh'' []) False ClickConnRefresh (ce_refresh e)],
            Txt (t (if live then ''Live connection information'' else ''Historical connection records'') []),
            Txt (if live then t ''{count} sessions'' [(''count'', number_of fm (length liveRows))]
                 else t (''{count} snapshots '' @ [CHR 0xB7] @ '' {rows} observed rows'')
                   [(''count'', fm_number fm (Some total)), (''rows'', number_of fm (length historyRows))]),
            Btn (t ''Live'' []) False ClickLive, Btn (t ''History'' []) False ClickHistory,
            conn_filters t e s,
            (if live then LiveConnectionsTable t fm sy nodes liveRows
             else HistoryConnectionsTable t fm sy nodes historyRows)] @
           show_if (\<not> live) [history_pagination t fm (ce_history e) s]))))"

section \<open>Events\<close>

fun conn_on_click :: "conn_click \<Rightarrow> connections_page \<Rightarrow> connections_page" where
  "conn_on_click ClickLive s = s\<lparr>cp_viewMode := ViewLive\<rparr>"
| "conn_on_click ClickHistory s = s\<lparr>cp_viewMode := ViewHistory\<rparr>"
| "conn_on_click ClickConnRefresh s = s"
| "conn_on_click ClickConnRetry s = s"
| "conn_on_click ClickConnClear s = s\<lparr>cp_search := [], historyOffset := 0\<rparr>"
| "conn_on_click ClickConnPrevious s = history_previous s"
| "conn_on_click ClickConnNext s = history_next s"

fun conn_on_edit :: "conn_field \<Rightarrow> string \<Rightarrow> connections_page \<Rightarrow> connections_page" where
  "conn_on_edit ConnSite v s = changeSite v s"
| "conn_on_edit ConnNode v s = changeNode v s"
| "conn_on_edit ConnRange v s =
     (case range_of_text v of None \<Rightarrow> s | Some r \<Rightarrow> changeTimeRange r s)"
| "conn_on_edit ConnNetwork v s = s\<lparr>cp_network := v, historyOffset := 0\<rparr>"
| "conn_on_edit ConnSearch v s = s\<lparr>cp_search := v, historyOffset := 0\<rparr>"
| "conn_on_edit ConnSourceIp v s = s\<lparr>cp_sourceIp := v, historyOffset := 0\<rparr>"
| "conn_on_edit ConnDestination v s = s\<lparr>cp_destination := v, historyOffset := 0\<rparr>"
| "conn_on_edit ConnOutbound v s = s\<lparr>cp_outbound := v, historyOffset := 0\<rparr>"

text \<open>The only message is the clock.\<close>

definition conn_on_message :: "nat \<Rightarrow> connections_page \<Rightarrow> connections_page" where
  "conn_on_message elapsed s = s\<lparr>cp_clock := cp_clock s + int elapsed\<rparr>"

section \<open>Lemmas\<close>

definition snapshot_rows :: "ConnectionSnapshot \<Rightarrow> HistoryRow list" where
  "snapshot_rows s =
     (if or_list (cs_connections s) = []
      then [\<lparr>hr_snapshot = s, hr_connection = None, hr_key = cs_id s @ '':summary''\<rparr>]
      else connection_rows s 0 (or_list (cs_connections s)))"

lemma history_rows_append: "history_rows rows ss = rows @ concat (map snapshot_rows ss)"
  by (induction rows ss rule: history_rows.induct) (auto simp: snapshot_rows_def Let_def)

lemma historyRows_concat: "historyRowsFromSnapshots ss = concat (map snapshot_rows ss)"
  by (simp add: historyRowsFromSnapshots_def history_rows_append)

lemma connection_rows_content:
  "map (\<lambda>r. (hr_snapshot r, hr_connection r)) (connection_rows s i cs) = map (\<lambda>c. (s, Some c)) cs"
  by (induction s i cs rule: connection_rows.induct) auto

lemma connection_rows_keys:
  "\<forall>c \<in> set cs. cli_id c \<noteq> [] \<Longrightarrow>
     map hr_key (connection_rows s i cs) = map (\<lambda>c. cs_id s @ '':'' @ cli_id c) cs"
  by (induction s i cs rule: connection_rows.induct) auto

definition shown_content :: "ConnectionSnapshot \<Rightarrow> (ConnectionSnapshot \<times> ConnectionLiveItem option) list" where
  "shown_content s =
     (if or_list (cs_connections s) = [] then [(s, None)]
      else map (\<lambda>c. (s, Some c)) (or_list (cs_connections s)))"

lemma snapshot_rows_content:
  "map (\<lambda>r. (hr_snapshot r, hr_connection r)) (snapshot_rows s) = shown_content s"
  by (simp add: snapshot_rows_def shown_content_def connection_rows_content)

text \<open>Snapshots whose rows have different keys: each connection has an identifier of its own.\<close>

definition identified :: "ConnectionSnapshot \<Rightarrow> bool" where
  "identified s \<longleftrightarrow>
     CHR '':'' \<notin> set (cs_id s) \<and> distinct (map cli_id (or_list (cs_connections s))) \<and>
     [] \<notin> cli_id ` set (or_list (cs_connections s))"

lemma snapshot_keys_distinct:
  assumes "identified s"
  shows "distinct (map hr_key (snapshot_rows s))"
proof -
  have "map hr_key (connection_rows s 0 (or_list (cs_connections s))) =
      map (\<lambda>x. cs_id s @ '':'' @ x) (map cli_id (or_list (cs_connections s)))"
    using assms by (subst connection_rows_keys) (auto simp: identified_def image_iff)
  moreover have "distinct (map (\<lambda>x. cs_id s @ '':'' @ x) (map cli_id (or_list (cs_connections s))))"
    using assms by (subst distinct_map) (simp add: identified_def inj_on_def)
  ultimately show ?thesis by (simp add: snapshot_rows_def)
qed

lemma connection_rows_prefix:
  "r \<in> set (connection_rows s i cs) \<Longrightarrow> \<exists>k. hr_key r = cs_id s @ CHR '':'' # k"
  by (induction s i cs rule: connection_rows.induct) auto

lemma snapshot_keys_prefix: "k \<in> hr_key ` set (snapshot_rows s) \<Longrightarrow> \<exists>k'. k = cs_id s @ CHR '':'' # k'"
  by (auto simp: snapshot_rows_def dest: connection_rows_prefix split: if_splits)

lemma colon_prefix_inject:
  "CHR '':'' \<notin> set a \<Longrightarrow> CHR '':'' \<notin> set b \<Longrightarrow> a @ CHR '':'' # x = b @ CHR '':'' # y \<Longrightarrow> a = b"
  by (metis split_char_append list.inject)

lemma history_keys_distinct:
  "distinct (map cs_id ss) \<Longrightarrow> \<forall>s \<in> set ss. identified s \<Longrightarrow>
     distinct (map hr_key (concat (map snapshot_rows ss)))"
proof (induction ss)
  case (Cons s ss)
  have "hr_key ` set (snapshot_rows s) \<inter> hr_key ` set (concat (map snapshot_rows ss)) = {}"
  proof (rule ccontr)
    assume "\<not> ?thesis"
    then obtain k s' where k: "k \<in> hr_key ` set (snapshot_rows s)" "k \<in> hr_key ` set (snapshot_rows s')"
      and s': "s' \<in> set ss" by auto
    from snapshot_keys_prefix [OF k(1)] snapshot_keys_prefix [OF k(2)] have "cs_id s = cs_id s'"
      using Cons.prems(2) s' by (auto simp: identified_def dest: colon_prefix_inject)
    with Cons.prems(1) s' show False by auto
  qed
  with Cons show ?case by (auto simp: snapshot_keys_distinct image_Un)
qed simp

lemma extend_row [simp]:
  "ConnectionLiveItem.truncate (ConnectionLiveItem.extend c (LiveRow.fields a b)) = (c :: ConnectionLiveItem)"
  "lr_node_id (ConnectionLiveItem.extend c (LiveRow.fields a b)) = a"
  "lr_sampled_at (ConnectionLiveItem.extend c (LiveRow.fields a b)) = b"
  by (cases c; simp add: ConnectionLiveItem.defs LiveRow.defs)+

lemma live_rows_content:
  "map (\<lambda>r. (lr_node_id r, lr_sampled_at r, ConnectionLiveItem.truncate r)) (liveRowsFromSnapshots ss) =
     concat (map (\<lambda>s. map (\<lambda>c. (cs_node_id s, cs_sampled_at s, c)) (or_list (cs_connections s))) ss)"
  by (simp add: liveRowsFromSnapshots_def map_concat comp_def)

section \<open>Invariant\<close>

definition conn_inv :: "connections_page \<Rightarrow> bool" where
  "conn_inv s \<longleftrightarrow>
     0 \<le> historyOffset s \<and> historyOffset s mod 100 = 0 \<and> cp_network s \<in> {[], ''tcp'', ''udp''} \<and>
     (\<exists>chosen \<le> cp_clock s. cp_range s = range_init chosen (rg_range (cp_range s)))"

lemma range_choose_ok:
  "\<exists>chosen \<le> now. r = range_init chosen (rg_range r) \<Longrightarrow>
     \<exists>chosen \<le> now. range_choose now v r = range_init chosen (rg_range (range_choose now v r))"
  by (auto simp: range_choose_def range_init_def)

lemma conn_inv_click: "conn_inv s \<Longrightarrow> conn_inv (conn_on_click c s)"
  by (cases c) (auto simp: conn_inv_def history_previous_def history_next_def max_def)

lemma can_edit_conn_tables [simp]:
  "can_edit (LiveConnectionsTable t fm sy nodes rows) f x = False"
  "can_edit (HistoryConnectionsTable t fm sy nodes hrows) f x = False"
  "can_edit (history_pagination t fm q s) f x = False"
  by (auto simp: LiveConnectionsTable_def HistoryConnectionsTable_def live_row_def history_row_def
        traffic_cell_def history_pagination_def Let_def list_ex_iff)

lemma can_edit_network:
  "can_edit (ConnectionsPage t fm sy e s) ConnNetwork v \<Longrightarrow> v \<in> {[], ''tcp'', ''udp''}"
  by (auto simp: ConnectionsPage_def conn_filters_def conn_options_def ConnectionTextFilter_def Let_def split: if_splits)

lemma conn_inv_edit:
  assumes "conn_inv s" "can_edit (ConnectionsPage t fm sy e s) f v"
  shows "conn_inv (conn_on_edit f v s)"
  using assms(1) can_edit_network [of t fm sy e s v] assms(2)
  by (cases f)
     (auto simp: conn_inv_def changeSite_def changeNode_def changeTimeRange_def intro: range_choose_ok
       split: option.splits)

interpretation cn: component "\<lambda>s. \<exists>now. s = connections_init now"
    "\<lambda>(t, fm, sy, e). ConnectionsPage t fm sy e" conn_on_click conn_on_edit conn_on_message conn_inv
proof unfold_locales
  show "conn_inv (conn_on_message m s)" if "conn_inv s" for m s
  proof -
    from that obtain chosen where "chosen \<le> cp_clock s" "cp_range s = range_init chosen (rg_range (cp_range s))"
      by (auto simp: conn_inv_def)
    with that show ?thesis by (auto simp: conn_inv_def conn_on_message_def intro!: exI [of _ chosen])
  qed
qed (auto simp: conn_inv_click intro: conn_inv_edit, auto simp: conn_inv_def connections_init_def range_init_def)

section \<open>Properties\<close>

text \<open>C35: in every state of the connections page that a user can reach, the history offset is a
  multiple of the page size, the protocol filter is one of the offered ones, and the lower boundary is
  the start of the chosen range at the moment it was chosen; changing any filter goes back to the
  first page; and two states with the same cache keys make the same requests, so a cached answer is
  always the answer to the request of the state that shows it.\<close>

theorem connections_page_safe:
  assumes "cn.reachable s"
  shows "0 \<le> historyOffset s \<and> 100 dvd historyOffset s \<and> cp_network s \<in> {[], ''tcp'', ''udp''} \<and>
     (\<exists>chosen \<le> cp_clock s. rg_since (cp_range s) = timeRangeStart chosen (rg_range (cp_range s))) \<and>
     (can_edit (ConnectionsPage t fm sy e s) f v \<longrightarrow> historyOffset (conn_on_edit f v s) = 0) \<and>
     (history_key s = history_key s' \<longrightarrow> history_request s = history_request s') \<and>
     (live_key s = live_key s' \<longrightarrow> live_request s = live_request s')"
proof -
  have "conn_inv s" by (rule cn.reachable_inv [OF assms])
  moreover have "historyOffset (conn_on_edit f v s) = 0" if "can_edit (ConnectionsPage t fm sy e s) f v"
  proof (cases "f = ConnRange")
    case True
    with that have "v \<in> fst ` set range_options"
      by (auto simp: ConnectionsPage_def conn_filters_def conn_options_def ConnectionTextFilter_def Let_def
            split: if_splits)
    then have "range_of_text v \<noteq> None"
      by (auto simp: range_options_def range_of_text_def find_first_def)
    with True show ?thesis by (auto simp: changeTimeRange_def)
  next
    case False
    then show ?thesis by (cases f) (auto simp: changeSite_def changeNode_def)
  qed
  ultimately show ?thesis
    by (auto simp: conn_inv_def mod_eq_0_iff_dvd history_key_def history_request_def history_filters_def
          live_key_def live_request_def range_init_def split: option.splits)
      (metis range_filter.select_convs(2))+
qed

text \<open>The history table shows everything once: its rows are, in order, each connection of each
  snapshot, and one summary row for a snapshot without connections; where snapshots and the
  connections of a snapshot have identifiers of their own, no two rows share a key.  The live table
  likewise has one row for each connection, with the node and the time of its snapshot.\<close>

theorem connection_rows_complete:
  "map (\<lambda>r. (hr_snapshot r, hr_connection r)) (historyRowsFromSnapshots ss) =
     concat (map (\<lambda>s. case or_list (cs_connections s) of
                        [] \<Rightarrow> [(s, None)] | cs \<Rightarrow> map (\<lambda>c. (s, Some c)) cs) ss) \<and>
   map (\<lambda>r. (lr_node_id r, lr_sampled_at r, ConnectionLiveItem.truncate r)) (liveRowsFromSnapshots ss) =
     concat (map (\<lambda>s. map (\<lambda>c. (cs_node_id s, cs_sampled_at s, c)) (or_list (cs_connections s))) ss) \<and>
   (distinct (map cs_id ss) \<and> list_all identified ss \<longrightarrow>
      distinct (map hr_key (historyRowsFromSnapshots ss)))"
proof -
  have "shown_content = (\<lambda>s. case or_list (cs_connections s) of
                        [] \<Rightarrow> [(s, None)] | cs \<Rightarrow> map (\<lambda>c. (s, Some c)) cs)"
    by (auto simp: shown_content_def fun_eq_iff split: list.splits)
  then show ?thesis
    using history_keys_distinct [of ss]
    by (simp add: historyRows_concat map_concat comp_def snapshot_rows_content live_rows_content list_all_iff)
qed

definition demo_item :: "string \<Rightarrow> ConnectionLiveItem" where
  "demo_item i =
     \<lparr>cli_id = i, cli_src_ip = ''10.0.0.1'', cli_src_port = ''5'', cli_dst_host = ''h'', cli_dst_ip = [],
      cli_dst_port = ''443'', cli_network = ''tcp'', cli_inbound = [], cli_outbound_chain = [],
      cli_bytes_up = 1, cli_bytes_down = 2, cli_start = [], cli_rule = []\<rparr>"

definition demo_snapshot :: "string \<Rightarrow> ConnectionLiveItem list \<Rightarrow> ConnectionSnapshot" where
  "demo_snapshot i cs =
     \<lparr>cs_id = i, cs_node_id = ''n'', cs_site_id = ''s'', cs_sampled_at = [], cs_active_connections = 0,
      cs_bytes_up = 0, cs_bytes_down = 0, cs_rx_bps = None, cs_tx_bps = None, cs_top_sources = [],
      cs_top_destinations = [], cs_top_users = [], cs_connections = Some cs, cs_api_available = True,
      cs_received_at = []\<rparr>"

theorem connection_rows_complete_witness:
  "let a = demo_snapshot ''a'' [demo_item ''1'', demo_item ''2'']; b = demo_snapshot ''b'' [] in
     map (\<lambda>r. (hr_snapshot r, hr_connection r)) (historyRowsFromSnapshots [a, b]) =
       [(a, Some (demo_item ''1'')), (a, Some (demo_item ''2'')), (b, None)] \<and>
     distinct (map hr_key (historyRowsFromSnapshots [a, b]))"
proof -
  let ?a = "demo_snapshot ''a'' [demo_item ''1'', demo_item ''2'']" and ?b = "demo_snapshot ''b'' []"
  have conns: "cs_connections (demo_snapshot i cs) = Some cs" for i cs by (simp add: demo_snapshot_def)
  have "distinct (map cs_id [?a, ?b]) \<and> list_all identified [?a, ?b]"
    by (simp add: demo_snapshot_def demo_item_def identified_def)
  then show ?thesis
    using connection_rows_complete [of "[?a, ?b]"] by (simp add: Let_def conns)
qed

definition demo_conn_env :: conn_env where
  "demo_conn_env = \<lparr>ce_session = Some True, ce_sites = loaded [sample_site ''site-1''], ce_nodes = loaded [],
     ce_live = loaded [], ce_history = empty_query, ce_refresh = refresh_init\<rparr>"

definition demo_symbols :: conn_symbols where
  "demo_symbols = \<lparr>sym_arrow = ''>'', sym_down = ''d'', sym_up = ''u''\<rparr>"

theorem connections_page_safe_witness:
  "let s = conn_on_edit ConnSite ''site-1'' (conn_on_click ClickHistory (connections_init 0))
   in 100 dvd historyOffset s \<and> cp_siteId s = ''site-1'' \<and>
      (\<exists>chosen \<le> cp_clock s. rg_since (cp_range s) = timeRangeStart chosen (rg_range (cp_range s)))"
proof -
  let ?R = "\<lambda>(t, fm, sy, e). ConnectionsPage t fm sy e"
  let ?e = "(plain, sample_formats, demo_symbols, demo_conn_env)"
  let ?s = "conn_on_click ClickHistory (connections_init 0)"
  note defs = ConnectionsPage_def demo_conn_env_def loaded_def empty_query_def first_error_def
    connections_init_def conn_filters_def conn_options_def query_list_def
  have "can_click (?R ?e (connections_init 0)) ClickHistory" by (simp add: defs)
  then have "cn.reachable ?s" by (intro cn.reach_click [where e = ?e] cn.reach_start) auto
  moreover have "can_edit (?R ?e ?s) ConnSite ''site-1''" by (simp add: defs)
  ultimately have "cn.reachable (conn_on_edit ConnSite ''site-1'' ?s)" by (rule cn.reach_edit)
  from connections_page_safe [OF this] show ?thesis by (simp add: Let_def changeSite_def)
qed

end
