(* ===== verification/Proxies_Page.thy ===== *)
theory Proxies_Page
  imports Page_Kit Endpoints
begin

text \<open>
  Outbound services: \<^verbatim>\<open>src/frontend/app/proxies/page.tsx\<close>.  The operator picks a site, a node and an outbound
  service; confirming creates a node release.  The results of the three queries are part of the page
  state, because the effects that repair the selection depend on them.  Type names that happen to be
  members of every JavaScript object (\<^verbatim>\<open>constructor\<close> and the like) are not distinguished in
  \<open>proxyTypeLabel\<close>.
\<close>

section \<open>Classification\<close>

definition endpointStatus :: "ProxyEndpoint \<Rightarrow> string" where
  "endpointStatus e =
     (if pe_alive e = Some False then ''offline''
      else case pe_delay_ms e of
             None \<Rightarrow> ''pending''
           | Some d \<Rightarrow> if d \<le> 250 then ''online'' else if d \<le> 800 then ''degraded'' else ''attention'')"

definition proxy_type_labels :: "(string \<times> string) list" where
  "proxy_type_labels =
     [(''selector'', ''Selector''), (''fallback'', ''Fallback''), (''url-test'', ''URL test''),
      (''urltest'', ''URL test''), (''direct'', ''Direct''), (''reject'', ''Reject''), (''block'', ''Reject''),
      (''trojan'', ''Trojan''), (''shadowsocks'', ''Shadowsocks''), (''vmess'', ''VMess''), (''vless'', ''VLESS''),
      (''http'', ''HTTP''), (''socks'', ''SOCKS5''), (''socks5'', ''SOCKS5'')]"

definition proxyTypeLabel :: "string \<Rightarrow> translator \<Rightarrow> string" where
  "proxyTypeLabel value t =
     (case js_map_get proxy_type_labels (replace_char (CHR ''_'') ''-'' (to_lower (trim value))) of
        Some l \<Rightarrow> t l [] | None \<Rightarrow> value)"

definition groupStatus :: "ProxyGroup \<Rightarrow> string" where
  "groupStatus g =
     (if pg_nodes g = [] then ''pending''
      else if list_all (\<lambda>e. endpointStatus e = ''offline'') (pg_nodes g) then ''offline''
      else if list_ex (\<lambda>e. endpointStatus e = ''online'') (pg_nodes g) then ''online''
      else ''degraded'')"

definition latencyHistoryTone :: "int option \<Rightarrow> string" where
  "latencyHistoryTone delay =
     (case delay of
        None \<Rightarrow> ''unknown''
      | Some d \<Rightarrow> if d \<le> 250 then ''good'' else if d \<le> 800 then ''slow'' else ''bad'')"

datatype EndpointFilter = FilterAll | FilterOnline | FilterDegraded | FilterOffline | FilterPending

fun endpoint_filter_text :: "EndpointFilter \<Rightarrow> string" where
  "endpoint_filter_text FilterAll = []"
| "endpoint_filter_text FilterOnline = ''online''"
| "endpoint_filter_text FilterDegraded = ''degraded''"
| "endpoint_filter_text FilterOffline = ''offline''"
| "endpoint_filter_text FilterPending = ''pending''"

text \<open>The endpoints of a group in the order of its names; a name without data is shown as unknown.\<close>

definition group_endpoints :: "ProxyGroup \<Rightarrow> ProxyEndpoint list" where
  "group_endpoints g =
     map (\<lambda>name. case js_map_get (map (\<lambda>e. (pe_name e, e)) (pg_nodes g)) name of
                   Some e \<Rightarrow> e
                 | None \<Rightarrow> \<lparr>pe_name = name, pe_type = ''unknown'', pe_udp = False, pe_alive = None,
                            pe_delay_ms = None, pe_history = []\<rparr>) (pg_all g)"

definition filtered_endpoints :: "string \<Rightarrow> EndpointFilter \<Rightarrow> ProxyEndpoint list \<Rightarrow> ProxyEndpoint list" where
  "filtered_endpoints search st endpoints =
     (let normalizedSearch = to_lower (trim search)
      in filter (\<lambda>e. (normalizedSearch = [] \<or> includes_str normalizedSearch (to_lower (pe_name e))) \<and>
                     (st = FilterAll \<or> endpointStatus e = endpoint_filter_text st)) endpoints)"

section \<open>State\<close>

record proxies_page =
  px_siteId :: string
  px_nodeId :: string
  endpointSearch :: string
  endpointStatusFilter :: EndpointFilter
  pendingSelection :: "(Node \<times> ProxyEndpoint) option"
  selectMutation :: "(api_call, unit) mutation"
  px_configs :: "ProxyConfigSnapshot list query"
  px_nodes :: "Node list query"
  px_sites :: "Site list query"
  warningKey :: string
  px_toasts :: "ToastInput list"

definition siteItems :: "proxies_page \<Rightarrow> Site list" where
  "siteItems s = query_list (px_sites s)"

definition inventoryReady :: "proxies_page \<Rightarrow> bool" where
  "inventoryReady s \<longleftrightarrow> q_data (px_sites s) \<noteq> None \<and> \<not> q_isError (px_sites s) \<and>
     q_data (px_nodes s) \<noteq> None \<and> \<not> q_isError (px_nodes s)"

definition initialSiteId :: "proxies_page \<Rightarrow> string" where
  "initialSiteId s =
     (case find_first (\<lambda>site. list_ex (\<lambda>n. node_site_id n = site_id site) (query_list (px_nodes s))) (siteItems s) of
        Some site \<Rightarrow> site_id site
      | None \<Rightarrow> (case siteItems s of site # _ \<Rightarrow> site_id site | [] \<Rightarrow> []))"

definition siteNodes :: "proxies_page \<Rightarrow> Node list" where
  "siteNodes s = filter (\<lambda>n. node_site_id n = px_siteId s) (query_list (px_nodes s))"

definition selectedSite :: "proxies_page \<Rightarrow> Site option" where
  "selectedSite s = find_first (\<lambda>site. site_id site = px_siteId s) (siteItems s)"

definition selectedNode :: "proxies_page \<Rightarrow> Node option" where
  "selectedNode s =
     or_else (find_first (\<lambda>n. node_id n = px_nodeId s) (siteNodes s)) (head_opt (siteNodes s))"

definition selectedSnapshot :: "proxies_page \<Rightarrow> ProxyConfigSnapshot option" where
  "selectedSnapshot s =
     (case selectedNode s of
        None \<Rightarrow> None
      | Some n \<Rightarrow> js_map_get (map (\<lambda>c. (pcs_node_id c, c)) (query_list (px_configs s))) (node_agent_id n))"

definition selectionGroup :: "ProxyConfigSnapshot option \<Rightarrow> ProxyGroup option" where
  "selectionGroup snapshot =
     (case snapshot of
        None \<Rightarrow> None
      | Some sn \<Rightarrow> find_first (\<lambda>g. to_lower (trim (pg_name g)) = ''subscription'') (pcs_groups sn))"

section \<open>Effects\<close>

definition site_effect :: "proxies_page \<Rightarrow> string" where
  "site_effect s =
     (if \<not> inventoryReady s then px_siteId s
      else if px_siteId s = [] then initialSiteId s
      else if \<not> list_ex (\<lambda>site. site_id site = px_siteId s) (siteItems s) then initialSiteId s
      else px_siteId s)"

definition node_effect_due :: "proxies_page \<Rightarrow> bool" where
  "node_effect_due s \<longleftrightarrow> px_nodeId s = [] \<or> \<not> list_ex (\<lambda>n. node_id n = px_nodeId s) (siteNodes s)"

text \<open>The two effects of one render see the values of that render; their updates meet in the next.\<close>

definition selection_effects :: "proxies_page \<Rightarrow> proxies_page" where
  "selection_effects s =
     (let s' = s\<lparr>px_siteId := site_effect s\<rparr>
      in if node_effect_due s
         then s'\<lparr>px_nodeId := (case siteNodes s of n # _ \<Rightarrow> node_id n | [] \<Rightarrow> []),
                 endpointSearch := [], endpointStatusFilter := FilterAll\<rparr>
         else s')"

text \<open>The warning of the panel: a snapshot error is announced once, until the error changes.\<close>

definition warning_effect :: "translator \<Rightarrow> proxies_page \<Rightarrow> proxies_page" where
  "warning_effect t s =
     (case selectedNode s of
        None \<Rightarrow> s
      | Some n \<Rightarrow>
          (let err = (case selectedSnapshot s of None \<Rightarrow> [] | Some sn \<Rightarrow> trim (pcs_error sn));
               key = node_agent_id n @ '':'' @ err
           in if err = [] then s\<lparr>warningKey := []\<rparr>
              else if warningKey s = key then s
              else s\<lparr>warningKey := key,
                     px_toasts := px_toasts s @
                       [\<lparr>toast_title = t ''Proxy snapshot warning'' [], toast_description = Some (t err []),
                         toast_variant = Some VariantDestructive, toast_duration = None\<rparr>]\<rparr>))"

section \<open>Selecting\<close>

definition selection_request :: "Node \<times> ProxyEndpoint \<Rightarrow> ProxySelectionRequest" where
  "selection_request = (\<lambda>(n, e).
     \<lparr>psr_group = ''subscription'', psr_outbound = pe_name e,
      psr_expected_current_version = (if node_desired_version n = 0 then None else Some (node_desired_version n)),
      psr_note = Some ''Selected from proxy operations view''\<rparr>)"

definition selection_call :: "Node \<times> ProxyEndpoint \<Rightarrow> api_call" where
  "selection_call sel = selectNodeProxy (node_id (fst sel)) (selection_request sel)"

definition select_done :: "string + unit \<Rightarrow> proxies_page \<Rightarrow> proxies_page" where
  "select_done result s =
     (let s' = s\<lparr>selectMutation := mut_settle (\<lambda>_ _. ()) result (selectMutation s)\<rparr>
      in case result of
           Inr _ \<Rightarrow> if mut_pending (selectMutation s) then s'\<lparr>pendingSelection := None\<rparr> else s'
         | Inl _ \<Rightarrow> s')"

section \<open>What is rendered\<close>

datatype proxy_click =
    ClickProxySite string | ClickProxyNode string | ClickEndpoint ProxyEndpoint | ClickClearEndpoints
  | ClickCloseSelect | ClickConfirmSelect | ClickProxyRefresh | ClickProxyRetry

datatype proxy_field = FieldEndpointSearch | FieldEndpointStatus

definition ProxyEndpointFilters ::
    "translator \<Rightarrow> string \<Rightarrow> EndpointFilter \<Rightarrow> nat \<Rightarrow> nat \<Rightarrow> (proxy_click, proxy_field) view" where
  "ProxyEndpointFilters t search st shown n =
     Grp ''proxy-endpoint-filters''
       ([Inp (t ''Search proxy services'' []) search False FieldEndpointSearch] @
        show_if (search \<noteq> []) [Btn (t ''Clear search'' []) False ClickClearEndpoints] @
        [Sel (t ''Filter proxy state'' []) (endpoint_filter_text st)
           [([], t ''All endpoint states'' []), (''online'', t ''online'' []), (''degraded'', t ''degraded'' []),
            (''offline'', t ''offline'' []), (''pending'', t ''pending'' [])] False FieldEndpointStatus,
         Txt (t ''{count} of {total} shown'' [(''count'', show_nat shown), (''total'', show_nat n)])])"

definition delay_text :: "translator \<Rightarrow> formats \<Rightarrow> int option \<Rightarrow> string" where
  "delay_text t fm delay =
     (case delay of None \<Rightarrow> t ''No latency'' [] | Some d \<Rightarrow> fm_duration fm (Some (of_int d)))"

definition LatencyHistory ::
    "translator \<Rightarrow> formats \<Rightarrow> ProxyHistoryPoint list \<Rightarrow> ('c, 'f) view" where
  "LatencyHistory t fm history =
     Grp (t ''Recent latency history'' [])
       (map (\<lambda>p. Grp (''proxy-history-'' @ latencyHistoryTone (php_delay_ms p)) [Txt (delay_text t fm (php_delay_ms p))])
          (last_n 10 history))"

definition SnapshotState ::
    "translator \<Rightarrow> formats \<Rightarrow> (string \<Rightarrow> int option) \<Rightarrow> int \<Rightarrow> ProxyConfigSnapshot option \<Rightarrow> ('c, 'f) view" where
  "SnapshotState t fm parse now snapshot =
     (case snapshot of
        None \<Rightarrow> StatusBadge t ''pending''
      | Some sn \<Rightarrow>
          if \<not> pcs_api_available sn then StatusBadge t ''offline''
          else (let stale = (case parse (pcs_sampled_at sn) of None \<Rightarrow> False | Some sampled \<Rightarrow> now - sampled > 90000)
                in Grp ''proxy-snapshot-state''
                  [StatusBadge t (if stale then ''degraded'' else ''online''),
                   Txt (t ''Updated {date}'' [(''date'', fm_date fm (Some (pcs_sampled_at sn)))])]))"

definition EndpointCard ::
    "translator \<Rightarrow> formats \<Rightarrow> bool \<Rightarrow> ProxyEndpoint \<Rightarrow> (proxy_click, proxy_field) view" where
  "EndpointCard t fm selected e =
     (let st = endpointStatus e
      in Grp (''proxy-endpoint-'' @ st)
        ([Btn (t ''Select {name}'' [(''name'', pe_name e)]) False (ClickEndpoint e), Txt (pe_name e)] @
         show_if selected [Txt (t ''Current'' [])] @
         [Txt (proxyTypeLabel (pe_type e) t), Txt (t (if pe_udp e then ''UDP'' else ''TCP'') []), StatusBadge t st,
          Txt (delay_text t fm (pe_delay_ms e)), LatencyHistory t fm (pe_history e)]))"

definition OutboundServiceCard ::
    "translator \<Rightarrow> formats \<Rightarrow> ProxyGroup \<Rightarrow> string \<Rightarrow> EndpointFilter \<Rightarrow> (proxy_click, proxy_field) view" where
  "OutboundServiceCard t fm g search st =
     (let endpoints = group_endpoints g; shown = filtered_endpoints search st endpoints
      in Grp ''proxy-group-card''
        ([Txt (t ''Subscription'' []), StatusBadge t (groupStatus g), Txt (t ''Active service'' []),
          Txt (if pg_now g \<noteq> [] then pg_now g else t ''No selection'' [])] @
         (case pg_delay_ms g of None \<Rightarrow> [] | Some d \<Rightarrow> [Txt (fm_duration fm (Some (of_int d)))]) @
         [ProxyEndpointFilters t search st (length shown) (length endpoints)] @
         (if shown \<noteq> []
          then map (\<lambda>e. EndpointCard t fm (pg_now g \<noteq> [] \<and> pe_name e = pg_now g) e) shown
          else [Txt (t ''No matching proxy services'' []), Txt (t ''Try another name or state filter.'' [])])))"

definition NodeProxyPanel ::
    "translator \<Rightarrow> formats \<Rightarrow> (string \<Rightarrow> int option) \<Rightarrow> int \<Rightarrow> Node \<Rightarrow> ProxyConfigSnapshot option \<Rightarrow> string
       \<Rightarrow> EndpointFilter \<Rightarrow> (proxy_click, proxy_field) view" where
  "NodeProxyPanel t fm parse now n snapshot search st =
     (let apiAvailable = (case snapshot of None \<Rightarrow> False | Some sn \<Rightarrow> pcs_api_available sn);
          names = (case selectionGroup snapshot of None \<Rightarrow> [] | Some g \<Rightarrow> pg_all g)
      in Grp ''proxy-node-panel''
        [Txt (node_name n), Txt (node_agent_id n), SnapshotState t fm parse now snapshot,
         (if names \<noteq> []
          then Grp ''proxy-groups''
            (show_if (\<not> apiAvailable) [Txt (t ''Showing last successful snapshot.'' [])] @
             [OutboundServiceCard t fm (the (selectionGroup snapshot)) search st])
          else EmptyState t (if apiAvailable then ''No outbound services reported.'' else ''Proxy API is unavailable.'')
            (Some (if apiAvailable then ''The monitor has not reported its subscription selector yet.''
                   else ''The control plane will show the last successful snapshot when the monitor reconnects.'')) [])])"

definition proxy_site_tab :: "translator \<Rightarrow> formats \<Rightarrow> proxies_page \<Rightarrow> Site \<Rightarrow> (proxy_click, proxy_field) view" where
  "proxy_site_tab t fm s site =
     Grp (if site_id site = px_siteId s then ''segmented-active'' else [])
       [Btn (t (site_name site) []) False (ClickProxySite (site_id site)),
        Txt (number_of fm (length (filter (\<lambda>n. node_site_id n = site_id site) (query_list (px_nodes s)))))]"

definition proxy_node_tab :: "translator \<Rightarrow> proxies_page \<Rightarrow> Node \<Rightarrow> (proxy_click, proxy_field) view" where
  "proxy_node_tab t s n =
     Grp (if Some (node_id n) = map_option node_id (selectedNode s) then ''segmented-active'' else [])
       [Btn (node_name n) False (ClickProxyNode (node_id n)), StatusBadge t (node_liveness_status n)]"

definition ProxiesPage ::
    "translator \<Rightarrow> formats \<Rightarrow> (string \<Rightarrow> int option) \<Rightarrow> int \<Rightarrow> bool option \<Rightarrow> refresh_button \<Rightarrow> proxies_page
       \<Rightarrow> (proxy_click, proxy_field) view" where
  "ProxiesPage t fm parse now session rb s =
     gated t 8 session
      (guarded t 8 (q_loading (px_configs s) \<or> q_loading (px_nodes s) \<or> q_loading (px_sites s))
         (first_error [q_error (px_configs s), q_error (px_nodes s), q_error (px_sites s)]) ClickProxyRetry
       (Grp ''proxies-page''
         ([PageHeader t (Some ''OPERATE'') ''Outbound services''
             (Some ''Inspect a site and node, then choose the outbound service that its monitor should apply.'')
             [RefreshButton t ''Refresh'' False ClickProxyRefresh rb],
           Txt (t ''{count} sites'' [(''count'', number_of fm (length (siteItems s)))]),
           Grp ''proxy-site-tabs'' (map (proxy_site_tab t fm s) (siteItems s))] @
          show_if (selectedSite s \<noteq> None \<and> length (siteNodes s) > 1)
            [Txt (t ''{count} nodes'' [(''count'', number_of fm (length (siteNodes s)))]),
             Grp ''proxy-node-tabs'' (map (proxy_node_tab t s) (siteNodes s))] @
          [(case selectedNode s of
              Some n \<Rightarrow> NodeProxyPanel t fm parse now n (selectedSnapshot s) (endpointSearch s) (endpointStatusFilter s)
            | None \<Rightarrow> EmptyState t ''No nodes enrolled.''
                (Some ''Enroll a regional monitor before choosing an outbound service.'') []),
           ConfirmDialog t (pendingSelection s \<noteq> None) ''Switch proxy service''
             (case pendingSelection s of
                None \<Rightarrow> []
              | Some (n, e) \<Rightarrow>
                  t ''Set {node} to use {outbound}. This creates a node release; the monitor applies it after validation and health checks.''
                    [(''node'', node_name n), (''outbound'', pe_name e)])
             ''Create release'' (mut_pending (selectMutation s)) ClickCloseSelect ClickConfirmSelect []])))"

section \<open>Events\<close>

definition clear_endpoint_filters :: "proxies_page \<Rightarrow> proxies_page" where
  "clear_endpoint_filters s = s\<lparr>endpointSearch := [], endpointStatusFilter := FilterAll\<rparr>"

fun proxy_on_click :: "proxy_click \<Rightarrow> proxies_page \<Rightarrow> proxies_page" where
  "proxy_on_click (ClickProxySite i) s = clear_endpoint_filters (s\<lparr>px_siteId := i, px_nodeId := []\<rparr>)"
| "proxy_on_click (ClickProxyNode i) s = clear_endpoint_filters (s\<lparr>px_nodeId := i\<rparr>)"
| "proxy_on_click (ClickEndpoint e) s =
     (case selectedNode s of None \<Rightarrow> s | Some n \<Rightarrow> s\<lparr>pendingSelection := Some (n, e)\<rparr>)"
| "proxy_on_click ClickClearEndpoints s = s\<lparr>endpointSearch := []\<rparr>"
| "proxy_on_click ClickCloseSelect s =
     (if \<not> mut_pending (selectMutation s) then s\<lparr>pendingSelection := None\<rparr> else s)"
| "proxy_on_click ClickConfirmSelect s =
     (case pendingSelection s of
        None \<Rightarrow> s | Some sel \<Rightarrow> s\<lparr>selectMutation := MutPending (selection_call sel)\<rparr>)"
| "proxy_on_click ClickProxyRefresh s = s"
| "proxy_on_click ClickProxyRetry s = s"

definition endpoint_filter_of :: "string \<Rightarrow> EndpointFilter option" where
  "endpoint_filter_of v =
     find_first (\<lambda>f. endpoint_filter_text f = v)
       [FilterAll, FilterOnline, FilterDegraded, FilterOffline, FilterPending]"

fun proxy_on_edit :: "proxy_field \<Rightarrow> string \<Rightarrow> proxies_page \<Rightarrow> proxies_page" where
  "proxy_on_edit FieldEndpointSearch v s = s\<lparr>endpointSearch := v\<rparr>"
| "proxy_on_edit FieldEndpointStatus v s =
     (case endpoint_filter_of v of None \<Rightarrow> s | Some f \<Rightarrow> s\<lparr>endpointStatusFilter := f\<rparr>)"

datatype proxy_message =
    ConfigsChanged "ProxyConfigSnapshot list query"
  | NodesChanged "Node list query"
  | SitesChanged "Site list query"
  | SelectionEffects
  | WarningEffect translator
  | SelectDone "string + unit"

fun proxy_on_message :: "proxy_message \<Rightarrow> proxies_page \<Rightarrow> proxies_page" where
  "proxy_on_message (ConfigsChanged q) s = s\<lparr>px_configs := q\<rparr>"
| "proxy_on_message (NodesChanged q) s = s\<lparr>px_nodes := q\<rparr>"
| "proxy_on_message (SitesChanged q) s = s\<lparr>px_sites := q\<rparr>"
| "proxy_on_message SelectionEffects s = selection_effects s"
| "proxy_on_message (WarningEffect t) s = warning_effect t s"
| "proxy_on_message (SelectDone r) s = select_done r s"

definition proxies_start :: "proxies_page \<Rightarrow> bool" where
  "proxies_start s \<longleftrightarrow>
     px_siteId s = [] \<and> px_nodeId s = [] \<and> endpointSearch s = [] \<and> endpointStatusFilter s = FilterAll \<and>
     pendingSelection s = None \<and> selectMutation s = MutIdle \<and> warningKey s = [] \<and> px_toasts s = []"

section \<open>Lemmas\<close>

lemma js_map_get_image: "js_map_get (map (\<lambda>x. (f x, x)) xs) k = Some x \<Longrightarrow> f x = k \<and> x \<in> set xs"
  by (auto simp: js_map_get_def dest!: map_of_SomeD)

lemma group_endpoints_names: "map pe_name (group_endpoints g) = pg_all g"
  by (auto simp: group_endpoints_def intro!: map_idI dest!: js_map_get_image [where f = pe_name] split: option.splits)

lemma site_effect_repairs:
  "inventoryReady s \<Longrightarrow> siteItems s \<noteq> [] \<Longrightarrow> px_siteId s \<noteq> [] \<or> (\<forall>site \<in> set (siteItems s). site_id site \<noteq> []) \<Longrightarrow>
     \<exists>site \<in> set (siteItems s). site_id site = site_effect s"
  by (auto simp: site_effect_def initialSiteId_def list_ex_iff split: option.splits list.splits
        dest!: find_first_Some)

lemma effects_frame [simp]:
  "px_nodes (selection_effects s) = px_nodes s" "px_sites (selection_effects s) = px_sites s"
  "px_configs (selection_effects s) = px_configs s" "px_siteId (selection_effects s) = site_effect s"
  "pendingSelection (selection_effects s) = pendingSelection s"
  "selectMutation (selection_effects s) = selectMutation s"
  by (simp_all add: selection_effects_def Let_def)

lemma inventory_cong:
  "px_nodes a = px_nodes b \<Longrightarrow> px_sites a = px_sites b \<Longrightarrow>
     inventoryReady a = inventoryReady b \<and> siteItems a = siteItems b \<and> initialSiteId a = initialSiteId b"
  by (simp add: inventoryReady_def siteItems_def initialSiteId_def cong: option.case_cong)

lemma initialSiteId_known: "initialSiteId s = [] \<or> list_ex (\<lambda>site. site_id site = initialSiteId s) (siteItems s)"
  by (auto simp: initialSiteId_def list_ex_iff split: option.splits list.splits dest!: find_first_Some)

lemma site_effect_stable: "site_effect (selection_effects s) = site_effect s"
  using initialSiteId_known [of s] inventory_cong [of "selection_effects s" s]
  by (auto simp: site_effect_def list_ex_iff)

lemma siteNodes_cong:
  "px_nodes a = px_nodes b \<Longrightarrow> px_siteId a = px_siteId b \<Longrightarrow> siteNodes a = siteNodes b"
  by (simp add: siteNodes_def)

text \<open>With the site settled, one more pass of the effects settles the node.\<close>

lemma node_settles:
  assumes "site_effect s = px_siteId s"
  shows "selection_effects (selection_effects s) = selection_effects s"
proof -
  let ?s = "selection_effects s"
  have site: "site_effect ?s = px_siteId ?s" by (simp add: site_effect_stable)
  have nodes: "siteNodes ?s = siteNodes s" by (rule siteNodes_cong) (simp_all add: assms)
  show ?thesis
  proof (cases "node_effect_due s")
    case False
    then have "?s = s" using assms by (simp add: selection_effects_def Let_def)
    then show ?thesis by simp
  next
    case True
    then have due: "px_nodeId ?s = (case siteNodes s of n # _ \<Rightarrow> node_id n | [] \<Rightarrow> [])"
        "endpointSearch ?s = []" "endpointStatusFilter ?s = FilterAll"
      by (simp_all add: selection_effects_def Let_def)
    have "selection_effects ?s =
        (if node_effect_due ?s then ?s\<lparr>px_siteId := site_effect ?s, px_nodeId := px_nodeId ?s,
            endpointSearch := [], endpointStatusFilter := FilterAll\<rparr> else ?s\<lparr>px_siteId := site_effect ?s\<rparr>)"
      by (subst selection_effects_def) (simp add: Let_def due nodes)
    then show ?thesis unfolding site using due(2,3) by (simp split: if_splits)
  qed
qed

lemma selection_fixpoint:
  "selection_effects (selection_effects (selection_effects s)) = selection_effects (selection_effects s)"
  by (rule node_settles) (simp add: site_effect_stable)

lemma settled_node:
  assumes "selection_effects s = s" "\<forall>n \<in> set (siteNodes s). node_id n \<noteq> []"
  shows "siteNodes s = [] \<or> (\<exists>n \<in> set (siteNodes s). node_id n = px_nodeId s)"
proof (rule ccontr)
  assume "\<not> ?thesis"
  then have due: "node_effect_due s" and ne: "siteNodes s \<noteq> []" by (auto simp: node_effect_due_def list_ex_iff)
  then have "px_nodeId (selection_effects s) = node_id (hd (siteNodes s))"
    by (cases "siteNodes s") (simp_all add: selection_effects_def Let_def)
  with assms ne have "px_nodeId s = node_id (hd (siteNodes s))" by simp
  with \<open>\<not> ?thesis\<close> ne show False by (metis hd_in_set)
qed

section \<open>Invariant\<close>

definition proxy_inv :: "proxies_page \<Rightarrow> bool" where
  "proxy_inv s \<longleftrightarrow>
     (mut_pending (selectMutation s) \<longrightarrow> pendingSelection s \<noteq> None) \<and>
     (\<forall>c. selectMutation s = MutPending c \<longrightarrow> (\<exists>sel. c = selection_call sel))"

lemma warning_frame [simp]:
  "pendingSelection (warning_effect t s) = pendingSelection s"
  "selectMutation (warning_effect t s) = selectMutation s"
  by (auto simp: warning_effect_def Let_def split: option.splits)

lemma proxy_inv_click: "proxy_inv s \<Longrightarrow> proxy_inv (proxy_on_click c s)"
  by (cases c) (auto simp: proxy_inv_def clear_endpoint_filters_def split: option.splits)

lemma proxy_inv_edit: "proxy_inv s \<Longrightarrow> proxy_inv (proxy_on_edit f v s)"
  by (cases f) (auto simp: proxy_inv_def split: option.splits)

lemma proxy_inv_message: "proxy_inv s \<Longrightarrow> proxy_inv (proxy_on_message m s)"
  by (cases m) (auto simp: proxy_inv_def select_done_def mut_settle_def Let_def split: sum.splits mutation.splits)

interpretation px: component proxies_start
    "\<lambda>(t, fm, parse, now, session, rb). ProxiesPage t fm parse now session rb"
    proxy_on_click proxy_on_edit proxy_on_message proxy_inv
  by unfold_locales
     (auto simp: proxy_inv_click proxy_inv_edit proxy_inv_message, auto simp: proxies_start_def proxy_inv_def)

lemma can_click_proxy_parts [simp]:
  "can_click (ProxyEndpointFilters t search st n m) c \<longleftrightarrow> search \<noteq> [] \<and> c = ClickClearEndpoints"
  "can_click (LatencyHistory t fm h) c \<longleftrightarrow> False"
  "can_click (SnapshotState t fm parse now sn) c \<longleftrightarrow> False"
  "can_click (proxy_site_tab t fm s site) c \<longleftrightarrow> c = ClickProxySite (site_id site)"
  "can_click (proxy_node_tab t s node) c \<longleftrightarrow> c = ClickProxyNode (node_id node)"
  by (auto simp: ProxyEndpointFilters_def LatencyHistory_def SnapshotState_def proxy_site_tab_def
        proxy_node_tab_def Let_def list_ex_iff split: option.splits)

lemma can_click_endpoint_card [simp]: "can_click (EndpointCard t fm sel e) c \<longleftrightarrow> c = ClickEndpoint e"
  by (auto simp: EndpointCard_def Let_def)

lemma can_click_endpoint:
  "can_click (ProxiesPage t fm parse now session rb s) (ClickEndpoint e) \<Longrightarrow>
     \<exists>n g. selectedNode s = Some n \<and> selectionGroup (selectedSnapshot s) = Some g \<and>
       e \<in> set (filtered_endpoints (endpointSearch s) (endpointStatusFilter s) (group_endpoints g))"
  by (auto simp: ProxiesPage_def NodeProxyPanel_def OutboundServiceCard_def Let_def
        split: option.splits if_splits)

lemma can_click_confirm_select:
  "can_click (ProxiesPage t fm parse now session rb s) ClickConfirmSelect \<longleftrightarrow>
     session = Some True \<and>
     \<not> (q_loading (px_configs s) \<or> q_loading (px_nodes s) \<or> q_loading (px_sites s)) \<and>
     first_error [q_error (px_configs s), q_error (px_nodes s), q_error (px_sites s)] = None \<and>
     pendingSelection s \<noteq> None \<and> \<not> mut_pending (selectMutation s)"
  by (auto simp: ProxiesPage_def NodeProxyPanel_def OutboundServiceCard_def Let_def
        split: option.splits if_splits)

section \<open>Properties\<close>

text \<open>C27: the selection always settles: after at most two renders the effects change nothing more,
  whatever sites and nodes were reported; then, once the inventory is loaded and identifiers are not
  empty, a site is selected whenever there is one, a node of it whenever it has one, and a valid
  choice of the operator was kept.\<close>

theorem proxy_selection_settles:
  "let s' = selection_effects (selection_effects s) in
     selection_effects s' = s' \<and>
     (inventoryReady s \<and> list_all (\<lambda>site. site_id site \<noteq> []) (siteItems s) \<and>
      list_all (\<lambda>n. node_id n \<noteq> []) (query_list (px_nodes s)) \<longrightarrow>
        (siteItems s \<noteq> [] \<longrightarrow> selectedSite s' \<noteq> None) \<and>
        (siteNodes s' \<noteq> [] \<longrightarrow> (\<exists>n \<in> set (siteNodes s'). node_id n = px_nodeId s' \<and> node_site_id n = px_siteId s')) \<and>
        (selectedSite s \<noteq> None \<and> \<not> node_effect_due s \<longrightarrow> s' = s))"
proof -
  let ?s = "selection_effects (selection_effects s)"
  have stable: "selection_effects ?s = ?s" by (rule selection_fixpoint)
  have same: "siteItems ?s = siteItems s" using inventory_cong [of ?s s] by simp
  show ?thesis (is "let s' = ?s in _ s' \<and> (?ready \<longrightarrow> _ s')")
  proof (unfold Let_def, intro conjI impI)
    assume ready: ?ready
    show "selectedSite ?s \<noteq> None" if "siteItems s \<noteq> []"
    proof -
      from ready that have "\<exists>site \<in> set (siteItems s). site_id site = site_effect s"
        by (intro site_effect_repairs) (auto simp: list_all_iff)
      then show ?thesis by (simp add: selectedSite_def same site_effect_stable)
    qed
    show "\<exists>n \<in> set (siteNodes ?s). node_id n = px_nodeId ?s \<and> node_site_id n = px_siteId ?s"
      if "siteNodes ?s \<noteq> []"
    proof -
      have "\<forall>n \<in> set (siteNodes ?s). node_id n \<noteq> []"
        using ready by (auto simp: siteNodes_def list_all_iff)
      with settled_node [OF stable] that obtain n where "n \<in> set (siteNodes ?s)" "node_id n = px_nodeId ?s"
        by blast
      then show ?thesis by (auto simp: siteNodes_def)
    qed
    show "?s = s" if sel: "selectedSite s \<noteq> None \<and> \<not> node_effect_due s"
    proof -
      from sel ready have "site_effect s = px_siteId s"
        by (auto simp: selectedSite_def site_effect_def list_ex_iff list_all_iff)
      with sel have "selection_effects s = s" by (simp add: selection_effects_def Let_def)
      then show ?thesis by simp
    qed
  qed (rule stable)
qed

definition demo_proxies :: proxies_page where
  "demo_proxies =
     \<lparr>px_siteId = [], px_nodeId = [], endpointSearch = [], endpointStatusFilter = FilterAll,
      pendingSelection = None, selectMutation = MutIdle, px_configs = loaded [],
      px_nodes = loaded [sample_node ''b'' ''n1''], px_sites = loaded [sample_site ''a'', sample_site ''b''],
      warningKey = [], px_toasts = []\<rparr>"

theorem proxy_selection_settles_witness:
  "let s' = selection_effects (selection_effects demo_proxies) in
     selection_effects s' = s' \<and> selectedSite s' \<noteq> None"
proof -
  have "inventoryReady demo_proxies \<and> list_all (\<lambda>site. site_id site \<noteq> []) (siteItems demo_proxies) \<and>
      list_all (\<lambda>n. node_id n \<noteq> []) (query_list (px_nodes demo_proxies)) \<and> siteItems demo_proxies \<noteq> []"
    by (simp add: demo_proxies_def inventoryReady_def siteItems_def query_list_def loaded_def q_isError_def)
  then show ?thesis using proxy_selection_settles [of demo_proxies] by (simp add: Let_def)
qed

text \<open>C28: what is confirmed is what was chosen from the screen: only an outbound that the node's
  snapshot lists in its subscription group and that passes the filters can be chosen, for the node
  on screen; confirming sends exactly one request, which names that node, that outbound and the
  desired version that the node had (no version for a node without one); and while the request is
  on its way the dialog stays open and cannot be confirmed again.\<close>

theorem proxy_selection_confirmed:
  assumes "px.reachable s"
  shows "(can_click (ProxiesPage t fm parse now session rb s) (ClickEndpoint e) \<longrightarrow>
       (\<exists>n sn g. selectedNode s = Some n \<and> n \<in> set (query_list (px_nodes s)) \<and> node_site_id n = px_siteId s \<and>
          selectedSnapshot s = Some sn \<and> pcs_node_id sn = node_agent_id n \<and> g \<in> set (pcs_groups sn) \<and>
          to_lower (trim (pg_name g)) = ''subscription'' \<and> pe_name e \<in> set (pg_all g) \<and>
          pendingSelection (proxy_on_click (ClickEndpoint e) s) = Some (n, e))) \<and>
     (can_click (ProxiesPage t fm parse now session rb s) ClickConfirmSelect \<longrightarrow>
       (\<exists>n e'. pendingSelection s = Some (n, e') \<and> \<not> mut_pending (selectMutation s) \<and>
          selectMutation (proxy_on_click ClickConfirmSelect s) =
            MutPending (selectNodeProxy (node_id n)
              \<lparr>psr_group = ''subscription'', psr_outbound = pe_name e',
               psr_expected_current_version =
                 (if node_desired_version n = 0 then None else Some (node_desired_version n)),
               psr_note = Some ''Selected from proxy operations view''\<rparr>))) \<and>
     (mut_pending (selectMutation s) \<longrightarrow>
        pendingSelection (proxy_on_click ClickCloseSelect s) \<noteq> None \<and>
        \<not> can_click (ProxiesPage t fm parse now session rb s) ClickConfirmSelect)"
proof (intro conjI impI)
  assume "can_click (ProxiesPage t fm parse now session rb s) (ClickEndpoint e)"
  from can_click_endpoint [OF this] obtain n g where n: "selectedNode s = Some n"
    and g: "selectionGroup (selectedSnapshot s) = Some g"
    and e: "e \<in> set (filtered_endpoints (endpointSearch s) (endpointStatusFilter s) (group_endpoints g))" by blast
  from g obtain sn where sn: "selectedSnapshot s = Some sn" by (auto simp: selectionGroup_def split: option.splits)
  from e have "pe_name e \<in> set (map pe_name (group_endpoints g))" by (auto simp: filtered_endpoints_def Let_def)
  moreover from n have "n \<in> set (siteNodes s)"
    by (auto simp: selectedNode_def or_else_def dest!: find_first_Some head_opt_in split: option.splits)
  moreover from n sn have "pcs_node_id sn = node_agent_id n"
    by (auto simp: selectedSnapshot_def dest!: js_map_get_image [where f = pcs_node_id])
  ultimately show "\<exists>n sn g. selectedNode s = Some n \<and> n \<in> set (query_list (px_nodes s)) \<and> node_site_id n = px_siteId s \<and>
      selectedSnapshot s = Some sn \<and> pcs_node_id sn = node_agent_id n \<and> g \<in> set (pcs_groups sn) \<and>
      to_lower (trim (pg_name g)) = ''subscription'' \<and> pe_name e \<in> set (pg_all g) \<and>
      pendingSelection (proxy_on_click (ClickEndpoint e) s) = Some (n, e)"
    using n sn g by (auto simp: group_endpoints_names selectionGroup_def siteNodes_def dest!: find_first_Some)
next
  have "proxy_inv s" by (rule px.reachable_inv [OF assms])
  then show "pendingSelection (proxy_on_click ClickCloseSelect s) \<noteq> None"
    if "mut_pending (selectMutation s)" using that by (auto simp: proxy_inv_def)
qed (auto simp: can_click_confirm_select selection_call_def selection_request_def)

definition demo_endpoint :: ProxyEndpoint where
  "demo_endpoint = \<lparr>pe_name = ''hk-1'', pe_type = ''trojan'', pe_udp = True, pe_alive = Some True,
     pe_delay_ms = Some 900, pe_history = []\<rparr>"

definition demo_reported :: proxies_page where
  "demo_reported = demo_proxies\<lparr>px_configs := loaded
     [\<lparr>pcs_id = ''c'', pcs_node_id = ''agent-n1'', pcs_site_id = ''b'', pcs_sampled_at = [], pcs_api_available = True,
       pcs_groups = [\<lparr>pg_name = ''subscription'', pg_type = ''selector'', pg_now = [], pg_all = [''hk-1''],
         pg_nodes = [demo_endpoint], pg_udp = True, pg_delay_ms = None, pg_history = []\<rparr>],
       pcs_error = [], pcs_received_at = []\<rparr>]\<rparr>"

theorem proxy_selection_confirmed_witness:
  "let s0 = proxy_on_click (ClickProxySite ''b'') demo_reported;
       s1 = proxy_on_click (ClickEndpoint demo_endpoint) s0
   in pendingSelection s1 = Some (sample_node ''b'' ''n1'', demo_endpoint) \<and>
      selectMutation (proxy_on_click ClickConfirmSelect s1) =
        MutPending (selectNodeProxy ''n1''
          \<lparr>psr_group = ''subscription'', psr_outbound = ''hk-1'', psr_expected_current_version = Some 3,
           psr_note = Some ''Selected from proxy operations view''\<rparr>)"
proof -
  let ?R = "\<lambda>(t, fm, parse, now, session, rb). ProxiesPage t fm parse now session rb"
  let ?e = "(plain, sample_formats, (\<lambda>_. None), 0, Some True, refresh_init)"
  let ?s0 = "proxy_on_click (ClickProxySite ''b'') demo_reported"
  let ?s1 = "proxy_on_click (ClickEndpoint demo_endpoint) ?s0"
  note defs = demo_reported_def demo_proxies_def loaded_def query_list_def siteItems_def siteNodes_def
    selectedNode_def selectedSnapshot_def selectionGroup_def group_endpoints_def filtered_endpoints_def
    clear_endpoint_filters_def first_error_def find_first_def js_map_get_def demo_endpoint_def to_lower_def lower_char_def trim_def is_ws_def
  have "can_click (?R ?e demo_reported) (ClickProxySite ''b'')"
    by (simp add: ProxiesPage_def demo_reported_def demo_proxies_def loaded_def siteItems_def query_list_def first_error_def)
  moreover have "px.reachable demo_reported"
    by (rule px.reach_start) (simp add: proxies_start_def demo_reported_def demo_proxies_def)
  ultimately have r0: "px.reachable ?s0" by (intro px.reach_click [where e = ?e])
  have node: "selectedNode ?s0 = Some (sample_node ''b'' ''n1'')" by (simp add: defs)
  have "can_click (?R ?e ?s0) (ClickEndpoint demo_endpoint)"
    by (simp add: ProxiesPage_def NodeProxyPanel_def OutboundServiceCard_def Let_def defs)
  with r0 have r1: "px.reachable ?s1" by (rule px.reach_click)
  have pend: "pendingSelection ?s1 = Some (sample_node ''b'' ''n1'', demo_endpoint)" using node by simp
  have "can_click (?R ?e ?s1) ClickConfirmSelect"
    unfolding prod.case can_click_confirm_select using pend node
    by (simp add: demo_reported_def demo_proxies_def loaded_def first_error_def clear_endpoint_filters_def)
  with proxy_selection_confirmed [OF r1, of plain sample_formats "\<lambda>_. None" 0 "Some True" refresh_init demo_endpoint] pend
  show ?thesis by (auto simp: Let_def sample_node_def demo_endpoint_def)
qed

text \<open>The state filter has no entry for the state \<^verbatim>\<open>attention\<close>: an endpoint slower than 800 milliseconds is
  shown without a filter and by none of the four filters.\<close>

lemma slow_endpoint_not_filterable:
  assumes "endpointStatus e = ''attention''"
  shows "e \<in> set (filtered_endpoints [] st es) \<longleftrightarrow> st = FilterAll \<and> e \<in> set es"
  using assms by (cases st) (auto simp: filtered_endpoints_def Let_def to_lower_def)

end
