(* ===== verification/Sorting.thy ===== *)
theory Sorting
  imports Complex_Main "HOL-Library.Multiset"
begin

text \<open>
  \<^verbatim>\<open>Array.prototype.sort\<close> with a comparison function.  For a consistent comparison (reflexive, total and
  transitive in the sense of \<open>cmp a b \<le> 0\<close>) the language defines the result: the stable sorting of the
  array.  \<open>js_sort\<close> computes it; the locale \<open>consistent_comparison\<close> states the contract and what it gives.
\<close>

fun js_insort :: "('a \<Rightarrow> 'a \<Rightarrow> rat) \<Rightarrow> 'a \<Rightarrow> 'a list \<Rightarrow> 'a list" where
  "js_insort cmp x [] = [x]"
| "js_insort cmp x (y # ys) = (if cmp x y \<le> 0 then x # y # ys else y # js_insort cmp x ys)"

definition js_sort :: "('a \<Rightarrow> 'a \<Rightarrow> rat) \<Rightarrow> 'a list \<Rightarrow> 'a list" where
  "js_sort cmp xs = foldr (js_insort cmp) xs []"

lemma mset_js_insort [simp]: "mset (js_insort cmp x ys) = add_mset x (mset ys)"
  by (induction ys) auto

lemma mset_js_sort [simp]: "mset (js_sort cmp xs) = mset xs"
  by (induction xs) (simp_all add: js_sort_def)

lemma set_js_sort [simp]: "set (js_sort cmp xs) = set xs"
  using mset_js_sort [of cmp xs] by (metis set_mset_mset)

lemma length_js_sort [simp]: "length (js_sort cmp xs) = length xs"
  using mset_js_sort [of cmp xs] by (metis size_mset)

lemma js_sort_simps [simp]: "js_sort cmp [] = []" "js_sort cmp (x # xs) = js_insort cmp x (js_sort cmp xs)"
  by (simp_all add: js_sort_def)

locale consistent_comparison =
  fixes cmp :: "'a \<Rightarrow> 'a \<Rightarrow> rat"
  assumes linear: "cmp a b \<le> 0 \<or> cmp b a \<le> 0"
    and transitive: "cmp a b \<le> 0 \<Longrightarrow> cmp b c \<le> 0 \<Longrightarrow> cmp a c \<le> 0"
begin

lemma insort_sorted:
  "sorted_wrt (\<lambda>a b. cmp a b \<le> 0) ys \<Longrightarrow> sorted_wrt (\<lambda>a b. cmp a b \<le> 0) (js_insort cmp x ys)"
proof (induction ys)
  case (Cons y ys)
  have members: "set (js_insort cmp x ys) = insert x (set ys)"
    using mset_js_insort [of cmp x ys] by (metis set_mset_add_mset_insert set_mset_mset)
  show ?case
  proof (cases "cmp x y \<le> 0")
    case True
    with Cons.prems show ?thesis by (auto intro: transitive)
  next
    case False
    then have "cmp y x \<le> 0" using linear [of x y] by blast
    with Cons False members show ?thesis by auto
  qed
qed simp

lemma sort_sorted: "sorted_wrt (\<lambda>a b. cmp a b \<le> 0) (js_sort cmp xs)"
  by (induction xs) (simp_all add: insort_sorted)

text \<open>Elements that compare equal keep their order.\<close>

lemma insort_filter:
  "(\<And>y. y \<in> set ys \<Longrightarrow> P y \<Longrightarrow> P x \<Longrightarrow> cmp x y \<le> 0) \<Longrightarrow>
     filter P (js_insort cmp x ys) = (if P x then x # filter P ys else filter P ys)"
  by (induction ys) auto

lemma sort_stable: "(\<And>a b. P a \<Longrightarrow> P b \<Longrightarrow> cmp a b \<le> 0) \<Longrightarrow> filter P (js_sort cmp xs) = filter P xs"
  by (induction xs) (auto simp: insort_filter)

end

text \<open>A comparison whose sign is antisymmetric and that is transitive, ties included, as
  \<^verbatim>\<open>localeCompare\<close> is.\<close>

locale collation =
  fixes lc :: "'s \<Rightarrow> 's \<Rightarrow> rat"
  assumes antisymmetric: "lc a b \<le> 0 \<longleftrightarrow> 0 \<le> lc b a"
    and lc_transitive: "lc a b \<le> 0 \<Longrightarrow> lc b c \<le> 0 \<Longrightarrow> lc a c \<le> 0"
begin

lemma lc_linear: "lc a b \<le> 0 \<or> lc b a \<le> 0"
  using antisymmetric [of a b] by linarith

lemma lc_zero: "lc a b = 0 \<longleftrightarrow> lc a b \<le> 0 \<and> lc b a \<le> 0"
  using antisymmetric [of a b] antisymmetric [of b a] by linarith

lemma lc_refl [simp]: "lc a a = 0"
  using antisymmetric [of a a] by linarith

lemma lc_strict: "lc a b < 0 \<longleftrightarrow> 0 < lc b a"
  using antisymmetric [of b a] by linarith

end

sublocale collation \<subseteq> consistent_comparison lc
  by unfold_locales (use lc_linear lc_transitive in blast)+

context collation
begin

lemma js_sort_sorted: "sorted_wrt (\<lambda>a b. lc a b \<le> 0) (js_sort lc xs)"
  by (rule sort_sorted)

lemma js_sort_stable: "(\<And>a b. P a \<Longrightarrow> P b \<Longrightarrow> lc a b \<le> 0) \<Longrightarrow> filter P (js_sort lc xs) = filter P xs"
  by (rule sort_stable)

end

text \<open>Collations are closed under reversing, comparing by a feature, and breaking ties.\<close>

definition then_by :: "('a \<Rightarrow> 'a \<Rightarrow> rat) \<Rightarrow> ('a \<Rightarrow> 'a \<Rightarrow> rat) \<Rightarrow> 'a \<Rightarrow> 'a \<Rightarrow> rat" where
  "then_by c1 c2 a b = (if c1 a b = 0 then c2 a b else c1 a b)"

lemma collation_reverse: "collation c \<Longrightarrow> collation (\<lambda>a b. - c a b)"
  unfolding collation_def by (auto; metis)

lemma collation_on: "collation c \<Longrightarrow> collation (\<lambda>a b. c (f a) (f b))"
  unfolding collation_def by blast

lemma collation_numbers: "collation (\<lambda>a b. a - b :: rat)"
  by unfold_locales auto

lemma collation_then_by:
  assumes "collation c1" "collation c2"
  shows "collation (then_by c1 c2)"
proof
  fix a b c
  show "then_by c1 c2 a b \<le> 0 \<longleftrightarrow> 0 \<le> then_by c1 c2 b a"
    using collation.antisymmetric [OF assms(1), of a b] collation.antisymmetric [OF assms(1), of b a]
      collation.antisymmetric [OF assms(2), of a b]
    by (auto simp: then_by_def)
  assume le: "then_by c1 c2 a b \<le> 0" "then_by c1 c2 b c \<le> 0"
  then have c1: "c1 a b \<le> 0" "c1 b c \<le> 0" by (auto simp: then_by_def split: if_splits)
  then have "c1 a c \<le> 0" by (rule collation.lc_transitive [OF assms(1)])
  moreover have "c1 a b = 0 \<and> c1 b c = 0" if "c1 a c = 0"
  proof -
    from that have "c1 c a \<le> 0" using collation.lc_zero [OF assms(1), of a c] by simp
    with c1 have "c1 b a \<le> 0" "c1 c b \<le> 0" using collation.lc_transitive [OF assms(1)] by blast+
    with c1 show ?thesis using collation.lc_zero [OF assms(1)] by blast
  qed
  ultimately show "then_by c1 c2 a c \<le> 0"
    using le collation.lc_transitive [OF assms(2), of a b c] by (auto simp: then_by_def split: if_splits)
qed

text \<open>Values that may be missing: a missing value comes after every other.\<close>

definition missing_last :: "('v \<Rightarrow> 'v \<Rightarrow> rat) \<Rightarrow> 'v option \<Rightarrow> 'v option \<Rightarrow> rat" where
  "missing_last c l r =
     (if l = r then 0
      else case l of
             None \<Rightarrow> 1
           | Some a \<Rightarrow> (case r of None \<Rightarrow> - 1 | Some b \<Rightarrow> c a b))"

lemma collation_missing_last:
  assumes "collation c"
  shows "collation (missing_last c)"
proof
  fix x y z
  show "missing_last c x y \<le> 0 \<longleftrightarrow> 0 \<le> missing_last c y x"
    using collation.antisymmetric [OF assms] by (auto simp: missing_last_def split: option.splits)
  assume "missing_last c x y \<le> 0" "missing_last c y z \<le> 0"
  then show "missing_last c x z \<le> 0"
    using collation.lc_transitive [OF assms] collation.lc_refl [OF assms]
    by (auto simp: missing_last_def split: option.splits if_splits)
qed

text \<open>The order of the code units, the collation of the concrete examples.\<close>

fun code_unit_compare :: "string \<Rightarrow> string \<Rightarrow> rat" where
  "code_unit_compare [] [] = 0"
| "code_unit_compare [] (b # bs) = - 1"
| "code_unit_compare (a # as) [] = 1"
| "code_unit_compare (a # as) (b # bs) =
     (if a = b then code_unit_compare as bs
      else if (of_char a :: nat) < of_char b then - 1 else 1)"

lemma code_unit_antisymmetric: "code_unit_compare a b = - code_unit_compare b a"
  by (induction a b rule: code_unit_compare.induct) (auto simp: not_less dest: order.antisym)

lemma code_unit_transitive:
  "code_unit_compare a b \<le> 0 \<Longrightarrow> code_unit_compare b c \<le> 0 \<Longrightarrow> code_unit_compare a c \<le> 0"
proof (induction a b arbitrary: c rule: code_unit_compare.induct)
  case (4 a as b bs)
  then show ?case by (cases c) (auto split: if_splits)
next
  case 1
  then show ?case by simp
next
  case (2 b bs)
  then show ?case by (cases c) auto
qed auto

interpretation cu: collation code_unit_compare
proof unfold_locales
  show "code_unit_compare a b \<le> 0 \<longleftrightarrow> 0 \<le> code_unit_compare b a" for a b
    using code_unit_antisymmetric [of a b] by simp
qed (rule code_unit_transitive)

end
