(* ===== verification/Service_Quality_Page.thy ===== *)
theory Service_Quality_Page
  imports Page_Kit Endpoints Sorting
begin

text \<open>
  Service quality: \<^verbatim>\<open>src/frontend/app/service-quality/page.tsx\<close>.  Latency and availability of each outbound, as a
  chart or as a table that can be sorted by column.  The string comparison of the browser's
  language, \<^verbatim>\<open>localeCompare\<close>, is the parameter \<open>lc\<close>.
\<close>

datatype QualityView = ViewChart | ViewTable

datatype SortKey = KeyNode | KeyOutbound | KeyLatency | KeySuccess | KeySamples | KeySampledAt

datatype SortDirection = Asc | Desc

datatype LatencyBand = BandGood | BandAcceptable | BandHigh | BandUnknown

definition DEFAULT_SERVICE_QUALITY_DEFINITION :: ServiceQualityDefinition where
  "DEFAULT_SERVICE_QUALITY_DEFINITION = \<lparr>sqd_green_max_ms = 100, sqd_yellow_max_ms = 200\<rparr>"

definition qualityWindows :: "(string \<times> string) list" where
  "qualityWindows = [(''1h'', ''Last hour''), (''24h'', ''Last 24 hours''), (''7d'', ''Last 7 days''), (''30d'', ''Last 30 days'')]"

section \<open>Sorting\<close>

text \<open>\<^verbatim>\<open>left[key]\<close> is a text or a number of which both may be missing; a column holds values of one type.\<close>

fun compareValues ::
    "(string \<Rightarrow> string \<Rightarrow> rat) \<Rightarrow> ServiceQualityStat \<Rightarrow> ServiceQualityStat \<Rightarrow> SortKey \<Rightarrow> rat" where
  "compareValues lc l r KeyNode = missing_last lc (Some (sqs_node_name l)) (Some (sqs_node_name r))"
| "compareValues lc l r KeyOutbound = missing_last lc (Some (sqs_outbound_tag l)) (Some (sqs_outbound_tag r))"
| "compareValues lc l r KeyLatency =
     missing_last (\<lambda>a b. a - b) (sqs_average_latency_ms l) (sqs_average_latency_ms r)"
| "compareValues lc l r KeySuccess = missing_last (\<lambda>a b. a - b) (sqs_success_rate l) (sqs_success_rate r)"
| "compareValues lc l r KeySamples =
     missing_last (\<lambda>a b. a - b) (Some (of_int (sqs_sample_count l))) (Some (of_int (sqs_sample_count r)))"
| "compareValues lc l r KeySampledAt = missing_last lc (sqs_last_sampled_at l) (sqs_last_sampled_at r)"

definition entry_compare ::
    "(string \<Rightarrow> string \<Rightarrow> rat) \<Rightarrow> SortKey \<Rightarrow> SortDirection \<Rightarrow> ServiceQualityStat \<Rightarrow> ServiceQualityStat \<Rightarrow> rat" where
  "entry_compare lc key dir l r =
     (let result = compareValues lc l r key
      in if result = 0 then lc (sqs_outbound_tag l) (sqs_outbound_tag r)
         else if dir = Asc then result else - result)"

definition sorted_entries ::
    "(string \<Rightarrow> string \<Rightarrow> rat) \<Rightarrow> SortKey \<Rightarrow> SortDirection \<Rightarrow> ServiceQualityStat list \<Rightarrow> ServiceQualityStat list" where
  "sorted_entries lc key dir entries = js_sort (entry_compare lc key dir) entries"

section \<open>Classification\<close>

definition qualityStatus :: "ServiceQualityStat \<Rightarrow> ServiceQualityDefinition \<Rightarrow> string" where
  "qualityStatus entry d =
     (if sqs_sample_count entry = 0 \<or> sqs_last_success entry = None then ''pending''
      else if sqs_last_success entry = Some False then ''offline''
      else case sqs_average_latency_ms entry of
             None \<Rightarrow> ''healthy''
           | Some ms \<Rightarrow> if ms > of_int (sqd_yellow_max_ms d) then ''attention''
                        else if ms > of_int (sqd_green_max_ms d) then ''degraded'' else ''healthy'')"

definition latencyBand :: "ServiceQualityStat \<Rightarrow> ServiceQualityDefinition \<Rightarrow> LatencyBand" where
  "latencyBand entry d =
     (case sqs_average_latency_ms entry of
        None \<Rightarrow> BandUnknown
      | Some ms \<Rightarrow>
          if sqs_last_success entry = Some False then BandHigh
          else if ms \<le> of_int (sqd_green_max_ms d) then BandGood
          else if ms \<le> of_int (sqd_yellow_max_ms d) then BandAcceptable else BandHigh)"

definition latencyBandLabel :: "LatencyBand \<Rightarrow> ServiceQualityDefinition \<Rightarrow> translator \<Rightarrow> string" where
  "latencyBandLabel band d t =
     (case band of
        BandGood \<Rightarrow> t ''Good (<= {value} ms)'' [(''value'', show_int (sqd_green_max_ms d))]
      | BandAcceptable \<Rightarrow> t ''Acceptable ({from}-{to} ms)''
          [(''from'', show_int (sqd_green_max_ms d + 1)), (''to'', show_int (sqd_yellow_max_ms d))]
      | BandHigh \<Rightarrow> t ''High (>{value} ms) or unavailable'' [(''value'', show_int (sqd_yellow_max_ms d))]
      | BandUnknown \<Rightarrow> ''No samples'')"

section \<open>State\<close>

record quality_page =
  qp_siteId :: string
  qp_nodeId :: string
  qp_window :: ServiceQualityWindow
  qp_viewMode :: QualityView
  sortKey :: SortKey
  sortDirection :: SortDirection
  qp_nodes :: "Node list query"

definition quality_init :: "Node list query \<Rightarrow> quality_page" where
  "quality_init nodes =
     \<lparr>qp_siteId = [], qp_nodeId = [], qp_window = Window24h, qp_viewMode = ViewChart, sortKey = KeyLatency,
      sortDirection = Asc, qp_nodes = nodes\<rparr>"

definition quality_key :: "quality_page \<Rightarrow> json" where
  "quality_key s = JArr [JStr ''service-quality'', JStr (window_text (qp_window s)), JStr (qp_siteId s), JStr (qp_nodeId s)]"

definition quality_request :: "quality_page \<Rightarrow> api_call" where
  "quality_request s = getServiceQuality (Some (qp_window s)) (opt_str (qp_siteId s)) (opt_str (qp_nodeId s))"

definition nodeItems :: "quality_page \<Rightarrow> Node list" where
  "nodeItems s =
     filter (\<lambda>n. qp_siteId s = [] \<or> node_site_id n = qp_siteId s) (query_list (qp_nodes s))"

definition drop_node_effect :: "quality_page \<Rightarrow> quality_page" where
  "drop_node_effect s =
     (if qp_nodeId s \<noteq> [] \<and> \<not> list_ex (\<lambda>n. node_id n = qp_nodeId s) (nodeItems s)
      then s\<lparr>qp_nodeId := []\<rparr> else s)"

definition selectSort :: "SortKey \<Rightarrow> quality_page \<Rightarrow> quality_page" where
  "selectSort nextKey s =
     (if sortKey s = nextKey
      then s\<lparr>sortDirection := (if sortDirection s = Asc then Desc else Asc)\<rparr>
      else s\<lparr>sortKey := nextKey, sortDirection := Asc\<rparr>)"

section \<open>What is rendered\<close>

datatype quality_click = ClickChart | ClickTable | ClickSort SortKey | ClickQualityRefresh | ClickQualityRetry

datatype quality_field = QualitySite | QualityNode | QualityWindow

text \<open>The chart: the scale, and the width of a bar in percent.\<close>

definition chart_max :: "ServiceQualityStat list \<Rightarrow> rat" where
  "chart_max entries =
     fold max (concat (map (\<lambda>e. case sqs_average_latency_ms e of None \<Rightarrow> [] | Some ms \<Rightarrow> [ms]) entries)) 1"

definition bar_width :: "rat \<Rightarrow> rat \<Rightarrow> rat" where
  "bar_width mx value = min 100 (max 2 (value / mx * 100))"

fun band_text :: "LatencyBand \<Rightarrow> string" where
  "band_text BandGood = ''good''"
| "band_text BandAcceptable = ''acceptable''"
| "band_text BandHigh = ''high''"
| "band_text BandUnknown = ''unknown''"

definition dot :: string where "dot = '' '' @ [CHR 0xB7] @ '' ''"

definition chart_row ::
    "translator \<Rightarrow> formats \<Rightarrow> ServiceQualityDefinition \<Rightarrow> (rat \<Rightarrow> string) \<Rightarrow> rat \<Rightarrow> ServiceQualityStat \<Rightarrow> ('c, 'f) view" where
  "chart_row t fm d css mx entry =
     Grp (sqs_node_id entry @ '':'' @ sqs_outbound_tag entry)
       ([Txt (sqs_node_name entry), Txt (t ''Subscription'' [] @ dot @ sqs_outbound_tag entry)] @
        (case sqs_average_latency_ms entry of
           None \<Rightarrow> [Txt (t ''No samples'' []), Txt (t ''No samples'' [])]
         | Some ms \<Rightarrow>
             [Txt (fm_duration fm (Some ms) @ dot @ latencyBandLabel (latencyBand entry d) d t),
              Grp (''quality-chart-bar-'' @ band_text (latencyBand entry d)) [Txt (css (bar_width mx ms))],
              Txt (fm_duration fm (Some ms))]))"

definition QualityChart ::
    "translator \<Rightarrow> formats \<Rightarrow> ServiceQualityDefinition \<Rightarrow> (rat \<Rightarrow> string) \<Rightarrow> ServiceQualityStat list \<Rightarrow> ('c, 'f) view" where
  "QualityChart t fm d css entries =
     (let mx = chart_max entries
      in Grp ''service-quality-chart-panel''
        ([Txt (t ''AVERAGE LATENCY'' []), Txt (t ''Subscription: outbound comparison'' []), Txt (t ''Lower is better'' []),
          Txt (latencyBandLabel BandGood d t), Txt (latencyBandLabel BandAcceptable d t),
          Txt (latencyBandLabel BandHigh d t), Txt (fm_duration fm (Some 0)), Txt (fm_duration fm (Some mx))] @
         map (chart_row t fm d css mx) entries @
         [Txt (t ''{count} samples'' [(''count'', fm_number fm (Some (sum_list (map sqs_sample_count entries))))] @ dot @
            t ''Availability is calculated from monitor reports.'' [])]))"

definition SortableHeader ::
    "translator \<Rightarrow> string \<Rightarrow> SortKey \<Rightarrow> SortKey \<Rightarrow> SortDirection \<Rightarrow> (quality_click, quality_field) view" where
  "SortableHeader t label key activeKey dir =
     Grp (if key = activeKey then (if dir = Asc then ''ascending'' else ''descending'') else ''none'')
       [Btn (t label []) False (ClickSort key),
        Txt (if key = activeKey then (if dir = Asc then t ''Ascending'' [] else t ''Descending'' []) else t ''Sort'' [])]"

definition quality_row ::
    "translator \<Rightarrow> formats \<Rightarrow> ServiceQualityDefinition \<Rightarrow> ServiceQualityStat \<Rightarrow> ('c, 'f) view" where
  "quality_row t fm d e =
     Grp (sqs_node_id e @ '':'' @ sqs_outbound_tag e)
       [Txt (sqs_node_name e), Txt (sqs_site_name e), Txt (t ''Subscription'' []), Txt (sqs_outbound_tag e),
        Txt (fm_duration fm (sqs_average_latency_ms e)),
        Txt (t ''Last'' [] @ '': '' @ fm_duration fm (map_option of_int (sqs_last_latency_ms e))),
        Txt (fm_percent fm (sqs_success_rate e)),
        Txt (t ''Success / failed'' [] @ '': '' @ fm_number fm (Some (sqs_successful_samples e)) @ '' / '' @
             fm_number fm (Some (sqs_failed_samples e))),
        Txt (t ''Min'' [] @ '': '' @ fm_duration fm (map_option of_int (sqs_min_latency_ms e))),
        Txt (t ''Max'' [] @ '': '' @ fm_duration fm (map_option of_int (sqs_max_latency_ms e))),
        Txt (fm_number fm (Some (sqs_sample_count e))),
        StatusBadge t (qualityStatus e d), Txt (fm_date fm (sqs_last_sampled_at e))]"

definition QualityTable ::
    "translator \<Rightarrow> formats \<Rightarrow> ServiceQualityDefinition \<Rightarrow> SortKey \<Rightarrow> SortDirection \<Rightarrow> ServiceQualityStat list
       \<Rightarrow> (quality_click, quality_field) view" where
  "QualityTable t fm d key dir entries =
     Grp ''service-quality-table-panel''
       ([Txt (t ''Service quality table'' []), Txt (t ''Select a column to sort'' []),
         SortableHeader t ''Node'' KeyNode key dir, SortableHeader t ''Subscription outbound'' KeyOutbound key dir,
         SortableHeader t ''Average latency'' KeyLatency key dir, SortableHeader t ''Availability'' KeySuccess key dir,
         Txt (t ''Range'' []), SortableHeader t ''Samples'' KeySamples key dir,
         SortableHeader t ''Last sample'' KeySampledAt key dir] @
        map (quality_row t fm d) entries)"

record quality_env =
  qe_session :: "bool option"
  qe_sites :: "Site list query"
  qe_settings :: "SystemSettings query"
  qe_quality :: "ServiceQualityResponse query"
  qe_refresh :: refresh_button

definition quality_body ::
    "translator \<Rightarrow> formats \<Rightarrow> (string \<Rightarrow> string \<Rightarrow> rat) \<Rightarrow> (rat \<Rightarrow> string) \<Rightarrow> quality_env \<Rightarrow> quality_page
       \<Rightarrow> (quality_click, quality_field) view" where
  "quality_body t fm lc css e s =
     (let entries = sorted_entries lc (sortKey s) (sortDirection s)
            (case q_data (qe_quality e) of None \<Rightarrow> [] | Some r \<Rightarrow> sqr_entries r);
          d = (case q_data (qe_settings e) of None \<Rightarrow> DEFAULT_SERVICE_QUALITY_DEFINITION | Some st \<Rightarrow> ss_service_quality st)
      in guarded t 8 (q_loading (qe_quality e)) (q_error (qe_quality e)) ClickQualityRetry
        (if entries = []
         then EmptyState t ''No service quality samples.''
           (Some ''The monitor will report subscription outbound latency after its next proxy snapshot.'') []
         else if qp_viewMode s = ViewChart then QualityChart t fm d css entries
         else QualityTable t fm d (sortKey s) (sortDirection s) entries))"

definition ServiceQualityPage ::
    "translator \<Rightarrow> formats \<Rightarrow> (string \<Rightarrow> string \<Rightarrow> rat) \<Rightarrow> (rat \<Rightarrow> string) \<Rightarrow> quality_env \<Rightarrow> quality_page
       \<Rightarrow> (quality_click, quality_field) view" where
  "ServiceQualityPage t fm lc css e s =
     gated t 8 (qe_session e)
      (guarded t 8 (q_loading (qe_sites e) \<or> q_loading (qp_nodes s) \<or> q_loading (qe_settings e))
         (first_error [q_error (qe_sites e), q_error (qp_nodes s), q_error (qe_settings e)]) ClickQualityRetry
       (Grp ''service-quality-page''
         [PageHeader t (Some ''OBSERVE'') (t ''Service quality'' [])
            (Some (t ''Average latency and availability for every subscription outbound.'' []))
            [RefreshButton t (t ''Refresh'' []) False ClickQualityRefresh (qe_refresh e)],
          Txt (t ''Subscription outbound performance'' []),
          Txt (t ''{count} services''
                 [(''count'', number_of fm (case q_data (qe_quality e) of None \<Rightarrow> 0 | Some r \<Rightarrow> length (sqr_entries r)))] @ dot @
               t ''{count} samples''
                 [(''count'', fm_number fm (Some (case q_data (qe_quality e) of None \<Rightarrow> 0 | Some r \<Rightarrow> sqr_samples r)))]),
          Btn (t ''Statistics chart'' []) False ClickChart, Btn (t ''Table'' []) False ClickTable,
          FilterSelect t ''Site'' (qp_siteId s) QualitySite
            (all_or_one ''All sites'' site_id site_name (query_list (qe_sites e))),
          FilterSelect t ''Node'' (qp_nodeId s) QualityNode (all_or_one ''All nodes'' node_id node_name (nodeItems s)),
          FilterSelect t ''Time range'' (window_text (qp_window s)) QualityWindow qualityWindows,
          quality_body t fm lc css e s]))"

section \<open>Events\<close>

fun quality_on_click :: "quality_click \<Rightarrow> quality_page \<Rightarrow> quality_page" where
  "quality_on_click ClickChart s = s\<lparr>qp_viewMode := ViewChart\<rparr>"
| "quality_on_click ClickTable s = s\<lparr>qp_viewMode := ViewTable\<rparr>"
| "quality_on_click (ClickSort k) s = selectSort k s"
| "quality_on_click ClickQualityRefresh s = s"
| "quality_on_click ClickQualityRetry s = s"

definition window_of :: "string \<Rightarrow> ServiceQualityWindow option" where
  "window_of v = find_first (\<lambda>w. window_text w = v) [Window1h, Window24h, Window7d, Window30d]"

fun quality_on_edit :: "quality_field \<Rightarrow> string \<Rightarrow> quality_page \<Rightarrow> quality_page" where
  "quality_on_edit QualitySite v s = s\<lparr>qp_siteId := v, qp_nodeId := []\<rparr>"
| "quality_on_edit QualityNode v s = s\<lparr>qp_nodeId := v\<rparr>"
| "quality_on_edit QualityWindow v s =
     (case window_of v of None \<Rightarrow> s | Some w \<Rightarrow> s\<lparr>qp_window := w\<rparr>)"

text \<open>The node list arrives, and the effect that depends on it runs after the render.\<close>

definition quality_on_message :: "Node list query \<Rightarrow> quality_page \<Rightarrow> quality_page" where
  "quality_on_message q s = drop_node_effect (s\<lparr>qp_nodes := q\<rparr>)"

section \<open>Lemmas\<close>

lemma collation_values:
  assumes "collation lc"
  shows "collation (\<lambda>l r. compareValues lc l r key)"
  by (cases key)
     (auto intro!: collation_on [OF collation_missing_last [OF assms], where f = "\<lambda>e. Some (sqs_node_name e)"]
        collation_on [OF collation_missing_last [OF assms], where f = "\<lambda>e. Some (sqs_outbound_tag e)"]
        collation_on [OF collation_missing_last [OF assms], where f = sqs_last_sampled_at]
        collation_on [OF collation_missing_last [OF collation_numbers], where f = sqs_average_latency_ms]
        collation_on [OF collation_missing_last [OF collation_numbers], where f = sqs_success_rate]
        collation_on [OF collation_missing_last [OF collation_numbers], where f = "\<lambda>e. Some (of_int (sqs_sample_count e))"])

lemma entry_compare_then_by:
  "entry_compare lc key dir =
     then_by (\<lambda>l r. if dir = Asc then compareValues lc l r key else - compareValues lc l r key)
       (\<lambda>l r. lc (sqs_outbound_tag l) (sqs_outbound_tag r))"
  by (auto simp: entry_compare_def then_by_def Let_def fun_eq_iff)

lemma collation_entries:
  assumes "collation lc"
  shows "collation (entry_compare lc key dir)"
  unfolding entry_compare_then_by
  using collation_values [OF assms, of key] collation_reverse [OF collation_values [OF assms, of key]]
  by (cases dir) (auto intro!: collation_then_by collation_on [OF assms])

text \<open>The contract of sorting, on the comparison of the page.\<close>

interpretation qs: collation "entry_compare code_unit_compare key dir"
  by (rule collation_entries) (rule cu.collation_axioms)

lemma fold_max_ge: "x \<in> set (xs :: rat list) \<Longrightarrow> x \<le> fold max xs y" "y \<le> fold max xs y"
proof (induction xs arbitrary: y)
  case (Cons a xs)
  { case 1 with Cons(1,2) show ?case by (metis fold_simps(2) max.coboundedI1 order.trans max.cobounded1 set_ConsD)
  next
    case 2 show ?case using Cons(2) [of "max a y"] by simp }
qed simp_all

lemma chart_max_ge:
  "e \<in> set es \<Longrightarrow> sqs_average_latency_ms e = Some ms \<Longrightarrow> ms \<le> chart_max es" "1 \<le> chart_max es"
  unfolding chart_max_def by (intro fold_max_ge; force)+

lemma bar_width_mono: "0 < mx \<Longrightarrow> a \<le> b \<Longrightarrow> bar_width mx a \<le> bar_width mx b"
  using mult_right_mono [OF divide_right_mono [of a b mx], of 100] by (auto simp: bar_width_def min_def max_def)

section \<open>Invariant\<close>

text \<open>The node filter names a node of the chosen site.\<close>

definition quality_inv :: "quality_page \<Rightarrow> bool" where
  "quality_inv s \<longleftrightarrow> qp_nodeId s = [] \<or> qp_nodeId s \<in> node_id ` set (nodeItems s)"

lemma quality_inv_click: "quality_inv s \<Longrightarrow> quality_inv (quality_on_click c s)"
  by (cases c) (auto simp: quality_inv_def nodeItems_def selectSort_def)

lemma can_edit_quality_parts [simp]:
  "can_edit (quality_body t fm lc css e s) f x = False"
  by (auto simp: quality_body_def QualityChart_def QualityTable_def SortableHeader_def quality_row_def
        chart_row_def Let_def split: option.splits)

lemma quality_inv_edit:
  assumes "quality_inv s" "can_edit (ServiceQualityPage t fm lc css e s) f v"
  shows "quality_inv (quality_on_edit f v s)"
  using assms by (cases f) (auto simp: quality_inv_def nodeItems_def ServiceQualityPage_def split: option.splits)

lemma quality_inv_message: "quality_inv (quality_on_message q s)"
  by (auto simp: quality_inv_def quality_on_message_def drop_node_effect_def list_ex_iff intro: rev_image_eqI)

interpretation sq: component "\<lambda>s. \<exists>q. s = quality_init q"
    "\<lambda>(t, fm, lc, css, e). ServiceQualityPage t fm lc css e" quality_on_click quality_on_edit
    quality_on_message quality_inv
  by unfold_locales
     (auto simp: quality_inv_click quality_inv_message intro: quality_inv_edit,
      auto simp: quality_inv_def quality_init_def)

section \<open>Properties\<close>

text \<open>What a reader expects of a column, by its values: names, outbounds and times by the collation, numbers by
  their size, and a missing value after every other.\<close>

definition value_le :: "('v \<Rightarrow> 'v \<Rightarrow> bool) \<Rightarrow> 'v option \<Rightarrow> 'v option \<Rightarrow> bool" where
  "value_le le a b = (case b of None \<Rightarrow> True | Some y \<Rightarrow> (case a of None \<Rightarrow> False | Some x \<Rightarrow> le x y))"

fun column_le :: "(string \<Rightarrow> string \<Rightarrow> rat) \<Rightarrow> SortKey \<Rightarrow> ServiceQualityStat \<Rightarrow> ServiceQualityStat \<Rightarrow> bool" where
  "column_le lc KeyNode l r \<longleftrightarrow> lc (sqs_node_name l) (sqs_node_name r) \<le> 0"
| "column_le lc KeyOutbound l r \<longleftrightarrow> lc (sqs_outbound_tag l) (sqs_outbound_tag r) \<le> 0"
| "column_le lc KeyLatency l r \<longleftrightarrow> value_le (\<le>) (sqs_average_latency_ms l) (sqs_average_latency_ms r)"
| "column_le lc KeySuccess l r \<longleftrightarrow> value_le (\<le>) (sqs_success_rate l) (sqs_success_rate r)"
| "column_le lc KeySamples l r \<longleftrightarrow> sqs_sample_count l \<le> sqs_sample_count r"
| "column_le lc KeySampledAt l r \<longleftrightarrow> value_le (\<lambda>x y. lc x y \<le> 0) (sqs_last_sampled_at l) (sqs_last_sampled_at r)"

lemma compareValues_le: "collation lc \<Longrightarrow> compareValues lc l r key \<le> 0 \<longleftrightarrow> column_le lc key l r"
  by (cases key) (auto simp: missing_last_def value_le_def collation.lc_refl split: option.splits)

lemma compareValues_zero:
  assumes "collation lc"
  shows "compareValues lc l r key = 0 \<longleftrightarrow> column_le lc key l r \<and> column_le lc key r l"
  using collation.lc_zero [OF collation_values [OF assms, of key], of l r] compareValues_le [OF assms] by blast

lemma compareValues_ge:
  assumes "collation lc"
  shows "0 \<le> compareValues lc l r key \<longleftrightarrow> column_le lc key r l"
  using collation.antisymmetric [OF collation_values [OF assms, of key], of r l] compareValues_le [OF assms] by blast

lemma entry_compare_le:
  assumes "collation lc"
  shows "entry_compare lc key dir a b \<le> 0 \<longleftrightarrow>
     (if dir = Asc then column_le lc key a b else column_le lc key b a) \<and>
     (column_le lc key a b \<and> column_le lc key b a \<longrightarrow> lc (sqs_outbound_tag a) (sqs_outbound_tag b) \<le> 0)"
  using compareValues_le [OF assms, of a b key] compareValues_ge [OF assms, of a b key] compareValues_zero [OF assms, of a b key]
  by (auto simp: entry_compare_def Let_def)

text \<open>C34: sorting a column is a stable sort: provided the language's string comparison is a collation,
  the table shows exactly the reported entries, ordered by the values of the chosen column, ascending or descending as chosen,
  whichever column it is; entries with equal values are ordered by their outbound, and entries
  that agree in both keep the order in which they were reported; entries without a value come last in ascending and first in
  descending order.\<close>

theorem quality_table_sorted:
  assumes "collation lc"
  shows "let rows = sorted_entries lc key dir entries in
     mset rows = mset entries \<and>
     sorted_wrt (\<lambda>a b. if dir = Asc then column_le lc key a b else column_le lc key b a) rows \<and>
     sorted_wrt (\<lambda>a b. column_le lc key a b \<and> column_le lc key b a \<longrightarrow>
        lc (sqs_outbound_tag a) (sqs_outbound_tag b) \<le> 0) rows \<and>
     (let tied = (\<lambda>x. column_le lc key e x \<and> column_le lc key x e \<and> lc (sqs_outbound_tag e) (sqs_outbound_tag x) = 0)
      in filter tied rows = filter tied entries)"
proof -
  let ?rows = "sorted_entries lc key dir entries"
  let ?tied = "\<lambda>x. column_le lc key e x \<and> column_le lc key x e \<and> lc (sqs_outbound_tag e) (sqs_outbound_tag x) = 0"
  note entries = collation_entries [OF assms, of key dir] and vals = collation_values [OF assms, of key]
  have sorted: "sorted_wrt (\<lambda>a b. entry_compare lc key dir a b \<le> 0) ?rows"
    unfolding sorted_entries_def by (rule collation.js_sort_sorted [OF entries])
  have "entry_compare lc key dir a b \<le> 0" if "?tied a" "?tied b" for a b
  proof -
    have "column_le lc key a b" "column_le lc key b a"
      using that collation.lc_transitive [OF vals] unfolding compareValues_le [OF assms] by blast+
    moreover have "lc (sqs_outbound_tag a) (sqs_outbound_tag b) \<le> 0"
      using that collation.lc_transitive [OF assms, of "sqs_outbound_tag a" "sqs_outbound_tag e" "sqs_outbound_tag b"]
        collation.lc_zero [OF assms, of "sqs_outbound_tag e" "sqs_outbound_tag a"] by auto
    ultimately show ?thesis by (simp add: entry_compare_le [OF assms])
  qed
  then have "filter ?tied ?rows = filter ?tied entries"
    unfolding sorted_entries_def by (rule collation.js_sort_stable [OF entries])
  moreover have "sorted_wrt (\<lambda>a b. if dir = Asc then column_le lc key a b else column_le lc key b a) ?rows"
      "sorted_wrt (\<lambda>a b. column_le lc key a b \<and> column_le lc key b a \<longrightarrow>
        lc (sqs_outbound_tag a) (sqs_outbound_tag b) \<le> 0) ?rows"
    using sorted unfolding entry_compare_le [OF assms] by (auto elim: sorted_wrt_mono_rel [rotated])
  ultimately show ?thesis by (simp add: Let_def sorted_entries_def)
qed

definition demo_stat :: "string \<Rightarrow> rat option \<Rightarrow> ServiceQualityStat" where
  "demo_stat tag ms =
     \<lparr>sqs_node_id = ''n'', sqs_node_name = ''n'', sqs_site_id = ''s'', sqs_site_name = ''s'', sqs_service = ''subscription'',
      sqs_outbound_tag = tag, sqs_average_latency_ms = ms, sqs_min_latency_ms = None, sqs_max_latency_ms = None,
      sqs_success_rate = None, sqs_sample_count = 1, sqs_successful_samples = 1, sqs_failed_samples = 0,
      sqs_last_latency_ms = None, sqs_last_success = Some True, sqs_last_sampled_at = None\<rparr>"

theorem quality_table_sorted_witness:
  "let stat = (\<lambda>node tag. (demo_stat tag None)\<lparr>sqs_node_name := node\<rparr>);
       rows = sorted_entries code_unit_compare KeyNode Desc [stat ''m'' ''b'', stat ''z'' ''c'', stat ''z'' ''a''] in
     map (\<lambda>e. (sqs_node_name e, sqs_outbound_tag e)) rows = [(''z'', ''a''), (''z'', ''c''), (''m'', ''b'')] \<and>
     sorted_wrt (\<lambda>a b. code_unit_compare (sqs_node_name b) (sqs_node_name a) \<le> 0) rows"
proof -
  let ?stat = "\<lambda>node tag. (demo_stat tag None)\<lparr>sqs_node_name := node\<rparr>"
  let ?entries = "[?stat ''m'' ''b'', ?stat ''z'' ''c'', ?stat ''z'' ''a'']"
  have "map (\<lambda>e. (sqs_node_name e, sqs_outbound_tag e)) (sorted_entries code_unit_compare KeyNode Desc ?entries) =
      [(''z'', ''a''), (''z'', ''c''), (''m'', ''b'')]"
    by (simp add: sorted_entries_def entry_compare_def missing_last_def demo_stat_def Let_def)
  then show ?thesis
    using quality_table_sorted [OF cu.collation_axioms, of KeyNode Desc ?entries] by (simp add: Let_def)
qed

text \<open>Chart and table tell the same story: for an entry whose last probe succeeded, the badge is
  healthy, degraded or attention exactly when its bar is good, acceptable or high (the green limit
  not being above the yellow one); every bar takes between 2 and 100 percent of the track, a
  longer latency never has a shorter bar, and the slowest entry fills the track when it reaches the scale.\<close>

theorem quality_display_consistent:
  assumes "sqs_sample_count e \<noteq> 0" "sqs_last_success e = Some True" "sqs_average_latency_ms e = Some ms"
    and "sqd_green_max_ms d \<le> sqd_yellow_max_ms d" "e \<in> set entries"
  shows "(qualityStatus e d = ''healthy'' \<longleftrightarrow> latencyBand e d = BandGood) \<and>
     (qualityStatus e d = ''degraded'' \<longleftrightarrow> latencyBand e d = BandAcceptable) \<and>
     (qualityStatus e d = ''attention'' \<longleftrightarrow> latencyBand e d = BandHigh) \<and>
     2 \<le> bar_width (chart_max entries) ms \<and> bar_width (chart_max entries) ms \<le> 100 \<and>
     (\<forall>ms' \<ge> ms. bar_width (chart_max entries) ms \<le> bar_width (chart_max entries) ms') \<and>
     (ms = chart_max entries \<longrightarrow> bar_width (chart_max entries) ms = 100)"
proof -
  have green: "(of_int (sqd_green_max_ms d) :: rat) \<le> of_int (sqd_yellow_max_ms d)" using assms(4) by simp
  have mx: "0 < chart_max entries" using chart_max_ge(2) [of entries] by linarith
  have "bar_width (chart_max entries) ms \<le> bar_width (chart_max entries) ms'" if "ms \<le> ms'" for ms'
    using mx that by (rule bar_width_mono)
  moreover have "bar_width (chart_max entries) ms = 100" if "ms = chart_max entries"
    using mx that by (simp add: bar_width_def)
  moreover have "2 \<le> bar_width (chart_max entries) ms" "bar_width (chart_max entries) ms \<le> 100"
    by (simp_all add: bar_width_def)
  ultimately show ?thesis
    using assms(1-3) green by (auto simp: qualityStatus_def latencyBand_def)
qed

theorem quality_display_consistent_witness:
  "qualityStatus (demo_stat ''a'' (Some 150)) DEFAULT_SERVICE_QUALITY_DEFINITION = ''degraded'' \<and>
   latencyBand (demo_stat ''a'' (Some 150)) DEFAULT_SERVICE_QUALITY_DEFINITION = BandAcceptable"
  using quality_display_consistent [of "demo_stat ''a'' (Some 150)" 150 DEFAULT_SERVICE_QUALITY_DEFINITION "[demo_stat ''a'' (Some 150)]"]
  by (simp add: demo_stat_def DEFAULT_SERVICE_QUALITY_DEFINITION_def latencyBand_def)

text \<open>The node filter always names a node of the chosen site, and the cache key determines the
  request.\<close>

theorem quality_filter_valid:
  assumes "sq.reachable s"
  shows "(qp_nodeId s \<noteq> [] \<longrightarrow> (\<exists>n \<in> set (query_list (qp_nodes s)). node_id n = qp_nodeId s \<and>
       (qp_siteId s = [] \<or> node_site_id n = qp_siteId s))) \<and>
     (quality_key s = quality_key s' \<longrightarrow> quality_request s = quality_request s')"
proof -
  have "window_text a = window_text b \<longleftrightarrow> a = b" for a b by (cases a; cases b) simp_all
  with sq.reachable_inv [OF assms] show ?thesis
    by (auto simp: quality_inv_def nodeItems_def quality_key_def quality_request_def)
qed

end
