(* ===== verification/Topology.thy ===== *)
theory Topology
  imports Page_Kit
begin

text \<open>
  The map from the control plane to the sites: \<^verbatim>\<open>src/frontend/components/control-plane-topology.tsx\<close> and
  \<^verbatim>\<open>siteState\<close> of \<^verbatim>\<open>src/frontend/app/overview/page.tsx\<close>.  The nodes and edges that are handed to the flow
  library are modelled with their positions and states; how the library draws them is not.  Positions
  are rationals, because the control plane is placed in the middle.
\<close>

datatype FlowDirection = Horizontal | Vertical

datatype Tone = ToneHealthy | ToneWarning | ToneDanger | ToneNeutral

section \<open>States\<close>

definition siteState :: "Site \<Rightarrow> Node list \<Rightarrow> string" where
  "siteState site nodes =
     (if site_shutdown site then ''shutdown''
      else if nodes = [] then ''not enrolled''
      else if list_ex (\<lambda>n. node_config_status n = ''rollback_failed'' \<or> node_service_status n = ''unhealthy'') nodes
      then ''attention''
      else if list_ex (\<lambda>n. node_liveness_status n \<noteq> ''online'' \<or> node_config_status n \<noteq> ''in_sync'') nodes
      then ''degraded''
      else ''healthy'')"

definition toneForState :: "string \<Rightarrow> Tone" where
  "toneForState st =
     (if st = ''healthy'' then ToneHealthy
      else if st = ''degraded'' then ToneWarning
      else if st = ''attention'' \<or> st = ''shutdown'' then ToneDanger
      else ToneNeutral)"

fun edgeColor :: "Tone \<Rightarrow> string" where
  "edgeColor ToneHealthy = ''var(--gp-green-dark)''"
| "edgeColor ToneWarning = ''var(--gp-warning)''"
| "edgeColor ToneDanger = ''var(--gp-danger)''"
| "edgeColor ToneNeutral = ''var(--gp-line-strong)''"

text \<open>The style classes of the dot and of the pill; \<open>[]\<close> is the empty class.\<close>

fun toneClass :: "Tone \<Rightarrow> string" where
  "toneClass ToneHealthy = ''toneHealthy''"
| "toneClass ToneWarning = ''toneWarning''"
| "toneClass ToneDanger = ''toneDanger''"
| "toneClass ToneNeutral = []"

fun statusClass :: "Tone \<Rightarrow> string" where
  "statusClass ToneHealthy = ''statusHealthy''"
| "statusClass ToneWarning = ''statusWarning''"
| "statusClass ToneDanger = ''statusDanger''"
| "statusClass ToneNeutral = []"

section \<open>Layout\<close>

record TopologySite =
  ts_site :: Site
  ts_state :: string
  ts_nodeCount :: nat

record flow_node =
  fn_id :: string
  fn_x :: rat
  fn_y :: rat
  fn_width :: rat
  fn_title :: string
  fn_detail :: string
  fn_status :: string
  fn_port :: string

record site_flow_node = flow_node +
  fn_siteId :: string
  fn_tone :: Tone
  fn_selected :: bool

record flow_edge =
  fe_id :: string
  fe_source :: string
  fe_target :: string
  fe_animated :: bool
  fe_color :: string

record topology_layout =
  tl_control :: flow_node
  tl_sites :: "site_flow_node list"
  tl_edges :: "flow_edge list"
  tl_height :: rat

definition topology_compact :: "FlowDirection option \<Rightarrow> bool \<Rightarrow> bool" where
  "topology_compact orientation responsiveCompact =
     (case orientation of Some d \<Rightarrow> d = Vertical | None \<Rightarrow> responsiveCompact)"

definition topology_direction :: "FlowDirection option \<Rightarrow> bool \<Rightarrow> FlowDirection" where
  "topology_direction orientation responsiveCompact =
     (case orientation of Some d \<Rightarrow> d | None \<Rightarrow> if responsiveCompact then Vertical else Horizontal)"

text \<open>Where the line of an edge leaves the control plane and reaches a site.\<close>

definition source_port :: "FlowDirection \<Rightarrow> string" where
  "source_port direction = (if direction = Vertical then ''bottom'' else ''right'')"

definition target_port :: "FlowDirection \<Rightarrow> string" where
  "target_port direction = (if direction = Vertical then ''top'' else ''left'')"

definition siteStep :: "bool \<Rightarrow> rat" where "siteStep cpt = (if cpt then 92 else 94)"

definition firstSiteY :: "bool \<Rightarrow> rat" where "firstSiteY cpt = (if cpt then 124 else 12)"

definition finalSiteY :: "bool \<Rightarrow> nat \<Rightarrow> rat" where
  "finalSiteY cpt n = firstSiteY cpt + of_nat (n - 1) * siteStep cpt"

definition site_node ::
    "translator \<Rightarrow> formats \<Rightarrow> FlowDirection \<Rightarrow> bool \<Rightarrow> string \<Rightarrow> nat \<Rightarrow> TopologySite \<Rightarrow> site_flow_node" where
  "site_node t fm direction cpt selectedSiteId index ts =
     \<lparr>fn_id = ''site-'' @ site_id (ts_site ts),
      fn_x = (if cpt then 54 else 288),
      fn_y = firstSiteY cpt + of_nat index * siteStep cpt,
      fn_width = (if cpt then 228 else 238),
      fn_title = t (site_name (ts_site ts)) [],
      fn_detail = (if ts_nodeCount ts \<noteq> 0
                   then number_of fm (ts_nodeCount ts) @ '' '' @ t (if ts_nodeCount ts = 1 then ''node'' else ''nodes'') []
                   else t ''No node enrolled'' []),
      fn_status = t (ts_state ts) [],
      fn_port = target_port direction,
      fn_siteId = site_id (ts_site ts),
      fn_tone = toneForState (ts_state ts),
      fn_selected = (selectedSiteId = site_id (ts_site ts))\<rparr>"

definition control_node :: "translator \<Rightarrow> formats \<Rightarrow> FlowDirection \<Rightarrow> bool \<Rightarrow> nat \<Rightarrow> int \<Rightarrow> int \<Rightarrow> flow_node" where
  "control_node t fm direction cpt n onlineNodes totalNodes =
     \<lparr>fn_id = ''control-plane'',
      fn_x = (if cpt then 54 else 18),
      fn_y = (if cpt then 12 else max 12 (finalSiteY cpt n / 2)),
      fn_width = (if cpt then 228 else 198),
      fn_title = t ''Control plane'' [],
      fn_detail = fm_number fm (Some onlineNodes) @ '' / '' @ fm_number fm (Some totalNodes) @ '' '' @ t ''Nodes online'' [],
      fn_status = t ''online'' [], fn_port = source_port direction\<rparr>"

definition site_edge :: "flow_node \<Rightarrow> site_flow_node \<Rightarrow> flow_edge" where
  "site_edge control s =
     \<lparr>fe_id = ''control-plane-'' @ fn_id s, fe_source = fn_id control, fe_target = fn_id s,
      fe_animated = (fn_tone s = ToneHealthy \<or> fn_tone s = ToneWarning), fe_color = edgeColor (fn_tone s)\<rparr>"

definition topology_layout_of ::
    "translator \<Rightarrow> formats \<Rightarrow> FlowDirection \<Rightarrow> bool \<Rightarrow> string \<Rightarrow> int \<Rightarrow> int \<Rightarrow> TopologySite list \<Rightarrow> topology_layout" where
  "topology_layout_of t fm direction cpt selectedSiteId onlineNodes totalNodes sites =
     (let siteNodes = map (\<lambda>(i, ts). site_node t fm direction cpt selectedSiteId i ts) (enumerate 0 sites);
          control = control_node t fm direction cpt (length sites) onlineNodes totalNodes
      in \<lparr>tl_control = control, tl_sites = siteNodes, tl_edges = map (site_edge control) siteNodes,
          tl_height = (if cpt then max 430 (finalSiteY cpt (length sites) + 94)
                       else max 360 (finalSiteY cpt (length sites) + 94))\<rparr>)"

section \<open>What is rendered\<close>

definition EdgeSiteNodeView :: "(string \<Rightarrow> 'c) \<Rightarrow> site_flow_node \<Rightarrow> ('c, 'f) view" where
  "EdgeSiteNodeView onSelect s =
     Grp (if fn_selected s then ''siteNodeSelected'' else ''siteNode'')
       [Grp (fn_port s) [], Btn (fn_title s) False (onSelect (fn_siteId s)), Grp (toneClass (fn_tone s)) [],
        Txt (fn_title s), Txt (fn_detail s), Grp (statusClass (fn_tone s)) [Txt (fn_status s)]]"

definition ControlPlaneNodeView :: "translator \<Rightarrow> flow_node \<Rightarrow> ('c, 'f) view" where
  "ControlPlaneNodeView t n =
     Grp ''controlNode'' [Grp (fn_port n) [], Txt (t ''CONTROL PLANE'' []), Txt (fn_title n), Txt (fn_detail n), Txt (fn_status n)]"

definition ControlPlaneTopology ::
    "translator \<Rightarrow> formats \<Rightarrow> FlowDirection option \<Rightarrow> bool \<Rightarrow> string \<Rightarrow> (string \<Rightarrow> 'c) \<Rightarrow> int \<Rightarrow> int \<Rightarrow> TopologySite list
       \<Rightarrow> ('c, 'f) view" where
  "ControlPlaneTopology t fm orientation responsiveCompact selectedSiteId onSelect onlineNodes totalNodes sites =
     (let l = topology_layout_of t fm (topology_direction orientation responsiveCompact)
                (topology_compact orientation responsiveCompact) selectedSiteId onlineNodes totalNodes sites
      in Grp (t ''Control plane to edge sites'' [])
        (ControlPlaneNodeView t (tl_control l) # map (EdgeSiteNodeView onSelect) (tl_sites l)))"

section \<open>Properties\<close>

lemma site_nodes_nth:
  "i < length sites \<Longrightarrow>
     tl_sites (topology_layout_of t fm direction cpt sel on tot sites) ! i = site_node t fm direction cpt sel i (sites ! i)"
  "length (tl_sites (topology_layout_of t fm direction cpt sel on tot sites)) = length sites"
  by (simp_all add: topology_layout_of_def Let_def nth_enumerate_eq)

lemma siteStep_pos: "92 \<le> siteStep cpt"
  by (simp add: siteStep_def)

lemma can_click_topology [simp]:
  "can_click (ControlPlaneTopology t fm o' rc sel f on tot sites) c \<longleftrightarrow> (\<exists>ts \<in> set sites. c = f (site_id (ts_site ts)))"
proof -
  have "map fn_siteId (tl_sites (topology_layout_of t fm d cp sel on tot sites)) = map (\<lambda>ts. site_id (ts_site ts)) sites" for d cp
    by (rule nth_equalityI) (simp_all add: site_nodes_nth site_node_def)
  from arg_cong [OF this, of set]
  have "fn_siteId ` set (tl_sites (topology_layout_of t fm d cp sel on tot sites)) = (\<lambda>ts. site_id (ts_site ts)) ` set sites" for d cp
    by simp
  then have "(\<exists>s \<in> set (tl_sites (topology_layout_of t fm d cp sel on tot sites)). c = f (fn_siteId s)) \<longleftrightarrow>
      (\<exists>ts \<in> set sites. c = f (site_id (ts_site ts)))" for d cp
    by (metis (no_types, lifting) image_iff)
  then show ?thesis
    by (simp add: ControlPlaneTopology_def Let_def EdgeSiteNodeView_def ControlPlaneNodeView_def)
qed

lemma can_edit_topology [simp]: "can_edit (ControlPlaneTopology t fm o' rc sel f on tot sites) fld v = False"
  by (auto simp: ControlPlaneTopology_def Let_def EdgeSiteNodeView_def ControlPlaneNodeView_def)

text \<open>The topology shows every site once and apart: one box per site in their order, at least 92
  pixels below the one before and inside the height of the drawing; the boxes have different
  identifiers when the sites do, and each is joined to the control plane by one edge, which moves
  exactly when the site is healthy or degraded.\<close>

theorem topology_complete:
  shows "let l = topology_layout_of t fm direction cpt sel onlineNodes totalNodes sites in
     map fn_siteId (tl_sites l) = map (\<lambda>ts. site_id (ts_site ts)) sites \<and>
     sorted_wrt (\<lambda>a b. fn_y a + 92 \<le> fn_y b \<and> fn_x a = fn_x b) (tl_sites l) \<and>
     (\<forall>s \<in> set (tl_sites l). 0 \<le> fn_y s \<and> fn_y s + 94 \<le> tl_height l) \<and>
     (distinct (map (\<lambda>ts. site_id (ts_site ts)) sites) \<longrightarrow> distinct (fn_id (tl_control l) # map fn_id (tl_sites l))) \<and>
     map fe_target (tl_edges l) = map fn_id (tl_sites l) \<and>
     (\<forall>e \<in> set (tl_edges l). fe_source e = fn_id (tl_control l)) \<and>
     map fe_animated (tl_edges l) = map (\<lambda>ts. ts_state ts = ''healthy'' \<or> ts_state ts = ''degraded'') sites"
proof -
  let ?l = "topology_layout_of t fm direction cpt sel onlineNodes totalNodes sites"
  note nth = site_nodes_nth [where t = t and fm = fm and direction = direction and cpt = cpt and sel = sel and on = onlineNodes
      and tot = totalNodes and sites = sites]
  have ids: "map fn_siteId (tl_sites ?l) = map (\<lambda>ts. site_id (ts_site ts)) sites"
      "map fn_id (tl_sites ?l) = map (\<lambda>ts. ''site-'' @ site_id (ts_site ts)) sites"
    by (rule nth_equalityI; simp add: nth site_node_def)+
  have tones: "map fn_tone (tl_sites ?l) = map (\<lambda>ts. toneForState (ts_state ts)) sites"
    by (rule nth_equalityI) (simp_all add: nth site_node_def)
  have "of_nat i * siteStep cpt + 92 \<le> of_nat j * siteStep cpt" if "i < j" for i j
  proof -
    have "of_nat (Suc i) * siteStep cpt \<le> of_nat j * siteStep cpt"
      using that siteStep_pos [of cpt] by (intro mult_right_mono) (auto simp del: of_nat_Suc)
    then show ?thesis using siteStep_pos [of cpt] by (simp add: algebra_simps)
  qed
  then have apart: "sorted_wrt (\<lambda>a b. fn_y a + 92 \<le> fn_y b \<and> fn_x a = fn_x b) (tl_sites ?l)"
    by (simp add: sorted_wrt_iff_nth_less nth site_node_def algebra_simps)
  have inside: "\<forall>s \<in> set (tl_sites ?l). 0 \<le> fn_y s \<and> fn_y s + 94 \<le> tl_height ?l"
  proof
    fix s assume "s \<in> set (tl_sites ?l)"
    then obtain i where i: "i < length sites" "s = site_node t fm direction cpt sel i (sites ! i)"
      by (metis in_set_conv_nth nth)
    have "(of_nat i :: rat) \<le> of_nat (length sites - 1)" using i(1) by simp
    then have "of_nat i * siteStep cpt \<le> of_nat (length sites - 1) * siteStep cpt"
      using siteStep_pos [of cpt] by (intro mult_right_mono) auto
    moreover have "0 \<le> of_nat i * siteStep cpt" using siteStep_pos [of cpt] by simp
    ultimately show "0 \<le> fn_y s \<and> fn_y s + 94 \<le> tl_height ?l"
      by (auto simp: i(2) site_node_def topology_layout_of_def finalSiteY_def firstSiteY_def Let_def)
  qed
  have edges: "tl_edges ?l = map (site_edge (tl_control ?l)) (tl_sites ?l)"
    by (simp add: topology_layout_of_def Let_def)
  have animated: "map fe_animated (tl_edges ?l) = map (\<lambda>ts. ts_state ts = ''healthy'' \<or> ts_state ts = ''degraded'') sites"
  proof -
    have "map fe_animated (tl_edges ?l) = map (\<lambda>tone. tone = ToneHealthy \<or> tone = ToneWarning) (map fn_tone (tl_sites ?l))"
      by (simp add: edges site_edge_def)
    also have "\<dots> = map (\<lambda>tone. tone = ToneHealthy \<or> tone = ToneWarning) (map (\<lambda>ts. toneForState (ts_state ts)) sites)"
      by (simp only: tones)
    also have "\<dots> = map (\<lambda>ts. ts_state ts = ''healthy'' \<or> ts_state ts = ''degraded'') sites"
      by (simp add: toneForState_def)
    finally show ?thesis .
  qed
  have control: "fn_id (tl_control ?l) = ''control-plane''"
    by (simp add: topology_layout_of_def control_node_def Let_def)
  have targets: "map fe_target (tl_edges ?l) = map fn_id (tl_sites ?l)"
      "\<forall>e \<in> set (tl_edges ?l). fe_source e = fn_id (tl_control ?l)"
    by (simp_all add: edges site_edge_def)
  have "distinct (fn_id (tl_control ?l) # map fn_id (tl_sites ?l))" if "distinct (map (\<lambda>ts. site_id (ts_site ts)) sites)"
    using that unfolding control ids(2) by (auto simp: distinct_map inj_on_def)
  with ids(1) apart inside targets animated show ?thesis
    unfolding Let_def by blast
qed

theorem topology_complete_witness:
  "\<exists>l. l = topology_layout_of plain sample_formats Vertical True ''b'' 2 3
       [\<lparr>ts_site = sample_site ''a'', ts_state = ''healthy'', ts_nodeCount = 1\<rparr>,
        \<lparr>ts_site = sample_site ''b'', ts_state = ''shutdown'', ts_nodeCount = 0\<rparr>] \<and>
     map fn_y (tl_sites l) = [124, 216] \<and> distinct (fn_id (tl_control l) # map fn_id (tl_sites l)) \<and>
     map fe_animated (tl_edges l) = [True, False]"
  using topology_complete [of plain sample_formats Vertical True "''b''" 2 3
      "[\<lparr>ts_site = sample_site ''a'', ts_state = ''healthy'', ts_nodeCount = 1\<rparr>,
        \<lparr>ts_site = sample_site ''b'', ts_state = ''shutdown'', ts_nodeCount = 0\<rparr>]"]
  by (simp add: Let_def topology_layout_of_def site_node_def firstSiteY_def siteStep_def)

end
