(* ===== verification/Traffic_Series.thy ===== *)
theory Traffic_Series
  imports Page_Kit Sorting "HOL-Library.AList"
begin

text \<open>
  The traffic of a site over time: \<^verbatim>\<open>buildSiteTrafficSeries\<close> and \<^verbatim>\<open>TrafficChart\<close> of
  \<^verbatim>\<open>src/frontend/app/overview/page.tsx\<close>.

  A JavaScript \<^verbatim>\<open>Map\<close> keeps its entries in insertion order and \<^verbatim>\<open>set\<close> on a known key changes the value in
  place; that is \<open>AList.update\<close> on an association list.  \<open>parse\<close> is \<^verbatim>\<open>new Date(text).getTime()\<close> (\<open>None\<close> for
  \<open>NaN\<close>).  Coordinates are exact rationals; \<^verbatim>\<open>toFixed(2)\<close> is a parameter of the drawing.
\<close>

record TrafficSeriesPoint =
  tsp_at :: string
  tsp_tx_bps :: int
  tsp_rx_bps :: int
  tsp_active_connections :: int

datatype TrafficMetricKey = MetricTx | MetricRx | MetricConnections

fun point_metric :: "TrafficMetricKey \<Rightarrow> TrafficSeriesPoint \<Rightarrow> int" where
  "point_metric MetricTx p = tsp_tx_bps p"
| "point_metric MetricRx p = tsp_rx_bps p"
| "point_metric MetricConnections p = tsp_active_connections p"

section \<open>Buckets\<close>

type_synonym node_snapshots = "(string \<times> ConnectionSnapshot) list"
type_synonym buckets = "(int \<times> node_snapshots) list"

definition bucket_of :: "int \<Rightarrow> int" where
  "bucket_of timestamp = timestamp div 60000 * 60000"

definition keep_newer ::
    "(string \<Rightarrow> int option) \<Rightarrow> ConnectionSnapshot \<Rightarrow> node_snapshots \<Rightarrow> node_snapshots" where
  "keep_newer parse entry nodeSnapshots =
     (case map_of nodeSnapshots (cs_node_id entry) of
        None \<Rightarrow> AList.update (cs_node_id entry) entry nodeSnapshots
      | Some previous \<Rightarrow>
          (case (parse (cs_sampled_at entry), parse (cs_sampled_at previous)) of
             (Some new, Some old) \<Rightarrow>
               if new > old then AList.update (cs_node_id entry) entry nodeSnapshots else nodeSnapshots
           | _ \<Rightarrow> nodeSnapshots))"

definition bucket_step ::
    "(string \<Rightarrow> int option) \<Rightarrow> string \<Rightarrow> ConnectionSnapshot \<Rightarrow> buckets \<Rightarrow> buckets" where
  "bucket_step parse siteId entry bs =
     (if cs_site_id entry \<noteq> siteId then bs
      else case parse (cs_sampled_at entry) of
             None \<Rightarrow> bs
           | Some timestamp \<Rightarrow>
               (let bucketAt = bucket_of timestamp;
                    nodeSnapshots = (case map_of bs bucketAt of None \<Rightarrow> [] | Some m \<Rightarrow> m)
                in AList.update bucketAt (keep_newer parse entry nodeSnapshots) bs))"

definition bucket_point :: "int \<times> node_snapshots \<Rightarrow> TrafficSeriesPoint" where
  "bucket_point = (\<lambda>(bucketAt, m).
     \<lparr>tsp_at = toISOString bucketAt,
      tsp_tx_bps = fold (\<lambda>(_, e) acc. acc + or_int (cs_tx_bps e) 0) m 0,
      tsp_rx_bps = fold (\<lambda>(_, e) acc. acc + or_int (cs_rx_bps e) 0) m 0,
      tsp_active_connections = fold (\<lambda>(_, e) acc. acc + cs_active_connections e) m 0\<rparr>)"

definition buildSiteTrafficSeries ::
    "(string \<Rightarrow> int option) \<Rightarrow> ConnectionSnapshot list \<Rightarrow> string \<Rightarrow> TrafficSeriesPoint list" where
  "buildSiteTrafficSeries parse entries siteId =
     map bucket_point
       (js_sort (\<lambda>l r. of_int (fst l) - of_int (fst r)) (fold (bucket_step parse siteId) entries []))"

section \<open>What the buckets hold\<close>

text \<open>The specification: the snapshots of a site, a minute and a node, and the newest of them (the first
  of several that are equally new).\<close>

definition in_bucket :: "(string \<Rightarrow> int option) \<Rightarrow> string \<Rightarrow> int \<Rightarrow> ConnectionSnapshot \<Rightarrow> bool" where
  "in_bucket parse siteId b e \<longleftrightarrow>
     cs_site_id e = siteId \<and> map_option bucket_of (parse (cs_sampled_at e)) = Some b"

definition sampled :: "(string \<Rightarrow> int option) \<Rightarrow> ConnectionSnapshot \<Rightarrow> int" where
  "sampled parse e = (case parse (cs_sampled_at e) of None \<Rightarrow> 0 | Some ts \<Rightarrow> ts)"

definition pick_newer ::
    "(string \<Rightarrow> int option) \<Rightarrow> ConnectionSnapshot \<Rightarrow> ConnectionSnapshot option \<Rightarrow> ConnectionSnapshot option" where
  "pick_newer parse e prev =
     (case prev of None \<Rightarrow> Some e | Some p \<Rightarrow> if sampled parse e > sampled parse p then Some e else prev)"

definition newest ::
    "(string \<Rightarrow> int option) \<Rightarrow> string \<Rightarrow> int \<Rightarrow> string \<Rightarrow> ConnectionSnapshot list \<Rightarrow> ConnectionSnapshot option" where
  "newest parse siteId b n es =
     fold (pick_newer parse) (filter (\<lambda>e. in_bucket parse siteId b e \<and> cs_node_id e = n) es) None"

lemma pick_newer_simps [simp]:
  "pick_newer parse e None = Some e"
  "pick_newer parse e (Some p) = (if sampled parse e > sampled parse p then Some e else Some p)"
  by (simp_all add: pick_newer_def)

lemma pick_newer_fold:
  "fold (pick_newer parse) es (Some p) = Some e \<Longrightarrow>
     (e = p \<or> e \<in> set es) \<and> sampled parse p \<le> sampled parse e \<and> (\<forall>x \<in> set es. sampled parse x \<le> sampled parse e)"
proof (induction es arbitrary: p)
  case (Cons a es)
  show ?case
  proof (cases "sampled parse a > sampled parse p")
    case True
    with Cons.prems have "fold (pick_newer parse) es (Some a) = Some e" by simp
    from Cons.IH [OF this] True show ?thesis by auto
  next
    case False
    with Cons.prems have "fold (pick_newer parse) es (Some p) = Some e" by simp
    from Cons.IH [OF this] False show ?thesis by auto
  qed
qed simp

lemma newest_Some:
  assumes "newest parse siteId b n es = Some e"
  shows "e \<in> set es" "in_bucket parse siteId b e" "cs_node_id e = n"
    and "\<And>x. x \<in> set es \<Longrightarrow> in_bucket parse siteId b x \<Longrightarrow> cs_node_id x = n \<Longrightarrow> sampled parse x \<le> sampled parse e"
proof -
  let ?es = "filter (\<lambda>e. in_bucket parse siteId b e \<and> cs_node_id e = n) es"
  from assms obtain a as where cons: "?es = a # as" by (cases ?es) (auto simp: newest_def)
  with assms have "fold (pick_newer parse) as (Some a) = Some e" by (simp add: newest_def)
  from pick_newer_fold [OF this] have e: "e \<in> set ?es" and mx: "\<forall>x \<in> set ?es. sampled parse x \<le> sampled parse e"
    by (auto simp: cons)
  from e show "e \<in> set es" "in_bucket parse siteId b e" "cs_node_id e = n" by auto
  from mx show "sampled parse x \<le> sampled parse e"
    if "x \<in> set es" "in_bucket parse siteId b x" "cs_node_id x = n" for x using that by auto
qed

lemma fold_pick_Some: "fold (pick_newer parse) es (Some p) \<noteq> None"
  by (induction es arbitrary: p) auto

lemma newest_None:
  "newest parse siteId b n es = None \<longleftrightarrow> \<not> (\<exists>e \<in> set es. in_bucket parse siteId b e \<and> cs_node_id e = n)"
proof -
  have "fold (pick_newer parse) xs None = None \<longleftrightarrow> xs = []" for xs
    using fold_pick_Some by (cases xs) auto
  then show ?thesis by (auto simp: newest_def filter_empty_conv)
qed

text \<open>Looking a node of a minute up, and how one step of the loop changes it.\<close>

definition at_bucket :: "buckets \<Rightarrow> int \<Rightarrow> node_snapshots" where
  "at_bucket bs b = (case map_of bs b of None \<Rightarrow> [] | Some m \<Rightarrow> m)"

definition buckets_ok :: "(string \<Rightarrow> int option) \<Rightarrow> string \<Rightarrow> ConnectionSnapshot list \<Rightarrow> buckets \<Rightarrow> bool" where
  "buckets_ok parse siteId es bs \<longleftrightarrow>
     distinct (map fst bs) \<and>
     fst ` set bs = {b. \<exists>e \<in> set es. in_bucket parse siteId b e} \<and>
     (\<forall>b. distinct (map fst (at_bucket bs b))) \<and>
     (\<forall>b n. map_of (at_bucket bs b) n = newest parse siteId b n es)"

lemma keep_newer_lookup:
  assumes "parse (cs_sampled_at e) = Some ts" "\<forall>p. map_of m (cs_node_id e) = Some p \<longrightarrow> parse (cs_sampled_at p) \<noteq> None"
  shows "map_of (keep_newer parse e m) n =
      (if n = cs_node_id e then pick_newer parse e (map_of m n) else map_of m n)"
  using assms by (auto simp: keep_newer_def pick_newer_def sampled_def update_conv' split: option.splits)

lemma keep_newer_distinct: "distinct (map fst m) \<Longrightarrow> distinct (map fst (keep_newer parse e m))"
  by (auto simp: keep_newer_def distinct_update split: option.splits)

lemma at_bucket_update: "at_bucket (AList.update b m bs) b' = (if b' = b then m else at_bucket bs b')"
  by (auto simp: at_bucket_def update_conv')

lemma buckets_ok_step:
  assumes "buckets_ok parse siteId es bs"
  shows "buckets_ok parse siteId (es @ [e]) (bucket_step parse siteId e bs)"
proof (cases "\<exists>b. in_bucket parse siteId b e")
  case False
  then have "bucket_step parse siteId e bs = bs"
    by (auto simp: bucket_step_def in_bucket_def split: option.splits)
  moreover have "newest parse siteId b n (es @ [e]) = newest parse siteId b n es" for b n
    using False by (simp add: newest_def)
  ultimately show ?thesis using assms False by (auto simp: buckets_ok_def)
next
  case True
  then obtain ts where ts: "parse (cs_sampled_at e) = Some ts" and site: "cs_site_id e = siteId"
    by (auto simp: in_bucket_def)
  let ?b = "bucket_of ts" and ?m = "at_bucket bs (bucket_of ts)"
  have step: "bucket_step parse siteId e bs = AList.update ?b (keep_newer parse e ?m) bs"
    using ts site by (simp add: bucket_step_def at_bucket_def Let_def)
  have in_b: "in_bucket parse siteId b e \<longleftrightarrow> b = ?b" for b using ts site by (auto simp: in_bucket_def)
  have lookup: "map_of (at_bucket bs b) n = newest parse siteId b n es" for b n
    using assms by (simp add: buckets_ok_def)
  have parsed: "\<forall>p. map_of ?m (cs_node_id e) = Some p \<longrightarrow> parse (cs_sampled_at p) \<noteq> None"
    using newest_Some(2) [of parse siteId] by (fastforce simp: lookup in_bucket_def)
  have "map_of (at_bucket (bucket_step parse siteId e bs) b) n = newest parse siteId b n (es @ [e])" for b n
    by (simp add: step at_bucket_update keep_newer_lookup [OF ts parsed] lookup newest_def in_b)
  moreover have "distinct (map fst (bucket_step parse siteId e bs))"
    using assms by (simp add: step buckets_ok_def distinct_update)
  moreover have "fst ` set (bucket_step parse siteId e bs) = {b. \<exists>x \<in> set (es @ [e]). in_bucket parse siteId b x}"
  proof -
    have "fst ` set (bucket_step parse siteId e bs) = insert ?b (fst ` set bs)"
      by (simp add: step dom_update)
    with assms show ?thesis by (auto simp: buckets_ok_def in_b)
  qed
  moreover have "distinct (map fst (at_bucket (bucket_step parse siteId e bs) b))" for b
    using assms by (simp add: step at_bucket_update keep_newer_distinct buckets_ok_def)
  ultimately show ?thesis by (simp add: buckets_ok_def)
qed

lemma buckets_ok_fold: "buckets_ok parse siteId es (fold (bucket_step parse siteId) es [])"
proof (induction es rule: rev_induct)
  case Nil
  show ?case by (simp add: buckets_ok_def at_bucket_def newest_def)
next
  case (snoc e es)
  then show ?case using buckets_ok_step [OF snoc] by simp
qed

lemma fold_add: "fold (\<lambda>(k, e) acc. acc + f e) m (a :: int) = a + sum_list (map (\<lambda>(k, e). f e) m)"
  by (induction m arbitrary: a) (auto simp: split_beta)

lemma sum_over_map:
  "distinct (map fst m) \<Longrightarrow> sum_list (map (\<lambda>(k, e). (f e :: int)) m) = (\<Sum>k \<in> fst ` set m. f (the (map_of m k)))"
proof (induction m)
  case (Cons a m)
  obtain k e where a: "a = (k, e)" by force
  with Cons have k: "k \<notin> fst ` set m" by simp
  have "(\<Sum>j \<in> fst ` set m. f (the (map_of (a # m) j))) = (\<Sum>j \<in> fst ` set m. f (the (map_of m j)))"
    using k a by (intro sum.cong) auto
  with Cons a k show ?case by simp
qed simp

interpretation bk: collation "\<lambda>(l :: int \<times> node_snapshots) r. of_int (fst l) - of_int (fst r)"
  by (rule collation_on [OF collation_numbers, where f = "\<lambda>x. of_int (fst x)"])

lemma sorted_buckets:
  assumes "distinct (map fst bs)"
  shows "sorted_wrt (<) (map fst (js_sort (\<lambda>(l :: int \<times> node_snapshots) r. of_int (fst l) - of_int (fst r)) bs))"
    (is "sorted_wrt _ (map fst ?bs)")
proof -
  have "mset (map fst ?bs) = mset (map fst bs)" by simp
  with assms have "distinct (map fst ?bs)" by (metis mset_eq_imp_distinct_iff)
  moreover have "sorted (map fst ?bs)"
    using bk.js_sort_sorted [of bs] by (simp add: sorted_wrt_map)
  ultimately show ?thesis by (simp add: strict_sorted_iff)
qed

section \<open>The chart\<close>

definition plotLeft :: rat where "plotLeft = 42"
definition plotRight :: rat where "plotRight = 1000 - 10"
definition plotTop :: rat where "plotTop = 12"
definition plotBottom :: rat where "plotBottom = 220 - 28"

definition chart_values :: "TrafficMetricKey \<Rightarrow> TrafficSeriesPoint list \<Rightarrow> int list" where
  "chart_values metric series = map (\<lambda>p. max 0 (point_metric metric p)) series"

definition values_max :: "int list \<Rightarrow> int" where
  "values_max vs = fold max vs 0"

definition chartMax :: "int list \<Rightarrow> rat" where
  "chartMax vs = (if values_max vs > 0 then of_int (values_max vs) * (112 / 100) else 1)"

definition x_for :: "nat \<Rightarrow> nat \<Rightarrow> rat" where
  "x_for n index =
     (if n > 1 then plotLeft + of_nat index / (of_nat n - 1) * (plotRight - plotLeft)
      else plotLeft + (plotRight - plotLeft) / 2)"

definition coordinateFor :: "int list \<Rightarrow> nat \<Rightarrow> int \<Rightarrow> nat \<Rightarrow> rat \<times> rat" where
  "coordinateFor vs n value index =
     (x_for n index, plotBottom - of_int value / chartMax vs * (plotBottom - plotTop))"

definition chart_points :: "TrafficMetricKey \<Rightarrow> TrafficSeriesPoint list \<Rightarrow> (rat \<times> rat) list" where
  "chart_points metric series =
     (let vs = chart_values metric series
      in map (\<lambda>(i, v). coordinateFor vs (length series) v i) (enumerate 0 vs))"

definition label_indexes :: "nat \<Rightarrow> int list" where
  "label_indexes n = uniq [0, (int n - 1) div 2, int n - 1]"

text \<open>\<open>fixed2\<close> is \<^verbatim>\<open>toFixed(2)\<close>, \<open>clock_text\<close> the time of an instant in the user's language, \<open>fmt\<close> the
  formatter of the values.\<close>

definition TrafficChart ::
    "translator \<Rightarrow> formats \<Rightarrow> (rat \<Rightarrow> string) \<Rightarrow> (string \<Rightarrow> string) \<Rightarrow> (rat \<Rightarrow> string) \<Rightarrow> string \<Rightarrow> TrafficMetricKey
       \<Rightarrow> TrafficSeriesPoint list \<Rightarrow> ('c, 'f) view" where
  "TrafficChart t fm fixed2 clock_text fmt label metric series =
     (let vs = chart_values metric series;
          text = (\<lambda>(x, y). fixed2 x @ '','' @ fixed2 y);
          points = map text (chart_points metric series);
          latest = (if series = [] then None else Some (last series));
          latest_value = (case latest of None \<Rightarrow> 0 | Some p \<Rightarrow> point_metric metric p)
      in Grp ''traffic-chart-panel''
        ([Txt label, Txt (fmt (of_int latest_value)),
          Txt (case latest of
                 None \<Rightarrow> t ''No traffic samples'' []
               | Some p \<Rightarrow> t ''Current'' [] @ '' '' @ [CHR 0xB7] @ '' '' @
                   t ''Updated {date}'' [(''date'', fm_date fm (Some (tsp_at p)))]),
          Txt (fmt (of_int (values_max vs)))] @
         (if points \<noteq> []
          then map (\<lambda>ratio. Txt (fmt (chartMax vs * (1 - ratio)))) [0, 333/1000, 666/1000, 1] @
               [Txt (text (plotLeft, plotBottom) @ '' '' @ join '' '' points @ '' '' @ text (plotRight, plotBottom)),
                Txt (join '' '' points)] @
               concat (map (\<lambda>i. if 0 \<le> i \<and> nat i < length series
                                then [Txt (clock_text (tsp_at (series ! nat i)))] else []) (label_indexes (length series)))
          else [Txt (t ''No traffic samples'' [])])))"

lemma fold_max_int: "x \<in> set (xs :: int list) \<Longrightarrow> x \<le> fold max xs y" "y \<le> fold max xs y"
proof (induction xs arbitrary: y)
  case (Cons a xs)
  { case 1
    then show ?case using Cons(1) [of "max a y"] Cons(2) [of "max a y"] by fastforce
  next
    case 2
    show ?case using Cons(2) [of "max a y"] by simp }
qed simp_all

lemma chartMax_pos: "0 < chartMax vs"
  by (simp add: chartMax_def)

lemma value_below_chartMax: "v \<in> set vs \<Longrightarrow> of_int v \<le> chartMax vs"
  using fold_max_int(1) [of v vs 0] fold_max_int(2) [of 0 vs]
  by (auto simp: chartMax_def values_max_def field_simps)

lemma scale_inside:
  fixes a b r :: rat
  assumes "0 \<le> r" "r \<le> 1" "a \<le> b"
  shows "a \<le> a + r * (b - a) \<and> a + r * (b - a) \<le> b"
  using mult_right_mono [of r 1 "b - a"] assms by simp

lemma plot_order: "plotLeft < plotRight" "plotTop < plotBottom"
  by (simp_all add: plotLeft_def plotRight_def plotTop_def plotBottom_def)

lemma x_for_inside: "index < n \<Longrightarrow> plotLeft \<le> x_for n index \<and> x_for n index \<le> plotRight"
proof -
  assume i: "index < n"
  show ?thesis
  proof (cases "n > 1")
    case True
    then have n1: "(0 :: rat) < of_nat n - 1" by simp
    have "of_nat (Suc index) \<le> (of_nat n :: rat)" using i by (simp only: of_nat_le_iff Suc_le_eq)
    then have "(of_nat index :: rat) \<le> of_nat n - 1" by simp
    then have "0 \<le> of_nat index / (of_nat n - 1 :: rat)" "of_nat index / (of_nat n - 1 :: rat) \<le> 1"
      using n1 by simp_all
    from scale_inside [OF this less_imp_le [OF plot_order(1)]] show ?thesis
      using True unfolding x_for_def by (simp only: if_True)
  qed (simp add: x_for_def plotLeft_def plotRight_def)
qed

lemma x_for_mono: "i < j \<Longrightarrow> j < n \<Longrightarrow> x_for n i < x_for n j"
proof -
  assume ij: "i < j" "j < n"
  then have n1: "(0 :: rat) < of_nat n - 1" "n > 1" by auto
  have "of_nat i / (of_nat n - 1 :: rat) < of_nat j / (of_nat n - 1)"
    using ij n1 by (simp add: divide_strict_right_mono)
  from mult_strict_right_mono [OF this, of "plotRight - plotLeft"] plot_order(1) show ?thesis
    using n1(2) unfolding x_for_def by (simp only: if_True) simp
qed

lemma y_inside:
  assumes "v \<in> set vs" "0 \<le> v"
  shows "plotTop \<le> plotBottom - of_int v / chartMax vs * (plotBottom - plotTop) \<and>
     plotBottom - of_int v / chartMax vs * (plotBottom - plotTop) \<le> plotBottom"
proof -
  have "0 \<le> of_int v / chartMax vs" "of_int v / chartMax vs \<le> 1"
    using assms value_below_chartMax [of v vs] chartMax_pos [of vs] by simp_all
  from scale_inside [OF this less_imp_le [OF plot_order(2)]] show ?thesis by simp
qed

text \<open>The specification of one minute: the totals over the newest reports of the nodes.\<close>

definition minute_totals ::
    "(string \<Rightarrow> int option) \<Rightarrow> string \<Rightarrow> ConnectionSnapshot list \<Rightarrow> int \<Rightarrow> TrafficSeriesPoint" where
  "minute_totals parse siteId entries b =
     (let nodes = cs_node_id ` {e \<in> set entries. in_bucket parse siteId b e};
          report = (\<lambda>n. the (newest parse siteId b n entries))
      in \<lparr>tsp_at = toISOString b,
          tsp_tx_bps = (\<Sum>n \<in> nodes. or_int (cs_tx_bps (report n)) 0),
          tsp_rx_bps = (\<Sum>n \<in> nodes. or_int (cs_rx_bps (report n)) 0),
          tsp_active_connections = (\<Sum>n \<in> nodes. cs_active_connections (report n))\<rparr>)"

lemma bucket_point_totals:
  assumes ok: "buckets_ok parse siteId entries bs" and mem: "(b, m) \<in> set bs"
  shows "bucket_point (b, m) = minute_totals parse siteId entries b"
proof -
  have "at_bucket bs b = m" using ok mem by (simp add: at_bucket_def buckets_ok_def)
  with ok have d: "distinct (map fst m)" and look: "map_of m n = newest parse siteId b n entries" for n
    by (auto simp: buckets_ok_def)
  have "fst ` set m = {n. map_of m n \<noteq> None}" by (auto simp: map_of_eq_None_iff)
  then have keys: "fst ` set m = cs_node_id ` {e \<in> set entries. in_bucket parse siteId b e}"
    by (auto simp: look newest_None)
  show ?thesis
    by (simp add: bucket_point_def fold_add sum_over_map [OF d] keys look minute_totals_def Let_def)
qed

section \<open>Properties\<close>

text \<open>C26: the traffic series of a site is what it is meant to be: its points are the minutes with a
  valid snapshot of that site, each once and in ascending order, and the values of a minute are the
  sums, over the nodes that reported in it, of the newest snapshot of the node in that minute.\<close>

theorem traffic_series_correct:
  "(\<exists>bs. sorted_wrt (<) bs \<and> set bs = {b. \<exists>e \<in> set entries. in_bucket parse siteId b e} \<and>
      buildSiteTrafficSeries parse entries siteId = map (minute_totals parse siteId entries) bs) \<and>
   (\<forall>b n e. newest parse siteId b n entries = Some e \<longrightarrow>
      e \<in> set entries \<and> in_bucket parse siteId b e \<and> cs_node_id e = n \<and>
      (\<forall>x \<in> set entries. in_bucket parse siteId b x \<and> cs_node_id x = n \<longrightarrow> sampled parse x \<le> sampled parse e))"
proof (intro conjI allI impI)
  let ?fs = "fold (bucket_step parse siteId) entries []"
  let ?bs = "js_sort (\<lambda>l r. of_int (fst l) - of_int (fst r)) ?fs"
  have ok: "buckets_ok parse siteId entries ?fs" by (rule buckets_ok_fold)
  then have "sorted_wrt (<) (map fst ?bs)" by (intro sorted_buckets) (simp add: buckets_ok_def)
  moreover have "set (map fst ?bs) = {b. \<exists>e \<in> set entries. in_bucket parse siteId b e}"
    using ok by (simp add: buckets_ok_def)
  moreover have "buildSiteTrafficSeries parse entries siteId = map (minute_totals parse siteId entries) (map fst ?bs)"
    by (auto simp: buildSiteTrafficSeries_def bucket_point_totals [OF ok])
  ultimately show "\<exists>bs. sorted_wrt (<) bs \<and> set bs = {b. \<exists>e \<in> set entries. in_bucket parse siteId b e} \<and>
      buildSiteTrafficSeries parse entries siteId = map (minute_totals parse siteId entries) bs"
    by blast
qed (auto dest: newest_Some)


definition demo_report :: "string \<Rightarrow> int \<Rightarrow> ConnectionSnapshot" where
  "demo_report d tx =
     \<lparr>cs_id = d, cs_node_id = ''n'', cs_site_id = ''s'', cs_sampled_at = d, cs_active_connections = 1,
      cs_bytes_up = 0, cs_bytes_down = 0, cs_rx_bps = None, cs_tx_bps = Some tx, cs_top_sources = [],
      cs_top_destinations = [], cs_top_users = [], cs_connections = None, cs_api_available = True,
      cs_received_at = []\<rparr>"

definition demo_clock :: "string \<Rightarrow> int option" where
  "demo_clock d = (if d = ''early'' then Some 60010 else if d = ''late'' then Some 60020 else None)"

theorem traffic_series_correct_witness:
  "let es = [demo_report ''early'' 5, demo_report ''late'' 7, demo_report ''never'' 9] in
     newest demo_clock ''s'' 60000 ''n'' es = Some (demo_report ''late'' 7) \<and>
     sampled demo_clock (demo_report ''early'' 5) \<le> sampled demo_clock (demo_report ''late'' 7) \<and>
     map tsp_tx_bps (buildSiteTrafficSeries demo_clock es ''s'') = [7]"
proof -
  let ?es = "[demo_report ''early'' 5, demo_report ''late'' 7, demo_report ''never'' 9]"
  have new: "newest demo_clock ''s'' 60000 ''n'' ?es = Some (demo_report ''late'' 7)"
    by (simp add: newest_def in_bucket_def demo_clock_def demo_report_def bucket_of_def sampled_def)
  have early: "in_bucket demo_clock ''s'' 60000 (demo_report ''early'' 5)" "cs_node_id (demo_report ''early'' 5) = ''n''"
    by (simp_all add: in_bucket_def demo_clock_def demo_report_def bucket_of_def)
  have "map tsp_tx_bps (buildSiteTrafficSeries demo_clock ?es ''s'') = [7]"
    by (simp add: buildSiteTrafficSeries_def bucket_step_def keep_newer_def demo_clock_def demo_report_def
          bucket_of_def bucket_point_def or_int_def)
  with new traffic_series_correct [of ?es demo_clock "''s''"] early show ?thesis by (simp add: Let_def)
qed

text \<open>The chart stays inside its frame: every point of every series lies in the plot area, the points
  run from left to right in the order of the series, and the labels under the axis belong to existing
  points, first and last included.\<close>

theorem chart_inside_frame:
  shows "list_all (\<lambda>(x, y). plotLeft \<le> x \<and> x \<le> plotRight \<and> plotTop \<le> y \<and> y \<le> plotBottom)
       (chart_points metric series) \<and>
     sorted_wrt (\<lambda>p q. fst p < fst q) (chart_points metric series) \<and>
     length (chart_points metric series) = length series \<and>
     (series = [] \<or> set (label_indexes (length series)) \<subseteq> {0 ..< int (length series)})"
proof -
  let ?vs = "chart_values metric series" and ?n = "length series"
  have len: "length ?vs = ?n" by (simp add: chart_values_def)
  have nth: "chart_points metric series ! i = coordinateFor ?vs ?n (?vs ! i) i" if "i < ?n" for i
    using that by (simp add: chart_points_def Let_def len nth_enumerate_eq)
  have length: "length (chart_points metric series) = ?n" by (simp add: chart_points_def Let_def len)
  have "case coordinateFor ?vs ?n (?vs ! i) i of (x, y) \<Rightarrow> plotLeft \<le> x \<and> x \<le> plotRight \<and> plotTop \<le> y \<and> y \<le> plotBottom"
    if "i < ?n" for i
  proof -
    have "0 \<le> ?vs ! i" "?vs ! i \<in> set ?vs" using that len by (simp_all add: chart_values_def)
    then show ?thesis using x_for_inside [OF that] y_inside [of "?vs ! i" ?vs] by (simp add: coordinateFor_def)
  qed
  then have inside: "list_all (\<lambda>(x, y). plotLeft \<le> x \<and> x \<le> plotRight \<and> plotTop \<le> y \<and> y \<le> plotBottom)
       (chart_points metric series)"
    by (simp add: list_all_length length nth)
  have "sorted_wrt (\<lambda>p q. fst p < fst q) (chart_points metric series)"
    by (auto simp: sorted_wrt_iff_nth_less length nth coordinateFor_def intro: x_for_mono)
  moreover have "set (label_indexes ?n) \<subseteq> {0 ..< int ?n}" if "series \<noteq> []"
    using that by (auto simp: label_indexes_def Suc_le_eq)
  ultimately show ?thesis using inside length by blast
qed

end
