(* ===== verification/Overview_Page.thy ===== *)
theory Overview_Page
  imports Topology Traffic_Series
begin

text \<open>
  Overview: \<^verbatim>\<open>src/frontend/app/overview/page.tsx\<close>.  The numbers of the control plane, the map of the sites with
  the one that is selected, its nodes and its traffic of the last hour; and the notification about nodes
  that drifted.  \<open>overview_text\<close> holds what the page takes from the environment as text: the arrows, which
  lie outside the character range of the model, \<^verbatim>\<open>toFixed\<close>, the clock of the labels and the formatters
  applied to fractions.
\<close>

definition activeReleaseStates :: "string list" where
  "activeReleaseStates = [''queued'', ''applying'', ''health_check'', ''rolling_back'']"

record overview_text =
  ot_up :: string
  ot_down :: string
  ot_fixed2 :: "rat \<Rightarrow> string"
  ot_clock :: "string \<Rightarrow> string"
  ot_bytes :: "rat \<Rightarrow> string"
  ot_number :: "rat \<Rightarrow> string"

record overview_page =
  op_overview :: "Overview query"
  op_sites :: "Site list query"
  op_nodes :: "Node list query"
  op_releases :: "Release list query"
  op_traffic :: "ConnectionSnapshot list query"
  lastReportedDrift :: "int option"
  op_selectedSiteId :: string
  op_toasts :: "ToastInput list"

section \<open>Effects\<close>

definition preferredSite :: "overview_page \<Rightarrow> Site option" where
  "preferredSite s =
     (let availableSites = query_list (op_sites s); availableNodes = query_list (op_nodes s)
      in or_else (find_first (\<lambda>site. list_ex (\<lambda>n. node_site_id n = site_id site) availableNodes) availableSites)
           (head_opt availableSites))"

definition preferred_id :: "overview_page \<Rightarrow> string" where
  "preferred_id s = (case preferredSite s of None \<Rightarrow> [] | Some site \<Rightarrow> site_id site)"

definition select_site_effect :: "overview_page \<Rightarrow> overview_page" where
  "select_site_effect s =
     (if op_selectedSiteId s = []
      then if q_data (op_sites s) \<noteq> None \<and> q_data (op_nodes s) \<noteq> None \<and> preferredSite s \<noteq> None
           then s\<lparr>op_selectedSiteId := preferred_id s\<rparr> else s
      else if \<not> list_ex (\<lambda>site. site_id site = op_selectedSiteId s) (query_list (op_sites s))
           then s\<lparr>op_selectedSiteId := preferred_id s\<rparr> else s)"

definition drift_toast :: "translator \<Rightarrow> formats \<Rightarrow> int \<Rightarrow> ToastInput" where
  "drift_toast t fm driftedNodes =
     \<lparr>toast_title = t ''{count} nodes need attention'' [(''count'', fm_number fm (Some driftedNodes))],
      toast_description = Some (t ''Configuration or service state differs from the desired release.'' []),
      toast_variant = Some VariantDestructive, toast_duration = None\<rparr>"

definition drifted :: "overview_page \<Rightarrow> int" where
  "drifted s = (case q_data (op_overview s) of None \<Rightarrow> 0 | Some d \<Rightarrow> ov_drifted_nodes d)"

definition drift_effect :: "translator \<Rightarrow> formats \<Rightarrow> overview_page \<Rightarrow> overview_page" where
  "drift_effect t fm s =
     (let driftedNodes = drifted s;
          s' = (if driftedNodes > 0 \<and> lastReportedDrift s \<noteq> Some driftedNodes
                then s\<lparr>op_toasts := op_toasts s @ [drift_toast t fm driftedNodes]\<rparr> else s)
      in s'\<lparr>lastReportedDrift := Some driftedNodes\<rparr>)"

section \<open>Derived values\<close>

definition activeReleases :: "overview_page \<Rightarrow> Release list" where
  "activeReleases s = filter (\<lambda>r. rel_status r \<in> set activeReleaseStates) (query_list (op_releases s))"

definition nodesBySite :: "overview_page \<Rightarrow> (string \<times> Node list) list" where
  "nodesBySite s =
     map (\<lambda>site. (site_id site, filter (\<lambda>n. node_site_id n = site_id site) (query_list (op_nodes s))))
       (query_list (op_sites s))"

definition nodes_at :: "overview_page \<Rightarrow> string \<Rightarrow> Node list" where
  "nodes_at s siteId = or_list (js_map_get (nodesBySite s) siteId)"

definition topologySites :: "overview_page \<Rightarrow> TopologySite list" where
  "topologySites s =
     map (\<lambda>site. let siteNodes = nodes_at s (site_id site)
                 in \<lparr>ts_site = site, ts_state = siteState site siteNodes, ts_nodeCount = length siteNodes\<rparr>)
       (query_list (op_sites s))"

definition overview_site :: "overview_page \<Rightarrow> Site option" where
  "overview_site s = find_first (\<lambda>site. site_id site = op_selectedSiteId s) (query_list (op_sites s))"

definition selectedSiteNodes :: "overview_page \<Rightarrow> Node list" where
  "selectedSiteNodes s = (case overview_site s of None \<Rightarrow> [] | Some site \<Rightarrow> nodes_at s (site_id site))"

definition siteTraffic :: "(string \<Rightarrow> int option) \<Rightarrow> overview_page \<Rightarrow> TrafficSeriesPoint list" where
  "siteTraffic parse s =
     (case overview_site s of
        None \<Rightarrow> [] | Some site \<Rightarrow> buildSiteTrafficSeries parse (query_list (op_traffic s)) (site_id site))"

definition fallbackTraffic :: "string \<Rightarrow> Node list \<Rightarrow> TrafficSeriesPoint" where
  "fallbackTraffic stamp nodes =
     \<lparr>tsp_at = stamp,
      tsp_tx_bps = fold (\<lambda>n acc. acc + or_int (node_tx_bps n) 0) nodes 0,
      tsp_rx_bps = fold (\<lambda>n acc. acc + or_int (node_rx_bps n) 0) nodes 0,
      tsp_active_connections = fold (\<lambda>n acc. acc + or_int (node_active_connections n) 0) nodes 0\<rparr>"

definition chartSeries :: "(string \<Rightarrow> int option) \<Rightarrow> int \<Rightarrow> overview_page \<Rightarrow> TrafficSeriesPoint list" where
  "chartSeries parse now s =
     (if siteTraffic parse s \<noteq> [] then siteTraffic parse s
      else if selectedSiteNodes s \<noteq> [] then [fallbackTraffic (toISOString now) (selectedSiteNodes s)]
      else [])"

section \<open>What is rendered\<close>

datatype overview_click = ClickTopologySite string | ClickOverviewRetry | ClickTrafficRetry

definition OverviewMetric :: "string \<Rightarrow> string list \<Rightarrow> string \<Rightarrow> bool \<Rightarrow> ('c, 'f) view" where
  "OverviewMetric label values detail danger =
     Grp (''overview-metric'' @ (if danger then '' overview-metric-danger'' else []))
       ([Txt label] @ map Txt values @ [Txt detail])"

definition overview_metrics :: "translator \<Rightarrow> formats \<Rightarrow> Overview \<Rightarrow> nat \<Rightarrow> ('c, 'f) view" where
  "overview_metrics t fm d active =
     (let number = (\<lambda>n. fm_number fm (Some n)); rate = (\<lambda>v. fm_bytes fm (Some (or_int v 0)) @ ''/s'')
      in Grp (t ''Control-plane summary'' [])
        [OverviewMetric (t ''Nodes online'' []) [number (ov_online_nodes d), '' / '' @ number (ov_nodes d)]
           (t ''Heartbeat state'' []) False,
         OverviewMetric (t ''Configuration in sync'' []) [number (ov_in_sync_nodes d), '' / '' @ number (ov_nodes d)]
           (t ''Applied bundle matches'' []) False,
         OverviewMetric (t ''Active connections'' []) [number (ov_connections d)]
           (t ''sing-box live sessions'' []) False,
         OverviewMetric (t ''Traffic overview'' []) [rate (ov_tx_bps d), '' / '', rate (ov_rx_bps d)]
           (t ''Upload rate'' [] @ '' / '' @ t ''Download rate'' []) False,
         OverviewMetric (t ''Drift or failure'' []) [number (ov_drifted_nodes d)]
           (t ''Requires operator review'' []) (ov_drifted_nodes d > 0),
         OverviewMetric (t ''Active deployments'' []) [number_of fm active]
           (t ''Queued and running releases'' []) False,
         OverviewMetric (t ''Open alerts'' []) [number (ov_open_alerts d), '' / '', number (ov_open_circuits d)]
           (t ''Open alerts'' [] @ '' / '' @ t ''Open circuits'' []) (ov_open_alerts d > 0 \<or> ov_open_circuits d > 0)])"

definition topology_node_row :: "translator \<Rightarrow> formats \<Rightarrow> overview_text \<Rightarrow> Node \<Rightarrow> ('c, 'f) view" where
  "topology_node_row t fm ot n =
     (let rate = (\<lambda>v. fm_bytes fm (Some (or_int v 0)) @ ''/s''); sep = '' '' @ [CHR 0xB7] @ '' ''
      in Grp (node_id n)
        [Txt (node_name n), Txt (node_agent_id n),
         Txt (t ''{count} connections'' [(''count'', show_int (or_int (node_active_connections n) 0))] @ sep @
              t (ot_up ot @ '' {value}'') [(''value'', rate (node_tx_bps n))] @ sep @
              t (ot_down ot @ '' {value}'') [(''value'', rate (node_rx_bps n))]),
         StatusBadge t (node_liveness_status n), StatusBadge t (node_config_status n)])"

definition TopologySiteDetail ::
    "translator \<Rightarrow> formats \<Rightarrow> overview_text \<Rightarrow> Site \<Rightarrow> Node list \<Rightarrow> string \<Rightarrow> ('c, 'f) view" where
  "TopologySiteDetail t fm ot site nodes state =
     Grp ''topology-site-detail''
       ([Txt (t ''SELECTED SITE'' []), Txt (t (site_name site) []), Txt (site_slug site), StatusBadge t state,
         Href ''/access-control'' (t ''Manage access control'' []),
         Txt (t ''Nodes'' []), Txt (number_of fm (length nodes)),
         Txt (t ''Online'' []), Txt (number_of fm (length (filter (\<lambda>n. node_liveness_status n = ''online'') nodes))),
         Txt (t ''In sync'' []), Txt (number_of fm (length (filter (\<lambda>n. node_config_status n = ''in_sync'') nodes)))] @
        (if nodes \<noteq> [] then map (topology_node_row t fm ot) nodes else [Txt (t ''No node enrolled'' [])]))"

definition site_panel :: "translator \<Rightarrow> formats \<Rightarrow> overview_text \<Rightarrow> overview_page \<Rightarrow> ('c, 'f) view" where
  "site_panel t fm ot s =
     (case overview_site s of
        Some site \<Rightarrow>
          TopologySiteDetail t fm ot site (selectedSiteNodes s)
            (case find_first (\<lambda>item. site_id (ts_site item) = site_id site) (topologySites s) of
               None \<Rightarrow> ''unknown'' | Some item \<Rightarrow> or_str (ts_state item) ''unknown'')
      | None \<Rightarrow> Txt (t ''Select a site in the topology to inspect its nodes.'' []))"

definition traffic_panel ::
    "translator \<Rightarrow> formats \<Rightarrow> overview_text \<Rightarrow> (string \<Rightarrow> int option) \<Rightarrow> int \<Rightarrow> overview_page
       \<Rightarrow> (overview_click, 'f) view" where
  "traffic_panel t fm ot parse now s =
     (let series = chartSeries parse now s;
          chart = TrafficChart t fm (ot_fixed2 ot) (ot_clock ot)
      in if q_loading (op_traffic s) then LoadingState t 3
         else case q_error (op_traffic s) of
                Some m \<Rightarrow> ErrorState t m (Some ClickTrafficRetry)
              | None \<Rightarrow>
                  if series \<noteq> []
                  then Grp ''overview-chart-stack''
                    [chart (\<lambda>v. ot_bytes ot v @ ''/s'') (t ''Upload rate'' []) MetricTx series,
                     chart (\<lambda>v. ot_bytes ot v @ ''/s'') (t ''Download rate'' []) MetricRx series,
                     chart (ot_number ot) (t ''Active connections'' []) MetricConnections series]
                  else EmptyState t ''No traffic samples'' None [])"

definition OverviewPage ::
    "translator \<Rightarrow> formats \<Rightarrow> overview_text \<Rightarrow> (string \<Rightarrow> int option) \<Rightarrow> int \<Rightarrow> bool option \<Rightarrow> bool \<Rightarrow> overview_page
       \<Rightarrow> (overview_click, 'f) view" where
  "OverviewPage t fm ot parse now session narrow s =
     gated t 8 session
      (guarded t 8 (q_loading (op_overview s) \<or> q_loading (op_sites s) \<or> q_loading (op_nodes s))
         (first_error [q_error (op_overview s), q_error (op_sites s), q_error (op_nodes s)]) ClickOverviewRetry
       (case q_data (op_overview s) of
          None \<Rightarrow> LoadingState t 8
        | Some d \<Rightarrow> Grp ''overview-page''
            [Txt (t ''Overview'' []),
             overview_metrics t fm d (length (activeReleases s)),
             Txt (t ''REGIONAL TOPOLOGY'' []), Txt (t ''Control plane to edge sites'' []),
             Href ''/nodes'' (t ''Node inventory'' []),
             ControlPlaneTopology t fm (Some Vertical) narrow (op_selectedSiteId s) ClickTopologySite
               (ov_online_nodes d) (ov_nodes d) (topologySites s),
             site_panel t fm ot s,
             Txt (t ''Traffic overview'' []),
             Txt ((case overview_site s of Some site \<Rightarrow> t (site_name site) [] | None \<Rightarrow> t ''No node enrolled'' []) @
                  '' '' @ [CHR 0xB7] @ '' '' @
                  t ''{count} nodes'' [(''count'', number_of fm (length (selectedSiteNodes s)))]),
             Href ''/access-control'' (t ''Manage access control'' []),
             Href ''/connections'' (t ''Live connections'' []),
             traffic_panel t fm ot parse now s]))"

section \<open>Events\<close>

fun overview_on_click :: "overview_click \<Rightarrow> overview_page \<Rightarrow> overview_page" where
  "overview_on_click (ClickTopologySite i) s = s\<lparr>op_selectedSiteId := i\<rparr>"
| "overview_on_click ClickOverviewRetry s = s"
| "overview_on_click ClickTrafficRetry s = s"

datatype overview_message =
    OverviewLoaded "Overview query"
  | OverviewSites "Site list query"
  | OverviewNodes "Node list query"
  | OverviewReleases "Release list query"
  | OverviewTraffic "ConnectionSnapshot list query"
  | SelectSiteEffect
  | DriftEffect translator formats

fun overview_on_message :: "overview_message \<Rightarrow> overview_page \<Rightarrow> overview_page" where
  "overview_on_message (OverviewLoaded q) s = s\<lparr>op_overview := q\<rparr>"
| "overview_on_message (OverviewSites q) s = s\<lparr>op_sites := q\<rparr>"
| "overview_on_message (OverviewNodes q) s = s\<lparr>op_nodes := q\<rparr>"
| "overview_on_message (OverviewReleases q) s = s\<lparr>op_releases := q\<rparr>"
| "overview_on_message (OverviewTraffic q) s = s\<lparr>op_traffic := q\<rparr>"
| "overview_on_message SelectSiteEffect s = select_site_effect s"
| "overview_on_message (DriftEffect t fm) s = drift_effect t fm s"

definition overview_start :: "overview_page \<Rightarrow> bool" where
  "overview_start s \<longleftrightarrow> lastReportedDrift s = None \<and> op_selectedSiteId s = [] \<and> op_toasts s = []"

section \<open>Lemmas\<close>

lemma js_map_get_keyed:
  assumes "x \<in> set xs"
  shows "js_map_get (map (\<lambda>x. (f x, g (f x))) xs) (f x) = Some (g (f x))"
proof -
  let ?m = "rev (map (\<lambda>x. (f x, g (f x))) xs)"
  have "f x \<in> fst ` set ?m" using assms by (simp add: image_image)
  then have "map_of ?m (f x) \<noteq> None" unfolding map_of_eq_None_iff by simp
  then obtain v where v: "map_of ?m (f x) = Some v" by auto
  from map_of_SomeD [OF this] have "v = g (f x)" by auto
  with v show ?thesis by (simp add: js_map_get_def)
qed

lemma nodes_at_known:
  "site \<in> set (query_list (op_sites s)) \<Longrightarrow>
     nodes_at s (site_id site) = filter (\<lambda>n. node_site_id n = site_id site) (query_list (op_nodes s))"
  by (simp add: nodes_at_def nodesBySite_def
      js_map_get_keyed [where f = site_id and g = "\<lambda>i. filter (\<lambda>n. node_site_id n = i) (query_list (op_nodes s))"])

lemma topologySites_eq:
  "topologySites s =
     map (\<lambda>site. let ns = filter (\<lambda>n. node_site_id n = site_id site) (query_list (op_nodes s))
                 in \<lparr>ts_site = site, ts_state = siteState site ns, ts_nodeCount = length ns\<rparr>) (query_list (op_sites s))"
  by (simp add: topologySites_def nodes_at_known)

lemma count_by_key:
  assumes "distinct ks"
  shows "sum_list (map (\<lambda>k. length (filter (\<lambda>x. f x = k) xs)) ks) = length (filter (\<lambda>x. f x \<in> set ks) xs)"
proof (induction xs)
  case (Cons x xs)
  have "sum_list (map (\<lambda>k. if f x = k then 1 else 0) ks) = (if f x \<in> set ks then 1 else (0 :: nat))"
    using assms by (induction ks) auto
  moreover have "sum_list (map (\<lambda>k. length (filter (\<lambda>x. f x = k) (x # xs))) ks) =
      sum_list (map (\<lambda>k. if f x = k then 1 else 0) ks) + sum_list (map (\<lambda>k. length (filter (\<lambda>x. f x = k) xs)) ks)"
    unfolding sum_list_addf [symmetric] by (rule arg_cong [of _ _ sum_list]) simp
  ultimately show ?case using Cons by simp
qed simp

lemma preferred_known:
  "preferredSite s = Some site \<Longrightarrow> site \<in> set (query_list (op_sites s))"
  by (auto simp: preferredSite_def Let_def or_else_def dest!: find_first_Some head_opt_in split: option.splits)

lemma preferred_None: "preferredSite s = None \<longleftrightarrow> query_list (op_sites s) = []"
  by (auto simp: preferredSite_def Let_def or_else_def list_ex_iff find_first_def split: option.splits)

lemma select_frame [simp]:
  "op_sites (select_site_effect s) = op_sites s" "op_nodes (select_site_effect s) = op_nodes s"
  "lastReportedDrift (select_site_effect s) = lastReportedDrift s" "op_toasts (select_site_effect s) = op_toasts s"
  by (simp_all add: select_site_effect_def)

text \<open>The runs of the drift effect, with the number of drifted nodes each of them sees.\<close>

definition drift_run :: "translator \<Rightarrow> formats \<Rightarrow> Overview query \<Rightarrow> overview_page \<Rightarrow> overview_page" where
  "drift_run t fm q s = overview_on_message (DriftEffect t fm) (overview_on_message (OverviewLoaded q) s)"

definition drift_of :: "Overview query \<Rightarrow> int" where
  "drift_of q = (case q_data q of None \<Rightarrow> 0 | Some d \<Rightarrow> ov_drifted_nodes d)"

lemma drift_run_eq:
  "op_toasts (drift_run t fm q s) =
     op_toasts s @ (if drift_of q > 0 \<and> lastReportedDrift s \<noteq> Some (drift_of q) then [drift_toast t fm (drift_of q)] else [])"
  "lastReportedDrift (drift_run t fm q s) = Some (drift_of q)"
  by (simp_all add: drift_run_def drift_effect_def drifted_def drift_of_def Let_def)

lemma drift_runs:
  "op_toasts (fold (drift_run t fm) qs s) =
     op_toasts s @ map (drift_toast t fm) (filter (\<lambda>d. d > 0)
       (case lastReportedDrift s of
          None \<Rightarrow> remdups_adj (map drift_of qs) | Some l \<Rightarrow> tl (remdups_adj (l # map drift_of qs))))"
proof (induction qs arbitrary: s)
  case Nil
  then show ?case by (simp split: option.splits)
next
  case (Cons q qs)
  have "\<exists>ys. remdups_adj (drift_of q # map drift_of qs) = drift_of q # ys"
    by (metis list.exhaust remdups_adj_Nil_iff hd_remdups_adj list.distinct(1) list.sel(1))
  then show ?case
    by (auto simp: Cons.IH drift_run_eq split: option.splits)
qed

lemma preferred_cong:
  "op_sites a = op_sites b \<Longrightarrow> op_nodes a = op_nodes b \<Longrightarrow> preferredSite a = preferredSite b \<and> preferred_id a = preferred_id b"
  by (simp add: preferredSite_def preferred_id_def)

lemma select_settles: "select_site_effect (select_site_effect s) = select_site_effect s"
proof (cases "select_site_effect s = s")
  case False
  then have eq: "select_site_effect s = s\<lparr>op_selectedSiteId := preferred_id s\<rparr>"
    by (simp add: select_site_effect_def split: if_splits)
  have same: "preferred_id (s\<lparr>op_selectedSiteId := preferred_id s\<rparr>) = preferred_id s"
    by (rule preferred_cong [THEN conjunct2]) simp_all
  have "preferred_id s = [] \<or> list_ex (\<lambda>site. site_id site = preferred_id s) (query_list (op_sites s))"
    using preferred_known [of s] by (cases "preferredSite s") (auto simp: preferred_id_def list_ex_iff)
  then show ?thesis unfolding eq select_site_effect_def [of "s\<lparr>op_selectedSiteId := preferred_id s\<rparr>"] same by auto
qed simp

text \<open>A fresh selection is the preferred site, which has nodes when any site has.\<close>

lemma fresh_selection:
  assumes "q_data (op_sites s) \<noteq> None" "q_data (op_nodes s) \<noteq> None" "query_list (op_sites s) \<noteq> []" "overview_site s = None"
  shows "op_selectedSiteId (select_site_effect s) = preferred_id s"
  using assms preferred_None [of s]
  by (auto simp: select_site_effect_def overview_site_def list_ex_iff)

lemma selected_known:
  assumes "q_data (op_sites s) \<noteq> None" "q_data (op_nodes s) \<noteq> None" "query_list (op_sites s) \<noteq> []"
  shows "overview_site (select_site_effect s) \<noteq> None"
proof -
  from assms(3) obtain site where site: "preferredSite s = Some site" using preferred_None [of s] by auto
  with preferred_known have "site \<in> set (query_list (op_sites s))" by blast
  with site assms show ?thesis
    by (auto simp: overview_site_def select_site_effect_def preferred_id_def list_ex_iff)
qed

lemma preferred_has_nodes:
  assumes "n \<in> set (query_list (op_nodes s))" "x \<in> set (query_list (op_sites s))" "node_site_id n = site_id x"
  shows "\<exists>m \<in> set (query_list (op_nodes s)). node_site_id m = preferred_id s"
proof -
  let ?p = "\<lambda>site. list_ex (\<lambda>n. node_site_id n = site_id site) (query_list (op_nodes s))"
  have "find_first ?p (query_list (op_sites s)) \<noteq> None" using assms by (auto simp: list_ex_iff)
  then obtain y where y: "find_first ?p (query_list (op_sites s)) = Some y" by blast
  then have "preferred_id s = site_id y" by (simp add: preferred_id_def preferredSite_def)
  with find_first_Some [OF y] show ?thesis by (auto simp: list_ex_iff)
qed

section \<open>Invariant\<close>

definition overview_inv :: "overview_page \<Rightarrow> bool" where
  "overview_inv s \<longleftrightarrow>
     (lastReportedDrift s = None \<longrightarrow> op_toasts s = []) \<and>
     (\<forall>x \<in> set (op_toasts s). toast_variant x = Some VariantDestructive)"

interpretation ov: component overview_start
    "\<lambda>(t, fm, ot, parse, now, session, narrow). OverviewPage t fm ot parse now session narrow :: overview_page \<Rightarrow> (overview_click, unit) view"
    overview_on_click "\<lambda>_ _ s. s" overview_on_message overview_inv
proof unfold_locales
  show "overview_inv (overview_on_click c s)" if "overview_inv s" for c s
    using that by (cases c) (auto simp: overview_inv_def)
  show "overview_inv (overview_on_message m s)" if "overview_inv s" for m s
    using that by (cases m) (auto simp: overview_inv_def drift_effect_def drift_toast_def Let_def)
qed (auto simp: overview_start_def overview_inv_def)

lemma can_click_TrafficChart [simp]: "can_click (TrafficChart t fm f c fmt l m series) x \<longleftrightarrow> False"
  by (auto simp: TrafficChart_def Let_def list_ex_iff split: if_splits)

lemma can_click_overview:
  "can_click (OverviewPage t fm ot parse now session narrow s) (ClickTopologySite i) \<Longrightarrow>
     \<exists>site \<in> set (query_list (op_sites s)). site_id site = i"
  by (auto simp: OverviewPage_def overview_metrics_def OverviewMetric_def site_panel_def TopologySiteDetail_def
      topology_node_row_def traffic_panel_def topologySites_def Let_def list_ex_iff StatusBadge_def
      split: option.splits if_splits)

section \<open>Properties\<close>

text \<open>Drift is announced once per change: over any sequence of answers of the control plane, the
  notifications are exactly one for every maximal run of equal, positive numbers of drifted nodes, in
  their order; refreshes that change nothing, and recoveries, are silent.\<close>

theorem drift_announced_once:
  assumes "overview_start s"
  shows "op_toasts (fold (drift_run t fm) qs s) =
     map (drift_toast t fm) (filter (\<lambda>d. d > 0) (remdups_adj (map drift_of qs)))"
  using assms by (simp add: drift_runs overview_start_def)

definition demo_overview :: "overview_page" where
  "demo_overview =
     \<lparr>op_overview = empty_query, op_sites = loaded [sample_site ''a'', sample_site ''b''],
      op_nodes = loaded [sample_node ''b'' ''n1'', sample_node ''b'' ''n2''], op_releases = empty_query,
      op_traffic = empty_query, lastReportedDrift = None, op_selectedSiteId = [], op_toasts = []\<rparr>"

definition demo_answer :: "int \<Rightarrow> Overview query" where
  "demo_answer n = loaded
     \<lparr>ov_sites = 2, ov_nodes = 9, ov_online_nodes = 9, ov_in_sync_nodes = 9 - n, ov_drifted_nodes = n,
      ov_connections = 0, ov_bytes_up = None, ov_bytes_down = None, ov_rx_bps = None, ov_tx_bps = None,
      ov_node_traffic = None, ov_open_circuits = 0, ov_open_alerts = 0, ov_http_only = False\<rparr>"

theorem drift_announced_once_witness:
  "overview_start demo_overview \<and>
   op_toasts (fold (drift_run plain sample_formats) (map demo_answer [0, 2, 2, 3, 0, 3]) demo_overview) =
     map (drift_toast plain sample_formats) [2, 3, 3]"
  using drift_announced_once [of demo_overview plain sample_formats "map demo_answer [0, 2, 2, 3, 0, 3]"]
  by (simp add: overview_start_def demo_overview_def demo_answer_def drift_of_def loaded_def)

text \<open>The selected site and the numbers of the map are those of the inventory: what can be clicked
  is a known site; once sites and nodes are loaded the effect selects a known site whenever there is
  one, prefers one with nodes, keeps a valid choice and then changes nothing more; and every node of a
  known site is counted at exactly one site.\<close>

theorem overview_selection_sound:
  "(can_click (OverviewPage t fm ot parse now session narrow s) (ClickTopologySite i) \<longrightarrow>
      overview_site (overview_on_click (ClickTopologySite i) s) \<noteq> None) \<and>
   (overview_site s \<noteq> None \<and> op_selectedSiteId s \<noteq> [] \<longrightarrow> select_site_effect s = s) \<and>
   (q_data (op_sites s) \<noteq> None \<and> q_data (op_nodes s) \<noteq> None \<longrightarrow>
      (let s' = select_site_effect s in
         select_site_effect s' = s' \<and>
         (query_list (op_sites s) \<noteq> [] \<longrightarrow>
            (\<exists>site. overview_site s' = Some site \<and>
               (overview_site s = None \<and> selectedSiteNodes s' = [] \<longrightarrow>
                  \<not> (\<exists>n \<in> set (query_list (op_nodes s)). \<exists>x \<in> set (query_list (op_sites s)). node_site_id n = site_id x)))))) \<and>
   (distinct (map site_id (query_list (op_sites s))) \<longrightarrow>
      sum_list (map ts_nodeCount (topologySites s)) =
        length (filter (\<lambda>n. node_site_id n \<in> site_id ` set (query_list (op_sites s))) (query_list (op_nodes s))))"
proof (intro conjI impI)
  assume "can_click (OverviewPage t fm ot parse now session narrow s) (ClickTopologySite i)"
  from can_click_overview [OF this] show "overview_site (overview_on_click (ClickTopologySite i) s) \<noteq> None"
    by (simp add: overview_site_def)
next
  assume "overview_site s \<noteq> None \<and> op_selectedSiteId s \<noteq> []"
  then show "select_site_effect s = s" by (auto simp: select_site_effect_def overview_site_def list_ex_iff)
next
  assume data: "q_data (op_sites s) \<noteq> None \<and> q_data (op_nodes s) \<noteq> None"
  let ?s = "select_site_effect s"
  have "\<exists>site. overview_site ?s = Some site \<and> (overview_site s = None \<and> selectedSiteNodes ?s = [] \<longrightarrow>
      \<not> (\<exists>n \<in> set (query_list (op_nodes s)). \<exists>x \<in> set (query_list (op_sites s)). node_site_id n = site_id x))"
    if ne: "query_list (op_sites s) \<noteq> []"
  proof -
    obtain site where site: "overview_site ?s = Some site" using selected_known [of s] data ne by auto
    then have known: "site \<in> set (query_list (op_sites s))" "site_id site = op_selectedSiteId ?s"
      by (auto simp: overview_site_def dest!: find_first_Some)
    have "selectedSiteNodes ?s = filter (\<lambda>n. node_site_id n = op_selectedSiteId ?s) (query_list (op_nodes s))"
      using nodes_at_known [of site ?s] known by (simp add: selectedSiteNodes_def site)
    moreover have "op_selectedSiteId ?s = preferred_id s" if "overview_site s = None"
      using fresh_selection data ne that by blast
    ultimately show ?thesis using site preferred_has_nodes [of _ s] by (auto simp: filter_empty_conv)
  qed
  then show "let s' = ?s in select_site_effect s' = s' \<and> (query_list (op_sites s) \<noteq> [] \<longrightarrow>
      (\<exists>site. overview_site s' = Some site \<and> (overview_site s = None \<and> selectedSiteNodes s' = [] \<longrightarrow>
        \<not> (\<exists>n \<in> set (query_list (op_nodes s)). \<exists>x \<in> set (query_list (op_sites s)). node_site_id n = site_id x))))"
    using select_settles [of s] by (simp add: Let_def)
next
  assume "distinct (map site_id (query_list (op_sites s)))"
  from count_by_key [OF this, of node_site_id "query_list (op_nodes s)"]
  show "sum_list (map ts_nodeCount (topologySites s)) =
      length (filter (\<lambda>n. node_site_id n \<in> site_id ` set (query_list (op_sites s))) (query_list (op_nodes s)))"
    by (simp add: topologySites_eq Let_def o_def)
qed

theorem overview_selection_sound_witness:
  "(\<exists>site. overview_site (select_site_effect demo_overview) = Some site) \<and>
   sum_list (map ts_nodeCount (topologySites demo_overview)) = 2"
  using overview_selection_sound [of plain sample_formats undefined "\<lambda>_. None" 0 None False demo_overview "[]"]
  by (auto simp: Let_def demo_overview_def loaded_def query_list_def)

end
