(* ===== verification/Access_Commands.thy ===== *)
theory Access_Commands
  imports Page_Kit
begin

text \<open>
  The commands that the access guide offers to copy: \<^verbatim>\<open>shellQuote\<close> and the four command texts of
  \<^verbatim>\<open>src/frontend/app/access/page.tsx\<close>.

  To say what the commands do, the second half of the theory defines the part of the POSIX shell that
  they use (words with single quotes, double quotes with variables and backslashes; assignments,
  \<^verbatim>\<open>export\<close>, simple commands) as an interpreter that gives up on everything else.
\<close>

section \<open>The command texts\<close>

definition shellQuote :: "string \<Rightarrow> string" where
  "shellQuote v = [CHR 0x27] @ replace_char (CHR 0x27) [CHR 0x27, CHR 0x5C, CHR 0x27, CHR 0x27] v @ [CHR 0x27]"

abbreviation nl :: string where "nl \<equiv> [CHR 0x0A]"
abbreviation dq :: string where "dq \<equiv> [CHR 0x22]"

definition access_endpoint :: "AccessConfig option \<Rightarrow> string" where
  "access_endpoint config =
     (case config of
        Some c \<Rightarrow> ''http://'' @ acfg_fqdn c @ '':'' @ show_int (acfg_port c)
      | None \<Rightarrow> ''http://proxy.example.com:3128'')"

definition linuxQuickCommand :: "AccessConfig option \<Rightarrow> string" where
  "linuxQuickCommand config =
     (case config of
        None \<Rightarrow> []
      | Some c \<Rightarrow>
          ''export http_proxy='' @ shellQuote (access_endpoint config) @ nl @
          ''export https_proxy='' @ dq @ ''$http_proxy'' @ dq @ nl @
          ''export HTTP_PROXY='' @ dq @ ''$http_proxy'' @ dq @ nl @
          ''export HTTPS_PROXY='' @ dq @ ''$https_proxy'' @ dq @ nl @
          ''export no_proxy='' @ dq @ ''localhost,127.0.0.1,::1'' @ dq @ nl @
          ''export NO_PROXY='' @ dq @ ''$no_proxy'' @ dq)"

definition windowsQuickCommand :: "AccessConfig option \<Rightarrow> string" where
  "windowsQuickCommand config =
     (case config of
        None \<Rightarrow> []
      | Some c \<Rightarrow>
          ''$settings = '' @ dq @ ''HKCU:'' @ [CHR 0x5C] @ ''Software'' @ [CHR 0x5C] @ ''Microsoft'' @ [CHR 0x5C] @
          ''Windows'' @ [CHR 0x5C] @ ''CurrentVersion'' @ [CHR 0x5C] @ ''Internet Settings'' @ dq @ nl @
          ''Set-ItemProperty -Path $settings -Name ProxyServer -Value '' @ dq @ acfg_fqdn c @ '':'' @
          show_int (acfg_port c) @ dq @ nl @
          ''Set-ItemProperty -Path $settings -Name ProxyEnable -Value 1'')"

definition windowsValidationCommand :: "AccessConfig option \<Rightarrow> string" where
  "windowsValidationCommand config =
     (case config of
        None \<Rightarrow> []
      | Some c \<Rightarrow>
          ''$ProxyUrl = '' @ dq @ access_endpoint config @ dq @ nl @
          ''Test-NetConnection -ComputerName '' @ dq @ acfg_fqdn c @ dq @ '' -Port '' @ show_int (acfg_port c) @ nl @
          ''Invoke-RestMethod -Uri '' @ dq @ ''https://ipinfo.io/ip'' @ dq @ '' -Proxy $ProxyUrl'')"

definition linuxValidationCommand :: "AccessConfig option \<Rightarrow> string" where
  "linuxValidationCommand config =
     (case config of
        None \<Rightarrow> []
      | Some c \<Rightarrow>
          ''proxy='' @ shellQuote (access_endpoint config) @ nl @
          ''curl --connect-timeout 5 --fail --silent --show-error --proxy '' @ dq @ ''$proxy'' @ dq @
          '' https://ipinfo.io/ip'')"

section \<open>A shell\<close>

type_synonym shell_vars = "string \<Rightarrow> string option"

definition value_of :: "shell_vars \<Rightarrow> string \<Rightarrow> string" where
  "value_of vars name = (case vars name of None \<Rightarrow> [] | Some v \<Rightarrow> v)"

text \<open>The text up to the closing single quote, and what follows.\<close>

definition single_quoted :: "string \<Rightarrow> (string \<times> string) option" where
  "single_quoted s =
     (case dropWhile (\<lambda>c. c \<noteq> CHR 0x27) s of
        [] \<Rightarrow> None | _ # rest \<Rightarrow> Some (takeWhile (\<lambda>c. c \<noteq> CHR 0x27) s, rest))"

function double_quoted :: "shell_vars \<Rightarrow> string \<Rightarrow> (string \<times> string) option" where
  "double_quoted vars [] = None"
| "double_quoted vars (c # cs) =
     (if c = CHR 0x22 then Some ([], cs)
      else if c = CHR 0x5C \<or> c = CHR 0x60 then None
      else if c = CHR ''$'' then
        (let name = takeWhile is_word_char cs
         in if name = [] \<or> is_digit (hd name) then None
            else map_option (\<lambda>(w, r). (value_of vars name @ w, r)) (double_quoted vars (dropWhile is_word_char cs)))
      else map_option (\<lambda>(w, r). (c # w, r)) (double_quoted vars cs))"
  by pat_completeness auto
termination by (relation "measure (\<lambda>(vars, s). length s)") (auto simp: le_imp_less_Suc length_dropWhile_le)

text \<open>Characters with a meaning of their own outside quotes that the interpreter does not know.\<close>

definition shell_special :: "char \<Rightarrow> bool" where
  "shell_special c \<longleftrightarrow> c \<in> set (''$;&|<>()*?[]{}#~!%'' @ [CHR 0x60, CHR 0x09, CHR 0x0D])"

text \<open>One word, up to a blank or the end of the line.\<close>

lemma single_quoted_shorter: "single_quoted s = Some (w, r) \<Longrightarrow> length r < length s"
  using length_dropWhile_le [of "\<lambda>c. c \<noteq> CHR 0x27" s] by (auto simp: single_quoted_def split: list.splits)

lemma double_quoted_shorter: "double_quoted vars s = Some (w, r) \<Longrightarrow> length r < length s"
proof (induction vars s arbitrary: w rule: double_quoted.induct)
  case (2 vars c cs)
  have "length (dropWhile is_word_char cs) \<le> length cs" by (rule length_dropWhile_le)
  with 2 show ?case by (fastforce simp: Let_def split: if_splits)
qed simp

function sh_word :: "shell_vars \<Rightarrow> string \<Rightarrow> (string \<times> string) option" where
  "sh_word vars [] = Some ([], [])"
| "sh_word vars (c # cs) =
     (if c = CHR '' '' \<or> c = CHR 0x0A then Some ([], c # cs)
      else if c = CHR 0x27 then
        (case single_quoted cs of
           None \<Rightarrow> None | Some (w, r) \<Rightarrow> map_option (\<lambda>(w', r'). (w @ w', r')) (sh_word vars r))
      else if c = CHR 0x22 then
        (case double_quoted vars cs of
           None \<Rightarrow> None | Some (w, r) \<Rightarrow> map_option (\<lambda>(w', r'). (w @ w', r')) (sh_word vars r))
      else if c = CHR 0x5C then
        (case cs of [] \<Rightarrow> None
         | d # ds \<Rightarrow> if d = CHR 0x0A then None else map_option (\<lambda>(w', r'). (d # w', r')) (sh_word vars ds))
      else if shell_special c then None
      else map_option (\<lambda>(w', r'). (c # w', r')) (sh_word vars cs))"
  by pat_completeness auto
termination
  by (relation "measure (\<lambda>(vars, s). length s)") (auto dest!: single_quoted_shorter double_quoted_shorter)

lemma sh_word_shorter: "sh_word vars s = Some (w, r) \<Longrightarrow> length r \<le> length s"
proof (induction s arbitrary: w r rule: length_induct)
  case (1 s)
  then have IH: "sh_word vars s' = Some (w', r') \<Longrightarrow> length s' < length s \<Longrightarrow> length r' \<le> length s'" for s' w' r'
    by blast
  show ?case
  proof (cases s)
    case Nil
    with 1 show ?thesis by simp
  next
    case (Cons c cs)
    consider "c = CHR '' '' \<or> c = CHR 0x0A" | "c = CHR 0x27" | "c = CHR 0x22" | "c = CHR 0x5C"
      | "\<not> (c = CHR '' '' \<or> c = CHR 0x0A)" "c \<noteq> CHR 0x27" "c \<noteq> CHR 0x22" "c \<noteq> CHR 0x5C" by blast
    then show ?thesis
    proof cases
      case 1
      with \<open>sh_word vars s = Some (w, r)\<close> Cons show ?thesis by auto
    next
      case 2
      with \<open>sh_word vars s = Some (w, r)\<close> Cons obtain w1 r1 w2 where
        "single_quoted cs = Some (w1, r1)" "sh_word vars r1 = Some (w2, r)" by (auto split: option.splits)
      with IH [of r1 w2 r] Cons show ?thesis by (auto dest: single_quoted_shorter)
    next
      case 3
      with \<open>sh_word vars s = Some (w, r)\<close> Cons obtain w1 r1 w2 where
        "double_quoted vars cs = Some (w1, r1)" "sh_word vars r1 = Some (w2, r)" by (auto split: option.splits)
      with IH [of r1 w2 r] Cons show ?thesis by (auto dest: double_quoted_shorter)
    next
      case 4
      with \<open>sh_word vars s = Some (w, r)\<close> Cons obtain d ds w2 where
        "cs = d # ds" "sh_word vars ds = Some (w2, r)" by (auto split: list.splits if_splits)
      with IH [of ds w2 r] Cons show ?thesis by auto
    next
      case 5
      with \<open>sh_word vars s = Some (w, r)\<close> Cons obtain w2 where "sh_word vars cs = Some (w2, r)"
        by (auto split: if_splits)
      with IH [of cs w2 r] Cons show ?thesis by auto
    qed
  qed
qed

text \<open>The words of one line and the text behind its end; words are separated by blanks.\<close>

function sh_words :: "shell_vars \<Rightarrow> string \<Rightarrow> (string list \<times> string) option" where
  "sh_words vars s =
     (case sh_word vars s of
        None \<Rightarrow> None
      | Some (w, r) \<Rightarrow>
          (case r of
             [] \<Rightarrow> Some ([w], [])
           | c # cs \<Rightarrow> if c = CHR 0x0A then Some ([w], cs)
                      else map_option (\<lambda>(ws, r'). (w # ws, r')) (sh_words vars cs)))"
  by pat_completeness auto
termination
  by (relation "measure (\<lambda>(vars, s). length s)") (auto dest!: sh_word_shorter)

record shell =
  sh_vars :: shell_vars
  sh_exported :: "string list"
  sh_executed :: "string list list"

definition split_assignment :: "string \<Rightarrow> (string \<times> string) option" where
  "split_assignment w =
     (let name = takeWhile is_word_char w
      in case dropWhile is_word_char w of
           [] \<Rightarrow> None
         | c # v \<Rightarrow> if c = CHR ''='' \<and> name \<noteq> [] \<and> \<not> is_digit (hd name) then Some (name, v) else None)"

text \<open>One line: an assignment (the line itself starts with a name and \<^verbatim>\<open>=\<close>), an export, or a command.\<close>

definition sh_line :: "string \<Rightarrow> string list \<Rightarrow> shell \<Rightarrow> shell option" where
  "sh_line source ws s =
     (case ws of
        [] \<Rightarrow> Some s
      | w # args \<Rightarrow>
          if split_assignment source \<noteq> None then
            (if args \<noteq> [] then None
             else case split_assignment w of
                    None \<Rightarrow> None | Some (n, v) \<Rightarrow> Some (s\<lparr>sh_vars := (sh_vars s)(n \<mapsto> v)\<rparr>))
          else if w = ''export'' then
            (case args of
               [a] \<Rightarrow> (case split_assignment a of
                        None \<Rightarrow> None
                      | Some (n, v) \<Rightarrow> Some (s\<lparr>sh_vars := (sh_vars s)(n \<mapsto> v), sh_exported := sh_exported s @ [n]\<rparr>))
             | _ \<Rightarrow> None)
          else Some (s\<lparr>sh_executed := sh_executed s @ [w # args]\<rparr>))"

text \<open>At most one line is run for every character of the script.\<close>

fun sh_lines :: "nat \<Rightarrow> string \<Rightarrow> shell \<Rightarrow> shell option" where
  "sh_lines 0 script s = (if script = [] then Some s else None)"
| "sh_lines (Suc k) script s =
     (if script = [] then Some s
      else case sh_words (sh_vars s) script of
             None \<Rightarrow> None
           | Some (ws, rest) \<Rightarrow>
               (case sh_line script ws s of None \<Rightarrow> None | Some s' \<Rightarrow> sh_lines k rest s'))"

definition sh_run :: "string \<Rightarrow> shell \<Rightarrow> shell option" where
  "sh_run script = sh_lines (length script) script"

section \<open>Quoting\<close>

lemma replace_char_id: "c \<notin> set v \<Longrightarrow> replace_char c q v = v"
  by (induction v) (auto simp: replace_char_def)

lemma replace_char_split: "c \<notin> set a \<Longrightarrow> replace_char c q (a @ c # b) = a @ q @ replace_char c q b"
  by (induction a) (auto simp: replace_char_def)

lemma single_quoted_append:
  "CHR 0x27 \<notin> set w \<Longrightarrow> single_quoted (w @ CHR 0x27 # rest) = Some (w, rest)"
proof -
  assume "CHR 0x27 \<notin> set w"
  then have "takeWhile (\<lambda>c. c \<noteq> CHR 0x27) (w @ CHR 0x27 # rest) = w"
    "dropWhile (\<lambda>c. c \<noteq> CHR 0x27) (w @ CHR 0x27 # rest) = CHR 0x27 # rest"
    by (induction w) auto
  then show ?thesis by (simp add: single_quoted_def)
qed

lemma sh_word_shellQuote [simp]:
  "sh_word vars (shellQuote v @ rest) = map_option (\<lambda>(w, r). (v @ w, r)) (sh_word vars rest)"
proof (induction v rule: length_induct)
  case (1 v)
  let ?p = "\<lambda>c. c \<noteq> CHR 0x27"
  have no: "CHR 0x27 \<notin> set (takeWhile ?p v)" by (auto dest: set_takeWhileD)
  show ?case
  proof (cases "dropWhile ?p v")
    case Nil
    then have "CHR 0x27 \<notin> set v" by (auto simp: dropWhile_eq_Nil_conv)
    then show ?thesis by (simp add: shellQuote_def replace_char_id single_quoted_append)
  next
    case (Cons c v')
    then have c: "c = CHR 0x27" using hd_dropWhile [of ?p v] by auto
    have v: "v = takeWhile ?p v @ CHR 0x27 # v'" using takeWhile_dropWhile_id [of ?p v] Cons c by simp
    have "length (takeWhile ?p v @ CHR 0x27 # v') = length v" by (simp only: v [symmetric])
    then have "length v' < length v" by simp
    with 1 have IH: "sh_word vars (shellQuote v' @ rest) = map_option (\<lambda>(w, r). (v' @ w, r)) (sh_word vars rest)" by blast
    have "shellQuote v @ rest = CHR 0x27 # (takeWhile ?p v @ CHR 0x27 # CHR 0x5C # CHR 0x27 # shellQuote v' @ rest)"
      by (subst v) (simp add: shellQuote_def replace_char_split [OF no])
    then have "sh_word vars (shellQuote v @ rest) =
        map_option (\<lambda>(w, r). (takeWhile ?p v @ CHR 0x27 # w, r)) (sh_word vars (shellQuote v' @ rest))"
      by (simp add: single_quoted_append [OF no] option.map_comp o_def case_prod_unfold)
    also have "\<dots> = map_option (\<lambda>(w, r). ((takeWhile ?p v @ CHR 0x27 # v') @ w, r)) (sh_word vars rest)"
      by (simp add: IH option.map_comp o_def case_prod_unfold)
    finally show ?thesis unfolding v [symmetric] .
  qed
qed

lemma sh_word_plain:
  "list_all (\<lambda>c. \<not> shell_special c \<and> c \<notin> {CHR '' '', CHR 0x0A, CHR 0x27, CHR 0x22, CHR 0x5C}) w \<Longrightarrow>
     sh_word vars (w @ rest) = map_option (\<lambda>(w', r). (w @ w', r)) (sh_word vars rest)"
  by (induction w) (auto simp: option.map_comp o_def case_prod_unfold option.map_ident)

lemma name_span:
  "list_all is_word_char n \<Longrightarrow> \<not> is_word_char c \<Longrightarrow>
     takeWhile is_word_char (n @ c # v) = n \<and> dropWhile is_word_char (n @ c # v) = c # v"
  by (induction n) auto

text \<open>A double-quoted variable, and a double-quoted text without special characters.\<close>

lemma sh_word_variable:
  assumes "list_all is_word_char name" "name \<noteq> []" "\<not> is_digit (hd name)"
  shows "sh_word vars (dq @ CHR ''$'' # name @ dq @ rest) =
     map_option (\<lambda>(w, r). (value_of vars name @ w, r)) (sh_word vars rest)"
  using assms name_span [of name "CHR 0x22" rest] by (simp add: Let_def is_word_char_def [of "CHR 0x22"])

lemma sh_word_double:
  assumes "list_all (\<lambda>c. c \<notin> {CHR 0x22, CHR 0x5C, CHR 0x60, CHR ''$''}) v"
  shows "sh_word vars (dq @ v @ dq @ rest) = map_option (\<lambda>(w, r). (v @ w, r)) (sh_word vars rest)"
proof -
  have "double_quoted vars (v @ CHR 0x22 # rest) = Some (v, rest)" using assms by (induction v) auto
  then show ?thesis by simp
qed

text \<open>A line \<^verbatim>\<open>export name=value\<close>, for any way to write the value.\<close>

definition is_name :: "string \<Rightarrow> bool" where
  "is_name n \<longleftrightarrow> n \<noteq> [] \<and> list_all is_word_char n \<and> \<not> is_digit (hd n)"

lemma split_assignment_name: "is_name n \<Longrightarrow> split_assignment (n @ ''='' @ v) = Some (n, v)"
  using name_span [of n "CHR ''=''" v]
  by (simp add: split_assignment_def is_name_def is_word_char_def [of "CHR ''=''"])

lemma word_chars_plain:
  "is_word_char c \<Longrightarrow> \<not> shell_special c \<and> c \<notin> {CHR '' '', CHR 0x0A, CHR 0x27, CHR 0x22, CHR 0x5C}"
  by (auto simp: is_word_char_def shell_special_def)

lemma sh_word_assign:
  "is_name n \<Longrightarrow> sh_word vars (n @ ''='' @ rest) = map_option (\<lambda>(w, r). (n @ ''='' @ w, r)) (sh_word vars rest)"
  using sh_word_plain [of "n @ ''=''" vars rest] word_chars_plain
  by (auto simp: is_name_def list_all_iff shell_special_def)

lemma sh_words_export:
  assumes "is_name n" "\<And>rest. sh_word vars (source @ rest) = map_option (\<lambda>(w, r). (v @ w, r)) (sh_word vars rest)"
  shows "sh_words vars (''export '' @ n @ ''='' @ source @ nl @ rest) = Some ([''export'', n @ ''='' @ v], rest)"
    and "sh_words vars (''export '' @ n @ ''='' @ source) = Some ([''export'', n @ ''='' @ v], [])"
  using sh_word_assign [OF assms(1), of vars "source @ nl @ rest"] sh_word_assign [OF assms(1), of vars source]
    assms(2) [of "nl @ rest"] assms(2) [of "[]"]
  by (simp_all add: shell_special_def)

lemma sh_lines_export:
  assumes "is_name n" "\<And>rest. sh_word (sh_vars s) (source @ rest) = map_option (\<lambda>(w, r). (v @ w, r)) (sh_word (sh_vars s) rest)"
  shows "sh_lines (Suc k) (''export '' @ n @ ''='' @ source @ nl @ rest) s =
      sh_lines k rest (s\<lparr>sh_vars := (sh_vars s)(n \<mapsto> v), sh_exported := sh_exported s @ [n]\<rparr>)"
    and "sh_lines (Suc k) (''export '' @ n @ ''='' @ source) s =
      sh_lines k [] (s\<lparr>sh_vars := (sh_vars s)(n \<mapsto> v), sh_exported := sh_exported s @ [n]\<rparr>)"
proof -
  have "split_assignment (''export '' @ x) = None" for x
    by (simp add: split_assignment_def is_word_char_def)
  then show "sh_lines (Suc k) (''export '' @ n @ ''='' @ source @ nl @ rest) s =
      sh_lines k rest (s\<lparr>sh_vars := (sh_vars s)(n \<mapsto> v), sh_exported := sh_exported s @ [n]\<rparr>)"
    "sh_lines (Suc k) (''export '' @ n @ ''='' @ source) s =
      sh_lines k [] (s\<lparr>sh_vars := (sh_vars s)(n \<mapsto> v), sh_exported := sh_exported s @ [n]\<rparr>)"
    unfolding sh_lines.simps sh_words_export [OF assms]
    by (simp_all add: sh_line_def split_assignment_name [OF assms(1), simplified])
qed

lemma sh_lines_Nil [simp]: "sh_lines k [] s = Some s"
  by (cases k) simp_all

lemma sh_lines_step:
  "script \<noteq> [] \<Longrightarrow> sh_words (sh_vars s) script = Some (ws, rest) \<Longrightarrow> sh_line script ws s = Some s' \<Longrightarrow>
     sh_lines (Suc k) script s = sh_lines k rest s'"
  by simp

text \<open>More fuel changes nothing.\<close>

lemma sh_lines_mono: "sh_lines k script s = Some r \<Longrightarrow> k \<le> k' \<Longrightarrow> sh_lines k' script s = Some r"
proof (induction k script s arbitrary: k' rule: sh_lines.induct)
  case (1 script s)
  then show ?case by (auto split: if_splits)
next
  case (2 k script s)
  then obtain k'' where "k' = Suc k''" "k \<le> k''" by (cases k') auto
  with 2 show ?case by (auto split: if_splits option.splits)
qed

lemmas export_quote = sh_lines_export [OF _ sh_word_shellQuote]

lemma export_variable:
  assumes "is_name n" "is_name m"
  shows "sh_lines (Suc k) (''export '' @ n @ ''='' @ (dq @ CHR ''$'' # m @ dq) @ nl @ rest) s =
      sh_lines k rest (s\<lparr>sh_vars := (sh_vars s)(n \<mapsto> value_of (sh_vars s) m), sh_exported := sh_exported s @ [n]\<rparr>)"
    and "sh_lines (Suc k) (''export '' @ n @ ''='' @ (dq @ CHR ''$'' # m @ dq)) s =
      sh_lines k [] (s\<lparr>sh_vars := (sh_vars s)(n \<mapsto> value_of (sh_vars s) m), sh_exported := sh_exported s @ [n]\<rparr>)"
  by (rule sh_lines_export [OF assms(1)];
      use sh_word_variable [of m "sh_vars s"] assms(2) in \<open>simp add: is_name_def\<close>)+

lemma export_text:
  assumes "is_name n" "list_all (\<lambda>c. c \<notin> {CHR 0x22, CHR 0x5C, CHR 0x60, CHR ''$''}) v"
  shows "sh_lines (Suc k) (''export '' @ n @ ''='' @ (dq @ v @ dq) @ nl @ rest) s =
      sh_lines k rest (s\<lparr>sh_vars := (sh_vars s)(n \<mapsto> v), sh_exported := sh_exported s @ [n]\<rparr>)"
  by (rule sh_lines_export(1) [OF assms(1)]) (use sh_word_double [OF assms(2), of "sh_vars s"] in simp)

definition proxy_vars :: "string \<Rightarrow> shell \<Rightarrow> shell" where
  "proxy_vars e s =
     s\<lparr>sh_vars := (sh_vars s)(''http_proxy'' \<mapsto> e, ''https_proxy'' \<mapsto> e, ''HTTP_PROXY'' \<mapsto> e, ''HTTPS_PROXY'' \<mapsto> e,
          ''no_proxy'' \<mapsto> ''localhost,127.0.0.1,::1'', ''NO_PROXY'' \<mapsto> ''localhost,127.0.0.1,::1''),
       sh_exported := sh_exported s @
          [''http_proxy'', ''https_proxy'', ''HTTP_PROXY'', ''HTTPS_PROXY'', ''no_proxy'', ''NO_PROXY'']\<rparr>"

lemma quick_lines: "sh_lines (Suc (Suc (Suc (Suc (Suc (Suc 0)))))) (linuxQuickCommand (Some c)) s =
    Some (proxy_vars (access_endpoint (Some c)) s)"
proof -
  have names: "is_name ''http_proxy''" "is_name ''https_proxy''" "is_name ''HTTP_PROXY''" "is_name ''HTTPS_PROXY''"
    "is_name ''no_proxy''" "is_name ''NO_PROXY''" by (simp_all add: is_name_def is_word_char_def is_digit_def)
  have plain: "list_all (\<lambda>c. c \<notin> {CHR 0x22, CHR 0x5C, CHR 0x60, CHR ''$''}) ''localhost,127.0.0.1,::1''" by simp
  have "linuxQuickCommand (Some c) =
      ''export '' @ ''http_proxy'' @ ''='' @ shellQuote (access_endpoint (Some c)) @ nl @
      ''export '' @ ''https_proxy'' @ ''='' @ (dq @ CHR ''$'' # ''http_proxy'' @ dq) @ nl @
      ''export '' @ ''HTTP_PROXY'' @ ''='' @ (dq @ CHR ''$'' # ''http_proxy'' @ dq) @ nl @
      ''export '' @ ''HTTPS_PROXY'' @ ''='' @ (dq @ CHR ''$'' # ''https_proxy'' @ dq) @ nl @
      ''export '' @ ''no_proxy'' @ ''='' @ (dq @ ''localhost,127.0.0.1,::1'' @ dq) @ nl @
      ''export '' @ ''NO_PROXY'' @ ''='' @ (dq @ CHR ''$'' # ''no_proxy'' @ dq)"
    by (simp add: linuxQuickCommand_def)
  then have "sh_lines (Suc (Suc (Suc (Suc (Suc (Suc 0)))))) (linuxQuickCommand (Some c)) s = sh_lines 0 [] (proxy_vars (access_endpoint (Some c)) s)"
    by (simp only: export_quote(1) [OF names(1)] export_variable(1) [OF names(2) names(1)]
        export_variable(1) [OF names(3) names(1)] export_variable(1) [OF names(4) names(2)]
        export_text [OF names(5) plain] export_variable(2) [OF names(6) names(5)])
       (simp add: proxy_vars_def value_of_def fun_upd_twist)
  then show ?thesis by simp
qed

lemma validation_words:
  "sh_words vars (''proxy='' @ shellQuote v @ nl @ rest) = Some ([''proxy='' @ v], rest)"
  "vars ''proxy'' = Some v \<Longrightarrow>
   sh_words vars (''curl --connect-timeout 5 --fail --silent --show-error --proxy '' @ dq @ ''$proxy'' @ dq @
       '' https://ipinfo.io/ip'') =
     Some ([''curl'', ''--connect-timeout'', ''5'', ''--fail'', ''--silent'', ''--show-error'', ''--proxy'', v,
       ''https://ipinfo.io/ip''], [])"
proof -
  have n: "is_name ''proxy''" by (simp add: is_name_def is_word_char_def is_digit_def)
  show "sh_words vars (''proxy='' @ shellQuote v @ nl @ rest) = Some ([''proxy='' @ v], rest)"
    using sh_word_assign [OF n, of vars "shellQuote v @ nl @ rest"] by simp
  assume "vars ''proxy'' = Some v"
  then show "sh_words vars (''curl --connect-timeout 5 --fail --silent --show-error --proxy '' @ dq @ ''$proxy'' @ dq @
       '' https://ipinfo.io/ip'') =
     Some ([''curl'', ''--connect-timeout'', ''5'', ''--fail'', ''--silent'', ''--show-error'', ''--proxy'', v,
       ''https://ipinfo.io/ip''], [])"
    by (simp add: shell_special_def value_of_def is_word_char_def is_digit_def Let_def)
qed

section \<open>Properties\<close>

text \<open>C18: the shell commands of the guide do what they say, whatever host name the control plane
  reports: quotes, dollars, semicolons or line breaks in it stay text.  The quick start sets and
  exports exactly the six proxy variables, the proxies to the endpoint; the validation runs exactly
  one command, curl, with the endpoint as its proxy.\<close>

theorem linux_commands_run_as_meant:
  "sh_run (linuxQuickCommand (Some c)) s =
      Some (s\<lparr>sh_vars := (sh_vars s)(''http_proxy'' \<mapsto> access_endpoint (Some c), ''https_proxy'' \<mapsto> access_endpoint (Some c),
               ''HTTP_PROXY'' \<mapsto> access_endpoint (Some c), ''HTTPS_PROXY'' \<mapsto> access_endpoint (Some c),
               ''no_proxy'' \<mapsto> ''localhost,127.0.0.1,::1'', ''NO_PROXY'' \<mapsto> ''localhost,127.0.0.1,::1''),
             sh_exported := sh_exported s @
               [''http_proxy'', ''https_proxy'', ''HTTP_PROXY'', ''HTTPS_PROXY'', ''no_proxy'', ''NO_PROXY'']\<rparr>) \<and>
   sh_run (linuxValidationCommand (Some c)) s =
      Some (s\<lparr>sh_vars := (sh_vars s)(''proxy'' \<mapsto> access_endpoint (Some c)),
             sh_executed := sh_executed s @
               [[''curl'', ''--connect-timeout'', ''5'', ''--fail'', ''--silent'', ''--show-error'', ''--proxy'',
                 access_endpoint (Some c), ''https://ipinfo.io/ip'']]\<rparr>)"
proof
  show "sh_run (linuxQuickCommand (Some c)) s =
      Some (s\<lparr>sh_vars := (sh_vars s)(''http_proxy'' \<mapsto> access_endpoint (Some c), ''https_proxy'' \<mapsto> access_endpoint (Some c),
               ''HTTP_PROXY'' \<mapsto> access_endpoint (Some c), ''HTTPS_PROXY'' \<mapsto> access_endpoint (Some c),
               ''no_proxy'' \<mapsto> ''localhost,127.0.0.1,::1'', ''NO_PROXY'' \<mapsto> ''localhost,127.0.0.1,::1''),
             sh_exported := sh_exported s @
               [''http_proxy'', ''https_proxy'', ''HTTP_PROXY'', ''HTTPS_PROXY'', ''no_proxy'', ''NO_PROXY'']\<rparr>)"
    unfolding sh_run_def by (rule sh_lines_mono [OF quick_lines, unfolded proxy_vars_def]) (simp add: linuxQuickCommand_def)
next
  let ?curl = "''curl --connect-timeout 5 --fail --silent --show-error --proxy '' @ dq @ ''$proxy'' @ dq @ '' https://ipinfo.io/ip''"
  let ?s = "s\<lparr>sh_vars := (sh_vars s)(''proxy'' \<mapsto> access_endpoint (Some c))\<rparr>"
  have n: "is_name ''proxy''" by (simp add: is_name_def is_word_char_def is_digit_def)
  have script: "linuxValidationCommand (Some c) = ''proxy='' @ shellQuote (access_endpoint (Some c)) @ nl @ ?curl"
    by (simp add: linuxValidationCommand_def)
  have assign: "split_assignment (''proxy='' @ v) = Some (''proxy'', v)" for v
    using split_assignment_name [OF n, of v] by simp
  have curl: "split_assignment ?curl = None" by (simp add: split_assignment_def is_word_char_def)
  have "sh_lines (Suc (Suc 0)) (linuxValidationCommand (Some c)) s = sh_lines (Suc 0) ?curl ?s"
    unfolding script by (rule sh_lines_step [OF _ validation_words(1)]) (simp_all add: sh_line_def assign [simplified])
  also have "\<dots> = sh_lines 0 [] (?s\<lparr>sh_executed := sh_executed s @
      [[''curl'', ''--connect-timeout'', ''5'', ''--fail'', ''--silent'', ''--show-error'', ''--proxy'',
        access_endpoint (Some c), ''https://ipinfo.io/ip'']]\<rparr>)"
    by (rule sh_lines_step [OF _ validation_words(2)]) (simp_all add: sh_line_def curl [simplified])
  also have "\<dots> = Some (?s\<lparr>sh_executed := sh_executed s @
      [[''curl'', ''--connect-timeout'', ''5'', ''--fail'', ''--silent'', ''--show-error'', ''--proxy'',
        access_endpoint (Some c), ''https://ipinfo.io/ip'']]\<rparr>)"
    by (rule sh_lines_Nil)
  finally have two: "sh_lines (Suc (Suc 0)) (linuxValidationCommand (Some c)) s = \<dots>" .
  have "Suc (Suc 0) \<le> length (linuxValidationCommand (Some c))" by (simp add: linuxValidationCommand_def)
  from sh_lines_mono [OF two this] show "sh_run (linuxValidationCommand (Some c)) s =
      Some (s\<lparr>sh_vars := (sh_vars s)(''proxy'' \<mapsto> access_endpoint (Some c)),
             sh_executed := sh_executed s @
               [[''curl'', ''--connect-timeout'', ''5'', ''--fail'', ''--silent'', ''--show-error'', ''--proxy'',
                 access_endpoint (Some c), ''https://ipinfo.io/ip'']]\<rparr>)"
    by (simp only: sh_run_def)
qed

end
