(* ===== verification/Code_Highlight.thy ===== *)
theory Code_Highlight
  imports Source_Document
begin

text \<open>
  The coloured shell and PowerShell snippets: \<^verbatim>\<open>bashTokens\<close>, \<^verbatim>\<open>powerShellTokens\<close>, \<^verbatim>\<open>tokenClass\<close> and
  \<^verbatim>\<open>highlightCode\<close> of \<^verbatim>\<open>src/frontend/app/access/page.tsx\<close>.

  Each pattern is a list of alternatives, one for each group of the regular expression and tried in
  order; an alternative returns the length of its match at a position.  The scan over a text with
  such a list of alternatives is \<^verbatim>\<open>String.matchAll\<close>: it takes the leftmost match, then goes on behind it.
\<close>

type_synonym alternative = "char option \<Rightarrow> string \<Rightarrow> nat option"

section \<open>Alternatives\<close>

definition is_letter :: "char \<Rightarrow> bool" where
  "is_letter c \<longleftrightarrow> is_word_char c \<and> \<not> is_digit c \<and> c \<noteq> CHR ''_''"

definition line_end :: "char \<Rightarrow> bool" where
  "line_end c \<longleftrightarrow> c = CHR 0x0A \<or> c = CHR 0x0D"

text \<open>\<^verbatim>\<open>#.*$\<close>, where the end of the pattern is the end of a line.\<close>

definition match_comment :: alternative where
  "match_comment prev s =
     (if starts_with ''#'' s then Some (length (takeWhile (\<lambda>c. \<not> line_end c) s)) else None)"

text \<open>A text between quotes \<open>q\<close>, where \<open>e\<close> escapes one character of the line: \<^verbatim>\<open>"(?:\\.|[^"\\])*"\<close>.\<close>

fun escaped_rest :: "char \<Rightarrow> char \<Rightarrow> string \<Rightarrow> nat option" where
  "escaped_rest q e [] = None"
| "escaped_rest q e (c # cs) =
     (if c = q then Some 1
      else if c = e then
        (case cs of [] \<Rightarrow> None | d # ds \<Rightarrow> if line_end d then None else map_option (\<lambda>n. n + 2) (escaped_rest q e ds))
      else map_option (\<lambda>n. n + 1) (escaped_rest q e cs))"

definition match_quoted :: "char \<Rightarrow> char \<Rightarrow> alternative" where
  "match_quoted q e prev s =
     (case s of [] \<Rightarrow> None | c # cs \<Rightarrow> if c = q then map_option Suc (escaped_rest q e cs) else None)"

definition bash_string :: alternative where
  "bash_string prev s =
     or_else (match_quoted (CHR 0x22) (CHR 0x5C) prev s) (match_quoted (CHR 0x27) (CHR 0x5C) prev s)"

definition powershell_string :: alternative where
  "powershell_string prev s = or_else (match_quoted (CHR 0x22) (CHR 0x60) prev s) (match_single s)"

text \<open>\<^verbatim>\<open>\$\{?[A-Za-z_][A-Za-z0-9_]*\}?\<close> and \<^verbatim>\<open>\$[A-Za-z_][A-Za-z0-9_:]*\<close>\<close>

definition name_length :: "(char \<Rightarrow> bool) \<Rightarrow> string \<Rightarrow> nat option" where
  "name_length more s =
     (case s of [] \<Rightarrow> None
      | c # cs \<Rightarrow> if is_letter c \<or> c = CHR ''_'' then Some (Suc (length (takeWhile more cs))) else None)"

definition bash_variable :: alternative where
  "bash_variable prev s =
     (if \<not> starts_with ''$'' s then None
      else (let brace = (if starts_with ''{'' (drop 1 s) then 1 else 0)
            in case name_length is_word_char (drop (1 + brace) s) of
                 None \<Rightarrow> None
               | Some n \<Rightarrow> Some (1 + brace + n + (if starts_with ''}'' (drop (1 + brace + n) s) then 1 else 0))))"

definition powershell_variable :: alternative where
  "powershell_variable prev s =
     (if \<not> starts_with ''$'' s then None
      else map_option Suc (name_length (\<lambda>c. is_word_char c \<or> c = CHR '':'') (drop 1 s)))"

text \<open>\<^verbatim>\<open>\b(?:...)\b\<close>; the flag \<^verbatim>\<open>i\<close> compares without regard to case.\<close>

definition match_keyword :: "bool \<Rightarrow> string list \<Rightarrow> alternative" where
  "match_keyword ignore_case words prev s =
     (let s' = (if ignore_case then to_lower s else s)
      in if word_before prev then None
         else map_option length (find_first (\<lambda>w. starts_with w s' \<and> \<not> word_at (drop (length w) s)) words))"

definition bash_keywords :: "string list" where
  "bash_keywords = [''export'', ''if'', ''then'', ''fi'', ''for'', ''in'', ''do'', ''done'', ''case'', ''esac'',
     ''function'', ''local'']"

definition powershell_keywords :: "string list" where
  "powershell_keywords = [''param'', ''if'', ''else'', ''elseif'', ''foreach'', ''function'', ''return'', ''exit'',
     ''switch'']"

text \<open>\<^verbatim>\<open>--?[A-Za-z][A-Za-z0-9-]*\<close>\<close>

definition match_option :: alternative where
  "match_option prev s =
     (if \<not> starts_with ''-'' s then None
      else (let dashes = (if starts_with ''--'' s then 2 else 1)
            in case drop dashes s of
                 [] \<Rightarrow> None
               | c # cs \<Rightarrow> if is_letter c
                   then Some (dashes + Suc (length (takeWhile (\<lambda>c. is_letter c \<or> is_digit c \<or> c = CHR ''-'') cs)))
                   else None))"

text \<open>\<^verbatim>\<open>\[[A-Za-z][A-Za-z0-9.]*\]\<close>\<close>

definition match_type :: alternative where
  "match_type prev s =
     (case drop 1 s of
        [] \<Rightarrow> None
      | c # cs \<Rightarrow>
          (let n = length (takeWhile (\<lambda>c. is_letter c \<or> is_digit c \<or> c = CHR ''.'') cs)
           in if starts_with ''['' s \<and> is_letter c \<and> starts_with '']'' (drop n cs) then Some (n + 3) else None))"

text \<open>\<^verbatim>\<open>https?:\/\/[^\s"'`]+\<close>\<close>

definition url_char :: "char \<Rightarrow> bool" where
  "url_char c \<longleftrightarrow> \<not> is_ws c \<and> c \<noteq> CHR 0x22 \<and> c \<noteq> CHR 0x27 \<and> c \<noteq> CHR 0x60"

definition match_url :: "bool \<Rightarrow> alternative" where
  "match_url ignore_case prev s =
     (let s' = (if ignore_case then to_lower s else s);
          scheme = (if starts_with ''http://'' s' then 7 else if starts_with ''https://'' s' then 8 else 0);
          n = length (takeWhile url_char (drop scheme s))
      in if scheme = 0 \<or> n = 0 then None else Some (scheme + n))"

section \<open>Patterns\<close>

datatype CodeLanguage = Bash | PowerShell

definition bashTokens :: "alternative list" where
  "bashTokens = [match_comment, bash_string, bash_variable, match_keyword False bash_keywords, match_option,
     match_url False]"

definition powerShellTokens :: "alternative list" where
  "powerShellTokens = [match_comment, powershell_string, powershell_variable, match_keyword True powershell_keywords,
     match_option, match_type, match_url True]"

definition code_pattern :: "CodeLanguage \<Rightarrow> alternative list" where
  "code_pattern language = (if language = PowerShell then powerShellTokens else bashTokens)"

text \<open>The number of the group that matched, and the length of the match.\<close>

fun first_match :: "nat \<Rightarrow> alternative list \<Rightarrow> char option \<Rightarrow> string \<Rightarrow> (nat \<times> nat) option" where
  "first_match g [] prev s = None"
| "first_match g (a # as) prev s =
     (case a prev s of Some n \<Rightarrow> Some (g, n) | None \<Rightarrow> first_match (Suc g) as prev s)"

definition tokenClass :: "nat \<Rightarrow> CodeLanguage \<Rightarrow> string" where
  "tokenClass g language =
     (if g = 1 then ''access-doc-token-comment''
      else if g = 2 then ''access-doc-token-string''
      else if g = 3 then ''access-doc-token-variable''
      else if g = 4 then ''access-doc-token-keyword''
      else if g = 5 then ''access-doc-token-option''
      else if language = PowerShell \<and> g = 6 then ''access-doc-token-type''
      else ''access-doc-token-url'')"

text \<open>\<^verbatim>\<open>matchAll\<close> with the fragments between the matches; \<open>acc\<close> is the text since the cursor.\<close>

function code_from :: "CodeLanguage \<Rightarrow> char option \<Rightarrow> string \<Rightarrow> string \<Rightarrow> part list" where
  "code_from language prev acc [] = flush acc"
| "code_from language prev acc (c # cs) =
     (case first_match 1 (code_pattern language) prev (c # cs) of
        Some (g, n) \<Rightarrow>
          (let token = c # take (n - 1) cs
           in flush acc @ Token (tokenClass g language) token
                # code_from language (Some (last token)) [] (drop (n - 1) cs))
      | None \<Rightarrow> code_from language (Some c) (acc @ [c]) cs)"
  by pat_completeness auto
termination by (relation "measure (\<lambda>(language, prev, acc, s). length s)") auto

definition highlightCode :: "string \<Rightarrow> CodeLanguage \<Rightarrow> part list" where
  "highlightCode content language = code_from language None [] content"

section \<open>Lemmas\<close>

lemma code_from_text: "parts_text (code_from language prev acc s) = acc @ s"
  by (induction language prev acc s rule: code_from.induct)
     (simp_all add: Let_def split: option.splits prod.splits)

text \<open>An alternative that matches takes at least one character and none behind the end.\<close>

definition sound_alternative :: "alternative \<Rightarrow> bool" where
  "sound_alternative a \<longleftrightarrow> (\<forall>prev s n. a prev s = Some n \<longrightarrow> 0 < n \<and> n \<le> length s)"

named_theorems sound_alternatives

lemma takeWhile_pos: "P c \<Longrightarrow> 0 < length (takeWhile P (c # cs)) \<and> length (takeWhile P (c # cs)) \<le> length (c # cs)"
  using length_takeWhile_le [of P "c # cs"] by simp

lemma takeWhile_length_le: "length (takeWhile P xs) \<le> length xs"
  by (rule length_takeWhile_le)

lemma starts_with_length: "starts_with p s \<Longrightarrow> length p \<le> length s"
  by (auto simp: starts_with_iff)

lemma sound_comment [sound_alternatives]: "sound_alternative match_comment"
  using takeWhile_length_le [of "\<lambda>c. \<not> line_end c"]
  by (auto simp: sound_alternative_def match_comment_def starts_with_iff line_end_def)

lemma escaped_rest_bound: "escaped_rest q e s = Some n \<Longrightarrow> n \<le> length s"
  by (induction q e s arbitrary: n rule: escaped_rest.induct) (auto split: if_splits list.splits)

lemma sound_quoted: "sound_alternative (match_quoted q e)"
  using escaped_rest_bound [of q e]
  by (auto simp: sound_alternative_def match_quoted_def split: list.splits if_splits)

lemma single_rest_bound: "single_rest s = Some n \<Longrightarrow> n \<le> length s"
  by (induction s arbitrary: n rule: single_rest.induct) (force split: if_splits list.splits option.splits)+

lemma sound_bash_string [sound_alternatives]: "sound_alternative bash_string"
  using sound_quoted [unfolded sound_alternative_def]
  unfolding sound_alternative_def bash_string_def or_else_def by (metis (no_types, lifting) option.case_eq_if option.collapse)

lemma sound_powershell_string [sound_alternatives]: "sound_alternative powershell_string"
proof -
  have "match_single s = Some n \<Longrightarrow> 0 < n \<and> n \<le> length s" for s n
    using single_rest_bound by (auto simp: match_single_def split: list.splits if_splits)
  then show ?thesis
    using sound_quoted [unfolded sound_alternative_def]
    unfolding sound_alternative_def powershell_string_def or_else_def by (auto split: option.splits)
qed

lemma name_length_bound: "name_length more s = Some n \<Longrightarrow> 0 < n \<and> n \<le> length s"
  using takeWhile_length_le [of more] by (auto simp: name_length_def split: list.splits if_splits)

lemma sound_bash_variable [sound_alternatives]: "sound_alternative bash_variable"
proof -
  have "n \<le> length s" if v: "bash_variable prev s = Some n" for prev s n
  proof -
    from v obtain b k where b: "b = (if starts_with ''{'' (drop 1 s) then 1 else 0 :: nat)"
      and k: "name_length is_word_char (drop (1 + b) s) = Some k"
      and n: "n = 1 + b + k + (if starts_with ''}'' (drop (1 + b + k) s) then 1 else 0)"
      by (auto simp: bash_variable_def Let_def split: if_splits option.splits)
    from name_length_bound [OF k] have "1 + b + k \<le> length s" by auto
    moreover have "starts_with ''}'' (drop (1 + b + k) s) \<Longrightarrow> 1 + b + k + 1 \<le> length s"
      using starts_with_length by fastforce
    ultimately show ?thesis unfolding n by auto
  qed
  moreover have "0 < n" if "bash_variable prev s = Some n" for prev s n
    using that by (auto simp: bash_variable_def Let_def split: if_splits option.splits)
  ultimately show ?thesis by (auto simp: sound_alternative_def)
qed

lemma sound_powershell_variable [sound_alternatives]: "sound_alternative powershell_variable"
  unfolding sound_alternative_def powershell_variable_def
  using name_length_bound by (fastforce dest: starts_with_length split: if_splits)

lemma sound_keyword [sound_alternatives]: "[] \<notin> set words \<Longrightarrow> sound_alternative (match_keyword i words)"
  unfolding sound_alternative_def match_keyword_def Let_def
  by (fastforce simp: to_lower_def dest!: find_first_Some starts_with_length split: if_splits)

lemma sound_option [sound_alternatives]: "sound_alternative match_option"
proof -
  let ?P = "\<lambda>c. is_letter c \<or> is_digit c \<or> c = CHR ''-''"
  have "d + Suc (length (takeWhile ?P cs)) \<le> length s" if "drop d s = c # cs" for d s c cs
  proof -
    have "length (c # cs) = length s - d" unfolding that [symmetric] by simp
    then show ?thesis using takeWhile_length_le [of ?P cs] by auto
  qed
  from this [of 2] this [of 1] show ?thesis
    by (auto simp: sound_alternative_def match_option_def Let_def split: list.splits if_splits)
qed

lemma sound_type [sound_alternatives]: "sound_alternative match_type"
proof -
  have "n + 3 \<le> length s" if "drop 1 s = c # cs" "starts_with '']'' (drop n cs)" for n s c cs
  proof -
    have "length (c # cs) = length s - 1" unfolding that(1) [symmetric] by simp
    moreover from starts_with_length [OF that(2)] have "n < length cs" by simp
    ultimately show ?thesis by simp
  qed
  then show ?thesis by (auto simp: sound_alternative_def match_type_def Let_def split: list.splits if_splits)
qed

lemma sound_url [sound_alternatives]: "sound_alternative (match_url i)"
proof -
  have "k + length (takeWhile url_char (drop k s)) \<le> length s" if "takeWhile url_char (drop k s) \<noteq> []" for k s
    using that takeWhile_length_le [of url_char "drop k s"] by (cases "k \<le> length s") auto
  then show ?thesis by (auto simp: sound_alternative_def match_url_def Let_def split: if_splits)
qed

lemma sound_pattern: "a \<in> set (code_pattern language) \<Longrightarrow> sound_alternative a"
  by (cases language)
     (auto simp: code_pattern_def bashTokens_def powerShellTokens_def bash_keywords_def powershell_keywords_def
      intro!: sound_alternatives)

lemma first_match_sound:
  "first_match g as prev s = Some (k, n) \<Longrightarrow> \<forall>a \<in> set as. sound_alternative a \<Longrightarrow> 0 < n \<and> n \<le> length s"
  by (induction g as prev s rule: first_match.induct) (auto simp: sound_alternative_def split: option.splits)

text \<open>What \<^verbatim>\<open>matchAll\<close> yields: plain fragments are never empty, never adjacent, and no alternative
  matches anywhere in them; a token is the first match at its place.\<close>

fun matches_ok :: "CodeLanguage \<Rightarrow> char option \<Rightarrow> part list \<Rightarrow> bool" where
  "matches_ok language prev [] \<longleftrightarrow> True"
| "matches_ok language prev (Plain s # ps) \<longleftrightarrow>
     s \<noteq> [] \<and> (case ps of Plain _ # _ \<Rightarrow> False | _ \<Rightarrow> True) \<and>
     (\<forall>i < length s. first_match 1 (code_pattern language) (if i = 0 then prev else Some (s ! (i - 1)))
        (drop i s @ parts_text ps) = None) \<and>
     matches_ok language (Some (last s)) ps"
| "matches_ok language prev (Token cls s # ps) \<longleftrightarrow>
     (\<exists>g. first_match 1 (code_pattern language) prev (s @ parts_text ps) = Some (g, length s) \<and>
        cls = tokenClass g language) \<and> s \<noteq> [] \<and>
     matches_ok language (Some (last s)) ps"

abbreviation char_before :: "char option \<Rightarrow> string \<Rightarrow> nat \<Rightarrow> char option" where
  "char_before prev s i \<equiv> if i = 0 then prev else Some (s ! (i - 1))"

lemma code_from_matches:
  "prev = (if acc = [] then prev0 else Some (last acc)) \<Longrightarrow>
   (\<forall>i < length acc. first_match 1 (code_pattern language) (char_before prev0 acc i) (drop i acc @ s) = None) \<Longrightarrow>
   matches_ok language prev0 (code_from language prev acc s)"
proof (induction language prev acc s arbitrary: prev0 rule: code_from.induct)
  case (1 language prev acc)
  then show ?case by (simp add: flush_def)
next
  case (2 language prev acc c cs)
  show ?case
  proof (cases "first_match 1 (code_pattern language) prev (c # cs)")
    case None
    have "first_match 1 (code_pattern language) (char_before prev0 (acc @ [c]) i) (drop i (acc @ [c]) @ cs) = None"
      if "i < length (acc @ [c])" for i
    proof (cases "i < length acc")
      case True
      with 2(4) show ?thesis by (auto simp: nth_append)
    next
      case False
      with that have "i = length acc" by simp
      with None 2(3) show ?thesis by (cases "acc = []") (simp_all add: nth_append last_conv_nth)
    qed
    with 2(1) [OF None, of prev0] None show ?thesis by simp
  next
    case (Some m)
    obtain g n where m: "m = (g, n)" by force
    let ?token = "c # take (n - 1) cs" and ?rest = "code_from language (Some (last (c # take (n - 1) cs))) [] (drop (n - 1) cs)"
    from first_match_sound [OF Some [unfolded m]] sound_pattern have n: "length ?token = n" by force
    have IH: "matches_ok language (Some (last ?token)) ?rest"
      using 2(2) [OF Some m [symmetric] refl, of "Some (last ?token)"] by simp
    have whole: "?token @ parts_text ?rest = c # cs" by (simp add: code_from_text)
    have tok: "matches_ok language prev (Token (tokenClass g language) ?token # ?rest)"
      using Some m n IH whole by (auto simp del: append.simps take_Suc_Cons)
    show ?thesis
    proof (cases "acc = []")
      case True
      with tok Some m 2(3) show ?thesis by (simp add: flush_def Let_def)
    next
      case False
      have "parts_text (Token (tokenClass g language) ?token # ?rest) = c # cs" using whole by simp
      with tok Some m 2(3,4) False show ?thesis by (simp add: flush_def Let_def)
    qed
  qed
qed

section \<open>Properties\<close>

text \<open>C32: highlighting a snippet shows exactly the snippet and colours exactly the matches of the token
  pattern: the parts put together are the text; every coloured part is the match of the first
  alternative that applies at its place, with the colour of that alternative; and no alternative
  matches anywhere in the parts that are left plain.\<close>

theorem code_highlighting_exact:
  "parts_text (highlightCode content language) = content \<and> matches_ok language None (highlightCode content language)"
  using code_from_matches [of None "[]" None language content] by (simp add: highlightCode_def code_from_text)

end
