(* ===== verification/Access_Page.thy ===== *)
theory Access_Page
  imports Access_Commands Code_Highlight Clipboard
begin

text \<open>
  The access guide: \<^verbatim>\<open>src/frontend/app/access/page.tsx\<close>.  Copying a snippet runs \<open>writeClipboard\<close> on the page;
  its end, the timers that take the mark back, and the results of the three queries are messages.
  Brand icons are decoration and left out.
\<close>

section \<open>The anchor of the address\<close>

text \<open>\<^verbatim>\<open>decodeURIComponent\<close> on the fragment of an address; the result is a list of code points, \<open>None\<close> is
  the \<^verbatim>\<open>URIError\<close>.\<close>

definition hex_of :: "char \<Rightarrow> nat option" where
  "hex_of c = (let n = of_char c in
     if 48 \<le> n \<and> n \<le> 57 then Some (n - 48)
     else if 65 \<le> n \<and> n \<le> 70 then Some (n - 55)
     else if 97 \<le> n \<and> n \<le> 102 then Some (n - 87) else None)"

definition octet :: "string \<Rightarrow> nat option" where
  "octet s =
     (case s of
        p # h # l # _ \<Rightarrow>
          if p = CHR ''%'' then (case (hex_of h, hex_of l) of (Some a, Some b) \<Rightarrow> Some (16 * a + b) | _ \<Rightarrow> None) else None
      | _ \<Rightarrow> None)"

fun continuation :: "nat \<Rightarrow> nat \<Rightarrow> string \<Rightarrow> nat option" where
  "continuation 0 v s = Some v"
| "continuation (Suc k) v s =
     (case octet s of
        Some b \<Rightarrow> if b div 64 = 2 then continuation k (64 * v + b mod 64) (drop 3 s) else None
      | None \<Rightarrow> None)"

text \<open>The length of a sequence, the bits of its first byte, and the least code point it may stand for.\<close>

definition utf8_lead :: "nat \<Rightarrow> (nat \<times> nat \<times> nat) option" where
  "utf8_lead b =
     (if b < 128 then Some (0, b, 0)
      else if b div 32 = 6 then Some (1, b mod 32, 128)
      else if b div 16 = 14 then Some (2, b mod 16, 2048)
      else if b div 8 = 30 then Some (3, b mod 8, 65536)
      else None)"

definition valid_point :: "nat \<Rightarrow> nat \<Rightarrow> bool" where
  "valid_point least v \<longleftrightarrow> least \<le> v \<and> v \<le> 1114111 \<and> \<not> (55296 \<le> v \<and> v \<le> 57343)"

function decodeURIComponent :: "string \<Rightarrow> nat list option" where
  "decodeURIComponent [] = Some []"
| "decodeURIComponent (c # cs) =
     (if c \<noteq> CHR ''%'' then map_option ((#) (of_char c)) (decodeURIComponent cs)
      else case octet (c # cs) of
             None \<Rightarrow> None
           | Some b \<Rightarrow>
               (case utf8_lead b of
                  None \<Rightarrow> None
                | Some (k, v, least) \<Rightarrow>
                    (case continuation k v (drop 3 (c # cs)) of
                       None \<Rightarrow> None
                     | Some p \<Rightarrow>
                         if valid_point least p
                         then map_option ((#) p) (decodeURIComponent (drop (2 + 3 * k) cs)) else None)))"
  by pat_completeness auto
termination by (relation "measure length") auto

section \<open>State\<close>

record copy_job =
  cj_id :: string
  cj_content :: string
  cj_label :: string

record access_page =
  ap_config :: "AccessConfig query"
  ap_linux :: "string query"
  ap_windows :: "string query"
  copiedId :: string
  ap_copying :: "copy_job list"
  ap_timers :: "string list"
  ap_page :: page
  ap_downloads :: "(string \<times> string \<times> string) list"
  ap_toasts :: "ToastInput list"

datatype anchor_effect = NoAnchor | AnchorError | ScrollTo "nat list"

definition accessReady :: "access_page \<Rightarrow> bool" where
  "accessReady s \<longleftrightarrow> q_data (ap_config s) \<noteq> None \<and> truthy_str (q_data (ap_linux s)) \<and> truthy_str (q_data (ap_windows s))"

text \<open>\<open>hash\<close> is \<^verbatim>\<open>window.location.hash\<close>, with its \<^verbatim>\<open>#\<close>; \<open>ids\<close> are the identifiers of the elements on the page.\<close>

definition anchor_on_ready :: "string \<Rightarrow> string list \<Rightarrow> access_page \<Rightarrow> anchor_effect" where
  "anchor_on_ready hash ids s =
     (if \<not> accessReady s then NoAnchor
      else case decodeURIComponent (drop 1 hash) of
             None \<Rightarrow> AnchorError
           | Some anchorId \<Rightarrow>
               if anchorId = [] then NoAnchor
               else if anchorId \<in> set (map (map of_char) ids) then ScrollTo anchorId else NoAnchor)"

section \<open>Copying and downloading\<close>

definition access_success_toast :: "translator \<Rightarrow> string \<Rightarrow> ToastInput" where
  "access_success_toast t label =
     \<lparr>toast_title = t ''Copied'' [], toast_description = Some label, toast_variant = Some VariantSuccess,
      toast_duration = None\<rparr>"

definition access_failure_toast :: "translator \<Rightarrow> string option \<Rightarrow> ToastInput" where
  "access_failure_toast t err =
     \<lparr>toast_title = t ''Operation failed'' [],
      toast_description = Some (t (toastErrorMessage err defaultErrorMessage) []),
      toast_variant = Some VariantDestructive, toast_duration = None\<rparr>"

text \<open>The start of \<open>copyContent\<close>, up to its \<^verbatim>\<open>await\<close>, and its continuation.\<close>

definition copySnippet :: "string \<Rightarrow> string \<Rightarrow> string \<Rightarrow> access_page \<Rightarrow> access_page" where
  "copySnippet i content label s =
     s\<lparr>ap_copying := ap_copying s @ [\<lparr>cj_id = i, cj_content = content, cj_label = label\<rparr>]\<rparr>"

definition access_copied ::
    "translator \<Rightarrow> clipboard_api \<Rightarrow> copy_command \<Rightarrow> copy_job \<Rightarrow> access_page \<Rightarrow> access_page" where
  "access_copied t api cmd job s =
     (let (result, p) = writeClipboard api cmd (cj_content job) (ap_page s);
          s' = s\<lparr>ap_page := p, ap_copying := remove1 job (ap_copying s)\<rparr>
      in case result of
           ClipboardOk \<Rightarrow>
             s'\<lparr>copiedId := cj_id job, ap_timers := ap_timers s @ [cj_id job],
                ap_toasts := ap_toasts s @ [access_success_toast t (cj_label job)]\<rparr>
         | ClipboardUnavailable \<Rightarrow>
             s'\<lparr>ap_toasts := ap_toasts s @ [access_failure_toast t (Some ''clipboard_unavailable'')]\<rparr>)"

text \<open>The timer of 1.8 seconds; timers fire in the order they were set.\<close>

definition copy_timer :: "access_page \<Rightarrow> access_page" where
  "copy_timer s =
     (case ap_timers s of
        [] \<Rightarrow> s
      | i # is \<Rightarrow> s\<lparr>ap_timers := is, copiedId := (if copiedId s = i then [] else copiedId s)\<rparr>)"

definition downloadText :: "string \<Rightarrow> string \<Rightarrow> string \<Rightarrow> access_page \<Rightarrow> access_page" where
  "downloadText content filename mime s = s\<lparr>ap_downloads := ap_downloads s @ [(filename, mime, content)]\<rparr>"

section \<open>What is rendered\<close>

datatype access_click =
    ClickCopy string string string
  | ClickDownload string string string
  | ClickUnavailable
  | ClickAccessRetry

fun language_text :: "CodeLanguage \<Rightarrow> string" where
  "language_text Bash = ''bash''"
| "language_text PowerShell = ''powershell''"

definition CodeSnippet ::
    "translator \<Rightarrow> string \<Rightarrow> string \<Rightarrow> CodeLanguage \<Rightarrow> string \<Rightarrow> string \<Rightarrow> string \<Rightarrow> (access_click, 'f) view" where
  "CodeSnippet t i filename language content copied label =
     Grp ''access-doc-codeblock''
       [Txt filename, Txt (language_text language),
        IconButton t (if copied = i then ''Copied'' else ''Copy'') False (ClickCopy i content label),
        Grp ''access-doc-code''
          (map (\<lambda>p. case p of Plain s \<Rightarrow> Txt s | Token cls s \<Rightarrow> Grp cls [Txt s]) (highlightCode content language))]"

definition SectionHeading :: "string \<Rightarrow> string \<Rightarrow> string \<Rightarrow> ('c, 'f) view" where
  "SectionHeading i title description = Grp i [Txt title, Txt description]"

definition PlatformCard :: "string \<Rightarrow> string \<Rightarrow> string \<Rightarrow> ('c, 'f) view list \<Rightarrow> ('c, 'f) view" where
  "PlatformCard i title description children = Grp i ([Txt title, Txt description] @ children)"

text \<open>A shortcut that can be downloaded is a link, one that is not yet there a button.\<close>

definition MacOSShortcutLink :: "translator \<Rightarrow> (string \<times> string) option \<Rightarrow> string \<Rightarrow> (access_click, 'f) view" where
  "MacOSShortcutLink t target title =
     (case target of
        None \<Rightarrow> Btn (title @ '' - '' @ t ''Feature in development'' []) False ClickUnavailable
      | Some (href, filename) \<Rightarrow> Href href (title @ '' - '' @ t ''Download'' []))"

definition ScriptDownloadLink :: "translator \<Rightarrow> string \<Rightarrow> string \<Rightarrow> 'c \<Rightarrow> ('c, 'f) view" where
  "ScriptDownloadLink t title subtitle onDownload =
     Grp ''access-doc-script-download-link'' [Btn (title @ '' - '' @ t ''Download'' []) False onDownload, Txt title, Txt subtitle]"

definition macOSShortcutDownloads :: "AccessEnvironment \<Rightarrow> string \<times> string" where
  "macOSShortcutDownloads env =
     (case env of
        EnvTest \<Rightarrow> (''/shortcuts/grouproxy-macos-test.shortcut'', ''grouproxy-macos-test.shortcut'')
      | EnvProduction \<Rightarrow> (''/shortcuts/grouproxy-macos-production.shortcut'', ''grouproxy-macos-production.shortcut''))"

definition environment_label :: "AccessEnvironment \<Rightarrow> string" where
  "environment_label env = (if env = EnvTest then ''Test environment'' else ''Production environment'')"

definition quick_section :: "translator \<Rightarrow> AccessConfig \<Rightarrow> string \<Rightarrow> (access_click, 'f) view list" where
  "quick_section t c copied =
     [SectionHeading ''access-quick-start'' (t ''Quick start'' [])
        (t ''Choose an operating system and use the shortest supported setup path.'' []),
      PlatformCard ''access-quick-linux'' (t ''Linux'' []) (t ''Set proxy variables for the current shell.'' [])
        [CodeSnippet t ''linux-quick'' ''proxy-env.sh'' Bash (linuxQuickCommand (Some c)) copied (t ''Linux'' []),
         Txt (t ''These variables apply to the current shell and its child processes.'' [])],
      PlatformCard ''access-quick-windows'' (t ''Windows'' []) (t ''Set the current user's Windows system proxy directly.'' [])
        [CodeSnippet t ''windows-quick'' ''set-proxy.ps1'' PowerShell (windowsQuickCommand (Some c)) copied (t ''Windows'' []),
         Txt (t ''Set ProxyEnable to 0 in the same location to turn the proxy off.'' [])],
      PlatformCard ''access-quick-macos'' (t ''macOS'' [])
        (t ''Download the shortcut, import it into the Shortcuts app, and run it.'' [])
        [MacOSShortcutLink t (Some (macOSShortcutDownloads (acfg_environment c))) (t ''Enable proxy script'' [])]]"

definition testing_section :: "translator \<Rightarrow> AccessConfig \<Rightarrow> string \<Rightarrow> (access_click, 'f) view list" where
  "testing_section t c copied =
     (let check = t ''Check the listener and verify traffic reaches the network through the proxy.'' []
      in [SectionHeading ''access-testing'' (t ''Testing and validation'' [])
            (t ''Confirm the listener and the actual HTTP CONNECT route.'' []),
          PlatformCard ''access-testing-linux'' (t ''Linux'' []) check
            [CodeSnippet t ''linux-validation'' ''grouproxy-check.sh'' Bash (linuxValidationCommand (Some c)) copied (t ''Linux'' [])],
          PlatformCard ''access-testing-windows'' (t ''Windows'' []) check
            [CodeSnippet t ''windows-validation'' ''grouproxy-check.ps1'' PowerShell (windowsValidationCommand (Some c)) copied
               (t ''Windows'' [])],
          PlatformCard ''access-testing-macos'' (t ''macOS'' []) (t ''This macOS shortcut is in development.'' [])
            [MacOSShortcutLink t None (t ''Test the actual proxy route'' [])]])"

definition script_section :: "translator \<Rightarrow> AccessConfig \<Rightarrow> string \<Rightarrow> string \<Rightarrow> (access_click, 'f) view list" where
  "script_section t c linuxScript windowsScript =
     (let toggles = t ''Toggle proxy settings for the current user without command-line parameters.'' []
      in [SectionHeading ''access-reusable-scripts'' (t ''Reusable scripts'' [])
            (t ''Download the script once, then run the same file whenever you need to switch the proxy on or off.'' []),
          PlatformCard ''access-reusable-linux'' (t ''Linux'' []) toggles
            [ScriptDownloadLink t (t ''grouproxy-linux-setup.sh'' []) (t ''Bash script'' [])
               (ClickDownload linuxScript ''grouproxy-linux-setup.sh'' ''text/x-shellscript'')],
          PlatformCard ''access-reusable-windows'' (t ''Windows'' []) toggles
            [ScriptDownloadLink t (t ''grouproxy-windows-setup.ps1'' []) (t ''PowerShell script'' [])
               (ClickDownload windowsScript ''grouproxy-windows-setup.ps1'' ''text/plain;charset=utf-8'')],
          PlatformCard ''access-reusable-macos'' (t ''macOS'' [])
            (t ''Download the shortcut, import it into the Shortcuts app, and run it.'' [])
            [MacOSShortcutLink t (Some (macOSShortcutDownloads (acfg_environment c))) (t ''Reusable setup script'' [])]])"

definition rail_groups :: "(string \<times> string \<times> string list) list" where
  "rail_groups =
     [(''access-quick-start'', ''Quick start'', [''access-quick-linux'', ''access-quick-windows'', ''access-quick-macos'']),
      (''access-testing'', ''Testing and validation'',
         [''access-testing-linux'', ''access-testing-windows'', ''access-testing-macos'']),
      (''access-reusable-scripts'', ''Reusable scripts'',
         [''access-reusable-linux'', ''access-reusable-windows'', ''access-reusable-macos''])]"

definition access_rail :: "translator \<Rightarrow> AccessConfig \<Rightarrow> ('c, 'f) view" where
  "access_rail t c =
     Grp (t ''On this page'' [])
       (concat (map (\<lambda>(i, title, children).
            Href (CHR ''#'' # i) (t title []) #
            map (\<lambda>(child, system). Href (CHR ''#'' # child) (t system []))
              (zip children [''Linux'', ''Windows'', ''macOS''])) rail_groups) @
        [Txt (t ''Environment'' []), Txt (t (environment_label (acfg_environment c)) []),
         Txt (acfg_fqdn c @ '':'' @ show_int (acfg_port c))])"

definition AccessPage :: "translator \<Rightarrow> (int \<Rightarrow> string) \<Rightarrow> access_page \<Rightarrow> (access_click, 'f) view" where
  "AccessPage t plain_number s =
     guarded t 7 (q_loading (ap_config s) \<or> q_loading (ap_linux s) \<or> q_loading (ap_windows s))
       (first_error [q_error (ap_config s), q_error (ap_linux s), q_error (ap_windows s)]) ClickAccessRetry
       (case (q_data (ap_config s), q_data (ap_linux s), q_data (ap_windows s)) of
          (Some c, Some linuxScript, Some windowsScript) \<Rightarrow>
            if linuxScript = [] \<or> windowsScript = [] then LoadingState t 7
            else Grp ''access-docs-page''
              ([PageHeader t (Some ''ACCESS GUIDE'') ''Proxy access''
                  (Some ''Connect your workstation, verify the route, and use reusable setup scripts from one place.'') [],
                StatusBadge t ''enabled'', Txt (t (environment_label (acfg_environment c)) []),
                Txt (access_endpoint (Some c)), Txt (t ''Port'' [] @ '' '' @ plain_number (acfg_port c))] @
               quick_section t c (copiedId s) @ testing_section t c (copiedId s) @
               script_section t c linuxScript windowsScript @ [access_rail t c])
        | _ \<Rightarrow> LoadingState t 7)"

section \<open>Events\<close>

definition access_on_click :: "translator \<Rightarrow> access_click \<Rightarrow> access_page \<Rightarrow> access_page" where
  "access_on_click t click s =
     (case click of
        ClickCopy i content label \<Rightarrow> copySnippet i content label s
      | ClickDownload content filename mime \<Rightarrow> downloadText content filename mime s
      | ClickUnavailable \<Rightarrow>
          s\<lparr>ap_toasts := ap_toasts s @
             [\<lparr>toast_title = t ''Feature in development'' [], toast_description = None, toast_variant = None,
               toast_duration = None\<rparr>]\<rparr>
      | ClickAccessRetry \<Rightarrow> s)"

datatype access_message =
    ConfigLoaded "AccessConfig query"
  | LinuxLoaded "string query"
  | WindowsLoaded "string query"
  | CopyEnds translator clipboard_api copy_command copy_job
  | CopyTimer

fun access_on_message :: "access_message \<Rightarrow> access_page \<Rightarrow> access_page" where
  "access_on_message (ConfigLoaded q) s = s\<lparr>ap_config := q\<rparr>"
| "access_on_message (LinuxLoaded q) s = s\<lparr>ap_linux := q\<rparr>"
| "access_on_message (WindowsLoaded q) s = s\<lparr>ap_windows := q\<rparr>"
| "access_on_message (CopyEnds t api cmd job) s = (if job \<in> set (ap_copying s) then access_copied t api cmd job s else s)"
| "access_on_message CopyTimer s = copy_timer s"

definition access_start :: "access_page \<Rightarrow> bool" where
  "access_start s \<longleftrightarrow> copiedId s = [] \<and> ap_copying s = [] \<and> ap_timers s = [] \<and> ap_downloads s = [] \<and> ap_toasts s = []"

section \<open>Lemmas\<close>

definition snippets :: "AccessConfig \<Rightarrow> (string \<times> string) list" where
  "snippets c =
     [(''linux-quick'', linuxQuickCommand (Some c)), (''windows-quick'', windowsQuickCommand (Some c)),
      (''linux-validation'', linuxValidationCommand (Some c)), (''windows-validation'', windowsValidationCommand (Some c))]"

lemma can_click_part [simp]: "can_click (case p of Plain s \<Rightarrow> Txt s | Token cls s \<Rightarrow> Grp cls [Txt s]) x \<longleftrightarrow> False"
  by (cases p) simp_all

lemma can_click_access_parts [simp]:
  "can_click (CodeSnippet t i filename language content copied label) x \<longleftrightarrow> x = ClickCopy i content label"
  "can_click (SectionHeading i title description) x \<longleftrightarrow> False"
  "can_click (PlatformCard i title description children) x \<longleftrightarrow> list_ex (\<lambda>v. can_click v x) children"
  "can_click (MacOSShortcutLink t target title) x \<longleftrightarrow> target = None \<and> x = ClickUnavailable"
  "can_click (ScriptDownloadLink t title subtitle y) z \<longleftrightarrow> z = y"
  "can_click (access_rail t c) w \<longleftrightarrow> False"
  by (auto simp: CodeSnippet_def SectionHeading_def PlatformCard_def MacOSShortcutLink_def ScriptDownloadLink_def
      access_rail_def list_ex_iff split: option.splits)

lemma can_click_access:
  assumes "can_click (AccessPage t pn s) x"
  shows "x = ClickUnavailable \<or> x = ClickAccessRetry \<or>
     (\<exists>c i content label. q_data (ap_config s) = Some c \<and> x = ClickCopy i content label \<and> (i, content) \<in> set (snippets c)) \<or>
     (\<exists>content name mime. x = ClickDownload content name mime \<and> content \<noteq> [] \<and>
        (name, q_data (ap_linux s)) = (''grouproxy-linux-setup.sh'', Some content) \<or>
        x = ClickDownload content name mime \<and> content \<noteq> [] \<and>
        (name, q_data (ap_windows s)) = (''grouproxy-windows-setup.ps1'', Some content))"
  using assms
  by (auto simp: AccessPage_def quick_section_def testing_section_def script_section_def snippets_def Let_def
      split: option.splits if_splits)

text \<open>The mark is backed by a timer, and what is marked is what the clipboard holds.\<close>

definition access_inv :: "access_page \<Rightarrow> bool" where
  "access_inv s \<longleftrightarrow>
     (\<forall>job \<in> set (ap_copying s). \<exists>c. (cj_id job, cj_content job) \<in> set (snippets c)) \<and>
     (copiedId s \<noteq> [] \<longrightarrow>
        copiedId s \<in> set (ap_timers s) \<and> (\<exists>c. (copiedId s, clipboard_text (ap_page s)) \<in> set (snippets c)))"

lemma access_copied_simps:
  "copiedId (access_copied t api cmd job s) =
     (if fst (writeClipboard api cmd (cj_content job) (ap_page s)) = ClipboardOk then cj_id job else copiedId s)"
  "ap_timers (access_copied t api cmd job s) = ap_timers s @
     (if fst (writeClipboard api cmd (cj_content job) (ap_page s)) = ClipboardOk then [cj_id job] else [])"
  "clipboard_text (ap_page (access_copied t api cmd job s)) =
     (if fst (writeClipboard api cmd (cj_content job) (ap_page s)) = ClipboardOk then cj_content job else clipboard_text (ap_page s))"
  "ap_copying (access_copied t api cmd job s) = remove1 job (ap_copying s)"
  using writeClipboard_text [of api cmd "cj_content job" "ap_page s"]
  by (simp_all add: access_copied_def Let_def split_beta split: clipboard_result.splits)

lemma access_inv_copied:
  "access_inv s \<Longrightarrow> job \<in> set (ap_copying s) \<Longrightarrow> access_inv (access_copied t api cmd job s)"
  by (auto simp: access_inv_def access_copied_simps dest: notin_set_remove1)

lemma access_inv_timer: "access_inv s \<Longrightarrow> access_inv (copy_timer s)"
  by (auto simp: access_inv_def copy_timer_def split: list.splits)

lemma access_inv_message: "access_inv s \<Longrightarrow> access_inv (access_on_message m s)"
  by (cases m) (auto simp: access_inv_copied access_inv_timer, auto simp: access_inv_def)

lemma access_inv_click:
  "access_inv s \<Longrightarrow> can_click (AccessPage t pn s) x \<Longrightarrow> access_inv (access_on_click t' x s)"
  by (auto simp: access_inv_def access_on_click_def copySnippet_def downloadText_def dest!: can_click_access; blast)

interpretation ac: component access_start "\<lambda>(t, pn). AccessPage t pn :: access_page \<Rightarrow> (access_click, unit) view"
    "access_on_click t" "\<lambda>_ _ s. s" access_on_message access_inv
  for t
  by unfold_locales (auto simp: access_inv_click access_inv_message, auto simp: access_start_def access_inv_def)

lemma timers_fire: "length (ap_timers ((copy_timer ^^ k) s)) = length (ap_timers s) - k"
  by (induction k) (auto simp: copy_timer_def split: list.splits)

section \<open>Properties\<close>

text \<open>A snippet is marked as copied only while the clipboard holds a command of that snippet and a
  timer will take the mark back; once the timers have fired no mark is left.  Only the four commands
  of the reported configuration can be copied, and only a script that was really loaded can be
  downloaded, under its own name.\<close>

theorem access_copy_faithful:
  assumes "ac.reachable t s"
  shows "(copiedId s \<noteq> [] \<longrightarrow> copiedId s \<in> set (ap_timers s) \<and>
        (\<exists>c. (copiedId s, clipboard_text (ap_page s)) \<in> set (snippets c))) \<and>
     copiedId ((copy_timer ^^ length (ap_timers s)) s) = [] \<and>
     (can_click (AccessPage t pn s) (ClickCopy i content label) \<longrightarrow>
        (\<exists>c. q_data (ap_config s) = Some c \<and> (i, content) \<in> set (snippets c))) \<and>
     (can_click (AccessPage t pn s) (ClickDownload content name mime) \<longrightarrow>
        content \<noteq> [] \<and>
        (name = ''grouproxy-linux-setup.sh'' \<and> q_data (ap_linux s) = Some content \<or>
         name = ''grouproxy-windows-setup.ps1'' \<and> q_data (ap_windows s) = Some content))"
proof (intro conjI impI)
  have inv: "access_inv s" by (rule ac.reachable_inv [OF assms])
  then show "copiedId s \<in> set (ap_timers s)" "\<exists>c. (copiedId s, clipboard_text (ap_page s)) \<in> set (snippets c)"
    if "copiedId s \<noteq> []" using that by (auto simp: access_inv_def)
  have "access_inv ((copy_timer ^^ k) s)" for k
    by (induction k) (auto simp: inv access_inv_timer)
  moreover have "ap_timers ((copy_timer ^^ length (ap_timers s)) s) = []"
    using timers_fire [of "length (ap_timers s)" s] by simp
  ultimately show "copiedId ((copy_timer ^^ length (ap_timers s)) s) = []"
    by (metis access_inv_def empty_iff empty_set)
qed (auto dest: can_click_access)

definition demo_config :: AccessConfig where
  "demo_config = \<lparr>acfg_environment = EnvTest, acfg_fqdn = ''proxy.test'', acfg_port = 3128, acfg_protocol = ''http'',
     acfg_macos_shortcut_url = []\<rparr>"

definition demo_access :: access_page where
  "demo_access = \<lparr>ap_config = loaded demo_config, ap_linux = loaded ''echo'', ap_windows = loaded ''exit'',
     copiedId = [], ap_copying = [], ap_timers = [],
     ap_page = \<lparr>has_body = True, body_nodes = [], focused = None, clipboard_text = []\<rparr>, ap_downloads = [], ap_toasts = []\<rparr>"

definition demo_copied :: access_page where
  "demo_copied =
     (let job = \<lparr>cj_id = ''linux-quick'', cj_content = linuxQuickCommand (Some demo_config), cj_label = ''Linux''\<rparr>
      in access_on_message (CopyEnds plain ApiAccepts CopyDone job)
           (access_on_click plain (ClickCopy ''linux-quick'' (linuxQuickCommand (Some demo_config)) ''Linux'') demo_access))"

lemma demo_copied_reachable: "ac.reachable plain demo_copied"
proof -
  have "ac.reachable plain demo_access"
    by (rule ac.reach_start) (simp add: access_start_def demo_access_def)
  moreover have "can_click ((\<lambda>(t, pn). AccessPage t pn) (plain, show_int) demo_access)
      (ClickCopy ''linux-quick'' (linuxQuickCommand (Some demo_config)) ''Linux'')"
    by (simp add: AccessPage_def demo_access_def loaded_def first_error_def quick_section_def)
  ultimately show ?thesis
    unfolding demo_copied_def Let_def by (intro ac.reach_message ac.reach_click)
qed

theorem access_copy_faithful_witness:
  "copiedId demo_copied = ''linux-quick'' \<and> copiedId demo_copied \<in> set (ap_timers demo_copied) \<and>
   copiedId ((copy_timer ^^ length (ap_timers demo_copied)) demo_copied) = []"
proof -
  have "copiedId demo_copied = ''linux-quick''"
    by (simp add: demo_copied_def Let_def access_on_click_def copySnippet_def demo_access_def access_copied_simps writeClipboard_def)
  then show ?thesis
    using access_copy_faithful [OF demo_copied_reachable, THEN conjunct1]
      access_copy_faithful [OF demo_copied_reachable, THEN conjunct2, THEN conjunct1] by simp
qed

text \<open>The links of the rail lead to headings of the page; an address with a broken escape in its
  fragment makes the effect throw.\<close>

lemma rail_links_scroll:
  "accessReady s \<Longrightarrow> i \<in> set (concat (map (\<lambda>(i, _, children). i # children) rail_groups)) \<Longrightarrow> i \<in> set ids \<Longrightarrow>
     anchor_on_ready (CHR ''#'' # i) ids s = ScrollTo (map of_char i)"
proof -
  assume "accessReady s" and i: "i \<in> set (concat (map (\<lambda>(i, _, children). i # children) rail_groups))" and "i \<in> set ids"
  moreover have "decodeURIComponent i = Some (map of_char i)" if "CHR ''%'' \<notin> set i" for i
    using that by (induction i) auto
  moreover have "CHR ''%'' \<notin> set i" "i \<noteq> []" using i by (auto simp: rail_groups_def)
  ultimately show ?thesis by (simp add: anchor_on_ready_def)
qed

lemma malformed_anchor_throws: "accessReady s \<Longrightarrow> anchor_on_ready ''#%'' ids s = AnchorError"
  by (simp add: anchor_on_ready_def octet_def)

end
