(* ===== verification/Settings_Page.thy ===== *)
theory Settings_Page
  imports Page_Kit Endpoints
begin

text \<open>
  System settings: \<^verbatim>\<open>src/frontend/app/settings/page.tsx\<close>.  \<open>protocol_of\<close> stands for \<^verbatim>\<open>new URL(text).protocol\<close>
  of the web platform (\<open>None\<close> where the constructor throws).  A mutation also notifies through the
  mutation cache of \<^verbatim>\<open>providers.tsx\<close>, before its own callbacks run.
\<close>

definition DEFAULT_GREEN_MAX_MS :: int where "DEFAULT_GREEN_MAX_MS = 100"
definition DEFAULT_YELLOW_MAX_MS :: int where "DEFAULT_YELLOW_MAX_MS = 200"
definition MAX_LATENCY_BOUNDARY_MS :: int where "MAX_LATENCY_BOUNDARY_MS = 300000"
definition DEFAULT_PROBE_URL :: string where "DEFAULT_PROBE_URL = ''https://example.com/''"

text \<open>\<^verbatim>\<open>Number(value)\<close> ignores the white space around the digits that the pattern has allowed.\<close>

definition parseBoundary :: "string \<Rightarrow> int option" where
  "parseBoundary v =
     (let ds = trim v
      in if ds = [] \<or> \<not> list_all is_digit ds then None
         else (let parsed = int (read_nat ds)
               in if parsed \<le> 2 ^ 53 - 1 \<and> parsed \<le> MAX_LATENCY_BOUNDARY_MS then Some parsed else None))"

section \<open>State\<close>

record settings_page =
  greenMax :: string
  yellowMax :: string
  defaultProbeURL :: string
  formError :: string
  st_settings :: "SystemSettings query"
  st_update :: "(api_call, unit) mutation"
  st_toasts :: "ToastInput list"

definition quality_deps :: "SystemSettings query \<Rightarrow> (int \<times> int) option" where
  "quality_deps q =
     map_option (\<lambda>d. (sqd_green_max_ms (ss_service_quality d), sqd_yellow_max_ms (ss_service_quality d))) (q_data q)"

definition boundaries_effect :: "SystemSettings query \<Rightarrow> settings_page \<Rightarrow> settings_page" where
  "boundaries_effect previous s =
     (if quality_deps previous = quality_deps (st_settings s) then s
      else case q_data (st_settings s) of
             None \<Rightarrow> s
           | Some d \<Rightarrow> s\<lparr>greenMax := show_int (sqd_green_max_ms (ss_service_quality d)),
                         yellowMax := show_int (sqd_yellow_max_ms (ss_service_quality d))\<rparr>)"

definition url_effect :: "SystemSettings query \<Rightarrow> settings_page \<Rightarrow> settings_page" where
  "url_effect previous s =
     (if map_option ss_default_probe_url (q_data previous) = map_option ss_default_probe_url (q_data (st_settings s)) then s
      else case q_data (st_settings s) of
             None \<Rightarrow> s
           | Some d \<Rightarrow> if ss_default_probe_url d \<noteq> [] then s\<lparr>defaultProbeURL := ss_default_probe_url d\<rparr> else s)"

definition settings_loaded :: "SystemSettings query \<Rightarrow> settings_page \<Rightarrow> settings_page" where
  "settings_loaded q s = (let previous = st_settings s in url_effect previous (boundaries_effect previous (s\<lparr>st_settings := q\<rparr>)))"

definition settings_init :: "SystemSettings query \<Rightarrow> settings_page" where
  "settings_init q =
     settings_loaded q
       \<lparr>greenMax = show_int DEFAULT_GREEN_MAX_MS, yellowMax = show_int DEFAULT_YELLOW_MAX_MS,
        defaultProbeURL = DEFAULT_PROBE_URL, formError = [], st_settings = empty_query, st_update = MutIdle, st_toasts = []\<rparr>"

section \<open>Saving\<close>

definition settings_call :: "settings_page \<Rightarrow> api_call" where
  "settings_call s =
     updateSystemSettings
       \<lparr>sqd_green_max_ms = the (parseBoundary (greenMax s)), sqd_yellow_max_ms = the (parseBoundary (yellowMax s))\<rparr>
       (trim (defaultProbeURL s))"

definition settings_submit :: "(string \<Rightarrow> string option) \<Rightarrow> settings_page \<Rightarrow> settings_page" where
  "settings_submit protocol_of s =
     (case (parseBoundary (greenMax s), parseBoundary (yellowMax s)) of
        (Some green, Some yellow) \<Rightarrow>
          if yellow \<le> green then s\<lparr>formError := ''The yellow boundary must be greater than the green boundary.''\<rparr>
          else (case protocol_of (trim (defaultProbeURL s)) of
                  Some p \<Rightarrow>
                    if p = ''http:'' \<or> p = ''https:''
                    then s\<lparr>formError := [], st_update := MutPending (settings_call s)\<rparr>
                    else s\<lparr>formError := ''Enter a valid HTTP or HTTPS probe URL.''\<rparr>
                | None \<Rightarrow> s\<lparr>formError := ''Enter a valid HTTP or HTTPS probe URL.''\<rparr>)
      | _ \<Rightarrow> s\<lparr>formError := ''Enter a whole number from 0 to 300000 ms.''\<rparr>)"

abbreviation plain_toast :: "string \<Rightarrow> string option \<Rightarrow> ToastVariant \<Rightarrow> ToastInput" where
  "plain_toast title description variant \<equiv>
     \<lparr>toast_title = title, toast_description = description, toast_variant = Some variant, toast_duration = None\<rparr>"

text \<open>The answer: the form takes the values of the response; both the mutation cache and the page
  notify.\<close>

definition settings_saved :: "translator \<Rightarrow> string + SystemSettings \<Rightarrow> settings_page \<Rightarrow> settings_page" where
  "settings_saved t result s =
     (if \<not> mut_pending (st_update s) then s
      else (let s' = s\<lparr>st_update := mut_settle (\<lambda>_ _. ()) result (st_update s)\<rparr>
            in case result of
                 Inr next \<Rightarrow>
                   s'\<lparr>greenMax := show_int (sqd_green_max_ms (ss_service_quality next)),
                      yellowMax := show_int (sqd_yellow_max_ms (ss_service_quality next)),
                      defaultProbeURL := ss_default_probe_url next, formError := [],
                      st_toasts := st_toasts s @
                        [plain_toast (t ''Operation completed'' []) None VariantSuccess,
                         plain_toast (t ''System settings saved.'' []) None VariantSuccess]\<rparr>
               | Inl err \<Rightarrow>
                   s'\<lparr>st_toasts := st_toasts s @
                        [plain_toast (t ''Operation failed'' []) (Some (t (toastErrorMessage (Some err) defaultErrorMessage) []))
                           VariantDestructive,
                         plain_toast (t ''Unable to save system settings.'' [])
                           (Some (t (toastErrorMessage (Some err) defaultErrorMessage) [])) VariantDestructive]\<rparr>))"

section \<open>What is rendered\<close>

datatype settings_click = ClickSaveSettings | ClickSettingsRetry

datatype settings_field = FieldGreen | FieldYellow | FieldProbeUrl

definition settings_preview :: "translator \<Rightarrow> formats \<Rightarrow> settings_page \<Rightarrow> ('c, 'f) view" where
  "settings_preview t fm s =
     (let green = (case parseBoundary (greenMax s) of None \<Rightarrow> DEFAULT_GREEN_MAX_MS | Some n \<Rightarrow> n);
          yellow = (case parseBoundary (yellowMax s) of None \<Rightarrow> DEFAULT_YELLOW_MAX_MS | Some n \<Rightarrow> n)
      in Grp ''settings-quality-preview''
        [Txt (t ''Current classification'' []),
         Txt (t ''Green: <= {value} ms'' [(''value'', fm_number fm (Some green))]),
         Txt (t ''Yellow: {from}-{to} ms'' [(''from'', fm_number fm (Some (green + 1))), (''to'', fm_number fm (Some yellow))]),
         Txt (t ''Red: > {value} ms or unavailable'' [(''value'', fm_number fm (Some yellow))])])"

definition SettingsPage ::
    "translator \<Rightarrow> formats \<Rightarrow> bool option \<Rightarrow> bool option \<Rightarrow> settings_page \<Rightarrow> (settings_click, settings_field) view" where
  "SettingsPage t fm authenticated management s =
     (case (authenticated, management) of
        (Some signed, Some admin) \<Rightarrow>
          if \<not> signed then SessionGate t
          else if \<not> admin then ManagementAdminGate t
          else guarded t 7 (q_loading (st_settings s)) (q_error (st_settings s)) ClickSettingsRetry
            (Grp ''settings-page''
              ([PageHeader t (Some ''GOVERN'') ''Settings'' (Some ''Manage global control-plane behavior.'') [],
                Txt (t ''SYSTEM SETTINGS'' []), Txt (t ''Service quality definition'' []),
                Txt (t ''Define the latency boundaries used to classify service quality statistics.'' []),
                Inp (t ''Green boundary'' []) (greenMax s) False FieldGreen,
                Txt (t ''Values at or below this boundary are green.'' []),
                Inp (t ''Yellow boundary'' []) (yellowMax s) False FieldYellow,
                Txt (t ''Values above green and at or below this boundary are yellow.'' []),
                Inp (t ''Default probe URL'' []) (defaultProbeURL s) False FieldProbeUrl,
                Txt (t ''Prefilled on the outbound probes page; you can change it for each probe.'' []),
                settings_preview t fm s] @
               show_if (formError s \<noteq> []) [Txt (t (formError s) [])] @
               [Btn (if mut_pending (st_update s) then t ''Saving...'' [] else t ''Save settings'' [])
                  (mut_pending (st_update s)) ClickSaveSettings]))
      | _ \<Rightarrow> LoadingState t 7)"

section \<open>Events\<close>

definition settings_on_click :: "(string \<Rightarrow> string option) \<Rightarrow> settings_click \<Rightarrow> settings_page \<Rightarrow> settings_page" where
  "settings_on_click protocol_of c s =
     (case c of ClickSaveSettings \<Rightarrow> settings_submit protocol_of s | ClickSettingsRetry \<Rightarrow> s)"

fun settings_on_edit :: "settings_field \<Rightarrow> string \<Rightarrow> settings_page \<Rightarrow> settings_page" where
  "settings_on_edit FieldGreen v s = s\<lparr>greenMax := v, formError := []\<rparr>"
| "settings_on_edit FieldYellow v s = s\<lparr>yellowMax := v, formError := []\<rparr>"
| "settings_on_edit FieldProbeUrl v s = s\<lparr>defaultProbeURL := v, formError := []\<rparr>"

datatype settings_message = SettingsLoaded "SystemSettings query" | SettingsSaved translator "string + SystemSettings"

fun settings_on_message :: "settings_message \<Rightarrow> settings_page \<Rightarrow> settings_page" where
  "settings_on_message (SettingsLoaded q) s = settings_loaded q s"
| "settings_on_message (SettingsSaved t r) s = settings_saved t r s"

section \<open>Lemmas\<close>

lemma parseBoundary_bounds: "parseBoundary v = Some n \<Longrightarrow> 0 \<le> n \<and> n \<le> 300000"
  by (auto simp: parseBoundary_def MAX_LATENCY_BOUNDARY_MS_def Let_def split: if_splits)

text \<open>A boundary that the server sends is read back from the form.\<close>

lemma parseBoundary_show: "0 \<le> n \<Longrightarrow> n \<le> 300000 \<Longrightarrow> parseBoundary (show_int n) = Some n"
proof -
  assume n: "0 \<le> n" "n \<le> 300000"
  then have show_n: "show_int n = show_nat (nat n)" by (simp add: show_int_def)
  have ds: "list_all is_digit (show_nat (nat n))" by (simp add: list_all_iff show_nat_digits)
  have ws: "\<not> is_ws c" if "is_digit c" for c using that by (auto simp: is_digit_def is_ws_def)
  have "trim (show_nat (nat n)) = show_nat (nat n)"
    using ds ws hd_in_set [of "show_nat (nat n)"] last_in_set [of "show_nat (nat n)"]
    by (intro trim_id disjI2) (auto simp: list_all_iff)
  with n ds show ?thesis by (simp add: parseBoundary_def show_n MAX_LATENCY_BOUNDARY_MS_def)
qed

definition valid_save :: "(string \<Rightarrow> string option) \<Rightarrow> api_call \<Rightarrow> bool" where
  "valid_save protocol_of c \<longleftrightarrow>
     (\<exists>g y u. c = updateSystemSettings \<lparr>sqd_green_max_ms = g, sqd_yellow_max_ms = y\<rparr> u \<and>
        0 \<le> g \<and> g < y \<and> y \<le> 300000 \<and> trim u = u \<and> (protocol_of u = Some ''http:'' \<or> protocol_of u = Some ''https:''))"

definition settings_inv :: "(string \<Rightarrow> string option) \<Rightarrow> settings_page \<Rightarrow> bool" where
  "settings_inv protocol_of s \<longleftrightarrow>
     (\<forall>c. st_update s = MutPending c \<longrightarrow> valid_save protocol_of c)"

lemma valid_saveI:
  "parseBoundary a = Some g \<Longrightarrow> parseBoundary b = Some y \<Longrightarrow> g < y \<Longrightarrow>
   protocol_of (trim v) = Some ''http:'' \<or> protocol_of (trim v) = Some ''https:'' \<Longrightarrow>
     valid_save protocol_of (updateSystemSettings \<lparr>sqd_green_max_ms = g, sqd_yellow_max_ms = y\<rparr> (trim v))"
  unfolding valid_save_def using parseBoundary_bounds [of a g] parseBoundary_bounds [of b y]
  by (intro exI [of _ g] exI [of _ y] exI [of _ "trim v"]) simp

lemma settings_submit_cases:
  "settings_submit protocol_of s = s\<lparr>formError := [], st_update := MutPending (settings_call s)\<rparr> \<and>
     valid_save protocol_of (settings_call s) \<or>
   (\<exists>e. e \<noteq> [] \<and> settings_submit protocol_of s = s\<lparr>formError := e\<rparr>)"
  by (auto simp: settings_submit_def settings_call_def not_le intro!: valid_saveI split: option.splits)

lemma settings_effects_frame [simp]:
  "st_update (settings_loaded q s) = st_update s" "st_toasts (settings_loaded q s) = st_toasts s"
  by (auto simp: settings_loaded_def url_effect_def boundaries_effect_def Let_def split: option.splits)

lemma settings_inv_click: "settings_inv p s \<Longrightarrow> settings_inv p (settings_on_click p c s)"
  using settings_submit_cases [of p s] by (cases c) (auto simp: settings_on_click_def settings_inv_def)

lemma settings_inv_edit: "settings_inv p s \<Longrightarrow> settings_inv p (settings_on_edit f v s)"
  by (cases f) (auto simp: settings_inv_def)

lemma settings_inv_message: "settings_inv p s \<Longrightarrow> settings_inv p (settings_on_message m s)"
  by (cases m)
     (auto simp: settings_inv_def settings_saved_def Let_def mut_settle_def split: sum.splits mutation.splits)

interpretation st: component "\<lambda>s. \<exists>q. s = settings_init q"
    "\<lambda>(t, fm, authenticated, management). SettingsPage t fm authenticated management"
    "settings_on_click p" settings_on_edit settings_on_message "settings_inv p"
  for p
  by unfold_locales
     (auto simp: settings_inv_click settings_inv_edit settings_inv_message, auto simp: settings_inv_def settings_init_def)

section \<open>Properties\<close>

text \<open>C21: only valid settings are saved: in every reachable state a save that is on its way names
  boundaries with 0 <= green < yellow <= 300000 and a trimmed HTTP or HTTPS address; nothing is sent
  by a click unless both hold, in which case the operator sees a message instead; no second save
  starts while one is on its way; and boundaries that the server sent are accepted again unchanged.\<close>

theorem settings_saved_valid:
  assumes "st.reachable p s"
  shows "(st_update s = MutPending c \<longrightarrow> valid_save p c) \<and>
     (mut_pending (st_update s) \<longrightarrow> \<not> can_click (SettingsPage t fm a m s) ClickSaveSettings) \<and>
     (let s' = settings_on_click p ClickSaveSettings s in
        st_update s' \<noteq> st_update s \<longrightarrow> formError s' = [] \<and> (\<exists>c. st_update s' = MutPending c \<and> valid_save p c)) \<and>
     (formError (settings_on_click p ClickSaveSettings s) = [] \<longrightarrow>
        mut_pending (st_update (settings_on_click p ClickSaveSettings s))) \<and>
     (0 \<le> n \<and> n \<le> 300000 \<longrightarrow> parseBoundary (show_int n) = Some n)"
proof (intro conjI impI)
  have "settings_inv p s" by (rule st.reachable_inv [OF assms])
  then show "valid_save p c" if "st_update s = MutPending c" using that by (simp add: settings_inv_def)
  show "\<not> can_click (SettingsPage t fm a m s) ClickSaveSettings" if "mut_pending (st_update s)"
    using that by (auto simp: SettingsPage_def settings_preview_def Let_def split: option.splits if_splits)
  show "let s' = settings_on_click p ClickSaveSettings s in
      st_update s' \<noteq> st_update s \<longrightarrow> formError s' = [] \<and> (\<exists>c. st_update s' = MutPending c \<and> valid_save p c)"
    using settings_submit_cases [of p s] by (auto simp: settings_on_click_def Let_def)
  show "mut_pending (st_update (settings_on_click p ClickSaveSettings s))"
    if "formError (settings_on_click p ClickSaveSettings s) = []"
    using that settings_submit_cases [of p s] by (auto simp: settings_on_click_def)
  show "parseBoundary (show_int n) = Some n" if "0 \<le> n \<and> n \<le> 300000"
    using that parseBoundary_show by blast
qed

definition demo_protocol :: "string \<Rightarrow> string option" where
  "demo_protocol u = (if starts_with ''https://'' u then Some ''https:'' else None)"

theorem settings_saved_valid_witness:
  "(\<exists>c. st_update (settings_on_click demo_protocol ClickSaveSettings (settings_init empty_query)) = MutPending c \<and>
      valid_save demo_protocol c)"
proof -
  let ?s = "settings_init empty_query"
  have reach: "st.reachable demo_protocol ?s" by (rule st.reach_start) blast
  have "st_update (settings_on_click demo_protocol ClickSaveSettings ?s) \<noteq> st_update ?s"
    using parseBoundary_show [of 100] parseBoundary_show [of 200]
    by (simp add: settings_on_click_def settings_submit_def settings_init_def settings_loaded_def boundaries_effect_def
        url_effect_def quality_deps_def empty_query_def DEFAULT_GREEN_MAX_MS_def DEFAULT_YELLOW_MAX_MS_def
        DEFAULT_PROBE_URL_def demo_protocol_def trim_def is_ws_def)
  then show ?thesis using settings_saved_valid [OF reach] by (auto simp: Let_def)
qed

text \<open>Every save is announced twice, once by the mutation cache and once by the page.\<close>

lemma settings_save_announced_twice:
  "mut_pending (st_update s) \<Longrightarrow> length (st_toasts (settings_saved t r s)) = length (st_toasts s) + 2"
  by (auto simp: settings_saved_def Let_def split: sum.splits)

end
