(* ===== verification/Alerts_Page.thy ===== *)
theory Alerts_Page
  imports Page_Kit Endpoints
begin

text \<open>
  Alerts: \<^verbatim>\<open>src/frontend/app/alerts/page.tsx\<close>.  The text of an alert is composed by the control plane in
  English; the page translates it as a whole, as a deny spike with its numbers, or by its reason.
\<close>

section \<open>The detail of an alert\<close>

definition digits_then :: "string \<Rightarrow> string \<Rightarrow> (string \<times> string) option" where
  "digits_then literal s =
     (let ds = takeWhile is_digit s; rest = dropWhile is_digit s
      in if ds \<noteq> [] \<and> starts_with literal rest then Some (ds, drop (length literal) rest) else None)"

text \<open>The part of the pattern behind its first group.\<close>

definition match_spike_tail :: "string \<Rightarrow> (string \<times> string \<times> string) option" where
  "match_spike_tail s =
     (if \<not> starts_with '': '' s then None
      else case digits_then '' denies in the last '' (drop 2 s) of
             None \<Rightarrow> None
           | Some (recent, s1) \<Rightarrow>
               (case digits_then ''s (baseline '' s1 of
                  None \<Rightarrow> None
                | Some (window, s2) \<Rightarrow>
                    (case digits_then '')'' s2 of
                       Some (baseline, s3) \<Rightarrow> if s3 = [] then Some (recent, window, baseline) else None
                     | None \<Rightarrow> None)))"

text \<open>\<^verbatim>\<open>^(.*): (\d+) denies in the last (\d+)s \(baseline (\d+)\)$\<close>: the first group is greedy, so the longest
  one that lets the rest match is taken; the dot does not match line ends.\<close>

definition match_deny_spike :: "string \<Rightarrow> (string \<times> string \<times> string \<times> string) option" where
  "match_deny_spike detail =
     (case find_first (\<lambda>k. list_all (\<lambda>c. c \<noteq> CHR 0x0A \<and> c \<noteq> CHR 0x0D) (take k detail) \<and>
              match_spike_tail (drop k detail) \<noteq> None) (rev [0..<Suc (length detail)]) of
        None \<Rightarrow> None
      | Some k \<Rightarrow> map_option (\<lambda>(recent, window, baseline). (take k detail, recent, window, baseline))
                   (match_spike_tail (drop k detail)))"

text \<open>\<^verbatim>\<open>lastIndexOf\<close>, \<open>None\<close> for -1.\<close>

definition lastIndexOf :: "string \<Rightarrow> string \<Rightarrow> nat option" where
  "lastIndexOf p s = find_first (\<lambda>k. starts_with p (drop k s)) (rev [0..<Suc (length s)])"

definition spike_template :: string where
  "spike_template = ''{site}: {recent} denies in the last {window}s (baseline {baseline})''"

definition translateAlertDetail :: "string \<Rightarrow> translator \<Rightarrow> string" where
  "translateAlertDetail detail t =
     (let direct = t detail []
      in if direct \<noteq> detail then direct
         else case match_deny_spike detail of
                Some (site, recent, window, baseline) \<Rightarrow>
                  t spike_template [(''site'', site), (''recent'', recent), (''window'', window), (''baseline'', baseline)]
              | None \<Rightarrow>
                  (case lastIndexOf '': '' detail of
                     None \<Rightarrow> detail
                   | Some separator \<Rightarrow>
                       (let reason = drop (separator + 2) detail; translatedReason = t reason []
                        in if translatedReason = reason then detail else take (separator + 2) detail @ translatedReason)))"

section \<open>The page\<close>

record alerts_page = al_status :: "AlertStatus option"

definition alerts_init :: alerts_page where "alerts_init = \<lparr>al_status = Some AlertOpen\<rparr>"

definition alerts_key :: "alerts_page \<Rightarrow> json" where
  "alerts_key s = JArr [JStr ''alerts'', JStr (case al_status s of None \<Rightarrow> [] | Some st \<Rightarrow> alert_status_text st)]"

definition alerts_request :: "alerts_page \<Rightarrow> api_call" where
  "alerts_request s = getAlerts (al_status s)"

datatype alerts_click = ClickAlertStatus "AlertStatus option" | ClickAlertsRefresh | ClickAlertsRetry

definition AlertRow :: "translator \<Rightarrow> formats \<Rightarrow> string \<Rightarrow> string \<Rightarrow> Alert \<Rightarrow> ('c, 'f) view" where
  "AlertRow t fm nodeName siteName alert =
     Grp (alert_id alert)
       [Txt (t (alert_title alert) []), Txt (or_str (translateAlertDetail (alert_detail alert) t) ''-''),
        StatusBadge t (alert_severity alert), StatusBadge t (alert_status alert),
        Txt (if siteName \<noteq> [] then t siteName [] else ''-''), Txt (or_str nodeName ''-''),
        Txt (fm_date fm (Some (alert_first_seen_at alert))), Txt (fm_date fm (Some (alert_last_seen_at alert)))]"

definition AlertsPage ::
    "translator \<Rightarrow> formats \<Rightarrow> bool option \<Rightarrow> Alert list query \<Rightarrow> Site list query \<Rightarrow> Node list query \<Rightarrow> refresh_button
       \<Rightarrow> alerts_page \<Rightarrow> (alerts_click, 'f) view" where
  "AlertsPage t fm session alerts sites nodes rb s =
     gated t 7 session
      (guarded t 7 (q_loading alerts \<or> q_loading sites \<or> q_loading nodes) (q_error alerts) ClickAlertsRetry
       (let entries = query_list alerts
        in Grp ''list-page''
          [PageHeader t (Some ''OBSERVE'') ''Alerts'' (Some ''Recent active and resolved conditions from the control plane.'')
             [RefreshButton t ''Refresh'' False ClickAlertsRefresh rb],
           Grp (t ''Alerts'' [])
             (map (\<lambda>(v, label). Grp (if al_status s = v then ''segmented-active'' else [])
                     [Btn (t label []) False (ClickAlertStatus v)])
               [(Some AlertOpen, ''Open alerts''), (Some AlertResolved, ''Resolved conditions''), (None, ''All conditions'')]),
           Txt (t ''{count} events'' [(''count'', number_of fm (length entries))]),
           (if entries \<noteq> []
            then Grp ''table''
              (map (\<lambda>h. Txt (t h [])) [''Alert'', ''Severity'', ''State'', ''Site'', ''Node'', ''First seen'', ''Last seen''] @
               map (\<lambda>a. AlertRow t fm (name_or node_agent_id node_name (query_list nodes) (alert_node_id a))
                          (name_or site_id site_name (query_list sites) (alert_site_id a)) a) entries)
            else EmptyState t ''No alerts recorded.'' None [])]))"

fun alerts_on_click :: "alerts_click \<Rightarrow> alerts_page \<Rightarrow> alerts_page" where
  "alerts_on_click (ClickAlertStatus v) s = s\<lparr>al_status := v\<rparr>"
| "alerts_on_click ClickAlertsRefresh s = s"
| "alerts_on_click ClickAlertsRetry s = s"

section \<open>Lemmas\<close>

definition spike_text :: "string \<Rightarrow> string \<Rightarrow> string \<Rightarrow> string \<Rightarrow> string" where
  "spike_text site recent window baseline =
     site @ '': '' @ recent @ '' denies in the last '' @ window @ ''s (baseline '' @ baseline @ '')''"

definition digits :: "string \<Rightarrow> bool" where
  "digits s \<longleftrightarrow> s \<noteq> [] \<and> list_all is_digit s"

lemma digits_then_iff:
  assumes "literal \<noteq> []" "\<not> is_digit (hd literal)"
  shows "digits_then literal s = Some (ds, rest) \<longleftrightarrow> digits ds \<and> s = ds @ literal @ rest"
proof
  assume "digits_then literal s = Some (ds, rest)"
  then have "ds = takeWhile is_digit s" "ds \<noteq> []" "dropWhile is_digit s = literal @ rest"
    by (auto simp: digits_then_def Let_def starts_with_iff split: if_splits)
  then show "digits ds \<and> s = ds @ literal @ rest"
    by (metis (mono_tags, lifting) digits_def list_all_iff set_takeWhileD takeWhile_dropWhile_id)
next
  assume ds: "digits ds \<and> s = ds @ literal @ rest"
  obtain c cs where l: "literal = c # cs" "\<not> is_digit c" using assms by (cases literal) auto
  have "takeWhile is_digit (ds @ c # cs @ rest) = ds \<and> dropWhile is_digit (ds @ c # cs @ rest) = c # cs @ rest"
    if "list_all is_digit ds" for ds using that l(2) by (induction ds) auto
  with ds l show "digits_then literal s = Some (ds, rest)"
    by (simp add: digits_then_def digits_def Let_def)
qed

lemma spike_tail_iff:
  "match_spike_tail s = Some (r, w, b) \<longleftrightarrow>
     digits r \<and> digits w \<and> digits b \<and> s = '': '' @ r @ '' denies in the last '' @ w @ ''s (baseline '' @ b @ '')''"
proof -
  have lits: "\<not> is_digit (hd '' denies in the last '')" "\<not> is_digit (hd ''s (baseline '')" "\<not> is_digit (hd '')'')"
    by (simp_all add: is_digit_def)
  have "match_spike_tail s = Some (r, w, b) \<longleftrightarrow> starts_with '': '' s \<and>
      (\<exists>s1 s2. digits_then '' denies in the last '' (drop 2 s) = Some (r, s1) \<and>
         digits_then ''s (baseline '' s1 = Some (w, s2) \<and> digits_then '')'' s2 = Some (b, []))"
    by (auto simp: match_spike_tail_def split: option.splits)
  also have "\<dots> \<longleftrightarrow> starts_with '': '' s \<and> digits r \<and> digits w \<and> digits b \<and>
      drop 2 s = r @ '' denies in the last '' @ w @ ''s (baseline '' @ b @ '')''"
    using lits by (auto simp: digits_then_iff)
  also have "\<dots> \<longleftrightarrow> digits r \<and> digits w \<and> digits b \<and> s = '': '' @ r @ '' denies in the last '' @ w @ ''s (baseline '' @ b @ '')''"
    by (auto simp: starts_with_iff)
  finally show ?thesis .
qed

text \<open>Two ways to cut a text at a colon that is the last one are the same.\<close>

lemma last_colon_unique:
  assumes "a @ x # u = b @ x # v" "x \<notin> set u" "x \<notin> set v"
  shows "a = b \<and> u = v"
  using assms by (auto simp: append_eq_append_conv2 append_eq_Cons_conv Cons_eq_append_conv)

lemma digits_no_colon: "digits ds \<Longrightarrow> CHR '':'' \<notin> set ds"
  by (auto simp: digits_def list_all_iff is_digit_def)

lemma spike_unique:
  assumes "spike_text s r w b = spike_text s' r' w' b'" "digits r" "digits w" "digits b" "digits r'" "digits w'" "digits b'"
  shows "s = s' \<and> r = r' \<and> w = w' \<and> b = b'"
proof -
  let ?tail = "\<lambda>r w b. '' '' @ r @ '' denies in the last '' @ w @ ''s (baseline '' @ b @ '')''"
  have no: "CHR '':'' \<notin> set (?tail r w b)" if "digits r" "digits w" "digits b" for r w b
    using that by (auto dest: digits_no_colon)
  have eq: "spike_text s r w b = s @ CHR '':'' # ?tail r w b" for s r w b by (simp add: spike_text_def)
  from last_colon_unique [OF assms(1) [unfolded eq] no [OF assms(2-4)] no [OF assms(5-7)]]
  have s: "s = s'" and t: "?tail r w b = ?tail r' w' b'" by auto
  have tail: "match_spike_tail (CHR '':'' # ?tail r w b) = Some (r, w, b)" if "digits r" "digits w" "digits b" for r w b
    using that unfolding spike_tail_iff by simp
  have "Some (r, w, b) = Some (r', w', b')"
    unfolding tail [OF assms(2-4), symmetric] tail [OF assms(5-7), symmetric] t ..
  with s show ?thesis by simp
qed

definition one_line :: "string \<Rightarrow> bool" where
  "one_line s \<longleftrightarrow> list_all (\<lambda>c. c \<noteq> CHR 0x0A \<and> c \<noteq> CHR 0x0D) s"

text \<open>The search of the pattern, declaratively.\<close>

lemma match_deny_spike_iff:
  "match_deny_spike d = Some (s, r, w, b) \<longleftrightarrow>
     one_line s \<and> digits r \<and> digits w \<and> digits b \<and> d = spike_text s r w b"
proof
  assume "match_deny_spike d = Some (s, r, w, b)"
  then obtain k where k: "one_line (take k d)" "s = take k d" "match_spike_tail (drop k d) = Some (r, w, b)"
    by (auto simp: match_deny_spike_def one_line_def split: option.splits dest!: find_first_Some)
  have "d = take k d @ drop k d" by simp
  with k show "one_line s \<and> digits r \<and> digits w \<and> digits b \<and> d = spike_text s r w b"
    unfolding spike_tail_iff spike_text_def by metis
next
  assume R: "one_line s \<and> digits r \<and> digits w \<and> digits b \<and> d = spike_text s r w b"
  let ?p = "\<lambda>k. list_all (\<lambda>c. c \<noteq> CHR 0x0A \<and> c \<noteq> CHR 0x0D) (take k d) \<and> match_spike_tail (drop k d) \<noteq> None"
  have "match_spike_tail (drop (length s) d) = Some (r, w, b)" using R by (simp add: spike_tail_iff spike_text_def)
  with R have "?p (length s)" "length s \<le> length d" by (auto simp: one_line_def spike_text_def)
  then have "find_first ?p (rev [0..<Suc (length d)]) \<noteq> None"
    unfolding find_first_None by (auto simp del: upt_Suc simp: less_Suc_eq_le)
  then obtain k where k: "find_first ?p (rev [0..<Suc (length d)]) = Some k" by blast
  with find_first_Some [OF k] obtain r' w' b' where t: "match_spike_tail (drop k d) = Some (r', w', b')" by auto
  then have "spike_text (take k d) r' w' b' = d" "digits r'" "digits w'" "digits b'"
    unfolding spike_tail_iff spike_text_def by (metis append_take_drop_id)+
  with R spike_unique [of "take k d" r' w' b' s r w b] have "take k d = s" "r' = r" "w' = w" "b' = b" by auto
  with k t show "match_deny_spike d = Some (s, r, w, b)" by (simp add: match_deny_spike_def)
qed

lemma find_first_append: "find_first p (xs @ ys) = or_else (find_first p xs) (find_first p ys)"
  by (induction xs) (auto simp: find_first_def or_else_def)

lemma find_first_rev_upt:
  "find_first p (rev [0..<n]) = Some k \<longleftrightarrow> k < n \<and> p k \<and> (\<forall>j. k < j \<and> j < n \<longrightarrow> \<not> p j)"
proof (induction n)
  case (Suc n)
  then show ?case by (auto simp: find_first_def less_Suc_eq)
qed (simp add: find_first_def)

text \<open>The last separator: nothing behind it contains another one.\<close>

lemma lastIndexOf_Some:
  assumes "p \<noteq> []" "lastIndexOf p d = Some k"
  shows "d = take k d @ p @ drop (k + length p) d" "\<not> includes_str p (drop (k + 1) d)"
proof -
  from assms have k: "starts_with p (drop k d)" "k \<le> length d" and max: "\<And>j. k < j \<Longrightarrow> j \<le> length d \<Longrightarrow> \<not> starts_with p (drop j d)"
    by (auto simp: lastIndexOf_def find_first_rev_upt simp del: upt_Suc)
  from k obtain rest where "drop k d = p @ rest" by (auto simp: starts_with_iff)
  moreover from this have "drop (k + length p) d = rest" by (metis append_eq_conv_conj drop_drop add.commute)
  ultimately show "d = take k d @ p @ drop (k + length p) d" by (metis append_take_drop_id)
  have "includes_str p s \<Longrightarrow> \<exists>j \<le> length s. starts_with p (drop j s)" for s
  proof (induction p s rule: includes_str.induct)
    case (2 p c cs)
    then show ?case by (metis Suc_le_mono drop0 drop_Suc_Cons includes_str.simps(2) length_Cons zero_le)
  qed simp
  from this [of "drop (k + 1) d"] max show "\<not> includes_str p (drop (k + 1) d)"
    using assms(1) by (cases "k + 1 \<le> length d") (auto simp: starts_with_def)
qed

lemma lastIndexOf_included: "lastIndexOf p (a @ p @ r) \<noteq> None"
  by (auto simp: lastIndexOf_def starts_with_def less_Suc_eq_le simp del: upt_Suc intro!: bexI [of _ "length a"])

text \<open>A text has at most one last separator.\<close>

lemma includes_middle: "includes_str p (a @ p @ r)"
proof (induction a)
  case Nil
  have "starts_with p (p @ r)" by (simp add: starts_with_def)
  then show ?case by (cases "p @ r") (auto simp: starts_with_def)
qed simp

lemma no_later_separator: "us @ '': '' @ r = '': '' @ r' \<Longrightarrow> \<not> includes_str '': '' r' \<Longrightarrow> us = []"
proof (rule ccontr)
  assume eq: "us @ '': '' @ r = '': '' @ r'" and r': "\<not> includes_str '': '' r'" and "us \<noteq> []"
  then obtain u us' where us: "us = u # us'" by (cases us) auto
  show False
  proof (cases us')
    case (Cons v vs)
    with us eq have "r' = vs @ '': '' @ r" by simp
    with r' includes_middle [of "'': ''" vs r] show False by simp
  qed (use us eq in simp)
qed

lemma last_separator_unique:
  assumes "a @ '': '' @ r = a' @ '': '' @ r'" "\<not> includes_str '': '' r" "\<not> includes_str '': '' r'"
  shows "a = a' \<and> r = r'"
proof -
  from assms(1) consider us where "a = a' @ us" "us @ '': '' @ r = '': '' @ r'"
    | us where "a' = a @ us" "us @ '': '' @ r' = '': '' @ r"
    unfolding append_eq_append_conv2 by metis
  then have "a = a'" using no_later_separator assms(2,3) by cases blast+
  with assms(1) show ?thesis by simp
qed

lemma split_at_separator:
  assumes "lastIndexOf '': '' d = Some k"
  shows "d = take k d @ '': '' @ drop (k + 2) d" "\<not> includes_str '': '' (drop (k + 2) d)"
    "take (k + 2) d = take k d @ '': ''"
proof -
  show whole: "d = take k d @ '': '' @ drop (k + 2) d" using lastIndexOf_Some [OF _ assms] by simp
  have behind: "\<not> includes_str '': '' (drop (k + 1) d)" using lastIndexOf_Some [OF _ assms] by simp
  have sub: "includes_str p (drop n s) \<Longrightarrow> includes_str p s" for p n s
    by (induction s arbitrary: n) (auto simp: drop_Cons split: nat.splits)
  show "\<not> includes_str '': '' (drop (k + 2) d)" using sub [of "'': ''" 1 "drop (k + 1) d"] behind by (auto simp: drop_drop)
  have "k \<le> length d" using assms by (auto simp: lastIndexOf_def find_first_rev_upt simp del: upt_Suc)
  then have "take (k + 2) (take k d @ '': '' @ drop (k + 2) d) = take k d @ '': ''" by simp
  with arg_cong [OF whole, of "take (k + 2)"] show "take (k + 2) d = take k d @ '': ''" by (rule trans)
qed

lemma no_spike:
  assumes "\<not> (\<exists>s r w b. one_line s \<and> digits r \<and> digits w \<and> digits b \<and> d = spike_text s r w b)"
  shows "match_deny_spike d = None"
proof (cases "match_deny_spike d")
  case (Some m)
  obtain s r w b where "m = (s, r, w, b)" by (cases m) auto
  with Some assms match_deny_spike_iff [of d s r w b] show ?thesis by blast
qed

section \<open>Properties\<close>

text \<open>C33: the detail of an alert is translated part by part and nothing of it is lost: a text the
  dictionary knows is replaced as a whole; otherwise a text of the form of a deny spike, and only
  such a text, keeps its site and its three numbers exactly; otherwise the reason behind the last
  separator is translated and everything before it stays; and a text without separator is shown
  unchanged.\<close>

theorem alert_detail_translation:
  "(t d [] \<noteq> d \<longrightarrow> translateAlertDetail d t = t d []) \<and>
   (t d [] = d \<longrightarrow>
      (\<forall>s r w b. one_line s \<and> digits r \<and> digits w \<and> digits b \<and> d = spike_text s r w b \<longrightarrow>
         translateAlertDetail d t =
           t spike_template [(''site'', s), (''recent'', r), (''window'', w), (''baseline'', b)]) \<and>
      (\<not> (\<exists>s r w b. one_line s \<and> digits r \<and> digits w \<and> digits b \<and> d = spike_text s r w b) \<longrightarrow>
         (\<forall>a reason. d = a @ '': '' @ reason \<and> \<not> includes_str '': '' reason \<longrightarrow>
            translateAlertDetail d t = a @ '': '' @ t reason []) \<and>
         (\<not> includes_str '': '' d \<longrightarrow> translateAlertDetail d t = d)))"
proof (intro conjI impI allI)
  show "translateAlertDetail d t = t d []" if "t d [] \<noteq> d" using that by (simp add: translateAlertDetail_def)
next
  fix s r w b
  assume "t d [] = d" and "one_line s \<and> digits r \<and> digits w \<and> digits b \<and> d = spike_text s r w b"
  with match_deny_spike_iff [of d s r w b]
  show "translateAlertDetail d t = t spike_template [(''site'', s), (''recent'', r), (''window'', w), (''baseline'', b)]"
    by (simp add: translateAlertDetail_def)
next
  assume d: "t d [] = d" and none: "\<not> (\<exists>s r w b. one_line s \<and> digits r \<and> digits w \<and> digits b \<and> d = spike_text s r w b)"
  note no = no_spike [OF none]
  show "translateAlertDetail d t = d" if "\<not> includes_str '': '' d"
  proof (cases "lastIndexOf '': '' d")
    case None
    with d no show ?thesis by (simp add: translateAlertDetail_def)
  next
    case (Some k)
    from split_at_separator(1) [OF Some] includes_middle [of "'': ''" "take k d"] that show ?thesis by metis
  qed
  fix a reason
  assume r: "d = a @ '': '' @ reason \<and> \<not> includes_str '': '' reason"
  then have "lastIndexOf '': '' d \<noteq> None" using lastIndexOf_included by blast
  then obtain k where k: "lastIndexOf '': '' d = Some k" by blast
  have "take k d @ '': '' @ drop (k + 2) d = a @ '': '' @ reason" using split_at_separator(1) [OF k] r by metis
  then have "take k d = a" "drop (k + 2) d = reason"
    using last_separator_unique split_at_separator(2) [OF k] r by blast+
  moreover have "translateAlertDetail d t =
      (if t (drop (k + 2) d) [] = drop (k + 2) d then d else take (k + 2) d @ t (drop (k + 2) d) [])"
    using d no k by (simp add: translateAlertDetail_def Let_def)
  ultimately show "translateAlertDetail d t = a @ '': '' @ t reason []"
    using r split_at_separator(3) [OF k] by simp
qed

text \<open>The texts of deny spikes have a bracket; a text without one is none.\<close>

lemma spike_bracket: "CHR ''('' \<in> set (spike_text s r w b)"
  by (simp add: spike_text_def)

theorem alert_detail_translation_witness:
  "translateAlertDetail (spike_text ''hk'' ''7'' ''60'' ''2'') plain = spike_template \<and>
   translateAlertDetail ''a: node-1: offline'' (\<lambda>k vs. if k = ''offline'' then ''desconectado'' else k) = ''a: node-1: desconectado''"
proof
  show "translateAlertDetail (spike_text ''hk'' ''7'' ''60'' ''2'') plain = spike_template"
    using alert_detail_translation [of plain "spike_text ''hk'' ''7'' ''60'' ''2''"]
    by (auto simp: one_line_def digits_def is_digit_def)
  let ?t = "\<lambda>k vs. if k = ''offline'' then ''desconectado'' else k" and ?d = "''a: node-1: offline''"
  have "\<not> (\<exists>s r w b. one_line s \<and> digits r \<and> digits w \<and> digits b \<and> ?d = spike_text s r w b)"
  proof
    assume "\<exists>s r w b. one_line s \<and> digits r \<and> digits w \<and> digits b \<and> ?d = spike_text s r w b"
    then obtain s r w b where "?d = spike_text s r w b" by blast
    then have "CHR ''('' \<in> set ?d" using spike_bracket by metis
    then show False by simp
  qed
  moreover have "?d = ''a: node-1'' @ '': '' @ ''offline''" "\<not> includes_str '': '' ''offline''" by (simp_all add: starts_with_def)
  moreover have "?t ?d [] = ?d" by simp
  ultimately have "translateAlertDetail ?d ?t = ''a: node-1'' @ '': '' @ ?t ''offline'' []"
    using alert_detail_translation [of ?t ?d] by blast
  then show "translateAlertDetail ?d ?t = ''a: node-1: desconectado''" by simp
qed

end
