(* ===== verification/Keyed_Query.thy ===== *)
theory Keyed_Query
  imports Query
begin

text \<open>
  A query whose key changes (\<^verbatim>\<open>useQuery\<close> with a key that depends on the state): the answer to the current
  key, and, as \<^verbatim>\<open>keepPreviousData\<close> is the default of \<^verbatim>\<open>src/frontend/app/providers.tsx\<close>, the last answer to an
  earlier key, which is shown until the current key has its own.  An answer to another key than the
  current one does not change what is shown.
\<close>

record ('k, 'd) keyed_query =
  kq_key :: 'k
  kq_own :: "'d option"
  kq_last :: "'d option"
  kq_error :: "string option"

definition kq_init :: "'k \<Rightarrow> ('k, 'd) keyed_query" where
  "kq_init k = \<lparr>kq_key = k, kq_own = None, kq_last = None, kq_error = None\<rparr>"

text \<open>What the component sees as \<^verbatim>\<open>data\<close>: a placeholder only stands in while the query is pending, so a
  failed query without data of its own shows none.\<close>

definition kq_latest :: "('k, 'd) keyed_query \<Rightarrow> 'd option" where
  "kq_latest q = keep_previous (kq_last q) (kq_own q)"

definition kq_shown :: "('k, 'd) keyed_query \<Rightarrow> 'd option" where
  "kq_shown q = (if kq_error q = None then kq_latest q else kq_own q)"

text \<open>Another key; an answer that is still in the cache counts as one that arrives at once.\<close>

definition kq_switch :: "'k \<Rightarrow> ('k, 'd) keyed_query \<Rightarrow> ('k, 'd) keyed_query" where
  "kq_switch k q =
     (if k = kq_key q then q else \<lparr>kq_key = k, kq_own = None, kq_last = kq_latest q, kq_error = None\<rparr>)"

text \<open>\<^verbatim>\<open>refetch\<close>: without data the query is pending again, with data the error stays until the answer.\<close>

definition kq_refetch :: "('k, 'd) keyed_query \<Rightarrow> ('k, 'd) keyed_query" where
  "kq_refetch q = (if kq_own q = None then q\<lparr>kq_error := None\<rparr> else q)"

definition kq_loading :: "('k, 'd) keyed_query \<Rightarrow> bool" where
  "kq_loading q \<longleftrightarrow> kq_shown q = None \<and> kq_error q = None"

definition kq_answer :: "'k \<Rightarrow> string + 'd \<Rightarrow> ('k, 'd) keyed_query \<Rightarrow> ('k, 'd) keyed_query" where
  "kq_answer k r q =
     (if k \<noteq> kq_key q then q
      else case r of Inr d \<Rightarrow> q\<lparr>kq_own := Some d, kq_error := None\<rparr> | Inl e \<Rightarrow> q\<lparr>kq_error := Some e\<rparr>)"

lemma kq_shown_init [simp]: "kq_shown (kq_init k) = None" "kq_error (kq_init k) = None"
  by (simp_all add: kq_shown_def kq_latest_def kq_init_def keep_previous_def)

lemma kq_shown_own: "kq_own q = Some d \<Longrightarrow> kq_shown q = Some d"
  by (simp add: kq_shown_def kq_latest_def keep_previous_def)

lemma kq_shown_switch:
  "kq_shown (kq_switch k q) = (if k = kq_key q then kq_shown q else kq_latest q)"
  by (cases "kq_own q") (simp_all add: kq_shown_def kq_latest_def kq_switch_def keep_previous_def)

lemma kq_shown_switch_ok [simp]: "kq_error q = None \<Longrightarrow> kq_shown (kq_switch k q) = kq_shown q"
  by (simp add: kq_shown_switch) (simp add: kq_shown_def)

lemma kq_key_simps [simp]:
  "kq_key (kq_switch k q) = k" "kq_key (kq_answer k' r q) = kq_key q" "kq_key (kq_init k) = k"
  "kq_key (kq_refetch q) = kq_key q"
  by (simp_all add: kq_switch_def kq_answer_def kq_init_def kq_refetch_def split: sum.splits)

lemma kq_error_switch [simp]: "kq_error q = None \<Longrightarrow> kq_error (kq_switch k q) = None"
  by (simp add: kq_switch_def)

lemma kq_own_switch [simp]: "k \<noteq> kq_key q \<Longrightarrow> kq_own (kq_switch k q) = None"
  by (simp add: kq_switch_def)

lemma kq_shown_answer:
  "kq_shown (kq_answer k (Inr d) q) = (if k = kq_key q then Some d else kq_shown q)"
  "kq_shown (kq_answer k (Inl e) q) = (if k = kq_key q then kq_own q else kq_shown q)"
  by (simp_all add: kq_shown_def kq_latest_def kq_answer_def keep_previous_def)

text \<open>The data a query owns are always an answer to its own key: \<open>P k d\<close> says that \<open>d\<close> answers \<open>k\<close>.\<close>

definition kq_answered :: "('k \<Rightarrow> 'd \<Rightarrow> bool) \<Rightarrow> ('k, 'd) keyed_query \<Rightarrow> bool" where
  "kq_answered P q \<longleftrightarrow> (case kq_own q of None \<Rightarrow> True | Some d \<Rightarrow> P (kq_key q) d)"

lemma kq_answered_kept:
  "kq_answered P (kq_init k)"
  "kq_answered P q \<Longrightarrow> kq_answered P (kq_switch k q)"
  "kq_answered P q \<Longrightarrow> kq_answered P (kq_refetch q)"
  "kq_answered P q \<Longrightarrow> (\<And>d. r = Inr d \<Longrightarrow> P k d) \<Longrightarrow> kq_answered P (kq_answer k r q)"
  by (auto simp: kq_answered_def kq_init_def kq_switch_def kq_refetch_def kq_answer_def split: option.splits sum.splits)

end
