(* ===== verification/Probes_Page.thy ===== *)
theory Probes_Page
  imports Page_Kit Endpoints Keyed_Query
begin

text \<open>
  Outbound probes: \<^verbatim>\<open>src/frontend/app/probes/page.tsx\<close>.  A probe runs as a task of the control plane; the page
  starts it, follows the task and announces its end.  \<open>gen\<close> makes idempotency keys.
\<close>

definition isFinishedProbeTask :: "Task option \<Rightarrow> bool" where
  "isFinishedProbeTask task =
     (case task of None \<Rightarrow> False
      | Some tk \<Rightarrow> task_status tk \<in> set [''succeeded'', ''failed'', ''cancelled'', ''dead_letter''])"

record probes_page =
  pb_nodes :: "Node list query"
  pb_settings :: "SystemSettings query"
  pb_nodeId :: string
  targetURL :: string
  probeTaskId :: "string option"
  completedTaskRef :: "string option"
  probeStartLock :: bool
  pb_probes :: "(string, ProbeOverview) keyed_query"
  probeTask :: "(string option, Task) keyed_query"
  runProbe :: "(api_call, Task) mutation"
  pb_toasts :: "ToastInput list"

definition probes_init :: "Node list query \<Rightarrow> SystemSettings query \<Rightarrow> probes_page" where
  "probes_init nodes settings =
     \<lparr>pb_nodes = nodes, pb_settings = settings, pb_nodeId = [], targetURL = [], probeTaskId = None,
      completedTaskRef = None, probeStartLock = False, pb_probes = kq_init [], probeTask = kq_init None,
      runProbe = MutIdle, pb_toasts = []\<rparr>"

section \<open>Effects\<close>

definition target_effect :: "probes_page \<Rightarrow> probes_page" where
  "target_effect s =
     (case q_data (pb_settings s) of
        None \<Rightarrow> s
      | Some d \<Rightarrow> if ss_default_probe_url d \<noteq> [] then s\<lparr>targetURL := or_str (targetURL s) (ss_default_probe_url d)\<rparr> else s)"

text \<open>A change of the node: the effect on the node forgets the task, and both queries get a new key.\<close>

definition select_probe_node :: "string \<Rightarrow> probes_page \<Rightarrow> probes_page" where
  "select_probe_node i s =
     (if i = pb_nodeId s then s
      else s\<lparr>pb_nodeId := i, probeTaskId := None, completedTaskRef := None,
             pb_probes := kq_switch i (pb_probes s), probeTask := kq_switch None (probeTask s)\<rparr>)"

definition first_node_effect :: "probes_page \<Rightarrow> probes_page" where
  "first_node_effect s =
     (if pb_nodeId s = [] then (case query_list (pb_nodes s) of n # _ \<Rightarrow> select_probe_node (node_id n) s | [] \<Rightarrow> s) else s)"

definition trackedTask :: "probes_page \<Rightarrow> Task option" where
  "trackedTask s = or_else (kq_shown (probeTask s)) (mut_data (runProbe s))"

definition probeIsActive :: "probes_page \<Rightarrow> bool" where
  "probeIsActive s \<longleftrightarrow> trackedTask s \<noteq> None \<and> \<not> isFinishedProbeTask (trackedTask s)"

definition completion_toast :: "translator \<Rightarrow> Task \<Rightarrow> ToastInput" where
  "completion_toast t tk =
     \<lparr>toast_title = t (if task_status tk = ''succeeded'' then ''Probe completed'' else ''Probe failed'') [],
      toast_description = (if task_error tk \<noteq> [] then Some (t (task_error tk) []) else None),
      toast_variant = Some (if task_status tk = ''succeeded'' then VariantSuccess else VariantDestructive),
      toast_duration = None\<rparr>"

definition completion_effect :: "translator \<Rightarrow> probes_page \<Rightarrow> probes_page" where
  "completion_effect t s =
     (case trackedTask s of
        None \<Rightarrow> s
      | Some tk \<Rightarrow>
          if \<not> isFinishedProbeTask (Some tk) \<or> completedTaskRef s = Some (task_task_id tk) then s
          else s\<lparr>completedTaskRef := Some (task_task_id tk), pb_toasts := pb_toasts s @ [completion_toast t tk]\<rparr>)"

section \<open>Running a probe\<close>

definition startProbe :: "key_gen \<Rightarrow> probes_page \<Rightarrow> probes_page" where
  "startProbe gen s =
     (if probeStartLock s \<or> mut_pending (runProbe s) \<or> probeIsActive s \<or> pb_nodeId s = [] then s
      else s\<lparr>probeStartLock := True, runProbe := MutPending (createNodeProbe gen (pb_nodeId s) (Some (targetURL s)) None)\<rparr>)"

definition runProbe_settled :: "string + Task \<Rightarrow> probes_page \<Rightarrow> probes_page" where
  "runProbe_settled result s =
     (if \<not> mut_pending (runProbe s) then s
      else (let s' = s\<lparr>runProbe := mut_settle (\<lambda>_ tk. tk) result (runProbe s), probeStartLock := False\<rparr>
            in case result of
                 Inr tk \<Rightarrow> s'\<lparr>probeTaskId := Some (task_task_id tk),
                              probeTask := kq_switch (Some (task_task_id tk)) (probeTask s)\<rparr>
               | Inl _ \<Rightarrow> s'))"

text \<open>The answers to the two queries; without an identifier the query of the task is disabled, so no answer
  comes for the key \<open>None\<close>.\<close>

definition task_answer :: "string \<Rightarrow> string + Task \<Rightarrow> probes_page \<Rightarrow> probes_page" where
  "task_answer i r s = s\<lparr>probeTask := kq_answer (Some i) r (probeTask s)\<rparr>"

definition probes_answer :: "string \<Rightarrow> string + ProbeOverview \<Rightarrow> probes_page \<Rightarrow> probes_page" where
  "probes_answer i r s = s\<lparr>pb_probes := kq_answer i r (pb_probes s)\<rparr>"

section \<open>What is rendered\<close>

datatype probes_click = ClickRunProbe | ClickProbesRefresh | ClickProbesRetry

datatype probes_field = FieldProbeNode | FieldProbeTarget

definition circuit_row :: "translator \<Rightarrow> formats \<Rightarrow> ProbeCircuit \<Rightarrow> ('c, 'f) view" where
  "circuit_row t fm c =
     Grp (pc_outbound_tag c)
       [Txt (pc_outbound_tag c), StatusBadge t (pc_state c), Txt (fm_number fm (Some (pc_consecutive_failures c))),
        Txt (fm_number fm (Some (pc_consecutive_successes c))), Txt (fm_duration fm (Some (of_int (pc_last_latency_ms c))))]"

definition probe_row :: "translator \<Rightarrow> formats \<Rightarrow> ProbeHistory \<Rightarrow> ('c, 'f) view" where
  "probe_row t fm h =
     Grp (ph_id h)
       [Txt (ph_outbound_tag h),
        Txt (fm_date fm (Some (ph_sampled_at h)) @ '' '' @ [CHR 0xB7] @ '' '' @ fm_duration fm (Some (of_int (ph_latency_ms h)))),
        StatusBadge t (if ph_success h then ''succeeded'' else ''failed'')]"

definition ProbeDetails :: "translator \<Rightarrow> formats \<Rightarrow> Node \<Rightarrow> ProbeOverview \<Rightarrow> ('c, 'f) view" where
  "ProbeDetails t fm n d =
     Grp ''dashboard-grid''
       ([Txt (t ''Circuit'' []), Txt (node_name n), StatusBadge t (node_probe_status n)] @
        map (\<lambda>h. Txt (t h [])) [''Destination'', ''Circuit'', ''Failure'', ''Success'', ''Latency''] @
        (if po_circuits d \<noteq> [] then map (circuit_row t fm) (po_circuits d)
         else [EmptyState t ''No probe results recorded.'' None []]) @
        [Txt (t ''History'' []), Txt (t ''Recent probes'' [])] @
        (if po_history d \<noteq> [] then map (probe_row t fm) (take 12 (po_history d))
         else [EmptyState t ''No probe results recorded.'' None []]))"

definition probe_node :: "probes_page \<Rightarrow> Node option" where
  "probe_node s = find_first (\<lambda>n. node_id n = pb_nodeId s) (query_list (pb_nodes s))"

definition probe_panel :: "translator \<Rightarrow> formats \<Rightarrow> probes_page \<Rightarrow> (probes_click, 'f) view" where
  "probe_panel t fm s =
     (case (probe_node s, kq_shown (pb_probes s), kq_error (pb_probes s)) of
        (Some n, Some d, _) \<Rightarrow> ProbeDetails t fm n d
      | (Some n, None, Some e) \<Rightarrow> ErrorState t e (Some ClickProbesRetry)
      | _ \<Rightarrow> EmptyState t ''No node selected.'' None [])"

definition ProbesPage ::
    "translator \<Rightarrow> formats \<Rightarrow> bool option \<Rightarrow> refresh_button \<Rightarrow> probes_page \<Rightarrow> (probes_click, probes_field) view" where
  "ProbesPage t fm session rb s =
     gated t 7 session
      (guarded t 7 (q_loading (pb_nodes s)) (map_option (\<lambda>_. ''Unable to load nodes.'') (q_error (pb_nodes s))) ClickProbesRetry
       (Grp ''page-stack''
         [PageHeader t (Some ''OBSERVE'') ''Outbound probes'' (Some ''Per-outbound health and circuit-breaker state.'')
            [RefreshButton t ''Refresh'' (pb_nodeId s = []) ClickProbesRefresh rb],
          Sel (t ''Node'' []) (pb_nodeId s)
            (([], t ''No node selected.'' []) # map (\<lambda>n. (node_id n, node_name n)) (query_list (pb_nodes s))) False FieldProbeNode,
          Inp (t ''Target URL'' []) (targetURL s) False FieldProbeTarget,
          Btn (if mut_pending (runProbe s) \<or> probeIsActive s then t ''Working...'' [] else t ''Run probe'' [])
            (pb_nodeId s = [] \<or> mut_pending (runProbe s) \<or> probeIsActive s) ClickRunProbe,
          probe_panel t fm s]))"

section \<open>Events\<close>

definition probes_on_click :: "key_gen \<Rightarrow> probes_click \<Rightarrow> probes_page \<Rightarrow> probes_page" where
  "probes_on_click gen c s = (case c of ClickRunProbe \<Rightarrow> startProbe gen s | _ \<Rightarrow> s\<lparr>pb_probes := kq_refetch (pb_probes s)\<rparr>)"

fun probes_on_edit :: "probes_field \<Rightarrow> string \<Rightarrow> probes_page \<Rightarrow> probes_page" where
  "probes_on_edit FieldProbeNode v s = select_probe_node v s"
| "probes_on_edit FieldProbeTarget v s = s\<lparr>targetURL := v\<rparr>"

datatype probes_message =
    ProbeNodes "Node list query"
  | ProbeSettings "SystemSettings query"
  | TargetEffect
  | FirstNodeEffect
  | CompletionEffect translator
  | RunSettled "string + Task"
  | TaskAnswer string "string + Task"
  | ProbesAnswer string "string + ProbeOverview"

fun probes_on_message :: "probes_message \<Rightarrow> probes_page \<Rightarrow> probes_page" where
  "probes_on_message (ProbeNodes q) s = s\<lparr>pb_nodes := q\<rparr>"
| "probes_on_message (ProbeSettings q) s = s\<lparr>pb_settings := q\<rparr>"
| "probes_on_message TargetEffect s = target_effect s"
| "probes_on_message FirstNodeEffect s = first_node_effect s"
| "probes_on_message (CompletionEffect t) s = completion_effect t s"
| "probes_on_message (RunSettled r) s = runProbe_settled r s"
| "probes_on_message (TaskAnswer i r) s = task_answer i r s"
| "probes_on_message (ProbesAnswer i r) s = probes_answer i r s"

section \<open>Lemmas\<close>

text \<open>What the changes leave alone.\<close>

lemma select_probe_frame [simp]:
  "probeStartLock (select_probe_node i s) = probeStartLock s" "runProbe (select_probe_node i s) = runProbe s"
  "pb_toasts (select_probe_node i s) = pb_toasts s"
  by (simp_all add: select_probe_node_def)

lemma select_probe_tracked [simp]:
  "kq_error (probeTask s) = None \<Longrightarrow> trackedTask (select_probe_node i s) = trackedTask s"
  by (simp add: select_probe_node_def trackedTask_def)

lemma first_node_frame [simp]:
  "probeStartLock (first_node_effect s) = probeStartLock s" "runProbe (first_node_effect s) = runProbe s"
  by (simp_all add: first_node_effect_def split: list.splits)

lemma target_effect_frame [simp]:
  "probeStartLock (target_effect s) = probeStartLock s" "runProbe (target_effect s) = runProbe s"
  "probeTask (target_effect s) = probeTask s" "probeTaskId (target_effect s) = probeTaskId s"
  by (simp_all add: target_effect_def split: option.splits)

lemma completion_frame [simp]:
  "probeStartLock (completion_effect t s) = probeStartLock s" "runProbe (completion_effect t s) = runProbe s"
  "probeTask (completion_effect t s) = probeTask s" "probeTaskId (completion_effect t s) = probeTaskId s"
  by (simp_all add: completion_effect_def split: option.splits)

text \<open>The lock is held exactly while a request is on its way; the query of the task has the key of the
  task that is followed.\<close>

definition probes_inv :: "probes_page \<Rightarrow> bool" where
  "probes_inv s \<longleftrightarrow> probeStartLock s = mut_pending (runProbe s) \<and> kq_key (probeTask s) = probeTaskId s"

lemma select_inv: "probes_inv s \<Longrightarrow> probes_inv (select_probe_node i s)"
  by (simp add: probes_inv_def select_probe_node_def)

lemma probes_inv_edit: "probes_inv s \<Longrightarrow> probes_inv (probes_on_edit f v s)"
  using select_inv [of s v] by (cases f) (auto simp: probes_inv_def)

lemma probes_inv_click: "probes_inv s \<Longrightarrow> probes_inv (probes_on_click gen c s)"
  by (cases c) (auto simp: probes_inv_def probes_on_click_def startProbe_def)

lemma probes_inv_message: "probes_inv s \<Longrightarrow> probes_inv (probes_on_message m s)"
proof (cases m)
  case FirstNodeEffect
  assume "probes_inv s"
  with FirstNodeEffect show ?thesis by (auto simp: first_node_effect_def select_inv split: list.splits)
next
  case (RunSettled r)
  assume "probes_inv s"
  with RunSettled show ?thesis
    by (auto simp: probes_inv_def runProbe_settled_def mut_settle_def Let_def split: sum.splits mutation.splits)
qed (auto simp: probes_inv_def task_answer_def probes_answer_def)

interpretation pb: component "\<lambda>s. \<exists>n q. s = probes_init n q"
    "\<lambda>(t, fm, session, rb). ProbesPage t fm session rb" "probes_on_click gen" probes_on_edit probes_on_message probes_inv
  for gen
  by unfold_locales
     (auto simp: probes_inv_edit probes_inv_click probes_inv_message, auto simp: probes_inv_def probes_init_def)

text \<open>A page whose last task never finished and is no longer followed.\<close>

definition probes_blocked :: "probes_page \<Rightarrow> bool" where
  "probes_blocked s \<longleftrightarrow>
     probeTaskId s = None \<and> kq_key (probeTask s) = None \<and> kq_error (probeTask s) = None \<and> \<not> mut_pending (runProbe s) \<and> probeIsActive s"

datatype probes_action = OnClick probes_click | OnEdit probes_field string | OnMessage probes_message

fun probes_event :: "key_gen \<Rightarrow> probes_action \<Rightarrow> probes_page \<Rightarrow> probes_page" where
  "probes_event gen (OnClick c) s = probes_on_click gen c s"
| "probes_event gen (OnEdit f v) s = probes_on_edit f v s"
| "probes_event gen (OnMessage m) s = probes_on_message m s"

lemma blocked_select: "probes_blocked s \<Longrightarrow> probes_blocked (select_probe_node i s)"
  by (simp add: probes_blocked_def probeIsActive_def) (simp add: select_probe_node_def)

lemma blocked_stays: "probes_blocked s \<Longrightarrow> probes_blocked (probes_event gen e s)"
proof (cases e)
  case (OnClick c)
  assume "probes_blocked s"
  with OnClick show ?thesis 
    by (cases c) (auto simp: probes_blocked_def probes_on_click_def startProbe_def probeIsActive_def trackedTask_def)
next
  case (OnEdit f v)
  assume "probes_blocked s"
  with OnEdit show ?thesis
    by (cases f) (auto simp: blocked_select, auto simp: probes_blocked_def probeIsActive_def trackedTask_def)
next
  case (OnMessage m)
  assume b: "probes_blocked s"
  show ?thesis
  proof (cases m)
    case FirstNodeEffect
    with OnMessage b show ?thesis by (auto simp: first_node_effect_def blocked_select split: list.splits)
  qed (use OnMessage b in \<open>auto simp: probes_blocked_def probeIsActive_def trackedTask_def task_answer_def
        probes_answer_def runProbe_settled_def kq_answer_def\<close>)
qed

lemma blocked_fold: "probes_blocked s \<Longrightarrow> probes_blocked (fold (probes_event gen) es s)"
  by (induction es arbitrary: s) (auto simp: blocked_stays)

section \<open>Properties\<close>

text \<open>C19: one probe at a time: in every reachable state a click can start a probe only if no request is
  on its way, the task that is followed has ended and a node is selected; the request then names that
  node and the address on screen; and a second click before the page is rendered again starts nothing.\<close>

theorem probe_exclusive:
  assumes "pb.reachable gen s"
  shows "(can_click (ProbesPage t fm session rb s) ClickRunProbe \<longrightarrow>
        \<not> mut_pending (runProbe s) \<and> (trackedTask s = None \<or> isFinishedProbeTask (trackedTask s)) \<and>
        runProbe (probes_on_click gen ClickRunProbe s) =
          MutPending (createNodeProbe gen (pb_nodeId s) (Some (targetURL s)) None) \<and> pb_nodeId s \<noteq> []) \<and>
     probes_on_click gen ClickRunProbe (probes_on_click gen ClickRunProbe s) = probes_on_click gen ClickRunProbe s \<and>
     (mut_pending (runProbe s) \<longrightarrow> probes_on_click gen ClickRunProbe s = s)"
proof -
  have "probes_inv s" by (rule pb.reachable_inv [OF assms])
  moreover have "can_click (ProbesPage t fm session rb s) ClickRunProbe \<Longrightarrow>
      pb_nodeId s \<noteq> [] \<and> \<not> mut_pending (runProbe s) \<and> \<not> probeIsActive s"
    by (auto simp: ProbesPage_def probe_panel_def ProbeDetails_def circuit_row_def probe_row_def list_ex_iff
        split: option.splits if_splits)
  ultimately show ?thesis
    by (auto simp: probes_inv_def probes_on_click_def startProbe_def probeIsActive_def)
qed

definition demo_task :: "string \<Rightarrow> string \<Rightarrow> Task" where
  "demo_task i st = \<lparr>task_task_id = i, task_task_type = ''node.probe'', task_target_type = ''node'', task_target_id = ''n1'',
     task_status = st, task_progress = 0, task_stage = [], task_progress_message = [], task_retry_count = 0,
     task_max_retries = 3, task_error = [], task_result = JNull, task_created_at = [], task_finished_at = None,
     task_next_run_at = [], task_locked_by = [], task_lease_expires_at = None\<rparr>"

definition demo_probes :: probes_page where
  "demo_probes = probes_on_message FirstNodeEffect (probes_init (loaded [sample_node ''a'' ''n1'', sample_node ''a'' ''n2'']) empty_query)"

theorem probe_exclusive_witness:
  "pb.reachable (\<lambda>_. ''k'') demo_probes \<and>
   runProbe (probes_on_click (\<lambda>_. ''k'') ClickRunProbe demo_probes) =
     MutPending (createNodeProbe (\<lambda>_. ''k'') ''n1'' (Some []) None)"
proof
  show reach: "pb.reachable (\<lambda>_. ''k'') demo_probes"
    unfolding demo_probes_def by (intro pb.reach_message pb.reach_start) blast
  have "can_click (ProbesPage plain sample_formats (Some True) refresh_init demo_probes) ClickRunProbe" "pb_nodeId demo_probes = ''n1''"
      "targetURL demo_probes = []"
    by (simp_all add: ProbesPage_def demo_probes_def probes_init_def first_node_effect_def select_probe_node_def loaded_def
        query_list_def probeIsActive_def trackedTask_def mut_data_def)
  with probe_exclusive [OF reach] show "runProbe (probes_on_click (\<lambda>_. ''k'') ClickRunProbe demo_probes) =
     MutPending (createNodeProbe (\<lambda>_. ''k'') ''n1'' (Some []) None)" by metis
qed

text \<open>C20: a probe that is left behind blocks the page: when the operator selects another node while the task
  of a probe has not ended (and its status can be read), the task is no longer followed but still counts as active, so whatever
  happens afterwards no probe can be started on this page again.\<close>

theorem abandoned_probe_blocks:
  assumes "probeIsActive s" "kq_error (probeTask s) = None" "\<not> mut_pending (runProbe s)" "i \<noteq> pb_nodeId s"
  shows "probes_blocked (probes_on_edit FieldProbeNode i s) \<and>
     (let s' = fold (probes_event gen) es (probes_on_edit FieldProbeNode i s) in
        \<not> can_click (ProbesPage t fm session rb s') ClickRunProbe \<and> probes_on_click gen ClickRunProbe s' = s')"
proof -
  have b: "probes_blocked (probes_on_edit FieldProbeNode i s)"
    using assms by (simp add: probes_blocked_def probeIsActive_def) (simp add: select_probe_node_def)
  from blocked_fold [OF this] have "probes_blocked (fold (probes_event gen) es (probes_on_edit FieldProbeNode i s))" .
  then have "probeIsActive (fold (probes_event gen) es (probes_on_edit FieldProbeNode i s))"
    by (simp add: probes_blocked_def)
  with b show ?thesis
    by (auto simp: Let_def probes_on_click_def startProbe_def ProbesPage_def probe_panel_def ProbeDetails_def
        circuit_row_def probe_row_def list_ex_iff split: option.splits if_splits)
qed

theorem abandoned_probe_blocks_witness:
  "let s = probes_on_message (RunSettled (Inr (demo_task ''t1'' ''running''))) (probes_on_click (\<lambda>_. ''k'') ClickRunProbe demo_probes)
   in probes_blocked (probes_on_edit FieldProbeNode ''n2'' s)"
proof -
  let ?s = "probes_on_message (RunSettled (Inr (demo_task ''t1'' ''running''))) (probes_on_click (\<lambda>_. ''k'') ClickRunProbe demo_probes)"
  have "probeIsActive ?s" "kq_error (probeTask ?s) = None" "\<not> mut_pending (runProbe ?s)" "''n2'' \<noteq> pb_nodeId ?s"
    by (simp_all add: demo_probes_def probes_init_def first_node_effect_def select_probe_node_def loaded_def query_list_def
        probes_on_click_def startProbe_def runProbe_settled_def probeIsActive_def trackedTask_def mut_data_def demo_task_def
        isFinishedProbeTask_def)
  from abandoned_probe_blocks [OF this] show ?thesis by (simp add: Let_def)
qed

text \<open>Selecting another node announces a finished probe a second time, and shows the results of the
  previous node under the name of the new one until its own arrive.\<close>

lemma finished_probe_announced_again:
  assumes "trackedTask s = Some tk" "isFinishedProbeTask (Some tk)" "kq_error (probeTask s) = None" "i \<noteq> pb_nodeId s"
  shows "pb_toasts (completion_effect t (probes_on_edit FieldProbeNode i s)) = pb_toasts s @ [completion_toast t tk]"
  using assms by (simp add: completion_effect_def) (simp add: select_probe_node_def)

lemma previous_results_shown:
  "kq_shown (pb_probes s) = Some d \<Longrightarrow> kq_error (pb_probes s) = None \<Longrightarrow> probe_node (probes_on_edit FieldProbeNode i s) = Some n \<Longrightarrow>
     probe_panel t fm (probes_on_edit FieldProbeNode i s) = ProbeDetails t fm n d"
  by (auto simp: probe_panel_def select_probe_node_def)

end
