(* ===== verification/Release_Detail.thy ===== *)
theory Release_Detail
  imports Page_Kit Release_Text Formatters Clipboard
begin

text \<open>
  The detail of a release: \<^verbatim>\<open>stagePosition\<close>, \<^verbatim>\<open>releaseNodeNames\<close>, \<^verbatim>\<open>releasePathLabel\<close>, \<^verbatim>\<open>ReleaseCategories\<close>,
  \<^verbatim>\<open>DraftDetail\<close> and \<^verbatim>\<open>ReleaseDetail\<close> of \<^verbatim>\<open>src/frontend/app/releases/page.tsx\<close>.  \<open>release_text\<close> holds an arrow that
  lies outside the character range of the model, the text of a duration that is not a number, and
  \<^verbatim>\<open>new Date(text).getTime()\<close>.
\<close>

section \<open>Indented JSON\<close>

text \<open>\<^verbatim>\<open>JSON.stringify(value, null, 2)\<close>; \<open>n\<close> is the depth.\<close>

definition json_break :: "nat \<Rightarrow> string" where
  "json_break n = CHR 0x0A # replicate (2 * n) (CHR '' '')"

fun json_pretty :: "nat \<Rightarrow> json \<Rightarrow> string"
  and pretty_items :: "nat \<Rightarrow> json list \<Rightarrow> string"
  and pretty_members :: "nat \<Rightarrow> (string \<times> json) list \<Rightarrow> string" where
  "json_pretty n JNull = ''null''"
| "json_pretty n (JBool b) = (if b then ''true'' else ''false'')"
| "json_pretty n (JNum i) = show_int i"
| "json_pretty n (JStr s) = quote s"
| "json_pretty n (JArr js) =
     (case js of [] \<Rightarrow> ''[]'' | _ \<Rightarrow> ''['' @ json_break (Suc n) @ pretty_items (Suc n) js @ json_break n @ '']'')"
| "json_pretty n (JObj ms) =
     (case ms of [] \<Rightarrow> ''{}'' | _ \<Rightarrow> ''{'' @ json_break (Suc n) @ pretty_members (Suc n) ms @ json_break n @ ''}'')"
| "pretty_items n [] = []"
| "pretty_items n (j # js) = json_pretty n j @ (case js of [] \<Rightarrow> [] | _ \<Rightarrow> '','' @ json_break n @ pretty_items n js)"
| "pretty_members n [] = []"
| "pretty_members n ((k, j) # ms) =
     quote k @ '': '' @ json_pretty n j @ (case ms of [] \<Rightarrow> [] | _ \<Rightarrow> '','' @ json_break n @ pretty_members n ms)"

section \<open>Labels\<close>

record release_text =
  rt_arrow :: string
  rt_invalid_duration :: string
  rt_parse :: "string \<Rightarrow> int option"

definition releaseStages :: "string list" where
  "releaseStages = [''draft'', ''validated'', ''queued'', ''applying'', ''health_check'', ''succeeded'']"

text \<open>\<^verbatim>\<open>indexOf\<close>, where -1 becomes 0.\<close>

fun stage_index :: "'a \<Rightarrow> 'a list \<Rightarrow> nat option" where
  "stage_index x [] = None"
| "stage_index x (y # ys) = (if x = y then Some 0 else map_option Suc (stage_index x ys))"

definition stagePosition :: "string \<Rightarrow> nat" where
  "stagePosition stage = (case stage_index stage releaseStages of None \<Rightarrow> 0 | Some i \<Rightarrow> i)"

text \<open>The map of labels has the identifier and the agent of every node.\<close>

definition nodeLabels :: "Node list \<Rightarrow> (string \<times> string) list" where
  "nodeLabels nodes = concat (map (\<lambda>n. [(node_id n, node_name n), (node_agent_id n, node_name n)]) nodes)"

definition node_label :: "Node list \<Rightarrow> string \<Rightarrow> string" where
  "node_label nodes i = (case js_map_get (nodeLabels nodes) i of None \<Rightarrow> i | Some name \<Rightarrow> or_str name i)"

definition releaseNodeNames :: "Release \<Rightarrow> Node list \<Rightarrow> string" where
  "releaseNodeNames release nodes = join '', '' (map (node_label nodes) (rel_node_ids release))"

definition subscription_label :: "translator \<Rightarrow> Release \<Rightarrow> string" where
  "subscription_label t release = or_str (trim (rel_subscription_name release)) (t ''No subscription'' [])"

definition releasePathLabel :: "release_text \<Rightarrow> Release \<Rightarrow> Node list \<Rightarrow> translator \<Rightarrow> string" where
  "releasePathLabel rt release nodes t =
     t (''{subscription}'' @ rt_arrow rt @ ''{node}'')
       [(''subscription'', subscription_label t release),
        (''node'', or_str (releaseNodeNames release nodes) (t ''No nodes'' []))]"

definition ReleaseCategories :: "translator \<Rightarrow> Release \<Rightarrow> ('c, 'f) view" where
  "ReleaseCategories t release =
     Grp (t ''Change category'' []) (map (\<lambda>l. Txt (t l [])) (releaseCategoryLabels (rel_change_categories release)))"

definition stageDescriptionKeys :: "(string \<times> string) list" where
  "stageDescriptionKeys =
     [(''draft'', ''Desired state created''), (''validated'', ''Bundle checks passed''),
      (''queued'', ''Waiting for the monitor''), (''applying'', ''Monitor is applying the bundle''),
      (''health_check'', ''Verifying services and firewall''), (''succeeded'', ''All targeted nodes acknowledged'')]"

section \<open>Derived values\<close>

definition release_position :: "Release \<Rightarrow> nat" where
  "release_position release =
     (if rel_status release = ''failed'' then length releaseStages - 2 else stagePosition (rel_stage release))"

datatype stage_mark = StageComplete | StageCurrent | StageAhead

definition mark_of :: "Release \<Rightarrow> nat \<Rightarrow> stage_mark" where
  "mark_of release index =
     (let position = release_position release;
          complete = (if rel_status release = ''succeeded'' then index \<le> position else index < position)
      in if complete then StageComplete else if index = position then StageCurrent else StageAhead)"

definition stage_marks :: "Release \<Rightarrow> stage_mark list" where
  "stage_marks release = map (mark_of release) [0..<length releaseStages]"

definition localized_events :: "translator \<Rightarrow> ReleaseDetail option \<Rightarrow> ReleaseEvent list" where
  "localized_events t detail =
     (case detail of
        None \<Rightarrow> []
      | Some d \<Rightarrow> map (\<lambda>e. e\<lparr>evt_source := formatReleaseEventSource (evt_source e) t,
                          evt_message := formatReleaseEventMessage (evt_message e) t\<rparr>) (rd_events d))"

definition ackItems :: "ReleaseDetail option \<Rightarrow> AgentAck list" where
  "ackItems detail = (case detail of None \<Rightarrow> [] | Some d \<Rightarrow> rd_acknowledgements d)"

definition release_desired_version :: "AgentAck list \<Rightarrow> int" where
  "release_desired_version acks = (case acks of [] \<Rightarrow> 0 | a # _ \<Rightarrow> ack_desired_version a)"

definition ackRate :: "Release \<Rightarrow> AgentAck list \<Rightarrow> int" where
  "ackRate release acks =
     (if rel_node_ids release \<noteq> []
      then math_round (dbl (dbl (of_nat (length acks) / of_nat (length (rel_node_ids release))) * 100)) else 0)"

text \<open>\<^verbatim>\<open>Math.max(0, end - start)\<close>; a date that cannot be parsed makes it not a number.\<close>

definition elapsed_text :: "release_text \<Rightarrow> formats \<Rightarrow> int \<Rightarrow> Release \<Rightarrow> string" where
  "elapsed_text rt fm now release =
     (case rel_started_at release of
        None \<Rightarrow> ''-''
      | Some start \<Rightarrow>
          if start = [] then ''-''
          else (case (if truthy_str (rel_finished_at release) then rt_parse rt (the (rel_finished_at release)) else Some now,
                      rt_parse rt start) of
                  (Some e, Some b) \<Rightarrow> fm_duration fm (Some (of_int (max 0 (e - b))))
                | _ \<Rightarrow> rt_invalid_duration rt))"

definition ack_of :: "AgentAck list \<Rightarrow> string \<Rightarrow> AgentAck option" where
  "ack_of acks nodeId = find_first (\<lambda>a. ack_node_id a = nodeId) acks"

definition node_outcome :: "AgentAck list \<Rightarrow> string \<Rightarrow> string" where
  "node_outcome acks nodeId =
     (case ack_of acks nodeId of
        None \<Rightarrow> ''pending'' | Some a \<Rightarrow> if ack_ok a \<and> ack_health_ok a then ''succeeded'' else ''failed'')"

section \<open>State\<close>

datatype detail_tab = TabNodes | TabTrace | TabDiff

record release_view =
  activeTab :: detail_tab
  copied_label :: string
  rv_timers :: nat
  rv_page :: page
  rv_toasts :: "ToastInput list"

definition release_copied ::
    "translator \<Rightarrow> clipboard_api \<Rightarrow> copy_command \<Rightarrow> string \<Rightarrow> string \<Rightarrow> release_view \<Rightarrow> release_view" where
  "release_copied t api cmd v lbl s =
     (let (result, p) = writeClipboard api cmd v (rv_page s); s' = s\<lparr>rv_page := p\<rparr>
      in case result of
           ClipboardOk \<Rightarrow>
             s'\<lparr>copied_label := lbl, rv_timers := rv_timers s + 1,
                rv_toasts := rv_toasts s @
                  [\<lparr>toast_title = t ''Copied'' [], toast_description = None, toast_variant = Some VariantSuccess,
                    toast_duration = None\<rparr>]\<rparr>
         | ClipboardUnavailable \<Rightarrow>
             s'\<lparr>rv_toasts := rv_toasts s @
                  [\<lparr>toast_title = t ''Operation failed'' [],
                    toast_description = Some (t (toastErrorMessage (Some ''clipboard_unavailable'') ''Unable to copy.'') []),
                    toast_variant = Some VariantDestructive, toast_duration = None\<rparr>]\<rparr>)"

definition release_copy_timer :: "release_view \<Rightarrow> release_view" where
  "release_copy_timer s = (if rv_timers s = 0 then s else s\<lparr>copied_label := [], rv_timers := rv_timers s - 1\<rparr>)"

section \<open>What is rendered\<close>

definition release_node_row ::
    "translator \<Rightarrow> formats \<Rightarrow> Node list \<Rightarrow> AgentAck list \<Rightarrow> string \<Rightarrow> ('c, 'f) view" where
  "release_node_row t fm nodes acks nodeId =
     (let ack = ack_of acks nodeId; desired = release_desired_version acks;
          check = (\<lambda>ok good. StatusBadge t (case ack of None \<Rightarrow> ''pending'' | Some a \<Rightarrow> if ok a then good else ''failed''))
      in Grp nodeId
        [Txt (node_label nodes nodeId), Txt nodeId,
         Txt (case ack of
                Some a \<Rightarrow> ''v'' @ show_int (ack_applied_version a)
              | None \<Rightarrow> ''v'' @ (if desired = 0 then ''-'' else show_int desired)),
         Txt (t (if ack = None then ''Desired'' else ''Applied'') []),
         check ack_singbox_ok ''valid'', check ack_nft_ok ''valid'', check ack_health_ok ''healthy'',
         StatusBadge t (node_outcome acks nodeId),
         Txt (case ack of Some a \<Rightarrow> fm_date fm (Some (ack_received_at a)) | None \<Rightarrow> ''-'')])"

definition event_line :: "formats \<Rightarrow> ReleaseEvent \<Rightarrow> string" where
  "event_line fm e =
     ''['' @ fm_date fm (Some (evt_timestamp e)) @ ''] ['' @ evt_source e @ ''] '' @ evt_message e"

definition stage_item :: "translator \<Rightarrow> Release \<Rightarrow> nat \<Rightarrow> ('c, 'f) view" where
  "stage_item t release index =
     (let stage = releaseStages ! index; m = mark_of release index
      in Grp (case m of StageComplete \<Rightarrow> ''stage-complete'' | StageCurrent \<Rightarrow> ''stage-current'' | StageAhead \<Rightarrow> [])
        [Txt (if m = StageComplete then ''Check'' else show_nat (index + 1)),
         Txt (t (replace_char (CHR ''_'') '' '' stage) []),
         Txt (t (or_str (or_list (map_of stageDescriptionKeys stage)) []) [])])"

definition release_diff :: "Release \<Rightarrow> ReleaseDetail option \<Rightarrow> json" where
  "release_diff release detail =
     (let fallback = JObj [(''desired_release_id'', JStr (rel_desired_release_id release)),
            (''previous_release_id'', case rel_previous_release_id release of None \<Rightarrow> JNull | Some p \<Rightarrow> JStr p)]
      in case detail of
           None \<Rightarrow> fallback
         | Some d \<Rightarrow> (case rd_task d of
                       None \<Rightarrow> fallback
                     | Some tk \<Rightarrow> if task_result tk \<in> set [JNull, JBool False, JNum 0, JStr []] then fallback else task_result tk))"

definition release_kpis ::
    "translator \<Rightarrow> formats \<Rightarrow> Node list \<Rightarrow> Release \<Rightarrow> AgentAck list \<Rightarrow> ('c, 'f) view list" where
  "release_kpis t fm nodes release acks =
     [Txt (t ''ACK rate'' []),
      Txt (show_nat (length acks) @ '' / '' @ show_nat (length (rel_node_ids release)) @ '' '' @
           t ''{value}% acknowledged'' [(''value'', fm_number fm (Some (ackRate release acks)))]),
      Txt (t ''Target nodes acknowledged'' []), Txt (t ''Subscription'' []), Txt (subscription_label t release),
      Txt (or_str (releaseNodeNames release nodes) (t ''No nodes'' [])), Txt (t ''Core component status'' []),
      Txt (if rel_status release = ''succeeded'' then t ''Healthy'' [] else t (replace_char (CHR ''_'') '' '' (rel_stage release)) []),
      Txt (''sing-box '' @ [CHR 0xB7] @ '' nftables '' @ [CHR 0xB7] @ '' '' @ t ''health probe'' []), Txt (t ''Completed at'' []),
      Txt (if truthy_str (rel_finished_at release) then fm_date fm (rel_finished_at release) else t ''In progress'' []),
      Txt (if truthy_str (rel_finished_at release) then t ''Release completed'' [] else t ''Awaiting final ACK'' [])]"

datatype detail_click = ClickTab detail_tab | ClickCopyValue string string

definition detail_body ::
    "translator \<Rightarrow> formats \<Rightarrow> Node list \<Rightarrow> Release \<Rightarrow> ReleaseDetail option \<Rightarrow> detail_tab \<Rightarrow> ('c, 'f) view list" where
  "detail_body t fm nodes release detail tab =
     (let acks = ackItems detail; events = localized_events t detail
      in case tab of
           TabNodes \<Rightarrow>
             map (\<lambda>h. Txt (t h [])) [''Target node'', ''Version state'', ''Component checks'', ''ACK'', ''Elapsed''] @
             map (release_node_row t fm nodes acks) (rel_node_ids release) @
             [Txt (t ''Node execution and probe trace'' []),
              StatusBadge t (if rel_status release = ''succeeded'' then ''archived'' else ''running''),
              Txt (or_str (join [CHR 0x0A] (map (event_line fm) events)) (t ''Waiting for execution events...'' []))]
         | TabTrace \<Rightarrow>
             map (\<lambda>e. Grp ''release-trace-event'' [Txt (fm_date fm (Some (evt_timestamp e))), Txt (evt_source e), Txt (evt_message e)]) events
         | TabDiff \<Rightarrow> [Txt (json_pretty 0 (release_diff release detail))])"

definition ReleaseDetailView ::
    "translator \<Rightarrow> formats \<Rightarrow> release_text \<Rightarrow> int \<Rightarrow> Release \<Rightarrow> ReleaseDetail option \<Rightarrow> string \<Rightarrow> Node list \<Rightarrow> bool
       \<Rightarrow> string option \<Rightarrow> release_view \<Rightarrow> (detail_click, 'f) view" where
  "ReleaseDetailView t fm rt now release detail siteName nodes loading err s =
     (let acks = ackItems detail; desired = release_desired_version acks;
          task_id = (case rel_task_id release of None \<Rightarrow> [] | Some i \<Rightarrow> i)
      in if loading \<and> detail = None then LoadingState t 7
         else if err \<noteq> None \<and> detail = None then ErrorState t (the err) None
         else Grp ''release-workbench-detail''
           ([Txt (t ''RELEASE'' []), Txt (releasePathLabel rt release nodes t),
             StatusBadge t (if rel_status release = ''succeeded'' then ''published'' else rel_status release),
             ReleaseCategories t release, Txt siteName,
             Txt (t ''Version flow'' [] @ '': v'' @ fm_number fm (Some (max 0 (desired - 1))) @ rt_arrow rt @ ''v'' @
                  fm_number fm (Some desired)),
             Txt (t ''Elapsed'' [] @ '': '' @ elapsed_text rt fm now release)] @
            release_kpis t fm nodes release acks @
            map (stage_item t release) [0..<length releaseStages] @
            [Btn (t ''Nodes and probes'' [] @ '' '' @ show_nat (length (rel_node_ids release))) False (ClickTab TabNodes),
             Btn (t ''Full trace'' []) False (ClickTab TabTrace), Btn (t ''Config diff'' []) False (ClickTab TabDiff),
             Txt (t ''Live coordination'' [])] @
            detail_body t fm nodes release detail (activeTab s) @
            [Txt (t ''Release ID'' [] @ '' '' @ shortHash (rel_release_id release) 18),
             Btn (if copied_label s = ''release'' then ''Check'' else ''Clipboard'') False (ClickCopyValue (rel_release_id release) ''release''),
             Txt (t ''Task ID'' [] @ '' '' @ shortHash (or_str task_id ''-'') 18),
             Btn (if copied_label s = ''task'' then ''Check'' else ''Clipboard'') False (ClickCopyValue task_id ''task''),
             Txt (t ''Baseline'' [] @ '': '' @ shortHash (or_str (case rel_previous_release_id release of None \<Rightarrow> [] | Some p \<Rightarrow> p) ''-'') 14),
             Txt (t ''Coordination'' [] @ '': '' @
                  (if rel_status release = ''succeeded'' then t ''Converged'' [] else t (rel_status release) [])),
             Txt (t ''Trigger'' [] @ '': '' @
                  t (case detail of None \<Rightarrow> ''Manual''
                     | Some d \<Rightarrow> (case rd_task d of None \<Rightarrow> ''Manual'' | Some tk \<Rightarrow> or_str (task_task_type tk) ''Manual'')) [])]))"

definition rule_line :: "SourceBlacklistRule \<Rightarrow> string" where
  "rule_line r = direction_text (sbr_direction r) @ '': '' @ entry_kind_text (sbr_kind r) @ '' '' @ sbr_pattern r"

definition DraftDetail :: "translator \<Rightarrow> formats \<Rightarrow> Draft \<Rightarrow> string \<Rightarrow> 'c \<Rightarrow> ('c, 'f) view" where
  "DraftDetail t fm draft siteName onPublish =
     (let v = draft_validation draft;
          sourceRules = (case dv_blacklist v of Some rs \<Rightarrow> rs | None \<Rightarrow> or_list (dv_source_blacklist v))
      in Grp ''release-detail''
        [Txt (t ''DRAFT'' []), Txt siteName,
         Txt (t (''Source revision v{revision} '' @ [CHR 0xB7] @ '' expires {date}'')
           [(''revision'', fm_number fm (Some (draft_source_revision draft))), (''date'', fm_date fm (Some (draft_expires_at draft)))]),
         Btn (t ''Publish'' []) False onPublish,
         Txt (t ''Risk'' []), StatusBadge t (draft_risk_level draft),
         Txt (t ''Validation'' []), StatusBadge t (if dv_valid v = Some False then ''failed'' else ''valid''),
         Txt (t ''Targets'' []), Txt (t ''{count} nodes'' [(''count'', number_of fm (length (draft_node_ids draft)))]),
         Txt (t ''STRUCTURED DIFF'' []), Txt (json_pretty 0 (draft_diff draft)),
         Txt (t ''Effective source blacklist'' []),
         Txt (or_str (join [CHR 0x0A] (map rule_line sourceRules)) (t ''No source blacklist rules'' []))])"

section \<open>Lemmas\<close>

lemma stage_index_bound: "stage_index x xs = Some i \<Longrightarrow> i < length xs \<and> xs ! i = x"
  by (induction xs arbitrary: i) (auto split: if_splits)

lemma stagePosition_bound: "stagePosition stage < length releaseStages"
  by (auto simp: stagePosition_def releaseStages_def dest: stage_index_bound split: option.splits)

lemma release_position_bound: "release_position release < length releaseStages"
  using stagePosition_bound by (simp add: release_position_def releaseStages_def)

lemma can_use_release_parts [simp]:
  "can_click (release_node_row t fm nodes acks i) c \<longleftrightarrow> False"
  "can_click (stage_item t release k) c \<longleftrightarrow> False"
  "can_click (ReleaseCategories t release) c \<longleftrightarrow> False"
  "can_click (DraftDetail t fm draft site p) c' \<longleftrightarrow> c' = p"
  "can_edit (DraftDetail t fm draft site p) f x \<longleftrightarrow> False"
  by (auto simp: release_node_row_def stage_item_def ReleaseCategories_def DraftDetail_def Let_def list_ex_iff)

lemma marks_at:
  assumes "release_position release = k" "k < 6"
  shows "stage_marks release =
     (if rel_status release = ''succeeded'' then replicate (Suc k) StageComplete @ replicate (5 - k) StageAhead
      else replicate k StageComplete @ StageCurrent # replicate (5 - k) StageAhead)"
  using assms
  by (intro nth_equalityI)
     (auto simp: stage_marks_def mark_of_def releaseStages_def nth_append nth_Cons' Let_def)

lemma node_outcome_pending:
  "node_outcome acks i = ''pending'' \<longleftrightarrow> i \<notin> ack_node_id ` set acks"
  by (auto simp: node_outcome_def ack_of_def split: option.splits dest!: find_first_Some)

text \<open>The quotient and the product are rounded to doubles; the rounding does not leave the range of a
  percentage and is exact at its ends.\<close>

lemma ackRate_bound:
  assumes "length acks \<le> length (rel_node_ids release)"
  shows "0 \<le> ackRate release acks \<and> ackRate release acks \<le> 100"
proof -
  define r where "r = (of_nat (length acks) / of_nat (length (rel_node_ids release)) :: rat)"
  have "0 \<le> r" "r \<le> 1"
    using assms by (auto simp: r_def divide_le_eq_1)
  then have "0 \<le> dbl r" "dbl r \<le> 1" using dbl_nonneg [of r] dbl_le_nat [of r 1] by auto
  then have "0 \<le> dbl (dbl r * 100)" "dbl (dbl r * 100) \<le> 100"
    using dbl_nonneg [of "dbl r * 100"] dbl_le_nat [of "dbl r * 100" 100] by auto
  then show ?thesis
    using math_round_bounds(1) [of "dbl (dbl r * 100)"] math_round_bounds(2) [of "dbl (dbl r * 100)" 100]
    by (simp add: ackRate_def r_def [symmetric])
qed

lemma dbl_hundred:
  "math_round (dbl (dbl 1 * 100)) = 100" "math_round (dbl (dbl 2 * 100)) = 200" "math_round 0 = 0"
  by code_simp+

lemma ackRate_ends:
  "rel_node_ids release \<noteq> [] \<Longrightarrow> length acks = length (rel_node_ids release) \<Longrightarrow> ackRate release acks = 100"
  "ackRate release [] = 0"
  by (simp_all add: ackRate_def dbl_hundred)

text \<open>With more acknowledgements than nodes, as when the acknowledgements of another release are still on
  display, the number is no percentage.\<close>

lemma ackRate_beyond: "length (rel_node_ids release) = 1 \<Longrightarrow> ackRate release [a, b] = 200"
  by (cases "rel_node_ids release") (simp_all add: ackRate_def dbl_hundred)

section \<open>Properties\<close>

text \<open>C30: the pipeline of a release reads from left to right: the stages up to its position are complete,
  then at most one stage is current, and all others lie ahead; a release that succeeded has no current
  stage, any other has exactly one, which is the fifth for a failed release; every target node is
  pending exactly as long as it has not acknowledged.  Provided that there are at most as many acknowledgements as nodes, the rate of
  acknowledgement is a percentage; it is 0 without acknowledgements and 100 when there are as many as nodes.\<close>

theorem release_pipeline_ordered:
  "(\<exists>k < 6. stage_marks release =
      (if rel_status release = ''succeeded'' then replicate (Suc k) StageComplete @ replicate (5 - k) StageAhead
       else replicate k StageComplete @ StageCurrent # replicate (5 - k) StageAhead) \<and>
      (rel_status release = ''failed'' \<longrightarrow> k = 4) \<and>
      (rel_status release \<noteq> ''failed'' \<and> rel_stage release \<in> set releaseStages \<longrightarrow>
         releaseStages ! k = rel_stage release)) \<and>
   (node_outcome acks i = ''pending'' \<longleftrightarrow> i \<notin> ack_node_id ` set acks) \<and>
   (length acks \<le> length (rel_node_ids release) \<longrightarrow> 0 \<le> ackRate release acks \<and> ackRate release acks \<le> 100) \<and>
   (rel_node_ids release \<noteq> [] \<and> length acks = length (rel_node_ids release) \<longrightarrow> ackRate release acks = 100) \<and>
   ackRate release [] = 0"
proof -
  have bound: "release_position release < 6"
    using release_position_bound [of release] by (simp add: releaseStages_def)
  have at: "releaseStages ! release_position release = rel_stage release"
    if "rel_status release \<noteq> ''failed''" "rel_stage release \<in> set releaseStages"
    using that by (auto simp: release_position_def stagePosition_def releaseStages_def)
  have "rel_status release = ''failed'' \<Longrightarrow> release_position release = 4"
    by (simp add: release_position_def releaseStages_def)
  with bound at show ?thesis
    using marks_at [OF refl bound] node_outcome_pending ackRate_bound ackRate_ends by blast
qed

definition failed_release :: Release where
  "failed_release = \<lparr>rel_release_id = ''r1'', rel_site_id = ''a'', rel_node_ids = [''n1''], rel_desired_release_id = ''r1'',
     rel_previous_release_id = None, rel_task_id = None, rel_status = ''failed'', rel_stage = ''failed'', rel_progress = 0,
     rel_error = [], rel_rollback_reason = [], rel_started_at = None, rel_finished_at = None, rel_created_at = [],
     rel_subscription_name = [], rel_subscription_source_id = [], rel_change_categories = None\<rparr>"

theorem release_pipeline_ordered_witness:
  "stage_marks failed_release = replicate 4 StageComplete @ [StageCurrent, StageAhead] \<and> node_outcome [] ''n1'' = ''pending''"
  using release_pipeline_ordered [of failed_release "[]" "''n1''"]
  by (auto simp: failed_release_def numeral_eq_Suc)

end
