(* ===== verification/Releases_Page.thy ===== *)
theory Releases_Page
  imports Release_Detail Keyed_Query Endpoints
begin

text \<open>
  Drafts and releases: \<^verbatim>\<open>src/frontend/app/releases/page.tsx\<close> around its detail panel.  A draft or a release can
  be selected in the address of the page; the query of the requested release has no placeholder, the
  others keep the previous data (see \<^verbatim>\<open>Keyed_Query\<close>).  \<open>gen\<close> makes idempotency keys and \<open>now\<close> is the clock.
\<close>

section \<open>Filters\<close>

datatype RangeFilter = Last24h | Last7d | Last30d | AllTime

fun range_filter_text :: "RangeFilter \<Rightarrow> string" where
  "range_filter_text Last24h = ''24h''"
| "range_filter_text Last7d = ''7d''"
| "range_filter_text Last30d = ''30d''"
| "range_filter_text AllTime = ''all''"

definition range_filter_of :: "string \<Rightarrow> RangeFilter option" where
  "range_filter_of v = find_first (\<lambda>r. range_filter_text r = v) [Last24h, Last7d, Last30d, AllTime]"

definition rangeStart :: "int \<Rightarrow> RangeFilter \<Rightarrow> string option" where
  "rangeStart now r =
     (if r = AllTime then None
      else (let hours = (if r = Last24h then 24 else if r = Last7d then 24 * 7 else 24 * 30)
            in Some (toISOString (now - hours * 60 * 60 * 1000))))"

section \<open>State\<close>

datatype ReleaseListView = ListDrafts | ListHistory

type_synonym release_key = "string \<times> string \<times> string option"

record releases_page =
  rp_draftId :: "string option"
  rp_releaseId :: "string option"
  publishTarget :: "Draft option"
  listView :: ReleaseListView
  rp_siteFilter :: string
  rp_statusFilter :: string
  rp_rangeFilter :: RangeFilter
  rp_clock :: int
  rp_since :: "string option"
  rp_drafts :: "Draft list query"
  rp_releases :: "(release_key, Release list) keyed_query"
  requestedRelease :: "(string option, Release) keyed_query"
  rp_sites :: "Site list query"
  rp_nodes :: "Node list query"
  releaseDetail :: "(string option, ReleaseDetail) keyed_query"
  rp_publish :: "(Draft \<times> api_call, Release) mutation"
  rp_created :: "Release option"
  rp_replaced :: "string list"
  rp_view :: release_view

definition draftItems :: "releases_page \<Rightarrow> Draft list" where
  "draftItems s = query_list (rp_drafts s)"

definition releaseItems :: "releases_page \<Rightarrow> Release list" where
  "releaseItems s = or_list (kq_shown (rp_releases s))"

definition selectedDraft :: "releases_page \<Rightarrow> Draft option" where
  "selectedDraft s = find_first (\<lambda>d. Some (draft_id d) = rp_draftId s) (draftItems s)"

definition selectedRelease :: "releases_page \<Rightarrow> Release option" where
  "selectedRelease s =
     (if truthy_str (rp_releaseId s) then kq_own (requestedRelease s)
      else if truthy_str (rp_draftId s) then None
      else head_opt (releaseItems s))"

definition rp_releases_key :: "releases_page \<Rightarrow> release_key" where
  "rp_releases_key s = (rp_siteFilter s, rp_statusFilter s, rp_since s)"

definition rp_failed :: "releases_page \<Rightarrow> string option" where
  "rp_failed s = first_error [q_error (rp_drafts s), kq_error (rp_releases s), q_error (rp_sites s)]"

definition rp_loading :: "releases_page \<Rightarrow> bool" where
  "rp_loading s \<longleftrightarrow>
     q_loading (rp_drafts s) \<or> kq_loading (rp_releases s) \<or> q_loading (rp_sites s) \<or> q_loading (rp_nodes s)"

definition requested_error :: "releases_page \<Rightarrow> string option" where
  "requested_error s = (if truthy_str (rp_releaseId s) then kq_error (requestedRelease s) else None)"

text \<open>Whether the detail of a release is on the page; when it leaves the page its state is lost.\<close>

definition detail_mounted :: "releases_page \<Rightarrow> bool" where
  "detail_mounted s \<longleftrightarrow>
     \<not> rp_loading s \<and> rp_failed s = None \<and> requested_error s = None \<and> selectedDraft s = None \<and> selectedRelease s \<noteq> None"

definition view_fresh :: "release_view \<Rightarrow> release_view" where
  "view_fresh v = v\<lparr>activeTab := TabNodes, copied_label := [], rv_timers := 0\<rparr>"

text \<open>A render: every query takes the key the state gives it.\<close>

definition rp_render :: "releases_page \<Rightarrow> releases_page" where
  "rp_render s =
     (let s1 = s\<lparr>rp_releases := kq_switch (rp_releases_key s) (rp_releases s),
                 requestedRelease := kq_switch (rp_releaseId s) (requestedRelease s)\<rparr>;
          s2 = s1\<lparr>releaseDetail := kq_switch (map_option rel_release_id (selectedRelease s1)) (releaseDetail s)\<rparr>
      in if detail_mounted s2 then s2 else s2\<lparr>rp_view := view_fresh (rp_view s2)\<rparr>)"

definition releases_init :: "int \<Rightarrow> string option \<Rightarrow> string option \<Rightarrow> page \<Rightarrow> releases_page" where
  "releases_init now draft release pg =
     rp_render
       \<lparr>rp_draftId = draft, rp_releaseId = release, publishTarget = None,
        listView = (if truthy_str draft then ListDrafts else ListHistory),
        rp_siteFilter = [], rp_statusFilter = [], rp_rangeFilter = Last30d, rp_clock = now, rp_since = rangeStart now Last30d,
        rp_drafts = empty_query, rp_releases = kq_init ([], [], rangeStart now Last30d), requestedRelease = kq_init release,
        rp_sites = empty_query, rp_nodes = empty_query, releaseDetail = kq_init None, rp_publish = MutIdle,
        rp_created = None, rp_replaced = [],
        rp_view = \<lparr>activeTab = TabNodes, copied_label = [], rv_timers = 0, rv_page = pg, rv_toasts = []\<rparr>\<rparr>"

section \<open>Publishing\<close>

definition publish_call :: "key_gen \<Rightarrow> Draft \<Rightarrow> api_call" where
  "publish_call gen draft =
     publishRelease gen (draft_id draft) (draft_site_id draft) (Some (draft_node_ids draft)) None
       (Some ''Published from operations console'')"

definition release_confirm :: "key_gen \<Rightarrow> releases_page \<Rightarrow> releases_page" where
  "release_confirm gen s =
     (case publishTarget s of None \<Rightarrow> s | Some d \<Rightarrow> s\<lparr>rp_publish := MutPending (d, publish_call gen d)\<rparr>)"

text \<open>The confirmation closes when the release exists; the mutation stays pending while its success handler
  has the lists read again, and then the page goes to the release.\<close>

definition publish_settled :: "string + Release \<Rightarrow> releases_page \<Rightarrow> releases_page" where
  "publish_settled result s =
     (if \<not> mut_pending (rp_publish s) \<or> rp_created s \<noteq> None then s
      else case result of
             Inr r \<Rightarrow> s\<lparr>publishTarget := None, rp_created := Some r\<rparr>
           | Inl e \<Rightarrow> s\<lparr>rp_publish := MutError e\<rparr>)"

definition lists_invalidated :: "releases_page \<Rightarrow> releases_page" where
  "lists_invalidated s =
     (case rp_created s of
        None \<Rightarrow> s
      | Some r \<Rightarrow> s\<lparr>rp_created := None, rp_publish := MutSuccess r,
                    rp_replaced := rp_replaced s @ [''/releases?release='' @ rel_release_id r]\<rparr>)"

section \<open>What is rendered\<close>

datatype releases_click =
    ClickListView ReleaseListView
  | ClickOpenDraft Draft
  | ClickOpenRelease Release
  | ClickAskPublish Draft
  | ClickCancelPublish
  | ClickConfirmPublish
  | ClickListRetry
  | ClickRequestedRetry
  | ClickDetail detail_click

datatype releases_field = FieldReleaseSite | FieldReleaseState | FieldReleaseRange

definition rp_site_name :: "translator \<Rightarrow> releases_page \<Rightarrow> string \<Rightarrow> string" where
  "rp_site_name t s i = t (name_or site_id site_name (query_list (rp_sites s)) i) []"

definition openDrafts :: "releases_page \<Rightarrow> Draft list" where
  "openDrafts s =
     filter (\<lambda>d. draft_status d = ''draft'' \<and> (rp_siteFilter s = [] \<or> draft_site_id d = rp_siteFilter s)) (draftItems s)"

definition draft_list_row :: "translator \<Rightarrow> formats \<Rightarrow> releases_page \<Rightarrow> Draft \<Rightarrow> (releases_click, 'f) view" where
  "draft_list_row t fm s d =
     Grp (if map_option draft_id (selectedDraft s) = Some (draft_id d) then ''release-row release-row-selected'' else ''release-row '')
       [Btn (rp_site_name t s (draft_site_id d)) False (ClickOpenDraft d),
        Txt (t (''Revision v{revision} '' @ [CHR 0xB7] @ '' {date}'')
          [(''revision'', fm_number fm (Some (draft_source_revision d))), (''date'', fm_date fm (Some (draft_created_at d)))]),
        StatusBadge t (draft_risk_level d), Btn (t ''Publish'' []) False (ClickAskPublish d)]"

definition release_list_row ::
    "translator \<Rightarrow> formats \<Rightarrow> release_text \<Rightarrow> releases_page \<Rightarrow> Release \<Rightarrow> (releases_click, 'f) view" where
  "release_list_row t fm rt s r =
     Grp (if map_option rel_release_id (selectedRelease s) = Some (rel_release_id r) then ''release-row-selected'' else [])
       [Btn (releasePathLabel rt r (query_list (rp_nodes s)) t) False (ClickOpenRelease r), ReleaseCategories t r,
        Txt (rp_site_name t s (rel_site_id r) @ '' '' @ [CHR 0xB7] @ '' '' @ fm_date fm (Some (rel_created_at r))),
        StatusBadge t (rel_status r)]"

definition release_lists ::
    "translator \<Rightarrow> formats \<Rightarrow> release_text \<Rightarrow> releases_page \<Rightarrow> (releases_click, 'f) view list" where
  "release_lists t fm rt s =
     (case listView s of
        ListDrafts \<Rightarrow>
          if openDrafts s \<noteq> [] then map (draft_list_row t fm s) (openDrafts s)
          else [EmptyState t ''No publishable drafts'' (Some ''Create a configuration draft from a site workspace.'') []]
      | ListHistory \<Rightarrow>
          if releaseItems s \<noteq> [] then map (release_list_row t fm rt s) (releaseItems s)
          else [EmptyState t ''No releases recorded'' None []])"

definition detail_panel ::
    "translator \<Rightarrow> formats \<Rightarrow> release_text \<Rightarrow> int \<Rightarrow> releases_page \<Rightarrow> (releases_click, 'f) view" where
  "detail_panel t fm rt now s =
     (case (selectedDraft s, selectedRelease s) of
        (Some d, _) \<Rightarrow> DraftDetail t fm d (rp_site_name t s (draft_site_id d)) (ClickAskPublish d)
      | (None, Some r) \<Rightarrow>
          map_view ClickDetail id
            (ReleaseDetailView t fm rt now r (kq_shown (releaseDetail s)) (rp_site_name t s (rel_site_id r))
               (query_list (rp_nodes s)) (kq_loading (releaseDetail s)) (kq_error (releaseDetail s)) (rp_view s))
      | (None, None) \<Rightarrow>
          if truthy_str (rp_releaseId s) then LoadingState t 7
          else EmptyState t ''Select a draft or release'' (Some ''Its diff and node reconciliation appear here.'') [])"

definition publish_dialog :: "translator \<Rightarrow> releases_page \<Rightarrow> (releases_click, 'f) view" where
  "publish_dialog t s =
     ConfirmDialog t (publishTarget s \<noteq> None) ''Publish configuration draft''
       (case publishTarget s of
          None \<Rightarrow> []
        | Some d \<Rightarrow> t ''Create a desired release for {site}. Nodes apply it independently and may still reject or roll back the change.''
                     [(''site'', rp_site_name t s (draft_site_id d))])
       ''Publish release'' (mut_pending (rp_publish s)) ClickCancelPublish ClickConfirmPublish []"

definition release_filters :: "translator \<Rightarrow> formats \<Rightarrow> releases_page \<Rightarrow> (releases_click, releases_field) view list" where
  "release_filters t fm s =
     [Txt (t ''Filter releases'' []), Txt (t ''{count} shown'' [(''count'', number_of fm (length (releaseItems s)))]),
      FilterSelect t ''Site'' (rp_siteFilter s) FieldReleaseSite (all_or_one ''All sites'' site_id site_name (query_list (rp_sites s))),
      FilterSelect t ''State'' (rp_statusFilter s) FieldReleaseState
        [([], ''All states''), (''applying'', ''applying''), (''succeeded'', ''succeeded''), (''failed'', ''failed'')],
      FilterSelect t ''Time range'' (range_filter_text (rp_rangeFilter s)) FieldReleaseRange
        [(''24h'', ''Last 24 hours''), (''7d'', ''Last 7 days''), (''30d'', ''Last 30 days''), (''all'', ''All time'')],
      Btn (t ''Drafts'' []) False (ClickListView ListDrafts), Btn (t ''Release history'' []) False (ClickListView ListHistory)]"

text \<open>The confirmation is modal: while it is open nothing behind it can be used.\<close>

definition ReleasesWorkspace ::
    "translator \<Rightarrow> formats \<Rightarrow> release_text \<Rightarrow> int \<Rightarrow> bool option \<Rightarrow> releases_page \<Rightarrow> (releases_click, releases_field) view" where
  "ReleasesWorkspace t fm rt now session s =
     gated t 9 session
      (guarded t 9 (rp_loading s) (rp_failed s) ClickListRetry
        (guarded t 9 False (requested_error s) ClickRequestedRetry
          (Grp ''releases-page''
            [fieldset (publishTarget s \<noteq> None)
              (Grp ''release-workspace''
                ([PageHeader t (Some ''DEPLOY'') ''Recent releases''
                    (Some ''Review desired state, node ACKs, and the path from draft to applied configuration.'') []] @
                 release_filters t fm s @ release_lists t fm rt s @ [detail_panel t fm rt now s])),
             publish_dialog t s])))"

section \<open>Events\<close>

fun releases_on_click :: "key_gen \<Rightarrow> releases_click \<Rightarrow> releases_page \<Rightarrow> releases_page" where
  "releases_on_click gen (ClickListView v) s = s\<lparr>listView := v\<rparr>"
| "releases_on_click gen (ClickOpenDraft d) s = s\<lparr>rp_replaced := rp_replaced s @ [''/releases?draft='' @ draft_id d]\<rparr>"
| "releases_on_click gen (ClickOpenRelease r) s = s\<lparr>rp_replaced := rp_replaced s @ [''/releases?release='' @ rel_release_id r]\<rparr>"
| "releases_on_click gen (ClickAskPublish d) s = s\<lparr>publishTarget := Some d\<rparr>"
| "releases_on_click gen ClickCancelPublish s = s\<lparr>publishTarget := None\<rparr>"
| "releases_on_click gen ClickConfirmPublish s = release_confirm gen s"
| "releases_on_click gen ClickListRetry s = rp_render (s\<lparr>rp_releases := kq_refetch (rp_releases s)\<rparr>)"
| "releases_on_click gen ClickRequestedRetry s = rp_render (s\<lparr>requestedRelease := kq_refetch (requestedRelease s)\<rparr>)"
| "releases_on_click gen (ClickDetail (ClickTab tab)) s = s\<lparr>rp_view := (rp_view s)\<lparr>activeTab := tab\<rparr>\<rparr>"
| "releases_on_click gen (ClickDetail (ClickCopyValue v l)) s = s"

text \<open>A choice in the filters: the boundary of the range is computed when the range changes, and stays.\<close>

fun releases_on_edit :: "releases_field \<Rightarrow> string \<Rightarrow> releases_page \<Rightarrow> releases_page" where
  "releases_on_edit FieldReleaseSite v s = rp_render (s\<lparr>rp_siteFilter := v\<rparr>)"
| "releases_on_edit FieldReleaseState v s = rp_render (s\<lparr>rp_statusFilter := v\<rparr>)"
| "releases_on_edit FieldReleaseRange v s =
     (case range_filter_of v of
        None \<Rightarrow> s
      | Some r \<Rightarrow>
          if r = rp_rangeFilter s then s
          else rp_render (s\<lparr>rp_rangeFilter := r, rp_since := rangeStart (rp_clock s) r\<rparr>))"

definition list_view_effect :: "releases_page \<Rightarrow> releases_page" where
  "list_view_effect s =
     (if truthy_str (rp_draftId s) then s\<lparr>listView := ListDrafts\<rparr>
      else if truthy_str (rp_releaseId s) then s\<lparr>listView := ListHistory\<rparr> else s)"

datatype releases_message =
    ReleaseUrl "string option" "string option"
  | ClockTick int
  | DraftsLoaded "Draft list query"
  | SitesLoaded "Site list query"
  | NodesLoaded "Node list query"
  | ReleasesAnswer release_key "string + Release list"
  | RequestedAnswer string "string + Release"
  | DetailAnswer string "string + ReleaseDetail"
  | PublishSettled "string + Release"
  | ListsInvalidated
  | DetailCopied translator clipboard_api copy_command string string
  | DetailCopyTimer

fun releases_on_message :: "releases_message \<Rightarrow> releases_page \<Rightarrow> releases_page" where
  "releases_on_message (ReleaseUrl d r) s =
     (if d = rp_draftId s \<and> r = rp_releaseId s then s
      else list_view_effect (rp_render (s\<lparr>rp_draftId := d, rp_releaseId := r\<rparr>)))"
| "releases_on_message (ClockTick now) s = s\<lparr>rp_clock := now\<rparr>"
| "releases_on_message (DraftsLoaded q) s = rp_render (s\<lparr>rp_drafts := q\<rparr>)"
| "releases_on_message (SitesLoaded q) s = rp_render (s\<lparr>rp_sites := q\<rparr>)"
| "releases_on_message (NodesLoaded q) s = rp_render (s\<lparr>rp_nodes := q\<rparr>)"
| "releases_on_message (ReleasesAnswer k r) s = rp_render (s\<lparr>rp_releases := kq_answer k r (rp_releases s)\<rparr>)"
| "releases_on_message (RequestedAnswer i r) s = rp_render (s\<lparr>requestedRelease := kq_answer (Some i) r (requestedRelease s)\<rparr>)"
| "releases_on_message (DetailAnswer i r) s = rp_render (s\<lparr>releaseDetail := kq_answer (Some i) r (releaseDetail s)\<rparr>)"
| "releases_on_message (PublishSettled r) s = publish_settled r s"
| "releases_on_message ListsInvalidated s = lists_invalidated s"
| "releases_on_message (DetailCopied t api cmd v l) s = s\<lparr>rp_view := release_copied t api cmd v l (rp_view s)\<rparr>"
| "releases_on_message DetailCopyTimer s = s\<lparr>rp_view := release_copy_timer (rp_view s)\<rparr>"

section \<open>Lemmas\<close>

lemma can_click_map_view [simp]:
  "can_click (map_view f g v) c \<longleftrightarrow> (\<exists>c'. can_click v c' \<and> f c' = c)"
  by (induction v) (auto simp: list_ex_iff)

lemma can_edit_map_view [simp]: "can_edit (map_view f id v) fld x \<longleftrightarrow> can_edit v fld x"
  by (induction v) (auto simp: list_ex_iff)

text \<open>A render leaves the state of the page alone but for the keys of its queries.\<close>

lemma rp_render_frame [simp]:
  "rp_draftId (rp_render s) = rp_draftId s" "rp_releaseId (rp_render s) = rp_releaseId s"
  "publishTarget (rp_render s) = publishTarget s" "rp_publish (rp_render s) = rp_publish s"
  "rp_drafts (rp_render s) = rp_drafts s" "rp_created (rp_render s) = rp_created s"
  "rp_replaced (rp_render s) = rp_replaced s" "rp_siteFilter (rp_render s) = rp_siteFilter s"
  "rp_sites (rp_render s) = rp_sites s" "rp_nodes (rp_render s) = rp_nodes s"
  "requestedRelease (rp_render s) = kq_switch (rp_releaseId s) (requestedRelease s)"
  "rp_releases (rp_render s) = kq_switch (rp_releases_key s) (rp_releases s)"
  by (simp_all add: rp_render_def Let_def)

lemma list_view_frame [simp]:
  "rp_releaseId (list_view_effect s) = rp_releaseId s" "publishTarget (list_view_effect s) = publishTarget s"
  "requestedRelease (list_view_effect s) = requestedRelease s" "rp_publish (list_view_effect s) = rp_publish s"
  "releaseDetail (list_view_effect s) = releaseDetail s" "rp_created (list_view_effect s) = rp_created s" "selectedRelease (list_view_effect s) = selectedRelease s"
  by (simp_all add: list_view_effect_def selectedRelease_def releaseItems_def)

lemma releaseDetail_render:
  "releaseDetail (rp_render s) = kq_switch (map_option rel_release_id (selectedRelease (rp_render s))) (releaseDetail s)"
  by (simp add: rp_render_def Let_def selectedRelease_def releaseItems_def)

text \<open>What the control plane may answer: \<open>P i r\<close> says that \<open>r\<close> is a release it returns for the identifier \<open>i\<close>,
  \<open>Q i d\<close> that \<open>d\<close> is a detail it returns.\<close>

fun served :: "(string \<Rightarrow> Release \<Rightarrow> bool) \<Rightarrow> (string \<Rightarrow> ReleaseDetail \<Rightarrow> bool) \<Rightarrow> releases_message \<Rightarrow> bool" where
  "served P Q (RequestedAnswer i (Inr r)) \<longleftrightarrow> P i r"
| "served P Q (DetailAnswer i (Inr d)) \<longleftrightarrow> Q i d"
| "served P Q _ \<longleftrightarrow> True"

definition served_message ::
    "(string \<Rightarrow> Release \<Rightarrow> bool) \<Rightarrow> (string \<Rightarrow> ReleaseDetail \<Rightarrow> bool) \<Rightarrow> releases_message \<Rightarrow> releases_page \<Rightarrow> releases_page" where
  "served_message P Q m s = (if served P Q m then releases_on_message m s else s)"

definition answers :: "('k \<Rightarrow> 'd \<Rightarrow> bool) \<Rightarrow> 'k option \<Rightarrow> 'd \<Rightarrow> bool" where
  "answers P k d \<longleftrightarrow> (\<exists>i. k = Some i \<and> P i d)"

definition publish_pending :: "key_gen \<Rightarrow> (Draft \<times> api_call, Release) mutation \<Rightarrow> bool" where
  "publish_pending gen m \<longleftrightarrow> (case m of MutPending (d, c) \<Rightarrow> c = publish_call gen d | _ \<Rightarrow> True)"

definition releases_inv ::
    "(string \<Rightarrow> Release \<Rightarrow> bool) \<Rightarrow> (string \<Rightarrow> ReleaseDetail \<Rightarrow> bool) \<Rightarrow> key_gen \<Rightarrow> releases_page \<Rightarrow> bool" where
  "releases_inv P Q gen s \<longleftrightarrow>
     kq_key (requestedRelease s) = rp_releaseId s \<and> kq_answered (answers P) (requestedRelease s) \<and>
     kq_key (releaseDetail s) = map_option rel_release_id (selectedRelease s) \<and> kq_answered (answers Q) (releaseDetail s) \<and>
     publish_pending gen (rp_publish s) \<and> (rp_created s \<noteq> None \<longrightarrow> mut_pending (rp_publish s))"

lemma render_inv:
  assumes "kq_answered (answers P) (requestedRelease s)" "kq_answered (answers Q) (releaseDetail s)"
    "publish_pending gen (rp_publish s)" "rp_created s \<noteq> None \<Longrightarrow> mut_pending (rp_publish s)"
  shows "releases_inv P Q gen (rp_render s)"
  using assms by (auto simp: releases_inv_def releaseDetail_render intro: kq_answered_kept)

lemma releases_invD:
  assumes "releases_inv P Q gen s"
  shows "kq_answered (answers P) (requestedRelease s)" "kq_answered (answers Q) (releaseDetail s)"
    "publish_pending gen (rp_publish s)" "rp_created s \<noteq> None \<Longrightarrow> mut_pending (rp_publish s)"
  using assms by (auto simp: releases_inv_def)

lemma list_view_inv [simp]: "releases_inv P Q gen (list_view_effect s) = releases_inv P Q gen s"
  by (simp add: releases_inv_def)

lemmas releases_inv_parts = releases_inv_def selectedRelease_def releaseItems_def publish_pending_def

lemma releases_inv_click: "releases_inv P Q gen s \<Longrightarrow> releases_inv P Q gen (releases_on_click gen c s)"
  by (induction gen c s rule: releases_on_click.induct)
     (auto intro!: render_inv kq_answered_kept dest: releases_invD simp: release_confirm_def split: option.splits,
      auto simp: releases_inv_parts)

lemma releases_inv_edit: "releases_inv P Q gen s \<Longrightarrow> releases_inv P Q gen (releases_on_edit f v s)"
  by (cases f) (auto intro!: render_inv dest: releases_invD split: option.splits)

lemma answered_by: "(\<And>d. r = Inr d \<Longrightarrow> P i d) \<Longrightarrow> kq_answered (answers P) q \<Longrightarrow> kq_answered (answers P) (kq_answer (Some i) r q)"
  by (auto intro!: kq_answered_kept simp: answers_def)

lemma releases_inv_message: "releases_inv P Q gen s \<Longrightarrow> releases_inv P Q gen (served_message P Q m s)"
proof (cases m)
  case (PublishSettled r)
  assume "releases_inv P Q gen s"
  with PublishSettled show ?thesis
    by (auto simp: served_message_def publish_settled_def releases_inv_parts mut_settle_def Let_def
        split: sum.splits mutation.splits)
next
  case (RequestedAnswer i r)
  assume "releases_inv P Q gen s"
  with RequestedAnswer show ?thesis
    by (cases r) (auto simp: served_message_def dest: releases_invD intro!: render_inv answered_by)
next
  case (DetailAnswer i r)
  assume "releases_inv P Q gen s"
  with DetailAnswer show ?thesis
    by (cases r) (auto simp: served_message_def dest: releases_invD intro!: render_inv answered_by)
qed (auto simp: served_message_def lists_invalidated_def dest: releases_invD intro!: render_inv split: option.splits,
     auto simp: releases_inv_parts)

lemma releases_inv_init: "releases_inv P Q gen (releases_init now d r pg)"
  unfolding releases_init_def
  by (rule render_inv) (auto intro: kq_answered_kept simp: publish_pending_def)

interpretation rp: component "\<lambda>s. \<exists>now d r pg. s = releases_init now d r pg"
    "\<lambda>(t, fm, rt, now, session). ReleasesWorkspace t fm rt now session" "releases_on_click gen" releases_on_edit
    "served_message P Q" "releases_inv P Q gen"
  for P Q gen
  by unfold_locales (auto simp: releases_inv_init releases_inv_edit releases_inv_click releases_inv_message)

lemma selected_own:
  "rp_releaseId s = Some i \<Longrightarrow> i \<noteq> [] \<Longrightarrow> selectedRelease s = kq_own (requestedRelease s)"
  by (simp add: selectedRelease_def truthy_str_def)

section \<open>Properties\<close>

text \<open>C13: a release in the address of the page is authoritative: in every reachable state the selected
  release is an answer of the control plane for exactly that identifier; the panel then shows this
  release, together with the detail that is there; once the detail of this release has arrived it is the one that is shown
  and it is an answer for this release (until then the detail of the release before may still stand there).  No filter
  and no answer to the list of releases changes the selection; and while the release is loading the panel shows no
  release at all.\<close>

theorem requested_release_authoritative:
  assumes "rp.reachable gen P Q s" "rp_releaseId s = Some i" "i \<noteq> []"
  shows "(\<forall>r. selectedRelease s = Some r \<longrightarrow>
        P i r \<and>
        (selectedDraft s = None \<longrightarrow>
           detail_panel t fm rt now s =
             map_view ClickDetail id
               (ReleaseDetailView t fm rt now r (kq_shown (releaseDetail s)) (rp_site_name t s (rel_site_id r))
                  (query_list (rp_nodes s)) (kq_loading (releaseDetail s)) (kq_error (releaseDetail s)) (rp_view s))) \<and>
        (\<forall>d. kq_own (releaseDetail s) = Some d \<longrightarrow>
           kq_shown (releaseDetail s) = Some d \<and> Q (rel_release_id r) d)) \<and>
     selectedRelease (releases_on_edit f v s) = selectedRelease s \<and>
     selectedRelease (releases_on_message (ReleasesAnswer k a) s) = selectedRelease s \<and>
     (selectedDraft s = None \<and> selectedRelease s = None \<longrightarrow> detail_panel t fm rt now s = LoadingState t 7)"
proof (intro conjI)
  have inv: "releases_inv P Q gen s" by (rule rp.reachable_inv [OF assms(1)])
  note own = selected_own [OF assms(2,3)]
  have "P i r \<and> (\<forall>d. kq_own (releaseDetail s) = Some d \<longrightarrow> Q (rel_release_id r) d)" if "selectedRelease s = Some r" for r
    using that inv own assms(2) by (auto simp: releases_inv_def kq_answered_def answers_def)
  then show "\<forall>r. selectedRelease s = Some r \<longrightarrow>
        P i r \<and>
        (selectedDraft s = None \<longrightarrow>
           detail_panel t fm rt now s =
             map_view ClickDetail id
               (ReleaseDetailView t fm rt now r (kq_shown (releaseDetail s)) (rp_site_name t s (rel_site_id r))
                  (query_list (rp_nodes s)) (kq_loading (releaseDetail s)) (kq_error (releaseDetail s)) (rp_view s))) \<and>
        (\<forall>d. kq_own (releaseDetail s) = Some d \<longrightarrow>
           kq_shown (releaseDetail s) = Some d \<and> Q (rel_release_id r) d)"
    by (simp add: detail_panel_def kq_shown_own)
  have keep: "selectedRelease (rp_render s') = selectedRelease s"
    if "rp_releaseId s' = Some i" "requestedRelease s' = requestedRelease s" for s'
    using that inv own assms(2,3) selected_own [of "rp_render s'" i]
    by (simp add: releases_inv_def kq_switch_def)
  show "selectedRelease (releases_on_edit f v s) = selectedRelease s"
    using assms(2) by (cases f) (auto simp: keep split: option.splits)
  show "selectedRelease (releases_on_message (ReleasesAnswer k a) s) = selectedRelease s"
    using assms(2) by (auto simp: keep)
  show "selectedDraft s = None \<and> selectedRelease s = None \<longrightarrow> detail_panel t fm rt now s = LoadingState t 7"
    using assms(2,3) by (auto simp: detail_panel_def truthy_str_def)
qed

definition demo_release :: "string \<Rightarrow> Release" where
  "demo_release i = \<lparr>rel_release_id = i, rel_site_id = ''a'', rel_node_ids = [''n1''], rel_desired_release_id = i,
     rel_previous_release_id = None, rel_task_id = None, rel_status = ''applying'', rel_stage = ''queued'', rel_progress = 0,
     rel_error = [], rel_rollback_reason = [], rel_started_at = None, rel_finished_at = None, rel_created_at = [],
     rel_subscription_name = [], rel_subscription_source_id = [], rel_change_categories = None\<rparr>"

definition demo_releases :: releases_page where
  "demo_releases =
     served_message (\<lambda>i r. rel_release_id r = i) (\<lambda>_ _. True) (RequestedAnswer ''r7'' (Inr (demo_release ''r7'')))
       (releases_init 0 None (Some ''r7'') \<lparr>has_body = True, body_nodes = [], focused = None, clipboard_text = []\<rparr>)"


lemmas demo_releases_simps =
  demo_releases_def served_message_def releases_init_def selectedRelease_def truthy_str_def kq_switch_def kq_answer_def
  kq_init_def demo_release_def



definition demo_draft :: Draft where
  "demo_draft = \<lparr>draft_id = ''d1'', draft_site_id = ''a'', draft_node_ids = [''n1''], draft_source_revision = 1, draft_diff = JNull,
     draft_validation = \<lparr>dv_valid = Some True, dv_errors = None, dv_blacklist = None, dv_source_blacklist = None\<rparr>, draft_risk_level = ''low'',
     draft_status = ''draft'', draft_expires_at = [], draft_created_at = [], draft_updated_at = []\<rparr>"

definition demo_confirm :: releases_page where
  "demo_confirm =
     releases_on_click (\<lambda>_. ''k'') (ClickAskPublish demo_draft)
       (fold (served_message (\<lambda>i r. rel_release_id r = i) (\<lambda>_ _. True))
          [ReleaseUrl (Some ''d1'') None, DraftsLoaded (loaded [demo_draft]), SitesLoaded (loaded []), NodesLoaded (loaded []),
           ReleasesAnswer ([], [], rangeStart 0 Last30d) (Inr [])] demo_releases)"

lemmas demo_confirm_simps =
  demo_confirm_def demo_releases_simps ReleasesWorkspace_def publish_dialog_def rp_render_def rp_releases_key_def rp_loading_def
  rp_failed_def requested_error_def first_error_def loaded_def Let_def kq_loading_def kq_shown_def kq_latest_def keep_previous_def
  detail_mounted_def list_view_effect_def view_fresh_def empty_query_def detail_panel_def selectedDraft_def draftItems_def
  query_list_def find_first_def demo_draft_def

definition demo_detail :: ReleaseDetail where
  "demo_detail = \<lparr>rd_release = demo_release ''r7'', rd_task = None, rd_acknowledgements = [], rd_events = []\<rparr>"

abbreviation detail_of :: "string \<Rightarrow> ReleaseDetail \<Rightarrow> bool" where
  "detail_of i d \<equiv> rel_release_id (rd_release d) = i"

definition demo_detailed :: releases_page where
  "demo_detailed = fold (served_message (\<lambda>i r. rel_release_id r = i) detail_of)
     [RequestedAnswer ''r7'' (Inr (demo_release ''r7'')), DetailAnswer ''r7'' (Inr demo_detail)]
     (releases_init 0 None (Some ''r7'') \<lparr>has_body = True, body_nodes = [], focused = None, clipboard_text = []\<rparr>)"

theorem requested_release_authoritative_witness:
  "selectedRelease (releases_on_edit FieldReleaseSite ''a'' demo_detailed) = Some (demo_release ''r7'') \<and>
   kq_shown (releaseDetail demo_detailed) = Some demo_detail \<and> detail_of ''r7'' demo_detail"
proof -
  have reach: "rp.reachable (\<lambda>k. k) (\<lambda>i r. rel_release_id r = i) detail_of demo_detailed"
    unfolding demo_detailed_def fold_simps comp_apply id_apply by (intro rp.reach_message rp.reach_start) blast
  have id: "rp_releaseId demo_detailed = Some ''r7''" and sel: "selectedRelease demo_detailed = Some (demo_release ''r7'')"
      and own: "kq_own (releaseDetail demo_detailed) = Some demo_detail"
    by (simp_all add: demo_detailed_def demo_detail_def demo_confirm_simps)
  note auth = requested_release_authoritative [OF reach id, of plain sample_formats
      "\<lparr>rt_arrow = [], rt_invalid_duration = [], rt_parse = (\<lambda>_. None)\<rparr>" 0 FieldReleaseSite "''a''"]
  then have "selectedRelease (releases_on_edit FieldReleaseSite ''a'' demo_detailed) = selectedRelease demo_detailed"
    by blast
  moreover from auth own sel have "kq_shown (releaseDetail demo_detailed) = Some demo_detail \<and>
      detail_of (rel_release_id (demo_release ''r7'')) demo_detail" by blast
  ultimately show ?thesis using sel by (simp add: demo_release_def)
qed


text \<open>C15: the panel can mix two releases: when another release is selected before its detail has arrived,
  its header stands above the acknowledgements, events and outcomes of the release shown before.\<close>

theorem stale_release_detail:
  assumes "rp_releaseId s = Some i" "i \<noteq> []" "kq_key (requestedRelease s) = Some i" "selectedDraft s = None"
    and "kq_latest (releaseDetail s) = Some d" "kq_key (releaseDetail s) \<noteq> Some (rel_release_id r)"
  shows "let s' = releases_on_message (RequestedAnswer i (Inr r)) s in
     detail_panel t fm rt now s' =
       map_view ClickDetail id
         (ReleaseDetailView t fm rt now r (Some d) (rp_site_name t s' (rel_site_id r)) (query_list (rp_nodes s)) False None (rp_view s')) \<and>
     map (node_outcome (ackItems (kq_shown (releaseDetail s')))) (rel_node_ids r) =
       map (node_outcome (rd_acknowledgements d)) (rel_node_ids r)"
proof -
  let ?s = "releases_on_message (RequestedAnswer i (Inr r)) s"
  have sel: "selectedRelease ?s = Some r" "selectedDraft ?s = None"
    using assms by (simp_all add: selected_own kq_switch_def kq_answer_def selectedDraft_def draftItems_def)
  have "releaseDetail ?s = kq_switch (Some (rel_release_id r)) (releaseDetail s)"
    using sel by (simp add: releaseDetail_render)
  then have "releaseDetail ?s = \<lparr>kq_key = Some (rel_release_id r), kq_own = None, kq_last = Some d, kq_error = None\<rparr>"
    using assms by (auto simp: kq_switch_def)
  with sel show ?thesis
    by (simp add: detail_panel_def kq_shown_def kq_latest_def keep_previous_def kq_loading_def Let_def ackItems_def)
qed

definition demo_switched :: releases_page where
  "demo_switched = fold releases_on_message [DetailAnswer ''r7'' (Inr demo_detail), ReleaseUrl None (Some ''r8'')] demo_releases"

theorem stale_release_detail_witness:
  "map (node_outcome (ackItems (kq_shown (releaseDetail
     (releases_on_message (RequestedAnswer ''r8'' (Inr (demo_release ''r8''))) demo_switched))))) (rel_node_ids (demo_release ''r8'')) =
   map (node_outcome (rd_acknowledgements demo_detail)) (rel_node_ids (demo_release ''r8''))"
proof -
  have "rp_releaseId demo_switched = Some ''r8''" "kq_key (requestedRelease demo_switched) = Some ''r8''"
      "selectedDraft demo_switched = None" "kq_latest (releaseDetail demo_switched) = Some demo_detail"
      "kq_key (releaseDetail demo_switched) \<noteq> Some (rel_release_id (demo_release ''r8''))"
    by (simp_all add: demo_switched_def demo_confirm_simps)
  from stale_release_detail [OF this(1) _ this(2-), of plain sample_formats
      "\<lparr>rt_arrow = [], rt_invalid_duration = [], rt_parse = (\<lambda>_. None)\<rparr>" 0]
  show ?thesis unfolding Let_def by blast
qed

text \<open>The confirmation can be left while its publication is on its way; its success then closes whatever
  confirmation is open.\<close>

lemma late_publish_closes_other:
  assumes "rp_publish s = MutPending (d, c)" "rp_created s = None"
  shows "publishTarget (releases_on_message (PublishSettled (Inr r))
     (releases_on_click gen (ClickAskPublish d') (releases_on_click gen ClickCancelPublish s))) = None"
  using assms by (simp add: publish_settled_def)

end
