(* ===== verification/Employees_Page.thy ===== *)
theory Employees_Page
  imports Page_Kit Endpoints
begin

text \<open>
  Roles of the accounts: \<^verbatim>\<open>src/frontend/app/employees/page.tsx\<close>.
\<close>

definition roleLabel :: "SessionRole \<Rightarrow> translator \<Rightarrow> string" where
  "roleLabel role t =
     (if role = RoleRoot then t ''Root administrator'' []
      else if role = RoleAdmin then t ''Administrator'' []
      else t ''Employee'' [])"

text \<open>\<open>role_call\<close> is the function of the mutation; a change under way carries its account and role and the request.\<close>

definition role_call :: "string \<times> SessionRole \<Rightarrow> api_call" where
  "role_call v = updateUserRole (fst v) (snd v)"

record employees_page =
  ep_employees :: "Employee list query"
  updateRole :: "((string \<times> SessionRole) \<times> api_call, unit) mutation"

definition employees_init :: "Employee list query \<Rightarrow> employees_page" where
  "employees_init q = \<lparr>ep_employees = q, updateRole = MutIdle\<rparr>"

datatype employees_click = ClickRole string SessionRole | ClickEmployeesRetry

definition employee_row :: "translator \<Rightarrow> formats \<Rightarrow> bool \<Rightarrow> Employee \<Rightarrow> (employees_click, 'f) view" where
  "employee_row t fm busy e =
     Grp (emp_itcode e)
       ([Txt (emp_itcode e), StatusBadge t (if emp_role e = RoleEmployee then ''pending'' else ''enabled''),
         Txt (roleLabel (emp_role e) t), Txt (t (emp_auth_source e) []),
         StatusBadge t (if emp_is_active e then ''active'' else ''disabled''),
         Txt (fm_date fm (emp_last_login_at e)), Txt (fm_date fm (emp_password_changed_at e)), Txt (fm_date fm (Some (emp_created_at e)))] @
        (if emp_role e = RoleRoot then [Txt (t ''Immutable'' [])]
         else if emp_role e = RoleAdmin then [Btn (t ''Revoke administrator'' []) busy (ClickRole (emp_itcode e) RoleEmployee)]
         else [Btn (t ''Grant administrator'' []) busy (ClickRole (emp_itcode e) RoleAdmin)]))"

definition EmployeesPage :: "translator \<Rightarrow> formats \<Rightarrow> bool option \<Rightarrow> employees_page \<Rightarrow> (employees_click, unit) view" where
  "EmployeesPage t fm session s =
     (let items = query_list (ep_employees s)
      in gated t 7 session
          (guarded t 7 (q_loading (ep_employees s)) (q_error (ep_employees s)) ClickEmployeesRetry
            (Grp ''page-stack''
              ([PageHeader t (Some ''GOVERN'') (t ''Roles'' [])
                  (Some (t ''zhangle is the root administrator. Other accounts can be granted the same administrator privileges.'' [])) [],
                Txt (t ''{count} accounts'' [(''count'', number_of fm (length items))]),
                Txt (t ''Administrators and the root administrator have the same management permissions.'' [])] @
               (if items \<noteq> []
                then map (\<lambda>h. Txt (t h []))
                       [''Account'', ''Role'', ''Authentication source'', ''State'', ''Last sign-in'', ''Password changed'', ''Created''] @
                     map (employee_row t fm (mut_pending (updateRole s))) items
                else [EmptyState t (t ''No accounts'' [])
                        (Some (t ''Registered employees appear here after completing GQuan verification.'' [])) []])))))"

fun employees_on_click :: "employees_click \<Rightarrow> employees_page \<Rightarrow> employees_page" where
  "employees_on_click (ClickRole itcode role) s = s\<lparr>updateRole := MutPending ((itcode, role), role_call (itcode, role))\<rparr>"
| "employees_on_click ClickEmployeesRetry s = s"

datatype employees_message = EmployeesAnswer "Employee list query" | RoleSettled "string + unit"

fun employees_on_message :: "employees_message \<Rightarrow> employees_page \<Rightarrow> employees_page" where
  "employees_on_message (EmployeesAnswer q) s = s\<lparr>ep_employees := q\<rparr>"
| "employees_on_message (RoleSettled r) s = s\<lparr>updateRole := mut_settle (\<lambda>_ d. d) r (updateRole s)\<rparr>"

section \<open>Lemmas\<close>

text \<open>The role that a row offers: the other of the two that can be changed.\<close>

definition other_role :: "SessionRole \<Rightarrow> SessionRole option" where
  "other_role role = (case role of RoleRoot \<Rightarrow> None | RoleAdmin \<Rightarrow> Some RoleEmployee | RoleEmployee \<Rightarrow> Some RoleAdmin)"

lemma can_click_employee_row [simp]:
  "can_click (employee_row t fm busy e) c \<longleftrightarrow>
     \<not> busy \<and> (\<exists>role. other_role (emp_role e) = Some role \<and> c = ClickRole (emp_itcode e) role)"
  by (cases "emp_role e") (auto simp: employee_row_def other_role_def)

lemma can_click_employees:
  "can_click (EmployeesPage t fm session s) (ClickRole itcode role) \<longleftrightarrow>
     session = Some True \<and> \<not> q_loading (ep_employees s) \<and> q_error (ep_employees s) = None \<and> \<not> mut_pending (updateRole s) \<and>
     (\<exists>e \<in> set (query_list (ep_employees s)). emp_itcode e = itcode \<and> other_role (emp_role e) = Some role)"
  by (auto simp: EmployeesPage_def Let_def list_ex_iff)

text \<open>Nobody is made root, and a role is only changed for an account that was not root when it was asked
  for.\<close>

definition employees_inv :: "(string \<Rightarrow> bool) \<Rightarrow> employees_page \<Rightarrow> bool" where
  "employees_inv is_root s \<longleftrightarrow>
     (\<forall>e \<in> set (query_list (ep_employees s)). is_root (emp_itcode e) \<longrightarrow> emp_role e = RoleRoot) \<and>
     (\<forall>itcode role c. updateRole s = MutPending ((itcode, role), c) \<longrightarrow>
        role \<noteq> RoleRoot \<and> \<not> is_root itcode \<and> c = role_call (itcode, role))"

text \<open>The control plane lists a root account as such; other answers are left out.\<close>

definition root_listed :: "(string \<Rightarrow> bool) \<Rightarrow> Employee list query \<Rightarrow> bool" where
  "root_listed is_root q \<longleftrightarrow> (\<forall>e \<in> set (query_list q). is_root (emp_itcode e) \<longrightarrow> emp_role e = RoleRoot)"

definition served_employees :: "(string \<Rightarrow> bool) \<Rightarrow> employees_message \<Rightarrow> employees_page \<Rightarrow> employees_page" where
  "served_employees is_root m s =
     (case m of
        EmployeesAnswer q \<Rightarrow> if root_listed is_root q then employees_on_message m s else s
      | _ \<Rightarrow> employees_on_message m s)"

lemma employees_inv_click:
  assumes "employees_inv is_root s" "can_click (EmployeesPage t fm session s) c"
  shows "employees_inv is_root (employees_on_click c s)"
proof (cases c)
  case (ClickRole itcode role)
  with assms(2) obtain e where "e \<in> set (query_list (ep_employees s))" "emp_itcode e = itcode" "other_role (emp_role e) = Some role"
    by (auto simp: can_click_employees)
  with assms(1) ClickRole show ?thesis
    by (cases "emp_role e") (auto simp: employees_inv_def other_role_def)
qed (use assms(1) in simp)

interpretation em: component "\<lambda>s. \<exists>q. root_listed is_root q \<and> s = employees_init q"
    "\<lambda>(t, fm, session). EmployeesPage t fm session" employees_on_click "\<lambda>(_ :: unit) _ s. s" "served_employees is_root"
    "employees_inv is_root"
  for is_root
proof (unfold_locales, goal_cases)
  case (4 s m)
  then show ?case
    by (cases m) (auto simp: employees_inv_def served_employees_def root_listed_def mut_settle_def split: mutation.splits sum.splits)
qed (auto simp: employees_inv_click, auto simp: employees_inv_def employees_init_def root_listed_def)

section \<open>Properties\<close>

text \<open>C17: root accounts are immutable and nobody becomes root: the page offers a change of role exactly for
  the listed accounts that are not root, to the other of the two roles, and only while no change is on
  its way; and as the control plane lists root accounts as such, no request that the page ever sends
  names a root account or grants the root role.\<close>

theorem root_role_immutable:
  assumes "em.reachable is_root s"
  shows "(can_click (EmployeesPage t fm session s) (ClickRole itcode role) \<longleftrightarrow>
        session = Some True \<and> \<not> q_loading (ep_employees s) \<and> q_error (ep_employees s) = None \<and> \<not> mut_pending (updateRole s) \<and>
        (\<exists>e \<in> set (query_list (ep_employees s)).
           emp_itcode e = itcode \<and> emp_role e \<noteq> RoleRoot \<and> role \<noteq> RoleRoot \<and> role \<noteq> emp_role e)) \<and>
     (\<forall>i r c. updateRole s = MutPending ((i, r), c) \<longrightarrow>
        r \<noteq> RoleRoot \<and> \<not> is_root i \<and>
        c = send_json ''PATCH'' (''/api/v1/users/'' @ encodeURIComponent i @ ''/role'')
              (JObj [(''role'', JStr (role_text r))]))"
proof -
  have other: "other_role r = Some role \<longleftrightarrow> r \<noteq> RoleRoot \<and> role \<noteq> RoleRoot \<and> role \<noteq> r" for r
    by (cases r; cases role) (auto simp: other_role_def)
  from em.reachable_inv [OF assms] show ?thesis
    unfolding can_click_employees other employees_inv_def role_call_def updateUserRole_def fst_conv snd_conv by blast
qed

definition demo_employee :: "string \<Rightarrow> SessionRole \<Rightarrow> Employee" where
  "demo_employee i role =
     \<lparr>emp_itcode = i, emp_role = role, emp_auth_source = ''password'', emp_is_active = True, emp_created_at = [],
      emp_password_changed_at = None, emp_last_login_at = None\<rparr>"

theorem root_role_immutable_witness:
  "let s = employees_init (loaded [demo_employee ''zhangle'' RoleRoot, demo_employee ''li'' RoleAdmin])
   in \<not> can_click (EmployeesPage plain sample_formats (Some True) s) (ClickRole ''zhangle'' RoleEmployee) \<and>
      can_click (EmployeesPage plain sample_formats (Some True) s) (ClickRole ''li'' RoleEmployee)"
proof -
  let ?q = "loaded [demo_employee ''zhangle'' RoleRoot, demo_employee ''li'' RoleAdmin]"
  have "em.reachable (\<lambda>i. i = ''zhangle'') (employees_init ?q)"
    by (rule em.reach_start) (force simp: root_listed_def loaded_def query_list_def demo_employee_def)
  from root_role_immutable [OF this, of plain sample_formats "Some True"] show ?thesis
    by (auto simp: Let_def employees_init_def loaded_def query_list_def demo_employee_def)
qed

end
