(* ===== verification/Dialog_Kit.thy ===== *)
theory Dialog_Kit
  imports Page_Kit Endpoints
begin

text \<open>
  Two dialogs that several pages of the console have in the same form.

  A confirmed operation: a row asks for it, a dialog names the row, the confirmation sends a request
  made from that row, and its success closes the dialog.  The locale states what the pages promise
  (backups, tasks, sites) and what follows for all of them.

  A rename dialog: \<^verbatim>\<open>src/frontend/app/nodes/page.tsx\<close> (nodes and sites) and \<^verbatim>\<open>src/frontend/app/sites/page.tsx\<close>.

  A call counts as settled when its success handler has ended, which may read lists again first.
\<close>

section \<open>Confirmed operations\<close>

locale confirmed_operation =
  fixes target :: "'s \<Rightarrow> 'a option"
    and operation :: "'s \<Rightarrow> ('v, 'd) mutation"
    and ask :: "'a \<Rightarrow> 's \<Rightarrow> 's"
    and dismiss :: "'s \<Rightarrow> 's"
    and confirm :: "'s \<Rightarrow> 's"
    and settled :: "string + 'd \<Rightarrow> 's \<Rightarrow> 's"
    and request :: "'a \<Rightarrow> 'v"
  assumes ask: "target (ask a s) = Some a" "operation (ask a s) = operation s"
    and dismiss: "target (dismiss s) = None" "operation (dismiss s) = operation s"
    and confirm: "target (confirm s) = target s"
      "target s = Some a \<Longrightarrow> operation (confirm s) = MutPending (request a)"
    and settled: "mut_pending (operation s) \<Longrightarrow> operation (settled r s) = mut_settle (\<lambda>_ d. d) r (operation s)"
      "mut_pending (operation s) \<Longrightarrow> target (settled (Inr d) s) = None"
      "target (settled (Inl e) s) = target s"
begin

text \<open>The request is the one of the row that was asked for, and its success closes the dialog.\<close>

lemma confirmed_request:
  "operation (confirm (ask a s)) = MutPending (request a)"
  by (simp add: ask confirm(2))

lemma success_closes:
  "target (settled (Inr d) (confirm (ask a s))) = None"
  "operation (settled (Inr d) (confirm (ask a s))) = MutSuccess d"
  by (simp_all add: ask confirm settled)

text \<open>After a failure the dialog is still open on the same row, and the confirmation can be given again.\<close>

lemma failure_keeps_open:
  "target (settled (Inl e) (confirm (ask a s))) = Some a"
  "operation (settled (Inl e) (confirm (ask a s))) = MutError e"
  "operation (confirm (settled (Inl e) (confirm (ask a s)))) = MutPending (request a)"
  by (simp_all add: ask confirm settled)

text \<open>A dialog that is left while its request is on its way does not cancel it: the request goes on and
  its success closes the dialog of whatever row has been asked for since.\<close>

lemma late_success_closes_other:
  assumes "operation s = MutPending v"
  shows "target (ask b (dismiss s)) = Some b" "operation (ask b (dismiss s)) = MutPending v"
    "target (settled (Inr d) (ask b (dismiss s))) = None"
  using assms by (simp_all add: ask dismiss settled)

end

section \<open>Rename dialogs\<close>

record 'a rename_dialog =
  rn_item :: "'a option"
  rn_name :: string
  rn_op :: "(api_call, 'a) mutation"

definition rename_closed :: "'a rename_dialog" where
  "rename_closed = \<lparr>rn_item = None, rn_name = [], rn_op = MutIdle\<rparr>"

definition rename_open :: "('a \<Rightarrow> string) \<Rightarrow> 'a \<Rightarrow> 'a rename_dialog" where
  "rename_open name item = \<lparr>rn_item = Some item, rn_name = name item, rn_op = MutIdle\<rparr>"

text \<open>The input has \<^verbatim>\<open>maxLength={128}\<close>, which bounds what is typed.\<close>

definition rename_edit :: "string \<Rightarrow> 'a rename_dialog \<Rightarrow> 'a rename_dialog" where
  "rename_edit v d = d\<lparr>rn_name := take 128 v\<rparr>"

definition rename_dismiss :: "'a rename_dialog \<Rightarrow> 'a rename_dialog" where
  "rename_dismiss d = (if mut_pending (rn_op d) then d else d\<lparr>rn_item := None\<rparr>)"

definition rename_cancel :: "'a rename_dialog \<Rightarrow> 'a rename_dialog" where
  "rename_cancel d = d\<lparr>rn_item := None\<rparr>"

definition rename_submit :: "(string \<Rightarrow> string \<Rightarrow> api_call) \<Rightarrow> ('a \<Rightarrow> string) \<Rightarrow> 'a rename_dialog \<Rightarrow> 'a rename_dialog" where
  "rename_submit call ident d =
     (if trim (rn_name d) \<noteq> [] \<and> \<not> mut_pending (rn_op d)
      then (case rn_item d of None \<Rightarrow> d | Some item \<Rightarrow> d\<lparr>rn_op := MutPending (call (ident item) (trim (rn_name d)))\<rparr>)
      else d)"

definition rename_settled :: "string + 'a \<Rightarrow> 'a rename_dialog \<Rightarrow> 'a rename_dialog" where
  "rename_settled result d =
     (if \<not> mut_pending (rn_op d) then d
      else (let d' = d\<lparr>rn_op := mut_settle (\<lambda>_ a. a) result (rn_op d)\<rparr>
            in case result of Inr _ \<Rightarrow> d'\<lparr>rn_item := None\<rparr> | Inl _ \<Rightarrow> d'))"

definition RenameDialog ::
    "translator \<Rightarrow> string \<Rightarrow> string option \<Rightarrow> string \<Rightarrow> 'c \<Rightarrow> 'c \<Rightarrow> 'c \<Rightarrow> 'f \<Rightarrow> 'a rename_dialog \<Rightarrow> ('c, 'f) view" where
  "RenameDialog t title description lbl dismiss cancel save field d =
     DetailDialog t (rn_item d \<noteq> None) title description dismiss
       [Inp (t lbl []) (rn_name d) False field,
        Btn (t ''Cancel'' []) (mut_pending (rn_op d)) cancel,
        Btn (if mut_pending (rn_op d) then t ''Saving...'' [] else t ''Save changes'' [])
          (trim (rn_name d) = [] \<or> mut_pending (rn_op d)) save]"

text \<open>A request is only on its way for the item on display, with a name that is not blank and has no
  white space at its ends.\<close>

definition rename_inv :: "(string \<Rightarrow> string \<Rightarrow> api_call) \<Rightarrow> ('a \<Rightarrow> string) \<Rightarrow> 'a rename_dialog \<Rightarrow> bool" where
  "rename_inv call ident d \<longleftrightarrow>
     (case rn_op d of
        MutPending c \<Rightarrow>
          (\<exists>item n. rn_item d = Some item \<and> n \<noteq> [] \<and> trim n = n \<and> c = call (ident item) n)
      | _ \<Rightarrow> True)"

lemma rename_inv_kept:
  "rename_inv call ident rename_closed"
  "rename_inv call ident (rename_open name item)"
  "rename_inv call ident d \<Longrightarrow> rename_inv call ident (rename_edit v d)"
  "rename_inv call ident d \<Longrightarrow> rename_inv call ident (rename_dismiss d)"
  "\<not> mut_pending (rn_op d) \<Longrightarrow> rename_inv call ident (rename_cancel d)"
  "rename_inv call ident d \<Longrightarrow> rename_inv call ident (rename_submit call ident d)"
  "rename_inv call ident d \<Longrightarrow> rename_inv call ident (rename_settled r d)"
  by (auto simp: rename_inv_def rename_closed_def rename_open_def rename_edit_def rename_dismiss_def rename_cancel_def
      rename_submit_def rename_settled_def mut_settle_def Let_def split: mutation.splits option.splits sum.splits)

lemma can_click_RenameDialog [simp]:
  "can_click (RenameDialog t title de l dismiss cancel save field d) c \<longleftrightarrow>
     rn_item d \<noteq> None \<and>
     (c = dismiss \<or> \<not> mut_pending (rn_op d) \<and> (c = cancel \<or> trim (rn_name d) \<noteq> [] \<and> c = save))"
  by (auto simp: RenameDialog_def)

lemma can_edit_RenameDialog [simp]:
  "can_edit (RenameDialog t title de l dismiss cancel save field d) f x \<longleftrightarrow> rn_item d \<noteq> None \<and> f = field"
  by (auto simp: RenameDialog_def)

text \<open>While a request is on its way the dialog stays on its item.\<close>

lemma rename_stays_open:
  "mut_pending (rn_op d) \<Longrightarrow> rn_item (rename_dismiss d) = rn_item d"
  "rn_item (rename_settled (Inl e) d) = rn_item d"
  by (simp_all add: rename_dismiss_def rename_settled_def Let_def)

end
