(* ===== verification/Backups_Page.thy ===== *)
theory Backups_Page
  imports Dialog_Kit Formatters
begin

text \<open>
  Backups: \<^verbatim>\<open>src/frontend/app/backups/page.tsx\<close>.  A rehearsal and a restore are one operation of the control
  plane with a flag; each has a dialog of its own, and both share one mutation.  \<open>gen\<close> makes idempotency
  keys.
\<close>

section \<open>State\<close>

record backups_page =
  rehearsalTarget :: "BackupRecord option"
  restoreTarget :: "BackupRecord option"
  bp_backups :: "BackupRecord list query"
  bp_create :: "(api_call, unit) mutation"
  bp_restore :: "(api_call, unit) mutation"

definition backups_init :: "BackupRecord list query \<Rightarrow> backups_page" where
  "backups_init q = \<lparr>rehearsalTarget = None, restoreTarget = None, bp_backups = q, bp_create = MutIdle, bp_restore = MutIdle\<rparr>"

definition restore_call :: "key_gen \<Rightarrow> string \<times> bool \<Rightarrow> api_call" where
  "restore_call gen v = restoreBackup gen (fst v) (snd v)"

section \<open>What is rendered\<close>

datatype backups_click =
    ClickCreateBackup
  | ClickRehearse BackupRecord | ClickCloseRehearsal | ClickConfirmRehearsal
  | ClickRestore BackupRecord | ClickCloseRestore | ClickConfirmRestore
  | ClickBackupsRetry

definition backup_ready :: "BackupRecord \<Rightarrow> bool" where
  "backup_ready r \<longleftrightarrow>
     bk_status r \<in> set [''verified'', ''rehearsed'', ''restored'', ''restore_queued''] \<and> bk_storage_ref r \<noteq> []"

fun backup_origin_text :: "BackupOrigin \<Rightarrow> string" where
  "backup_origin_text OriginManual = ''manual''"
| "backup_origin_text OriginScheduled = ''scheduled''"

definition BackupRow :: "translator \<Rightarrow> formats \<Rightarrow> BackupRecord \<Rightarrow> (backups_click, 'f) view" where
  "BackupRow t fm r =
     Grp (bk_backup_id r)
       ([Txt (fm_date fm (Some (bk_created_at r))), Txt (shortHash (bk_backup_id r) 18), Txt (bk_format r),
         StatusBadge t (backup_origin_text (bk_origin r)), Txt (t (bk_scope r) []), Txt (fm_bytes fm (Some (bk_size_bytes r))),
         StatusBadge t (if bk_encrypted r then ''enabled'' else ''disabled''),
         Txt (if truthy_str (bk_last_rehearsed_at r) then fm_date fm (bk_last_rehearsed_at r) else t ''Not rehearsed'' []),
         StatusBadge t (bk_status r)] @
        show_if (bk_error r \<noteq> []) [Txt (t (bk_error r) [])] @
        [Txt (shortHash (bk_checksum r) 14)] @
        show_if (backup_ready r) [Btn (t ''Verify'' []) False (ClickRehearse r)] @
        show_if (backup_ready r) [Btn (t ''Restore'' []) False (ClickRestore r)])"

definition backup_text :: "translator \<Rightarrow> string \<Rightarrow> BackupRecord option \<Rightarrow> string" where
  "backup_text t key r = (case r of None \<Rightarrow> [] | Some b \<Rightarrow> t key [(''backup'', shortHash (bk_backup_id b) 18)])"

definition BackupsPage :: "translator \<Rightarrow> formats \<Rightarrow> bool option \<Rightarrow> backups_page \<Rightarrow> (backups_click, unit) view" where
  "BackupsPage t fm session s =
     (let records = query_list (bp_backups s); busy = mut_pending (bp_restore s)
      in gated t 8 session
          (guarded t 8 (q_loading (bp_backups s)) (q_error (bp_backups s)) ClickBackupsRetry
            (Grp ''page-stack''
              [fieldset (rehearsalTarget s \<noteq> None \<or> restoreTarget s \<noteq> None)
                (Grp ''list-panel''
                  ([PageHeader t (Some ''GOVERN'') ''Backups''
                      (Some ''Verified control-plane snapshots with a rehearsal-first restore workflow.'')
                      [Btn (if mut_pending (bp_create s) then t ''Creating backup...'' [] else t ''Create backup'' [])
                         (mut_pending (bp_create s)) ClickCreateBackup],
                    Txt (t ''Backups: {count}'' [(''count'', number_of fm (length records))]),
                    Txt (t ''Every archive includes a manifest and SHA-256 checksum.'' [])] @
                   (if records \<noteq> []
                    then map (\<lambda>h. Txt (t h [])) [''Created'', ''Backup'', ''Origin'', ''Scope'', ''Size'', ''Encryption'',
                           ''Last rehearsal'', ''State'', ''Checksum''] @ map (BackupRow t fm) records
                    else [EmptyState t ''No backups recorded'' (Some ''Create a snapshot before a risky change or upgrade.'') []]))),
               ConfirmDialog t (rehearsalTarget s \<noteq> None) ''Run restore rehearsal''
                 (backup_text t ''Verify {backup} without changing live data. The task checks the archive manifest and collection hashes.''
                    (rehearsalTarget s))
                 ''Run rehearsal'' busy ClickCloseRehearsal ClickConfirmRehearsal [],
               ConfirmDialog t (restoreTarget s \<noteq> None) ''Restore backup''
                 (backup_text t ''Restore {backup} by upserting verified documents. Current task and backup records are preserved; newer documents are not deleted.''
                    (restoreTarget s))
                 ''Restore backup'' busy ClickCloseRestore ClickConfirmRestore []])))"

section \<open>Events\<close>

definition ask_rehearsal :: "BackupRecord \<Rightarrow> backups_page \<Rightarrow> backups_page" where
  "ask_rehearsal r s = s\<lparr>rehearsalTarget := Some r\<rparr>"

definition close_rehearsal :: "backups_page \<Rightarrow> backups_page" where
  "close_rehearsal s = s\<lparr>rehearsalTarget := None\<rparr>"

definition confirm_rehearsal :: "key_gen \<Rightarrow> backups_page \<Rightarrow> backups_page" where
  "confirm_rehearsal gen s =
     (case rehearsalTarget s of None \<Rightarrow> s | Some r \<Rightarrow> s\<lparr>bp_restore := MutPending (restore_call gen (bk_backup_id r, False))\<rparr>)"

definition ask_restore :: "BackupRecord \<Rightarrow> backups_page \<Rightarrow> backups_page" where
  "ask_restore r s = s\<lparr>restoreTarget := Some r\<rparr>"

definition close_restore :: "backups_page \<Rightarrow> backups_page" where
  "close_restore s = s\<lparr>restoreTarget := None\<rparr>"

definition confirm_restore :: "key_gen \<Rightarrow> backups_page \<Rightarrow> backups_page" where
  "confirm_restore gen s =
     (case restoreTarget s of None \<Rightarrow> s | Some r \<Rightarrow> s\<lparr>bp_restore := MutPending (restore_call gen (bk_backup_id r, True))\<rparr>)"

definition restore_settled :: "string + unit \<Rightarrow> backups_page \<Rightarrow> backups_page" where
  "restore_settled result s =
     (if \<not> mut_pending (bp_restore s) then s
      else (let s' = s\<lparr>bp_restore := mut_settle (\<lambda>_ d. d) result (bp_restore s)\<rparr>
            in case result of Inr _ \<Rightarrow> s'\<lparr>rehearsalTarget := None, restoreTarget := None\<rparr> | Inl _ \<Rightarrow> s'))"

fun backups_on_click :: "key_gen \<Rightarrow> backups_click \<Rightarrow> backups_page \<Rightarrow> backups_page" where
  "backups_on_click gen ClickCreateBackup s = s\<lparr>bp_create := MutPending (createBackup gen)\<rparr>"
| "backups_on_click gen (ClickRehearse r) s = ask_rehearsal r s"
| "backups_on_click gen ClickCloseRehearsal s = close_rehearsal s"
| "backups_on_click gen ClickConfirmRehearsal s = confirm_rehearsal gen s"
| "backups_on_click gen (ClickRestore r) s = ask_restore r s"
| "backups_on_click gen ClickCloseRestore s = close_restore s"
| "backups_on_click gen ClickConfirmRestore s = confirm_restore gen s"
| "backups_on_click gen ClickBackupsRetry s = s"

datatype backups_message = BackupsAnswer "BackupRecord list query" | BackupCreated "string + unit" | RestoreSettled "string + unit"

fun backups_on_message :: "backups_message \<Rightarrow> backups_page \<Rightarrow> backups_page" where
  "backups_on_message (BackupsAnswer q) s = s\<lparr>bp_backups := q\<rparr>"
| "backups_on_message (BackupCreated r) s = s\<lparr>bp_create := mut_settle (\<lambda>_ d. d) r (bp_create s)\<rparr>"
| "backups_on_message (RestoreSettled r) s = restore_settled r s"

section \<open>Lemmas\<close>

lemmas backups_ops =
  ask_rehearsal_def close_rehearsal_def confirm_rehearsal_def ask_restore_def close_restore_def confirm_restore_def restore_settled_def

interpretation rh: confirmed_operation rehearsalTarget bp_restore ask_rehearsal close_rehearsal "confirm_rehearsal gen" restore_settled
    "\<lambda>r. restore_call gen (bk_backup_id r, False)"
  for gen
  by unfold_locales (auto simp: backups_ops Let_def split: option.splits sum.splits)

interpretation rs: confirmed_operation restoreTarget bp_restore ask_restore close_restore "confirm_restore gen" restore_settled
    "\<lambda>r. restore_call gen (bk_backup_id r, True)"
  for gen
  by unfold_locales (auto simp: backups_ops Let_def split: option.splits sum.splits)

lemma can_click_backup_row [simp]:
  "can_click (BackupRow t fm r) c \<longleftrightarrow> backup_ready r \<and> (c = ClickRehearse r \<or> c = ClickRestore r)"
  by (auto simp: BackupRow_def)

lemma can_click_backups:
  "can_click (BackupsPage t fm session s) c \<Longrightarrow>
     (case c of
        ClickConfirmRestore \<Rightarrow> restoreTarget s \<noteq> None \<and> \<not> mut_pending (bp_restore s)
      | ClickConfirmRehearsal \<Rightarrow> rehearsalTarget s \<noteq> None \<and> \<not> mut_pending (bp_restore s)
      | ClickRehearse r \<Rightarrow> backup_ready r \<and> rehearsalTarget s = None \<and> restoreTarget s = None
      | ClickRestore r \<Rightarrow> backup_ready r \<and> rehearsalTarget s = None \<and> restoreTarget s = None
      | ClickCreateBackup \<Rightarrow> \<not> mut_pending (bp_create s)
      | _ \<Rightarrow> True)"
  by (cases c) (auto simp: BackupsPage_def Let_def split: if_splits)

text \<open>At most one dialog is open, on a backup that was ready.\<close>

definition backups_inv :: "backups_page \<Rightarrow> bool" where
  "backups_inv s \<longleftrightarrow>
     (rehearsalTarget s = None \<or> restoreTarget s = None) \<and>
     (\<forall>r. rehearsalTarget s = Some r \<or> restoreTarget s = Some r \<longrightarrow> backup_ready r)"

lemma backups_inv_click:
  "backups_inv s \<Longrightarrow> can_click (BackupsPage t fm session s) c \<Longrightarrow> backups_inv (backups_on_click gen c s)"
  by (drule can_click_backups, cases c) (auto simp: backups_inv_def backups_ops split: option.splits)

lemma backups_inv_message: "backups_inv s \<Longrightarrow> backups_inv (backups_on_message m s)"
  by (cases m) (auto simp: backups_inv_def restore_settled_def Let_def split: sum.splits)

interpretation bp: component "\<lambda>s. \<exists>q. s = backups_init q"
    "\<lambda>(t, fm, session). BackupsPage t fm session" "backups_on_click gen" "\<lambda>(_ :: unit) _ s. s" backups_on_message backups_inv
  for gen
  by unfold_locales (auto simp: backups_inv_click backups_inv_message, auto simp: backups_inv_def backups_init_def)

section \<open>Properties\<close>

text \<open>C16: live data are only overwritten from the restore dialog: in every reachable state at most one of
  the two dialogs is open, on a backup that was ready.  A click that starts a request to restore does so when none is on
  its way, and the request goes to the backup that the open dialog names: with the confirmation flag set if it is the confirmation of
  the restore dialog, and with the flag cleared if it is the one of the rehearsal dialog; no other click starts one.\<close>

theorem restore_only_confirmed:
  assumes "bp.reachable gen s" "can_click (BackupsPage t fm session s) c"
  shows "(rehearsalTarget s = None \<or> restoreTarget s = None) \<and>
     (bp_restore (backups_on_click gen c s) = bp_restore s \<or>
      \<not> mut_pending (bp_restore s) \<and>
      (\<exists>r. backup_ready r \<and>
         (c = ClickConfirmRestore \<and> restoreTarget s = Some r \<and> rehearsalTarget s = None \<and>
            bp_restore (backups_on_click gen c s) =
              MutPending (keyed_post (''/api/v1/backups/'' @ encodeURIComponent (bk_backup_id r) @ ''/restore'')
                (JObj [(''confirm'', JBool True)]) (gen (''backup.restore:'' @ bk_backup_id r @ '':apply''))) \<or>
          c = ClickConfirmRehearsal \<and> rehearsalTarget s = Some r \<and> restoreTarget s = None \<and>
            bp_restore (backups_on_click gen c s) =
              MutPending (keyed_post (''/api/v1/backups/'' @ encodeURIComponent (bk_backup_id r) @ ''/restore'')
                (JObj [(''confirm'', JBool False)]) (gen (''backup.restore:'' @ bk_backup_id r @ '':rehearsal''))))))"
proof -
  from bp.reachable_inv [OF assms(1)] have inv: "backups_inv s" .
  from can_click_backups [OF assms(2)] inv show ?thesis
    by (cases c) (auto simp: backups_inv_def backups_ops restore_call_def restoreBackup_def)
qed

definition demo_backup :: BackupRecord where
  "demo_backup = \<lparr>bk_backup_id = ''b1'', bk_scope = [], bk_origin = OriginManual, bk_artifact_paths = [], bk_format = [],
     bk_checksum = [], bk_encrypted = True, bk_storage_ref = ''ref'', bk_status = ''verified'', bk_created_by = [],
     bk_created_at = [], bk_verified_at = None, bk_last_rehearsed_at = None, bk_restore_task_id = None, bk_error = [],
     bk_size_bytes = 0, bk_manifest = JNull\<rparr>"

definition demo_asked :: backups_page where
  "demo_asked = backups_on_click (\<lambda>_. ''k'') (ClickRestore demo_backup) (backups_init (loaded [demo_backup]))"

lemmas demo_backups_simps =
  demo_asked_def backups_init_def loaded_def query_list_def demo_backup_def backup_ready_def BackupsPage_def ask_restore_def

theorem restore_only_confirmed_witness:
  "bp_restore (backups_on_click (\<lambda>_. ''k'') ClickConfirmRestore demo_asked) =
     MutPending (keyed_post ''/api/v1/backups/b1/restore'' (JObj [(''confirm'', JBool True)]) ''k'')"
proof -
  have "can_click (BackupsPage plain sample_formats (Some True) (backups_init (loaded [demo_backup]))) (ClickRestore demo_backup)"
    by (simp add: demo_backups_simps Let_def)
  then have reach: "bp.reachable (\<lambda>_. ''k'') demo_asked"
    unfolding demo_asked_def using bp.reach_click [OF bp.reach_start] by force
  have "can_click (BackupsPage plain sample_formats (Some True) demo_asked) ClickConfirmRestore"
      "bp_restore demo_asked = MutIdle" "restoreTarget demo_asked = Some demo_backup"
    by (simp_all add: demo_backups_simps Let_def)
  moreover have "bp_restore (backups_on_click (\<lambda>_. ''k'') ClickConfirmRestore demo_asked) \<noteq> MutIdle"
    by (simp add: demo_backups_simps confirm_restore_def)
  ultimately show ?thesis
    using restore_only_confirmed [OF reach, of plain sample_formats "Some True" ClickConfirmRestore]
    by (auto simp: demo_backup_def encodeURIComponent_def percent_encode_def uri_unreserved_def is_word_char_def)
qed

end
