(* ===== verification/Tasks_Page.thy ===== *)
theory Tasks_Page
  imports Dialog_Kit
begin

text \<open>
  Tasks: \<^verbatim>\<open>src/frontend/app/tasks/page.tsx\<close>.  The boundary of the time range is computed when the range changes,
  from the clock of the page.
\<close>

section \<open>State\<close>

record tasks_page =
  cancelTarget :: "Task option"
  tk_status :: string
  tk_taskType :: string
  tk_range :: range_filter
  tk_clock :: int
  tk_tasks :: "Task list query"
  tk_cancel :: "(api_call, unit) mutation"

definition tasks_init :: "int \<Rightarrow> Task list query \<Rightarrow> tasks_page" where
  "tasks_init now q =
     \<lparr>cancelTarget = None, tk_status = [], tk_taskType = [], tk_range = range_init now Range30d, tk_clock = now, tk_tasks = q,
      tk_cancel = MutIdle\<rparr>"

abbreviation or_undefined :: "string \<Rightarrow> string option" where
  "or_undefined v \<equiv> (if v = [] then None else Some v)"

definition tasks_call :: "tasks_page \<Rightarrow> api_call" where
  "tasks_call s = getTasks (or_undefined (tk_status s)) (or_undefined (tk_taskType s)) (rg_since (tk_range s)) None"

section \<open>What is rendered\<close>

datatype tasks_click = ClickCancelTask Task | ClickCloseCancel | ClickConfirmCancel | ClickTasksRetry

datatype tasks_field = FieldTaskState | FieldTaskType | FieldTaskRange

definition canCancel :: "Task \<Rightarrow> bool" where
  "canCancel task \<longleftrightarrow> task_status task \<in> set [''queued'', ''running'']"

text \<open>The width of the progress bar in percent.\<close>

definition progress_width :: "Task \<Rightarrow> int" where
  "progress_width task = max 0 (min (task_progress task) 100)"

definition task_row :: "translator \<Rightarrow> formats \<Rightarrow> Task \<Rightarrow> (tasks_click, 'f) view" where
  "task_row t fm task =
     Grp (task_task_id task)
       ([Txt (t (task_task_type task) []), Txt (take 14 (task_task_id task)), StatusBadge t (task_status task),
         Grp (''width: '' @ show_int (progress_width task) @ ''%'') [], Txt (fm_percent fm (Some (of_int (task_progress task)))),
         Txt (t (task_stage task) []),
         Txt (fm_number fm (Some (task_retry_count task)) @ '' / '' @ fm_number fm (Some (task_max_retries task))),
         Txt (or_str (task_locked_by task) ''-''),
         Txt (fm_date fm (Some (if truthy_str (task_finished_at task) then the (task_finished_at task) else task_created_at task)))] @
        show_if (canCancel task) [Btn (t ''Cancel'' []) False (ClickCancelTask task)])"

definition task_selects :: "tasks_page \<Rightarrow> tasks_field filter_select list" where
  "task_selects s =
     [\<lparr>fs_label = ''State'', fs_value = tk_status s, fs_set = FieldTaskState,
       fs_options = [([], ''All states''), (''queued'', ''queued''), (''running'', ''running''), (''succeeded'', ''succeeded''),
         (''failed'', ''failed''), (''dead_letter'', ''dead letter'')]\<rparr>,
      \<lparr>fs_label = ''Task type'', fs_value = tk_taskType s, fs_set = FieldTaskType,
       fs_options = [([], ''All task types''), (''config.publish'', ''config publish''), (''subscription.refresh'', ''subscription refresh''),
         (''node.probe'', ''node probe''), (''backup.create'', ''backup create'')]\<rparr>]"

definition TasksPage :: "translator \<Rightarrow> formats \<Rightarrow> bool option \<Rightarrow> tasks_page \<Rightarrow> (tasks_click, tasks_field) view" where
  "TasksPage t fm session s =
     (let items = query_list (tk_tasks s)
      in gated t 7 session
          (guarded t 7 (q_loading (tk_tasks s)) (q_error (tk_tasks s)) ClickTasksRetry
            (Grp ''page-stack''
              [fieldset (cancelTarget s \<noteq> None)
                (Grp ''list-panel''
                  ([PageHeader t (Some ''DEPLOY'') ''Tasks''
                      (Some ''Queue state, retry history, and cancellation boundaries for control-plane work.'') [],
                    Txt (t ''Task queue'' []), Txt (t ''{count} tasks'' [(''count'', number_of fm (length items))]),
                    ListFilters t (rg_range (tk_range s)) FieldTaskRange (task_selects s) None []] @
                   (if items \<noteq> []
                    then map (\<lambda>h. Txt (t h [])) [''Task'', ''State'', ''Progress'', ''Retries'', ''Lease'', ''Updated''] @
                         map (task_row t fm) items
                    else [EmptyState t ''No tasks recorded'' None []]))),
               ConfirmDialog t (cancelTarget s \<noteq> None) ''Cancel task''
                 (t ''Request cancellation for {task}. Running work stops at its next safe checkpoint.''
                    [(''task'', case cancelTarget s of Some task \<Rightarrow> t (task_task_type task) [] | None \<Rightarrow> t ''this task'' [])])
                 ''Cancel task'' (mut_pending (tk_cancel s)) ClickCloseCancel ClickConfirmCancel []])))"

section \<open>Events\<close>

definition ask_cancel :: "Task \<Rightarrow> tasks_page \<Rightarrow> tasks_page" where
  "ask_cancel task s = s\<lparr>cancelTarget := Some task\<rparr>"

definition close_cancel :: "tasks_page \<Rightarrow> tasks_page" where
  "close_cancel s = s\<lparr>cancelTarget := None\<rparr>"

definition confirm_cancel :: "tasks_page \<Rightarrow> tasks_page" where
  "confirm_cancel s =
     (case cancelTarget s of None \<Rightarrow> s | Some task \<Rightarrow> s\<lparr>tk_cancel := MutPending (cancelTask (task_task_id task))\<rparr>)"

definition cancel_settled :: "string + unit \<Rightarrow> tasks_page \<Rightarrow> tasks_page" where
  "cancel_settled result s =
     (if \<not> mut_pending (tk_cancel s) then s
      else (let s' = s\<lparr>tk_cancel := mut_settle (\<lambda>_ d. d) result (tk_cancel s)\<rparr>
            in case result of Inr _ \<Rightarrow> s'\<lparr>cancelTarget := None\<rparr> | Inl _ \<Rightarrow> s'))"

fun tasks_on_click :: "tasks_click \<Rightarrow> tasks_page \<Rightarrow> tasks_page" where
  "tasks_on_click (ClickCancelTask task) s = ask_cancel task s"
| "tasks_on_click ClickCloseCancel s = close_cancel s"
| "tasks_on_click ClickConfirmCancel s = confirm_cancel s"
| "tasks_on_click ClickTasksRetry s = s"

fun tasks_on_edit :: "tasks_field \<Rightarrow> string \<Rightarrow> tasks_page \<Rightarrow> tasks_page" where
  "tasks_on_edit FieldTaskState v s = s\<lparr>tk_status := v\<rparr>"
| "tasks_on_edit FieldTaskType v s = s\<lparr>tk_taskType := v\<rparr>"
| "tasks_on_edit FieldTaskRange v s =
     (case range_of_text v of None \<Rightarrow> s | Some r \<Rightarrow> s\<lparr>tk_range := range_choose (tk_clock s) r (tk_range s)\<rparr>)"

datatype tasks_message = TasksAnswer "Task list query" | CancelSettled "string + unit" | TasksClock int

fun tasks_on_message :: "tasks_message \<Rightarrow> tasks_page \<Rightarrow> tasks_page" where
  "tasks_on_message (TasksAnswer q) s = s\<lparr>tk_tasks := q\<rparr>"
| "tasks_on_message (CancelSettled r) s = cancel_settled r s"
| "tasks_on_message (TasksClock now) s = s\<lparr>tk_clock := now\<rparr>"

section \<open>Lemmas\<close>

lemmas tasks_ops = ask_cancel_def close_cancel_def confirm_cancel_def cancel_settled_def

interpretation ct: confirmed_operation cancelTarget tk_cancel ask_cancel close_cancel confirm_cancel cancel_settled
    "\<lambda>task. cancelTask (task_task_id task)"
  by unfold_locales (auto simp: tasks_ops Let_def split: option.splits sum.splits)

lemma can_click_task_row [simp]: "can_click (task_row t fm task) c \<longleftrightarrow> canCancel task \<and> c = ClickCancelTask task"
  by (auto simp: task_row_def)

lemma can_click_tasks:
  "can_click (TasksPage t fm session s) (ClickCancelTask task) \<longleftrightarrow>
     session = Some True \<and> \<not> q_loading (tk_tasks s) \<and> q_error (tk_tasks s) = None \<and> cancelTarget s = None \<and>
     task \<in> set (query_list (tk_tasks s)) \<and> canCancel task"
  by (auto simp: TasksPage_def ListFilters_def Let_def list_ex_iff)

text \<open>The task in the dialog could be cancelled when it was chosen, and a request on its way is one for
  such a task.\<close>

definition tasks_inv :: "tasks_page \<Rightarrow> bool" where
  "tasks_inv s \<longleftrightarrow>
     (\<forall>task. cancelTarget s = Some task \<longrightarrow> canCancel task) \<and>
     (\<forall>c. tk_cancel s = MutPending c \<longrightarrow> (\<exists>task. canCancel task \<and> c = cancelTask (task_task_id task)))"

lemma tasks_inv_click:
  "tasks_inv s \<Longrightarrow> can_click (TasksPage t fm session s) c \<Longrightarrow> tasks_inv (tasks_on_click c s)"
  by (cases c) (auto simp: can_click_tasks tasks_inv_def tasks_ops split: option.splits)

lemma tasks_inv_edit: "tasks_inv s \<Longrightarrow> tasks_inv (tasks_on_edit f v s)"
  by (cases f) (auto simp: tasks_inv_def split: option.splits)

lemma tasks_inv_message: "tasks_inv s \<Longrightarrow> tasks_inv (tasks_on_message m s)"
  by (cases m) (auto simp: tasks_inv_def cancel_settled_def mut_settle_def Let_def split: sum.splits mutation.splits)

interpretation tk: component "\<lambda>s. \<exists>now q. s = tasks_init now q"
    "\<lambda>(t, fm, session). TasksPage t fm session" tasks_on_click tasks_on_edit tasks_on_message tasks_inv
  by unfold_locales
     (auto simp: tasks_inv_click tasks_inv_edit tasks_inv_message, auto simp: tasks_inv_def tasks_init_def)

section \<open>Properties\<close>

text \<open>Only queued and running tasks are cancelled: in every reachable state a cancellation on its way is
  one for a task that was queued or running when the operator chose it; the cancellation can be asked
  for exactly on the rows of such tasks, the confirmation sends the request of the task in the dialog,
  a failure leaves the dialog open; and the bar of every row lies between 0 and 100 percent and is the
  reported progress where that does.\<close>

theorem cancel_only_active_tasks:
  assumes "tk.reachable s"
  shows "(\<forall>c. tk_cancel s = MutPending c \<longrightarrow> (\<exists>task. canCancel task \<and> c = cancelTask (task_task_id task))) \<and>
     (can_click (TasksPage t fm session s) (ClickCancelTask a) \<longrightarrow>
        a \<in> set (query_list (tk_tasks s)) \<and> task_status a \<in> {''queued'', ''running''} \<and>
        (let s1 = tasks_on_click ClickConfirmCancel (tasks_on_click (ClickCancelTask a) s) in
           tk_cancel s1 = MutPending (cancelTask (task_task_id a)) \<and>
           cancelTarget (tasks_on_message (CancelSettled (Inl e)) s1) = Some a \<and>
           cancelTarget (tasks_on_message (CancelSettled (Inr ())) s1) = None)) \<and>
     0 \<le> progress_width a \<and> progress_width a \<le> 100 \<and>
     (0 \<le> task_progress a \<and> task_progress a \<le> 100 \<longrightarrow> progress_width a = task_progress a)"
proof -
  have "tasks_inv s" by (rule tk.reachable_inv [OF assms])
  then show ?thesis
    by (simp add: tasks_inv_def can_click_tasks canCancel_def Let_def ct.confirmed_request ct.success_closes ct.failure_keeps_open
        progress_width_def)
qed

definition running_task :: Task where
  "running_task = \<lparr>task_task_id = ''t1'', task_task_type = ''node.probe'', task_target_type = ''node'', task_target_id = ''n1'',
     task_status = ''running'', task_progress = 120, task_stage = [], task_progress_message = [], task_retry_count = 0,
     task_max_retries = 3, task_error = [], task_result = JNull, task_created_at = [], task_finished_at = None,
     task_next_run_at = [], task_locked_by = [], task_lease_expires_at = None\<rparr>"

theorem cancel_only_active_tasks_witness:
  "tk_cancel (tasks_on_click ClickConfirmCancel (tasks_on_click (ClickCancelTask running_task) (tasks_init 0 (loaded [running_task])))) =
     MutPending (cancelTask ''t1'') \<and> progress_width running_task \<le> 100"
proof -
  have "tk.reachable (tasks_init 0 (loaded [running_task]))"
    by (intro tk.reach_start) blast
  from cancel_only_active_tasks [OF this, of plain sample_formats "Some True" running_task] show ?thesis
    by (simp add: can_click_tasks Let_def tasks_init_def loaded_def query_list_def)
       (simp add: running_task_def canCancel_def)
qed

end
