(* ===== verification/Sites_Page.thy ===== *)
theory Sites_Page
  imports Dialog_Kit
begin

text \<open>
  Sites: \<^verbatim>\<open>src/frontend/app/sites/page.tsx\<close>.  The numbers of nodes live in a map that is memoised on the list of
  nodes and updated in place by every render, so a render is a step of its own.
\<close>

section \<open>State\<close>

record sites_page =
  si_target :: "Site option"
  si_rename :: "Site rename_dialog"
  si_sites :: "Site list query"
  si_nodes :: "Node list query"
  si_shutdown :: "(Site \<times> bool, unit) mutation"
  si_memo_of :: "Node list option"
  si_nodeCount :: "string \<rightharpoonup> nat"

text \<open>\<^verbatim>\<open>new Map(nodes.map((node) => [node.site_id, 0]))\<close>, then one increment per node.\<close>

definition zero_counts :: "Node list \<Rightarrow> string \<rightharpoonup> nat" where
  "zero_counts nodes = map_of (map (\<lambda>n. (node_site_id n, 0)) nodes)"

definition count_node :: "Node \<Rightarrow> (string \<rightharpoonup> nat) \<Rightarrow> string \<rightharpoonup> nat" where
  "count_node n m = m(node_site_id n \<mapsto> (case m (node_site_id n) of None \<Rightarrow> 0 | Some k \<Rightarrow> k) + 1)"

definition sites_render :: "sites_page \<Rightarrow> sites_page" where
  "sites_render s =
     (let nodes = query_list (si_nodes s);
          memo = (if si_memo_of s = Some nodes then si_nodeCount s else zero_counts nodes)
      in s\<lparr>si_memo_of := Some nodes, si_nodeCount := fold count_node nodes memo\<rparr>)"

definition sites_init :: "Site list query \<Rightarrow> Node list query \<Rightarrow> sites_page" where
  "sites_init sites nodes =
     sites_render \<lparr>si_target = None, si_rename = rename_closed, si_sites = sites, si_nodes = nodes, si_shutdown = MutIdle,
        si_memo_of = None, si_nodeCount = Map.empty\<rparr>"

section \<open>What is rendered\<close>

datatype sites_click =
    ClickPower Site | ClickClosePower | ClickConfirmPower
  | ClickRename Site | ClickDismissRename | ClickCancelRename | ClickSaveRename | ClickSitesRetry

datatype sites_field = FieldSiteName

definition shown_count :: "sites_page \<Rightarrow> string \<Rightarrow> nat" where
  "shown_count s i = (case si_nodeCount s i of None \<Rightarrow> 0 | Some k \<Rightarrow> k)"

definition site_row :: "translator \<Rightarrow> formats \<Rightarrow> sites_page \<Rightarrow> Site \<Rightarrow> (sites_click, 'f) view" where
  "site_row t fm s site =
     Grp (site_id site)
       [Txt (t (site_name site) []),
        IconButton t (t ''Rename site {name}'' [(''name'', site_name site)]) False (ClickRename site),
        Txt (site_slug site), Txt (number_of fm (shown_count s (site_id site))),
        Txt (''v'' @ fm_number fm (Some (site_config_revision site))), Txt ''HTTP :3128'',
        StatusBadge t (if site_shutdown site then ''shutdown'' else ''active''),
        Btn (t ''{action} {name}''
          [(''action'', t (if site_shutdown site then ''Restore'' else ''Shutdown'') []), (''name'', t (site_name site) [])])
          False (ClickPower site)]"

definition power_dialog :: "translator \<Rightarrow> sites_page \<Rightarrow> (sites_click, 'f) view" where
  "power_dialog t s =
     (let down = (case si_target s of None \<Rightarrow> False | Some site \<Rightarrow> site_shutdown site);
          name = (case si_target s of None \<Rightarrow> [] | Some site \<Rightarrow> site_name site)
      in ConfirmDialog t (si_target s \<noteq> None) (if down then ''Restore site listener'' else ''Emergency shutdown'')
           (if down
            then t ''Restore proxy listener access for {name}. A release is still required for monitors to apply the state.''
                   [(''name'', t name [])]
            else t ''Block the proxy listener for {name}. This changes the desired configuration and requires a release to reach its edge nodes.''
                   [(''name'', t name [])])
           (if down then ''Restore site'' else ''Shut down site'') (mut_pending (si_shutdown s)) ClickClosePower ClickConfirmPower [])"

definition site_rename_text :: "translator \<Rightarrow> Site rename_dialog \<Rightarrow> string option" where
  "site_rename_text t d =
     map_option (\<lambda>site. t ''Change the display name for {name}. The site slug, configuration, and node bindings remain unchanged.''
       [(''name'', site_name site)]) (rn_item d)"

definition SitesPage :: "translator \<Rightarrow> formats \<Rightarrow> bool option \<Rightarrow> sites_page \<Rightarrow> (sites_click, sites_field) view" where
  "SitesPage t fm session s =
     gated t 7 session
      (guarded t 7 (q_loading (si_sites s) \<or> q_loading (si_nodes s))
        (first_error [q_error (si_sites s), q_error (si_nodes s)]) ClickSitesRetry
        (Grp ''page-stack''
          [fieldset (si_target s \<noteq> None \<or> rn_item (si_rename s) \<noteq> None)
             (Grp ''list-panel''
               ([PageHeader t (Some ''OPERATE'') (t ''Sites'' []) (Some (t ''Regional edge sites and their enrolled nodes.'' [])) [],
                 Txt (t ''{count} sites'' [(''count'', number_of fm (length (query_list (si_sites s))))]),
                 Txt (t ''Site configuration changes require a release before nodes apply them.'' [])] @
                map (\<lambda>h. Txt (t h [])) [''Site'', ''Edge nodes'', ''Configuration revision'', ''Listener'', ''State''] @
                map (site_row t fm s) (query_list (si_sites s)))),
           power_dialog t s,
           RenameDialog t ''Rename site'' (site_rename_text t (si_rename s)) ''Site display name''
             ClickDismissRename ClickCancelRename ClickSaveRename FieldSiteName (si_rename s)]))"

section \<open>Events\<close>

definition ask_power :: "Site \<Rightarrow> sites_page \<Rightarrow> sites_page" where
  "ask_power site s = sites_render (s\<lparr>si_target := Some site\<rparr>)"

definition close_power :: "sites_page \<Rightarrow> sites_page" where
  "close_power s = sites_render (s\<lparr>si_target := None\<rparr>)"

definition confirm_power :: "sites_page \<Rightarrow> sites_page" where
  "confirm_power s =
     (case si_target s of
        None \<Rightarrow> s
      | Some site \<Rightarrow> sites_render (s\<lparr>si_shutdown := MutPending (site, \<not> site_shutdown site)\<rparr>))"

definition shutdown_call :: "Site \<times> bool \<Rightarrow> api_call" where
  "shutdown_call v = setSiteShutdown (site_id (fst v)) (snd v)"

definition power_settled :: "string + unit \<Rightarrow> sites_page \<Rightarrow> sites_page" where
  "power_settled result s =
     (if \<not> mut_pending (si_shutdown s) then s
      else (let s' = s\<lparr>si_shutdown := mut_settle (\<lambda>_ d. d) result (si_shutdown s)\<rparr>
            in sites_render (case result of Inr _ \<Rightarrow> s'\<lparr>si_target := None\<rparr> | Inl _ \<Rightarrow> s')))"

abbreviation rename_site :: "Site rename_dialog \<Rightarrow> sites_page \<Rightarrow> sites_page" where
  "rename_site d s \<equiv> sites_render (s\<lparr>si_rename := d\<rparr>)"

fun sites_on_click :: "sites_click \<Rightarrow> sites_page \<Rightarrow> sites_page" where
  "sites_on_click (ClickPower site) s = ask_power site s"
| "sites_on_click ClickClosePower s = close_power s"
| "sites_on_click ClickConfirmPower s = confirm_power s"
| "sites_on_click (ClickRename site) s = rename_site (rename_open site_name site) s"
| "sites_on_click ClickDismissRename s = rename_site (rename_dismiss (si_rename s)) s"
| "sites_on_click ClickCancelRename s = rename_site (rename_cancel (si_rename s)) s"
| "sites_on_click ClickSaveRename s = rename_site (rename_submit updateSiteName site_id (si_rename s)) s"
| "sites_on_click ClickSitesRetry s = s"

fun sites_on_edit :: "sites_field \<Rightarrow> string \<Rightarrow> sites_page \<Rightarrow> sites_page" where
  "sites_on_edit FieldSiteName v s = rename_site (rename_edit v (si_rename s)) s"

datatype sites_message =
    SitesAnswer "Site list query" | SiteNodesAnswer "Node list query" | SitesRender
  | PowerSettled "string + unit" | SiteRenamed "string + Site"

fun sites_on_message :: "sites_message \<Rightarrow> sites_page \<Rightarrow> sites_page" where
  "sites_on_message (SitesAnswer q) s = sites_render (s\<lparr>si_sites := q\<rparr>)"
| "sites_on_message (SiteNodesAnswer q) s = sites_render (s\<lparr>si_nodes := q\<rparr>)"
| "sites_on_message SitesRender s = sites_render s"
| "sites_on_message (PowerSettled r) s = power_settled r s"
| "sites_on_message (SiteRenamed r) s = rename_site (rename_settled r (si_rename s)) s"

section \<open>Lemmas\<close>

lemma sites_render_frame [simp]:
  "si_target (sites_render s) = si_target s" "si_rename (sites_render s) = si_rename s"
  "si_sites (sites_render s) = si_sites s" "si_nodes (sites_render s) = si_nodes s"
  "si_shutdown (sites_render s) = si_shutdown s" "si_memo_of (sites_render s) = Some (query_list (si_nodes s))"
  by (simp_all add: sites_render_def Let_def)

text \<open>Switching a site off and on is a confirmed operation.\<close>

interpretation pw: confirmed_operation si_target si_shutdown ask_power close_power confirm_power power_settled
    "\<lambda>site. (site, \<not> site_shutdown site)"
  by unfold_locales
     (auto simp: ask_power_def close_power_def confirm_power_def power_settled_def Let_def split: option.splits sum.splits)

definition sites_inv :: "sites_page \<Rightarrow> bool" where
  "sites_inv s \<longleftrightarrow>
     rename_inv updateSiteName site_id (si_rename s) \<and>
     (\<forall>site down. si_shutdown s = MutPending (site, down) \<longrightarrow> down = (\<not> site_shutdown site))"

lemma sites_inv_render [simp]: "sites_inv (sites_render s) = sites_inv s"
  by (simp add: sites_inv_def)

lemma sites_inv_rename:
  "sites_inv s \<Longrightarrow> rename_inv updateSiteName site_id d \<Longrightarrow> sites_inv (s\<lparr>si_rename := d\<rparr>)"
  by (simp add: sites_inv_def)

lemma sites_inv_click:
  assumes "sites_inv s" "can_click (SitesPage t fm session s) c"
  shows "sites_inv (sites_on_click c s)"
proof (cases c)
  case ClickCancelRename
  have "\<not> mut_pending (rn_op (si_rename s))"
    using assms(2) ClickCancelRename
    by (auto simp: SitesPage_def site_row_def power_dialog_def Let_def split: if_splits)
  with ClickCancelRename assms(1) show ?thesis by (simp add: sites_inv_rename rename_inv_kept)
qed (use assms(1) in \<open>auto simp: sites_inv_def rename_inv_kept ask_power_def close_power_def confirm_power_def
      split: option.splits\<close>)

lemma sites_inv_edit: "sites_inv s \<Longrightarrow> sites_inv (sites_on_edit f v s)"
  by (cases f) (simp add: sites_inv_def rename_inv_kept)

lemma sites_inv_message: "sites_inv s \<Longrightarrow> sites_inv (sites_on_message m s)"
  by (cases m) (auto simp: sites_inv_def rename_inv_kept power_settled_def mut_settle_def Let_def
      split: sum.splits mutation.splits)

interpretation si: component "\<lambda>s. \<exists>sites nodes. s = sites_init sites nodes"
    "\<lambda>(t, fm, session). SitesPage t fm session" sites_on_click sites_on_edit sites_on_message sites_inv
  by unfold_locales
     (auto simp: sites_inv_click sites_inv_edit sites_inv_message, auto simp: sites_inv_def sites_init_def rename_inv_kept)

text \<open>The number of nodes of a site, and what the renders make of it.\<close>

definition nodes_of_site :: "Node list \<Rightarrow> string \<Rightarrow> nat" where
  "nodes_of_site nodes i = length (filter (\<lambda>n. node_site_id n = i) nodes)"

definition count_at :: "(string \<rightharpoonup> nat) \<Rightarrow> string \<Rightarrow> nat" where
  "count_at m i = (case m i of None \<Rightarrow> 0 | Some k \<Rightarrow> k)"

lemma count_at_fold: "count_at (fold count_node nodes m) i = count_at m i + nodes_of_site nodes i"
  by (induction nodes arbitrary: m) (auto simp: count_node_def count_at_def nodes_of_site_def)

lemma count_at_zero: "count_at (zero_counts nodes) i = 0"
  by (induction nodes) (auto simp: count_at_def zero_counts_def)

lemma shown_count_render:
  "shown_count (sites_render s) i =
     (if si_memo_of s = Some (query_list (si_nodes s)) then shown_count s i else 0) + nodes_of_site (query_list (si_nodes s)) i"
  using count_at_fold [of "query_list (si_nodes s)"] count_at_zero [of "query_list (si_nodes s)" i]
  by (simp add: sites_render_def Let_def shown_count_def flip: count_at_def)

lemma renders_frame: "si_nodes ((sites_render ^^ k) s) = si_nodes s"
  by (induction k) auto

section \<open>Properties\<close>

text \<open>C22: the numbers of nodes grow with every render: a list of nodes that is seen for the first time is
  counted correctly by the render that follows, but every further render with the same list adds the
  numbers again, so after \<open>k\<close> more renders the page shows \<open>k + 1\<close> times the number of nodes of a site.\<close>

theorem node_counts_grow:
  assumes "si_memo_of s \<noteq> Some (query_list (si_nodes s))"
  shows "shown_count ((sites_render ^^ Suc k) s) i = Suc k * nodes_of_site (query_list (si_nodes s)) i"
proof (induction k)
  case 0
  show ?case using assms by (simp add: shown_count_render)
next
  case (Suc k)
  have "si_memo_of ((sites_render ^^ Suc k) s) = Some (query_list (si_nodes s))"
    by (simp add: renders_frame)
  with Suc show ?case
    using shown_count_render [of "(sites_render ^^ Suc k) s" i] by (simp add: renders_frame)
qed

theorem node_counts_grow_witness:
  "let s = (sites_init (loaded [sample_site ''a'']) (loaded []))\<lparr>si_nodes := loaded [sample_node ''a'' ''n1'']\<rparr>
   in shown_count ((sites_render ^^ Suc 0) s) ''a'' = 1 \<and> shown_count ((sites_render ^^ Suc 2) s) ''a'' = 3"
proof -
  let ?s = "(sites_init (loaded [sample_site ''a'']) (loaded []))\<lparr>si_nodes := loaded [sample_node ''a'' ''n1'']\<rparr>"
  have "si_memo_of ?s \<noteq> Some (query_list (si_nodes ?s))"
    by (simp add: sites_init_def sites_render_def loaded_def query_list_def or_list_def Let_def)
  from node_counts_grow [OF this, of 0 "''a''"] node_counts_grow [OF this, of 2 "''a''"] show ?thesis
    by (simp add: Let_def nodes_of_site_def loaded_def query_list_def or_list_def)
qed

text \<open>The controls of a site do what they say: in every reachable state a switch request inverts the
  state of the site it was confirmed for, and a rename request has a name that is not blank, without
  white space at its ends, for the site on display; confirming a switch sends the request of the site
  in the dialog, a failure leaves the dialog open on it and its success closes it.\<close>

theorem site_operations_as_confirmed:
  assumes "si.reachable s"
  shows "(\<forall>site down. si_shutdown s = MutPending (site, down) \<longrightarrow> down = (\<not> site_shutdown site)) \<and>
     (\<forall>c. rn_op (si_rename s) = MutPending c \<longrightarrow>
        (\<exists>site n. rn_item (si_rename s) = Some site \<and> n \<noteq> [] \<and> trim n = n \<and> c = updateSiteName (site_id site) n)) \<and>
     (let s1 = sites_on_click ClickConfirmPower (sites_on_click (ClickPower a) s) in
        si_shutdown s1 = MutPending (a, \<not> site_shutdown a) \<and>
        si_target (sites_on_message (PowerSettled (Inl e)) s1) = Some a \<and>
        si_target (sites_on_message (PowerSettled (Inr ())) s1) = None)"
proof -
  have "sites_inv s" by (rule si.reachable_inv [OF assms])
  then have "rename_inv updateSiteName site_id (si_rename s)"
      "\<forall>site down. si_shutdown s = MutPending (site, down) \<longrightarrow> down = (\<not> site_shutdown site)"
    by (auto simp: sites_inv_def)
  then show ?thesis
    by (auto simp: rename_inv_def Let_def pw.confirmed_request pw.success_closes pw.failure_keeps_open)
qed

theorem site_operations_as_confirmed_witness:
  "si_shutdown (sites_on_click ClickConfirmPower (sites_on_click (ClickPower (sample_site ''a''))
     (sites_init (loaded [sample_site ''a'']) (loaded [])))) = MutPending (sample_site ''a'', True)"
proof -
  have "si.reachable (sites_init (loaded [sample_site ''a'']) (loaded []))"
    by (intro si.reach_start) blast
  from site_operations_as_confirmed [OF this, of "sample_site ''a''"] show ?thesis
    by (simp add: Let_def) (simp add: sample_site_def)
qed

end
