(* ===== verification/Nodes_Page.thy ===== *)
theory Nodes_Page
  imports Dialog_Kit Formatters Toasts
begin

text \<open>
  Nodes: \<^verbatim>\<open>src/frontend/app/nodes/page.tsx\<close>.  The effect that announces the error of the selected node is guarded
  by a key of its own, so it is run with every change of the selection.
\<close>

section \<open>State\<close>

record nodes_page =
  np_statusFilter :: string
  np_selected :: "Node option"
  nodeErrorKey :: string
  np_editNode :: "Node rename_dialog"
  np_editSite :: "Site rename_dialog"
  np_nodes :: "Node list query"
  np_sites :: "Site list query"
  np_toasts :: "ToastInput list"

definition nodes_init :: "Node list query \<Rightarrow> Site list query \<Rightarrow> nodes_page" where
  "nodes_init nodes sites =
     \<lparr>np_statusFilter = ''all'', np_selected = None, nodeErrorKey = [], np_editNode = rename_closed, np_editSite = rename_closed,
      np_nodes = nodes, np_sites = sites, np_toasts = []\<rparr>"

definition node_passes :: "string \<Rightarrow> Node \<Rightarrow> bool" where
  "node_passes flt n \<longleftrightarrow>
     (if flt = ''all'' then True
      else if flt = ''attention''
      then node_liveness_status n \<noteq> ''online'' \<or> node_config_status n \<noteq> ''in_sync'' \<or> node_service_status n \<noteq> ''healthy''
      else node_liveness_status n = flt)"

definition node_rows :: "nodes_page \<Rightarrow> Node list" where
  "node_rows s = filter (node_passes (np_statusFilter s)) (query_list (np_nodes s))"

section \<open>Announcing errors\<close>

definition error_key :: "Node option \<Rightarrow> string" where
  "error_key sel =
     (case sel of
        None \<Rightarrow> []
      | Some n \<Rightarrow> if trim (node_last_error n) = [] then [] else node_agent_id n @ '':'' @ trim (node_last_error n))"

definition node_error_toast :: "translator \<Rightarrow> Node \<Rightarrow> ToastInput" where
  "node_error_toast t n =
     \<lparr>toast_title = t ''Node reports an error'' [], toast_description = Some (t (trim (node_last_error n)) []),
      toast_variant = Some VariantDestructive, toast_duration = None\<rparr>"

definition error_effect :: "translator \<Rightarrow> nodes_page \<Rightarrow> nodes_page" where
  "error_effect t s =
     (case np_selected s of
        None \<Rightarrow> s\<lparr>nodeErrorKey := []\<rparr>
      | Some n \<Rightarrow>
          if trim (node_last_error n) = [] then s\<lparr>nodeErrorKey := []\<rparr>
          else if nodeErrorKey s = error_key (Some n) then s
          else s\<lparr>nodeErrorKey := error_key (Some n), np_toasts := np_toasts s @ [node_error_toast t n]\<rparr>)"

definition select_node :: "translator \<Rightarrow> Node option \<Rightarrow> nodes_page \<Rightarrow> nodes_page" where
  "select_node t sel s = error_effect t (s\<lparr>np_selected := sel\<rparr>)"

section \<open>What is rendered\<close>

datatype nodes_click =
    ClickInspect Node | ClickCloseNode
  | ClickRenameNode Node | ClickDismissNode | ClickCancelNode | ClickSaveNode
  | ClickRenameSite Site | ClickDismissSite | ClickCancelSite | ClickSaveSite | ClickNodesRetry

datatype nodes_field = FieldNodeStatus | FieldNodeName | FieldNodeSiteName

definition site_of_node :: "nodes_page \<Rightarrow> Node \<Rightarrow> Site option" where
  "site_of_node s n = find_first (\<lambda>site. site_id site = node_site_id n) (query_list (np_sites s))"

definition firstSiteRow :: "Node list \<Rightarrow> Node \<Rightarrow> bool" where
  "firstSiteRow rows n \<longleftrightarrow>
     map_option node_id (find_first (\<lambda>x. node_site_id x = node_site_id n) rows) = Some (node_id n)"

definition node_row :: "translator \<Rightarrow> formats \<Rightarrow> nodes_page \<Rightarrow> Node \<Rightarrow> (nodes_click, 'f) view" where
  "node_row t fm s n =
     (let site = site_of_node s n
      in Grp (node_id n)
        ([Txt (node_name n), Txt (node_agent_id n),
          Txt (t (case site of None \<Rightarrow> node_site_id n | Some x \<Rightarrow> or_str (site_name x) (node_site_id n)) [])] @
         (case site of
            None \<Rightarrow> []
          | Some x \<Rightarrow> show_if (firstSiteRow (node_rows s) n)
              [IconButton t (t ''Rename site {name}'' [(''name'', site_name x)]) False (ClickRenameSite x)]) @
         [Txt (case site of None \<Rightarrow> node_site_id n | Some x \<Rightarrow> or_str (site_slug x) (node_site_id n)),
          StatusBadge t (node_liveness_status n), StatusBadge t (node_config_status n), StatusBadge t (node_service_status n),
          Txt (fm_number fm (Some (node_applied_version n)) @ '' / '' @ fm_number fm (Some (node_desired_version n))),
          Btn (t ''Inspect'' []) False (ClickInspect n),
          IconButton t (t ''Rename node {name}'' [(''name'', node_name n)]) False (ClickRenameNode n)]))"

definition node_details :: "translator \<Rightarrow> formats \<Rightarrow> Node \<Rightarrow> ('c, 'f) view list" where
  "node_details t fm n =
     [Txt (t ''Liveness'' []), StatusBadge t (node_liveness_status n), Txt (t ''Configuration'' []), StatusBadge t (node_config_status n),
      Txt (t ''Service'' []), StatusBadge t (node_service_status n), Txt (t ''Subscription'' []), StatusBadge t (node_subscription_status n),
      Txt (t ''Applied / desired'' []),
      Txt (fm_number fm (Some (node_applied_version n)) @ '' / '' @ fm_number fm (Some (node_desired_version n))),
      Txt (t ''Applied hash'' []), Txt (shortHash (node_applied_hash n) 18),
      Txt (t ''Last heartbeat'' []), Txt (fm_date fm (node_last_seen_at n)),
      Txt (t ''Monitor'' []), Txt (node_monitor_version n), Txt ''sing-box'', Txt (node_singbox_version n),
      Txt (t ''Advertise IP'' []), Txt (or_str (node_advertise_ip n) ''-'')]"

definition node_dialog :: "translator \<Rightarrow> formats \<Rightarrow> nodes_page \<Rightarrow> (nodes_click, 'f) view" where
  "node_dialog t fm s =
     (case np_selected s of
        None \<Rightarrow> DetailDialog t False ''Node'' None ClickCloseNode []
      | Some n \<Rightarrow>
          DetailDialog t True (or_str (node_name n) ''Node'')
            (Some (t (name_or site_id site_name (query_list (np_sites s)) (node_site_id n)) [] @ '' '' @ [CHR 0xB7] @ '' '' @ node_agent_id n))
            ClickCloseNode (node_details t fm n))"

definition node_rename_text :: "translator \<Rightarrow> Node rename_dialog \<Rightarrow> string option" where
  "node_rename_text t d =
     map_option (\<lambda>n. t ''Change the display name for {name}. Node identity and site binding remain unchanged.''
       [(''name'', node_name n)]) (rn_item d)"

definition node_site_rename_text :: "translator \<Rightarrow> Site rename_dialog \<Rightarrow> string option" where
  "node_site_rename_text t d =
     map_option (\<lambda>site. t ''Change the display name for {name}. The site slug, configuration, and node bindings remain unchanged.''
       [(''name'', site_name site)]) (rn_item d)"

definition nodes_modal :: "nodes_page \<Rightarrow> bool" where
  "nodes_modal s \<longleftrightarrow> np_selected s \<noteq> None \<or> rn_item (np_editNode s) \<noteq> None \<or> rn_item (np_editSite s) \<noteq> None"

definition NodesPage :: "translator \<Rightarrow> formats \<Rightarrow> bool option \<Rightarrow> nodes_page \<Rightarrow> (nodes_click, nodes_field) view" where
  "NodesPage t fm session s =
     gated t 7 session
      (guarded t 7 (q_loading (np_nodes s) \<or> q_loading (np_sites s))
        (first_error [q_error (np_nodes s), q_error (np_sites s)]) ClickNodesRetry
        (Grp ''page-stack''
          [fieldset (nodes_modal s)
             (Grp ''list-panel''
               ([PageHeader t (Some ''OPERATE'') ''Nodes'' (Some ''Heartbeat, configuration, and service facts from each monitor.'') [],
                 Txt (t ''{count} nodes'' [(''count'', number_of fm (length (node_rows s)))]),
                 Sel (t ''Filter node status'' []) (np_statusFilter s)
                   [(''all'', t ''All states'' []), (''online'', t ''Online'' []), (''offline'', t ''Offline'' []),
                    (''attention'', t ''Needs attention'' [])] False FieldNodeStatus] @
                map (\<lambda>h. Txt (t h [])) [''Node'', ''Site'', ''Heartbeat'', ''Config'', ''Service'', ''Version''] @
                map (node_row t fm s) (node_rows s))),
           node_dialog t fm s,
           RenameDialog t ''Rename node'' (node_rename_text t (np_editNode s)) ''Display name''
             ClickDismissNode ClickCancelNode ClickSaveNode FieldNodeName (np_editNode s),
           RenameDialog t ''Rename site'' (node_site_rename_text t (np_editSite s)) ''Site display name''
             ClickDismissSite ClickCancelSite ClickSaveSite FieldNodeSiteName (np_editSite s)]))"

section \<open>Events\<close>

fun nodes_on_click :: "translator \<Rightarrow> nodes_click \<Rightarrow> nodes_page \<Rightarrow> nodes_page" where
  "nodes_on_click t (ClickInspect n) s = select_node t (Some n) s"
| "nodes_on_click t ClickCloseNode s = select_node t None s"
| "nodes_on_click t (ClickRenameNode n) s = s\<lparr>np_editNode := rename_open node_name n\<rparr>"
| "nodes_on_click t ClickDismissNode s = s\<lparr>np_editNode := rename_dismiss (np_editNode s)\<rparr>"
| "nodes_on_click t ClickCancelNode s = s\<lparr>np_editNode := rename_cancel (np_editNode s)\<rparr>"
| "nodes_on_click t ClickSaveNode s = s\<lparr>np_editNode := rename_submit updateNodeName node_id (np_editNode s)\<rparr>"
| "nodes_on_click t (ClickRenameSite x) s = s\<lparr>np_editSite := rename_open site_name x\<rparr>"
| "nodes_on_click t ClickDismissSite s = s\<lparr>np_editSite := rename_dismiss (np_editSite s)\<rparr>"
| "nodes_on_click t ClickCancelSite s = s\<lparr>np_editSite := rename_cancel (np_editSite s)\<rparr>"
| "nodes_on_click t ClickSaveSite s = s\<lparr>np_editSite := rename_submit updateSiteName site_id (np_editSite s)\<rparr>"
| "nodes_on_click t ClickNodesRetry s = s"

fun nodes_on_edit :: "nodes_field \<Rightarrow> string \<Rightarrow> nodes_page \<Rightarrow> nodes_page" where
  "nodes_on_edit FieldNodeStatus v s = s\<lparr>np_statusFilter := v\<rparr>"
| "nodes_on_edit FieldNodeName v s = s\<lparr>np_editNode := rename_edit v (np_editNode s)\<rparr>"
| "nodes_on_edit FieldNodeSiteName v s = s\<lparr>np_editSite := rename_edit v (np_editSite s)\<rparr>"

datatype nodes_message =
    NodeListAnswer "Node list query" | NodeSitesAnswer "Site list query"
  | NodeRenamed "string + Node" | NodeSiteRenamed "string + Site"

text \<open>A rename that succeeded also updates the node whose details are on display.\<close>

definition node_renamed :: "translator \<Rightarrow> string + Node \<Rightarrow> nodes_page \<Rightarrow> nodes_page" where
  "node_renamed t result s =
     (if \<not> mut_pending (rn_op (np_editNode s)) then s
      else (let s' = s\<lparr>np_editNode := rename_settled result (np_editNode s)\<rparr>
            in case result of
                 Inl _ \<Rightarrow> s'
               | Inr updated \<Rightarrow>
                   select_node t
                     (map_option (\<lambda>current. if node_id current = node_id updated then updated else current) (np_selected s)) s'))"

fun nodes_on_message :: "translator \<Rightarrow> nodes_message \<Rightarrow> nodes_page \<Rightarrow> nodes_page" where
  "nodes_on_message t (NodeListAnswer q) s = s\<lparr>np_nodes := q\<rparr>"
| "nodes_on_message t (NodeSitesAnswer q) s = s\<lparr>np_sites := q\<rparr>"
| "nodes_on_message t (NodeRenamed r) s = node_renamed t r s"
| "nodes_on_message t (NodeSiteRenamed r) s = s\<lparr>np_editSite := rename_settled r (np_editSite s)\<rparr>"

section \<open>Lemmas\<close>

lemma select_node_frame [simp]:
  "np_editNode (select_node t sel s) = np_editNode s" "np_editSite (select_node t sel s) = np_editSite s"
  "np_selected (select_node t sel s) = sel" "nodeErrorKey (select_node t sel s) = error_key sel"
  by (auto simp: select_node_def error_effect_def error_key_def split: option.splits)

lemma error_key_empty: "error_key (Some n) = [] \<longleftrightarrow> trim (node_last_error n) = []"
  by (simp add: error_key_def)

lemma select_node_toasts:
  "np_toasts (select_node t (Some n) s) =
     np_toasts s @ (if error_key (Some n) \<noteq> [] \<and> error_key (Some n) \<noteq> nodeErrorKey s then [node_error_toast t n] else [])"
  "np_toasts (select_node t None s) = np_toasts s"
  by (auto simp: select_node_def error_effect_def error_key_def)

definition nodes_inv :: "nodes_page \<Rightarrow> bool" where
  "nodes_inv s \<longleftrightarrow>
     nodeErrorKey s = error_key (np_selected s) \<and>
     rename_inv updateNodeName node_id (np_editNode s) \<and> rename_inv updateSiteName site_id (np_editSite s)"

lemma can_use_node_parts [simp]:
  "can_click (node_row t fm s n) c \<longleftrightarrow>
     c = ClickInspect n \<or> c = ClickRenameNode n \<or>
     (\<exists>x. site_of_node s n = Some x \<and> firstSiteRow (node_rows s) n \<and> c = ClickRenameSite x)"
  "can_click (node_dialog t fm s) c \<longleftrightarrow> np_selected s \<noteq> None \<and> c = ClickCloseNode"
  by (auto simp: node_row_def node_dialog_def node_details_def Let_def split: option.splits)

lemma nodes_inv_click:
  assumes "nodes_inv s" "can_click (NodesPage t' fm session s) c"
  shows "nodes_inv (nodes_on_click t c s)"
proof -
  have "c = ClickCancelNode \<Longrightarrow> \<not> mut_pending (rn_op (np_editNode s))"
      "c = ClickCancelSite \<Longrightarrow> \<not> mut_pending (rn_op (np_editSite s))"
    using assms(2) by (auto simp: NodesPage_def split: if_splits)
  with assms(1) show ?thesis by (cases c) (auto simp: nodes_inv_def rename_inv_kept)
qed

lemma nodes_inv_edit: "nodes_inv s \<Longrightarrow> nodes_inv (nodes_on_edit f v s)"
  by (cases f) (auto simp: nodes_inv_def rename_inv_kept)

lemma nodes_inv_message: "nodes_inv s \<Longrightarrow> nodes_inv (nodes_on_message t m s)"
  by (cases m) (auto simp: nodes_inv_def rename_inv_kept node_renamed_def Let_def split: sum.splits)

interpretation np: component "\<lambda>s. \<exists>nodes sites. s = nodes_init nodes sites"
    "\<lambda>(t', fm, session). NodesPage t' fm session" "nodes_on_click t" nodes_on_edit "nodes_on_message t" nodes_inv
  for t
  by unfold_locales
     (auto simp: nodes_inv_click nodes_inv_edit nodes_inv_message,
      auto simp: nodes_inv_def nodes_init_def rename_inv_kept error_key_def)

section \<open>Properties\<close>

text \<open>The error of a node is announced when its details are opened, once: in every reachable state,
  selecting a node notifies exactly if it reports an error other than the one announced for the
  current selection, and a rename request has a name that is not blank, for the item on display.\<close>

theorem node_error_announced:
  assumes "np.reachable t s"
  shows "np_toasts (nodes_on_click t (ClickInspect n) s) =
       np_toasts s @ (if trim (node_last_error n) \<noteq> [] \<and> error_key (Some n) \<noteq> error_key (np_selected s)
                      then [node_error_toast t n] else []) \<and>
     nodes_on_click t (ClickInspect n) (nodes_on_click t (ClickInspect n) s) = nodes_on_click t (ClickInspect n) s \<and>
     (\<forall>c. rn_op (np_editNode s) = MutPending c \<longrightarrow>
        (\<exists>x nm. rn_item (np_editNode s) = Some x \<and> nm \<noteq> [] \<and> trim nm = nm \<and> c = updateNodeName (node_id x) nm)) \<and>
     (\<forall>c. rn_op (np_editSite s) = MutPending c \<longrightarrow>
        (\<exists>x nm. rn_item (np_editSite s) = Some x \<and> nm \<noteq> [] \<and> trim nm = nm \<and> c = updateSiteName (site_id x) nm))"
proof -
  have inv: "nodes_inv s" by (rule np.reachable_inv [OF assms])
  have "np_toasts (select_node t (Some n) s) =
       np_toasts s @ (if trim (node_last_error n) \<noteq> [] \<and> error_key (Some n) \<noteq> error_key (np_selected s)
                      then [node_error_toast t n] else [])"
    using inv by (simp add: select_node_toasts nodes_inv_def error_key_empty)
  moreover have "select_node t (Some n) (select_node t (Some n) s) = select_node t (Some n) s"
    by (auto simp: select_node_def error_effect_def error_key_def)
  ultimately show ?thesis
    using inv by (auto simp: nodes_inv_def rename_inv_def)
qed

theorem node_error_announced_witness:
  "np_toasts (nodes_on_click plain (ClickInspect ((sample_node ''a'' ''n1'')\<lparr>node_last_error := ''x''\<rparr>)) (nodes_init empty_query empty_query)) =
     [node_error_toast plain ((sample_node ''a'' ''n1'')\<lparr>node_last_error := ''x''\<rparr>)]"
proof -
  have "np.reachable plain (nodes_init empty_query empty_query)"
    by (intro np.reach_start) blast
  from node_error_announced [OF this, of "(sample_node ''a'' ''n1'')\<lparr>node_last_error := ''x''\<rparr>"] show ?thesis
    by (simp add: nodes_init_def error_key_def trim_id is_ws_def)
qed

text \<open>A site can be renamed from exactly one row: if the identifiers of the nodes are distinct, then for
  every known site that has a node among the rows there is exactly one row that offers to rename it.\<close>

theorem site_rename_offered_once:
  assumes "inj_on node_id (set (node_rows s))"
    and "find_first (\<lambda>x. site_id x = i) (query_list (np_sites s)) = Some site"
    and "\<exists>n \<in> set (node_rows s). node_site_id n = i"
  shows "\<exists>!n. n \<in> set (node_rows s) \<and> can_click (node_row t fm s n) (ClickRenameSite site)"
proof -
  obtain m where m: "find_first (\<lambda>x. node_site_id x = i) (node_rows s) = Some m"
    using assms(3) by (meson find_first_None not_None_eq)
  then have in_rows: "m \<in> set (node_rows s)" "node_site_id m = i"
    by (auto dest: find_first_Some)
  have site: "site_id site = i"
    using assms(2) by (auto dest: find_first_Some)
  have offers: "can_click (node_row t fm s n) (ClickRenameSite site) \<longleftrightarrow> n = m" if "n \<in> set (node_rows s)" for n
  proof
    assume "can_click (node_row t fm s n) (ClickRenameSite site)"
    then have n: "site_of_node s n = Some site" "firstSiteRow (node_rows s) n" by auto
    from n(1) have "node_site_id n = i"
      using site by (auto simp: site_of_node_def dest: find_first_Some)
    with n(2) m have "node_id n = node_id m" by (simp add: firstSiteRow_def)
    with that in_rows(1) assms(1) show "n = m" by (auto dest: inj_onD)
  qed (use assms(2) m in_rows in \<open>auto simp: site_of_node_def firstSiteRow_def\<close>)
  with in_rows(1) show ?thesis by metis
qed

theorem site_rename_offered_once_witness:
  "let s = nodes_init (loaded [sample_node ''a'' ''n1'', sample_node ''a'' ''n2'']) (loaded [sample_site ''a''])
   in \<exists>!n. n \<in> set (node_rows s) \<and> can_click (node_row plain sample_formats s n) (ClickRenameSite (sample_site ''a''))"
proof -
  let ?s = "nodes_init (loaded [sample_node ''a'' ''n1'', sample_node ''a'' ''n2'']) (loaded [sample_site ''a''])"
  have rows: "node_rows ?s = [sample_node ''a'' ''n1'', sample_node ''a'' ''n2'']"
    by (simp add: node_rows_def nodes_init_def loaded_def query_list_def or_list_def node_passes_def)
  have "find_first (\<lambda>x. site_id x = ''a'') (query_list (np_sites ?s)) = Some (sample_site ''a'')"
    by (simp add: nodes_init_def loaded_def query_list_def or_list_def find_first_def)
  with site_rename_offered_once [of ?s "''a''"] show ?thesis
    by (simp add: Let_def rows inj_on_def)
qed

end
