(* ===== verification/Logs_Page.thy ===== *)
theory Logs_Page
  imports Page_Kit Endpoints
begin

text \<open>
  Access logs: \<^verbatim>\<open>src/frontend/app/logs/page.tsx\<close>.  \<open>up\<close> and \<open>down\<close> are the keys of the two traffic texts, whose arrows
  lie outside the character range of the model; \<open>port\<close> formats a number without grouping.
\<close>

section \<open>State\<close>

text \<open>\<open>None\<close> is the filter for all decisions.\<close>

record logs_page =
  lp_action :: "AccessMode option"
  lp_siteId :: string
  lp_nodeId :: string
  lp_range :: range_filter
  lp_search :: string
  lp_clock :: int
  lp_logs :: "AccessLog list query"
  lp_sites :: "Site list query"
  lp_nodes :: "Node list query"

definition logs_init :: "int \<Rightarrow> logs_page" where
  "logs_init now =
     \<lparr>lp_action = Some AccessDeny, lp_siteId = [], lp_nodeId = [], lp_range = range_init now Range24h, lp_search = [], lp_clock = now,
      lp_logs = empty_query, lp_sites = empty_query, lp_nodes = empty_query\<rparr>"

definition logs_call :: "logs_page \<Rightarrow> api_call" where
  "logs_call s =
     getLogs (if lp_siteId s = [] then None else Some (lp_siteId s)) (if lp_nodeId s = [] then None else Some (lp_nodeId s))
       (lp_action s) (rg_since (lp_range s)) None (if trim (lp_search s) = [] then None else Some (trim (lp_search s)))"

section \<open>What is rendered\<close>

datatype logs_click = ClickAction "AccessMode option" | ClickClearSearch | ClickLogsRefresh | ClickLogsRetry

datatype logs_field = FieldLogSite | FieldLogNode | FieldLogRange | FieldLogSearch

definition action_label :: "AccessMode option \<Rightarrow> string" where
  "action_label a = (case a of None \<Rightarrow> ''All decisions'' | Some m \<Rightarrow> if m = AccessDeny then ''Only denies'' else ''Only allows'')"

definition node_choices :: "logs_page \<Rightarrow> Node list" where
  "node_choices s = filter (\<lambda>n. lp_siteId s = [] \<or> node_site_id n = lp_siteId s) (query_list (lp_nodes s))"

definition log_selects :: "logs_page \<Rightarrow> logs_field filter_select list" where
  "log_selects s =
     [\<lparr>fs_label = ''Site'', fs_value = lp_siteId s, fs_set = FieldLogSite,
       fs_options = all_or_one ''All sites'' site_id site_name (query_list (lp_sites s))\<rparr>,
      \<lparr>fs_label = ''Node'', fs_value = lp_nodeId s, fs_set = FieldLogNode,
       fs_options = all_or_one ''All nodes'' node_id node_name (node_choices s)\<rparr>]"

definition LogRow ::
    "translator \<Rightarrow> formats \<Rightarrow> string \<Rightarrow> string \<Rightarrow> (int \<Rightarrow> string) \<Rightarrow> AccessLog \<Rightarrow> string \<Rightarrow> string \<Rightarrow> ('c, 'f) view" where
  "LogRow t fm up down port e siteName nodeName =
     Grp (al_id e)
       [Txt (fm_date fm (Some (al_ts e))), Txt nodeName, Txt (t siteName []), Txt (or_str (al_src_ip e) ''-''),
        Txt (or_str (al_dst_host e) ''-''), Txt ('':'' @ (if al_dst_port e = 0 then ''-'' else port (al_dst_port e))),
        StatusBadge t (if al_action e = AccessDeny then ''denied'' else ''allowed''),
        Txt (if al_deny_reason e \<noteq> [] then t (replace_char (CHR ''_'') '' '' (al_deny_reason e)) [] else ''-''),
        Txt (t up [(''value'', fm_bytes fm (Some (al_bytes_up e)))]), Txt (t down [(''value'', fm_bytes fm (Some (al_bytes_down e)))]),
        Txt (fm_duration fm (Some (of_int (al_duration_ms e))))]"

definition log_row ::
    "translator \<Rightarrow> formats \<Rightarrow> string \<Rightarrow> string \<Rightarrow> (int \<Rightarrow> string) \<Rightarrow> logs_page \<Rightarrow> AccessLog \<Rightarrow> ('c, 'f) view" where
  "log_row t fm up down port s e =
     LogRow t fm up down port e (name_or site_id site_name (query_list (lp_sites s)) (al_site_id e))
       (name_or node_agent_id node_name (query_list (lp_nodes s)) (al_node_id e))"

definition LogsPage ::
    "translator \<Rightarrow> formats \<Rightarrow> string \<Rightarrow> string \<Rightarrow> (int \<Rightarrow> string) \<Rightarrow> bool option \<Rightarrow> refresh_button \<Rightarrow> logs_page
       \<Rightarrow> (logs_click, logs_field) view" where
  "LogsPage t fm up down port session rb s =
     (let entries = query_list (lp_logs s)
      in gated t 7 session
          (guarded t 7 (q_loading (lp_logs s) \<or> q_loading (lp_sites s) \<or> q_loading (lp_nodes s)) (q_error (lp_logs s)) ClickLogsRetry
            (Grp ''page-stack''
              ([PageHeader t (Some ''OBSERVE'') ''Access logs'' (Some ''Recent allow and deny decisions from edge monitors.'')
                  [RefreshButton t ''Refresh'' False ClickLogsRefresh rb]] @
               map (\<lambda>a. Btn (t (action_label a) []) False (ClickAction a)) [None, Some AccessDeny, Some AccessAllow] @
               [Txt (t ''{count} events'' [(''count'', number_of fm (length entries))]),
                ListFilters t (rg_range (lp_range s)) FieldLogRange (log_selects s)
                  (Some (lp_search s, FieldLogSearch, ClickClearSearch)) []] @
               map (\<lambda>h. Txt (t h [])) [''Time'', ''Node'', ''Source'', ''Destination'', ''Action'', ''Deny reason'', ''Traffic'', ''Duration''] @
               (if entries \<noteq> [] then map (log_row t fm up down port s) entries
                else [EmptyState t ''No access logs recorded.'' None []])))))"

section \<open>Events\<close>

fun logs_on_click :: "logs_click \<Rightarrow> logs_page \<Rightarrow> logs_page" where
  "logs_on_click (ClickAction a) s = s\<lparr>lp_action := a\<rparr>"
| "logs_on_click ClickClearSearch s = s\<lparr>lp_search := []\<rparr>"
| "logs_on_click _ s = s"

fun logs_on_edit :: "logs_field \<Rightarrow> string \<Rightarrow> logs_page \<Rightarrow> logs_page" where
  "logs_on_edit FieldLogSite v s = s\<lparr>lp_siteId := v, lp_nodeId := []\<rparr>"
| "logs_on_edit FieldLogNode v s = s\<lparr>lp_nodeId := v\<rparr>"
| "logs_on_edit FieldLogRange v s =
     (case range_of_text v of None \<Rightarrow> s | Some r \<Rightarrow> s\<lparr>lp_range := range_choose (lp_clock s) r (lp_range s)\<rparr>)"
| "logs_on_edit FieldLogSearch v s = s\<lparr>lp_search := v\<rparr>"

datatype logs_message =
    LogsAnswer "AccessLog list query" | LogSitesAnswer "Site list query" | LogNodesAnswer "Node list query" | LogsClock int

fun logs_on_message :: "logs_message \<Rightarrow> logs_page \<Rightarrow> logs_page" where
  "logs_on_message (LogsAnswer q) s = s\<lparr>lp_logs := q\<rparr>"
| "logs_on_message (LogSitesAnswer q) s = s\<lparr>lp_sites := q\<rparr>"
| "logs_on_message (LogNodesAnswer q) s = s\<lparr>lp_nodes := q\<rparr>"
| "logs_on_message (LogsClock now) s = s\<lparr>lp_clock := now\<rparr>"

section \<open>Lemmas\<close>

text \<open>The binding of nodes to sites does not change: \<open>site_of\<close> gives the site of a node, and the lists of nodes
  agree with it.\<close>

definition bound_nodes :: "(string \<Rightarrow> string) \<Rightarrow> Node list query \<Rightarrow> bool" where
  "bound_nodes site_of q \<longleftrightarrow> (\<forall>n \<in> set (query_list q). node_site_id n = site_of (node_id n))"

definition bound_logs :: "(string \<Rightarrow> string) \<Rightarrow> logs_message \<Rightarrow> logs_page \<Rightarrow> logs_page" where
  "bound_logs site_of m s =
     (case m of LogNodesAnswer q \<Rightarrow> if bound_nodes site_of q then logs_on_message m s else s | _ \<Rightarrow> logs_on_message m s)"

definition logs_inv :: "(string \<Rightarrow> string) \<Rightarrow> logs_page \<Rightarrow> bool" where
  "logs_inv site_of s \<longleftrightarrow>
     bound_nodes site_of (lp_nodes s) \<and>
     (lp_siteId s \<noteq> [] \<and> lp_nodeId s \<noteq> [] \<longrightarrow> site_of (lp_nodeId s) = lp_siteId s) \<and>
     (\<exists>chosen. lp_range s = range_init chosen (rg_range (lp_range s)))"

lemma range_choose_init:
  "\<exists>c. r = range_init c (rg_range r) \<Longrightarrow> \<exists>c. range_choose now v r = range_init c (rg_range (range_choose now v r))"
  by (auto simp: range_choose_def range_init_def)

lemma can_edit_logs:
  "can_edit (LogsPage t fm up down port session rb s) FieldLogNode v \<Longrightarrow> v = [] \<or> (\<exists>n \<in> set (node_choices s). v = node_id n)"
  by (auto simp: LogsPage_def log_row_def LogRow_def log_selects_def Let_def split: if_splits)

lemma logs_inv_edit:
  assumes "logs_inv site_of s" "can_edit (LogsPage t fm up down port session rb s) f v"
  shows "logs_inv site_of (logs_on_edit f v s)"
proof (cases f)
  case FieldLogNode
  with can_edit_logs [of t fm up down port session rb s v] assms show ?thesis
    by (auto simp: logs_inv_def bound_nodes_def node_choices_def)
qed (use assms(1) in \<open>auto simp: logs_inv_def intro: range_choose_init split: option.splits\<close>)

interpretation lp: component "\<lambda>s. \<exists>now. s = logs_init now"
    "\<lambda>(t, fm, up, down, port, session, rb). LogsPage t fm up down port session rb" logs_on_click logs_on_edit "bound_logs site_of"
    "logs_inv site_of"
  for site_of
proof (unfold_locales, goal_cases)
  case (1 s)
  then show ?case by (auto simp: logs_inv_def logs_init_def bound_nodes_def empty_query_def query_list_def range_init_def)
next
  case (2 s e c)
  then show ?case by (cases c) (auto simp: logs_inv_def)
next
  case (3 s e f v)
  then show ?case by (cases e) (auto intro: logs_inv_edit)
next
  case (4 s m)
  then show ?case by (cases m) (auto simp: logs_inv_def bound_logs_def)
qed

section \<open>Properties\<close>

text \<open>The filters of the logs agree with each other: in every reachable state a node that is selected
  together with a site belongs to that site, so the two never exclude each other; the boundary of the
  time range is the one of the range on display at the moment it was chosen, whatever has been
  rendered since; and the search text is sent without white space at its ends, or not at all.\<close>

theorem log_filters_agree:
  assumes "lp.reachable site_of s"
  shows "(lp_siteId s \<noteq> [] \<and> lp_nodeId s \<noteq> [] \<longrightarrow> site_of (lp_nodeId s) = lp_siteId s) \<and>
     (\<exists>chosen. rg_since (lp_range s) = timeRangeStart chosen (rg_range (lp_range s))) \<and>
     (\<exists>q. logs_call s =
        getLogs (if lp_siteId s = [] then None else Some (lp_siteId s)) (if lp_nodeId s = [] then None else Some (lp_nodeId s))
          (lp_action s) (rg_since (lp_range s)) None q \<and>
        (q = None \<longleftrightarrow> trim (lp_search s) = []) \<and> (\<forall>x. q = Some x \<longrightarrow> x \<noteq> [] \<and> trim x = x))"
proof -
  have inv: "logs_inv site_of s" by (rule lp.reachable_inv [OF assms])
  then obtain chosen where "lp_range s = range_init chosen (rg_range (lp_range s))"
    by (auto simp: logs_inv_def)
  then have since: "rg_since (lp_range s) = timeRangeStart chosen (rg_range (lp_range s))"
    by (metis range_filter.select_convs(2) range_init_def)
  show ?thesis
  proof (intro conjI exI)
    show "lp_siteId s \<noteq> [] \<and> lp_nodeId s \<noteq> [] \<longrightarrow> site_of (lp_nodeId s) = lp_siteId s"
      using inv by (simp add: logs_inv_def)
  qed (auto simp: since logs_call_def split: if_splits)
qed

definition demo_logs :: logs_page where
  "demo_logs =
     logs_on_edit FieldLogNode ''n1''
       (fold (bound_logs (\<lambda>_. ''a''))
          [LogsAnswer (loaded []), LogSitesAnswer (loaded [sample_site ''a'']), LogNodesAnswer (loaded [sample_node ''a'' ''n1''])] (logs_init 0))"

theorem log_filters_agree_witness:
  "lp_nodeId demo_logs = ''n1'' \<and> (\<exists>chosen. rg_since (lp_range demo_logs) = timeRangeStart chosen Range24h)"
proof -
  let ?s = "fold (bound_logs (\<lambda>_. ''a''))
      [LogsAnswer (loaded []), LogSitesAnswer (loaded [sample_site ''a'']), LogNodesAnswer (loaded [sample_node ''a'' ''n1''])] (logs_init 0)"
  have "lp.reachable (\<lambda>_. ''a'') (logs_init 0)" by (intro lp.reach_start) blast
  then have before: "lp.reachable (\<lambda>_. ''a'') ?s" by (simp add: lp.reach_message)
  have "can_edit (LogsPage plain sample_formats [] [] show_int (Some True) refresh_init ?s) FieldLogNode ''n1''"
    by (simp add: bound_logs_def bound_nodes_def logs_init_def loaded_def query_list_def LogsPage_def log_selects_def node_choices_def
        Let_def)
  then have reach: "lp.reachable (\<lambda>_. ''a'') demo_logs"
    unfolding demo_logs_def using lp.reach_edit [OF before] by force
  have "rg_range (lp_range demo_logs) = Range24h" "lp_nodeId demo_logs = ''n1''"
    by (simp_all add: demo_logs_def bound_logs_def logs_init_def range_init_def)
  with log_filters_agree [OF reach] show ?thesis by metis
qed

end
