(* ===== verification/Audit_Page.thy ===== *)
theory Audit_Page
  imports Release_Detail Endpoints
begin

text \<open>
  The audit log: \<^verbatim>\<open>src/frontend/app/audit/page.tsx\<close>: the list with its filters, the details of an event, the export
  of the log as a file and the verification of its hash chain.
\<close>

section \<open>State\<close>

record AuditVerification =
  av_valid :: bool
  av_error :: string
  av_event_count :: int

record download_file =
  df_name :: string
  df_type :: string
  df_content :: string

record audit_page =
  au_selected :: "AuditEvent option"
  au_exporting :: bool
  au_running :: "ExportFormat option"
  au_action :: string
  au_actor :: string
  au_range :: range_filter
  au_clock :: int
  au_audit :: "AuditEvent list query"
  au_verify :: "(api_call, AuditVerification) mutation"
  au_toasts :: "ToastInput list"
  au_downloads :: "download_file list"

definition audit_init :: "int \<Rightarrow> AuditEvent list query \<Rightarrow> audit_page" where
  "audit_init now q =
     \<lparr>au_selected = None, au_exporting = False, au_running = None, au_action = [], au_actor = [], au_range = range_init now Range30d,
      au_clock = now, au_audit = q, au_verify = MutIdle, au_toasts = [], au_downloads = []\<rparr>"

definition audit_call :: "audit_page \<Rightarrow> api_call" where
  "audit_call s =
     getAudit (rg_since (au_range s)) None (if au_action s = [] then None else Some (au_action s))
       (if trim (au_actor s) = [] then None else Some (trim (au_actor s)))"

definition audit_toast :: "string \<Rightarrow> string \<Rightarrow> ToastVariant \<Rightarrow> audit_page \<Rightarrow> audit_page" where
  "audit_toast title description variant s =
     s\<lparr>au_toasts := au_toasts s @
         [\<lparr>toast_title = title, toast_description = Some description, toast_variant = Some variant, toast_duration = None\<rparr>]\<rparr>"

section \<open>Details of an event\<close>

text \<open>The effect that announces the error of an event runs when the error of the selection changes.\<close>

definition audit_select :: "translator \<Rightarrow> AuditEvent option \<Rightarrow> audit_page \<Rightarrow> audit_page" where
  "audit_select t sel s =
     (let s' = s\<lparr>au_selected := sel\<rparr>
      in if map_option ae_error sel = map_option ae_error (au_selected s) then s'
         else case sel of
                None \<Rightarrow> s'
              | Some e \<Rightarrow> if ae_error e = [] then s'
                          else audit_toast (t ''Audit event reports an error'' []) (t (ae_error e) []) VariantDestructive s')"

section \<open>Export and verification\<close>

definition export_type :: "ExportFormat \<Rightarrow> string" where
  "export_type f = (if f = ExportJson then ''application/json'' else ''application/x-ndjson'')"

definition downloadExport :: "ExportFormat \<Rightarrow> audit_page \<Rightarrow> audit_page" where
  "downloadExport f s = s\<lparr>au_exporting := True, au_running := Some f\<rparr>"

text \<open>The answer: a file for the browser to save, or a notification; the flag is dropped either way.\<close>

definition export_settled :: "translator \<Rightarrow> string + string \<Rightarrow> audit_page \<Rightarrow> audit_page" where
  "export_settled t result s =
     (case au_running s of
        None \<Rightarrow> s
      | Some f \<Rightarrow>
          (case result of
             Inr content \<Rightarrow>
               s\<lparr>au_downloads := au_downloads s @
                   [\<lparr>df_name = ''grouproxy-audit.'' @ export_format_text f, df_type = export_type f, df_content = content\<rparr>]\<rparr>
           | Inl e \<Rightarrow>
               audit_toast (t ''Export failed'' []) (t (toastErrorMessage (Some e) defaultErrorMessage) []) VariantDestructive s)
          \<lparr>au_exporting := False, au_running := None\<rparr>)"

text \<open>The mutation opts out of the notifications of the mutation cache.\<close>

definition verify_settled :: "translator \<Rightarrow> formats \<Rightarrow> string + AuditVerification \<Rightarrow> audit_page \<Rightarrow> audit_page" where
  "verify_settled t fm result s =
     (if \<not> mut_pending (au_verify s) then s
      else (let s' = s\<lparr>au_verify := mut_settle (\<lambda>_ d. d) result (au_verify s)\<rparr>
            in case result of
                 Inr v \<Rightarrow>
                   audit_toast (t (if av_valid v then ''Audit chain is valid'' else ''Audit chain verification failed'') [])
                     (t ''{count} events checked'' [(''count'', fm_number fm (Some (av_event_count v)))])
                     (if av_valid v then VariantSuccess else VariantDestructive) s'
               | Inl e \<Rightarrow>
                   audit_toast (t ''Audit verification failed'' []) (t (toastErrorMessage (Some e) defaultErrorMessage) [])
                     VariantDestructive s'))"

section \<open>What is rendered\<close>

datatype audit_click =
    ClickExport ExportFormat | ClickVerify | ClickViewEvent AuditEvent | ClickCloseEvent | ClickClearActor | ClickAuditRetry

datatype audit_field = FieldAuditAction | FieldAuditActor | FieldAuditRange

definition audit_row :: "translator \<Rightarrow> formats \<Rightarrow> AuditEvent \<Rightarrow> (audit_click, 'f) view" where
  "audit_row t fm e =
     Grp (ae_event_id e)
       [Txt (fm_date fm (Some (ae_at e))), Txt (t (ae_action e) []), Txt (t (ae_target_type e) []), Txt (shortHash (ae_target_id e) 14),
        Txt (ae_actor e), StatusBadge t (ae_result e), Txt (shortHash (ae_immutable_hash e) 14),
        Btn (t ''View'' []) False (ClickViewEvent e)]"

definition audit_select_action :: "audit_page \<Rightarrow> audit_field filter_select" where
  "audit_select_action s =
     \<lparr>fs_label = ''Action'', fs_value = au_action s, fs_set = FieldAuditAction,
      fs_options = [([], ''All actions''), (''config_release.create'', ''config release''), (''config_draft.create'', ''config draft''),
        (''proxy_selection.update'', ''proxy selection''), (''node.rename'', ''node rename'')]\<rparr>"

definition event_dialog :: "translator \<Rightarrow> formats \<Rightarrow> audit_page \<Rightarrow> (audit_click, 'f) view" where
  "event_dialog t fm s =
     (case au_selected s of
        None \<Rightarrow> DetailDialog t False ''Audit event'' None ClickCloseEvent []
      | Some e \<Rightarrow>
          DetailDialog t True (or_str (ae_action e) ''Audit event'')
            (Some (fm_date fm (Some (ae_at e)) @ '' '' @ [CHR 0xB7] @ '' '' @ ae_actor e)) ClickCloseEvent
            [Txt (t ''Target'' []), Txt (t (ae_target_type e) [] @ '' '' @ [CHR 0xB7] @ '' '' @ ae_target_id e),
             Txt (t ''Request'' []), Txt (shortHash (ae_request_id e) 20),
             Txt (t ''Immutable hash'' []), Txt (ae_immutable_hash e),
             Txt (t ''Previous hash'' []), Txt (or_str (ae_previous_hash e) (t ''Chain origin'' [])),
             Txt (t ''Before'' []), Txt (json_pretty 0 (ae_before e)), Txt (t ''After'' []), Txt (json_pretty 0 (ae_after e))])"

definition AuditPage :: "translator \<Rightarrow> formats \<Rightarrow> bool option \<Rightarrow> audit_page \<Rightarrow> (audit_click, audit_field) view" where
  "AuditPage t fm session s =
     (let events = query_list (au_audit s)
      in gated t 7 session
          (guarded t 7 (q_loading (au_audit s)) (q_error (au_audit s)) ClickAuditRetry
            (Grp ''page-stack''
              [fieldset (au_selected s \<noteq> None)
                (Grp ''list-panel''
                  ([PageHeader t (Some ''GOVERN'') ''Audit'' (Some ''Append-only control-plane events with a verifiable hash chain.'')
                      [Btn (t ''Export JSON'' []) (au_exporting s) (ClickExport ExportJson),
                       Btn (t ''Export NDJSON'' []) (au_exporting s) (ClickExport ExportNdjson),
                       Btn (if mut_pending (au_verify s) then t ''Verifying...'' [] else t ''Verify chain'' [])
                         (mut_pending (au_verify s)) ClickVerify],
                    Txt (t ''{count} events'' [(''count'', number_of fm (length events))]),
                    Txt (t ''Sensitive values are redacted before storage.'' []),
                    ListFilters t (rg_range (au_range s)) FieldAuditRange [audit_select_action s]
                      (Some (au_actor s, FieldAuditActor, ClickClearActor)) ''Filter by actor''] @
                   (if events \<noteq> []
                    then map (\<lambda>h. Txt (t h [])) [''Time'', ''Action'', ''Target'', ''Actor'', ''Result'', ''Hash''] @
                         map (audit_row t fm) events
                    else [EmptyState t ''No audit events recorded'' None []]))),
               event_dialog t fm s])))"

section \<open>Events\<close>

fun audit_on_click :: "translator \<Rightarrow> audit_click \<Rightarrow> audit_page \<Rightarrow> audit_page" where
  "audit_on_click t (ClickExport f) s = downloadExport f s"
| "audit_on_click t ClickVerify s = s\<lparr>au_verify := MutPending verifyAudit\<rparr>"
| "audit_on_click t (ClickViewEvent e) s = audit_select t (Some e) s"
| "audit_on_click t ClickCloseEvent s = audit_select t None s"
| "audit_on_click t ClickClearActor s = s\<lparr>au_actor := []\<rparr>"
| "audit_on_click t ClickAuditRetry s = s"

fun audit_on_edit :: "audit_field \<Rightarrow> string \<Rightarrow> audit_page \<Rightarrow> audit_page" where
  "audit_on_edit FieldAuditAction v s = s\<lparr>au_action := v\<rparr>"
| "audit_on_edit FieldAuditActor v s = s\<lparr>au_actor := v\<rparr>"
| "audit_on_edit FieldAuditRange v s =
     (case range_of_text v of None \<Rightarrow> s | Some r \<Rightarrow> s\<lparr>au_range := range_choose (au_clock s) r (au_range s)\<rparr>)"

datatype audit_message =
    AuditAnswer "AuditEvent list query" | ExportSettled "string + string" | VerifySettled "string + AuditVerification" | AuditClock int

fun audit_on_message :: "translator \<Rightarrow> formats \<Rightarrow> audit_message \<Rightarrow> audit_page \<Rightarrow> audit_page" where
  "audit_on_message t fm (AuditAnswer q) s = s\<lparr>au_audit := q\<rparr>"
| "audit_on_message t fm (ExportSettled r) s = export_settled t r s"
| "audit_on_message t fm (VerifySettled r) s = verify_settled t fm r s"
| "audit_on_message t fm (AuditClock now) s = s\<lparr>au_clock := now\<rparr>"

section \<open>Lemmas\<close>

lemma audit_toast_frame [simp]:
  "au_exporting (audit_toast a b c s) = au_exporting s" "au_running (audit_toast a b c s) = au_running s"
  "au_verify (audit_toast a b c s) = au_verify s" "au_downloads (audit_toast a b c s) = au_downloads s"
  "au_selected (audit_toast a b c s) = au_selected s"
  by (simp_all add: audit_toast_def)

lemma audit_select_frame [simp]:
  "au_exporting (audit_select t sel s) = au_exporting s" "au_running (audit_select t sel s) = au_running s"
  "au_verify (audit_select t sel s) = au_verify s" "au_selected (audit_select t sel s) = sel"
  by (auto simp: audit_select_def Let_def split: option.splits)

definition audit_inv :: "audit_page \<Rightarrow> bool" where
  "audit_inv s \<longleftrightarrow> (au_exporting s \<longleftrightarrow> au_running s \<noteq> None)"

lemma export_settled_inv: "audit_inv s \<Longrightarrow> audit_inv (export_settled t r s)"
  by (auto simp: audit_inv_def export_settled_def split: option.splits sum.splits)

lemma verify_settled_inv: "audit_inv s \<Longrightarrow> audit_inv (verify_settled t fm r s)"
  by (auto simp: audit_inv_def verify_settled_def Let_def split: sum.splits)

interpretation au: component "\<lambda>s. \<exists>now q. s = audit_init now q"
    "\<lambda>(t', fm', session). AuditPage t' fm' session" "audit_on_click t" audit_on_edit "audit_on_message t fm" audit_inv
  for t fm
proof (unfold_locales, goal_cases)
  case (2 s e c)
  then show ?case by (cases c) (auto simp: audit_inv_def downloadExport_def)
next
  case (3 s e f v)
  then show ?case by (cases f) (auto simp: audit_inv_def split: option.splits)
next
  case (4 s m)
  then show ?case by (cases m) (auto simp: export_settled_inv verify_settled_inv, auto simp: audit_inv_def)
qed (auto simp: audit_inv_def audit_init_def)

lemma can_click_export:
  "can_click (AuditPage t fm session s) (ClickExport f) \<Longrightarrow> \<not> au_exporting s"
  by (auto simp: AuditPage_def audit_row_def event_dialog_def Let_def split: if_splits option.splits)

section \<open>Properties\<close>

text \<open>C31: exports run one at a time and always end: in every reachable state the controls of the export are
  disabled exactly while one is running; its answer gives one file that holds the answer unchanged
  under the name and the type of the format, its failure the notification that the export failed and no file, and both
  release the controls.  A verification is announced once and truthfully: a valid chain as valid and as a success, an
  invalid one as a failed verification and as an error, both with the number of events that were checked, and a verification that could not be
  made as failed with its reason.\<close>

theorem audit_export_and_verify:
  assumes "au.reachable t fm s"
  shows "(can_click (AuditPage t' fm' session s) (ClickExport f) \<longrightarrow>
        au_running s = None \<and>
        (let s1 = audit_on_click t (ClickExport f) s;
             ok = audit_on_message t fm (ExportSettled (Inr content)) s1;
             bad = audit_on_message t fm (ExportSettled (Inl e)) s1
         in \<not> can_click (AuditPage t' fm' session s1) (ClickExport f') \<and>
            au_downloads ok = au_downloads s @
              [case f of
                 ExportJson \<Rightarrow> \<lparr>df_name = ''grouproxy-audit.json'', df_type = ''application/json'', df_content = content\<rparr>
               | ExportNdjson \<Rightarrow> \<lparr>df_name = ''grouproxy-audit.ndjson'', df_type = ''application/x-ndjson'', df_content = content\<rparr>] \<and>
            au_toasts ok = au_toasts s \<and> au_downloads bad = au_downloads s \<and>
            au_toasts bad = au_toasts s @
              [\<lparr>toast_title = t ''Export failed'' [],
                toast_description = Some (t (toastErrorMessage (Some e) defaultErrorMessage) []),
                toast_variant = Some VariantDestructive, toast_duration = None\<rparr>] \<and>
            \<not> au_exporting ok \<and> \<not> au_exporting bad)) \<and>
     (mut_pending (au_verify s) \<longrightarrow>
        au_toasts (audit_on_message t fm (VerifySettled (Inr v)) s) = au_toasts s @
          [if av_valid v
           then \<lparr>toast_title = t ''Audit chain is valid'' [],
                 toast_description = Some (t ''{count} events checked'' [(''count'', fm_number fm (Some (av_event_count v)))]),
                 toast_variant = Some VariantSuccess, toast_duration = None\<rparr>
           else \<lparr>toast_title = t ''Audit chain verification failed'' [],
                 toast_description = Some (t ''{count} events checked'' [(''count'', fm_number fm (Some (av_event_count v)))]),
                 toast_variant = Some VariantDestructive, toast_duration = None\<rparr>] \<and>
        au_toasts (audit_on_message t fm (VerifySettled (Inl e)) s) = au_toasts s @
          [\<lparr>toast_title = t ''Audit verification failed'' [],
            toast_description = Some (t (toastErrorMessage (Some e) defaultErrorMessage) []),
            toast_variant = Some VariantDestructive, toast_duration = None\<rparr>])"
proof -
  have inv: "audit_inv s" by (rule au.reachable_inv [OF assms])
  have "\<not> can_click (AuditPage t' fm' session (downloadExport f s)) (ClickExport f')"
    using can_click_export [of t' fm' session "downloadExport f s" f'] by (auto simp: downloadExport_def)
  moreover have "can_click (AuditPage t' fm' session s) (ClickExport f) \<Longrightarrow> au_running s = None"
    using can_click_export inv by (auto simp: audit_inv_def)
  ultimately show ?thesis
    by (cases f)
       (simp_all add: Let_def downloadExport_def export_settled_def verify_settled_def audit_toast_def export_type_def)
qed

theorem audit_export_and_verify_witness:
  "au_downloads (audit_on_message plain sample_formats (ExportSettled (Inr ''{}''))
     (audit_on_click plain (ClickExport ExportJson) (audit_init 0 (loaded [])))) =
     [\<lparr>df_name = ''grouproxy-audit.json'', df_type = ''application/json'', df_content = ''{}''\<rparr>] \<and>
   map toast_title (au_toasts (audit_on_message plain sample_formats
     (VerifySettled (Inr \<lparr>av_valid = False, av_error = ''hash'', av_event_count = 3\<rparr>))
     (audit_on_click plain ClickVerify (audit_init 0 (loaded []))))) = [''Audit chain verification failed'']"
proof
  have reach: "au.reachable plain sample_formats (audit_init 0 (loaded []))"
    by (intro au.reach_start) blast
  have "can_click (AuditPage plain sample_formats (Some True) (audit_init 0 (loaded []))) (ClickExport ExportJson)"
    by (simp add: AuditPage_def audit_init_def loaded_def query_list_def Let_def)
  with audit_export_and_verify [OF reach, of plain sample_formats "Some True" ExportJson "''{}''"]
  show "au_downloads (audit_on_message plain sample_formats (ExportSettled (Inr ''{}''))
     (audit_on_click plain (ClickExport ExportJson) (audit_init 0 (loaded [])))) =
     [\<lparr>df_name = ''grouproxy-audit.json'', df_type = ''application/json'', df_content = ''{}''\<rparr>]"
    by (simp add: Let_def) (simp add: audit_init_def)
  have "can_click ((\<lambda>(t', fm', session). AuditPage t' fm' session) (plain, sample_formats, Some True) (audit_init 0 (loaded []))) ClickVerify"
    by (simp add: AuditPage_def audit_init_def loaded_def query_list_def Let_def)
  from audit_export_and_verify [OF au.reach_click [OF reach this], of plain sample_formats "Some True" ExportJson "[]" "[]" ExportJson
      "\<lparr>av_valid = False, av_error = ''hash'', av_event_count = 3\<rparr>"]
  show "map toast_title (au_toasts (audit_on_message plain sample_formats
     (VerifySettled (Inr \<lparr>av_valid = False, av_error = ''hash'', av_event_count = 3\<rparr>))
     (audit_on_click plain ClickVerify (audit_init 0 (loaded []))))) = [''Audit chain verification failed'']"
    by simp (simp add: audit_init_def)
qed

end
