(* ===== verification/Redirects.thy ===== *)
theory Redirects
  imports App_Shell
begin

text \<open>
  The pages that only lead to another one: \<^verbatim>\<open>src/frontend/app/blacklist/page.tsx\<close> (an effect that replaces the address)
  and \<^verbatim>\<open>src/frontend/app/access-control/page.tsx\<close> (a redirect of the server).
\<close>

definition LegacyBlacklistPage :: "translator \<Rightarrow> ('c, 'f) view \<times> string" where
  "LegacyBlacklistPage t = (LoadingState t 5, ''/access-control'')"

definition AccessControlIndexPage :: string where
  "AccessControlIndexPage = ''/access-control/groups''"

text \<open>The address that a request for a path ends at; every other page of the console stays where it is.\<close>

definition next_path :: "string \<Rightarrow> string option" where
  "next_path p =
     (if p = ''/blacklist'' then Some (snd (LegacyBlacklistPage (\<lambda>k _. k) :: (unit, unit) view \<times> string))
      else if p = ''/access-control'' then Some AccessControlIndexPage
      else None)"

definition settled_path :: "string \<Rightarrow> string" where
  "settled_path p = (case next_path p of None \<Rightarrow> p | Some q \<Rightarrow> (case next_path q of None \<Rightarrow> q | Some r \<Rightarrow> r))"

text \<open>Two redirects are enough for every address, and the old address of the blacklist ends at the access
  groups.\<close>

lemma redirects_settle:
  "next_path (settled_path p) = None" "settled_path ''/blacklist'' = ''/access-control/groups''"
  by (auto simp: settled_path_def next_path_def LegacyBlacklistPage_def AccessControlIndexPage_def)

end
