(* ===== verification/Resource_Paths.thy ===== *)
theory Resource_Paths
  imports Access_Page Endpoints
begin

text \<open>
  What resource the address of a request names.  \<open>fetch\<close> parses the address as a URL before it is sent: surrounding
  blanks, tabs and line ends are dropped, the path ends at the first question mark or number sign, a
  backslash counts as a slash, and the segments \<^verbatim>\<open>.\<close> and \<^verbatim>\<open>..\<close> (also written with \<^verbatim>\<open>%2e\<close>) are removed.
  The control plane splits the path that is left at its slashes and decodes every segment.  The endpoints of
  \<^verbatim>\<open>src/frontend/lib/api.ts\<close> are read this way.
\<close>

definition call_path :: "api_call \<Rightarrow> string" where
  "call_path c =
     (case c of Request p _ \<Rightarrow> p | RequestPublic p \<Rightarrow> p | RequestPublicText p \<Rightarrow> p | RequestText p \<Rightarrow> p | RequestForm p _ \<Rightarrow> p)"

section \<open>Reading an address\<close>

definition url_path :: "string \<Rightarrow> string" where
  "url_path address =
     map (\<lambda>c. if c = CHR 0x5C then CHR ''/'' else c)
       (takeWhile (\<lambda>c. c \<noteq> CHR ''?'' \<and> c \<noteq> CHR ''#'')
         (filter (\<lambda>c. c \<notin> set [CHR 0x09, CHR 0x0A, CHR 0x0D])
           (rev (dropWhile (\<lambda>c. (of_char c :: nat) \<le> 32) (rev address)))))"

definition dots :: "string list" where
  "dots = [''.'', ''%2e'', ''%2E'']"

definition single_dot :: "string \<Rightarrow> bool" where
  "single_dot s \<longleftrightarrow> s \<in> set dots"

definition double_dot :: "string \<Rightarrow> bool" where
  "double_dot s \<longleftrightarrow> s \<in> set (concat (map (\<lambda>d. map ((@) d) dots) dots))"

fun remove_dots :: "string list \<Rightarrow> string list \<Rightarrow> string list" where
  "remove_dots kept [] = rev kept"
| "remove_dots kept (s # rest) =
     (if double_dot s then remove_dots ((if rest = [] then [[]] else []) @ tl kept) rest
      else if single_dot s then remove_dots ((if rest = [] then [[]] else []) @ kept) rest
      else remove_dots (s # kept) rest)"

definition resource_of :: "api_call \<Rightarrow> nat list option list" where
  "resource_of c =
     map decodeURIComponent (remove_dots [] (tl (split_char (CHR ''/'') (url_path (call_path c)))))"

definition route :: "string list \<Rightarrow> nat list option list" where
  "route segments = map (\<lambda>s. Some (map of_char s)) (''api'' # ''v1'' # segments)"

text \<open>Identifiers of word characters and hyphens need no encoding.\<close>

definition unescaped :: "string \<Rightarrow> bool" where
  "unescaped i \<longleftrightarrow> list_all (\<lambda>c. is_word_char c \<or> c = CHR ''-'') i"

section \<open>Decoding undoes encoding\<close>

lemma hex_of_digit [simp]: "d < 16 \<Longrightarrow> hex_of (hex_digit d) = Some d"
  by (auto simp: hex_of_def hex_digit_def of_char_of take_bit_eq_mod Let_def)

lemma octet_percent_byte [simp]: "b < 256 \<Longrightarrow> octet (percent_byte b @ s) = Some b"
  by (simp add: octet_def percent_byte_def)

lemma decode_ascii_byte:
  "b < 128 \<Longrightarrow> decodeURIComponent (percent_byte b @ s) = map_option ((#) b) (decodeURIComponent s)"
  using octet_percent_byte [of b s] by (simp add: percent_byte_def utf8_lead_def valid_point_def)

lemma decode_latin_bytes:
  assumes "128 \<le> n" "n < 256"
  shows "decodeURIComponent (percent_byte (192 + n div 64) @ percent_byte (128 + n mod 64) @ s) =
    map_option ((#) n) (decodeURIComponent s)"
proof -
  have n: "n div 64 = 2 \<or> n div 64 = 3" "64 * (n div 64) + n mod 64 = n"
    using assms by auto
  then have lead: "utf8_lead (192 + n div 64) = Some (1, n div 64, 128)"
    by (auto simp: utf8_lead_def)
  have "octet (percent_byte (192 + n div 64) @ percent_byte (128 + n mod 64) @ s) = Some (192 + n div 64)"
    using n by (intro octet_percent_byte) auto
  moreover have "octet (percent_byte (128 + n mod 64) @ s) = Some (128 + n mod 64)"
    by (intro octet_percent_byte) simp
  moreover have "(128 + n mod 64) div 64 = 2" by simp
  moreover have "(128 + n mod 64) mod 64 = n mod 64"
    by (simp add: mod_add_eq [of 128 64, symmetric])
  ultimately show ?thesis
    using assms n lead by (simp add: percent_byte_def valid_point_def)
qed

lemma decode_kept: "c \<noteq> CHR ''%'' \<Longrightarrow> decodeURIComponent (c # s) = map_option ((#) (of_char c)) (decodeURIComponent s)"
  by simp

lemma decode_encoded_char:
  "decodeURIComponent (percent_encode uri_unreserved c @ s) = map_option ((#) (of_char c)) (decodeURIComponent s)"
proof (cases "uri_unreserved c")
  case True
  then have "c \<noteq> CHR ''%''" by (auto simp: uri_unreserved_def is_word_char_def)
  with True show ?thesis by (simp add: percent_encode_def del: decodeURIComponent.simps(2) add: decode_kept)
next
  case False
  have "(of_char c :: nat) < 256" by (rule nat_of_char_less_256)
  with False show ?thesis
    by (cases "(of_char c :: nat) < 128")
       (simp_all add: percent_encode_def utf8_def decode_ascii_byte decode_latin_bytes Let_def)
qed

lemma decode_encode: "decodeURIComponent (encodeURIComponent s) = Some (map of_char s)"
  by (induction s) (simp_all add: encodeURIComponent_def decode_encoded_char)

section \<open>Segments that are read back\<close>

definition path_char :: "char \<Rightarrow> bool" where
  "path_char c \<longleftrightarrow> 32 < (of_char c :: nat) \<and> c \<notin> set [CHR 0x5C, CHR ''?'', CHR ''#'']"

definition clean :: "string \<Rightarrow> bool" where
  "clean s \<longleftrightarrow> (\<forall>c \<in> set s. path_char c \<and> c \<noteq> CHR ''/'') \<and> \<not> single_dot s \<and> \<not> double_dot s"

lemma path_char_kept: "path_char c \<Longrightarrow> c \<notin> set [CHR 0x09, CHR 0x0A, CHR 0x0D, CHR 0x5C, CHR ''?'', CHR ''#'']"
  by (auto simp: path_char_def)

lemma path_char_visible: "path_char c \<Longrightarrow> \<not> (of_char c :: nat) \<le> 32"
  by (simp add: path_char_def)

lemma path_char_unreserved: "c = CHR ''/'' \<or> c = CHR ''%'' \<or> uri_unreserved c \<Longrightarrow> path_char c"
  by (auto simp: path_char_def uri_unreserved_def is_word_char_def Let_def)

lemma url_path_id: "\<forall>c \<in> set p. path_char c \<Longrightarrow> url_path p = p"
proof -
  assume p: "\<forall>c \<in> set p. path_char c"
  have "dropWhile (\<lambda>c. (of_char c :: nat) \<le> 32) (rev p) = rev p"
    using p by (cases p rule: rev_cases) (simp_all add: path_char_visible)
  moreover have "filter (\<lambda>c. c \<notin> set [CHR 0x09, CHR 0x0A, CHR 0x0D]) p = p"
    using p path_char_kept by (intro filter_True) auto
  moreover have "takeWhile (\<lambda>c. c \<noteq> CHR ''?'' \<and> c \<noteq> CHR ''#'') p = p"
    using p path_char_kept by (intro takeWhile_eq_all_conv [THEN iffD2]) auto
  moreover have "map (\<lambda>c. if c = CHR 0x5C then CHR ''/'' else c) p = p"
    using p path_char_kept by (intro map_idI) auto
  ultimately show ?thesis unfolding url_path_def by (simp only: rev_rev_ident)
qed

lemma remove_dots_clean: "\<forall>w \<in> set ws. clean w \<Longrightarrow> remove_dots kept ws = rev kept @ ws"
proof (induction ws arbitrary: kept)
  case (Cons w ws)
  then have "\<not> double_dot w" "\<not> single_dot w" by (simp_all add: clean_def)
  with Cons show ?case by simp
qed simp

lemma resource_of_clean:
  assumes "list_all path_char (call_path c)" "list_all clean (tl (split_char (CHR ''/'') (call_path c)))"
  shows "resource_of c = map decodeURIComponent (tl (split_char (CHR ''/'') (call_path c)))"
  using assms by (simp add: resource_of_def url_path_id remove_dots_clean list_all_iff)

lemma decode_dots:
  "single_dot s \<Longrightarrow> decodeURIComponent s = Some (map of_char ''.'')"
  "double_dot s \<Longrightarrow> decodeURIComponent s = Some (map of_char ''..'')"
  by (auto simp: single_dot_def double_dot_def dots_def octet_def hex_of_def utf8_lead_def valid_point_def)

lemma of_char_list_inject: "map (of_char :: char \<Rightarrow> nat) s = map of_char u \<Longrightarrow> s = u"
  by (simp add: inj_map_eq_map inj_on_def)

lemma clean_encoded:
  assumes "s \<noteq> ''.''" "s \<noteq> ''..''"
  shows "clean (encodeURIComponent s)"
proof -
  have "\<not> single_dot (encodeURIComponent s)" "\<not> double_dot (encodeURIComponent s)"
    using assms decode_dots [of "encodeURIComponent s"] of_char_list_inject [of s]
    by (auto simp only: decode_encode option.inject)
  moreover have "\<forall>c \<in> set (encodeURIComponent s). path_char c \<and> c \<noteq> CHR ''/''"
    using encodeURIComponent_chars path_char_unreserved encodeURIComponent_no_slash by metis
  ultimately show ?thesis by (simp add: clean_def)
qed

lemma unescaped_encoded: "unescaped s \<Longrightarrow> encodeURIComponent s = s"
  by (induction s) (auto simp: unescaped_def encodeURIComponent_def percent_encode_def uri_unreserved_def)

lemma unescaped_segment: "unescaped s \<Longrightarrow> clean s \<and> decodeURIComponent s = Some (map of_char s)"
proof -
  assume s: "unescaped s"
  then have "s \<noteq> ''.'' \<and> s \<noteq> ''..''" by (auto simp: unescaped_def is_word_char_def Let_def)
  then show ?thesis using clean_encoded [of s] decode_encode [of s] unescaped_encoded [OF s] by simp
qed

lemma unescaped_names:
  "unescaped ''api''" "unescaped ''v1''" "unescaped ''sites''" "unescaped ''routing''" "unescaped ''publish''" "unescaped ''users''" "unescaped ''role''"
  "unescaped ''nodes''" "unescaped ''proxy-config''" "unescaped ''proxy-selection''" "unescaped ''network-groups''"
  "unescaped ''access-control''" "unescaped ''blacklist''" "unescaped ''subscriptions''" "unescaped ''versions''" "unescaped ''content''"
  "unescaped ''tasks''" "unescaped ''probes''" "unescaped ''backups''" "unescaped ''restore''" "unescaped ''shutdown''" "unescaped ''refresh''"
  "unescaped ''rollback''" "unescaped ''config''" "unescaped ''releases''" "unescaped ''detail''" "unescaped ''acks''" "unescaped ''cancel''"
  by (simp_all add: unescaped_def is_word_char_def)

lemma encoded_segment:
  assumes "s \<noteq> ''.''" "s \<noteq> ''..''"
  shows "clean (encodeURIComponent s)" "list_all path_char (encodeURIComponent s)"
    "CHR ''/'' \<notin> set (encodeURIComponent s)"
  using assms clean_encoded [of s] by (auto simp: clean_def list_all_iff)

lemma unescaped_chars: "unescaped s \<Longrightarrow> list_all path_char s \<and> CHR ''/'' \<notin> set s"
  using unescaped_segment [of s] by (auto simp: clean_def list_all_iff)

lemma address_chars: "list_all path_char ''/-0123456789abcdefghijklmnopqrstuvwxyz''"
  by (simp add: path_char_def)

lemmas resource_simps =
  resource_of_clean call_path_def keyed_post_def route_def split_char_free split_char_append decode_encode
  encoded_segment unescaped_segment unescaped_chars unescaped_names address_chars [simplified]

lemmas endpoint_defs =
  getRoutingPolicy_def saveRoutingPolicy_def publishRoutingPolicy_def updateSiteName_def updateUserRole_def
  updateNodeName_def getNodeProxyConfig_def selectNodeProxy_def updateNetworkGroup_def deleteNetworkGroup_def
  updateAccessControl_def deleteAccessControl_def deleteSourceBlacklist_def getSubscriptionVersionContent_def
  getTask_def getNodeProbes_def createNodeProbe_def restoreBackup_def setSiteShutdown_def refreshSubscription_def
  publishSubscriptionVersion_def rollbackSiteSubscription_def getRelease_def getReleaseDetail_def getReleaseAcks_def
  cancelTask_def

section \<open>Properties\<close>

text \<open>C7: a request names the resource the page meant.  The URL parser of the browser and a control plane that
  splits the path and decodes its segments find the segments of the route with the identifiers as they
  were: for the endpoints that encode, whatever the identifiers \<open>i\<close> and \<open>j\<close> contain, as long as they are not
  one or two dots; for the eight endpoints that put the identifier in as it is, when the identifiers \<open>k\<close> and \<open>l\<close>
  are made of word characters and hyphens.\<close>

theorem requests_name_their_resource:
  assumes "i \<notin> {''.'', ''..''}" "j \<notin> {''.'', ''..''}" "unescaped k" "unescaped l"
  shows "resource_of (getRoutingPolicy i) = route [''sites'', i, ''routing''] \<and>
   resource_of (saveRoutingPolicy i revision policy) = route [''sites'', i, ''routing''] \<and>
   resource_of (publishRoutingPolicy i revision) = route [''sites'', i, ''routing'', ''publish''] \<and>
   resource_of (updateSiteName i name) = route [''sites'', i] \<and>
   resource_of (updateUserRole i role) = route [''users'', i, ''role''] \<and>
   resource_of (updateNodeName i name) = route [''nodes'', i] \<and>
   resource_of (getNodeProxyConfig i) = route [''nodes'', i, ''proxy-config''] \<and>
   resource_of (selectNodeProxy i selection) = route [''nodes'', i, ''proxy-selection''] \<and>
   resource_of (updateNetworkGroup i name entries) = route [''network-groups'', i] \<and>
   resource_of (deleteNetworkGroup i) = route [''network-groups'', i] \<and>
   resource_of (updateAccessControl i nodes groups mode direction reason enabled) = route [''access-control'', i] \<and>
   resource_of (deleteAccessControl i) = route [''access-control'', i] \<and>
   resource_of (deleteSourceBlacklist i) = route [''blacklist'', i] \<and>
   resource_of (getSubscriptionVersionContent i j) = route [''subscriptions'', i, ''versions'', j, ''content''] \<and>
   resource_of (getTask i) = route [''tasks'', i] \<and>
   resource_of (getNodeProbes i) = route [''nodes'', i, ''probes''] \<and>
   resource_of (createNodeProbe gen i target tags) = route [''nodes'', i, ''probes''] \<and>
   resource_of (restoreBackup gen i flag) = route [''backups'', i, ''restore''] \<and>
   resource_of (setSiteShutdown k shutdown) = route [''sites'', k, ''shutdown''] \<and>
   resource_of (refreshSubscription gen k) = route [''subscriptions'', k, ''refresh''] \<and>
   resource_of (publishSubscriptionVersion gen k l sites) =
     route [''subscriptions'', k, ''versions'', l, ''publish''] \<and>
   resource_of (rollbackSiteSubscription gen k) = route [''subscriptions'', ''sites'', k, ''rollback''] \<and>
   resource_of (getRelease k) = route [''config'', ''releases'', k] \<and>
   resource_of (getReleaseDetail k) = route [''config'', ''releases'', k, ''detail''] \<and>
   resource_of (getReleaseAcks k) = route [''config'', ''releases'', k, ''acks''] \<and>
   resource_of (cancelTask k) = route [''tasks'', k, ''cancel'']"
  by (intro conjI; simp only: endpoint_defs; simp add: resource_simps assms [simplified])

theorem requests_name_their_resource_witness:
  "resource_of (getSubscriptionVersionContent ''a/../b?'' ''v%2e#'') =
     route [''subscriptions'', ''a/../b?'', ''versions'', ''v%2e#'', ''content''] \<and>
   resource_of (getRelease ''rel-1'') = route [''config'', ''releases'', ''rel-1'']"
  using requests_name_their_resource [of "''a/../b?''" "''v%2e#''" "''rel-1''" "''v_2''"]
  by (simp add: unescaped_def is_word_char_def)

text \<open>The conditions are needed.  An identifier of dots is not encoded and the browser resolves it away; an
  identifier that is put in as it is may have a slash, dots or a question mark and leads elsewhere.\<close>

lemma resource_of_dots:
  "resource_of (getRoutingPolicy ''..'') = route [''routing'']"
  "resource_of (deleteNetworkGroup ''.'') = route [''network-groups'', []]"
  by (simp_all add: resource_of_def call_path_def getRoutingPolicy_def deleteNetworkGroup_def url_path_def route_def
      encodeURIComponent_def percent_encode_def uri_unreserved_def single_dot_def double_dot_def dots_def)

lemma resource_of_unencoded:
  "resource_of (cancelTask ''a/b'') = route [''tasks'', ''a'', ''b'', ''cancel'']"
  "resource_of (setSiteShutdown ''../nodes/n'' True) = route [''nodes'', ''n'', ''shutdown'']"
  "resource_of (getReleaseDetail ''r?x'') = route [''config'', ''releases'', ''r'']"
  by (simp_all add: resource_of_def call_path_def cancelTask_def setSiteShutdown_def getReleaseDetail_def url_path_def
      route_def single_dot_def double_dot_def dots_def)

end
