(* ===== verification/Messages.thy ===== *)
theory Messages
  imports Preferences
begin

text \<open>
  The form in which the message dictionaries of \<^verbatim>\<open>src/frontend/lib/preferences.tsx\<close> are given.

  An entry has the key and the translation, each cut at its placeholders.  Characters outside ASCII
  (and quotes where the text syntax of the theory would clash) are written as \<^verbatim>\<open>^\<close> and four hexadecimal
  digits.  The texts of the model are lists of Latin-1 code units, which cannot hold Chinese
  characters; what an escaped character becomes in such a text is the parameter \<open>ec\<close> (it may be its
  UTF-8 bytes), of which only one thing is used: it makes no opening brace out of digits.
\<close>

type_synonym dictionary = "(piece list \<times> piece list) list"

function read_escapes :: "(string \<Rightarrow> string) \<Rightarrow> string \<Rightarrow> string" where
  "read_escapes ec [] = []"
| "read_escapes ec (c # cs) =
     (if c = CHR ''^'' \<and> 4 \<le> length cs then ec (take 4 cs) @ read_escapes ec (drop 4 cs)
      else c # read_escapes ec cs)"
  by pat_completeness auto
termination by (relation "measure (\<lambda>(ec, s). length s)") auto

fun read_piece :: "(string \<Rightarrow> string) \<Rightarrow> piece \<Rightarrow> piece" where
  "read_piece ec (Lit s) = Lit (read_escapes ec s)"
| "read_piece ec (Hole n) = Hole n"

definition read_text :: "(string \<Rightarrow> string) \<Rightarrow> piece list \<Rightarrow> string" where
  "read_text ec ps = template_text (map (read_piece ec) ps)"

definition esc_ok :: "(string \<Rightarrow> string) \<Rightarrow> bool" where
  "esc_ok ec \<longleftrightarrow> (\<forall>h. CHR ''{'' \<notin> set h \<longrightarrow> CHR ''{'' \<notin> set (ec h))"

fun holes :: "piece list \<Rightarrow> string list" where
  "holes [] = []"
| "holes (Lit s # ps) = holes ps"
| "holes (Hole n # ps) = n # holes ps"

text \<open>What makes an entry correct: the translation has the placeholders of the key, and no other.\<close>

definition entry_ok :: "piece list \<times> piece list \<Rightarrow> bool" where
  "entry_ok e =
     (case e of
        (k, v) \<Rightarrow>
          if holes k = [] then holes v = []
          else list_all piece_ok k \<and> list_all piece_ok v \<and> distinct (holes k) \<and> distinct (holes v) \<and>
               list_all (\<lambda>n. n \<in> set (holes k)) (holes v) \<and> list_all (\<lambda>n. n \<in> set (holes v)) (holes k))"

text \<open>The entry that counts is the last one with the key: a later \<^verbatim>\<open>Object.assign\<close> overwrites an earlier
  entry, as does a later member of an object literal.\<close>

definition entry_for :: "(string \<Rightarrow> string) \<Rightarrow> dictionary \<Rightarrow> string \<Rightarrow> (piece list \<times> piece list) option" where
  "entry_for ec d key = find_first (\<lambda>(k, v). read_text ec k = key) (rev d)"

definition dictionary_get :: "(string \<Rightarrow> string) \<Rightarrow> dictionary \<Rightarrow> string \<Rightarrow> string option" where
  "dictionary_get ec d key = map_option (\<lambda>(k, v). read_text ec v) (entry_for ec d key)"

lemma entry_ok_holes: "entry_ok (k, v) \<Longrightarrow> set (holes v) = set (holes k)"
  by (auto simp: entry_ok_def list_all_iff split: if_splits)

lemma entry_for_Some:
  "entry_for ec d key = Some (k, v) \<Longrightarrow> (k, v) \<in> set d \<and> read_text ec k = key"
  by (auto simp: entry_for_def dest: find_first_Some)

text \<open>A dictionary is a map that is assigned entry by entry.\<close>

lemma dictionary_get_assign:
  "dictionary_get ec (d @ [(k, v)]) key =
     (if read_text ec k = key then Some (read_text ec v) else dictionary_get ec d key)"
  by (simp add: dictionary_get_def entry_for_def find_first_def)

lemma read_escapes_plain: "esc_ok ec \<Longrightarrow> CHR ''{'' \<notin> set s \<Longrightarrow> CHR ''{'' \<notin> set (read_escapes ec s)"
proof (induction ec s rule: read_escapes.induct)
  case (2 ec c cs)
  then have "CHR ''{'' \<notin> set (take 4 cs)" "CHR ''{'' \<notin> set (drop 4 cs)"
    by (auto dest: in_set_takeD in_set_dropD)
  with 2 show ?case by (auto simp: esc_ok_def)
qed simp

lemma read_piece_ok: "esc_ok ec \<Longrightarrow> piece_ok p \<Longrightarrow> piece_ok (read_piece ec p)"
  by (cases p) (auto simp: read_escapes_plain)

lemma hole_nonempty: "holes ps \<noteq> [] \<Longrightarrow> read_text ec ps \<noteq> []"
  by (induction ps rule: holes.induct) (auto simp: read_text_def placeholder_def)

text \<open>Which pieces are still open after filling.\<close>

fun is_lit :: "piece \<Rightarrow> bool" where
  "is_lit (Lit s) = True"
| "is_lit (Hole n) = False"

lemma filled_closed:
  "set (holes ps) \<subseteq> fst ` set vals \<Longrightarrow> list_all is_lit (map (fill vals) (map (read_piece ec) ps))"
proof (induction ps rule: holes.induct)
  case (3 n ps)
  then have "map_of vals n \<noteq> None" by (simp add: map_of_eq_None_iff)
  with 3 show ?case by auto
qed simp_all

end
