(* ===== verification/Messages_Zh.thy ===== *)
theory Messages_Zh
  imports Messages
begin

text \<open>
  The Chinese messages of \<^verbatim>\<open>src/frontend/lib/preferences.tsx\<close>, in the order of the source: the member \<^verbatim>\<open>"zh-CN"\<close> of the object
  \<^verbatim>\<open>messages\<close> and the objects that are assigned to it.  The number in a name is the line of the first entry.
\<close>

definition messages_zh_23 :: dictionary where
  "messages_zh_23 =
    [([Lit ''Password''], [Lit ''^5BC6^7801'']),
     ([Lit ''GQuan code''], [Lit ''^5149^5708^9A8C^8BC1^7801'']),
     ([Lit ''Create account''], [Lit ''^6CE8^518C^8D26^53F7'']),
     ([Lit ''Reset password''], [Lit ''^91CD^7F6E^5BC6^7801'']),
     ([Lit ''Back to console''], [Lit ''^8FD4^56DE^63A7^5236^53F0'']),
     ([Lit ''Control plane access''], [Lit ''^63A7^5236^5E73^9762^8BBF^95EE'']),
     ([Lit ''IT code''], [Lit ''IT Code'']),
     ([Lit ''Verification code''], [Lit ''^9A8C^8BC1^7801'']),
     ([Lit ''Send code''], [Lit ''^53D1^9001^9A8C^8BC1^7801'']),
     ([Lit ''Send again''], [Lit ''^91CD^65B0^53D1^9001'']),
     ([Lit ''Sending...''], [Lit ''^53D1^9001^4E2D...'']),
     ([Lit ''Working...''], [Lit ''^5904^7406^4E2D...'']),
     ([Lit ''Sign in''], [Lit ''^767B^5F55'']),
     ([Lit ''Sign in with code''], [Lit ''^9A8C^8BC1^7801^767B^5F55'']),
     ([Lit ''New password''], [Lit ''^65B0^5BC6^7801'']),
     ([Lit ''Confirm password''], [Lit ''^786E^8BA4^5BC6^7801'']),
     ([Lit ''Verify your IT code before setting a password.''], [Lit ''^8BF7^5148^9A8C^8BC1 IT Code^FF0C^518D^8BBE^7F6E^5BC6^7801^3002'']),
     ([Lit ''Verify your IT code before choosing a new password.''], [Lit ''^8BF7^5148^9A8C^8BC1 IT Code^FF0C^518D^8BBE^7F6E^65B0^5BC6^7801^3002'']),
     ([Lit ''Verification code sent through GQuan.''], [Lit ''^9A8C^8BC1^7801^5DF2^901A^8FC7^5149^5708^53D1^9001^3002'']),
     ([Lit ''Account registered. Sign in with the password you set.''], [Lit ''^8D26^53F7^5DF2^6CE8^518C^FF0C^8BF7^4F7F^7528^521A^8BBE^7F6E^7684^5BC6^7801^767B^5F55^3002'']),
     ([Lit ''Password reset. Sign in with the new password.''], [Lit ''^5BC6^7801^5DF2^91CD^7F6E^FF0C^8BF7^4F7F^7528^65B0^5BC6^7801^767B^5F55^3002'']),
     ([Lit ''Authentication is required. Sign in again.''], [Lit ''^9700^8981^8BA4^8BC1^FF0C^8BF7^91CD^65B0^767B^5F55^3002'']),
     ([Lit ''Your management session has expired. Sign in again.''], [Lit ''^7BA1^7406^7AEF^8BA4^8BC1^5DF2^8FC7^671F^FF0C^8BF7^91CD^65B0^767B^5F55^3002'']),
     ([Lit ''Your management session was revoked. Sign in again.''], [Lit ''^7BA1^7406^7AEF^4F1A^8BDD^5DF2^88AB^64A4^9500^FF0C^8BF7^91CD^65B0^767B^5F55^3002'']),
     ([Lit ''Your saved management session is invalid. Sign in again.''], [Lit ''^5DF2^4FDD^5B58^7684^7BA1^7406^7AEF^4F1A^8BDD^65E0^6548^FF0C^8BF7^91CD^65B0^767B^5F55^3002'']),
     ([Lit ''This account is no longer active. Contact an administrator.''], [Lit ''^8BE5^8D26^53F7^5DF2^505C^7528^FF0C^8BF7^8054^7CFB^7BA1^7406^5458^3002'']),
     ([Lit ''No active account is registered for this IT code.''], [Lit ''^8BE5 IT Code ^5C1A^672A^6CE8^518C^6709^6548^8D26^53F7^3002'']),
     ([Lit ''GQuan verification delivery is unavailable.''], [Lit ''^5149^5708^9A8C^8BC1^7801^670D^52A1^6682^4E0D^53EF^7528^3002'']),
     ([Lit ''GQuan did not accept the verification request.''], [Lit ''^5149^5708^672A^63A5^53D7^672C^6B21^9A8C^8BC1^7801^8BF7^6C42^3002'']),
     ([Lit ''GQuan verification quota is currently exhausted.''], [Lit ''^5149^5708^9A8C^8BC1^7801^914D^989D^6682^65F6^7528^5C3D^3002'']),
     ([Lit ''GQuan stub delivery is not allowed in this environment.''], [Lit ''^5F53^524D^73AF^5883^4E0D^5141^8BB8^4F7F^7528^6D4B^8BD5^5149^5708^901A^9053^3002'']),
     ([Lit ''GQuan test verification is not configured.''], [Lit ''^672A^914D^7F6E^6D4B^8BD5^9A8C^8BC1^7801^3002'']),
     ([Lit ''Send in '', Hole ''seconds'', Lit ''s''], [Hole ''seconds'', Lit '' ^79D2^540E^53EF^91CD^53D1'']),
     ([Lit ''Open GQuan and enter the 6-digit code.''], [Lit ''^8BF7^6253^5F00^5149^5708^FF0C^8F93^5165 6 ^4F4D^9A8C^8BC1^7801^3002'']),
     ([Lit ''The IT code or password is not valid.''], [Lit ''IT Code ^6216^5BC6^7801^4E0D^6B63^786E^3002'']),
     ([Lit ''Enter a valid IT code.''], [Lit ''^8BF7^8F93^5165^6709^6548^7684 IT Code^3002'']),
     ([Lit ''Passwords must contain at least 12 characters.''], [Lit ''^5BC6^7801^81F3^5C11^9700^8981 12 ^4E2A^5B57^7B26^3002'']),
     ([Lit ''This IT code already has an account.''], [Lit ''^8BE5 IT Code ^5DF2^6CE8^518C^8D26^53F7^3002'']),
     ([Lit ''The password confirmation does not match.''], [Lit ''^4E24^6B21^8F93^5165^7684^5BC6^7801^4E0D^4E00^81F4^3002'']),
     ([Lit ''This code can no longer be used. Request another one.''], [Lit ''^8BE5^9A8C^8BC1^7801^5DF2^5931^6548^FF0C^8BF7^91CD^65B0^83B7^53D6^3002'']),
     ([Lit ''This verification code has expired. Request another one.''], [Lit ''^9A8C^8BC1^7801^5DF2^8FC7^671F^FF0C^8BF7^91CD^65B0^83B7^53D6^3002'']),
     ([Lit ''The verification code is not valid.''], [Lit ''^9A8C^8BC1^7801^4E0D^6B63^786E^3002'']),
     ([Lit ''A code was sent recently. Wait before requesting another.''], [Lit ''^9A8C^8BC1^7801^5DF2^53D1^9001^FF0C^8BF7^7A0D^540E^518D^8BD5^3002'']),
     ([Lit ''Unable to reach the control plane. Check the local service and retry.''], [Lit ''^65E0^6CD5^8FDE^63A5^63A7^5236^5E73^9762^FF0C^8BF7^68C0^67E5^672C^5730^670D^52A1^540E^91CD^8BD5^3002'']),
     ([Lit ''The request contains invalid fields.''], [Lit ''^8BF7^6C42^5B57^6BB5^4E0D^7B26^5408^8981^6C42^3002'']),
     ([Lit ''The request could not be completed.''], [Lit ''^8BF7^6C42^672A^80FD^5B8C^6210^3002'']),
     ([Lit ''Language''], [Lit ''^8BED^8A00'']),
     ([Lit ''Switch to dark mode''], [Lit ''^5207^6362^6DF1^8272^6A21^5F0F'']),
     ([Lit ''Switch to light mode''], [Lit ''^5207^6362^6D45^8272^6A21^5F0F'']),
     ([Lit ''Close dialog''], [Lit ''^5173^95ED^5BF9^8BDD^6846'']),
     ([Lit ''Close details''], [Lit ''^5173^95ED^8BE6^60C5'']),
     ([Lit ''Close navigation''], [Lit ''^5173^95ED^5BFC^822A'']),
     ([Lit ''Open navigation''], [Lit ''^6253^5F00^5BFC^822A'']),
     ([Lit ''Collapse sidebar''], [Lit ''^6536^8D77^4FA7^680F'']),
     ([Lit ''Expand sidebar''], [Lit ''^5C55^5F00^4FA7^680F'']),
     ([Lit ''Refresh workspace''], [Lit ''^5237^65B0^5DE5^4F5C^533A'']),
     ([Lit ''Sign out''], [Lit ''^9000^51FA^767B^5F55'']),
     ([Lit ''Sign out of the control plane?''], [Lit ''^786E^8BA4^9000^51FA^63A7^5236^5E73^9762^FF1F'']),
     ([Lit ''You will need to sign in again to access the control plane.''], [Lit ''^9000^51FA^540E^9700^8981^91CD^65B0^767B^5F55^624D^80FD^8BBF^95EE^63A7^5236^5E73^9762^3002'']),
     ([Lit ''Primary navigation''], [Lit ''^4E3B^5BFC^822A'']),
     ([Lit ''OPERATE''], [Lit ''^8FD0^884C'']),
     ([Lit ''POLICY''], [Lit ''^7B56^7565'']),
     ([Lit ''DEPLOY''], [Lit ''^90E8^7F72'']),
     ([Lit ''GOVERN''], [Lit ''^6CBB^7406'']),
     ([Lit ''Overview''], [Lit ''^6982^89C8'']),
     ([Lit ''Nodes''], [Lit ''^8282^70B9'']),
     ([Lit ''Sites & CIDRs''], [Lit ''^7AD9^70B9^4E0E^7F51^6BB5'']),
     ([Lit ''Exceptions''], [Lit ''^7B56^7565^4F8B^5916'']),
     ([Lit ''Policy exceptions''], [Lit ''^7B56^7565^4F8B^5916'']),
     ([Lit ''Cross-site''], [Lit ''^8DE8^7AD9^70B9'']),
     ([Lit ''Subscriptions''], [Lit ''^8BA2^9605'']),
     ([Lit ''Releases''], [Lit ''^53D1^5E03^8BB0^5F55'']),
     ([Lit ''Tasks''], [Lit ''^4EFB^52A1'']),
     ([Lit ''Audit''], [Lit ''^5BA1^8BA1'']),
     ([Lit ''Access''], [Lit ''^8BBF^95EE'']),
     ([Lit ''Control plane''], [Lit ''^63A7^5236^5E73^9762'']),
     ([Lit ''HTTP only''], [Lit ''^4EC5 HTTP'']),
     ([Lit ''Employee path''], [Lit ''^5458^5DE5^901A^9053'']),
     ([Lit ''Sign in required''], [Lit ''^9700^8981^767B^5F55'']),
     ([Lit ''Use a control-plane administrator account to load operational data.''], [Lit ''^8BF7^4F7F^7528^63A7^5236^5E73^9762^7BA1^7406^5458^8D26^53F7^52A0^8F7D^8FD0^884C^6570^636E^3002'']),
     ([Lit ''Unable to load this workspace''], [Lit ''^65E0^6CD5^52A0^8F7D^6B64^5DE5^4F5C^533A'']),
     ([Lit ''Retry''], [Lit ''^91CD^8BD5'']),
     ([Lit ''Loading''], [Lit ''^52A0^8F7D^4E2D'']),
     ([Lit ''enabled''], [Lit ''^5DF2^542F^7528'']),
     ([Lit ''disabled''], [Lit ''^5DF2^7981^7528'']),
     ([Lit ''online''], [Lit ''^5728^7EBF'']),
     ([Lit ''offline''], [Lit ''^79BB^7EBF'']),
     ([Lit ''active''], [Lit ''^6D3B^8DC3'']),
     ([Lit ''shutdown''], [Lit ''^5DF2^5173^95ED'']),
     ([Lit ''in sync''], [Lit ''^5DF2^540C^6B65'']),
     ([Lit ''drift''], [Lit ''^914D^7F6E^6F02^79FB'']),
     ([Lit ''pending''], [Lit ''^7B49^5F85^4E2D'']),
     ([Lit ''running''], [Lit ''^6267^884C^4E2D'']),
     ([Lit ''succeeded''], [Lit ''^5DF2^5B8C^6210'']),
     ([Lit ''failed''], [Lit ''^5931^8D25'']),
     ([Lit ''queued''], [Lit ''^6392^961F^4E2D'']),
     ([Lit ''ready''], [Lit ''^5C31^7EEA'']),
     ([Lit ''published''], [Lit ''^5DF2^53D1^5E03'']),
     ([Lit ''current''], [Lit ''^5F53^524D'']),
     ([Lit ''valid''], [Lit ''^6709^6548'']),
     ([Lit ''allowed''], [Lit ''^5141^8BB8'']),
     ([Lit ''denied''], [Lit ''^62D2^7EDD'']),
     ([Lit ''Authentication method''], [Lit ''^8BA4^8BC1^65B9^5F0F'']),
     ([Lit ''Account actions''], [Lit ''^8D26^53F7^64CD^4F5C'']),
     ([Lit ''Cancel''], [Lit ''^53D6^6D88'']),
     ([Lit ''OPERATIONS''], [Lit ''^8FD0^884C^6001^52BF'']),
     ([Lit ''SITE POLICY''], [Lit ''^7AD9^70B9^7B56^7565'']),
     ([Lit ''REGIONAL TOPOLOGY''], [Lit ''^533A^57DF^62D3^6251'']),
     ([Lit ''DEPLOYMENT''], [Lit ''^90E8^7F72'']),
     ([Lit ''EDGE INVENTORY''], [Lit ''^8FB9^7F18^8282^70B9'']),
     ([Lit ''TASK QUEUE''], [Lit ''^4EFB^52A1^961F^5217'']),
     ([Lit ''CURRENT PATH''], [Lit ''^5F53^524D^63A5^5165^8DEF^5F84''])]"

definition messages_zh_135 :: dictionary where
  "messages_zh_135 =
    [([Lit ''DEFAULT DENY''], [Lit ''^9ED8^8BA4^62D2^7EDD'']),
     ([Lit ''SOURCE ACCESS''], [Lit ''^6765^6E90^8BBF^95EE'']),
     ([Lit ''POLICY TEST''], [Lit ''^7B56^7565^6D4B^8BD5'']),
     ([Lit ''Actions''], [Lit ''^64CD^4F5C'']),
     ([Lit ''Action''], [Lit ''^52A8^4F5C'']),
     ([Lit ''Actor''], [Lit ''^64CD^4F5C^4EBA'']),
     ([Lit ''Add''], [Lit ''^6DFB^52A0'']),
     ([Lit ''Adding...''], [Lit ''^6DFB^52A0^4E2D...'']),
     ([Lit ''Add CIDR''], [Lit ''^6DFB^52A0 CIDR'']),
     ([Lit ''Add destination''], [Lit ''^6DFB^52A0^76EE^6807^89C4^5219'']),
     ([Lit ''Add exception''], [Lit ''^6DFB^52A0^4F8B^5916'']),
     ([Lit ''Add HTTP source''], [Lit ''^6DFB^52A0 HTTP ^6E90'']),
     ([Lit ''Advertise IP''], [Lit ''^516C^544A IP'']),
     ([Lit ''After''], [Lit ''^53D8^66F4^540E'']),
     ([Lit ''All states''], [Lit ''^5168^90E8^72B6^6001'']),
     ([Lit ''Applied / desired''], [Lit ''^5DF2^5E94^7528 / ^76EE^6807^7248^672C'']),
     ([Lit ''Applied bundle matches''], [Lit ''^5DF2^5E94^7528^914D^7F6E^5305^4E00^81F4'']),
     ([Lit ''Applied hash''], [Lit ''^5DF2^5E94^7528^54C8^5E0C'']),
     ([Lit ''Audit event''], [Lit ''^5BA1^8BA1^4E8B^4EF6'']),
     ([Lit ''Audit chain is valid''], [Lit ''^5BA1^8BA1^94FE^6709^6548'']),
     ([Lit ''Audit chain verification failed''], [Lit ''^5BA1^8BA1^94FE^6821^9A8C^5931^8D25'']),
     ([Lit ''Before''], [Lit ''^53D8^66F4^524D'']),
     ([Lit ''Chain origin''], [Lit ''^94FE^8D77^70B9'']),
     ([Lit ''Check access''], [Lit ''^68C0^67E5^8BBF^95EE'']),
     ([Lit ''Checking...''], [Lit ''^68C0^67E5^4E2D...'']),
     ([Lit ''CIDR is the current access boundary.''], [Lit ''CIDR ^662F^5F53^524D^8BBF^95EE^8FB9^754C^3002'']),
     ([Lit ''CIDR or IP''], [Lit ''CIDR ^6216 IP'']),
     ([Lit ''Column: destination listener''], [Lit ''^5217^FF1A^76EE^6807^76D1^542C^5668'']),
     ([Lit ''Comment''], [Lit ''^5907^6CE8'']),
     ([Lit ''Config''], [Lit ''^914D^7F6E'']),
     ([Lit ''Configuration''], [Lit ''^914D^7F6E'']),
     ([Lit ''Configuration in sync''], [Lit ''^914D^7F6E^5DF2^540C^6B65'']),
     ([Lit ''Configuration or service state differs from the desired release.''], [Lit ''^914D^7F6E^6216^670D^52A1^72B6^6001^4E0E^76EE^6807^53D1^5E03^4E0D^4E00^81F4^3002'']),
     ([Lit ''Control-plane summary''], [Lit ''^63A7^5236^5E73^9762^6458^8981'']),
     ([Lit ''Copied''], [Lit ''^5DF2^590D^5236'']),
     ([Lit ''Copy''], [Lit ''^590D^5236'']),
     ([Lit ''Create draft''], [Lit ''^521B^5EFA^8349^7A3F'']),
     ([Lit ''Created''], [Lit ''^521B^5EFA^65F6^95F4'']),
     ([Lit ''Delete destination''], [Lit ''^5220^9664^76EE^6807^89C4^5219'']),
     ([Lit ''Delete exception''], [Lit ''^5220^9664^4F8B^5916'']),
     ([Lit ''Details''], [Lit ''^8BE6^60C5'']),
     ([Lit ''Disabled''], [Lit ''^5DF2^7981^7528'']),
     ([Lit ''Domain''], [Lit ''^57DF^540D'']),
     ([Lit ''Download''], [Lit ''^4E0B^8F7D'']),
     ([Lit ''Drift or failure''], [Lit ''^6F02^79FB^6216^5931^8D25'']),
     ([Lit ''Edge nodes''], [Lit ''^8FB9^7F18^8282^70B9'']),
     ([Lit ''Enter an address to calculate the effective access policy.''], [Lit ''^8F93^5165^5730^5740^4EE5^8BA1^7B97^751F^6548^8BBF^95EE^7B56^7565^3002'']),
     ([Lit ''Error''], [Lit ''^9519^8BEF'']),
     ([Lit ''Expires''], [Lit ''^5230^671F^65F6^95F4'']),
     ([Lit ''Expires at''], [Lit ''^5230^671F^4E8E'']),
     ([Lit ''Filter node status''], [Lit ''^7B5B^9009^8282^70B9^72B6^6001'']),
     ([Lit ''From ^005C To''], [Lit ''^6765^6E90 ^005C ^76EE^6807'']),
     ([Lit ''HTTPS proxy listener''], [Lit ''HTTPS ^4EE3^7406^76D1^542C^5668'']),
     ([Lit ''Hash''], [Lit ''^54C8^5E0C'']),
     ([Lit ''Heartbeat''], [Lit ''^5FC3^8DF3'']),
     ([Lit ''Heartbeat state''], [Lit ''^5FC3^8DF3^72B6^6001'']),
     ([Lit ''IP address''], [Lit ''IP ^5730^5740'']),
     ([Lit ''Immutable hash''], [Lit ''^4E0D^53EF^53D8^54C8^5E0C'']),
     ([Lit ''Inspect''], [Lit ''^67E5^770B'']),
     ([Lit ''Invalid source IP.''], [Lit ''^6765^6E90 IP ^65E0^6548^3002'']),
     ([Lit ''Last error''], [Lit ''^6700^8FD1^9519^8BEF'']),
     ([Lit ''Last heartbeat''], [Lit ''^6700^8FD1^5FC3^8DF3'']),
     ([Lit ''Lease''], [Lit ''^79DF^7EA6'']),
     ([Lit ''Listener''], [Lit ''^76D1^542C^5668'']),
     ([Lit ''Liveness''], [Lit ''^5B58^6D3B^72B6^6001'']),
     ([Lit ''Manage policy''], [Lit ''^7BA1^7406^7B56^7565'']),
     ([Lit ''Monitor''], [Lit ''^76D1^63A7^5668'']),
     ([Lit ''Needs attention''], [Lit ''^9700^8981^5173^6CE8'']),
     ([Lit ''No active exceptions.''], [Lit ''^5F53^524D^6CA1^6709^751F^6548^4F8B^5916^3002'']),
     ([Lit ''No destinations are blocked.''], [Lit ''^5F53^524D^6CA1^6709^88AB^62D2^7EDD^7684^76EE^6807^3002'']),
     ([Lit ''No effective CIDRs''], [Lit ''^6CA1^6709^751F^6548 CIDR'']),
     ([Lit ''No node enrolled''], [Lit ''^6CA1^6709^5DF2^6CE8^518C^8282^70B9'']),
     ([Lit ''No site CIDRs configured.''], [Lit ''^5C1A^672A^914D^7F6E^7AD9^70B9 CIDR^3002'']),
     ([Lit ''Node''], [Lit ''^8282^70B9'']),
     ([Lit ''Node inventory''], [Lit ''^8282^70B9^6E05^5355'']),
     ([Lit ''Node state''], [Lit ''^8282^70B9^72B6^6001'']),
     ([Lit ''Nodes online''], [Lit ''^5728^7EBF^8282^70B9'']),
     ([Lit ''Office network''], [Lit ''^529E^516C^7F51^7EDC'']),
     ([Lit ''Offline''], [Lit ''^79BB^7EBF'']),
     ([Lit ''Online''], [Lit ''^5728^7EBF'']),
     ([Lit ''Open nodes''], [Lit ''^6253^5F00^8282^70B9'']),
     ([Lit ''Open policy''], [Lit ''^6253^5F00^7B56^7565'']),
     ([Lit ''Open queue''], [Lit ''^6253^5F00^961F^5217'']),
     ([Lit ''Operator name''], [Lit ''^64CD^4F5C^4EBA^59D3^540D'']),
     ([Lit ''Owner''], [Lit ''^8D1F^8D23^4EBA'']),
     ([Lit ''Pattern''], [Lit ''^5339^914D^89C4^5219'']),
     ([Lit ''Policy changes require a release before nodes apply them.''], [Lit ''^7B56^7565^53D8^66F4^9700^8981^521B^5EFA^53D1^5E03^540E^624D^4F1A^7531^8282^70B9^5E94^7528^3002'']),
     ([Lit ''Policy revision''], [Lit ''^7B56^7565^7248^672C'']),
     ([Lit ''Previous hash''], [Lit ''^4E0A^4E00^4E2A^54C8^5E0C'']),
     ([Lit ''Progress''], [Lit ''^8FDB^5EA6'']),
     ([Lit ''Proxy port''], [Lit ''^4EE3^7406^7AEF^53E3'']),
     ([Lit ''Reason for block''], [Lit ''^62E6^622A^539F^56E0'']),
     ([Lit ''Recent releases''], [Lit ''^6700^8FD1^53D1^5E03'']),
     ([Lit ''Request''], [Lit ''^8BF7^6C42'']),
     ([Lit ''Requires operator review''], [Lit ''^9700^8981^64CD^4F5C^5458^590D^6838'']),
     ([Lit ''Result''], [Lit ''^7ED3^679C'']),
     ([Lit ''Retries''], [Lit ''^91CD^8BD5^6B21^6570'']),
     ([Lit ''Review nodes''], [Lit ''^67E5^770B^8282^70B9'']),
     ([Lit ''Row: source site''], [Lit ''^884C^FF1A^6765^6E90^7AD9^70B9'']),
     ([Lit ''Sensitive values are redacted before storage.''], [Lit ''^654F^611F^503C^4F1A^5728^5B58^50A8^524D^8131^654F^3002'']),
     ([Lit ''Service''], [Lit ''^670D^52A1'']),
     ([Lit ''Setup script''], [Lit ''^5B89^88C5^811A^672C'']),
     ([Lit ''Site''], [Lit ''^7AD9^70B9'']),
     ([Lit ''Site CIDRs''], [Lit ''^7AD9^70B9 CIDR'']),
     ([Lit ''Site authentication is also required.''], [Lit ''^8FD8^9700^8981^7AD9^70B9^8EAB^4EFD^9A8C^8BC1^3002'']),
     ([Lit ''Site topology''], [Lit ''^7AD9^70B9^62D3^6251'']),
     ([Lit ''Source IP''], [Lit ''^6765^6E90 IP'']),
     ([Lit ''Source IP preview''], [Lit ''^6765^6E90 IP ^9884^89C8'']),
     ([Lit ''Source-to-destination matrix''], [Lit ''^6765^6E90^5230^76EE^6807^77E9^9635'']),
     ([Lit ''State''], [Lit ''^72B6^6001'']),
     ([Lit ''Subscription''], [Lit ''^8BA2^9605'']),
     ([Lit ''Target''], [Lit ''^76EE^6807''])]"

definition messages_zh_247 :: dictionary where
  "messages_zh_247 =
    [([Lit ''Task''], [Lit ''^4EFB^52A1'']),
     ([Lit ''Time''], [Lit ''^65F6^95F4'']),
     ([Lit ''Travel approval reference''], [Lit ''^51FA^5DEE^5BA1^6279^7F16^53F7'']),
     ([Lit ''Type''], [Lit ''^7C7B^578B'']),
     ([Lit ''Unknown site''], [Lit ''^672A^77E5^7AD9^70B9'']),
     ([Lit ''Updated''], [Lit ''^66F4^65B0^65F6^95F4'']),
     ([Lit ''Verify chain''], [Lit ''^6821^9A8C^5BA1^8BA1^94FE'']),
     ([Lit ''Verifying...''], [Lit ''^6821^9A8C^4E2D...'']),
     ([Lit ''Version''], [Lit ''^7248^672C'']),
     ([Lit ''View''], [Lit ''^67E5^770B'']),
     ([Lit ''View all''], [Lit ''^67E5^770B^5168^90E8'']),
     ([Lit ''this CIDR''], [Lit ''^6B64 CIDR'']),
     ([Lit ''this exception''], [Lit ''^6B64^4F8B^5916'']),
     ([Lit ''this pattern''], [Lit ''^6B64^89C4^5219'']),
     ([Lit ''this task''], [Lit ''^6B64^4EFB^52A1'']),
     ([Lit ''node''], [Lit ''^8282^70B9'']),
     ([Lit ''nodes''], [Lit ''^8282^70B9'']),
     ([Lit ''healthy''], [Lit ''^5065^5EB7'']),
     ([Lit ''degraded''], [Lit ''^964D^7EA7'']),
     ([Lit ''attention''], [Lit ''^9700^8981^5173^6CE8'']),
     ([Lit ''not enrolled''], [Lit ''^672A^6CE8^518C'']),
     ([Lit ''unhealthy''], [Lit ''^4E0D^5065^5EB7'']),
     ([Lit ''rollback failed''], [Lit ''^56DE^6EDA^5931^8D25'']),
     ([Lit ''applying''], [Lit ''^5E94^7528^4E2D'']),
     ([Lit ''health check''], [Lit ''^5065^5EB7^68C0^67E5'']),
     ([Lit ''rolling back''], [Lit ''^56DE^6EDA^4E2D'']),
     ([Lit ''rolled back''], [Lit ''^5DF2^56DE^6EDA'']),
     ([Lit ''cancel requested''], [Lit ''^5DF2^8BF7^6C42^53D6^6D88'']),
     ([Lit ''expired''], [Lit ''^5DF2^8FC7^671F'']),
     ([Lit ''high''], [Lit ''^9AD8'']),
     ([Lit ''medium''], [Lit ''^4E2D'']),
     ([Lit ''low''], [Lit ''^4F4E'']),
     ([Lit ''draft''], [Lit ''^8349^7A3F'']),
     ([Lit ''validated''], [Lit ''^5DF2^6821^9A8C'']),
     ([Lit ''release''], [Lit ''^53D1^5E03'']),
     ([Hole ''action'', Lit '' '', Hole ''name''], [Hole ''action'', Lit '' '', Hole ''name'']),
     ([Hole ''count'', Lit '' events''], [Hole ''count'', Lit '' ^6761^4E8B^4EF6'']),
     ([Hole ''count'', Lit '' events checked''], [Lit ''^5DF2^68C0^67E5 '', Hole ''count'', Lit '' ^6761^4E8B^4EF6'']),
     ([Hole ''count'', Lit '' local policy changes included in the next draft.''], [Lit ''^4E0B^4E00^4E2A^8349^7A3F^5C06^5305^542B '', Hole ''count'', Lit '' ^9879^672C^5730^7B56^7565^53D8^66F4^3002'']),
     ([Hole ''count'', Lit '' nodes''], [Hole ''count'', Lit '' ^4E2A^8282^70B9'']),
     ([Hole ''count'', Lit '' nodes need attention''], [Hole ''count'', Lit '' ^4E2A^8282^70B9^9700^8981^5173^6CE8'']),
     ([Hole ''count'', Lit '' queued or running tasks''], [Hole ''count'', Lit '' ^4E2A^6392^961F^6216^8FD0^884C^4E2D^7684^4EFB^52A1'']),
     ([Hole ''count'', Lit '' sites''], [Hole ''count'', Lit '' ^4E2A^7AD9^70B9'']),
     ([Hole ''name'', Lit '' CIDRs''], [Hole ''name'', Lit '' ^7684 CIDR'']),
     ([Lit ''Policy revision v'', Hole ''revision'', Lit '' ^00B7 HTTP :'', Hole ''port''], [Lit ''^7B56^7565^7248^672C v'', Hole ''revision'', Lit '' ^00B7 HTTP :'', Hole ''port'']),
     ([Lit ''Allow '', Hole ''from'', Lit '' CIDRs to access '', Hole ''to''], [Lit ''^5141^8BB8 '', Hole ''from'', Lit '' ^7684 CIDR ^8BBF^95EE '', Hole ''to'']),
     ([Lit ''Add '', Hole ''from'', Lit '' source CIDRs to the effective access policy for '', Hole ''to'', Lit ''. This expands the destination listener's allowed network scope.''], [Lit ''^5C06 '', Hole ''from'', Lit '' ^7684^6765^6E90 CIDR ^52A0^5165 '', Hole ''to'', Lit '' ^7684^751F^6548^8BBF^95EE^7B56^7565^3002^8FD9^4F1A^6269^5927^76EE^6807^76D1^542C^5668^5141^8BB8^7684^7F51^7EDC^8303^56F4^3002'']),
     ([Lit ''Block the proxy listener for '', Hole ''name'', Lit ''. This changes desired policy and requires a release to reach its edge nodes.''], [Lit ''^963B^65AD '', Hole ''name'', Lit '' ^7684^4EE3^7406^76D1^542C^5668^3002^8FD9^4F1A^53D8^66F4^76EE^6807^7B56^7565^FF0C^9700^53D1^5E03^540E^624D^80FD^4E0B^53D1^81F3^8FB9^7F18^8282^70B9^3002'']),
     ([Lit ''Restore proxy listener access for '', Hole ''name'', Lit ''. A release is still required for monitors to apply the state.''], [Lit ''^6062^590D '', Hole ''name'', Lit '' ^7684^4EE3^7406^76D1^542C^5668^8BBF^95EE^3002^76D1^63A7^5668^4ECD^9700^901A^8FC7^53D1^5E03^624D^80FD^5E94^7528^6B64^72B6^6001^3002'']),
     ([Lit ''Delete '', Hole ''value''], [Lit ''^5220^9664 '', Hole ''value'']),
     ([Lit ''Remove '', Hole ''value''], [Lit ''^79FB^9664 '', Hole ''value'']),
     ([Lit ''Remove '', Hole ''value'', Lit ''. The next release for each site will exclude it from effective source access.''], [Lit ''^79FB^9664 '', Hole ''value'', Lit ''^3002^5404^7AD9^70B9^7684^4E0B^4E00^6B21^53D1^5E03^5C06^4E0D^518D^628A^5B83^52A0^5165^751F^6548^6765^6E90^8BBF^95EE^3002'']),
     ([Lit ''Remove '', Hole ''value'', Lit '' from the global deny policy. New releases will no longer include it.''], [Lit ''^4ECE^5168^5C40^62D2^7EDD^7B56^7565^79FB^9664 '', Hole ''value'', Lit ''^3002^540E^7EED^53D1^5E03^5C06^4E0D^518D^5305^542B^5B83^3002'']),
     ([Lit ''Remove '', Hole ''cidr'', Lit '' from '', Hole ''site'', Lit ''. The change remains local to the control plane until a release succeeds.''], [Lit ''^4ECE '', Hole ''site'', Lit '' ^79FB^9664 '', Hole ''cidr'', Lit ''^3002^5728^53D1^5E03^6210^529F^524D^FF0C^6B64^53D8^66F4^4EC5^4FDD^7559^5728^63A7^5236^5E73^9762^3002'']),
     ([Lit ''Request cancellation for '', Hole ''task'', Lit ''. Running work stops at its next safe checkpoint.''], [Lit ''^8BF7^6C42^53D6^6D88 '', Hole ''task'', Lit ''^3002^8FD0^884C^4E2D^7684^5DE5^4F5C^4F1A^5728^4E0B^4E00^4E2A^5B89^5168^68C0^67E5^70B9^505C^6B62^3002'']),
     ([Lit ''The control plane did not respond.''], [Lit ''^63A7^5236^5E73^9762^672A^54CD^5E94^3002'']),
     ([Lit ''Unable to load sites.''], [Lit ''^65E0^6CD5^52A0^8F7D^7AD9^70B9^3002'']),
     ([Lit ''Unable to load CIDRs.''], [Lit ''^65E0^6CD5^52A0^8F7D CIDR^3002'']),
     ([Lit ''This site does not exist.''], [Lit ''^8BE5^7AD9^70B9^4E0D^5B58^5728^3002'']),
     ([Lit ''The policy change was not accepted.''], [Lit ''^7B56^7565^53D8^66F4^672A^88AB^63A5^53D7^3002'']),
     ([Lit ''The exception was not accepted.''], [Lit ''^4F8B^5916^89C4^5219^672A^88AB^63A5^53D7^3002'']),
     ([Lit ''The cross-site policy was not accepted.''], [Lit ''^8DE8^7AD9^70B9^7B56^7565^672A^88AB^63A5^53D7^3002'']),
     ([Lit ''The destination policy was not accepted.''], [Lit ''^76EE^6807^7B56^7565^672A^88AB^63A5^53D7^3002'']),
     ([Lit ''Unable to load cross-site access.''], [Lit ''^65E0^6CD5^52A0^8F7D^8DE8^7AD9^70B9^8BBF^95EE^7B56^7565^3002'']),
     ([Lit ''Unable to load the destination deny list.''], [Lit ''^65E0^6CD5^52A0^8F7D^76EE^6807^62D2^7EDD^5217^8868^3002'']),
     ([Lit ''Unable to load tasks.''], [Lit ''^65E0^6CD5^52A0^8F7D^4EFB^52A1^3002'']),
     ([Lit ''The task could not be cancelled.''], [Lit ''^65E0^6CD5^53D6^6D88^4EFB^52A1^3002'']),
     ([Lit ''Audit verification failed.''], [Lit ''^5BA1^8BA1^6821^9A8C^5931^8D25^3002'']),
     ([Lit ''Unable to load audit events.''], [Lit ''^65E0^6CD5^52A0^8F7D^5BA1^8BA1^4E8B^4EF6^3002'']),
     ([Lit ''Unable to render the Linux setup script.''], [Lit ''^65E0^6CD5^751F^6210 Linux ^5B89^88C5^811A^672C^3002'']),
     ([Lit ''network_error''], [Lit ''^65E0^6CD5^8FDE^63A5^63A7^5236^5E73^9762^3002'']),
     ([Lit ''request_failed''], [Lit ''^8BF7^6C42^672A^80FD^5B8C^6210^3002'']),
     ([Lit ''invalid_cidr''], [Lit ''CIDR ^683C^5F0F^65E0^6548^3002'']),
     ([Lit ''cidr_exists''], [Lit ''^8BE5 CIDR ^5DF2^5B58^5728^3002'']),
     ([Lit ''invalid_source_ip''], [Lit ''^6765^6E90 IP ^65E0^6548^3002'']),
     ([Lit ''exception_must_expire_in_future''], [Lit ''^4F8B^5916^5230^671F^65F6^95F4^5FC5^987B^5728^672A^6765^3002'']),
     ([Lit ''invalid_exception''], [Lit ''^4F8B^5916^89C4^5219^65E0^6548^3002'']),
     ([Lit ''invalid_blacklist_pattern''], [Lit ''^76EE^6807^89C4^5219^65E0^6548^3002'']),
     ([Lit ''blacklist_entry_exists''], [Lit ''^8BE5^76EE^6807^89C4^5219^5DF2^5B58^5728^3002'']),
     ([Lit ''1 hour''], [Lit ''1 ^5C0F^65F6'']),
     ([Lit ''6 hours''], [Lit ''6 ^5C0F^65F6'']),
     ([Lit ''24 hours''], [Lit ''24 ^5C0F^65F6'']),
     ([Lit ''ACK status''], [Lit ''ACK ^72B6^6001'']),
     ([Lit ''Active deployments''], [Lit ''^6D3B^52A8^90E8^7F72'']),
     ([Lit ''Active work''], [Lit ''^6D3B^52A8^5DE5^4F5C'']),
     ([Lit ''Awaiting node ACK''], [Lit ''^7B49^5F85^8282^70B9 ACK'']),
     ([Lit ''Content hash''], [Lit ''^5185^5BB9^54C8^5E0C'']),
     ([Lit ''Control plane to edge sites''], [Lit ''^63A7^5236^5E73^9762^5230^8FB9^7F18^7AD9^70B9'']),
     ([Lit ''Create a desired release for '', Hole ''site'', Lit ''. Nodes apply it independently and may still reject or roll back the change.''], [Lit ''^4E3A '', Hole ''site'', Lit '' ^521B^5EFA^76EE^6807^53D1^5E03^3002^8282^70B9^4F1A^72EC^7ACB^5E94^7528^FF0C^4ECD^53EF^80FD^62D2^7EDD^6216^56DE^6EDA^8BE5^53D8^66F4^3002'']),
     ([Lit ''Current version''], [Lit ''^5F53^524D^7248^672C'']),
     ([Lit ''DEPLOY TARGETS''], [Lit ''^90E8^7F72^76EE^6807'']),
     ([Lit ''DRAFT''], [Lit ''^8349^7A3F'']),
     ([Lit ''Drafts''], [Lit ''^8349^7A3F'']),
     ([Lit ''Effective source CIDRs''], [Lit ''^751F^6548^6765^6E90 CIDR'']),
     ([Lit ''Endpoint count''], [Lit ''^51FA^53E3^6570^91CF'']),
     ([Lit ''Fetched''], [Lit ''^83B7^53D6^65F6^95F4'']),
     ([Lit ''Fetched '', Hole ''date''], [Lit ''^83B7^53D6^4E8E '', Hole ''date'']),
     ([Lit ''Format''], [Lit ''^683C^5F0F'']),
     ([Lit ''HISTORY''], [Lit ''^5386^53F2^8BB0^5F55'']),
     ([Lit ''HTTP URL''], [Lit ''HTTP URL'']),
     ([Lit ''Single node''], [Lit ''^5355^4E2A^8282^70B9'']),
     ([Lit ''Single-node URI''], [Lit ''^5355^4E2A^8282^70B9 URI'']),
     ([Lit ''Single VLESS or VMess node''], [Lit ''^5355^4E2A VLESS ^6216 VMess ^8282^70B9'']),
     ([Lit ''Subscription site connection''], [Lit ''^8BA2^9605^7AD9^70B9^8FDE^63A5'']),
     ([Lit ''Source type''], [Lit ''^6765^6E90^7C7B^578B'']),
     ([Lit ''IMMUTABLE HISTORY''], [Lit ''^4E0D^53EF^53D8^5386^53F2'']),
     ([Lit ''Import version''], [Lit ''^5BFC^5165^7248^672C'']),
     ([Lit ''Imported upstream''], [Lit ''^5BFC^5165^7684^4E0A^6E38'']),
     ([Lit ''Importing...''], [Lit ''^5BFC^5165^4E2D...'']),
     ([Lit ''NODE RECONCILIATION''], [Lit ''^8282^70B9^534F^8C03'']),
     ([Lit ''Name''], [Lit ''^540D^79F0'']),
     ([Lit ''No CIDRs supplied''], [Lit ''^672A^63D0^4F9B CIDR''])]"

definition messages_zh_359 :: dictionary where
  "messages_zh_359 =
    [([Lit ''No edge node''], [Lit ''^6CA1^6709^8FB9^7F18^8282^70B9'']),
     ([Lit ''Not refreshed''], [Lit ''^672A^5237^65B0'']),
     ([Lit ''Parsed''], [Lit ''^89E3^6790^72B6^6001'']),
     ([Lit ''Parsing did not produce usable outbounds.''], [Lit ''^89E3^6790^672A^751F^6210^53EF^7528^51FA^53E3^3002'']),
     ([Lit ''Previous release''], [Lit ''^4E0A^4E00^4E2A^53D1^5E03'']),
     ([Lit ''Previous version''], [Lit ''^4E0A^4E00^4E2A^7248^672C'']),
     ([Lit ''Publication''], [Lit ''^53D1^5E03^72B6^6001'']),
     ([Lit ''Publish''], [Lit ''^53D1^5E03'']),
     ([Lit ''Publish to selected sites''], [Lit ''^53D1^5E03^5230^6240^9009^7AD9^70B9'']),
     ([Lit ''Queue refresh''], [Lit ''^52A0^5165^5237^65B0^961F^5217'']),
     ([Lit ''Queueing...''], [Lit ''^6392^961F^4E2D...'']),
     ([Lit ''READY TO PUBLISH''], [Lit ''^5F85^53D1^5E03'']),
     ([Lit ''RELEASE''], [Lit ''^53D1^5E03'']),
     ([Lit ''Refresh interval''], [Lit ''^5237^65B0^95F4^9694'']),
     ([Lit ''Refresh '', Hole ''name''], [Lit ''^5237^65B0 '', Hole ''name'']),
     ([Lit ''Refreshed '', Hole ''date''], [Lit ''^5237^65B0^4E8E '', Hole ''date'']),
     ([Lit ''Regional upstream''], [Lit ''^533A^57DF^4E0A^6E38'']),
     ([Lit ''Release did not complete''], [Lit ''^53D1^5E03^672A^5B8C^6210'']),
     ([Lit ''Release '', Hole ''version'', Lit '' to '', Hole ''count'', Lit '' selected sites. Each edge node validates and acknowledges the new outbound configuration independently.''], [Lit ''^5C06 '', Hole ''version'', Lit '' ^53D1^5E03^5230 '', Hole ''count'', Lit '' ^4E2A^6240^9009^7AD9^70B9^3002^6BCF^4E2A^8FB9^7F18^8282^70B9^4F1A^72EC^7ACB^6821^9A8C^5E76^786E^8BA4^65B0^7684^51FA^7AD9^914D^7F6E^3002'']),
     ([Lit ''Remove CIDR''], [Lit ''^79FB^9664 CIDR'']),
     ([Lit ''Restore the previous selected version for '', Hole ''site'', Lit ''. This creates a new release and waits for node ACKs.''], [Lit ''^6062^590D '', Hole ''site'', Lit '' ^4E4B^524D^9009^5B9A^7684^7248^672C^3002^8FD9^4F1A^521B^5EFA^65B0^7684^53D1^5E03^5E76^7B49^5F85^8282^70B9 ACK^3002'']),
     ([Lit ''Revision v'', Hole ''revision'', Lit '' ^00B7 '', Hole ''date''], [Lit ''^7248^672C v'', Hole ''revision'', Lit '' ^00B7 '', Hole ''date'']),
     ([Lit ''Risk''], [Lit ''^98CE^9669'']),
     ([Lit ''Roll back '', Hole ''name''], [Lit ''^56DE^6EDA '', Hole ''name'']),
     ([Lit ''SELECTED VERSION''], [Lit ''^5DF2^9009^7248^672C'']),
     ([Lit ''SITE SELECTIONS''], [Lit ''^7AD9^70B9^9009^62E9'']),
     ([Lit ''STRUCTURED DIFF''], [Lit ''^7ED3^6784^5316^5DEE^5F02'']),
     ([Lit ''Sites''], [Lit ''^7AD9^70B9'']),
     ([Lit ''Source''], [Lit ''^6765^6E90'']),
     ([Lit ''Source revision v'', Hole ''revision'', Lit '' ^00B7 expires '', Hole ''date''], [Lit ''^6765^6E90^7248^672C v'', Hole ''revision'', Lit '' ^00B7 ^5230^671F^4E8E '', Hole ''date'']),
     ([Lit ''Sources''], [Lit ''^6765^6E90'']),
     ([Lit ''Subscription file''], [Lit ''^8BA2^9605^6587^4EF6'']),
     ([Lit ''Targets''], [Lit ''^76EE^6807^8282^70B9'']),
     ([Lit ''UPSTREAMS''], [Lit ''^4E0A^6E38'']),
     ([Lit ''Upload file''], [Lit ''^4E0A^4F20^6587^4EF6'']),
     ([Lit ''Validation''], [Lit ''^6821^9A8C'']),
     ([Lit ''Version cannot be published''], [Lit ''^8BE5^7248^672C^65E0^6CD5^53D1^5E03'']),
     ([Lit ''Versions''], [Lit ''^7248^672C^8BB0^5F55'']),
     ([Hole ''count'', Lit '' bytes''], [Hole ''count'', Lit '' ^5B57^8282'']),
     ([Hole ''count'', Lit '' selected''], [Lit ''^5DF2^9009 '', Hole ''count'', Lit '' ^4E2A'']),
     ([Lit ''Regional proxy state and deployment activity.''], [Lit ''^533A^57DF^4EE3^7406^72B6^6001^4E0E^90E8^7F72^6D3B^52A8^3002'']),
     ([Lit ''Heartbeat, configuration, and service facts from each monitor.''], [Lit ''^6BCF^4E2A^76D1^63A7^5668^4E0A^62A5^7684^5FC3^8DF3^3001^914D^7F6E^548C^670D^52A1^72B6^6001^3002'']),
     ([Lit ''Regional source access is defined once and applied to local edge nodes.''], [Lit ''^533A^57DF^6765^6E90^8BBF^95EE^7EDF^4E00^5B9A^4E49^FF0C^5E76^5E94^7528^5230^672C^5730^8FB9^7F18^8282^70B9^3002'']),
     ([Lit ''Temporary source access applies to all sites and expires automatically.''], [Lit ''^4E34^65F6^6765^6E90^8BBF^95EE^9002^7528^4E8E^6240^6709^7AD9^70B9^FF0C^5E76^4F1A^81EA^52A8^8FC7^671F^3002'']),
     ([Lit ''Source CIDRs from one site can be added to another site only through an explicit allow.''], [Lit ''^4E00^4E2A^7AD9^70B9^7684^6765^6E90 CIDR ^53EA^80FD^901A^8FC7^663E^5F0F^5141^8BB8^52A0^5165^53E6^4E00^4E2A^7AD9^70B9^3002'']),
     ([Lit ''Blocked destination patterns are included in every generated bundle.''], [Lit ''^88AB^62D2^7EDD^7684^76EE^6807^89C4^5219^4F1A^5305^542B^5728^6BCF^4E2A^751F^6210^7684^914D^7F6E^5305^4E2D^3002'']),
     ([Lit ''Versioned upstream content is selected per site and released through the normal node ACK path.''], [Lit ''^6309^7AD9^70B9^9009^62E9^5E26^7248^672C^7684^4E0A^6E38^5185^5BB9^FF0C^5E76^901A^8FC7^6B63^5E38^7684^8282^70B9 ACK ^6D41^7A0B^53D1^5E03^3002'']),
     ([Lit ''Draft, validate, publish, and reconcile every node independently.''], [Lit ''^72EC^7ACB^5B8C^6210^6BCF^4E2A^8282^70B9^7684^8349^62DF^3001^6821^9A8C^3001^53D1^5E03^548C^534F^8C03^3002'']),
     ([Lit ''Queue state, retry history, and cancellation boundaries for control-plane work.''], [Lit ''^63A7^5236^5E73^9762^5DE5^4F5C^7684^961F^5217^72B6^6001^3001^91CD^8BD5^5386^53F2^548C^53D6^6D88^8FB9^754C^3002'']),
     ([Lit ''Append-only control-plane events with a verifiable hash chain.''], [Lit ''^5177^6709^53EF^9A8C^8BC1^54C8^5E0C^94FE^7684^4EC5^8FFD^52A0^63A7^5236^5E73^9762^4E8B^4EF6^3002'']),
     ([Lit ''Employee proxy connection details and the rendered Linux setup script.''], [Lit ''^5458^5DE5^4EE3^7406^8FDE^63A5^8BE6^60C5^548C^5DF2^751F^6210^7684 Linux ^5B89^88C5^811A^672C^3002'']),
     ([Lit ''Travel exceptions''], [Lit ''^51FA^5DEE^4F8B^5916'']),
     ([Lit ''Cross-site access''], [Lit ''^8DE8^7AD9^70B9^8BBF^95EE'']),
     ([Lit ''Cancel task''], [Lit ''^53D6^6D88^4EFB^52A1'']),
     ([Lit ''Create rollback release''], [Lit ''^521B^5EFA^56DE^6EDA^53D1^5E03'']),
     ([Lit ''Enable access''], [Lit ''^542F^7528^8BBF^95EE'']),
     ([Lit ''Enable cross-site access''], [Lit ''^542F^7528^8DE8^7AD9^70B9^8BBF^95EE'']),
     ([Lit ''No active tasks''], [Lit ''^6CA1^6709^6D3B^52A8^4EFB^52A1'']),
     ([Lit ''No audit events recorded''], [Lit ''^6CA1^6709^5BA1^8BA1^4E8B^4EF6^8BB0^5F55'']),
     ([Lit ''No publishable drafts''], [Lit ''^6CA1^6709^53EF^53D1^5E03^8349^7A3F'']),
     ([Lit ''No releases recorded''], [Lit ''^6CA1^6709^53D1^5E03^8BB0^5F55'']),
     ([Lit ''No releases yet''], [Lit ''^6682^65E0^53D1^5E03'']),
     ([Lit ''No sites have a selected subscription''], [Lit ''^6CA1^6709^7AD9^70B9^9009^62E9^8BA2^9605'']),
     ([Lit ''No subscription sources''], [Lit ''^6CA1^6709^8BA2^9605^6765^6E90'']),
     ([Lit ''No tasks recorded''], [Lit ''^6CA1^6709^4EFB^52A1^8BB0^5F55'']),
     ([Lit ''No versions for this source''], [Lit ''^6B64^6765^6E90^6CA1^6709^7248^672C'']),
     ([Lit ''Parsed versions are available after a refresh or file import.''], [Lit ''^5237^65B0^6216^5BFC^5165^6587^4EF6^540E^53EF^4F7F^7528^89E3^6790^51FA^7684^7248^672C^3002'']),
     ([Lit ''Publish configuration draft''], [Lit ''^53D1^5E03^914D^7F6E^8349^7A3F'']),
     ([Lit ''Publish release''], [Lit ''^53D1^5E03^7248^672C'']),
     ([Lit ''Publish subscription version''], [Lit ''^53D1^5E03^8BA2^9605^7248^672C'']),
     ([Lit ''Publish version''], [Lit ''^53D1^5E03^7248^672C'']),
     ([Lit ''Queued and running jobs appear here.''], [Lit ''^6392^961F^548C^8FD0^884C^4E2D^7684^4F5C^4E1A^4F1A^663E^793A^5728^8FD9^91CC^3002'']),
     ([Lit ''Refresh or import content to create an immutable version.''], [Lit ''^5237^65B0^6216^5BFC^5165^5185^5BB9^4EE5^521B^5EFA^4E0D^53EF^53D8^7248^672C^3002'']),
     ([Lit ''Remove destination''], [Lit ''^79FB^9664^76EE^6807^89C4^5219'']),
     ([Lit ''Remove destination deny''], [Lit ''^79FB^9664^76EE^6807^62D2^7EDD^89C4^5219'']),
     ([Lit ''Remove exception''], [Lit ''^79FB^9664^4F8B^5916'']),
     ([Lit ''Remove site CIDR''], [Lit ''^79FB^9664^7AD9^70B9 CIDR'']),
     ([Lit ''Remove travel exception''], [Lit ''^79FB^9664^51FA^5DEE^4F8B^5916'']),
     ([Lit ''Roll back site subscription''], [Lit ''^56DE^6EDA^7AD9^70B9^8BA2^9605'']),
     ([Lit ''Select a draft or release''], [Lit ''^9009^62E9^8349^7A3F^6216^53D1^5E03^8BB0^5F55'']),
     ([Lit ''Select a source version''], [Lit ''^9009^62E9^6765^6E90^7248^672C'']),
     ([Lit ''Its diff and node reconciliation appear here.''], [Lit ''^5176^5DEE^5F02^548C^8282^70B9^534F^8C03^4FE1^606F^4F1A^663E^793A^5728^8FD9^91CC^3002'']),
     ([Lit ''Add an HTTP source or import a supported file.''], [Lit ''^6DFB^52A0 HTTP ^6765^6E90^6216^5BFC^5165^53D7^652F^6301^7684^6587^4EF6^3002'']),
     ([Lit ''Create a draft from a site policy workspace.''], [Lit ''^4ECE^7AD9^70B9^7B56^7565^5DE5^4F5C^533A^521B^5EFA^8349^7A3F^3002'']),
     ([Lit ''Unable to load exceptions.''], [Lit ''^65E0^6CD5^52A0^8F7D^4F8B^5916^89C4^5219^3002'']),
     ([Lit ''Unable to load subscription state.''], [Lit ''^65E0^6CD5^52A0^8F7D^8BA2^9605^72B6^6001^3002'']),
     ([Lit ''The subscription operation was not accepted.''], [Lit ''^8BA2^9605^64CD^4F5C^672A^88AB^63A5^53D7^3002'']),
     ([Lit ''Unable to load release state.''], [Lit ''^65E0^6CD5^52A0^8F7D^53D1^5E03^72B6^6001^3002'']),
     ([Lit ''The release could not be created.''], [Lit ''^65E0^6CD5^521B^5EFA^53D1^5E03^3002'']),
     ([Lit ''Release history is unavailable.''], [Lit ''^53D1^5E03^5386^53F2^4E0D^53EF^7528^3002'']),
     ([Lit ''Task queue is unavailable.''], [Lit ''^4EFB^52A1^961F^5217^4E0D^53EF^7528^3002'']),
     ([Lit ''ACK data is unavailable.''], [Lit ''ACK ^6570^636E^4E0D^53EF^7528^3002'']),
     ([Lit ''Restore''], [Lit ''^6062^590D'']),
     ([Lit ''Shutdown''], [Lit ''^5173^95ED'']),
     ([Lit ''Restore site listener''], [Lit ''^6062^590D^7AD9^70B9^76D1^542C^5668'']),
     ([Lit ''Emergency shutdown''], [Lit ''^7D27^6025^5173^95ED'']),
     ([Lit ''Restore site''], [Lit ''^6062^590D^7AD9^70B9'']),
     ([Lit ''Shut down site''], [Lit ''^5173^95ED^7AD9^70B9'']),
     ([Lit ''domain''], [Lit ''^57DF^540D'']),
     ([Lit ''ip''], [Lit ''IP ^5730^5740'']),
     ([Lit ''cidr''], [Lit ''CIDR'']),
     ([Lit ''added''], [Lit ''^5DF2^6DFB^52A0'']),
     ([Lit ''removed''], [Lit ''^5DF2^79FB^9664'']),
     ([Lit ''subscription refresh''], [Lit ''^8BA2^9605^5237^65B0'']),
     ([Lit ''config publish''], [Lit ''^914D^7F6E^53D1^5E03'']),
     ([Lit ''Central Region''], [Lit ''^4E2D^90E8^533A^57DF'']),
     ([Lit ''East Region''], [Lit ''^4E1C^90E8^533A^57DF'']),
     ([Lit ''North Region''], [Lit ''^5317^90E8^533A^57DF'']),
     ([Lit ''South Region''], [Lit ''^5357^90E8^533A^57DF'']),
     ([Lit ''West Region''], [Lit ''^897F^90E8^533A^57DF''])]"

definition messages_zh_924 :: dictionary where
  "messages_zh_924 =
    [([Lit ''Unable to load source blacklist.''], [Lit ''^65E0^6CD5^52A0^8F7D^6765^6E90^9ED1^540D^5355^3002'']),
     ([Lit ''All actions''], [Lit ''^5168^90E8^64CD^4F5C'']),
     ([Lit ''config release''], [Lit ''^914D^7F6E^53D1^5E03'']),
     ([Lit ''config draft''], [Lit ''^914D^7F6E^8349^7A3F'']),
     ([Lit ''proxy selection''], [Lit ''^4EE3^7406^51FA^53E3^9009^62E9'']),
     ([Lit ''node rename''], [Lit ''^8282^70B9^91CD^547D^540D'']),
     ([Lit ''Filter by actor''], [Lit ''^6309^64CD^4F5C^4EBA^7B5B^9009'']),
     ([Lit ''Task queue''], [Lit ''^4EFB^52A1^961F^5217'']),
     ([Hole ''count'', Lit '' tasks''], [Hole ''count'', Lit '' ^4E2A^4EFB^52A1'']),
     ([Lit ''Task type''], [Lit ''^4EFB^52A1^7C7B^578B'']),
     ([Lit ''All task types''], [Lit ''^5168^90E8^4EFB^52A1^7C7B^578B'']),
     ([Lit ''dead letter''], [Lit ''^6B7B^4FE1'']),
     ([Lit ''config publish''], [Lit ''^914D^7F6E^53D1^5E03'']),
     ([Lit ''subscription refresh''], [Lit ''^8BA2^9605^5237^65B0'']),
     ([Lit ''node probe''], [Lit ''^8282^70B9^63A2^6D4B'']),
     ([Lit ''backup create''], [Lit ''^521B^5EFA^5907^4EFD'']),
     ([Lit ''Connection history''], [Lit ''^8FDE^63A5^5386^53F2'']),
     ([Hole ''count'', Lit '' snapshots''], [Hole ''count'', Lit '' ^4E2A^5FEB^7167'']),
     ([Lit ''Search''], [Lit ''^641C^7D22'']),
     ([Lit ''Clear search''], [Lit ''^6E05^9664^641C^7D22'']),
     ([Lit ''All nodes''], [Lit ''^5168^90E8^8282^70B9'']),
     ([Lit ''UDP''], [Lit ''UDP'']),
     ([Lit ''TCP''], [Lit ''TCP'']),
     ([Lit ''Configure''], [Lit ''^914D^7F6E'']),
     ([Lit ''Review each site's reported outbound groups and publish an immutable subscription version through the normal release path.''], [Lit ''^67E5^770B^5404^7AD9^70B9^4E0A^62A5^7684^51FA^7AD9^4EE3^7406^7EC4^FF0C^5E76^901A^8FC7^6807^51C6^53D1^5E03^6D41^7A0B^53D1^5E03^4E0D^53EF^53D8^8BA2^9605^7248^672C^3002'']),
     ([Lit ''Enabled''], [Lit ''^5DF2^542F^7528'']),
     ([Lit ''Automatic proxy configuration''], [Lit ''^81EA^52A8^4EE3^7406^914D^7F6E'']),
     ([Lit ''PAC chooses the single HTTP listener and does not grant access.''], [Lit ''PAC ^4EC5^9009^62E9^7EDF^4E00^7684 HTTP ^76D1^542C^5668^FF0C^4E0D^8D1F^8D23^6388^6743^3002'']),
     ([Lit ''Unable to load access configuration.''], [Lit ''^65E0^6CD5^52A0^8F7D^63A5^5165^914D^7F6E^3002'']),
     ([Lit ''probe_target_unresolvable''], [Lit ''^63A2^6D4B^76EE^6807^65E0^6CD5^89E3^6790^3002'']),
     ([Lit ''probe_target_private_network''], [Lit ''^63A2^6D4B^76EE^6807^5FC5^987B^662F^516C^7F51^5730^5740^3002'']),
     ([Lit ''OBSERVE''], [Lit ''^89C2^6D4B'']),
     ([Lit ''Logs''], [Lit ''^8BBF^95EE^65E5^5FD7'']),
     ([Lit ''Connections''], [Lit ''^8FDE^63A5^6458^8981'']),
     ([Lit ''Probes''], [Lit ''^51FA^53E3^63A2^6D4B'']),
     ([Lit ''Alerts''], [Lit ''^544A^8B66'']),
     ([Lit ''Alert''], [Lit ''^544A^8B66'']),
     ([Lit ''Access logs''], [Lit ''^8BBF^95EE^65E5^5FD7'']),
     ([Lit ''Connection snapshots''], [Lit ''^8FDE^63A5^6458^8981'']),
     ([Lit ''Outbound probes''], [Lit ''^51FA^53E3^63A2^6D4B'']),
     ([Lit ''Recent allow and deny decisions from edge monitors.''], [Lit ''^8FB9^7F18^76D1^63A7^5668^4E0A^62A5^7684^5141^8BB8^4E0E^62D2^7EDD^51B3^5B9A^3002'']),
     ([Lit ''Latest connection summaries; full connection tables are never stored.''], [Lit ''^6700^8FD1^7684^8FDE^63A5^6458^8981^FF1B^7CFB^7EDF^4E0D^4F1A^5B58^50A8^5B8C^6574^8FDE^63A5^8868^3002'']),
     ([Lit ''Per-outbound health and circuit-breaker state.''], [Lit ''^6309^51FA^53E3^67E5^770B^5065^5EB7^72B6^6001^4E0E^7194^65AD^72B6^6001^3002'']),
     ([Lit ''Run probe''], [Lit ''^8FD0^884C^63A2^6D4B'']),
     ([Lit ''Run a low-volume HEAD probe through the selected node.''], [Lit ''^901A^8FC7^6240^9009^8282^70B9^6267^884C^4F4E^6D41^91CF HEAD ^63A2^6D4B^3002'']),
     ([Lit ''Target URL''], [Lit ''^76EE^6807 URL'']),
     ([Lit ''Probe queued''], [Lit ''^63A2^6D4B^5DF2^6392^961F'']),
     ([Lit ''No access logs recorded.''], [Lit ''^6682^65E0^8BBF^95EE^65E5^5FD7^3002'']),
     ([Lit ''No connection snapshots recorded.''], [Lit ''^6682^65E0^8FDE^63A5^6458^8981^3002'']),
     ([Lit ''No probe results recorded.''], [Lit ''^6682^65E0^63A2^6D4B^7ED3^679C^3002'']),
     ([Lit ''No node selected.''], [Lit ''^672A^9009^62E9^8282^70B9^3002'']),
     ([Lit ''Sampled at''], [Lit ''^91C7^6837^65F6^95F4'']),
     ([Lit ''Source''], [Lit ''^6765^6E90'']),
     ([Lit ''Destination''], [Lit ''^76EE^6807'']),
     ([Lit ''Bytes up''], [Lit ''^4E0A^884C^5B57^8282'']),
     ([Lit ''Bytes down''], [Lit ''^4E0B^884C^5B57^8282'']),
     ([Lit ''Duration''], [Lit ''^8017^65F6'']),
     ([Lit ''Deny reason''], [Lit ''^62D2^7EDD^539F^56E0'']),
     ([Lit ''Active connections''], [Lit ''^6D3B^52A8^8FDE^63A5'']),
     ([Lit ''API status''], [Lit ''API ^72B6^6001'']),
     ([Lit ''Available''], [Lit ''^53EF^7528'']),
     ([Lit ''Unavailable''], [Lit ''^4E0D^53EF^7528'']),
     ([Lit ''Circuit''], [Lit ''^7194^65AD'']),
     ([Lit ''closed''], [Lit ''^5173^95ED'']),
     ([Lit ''open''], [Lit ''^6253^5F00'']),
     ([Lit ''half_open''], [Lit ''^534A^5F00'']),
     ([Lit ''Latency''], [Lit ''^5EF6^8FDF'']),
     ([Lit ''Success''], [Lit ''^6210^529F'']),
     ([Lit ''Failure''], [Lit ''^5931^8D25'']),
     ([Lit ''Refresh''], [Lit ''^5237^65B0'']),
     ([Lit ''All decisions''], [Lit ''^5168^90E8^51B3^5B9A'']),
     ([Lit ''Only denies''], [Lit ''^4EC5^62D2^7EDD'']),
     ([Lit ''Only allows''], [Lit ''^4EC5^5141^8BB8'']),
     ([Lit ''Probe state''], [Lit ''^63A2^6D4B^72B6^6001'']),
     ([Lit ''Control plane telemetry''], [Lit ''^63A7^5236^5E73^9762^89C2^6D4B'']),
     ([Lit ''Open alerts''], [Lit ''^672A^5904^7406^544A^8B66'']),
     ([Lit ''Open circuits''], [Lit ''^6253^5F00^7684^7194^65AD'']),
     ([Lit ''Deployment and alert summary''], [Lit ''^90E8^7F72^4E0E^544A^8B66^6458^8981'']),
     ([Lit ''Review active conditions''], [Lit ''^67E5^770B^6D3B^8DC3^5F02^5E38'']),
     ([Lit ''Review outbound health''], [Lit ''^67E5^770B^51FA^53E3^5065^5EB7'']),
     ([Lit ''Recent active and resolved conditions from the control plane.''], [Lit ''^63A7^5236^5E73^9762^7684^6700^65B0^6D3B^8DC3^4E0E^5DF2^6062^590D^5F02^5E38^3002'']),
     ([Lit ''All conditions''], [Lit ''^5168^90E8^5F02^5E38'']),
     ([Lit ''Resolved conditions''], [Lit ''^5DF2^6062^590D^5F02^5E38'']),
     ([Lit ''No alerts recorded.''], [Lit ''^6682^65E0^544A^8B66^8BB0^5F55^3002'']),
     ([Lit ''Unable to load alerts.''], [Lit ''^65E0^6CD5^52A0^8F7D^544A^8B66^3002'']),
     ([Lit ''Severity''], [Lit ''^4E25^91CD^7EA7^522B'']),
     ([Lit ''First seen''], [Lit ''^9996^6B21^53D1^73B0'']),
     ([Lit ''Last seen''], [Lit ''^6700^8FD1^53D1^73B0'']),
     ([Lit ''critical''], [Lit ''^4E25^91CD'']),
     ([Lit ''warning''], [Lit ''^8B66^544A'']),
     ([Lit ''resolved''], [Lit ''^5DF2^6062^590D'']),
     ([Lit ''Node heartbeat is unavailable''], [Lit ''^8282^70B9^5FC3^8DF3^4E0D^53EF^7528'']),
     ([Lit ''Node configuration needs attention''], [Lit ''^8282^70B9^914D^7F6E^9700^8981^5173^6CE8'']),
     ([Lit ''Node proxy service is unavailable''], [Lit ''^8282^70B9^4EE3^7406^670D^52A1^4E0D^53EF^7528'']),
     ([Lit ''Node subscription cannot be applied''], [Lit ''^8282^70B9^8BA2^9605^65E0^6CD5^5E94^7528'']),
     ([Lit ''Outbound circuit is open''], [Lit ''^51FA^53E3^7194^65AD^5DF2^6253^5F00'']),
     ([Lit ''Destination denies increased sharply''], [Lit ''^6765^6E90^8BF7^6C42^62E6^622A^91CF^663E^8457^589E^52A0'']),
     ([Lit ''Source requests denied increased sharply''], [Lit ''^6765^6E90^8BF7^6C42^62E6^622A^91CF^663E^8457^589E^52A0'']),
     ([Lit ''History''], [Lit ''^5386^53F2'']),
     ([Lit ''Recent probes''], [Lit ''^6700^8FD1^63A2^6D4B'']),
     ([Lit ''Top destinations''], [Lit ''^76EE^6807^6392^884C'']),
     ([Lit ''Traffic''], [Lit ''^6D41^91CF'']),
     ([Lit ''^2191 '', Hole ''value''], [Lit ''^2191 '', Hole ''value'']),
     ([Lit ''^2193 '', Hole ''value''], [Lit ''^2193 '', Hole ''value'']),
     ([Hole ''count'', Lit '' events''], [Hole ''count'', Lit '' ^6761^4E8B^4EF6'']),
     ([Lit ''other''], [Lit ''^5176^4ED6'']),
     ([Lit ''connect error''], [Lit ''^8FDE^63A5^9519^8BEF'']),
     ([Lit ''request error''], [Lit ''^8BF7^6C42^9519^8BEF''])]"

definition messages_zh_1145 :: dictionary where
  "messages_zh_1145 =
    [([Lit ''Unable to load access control.''], [Lit ''^65E0^6CD5^52A0^8F7D^8BBF^95EE^63A7^5236^3002'']),
     ([Lit ''Access control''], [Lit ''^8BBF^95EE^63A7^5236'']),
     ([Lit ''Reusable network groups can be denied or explicitly allowed for selected nodes and directions.''], [Lit ''^53EF^590D^7528^7684^7F51^7EDC^7EC4^53EF^4EE5^6309^8282^70B9^548C^65B9^5411^8BBE^7F6E^4E3A^9ED1^540D^5355^6216^767D^540D^5355^3002^767D^540D^5355^4E0D^4F1A^6539^53D8^9ED8^8BA4^5168^653E^884C^FF0C^53EA^5BF9^5DF2^7ECF^88AB^9ED1^540D^5355^547D^4E2D^7684^7F51^7EDC^989D^5916^653E^884C^3002'']),
     ([Lit ''Whitelist''], [Lit ''^767D^540D^5355'']),
     ([Lit ''Destination group''], [Lit ''^76EE^7684'']),
     ([Lit ''Delete network group''], [Lit ''^5220^9664^7F51^7EDC^7EC4'']),
     ([Lit ''A whitelist does not change the default allow-all policy. It only exempts traffic that also matches a blacklist.''], [Lit ''^767D^540D^5355^4E0D^4F1A^6539^53D8^9ED8^8BA4^5168^653E^884C^3002^5B83^53EA^5BF9^5DF2^7ECF^88AB^9ED1^540D^5355^547D^4E2D^7684^7F51^7EDC^989D^5916^653E^884C^3002'']),
     ([Lit ''network_group_name_exists''], [Lit ''^7F51^7EDC^7EC4^540D^79F0^5DF2^5B58^5728^3002'']),
     ([Lit ''network_group_in_use''], [Lit ''^7F51^7EDC^7EC4^4ECD^88AB^8BBF^95EE^63A7^5236^89C4^5219^4F7F^7528^3002'']),
     ([Lit ''invalid_network_group_entry''], [Lit ''^7F51^7EDC^4FE1^606F^65E0^6548^3002'']),
     ([Lit ''network_group_entries_required''], [Lit ''^8BF7^81F3^5C11^586B^5199^4E00^6761^7F51^7EDC^4FE1^606F^3002'']),
     ([Lit ''network_group_not_found''], [Lit ''^7F51^7EDC^7EC4^4E0D^5B58^5728^3002'']),
     ([Lit ''access_control_rule_exists''], [Lit ''^8BE5^8BBF^95EE^63A7^5236^89C4^5219^5DF2^5B58^5728^3002'']),
     ([Lit ''access_control_node_required''], [Lit ''^8BF7^9009^62E9^8282^70B9^3002'']),
     ([Lit ''access_control_rule_not_found''], [Lit ''^8BBF^95EE^63A7^5236^89C4^5219^4E0D^5B58^5728^3002'']),
     ([Lit ''access_control_reason_required''], [Lit ''^8BF7^586B^5199^62E6^622A^539F^56E0^3002'']),
     ([Lit ''Access groups''], [Lit ''^8BBF^95EE^7EC4'']),
     ([Lit ''Access rules''], [Lit ''^8BBF^95EE^89C4^5219'']),
     ([Lit ''New access group''], [Lit ''^65B0^5EFA^8BBF^95EE^7EC4'']),
     ([Lit ''Edit access group''], [Lit ''^7F16^8F91^8BBF^95EE^7EC4'']),
     ([Lit ''Edit access rule''], [Lit ''^7F16^8F91^8BBF^95EE^89C4^5219'']),
     ([Lit ''Network entries''], [Lit ''^7F51^7EDC^4FE1^606F'']),
     ([Lit ''Entry type''], [Lit ''^7C7B^578B'']),
     ([Lit ''Entry value''], [Lit ''^5185^5BB9'']),
     ([Lit ''Remove entry''], [Lit ''^5220^9664^8FD9^6761^7F51^7EDC^4FE1^606F'']),
     ([Lit ''No access groups''], [Lit ''^8FD8^6CA1^6709^8BBF^95EE^7EC4'']),
     ([Lit ''Create a named collection of IP, CIDR, and domain values.''], [Lit ''^521B^5EFA^4E00^4E2A^5305^542B IP^3001CIDR ^548C^57DF^540D^7684^8BBF^95EE^7EC4^3002'']),
     ([Lit ''No access rules''], [Lit ''^8FD8^6CA1^6709^8BBF^95EE^89C4^5219'']),
     ([Lit ''Bind an access group to one or more nodes.''], [Lit ''^628A^8BBF^95EE^7EC4^6309^9ED1^540D^5355^6216^767D^540D^5355^7ED1^5B9A^5230^4E00^4E2A^6216^591A^4E2A^8282^70B9^3002'']),
     ([Hole ''count'', Lit '' access groups''], [Hole ''count'', Lit '' ^4E2A^8BBF^95EE^7EC4'']),
     ([Hole ''count'', Lit '' access rules''], [Hole ''count'', Lit '' ^6761^8BBF^95EE^89C4^5219'']),
     ([Lit ''Select nodes''], [Lit ''^9009^62E9^8282^70B9'']),
     ([Lit ''Choose one or more nodes. Nothing is selected by default.''], [Lit ''^9009^62E9^4E00^4E2A^6216^591A^4E2A^8282^70B9^3002^9ED8^8BA4^4E0D^52FE^9009^3002'']),
     ([Lit ''Delete access group '', Hole ''name'', Lit ''? Rules that still use it must be removed first.''], [Lit ''^5220^9664^8BBF^95EE^7EC4 '', Hole ''name'', Lit ''^FF1F^4ECD^5728^4F7F^7528^5B83^7684^89C4^5219^9700^8981^5148^79FB^9664^3002'']),
     ([Lit ''Delete this access rule? The change is released to the node automatically.''], [Lit ''^5220^9664^8FD9^6761^8BBF^95EE^89C4^5219^FF1F^53D8^66F4^4F1A^81EA^52A8^4E0B^53D1^5230^8282^70B9^3002'']),
     ([Lit ''Edit '', Hole ''name''], [Lit ''^7F16^8F91 '', Hole ''name'']),
     ([Lit ''Change the access group name and its network entries.''], [Lit ''^4FEE^6539^8BBF^95EE^7EC4^540D^79F0^548C^5176^4E2D^7684^7F51^7EDC^4FE1^606F^3002'']),
     ([Lit ''Change the nodes, mode, direction, or reason. Newly selected nodes receive the same rule.''], [Lit ''^4FEE^6539^8282^70B9^3001^6A21^5F0F^3001^65B9^5411^6216^539F^56E0^3002^65B0^52FE^9009^7684^8282^70B9^4F1A^4F7F^7528^540C^4E00^6761^89C4^5219^3002'']),
     ([Lit ''Change the selected nodes, mode, direction, or reason. Clearing a node removes this rule from that node.''], [Lit ''^4FEE^6539^6240^9009^8282^70B9^3001^6A21^5F0F^3001^65B9^5411^6216^539F^56E0^3002^53D6^6D88^52FE^9009^4F1A^4ECE^8BE5^8282^70B9^64A4^6389^8FD9^6761^89C4^5219^3002'']),
     ([Lit ''New network group''], [Lit ''^65B0^5EFA^7F51^7EDC^7EC4'']),
     ([Lit ''New access rule''], [Lit ''^65B0^5EFA^8BBF^95EE^63A7^5236^89C4^5219'']),
     ([Lit ''Network groups''], [Lit ''^7F51^7EDC^7EC4'']),
     ([Lit ''Entries''], [Lit ''^7F51^7EDC^4FE1^606F'']),
     ([Lit ''Group''], [Lit ''^7F51^7EDC^7EC4'']),
     ([Lit ''Mode''], [Lit ''^6A21^5F0F'']),
     ([Lit ''Reason''], [Lit ''^539F^56E0'']),
     ([Lit ''Delete access rule''], [Lit ''^5220^9664^8BBF^95EE^63A7^5236^89C4^5219'']),
     ([Lit ''Add entry''], [Lit ''^6DFB^52A0^7F51^7EDC^4FE1^606F'']),
     ([Lit ''Create''], [Lit ''^521B^5EFA'']),
     ([Lit ''Network group''], [Lit ''^7F51^7EDC^7EC4'']),
     ([Lit ''Select a group''], [Lit ''^9009^62E9^7F51^7EDC^7EC4'']),
     ([Lit ''Manage access control''], [Lit ''^7BA1^7406^8BBF^95EE^63A7^5236'']),
     ([Lit ''IP''], [Lit ''IP ^5730^5740'']),
     ([Lit ''CIDR''], [Lit ''CIDR'']),
     ([Lit ''deny''], [Lit ''^62E6^622A'']),
     ([Lit ''allow''], [Lit ''^653E^884C'']),
     ([Lit ''source''], [Lit ''^6765^6E90'']),
     ([Lit ''destination''], [Lit ''^76EE^7684'']),
     ([Lit ''Search access groups''], [Lit ''^641C^7D22^540D^79F0^3001^7F51^7EDC^4FE1^606F^6216^7F16^53F7'']),
     ([Lit ''Search access rules''], [Lit ''^641C^7D22^8282^70B9^3001^8BBF^95EE^7EC4^3001^539F^56E0^6216^7F16^53F7'']),
     ([Lit ''All types''], [Lit ''^5168^90E8^7C7B^578B'']),
     ([Lit ''All groups''], [Lit ''^5168^90E8^8BBF^95EE^7EC4'']),
     ([Lit ''All modes''], [Lit ''^5168^90E8^6A21^5F0F'']),
     ([Lit ''All directions''], [Lit ''^5168^90E8^65B9^5411'']),
     ([Lit ''No matching access groups''], [Lit ''^6CA1^6709^7B26^5408^6761^4EF6^7684^8BBF^95EE^7EC4'']),
     ([Lit ''No access groups match the current filters.''], [Lit ''^8BD5^8BD5^8C03^6574^641C^7D22^6216^7B5B^9009^6761^4EF6^3002'']),
     ([Lit ''No matching access rules''], [Lit ''^6CA1^6709^7B26^5408^6761^4EF6^7684^8BBF^95EE^89C4^5219'']),
     ([Lit ''No access rules match the current filters.''], [Lit ''^8BD5^8BD5^8C03^6574^641C^7D22^6216^7B5B^9009^6761^4EF6^3002'']),
     ([Lit ''Showing '', Hole ''from'', Lit ''-'', Hole ''to'', Lit '' of '', Hole ''count''], [Lit ''^663E^793A^7B2C '', Hole ''from'', Lit ''^2013'', Hole ''to'', Lit '' ^6761^FF0C^5171 '', Hole ''count'', Lit '' ^6761'']),
     ([Lit ''Named collections of IP addresses, CIDR ranges, and domains.''], [Lit ''^6309^540D^79F0^7BA1^7406 IP^3001CIDR ^548C^57DF^540D^7684^96C6^5408^3002'']),
     ([Lit ''Bind an access group to selected nodes as a blacklist or whitelist.''], [Lit ''^628A^8BBF^95EE^7EC4^6309^9ED1^540D^5355^6216^767D^540D^5355^7ED1^5B9A^5230^8282^70B9^3002''])]"

definition messages_zh_1403 :: dictionary where
  "messages_zh_1403 =
    [([Lit ''Source blacklist''], [Lit ''^6765^6E90^9ED1^540D^5355'']),
     ([Lit ''Source blocking''], [Lit ''^6765^6E90^62E6^622A'']),
     ([Lit ''Add source rule''], [Lit ''^6DFB^52A0^6765^6E90^89C4^5219'']),
     ([Lit ''Requests are allowed by default. Add an explicit source IP, network, or domain rule only when it should be blocked.''], [Lit ''^9ED8^8BA4^5141^8BB8^6240^6709^6765^6E90^8BF7^6C42^3002^4EC5^5728^9700^8981^62E6^622A^65F6^6DFB^52A0^660E^786E^7684^6765^6E90 IP^3001^7F51^7EDC^6216^57DF^540D^89C4^5219^3002'']),
     ([Lit ''Requests are allowed by default. Add an explicit source IP, network, or domain rule only when it should be blocked; the rule is applied with the next release.''], [Lit ''^9ED8^8BA4^5141^8BB8^6240^6709^6765^6E90^8BF7^6C42^3002^4EC5^5728^9700^8981^62E6^622A^65F6^6DFB^52A0^660E^786E^7684^6765^6E90 IP^3001^7F51^7EDC^6216^57DF^540D^89C4^5219^FF1B^89C4^5219^4F1A^5728^4E0B^4E00^6B21^53D1^5E03^65F6^751F^6548^3002'']),
     ([Lit ''Global rules apply to every site; site rules apply only to the selected site.''], [Lit ''^5168^5C40^89C4^5219^5E94^7528^4E8E^6240^6709^7AD9^70B9^FF1B^7AD9^70B9^89C4^5219^4EC5^5E94^7528^4E8E^9009^5B9A^7AD9^70B9^3002'']),
     ([Hole ''count'', Lit '' source rules''], [Hole ''count'', Lit '' ^6761^6765^6E90^89C4^5219'']),
     ([Lit ''Scope''], [Lit ''^8303^56F4'']),
     ([Lit ''Global''], [Lit ''^5168^5C40'']),
     ([Lit ''All sites''], [Lit ''^6240^6709^7AD9^70B9'']),
     ([Lit ''Network''], [Lit ''^7F51^7EDC'']),
     ([Lit ''network''], [Lit ''^7F51^7EDC'']),
     ([Lit ''Select a site''], [Lit ''^9009^62E9^7AD9^70B9'']),
     ([Lit ''Delete source rule''], [Lit ''^5220^9664^6765^6E90^89C4^5219'']),
     ([Lit ''No source rules are blocking requests.''], [Lit ''^5F53^524D^6CA1^6709^62E6^622A^6765^6E90^8BF7^6C42^7684^89C4^5219^3002'']),
     ([Lit ''Block a source IP, network, or domain globally or for one site.''], [Lit ''^6309^5168^5C40^6216^5355^4E2A^7AD9^70B9^62E6^622A^6765^6E90 IP^3001^7F51^7EDC^6216^57DF^540D^3002'']),
     ([Lit ''Remove source rule''], [Lit ''^79FB^9664^6765^6E90^89C4^5219'']),
     ([Lit ''Remove '', Hole ''value'', Lit '' from the source blacklist. The change is released automatically.''], [Lit ''^4ECE^6765^6E90^9ED1^540D^5355^79FB^9664 '', Hole ''value'', Lit ''^3002^53D8^66F4^4F1A^81EA^52A8^4E0B^53D1^3002'']),
     ([Lit ''Remove '', Hole ''value'', Lit '' from the source blacklist. New releases will no longer block it.''], [Lit ''^4ECE^6765^6E90^9ED1^540D^5355^79FB^9664 '', Hole ''value'', Lit ''^3002^540E^7EED^53D1^5E03^5C06^4E0D^518D^62E6^622A^5B83^3002'']),
     ([Lit ''Find source address''], [Lit ''^83B7^53D6^6765^6E90^5730^5740'']),
     ([Lit ''Manage source blacklist''], [Lit ''^7BA1^7406^6765^6E90^9ED1^540D^5355'']),
     ([Lit ''Source access is allowed by default. Use the returned address when you need to block a source for every site or one site.''], [Lit ''^9ED8^8BA4^5141^8BB8^6765^6E90^8BBF^95EE^3002^9700^8981^5BF9^6240^6709^7AD9^70B9^6216^5355^4E2A^7AD9^70B9^62E6^622A^6765^6E90^65F6^FF0C^8BF7^4F7F^7528^8FD4^56DE^7684^5730^5740^3002'']),
     ([Lit ''Collect the proxy source address, then add an explicit source blacklist rule.''], [Lit ''^83B7^53D6^4EE3^7406^6765^6E90^5730^5740^540E^FF0C^6DFB^52A0^660E^786E^7684^6765^6E90^9ED1^540D^5355^89C4^5219^3002'']),
     ([Lit ''Regional edge sites and their enrolled nodes.''], [Lit ''^533A^57DF^8FB9^7F18^7AD9^70B9^53CA^5176^5DF2^6CE8^518C^8282^70B9^3002'']),
     ([Lit ''Create a configuration draft from a site workspace.''], [Lit ''^4ECE^7AD9^70B9^5DE5^4F5C^533A^521B^5EFA^914D^7F6E^8349^7A3F^3002'']),
     ([Lit ''Effective source blacklist''], [Lit ''^751F^6548^6765^6E90^9ED1^540D^5355'']),
     ([Lit ''No source blacklist rules''], [Lit ''^6CA1^6709^751F^6548^7684^6765^6E90^9ED1^540D^5355^89C4^5219'']),
     ([Lit ''Bundle checks passed''], [Lit ''^914D^7F6E^5305^6821^9A8C^901A^8FC7'']),
     ([Lit ''Site configuration changes require a release before nodes apply them.''], [Lit ''^7AD9^70B9^914D^7F6E^53D8^66F4^9700^8981^521B^5EFA^53D1^5E03^540E^624D^4F1A^7531^8282^70B9^5E94^7528^3002'']),
     ([Lit ''Configuration revision''], [Lit ''^914D^7F6E^7248^672C'']),
     ([Lit ''Block the proxy listener for '', Hole ''name'', Lit ''. This changes the desired configuration and requires a release to reach its edge nodes.''], [Lit ''^963B^65AD '', Hole ''name'', Lit '' ^7684^4EE3^7406^76D1^542C^5668^3002^8FD9^4F1A^53D8^66F4^76EE^6807^914D^7F6E^FF0C^9700^53D1^5E03^540E^624D^80FD^4E0B^53D1^81F3^8FB9^7F18^8282^70B9^3002'']),
     ([Lit ''Change the display name for '', Hole ''name'', Lit ''. The site slug, configuration, and node bindings remain unchanged.''], [Lit ''^4FEE^6539 '', Hole ''name'', Lit '' ^7684^663E^793A^540D^79F0^3002^7AD9^70B9 slug^3001^914D^7F6E^548C^8282^70B9^7ED1^5B9A^4E0D^4F1A^6539^53D8^3002'']),
     ([Lit ''invalid_source_blacklist_pattern''], [Lit ''^6765^6E90^9ED1^540D^5355^89C4^5219^65E0^6548^3002'']),
     ([Lit ''source_blacklist_entry_exists''], [Lit ''^8BE5^6765^6E90^9ED1^540D^5355^89C4^5219^5DF2^5B58^5728^3002'']),
     ([Lit ''source_blacklist_site_required''], [Lit ''^8BF7^9009^62E9^8981^5E94^7528^89C4^5219^7684^7AD9^70B9^3002'']),
     ([Lit ''source_blacklist_global_site_forbidden''], [Lit ''^5168^5C40^89C4^5219^4E0D^80FD^6307^5B9A^7AD9^70B9^3002'']),
     ([Lit ''source_blacklist_entry_not_found''], [Lit ''^6765^6E90^9ED1^540D^5355^89C4^5219^4E0D^5B58^5728^3002'']),
     ([Lit ''source_blacklist_release_in_progress''], [Lit ''^53D7^5F71^54CD^7AD9^70B9^5DF2^6709^53D1^5E03^6B63^5728^8FDB^884C^FF0C^8BF7^7B49^5F85^5176^5B8C^6210^540E^91CD^8BD5^3002''])]"

definition messages_zh_1524 :: dictionary where
  "messages_zh_1524 =
    [([Lit ''Proxy configuration''], [Lit ''^4EE3^7406^914D^7F6E'']),
     ([Lit ''Filter by site''], [Lit ''^6309^7AD9^70B9^7B5B^9009'']),
     ([Lit ''All sites''], [Lit ''^5168^90E8^7AD9^70B9'']),
     ([Hole ''count'', Lit '' regional snapshots''], [Hole ''count'', Lit '' ^4E2A^533A^57DF^5FEB^7167'']),
     ([Lit ''Updated '', Hole ''date''], [Lit ''^66F4^65B0^4E8E '', Hole ''date'']),
     ([Lit ''No latency''], [Lit ''^6682^65E0^5EF6^8FDF'']),
     ([Lit ''Recent latency history''], [Lit ''^6700^8FD1^5EF6^8FDF^5386^53F2'']),
     ([Lit ''Current''], [Lit ''^5F53^524D'']),
     ([Hole ''count'', Lit '' endpoints''], [Hole ''count'', Lit '' ^4E2A^51FA^53E3'']),
     ([Lit ''Selected''], [Lit ''^5F53^524D^9009^62E9'']),
     ([Lit ''No selection''], [Lit ''^672A^9009^62E9'']),
     ([Hole ''count'', Lit '' groups''], [Hole ''count'', Lit '' ^4E2A^4EE3^7406^7EC4'']),
     ([Lit ''Received '', Hole ''date''], [Lit ''^63A5^6536^4E8E '', Hole ''date'']),
     ([Lit ''Awaiting monitor data''], [Lit ''^7B49^5F85^76D1^63A7^5668^6570^636E'']),
     ([Lit ''No proxy groups reported.''], [Lit ''^6682^65E0^4EE3^7406^7EC4^6570^636E^3002'']),
     ([Lit ''Proxy API is unavailable.''], [Lit ''^4EE3^7406 API ^4E0D^53EF^7528^3002'']),
     ([Lit ''clash_api_invalid_response''], [Lit ''^4EE3^7406 API ^8FD4^56DE^7684^6570^636E^683C^5F0F^65E0^6548^3002'']),
     ([Lit ''clash_api_unavailable''], [Lit ''^65E0^6CD5^8FDE^63A5^672C^5730^4EE3^7406 API^3002'']),
     ([Lit ''The monitor has not reported a selectable group yet.''], [Lit ''^76D1^63A7^5668^5C1A^672A^4E0A^62A5^53EF^9009^62E9^7684^4EE3^7406^7EC4^3002'']),
     ([Lit ''The control plane will show the last successful snapshot when the monitor reconnects.''], [Lit ''^76D1^63A7^5668^91CD^65B0^8FDE^63A5^540E^FF0C^63A7^5236^5E73^9762^4F1A^663E^793A^6700^8FD1^4E00^6B21^6210^529F^5FEB^7167^3002'']),
     ([Lit ''No nodes enrolled.''], [Lit ''^6682^65E0^5DF2^6CE8^518C^8282^70B9^3002'']),
     ([Lit ''Enroll a regional monitor before viewing proxy groups.''], [Lit ''^8BF7^5148^6CE8^518C^533A^57DF^76D1^63A7^5668^FF0C^518D^67E5^770B^4EE3^7406^7EC4^3002'']),
     ([Lit ''Selector''], [Lit ''^9009^62E9^5668'']),
     ([Lit ''Fallback''], [Lit ''^56DE^9000^7B56^7565'']),
     ([Lit ''URL test''], [Lit ''URL ^6D4B^8BD5'']),
     ([Lit ''Direct''], [Lit ''^76F4^8FDE'']),
     ([Lit ''Reject''], [Lit ''^62D2^7EDD'']),
     ([Lit ''Trojan''], [Lit ''Trojan'']),
     ([Lit ''Shadowsocks''], [Lit ''Shadowsocks'']),
     ([Lit ''VMess''], [Lit ''VMess'']),
     ([Lit ''VLESS''], [Lit ''VLESS'']),
     ([Lit ''HTTP''], [Lit ''HTTP'']),
     ([Lit ''SOCKS5''], [Lit ''SOCKS5'']),
     ([Lit ''Read-only outbound groups reported by each regional monitor. Endpoint credentials and server details never leave the node.''], [Lit ''^5404^533A^57DF^76D1^63A7^5668^4E0A^62A5^7684^53EA^8BFB^51FA^7AD9^4EE3^7406^7EC4^3002^51FA^53E3^51ED^636E^548C^670D^52A1^5668^8BE6^60C5^4E0D^4F1A^79BB^5F00^8282^70B9^3002'']),
     ([Lit ''Snapshots are refreshed by monitors; selecting a node here does not change its live outbound.''], [Lit ''^5FEB^7167^7531^76D1^63A7^5668^5237^65B0^FF1B^5728^6B64^9009^62E9^8282^70B9^4E0D^4F1A^6539^53D8^8282^70B9^7684^5B9E^65F6^51FA^7AD9^3002'']),
     ([Lit ''REGIONAL TOPOLOGY''], [Lit ''^533A^57DF^62D3^6251'']),
     ([Lit ''Unable to load proxy configuration.''], [Lit ''^65E0^6CD5^52A0^8F7D^4EE3^7406^914D^7F6E^3002'']),
     ([Lit ''Rename node''], [Lit ''^91CD^547D^540D^8282^70B9'']),
     ([Lit ''Rename node '', Hole ''name''], [Lit ''^91CD^547D^540D^8282^70B9 '', Hole ''name'']),
     ([Lit ''Change the display name for '', Hole ''name'', Lit ''. Node identity and site binding remain unchanged.''], [Lit ''^4FEE^6539 '', Hole ''name'', Lit '' ^7684^663E^793A^540D^79F0^3002^8282^70B9^8EAB^4EFD^548C^7AD9^70B9^7ED1^5B9A^4E0D^4F1A^6539^53D8^3002'']),
     ([Lit ''Display name''], [Lit ''^663E^793A^540D^79F0'']),
     ([Lit ''The node name could not be updated.''], [Lit ''^8282^70B9^540D^79F0^66F4^65B0^5931^8D25^3002'']),
     ([Lit ''Saving...''], [Lit ''^4FDD^5B58^4E2D...'']),
     ([Lit ''Save changes''], [Lit ''^4FDD^5B58^66F4^6539'']),
     ([Lit ''node_name_required''], [Lit ''^8282^70B9^540D^79F0^4E0D^80FD^4E3A^7A7A^3002'']),
     ([Lit ''node_name_too_long''], [Lit ''^8282^70B9^540D^79F0^8FC7^957F^3002''])]"

definition messages_zh_1669 :: dictionary where
  "messages_zh_1669 =
    [([Lit ''Showing last successful snapshot.''], [Lit ''^663E^793A^6700^8FD1^4E00^6B21^6210^529F^5FEB^7167^3002'']),
     ([Lit ''Rename site''], [Lit ''^91CD^547D^540D^7AD9^70B9'']),
     ([Lit ''Rename site '', Hole ''name''], [Lit ''^91CD^547D^540D^7AD9^70B9 '', Hole ''name'']),
     ([Lit ''Change the display name for '', Hole ''name'', Lit ''. The site slug, policy, and node bindings remain unchanged.''], [Lit ''^4FEE^6539 '', Hole ''name'', Lit '' ^7684^663E^793A^540D^79F0^3002^7AD9^70B9 slug^3001^7B56^7565^548C^8282^70B9^7ED1^5B9A^4E0D^4F1A^6539^53D8^3002'']),
     ([Lit ''Site display name''], [Lit ''^7AD9^70B9^663E^793A^540D^79F0'']),
     ([Lit ''The site name could not be updated.''], [Lit ''^7AD9^70B9^540D^79F0^66F4^65B0^5931^8D25^3002'']),
     ([Lit ''site_name_required''], [Lit ''^7AD9^70B9^540D^79F0^4E0D^80FD^4E3A^7A7A^3002'']),
     ([Lit ''site_name_too_long''], [Lit ''^7AD9^70B9^540D^79F0^8FC7^957F^3002'']),
     ([Lit ''Configure site proxy''], [Lit ''^914D^7F6E^7AD9^70B9^4EE3^7406'']),
     ([Lit ''Choose an immutable subscription version for '', Hole ''site'', Lit ''. The change creates a release and does not modify the node directly.''], [Lit ''^4E3A '', Hole ''site'', Lit '' ^9009^62E9^4E0D^53EF^53D8^8BA2^9605^7248^672C^3002^6B64^64CD^4F5C^4F1A^521B^5EFA^53D1^5E03^FF0C^4E0D^4F1A^76F4^63A5^4FEE^6539^8282^70B9^3002'']),
     ([Lit ''DEPLOY TARGET''], [Lit ''^53D1^5E03^76EE^6807'']),
     ([Lit ''Current site subscription''], [Lit ''^5F53^524D^7AD9^70B9^8BA2^9605'']),
     ([Lit ''Not configured''], [Lit ''^672A^914D^7F6E'']),
     ([Lit ''Bound '', Hole ''date''], [Lit ''^7ED1^5B9A^4E8E '', Hole ''date'']),
     ([Lit ''Subscription source''], [Lit ''^8BA2^9605^6765^6E90'']),
     ([Lit ''Select a source''], [Lit ''^9009^62E9^6765^6E90'']),
     ([Lit ''Immutable version''], [Lit ''^4E0D^53EF^53D8^7248^672C'']),
     ([Lit ''Select a version''], [Lit ''^9009^62E9^7248^672C'']),
     ([Lit ''Upload or add a subscription in Subscriptions before configuring this site.''], [Lit ''^8BF7^5148^5728^8BA2^9605^9875^9762^4E0A^4F20^6216^6DFB^52A0^8BA2^9605^FF0C^518D^914D^7F6E^6B64^7AD9^70B9^3002'']),
     ([Lit ''Open subscriptions''], [Lit ''^6253^5F00^8BA2^9605^7BA1^7406'']),
     ([Lit ''No publishable versions''], [Lit ''^6CA1^6709^53EF^53D1^5E03^7248^672C'']),
     ([Lit ''Refresh or import this source in Subscriptions before configuring the site.''], [Lit ''^8BF7^5148^5728^8BA2^9605^9875^9762^5237^65B0^6216^5BFC^5165^6B64^6765^6E90^FF0C^518D^914D^7F6E^7AD9^70B9^3002'']),
     ([Lit ''The subscription release could not be created.''], [Lit ''^65E0^6CD5^521B^5EFA^8BA2^9605^53D1^5E03^3002'']),
     ([Lit ''Create release''], [Lit ''^521B^5EFA^53D1^5E03'']),
     ([Lit ''Publish site proxy configuration''], [Lit ''^53D1^5E03^7AD9^70B9^4EE3^7406^914D^7F6E'']),
     ([Lit ''Publish '', Hole ''version'', Lit '' to '', Hole ''site'', Lit ''. Nodes will validate and acknowledge the new outbound configuration independently.''], [Lit ''^5C06 '', Hole ''version'', Lit '' ^53D1^5E03^5230 '', Hole ''site'', Lit ''^3002^8282^70B9^4F1A^72EC^7ACB^6821^9A8C^5E76^786E^8BA4^65B0^7684^51FA^7AD9^914D^7F6E^3002'']),
     ([Lit ''Each region is shown once; configuration changes create a release for its enrolled nodes.''], [Lit ''^6BCF^4E2A^533A^57DF^4EC5^5C55^793A^4E00^6B21^FF1B^914D^7F6E^53D8^66F4^4F1A^4E3A^8BE5^533A^57DF^5DF2^6CE8^518C^8282^70B9^521B^5EFA^53D1^5E03^3002'']),
     ([Lit ''Snapshots are refreshed by monitors. The configuration action below uses subscriptions and never changes a node directly.''], [Lit ''^5FEB^7167^7531^76D1^63A7^5668^5237^65B0^3002^4E0B^65B9^914D^7F6E^64CD^4F5C^901A^8FC7^8BA2^9605^53D1^5E03^FF0C^7EDD^4E0D^4F1A^76F4^63A5^4FEE^6539^8282^70B9^3002'']),
     ([Lit ''No sites configured.''], [Lit ''^6682^65E0^5DF2^914D^7F6E^7AD9^70B9^3002'']),
     ([Lit ''Create a site before viewing regional proxy groups.''], [Lit ''^8BF7^5148^521B^5EFA^7AD9^70B9^FF0C^518D^67E5^770B^533A^57DF^4EE3^7406^7EC4^3002'']),
     ([Lit ''subscription_version_required''], [Lit ''^8BF7^9009^62E9^53EF^53D1^5E03^7684^8BA2^9605^7248^672C^3002''])]"

definition messages_zh_1769 :: dictionary where
  "messages_zh_1769 =
    [([Lit ''Employees''], [Lit ''^5458^5DE5'']),
     ([Lit ''Local employee account inventory.''], [Lit ''^672C^5730^5458^5DE5^8D26^53F7^6E05^5355^3002'']),
     ([Hole ''count'', Lit '' employees''], [Hole ''count'', Lit '' ^540D^5458^5DE5'']),
     ([Lit ''No employee accounts''], [Lit ''^6682^65E0^5458^5DE5^8D26^53F7'']),
     ([Lit ''Registered employees appear here after completing GQuan verification.''], [Lit ''^5458^5DE5^5B8C^6210^5149^5708^9A8C^8BC1^6CE8^518C^540E^4F1A^663E^793A^5728^8FD9^91CC^3002'']),
     ([Lit ''Employee''], [Lit ''^5458^5DE5'']),
     ([Lit ''local''], [Lit ''^672C^5730'']),
     ([Lit ''Authentication source''], [Lit ''^8BA4^8BC1^6765^6E90'']),
     ([Lit ''Last sign-in''], [Lit ''^6700^8FD1^767B^5F55'']),
     ([Lit ''Password changed''], [Lit ''^5BC6^7801^4FEE^6539^65F6^95F4'']),
     ([Lit ''Unable to load employees.''], [Lit ''^65E0^6CD5^52A0^8F7D^5458^5DE5^5217^8868^3002''])]"

definition messages_zh_1809 :: dictionary where
  "messages_zh_1809 =
    [([Lit ''Backups''], [Lit ''^5907^4EFD'']),
     ([Lit ''Export JSON''], [Lit ''^5BFC^51FA JSON'']),
     ([Lit ''Export NDJSON''], [Lit ''^5BFC^51FA NDJSON'']),
     ([Lit ''Creating backup...''], [Lit ''^521B^5EFA^5907^4EFD^4E2D...'']),
     ([Lit ''Create backup''], [Lit ''^521B^5EFA^5907^4EFD'']),
     ([Lit ''Unable to load backups.''], [Lit ''^65E0^6CD5^52A0^8F7D^5907^4EFD^3002'']),
     ([Lit ''The backup operation was not accepted.''], [Lit ''^5907^4EFD^64CD^4F5C^672A^88AB^63A5^53D7^3002'']),
     ([Lit ''Backups: '', Hole ''count''], [Lit ''^5907^4EFD^FF1A'', Hole ''count'']),
     ([Lit ''Verified control-plane snapshots with a rehearsal-first restore workflow.''], [Lit ''^5DF2^6821^9A8C^7684^63A7^5236^5E73^9762^5FEB^7167^FF0C^9ED8^8BA4^5148^8FDB^884C^6062^590D^6F14^7EC3^3002'']),
     ([Lit ''Every archive includes a manifest and SHA-256 checksum.''], [Lit ''^6BCF^4E2A^5F52^6863^90FD^5305^542B^6E05^5355^548C SHA-256 ^6821^9A8C^548C^3002'']),
     ([Lit ''Backup''], [Lit ''^5907^4EFD'']),
     ([Lit ''Origin''], [Lit ''^6765^6E90'']),
     ([Lit ''Scope''], [Lit ''^8303^56F4'']),
     ([Lit ''Size''], [Lit ''^5927^5C0F'']),
     ([Lit ''Encryption''], [Lit ''^52A0^5BC6'']),
     ([Lit ''Last rehearsal''], [Lit ''^6700^8FD1^6F14^7EC3'']),
     ([Lit ''Not rehearsed''], [Lit ''^5C1A^672A^6F14^7EC3'']),
     ([Lit ''Checksum''], [Lit ''^6821^9A8C^548C'']),
     ([Lit ''Verify''], [Lit ''^6821^9A8C'']),
     ([Lit ''No backups recorded''], [Lit ''^6682^65E0^5907^4EFD^8BB0^5F55'']),
     ([Lit ''Create a snapshot before a risky change or upgrade.''], [Lit ''^5728^9AD8^98CE^9669^53D8^66F4^6216^5347^7EA7^524D^521B^5EFA^5FEB^7167^3002'']),
     ([Lit ''Run restore rehearsal''], [Lit ''^8FD0^884C^6062^590D^6F14^7EC3'']),
     ([Lit ''Verify '', Hole ''backup'', Lit '' without changing live data. The task checks the archive manifest and collection hashes.''], [Lit ''^6821^9A8C '', Hole ''backup'', Lit ''^FF0C^4E0D^6539^53D8^7EBF^4E0A^6570^636E^3002^4EFB^52A1^4F1A^68C0^67E5^5F52^6863^6E05^5355^548C^96C6^5408^54C8^5E0C^3002'']),
     ([Lit ''Run rehearsal''], [Lit ''^8FD0^884C^6F14^7EC3'']),
     ([Lit ''Restore backup''], [Lit ''^6062^590D^5907^4EFD'']),
     ([Lit ''Restore '', Hole ''backup'', Lit '' by upserting verified documents. Current task and backup records are preserved; newer documents are not deleted.''], [Lit ''^901A^8FC7^5199^5165^5DF2^6821^9A8C^6587^6863^6062^590D '', Hole ''backup'', Lit ''^3002^5F53^524D^4EFB^52A1^548C^5907^4EFD^8BB0^5F55^4F1A^4FDD^7559^FF0C^4E0D^4F1A^5220^9664^66F4^65B0^7684^6587^6863^3002'']),
     ([Lit ''control_plane''], [Lit ''^63A7^5236^5E73^9762'']),
     ([Lit ''manual''], [Lit ''^624B^52A8'']),
     ([Lit ''scheduled''], [Lit ''^5B9A^65F6'']),
     ([Lit ''verified''], [Lit ''^5DF2^9A8C^8BC1'']),
     ([Lit ''expired''], [Lit ''^5DF2^8FC7^671F'']),
     ([Lit ''planned''], [Lit ''^5DF2^8BA1^5212'']),
     ([Lit ''restore queued''], [Lit ''^6062^590D^6392^961F^4E2D'']),
     ([Lit ''rehearsed''], [Lit ''^5DF2^5B8C^6210^6F14^7EC3'']),
     ([Lit ''restored''], [Lit ''^5DF2^6062^590D'']),
     ([Lit ''backup failed''], [Lit ''^5907^4EFD^5931^8D25'']),
     ([Lit ''backup_not_verified''], [Lit ''^5907^4EFD^5C1A^672A^6821^9A8C^901A^8FC7^3002'']),
     ([Lit ''backup_artifact_missing''], [Lit ''^5907^4EFD^5F52^6863^4E0D^5B58^5728^3002'']),
     ([Lit ''backup_checksum_mismatch''], [Lit ''^5907^4EFD^6821^9A8C^548C^4E0D^5339^914D^3002'']),
     ([Lit ''backup_archive_invalid''], [Lit ''^5907^4EFD^5F52^6863^65E0^6548^3002'']),
     ([Lit ''backup_manifest_invalid''], [Lit ''^5907^4EFD^6E05^5355^65E0^6548^3002'']),
     ([Lit ''backup_collection_too_large''], [Lit ''^96C6^5408^5F52^6863^6210^5458^8D85^8FC7^5927^5C0F^4E0A^9650^3002'']),
     ([Lit ''backup_document_too_large''], [Lit ''^5355^6761^6587^6863^8D85^8FC7^5F52^6863^6210^5458^5927^5C0F^4E0A^9650^3002'']),
     ([Lit ''backup_member_too_large''], [Lit ''^5907^4EFD^5F52^6863^6210^5458^8D85^8FC7^5927^5C0F^4E0A^9650^3002'']),
     ([Lit ''backup_archive_too_large''], [Lit ''^5907^4EFD^5F52^6863^5C55^5F00^540E^8D85^8FC7^5927^5C0F^4E0A^9650^3002'']),
     ([Lit ''backup_encryption_required''], [Lit ''^751F^4EA7^73AF^5883^5FC5^987B^914D^7F6E^5907^4EFD^52A0^5BC6^5BC6^94A5^3002'']),
     ([Lit ''backup_encryption_key_missing''], [Lit ''^7F3A^5C11^5907^4EFD^52A0^5BC6^5BC6^94A5^3002'']),
     ([Lit ''backup_openssl_unavailable''], [Lit ''^7CFB^7EDF^7F3A^5C11 OpenSSL^FF0C^65E0^6CD5^5904^7406^52A0^5BC6^5907^4EFD^3002'']),
     ([Lit ''backup_write_failed''], [Lit ''^65E0^6CD5^5199^5165^5907^4EFD^5F52^6863^3002'']),
     ([Lit ''backup_operation_failed''], [Lit ''^5907^4EFD^4EFB^52A1^6267^884C^5931^8D25^3002'']),
     ([Lit ''audit_export_format_invalid''], [Lit ''^5BA1^8BA1^5BFC^51FA^683C^5F0F^65E0^6548^3002''])]"

definition messages_zh_1969 :: dictionary where
  "messages_zh_1969 =
    [([Lit ''Proxy connection details and the rendered Linux setup script.''], [Lit ''^4EE3^7406^8FDE^63A5^8BE6^60C5^548C^5DF2^751F^6210^7684 Linux ^914D^7F6E^811A^672C^3002'']),
     ([Lit ''Transport''], [Lit ''^4F20^8F93^65B9^5F0F'']),
     ([Lit ''release_in_progress''], [Lit ''^8BE5^7AD9^70B9^5DF2^6709^914D^7F6E^53D1^5E03^6B63^5728^8FDB^884C^3002'']),
     ([Lit ''request_failed''], [Lit ''^8BF7^6C42^672A^80FD^5B8C^6210^3002''])]"

definition messages_zh_1988 :: dictionary where
  "messages_zh_1988 =
    [([Lit ''Choose a site''], [Lit ''^9009^62E9^7AD9^70B9'']),
     ([Lit ''Choose a node''], [Lit ''^9009^62E9^8282^70B9'']),
     ([Lit ''SITE''], [Lit ''^7AD9^70B9'']),
     ([Lit ''NODE''], [Lit ''^8282^70B9'']),
     ([Lit ''No site selected''], [Lit ''^672A^9009^62E9^7AD9^70B9'']),
     ([Lit ''A selection is released through the monitor ACK workflow.''], [Lit ''^51FA^53E3^9009^62E9^4F1A^901A^8FC7^76D1^63A7^5668 ACK ^53D1^5E03^6D41^7A0B^4E0B^53D1^3002'']),
     ([Lit ''Choose an outbound below. The selection creates a node release and is applied by its monitor.''], [Lit ''^8BF7^5728^4E0B^65B9^9009^62E9^51FA^53E3^670D^52A1^3002^9009^62E9^4F1A^521B^5EFA^8282^70B9^53D1^5E03^FF0C^5E76^7531^5BF9^5E94^76D1^63A7^5668^5E94^7528^3002'']),
     ([Lit ''Select '', Hole ''name''], [Lit ''^9009^62E9 '', Hole ''name'']),
     ([Lit ''Switch proxy service''], [Lit ''^5207^6362^4EE3^7406^670D^52A1'']),
     ([Lit ''Set '', Hole ''node'', Lit '' to use '', Hole ''outbound'', Lit '' in '', Hole ''group'', Lit ''. This creates a node release; the monitor applies it after validation and health checks.''], [Lit ''^5C06 '', Hole ''node'', Lit '' ^5728 '', Hole ''group'', Lit '' ^4E2D^5207^6362^4E3A '', Hole ''outbound'', Lit ''^3002^8FD9^4F1A^521B^5EFA^8282^70B9^53D1^5E03^FF0C^76D1^63A7^5668^6821^9A8C^5E76^5B8C^6210^5065^5EB7^68C0^67E5^540E^624D^4F1A^5E94^7528^3002'']),
     ([Lit ''The proxy selection could not be released.''], [Lit ''^4EE3^7406^51FA^53E3^9009^62E9^53D1^5E03^5931^8D25^3002'']),
     ([Lit ''Release queued for '', Hole ''node'', Lit ''.''], [Lit ''^5DF2^4E3A '', Hole ''node'', Lit '' ^6392^961F^53D1^5E03^3002'']),
     ([Lit ''proxy_snapshot_not_found''], [Lit ''^8282^70B9^5C1A^672A^4E0A^62A5^4EE3^7406^5FEB^7167^3002'']),
     ([Lit ''proxy_group_not_found''], [Lit ''^4EE3^7406^7EC4^4E0D^5B58^5728^6216^5DF2^4ECE^5FEB^7167^4E2D^79FB^9664^3002'']),
     ([Lit ''proxy_outbound_not_found''], [Lit ''^6240^9009^4EE3^7406^670D^52A1^4E0D^5B58^5728^6216^5DF2^4ECE^5FEB^7167^4E2D^79FB^9664^3002'']),
     ([Lit ''proxy_group_not_selectable''], [Lit ''^8BE5^4EE3^7406^7EC4^5F53^524D^6CA1^6709^53EF^9009^62E9^7684^670D^52A1^3002'']),
     ([Lit ''release_idempotency_incomplete''], [Lit ''^8BE5^53D1^5E03^8BF7^6C42^4ECD^5728^5904^7406^4E2D^FF0C^8BF7^7A0D^540E^5237^65B0^3002'']),
     ([Lit ''Inspect a site and node, then choose the outbound service that its monitor should apply.''], [Lit ''^9009^62E9^7AD9^70B9^548C^8282^70B9^540E^FF0C^53EF^6307^5B9A^76D1^63A7^5668^5B9E^9645^5E94^7528^7684^51FA^53E3^670D^52A1^3002'']),
     ([Hole ''count'', Lit '' sites''], [Hole ''count'', Lit '' ^4E2A^7AD9^70B9'']),
     ([Hole ''count'', Lit '' nodes''], [Hole ''count'', Lit '' ^4E2A^8282^70B9'']),
     ([Lit ''sites''], [Lit ''^7AD9^70B9'']),
     ([Lit ''nodes''], [Lit ''^8282^70B9''])]"

definition messages_zh_2061 :: dictionary where
  "messages_zh_2061 =
    [([Lit ''auth failed''], [Lit ''^8BA4^8BC1^5931^8D25'']),
     ([Lit ''Outbound services''], [Lit ''^51FA^53E3^670D^52A1'']),
     ([Hole ''count'', Lit '' services''], [Hole ''count'', Lit '' ^4E2A^51FA^53E3^670D^52A1'']),
     ([Lit ''Active service''], [Lit ''^5F53^524D^670D^52A1'']),
     ([Lit ''No outbound services reported.''], [Lit ''^6682^65E0^51FA^53E3^670D^52A1^6570^636E^3002'']),
     ([Lit ''The monitor has not reported its subscription selector yet.''], [Lit ''^76D1^63A7^5668^5C1A^672A^4E0A^62A5^8BA2^9605^51FA^53E3^9009^62E9^5668^3002'']),
     ([Lit ''Enroll a regional monitor before choosing an outbound service.''], [Lit ''^8BF7^5148^6CE8^518C^533A^57DF^76D1^63A7^5668^FF0C^518D^9009^62E9^51FA^53E3^670D^52A1^3002'']),
     ([Lit ''Set '', Hole ''node'', Lit '' to use '', Hole ''outbound'', Lit ''. This creates a node release; the monitor applies it after validation and health checks.''], [Lit ''^5C06 '', Hole ''node'', Lit '' ^5207^6362^4E3A^4F7F^7528 '', Hole ''outbound'', Lit ''^3002^8FD9^4F1A^521B^5EFA^8282^70B9^53D1^5E03^FF0C^76D1^63A7^5668^6821^9A8C^5E76^5B8C^6210^5065^5EB7^68C0^67E5^540E^624D^4F1A^5E94^7528^3002'']),
     ([Lit ''PROXY GROUP''], [Lit ''^4EE3^7406^7EC4'']),
     ([Lit ''Proxy groups''], [Lit ''^4EE3^7406^7EC4'']),
     ([Lit ''Choose a proxy group''], [Lit ''^9009^62E9^4EE3^7406^7EC4'']),
     ([Lit ''Search proxy services''], [Lit ''^641C^7D22^4EE3^7406^670D^52A1'']),
     ([Lit ''Filter proxy state''], [Lit ''^7B5B^9009^4EE3^7406^72B6^6001'']),
     ([Lit ''All endpoint states''], [Lit ''^5168^90E8^51FA^53E3^72B6^6001'']),
     ([Hole ''count'', Lit '' of '', Hole ''total'', Lit '' shown''], [Lit ''^663E^793A '', Hole ''count'', Lit '' / '', Hole ''total'', Lit '' ^4E2A'']),
     ([Lit ''No matching proxy services''], [Lit ''^6CA1^6709^5339^914D^7684^4EE3^7406^670D^52A1'']),
     ([Lit ''Try another name or state filter.''], [Lit ''^8BF7^5C1D^8BD5^5176^4ED6^540D^79F0^6216^72B6^6001^7B5B^9009^6761^4EF6^3002''])]"

definition messages_zh_2119 :: dictionary where
  "messages_zh_2119 =
    [([Lit ''Recent releases''], [Lit ''^6700^8FD1^53D1^5E03'']),
     ([Lit ''Review desired state, node ACKs, and the path from draft to applied configuration.''], [Lit ''^67E5^770B^671F^671B^72B6^6001^3001^8282^70B9 ACK^FF0C^4EE5^53CA^4ECE^8349^7A3F^5230^5B9E^9645^751F^6548^914D^7F6E^7684^5B8C^6574^8DEF^5F84^3002'']),
     ([Hole ''count'', Lit '' releases''], [Hole ''count'', Lit '' ^4E2A^53D1^5E03'']),
     ([Lit ''Filter releases''], [Lit ''^7B5B^9009^53D1^5E03^8BB0^5F55'']),
     ([Hole ''count'', Lit '' shown''], [Lit ''^663E^793A '', Hole ''count'', Lit '' ^6761'']),
     ([Lit ''Time range''], [Lit ''^65F6^95F4^8303^56F4'']),
     ([Lit ''Last 24 hours''], [Lit ''^6700^8FD1 24 ^5C0F^65F6'']),
     ([Lit ''Last 7 days''], [Lit ''^6700^8FD1 7 ^5929'']),
     ([Lit ''Last 30 days''], [Lit ''^6700^8FD1 30 ^5929'']),
     ([Lit ''All time''], [Lit ''^5168^90E8^65F6^95F4'']),
     ([Lit ''Release history''], [Lit ''^53D1^5E03^5386^53F2'']),
     ([Lit ''The release could not be created.''], [Lit ''^65E0^6CD5^521B^5EFA^53D1^5E03^3002''])]"

definition messages_zh_2163 :: dictionary where
  "messages_zh_2163 =
    [([Lit ''Release ID''], [Lit ''^53D1^5E03 ID'']),
     ([Lit ''Target release''], [Lit ''^76EE^6807^53D1^5E03'']),
     ([Lit ''Target nodes''], [Lit ''^76EE^6807^8282^70B9'']),
     ([Lit ''Desired version v'', Hole ''version''], [Lit ''^76EE^6807^7248^672C v'', Hole ''version'']),
     ([Hole ''count'', Lit '' acknowledged''], [Lit ''^5DF2^786E^8BA4 '', Hole ''count'', Lit '' ^4E2A'']),
     ([Lit ''Elapsed''], [Lit ''^8017^65F6'']),
     ([Lit ''Finished '', Hole ''date''], [Lit ''^5B8C^6210^4E8E '', Hole ''date'']),
     ([Lit ''Finished''], [Lit ''^5B8C^6210^65F6^95F4'']),
     ([Lit ''Started '', Hole ''date''], [Lit ''^5F00^59CB^4E8E '', Hole ''date'']),
     ([Lit ''Not started''], [Lit ''^5C1A^672A^5F00^59CB'']),
     ([Lit ''Desired v'', Hole ''version''], [Lit ''^76EE^6807 v'', Hole ''version'']),
     ([Lit ''Applied v'', Hole ''version''], [Lit ''^5DF2^5E94^7528 v'', Hole ''version'']),
     ([Lit ''ACKs''], [Lit ''^4E2A ACK'']),
     ([Lit ''Health''], [Lit ''^5065^5EB7^68C0^67E5'']),
     ([Lit ''Bundle''], [Lit ''^914D^7F6E^5305'']),
     ([Lit ''Rollback applied''], [Lit ''^5DF2^56DE^6EDA'']),
     ([Lit ''Rollback failed''], [Lit ''^56DE^6EDA^5931^8D25'']),
     ([Lit ''Node reported an error''], [Lit ''^8282^70B9^62A5^544A^9519^8BEF'']),
     ([Lit ''COORDINATION''], [Lit ''^534F^8C03^4FE1^606F'']),
     ([Lit ''Release summary''], [Lit ''^53D1^5E03^6458^8981'']),
     ([Lit ''Desired state created''], [Lit ''^5DF2^521B^5EFA^671F^671B^72B6^6001'']),
     ([Lit ''Bundle and policy checks passed''], [Lit ''^914D^7F6E^5305^4E0E^7B56^7565^6821^9A8C^901A^8FC7'']),
     ([Lit ''Waiting for the monitor''], [Lit ''^7B49^5F85^76D1^63A7^5668^5904^7406'']),
     ([Lit ''Monitor is applying the bundle''], [Lit ''^76D1^63A7^5668^6B63^5728^5E94^7528^914D^7F6E^5305'']),
     ([Lit ''Verifying services and firewall''], [Lit ''^6B63^5728^6821^9A8C^670D^52A1^4E0E^9632^706B^5899'']),
     ([Lit ''All targeted nodes acknowledged''], [Lit ''^6240^6709^76EE^6807^8282^70B9^5DF2^786E^8BA4''])]"

definition messages_zh_2248 :: dictionary where
  "messages_zh_2248 =
    [([Lit ''one_or_more_nodes_failed''], [Lit ''^4E00^4E2A^6216^591A^4E2A^8282^70B9^672A^80FD^5E94^7528^914D^7F6E^3002'']),
     ([Lit ''single_node_invalid_uri''], [Lit ''^5355^4E2A^8282^70B9 URI ^683C^5F0F^65E0^6548^3002'']),
     ([Lit ''single_node_invalid_vmess''], [Lit ''VMess ^94FE^63A5^7684 Base64 JSON ^65E0^6548^3002'']),
     ([Lit ''single_node_invalid_uuid''], [Lit ''VMess/VLESS UUID ^65E0^6548^3002'']),
     ([Lit ''single_node_invalid_port''], [Lit ''^5355^4E2A^8282^70B9^7AEF^53E3^65E0^6548^3002'']),
     ([Lit ''single_node_invalid_host''], [Lit ''^5355^4E2A^8282^70B9^670D^52A1^5668^5730^5740^65E0^6548^3002'']),
     ([Lit ''single_node_invalid_parameters''], [Lit ''^5355^4E2A^8282^70B9^53C2^6570^65E0^6548^3002'']),
     ([Lit ''single_node_parameter_unsupported''], [Lit ''^5355^4E2A^8282^70B9^5305^542B^4E0D^652F^6301^7684^53C2^6570^3002'']),
     ([Lit ''single_node_transport_unsupported''], [Lit ''^5355^4E2A^8282^70B9^4F20^8F93^65B9^5F0F^6682^4E0D^652F^6301^3002'']),
     ([Lit ''single_node_security_unsupported''], [Lit ''^5355^4E2A^8282^70B9^52A0^5BC6^65B9^5F0F^6682^4E0D^652F^6301^3002'']),
     ([Lit ''single_node_too_large''], [Lit ''^5355^4E2A^8282^70B9^6570^636E^8D85^8FC7^5927^5C0F^9650^5236^3002'']),
     ([Lit ''proxy_outbound_not_found''], [Lit ''^6240^9009^4EE3^7406^51FA^53E3^5DF2^4E0D^5B58^5728^FF0C^5C06^81EA^52A8^4F7F^7528^5F53^524D^7B2C^4E00^4E2A^51FA^53E3^3002''])]"

definition messages_zh_2291 :: dictionary where
  "messages_zh_2291 =
    [([Lit ''CONNECTION''], [Lit ''^8FDE^63A5^4FE1^606F'']),
     ([Lit ''Proxy endpoint''], [Lit ''^4EE3^7406^7AEF^70B9'']),
     ([Lit ''Protocol''], [Lit ''^534F^8BAE'']),
     ([Lit ''Endpoint''], [Lit ''^7AEF^70B9'']),
     ([Lit ''One-line shell configuration''], [Lit ''^5355^884C Shell ^914D^7F6E'']),
     ([Lit ''Apply the proxy to the current shell and all child processes.''], [Lit ''^4E3A^5F53^524D Shell ^53CA^5176^5B50^8FDB^7A0B^542F^7528^4EE3^7406^3002'']),
     ([Lit ''Enable proxy script''], [Lit ''^5F00^542F^4EE3^7406^811A^672C'']),
     ([Lit ''Source this script into the current shell to enable HTTP CONNECT. Direct execution cannot change the parent shell.''], [Lit ''^8BF7^5C06^6B64^811A^672C source ^5230^5F53^524D Shell ^4EE5^5F00^542F HTTP CONNECT^FF1B^76F4^63A5^6267^884C^65E0^6CD5^4FEE^6539^7236 Shell^3002'']),
     ([Lit ''Disable proxy script''], [Lit ''^5173^95ED^4EE3^7406^811A^672C'']),
     ([Lit ''Source this script into the current shell to remove Grouproxy variables without changing unrelated settings.''], [Lit ''^8BF7^5C06^6B64^811A^672C source ^5230^5F53^524D Shell ^4EE5^79FB^9664 Grouproxy ^53D8^91CF^FF0C^4E0D^4FEE^6539^5176^4ED6^8BBE^7F6E^3002'']),
     ([Lit ''Proxy test script''], [Lit ''^4EE3^7406^6D4B^8BD5^811A^672C'']),
     ([Lit ''Send one HTTPS request through the proxy and return a non-zero exit code on failure.''], [Lit ''^901A^8FC7^4EE3^7406^53D1^9001 HTTPS ^8BF7^6C42^FF0C^5931^8D25^65F6^8FD4^56DE^975E^96F6^9000^51FA^7801^3002'']),
     ([Lit ''Automatic proxy configuration (PAC)''], [Lit ''^81EA^52A8^4EE3^7406^914D^7F6E^FF08PAC^FF09'']),
     ([Lit ''Use this PAC document in a browser or operating-system network profile.''], [Lit ''^5728^6D4F^89C8^5668^6216^64CD^4F5C^7CFB^7EDF^7F51^7EDC^914D^7F6E^4E2D^4F7F^7528^6B64 PAC ^6587^6863^3002'']),
     ([Lit ''Managed Linux setup script''], [Lit ''Linux ^7BA1^7406^914D^7F6E^811A^672C'']),
     ([Lit ''The repository-provided installer configures shell, GNOME, and KDE settings.''], [Lit ''^4ED3^5E93^63D0^4F9B^7684^5B89^88C5^811A^672C^4F1A^914D^7F6E Shell^3001GNOME ^548C KDE^3002'']),
     ([Lit ''OPERATIONS RUNBOOK''], [Lit ''^8FD0^884C^624B^518C'']),
     ([Lit ''Proxy access guide''], [Lit ''^4EE3^7406^8BBF^95EE^6307^5357'']),
     ([Lit ''Choose a snippet below, copy it into a terminal, or download it as a file. Scripts only manage the standard HTTP proxy environment variables.''], [Lit ''^9009^62E9^4E0B^65B9^7247^6BB5^590D^5236^5230^7EC8^7AEF^6216^4E0B^8F7D^4E3A^6587^4EF6^3002^811A^672C^53EA^7BA1^7406^6807^51C6 HTTP ^4EE3^7406^73AF^5883^53D8^91CF^3002'']),
     ([Lit ''HOW IT WORKS''], [Lit ''^4F7F^7528^8BF4^660E'']),
     ([Lit ''Operating notes''], [Lit ''^64CD^4F5C^8BF4^660E'']),
     ([Lit ''Run the one-line command for a temporary shell session, or download the managed Linux setup script for desktop persistence.''], [Lit ''^4F7F^7528^5355^884C^547D^4EE4^914D^7F6E^4E34^65F6 Shell^FF0C^6216^4E0B^8F7D Linux ^7BA1^7406^811A^672C^4EE5^6301^4E45^5316^684C^9762^8BBE^7F6E^3002'']),
     ([Lit ''Run the test script after enabling the proxy. It checks the actual HTTP CONNECT path instead of only checking DNS.''], [Lit ''^5F00^542F^4EE3^7406^540E^8FD0^884C^6D4B^8BD5^811A^672C^FF1B^5B83^4F1A^68C0^67E5^5B9E^9645 HTTP CONNECT ^8DEF^5F84^FF0C^800C^4E0D^53EA^662F DNS^3002'']),
     ([Lit ''Run the disable script when the shell should connect directly again. Existing applications may need to be restarted to reread environment variables.''], [Lit ''^9700^8981^6062^590D^76F4^8FDE^65F6^8FD0^884C^5173^95ED^811A^672C^FF1B^5DF2^8FD0^884C^7684^5E94^7528^53EF^80FD^9700^8981^91CD^542F^624D^80FD^91CD^65B0^8BFB^53D6^73AF^5883^53D8^91CF^3002'']),
     ([Lit ''The PAC file sends private and local address ranges directly and sends other destinations through the proxy endpoint.''], [Lit ''PAC ^6587^4EF6^4F1A^8BA9^79C1^6709^53CA^672C^5730^5730^5740^6BB5^76F4^8FDE^FF0C^5176^4F59^76EE^6807^901A^8FC7^4EE3^7406^7AEF^70B9^3002'']),
     ([Lit ''The proxy service is exposed directly on port 3128. Dashboard access is separate and does not require an NGINX forwarding layer.''], [Lit ''^4EE3^7406^670D^52A1^76F4^63A5^66B4^9732^5728 3128 ^7AEF^53E3^FF1B^7BA1^7406^7AEF^72EC^7ACB^63D0^4F9B^670D^52A1^FF0C^4E0D^9700^8981 NGINX ^8F6C^53D1^5C42^3002'']),
     ([Lit ''View source''], [Lit ''^67E5^770B^6E90^5185^5BB9'']),
     ([Lit ''Version source''], [Lit ''^7248^672C^6E90^5185^5BB9'']),
     ([Lit ''Version source v'', Hole ''version''], [Lit ''^7248^672C^6E90^5185^5BB9 v'', Hole ''version'']),
     ([Lit ''No source content''], [Lit ''^6CA1^6709^6E90^5185^5BB9'']),
     ([Lit ''Unable to load source content.''], [Lit ''^65E0^6CD5^52A0^8F7D^6E90^5185^5BB9^3002'']),
     ([Lit ''Unable to copy source content.''], [Lit ''^65E0^6CD5^590D^5236^6E90^5185^5BB9^3002'']),
     ([Lit ''Choose one or more sites to create a release. No sites are selected by default.''], [Lit ''^9009^62E9^4E00^4E2A^6216^591A^4E2A^7AD9^70B9^521B^5EFA^53D1^5E03^FF1B^9ED8^8BA4^4E0D^9009^62E9^4EFB^4F55^7AD9^70B9^3002'']),
     ([Lit ''SELECTED SITE''], [Lit ''^5DF2^9009^7AD9^70B9'']),
     ([Lit ''Select a site in the topology to inspect its nodes.''], [Lit ''^70B9^51FB^62D3^6251^4E2D^7684^7AD9^70B9^67E5^770B^8282^70B9^8BE6^60C5^3002'']),
     ([Lit ''In sync''], [Lit ''^5DF2^540C^6B65'']),
     ([Lit ''Stage''], [Lit ''^9636^6BB5'']),
     ([Lit ''Started''], [Lit ''^5F00^59CB^65F6^95F4'']),
     ([Lit ''Desired release''], [Lit ''^76EE^6807^53D1^5E03'']),
     ([Lit ''Failure details''], [Lit ''^5931^8D25^8BE6^60C5'']),
     ([Lit ''Identifiers, timings, and node outcomes''], [Lit ''^6807^8BC6^3001^65F6^95F4^548C^8282^70B9^7ED3^679C'']),
     ([Lit ''Release summary''], [Lit ''^53D1^5E03^6458^8981'']),
     ([Lit ''Add source''], [Lit ''^6DFB^52A0^6E90'']),
     ([Lit ''VLESS Reality Vision''], [Lit ''VLESS Reality Vision'']),
     ([Lit ''Name (optional)''], [Lit ''^540D^79F0^FF08^53EF^9009^FF09'']),
     ([Lit ''Audit event reports an error''], [Lit ''^5BA1^8BA1^4E8B^4EF6^62A5^544A^9519^8BEF'']),
     ([Lit ''Audit verification failed''], [Lit ''^5BA1^8BA1^6821^9A8C^5931^8D25'']),
     ([Lit ''CONTROL PLANE''], [Lit ''^63A7^5236^5E73^9762'']),
     ([Lit ''Export failed''], [Lit ''^5BFC^51FA^5931^8D25'']),
     ([Lit ''Node reports an error''], [Lit ''^8282^70B9^62A5^544A^9519^8BEF'']),
     ([Lit ''Operation failed''], [Lit ''^64CD^4F5C^5931^8D25'']),
     ([Lit ''Proxy snapshot warning''], [Lit ''^4EE3^7406^5FEB^7167^8B66^544A'']),
     ([Lit ''Refresh failed''], [Lit ''^5237^65B0^5931^8D25'']),
     ([Lit ''Sign in failed''], [Lit ''^767B^5F55^5931^8D25''])]"

definition messages_zh_2441 :: dictionary where
  "messages_zh_2441 =
    [([Lit ''ACCESS GUIDE''], [Lit ''^8BBF^95EE^6307^5357'']),
     ([Lit ''Proxy access''], [Lit ''^4EE3^7406^8BBF^95EE'']),
     ([Lit ''Test environment''], [Lit ''^6D4B^8BD5^73AF^5883'']),
     ([Lit ''Production environment''], [Lit ''^751F^4EA7^73AF^5883'']),
     ([Lit ''Configure the Grouproxy HTTP CONNECT endpoint on a workstation, verify the route, and return to a direct connection when finished.''], [Lit ''^5728^5DE5^4F5C^7AD9^914D^7F6E Grouproxy HTTP CONNECT ^7AEF^70B9^FF0C^9A8C^8BC1^4EE3^7406^94FE^8DEF^FF0C^5E76^5728^5B8C^6210^540E^6062^590D^76F4^8FDE^3002'']),
     ([Lit ''OVERVIEW''], [Lit ''^6982^89C8'']),
     ([Lit ''QUICK START''], [Lit ''^5FEB^901F^5F00^59CB'']),
     ([Lit ''WINDOWS''], [Lit ''Windows'']),
     ([Lit ''MACOS''], [Lit ''macOS'']),
     ([Lit ''LINUX''], [Lit ''Linux'']),
     ([Lit ''VERIFY''], [Lit ''^9A8C^8BC1'']),
     ([Lit ''NOTES''], [Lit ''^8BF4^660E'']),
     ([Lit ''Proxy endpoint''], [Lit ''^4EE3^7406^7AEF^70B9'']),
     ([Lit ''The proxy service is exposed directly on port 3128. Dashboard access is separate and does not require an NGINX forwarding layer.''], [Lit ''^4EE3^7406^670D^52A1^76F4^63A5^66B4^9732^5728 3128 ^7AEF^53E3^FF1B^7BA1^7406^7AEF^72EC^7ACB^63D0^4F9B^670D^52A1^FF0C^4E0D^9700^8981 NGINX ^8F6C^53D1^5C42^3002'']),
     ([Lit ''HTTP CONNECT''], [Lit ''HTTP CONNECT'']),
     ([Lit ''Environment''], [Lit ''^73AF^5883'']),
     ([Lit ''Port''], [Lit ''^7AEF^53E3'']),
     ([Lit ''Configure a shell in one line''], [Lit ''^5355^884C^914D^7F6E Shell'']),
     ([Lit ''The variables apply to this terminal and the processes started from it.''], [Lit ''^8FD9^4E9B^53D8^91CF^4F1A^5E94^7528^4E8E^5F53^524D^7EC8^7AEF^4EE5^53CA^4ECE^8BE5^7EC8^7AEF^542F^52A8^7684^8FDB^7A0B^3002'']),
     ([Lit ''Paste the command into a new terminal.''], [Lit ''^5C06^547D^4EE4^7C98^8D34^5230^65B0^7684^7EC8^7AEF^4E2D^6267^884C^3002'']),
     ([Lit ''Run the verification command below before opening applications.''], [Lit ''^542F^52A8^5E94^7528^524D^5148^6267^884C^4E0B^65B9^9A8C^8BC1^547D^4EE4^3002'']),
     ([Lit ''Close the terminal or run the disable command to return to direct access.''], [Lit ''^5173^95ED^7EC8^7AEF^6216^6267^884C^5173^95ED^547D^4EE4^5373^53EF^6062^590D^76F4^8FDE^3002'']),
     ([Lit ''Windows one-click setup''], [Lit ''Windows ^4E00^952E^914D^7F6E'']),
     ([Lit ''The pre-generated PowerShell asset configures the current Windows user and keeps a backup for a reversible disable operation.''], [Lit ''^9884^751F^6210^7684 PowerShell ^811A^672C^4F1A^914D^7F6E^5F53^524D Windows ^7528^6237^FF0C^5E76^4FDD^5B58^5907^4EFD^4EE5^4FBF^5173^95ED^65F6^6062^590D^3002'']),
     ([Lit ''Download ready''], [Lit ''^53EF^76F4^63A5^4E0B^8F7D'']),
     ([Lit ''Download the script, then open PowerShell in its download folder.''], [Lit ''^4E0B^8F7D^811A^672C^540E^FF0C^5728^4E0B^8F7D^76EE^5F55^6253^5F00 PowerShell^3002'']),
     ([Lit ''macOS shortcut''], [Lit ''macOS ^5FEB^6377^6307^4EE4'']),
     ([Lit ''Download the shortcut, import it into the Shortcuts app, and run it.''], [Lit ''^4E0B^8F7D^540E^FF0C^5728^201C^5FEB^6377^6307^4EE4^201D^5E94^7528^4E2D^5BFC^5165^5E76^8FD0^884C^3002'']),
     ([Lit ''This macOS shortcut is in development.''], [Lit ''^8BE5 macOS ^5FEB^6377^6307^4EE4^529F^80FD^5F00^53D1^4E2D^3002'']),
     ([Lit ''Feature in development''], [Lit ''^529F^80FD^5F00^53D1^4E2D'']),
     ([Lit ''Get shortcut''], [Lit ''^83B7^53D6^5FEB^6377^6307^4EE4'']),
     ([Lit ''Opens Apple Shortcuts in a new tab.''], [Lit ''^5C06^5728^65B0^6807^7B7E^9875^6253^5F00 Apple ^5FEB^6377^6307^4EE4^3002'']),
     ([Lit ''Review the actions and add the shortcut to the Shortcuts app.''], [Lit ''^68C0^67E5^5176^4E2D^7684^64CD^4F5C^FF0C^7136^540E^5C06^5FEB^6377^6307^4EE4^6DFB^52A0^5230^201C^5FEB^6377^6307^4EE4^201D^5E94^7528^3002'']),
     ([Lit ''Run it from Shortcuts and follow the prompts shown by macOS.''], [Lit ''^4ECE^201C^5FEB^6377^6307^4EE4^201D^8FD0^884C^FF0C^5E76^6309 macOS ^663E^793A^7684^63D0^793A^64CD^4F5C^3002'']),
     ([Lit ''Linux desktop and shell setup''], [Lit ''Linux ^684C^9762^4E0E Shell ^914D^7F6E'']),
     ([Lit ''The repository-provided script configures shell variables and GNOME or KDE settings when available.''], [Lit ''^4ED3^5E93^63D0^4F9B^7684^811A^672C^4F1A^914D^7F6E Shell ^53D8^91CF^FF0C^5E76^5728^53EF^7528^65F6^914D^7F6E GNOME ^6216 KDE^3002'']),
     ([Lit ''Download the script and make it executable.''], [Lit ''^4E0B^8F7D^811A^672C^5E76^8D4B^4E88^6267^884C^6743^9650^3002'']),
     ([Lit ''Run it as the current user for shell and desktop settings.''], [Lit ''^4EE5^5F53^524D^7528^6237^8FD0^884C^FF0C^4EE5^914D^7F6E Shell ^548C^684C^9762^4EE3^7406^3002'']),
     ([Lit ''Test the actual proxy route''], [Lit ''^6D4B^8BD5^5B9E^9645^4EE3^7406^94FE^8DEF'']),
     ([Lit ''These commands make a real HTTPS request through HTTP CONNECT and show the proxy exit address.''], [Lit ''^8FD9^4E9B^547D^4EE4^4F1A^901A^8FC7 HTTP CONNECT ^53D1^8D77^771F^5B9E HTTPS ^8BF7^6C42^FF0C^5E76^663E^793A^4EE3^7406^51FA^53E3^5730^5740^3002'']),
     ([Lit ''Download PAC file''], [Lit ''^4E0B^8F7D PAC ^6587^4EF6'']),
     ([Lit ''The proxy is HTTP CONNECT on TCP 3128; HTTPS destinations remain encrypted end-to-end.''], [Lit ''^4EE3^7406^4F7F^7528 TCP 3128 ^4E0A^7684 HTTP CONNECT^FF1BHTTPS ^76EE^6807^59CB^7EC8^4FDD^6301^7AEF^5230^7AEF^52A0^5BC6^3002'']),
     ([Lit ''The endpoint has no proxy authentication layer. Network policy and site CIDRs control access.''], [Lit ''^7AEF^70B9^6CA1^6709^4EE3^7406^8BA4^8BC1^5C42^FF0C^8BBF^95EE^7531^7F51^7EDC^7B56^7565^548C^7AD9^70B9 CIDR ^63A7^5236^3002'']),
     ([Lit ''Existing applications may need to be restarted after enabling or disabling environment variables.''], [Lit ''^542F^7528^6216^5173^95ED^73AF^5883^53D8^91CF^540E^FF0C^5DF2^8FD0^884C^7684^5E94^7528^53EF^80FD^9700^8981^91CD^542F^3002'']),
     ([Lit ''Enable proxy script''], [Lit ''^5F00^542F^4EE3^7406^811A^672C'']),
     ([Lit ''Disable proxy script''], [Lit ''^5173^95ED^4EE3^7406^811A^672C'']),
     ([Lit ''Linux enable''], [Lit ''Linux ^5F00^542F'']),
     ([Lit ''Linux disable''], [Lit ''Linux ^5173^95ED'']),
     ([Lit ''clipboard_unavailable''], [Lit ''^6D4F^89C8^5668^4E0D^5141^8BB8^590D^5236^FF0C^8BF7^624B^52A8^9009^62E9^6587^672C^590D^5236^3002'']),
     ([Lit ''On this page''], [Lit ''^672C^9875^76EE^5F55'']),
     ([Lit ''Overview''], [Lit ''^6982^89C8'']),
     ([Lit ''Quick start''], [Lit ''^5FEB^901F^5F00^59CB'']),
     ([Lit ''Verification''], [Lit ''^9A8C^8BC1'']),
     ([Lit ''Notes''], [Lit ''^8BF4^660E''])]"

definition messages_zh_2610 :: dictionary where
  "messages_zh_2610 =
    [([Lit ''Connect your workstation, verify the route, and maintain source access from one place.''], [Lit ''^5728^4E00^4E2A^9875^9762^5B8C^6210^5DE5^4F5C^7AD9^63A5^5165^3001^94FE^8DEF^9A8C^8BC1^548C^6765^6E90^8BBF^95EE^7EF4^62A4^3002'']),
     ([Lit ''Choose an operating system and use the shortest supported setup path.''], [Lit ''^9009^62E9^64CD^4F5C^7CFB^7EDF^FF0C^5E76^4F7F^7528^6700^7CBE^7B80^7684^652F^6301^65B9^5F0F^5B8C^6210^63A5^5165^3002'']),
     ([Lit ''Windows''], [Lit ''Windows'']),
     ([Lit ''macOS''], [Lit ''macOS'']),
     ([Lit ''Linux''], [Lit ''Linux'']),
     ([Lit ''Use the downloaded script to turn the current user's Windows system proxy on or off.''], [Lit ''^4F7F^7528^4E0B^8F7D^7684^811A^672C^5F00^542F^6216^5173^95ED^5F53^524D Windows ^7528^6237^7684^7CFB^7EDF^4EE3^7406^3002'']),
     ([Lit ''Shortcut links are placeholders until the macOS workflows are published.''], [Lit ''^5FEB^6377^6307^4EE4^5C1A^672A^53D1^5E03^FF0C^76EE^524D^5C55^793A^7684^662F^5360^4F4D^94FE^63A5^3002'']),
     ([Lit ''Download the setup script and run it as the current user.''], [Lit ''^4E0B^8F7D^914D^7F6E^811A^672C^540E^FF0C^4EE5^5F53^524D^7528^6237^8EAB^4EFD^8FD0^884C^3002'']),
     ([Lit ''Testing and validation''], [Lit ''^6D4B^8BD5^9A8C^8BC1'']),
     ([Lit ''Allowlist''], [Lit ''^767D^540D^5355'']),
     ([Lit ''Confirm the listener and proxy route, then use the returned address to maintain source access.''], [Lit ''^786E^8BA4^76D1^542C^5668^548C^4EE3^7406^94FE^8DEF^540E^FF0C^4F7F^7528^8FD4^56DE^7684^5730^5740^7EF4^62A4^6765^6E90^8BBF^95EE^3002'']),
     ([Lit ''Check the listener and return the address seen through the proxy.''], [Lit ''^68C0^6D4B^76D1^542C^5668^FF0C^5E76^8FD4^56DE^4EE3^7406^94FE^8DEF^5B9E^9645^770B^5230^7684^5730^5740^3002'']),
     ([Lit ''Manage source CIDRs''], [Lit ''^7BA1^7406^6765^6E90 CIDR'']),
     ([Lit ''Use the returned address to locate or add the matching source CIDR.''], [Lit ''^4F7F^7528^8FD4^56DE^7684^5730^5740^67E5^627E^6216^6DFB^52A0^5BF9^5E94^7684^6765^6E90 CIDR^3002'']),
     ([Lit ''Shortcut links are placeholders for the test and production workflows.''], [Lit ''^6D4B^8BD5^548C^751F^4EA7^73AF^5883^7684^5FEB^6377^6307^4EE4^76EE^524D^5747^4E3A^5360^4F4D^94FE^63A5^3002'']),
     ([Lit ''Collect the proxy source address, then open site policy to maintain the allowlist.''], [Lit ''^83B7^53D6^4EE3^7406^6765^6E90^5730^5740^540E^FF0C^6253^5F00^7AD9^70B9^7B56^7565^7EF4^62A4^767D^540D^5355^3002'']),
     ([Lit ''Connect your workstation, verify the route, and use reusable setup scripts from one place.''], [Lit ''^5728^4E00^4E2A^9875^9762^5B8C^6210^5DE5^4F5C^7AD9^63A5^5165^3001^94FE^8DEF^9A8C^8BC1^548C^590D^7528^811A^672C^914D^7F6E^3002'']),
     ([Lit ''Set proxy variables for the current shell.''], [Lit ''^4E3A^5F53^524D Shell ^8BBE^7F6E^4EE3^7406^73AF^5883^53D8^91CF^3002'']),
     ([Lit ''These variables apply to the current shell and its child processes.''], [Lit ''^8FD9^4E9B^53D8^91CF^53EA^5BF9^5F53^524D Shell ^53CA^5176^5B50^8FDB^7A0B^751F^6548^3002'']),
     ([Lit ''Set the current user's Windows system proxy directly.''], [Lit ''^76F4^63A5^8BBE^7F6E^5F53^524D Windows ^7528^6237^7684^7CFB^7EDF^4EE3^7406^3002'']),
     ([Lit ''Set ProxyEnable to 0 in the same location to turn the proxy off.''], [Lit ''^5C06^540C^4E00^4F4D^7F6E^7684 ProxyEnable ^8BBE^4E3A 0 ^5373^53EF^5173^95ED^4EE3^7406^3002'']),
     ([Lit ''Confirm the listener and the actual HTTP CONNECT route.''], [Lit ''^786E^8BA4^76D1^542C^5668^548C^5B9E^9645 HTTP CONNECT ^94FE^8DEF^3002'']),
     ([Lit ''Check the listener and verify traffic reaches the network through the proxy.''], [Lit ''^68C0^6D4B^76D1^542C^5668^FF0C^5E76^9A8C^8BC1^6D41^91CF^662F^5426^7ECF^7531^4EE3^7406^62B5^8FBE^7F51^7EDC^3002'']),
     ([Lit ''Reusable scripts''], [Lit ''^590D^7528^578B^811A^672C'']),
     ([Lit ''Download a ready-made script when persistent setup or a quick reset is needed.''], [Lit ''^9700^8981^6301^4E45^5316^914D^7F6E^6216^5FEB^901F^6062^590D^65F6^FF0C^4E0B^8F7D^53EF^590D^7528^7684^811A^672C^3002'']),
     ([Lit ''Apply shell and desktop settings, or remove only Grouproxy-managed settings.''], [Lit ''^914D^7F6E Shell ^548C^684C^9762^8BBE^7F6E^FF0C^6216^4EC5^79FB^9664 Grouproxy ^7BA1^7406^7684^8BBE^7F6E^3002'']),
     ([Lit ''Switch the current user's system proxy on or off with the reusable script.''], [Lit ''^4F7F^7528^590D^7528^811A^672C^5F00^542F^6216^5173^95ED^5F53^524D Windows ^7528^6237^7684^7CFB^7EDF^4EE3^7406^3002'']),
     ([Lit ''Reusable setup script''], [Lit ''^590D^7528^914D^7F6E^811A^672C'']),
     ([Lit ''Bash script''], [Lit ''Bash ^811A^672C'']),
     ([Lit ''PowerShell script''], [Lit ''PowerShell ^811A^672C'']),
     ([Lit ''grouproxy-linux-setup.sh''], [Lit ''grouproxy-linux-setup.sh'']),
     ([Lit ''grouproxy-windows-setup.ps1''], [Lit ''grouproxy-windows-setup.ps1'']),
     ([Lit ''Download the script once, then run the same file whenever you need to switch the proxy on or off.''], [Lit ''^811A^672C^53EA^9700^4E0B^8F7D^4E00^6B21^FF1B^4E4B^540E^6BCF^6B21^8FD0^884C^540C^4E00^6587^4EF6^90FD^4F1A^5207^6362^4EE3^7406^7684^5F00^5173^72B6^6001^3002'']),
     ([Lit ''Toggle proxy settings for the current user without command-line parameters.''], [Lit ''^65E0^9700^547D^4EE4^884C^53C2^6570^5373^53EF^5207^6362^5F53^524D^7528^6237^7684^4EE3^7406^8BBE^7F6E^3002'']),
     ([Lit ''After downloading, make the file executable and run it. Each run checks the current proxy state and switches it to the opposite state; then reopen the terminal and affected applications.''], [Lit ''^4E0B^8F7D^540E^8D4B^4E88^6587^4EF6^53EF^6267^884C^6743^9650^5E76^76F4^63A5^8FD0^884C^3002^6BCF^6B21^8FD0^884C^90FD^4F1A^68C0^6D4B^5F53^524D^4EE3^7406^72B6^6001^FF0C^5E76^5207^6362^5230^76F8^53CD^72B6^6001^FF1B^968F^540E^8BF7^91CD^65B0^6253^5F00^7EC8^7AEF^548C^53D7^5F71^54CD^7684^5E94^7528^3002'']),
     ([Lit ''After downloading, run it directly from PowerShell. Each run checks the current proxy state and switches it to the opposite state; then restart affected applications.''], [Lit ''^4E0B^8F7D^540E^76F4^63A5^5728 PowerShell ^4E2D^8FD0^884C^3002^6BCF^6B21^8FD0^884C^90FD^4F1A^68C0^6D4B^5F53^524D^4EE3^7406^72B6^6001^FF0C^5E76^5207^6362^5230^76F8^53CD^72B6^6001^FF1B^968F^540E^8BF7^91CD^542F^53D7^5F71^54CD^7684^5E94^7528^3002''])]"

definition messages_zh_2726 :: dictionary where
  "messages_zh_2726 =
    [([Lit ''Temporarily allow a source CIDR or IP for every site.''], [Lit ''^4E34^65F6^5141^8BB8^6240^6709^7AD9^70B9^4F7F^7528^6B64^6765^6E90 CIDR ^6216 IP^3002'']),
     ([Lit ''Block a domain, IP address, or CIDR in every generated bundle.''], [Lit ''^5728^6BCF^4E2A^751F^6210^7684^914D^7F6E^5305^4E2D^963B^6B62^57DF^540D^3001IP ^5730^5740^6216 CIDR^3002'']),
     ([Lit ''Add a source network to this site's access boundary.''], [Lit ''^5C06^6765^6E90^7F51^7EDC^52A0^5165^6B64^7AD9^70B9^7684^8BBF^95EE^8FB9^754C^3002'']),
     ([Lit ''Wrap lines''], [Lit ''^6298^884C'']),
     ([Lit ''No wrap''], [Lit ''^4E0D^6298^884C'']),
     ([Lit ''Queued and running releases''], [Lit ''^6392^961F^4E2D^548C^8FD0^884C^4E2D^7684^53D1^5E03'']),
     ([Lit ''Source content''], [Lit ''^6765^6E90^5185^5BB9'']),
     ([Lit ''Continue''], [Lit ''^7EE7^7EED'']),
     ([Lit ''Choose a subscription site connection or paste one VLESS / VMess node.''], [Lit ''^9009^62E9^8BA2^9605^7AD9^70B9^8FDE^63A5^FF0C^6216^7C98^8D34^4E00^4E2A VLESS / VMess ^8282^70B9^3002'']),
     ([Lit ''Review the selected source and choose one or more deployment sites.''], [Lit ''^67E5^770B^5DF2^9009^6765^6E90^5E76^9009^62E9^4E00^4E2A^6216^591A^4E2A^90E8^7F72^7AD9^70B9^3002''])]"

definition messages_zh_2766 :: dictionary where
  "messages_zh_2766 =
    [([Lit ''Host name''], [Lit ''^670D^52A1^57DF^540D'']),
     ([Lit '', then run''], [Lit ''^FF0C^7136^540E^8FD0^884C'']),
     ([Lit ''Connection behavior''], [Lit ''^8FDE^63A5^8BF4^660E'']),
     ([Lit ''Keep these details in mind when troubleshooting workstation access.''], [Lit ''^6392^67E5^5DE5^4F5C^7AD9^8BBF^95EE^95EE^9898^65F6^FF0C^8BF7^7559^610F^4EE5^4E0B^8BF4^660E^3002'']),
     ([Lit ''Unable to load nodes.''], [Lit ''^65E0^6CD5^52A0^8F7D^8282^70B9^3002'']),
     ([Lit ''Operation completed''], [Lit ''^64CD^4F5C^5DF2^5B8C^6210'']),
     ([Lit ''The operation could not be completed.''], [Lit ''^64CD^4F5C^672A^80FD^5B8C^6210^3002'']),
     ([Lit ''Dismiss notification''], [Lit ''^5173^95ED^901A^77E5'']),
     ([Lit ''Unable to copy.''], [Lit ''^65E0^6CD5^590D^5236^3002'']),
     ([Lit ''Version flow''], [Lit ''^7248^672C^6D41^8F6C'']),
     ([Lit ''Diff view''], [Lit ''^5DEE^5F02^89C6^56FE'']),
     ([Lit ''The structured configuration diff is available from the draft workspace.''], [Lit ''^53EF^5728^8349^7A3F^5DE5^4F5C^533A^67E5^770B^7ED3^6784^5316^914D^7F6E^5DEE^5F02^3002'']),
     ([Lit ''Config diff''], [Lit ''^914D^7F6E^5DEE^5F02'']),
     ([Lit ''Republish''], [Lit ''^91CD^65B0^53D1^5E03'']),
     ([Lit ''Republish from the original draft to preserve release history.''], [Lit ''^8BF7^4ECE^539F^59CB^8349^7A3F^91CD^65B0^53D1^5E03^FF0C^4EE5^4FDD^7559^53D1^5E03^5386^53F2^3002'']),
     ([Lit ''Rollback history''], [Lit ''^56DE^6EDA^5386^53F2'']),
     ([Lit ''Choose a previous release from the release history list.''], [Lit ''^8BF7^4ECE^53D1^5E03^5386^53F2^4E2D^9009^62E9^6B64^524D^7684^53D1^5E03^7248^672C^3002'']),
     ([Lit ''ACK rate''], [Lit ''^786E^8BA4^7387'']),
     ([Hole ''value'', Lit ''% acknowledged''], [Lit ''^5DF2^786E^8BA4 '', Hole ''value'', Lit ''%'']),
     ([Lit ''Target nodes acknowledged''], [Lit ''^76EE^6807^8282^70B9^5DF2^786E^8BA4'']),
     ([Lit ''Target bundle hash''], [Lit ''^76EE^6807^914D^7F6E^5305^54C8^5E0C'']),
     ([Lit ''Desired release bundle''], [Lit ''^76EE^6807^53D1^5E03^914D^7F6E^5305'']),
     ([Lit ''Core component status''], [Lit ''^6838^5FC3^7EC4^4EF6^72B6^6001'']),
     ([Lit ''Healthy''], [Lit ''^5065^5EB7'']),
     ([Lit ''health probe''], [Lit ''^5065^5EB7^63A2^6D4B'']),
     ([Lit ''Completed at''], [Lit ''^5B8C^6210^65F6^95F4'']),
     ([Lit ''In progress''], [Lit ''^8FDB^884C^4E2D'']),
     ([Lit ''Release completed''], [Lit ''^53D1^5E03^5DF2^5B8C^6210'']),
     ([Lit ''Awaiting final ACK''], [Lit ''^7B49^5F85^6700^7EC8^786E^8BA4'']),
     ([Lit ''Nodes and probes''], [Lit ''^8282^70B9^4E0E^63A2^6D4B'']),
     ([Lit ''Full trace''], [Lit ''^5B8C^6574^8FFD^8E2A'']),
     ([Lit ''Live coordination''], [Lit ''^5B9E^65F6^534F^8C03'']),
     ([Lit ''Target node''], [Lit ''^76EE^6807^8282^70B9'']),
     ([Lit ''Version state''], [Lit ''^7248^672C^72B6^6001'']),
     ([Lit ''Component checks''], [Lit ''^7EC4^4EF6^68C0^67E5'']),
     ([Lit ''ACK''], [Lit ''^786E^8BA4'']),
     ([Lit ''Applied''], [Lit ''^5DF2^5E94^7528'']),
     ([Lit ''Desired''], [Lit ''^76EE^6807^72B6^6001'']),
     ([Lit ''Node execution and probe trace''], [Lit ''^8282^70B9^6267^884C^4E0E^63A2^6D4B^8FFD^8E2A'']),
     ([Lit ''Waiting for execution events...''], [Lit ''^7B49^5F85^6267^884C^4E8B^4EF6...'']),
     ([Lit ''Task ID''], [Lit ''^4EFB^52A1 ID'']),
     ([Lit ''Baseline''], [Lit ''^57FA^7EBF'']),
     ([Lit ''Coordination''], [Lit ''^534F^8C03'']),
     ([Lit ''Converged''], [Lit ''^5DF2^6536^655B'']),
     ([Lit ''Trigger''], [Lit ''^89E6^53D1^6765^6E90'']),
     ([Lit ''Manual''], [Lit ''^624B^52A8'']),
     ([Lit ''Add a subscription site or a single node.''], [Lit ''^6DFB^52A0^8BA2^9605^7AD9^70B9^8FDE^63A5^6216^5355^4E2A^8282^70B9^3002'']),
     ([Lit ''Deployment sites''], [Lit ''^90E8^7F72^7AD9^70B9'']),
     ([Lit ''archived''], [Lit ''^5DF2^5F52^6863'']),
     ([Lit ''pass''], [Lit ''^901A^8FC7'']),
     ([Lit ''fail''], [Lit ''^5931^8D25'']),
     ([Lit ''Release '', Hole ''releaseId'', Lit '' created for '', Hole ''count'', Lit '' nodes.''], [Lit ''^5DF2^4E3A '', Hole ''count'', Lit '' ^4E2A^8282^70B9^521B^5EFA^53D1^5E03 '', Hole ''releaseId'', Lit ''^3002'']),
     ([Lit ''Task '', Hole ''taskId'', Lit '' entered '', Hole ''status'', Lit '' state.''], [Lit ''^4EFB^52A1 '', Hole ''taskId'', Lit '' ^5DF2^8FDB^5165^201C'', Hole ''status'', Lit ''^201D^72B6^6001^3002'']),
     ([Lit ''Node acknowledgement received: '', Hole ''stage'', Lit ''; sing-box='', Hole ''singbox'', Lit '', nftables='', Hole ''nftables'', Lit '', health='', Hole ''health'', Lit ''.''], [Lit ''^5DF2^6536^5230^8282^70B9^786E^8BA4^FF1A'', Hole ''stage'', Lit ''^FF1Bsing-box='', Hole ''singbox'', Lit ''^FF0Cnftables='', Hole ''nftables'', Lit ''^FF0C^5065^5EB7^68C0^67E5='', Hole ''health'', Lit ''^3002'']),
     ([Lit ''Release completed with status '', Hole ''status'', Lit ''.''], [Lit ''^53D1^5E03^5DF2^5B8C^6210^FF0C^72B6^6001^4E3A^201C'', Hole ''status'', Lit ''^201D^3002'']),
     ([Lit ''Release orchestrator''], [Lit ''^53D1^5E03^7F16^6392^5668'']),
     ([Lit ''Task worker''], [Lit ''^4EFB^52A1^5904^7406^5668'']),
     ([Lit ''Release coordinator''], [Lit ''^53D1^5E03^534F^8C03^5668'']),
     ([Lit ''Node agent: '', Hole ''node''], [Lit ''^8282^70B9^4EE3^7406^FF1A'', Hole ''node''])]"

definition messages_zh_2953 :: dictionary where
  "messages_zh_2953 =
    [([Lit ''success''], [Lit ''^6210^529F'']),
     ([Lit ''cancelled''], [Lit ''^5DF2^53D6^6D88'']),
     ([Lit ''dead_letter''], [Lit ''^6B7B^4FE1'']),
     ([Lit ''retry_scheduled''], [Lit ''^5DF2^5B89^6392^91CD^8BD5'']),
     ([Lit ''probing''], [Lit ''^63A2^6D4B^4E2D'']),
     ([Lit ''unknown''], [Lit ''^672A^77E5'']),
     ([Lit ''not_configured''], [Lit ''^672A^914D^7F6E'']),
     ([Lit ''probe_failed''], [Lit ''^63A2^6D4B^5931^8D25'']),
     ([Lit ''proxy_config_unavailable''], [Lit ''^4EE3^7406^914D^7F6E^4E0D^53EF^7528'']),
     ([Lit ''half_open_probe_failed''], [Lit ''^534A^5F00^6062^590D^63A2^6D4B^5931^8D25'']),
     ([Lit ''failure_threshold''], [Lit ''^8FDE^7EED^5931^8D25^8FBE^5230^9608^503C'']),
     ([Lit ''cooldown_elapsed''], [Lit ''^51B7^5374^671F^7ED3^675F'']),
     ([Lit ''recovery_success_threshold''], [Lit ''^6062^590D^6210^529F^8FBE^5230^9608^503C'']),
     ([Lit ''refresh_failed''], [Lit ''^5237^65B0^5931^8D25'']),
     ([Lit ''apply_failed''], [Lit ''^5E94^7528^5931^8D25'']),
     ([Lit ''rollback_failed''], [Lit ''^56DE^6EDA^5931^8D25'']),
     ([Lit ''config.publish''], [Lit ''^914D^7F6E^53D1^5E03'']),
     ([Lit ''subscription.refresh''], [Lit ''^5237^65B0^8BA2^9605'']),
     ([Lit ''node.probe''], [Lit ''^8282^70B9^63A2^6D4B'']),
     ([Lit ''backup.create''], [Lit ''^521B^5EFA^5907^4EFD'']),
     ([Lit ''backup.restore''], [Lit ''^6062^590D^5907^4EFD'']),
     ([Lit ''auth.verification.request''], [Lit ''^8BF7^6C42^9A8C^8BC1^7801'']),
     ([Lit ''auth.register''], [Lit ''^6CE8^518C^8D26^53F7'']),
     ([Lit ''auth.password.change''], [Lit ''^4FEE^6539^5BC6^7801'']),
     ([Lit ''auth.login.password''], [Lit ''^5BC6^7801^767B^5F55'']),
     ([Lit ''auth.login.gquan''], [Lit ''^5149^5708^9A8C^8BC1^7801^767B^5F55'']),
     ([Lit ''auth.logout''], [Lit ''^9000^51FA^767B^5F55'']),
     ([Lit ''site.rename''], [Lit ''^91CD^547D^540D^7AD9^70B9'']),
     ([Lit ''site.shutdown''], [Lit ''^5173^95ED^7AD9^70B9'']),
     ([Lit ''site.restore''], [Lit ''^6062^590D^7AD9^70B9'']),
     ([Lit ''node.create''], [Lit ''^521B^5EFA^8282^70B9'']),
     ([Lit ''node.rename''], [Lit ''^91CD^547D^540D^8282^70B9'']),
     ([Lit ''cidr.create''], [Lit ''^5386^53F2^7B56^7565^64CD^4F5C'']),
     ([Lit ''cidr.delete''], [Lit ''^5386^53F2^7B56^7565^64CD^4F5C'']),
     ([Lit ''exception.create''], [Lit ''^5386^53F2^7B56^7565^64CD^4F5C'']),
     ([Lit ''exception.delete''], [Lit ''^5386^53F2^7B56^7565^64CD^4F5C'']),
     ([Lit ''cross_site.update''], [Lit ''^5386^53F2^7B56^7565^64CD^4F5C'']),
     ([Lit ''blacklist.create''], [Lit ''^5386^53F2^7B56^7565^64CD^4F5C'']),
     ([Lit ''blacklist.delete''], [Lit ''^5386^53F2^7B56^7565^64CD^4F5C'']),
     ([Lit ''subscription_source.create''], [Lit ''^521B^5EFA^8BA2^9605^6E90'']),
     ([Lit ''subscription.upload''], [Lit ''^4E0A^4F20^8BA2^9605'']),
     ([Lit ''subscription.single_node.create''], [Lit ''^6DFB^52A0^5355^8282^70B9^8BA2^9605'']),
     ([Lit ''config_draft.create''], [Lit ''^521B^5EFA^914D^7F6E^8349^7A3F'']),
     ([Lit ''config_release.create''], [Lit ''^521B^5EFA^914D^7F6E^53D1^5E03'']),
     ([Lit ''subscription.publish''], [Lit ''^53D1^5E03^8BA2^9605'']),
     ([Lit ''subscription.rollback''], [Lit ''^56DE^6EDA^8BA2^9605'']),
     ([Lit ''task.cancel''], [Lit ''^53D6^6D88^4EFB^52A1'']),
     ([Lit ''proxy_selection.update''], [Lit ''^66F4^65B0^4EE3^7406^51FA^53E3^9009^62E9'']),
     ([Lit ''node.probe.create''], [Lit ''^521B^5EFA^8282^70B9^63A2^6D4B'']),
     ([Lit ''agent.logs.ingest''], [Lit ''^63A5^6536^8282^70B9^65E5^5FD7'']),
     ([Lit ''audit.export''], [Lit ''^5BFC^51FA^5BA1^8BA1^8BB0^5F55'']),
     ([Lit ''backup.create.request''], [Lit ''^8BF7^6C42^521B^5EFA^5907^4EFD'']),
     ([Lit ''backup.restore.request''], [Lit ''^8BF7^6C42^6062^590D^5907^4EFD'']),
     ([Lit ''subscription.refresh.failed''], [Lit ''^8BA2^9605^5237^65B0^5931^8D25'']),
     ([Lit ''backup.schedule''], [Lit ''^5B89^6392^5907^4EFD'']),
     ([Lit ''backup.rehearsal.schedule''], [Lit ''^5B89^6392^6062^590D^6F14^7EC3'']),
     ([Lit ''backup.retention.delete''], [Lit ''^6309^4FDD^7559^89C4^5219^5220^9664^5907^4EFD'']),
     ([Lit ''backup.restore.rehearsal''], [Lit ''^6267^884C^6062^590D^6F14^7EC3'']),
     ([Lit ''backup.failed''], [Lit ''^5907^4EFD^5931^8D25'']),
     ([Lit ''admin_user''], [Lit ''^7BA1^7406^5458^8D26^53F7'']),
     ([Lit ''site''], [Lit ''^7AD9^70B9'']),
     ([Lit ''node''], [Lit ''^8282^70B9'']),
     ([Lit ''site_cidr''], [Lit ''^5386^53F2^7B56^7565^8BB0^5F55'']),
     ([Lit ''travel_exception''], [Lit ''^5386^53F2^7B56^7565^8BB0^5F55'']),
     ([Lit ''cross_site_allow''], [Lit ''^5386^53F2^7B56^7565^8BB0^5F55'']),
     ([Lit ''destination_blacklist''], [Lit ''^5386^53F2^7B56^7565^8BB0^5F55'']),
     ([Lit ''subscription_source''], [Lit ''^8BA2^9605^6E90'']),
     ([Lit ''subscription_version''], [Lit ''^8BA2^9605^7248^672C'']),
     ([Lit ''config_draft''], [Lit ''^914D^7F6E^8349^7A3F'']),
     ([Lit ''config_release''], [Lit ''^914D^7F6E^53D1^5E03'']),
     ([Lit ''task''], [Lit ''^4EFB^52A1'']),
     ([Lit ''audit''], [Lit ''^5BA1^8BA1'']),
     ([Lit ''backup''], [Lit ''^5907^4EFD'']),
     ([Lit ''task_lease_expired''], [Lit ''^4EFB^52A1^79DF^7EA6^5DF2^8FC7^671F^3002'']),
     ([Lit ''subscription_refresh_unexpected_error''], [Lit ''^8BA2^9605^5237^65B0^65F6^53D1^751F^610F^5916^9519^8BEF^3002'']),
     ([Lit ''subscription_ssrf_blocked''], [Lit ''^8BA2^9605^5730^5740^6307^5411^53D7^9650^7F51^7EDC^FF0C^5DF2^963B^6B62^8BF7^6C42^3002'']),
     ([Lit ''subscription_clash_invalid''], [Lit ''Clash ^8BA2^9605^5185^5BB9^65E0^6548^3002'']),
     ([Lit ''subscription_clash_profile_unsupported''], [Lit ''^8FD9^662F^5B8C^6574 Clash ^5BA2^6237^7AEF^914D^7F6E^FF0C^4E0D^662F^8282^70B9^5217^8868^3002^8BF7^6539^7528 sing-box ^8BA2^9605^5730^5740^3002'']),
     ([Lit ''subscription_outbound_type_invalid''], [Lit ''^8BA2^9605^5305^542B^4E0D^652F^6301^7684^51FA^7AD9^7C7B^578B^3002'']),
     ([Lit ''Backup maintenance failed''], [Lit ''^5907^4EFD^7EF4^62A4^5931^8D25'']),
     ([Lit ''Backup verification failed''], [Lit ''^5907^4EFD^6821^9A8C^5931^8D25'']),
     ([Lit ''The automatic backup maintenance cycle did not complete.''], [Lit ''^81EA^52A8^5907^4EFD^7EF4^62A4^5468^671F^672A^80FD^5B8C^6210^3002'']),
     ([Hole ''site'', Lit '': '', Hole ''recent'', Lit '' denies in the last '', Hole ''window'', Lit ''s (baseline '', Hole ''baseline'', Lit '')''], [Hole ''site'', Lit ''^FF1A^6700^8FD1 '', Hole ''window'', Lit '' ^79D2^5185^62E6^622A^4E86 '', Hole ''recent'', Lit '' ^4E2A^6765^6E90^8BF7^6C42^FF08^57FA^7EBF '', Hole ''baseline'', Lit ''^FF09'']),
     ([Hole ''site'', Lit '': '', Hole ''recent'', Lit '' source requests denied in the last '', Hole ''window'', Lit ''s (baseline '', Hole ''baseline'', Lit '')''], [Hole ''site'', Lit ''^FF1A^6700^8FD1 '', Hole ''window'', Lit '' ^79D2^5185^62E6^622A^4E86 '', Hole ''recent'', Lit '' ^4E2A^6765^6E90^8BF7^6C42^FF08^57FA^7EBF '', Hole ''baseline'', Lit ''^FF09''])]"

definition messages_zh_3212 :: dictionary where
  "messages_zh_3212 =
    [([Lit ''All types''], [Lit ''^5168^90E8^7C7B^578B'']),
     ([Lit ''Change the source type or state filter.''], [Lit ''^8BF7^8C03^6574^6765^6E90^7C7B^578B^6216^72B6^6001^7B5B^9009^6761^4EF6^3002'']),
     ([Lit ''Filter sources''], [Lit ''^7B5B^9009^6765^6E90'']),
     ([Lit ''No matching sources''], [Lit ''^6CA1^6709^5339^914D^7684^6765^6E90''])]"

definition messages_zh_3231 :: dictionary where
  "messages_zh_3231 =
    [([Lit ''source_blacklist.create''], [Lit ''^6DFB^52A0^6765^6E90^9ED1^540D^5355^89C4^5219'']),
     ([Lit ''source_blacklist.delete''], [Lit ''^5220^9664^6765^6E90^9ED1^540D^5355^89C4^5219'']),
     ([Lit ''source_blacklist''], [Lit ''^6765^6E90^9ED1^540D^5355^89C4^5219''])]"

definition messages_zh_3247 :: dictionary where
  "messages_zh_3247 =
    [([Lit ''Blacklist''], [Lit ''^9ED1^540D^5355'']),
     ([Lit ''Add blacklist rule''], [Lit ''^6DFB^52A0^9ED1^540D^5355^89C4^5219'']),
     ([Lit ''Requests are allowed by default. Add an IP, CIDR, or domain rule per node only when it should be blocked.''], [Lit ''^9ED8^8BA4^5141^8BB8^8BBF^95EE^3002^4EC5^5728^9700^8981^62E6^622A^65F6^FF0C^6309^8282^70B9^6DFB^52A0 IP^3001CIDR ^6216^57DF^540D^89C4^5219^3002'']),
     ([Hole ''count'', Lit '' blacklist rules''], [Hole ''count'', Lit '' ^6761^9ED1^540D^5355^89C4^5219'']),
     ([Lit ''Rules are delivered only to the selected nodes.''], [Lit ''^89C4^5219^53EA^4F1A^4E0B^53D1^5230^52FE^9009^7684^8282^70B9^3002'']),
     ([Lit ''Direction''], [Lit ''^65B9^5411'']),
     ([Lit ''source''], [Lit ''^6765^6E90'']),
     ([Lit ''destination''], [Lit ''^76EE^6807'']),
     ([Lit ''Delete blacklist rule''], [Lit ''^5220^9664^9ED1^540D^5355^89C4^5219'']),
     ([Lit ''Unable to load blacklist.''], [Lit ''^65E0^6CD5^52A0^8F7D^9ED1^540D^5355^3002'']),
     ([Lit ''No blacklist rules are blocking requests.''], [Lit ''^5F53^524D^6CA1^6709^62E6^622A^8BF7^6C42^7684^9ED1^540D^5355^89C4^5219^3002'']),
     ([Lit ''Block a source or destination IP, CIDR, or domain on the selected nodes.''], [Lit ''^5728^9009^5B9A^8282^70B9^4E0A^62E6^622A^6765^6E90^6216^76EE^6807 IP^3001CIDR ^6216^57DF^540D^3002'']),
     ([Lit ''Remove blacklist rule''], [Lit ''^79FB^9664^9ED1^540D^5355^89C4^5219'']),
     ([Lit ''Remove '', Hole ''value'', Lit '' from the blacklist. The change is released automatically.''], [Lit ''^4ECE^9ED1^540D^5355^79FB^9664 '', Hole ''value'', Lit ''^3002^53D8^66F4^4F1A^81EA^52A8^4E0B^53D1^3002'']),
     ([Lit ''Root administrator''], [Lit ''^6839^7BA1^7406^5458'']),
     ([Lit ''Administrator''], [Lit ''^7BA1^7406^5458'']),
     ([Lit ''Roles''], [Lit ''^89D2^8272'']),
     ([Lit ''zhangle is the root administrator. Other accounts can be granted the same administrator privileges.''], [Lit ''^6839^7BA1^7406^5458^56FA^5B9A^4E3A zhangle^3002^5176^4ED6^8D26^53F7^53EF^4EE5^88AB^6388^4E88^4E0E^6839^7BA1^7406^5458^76F8^540C^7684^7BA1^7406^6743^9650^3002'']),
     ([Hole ''count'', Lit '' accounts''], [Hole ''count'', Lit '' ^4E2A^8D26^53F7'']),
     ([Lit ''Administrators and the root administrator have the same management permissions.''], [Lit ''^7BA1^7406^5458^4E0E^6839^7BA1^7406^5458^62E5^6709^76F8^540C^7684^7BA1^7406^6743^9650^3002'']),
     ([Lit ''Account''], [Lit ''^8D26^53F7'']),
     ([Lit ''Role''], [Lit ''^89D2^8272'']),
     ([Lit ''Immutable''], [Lit ''^4E0D^53EF^53D8^66F4'']),
     ([Lit ''Revoke administrator''], [Lit ''^6536^56DE^7BA1^7406^5458'']),
     ([Lit ''Grant administrator''], [Lit ''^8BBE^4E3A^7BA1^7406^5458'']),
     ([Lit ''No accounts''], [Lit ''^6CA1^6709^8D26^53F7'']),
     ([Lit ''Manage blacklist''], [Lit ''^7BA1^7406^9ED1^540D^5355'']),
     ([Lit ''sing-box live sessions''], [Lit ''sing-box ^6D3B^8DC3^4F1A^8BDD'']),
     ([Lit ''Upload rate''], [Lit ''^4E0A^884C^901F^7387'']),
     ([Lit ''Download rate''], [Lit ''^4E0B^884C^901F^7387'']),
     ([Lit ''Across enrolled nodes''], [Lit ''^5168^90E8^5DF2^6CE8^518C^8282^70B9'']),
     ([Hole ''count'', Lit '' connections''], [Hole ''count'', Lit '' ^6761^8FDE^63A5'']),
     ([Lit ''Live sing-box sessions and recent connection summaries.''], [Lit ''sing-box ^5B9E^65F6^4F1A^8BDD^4E0E^8FD1^671F^8FDE^63A5^6458^8981^3002'']),
     ([Lit ''Node traffic''], [Lit ''^8282^70B9^6D41^91CF'']),
     ([Hole ''count'', Lit '' nodes''], [Hole ''count'', Lit '' ^4E2A^8282^70B9'']),
     ([Lit ''Rate''], [Lit ''^901F^7387'']),
     ([Lit ''Live connections''], [Lit ''^6D3B^8DC3^8FDE^63A5'']),
     ([Lit ''Live''], [Lit ''^5B9E^65F6'']),
     ([Lit ''Connection view''], [Lit ''^8FDE^63A5^89C6^56FE'']),
     ([Lit ''Live connection information''], [Lit ''^5B9E^65F6^8FDE^63A5^4FE1^606F'']),
     ([Lit ''Historical connection records''], [Lit ''^5386^53F2^8FDE^63A5^8BB0^5F55'']),
     ([Lit ''Live connection information and retained history for audit.''], [Lit ''^5B9E^65F6^8FDE^63A5^4FE1^606F^4E0E^4FDD^7559^7684^5BA1^8BA1^5386^53F2^8BB0^5F55^3002'']),
     ([Hole ''count'', Lit '' sessions''], [Hole ''count'', Lit '' ^4E2A^4F1A^8BDD'']),
     ([Hole ''count'', Lit '' snapshots ^00B7 '', Hole ''rows'', Lit '' observed rows''], [Hole ''count'', Lit '' ^4E2A^5FEB^7167 ^00B7 '', Hole ''rows'', Lit '' ^6761^89C2^6D4B^8BB0^5F55'']),
     ([Lit ''Search connection history''], [Lit ''^641C^7D22^8FDE^63A5^5386^53F2'']),
     ([Lit ''All protocols''], [Lit ''^5168^90E8^534F^8BAE'']),
     ([Lit ''Snapshot summary''], [Lit ''^5FEB^7167^6458^8981'']),
     ([Lit ''Showing '', Hole ''from'', Lit ''-'', Hole ''to'', Lit '' of '', Hole ''count'', Lit '' snapshots''], [Lit ''^663E^793A^7B2C '', Hole ''from'', Lit ''-'', Hole ''to'', Lit '' ^6761^FF0C^5171 '', Hole ''count'', Lit '' ^4E2A^5FEB^7167'']),
     ([Lit ''Previous''], [Lit ''^4E0A^4E00^9875'']),
     ([Lit ''Next''], [Lit ''^4E0B^4E00^9875'']),
     ([Lit ''Unable to load live connections.''], [Lit ''^65E0^6CD5^52A0^8F7D^5B9E^65F6^8FDE^63A5^4FE1^606F^3002'']),
     ([Lit ''Unable to load connection history.''], [Lit ''^65E0^6CD5^52A0^8F7D^8FDE^63A5^5386^53F2^3002'']),
     ([Lit ''No connection history recorded.''], [Lit ''^6682^65E0^8FDE^63A5^5386^53F2^8BB0^5F55^3002'']),
     ([Lit ''Source''], [Lit ''^6765^6E90'']),
     ([Lit ''Destination''], [Lit ''^76EE^6807'']),
     ([Lit ''Outbound''], [Lit ''^51FA^7AD9'']),
     ([Lit ''No live connections recorded.''], [Lit ''^5F53^524D^6CA1^6709^8BB0^5F55^5230^6D3B^8DC3^8FDE^63A5^3002'']),
     ([Lit ''Unable to load connection snapshots.''], [Lit ''^65E0^6CD5^52A0^8F7D^8FDE^63A5^6458^8981^3002'']),
     ([Lit ''user.role.update''], [Lit ''^66F4^65B0^8D26^53F7^89D2^8272'']),
     ([Lit ''root_role_immutable''], [Lit ''^6839^7BA1^7406^5458^89D2^8272^4E0D^53EF^53D8^66F4^3002'']),
     ([Lit ''account_not_found''], [Lit ''^8D26^53F7^4E0D^5B58^5728^3002'']),
     ([Lit ''preview_target_required''], [Lit ''^8BF7^63D0^4F9B^6765^6E90^5730^5740^6216^76EE^6807^4E3B^673A^3002'']),
     ([Lit ''Type''], [Lit ''^7C7B^578B'']),
     ([Lit ''CIDR''], [Lit ''CIDR ^7F51^6BB5'']),
     ([Lit ''blacklist_node_required''], [Lit ''^8BF7^9009^62E9^8981^4E0B^53D1^89C4^5219^7684^8282^70B9^3002'']),
     ([Lit ''Protocol''], [Lit ''^534F^8BAE'']),
     ([Lit ''Subscription URL''], [Lit ''^8BA2^9605^5730^5740'']),
     ([Lit ''subscription_url_scheme_not_allowed''], [Lit ''^8BA2^9605^5730^5740^53EA^652F^6301 HTTP ^6216 HTTPS^3002''])]"

definition messages_zh_3456 :: dictionary where
  "messages_zh_3456 =
    [([Lit ''Created '', Hole ''date''], [Lit ''^521B^5EFA^4E8E '', Hole ''date'']),
     ([Hole ''subscription'', Lit '' ^2192 '', Hole ''node''], [Hole ''subscription'', Lit '' ^2192 '', Hole ''node'']),
     ([Lit ''No subscription''], [Lit ''^672A^7ED1^5B9A^8BA2^9605'']),
     ([Lit ''No nodes''], [Lit ''^65E0^8282^70B9'']),
     ([Lit ''TARGETS''], [Lit ''^76EE^6807'']),
     ([Lit ''Traffic overview''], [Lit ''^6D41^91CF^6982^89C8'']),
     ([Lit ''Total '', Hole ''value''], [Lit ''^603B^8BA1 '', Hole ''value'']),
     ([Lit ''No traffic samples''], [Lit ''^6682^65E0^6D41^91CF^91C7^6837'']),
     ([Lit ''Live sing-box sessions and per-node traffic overview.''], [Lit ''sing-box ^5B9E^65F6^4F1A^8BDD^4E0E^5404^8282^70B9^6D41^91CF^6982^89C8^3002'']),
     ([Lit ''Service quality''], [Lit ''^670D^52A1^8D28^91CF'']),
     ([Lit ''Average latency and availability for every subscription outbound.''], [Lit ''^7EDF^8BA1^6BCF^4E2A^8BA2^9605^51FA^53E3^7684^5E73^5747^5EF6^8FDF^4E0E^53EF^7528^6027^3002'']),
     ([Lit ''Subscription outbound performance''], [Lit ''^8BA2^9605^51FA^53E3^6027^80FD'']),
     ([Hole ''count'', Lit '' services''], [Hole ''count'', Lit '' ^4E2A^670D^52A1'']),
     ([Hole ''count'', Lit '' samples''], [Hole ''count'', Lit '' ^4E2A^6837^672C'']),
     ([Lit ''View mode''], [Lit ''^5C55^793A^65B9^5F0F'']),
     ([Lit ''Statistics chart''], [Lit ''^7EDF^8BA1^56FE'']),
     ([Lit ''Table''], [Lit ''^8868^683C'']),
     ([Lit ''Latency quality''], [Lit ''^5EF6^8FDF^8D28^91CF'']),
     ([Lit ''Good (<=100 ms)''], [Lit ''^7EFF^8272^FF08<=100 ms^FF09'']),
     ([Lit ''Acceptable (101-200 ms)''], [Lit ''^9EC4^8272^FF08101-200 ms^FF09'']),
     ([Lit ''High (>200 ms) or unavailable''], [Lit ''^7EA2^8272^FF08>200 ms^FF09^6216^4E0D^53EF^7528'']),
     ([Lit ''Service quality table''], [Lit ''^670D^52A1^8D28^91CF^8868^683C'']),
     ([Lit ''Unable to load service quality.''], [Lit ''^65E0^6CD5^52A0^8F7D^670D^52A1^8D28^91CF^7EDF^8BA1^3002'']),
     ([Lit ''No service quality samples.''], [Lit ''^6682^65E0^670D^52A1^8D28^91CF^6837^672C^3002'']),
     ([Lit ''The monitor will report subscription outbound latency after its next proxy snapshot.''], [Lit ''monitor ^4E0B^6B21^4E0A^62A5^4EE3^7406^5FEB^7167^540E^4F1A^5F00^59CB^8BB0^5F55^8BA2^9605^51FA^53E3^5EF6^8FDF^3002'']),
     ([Lit ''AVERAGE LATENCY''], [Lit ''^5E73^5747^5EF6^8FDF'']),
     ([Lit ''Subscription: outbound comparison''], [Lit ''^8BA2^9605^FF1A^51FA^53E3^5BF9^6BD4'']),
     ([Lit ''Lower is better''], [Lit ''^8D8A^4F4E^8D8A^597D'']),
     ([Lit ''Average latency by node and subscription outbound''], [Lit ''^6309^8282^70B9^548C^8BA2^9605^51FA^53E3^663E^793A^5E73^5747^5EF6^8FDF'']),
     ([Lit ''No samples''], [Lit ''^6682^65E0^6837^672C'']),
     ([Lit ''Availability is calculated from monitor reports.''], [Lit ''^53EF^7528^6027^6839^636E monitor ^4E0A^62A5^7ED3^679C^8BA1^7B97^3002'']),
     ([Lit ''Sortable quality list''], [Lit ''^53EF^6392^5E8F^8D28^91CF^5217^8868'']),
     ([Lit ''Select a column to sort''], [Lit ''^9009^62E9^5217^8FDB^884C^6392^5E8F'']),
     ([Lit ''Subscription outbound''], [Lit ''^8BA2^9605^51FA^53E3'']),
     ([Lit ''Average latency''], [Lit ''^5E73^5747^5EF6^8FDF'']),
     ([Lit ''Availability''], [Lit ''^53EF^7528^6027'']),
     ([Lit ''Range''], [Lit ''^8303^56F4'']),
     ([Lit ''Last sample''], [Lit ''^6700^8FD1^6837^672C'']),
     ([Lit ''Last''], [Lit ''^6700^8FD1'']),
     ([Lit ''Success / failed''], [Lit ''^6210^529F / ^5931^8D25'']),
     ([Lit ''Min''], [Lit ''^6700^4F4E'']),
     ([Lit ''Max''], [Lit ''^6700^9AD8'']),
     ([Lit ''Ascending''], [Lit ''^5347^5E8F'']),
     ([Lit ''Descending''], [Lit ''^964D^5E8F'']),
     ([Lit ''Sort''], [Lit ''^6392^5E8F'']),
     ([Lit ''Last hour''], [Lit ''^6700^8FD1 1 ^5C0F^65F6''])]"

definition messages_zh_3601 :: dictionary where
  "messages_zh_3601 =
    [([Lit ''system_settings.update''], [Lit ''^66F4^65B0^7CFB^7EDF^8BBE^7F6E'']),
     ([Lit ''system_settings''], [Lit ''^7CFB^7EDF^8BBE^7F6E'']),
     ([Lit ''Settings''], [Lit ''^8BBE^7F6E'']),
     ([Lit ''Manage global control-plane behavior.''], [Lit ''^7BA1^7406^63A7^5236^5E73^9762^7684^5168^5C40^884C^4E3A^3002'']),
     ([Lit ''Administrator access required''], [Lit ''^9700^8981^7BA1^7406^5458^6743^9650'']),
     ([Lit ''Only system administrators can manage system settings.''], [Lit ''^53EA^6709^7CFB^7EDF^7BA1^7406^5458^53EF^4EE5^7BA1^7406^7CFB^7EDF^8BBE^7F6E^3002'']),
     ([Lit ''Return to Access''], [Lit ''^8FD4^56DE^8BBF^95EE^9875'']),
     ([Lit ''SYSTEM SETTINGS''], [Lit ''^7CFB^7EDF^8BBE^7F6E'']),
     ([Lit ''Service quality definition''], [Lit ''^670D^52A1^8D28^91CF^5B9A^4E49'']),
     ([Lit ''Define the latency boundaries used to classify service quality statistics.''], [Lit ''^8BBE^7F6E^670D^52A1^8D28^91CF^7EDF^8BA1^4F7F^7528^7684^5EF6^8FDF^5206^7EA7^8FB9^754C^3002'']),
     ([Lit ''Green boundary''], [Lit ''^7EFF^8272^8FB9^754C'']),
     ([Lit ''Values at or below this boundary are green.''], [Lit ''^5C0F^4E8E^7B49^4E8E^6B64^8FB9^754C^7684^6570^503C^4E3A^7EFF^8272^3002'']),
     ([Lit ''Yellow boundary''], [Lit ''^9EC4^8272^8FB9^754C'']),
     ([Lit ''Values above green and at or below this boundary are yellow.''], [Lit ''^9AD8^4E8E^7EFF^8272^8FB9^754C^4E14^5C0F^4E8E^7B49^4E8E^6B64^8FB9^754C^7684^6570^503C^4E3A^9EC4^8272^3002'']),
     ([Lit ''Default probe URL''], [Lit ''^9ED8^8BA4^63A2^6D4B URL'']),
     ([Lit ''Prefilled on the outbound probes page; you can change it for each probe.''], [Lit ''^5728^51FA^53E3^63A2^6D4B^9875^9762^4E2D^9884^5148^586B^5199^FF0C^4E5F^53EF^4EE5^5728^6BCF^6B21^63A2^6D4B^65F6^4FEE^6539^3002'']),
     ([Lit ''Enter a valid HTTP or HTTPS probe URL.''], [Lit ''^8BF7^8F93^5165^6709^6548^7684 HTTP ^6216 HTTPS ^63A2^6D4B URL^3002'']),
     ([Lit ''Current classification''], [Lit ''^5F53^524D^5206^7EA7'']),
     ([Lit ''Green''], [Lit ''^7EFF^8272'']),
     ([Lit ''Yellow''], [Lit ''^9EC4^8272'']),
     ([Lit ''Red''], [Lit ''^7EA2^8272'']),
     ([Lit ''ms''], [Lit ''^6BEB^79D2'']),
     ([Lit ''or unavailable''], [Lit ''^6216^4E0D^53EF^7528'']),
     ([Lit ''Green: <= '', Hole ''value'', Lit '' ms''], [Lit ''^7EFF^8272^FF1A<= '', Hole ''value'', Lit '' ^6BEB^79D2'']),
     ([Lit ''Yellow: '', Hole ''from'', Lit ''-'', Hole ''to'', Lit '' ms''], [Lit ''^9EC4^8272^FF1A'', Hole ''from'', Lit ''-'', Hole ''to'', Lit '' ^6BEB^79D2'']),
     ([Lit ''Red: > '', Hole ''value'', Lit '' ms or unavailable''], [Lit ''^7EA2^8272^FF1A> '', Hole ''value'', Lit '' ^6BEB^79D2^6216^4E0D^53EF^7528'']),
     ([Lit ''Enter a whole number from 0 to 300000 ms.''], [Lit ''^8BF7^8F93^5165 0 ^5230 300000 ^4E4B^95F4^7684^6574^6570^6BEB^79D2^503C^3002'']),
     ([Lit ''The yellow boundary must be greater than the green boundary.''], [Lit ''^9EC4^8272^8FB9^754C^5FC5^987B^5927^4E8E^7EFF^8272^8FB9^754C^3002'']),
     ([Lit ''System settings saved.''], [Lit ''^7CFB^7EDF^8BBE^7F6E^5DF2^4FDD^5B58^3002'']),
     ([Lit ''Unable to load system settings.''], [Lit ''^65E0^6CD5^52A0^8F7D^7CFB^7EDF^8BBE^7F6E^3002'']),
     ([Lit ''Unable to save system settings.''], [Lit ''^65E0^6CD5^4FDD^5B58^7CFB^7EDF^8BBE^7F6E^3002'']),
     ([Lit ''Saving...''], [Lit ''^4FDD^5B58^4E2D...'']),
     ([Lit ''Save settings''], [Lit ''^4FDD^5B58^8BBE^7F6E'']),
     ([Lit ''Good (<= '', Hole ''value'', Lit '' ms)''], [Lit ''^7EFF^8272^FF08<= '', Hole ''value'', Lit '' ms^FF09'']),
     ([Lit ''Acceptable ('', Hole ''from'', Lit ''-'', Hole ''to'', Lit '' ms)''], [Lit ''^9EC4^8272^FF08'', Hole ''from'', Lit ''-'', Hole ''to'', Lit '' ms^FF09'']),
     ([Lit ''High (>'', Hole ''value'', Lit '' ms) or unavailable''], [Lit ''^7EA2^8272^FF08> '', Hole ''value'', Lit '' ms^FF09^6216^4E0D^53EF^7528''])]"

definition messages_zh_3781 :: dictionary where
  "messages_zh_3781 =
    [([Lit ''Routing rules''], [Lit ''^8DEF^7531^89C4^5219'']),
     ([Lit ''Save routing rules''], [Lit ''^4FDD^5B58^8DEF^7531^89C4^5219'']),
     ([Lit ''Publish routing rules''], [Lit ''^53D1^5E03^8DEF^7531^89C4^5219'']),
     ([Lit ''View current routing rules''], [Lit ''^67E5^770B^5F53^524D^8DEF^7531^89C4^5219'']),
     ([Lit ''Change category''], [Lit ''^53D8^66F4^5206^7C7B'']),
     ([Lit ''Other changes''], [Lit ''^5176^4ED6^53D8^66F4'']),
     ([Lit ''Outbound service''], [Lit ''^51FA^53E3^670D^52A1'']),
     ([Lit ''Import sing-box rules''], [Lit ''^6279^91CF^5BFC^5165 sing-box ^89C4^5219'']),
     ([Lit ''Upload or paste UTF-8 JSON: a full sing-box configuration, a route object, or a rules array. Only routing rules and route.final are imported; node credentials, DNS and other settings are ignored.''], [Lit ''^4E0A^4F20^6216^7C98^8D34 UTF-8 JSON^FF0C^652F^6301^5B8C^6574 sing-box ^914D^7F6E^3001route ^5BF9^8C61^6216 rules ^6570^7EC4^3002^4EC5^5BFC^5165^8DEF^7531^89C4^5219^548C route.final^FF0C^4E0D^5BFC^5165^8282^70B9^5BC6^94A5^3001DNS ^53CA^5176^4ED6^8BBE^7F6E^3002'']),
     ([Lit ''Supported matchers: domain, domain_suffix, ip_cidr. Actions: route with direct / subscription / proxy, or reject. Unsupported matchers, logical rules and rule-set references are rejected, never silently skipped.''], [Lit ''^652F^6301 domain^3001domain_suffix^3001ip_cidr^FF1B^652F^6301 route ^914D^5408 direct / subscription / proxy^FF0C^6216 reject^3002^4E0D^652F^6301^7684^5339^914D^5B57^6BB5^3001^903B^8F91^89C4^5219^53CA rule_set ^5F15^7528^4F1A^660E^786E^62A5^9519^FF0C^4E0D^4F1A^9759^9ED8^8DF3^8FC7^3002'']),
     ([Lit ''Configuration file''], [Lit ''^914D^7F6E^6587^4EF6'']),
     ([Lit ''Choose routing file''], [Lit ''^9009^62E9^6587^4EF6'']),
     ([Lit ''No routing file selected''], [Lit ''^672A^9009^62E9^6587^4EF6'']),
     ([Lit ''Download sing-box template''], [Lit ''^4E0B^8F7D sing-box ^793A^4F8B^6A21^677F'']),
     ([Lit ''Import behavior''], [Lit ''^5BFC^5165^65B9^5F0F'']),
     ([Lit ''Append to custom rules''], [Lit ''^8FFD^52A0^5230^81EA^5B9A^4E49^89C4^5219^672B^5C3E'']),
     ([Lit ''Replace custom rules''], [Lit ''^66FF^6362^5168^90E8^81EA^5B9A^4E49^89C4^5219'']),
     ([Lit ''Sing-box JSON configuration''], [Lit ''sing-box JSON ^914D^7F6E^5185^5BB9'']),
     ([Lit ''Validate and preview import''], [Lit ''^6821^9A8C^5E76^9884^89C8^5BFC^5165'']),
     ([Lit ''Apply import to editor''], [Lit ''^5E94^7528^5230^7F16^8F91^5668^FF08^672A^4FDD^5B58^FF09'']),
     ([Lit ''Import preview: '', Hole ''source'', Lit '' source rules expand to '', Hole ''imported'', Lit '' entries; '', Hole ''total'', Lit '' custom rules after import.''], [Lit ''^5BFC^5165^9884^89C8^FF1A'', Hole ''source'', Lit '' ^6761^6E90^89C4^5219^5C55^5F00^4E3A '', Hole ''imported'', Lit '' ^6761^8BB0^5F55^FF0C^5BFC^5165^540E^5171 '', Hole ''total'', Lit '' ^6761^81EA^5B9A^4E49^89C4^5219^3002'']),
     ([Lit ''Private and China direct settings remain unchanged. Applying only updates the editor; save and publish separately.''], [Lit ''^79C1^7F51^548C^56FD^5185^76F4^8FDE^5F00^5173^4FDD^6301^4E0D^53D8^3002^5E94^7528^4EC5^66F4^65B0^7F16^8F91^5668^FF0C^9700^8981^53E6^884C^4FDD^5B58^5E76^53D1^5E03^3002'']),
     ([Lit ''View converted routing policy''], [Lit ''^67E5^770B^8F6C^6362^540E^7684^5B8C^6574^8DEF^7531^7B56^7565'']),
     ([Lit ''Import applied to the editor. Review the rules, then save and publish.''], [Lit ''^5DF2^5BFC^5165^7F16^8F91^5668^FF0C^8BF7^68C0^67E5^89C4^5219^540E^4FDD^5B58^5E76^53D1^5E03^3002'']),
     ([Lit ''Routing import files must not exceed 1 MiB.''], [Lit ''^5BFC^5165^6587^4EF6^4E0D^80FD^8D85^8FC7 1 MiB^3002'']),
     ([Lit ''Unable to read the routing file.''], [Lit ''^65E0^6CD5^8BFB^53D6^8DEF^7531^914D^7F6E^6587^4EF6^3002'']),
     ([Lit ''Delete''], [Lit ''^5220^9664'']),
     ([Lit ''Rule mode''], [Lit ''^89C4^5219^6A21^5F0F^FF08Rule^FF09'']),
     ([Lit ''Rule mode routes each destination using ordered rules instead of sending all traffic through the proxy.''], [Lit ''^89C4^5219^6A21^5F0F^6309^987A^5E8F^5339^914D^76EE^7684^5730^5740^FF0C^51B3^5B9A^76F4^8FDE^3001^4EE3^7406^6216^62D2^7EDD^FF0C^5E76^975E^6240^6709^6D41^91CF^90FD^8D70^4EE3^7406^3002'']),
     ([Lit ''Access restrictions run first. Custom rules match from top to bottom, followed by private and China direct rules, then the fallback.''], [Lit ''^8BBF^95EE^63A7^5236^4F18^5148^6267^884C^FF1B^81EA^5B9A^4E49^89C4^5219^4ECE^4E0A^5F80^4E0B^9996^6B21^5339^914D^751F^6548^FF0C^5176^540E^4F9D^6B21^6267^884C^79C1^7F51^76F4^8FDE^3001^56FD^5185^76F4^8FDE^548C^515C^5E95^89C4^5219^3002'']),
     ([Lit ''Saving changes does not publish them. Publish the saved revision to all nodes in this site and inspect the release acknowledgements.''], [Lit ''^4FDD^5B58^4E0D^7B49^4E8E^53D1^5E03^3002^8BF7^5C06^5DF2^4FDD^5B58^7248^672C^53D1^5E03^5230^672C^7AD9^70B9^5168^90E8^8282^70B9^FF0C^5E76^68C0^67E5^53D1^5E03^56DE^6267^3002'']),
     ([Lit ''Private addresses direct''], [Lit ''^79C1^7F51^5730^5740^76F4^8FDE'']),
     ([Lit ''China domains and IPs direct''], [Lit ''^56FD^5185^57DF^540D^548C IP ^76F4^8FDE'']),
     ([Lit ''Unmatched destinations''], [Lit ''^672A^5339^914D^76EE^7684^5730^5740'']),
     ([Lit ''Proxy outbound''], [Lit ''^4EE3^7406^51FA^53E3'']),
     ([Lit ''Direct outbound''], [Lit ''^76F4^63A5^8FDE^63A5'']),
     ([Lit ''Order''], [Lit ''^987A^5E8F'']),
     ([Lit ''Match type''], [Lit ''^5339^914D^7C7B^578B'']),
     ([Lit ''Domain or CIDR''], [Lit ''^57DF^540D^6216 CIDR'']),
     ([Lit ''Routing action''], [Lit ''^8DEF^7531^52A8^4F5C'']),
     ([Lit ''Exact domain''], [Lit ''^7CBE^786E^57DF^540D'']),
     ([Lit ''Domain suffix''], [Lit ''^57DF^540D^53CA^5B50^57DF^540D'']),
     ([Lit ''IP network''], [Lit ''IP ^7F51^6BB5'']),
     ([Lit ''Reject destination''], [Lit ''^62D2^7EDD^8FDE^63A5'']),
     ([Lit ''Move up''], [Lit ''^4E0A^79FB'']),
     ([Lit ''Move down''], [Lit ''^4E0B^79FB'']),
     ([Lit ''No custom routing rules. Built-in rules and the fallback still apply.''], [Lit ''^5C1A^65E0^81EA^5B9A^4E49^8DEF^7531^89C4^5219^FF0C^5185^7F6E^89C4^5219^548C^515C^5E95^89C4^5219^4ECD^7136^751F^6548^3002'']),
     ([Lit ''Add routing rule''], [Lit ''^6DFB^52A0^8DEF^7531^89C4^5219'']),
     ([Lit ''Save routing policy''], [Lit ''^4FDD^5B58^8DEF^7531^7B56^7565'']),
     ([Lit ''Publish routing policy''], [Lit ''^53D1^5E03^8DEF^7531^7B56^7565'']),
     ([Lit ''Saved revision''], [Lit ''^5DF2^4FDD^5B58^7248^672C'']),
     ([Lit ''Unsaved changes''], [Lit ''^5B58^5728^672A^4FDD^5B58^4FEE^6539'']),
     ([Lit ''Routing release''], [Lit ''^8DEF^7531^53D1^5E03'']),
     ([Lit ''Apply the saved routing rules to every node in this site. Nodes validate the signed bundle and roll back if the health check fails.''], [Lit ''^5C06^5DF2^4FDD^5B58^89C4^5219^5E94^7528^5230^672C^7AD9^70B9^5168^90E8^8282^70B9^3002^8282^70B9^6821^9A8C^7B7E^540D^914D^7F6E^5305^FF0C^5065^5EB7^68C0^67E5^5931^8D25^65F6^81EA^52A8^56DE^6EDA^3002'']),
     ([Lit ''Unable to load routing policy''], [Lit ''^65E0^6CD5^52A0^8F7D^8DEF^7531^7B56^7565'']),
     ([Lit ''Each site has its own policy. Select and publish each site to configure the whole network.''], [Lit ''^6BCF^4E2A^7AD9^70B9^72EC^7ACB^7EF4^62A4^7B56^7565^3002^914D^7F6E^5168^7AD9^7F51^7EDC^65F6^FF0C^8BF7^4F9D^6B21^9009^62E9^3001^4FDD^5B58^5E76^53D1^5E03^5404^7AD9^70B9^3002'']),
     ([Lit ''Monitor version''], [Lit ''Monitor ^7248^672C'']),
     ([Lit ''Configuration''], [Lit ''^5DF2^5E94^7528 / ^671F^671B^7248^672C'']),
     ([Lit ''No sites available''], [Lit ''^6682^65E0^7AD9^70B9'']),
     ([Lit ''routing_revision_conflict''], [Lit ''^8DEF^7531^7B56^7565^7248^672C^5DF2^53D8^5316^FF0C^8BF7^5237^65B0^9875^9762^540E^91CD^8BD5^3002'']),
     ([Lit ''routing_monitor_upgrade_required''], [Lit ''^8BF7^5148^5C06^672C^7AD9^70B9^5168^90E8^8282^70B9^5347^7EA7^81F3 Monitor 0.8.0^3002'']),
     ([Lit ''routing_proxy_unavailable''], [Lit ''^7B56^7565^9700^8981^4EE3^7406^51FA^53E3^FF0C^8BF7^5148^4E3A^672C^7AD9^70B9^53D1^5E03^6709^6548^8BA2^9605^3002'']),
     ([Lit ''routing.update''], [Lit ''^66F4^65B0^8DEF^7531^7B56^7565''])]"

text \<open>Every entry keeps the placeholders of its key.\<close>

lemma messages_zh_23_ok: "list_all entry_ok messages_zh_23"
  by (simp add: messages_zh_23_def entry_ok_def name_ok_def)

lemma messages_zh_135_ok: "list_all entry_ok messages_zh_135"
  by (simp add: messages_zh_135_def entry_ok_def name_ok_def)

lemma messages_zh_247_ok: "list_all entry_ok messages_zh_247"
  by (simp add: messages_zh_247_def entry_ok_def name_ok_def)

lemma messages_zh_359_ok: "list_all entry_ok messages_zh_359"
  by (simp add: messages_zh_359_def entry_ok_def name_ok_def)

lemma messages_zh_924_ok: "list_all entry_ok messages_zh_924"
  by (simp add: messages_zh_924_def entry_ok_def name_ok_def)

lemma messages_zh_1145_ok: "list_all entry_ok messages_zh_1145"
  by (simp add: messages_zh_1145_def entry_ok_def name_ok_def)

lemma messages_zh_1403_ok: "list_all entry_ok messages_zh_1403"
  by (simp add: messages_zh_1403_def entry_ok_def name_ok_def)

lemma messages_zh_1524_ok: "list_all entry_ok messages_zh_1524"
  by (simp add: messages_zh_1524_def entry_ok_def name_ok_def)

lemma messages_zh_1669_ok: "list_all entry_ok messages_zh_1669"
  by (simp add: messages_zh_1669_def entry_ok_def name_ok_def)

lemma messages_zh_1769_ok: "list_all entry_ok messages_zh_1769"
  by (simp add: messages_zh_1769_def entry_ok_def name_ok_def)

lemma messages_zh_1809_ok: "list_all entry_ok messages_zh_1809"
  by (simp add: messages_zh_1809_def entry_ok_def name_ok_def)

lemma messages_zh_1969_ok: "list_all entry_ok messages_zh_1969"
  by (simp add: messages_zh_1969_def entry_ok_def name_ok_def)

lemma messages_zh_1988_ok: "list_all entry_ok messages_zh_1988"
  by (simp add: messages_zh_1988_def entry_ok_def name_ok_def)

lemma messages_zh_2061_ok: "list_all entry_ok messages_zh_2061"
  by (simp add: messages_zh_2061_def entry_ok_def name_ok_def)

lemma messages_zh_2119_ok: "list_all entry_ok messages_zh_2119"
  by (simp add: messages_zh_2119_def entry_ok_def name_ok_def)

lemma messages_zh_2163_ok: "list_all entry_ok messages_zh_2163"
  by (simp add: messages_zh_2163_def entry_ok_def name_ok_def)

lemma messages_zh_2248_ok: "list_all entry_ok messages_zh_2248"
  by (simp add: messages_zh_2248_def entry_ok_def name_ok_def)

lemma messages_zh_2291_ok: "list_all entry_ok messages_zh_2291"
  by (simp add: messages_zh_2291_def entry_ok_def name_ok_def)

lemma messages_zh_2441_ok: "list_all entry_ok messages_zh_2441"
  by (simp add: messages_zh_2441_def entry_ok_def name_ok_def)

lemma messages_zh_2610_ok: "list_all entry_ok messages_zh_2610"
  by (simp add: messages_zh_2610_def entry_ok_def name_ok_def)

lemma messages_zh_2726_ok: "list_all entry_ok messages_zh_2726"
  by (simp add: messages_zh_2726_def entry_ok_def name_ok_def)

lemma messages_zh_2766_ok: "list_all entry_ok messages_zh_2766"
  by (simp add: messages_zh_2766_def entry_ok_def name_ok_def)

lemma messages_zh_2953_ok: "list_all entry_ok messages_zh_2953"
  by (simp add: messages_zh_2953_def entry_ok_def name_ok_def)

lemma messages_zh_3212_ok: "list_all entry_ok messages_zh_3212"
  by (simp add: messages_zh_3212_def entry_ok_def name_ok_def)

lemma messages_zh_3231_ok: "list_all entry_ok messages_zh_3231"
  by (simp add: messages_zh_3231_def entry_ok_def name_ok_def)

lemma messages_zh_3247_ok: "list_all entry_ok messages_zh_3247"
  by (simp add: messages_zh_3247_def entry_ok_def name_ok_def)

lemma messages_zh_3456_ok: "list_all entry_ok messages_zh_3456"
  by (simp add: messages_zh_3456_def entry_ok_def name_ok_def)

lemma messages_zh_3601_ok: "list_all entry_ok messages_zh_3601"
  by (simp add: messages_zh_3601_def entry_ok_def name_ok_def)

lemma messages_zh_3781_ok: "list_all entry_ok messages_zh_3781"
  by (simp add: messages_zh_3781_def entry_ok_def name_ok_def)

definition messages_zh :: dictionary where
  "messages_zh =
     messages_zh_23 @
     messages_zh_135 @
     messages_zh_247 @
     messages_zh_359 @
     messages_zh_924 @
     messages_zh_1145 @
     messages_zh_1403 @
     messages_zh_1524 @
     messages_zh_1669 @
     messages_zh_1769 @
     messages_zh_1809 @
     messages_zh_1969 @
     messages_zh_1988 @
     messages_zh_2061 @
     messages_zh_2119 @
     messages_zh_2163 @
     messages_zh_2248 @
     messages_zh_2291 @
     messages_zh_2441 @
     messages_zh_2610 @
     messages_zh_2726 @
     messages_zh_2766 @
     messages_zh_2953 @
     messages_zh_3212 @
     messages_zh_3231 @
     messages_zh_3247 @
     messages_zh_3456 @
     messages_zh_3601 @
     messages_zh_3781"

lemmas messages_zh_parts =
  messages_zh_23_ok
  messages_zh_135_ok
  messages_zh_247_ok
  messages_zh_359_ok
  messages_zh_924_ok
  messages_zh_1145_ok
  messages_zh_1403_ok
  messages_zh_1524_ok
  messages_zh_1669_ok
  messages_zh_1769_ok
  messages_zh_1809_ok
  messages_zh_1969_ok
  messages_zh_1988_ok
  messages_zh_2061_ok
  messages_zh_2119_ok
  messages_zh_2163_ok
  messages_zh_2248_ok
  messages_zh_2291_ok
  messages_zh_2441_ok
  messages_zh_2610_ok
  messages_zh_2726_ok
  messages_zh_2766_ok
  messages_zh_2953_ok
  messages_zh_3212_ok
  messages_zh_3231_ok
  messages_zh_3247_ok
  messages_zh_3456_ok
  messages_zh_3601_ok
  messages_zh_3781_ok

lemma messages_zh_ok: "list_all entry_ok messages_zh"
  by (simp add: messages_zh_def messages_zh_parts)

end
