(* ===== verification/Messages_En.thy ===== *)
theory Messages_En
  imports Messages
begin

text \<open>
  The English messages of \<^verbatim>\<open>src/frontend/lib/preferences.tsx\<close>, in the order of the source: the member \<^verbatim>\<open>"en"\<close> of the object
  \<^verbatim>\<open>messages\<close> and the objects that are assigned to it.  The number in a name is the line of the first entry.
\<close>

definition messages_en_1034 :: dictionary where
  "messages_en_1034 =
    [([Lit ''Unable to load source blacklist.''], [Lit ''Unable to load source blacklist.'']),
     ([Lit ''All actions''], [Lit ''All actions'']),
     ([Lit ''config release''], [Lit ''config release'']),
     ([Lit ''config draft''], [Lit ''config draft'']),
     ([Lit ''proxy selection''], [Lit ''proxy selection'']),
     ([Lit ''node rename''], [Lit ''node rename'']),
     ([Lit ''Filter by actor''], [Lit ''Filter by actor'']),
     ([Lit ''Task queue''], [Lit ''Task queue'']),
     ([Hole ''count'', Lit '' tasks''], [Hole ''count'', Lit '' tasks'']),
     ([Lit ''Task type''], [Lit ''Task type'']),
     ([Lit ''All task types''], [Lit ''All task types'']),
     ([Lit ''dead letter''], [Lit ''dead letter'']),
     ([Lit ''config publish''], [Lit ''config publish'']),
     ([Lit ''subscription refresh''], [Lit ''subscription refresh'']),
     ([Lit ''node probe''], [Lit ''node probe'']),
     ([Lit ''backup create''], [Lit ''backup create'']),
     ([Lit ''Connection history''], [Lit ''Connection history'']),
     ([Hole ''count'', Lit '' snapshots''], [Hole ''count'', Lit '' snapshots'']),
     ([Lit ''Search''], [Lit ''Search'']),
     ([Lit ''Clear search''], [Lit ''Clear search'']),
     ([Lit ''All nodes''], [Lit ''All nodes'']),
     ([Lit ''UDP''], [Lit ''UDP'']),
     ([Lit ''TCP''], [Lit ''TCP'']),
     ([Lit ''Configure''], [Lit ''Configure'']),
     ([Lit ''Review each site's reported outbound groups and publish an immutable subscription version through the normal release path.''], [Lit ''Review each site's reported outbound groups and publish an immutable subscription version through the normal release path.'']),
     ([Lit ''Enabled''], [Lit ''Enabled'']),
     ([Lit ''Automatic proxy configuration''], [Lit ''Automatic proxy configuration'']),
     ([Lit ''PAC chooses the single HTTP listener and does not grant access.''], [Lit ''PAC chooses the single HTTP listener and does not grant access.'']),
     ([Lit ''Unable to load access configuration.''], [Lit ''Unable to load access configuration.'']),
     ([Lit ''probe_target_unresolvable''], [Lit ''The probe target could not be resolved.'']),
     ([Lit ''probe_target_private_network''], [Lit ''The probe target must be a public address.'']),
     ([Lit ''OBSERVE''], [Lit ''OBSERVE'']),
     ([Lit ''Logs''], [Lit ''Logs'']),
     ([Lit ''Connections''], [Lit ''Connections'']),
     ([Lit ''Probes''], [Lit ''Probes'']),
     ([Lit ''Alerts''], [Lit ''Alerts'']),
     ([Lit ''Alert''], [Lit ''Alert'']),
     ([Lit ''Access logs''], [Lit ''Access logs'']),
     ([Lit ''Connection snapshots''], [Lit ''Connection snapshots'']),
     ([Lit ''Outbound probes''], [Lit ''Outbound probes'']),
     ([Lit ''Recent allow and deny decisions from edge monitors.''], [Lit ''Recent allow and deny decisions from edge monitors.'']),
     ([Lit ''Latest connection summaries; full connection tables are never stored.''], [Lit ''Latest connection summaries; full connection tables are never stored.'']),
     ([Lit ''Per-outbound health and circuit-breaker state.''], [Lit ''Per-outbound health and circuit-breaker state.'']),
     ([Lit ''Run probe''], [Lit ''Run probe'']),
     ([Lit ''Run a low-volume HEAD probe through the selected node.''], [Lit ''Run a low-volume HEAD probe through the selected node.'']),
     ([Lit ''Target URL''], [Lit ''Target URL'']),
     ([Lit ''Probe queued''], [Lit ''Probe queued'']),
     ([Lit ''No access logs recorded.''], [Lit ''No access logs recorded.'']),
     ([Lit ''No connection snapshots recorded.''], [Lit ''No connection snapshots recorded.'']),
     ([Lit ''No probe results recorded.''], [Lit ''No probe results recorded.'']),
     ([Lit ''No node selected.''], [Lit ''No node selected.'']),
     ([Lit ''Sampled at''], [Lit ''Sampled at'']),
     ([Lit ''Source''], [Lit ''Source'']),
     ([Lit ''Destination''], [Lit ''Destination'']),
     ([Lit ''Bytes up''], [Lit ''Bytes up'']),
     ([Lit ''Bytes down''], [Lit ''Bytes down'']),
     ([Lit ''Duration''], [Lit ''Duration'']),
     ([Lit ''Deny reason''], [Lit ''Deny reason'']),
     ([Lit ''Active connections''], [Lit ''Active connections'']),
     ([Lit ''API status''], [Lit ''API status'']),
     ([Lit ''Available''], [Lit ''Available'']),
     ([Lit ''Unavailable''], [Lit ''Unavailable'']),
     ([Lit ''Circuit''], [Lit ''Circuit'']),
     ([Lit ''closed''], [Lit ''closed'']),
     ([Lit ''open''], [Lit ''open'']),
     ([Lit ''half_open''], [Lit ''half-open'']),
     ([Lit ''Latency''], [Lit ''Latency'']),
     ([Lit ''Success''], [Lit ''Success'']),
     ([Lit ''Failure''], [Lit ''Failure'']),
     ([Lit ''Refresh''], [Lit ''Refresh'']),
     ([Lit ''All decisions''], [Lit ''All decisions'']),
     ([Lit ''Only denies''], [Lit ''Only denies'']),
     ([Lit ''Only allows''], [Lit ''Only allows'']),
     ([Lit ''Probe state''], [Lit ''Probe state'']),
     ([Lit ''Control plane telemetry''], [Lit ''Control plane telemetry'']),
     ([Lit ''Open alerts''], [Lit ''Open alerts'']),
     ([Lit ''Open circuits''], [Lit ''Open circuits'']),
     ([Lit ''Deployment and alert summary''], [Lit ''Deployment and alert summary'']),
     ([Lit ''Review active conditions''], [Lit ''Review active conditions'']),
     ([Lit ''Review outbound health''], [Lit ''Review outbound health'']),
     ([Lit ''Recent active and resolved conditions from the control plane.''], [Lit ''Recent active and resolved conditions from the control plane.'']),
     ([Lit ''All conditions''], [Lit ''All conditions'']),
     ([Lit ''Resolved conditions''], [Lit ''Resolved conditions'']),
     ([Lit ''No alerts recorded.''], [Lit ''No alerts recorded.'']),
     ([Lit ''Unable to load alerts.''], [Lit ''Unable to load alerts.'']),
     ([Lit ''Severity''], [Lit ''Severity'']),
     ([Lit ''First seen''], [Lit ''First seen'']),
     ([Lit ''Last seen''], [Lit ''Last seen'']),
     ([Lit ''critical''], [Lit ''critical'']),
     ([Lit ''warning''], [Lit ''warning'']),
     ([Lit ''resolved''], [Lit ''resolved'']),
     ([Lit ''Node heartbeat is unavailable''], [Lit ''Node heartbeat is unavailable'']),
     ([Lit ''Node configuration needs attention''], [Lit ''Node configuration needs attention'']),
     ([Lit ''Node proxy service is unavailable''], [Lit ''Node proxy service is unavailable'']),
     ([Lit ''Node subscription cannot be applied''], [Lit ''Node subscription cannot be applied'']),
     ([Lit ''Outbound circuit is open''], [Lit ''Outbound circuit is open'']),
     ([Lit ''Destination denies increased sharply''], [Lit ''Source requests denied increased sharply'']),
     ([Lit ''Source requests denied increased sharply''], [Lit ''Source requests denied increased sharply'']),
     ([Lit ''History''], [Lit ''History'']),
     ([Lit ''Recent probes''], [Lit ''Recent probes'']),
     ([Lit ''Top destinations''], [Lit ''Top destinations'']),
     ([Lit ''Traffic''], [Lit ''Traffic'']),
     ([Lit ''^2191 '', Hole ''value''], [Lit ''^2191 '', Hole ''value'']),
     ([Lit ''^2193 '', Hole ''value''], [Lit ''^2193 '', Hole ''value'']),
     ([Hole ''count'', Lit '' events''], [Hole ''count'', Lit '' events'']),
     ([Lit ''other''], [Lit ''other'']),
     ([Lit ''connect error''], [Lit ''connect error'']),
     ([Lit ''request error''], [Lit ''request error''])]"

definition messages_en_1219 :: dictionary where
  "messages_en_1219 =
    [([Lit ''Unable to load access control.''], [Lit ''Unable to load access control.'']),
     ([Lit ''Access control''], [Lit ''Access control'']),
     ([Lit ''Reusable network groups can be denied or explicitly allowed for selected nodes and directions.''], [Lit ''Reusable network groups can be denied or explicitly allowed for selected nodes and directions.'']),
     ([Lit ''Whitelist''], [Lit ''Whitelist'']),
     ([Lit ''Destination group''], [Lit ''Destination'']),
     ([Lit ''Delete network group''], [Lit ''Delete network group'']),
     ([Lit ''A whitelist does not change the default allow-all policy. It only exempts traffic that also matches a blacklist.''], [Lit ''A whitelist does not change the default allow-all policy. It only exempts traffic that also matches a blacklist.'']),
     ([Lit ''network_group_name_exists''], [Lit ''A network group with that name already exists.'']),
     ([Lit ''network_group_in_use''], [Lit ''This network group is still used by an access rule.'']),
     ([Lit ''invalid_network_group_entry''], [Lit ''A network entry is invalid.'']),
     ([Lit ''network_group_entries_required''], [Lit ''Add at least one network entry.'']),
     ([Lit ''network_group_not_found''], [Lit ''The network group does not exist.'']),
     ([Lit ''access_control_rule_exists''], [Lit ''That access rule already exists.'']),
     ([Lit ''access_control_node_required''], [Lit ''Select at least one node.'']),
     ([Lit ''access_control_rule_not_found''], [Lit ''The access rule does not exist.'']),
     ([Lit ''access_control_reason_required''], [Lit ''Enter a reason.'']),
     ([Lit ''Access groups''], [Lit ''Access groups'']),
     ([Lit ''Access rules''], [Lit ''Access rules'']),
     ([Lit ''New access group''], [Lit ''New access group'']),
     ([Lit ''Edit access group''], [Lit ''Edit access group'']),
     ([Lit ''Edit access rule''], [Lit ''Edit access rule'']),
     ([Lit ''Network entries''], [Lit ''Network entries'']),
     ([Lit ''Entry type''], [Lit ''Type'']),
     ([Lit ''Entry value''], [Lit ''Value'']),
     ([Lit ''Remove entry''], [Lit ''Remove entry'']),
     ([Lit ''No access groups''], [Lit ''No access groups'']),
     ([Lit ''Create a named collection of IP, CIDR, and domain values.''], [Lit ''Create a named collection of IP, CIDR, and domain values.'']),
     ([Lit ''No access rules''], [Lit ''No access rules'']),
     ([Lit ''Bind an access group to one or more nodes.''], [Lit ''Bind an access group to one or more nodes.'']),
     ([Hole ''count'', Lit '' access groups''], [Hole ''count'', Lit '' access groups'']),
     ([Hole ''count'', Lit '' access rules''], [Hole ''count'', Lit '' access rules'']),
     ([Lit ''Select nodes''], [Lit ''Select nodes'']),
     ([Lit ''Choose one or more nodes. Nothing is selected by default.''], [Lit ''Choose one or more nodes. Nothing is selected by default.'']),
     ([Lit ''Delete access group '', Hole ''name'', Lit ''? Rules that still use it must be removed first.''], [Lit ''Delete access group '', Hole ''name'', Lit ''? Rules that still use it must be removed first.'']),
     ([Lit ''Delete this access rule? The change is released to the node automatically.''], [Lit ''Delete this access rule? The change is released to the node automatically.'']),
     ([Lit ''Edit '', Hole ''name''], [Lit ''Edit '', Hole ''name'']),
     ([Lit ''Change the access group name and its network entries.''], [Lit ''Change the access group name and its network entries.'']),
     ([Lit ''Change the nodes, mode, direction, or reason. Newly selected nodes receive the same rule.''], [Lit ''Change the nodes, mode, direction, or reason. Newly selected nodes receive the same rule.'']),
     ([Lit ''Change the selected nodes, mode, direction, or reason. Clearing a node removes this rule from that node.''], [Lit ''Change the selected nodes, mode, direction, or reason. Clearing a node removes this rule from that node.'']),
     ([Lit ''New network group''], [Lit ''New network group'']),
     ([Lit ''New access rule''], [Lit ''New access rule'']),
     ([Lit ''Network groups''], [Lit ''Network groups'']),
     ([Lit ''Entries''], [Lit ''Entries'']),
     ([Lit ''Group''], [Lit ''Group'']),
     ([Lit ''Mode''], [Lit ''Mode'']),
     ([Lit ''Reason''], [Lit ''Reason'']),
     ([Lit ''Delete access rule''], [Lit ''Delete access rule'']),
     ([Lit ''Add entry''], [Lit ''Add entry'']),
     ([Lit ''Create''], [Lit ''Create'']),
     ([Lit ''Network group''], [Lit ''Network group'']),
     ([Lit ''Select a group''], [Lit ''Select a group'']),
     ([Lit ''Manage access control''], [Lit ''Manage access control'']),
     ([Lit ''IP''], [Lit ''IP'']),
     ([Lit ''CIDR''], [Lit ''CIDR'']),
     ([Lit ''deny''], [Lit ''deny'']),
     ([Lit ''allow''], [Lit ''allow'']),
     ([Lit ''source''], [Lit ''source'']),
     ([Lit ''destination''], [Lit ''destination'']),
     ([Lit ''Search access groups''], [Lit ''Search name, entries, or id'']),
     ([Lit ''Search access rules''], [Lit ''Search node, group, reason, or id'']),
     ([Lit ''All types''], [Lit ''All types'']),
     ([Lit ''All groups''], [Lit ''All groups'']),
     ([Lit ''All modes''], [Lit ''All modes'']),
     ([Lit ''All directions''], [Lit ''All directions'']),
     ([Lit ''No matching access groups''], [Lit ''No matching access groups'']),
     ([Lit ''No access groups match the current filters.''], [Lit ''Try a different search or filter.'']),
     ([Lit ''No matching access rules''], [Lit ''No matching access rules'']),
     ([Lit ''No access rules match the current filters.''], [Lit ''Try a different search or filter.'']),
     ([Lit ''Showing '', Hole ''from'', Lit ''-'', Hole ''to'', Lit '' of '', Hole ''count''], [Lit ''Showing '', Hole ''from'', Lit ''-'', Hole ''to'', Lit '' of '', Hole ''count'']),
     ([Lit ''Named collections of IP addresses, CIDR ranges, and domains.''], [Lit ''Named collections of IP addresses, CIDR ranges, and domains.'']),
     ([Lit ''Bind an access group to selected nodes as a blacklist or whitelist.''], [Lit ''Bind an access group to selected nodes as a blacklist or whitelist.''])]"

definition messages_en_1443 :: dictionary where
  "messages_en_1443 =
    [([Lit ''Source blacklist''], [Lit ''Source blacklist'']),
     ([Lit ''Source blocking''], [Lit ''Source blocking'']),
     ([Lit ''Add source rule''], [Lit ''Add source rule'']),
     ([Lit ''Requests are allowed by default. Add an explicit source IP, network, or domain rule only when it should be blocked.''], [Lit ''Requests are allowed by default. Add an explicit source IP, network, or domain rule only when it should be blocked.'']),
     ([Lit ''Requests are allowed by default. Add an explicit source IP, network, or domain rule only when it should be blocked; the rule is applied with the next release.''], [Lit ''Requests are allowed by default. Add an explicit source IP, network, or domain rule only when it should be blocked; the rule is applied with the next release.'']),
     ([Lit ''Global rules apply to every site; site rules apply only to the selected site.''], [Lit ''Global rules apply to every site; site rules apply only to the selected site.'']),
     ([Hole ''count'', Lit '' source rules''], [Hole ''count'', Lit '' source rules'']),
     ([Lit ''Scope''], [Lit ''Scope'']),
     ([Lit ''Global''], [Lit ''Global'']),
     ([Lit ''All sites''], [Lit ''All sites'']),
     ([Lit ''Network''], [Lit ''Network'']),
     ([Lit ''network''], [Lit ''Network'']),
     ([Lit ''Select a site''], [Lit ''Select a site'']),
     ([Lit ''Delete source rule''], [Lit ''Delete source rule'']),
     ([Lit ''No source rules are blocking requests.''], [Lit ''No source rules are blocking requests.'']),
     ([Lit ''Block a source IP, network, or domain globally or for one site.''], [Lit ''Block a source IP, network, or domain globally or for one site.'']),
     ([Lit ''Remove source rule''], [Lit ''Remove source rule'']),
     ([Lit ''Remove '', Hole ''value'', Lit '' from the source blacklist. The change is released automatically.''], [Lit ''Remove '', Hole ''value'', Lit '' from the source blacklist. The change is released automatically.'']),
     ([Lit ''Remove '', Hole ''value'', Lit '' from the source blacklist. New releases will no longer block it.''], [Lit ''Remove '', Hole ''value'', Lit '' from the source blacklist. New releases will no longer block it.'']),
     ([Lit ''Find source address''], [Lit ''Find source address'']),
     ([Lit ''Manage source blacklist''], [Lit ''Manage source blacklist'']),
     ([Lit ''Source access is allowed by default. Use the returned address when you need to block a source for every site or one site.''], [Lit ''Source access is allowed by default. Use the returned address when you need to block a source for every site or one site.'']),
     ([Lit ''Collect the proxy source address, then add an explicit source blacklist rule.''], [Lit ''Collect the proxy source address, then add an explicit source blacklist rule.'']),
     ([Lit ''Regional edge sites and their enrolled nodes.''], [Lit ''Regional edge sites and their enrolled nodes.'']),
     ([Lit ''Create a configuration draft from a site workspace.''], [Lit ''Create a configuration draft from a site workspace.'']),
     ([Lit ''Effective source blacklist''], [Lit ''Effective source blacklist'']),
     ([Lit ''No source blacklist rules''], [Lit ''No source blacklist rules'']),
     ([Lit ''Bundle checks passed''], [Lit ''Bundle checks passed'']),
     ([Lit ''Site configuration changes require a release before nodes apply them.''], [Lit ''Site configuration changes require a release before nodes apply them.'']),
     ([Lit ''Configuration revision''], [Lit ''Configuration revision'']),
     ([Lit ''Block the proxy listener for '', Hole ''name'', Lit ''. This changes the desired configuration and requires a release to reach its edge nodes.''], [Lit ''Block the proxy listener for '', Hole ''name'', Lit ''. This changes the desired configuration and requires a release to reach its edge nodes.'']),
     ([Lit ''Change the display name for '', Hole ''name'', Lit ''. The site slug, configuration, and node bindings remain unchanged.''], [Lit ''Change the display name for '', Hole ''name'', Lit ''. The site slug, configuration, and node bindings remain unchanged.'']),
     ([Lit ''invalid_source_blacklist_pattern''], [Lit ''The source blacklist rule is invalid.'']),
     ([Lit ''source_blacklist_entry_exists''], [Lit ''That source blacklist rule already exists.'']),
     ([Lit ''source_blacklist_site_required''], [Lit ''Select a site for this rule.'']),
     ([Lit ''source_blacklist_global_site_forbidden''], [Lit ''A global rule cannot specify a site.'']),
     ([Lit ''source_blacklist_entry_not_found''], [Lit ''The source blacklist rule does not exist.'']),
     ([Lit ''source_blacklist_release_in_progress''], [Lit ''An affected site already has a release in progress. Wait for it to finish and try again.''])]"

definition messages_en_1572 :: dictionary where
  "messages_en_1572 =
    [([Lit ''Proxy configuration''], [Lit ''Proxy configuration'']),
     ([Lit ''Filter by site''], [Lit ''Filter by site'']),
     ([Lit ''All sites''], [Lit ''All sites'']),
     ([Hole ''count'', Lit '' regional snapshots''], [Hole ''count'', Lit '' regional snapshots'']),
     ([Lit ''Updated '', Hole ''date''], [Lit ''Updated '', Hole ''date'']),
     ([Lit ''No latency''], [Lit ''No latency'']),
     ([Lit ''Recent latency history''], [Lit ''Recent latency history'']),
     ([Lit ''Current''], [Lit ''Current'']),
     ([Hole ''count'', Lit '' endpoints''], [Hole ''count'', Lit '' endpoints'']),
     ([Lit ''Selected''], [Lit ''Selected'']),
     ([Lit ''No selection''], [Lit ''No selection'']),
     ([Hole ''count'', Lit '' groups''], [Hole ''count'', Lit '' groups'']),
     ([Lit ''Received '', Hole ''date''], [Lit ''Received '', Hole ''date'']),
     ([Lit ''Awaiting monitor data''], [Lit ''Awaiting monitor data'']),
     ([Lit ''No proxy groups reported.''], [Lit ''No proxy groups reported.'']),
     ([Lit ''Proxy API is unavailable.''], [Lit ''Proxy API is unavailable.'']),
     ([Lit ''clash_api_invalid_response''], [Lit ''The proxy API returned an invalid response.'']),
     ([Lit ''clash_api_unavailable''], [Lit ''The local proxy API is unavailable.'']),
     ([Lit ''The monitor has not reported a selectable group yet.''], [Lit ''The monitor has not reported a selectable group yet.'']),
     ([Lit ''The control plane will show the last successful snapshot when the monitor reconnects.''], [Lit ''The control plane will show the last successful snapshot when the monitor reconnects.'']),
     ([Lit ''No nodes enrolled.''], [Lit ''No nodes are enrolled.'']),
     ([Lit ''Enroll a regional monitor before viewing proxy groups.''], [Lit ''Enroll a regional monitor before viewing proxy groups.'']),
     ([Lit ''Selector''], [Lit ''Selector'']),
     ([Lit ''Fallback''], [Lit ''Fallback'']),
     ([Lit ''URL test''], [Lit ''URL test'']),
     ([Lit ''Direct''], [Lit ''Direct'']),
     ([Lit ''Reject''], [Lit ''Reject'']),
     ([Lit ''Trojan''], [Lit ''Trojan'']),
     ([Lit ''Shadowsocks''], [Lit ''Shadowsocks'']),
     ([Lit ''VMess''], [Lit ''VMess'']),
     ([Lit ''VLESS''], [Lit ''VLESS'']),
     ([Lit ''HTTP''], [Lit ''HTTP'']),
     ([Lit ''SOCKS5''], [Lit ''SOCKS5'']),
     ([Lit ''Read-only outbound groups reported by each regional monitor. Endpoint credentials and server details never leave the node.''], [Lit ''Read-only outbound groups reported by each regional monitor. Endpoint credentials and server details never leave the node.'']),
     ([Lit ''Snapshots are refreshed by monitors; selecting a node here does not change its live outbound.''], [Lit ''Snapshots are refreshed by monitors; selecting a node here does not change its live outbound.'']),
     ([Lit ''REGIONAL TOPOLOGY''], [Lit ''REGIONAL TOPOLOGY'']),
     ([Lit ''Unable to load proxy configuration.''], [Lit ''Unable to load proxy configuration.'']),
     ([Lit ''Rename node''], [Lit ''Rename node'']),
     ([Lit ''Rename node '', Hole ''name''], [Lit ''Rename node '', Hole ''name'']),
     ([Lit ''Change the display name for '', Hole ''name'', Lit ''. Node identity and site binding remain unchanged.''], [Lit ''Change the display name for '', Hole ''name'', Lit ''. Node identity and site binding remain unchanged.'']),
     ([Lit ''Display name''], [Lit ''Display name'']),
     ([Lit ''The node name could not be updated.''], [Lit ''The node name could not be updated.'']),
     ([Lit ''Saving...''], [Lit ''Saving...'']),
     ([Lit ''Save changes''], [Lit ''Save changes'']),
     ([Lit ''node_name_required''], [Lit ''Node name is required.'']),
     ([Lit ''node_name_too_long''], [Lit ''Node name is too long.''])]"

definition messages_en_1702 :: dictionary where
  "messages_en_1702 =
    [([Lit ''Showing last successful snapshot.''], [Lit ''Showing last successful snapshot.'']),
     ([Lit ''Rename site''], [Lit ''Rename site'']),
     ([Lit ''Rename site '', Hole ''name''], [Lit ''Rename site '', Hole ''name'']),
     ([Lit ''Change the display name for '', Hole ''name'', Lit ''. The site slug, policy, and node bindings remain unchanged.''], [Lit ''Change the display name for '', Hole ''name'', Lit ''. The site slug, policy, and node bindings remain unchanged.'']),
     ([Lit ''Site display name''], [Lit ''Site display name'']),
     ([Lit ''The site name could not be updated.''], [Lit ''The site name could not be updated.'']),
     ([Lit ''site_name_required''], [Lit ''Site name is required.'']),
     ([Lit ''site_name_too_long''], [Lit ''Site name is too long.'']),
     ([Lit ''Configure site proxy''], [Lit ''Configure site proxy'']),
     ([Lit ''Choose an immutable subscription version for '', Hole ''site'', Lit ''. The change creates a release and does not modify the node directly.''], [Lit ''Choose an immutable subscription version for '', Hole ''site'', Lit ''. The change creates a release and does not modify the node directly.'']),
     ([Lit ''DEPLOY TARGET''], [Lit ''DEPLOY TARGET'']),
     ([Lit ''Current site subscription''], [Lit ''Current site subscription'']),
     ([Lit ''Not configured''], [Lit ''Not configured'']),
     ([Lit ''Bound '', Hole ''date''], [Lit ''Bound '', Hole ''date'']),
     ([Lit ''Subscription source''], [Lit ''Subscription source'']),
     ([Lit ''Select a source''], [Lit ''Select a source'']),
     ([Lit ''Immutable version''], [Lit ''Immutable version'']),
     ([Lit ''Select a version''], [Lit ''Select a version'']),
     ([Lit ''Upload or add a subscription in Subscriptions before configuring this site.''], [Lit ''Upload or add a subscription in Subscriptions before configuring this site.'']),
     ([Lit ''Open subscriptions''], [Lit ''Open subscriptions'']),
     ([Lit ''No publishable versions''], [Lit ''No publishable versions'']),
     ([Lit ''Refresh or import this source in Subscriptions before configuring the site.''], [Lit ''Refresh or import this source in Subscriptions before configuring the site.'']),
     ([Lit ''The subscription release could not be created.''], [Lit ''The subscription release could not be created.'']),
     ([Lit ''Create release''], [Lit ''Create release'']),
     ([Lit ''Publish site proxy configuration''], [Lit ''Publish site proxy configuration'']),
     ([Lit ''Publish '', Hole ''version'', Lit '' to '', Hole ''site'', Lit ''. Nodes will validate and acknowledge the new outbound configuration independently.''], [Lit ''Publish '', Hole ''version'', Lit '' to '', Hole ''site'', Lit ''. Nodes will validate and acknowledge the new outbound configuration independently.'']),
     ([Lit ''Each region is shown once; configuration changes create a release for its enrolled nodes.''], [Lit ''Each region is shown once; configuration changes create a release for its enrolled nodes.'']),
     ([Lit ''Snapshots are refreshed by monitors. The configuration action below uses subscriptions and never changes a node directly.''], [Lit ''Snapshots are refreshed by monitors. The configuration action below uses subscriptions and never changes a node directly.'']),
     ([Lit ''No sites configured.''], [Lit ''No sites configured.'']),
     ([Lit ''Create a site before viewing regional proxy groups.''], [Lit ''Create a site before viewing regional proxy groups.'']),
     ([Lit ''subscription_version_required''], [Lit ''Select a publishable subscription version.''])]"

definition messages_en_1782 :: dictionary where
  "messages_en_1782 =
    [([Lit ''Employees''], [Lit ''Employees'']),
     ([Lit ''Local employee account inventory.''], [Lit ''Local employee account inventory.'']),
     ([Hole ''count'', Lit '' employees''], [Hole ''count'', Lit '' employees'']),
     ([Lit ''No employee accounts''], [Lit ''No employee accounts'']),
     ([Lit ''Registered employees appear here after completing GQuan verification.''], [Lit ''Registered employees appear here after completing GQuan verification.'']),
     ([Lit ''Employee''], [Lit ''Employee'']),
     ([Lit ''local''], [Lit ''local'']),
     ([Lit ''Authentication source''], [Lit ''Authentication source'']),
     ([Lit ''Last sign-in''], [Lit ''Last sign-in'']),
     ([Lit ''Password changed''], [Lit ''Password changed'']),
     ([Lit ''Unable to load employees.''], [Lit ''Unable to load employees.''])]"

definition messages_en_1862 :: dictionary where
  "messages_en_1862 =
    [([Lit ''Backups''], [Lit ''Backups'']),
     ([Lit ''Export JSON''], [Lit ''Export JSON'']),
     ([Lit ''Export NDJSON''], [Lit ''Export NDJSON'']),
     ([Lit ''Creating backup...''], [Lit ''Creating backup...'']),
     ([Lit ''Create backup''], [Lit ''Create backup'']),
     ([Lit ''Unable to load backups.''], [Lit ''Unable to load backups.'']),
     ([Lit ''The backup operation was not accepted.''], [Lit ''The backup operation was not accepted.'']),
     ([Lit ''Backups: '', Hole ''count''], [Lit ''Backups: '', Hole ''count'']),
     ([Lit ''Verified control-plane snapshots with a rehearsal-first restore workflow.''], [Lit ''Verified control-plane snapshots with a rehearsal-first restore workflow.'']),
     ([Lit ''Every archive includes a manifest and SHA-256 checksum.''], [Lit ''Every archive includes a manifest and SHA-256 checksum.'']),
     ([Lit ''Backup''], [Lit ''Backup'']),
     ([Lit ''Origin''], [Lit ''Origin'']),
     ([Lit ''Scope''], [Lit ''Scope'']),
     ([Lit ''Size''], [Lit ''Size'']),
     ([Lit ''Encryption''], [Lit ''Encryption'']),
     ([Lit ''Last rehearsal''], [Lit ''Last rehearsal'']),
     ([Lit ''Not rehearsed''], [Lit ''Not rehearsed'']),
     ([Lit ''Checksum''], [Lit ''Checksum'']),
     ([Lit ''Verify''], [Lit ''Verify'']),
     ([Lit ''No backups recorded''], [Lit ''No backups recorded'']),
     ([Lit ''Create a snapshot before a risky change or upgrade.''], [Lit ''Create a snapshot before a risky change or upgrade.'']),
     ([Lit ''Run restore rehearsal''], [Lit ''Run restore rehearsal'']),
     ([Lit ''Verify '', Hole ''backup'', Lit '' without changing live data. The task checks the archive manifest and collection hashes.''], [Lit ''Verify '', Hole ''backup'', Lit '' without changing live data. The task checks the archive manifest and collection hashes.'']),
     ([Lit ''Run rehearsal''], [Lit ''Run rehearsal'']),
     ([Lit ''Restore backup''], [Lit ''Restore backup'']),
     ([Lit ''Restore '', Hole ''backup'', Lit '' by upserting verified documents. Current task and backup records are preserved; newer documents are not deleted.''], [Lit ''Restore '', Hole ''backup'', Lit '' by upserting verified documents. Current task and backup records are preserved; newer documents are not deleted.'']),
     ([Lit ''control_plane''], [Lit ''Control plane'']),
     ([Lit ''manual''], [Lit ''Manual'']),
     ([Lit ''scheduled''], [Lit ''Scheduled'']),
     ([Lit ''verified''], [Lit ''Verified'']),
     ([Lit ''expired''], [Lit ''Expired'']),
     ([Lit ''planned''], [Lit ''planned'']),
     ([Lit ''restore queued''], [Lit ''restore queued'']),
     ([Lit ''rehearsed''], [Lit ''rehearsed'']),
     ([Lit ''restored''], [Lit ''restored'']),
     ([Lit ''backup failed''], [Lit ''backup failed'']),
     ([Lit ''backup_not_verified''], [Lit ''The backup has not been verified.'']),
     ([Lit ''backup_artifact_missing''], [Lit ''The backup artifact is missing.'']),
     ([Lit ''backup_checksum_mismatch''], [Lit ''The backup checksum does not match.'']),
     ([Lit ''backup_archive_invalid''], [Lit ''The backup archive is invalid.'']),
     ([Lit ''backup_manifest_invalid''], [Lit ''The backup manifest is invalid.'']),
     ([Lit ''backup_collection_too_large''], [Lit ''A collection archive member exceeded its size limit.'']),
     ([Lit ''backup_document_too_large''], [Lit ''A document exceeded the archive member size limit.'']),
     ([Lit ''backup_member_too_large''], [Lit ''A backup archive member exceeded its size limit.'']),
     ([Lit ''backup_archive_too_large''], [Lit ''The expanded backup archive exceeded its size limit.'']),
     ([Lit ''backup_encryption_required''], [Lit ''A backup encryption key is required in production.'']),
     ([Lit ''backup_encryption_key_missing''], [Lit ''The backup encryption key is missing.'']),
     ([Lit ''backup_openssl_unavailable''], [Lit ''OpenSSL is unavailable for encrypted backups.'']),
     ([Lit ''backup_write_failed''], [Lit ''The backup archive could not be written.'']),
     ([Lit ''backup_operation_failed''], [Lit ''The backup task failed.'']),
     ([Lit ''audit_export_format_invalid''], [Lit ''The audit export format is invalid.''])]"

definition messages_en_1975 :: dictionary where
  "messages_en_1975 =
    [([Lit ''Proxy connection details and the rendered Linux setup script.''], [Lit ''Proxy connection details and the rendered Linux setup script.'']),
     ([Lit ''Transport''], [Lit ''Transport'']),
     ([Lit ''release_in_progress''], [Lit ''A configuration release is already in progress for this site.'']),
     ([Lit ''request_failed''], [Lit ''The request could not be completed.''])]"

definition messages_en_2012 :: dictionary where
  "messages_en_2012 =
    [([Lit ''Choose a site''], [Lit ''Choose a site'']),
     ([Lit ''Choose a node''], [Lit ''Choose a node'']),
     ([Lit ''SITE''], [Lit ''SITE'']),
     ([Lit ''NODE''], [Lit ''NODE'']),
     ([Lit ''No site selected''], [Lit ''No site selected'']),
     ([Lit ''A selection is released through the monitor ACK workflow.''], [Lit ''A selection is released through the monitor ACK workflow.'']),
     ([Lit ''Choose an outbound below. The selection creates a node release and is applied by its monitor.''], [Lit ''Choose an outbound below. The selection creates a node release and is applied by its monitor.'']),
     ([Lit ''Select '', Hole ''name''], [Lit ''Select '', Hole ''name'']),
     ([Lit ''Switch proxy service''], [Lit ''Switch proxy service'']),
     ([Lit ''Set '', Hole ''node'', Lit '' to use '', Hole ''outbound'', Lit '' in '', Hole ''group'', Lit ''. This creates a node release; the monitor applies it after validation and health checks.''], [Lit ''Set '', Hole ''node'', Lit '' to use '', Hole ''outbound'', Lit '' in '', Hole ''group'', Lit ''. This creates a node release; the monitor applies it after validation and health checks.'']),
     ([Lit ''The proxy selection could not be released.''], [Lit ''The proxy selection could not be released.'']),
     ([Lit ''Release queued for '', Hole ''node'', Lit ''.''], [Lit ''Release queued for '', Hole ''node'', Lit ''.'']),
     ([Lit ''proxy_snapshot_not_found''], [Lit ''The node has not reported a proxy snapshot.'']),
     ([Lit ''proxy_group_not_found''], [Lit ''The proxy group does not exist or was removed from the snapshot.'']),
     ([Lit ''proxy_outbound_not_found''], [Lit ''The selected proxy service does not exist or was removed from the snapshot.'']),
     ([Lit ''proxy_group_not_selectable''], [Lit ''The proxy group has no selectable services.'']),
     ([Lit ''release_idempotency_incomplete''], [Lit ''The release request is still being processed. Refresh and try again shortly.'']),
     ([Lit ''Inspect a site and node, then choose the outbound service that its monitor should apply.''], [Lit ''Inspect a site and node, then choose the outbound service that its monitor should apply.'']),
     ([Hole ''count'', Lit '' sites''], [Hole ''count'', Lit '' sites'']),
     ([Hole ''count'', Lit '' nodes''], [Hole ''count'', Lit '' nodes'']),
     ([Lit ''sites''], [Lit ''sites'']),
     ([Lit ''nodes''], [Lit ''nodes''])]"

definition messages_en_2080 :: dictionary where
  "messages_en_2080 =
    [([Lit ''auth failed''], [Lit ''Authentication failed'']),
     ([Lit ''Outbound services''], [Lit ''Outbound services'']),
     ([Hole ''count'', Lit '' services''], [Hole ''count'', Lit '' services'']),
     ([Lit ''Active service''], [Lit ''Active service'']),
     ([Lit ''No outbound services reported.''], [Lit ''No outbound services reported.'']),
     ([Lit ''The monitor has not reported its subscription selector yet.''], [Lit ''The monitor has not reported its subscription selector yet.'']),
     ([Lit ''Enroll a regional monitor before choosing an outbound service.''], [Lit ''Enroll a regional monitor before choosing an outbound service.'']),
     ([Lit ''Set '', Hole ''node'', Lit '' to use '', Hole ''outbound'', Lit ''. This creates a node release; the monitor applies it after validation and health checks.''], [Lit ''Set '', Hole ''node'', Lit '' to use '', Hole ''outbound'', Lit ''. This creates a node release; the monitor applies it after validation and health checks.'']),
     ([Lit ''PROXY GROUP''], [Lit ''PROXY GROUP'']),
     ([Lit ''Proxy groups''], [Lit ''Proxy groups'']),
     ([Lit ''Choose a proxy group''], [Lit ''Choose a proxy group'']),
     ([Lit ''Search proxy services''], [Lit ''Search proxy services'']),
     ([Lit ''Filter proxy state''], [Lit ''Filter proxy state'']),
     ([Lit ''All endpoint states''], [Lit ''All endpoint states'']),
     ([Hole ''count'', Lit '' of '', Hole ''total'', Lit '' shown''], [Hole ''count'', Lit '' of '', Hole ''total'', Lit '' shown'']),
     ([Lit ''No matching proxy services''], [Lit ''No matching proxy services'']),
     ([Lit ''Try another name or state filter.''], [Lit ''Try another name or state filter.''])]"

definition messages_en_2133 :: dictionary where
  "messages_en_2133 =
    [([Lit ''Recent releases''], [Lit ''Recent releases'']),
     ([Lit ''Review desired state, node ACKs, and the path from draft to applied configuration.''], [Lit ''Review desired state, node ACKs, and the path from draft to applied configuration.'']),
     ([Hole ''count'', Lit '' releases''], [Hole ''count'', Lit '' releases'']),
     ([Lit ''Filter releases''], [Lit ''Filter releases'']),
     ([Hole ''count'', Lit '' shown''], [Hole ''count'', Lit '' shown'']),
     ([Lit ''Time range''], [Lit ''Time range'']),
     ([Lit ''Last 24 hours''], [Lit ''Last 24 hours'']),
     ([Lit ''Last 7 days''], [Lit ''Last 7 days'']),
     ([Lit ''Last 30 days''], [Lit ''Last 30 days'']),
     ([Lit ''All time''], [Lit ''All time'']),
     ([Lit ''Release history''], [Lit ''Release history'']),
     ([Lit ''The release could not be created.''], [Lit ''The release could not be created.''])]"

definition messages_en_2191 :: dictionary where
  "messages_en_2191 =
    [([Lit ''Release ID''], [Lit ''Release ID'']),
     ([Lit ''Target release''], [Lit ''Target release'']),
     ([Lit ''Target nodes''], [Lit ''Target nodes'']),
     ([Lit ''Desired version v'', Hole ''version''], [Lit ''Desired version v'', Hole ''version'']),
     ([Hole ''count'', Lit '' acknowledged''], [Hole ''count'', Lit '' acknowledged'']),
     ([Lit ''Elapsed''], [Lit ''Elapsed'']),
     ([Lit ''Finished '', Hole ''date''], [Lit ''Finished '', Hole ''date'']),
     ([Lit ''Finished''], [Lit ''Finished'']),
     ([Lit ''Started '', Hole ''date''], [Lit ''Started '', Hole ''date'']),
     ([Lit ''Not started''], [Lit ''Not started'']),
     ([Lit ''Desired v'', Hole ''version''], [Lit ''Desired v'', Hole ''version'']),
     ([Lit ''Applied v'', Hole ''version''], [Lit ''Applied v'', Hole ''version'']),
     ([Lit ''ACKs''], [Lit ''ACKs'']),
     ([Lit ''Health''], [Lit ''Health'']),
     ([Lit ''Bundle''], [Lit ''Bundle'']),
     ([Lit ''Rollback applied''], [Lit ''Rollback applied'']),
     ([Lit ''Rollback failed''], [Lit ''Rollback failed'']),
     ([Lit ''Node reported an error''], [Lit ''Node reported an error'']),
     ([Lit ''COORDINATION''], [Lit ''COORDINATION'']),
     ([Lit ''Release summary''], [Lit ''Release summary'']),
     ([Lit ''Desired state created''], [Lit ''Desired state created'']),
     ([Lit ''Bundle and policy checks passed''], [Lit ''Bundle and policy checks passed'']),
     ([Lit ''Waiting for the monitor''], [Lit ''Waiting for the monitor'']),
     ([Lit ''Monitor is applying the bundle''], [Lit ''Monitor is applying the bundle'']),
     ([Lit ''Verifying services and firewall''], [Lit ''Verifying services and firewall'']),
     ([Lit ''All targeted nodes acknowledged''], [Lit ''All targeted nodes acknowledged''])]"

definition messages_en_2262 :: dictionary where
  "messages_en_2262 =
    [([Lit ''one_or_more_nodes_failed''], [Lit ''One or more nodes failed to apply the configuration.'']),
     ([Lit ''single_node_invalid_uri''], [Lit ''The single-node URI is invalid.'']),
     ([Lit ''single_node_invalid_vmess''], [Lit ''The VMess Base64 JSON payload is invalid.'']),
     ([Lit ''single_node_invalid_uuid''], [Lit ''The VMess/VLESS UUID is invalid.'']),
     ([Lit ''single_node_invalid_port''], [Lit ''The single-node port is invalid.'']),
     ([Lit ''single_node_invalid_host''], [Lit ''The single-node server address is invalid.'']),
     ([Lit ''single_node_invalid_parameters''], [Lit ''The single-node parameters are invalid.'']),
     ([Lit ''single_node_parameter_unsupported''], [Lit ''The single-node URI contains unsupported parameters.'']),
     ([Lit ''single_node_transport_unsupported''], [Lit ''The single-node transport is not supported.'']),
     ([Lit ''single_node_security_unsupported''], [Lit ''The single-node security mode is not supported.'']),
     ([Lit ''single_node_too_large''], [Lit ''The single-node payload exceeds the size limit.'']),
     ([Lit ''proxy_outbound_not_found''], [Lit ''The selected outbound no longer exists; the first current outbound will be used.''])]"

definition messages_en_2347 :: dictionary where
  "messages_en_2347 =
    [([Lit ''CONNECTION''], [Lit ''CONNECTION'']),
     ([Lit ''Proxy endpoint''], [Lit ''Proxy endpoint'']),
     ([Lit ''Protocol''], [Lit ''Protocol'']),
     ([Lit ''Endpoint''], [Lit ''Endpoint'']),
     ([Lit ''One-line shell configuration''], [Lit ''One-line shell configuration'']),
     ([Lit ''Apply the proxy to the current shell and all child processes.''], [Lit ''Apply the proxy to the current shell and all child processes.'']),
     ([Lit ''Enable proxy script''], [Lit ''Enable proxy script'']),
     ([Lit ''Source this script into the current shell to enable HTTP CONNECT. Direct execution cannot change the parent shell.''], [Lit ''Source this script into the current shell to enable HTTP CONNECT. Direct execution cannot change the parent shell.'']),
     ([Lit ''Disable proxy script''], [Lit ''Disable proxy script'']),
     ([Lit ''Source this script into the current shell to remove Grouproxy variables without changing unrelated settings.''], [Lit ''Source this script into the current shell to remove Grouproxy variables without changing unrelated settings.'']),
     ([Lit ''Proxy test script''], [Lit ''Proxy test script'']),
     ([Lit ''Automatic proxy configuration (PAC)''], [Lit ''Automatic proxy configuration (PAC)'']),
     ([Lit ''Managed Linux setup script''], [Lit ''Managed Linux setup script'']),
     ([Lit ''OPERATIONS RUNBOOK''], [Lit ''OPERATIONS RUNBOOK'']),
     ([Lit ''Proxy access guide''], [Lit ''Proxy access guide'']),
     ([Lit ''HOW IT WORKS''], [Lit ''HOW IT WORKS'']),
     ([Lit ''Operating notes''], [Lit ''Operating notes'']),
     ([Lit ''View source''], [Lit ''View source'']),
     ([Lit ''Version source''], [Lit ''Version source'']),
     ([Lit ''Version source v'', Hole ''version''], [Lit ''Version source v'', Hole ''version'']),
     ([Lit ''No source content''], [Lit ''No source content'']),
     ([Lit ''Unable to load source content.''], [Lit ''Unable to load source content.'']),
     ([Lit ''Unable to copy source content.''], [Lit ''Unable to copy source content.'']),
     ([Lit ''Choose one or more sites to create a release. No sites are selected by default.''], [Lit ''Choose one or more sites to create a release. No sites are selected by default.'']),
     ([Lit ''SELECTED SITE''], [Lit ''SELECTED SITE'']),
     ([Lit ''Select a site in the topology to inspect its nodes.''], [Lit ''Select a site in the topology to inspect its nodes.'']),
     ([Lit ''In sync''], [Lit ''In sync'']),
     ([Lit ''Stage''], [Lit ''Stage'']),
     ([Lit ''Started''], [Lit ''Started'']),
     ([Lit ''Desired release''], [Lit ''Desired release'']),
     ([Lit ''Failure details''], [Lit ''Failure details'']),
     ([Lit ''Identifiers, timings, and node outcomes''], [Lit ''Identifiers, timings, and node outcomes'']),
     ([Lit ''Release summary''], [Lit ''Release summary'']),
     ([Lit ''Add source''], [Lit ''Add source'']),
     ([Lit ''VLESS Reality Vision''], [Lit ''VLESS Reality Vision'']),
     ([Lit ''Name (optional)''], [Lit ''Name (optional)'']),
     ([Lit ''Audit event reports an error''], [Lit ''Audit event reports an error'']),
     ([Lit ''Audit verification failed''], [Lit ''Audit verification failed'']),
     ([Lit ''CONTROL PLANE''], [Lit ''CONTROL PLANE'']),
     ([Lit ''Export failed''], [Lit ''Export failed'']),
     ([Lit ''Node reports an error''], [Lit ''Node reports an error'']),
     ([Lit ''Operation failed''], [Lit ''Operation failed'']),
     ([Lit ''Proxy snapshot warning''], [Lit ''Proxy snapshot warning'']),
     ([Lit ''Refresh failed''], [Lit ''Refresh failed'']),
     ([Lit ''Sign in failed''], [Lit ''Sign in failed''])]"

definition messages_en_2497 :: dictionary where
  "messages_en_2497 =
    [([Lit ''ACCESS GUIDE''], [Lit ''ACCESS GUIDE'']),
     ([Lit ''Proxy access''], [Lit ''Proxy access'']),
     ([Lit ''Test environment''], [Lit ''Test environment'']),
     ([Lit ''Production environment''], [Lit ''Production environment'']),
     ([Lit ''Configure the Grouproxy HTTP CONNECT endpoint on a workstation, verify the route, and return to a direct connection when finished.''], [Lit ''Configure the Grouproxy HTTP CONNECT endpoint on a workstation, verify the route, and return to a direct connection when finished.'']),
     ([Lit ''OVERVIEW''], [Lit ''OVERVIEW'']),
     ([Lit ''QUICK START''], [Lit ''QUICK START'']),
     ([Lit ''WINDOWS''], [Lit ''WINDOWS'']),
     ([Lit ''MACOS''], [Lit ''MACOS'']),
     ([Lit ''LINUX''], [Lit ''LINUX'']),
     ([Lit ''VERIFY''], [Lit ''VERIFY'']),
     ([Lit ''NOTES''], [Lit ''NOTES'']),
     ([Lit ''Proxy endpoint''], [Lit ''Proxy endpoint'']),
     ([Lit ''The proxy service is exposed directly on port 3128. Dashboard access is separate and does not require an NGINX forwarding layer.''], [Lit ''The proxy service is exposed directly on port 3128. Dashboard access is separate and does not require an NGINX forwarding layer.'']),
     ([Lit ''HTTP CONNECT''], [Lit ''HTTP CONNECT'']),
     ([Lit ''Environment''], [Lit ''Environment'']),
     ([Lit ''Port''], [Lit ''Port'']),
     ([Lit ''Configure a shell in one line''], [Lit ''Configure a shell in one line'']),
     ([Lit ''The variables apply to this terminal and the processes started from it.''], [Lit ''The variables apply to this terminal and the processes started from it.'']),
     ([Lit ''Paste the command into a new terminal.''], [Lit ''Paste the command into a new terminal.'']),
     ([Lit ''Run the verification command below before opening applications.''], [Lit ''Run the verification command below before opening applications.'']),
     ([Lit ''Close the terminal or run the disable command to return to direct access.''], [Lit ''Close the terminal or run the disable command to return to direct access.'']),
     ([Lit ''Windows one-click setup''], [Lit ''Windows one-click setup'']),
     ([Lit ''The pre-generated PowerShell asset configures the current Windows user and keeps a backup for a reversible disable operation.''], [Lit ''The pre-generated PowerShell asset configures the current Windows user and keeps a backup for a reversible disable operation.'']),
     ([Lit ''Download ready''], [Lit ''Download ready'']),
     ([Lit ''Download the script, then open PowerShell in its download folder.''], [Lit ''Download the script, then open PowerShell in its download folder.'']),
     ([Lit ''macOS shortcut''], [Lit ''macOS shortcut'']),
     ([Lit ''Download the shortcut, import it into the Shortcuts app, and run it.''], [Lit ''Download the shortcut, import it into the Shortcuts app, and run it.'']),
     ([Lit ''This macOS shortcut is in development.''], [Lit ''This macOS shortcut is in development.'']),
     ([Lit ''Feature in development''], [Lit ''Feature in development'']),
     ([Lit ''Get shortcut''], [Lit ''Get shortcut'']),
     ([Lit ''Opens Apple Shortcuts in a new tab.''], [Lit ''Opens Apple Shortcuts in a new tab.'']),
     ([Lit ''Review the actions and add the shortcut to the Shortcuts app.''], [Lit ''Review the actions and add the shortcut to the Shortcuts app.'']),
     ([Lit ''Run it from Shortcuts and follow the prompts shown by macOS.''], [Lit ''Run it from Shortcuts and follow the prompts shown by macOS.'']),
     ([Lit ''Linux desktop and shell setup''], [Lit ''Linux desktop and shell setup'']),
     ([Lit ''The repository-provided script configures shell variables and GNOME or KDE settings when available.''], [Lit ''The repository-provided script configures shell variables and GNOME or KDE settings when available.'']),
     ([Lit ''Download the script and make it executable.''], [Lit ''Download the script and make it executable.'']),
     ([Lit ''Run it as the current user for shell and desktop settings.''], [Lit ''Run it as the current user for shell and desktop settings.'']),
     ([Lit ''Test the actual proxy route''], [Lit ''Test the actual proxy route'']),
     ([Lit ''These commands make a real HTTPS request through HTTP CONNECT and show the proxy exit address.''], [Lit ''These commands make a real HTTPS request through HTTP CONNECT and show the proxy exit address.'']),
     ([Lit ''Download PAC file''], [Lit ''Download PAC file'']),
     ([Lit ''The proxy is HTTP CONNECT on TCP 3128; HTTPS destinations remain encrypted end-to-end.''], [Lit ''The proxy is HTTP CONNECT on TCP 3128; HTTPS destinations remain encrypted end-to-end.'']),
     ([Lit ''The endpoint has no proxy authentication layer. Network policy and site CIDRs control access.''], [Lit ''The endpoint has no proxy authentication layer. Network policy and site CIDRs control access.'']),
     ([Lit ''Existing applications may need to be restarted after enabling or disabling environment variables.''], [Lit ''Existing applications may need to be restarted after enabling or disabling environment variables.'']),
     ([Lit ''Enable proxy script''], [Lit ''Enable proxy script'']),
     ([Lit ''Disable proxy script''], [Lit ''Disable proxy script'']),
     ([Lit ''Linux enable''], [Lit ''Linux enable'']),
     ([Lit ''Linux disable''], [Lit ''Linux disable'']),
     ([Lit ''clipboard_unavailable''], [Lit ''The browser did not allow copying. Select the text and copy it manually.'']),
     ([Lit ''On this page''], [Lit ''On this page'']),
     ([Lit ''Overview''], [Lit ''Overview'']),
     ([Lit ''Quick start''], [Lit ''Quick start'']),
     ([Lit ''Verification''], [Lit ''Verification'']),
     ([Lit ''Notes''], [Lit ''Notes''])]"

definition messages_en_2648 :: dictionary where
  "messages_en_2648 =
    [([Lit ''Connect your workstation, verify the route, and maintain source access from one place.''], [Lit ''Connect your workstation, verify the route, and maintain source access from one place.'']),
     ([Lit ''Choose an operating system and use the shortest supported setup path.''], [Lit ''Choose an operating system and use the shortest supported setup path.'']),
     ([Lit ''Windows''], [Lit ''Windows'']),
     ([Lit ''macOS''], [Lit ''macOS'']),
     ([Lit ''Linux''], [Lit ''Linux'']),
     ([Lit ''Use the downloaded script to turn the current user's Windows system proxy on or off.''], [Lit ''Use the downloaded script to turn the current user's Windows system proxy on or off.'']),
     ([Lit ''Shortcut links are placeholders until the macOS workflows are published.''], [Lit ''Shortcut links are placeholders until the macOS workflows are published.'']),
     ([Lit ''Download the setup script and run it as the current user.''], [Lit ''Download the setup script and run it as the current user.'']),
     ([Lit ''Testing and validation''], [Lit ''Testing and validation'']),
     ([Lit ''Allowlist''], [Lit ''Allowlist'']),
     ([Lit ''Confirm the listener and proxy route, then use the returned address to maintain source access.''], [Lit ''Confirm the listener and proxy route, then use the returned address to maintain source access.'']),
     ([Lit ''Check the listener and return the address seen through the proxy.''], [Lit ''Check the listener and return the address seen through the proxy.'']),
     ([Lit ''Manage source CIDRs''], [Lit ''Manage source CIDRs'']),
     ([Lit ''Use the returned address to locate or add the matching source CIDR.''], [Lit ''Use the returned address to locate or add the matching source CIDR.'']),
     ([Lit ''Shortcut links are placeholders for the test and production workflows.''], [Lit ''Shortcut links are placeholders for the test and production workflows.'']),
     ([Lit ''Collect the proxy source address, then open site policy to maintain the allowlist.''], [Lit ''Collect the proxy source address, then open site policy to maintain the allowlist.'']),
     ([Lit ''Connect your workstation, verify the route, and use reusable setup scripts from one place.''], [Lit ''Connect your workstation, verify the route, and use reusable setup scripts from one place.'']),
     ([Lit ''Set proxy variables for the current shell.''], [Lit ''Set proxy variables for the current shell.'']),
     ([Lit ''These variables apply to the current shell and its child processes.''], [Lit ''These variables apply to the current shell and its child processes.'']),
     ([Lit ''Set the current user's Windows system proxy directly.''], [Lit ''Set the current user's Windows system proxy directly.'']),
     ([Lit ''Set ProxyEnable to 0 in the same location to turn the proxy off.''], [Lit ''Set ProxyEnable to 0 in the same location to turn the proxy off.'']),
     ([Lit ''Confirm the listener and the actual HTTP CONNECT route.''], [Lit ''Confirm the listener and the actual HTTP CONNECT route.'']),
     ([Lit ''Check the listener and verify traffic reaches the network through the proxy.''], [Lit ''Check the listener and verify traffic reaches the network through the proxy.'']),
     ([Lit ''Reusable scripts''], [Lit ''Reusable scripts'']),
     ([Lit ''Download a ready-made script when persistent setup or a quick reset is needed.''], [Lit ''Download a ready-made script when persistent setup or a quick reset is needed.'']),
     ([Lit ''Apply shell and desktop settings, or remove only Grouproxy-managed settings.''], [Lit ''Apply shell and desktop settings, or remove only Grouproxy-managed settings.'']),
     ([Lit ''Switch the current user's system proxy on or off with the reusable script.''], [Lit ''Switch the current user's system proxy on or off with the reusable script.'']),
     ([Lit ''Reusable setup script''], [Lit ''Reusable setup script'']),
     ([Lit ''Bash script''], [Lit ''Bash script'']),
     ([Lit ''PowerShell script''], [Lit ''PowerShell script'']),
     ([Lit ''grouproxy-linux-setup.sh''], [Lit ''grouproxy-linux-setup.sh'']),
     ([Lit ''grouproxy-windows-setup.ps1''], [Lit ''grouproxy-windows-setup.ps1'']),
     ([Lit ''Download the script once, then run the same file whenever you need to switch the proxy on or off.''], [Lit ''Download the script once, then run the same file whenever you need to switch the proxy on or off.'']),
     ([Lit ''Toggle proxy settings for the current user without command-line parameters.''], [Lit ''Toggle proxy settings for the current user without command-line parameters.'']),
     ([Lit ''After downloading, make the file executable and run it. Each run checks the current proxy state and switches it to the opposite state; then reopen the terminal and affected applications.''], [Lit ''After downloading, make the file executable and run it. Each run checks the current proxy state and switches it to the opposite state; then reopen the terminal and affected applications.'']),
     ([Lit ''After downloading, run it directly from PowerShell. Each run checks the current proxy state and switches it to the opposite state; then restart affected applications.''], [Lit ''After downloading, run it directly from PowerShell. Each run checks the current proxy state and switches it to the opposite state; then restart affected applications.''])]"

definition messages_en_2738 :: dictionary where
  "messages_en_2738 =
    [([Lit ''Temporarily allow a source CIDR or IP for every site.''], [Lit ''Temporarily allow a source CIDR or IP for every site.'']),
     ([Lit ''Block a domain, IP address, or CIDR in every generated bundle.''], [Lit ''Block a domain, IP address, or CIDR in every generated bundle.'']),
     ([Lit ''Add a source network to this site's access boundary.''], [Lit ''Add a source network to this site's access boundary.'']),
     ([Lit ''Wrap lines''], [Lit ''Wrap lines'']),
     ([Lit ''No wrap''], [Lit ''No wrap'']),
     ([Lit ''Queued and running releases''], [Lit ''Queued and running releases'']),
     ([Lit ''Source content''], [Lit ''Source content'']),
     ([Lit ''Continue''], [Lit ''Continue'']),
     ([Lit ''Choose a subscription site connection or paste one VLESS / VMess node.''], [Lit ''Choose a subscription site connection or paste one VLESS / VMess node.'']),
     ([Lit ''Review the selected source and choose one or more deployment sites.''], [Lit ''Review the selected source and choose one or more deployment sites.''])]"

definition messages_en_2827 :: dictionary where
  "messages_en_2827 =
    [([Lit ''Host name''], [Lit ''Host name'']),
     ([Lit '', then run''], [Lit '', then run'']),
     ([Lit ''Connection behavior''], [Lit ''Connection behavior'']),
     ([Lit ''Keep these details in mind when troubleshooting workstation access.''], [Lit ''Keep these details in mind when troubleshooting workstation access.'']),
     ([Lit ''Unable to load nodes.''], [Lit ''Unable to load nodes.'']),
     ([Lit ''Operation completed''], [Lit ''Operation completed'']),
     ([Lit ''The operation could not be completed.''], [Lit ''The operation could not be completed.'']),
     ([Lit ''Dismiss notification''], [Lit ''Dismiss notification'']),
     ([Lit ''Unable to copy.''], [Lit ''Unable to copy.'']),
     ([Lit ''Version flow''], [Lit ''Version flow'']),
     ([Lit ''Diff view''], [Lit ''Diff view'']),
     ([Lit ''The structured configuration diff is available from the draft workspace.''], [Lit ''The structured configuration diff is available from the draft workspace.'']),
     ([Lit ''Config diff''], [Lit ''Config diff'']),
     ([Lit ''Republish''], [Lit ''Republish'']),
     ([Lit ''Republish from the original draft to preserve release history.''], [Lit ''Republish from the original draft to preserve release history.'']),
     ([Lit ''Rollback history''], [Lit ''Rollback history'']),
     ([Lit ''Choose a previous release from the release history list.''], [Lit ''Choose a previous release from the release history list.'']),
     ([Lit ''ACK rate''], [Lit ''ACK rate'']),
     ([Hole ''value'', Lit ''% acknowledged''], [Hole ''value'', Lit ''% acknowledged'']),
     ([Lit ''Target nodes acknowledged''], [Lit ''Target nodes acknowledged'']),
     ([Lit ''Target bundle hash''], [Lit ''Target bundle hash'']),
     ([Lit ''Desired release bundle''], [Lit ''Desired release bundle'']),
     ([Lit ''Core component status''], [Lit ''Core component status'']),
     ([Lit ''Healthy''], [Lit ''Healthy'']),
     ([Lit ''health probe''], [Lit ''health probe'']),
     ([Lit ''Completed at''], [Lit ''Completed at'']),
     ([Lit ''In progress''], [Lit ''In progress'']),
     ([Lit ''Release completed''], [Lit ''Release completed'']),
     ([Lit ''Awaiting final ACK''], [Lit ''Awaiting final ACK'']),
     ([Lit ''Nodes and probes''], [Lit ''Nodes and probes'']),
     ([Lit ''Full trace''], [Lit ''Full trace'']),
     ([Lit ''Live coordination''], [Lit ''Live coordination'']),
     ([Lit ''Target node''], [Lit ''Target node'']),
     ([Lit ''Version state''], [Lit ''Version state'']),
     ([Lit ''Component checks''], [Lit ''Component checks'']),
     ([Lit ''ACK''], [Lit ''ACK'']),
     ([Lit ''Applied''], [Lit ''Applied'']),
     ([Lit ''Desired''], [Lit ''Desired'']),
     ([Lit ''Node execution and probe trace''], [Lit ''Node execution and probe trace'']),
     ([Lit ''Waiting for execution events...''], [Lit ''Waiting for execution events...'']),
     ([Lit ''Task ID''], [Lit ''Task ID'']),
     ([Lit ''Baseline''], [Lit ''Baseline'']),
     ([Lit ''Coordination''], [Lit ''Coordination'']),
     ([Lit ''Converged''], [Lit ''Converged'']),
     ([Lit ''Trigger''], [Lit ''Trigger'']),
     ([Lit ''Manual''], [Lit ''Manual'']),
     ([Lit ''Add a subscription site or a single node.''], [Lit ''Add a subscription site or a single node.'']),
     ([Lit ''Deployment sites''], [Lit ''Deployment sites'']),
     ([Lit ''archived''], [Lit ''Archived'']),
     ([Lit ''pass''], [Lit ''pass'']),
     ([Lit ''fail''], [Lit ''fail'']),
     ([Lit ''Release '', Hole ''releaseId'', Lit '' created for '', Hole ''count'', Lit '' nodes.''], [Lit ''Release '', Hole ''releaseId'', Lit '' created for '', Hole ''count'', Lit '' nodes.'']),
     ([Lit ''Task '', Hole ''taskId'', Lit '' entered '', Hole ''status'', Lit '' state.''], [Lit ''Task '', Hole ''taskId'', Lit '' entered '', Hole ''status'', Lit '' state.'']),
     ([Lit ''Node acknowledgement received: '', Hole ''stage'', Lit ''; sing-box='', Hole ''singbox'', Lit '', nftables='', Hole ''nftables'', Lit '', health='', Hole ''health'', Lit ''.''], [Lit ''Node acknowledgement received: '', Hole ''stage'', Lit ''; sing-box='', Hole ''singbox'', Lit '', nftables='', Hole ''nftables'', Lit '', health='', Hole ''health'', Lit ''.'']),
     ([Lit ''Release completed with status '', Hole ''status'', Lit ''.''], [Lit ''Release completed with status '', Hole ''status'', Lit ''.'']),
     ([Lit ''Release orchestrator''], [Lit ''Release orchestrator'']),
     ([Lit ''Task worker''], [Lit ''Task worker'']),
     ([Lit ''Release coordinator''], [Lit ''Release coordinator'']),
     ([Lit ''Node agent: '', Hole ''node''], [Lit ''Node agent: '', Hole ''node''])]"

definition messages_en_3039 :: dictionary where
  "messages_en_3039 =
    [([Lit ''success''], [Lit ''Success'']),
     ([Lit ''cancelled''], [Lit ''Cancelled'']),
     ([Lit ''dead_letter''], [Lit ''Dead letter'']),
     ([Lit ''retry_scheduled''], [Lit ''Retry scheduled'']),
     ([Lit ''probing''], [Lit ''Probing'']),
     ([Lit ''unknown''], [Lit ''Unknown'']),
     ([Lit ''not_configured''], [Lit ''Not configured'']),
     ([Lit ''probe_failed''], [Lit ''Probe failed'']),
     ([Lit ''proxy_config_unavailable''], [Lit ''Proxy configuration is unavailable'']),
     ([Lit ''half_open_probe_failed''], [Lit ''Half-open recovery probe failed'']),
     ([Lit ''failure_threshold''], [Lit ''Failure threshold reached'']),
     ([Lit ''cooldown_elapsed''], [Lit ''Cooldown elapsed'']),
     ([Lit ''recovery_success_threshold''], [Lit ''Recovery success threshold reached'']),
     ([Lit ''refresh_failed''], [Lit ''Refresh failed'']),
     ([Lit ''apply_failed''], [Lit ''Apply failed'']),
     ([Lit ''rollback_failed''], [Lit ''Rollback failed'']),
     ([Lit ''config.publish''], [Lit ''Publish configuration'']),
     ([Lit ''subscription.refresh''], [Lit ''Refresh subscription'']),
     ([Lit ''node.probe''], [Lit ''Probe node'']),
     ([Lit ''backup.create''], [Lit ''Create backup'']),
     ([Lit ''backup.restore''], [Lit ''Restore backup'']),
     ([Lit ''auth.verification.request''], [Lit ''Request verification code'']),
     ([Lit ''auth.register''], [Lit ''Register account'']),
     ([Lit ''auth.password.change''], [Lit ''Change password'']),
     ([Lit ''auth.login.password''], [Lit ''Sign in with password'']),
     ([Lit ''auth.login.gquan''], [Lit ''Sign in with GQuan'']),
     ([Lit ''auth.logout''], [Lit ''Sign out'']),
     ([Lit ''site.rename''], [Lit ''Rename site'']),
     ([Lit ''site.shutdown''], [Lit ''Shut down site'']),
     ([Lit ''site.restore''], [Lit ''Restore site'']),
     ([Lit ''node.create''], [Lit ''Create node'']),
     ([Lit ''node.rename''], [Lit ''Rename node'']),
     ([Lit ''cidr.create''], [Lit ''Historical policy action'']),
     ([Lit ''cidr.delete''], [Lit ''Historical policy action'']),
     ([Lit ''exception.create''], [Lit ''Historical policy action'']),
     ([Lit ''exception.delete''], [Lit ''Historical policy action'']),
     ([Lit ''cross_site.update''], [Lit ''Historical policy action'']),
     ([Lit ''blacklist.create''], [Lit ''Historical policy action'']),
     ([Lit ''blacklist.delete''], [Lit ''Historical policy action'']),
     ([Lit ''subscription_source.create''], [Lit ''Create subscription source'']),
     ([Lit ''subscription.upload''], [Lit ''Upload subscription'']),
     ([Lit ''subscription.single_node.create''], [Lit ''Add single-node subscription'']),
     ([Lit ''config_draft.create''], [Lit ''Create configuration draft'']),
     ([Lit ''config_release.create''], [Lit ''Create configuration release'']),
     ([Lit ''subscription.publish''], [Lit ''Publish subscription'']),
     ([Lit ''subscription.rollback''], [Lit ''Roll back subscription'']),
     ([Lit ''task.cancel''], [Lit ''Cancel task'']),
     ([Lit ''proxy_selection.update''], [Lit ''Update proxy selection'']),
     ([Lit ''node.probe.create''], [Lit ''Create node probe'']),
     ([Lit ''agent.logs.ingest''], [Lit ''Ingest node logs'']),
     ([Lit ''audit.export''], [Lit ''Export audit records'']),
     ([Lit ''backup.create.request''], [Lit ''Request backup creation'']),
     ([Lit ''backup.restore.request''], [Lit ''Request backup restoration'']),
     ([Lit ''subscription.refresh.failed''], [Lit ''Subscription refresh failed'']),
     ([Lit ''backup.schedule''], [Lit ''Schedule backup'']),
     ([Lit ''backup.rehearsal.schedule''], [Lit ''Schedule restore rehearsal'']),
     ([Lit ''backup.retention.delete''], [Lit ''Delete backup by retention policy'']),
     ([Lit ''backup.restore.rehearsal''], [Lit ''Run restore rehearsal'']),
     ([Lit ''backup.failed''], [Lit ''Backup failed'']),
     ([Lit ''admin_user''], [Lit ''Administrator account'']),
     ([Lit ''site''], [Lit ''Site'']),
     ([Lit ''node''], [Lit ''Node'']),
     ([Lit ''site_cidr''], [Lit ''Historical policy record'']),
     ([Lit ''travel_exception''], [Lit ''Historical policy record'']),
     ([Lit ''cross_site_allow''], [Lit ''Historical policy record'']),
     ([Lit ''destination_blacklist''], [Lit ''Historical policy record'']),
     ([Lit ''subscription_source''], [Lit ''Subscription source'']),
     ([Lit ''subscription_version''], [Lit ''Subscription version'']),
     ([Lit ''config_draft''], [Lit ''Configuration draft'']),
     ([Lit ''config_release''], [Lit ''Configuration release'']),
     ([Lit ''task''], [Lit ''Task'']),
     ([Lit ''audit''], [Lit ''Audit'']),
     ([Lit ''backup''], [Lit ''Backup'']),
     ([Lit ''task_lease_expired''], [Lit ''The task lease expired.'']),
     ([Lit ''subscription_refresh_unexpected_error''], [Lit ''The subscription refresh encountered an unexpected error.'']),
     ([Lit ''subscription_ssrf_blocked''], [Lit ''The subscription URL points to a restricted network.'']),
     ([Lit ''subscription_clash_invalid''], [Lit ''The Clash subscription content is invalid.'']),
     ([Lit ''subscription_clash_profile_unsupported''], [Lit ''This is a full Clash client profile, not a node list. Use the sing-box subscription URL instead.'']),
     ([Lit ''subscription_outbound_type_invalid''], [Lit ''The subscription contains an unsupported outbound type.'']),
     ([Lit ''Backup maintenance failed''], [Lit ''Backup maintenance failed'']),
     ([Lit ''Backup verification failed''], [Lit ''Backup verification failed'']),
     ([Lit ''The automatic backup maintenance cycle did not complete.''], [Lit ''The automatic backup maintenance cycle did not complete.'']),
     ([Hole ''site'', Lit '': '', Hole ''recent'', Lit '' denies in the last '', Hole ''window'', Lit ''s (baseline '', Hole ''baseline'', Lit '')''], [Hole ''site'', Lit '': '', Hole ''recent'', Lit '' source requests denied in the last '', Hole ''window'', Lit ''s (baseline '', Hole ''baseline'', Lit '')'']),
     ([Hole ''site'', Lit '': '', Hole ''recent'', Lit '' source requests denied in the last '', Hole ''window'', Lit ''s (baseline '', Hole ''baseline'', Lit '')''], [Hole ''site'', Lit '': '', Hole ''recent'', Lit '' source requests denied in the last '', Hole ''window'', Lit ''s (baseline '', Hole ''baseline'', Lit '')''])]"

definition messages_en_3218 :: dictionary where
  "messages_en_3218 =
    [([Lit ''All types''], [Lit ''All types'']),
     ([Lit ''Change the source type or state filter.''], [Lit ''Change the source type or state filter.'']),
     ([Lit ''Filter sources''], [Lit ''Filter sources'']),
     ([Lit ''No matching sources''], [Lit ''No matching sources''])]"

definition messages_en_3236 :: dictionary where
  "messages_en_3236 =
    [([Lit ''source_blacklist.create''], [Lit ''Add source blacklist rule'']),
     ([Lit ''source_blacklist.delete''], [Lit ''Delete source blacklist rule'']),
     ([Lit ''source_blacklist''], [Lit ''Source blacklist rule''])]"

definition messages_en_3317 :: dictionary where
  "messages_en_3317 =
    [([Lit ''Blacklist''], [Lit ''Blacklist'']),
     ([Lit ''Add blacklist rule''], [Lit ''Add blacklist rule'']),
     ([Lit ''Requests are allowed by default. Add an IP, CIDR, or domain rule per node only when it should be blocked.''], [Lit ''Requests are allowed by default. Add an IP, CIDR, or domain rule per node only when it should be blocked.'']),
     ([Hole ''count'', Lit '' blacklist rules''], [Hole ''count'', Lit '' blacklist rules'']),
     ([Lit ''Rules are delivered only to the selected nodes.''], [Lit ''Rules are delivered only to the selected nodes.'']),
     ([Lit ''Direction''], [Lit ''Direction'']),
     ([Lit ''source''], [Lit ''source'']),
     ([Lit ''destination''], [Lit ''destination'']),
     ([Lit ''Delete blacklist rule''], [Lit ''Delete blacklist rule'']),
     ([Lit ''Unable to load blacklist.''], [Lit ''Unable to load blacklist.'']),
     ([Lit ''No blacklist rules are blocking requests.''], [Lit ''No blacklist rules are blocking requests.'']),
     ([Lit ''Block a source or destination IP, CIDR, or domain on the selected nodes.''], [Lit ''Block a source or destination IP, CIDR, or domain on the selected nodes.'']),
     ([Lit ''Remove blacklist rule''], [Lit ''Remove blacklist rule'']),
     ([Lit ''Remove '', Hole ''value'', Lit '' from the blacklist. The change is released automatically.''], [Lit ''Remove '', Hole ''value'', Lit '' from the blacklist. The change is released automatically.'']),
     ([Lit ''Root administrator''], [Lit ''Root administrator'']),
     ([Lit ''Administrator''], [Lit ''Administrator'']),
     ([Lit ''Roles''], [Lit ''Roles'']),
     ([Lit ''zhangle is the root administrator. Other accounts can be granted the same administrator privileges.''], [Lit ''zhangle is the root administrator. Other accounts can be granted the same administrator privileges.'']),
     ([Hole ''count'', Lit '' accounts''], [Hole ''count'', Lit '' accounts'']),
     ([Lit ''Administrators and the root administrator have the same management permissions.''], [Lit ''Administrators and the root administrator have the same management permissions.'']),
     ([Lit ''Account''], [Lit ''Account'']),
     ([Lit ''Role''], [Lit ''Role'']),
     ([Lit ''Immutable''], [Lit ''Immutable'']),
     ([Lit ''Revoke administrator''], [Lit ''Revoke administrator'']),
     ([Lit ''Grant administrator''], [Lit ''Grant administrator'']),
     ([Lit ''No accounts''], [Lit ''No accounts'']),
     ([Lit ''Manage blacklist''], [Lit ''Manage blacklist'']),
     ([Lit ''sing-box live sessions''], [Lit ''sing-box live sessions'']),
     ([Lit ''Upload rate''], [Lit ''Upload rate'']),
     ([Lit ''Download rate''], [Lit ''Download rate'']),
     ([Lit ''Across enrolled nodes''], [Lit ''Across enrolled nodes'']),
     ([Hole ''count'', Lit '' connections''], [Hole ''count'', Lit '' connections'']),
     ([Lit ''Live sing-box sessions and recent connection summaries.''], [Lit ''Live sing-box sessions and recent connection summaries.'']),
     ([Lit ''Node traffic''], [Lit ''Node traffic'']),
     ([Hole ''count'', Lit '' nodes''], [Hole ''count'', Lit '' nodes'']),
     ([Lit ''Rate''], [Lit ''Rate'']),
     ([Lit ''Live connections''], [Lit ''Live connections'']),
     ([Lit ''Live''], [Lit ''Live'']),
     ([Lit ''Connection view''], [Lit ''Connection view'']),
     ([Lit ''Live connection information''], [Lit ''Live connection information'']),
     ([Lit ''Historical connection records''], [Lit ''Historical connection records'']),
     ([Lit ''Live connection information and retained history for audit.''], [Lit ''Live connection information and retained history for audit.'']),
     ([Hole ''count'', Lit '' sessions''], [Hole ''count'', Lit '' sessions'']),
     ([Hole ''count'', Lit '' snapshots ^00B7 '', Hole ''rows'', Lit '' observed rows''], [Hole ''count'', Lit '' snapshots ^00B7 '', Hole ''rows'', Lit '' observed rows'']),
     ([Lit ''Search connection history''], [Lit ''Search connection history'']),
     ([Lit ''All protocols''], [Lit ''All protocols'']),
     ([Lit ''Snapshot summary''], [Lit ''Snapshot summary'']),
     ([Lit ''Showing '', Hole ''from'', Lit ''-'', Hole ''to'', Lit '' of '', Hole ''count'', Lit '' snapshots''], [Lit ''Showing '', Hole ''from'', Lit ''-'', Hole ''to'', Lit '' of '', Hole ''count'', Lit '' snapshots'']),
     ([Lit ''Previous''], [Lit ''Previous'']),
     ([Lit ''Next''], [Lit ''Next'']),
     ([Lit ''Unable to load live connections.''], [Lit ''Unable to load live connections.'']),
     ([Lit ''Unable to load connection history.''], [Lit ''Unable to load connection history.'']),
     ([Lit ''No connection history recorded.''], [Lit ''No connection history recorded.'']),
     ([Lit ''Source''], [Lit ''Source'']),
     ([Lit ''Destination''], [Lit ''Destination'']),
     ([Lit ''Outbound''], [Lit ''Outbound'']),
     ([Lit ''No live connections recorded.''], [Lit ''No live connections recorded.'']),
     ([Lit ''Unable to load connection snapshots.''], [Lit ''Unable to load connection snapshots.'']),
     ([Lit ''user.role.update''], [Lit ''Update account role'']),
     ([Lit ''root_role_immutable''], [Lit ''The root administrator role cannot be changed.'']),
     ([Lit ''account_not_found''], [Lit ''The account does not exist.'']),
     ([Lit ''preview_target_required''], [Lit ''Provide a source address or destination host.'']),
     ([Lit ''CIDR''], [Lit ''CIDR'']),
     ([Lit ''blacklist_node_required''], [Lit ''Select at least one node for this rule.'']),
     ([Lit ''Protocol''], [Lit ''Protocol'']),
     ([Lit ''Subscription URL''], [Lit ''Subscription URL'']),
     ([Lit ''subscription_url_scheme_not_allowed''], [Lit ''Subscription URLs must use HTTP or HTTPS.''])]"

definition messages_en_3504 :: dictionary where
  "messages_en_3504 =
    [([Lit ''Created '', Hole ''date''], [Lit ''Created '', Hole ''date'']),
     ([Hole ''subscription'', Lit '' ^2192 '', Hole ''node''], [Hole ''subscription'', Lit '' ^2192 '', Hole ''node'']),
     ([Lit ''No subscription''], [Lit ''No subscription'']),
     ([Lit ''No nodes''], [Lit ''No nodes'']),
     ([Lit ''TARGETS''], [Lit ''TARGETS'']),
     ([Lit ''Traffic overview''], [Lit ''Traffic overview'']),
     ([Lit ''Total '', Hole ''value''], [Lit ''Total '', Hole ''value'']),
     ([Lit ''No traffic samples''], [Lit ''No traffic samples'']),
     ([Lit ''Live sing-box sessions and per-node traffic overview.''], [Lit ''Live sing-box sessions and per-node traffic overview.'']),
     ([Lit ''Service quality''], [Lit ''Service quality'']),
     ([Lit ''Average latency and availability for every subscription outbound.''], [Lit ''Average latency and availability for every subscription outbound.'']),
     ([Lit ''Subscription outbound performance''], [Lit ''Subscription outbound performance'']),
     ([Hole ''count'', Lit '' services''], [Hole ''count'', Lit '' services'']),
     ([Hole ''count'', Lit '' samples''], [Hole ''count'', Lit '' samples'']),
     ([Lit ''View mode''], [Lit ''View mode'']),
     ([Lit ''Statistics chart''], [Lit ''Statistics chart'']),
     ([Lit ''Table''], [Lit ''Table'']),
     ([Lit ''Latency quality''], [Lit ''Latency quality'']),
     ([Lit ''Good (<=100 ms)''], [Lit ''Green (<=100 ms)'']),
     ([Lit ''Acceptable (101-200 ms)''], [Lit ''Yellow (101-200 ms)'']),
     ([Lit ''High (>200 ms) or unavailable''], [Lit ''Red (>200 ms) or unavailable'']),
     ([Lit ''Service quality table''], [Lit ''Service quality table'']),
     ([Lit ''Unable to load service quality.''], [Lit ''Unable to load service quality.'']),
     ([Lit ''No service quality samples.''], [Lit ''No service quality samples.'']),
     ([Lit ''The monitor will report subscription outbound latency after its next proxy snapshot.''], [Lit ''The monitor will report subscription outbound latency after its next proxy snapshot.'']),
     ([Lit ''AVERAGE LATENCY''], [Lit ''AVERAGE LATENCY'']),
     ([Lit ''Subscription: outbound comparison''], [Lit ''Subscription: outbound comparison'']),
     ([Lit ''Lower is better''], [Lit ''Lower is better'']),
     ([Lit ''Average latency by node and subscription outbound''], [Lit ''Average latency by node and subscription outbound'']),
     ([Lit ''No samples''], [Lit ''No samples'']),
     ([Lit ''Availability is calculated from monitor reports.''], [Lit ''Availability is calculated from monitor reports.'']),
     ([Lit ''Sortable quality list''], [Lit ''Sortable quality list'']),
     ([Lit ''Select a column to sort''], [Lit ''Select a column to sort'']),
     ([Lit ''Subscription outbound''], [Lit ''Subscription outbound'']),
     ([Lit ''Average latency''], [Lit ''Average latency'']),
     ([Lit ''Availability''], [Lit ''Availability'']),
     ([Lit ''Range''], [Lit ''Range'']),
     ([Lit ''Last sample''], [Lit ''Last sample'']),
     ([Lit ''Last''], [Lit ''Last'']),
     ([Lit ''Success / failed''], [Lit ''Success / failed'']),
     ([Lit ''Min''], [Lit ''Min'']),
     ([Lit ''Max''], [Lit ''Max'']),
     ([Lit ''Ascending''], [Lit ''Ascending'']),
     ([Lit ''Descending''], [Lit ''Descending'']),
     ([Lit ''Sort''], [Lit ''Sort'']),
     ([Lit ''Last hour''], [Lit ''Last hour''])]"

definition messages_en_3639 :: dictionary where
  "messages_en_3639 =
    [([Lit ''system_settings.update''], [Lit ''Update system settings'']),
     ([Lit ''system_settings''], [Lit ''System settings'']),
     ([Lit ''Settings''], [Lit ''Settings'']),
     ([Lit ''Manage global control-plane behavior.''], [Lit ''Manage global control-plane behavior.'']),
     ([Lit ''Administrator access required''], [Lit ''Administrator access required'']),
     ([Lit ''Only system administrators can manage system settings.''], [Lit ''Only system administrators can manage system settings.'']),
     ([Lit ''Return to Access''], [Lit ''Return to Access'']),
     ([Lit ''SYSTEM SETTINGS''], [Lit ''SYSTEM SETTINGS'']),
     ([Lit ''Service quality definition''], [Lit ''Service quality definition'']),
     ([Lit ''Define the latency boundaries used to classify service quality statistics.''], [Lit ''Define the latency boundaries used to classify service quality statistics.'']),
     ([Lit ''Green boundary''], [Lit ''Green boundary'']),
     ([Lit ''Values at or below this boundary are green.''], [Lit ''Values at or below this boundary are green.'']),
     ([Lit ''Yellow boundary''], [Lit ''Yellow boundary'']),
     ([Lit ''Values above green and at or below this boundary are yellow.''], [Lit ''Values above green and at or below this boundary are yellow.'']),
     ([Lit ''Default probe URL''], [Lit ''Default probe URL'']),
     ([Lit ''Prefilled on the outbound probes page; you can change it for each probe.''], [Lit ''Prefilled on the outbound probes page; you can change it for each probe.'']),
     ([Lit ''Enter a valid HTTP or HTTPS probe URL.''], [Lit ''Enter a valid HTTP or HTTPS probe URL.'']),
     ([Lit ''Current classification''], [Lit ''Current classification'']),
     ([Lit ''Green''], [Lit ''Green'']),
     ([Lit ''Yellow''], [Lit ''Yellow'']),
     ([Lit ''Red''], [Lit ''Red'']),
     ([Lit ''ms''], [Lit ''ms'']),
     ([Lit ''or unavailable''], [Lit ''or unavailable'']),
     ([Lit ''Green: <= '', Hole ''value'', Lit '' ms''], [Lit ''Green: <= '', Hole ''value'', Lit '' ms'']),
     ([Lit ''Yellow: '', Hole ''from'', Lit ''-'', Hole ''to'', Lit '' ms''], [Lit ''Yellow: '', Hole ''from'', Lit ''-'', Hole ''to'', Lit '' ms'']),
     ([Lit ''Red: > '', Hole ''value'', Lit '' ms or unavailable''], [Lit ''Red: > '', Hole ''value'', Lit '' ms or unavailable'']),
     ([Lit ''Enter a whole number from 0 to 300000 ms.''], [Lit ''Enter a whole number from 0 to 300000 ms.'']),
     ([Lit ''The yellow boundary must be greater than the green boundary.''], [Lit ''The yellow boundary must be greater than the green boundary.'']),
     ([Lit ''System settings saved.''], [Lit ''System settings saved.'']),
     ([Lit ''Unable to load system settings.''], [Lit ''Unable to load system settings.'']),
     ([Lit ''Unable to save system settings.''], [Lit ''Unable to save system settings.'']),
     ([Lit ''Saving...''], [Lit ''Saving...'']),
     ([Lit ''Save settings''], [Lit ''Save settings'']),
     ([Lit ''Good (<= '', Hole ''value'', Lit '' ms)''], [Lit ''Green (<= '', Hole ''value'', Lit '' ms)'']),
     ([Lit ''Acceptable ('', Hole ''from'', Lit ''-'', Hole ''to'', Lit '' ms)''], [Lit ''Yellow ('', Hole ''from'', Lit ''-'', Hole ''to'', Lit '' ms)'']),
     ([Lit ''High (>'', Hole ''value'', Lit '' ms) or unavailable''], [Lit ''Red (>'', Hole ''value'', Lit '' ms) or unavailable''])]"

text \<open>Every entry keeps the placeholders of its key.\<close>

lemma messages_en_1034_ok: "list_all entry_ok messages_en_1034"
  by (simp add: messages_en_1034_def entry_ok_def name_ok_def)

lemma messages_en_1219_ok: "list_all entry_ok messages_en_1219"
  by (simp add: messages_en_1219_def entry_ok_def name_ok_def)

lemma messages_en_1443_ok: "list_all entry_ok messages_en_1443"
  by (simp add: messages_en_1443_def entry_ok_def name_ok_def)

lemma messages_en_1572_ok: "list_all entry_ok messages_en_1572"
  by (simp add: messages_en_1572_def entry_ok_def name_ok_def)

lemma messages_en_1702_ok: "list_all entry_ok messages_en_1702"
  by (simp add: messages_en_1702_def entry_ok_def name_ok_def)

lemma messages_en_1782_ok: "list_all entry_ok messages_en_1782"
  by (simp add: messages_en_1782_def entry_ok_def name_ok_def)

lemma messages_en_1862_ok: "list_all entry_ok messages_en_1862"
  by (simp add: messages_en_1862_def entry_ok_def name_ok_def)

lemma messages_en_1975_ok: "list_all entry_ok messages_en_1975"
  by (simp add: messages_en_1975_def entry_ok_def name_ok_def)

lemma messages_en_2012_ok: "list_all entry_ok messages_en_2012"
  by (simp add: messages_en_2012_def entry_ok_def name_ok_def)

lemma messages_en_2080_ok: "list_all entry_ok messages_en_2080"
  by (simp add: messages_en_2080_def entry_ok_def name_ok_def)

lemma messages_en_2133_ok: "list_all entry_ok messages_en_2133"
  by (simp add: messages_en_2133_def entry_ok_def name_ok_def)

lemma messages_en_2191_ok: "list_all entry_ok messages_en_2191"
  by (simp add: messages_en_2191_def entry_ok_def name_ok_def)

lemma messages_en_2262_ok: "list_all entry_ok messages_en_2262"
  by (simp add: messages_en_2262_def entry_ok_def name_ok_def)

lemma messages_en_2347_ok: "list_all entry_ok messages_en_2347"
  by (simp add: messages_en_2347_def entry_ok_def name_ok_def)

lemma messages_en_2497_ok: "list_all entry_ok messages_en_2497"
  by (simp add: messages_en_2497_def entry_ok_def name_ok_def)

lemma messages_en_2648_ok: "list_all entry_ok messages_en_2648"
  by (simp add: messages_en_2648_def entry_ok_def name_ok_def)

lemma messages_en_2738_ok: "list_all entry_ok messages_en_2738"
  by (simp add: messages_en_2738_def entry_ok_def name_ok_def)

lemma messages_en_2827_ok: "list_all entry_ok messages_en_2827"
  by (simp add: messages_en_2827_def entry_ok_def name_ok_def)

lemma messages_en_3039_ok: "list_all entry_ok messages_en_3039"
  by (simp add: messages_en_3039_def entry_ok_def name_ok_def)

lemma messages_en_3218_ok: "list_all entry_ok messages_en_3218"
  by (simp add: messages_en_3218_def entry_ok_def name_ok_def)

lemma messages_en_3236_ok: "list_all entry_ok messages_en_3236"
  by (simp add: messages_en_3236_def entry_ok_def name_ok_def)

lemma messages_en_3317_ok: "list_all entry_ok messages_en_3317"
  by (simp add: messages_en_3317_def entry_ok_def name_ok_def)

lemma messages_en_3504_ok: "list_all entry_ok messages_en_3504"
  by (simp add: messages_en_3504_def entry_ok_def name_ok_def)

lemma messages_en_3639_ok: "list_all entry_ok messages_en_3639"
  by (simp add: messages_en_3639_def entry_ok_def name_ok_def)

definition messages_en :: dictionary where
  "messages_en =
     messages_en_1034 @
     messages_en_1219 @
     messages_en_1443 @
     messages_en_1572 @
     messages_en_1702 @
     messages_en_1782 @
     messages_en_1862 @
     messages_en_1975 @
     messages_en_2012 @
     messages_en_2080 @
     messages_en_2133 @
     messages_en_2191 @
     messages_en_2262 @
     messages_en_2347 @
     messages_en_2497 @
     messages_en_2648 @
     messages_en_2738 @
     messages_en_2827 @
     messages_en_3039 @
     messages_en_3218 @
     messages_en_3236 @
     messages_en_3317 @
     messages_en_3504 @
     messages_en_3639"

lemmas messages_en_parts =
  messages_en_1034_ok
  messages_en_1219_ok
  messages_en_1443_ok
  messages_en_1572_ok
  messages_en_1702_ok
  messages_en_1782_ok
  messages_en_1862_ok
  messages_en_1975_ok
  messages_en_2012_ok
  messages_en_2080_ok
  messages_en_2133_ok
  messages_en_2191_ok
  messages_en_2262_ok
  messages_en_2347_ok
  messages_en_2497_ok
  messages_en_2648_ok
  messages_en_2738_ok
  messages_en_2827_ok
  messages_en_3039_ok
  messages_en_3218_ok
  messages_en_3236_ok
  messages_en_3317_ok
  messages_en_3504_ok
  messages_en_3639_ok

lemma messages_en_ok: "list_all entry_ok messages_en"
  by (simp add: messages_en_def messages_en_parts)

end
