(* ===== verification/Messages_Es.thy ===== *)
theory Messages_Es
  imports Messages
begin

text \<open>
  The Spanish messages of \<^verbatim>\<open>src/frontend/lib/preferences.tsx\<close>, in the order of the source: the member \<^verbatim>\<open>"es"\<close> of the object
  \<^verbatim>\<open>messages\<close> and the objects that are assigned to it.  The number in a name is the line of the first entry.
\<close>

definition messages_es_472 :: dictionary where
  "messages_es_472 =
    [([Lit ''Password''], [Lit ''Contrase^00F1a'']),
     ([Lit ''GQuan code''], [Lit ''C^00F3digo GQuan'']),
     ([Lit ''Create account''], [Lit ''Crear cuenta'']),
     ([Lit ''Reset password''], [Lit ''Restablecer contrase^00F1a'']),
     ([Lit ''Back to console''], [Lit ''Volver a la consola'']),
     ([Lit ''Control plane access''], [Lit ''Acceso al plano de control'']),
     ([Lit ''IT code''], [Lit ''C^00F3digo IT'']),
     ([Lit ''Verification code''], [Lit ''C^00F3digo de verificaci^00F3n'']),
     ([Lit ''Send code''], [Lit ''Enviar c^00F3digo'']),
     ([Lit ''Send again''], [Lit ''Reenviar'']),
     ([Lit ''Sending...''], [Lit ''Enviando...'']),
     ([Lit ''Working...''], [Lit ''Procesando...'']),
     ([Lit ''Sign in''], [Lit ''Iniciar sesi^00F3n'']),
     ([Lit ''Sign in with code''], [Lit ''Iniciar con c^00F3digo'']),
     ([Lit ''New password''], [Lit ''Nueva contrase^00F1a'']),
     ([Lit ''Confirm password''], [Lit ''Confirmar contrase^00F1a'']),
     ([Lit ''Verify your IT code before setting a password.''], [Lit ''Verifica tu c^00F3digo IT antes de establecer una contrase^00F1a.'']),
     ([Lit ''Verify your IT code before choosing a new password.''], [Lit ''Verifica tu c^00F3digo IT antes de elegir una nueva contrase^00F1a.'']),
     ([Lit ''Verification code sent through GQuan.''], [Lit ''El c^00F3digo se envi^00F3 por GQuan.'']),
     ([Lit ''Account registered. Sign in with the password you set.''], [Lit ''Cuenta registrada. Inicia sesi^00F3n con la contrase^00F1a creada.'']),
     ([Lit ''Password reset. Sign in with the new password.''], [Lit ''Contrase^00F1a restablecida. Inicia sesi^00F3n con la nueva contrase^00F1a.'']),
     ([Lit ''Authentication is required. Sign in again.''], [Lit ''Se requiere autenticaci^00F3n. Vuelve a iniciar sesi^00F3n.'']),
     ([Lit ''Your management session has expired. Sign in again.''], [Lit ''Tu sesi^00F3n de administraci^00F3n ha caducado. Vuelve a iniciar sesi^00F3n.'']),
     ([Lit ''Your management session was revoked. Sign in again.''], [Lit ''Tu sesi^00F3n de administraci^00F3n fue revocada. Vuelve a iniciar sesi^00F3n.'']),
     ([Lit ''Your saved management session is invalid. Sign in again.''], [Lit ''La sesi^00F3n de administraci^00F3n guardada no es v^00E1lida. Vuelve a iniciar sesi^00F3n.'']),
     ([Lit ''This account is no longer active. Contact an administrator.''], [Lit ''Esta cuenta ya no est^00E1 activa. Contacta con un administrador.'']),
     ([Lit ''No active account is registered for this IT code.''], [Lit ''No hay una cuenta activa para este c^00F3digo IT.'']),
     ([Lit ''GQuan verification delivery is unavailable.''], [Lit ''El env^00EDo de verificaci^00F3n GQuan no est^00E1 disponible.'']),
     ([Lit ''GQuan did not accept the verification request.''], [Lit ''GQuan no acept^00F3 la solicitud de verificaci^00F3n.'']),
     ([Lit ''GQuan verification quota is currently exhausted.''], [Lit ''La cuota de verificaci^00F3n GQuan est^00E1 agotada.'']),
     ([Lit ''GQuan stub delivery is not allowed in this environment.''], [Lit ''El env^00EDo de prueba de GQuan no est^00E1 permitido en este entorno.'']),
     ([Lit ''GQuan test verification is not configured.''], [Lit ''La verificaci^00F3n de prueba de GQuan no est^00E1 configurada.'']),
     ([Lit ''Send in '', Hole ''seconds'', Lit ''s''], [Lit ''Reenviar en '', Hole ''seconds'', Lit ''s'']),
     ([Lit ''Open GQuan and enter the 6-digit code.''], [Lit ''Abre GQuan e introduce el c^00F3digo de 6 d^00EDgitos.'']),
     ([Lit ''The IT code or password is not valid.''], [Lit ''El c^00F3digo IT o la contrase^00F1a no son v^00E1lidos.'']),
     ([Lit ''Enter a valid IT code.''], [Lit ''Introduce un c^00F3digo IT v^00E1lido.'']),
     ([Lit ''Passwords must contain at least 12 characters.''], [Lit ''La contrase^00F1a debe tener al menos 12 caracteres.'']),
     ([Lit ''This IT code already has an account.''], [Lit ''Este c^00F3digo IT ya tiene una cuenta.'']),
     ([Lit ''The password confirmation does not match.''], [Lit ''La confirmaci^00F3n de contrase^00F1a no coincide.'']),
     ([Lit ''This code can no longer be used. Request another one.''], [Lit ''Este c^00F3digo ya no se puede usar. Solicita otro.'']),
     ([Lit ''This verification code has expired. Request another one.''], [Lit ''Este c^00F3digo ha caducado. Solicita otro.'']),
     ([Lit ''The verification code is not valid.''], [Lit ''El c^00F3digo de verificaci^00F3n no es v^00E1lido.'']),
     ([Lit ''A code was sent recently. Wait before requesting another.''], [Lit ''Se envi^00F3 un c^00F3digo hace poco. Espera antes de solicitar otro.'']),
     ([Lit ''Unable to reach the control plane. Check the local service and retry.''], [Lit ''No se puede conectar al plano de control. Comprueba el servicio local e int^00E9ntalo de nuevo.'']),
     ([Lit ''The request contains invalid fields.''], [Lit ''La solicitud contiene campos no v^00E1lidos.'']),
     ([Lit ''The request could not be completed.''], [Lit ''No se pudo completar la solicitud.'']),
     ([Lit ''Language''], [Lit ''Idioma'']),
     ([Lit ''Switch to dark mode''], [Lit ''Cambiar a modo oscuro'']),
     ([Lit ''Switch to light mode''], [Lit ''Cambiar a modo claro'']),
     ([Lit ''Close dialog''], [Lit ''Cerrar di^00E1logo'']),
     ([Lit ''Close details''], [Lit ''Cerrar detalles'']),
     ([Lit ''Close navigation''], [Lit ''Cerrar navegaci^00F3n'']),
     ([Lit ''Open navigation''], [Lit ''Abrir navegaci^00F3n'']),
     ([Lit ''Collapse sidebar''], [Lit ''Contraer barra lateral'']),
     ([Lit ''Expand sidebar''], [Lit ''Expandir barra lateral'']),
     ([Lit ''Refresh workspace''], [Lit ''Actualizar espacio de trabajo'']),
     ([Lit ''Sign out''], [Lit ''Cerrar sesi^00F3n'']),
     ([Lit ''Sign out of the control plane?''], [Lit ''^00BFCerrar sesi^00F3n del plano de control?'']),
     ([Lit ''You will need to sign in again to access the control plane.''], [Lit ''Tendr^00E1s que volver a iniciar sesi^00F3n para acceder al plano de control.'']),
     ([Lit ''Primary navigation''], [Lit ''Navegaci^00F3n principal'']),
     ([Lit ''OPERATE''], [Lit ''OPERAR'']),
     ([Lit ''POLICY''], [Lit ''POL^00CDTICA'']),
     ([Lit ''DEPLOY''], [Lit ''DESPLIEGUE'']),
     ([Lit ''GOVERN''], [Lit ''GOBIERNO'']),
     ([Lit ''Overview''], [Lit ''Resumen'']),
     ([Lit ''Nodes''], [Lit ''Nodos'']),
     ([Lit ''Sites & CIDRs''], [Lit ''Sitios y CIDR'']),
     ([Lit ''Exceptions''], [Lit ''Excepciones de pol^00EDtica'']),
     ([Lit ''Policy exceptions''], [Lit ''Excepciones de pol^00EDtica'']),
     ([Lit ''Cross-site''], [Lit ''Entre sitios'']),
     ([Lit ''Subscriptions''], [Lit ''Suscripciones'']),
     ([Lit ''Releases''], [Lit ''Versiones'']),
     ([Lit ''Tasks''], [Lit ''Tareas'']),
     ([Lit ''Audit''], [Lit ''Auditor^00EDa'']),
     ([Lit ''Access''], [Lit ''Acceso'']),
     ([Lit ''Control plane''], [Lit ''Plano de control'']),
     ([Lit ''HTTP only''], [Lit ''Solo HTTP'']),
     ([Lit ''Employee path''], [Lit ''Ruta de empleado'']),
     ([Lit ''Sign in required''], [Lit ''Inicio de sesi^00F3n requerido'']),
     ([Lit ''Use a control-plane administrator account to load operational data.''], [Lit ''Usa una cuenta administradora para cargar los datos operativos.'']),
     ([Lit ''Unable to load this workspace''], [Lit ''No se puede cargar este espacio de trabajo'']),
     ([Lit ''Retry''], [Lit ''Reintentar'']),
     ([Lit ''Loading''], [Lit ''Cargando'']),
     ([Lit ''enabled''], [Lit ''habilitado'']),
     ([Lit ''disabled''], [Lit ''deshabilitado'']),
     ([Lit ''online''], [Lit ''en l^00EDnea'']),
     ([Lit ''offline''], [Lit ''sin conexi^00F3n'']),
     ([Lit ''active''], [Lit ''activo'']),
     ([Lit ''shutdown''], [Lit ''apagado'']),
     ([Lit ''in sync''], [Lit ''sincronizado'']),
     ([Lit ''drift''], [Lit ''desviaci^00F3n'']),
     ([Lit ''pending''], [Lit ''pendiente'']),
     ([Lit ''running''], [Lit ''en ejecuci^00F3n'']),
     ([Lit ''succeeded''], [Lit ''completado'']),
     ([Lit ''failed''], [Lit ''fallido'']),
     ([Lit ''queued''], [Lit ''en cola'']),
     ([Lit ''ready''], [Lit ''listo'']),
     ([Lit ''published''], [Lit ''publicado'']),
     ([Lit ''current''], [Lit ''actual'']),
     ([Lit ''valid''], [Lit ''v^00E1lido'']),
     ([Lit ''allowed''], [Lit ''permitido'']),
     ([Lit ''denied''], [Lit ''denegado'']),
     ([Lit ''Authentication method''], [Lit ''M^00E9todo de autenticaci^00F3n'']),
     ([Lit ''Account actions''], [Lit ''Acciones de cuenta'']),
     ([Lit ''Cancel''], [Lit ''Cancelar'']),
     ([Lit ''OPERATIONS''], [Lit ''OPERACIONES'']),
     ([Lit ''SITE POLICY''], [Lit ''POL^00CDTICA DEL SITIO'']),
     ([Lit ''REGIONAL TOPOLOGY''], [Lit ''TOPOLOG^00CDA REGIONAL'']),
     ([Lit ''DEPLOYMENT''], [Lit ''DESPLIEGUE'']),
     ([Lit ''EDGE INVENTORY''], [Lit ''INVENTARIO PERIMETRAL'']),
     ([Lit ''TASK QUEUE''], [Lit ''COLA DE TAREAS'']),
     ([Lit ''CURRENT PATH''], [Lit ''RUTA ACTUAL''])]"

definition messages_es_584 :: dictionary where
  "messages_es_584 =
    [([Lit ''DEFAULT DENY''], [Lit ''DENEGAR POR DEFECTO'']),
     ([Lit ''SOURCE ACCESS''], [Lit ''ACCESO DE ORIGEN'']),
     ([Lit ''POLICY TEST''], [Lit ''PRUEBA DE POL^00CDTICA'']),
     ([Lit ''Actions''], [Lit ''Acciones'']),
     ([Lit ''Action''], [Lit ''Acci^00F3n'']),
     ([Lit ''Actor''], [Lit ''Actor'']),
     ([Lit ''Add''], [Lit ''A^00F1adir'']),
     ([Lit ''Adding...''], [Lit ''A^00F1adiendo...'']),
     ([Lit ''Add CIDR''], [Lit ''A^00F1adir CIDR'']),
     ([Lit ''Add destination''], [Lit ''A^00F1adir destino'']),
     ([Lit ''Add exception''], [Lit ''A^00F1adir excepci^00F3n'']),
     ([Lit ''Add HTTP source''], [Lit ''A^00F1adir origen HTTP'']),
     ([Lit ''Advertise IP''], [Lit ''IP anunciada'']),
     ([Lit ''After''], [Lit ''Despu^00E9s'']),
     ([Lit ''All states''], [Lit ''Todos los estados'']),
     ([Lit ''Applied / desired''], [Lit ''Aplicado / deseado'']),
     ([Lit ''Applied bundle matches''], [Lit ''El paquete aplicado coincide'']),
     ([Lit ''Applied hash''], [Lit ''Hash aplicado'']),
     ([Lit ''Audit event''], [Lit ''Evento de auditor^00EDa'']),
     ([Lit ''Audit chain is valid''], [Lit ''La cadena de auditor^00EDa es v^00E1lida'']),
     ([Lit ''Audit chain verification failed''], [Lit ''Fall^00F3 la verificaci^00F3n de la cadena de auditor^00EDa'']),
     ([Lit ''Before''], [Lit ''Antes'']),
     ([Lit ''Chain origin''], [Lit ''Origen de la cadena'']),
     ([Lit ''Check access''], [Lit ''Comprobar acceso'']),
     ([Lit ''Checking...''], [Lit ''Comprobando...'']),
     ([Lit ''CIDR is the current access boundary.''], [Lit ''El CIDR es el l^00EDmite de acceso actual.'']),
     ([Lit ''CIDR or IP''], [Lit ''CIDR o IP'']),
     ([Lit ''Column: destination listener''], [Lit ''Columna: escucha de destino'']),
     ([Lit ''Comment''], [Lit ''Comentario'']),
     ([Lit ''Config''], [Lit ''Configuraci^00F3n'']),
     ([Lit ''Configuration''], [Lit ''Configuraci^00F3n'']),
     ([Lit ''Configuration in sync''], [Lit ''Configuraci^00F3n sincronizada'']),
     ([Lit ''Configuration or service state differs from the desired release.''], [Lit ''El estado de configuraci^00F3n o servicio difiere de la versi^00F3n deseada.'']),
     ([Lit ''Control-plane summary''], [Lit ''Resumen del plano de control'']),
     ([Lit ''Copied''], [Lit ''Copiado'']),
     ([Lit ''Copy''], [Lit ''Copiar'']),
     ([Lit ''Create draft''], [Lit ''Crear borrador'']),
     ([Lit ''Created''], [Lit ''Creado'']),
     ([Lit ''Delete destination''], [Lit ''Eliminar destino'']),
     ([Lit ''Delete exception''], [Lit ''Eliminar excepci^00F3n'']),
     ([Lit ''Details''], [Lit ''Detalles'']),
     ([Lit ''Disabled''], [Lit ''Desactivado'']),
     ([Lit ''Domain''], [Lit ''Dominio'']),
     ([Lit ''Download''], [Lit ''Descargar'']),
     ([Lit ''Drift or failure''], [Lit ''Desviaci^00F3n o fallo'']),
     ([Lit ''Edge nodes''], [Lit ''Nodos perimetrales'']),
     ([Lit ''Enter an address to calculate the effective access policy.''], [Lit ''Introduce una direcci^00F3n para calcular la pol^00EDtica de acceso efectiva.'']),
     ([Lit ''Error''], [Lit ''Error'']),
     ([Lit ''Expires''], [Lit ''Caduca'']),
     ([Lit ''Expires at''], [Lit ''Caduca el'']),
     ([Lit ''Filter node status''], [Lit ''Filtrar estado de nodo'']),
     ([Lit ''From ^005C To''], [Lit ''Origen ^005C Destino'']),
     ([Lit ''HTTPS proxy listener''], [Lit ''Escucha de proxy HTTPS'']),
     ([Lit ''Hash''], [Lit ''Hash'']),
     ([Lit ''Heartbeat''], [Lit ''Latido'']),
     ([Lit ''Heartbeat state''], [Lit ''Estado del latido'']),
     ([Lit ''IP address''], [Lit ''Direcci^00F3n IP'']),
     ([Lit ''Immutable hash''], [Lit ''Hash inmutable'']),
     ([Lit ''Inspect''], [Lit ''Inspeccionar'']),
     ([Lit ''Invalid source IP.''], [Lit ''La IP de origen no es v^00E1lida.'']),
     ([Lit ''Last error''], [Lit ''^00DAltimo error'']),
     ([Lit ''Last heartbeat''], [Lit ''^00DAltimo latido'']),
     ([Lit ''Lease''], [Lit ''Concesi^00F3n'']),
     ([Lit ''Listener''], [Lit ''Escucha'']),
     ([Lit ''Liveness''], [Lit ''Disponibilidad'']),
     ([Lit ''Manage policy''], [Lit ''Gestionar pol^00EDtica'']),
     ([Lit ''Monitor''], [Lit ''Monitor'']),
     ([Lit ''Needs attention''], [Lit ''Requiere atenci^00F3n'']),
     ([Lit ''No active exceptions.''], [Lit ''No hay excepciones activas.'']),
     ([Lit ''No destinations are blocked.''], [Lit ''No hay destinos bloqueados.'']),
     ([Lit ''No effective CIDRs''], [Lit ''No hay CIDR efectivos'']),
     ([Lit ''No node enrolled''], [Lit ''No hay nodos registrados'']),
     ([Lit ''No site CIDRs configured.''], [Lit ''No hay CIDR configurados para el sitio.'']),
     ([Lit ''Node''], [Lit ''Nodo'']),
     ([Lit ''Node inventory''], [Lit ''Inventario de nodos'']),
     ([Lit ''Node state''], [Lit ''Estado de nodo'']),
     ([Lit ''Nodes online''], [Lit ''Nodos en l^00EDnea'']),
     ([Lit ''Office network''], [Lit ''Red de oficina'']),
     ([Lit ''Offline''], [Lit ''Sin conexi^00F3n'']),
     ([Lit ''Online''], [Lit ''En l^00EDnea'']),
     ([Lit ''Open nodes''], [Lit ''Abrir nodos'']),
     ([Lit ''Open policy''], [Lit ''Abrir pol^00EDtica'']),
     ([Lit ''Open queue''], [Lit ''Abrir cola'']),
     ([Lit ''Operator name''], [Lit ''Nombre del operador'']),
     ([Lit ''Owner''], [Lit ''Propietario'']),
     ([Lit ''Pattern''], [Lit ''Patr^00F3n'']),
     ([Lit ''Policy changes require a release before nodes apply them.''], [Lit ''Los cambios de pol^00EDtica requieren una versi^00F3n antes de que los nodos los apliquen.'']),
     ([Lit ''Policy revision''], [Lit ''Revisi^00F3n de pol^00EDtica'']),
     ([Lit ''Previous hash''], [Lit ''Hash anterior'']),
     ([Lit ''Progress''], [Lit ''Progreso'']),
     ([Lit ''Proxy port''], [Lit ''Puerto de proxy'']),
     ([Lit ''Reason for block''], [Lit ''Motivo del bloqueo'']),
     ([Lit ''Recent releases''], [Lit ''Versiones recientes'']),
     ([Lit ''Request''], [Lit ''Solicitud'']),
     ([Lit ''Requires operator review''], [Lit ''Requiere revisi^00F3n del operador'']),
     ([Lit ''Result''], [Lit ''Resultado'']),
     ([Lit ''Retries''], [Lit ''Reintentos'']),
     ([Lit ''Review nodes''], [Lit ''Revisar nodos'']),
     ([Lit ''Row: source site''], [Lit ''Fila: sitio de origen'']),
     ([Lit ''Sensitive values are redacted before storage.''], [Lit ''Los valores sensibles se ocultan antes de almacenarse.'']),
     ([Lit ''Service''], [Lit ''Servicio'']),
     ([Lit ''Setup script''], [Lit ''Script de configuraci^00F3n'']),
     ([Lit ''Site''], [Lit ''Sitio'']),
     ([Lit ''Site CIDRs''], [Lit ''CIDR del sitio'']),
     ([Lit ''Site authentication is also required.''], [Lit ''Tambi^00E9n se requiere autenticaci^00F3n del sitio.'']),
     ([Lit ''Site topology''], [Lit ''Topolog^00EDa del sitio'']),
     ([Lit ''Source IP''], [Lit ''IP de origen'']),
     ([Lit ''Source IP preview''], [Lit ''Vista previa de IP de origen'']),
     ([Lit ''Source-to-destination matrix''], [Lit ''Matriz de origen a destino'']),
     ([Lit ''State''], [Lit ''Estado'']),
     ([Lit ''Subscription''], [Lit ''Suscripci^00F3n'']),
     ([Lit ''Target''], [Lit ''Destino''])]"

definition messages_es_696 :: dictionary where
  "messages_es_696 =
    [([Lit ''Task''], [Lit ''Tarea'']),
     ([Lit ''Time''], [Lit ''Hora'']),
     ([Lit ''Travel approval reference''], [Lit ''Referencia de aprobaci^00F3n de viaje'']),
     ([Lit ''Type''], [Lit ''Tipo'']),
     ([Lit ''Unknown site''], [Lit ''Sitio desconocido'']),
     ([Lit ''Updated''], [Lit ''Actualizado'']),
     ([Lit ''Verify chain''], [Lit ''Verificar cadena'']),
     ([Lit ''Verifying...''], [Lit ''Verificando...'']),
     ([Lit ''Version''], [Lit ''Versi^00F3n'']),
     ([Lit ''View''], [Lit ''Ver'']),
     ([Lit ''View all''], [Lit ''Ver todo'']),
     ([Lit ''this CIDR''], [Lit ''este CIDR'']),
     ([Lit ''this exception''], [Lit ''esta excepci^00F3n'']),
     ([Lit ''this pattern''], [Lit ''este patr^00F3n'']),
     ([Lit ''this task''], [Lit ''esta tarea'']),
     ([Lit ''node''], [Lit ''nodo'']),
     ([Lit ''nodes''], [Lit ''nodos'']),
     ([Lit ''healthy''], [Lit ''correcto'']),
     ([Lit ''degraded''], [Lit ''degradado'']),
     ([Lit ''attention''], [Lit ''requiere atenci^00F3n'']),
     ([Lit ''not enrolled''], [Lit ''no registrado'']),
     ([Lit ''unhealthy''], [Lit ''no saludable'']),
     ([Lit ''rollback failed''], [Lit ''reversi^00F3n fallida'']),
     ([Lit ''applying''], [Lit ''aplicando'']),
     ([Lit ''health check''], [Lit ''comprobaci^00F3n de estado'']),
     ([Lit ''rolling back''], [Lit ''revirtiendo'']),
     ([Lit ''rolled back''], [Lit ''revertido'']),
     ([Lit ''cancel requested''], [Lit ''cancelaci^00F3n solicitada'']),
     ([Lit ''expired''], [Lit ''caducado'']),
     ([Lit ''high''], [Lit ''alto'']),
     ([Lit ''medium''], [Lit ''medio'']),
     ([Lit ''low''], [Lit ''bajo'']),
     ([Lit ''draft''], [Lit ''borrador'']),
     ([Lit ''validated''], [Lit ''validado'']),
     ([Lit ''release''], [Lit ''versi^00F3n'']),
     ([Hole ''action'', Lit '' '', Hole ''name''], [Hole ''action'', Lit '' '', Hole ''name'']),
     ([Hole ''count'', Lit '' events''], [Hole ''count'', Lit '' eventos'']),
     ([Hole ''count'', Lit '' events checked''], [Hole ''count'', Lit '' eventos comprobados'']),
     ([Hole ''count'', Lit '' local policy changes included in the next draft.''], [Lit ''El pr^00F3ximo borrador incluye '', Hole ''count'', Lit '' cambios de pol^00EDtica locales.'']),
     ([Hole ''count'', Lit '' nodes''], [Hole ''count'', Lit '' nodos'']),
     ([Hole ''count'', Lit '' nodes need attention''], [Hole ''count'', Lit '' nodos requieren atenci^00F3n'']),
     ([Hole ''count'', Lit '' queued or running tasks''], [Hole ''count'', Lit '' tareas en cola o en ejecuci^00F3n'']),
     ([Hole ''count'', Lit '' sites''], [Hole ''count'', Lit '' sitios'']),
     ([Hole ''name'', Lit '' CIDRs''], [Lit ''CIDR de '', Hole ''name'']),
     ([Lit ''Policy revision v'', Hole ''revision'', Lit '' ^00B7 HTTP :'', Hole ''port''], [Lit ''Revisi^00F3n v'', Hole ''revision'', Lit '' ^00B7 HTTP :'', Hole ''port'']),
     ([Lit ''Allow '', Hole ''from'', Lit '' CIDRs to access '', Hole ''to''], [Lit ''Permitir que los CIDR de '', Hole ''from'', Lit '' accedan a '', Hole ''to'']),
     ([Lit ''Add '', Hole ''from'', Lit '' source CIDRs to the effective access policy for '', Hole ''to'', Lit ''. This expands the destination listener's allowed network scope.''], [Lit ''A^00F1ade los CIDR de origen de '', Hole ''from'', Lit '' a la pol^00EDtica de acceso efectiva de '', Hole ''to'', Lit ''. Esto ampl^00EDa el ^00E1mbito de red permitido de la escucha de destino.'']),
     ([Lit ''Block the proxy listener for '', Hole ''name'', Lit ''. This changes desired policy and requires a release to reach its edge nodes.''], [Lit ''Bloquea la escucha de proxy de '', Hole ''name'', Lit ''. Esto cambia la pol^00EDtica deseada y requiere una versi^00F3n para llegar a los nodos perimetrales.'']),
     ([Lit ''Restore proxy listener access for '', Hole ''name'', Lit ''. A release is still required for monitors to apply the state.''], [Lit ''Restaura el acceso a la escucha de proxy de '', Hole ''name'', Lit ''. Los monitores a^00FAn necesitan una versi^00F3n para aplicar el estado.'']),
     ([Lit ''Delete '', Hole ''value''], [Lit ''Eliminar '', Hole ''value'']),
     ([Lit ''Remove '', Hole ''value''], [Lit ''Quitar '', Hole ''value'']),
     ([Lit ''Remove '', Hole ''value'', Lit ''. The next release for each site will exclude it from effective source access.''], [Lit ''Quita '', Hole ''value'', Lit ''. La pr^00F3xima versi^00F3n de cada sitio lo excluir^00E1 del acceso de origen efectivo.'']),
     ([Lit ''Remove '', Hole ''value'', Lit '' from the global deny policy. New releases will no longer include it.''], [Lit ''Quita '', Hole ''value'', Lit '' de la pol^00EDtica global de denegaci^00F3n. Las nuevas versiones dejar^00E1n de incluirlo.'']),
     ([Lit ''Remove '', Hole ''cidr'', Lit '' from '', Hole ''site'', Lit ''. The change remains local to the control plane until a release succeeds.''], [Lit ''Quita '', Hole ''cidr'', Lit '' de '', Hole ''site'', Lit ''. El cambio permanece local en el plano de control hasta que una versi^00F3n se complete.'']),
     ([Lit ''Request cancellation for '', Hole ''task'', Lit ''. Running work stops at its next safe checkpoint.''], [Lit ''Solicita cancelar '', Hole ''task'', Lit ''. El trabajo en curso se detiene en su siguiente punto seguro.'']),
     ([Lit ''The control plane did not respond.''], [Lit ''El plano de control no respondi^00F3.'']),
     ([Lit ''Unable to load sites.''], [Lit ''No se pueden cargar los sitios.'']),
     ([Lit ''Unable to load CIDRs.''], [Lit ''No se pueden cargar los CIDR.'']),
     ([Lit ''This site does not exist.''], [Lit ''Este sitio no existe.'']),
     ([Lit ''The policy change was not accepted.''], [Lit ''No se acept^00F3 el cambio de pol^00EDtica.'']),
     ([Lit ''The exception was not accepted.''], [Lit ''No se acept^00F3 la excepci^00F3n.'']),
     ([Lit ''The cross-site policy was not accepted.''], [Lit ''No se acept^00F3 la pol^00EDtica entre sitios.'']),
     ([Lit ''The destination policy was not accepted.''], [Lit ''No se acept^00F3 la pol^00EDtica de destino.'']),
     ([Lit ''Unable to load cross-site access.''], [Lit ''No se puede cargar el acceso entre sitios.'']),
     ([Lit ''Unable to load the destination deny list.''], [Lit ''No se puede cargar la lista de denegaci^00F3n de destino.'']),
     ([Lit ''Unable to load tasks.''], [Lit ''No se pueden cargar las tareas.'']),
     ([Lit ''The task could not be cancelled.''], [Lit ''No se pudo cancelar la tarea.'']),
     ([Lit ''Audit verification failed.''], [Lit ''Fall^00F3 la verificaci^00F3n de auditor^00EDa.'']),
     ([Lit ''Unable to load audit events.''], [Lit ''No se pueden cargar los eventos de auditor^00EDa.'']),
     ([Lit ''Unable to render the Linux setup script.''], [Lit ''No se puede generar el script de configuraci^00F3n de Linux.'']),
     ([Lit ''network_error''], [Lit ''No se puede conectar al plano de control.'']),
     ([Lit ''request_failed''], [Lit ''No se pudo completar la solicitud.'']),
     ([Lit ''invalid_cidr''], [Lit ''El CIDR no es v^00E1lido.'']),
     ([Lit ''cidr_exists''], [Lit ''Ese CIDR ya existe.'']),
     ([Lit ''invalid_source_ip''], [Lit ''La IP de origen no es v^00E1lida.'']),
     ([Lit ''exception_must_expire_in_future''], [Lit ''La excepci^00F3n debe caducar en el futuro.'']),
     ([Lit ''invalid_exception''], [Lit ''La excepci^00F3n no es v^00E1lida.'']),
     ([Lit ''invalid_blacklist_pattern''], [Lit ''El patr^00F3n de destino no es v^00E1lido.'']),
     ([Lit ''blacklist_entry_exists''], [Lit ''Ese patr^00F3n de destino ya existe.'']),
     ([Lit ''1 hour''], [Lit ''1 hora'']),
     ([Lit ''6 hours''], [Lit ''6 horas'']),
     ([Lit ''24 hours''], [Lit ''24 horas'']),
     ([Lit ''ACK status''], [Lit ''Estado de ACK'']),
     ([Lit ''Active deployments''], [Lit ''Despliegues activos'']),
     ([Lit ''Active work''], [Lit ''Trabajo activo'']),
     ([Lit ''Awaiting node ACK''], [Lit ''Esperando ACK del nodo'']),
     ([Lit ''Content hash''], [Lit ''Hash de contenido'']),
     ([Lit ''Control plane to edge sites''], [Lit ''Del plano de control a sitios perimetrales'']),
     ([Lit ''Create a desired release for '', Hole ''site'', Lit ''. Nodes apply it independently and may still reject or roll back the change.''], [Lit ''Crea una versi^00F3n deseada para '', Hole ''site'', Lit ''. Los nodos la aplican de forma independiente y a^00FAn pueden rechazar o revertir el cambio.'']),
     ([Lit ''Current version''], [Lit ''Versi^00F3n actual'']),
     ([Lit ''DEPLOY TARGETS''], [Lit ''OBJETIVOS DE DESPLIEGUE'']),
     ([Lit ''DRAFT''], [Lit ''BORRADOR'']),
     ([Lit ''Drafts''], [Lit ''Borradores'']),
     ([Lit ''Effective source CIDRs''], [Lit ''CIDR de origen efectivos'']),
     ([Lit ''Endpoint count''], [Lit ''Cantidad de extremos'']),
     ([Lit ''Fetched''], [Lit ''Obtenido'']),
     ([Lit ''Fetched '', Hole ''date''], [Lit ''Obtenido '', Hole ''date'']),
     ([Lit ''Format''], [Lit ''Formato'']),
     ([Lit ''HISTORY''], [Lit ''HISTORIAL'']),
     ([Lit ''HTTP URL''], [Lit ''URL HTTP'']),
     ([Lit ''Single node''], [Lit ''Nodo ^00FAnico'']),
     ([Lit ''Single-node URI''], [Lit ''URI de nodo ^00FAnico'']),
     ([Lit ''Single VLESS or VMess node''], [Lit ''Nodo VLESS o VMess ^00FAnico'']),
     ([Lit ''Subscription site connection''], [Lit ''Conexi^00F3n al sitio de suscripci^00F3n'']),
     ([Lit ''Source type''], [Lit ''Tipo de origen'']),
     ([Lit ''IMMUTABLE HISTORY''], [Lit ''HISTORIAL INMUTABLE'']),
     ([Lit ''Import version''], [Lit ''Importar versi^00F3n'']),
     ([Lit ''Imported upstream''], [Lit ''Origen ascendente importado'']),
     ([Lit ''Importing...''], [Lit ''Importando...'']),
     ([Lit ''NODE RECONCILIATION''], [Lit ''CONCILIACI^00D3N DE NODOS'']),
     ([Lit ''Name''], [Lit ''Nombre'']),
     ([Lit ''No CIDRs supplied''], [Lit ''No se proporcionaron CIDR''])]"

definition messages_es_808 :: dictionary where
  "messages_es_808 =
    [([Lit ''No edge node''], [Lit ''Sin nodo perimetral'']),
     ([Lit ''Not refreshed''], [Lit ''Sin actualizar'']),
     ([Lit ''Parsed''], [Lit ''Analizado'']),
     ([Lit ''Parsing did not produce usable outbounds.''], [Lit ''El an^00E1lisis no produjo salidas utilizables.'']),
     ([Lit ''Previous release''], [Lit ''Versi^00F3n anterior'']),
     ([Lit ''Previous version''], [Lit ''Versi^00F3n anterior'']),
     ([Lit ''Publication''], [Lit ''Publicaci^00F3n'']),
     ([Lit ''Publish''], [Lit ''Publicar'']),
     ([Lit ''Publish to selected sites''], [Lit ''Publicar en los sitios seleccionados'']),
     ([Lit ''Queue refresh''], [Lit ''Poner actualizaci^00F3n en cola'']),
     ([Lit ''Queueing...''], [Lit ''Poniendo en cola...'']),
     ([Lit ''READY TO PUBLISH''], [Lit ''LISTO PARA PUBLICAR'']),
     ([Lit ''RELEASE''], [Lit ''VERSI^00D3N'']),
     ([Lit ''Refresh interval''], [Lit ''Intervalo de actualizaci^00F3n'']),
     ([Lit ''Refresh '', Hole ''name''], [Lit ''Actualizar '', Hole ''name'']),
     ([Lit ''Refreshed '', Hole ''date''], [Lit ''Actualizado '', Hole ''date'']),
     ([Lit ''Regional upstream''], [Lit ''Origen ascendente regional'']),
     ([Lit ''Release did not complete''], [Lit ''La versi^00F3n no se complet^00F3'']),
     ([Lit ''Release '', Hole ''version'', Lit '' to '', Hole ''count'', Lit '' selected sites. Each edge node validates and acknowledges the new outbound configuration independently.''], [Lit ''Publica '', Hole ''version'', Lit '' en '', Hole ''count'', Lit '' sitios seleccionados. Cada nodo perimetral valida y confirma de forma independiente la nueva configuraci^00F3n de salida.'']),
     ([Lit ''Remove CIDR''], [Lit ''Quitar CIDR'']),
     ([Lit ''Restore the previous selected version for '', Hole ''site'', Lit ''. This creates a new release and waits for node ACKs.''], [Lit ''Restaura la versi^00F3n seleccionada anterior de '', Hole ''site'', Lit ''. Esto crea una nueva versi^00F3n y espera los ACK de nodos.'']),
     ([Lit ''Revision v'', Hole ''revision'', Lit '' ^00B7 '', Hole ''date''], [Lit ''Revisi^00F3n v'', Hole ''revision'', Lit '' ^00B7 '', Hole ''date'']),
     ([Lit ''Risk''], [Lit ''Riesgo'']),
     ([Lit ''Roll back '', Hole ''name''], [Lit ''Revertir '', Hole ''name'']),
     ([Lit ''SELECTED VERSION''], [Lit ''VERSI^00D3N SELECCIONADA'']),
     ([Lit ''SITE SELECTIONS''], [Lit ''SELECCIONES DE SITIO'']),
     ([Lit ''STRUCTURED DIFF''], [Lit ''DIFERENCIA ESTRUCTURADA'']),
     ([Lit ''Sites''], [Lit ''Sitios'']),
     ([Lit ''Source''], [Lit ''Origen'']),
     ([Lit ''Source revision v'', Hole ''revision'', Lit '' ^00B7 expires '', Hole ''date''], [Lit ''Revisi^00F3n de origen v'', Hole ''revision'', Lit '' ^00B7 caduca '', Hole ''date'']),
     ([Lit ''Sources''], [Lit ''Or^00EDgenes'']),
     ([Lit ''Subscription file''], [Lit ''Archivo de suscripci^00F3n'']),
     ([Lit ''Targets''], [Lit ''Objetivos'']),
     ([Lit ''UPSTREAMS''], [Lit ''OR^00CDGENES ASCENDENTES'']),
     ([Lit ''Upload file''], [Lit ''Subir archivo'']),
     ([Lit ''Validation''], [Lit ''Validaci^00F3n'']),
     ([Lit ''Version cannot be published''], [Lit ''La versi^00F3n no se puede publicar'']),
     ([Lit ''Versions''], [Lit ''Versiones'']),
     ([Hole ''count'', Lit '' bytes''], [Hole ''count'', Lit '' bytes'']),
     ([Hole ''count'', Lit '' selected''], [Hole ''count'', Lit '' seleccionados'']),
     ([Lit ''Regional proxy state and deployment activity.''], [Lit ''Estado regional del proxy y actividad de despliegue.'']),
     ([Lit ''Heartbeat, configuration, and service facts from each monitor.''], [Lit ''Datos de latido, configuraci^00F3n y servicio de cada monitor.'']),
     ([Lit ''Regional source access is defined once and applied to local edge nodes.''], [Lit ''El acceso de origen regional se define una vez y se aplica a los nodos perimetrales locales.'']),
     ([Lit ''Temporary source access applies to all sites and expires automatically.''], [Lit ''El acceso de origen temporal se aplica a todos los sitios y caduca autom^00E1ticamente.'']),
     ([Lit ''Source CIDRs from one site can be added to another site only through an explicit allow.''], [Lit ''Los CIDR de origen de un sitio solo pueden a^00F1adirse a otro mediante una autorizaci^00F3n expl^00EDcita.'']),
     ([Lit ''Blocked destination patterns are included in every generated bundle.''], [Lit ''Los patrones de destino bloqueados se incluyen en cada paquete generado.'']),
     ([Lit ''Versioned upstream content is selected per site and released through the normal node ACK path.''], [Lit ''El contenido ascendente versionado se selecciona por sitio y se publica por la ruta normal de ACK de nodos.'']),
     ([Lit ''Draft, validate, publish, and reconcile every node independently.''], [Lit ''Crea borradores, valida, publica y concilia cada nodo de forma independiente.'']),
     ([Lit ''Queue state, retry history, and cancellation boundaries for control-plane work.''], [Lit ''Estado de cola, historial de reintentos y l^00EDmites de cancelaci^00F3n para el trabajo del plano de control.'']),
     ([Lit ''Append-only control-plane events with a verifiable hash chain.''], [Lit ''Eventos del plano de control solo anexables con una cadena de hash verificable.'']),
     ([Lit ''Employee proxy connection details and the rendered Linux setup script.''], [Lit ''Detalles de conexi^00F3n proxy para empleados y el script de configuraci^00F3n de Linux generado.'']),
     ([Lit ''Travel exceptions''], [Lit ''Excepciones de viaje'']),
     ([Lit ''Cross-site access''], [Lit ''Acceso entre sitios'']),
     ([Lit ''Cancel task''], [Lit ''Cancelar tarea'']),
     ([Lit ''Create rollback release''], [Lit ''Crear versi^00F3n de reversi^00F3n'']),
     ([Lit ''Enable access''], [Lit ''Habilitar acceso'']),
     ([Lit ''Enable cross-site access''], [Lit ''Habilitar acceso entre sitios'']),
     ([Lit ''No active tasks''], [Lit ''No hay tareas activas'']),
     ([Lit ''No audit events recorded''], [Lit ''No hay eventos de auditor^00EDa registrados'']),
     ([Lit ''No publishable drafts''], [Lit ''No hay borradores publicables'']),
     ([Lit ''No releases recorded''], [Lit ''No hay versiones registradas'']),
     ([Lit ''No releases yet''], [Lit ''A^00FAn no hay versiones'']),
     ([Lit ''No sites have a selected subscription''], [Lit ''Ning^00FAn sitio tiene una suscripci^00F3n seleccionada'']),
     ([Lit ''No subscription sources''], [Lit ''No hay or^00EDgenes de suscripci^00F3n'']),
     ([Lit ''No tasks recorded''], [Lit ''No hay tareas registradas'']),
     ([Lit ''No versions for this source''], [Lit ''No hay versiones para este origen'']),
     ([Lit ''Parsed versions are available after a refresh or file import.''], [Lit ''Las versiones analizadas est^00E1n disponibles despu^00E9s de actualizar o importar un archivo.'']),
     ([Lit ''Publish configuration draft''], [Lit ''Publicar borrador de configuraci^00F3n'']),
     ([Lit ''Publish release''], [Lit ''Publicar versi^00F3n'']),
     ([Lit ''Publish subscription version''], [Lit ''Publicar versi^00F3n de suscripci^00F3n'']),
     ([Lit ''Publish version''], [Lit ''Publicar versi^00F3n'']),
     ([Lit ''Queued and running jobs appear here.''], [Lit ''Los trabajos en cola y en ejecuci^00F3n aparecen aqu^00ED.'']),
     ([Lit ''Refresh or import content to create an immutable version.''], [Lit ''Actualiza o importa contenido para crear una versi^00F3n inmutable.'']),
     ([Lit ''Remove destination''], [Lit ''Quitar destino'']),
     ([Lit ''Remove destination deny''], [Lit ''Quitar denegaci^00F3n de destino'']),
     ([Lit ''Remove exception''], [Lit ''Quitar excepci^00F3n'']),
     ([Lit ''Remove site CIDR''], [Lit ''Quitar CIDR del sitio'']),
     ([Lit ''Remove travel exception''], [Lit ''Quitar excepci^00F3n de viaje'']),
     ([Lit ''Roll back site subscription''], [Lit ''Revertir suscripci^00F3n del sitio'']),
     ([Lit ''Select a draft or release''], [Lit ''Selecciona un borrador o versi^00F3n'']),
     ([Lit ''Select a source version''], [Lit ''Selecciona una versi^00F3n de origen'']),
     ([Lit ''Its diff and node reconciliation appear here.''], [Lit ''Su diferencia y conciliaci^00F3n de nodos aparecen aqu^00ED.'']),
     ([Lit ''Add an HTTP source or import a supported file.''], [Lit ''A^00F1ade un origen HTTP o importa un archivo compatible.'']),
     ([Lit ''Create a draft from a site policy workspace.''], [Lit ''Crea un borrador desde el espacio de trabajo de pol^00EDtica del sitio.'']),
     ([Lit ''Unable to load exceptions.''], [Lit ''No se pueden cargar las excepciones.'']),
     ([Lit ''Unable to load subscription state.''], [Lit ''No se puede cargar el estado de suscripci^00F3n.'']),
     ([Lit ''The subscription operation was not accepted.''], [Lit ''No se acept^00F3 la operaci^00F3n de suscripci^00F3n.'']),
     ([Lit ''Unable to load release state.''], [Lit ''No se puede cargar el estado de versi^00F3n.'']),
     ([Lit ''The release could not be created.''], [Lit ''No se pudo crear la versi^00F3n.'']),
     ([Lit ''Release history is unavailable.''], [Lit ''El historial de versiones no est^00E1 disponible.'']),
     ([Lit ''Task queue is unavailable.''], [Lit ''La cola de tareas no est^00E1 disponible.'']),
     ([Lit ''ACK data is unavailable.''], [Lit ''Los datos ACK no est^00E1n disponibles.'']),
     ([Lit ''Restore''], [Lit ''Restaurar'']),
     ([Lit ''Shutdown''], [Lit ''Apagar'']),
     ([Lit ''Restore site listener''], [Lit ''Restaurar escucha del sitio'']),
     ([Lit ''Emergency shutdown''], [Lit ''Apagado de emergencia'']),
     ([Lit ''Restore site''], [Lit ''Restaurar sitio'']),
     ([Lit ''Shut down site''], [Lit ''Apagar sitio'']),
     ([Lit ''domain''], [Lit ''dominio'']),
     ([Lit ''ip''], [Lit ''direcci^00F3n IP'']),
     ([Lit ''cidr''], [Lit ''CIDR'']),
     ([Lit ''added''], [Lit ''a^00F1adido'']),
     ([Lit ''removed''], [Lit ''eliminado'']),
     ([Lit ''subscription refresh''], [Lit ''actualizaci^00F3n de suscripci^00F3n'']),
     ([Lit ''config publish''], [Lit ''publicaci^00F3n de configuraci^00F3n'']),
     ([Lit ''Central Region''], [Lit ''Regi^00F3n central'']),
     ([Lit ''East Region''], [Lit ''Regi^00F3n este'']),
     ([Lit ''North Region''], [Lit ''Regi^00F3n norte'']),
     ([Lit ''South Region''], [Lit ''Regi^00F3n sur'']),
     ([Lit ''West Region''], [Lit ''Regi^00F3n oeste''])]"

definition messages_es_1292 :: dictionary where
  "messages_es_1292 =
    [([Lit ''Unable to load source blacklist.''], [Lit ''No se puede cargar la lista negra de origen.'']),
     ([Lit ''All actions''], [Lit ''Todas las acciones'']),
     ([Lit ''config release''], [Lit ''publicaci^00F3n de configuraci^00F3n'']),
     ([Lit ''config draft''], [Lit ''borrador de configuraci^00F3n'']),
     ([Lit ''proxy selection''], [Lit ''selecci^00F3n de proxy'']),
     ([Lit ''node rename''], [Lit ''renombrar nodo'']),
     ([Lit ''Filter by actor''], [Lit ''Filtrar por operador'']),
     ([Lit ''Task queue''], [Lit ''Cola de tareas'']),
     ([Hole ''count'', Lit '' tasks''], [Hole ''count'', Lit '' tareas'']),
     ([Lit ''Task type''], [Lit ''Tipo de tarea'']),
     ([Lit ''All task types''], [Lit ''Todos los tipos'']),
     ([Lit ''dead letter''], [Lit ''carta muerta'']),
     ([Lit ''config publish''], [Lit ''publicaci^00F3n de configuraci^00F3n'']),
     ([Lit ''subscription refresh''], [Lit ''actualizaci^00F3n de suscripci^00F3n'']),
     ([Lit ''node probe''], [Lit ''sonda de nodo'']),
     ([Lit ''backup create''], [Lit ''crear copia'']),
     ([Lit ''Connection history''], [Lit ''Historial de conexiones'']),
     ([Hole ''count'', Lit '' snapshots''], [Hole ''count'', Lit '' instant^00E1neas'']),
     ([Lit ''Search''], [Lit ''Buscar'']),
     ([Lit ''Clear search''], [Lit ''Borrar b^00FAsqueda'']),
     ([Lit ''All nodes''], [Lit ''Todos los nodos'']),
     ([Lit ''UDP''], [Lit ''UDP'']),
     ([Lit ''TCP''], [Lit ''TCP'']),
     ([Lit ''Configure''], [Lit ''Configurar'']),
     ([Lit ''Review each site's reported outbound groups and publish an immutable subscription version through the normal release path.''], [Lit ''Revisa los grupos de salida informados por cada sitio y publica una versi^00F3n inmutable mediante el flujo normal.'']),
     ([Lit ''Enabled''], [Lit ''Habilitado'']),
     ([Lit ''Automatic proxy configuration''], [Lit ''Configuraci^00F3n autom^00E1tica del proxy'']),
     ([Lit ''PAC chooses the single HTTP listener and does not grant access.''], [Lit ''PAC elige el ^00FAnico listener HTTP y no concede acceso.'']),
     ([Lit ''Unable to load access configuration.''], [Lit ''No se puede cargar la configuraci^00F3n de acceso.'']),
     ([Lit ''probe_target_unresolvable''], [Lit ''No se pudo resolver el destino de la prueba.'']),
     ([Lit ''probe_target_private_network''], [Lit ''El destino de la prueba debe ser una direcci^00F3n p^00FAblica.'']),
     ([Lit ''OBSERVE''], [Lit ''OBSERVAR'']),
     ([Lit ''Logs''], [Lit ''Registros'']),
     ([Lit ''Connections''], [Lit ''Conexiones'']),
     ([Lit ''Probes''], [Lit ''Pruebas'']),
     ([Lit ''Alerts''], [Lit ''Alertas'']),
     ([Lit ''Alert''], [Lit ''Alerta'']),
     ([Lit ''Access logs''], [Lit ''Registros de acceso'']),
     ([Lit ''Connection snapshots''], [Lit ''Res^00FAmenes de conexiones'']),
     ([Lit ''Outbound probes''], [Lit ''Pruebas de salida'']),
     ([Lit ''Recent allow and deny decisions from edge monitors.''], [Lit ''Decisiones recientes de permitir y denegar de los monitores.'']),
     ([Lit ''Latest connection summaries; full connection tables are never stored.''], [Lit ''^00DAltimos res^00FAmenes de conexiones; nunca se guardan tablas completas.'']),
     ([Lit ''Per-outbound health and circuit-breaker state.''], [Lit ''Salud y estado del disyuntor por salida.'']),
     ([Lit ''Run probe''], [Lit ''Ejecutar prueba'']),
     ([Lit ''Run a low-volume HEAD probe through the selected node.''], [Lit ''Ejecuta una prueba HEAD de bajo volumen mediante el nodo seleccionado.'']),
     ([Lit ''Target URL''], [Lit ''URL de destino'']),
     ([Lit ''Probe queued''], [Lit ''Prueba en cola'']),
     ([Lit ''No access logs recorded.''], [Lit ''No hay registros de acceso.'']),
     ([Lit ''No connection snapshots recorded.''], [Lit ''No hay res^00FAmenes de conexiones.'']),
     ([Lit ''No probe results recorded.''], [Lit ''No hay resultados de pruebas.'']),
     ([Lit ''No node selected.''], [Lit ''No hay nodo seleccionado.'']),
     ([Lit ''Sampled at''], [Lit ''Muestreado'']),
     ([Lit ''Source''], [Lit ''Origen'']),
     ([Lit ''Destination''], [Lit ''Destino'']),
     ([Lit ''Bytes up''], [Lit ''Bytes enviados'']),
     ([Lit ''Bytes down''], [Lit ''Bytes recibidos'']),
     ([Lit ''Duration''], [Lit ''Duraci^00F3n'']),
     ([Lit ''Deny reason''], [Lit ''Motivo del rechazo'']),
     ([Lit ''Active connections''], [Lit ''Conexiones activas'']),
     ([Lit ''API status''], [Lit ''Estado de API'']),
     ([Lit ''Available''], [Lit ''Disponible'']),
     ([Lit ''Unavailable''], [Lit ''No disponible'']),
     ([Lit ''Circuit''], [Lit ''Disyuntor'']),
     ([Lit ''closed''], [Lit ''cerrado'']),
     ([Lit ''open''], [Lit ''abierto'']),
     ([Lit ''half_open''], [Lit ''semiabierto'']),
     ([Lit ''Latency''], [Lit ''Latencia'']),
     ([Lit ''Success''], [Lit ''^00C9xito'']),
     ([Lit ''Failure''], [Lit ''Fallo'']),
     ([Lit ''Refresh''], [Lit ''Actualizar'']),
     ([Lit ''All decisions''], [Lit ''Todas las decisiones'']),
     ([Lit ''Only denies''], [Lit ''Solo rechazos'']),
     ([Lit ''Only allows''], [Lit ''Solo permisos'']),
     ([Lit ''Probe state''], [Lit ''Estado de prueba'']),
     ([Lit ''Control plane telemetry''], [Lit ''Observaci^00F3n del plano de control'']),
     ([Lit ''Open alerts''], [Lit ''Alertas abiertas'']),
     ([Lit ''Open circuits''], [Lit ''Disyuntores abiertos'']),
     ([Lit ''Deployment and alert summary''], [Lit ''Resumen de despliegue y alertas'']),
     ([Lit ''Review active conditions''], [Lit ''Revisar condiciones activas'']),
     ([Lit ''Review outbound health''], [Lit ''Revisar salud de salida'']),
     ([Lit ''Recent active and resolved conditions from the control plane.''], [Lit ''Condiciones activas y resueltas recientes del plano de control.'']),
     ([Lit ''All conditions''], [Lit ''Todas las condiciones'']),
     ([Lit ''Resolved conditions''], [Lit ''Condiciones resueltas'']),
     ([Lit ''No alerts recorded.''], [Lit ''No hay alertas registradas.'']),
     ([Lit ''Unable to load alerts.''], [Lit ''No se pueden cargar las alertas.'']),
     ([Lit ''Severity''], [Lit ''Gravedad'']),
     ([Lit ''First seen''], [Lit ''Primera vez'']),
     ([Lit ''Last seen''], [Lit ''^00DAltima vez'']),
     ([Lit ''critical''], [Lit ''cr^00EDtica'']),
     ([Lit ''warning''], [Lit ''advertencia'']),
     ([Lit ''resolved''], [Lit ''resuelta'']),
     ([Lit ''Node heartbeat is unavailable''], [Lit ''El latido del nodo no est^00E1 disponible'']),
     ([Lit ''Node configuration needs attention''], [Lit ''La configuraci^00F3n del nodo requiere atenci^00F3n'']),
     ([Lit ''Node proxy service is unavailable''], [Lit ''El servicio proxy del nodo no est^00E1 disponible'']),
     ([Lit ''Node subscription cannot be applied''], [Lit ''La suscripci^00F3n del nodo no se puede aplicar'']),
     ([Lit ''Outbound circuit is open''], [Lit ''El disyuntor de salida est^00E1 abierto'']),
     ([Lit ''Destination denies increased sharply''], [Lit ''Las solicitudes de origen bloqueadas aumentaron considerablemente'']),
     ([Lit ''Source requests denied increased sharply''], [Lit ''Las solicitudes de origen bloqueadas aumentaron considerablemente'']),
     ([Lit ''History''], [Lit ''Historial'']),
     ([Lit ''Recent probes''], [Lit ''Pruebas recientes'']),
     ([Lit ''Top destinations''], [Lit ''Principales destinos'']),
     ([Lit ''Traffic''], [Lit ''Tr^00E1fico'']),
     ([Lit ''^2191 '', Hole ''value''], [Lit ''^2191 '', Hole ''value'']),
     ([Lit ''^2193 '', Hole ''value''], [Lit ''^2193 '', Hole ''value'']),
     ([Hole ''count'', Lit '' events''], [Hole ''count'', Lit '' eventos'']),
     ([Lit ''other''], [Lit ''otro'']),
     ([Lit ''connect error''], [Lit ''error de conexi^00F3n'']),
     ([Lit ''request error''], [Lit ''error de solicitud''])]"

definition messages_es_1483 :: dictionary where
  "messages_es_1483 =
    [([Lit ''Source blacklist''], [Lit ''Lista negra de origen'']),
     ([Lit ''Source blocking''], [Lit ''Bloqueo de origen'']),
     ([Lit ''Add source rule''], [Lit ''A^00F1adir regla de origen'']),
     ([Lit ''Requests are allowed by default. Add an explicit source IP, network, or domain rule only when it should be blocked.''], [Lit ''Las solicitudes se permiten de forma predeterminada. A^00F1ade una regla expl^00EDcita de IP, red o dominio de origen solo cuando deba bloquearse.'']),
     ([Lit ''Requests are allowed by default. Add an explicit source IP, network, or domain rule only when it should be blocked; the rule is applied with the next release.''], [Lit ''Las solicitudes se permiten de forma predeterminada. A^00F1ade una regla expl^00EDcita de IP, red o dominio de origen solo cuando deba bloquearse; la regla se aplica con la siguiente publicaci^00F3n.'']),
     ([Lit ''Global rules apply to every site; site rules apply only to the selected site.''], [Lit ''Las reglas globales se aplican a todos los sitios; las reglas del sitio solo al sitio seleccionado.'']),
     ([Hole ''count'', Lit '' source rules''], [Hole ''count'', Lit '' reglas de origen'']),
     ([Lit ''Scope''], [Lit ''^00C1mbito'']),
     ([Lit ''Global''], [Lit ''Global'']),
     ([Lit ''All sites''], [Lit ''Todos los sitios'']),
     ([Lit ''Network''], [Lit ''Red'']),
     ([Lit ''network''], [Lit ''Red'']),
     ([Lit ''Select a site''], [Lit ''Selecciona un sitio'']),
     ([Lit ''Delete source rule''], [Lit ''Eliminar regla de origen'']),
     ([Lit ''No source rules are blocking requests.''], [Lit ''No hay reglas que bloqueen solicitudes de origen.'']),
     ([Lit ''Block a source IP, network, or domain globally or for one site.''], [Lit ''Bloquea una IP, red o dominio de origen globalmente o para un sitio.'']),
     ([Lit ''Remove source rule''], [Lit ''Quitar regla de origen'']),
     ([Lit ''Remove '', Hole ''value'', Lit '' from the source blacklist. The change is released automatically.''], [Lit ''Quita '', Hole ''value'', Lit '' de la lista negra de origen. El cambio se publica autom^00E1ticamente.'']),
     ([Lit ''Remove '', Hole ''value'', Lit '' from the source blacklist. New releases will no longer block it.''], [Lit ''Quita '', Hole ''value'', Lit '' de la lista negra de origen. Las nuevas publicaciones ya no lo bloquear^00E1n.'']),
     ([Lit ''Find source address''], [Lit ''Obtener direcci^00F3n de origen'']),
     ([Lit ''Manage source blacklist''], [Lit ''Gestionar lista negra de origen'']),
     ([Lit ''Source access is allowed by default. Use the returned address when you need to block a source for every site or one site.''], [Lit ''El acceso de origen se permite de forma predeterminada. Usa la direcci^00F3n devuelta cuando necesites bloquear un origen para todos los sitios o uno.'']),
     ([Lit ''Collect the proxy source address, then add an explicit source blacklist rule.''], [Lit ''Obt^00E9n la direcci^00F3n de origen del proxy y a^00F1ade una regla expl^00EDcita de lista negra.'']),
     ([Lit ''Regional edge sites and their enrolled nodes.''], [Lit ''Sitios perimetrales regionales y sus nodos registrados.'']),
     ([Lit ''Create a configuration draft from a site workspace.''], [Lit ''Crea un borrador de configuraci^00F3n desde un espacio de trabajo del sitio.'']),
     ([Lit ''Effective source blacklist''], [Lit ''Lista negra de origen efectiva'']),
     ([Lit ''No source blacklist rules''], [Lit ''No hay reglas de lista negra de origen.'']),
     ([Lit ''Bundle checks passed''], [Lit ''Las comprobaciones del paquete pasaron'']),
     ([Lit ''Site configuration changes require a release before nodes apply them.''], [Lit ''Los cambios de configuraci^00F3n del sitio requieren una publicaci^00F3n antes de que los nodos los apliquen.'']),
     ([Lit ''Configuration revision''], [Lit ''Revisi^00F3n de configuraci^00F3n'']),
     ([Lit ''Block the proxy listener for '', Hole ''name'', Lit ''. This changes the desired configuration and requires a release to reach its edge nodes.''], [Lit ''Bloquea la escucha de proxy de '', Hole ''name'', Lit ''. Esto cambia la configuraci^00F3n deseada y requiere una publicaci^00F3n para llegar a sus nodos perimetrales.'']),
     ([Lit ''Change the display name for '', Hole ''name'', Lit ''. The site slug, configuration, and node bindings remain unchanged.''], [Lit ''Cambia el nombre visible de '', Hole ''name'', Lit ''. El slug, la configuraci^00F3n y las vinculaciones de nodos no cambian.'']),
     ([Lit ''invalid_source_blacklist_pattern''], [Lit ''La regla de lista negra de origen no es v^00E1lida.'']),
     ([Lit ''source_blacklist_entry_exists''], [Lit ''Esa regla de lista negra de origen ya existe.'']),
     ([Lit ''source_blacklist_site_required''], [Lit ''Selecciona un sitio para esta regla.'']),
     ([Lit ''source_blacklist_global_site_forbidden''], [Lit ''Una regla global no puede especificar un sitio.'']),
     ([Lit ''source_blacklist_entry_not_found''], [Lit ''La regla de lista negra de origen no existe.'']),
     ([Lit ''source_blacklist_release_in_progress''], [Lit ''Un sitio afectado ya tiene una publicaci^00F3n en curso. Espera a que termine e int^00E9ntalo de nuevo.''])]"

definition messages_es_1620 :: dictionary where
  "messages_es_1620 =
    [([Lit ''Proxy configuration''], [Lit ''Configuraci^00F3n del proxy'']),
     ([Lit ''Filter by site''], [Lit ''Filtrar por sitio'']),
     ([Lit ''All sites''], [Lit ''Todos los sitios'']),
     ([Hole ''count'', Lit '' regional snapshots''], [Hole ''count'', Lit '' instant^00E1neas regionales'']),
     ([Lit ''Updated '', Hole ''date''], [Lit ''Actualizado '', Hole ''date'']),
     ([Lit ''No latency''], [Lit ''Sin latencia'']),
     ([Lit ''Recent latency history''], [Lit ''Historial de latencia reciente'']),
     ([Lit ''Current''], [Lit ''Actual'']),
     ([Hole ''count'', Lit '' endpoints''], [Hole ''count'', Lit '' salidas'']),
     ([Lit ''Selected''], [Lit ''Seleccionado'']),
     ([Lit ''No selection''], [Lit ''Sin selecci^00F3n'']),
     ([Hole ''count'', Lit '' groups''], [Hole ''count'', Lit '' grupos'']),
     ([Lit ''Received '', Hole ''date''], [Lit ''Recibido '', Hole ''date'']),
     ([Lit ''Awaiting monitor data''], [Lit ''Esperando datos del monitor'']),
     ([Lit ''No proxy groups reported.''], [Lit ''No se informaron grupos de proxy.'']),
     ([Lit ''Proxy API is unavailable.''], [Lit ''La API del proxy no est^00E1 disponible.'']),
     ([Lit ''clash_api_invalid_response''], [Lit ''La API del proxy devolvi^00F3 una respuesta no v^00E1lida.'']),
     ([Lit ''clash_api_unavailable''], [Lit ''La API local del proxy no est^00E1 disponible.'']),
     ([Lit ''The monitor has not reported a selectable group yet.''], [Lit ''El monitor a^00FAn no inform^00F3 un grupo seleccionable.'']),
     ([Lit ''The control plane will show the last successful snapshot when the monitor reconnects.''], [Lit ''El plano de control mostrar^00E1 la ^00FAltima instant^00E1nea correcta cuando el monitor se reconecte.'']),
     ([Lit ''No nodes enrolled.''], [Lit ''No hay nodos registrados.'']),
     ([Lit ''Enroll a regional monitor before viewing proxy groups.''], [Lit ''Registra un monitor regional antes de ver los grupos de proxy.'']),
     ([Lit ''Selector''], [Lit ''Selector'']),
     ([Lit ''Fallback''], [Lit ''Fallback'']),
     ([Lit ''URL test''], [Lit ''Prueba de URL'']),
     ([Lit ''Direct''], [Lit ''Directo'']),
     ([Lit ''Reject''], [Lit ''Rechazo'']),
     ([Lit ''Trojan''], [Lit ''Trojan'']),
     ([Lit ''Shadowsocks''], [Lit ''Shadowsocks'']),
     ([Lit ''VMess''], [Lit ''VMess'']),
     ([Lit ''VLESS''], [Lit ''VLESS'']),
     ([Lit ''HTTP''], [Lit ''HTTP'']),
     ([Lit ''SOCKS5''], [Lit ''SOCKS5'']),
     ([Lit ''Read-only outbound groups reported by each regional monitor. Endpoint credentials and server details never leave the node.''], [Lit ''Grupos de salida de solo lectura informados por cada monitor regional. Las credenciales y los detalles del servidor nunca salen del nodo.'']),
     ([Lit ''Snapshots are refreshed by monitors; selecting a node here does not change its live outbound.''], [Lit ''Los monitores actualizan las instant^00E1neas; seleccionar un nodo aqu^00ED no cambia su salida activa.'']),
     ([Lit ''REGIONAL TOPOLOGY''], [Lit ''TOPOLOG^00CDA REGIONAL'']),
     ([Lit ''Unable to load proxy configuration.''], [Lit ''No se puede cargar la configuraci^00F3n del proxy.'']),
     ([Lit ''Rename node''], [Lit ''Renombrar nodo'']),
     ([Lit ''Rename node '', Hole ''name''], [Lit ''Renombrar nodo '', Hole ''name'']),
     ([Lit ''Change the display name for '', Hole ''name'', Lit ''. Node identity and site binding remain unchanged.''], [Lit ''Cambia el nombre visible de '', Hole ''name'', Lit ''. La identidad y el sitio del nodo no cambian.'']),
     ([Lit ''Display name''], [Lit ''Nombre visible'']),
     ([Lit ''The node name could not be updated.''], [Lit ''No se pudo actualizar el nombre del nodo.'']),
     ([Lit ''Saving...''], [Lit ''Guardando...'']),
     ([Lit ''Save changes''], [Lit ''Guardar cambios'']),
     ([Lit ''node_name_required''], [Lit ''El nombre del nodo es obligatorio.'']),
     ([Lit ''node_name_too_long''], [Lit ''El nombre del nodo es demasiado largo.''])]"

definition messages_es_1735 :: dictionary where
  "messages_es_1735 =
    [([Lit ''Showing last successful snapshot.''], [Lit ''Mostrando la ^00FAltima instant^00E1nea correcta.'']),
     ([Lit ''Rename site''], [Lit ''Renombrar sitio'']),
     ([Lit ''Rename site '', Hole ''name''], [Lit ''Renombrar sitio '', Hole ''name'']),
     ([Lit ''Change the display name for '', Hole ''name'', Lit ''. The site slug, policy, and node bindings remain unchanged.''], [Lit ''Cambia el nombre visible de '', Hole ''name'', Lit ''. El slug, la pol^00EDtica y los v^00EDnculos de nodos no cambian.'']),
     ([Lit ''Site display name''], [Lit ''Nombre visible del sitio'']),
     ([Lit ''The site name could not be updated.''], [Lit ''No se pudo actualizar el nombre del sitio.'']),
     ([Lit ''site_name_required''], [Lit ''El nombre del sitio es obligatorio.'']),
     ([Lit ''site_name_too_long''], [Lit ''El nombre del sitio es demasiado largo.'']),
     ([Lit ''Configure site proxy''], [Lit ''Configurar proxy del sitio'']),
     ([Lit ''Choose an immutable subscription version for '', Hole ''site'', Lit ''. The change creates a release and does not modify the node directly.''], [Lit ''Elige una versi^00F3n inmutable de suscripci^00F3n para '', Hole ''site'', Lit ''. El cambio crea una publicaci^00F3n y no modifica el nodo directamente.'']),
     ([Lit ''DEPLOY TARGET''], [Lit ''DESTINO DE PUBLICACI^00D3N'']),
     ([Lit ''Current site subscription''], [Lit ''Suscripci^00F3n actual del sitio'']),
     ([Lit ''Not configured''], [Lit ''Sin configurar'']),
     ([Lit ''Bound '', Hole ''date''], [Lit ''Vinculada '', Hole ''date'']),
     ([Lit ''Subscription source''], [Lit ''Origen de suscripci^00F3n'']),
     ([Lit ''Select a source''], [Lit ''Selecciona un origen'']),
     ([Lit ''Immutable version''], [Lit ''Versi^00F3n inmutable'']),
     ([Lit ''Select a version''], [Lit ''Selecciona una versi^00F3n'']),
     ([Lit ''Upload or add a subscription in Subscriptions before configuring this site.''], [Lit ''Carga o a^00F1ade una suscripci^00F3n en Suscripciones antes de configurar este sitio.'']),
     ([Lit ''Open subscriptions''], [Lit ''Abrir suscripciones'']),
     ([Lit ''No publishable versions''], [Lit ''No hay versiones publicables'']),
     ([Lit ''Refresh or import this source in Subscriptions before configuring the site.''], [Lit ''Actualiza o importa este origen en Suscripciones antes de configurar el sitio.'']),
     ([Lit ''The subscription release could not be created.''], [Lit ''No se pudo crear la publicaci^00F3n de suscripci^00F3n.'']),
     ([Lit ''Create release''], [Lit ''Crear publicaci^00F3n'']),
     ([Lit ''Publish site proxy configuration''], [Lit ''Publicar configuraci^00F3n del proxy del sitio'']),
     ([Lit ''Publish '', Hole ''version'', Lit '' to '', Hole ''site'', Lit ''. Nodes will validate and acknowledge the new outbound configuration independently.''], [Lit ''Publica '', Hole ''version'', Lit '' en '', Hole ''site'', Lit ''. Los nodos validar^00E1n y confirmar^00E1n la nueva configuraci^00F3n de salida de forma independiente.'']),
     ([Lit ''Each region is shown once; configuration changes create a release for its enrolled nodes.''], [Lit ''Cada regi^00F3n se muestra una vez; los cambios crean una publicaci^00F3n para sus nodos registrados.'']),
     ([Lit ''Snapshots are refreshed by monitors. The configuration action below uses subscriptions and never changes a node directly.''], [Lit ''Los monitores actualizan las instant^00E1neas. La acci^00F3n de configuraci^00F3n usa suscripciones y nunca modifica un nodo directamente.'']),
     ([Lit ''No sites configured.''], [Lit ''No hay sitios configurados.'']),
     ([Lit ''Create a site before viewing regional proxy groups.''], [Lit ''Crea un sitio antes de ver los grupos de proxy regionales.'']),
     ([Lit ''subscription_version_required''], [Lit ''Selecciona una versi^00F3n de suscripci^00F3n publicable.''])]"

definition messages_es_1795 :: dictionary where
  "messages_es_1795 =
    [([Lit ''Employees''], [Lit ''Empleados'']),
     ([Lit ''Local employee account inventory.''], [Lit ''Inventario local de cuentas de empleados.'']),
     ([Hole ''count'', Lit '' employees''], [Hole ''count'', Lit '' empleados'']),
     ([Lit ''No employee accounts''], [Lit ''No hay cuentas de empleados'']),
     ([Lit ''Registered employees appear here after completing GQuan verification.''], [Lit ''Los empleados registrados aparecen aqu^00ED despu^00E9s de completar la verificaci^00F3n de GQuan.'']),
     ([Lit ''Employee''], [Lit ''Empleado'']),
     ([Lit ''local''], [Lit ''local'']),
     ([Lit ''Authentication source''], [Lit ''Origen de autenticaci^00F3n'']),
     ([Lit ''Last sign-in''], [Lit ''^00DAltimo inicio de sesi^00F3n'']),
     ([Lit ''Password changed''], [Lit ''Contrase^00F1a cambiada'']),
     ([Lit ''Unable to load employees.''], [Lit ''No se pueden cargar los empleados.''])]"

definition messages_es_1915 :: dictionary where
  "messages_es_1915 =
    [([Lit ''Backups''], [Lit ''Copias de seguridad'']),
     ([Lit ''Export JSON''], [Lit ''Exportar JSON'']),
     ([Lit ''Export NDJSON''], [Lit ''Exportar NDJSON'']),
     ([Lit ''Creating backup...''], [Lit ''Creando copia...'']),
     ([Lit ''Create backup''], [Lit ''Crear copia'']),
     ([Lit ''Unable to load backups.''], [Lit ''No se pueden cargar las copias.'']),
     ([Lit ''The backup operation was not accepted.''], [Lit ''No se acept^00F3 la operaci^00F3n de copia.'']),
     ([Lit ''Backups: '', Hole ''count''], [Lit ''Copias: '', Hole ''count'']),
     ([Lit ''Verified control-plane snapshots with a rehearsal-first restore workflow.''], [Lit ''Instant^00E1neas verificadas del plano de control con restauraci^00F3n guiada primero por ensayos.'']),
     ([Lit ''Every archive includes a manifest and SHA-256 checksum.''], [Lit ''Cada archivo incluye un manifiesto y una suma SHA-256.'']),
     ([Lit ''Backup''], [Lit ''Copia'']),
     ([Lit ''Origin''], [Lit ''Origen'']),
     ([Lit ''Scope''], [Lit ''^00C1mbito'']),
     ([Lit ''Size''], [Lit ''Tama^00F1o'']),
     ([Lit ''Encryption''], [Lit ''Cifrado'']),
     ([Lit ''Last rehearsal''], [Lit ''^00DAltimo ensayo'']),
     ([Lit ''Not rehearsed''], [Lit ''Sin ensayo'']),
     ([Lit ''Checksum''], [Lit ''Suma de comprobaci^00F3n'']),
     ([Lit ''Verify''], [Lit ''Verificar'']),
     ([Lit ''No backups recorded''], [Lit ''No hay copias registradas'']),
     ([Lit ''Create a snapshot before a risky change or upgrade.''], [Lit ''Crea una instant^00E1nea antes de un cambio o actualizaci^00F3n de riesgo.'']),
     ([Lit ''Run restore rehearsal''], [Lit ''Ejecutar ensayo de restauraci^00F3n'']),
     ([Lit ''Verify '', Hole ''backup'', Lit '' without changing live data. The task checks the archive manifest and collection hashes.''], [Lit ''Verifica '', Hole ''backup'', Lit '' sin cambiar los datos activos. La tarea comprueba el manifiesto y los hashes de las colecciones.'']),
     ([Lit ''Run rehearsal''], [Lit ''Ejecutar ensayo'']),
     ([Lit ''Restore backup''], [Lit ''Restaurar copia'']),
     ([Lit ''Restore '', Hole ''backup'', Lit '' by upserting verified documents. Current task and backup records are preserved; newer documents are not deleted.''], [Lit ''Restaura '', Hole ''backup'', Lit '' insertando documentos verificados. Se conservan las tareas y copias actuales; no se eliminan documentos nuevos.'']),
     ([Lit ''control_plane''], [Lit ''plano de control'']),
     ([Lit ''manual''], [Lit ''Manual'']),
     ([Lit ''scheduled''], [Lit ''Programada'']),
     ([Lit ''verified''], [Lit ''Verificada'']),
     ([Lit ''expired''], [Lit ''Caducada'']),
     ([Lit ''planned''], [Lit ''planificada'']),
     ([Lit ''restore queued''], [Lit ''restauraci^00F3n en cola'']),
     ([Lit ''rehearsed''], [Lit ''ensayada'']),
     ([Lit ''restored''], [Lit ''restaurada'']),
     ([Lit ''backup failed''], [Lit ''copia fallida'']),
     ([Lit ''backup_not_verified''], [Lit ''La copia no est^00E1 verificada.'']),
     ([Lit ''backup_artifact_missing''], [Lit ''Falta el archivo de copia.'']),
     ([Lit ''backup_checksum_mismatch''], [Lit ''La suma de la copia no coincide.'']),
     ([Lit ''backup_archive_invalid''], [Lit ''El archivo de copia no es v^00E1lido.'']),
     ([Lit ''backup_manifest_invalid''], [Lit ''El manifiesto de copia no es v^00E1lido.'']),
     ([Lit ''backup_collection_too_large''], [Lit ''Un miembro de archivo de colecci^00F3n super^00F3 el l^00EDmite de tama^00F1o.'']),
     ([Lit ''backup_document_too_large''], [Lit ''Un documento super^00F3 el l^00EDmite de tama^00F1o del miembro de archivo.'']),
     ([Lit ''backup_member_too_large''], [Lit ''Un miembro del archivo de copia super^00F3 el l^00EDmite de tama^00F1o.'']),
     ([Lit ''backup_archive_too_large''], [Lit ''El archivo de copia expandido super^00F3 el l^00EDmite de tama^00F1o.'']),
     ([Lit ''backup_encryption_required''], [Lit ''En producci^00F3n se requiere una clave de cifrado.'']),
     ([Lit ''backup_encryption_key_missing''], [Lit ''Falta la clave de cifrado.'']),
     ([Lit ''backup_openssl_unavailable''], [Lit ''OpenSSL no est^00E1 disponible para copias cifradas.'']),
     ([Lit ''backup_write_failed''], [Lit ''No se pudo escribir el archivo de copia.'']),
     ([Lit ''backup_operation_failed''], [Lit ''Fall^00F3 la tarea de copia.'']),
     ([Lit ''audit_export_format_invalid''], [Lit ''El formato de exportaci^00F3n de auditor^00EDa no es v^00E1lido.''])]"

definition messages_es_1981 :: dictionary where
  "messages_es_1981 =
    [([Lit ''Proxy connection details and the rendered Linux setup script.''], [Lit ''Detalles de conexi^00F3n de proxy y script Linux generado.'']),
     ([Lit ''Transport''], [Lit ''Transporte'']),
     ([Lit ''release_in_progress''], [Lit ''Ya hay una publicaci^00F3n de configuraci^00F3n en curso para este sitio.'']),
     ([Lit ''request_failed''], [Lit ''No se pudo completar la solicitud.''])]"

definition messages_es_2036 :: dictionary where
  "messages_es_2036 =
    [([Lit ''Choose a site''], [Lit ''Elegir sitio'']),
     ([Lit ''Choose a node''], [Lit ''Elegir nodo'']),
     ([Lit ''SITE''], [Lit ''SITIO'']),
     ([Lit ''NODE''], [Lit ''NODO'']),
     ([Lit ''No site selected''], [Lit ''Ning^00FAn sitio seleccionado'']),
     ([Lit ''A selection is released through the monitor ACK workflow.''], [Lit ''La selecci^00F3n se publica mediante el flujo de confirmaci^00F3n del monitor.'']),
     ([Lit ''Choose an outbound below. The selection creates a node release and is applied by its monitor.''], [Lit ''Elige una salida abajo. La selecci^00F3n crea una publicaci^00F3n del nodo y la aplica su monitor.'']),
     ([Lit ''Select '', Hole ''name''], [Lit ''Seleccionar '', Hole ''name'']),
     ([Lit ''Switch proxy service''], [Lit ''Cambiar servicio proxy'']),
     ([Lit ''Set '', Hole ''node'', Lit '' to use '', Hole ''outbound'', Lit '' in '', Hole ''group'', Lit ''. This creates a node release; the monitor applies it after validation and health checks.''], [Lit ''Configura '', Hole ''node'', Lit '' para usar '', Hole ''outbound'', Lit '' en '', Hole ''group'', Lit ''. Se crea una publicaci^00F3n y el monitor la aplica tras validar y comprobar la salud.'']),
     ([Lit ''The proxy selection could not be released.''], [Lit ''No se pudo publicar la selecci^00F3n del proxy.'']),
     ([Lit ''Release queued for '', Hole ''node'', Lit ''.''], [Lit ''Publicaci^00F3n en cola para '', Hole ''node'', Lit ''.'']),
     ([Lit ''proxy_snapshot_not_found''], [Lit ''El nodo a^00FAn no inform^00F3 una instant^00E1nea del proxy.'']),
     ([Lit ''proxy_group_not_found''], [Lit ''El grupo proxy no existe o se elimin^00F3 de la instant^00E1nea.'']),
     ([Lit ''proxy_outbound_not_found''], [Lit ''El servicio proxy seleccionado no existe o se elimin^00F3 de la instant^00E1nea.'']),
     ([Lit ''proxy_group_not_selectable''], [Lit ''El grupo proxy no tiene servicios seleccionables.'']),
     ([Lit ''release_idempotency_incomplete''], [Lit ''La solicitud de publicaci^00F3n a^00FAn se est^00E1 procesando. Actualiza e int^00E9ntalo de nuevo en breve.'']),
     ([Lit ''Inspect a site and node, then choose the outbound service that its monitor should apply.''], [Lit ''Inspecciona un sitio y nodo y elige el servicio de salida que debe aplicar su monitor.'']),
     ([Hole ''count'', Lit '' sites''], [Hole ''count'', Lit '' sitios'']),
     ([Hole ''count'', Lit '' nodes''], [Hole ''count'', Lit '' nodos'']),
     ([Lit ''sites''], [Lit ''sitios'']),
     ([Lit ''nodes''], [Lit ''nodos''])]"

definition messages_es_2099 :: dictionary where
  "messages_es_2099 =
    [([Lit ''auth failed''], [Lit ''Autenticaci^00F3n fallida'']),
     ([Lit ''Outbound services''], [Lit ''Servicios de salida'']),
     ([Hole ''count'', Lit '' services''], [Hole ''count'', Lit '' servicios'']),
     ([Lit ''Active service''], [Lit ''Servicio activo'']),
     ([Lit ''No outbound services reported.''], [Lit ''No se informaron servicios de salida.'']),
     ([Lit ''The monitor has not reported its subscription selector yet.''], [Lit ''El monitor a^00FAn no inform^00F3 su selector de suscripci^00F3n.'']),
     ([Lit ''Enroll a regional monitor before choosing an outbound service.''], [Lit ''Registra un monitor regional antes de elegir un servicio de salida.'']),
     ([Lit ''Set '', Hole ''node'', Lit '' to use '', Hole ''outbound'', Lit ''. This creates a node release; the monitor applies it after validation and health checks.''], [Lit ''Configura '', Hole ''node'', Lit '' para usar '', Hole ''outbound'', Lit ''. Se crea una publicaci^00F3n y el monitor la aplica tras validar y comprobar la salud.'']),
     ([Lit ''PROXY GROUP''], [Lit ''GRUPO PROXY'']),
     ([Lit ''Proxy groups''], [Lit ''Grupos proxy'']),
     ([Lit ''Choose a proxy group''], [Lit ''Elegir un grupo proxy'']),
     ([Lit ''Search proxy services''], [Lit ''Buscar servicios proxy'']),
     ([Lit ''Filter proxy state''], [Lit ''Filtrar estado del proxy'']),
     ([Lit ''All endpoint states''], [Lit ''Todos los estados de salida'']),
     ([Hole ''count'', Lit '' of '', Hole ''total'', Lit '' shown''], [Hole ''count'', Lit '' de '', Hole ''total'', Lit '' mostrados'']),
     ([Lit ''No matching proxy services''], [Lit ''No hay servicios proxy coincidentes'']),
     ([Lit ''Try another name or state filter.''], [Lit ''Prueba otro nombre o filtro de estado.''])]"

definition messages_es_2147 :: dictionary where
  "messages_es_2147 =
    [([Lit ''Recent releases''], [Lit ''Publicaciones recientes'']),
     ([Lit ''Review desired state, node ACKs, and the path from draft to applied configuration.''], [Lit ''Revisa el estado deseado, los ACK de los nodos y el camino desde el borrador hasta la configuraci^00F3n aplicada.'']),
     ([Hole ''count'', Lit '' releases''], [Hole ''count'', Lit '' publicaciones'']),
     ([Lit ''Filter releases''], [Lit ''Filtrar publicaciones'']),
     ([Hole ''count'', Lit '' shown''], [Hole ''count'', Lit '' mostradas'']),
     ([Lit ''Time range''], [Lit ''Intervalo de tiempo'']),
     ([Lit ''Last 24 hours''], [Lit ''^00DAltimas 24 horas'']),
     ([Lit ''Last 7 days''], [Lit ''^00DAltimos 7 d^00EDas'']),
     ([Lit ''Last 30 days''], [Lit ''^00DAltimos 30 d^00EDas'']),
     ([Lit ''All time''], [Lit ''Todo el tiempo'']),
     ([Lit ''Release history''], [Lit ''Historial de publicaciones'']),
     ([Lit ''The release could not be created.''], [Lit ''No se pudo crear la publicaci^00F3n.''])]"

definition messages_es_2219 :: dictionary where
  "messages_es_2219 =
    [([Lit ''Release ID''], [Lit ''ID de publicaci^00F3n'']),
     ([Lit ''Target release''], [Lit ''Publicaci^00F3n objetivo'']),
     ([Lit ''Target nodes''], [Lit ''Nodos objetivo'']),
     ([Lit ''Desired version v'', Hole ''version''], [Lit ''Versi^00F3n deseada v'', Hole ''version'']),
     ([Hole ''count'', Lit '' acknowledged''], [Hole ''count'', Lit '' confirmados'']),
     ([Lit ''Elapsed''], [Lit ''Duraci^00F3n'']),
     ([Lit ''Finished '', Hole ''date''], [Lit ''Finalizado '', Hole ''date'']),
     ([Lit ''Finished''], [Lit ''Finalizado'']),
     ([Lit ''Started '', Hole ''date''], [Lit ''Iniciado '', Hole ''date'']),
     ([Lit ''Not started''], [Lit ''No iniciado'']),
     ([Lit ''Desired v'', Hole ''version''], [Lit ''Deseada v'', Hole ''version'']),
     ([Lit ''Applied v'', Hole ''version''], [Lit ''Aplicada v'', Hole ''version'']),
     ([Lit ''ACKs''], [Lit ''ACK'']),
     ([Lit ''Health''], [Lit ''Salud'']),
     ([Lit ''Bundle''], [Lit ''Paquete'']),
     ([Lit ''Rollback applied''], [Lit ''Reversi^00F3n aplicada'']),
     ([Lit ''Rollback failed''], [Lit ''Reversi^00F3n fallida'']),
     ([Lit ''Node reported an error''], [Lit ''El nodo inform^00F3 un error'']),
     ([Lit ''COORDINATION''], [Lit ''COORDINACI^00D3N'']),
     ([Lit ''Release summary''], [Lit ''Resumen de publicaci^00F3n'']),
     ([Lit ''Desired state created''], [Lit ''Estado deseado creado'']),
     ([Lit ''Bundle and policy checks passed''], [Lit ''Comprobaciones de paquete y pol^00EDtica superadas'']),
     ([Lit ''Waiting for the monitor''], [Lit ''Esperando al monitor'']),
     ([Lit ''Monitor is applying the bundle''], [Lit ''El monitor est^00E1 aplicando el paquete'']),
     ([Lit ''Verifying services and firewall''], [Lit ''Verificando servicios y cortafuegos'']),
     ([Lit ''All targeted nodes acknowledged''], [Lit ''Todos los nodos objetivo confirmaron''])]"

definition messages_es_2276 :: dictionary where
  "messages_es_2276 =
    [([Lit ''one_or_more_nodes_failed''], [Lit ''Uno o m^00E1s nodos no pudieron aplicar la configuraci^00F3n.'']),
     ([Lit ''single_node_invalid_uri''], [Lit ''La URI del nodo ^00FAnico no es v^00E1lida.'']),
     ([Lit ''single_node_invalid_vmess''], [Lit ''La carga JSON Base64 de VMess no es v^00E1lida.'']),
     ([Lit ''single_node_invalid_uuid''], [Lit ''El UUID de VMess/VLESS no es v^00E1lido.'']),
     ([Lit ''single_node_invalid_port''], [Lit ''El puerto del nodo ^00FAnico no es v^00E1lido.'']),
     ([Lit ''single_node_invalid_host''], [Lit ''La direcci^00F3n del servidor no es v^00E1lida.'']),
     ([Lit ''single_node_invalid_parameters''], [Lit ''Los par^00E1metros del nodo ^00FAnico no son v^00E1lidos.'']),
     ([Lit ''single_node_parameter_unsupported''], [Lit ''La URI contiene par^00E1metros no compatibles.'']),
     ([Lit ''single_node_transport_unsupported''], [Lit ''El transporte del nodo ^00FAnico no es compatible.'']),
     ([Lit ''single_node_security_unsupported''], [Lit ''El modo de seguridad no es compatible.'']),
     ([Lit ''single_node_too_large''], [Lit ''La carga del nodo ^00FAnico supera el l^00EDmite de tama^00F1o.'']),
     ([Lit ''proxy_outbound_not_found''], [Lit ''La salida seleccionada ya no existe; se usar^00E1 la primera salida actual.''])]"

definition messages_es_2394 :: dictionary where
  "messages_es_2394 =
    [([Lit ''CONNECTION''], [Lit ''CONEXI^00D3N'']),
     ([Lit ''Proxy endpoint''], [Lit ''Extremo del proxy'']),
     ([Lit ''Protocol''], [Lit ''Protocolo'']),
     ([Lit ''Endpoint''], [Lit ''Extremo'']),
     ([Lit ''One-line shell configuration''], [Lit ''Configuraci^00F3n de una l^00EDnea'']),
     ([Lit ''Enable proxy script''], [Lit ''Script para activar el proxy'']),
     ([Lit ''Source this script into the current shell to enable HTTP CONNECT. Direct execution cannot change the parent shell.''], [Lit ''Carga este script en el shell actual para activar HTTP CONNECT. La ejecuci^00F3n directa no puede cambiar el shell padre.'']),
     ([Lit ''Disable proxy script''], [Lit ''Script para desactivar el proxy'']),
     ([Lit ''Source this script into the current shell to remove Grouproxy variables without changing unrelated settings.''], [Lit ''Carga este script en el shell actual para quitar las variables de Grouproxy sin cambiar otros ajustes.'']),
     ([Lit ''Proxy test script''], [Lit ''Script de prueba del proxy'']),
     ([Lit ''Automatic proxy configuration (PAC)''], [Lit ''Configuraci^00F3n autom^00E1tica del proxy (PAC)'']),
     ([Lit ''Managed Linux setup script''], [Lit ''Script de configuraci^00F3n de Linux'']),
     ([Lit ''OPERATIONS RUNBOOK''], [Lit ''MANUAL OPERATIVO'']),
     ([Lit ''Proxy access guide''], [Lit ''Gu^00EDa de acceso al proxy'']),
     ([Lit ''HOW IT WORKS''], [Lit ''C^00D3MO FUNCIONA'']),
     ([Lit ''Operating notes''], [Lit ''Notas operativas'']),
     ([Lit ''View source''], [Lit ''Ver origen'']),
     ([Lit ''Version source''], [Lit ''Origen de versi^00F3n'']),
     ([Lit ''Version source v'', Hole ''version''], [Lit ''Origen de versi^00F3n v'', Hole ''version'']),
     ([Lit ''No source content''], [Lit ''Sin contenido de origen'']),
     ([Lit ''Unable to load source content.''], [Lit ''No se pudo cargar el contenido de origen.'']),
     ([Lit ''Unable to copy source content.''], [Lit ''No se pudo copiar el contenido de origen.'']),
     ([Lit ''Choose one or more sites to create a release. No sites are selected by default.''], [Lit ''Elige uno o m^00E1s sitios para crear una publicaci^00F3n. No se selecciona ninguno por defecto.'']),
     ([Lit ''SELECTED SITE''], [Lit ''SITIO SELECCIONADO'']),
     ([Lit ''Select a site in the topology to inspect its nodes.''], [Lit ''Selecciona un sitio en la topolog^00EDa para inspeccionar sus nodos.'']),
     ([Lit ''In sync''], [Lit ''Sincronizado'']),
     ([Lit ''Stage''], [Lit ''Etapa'']),
     ([Lit ''Started''], [Lit ''Inicio'']),
     ([Lit ''Desired release''], [Lit ''Publicaci^00F3n deseada'']),
     ([Lit ''Failure details''], [Lit ''Detalles del fallo'']),
     ([Lit ''Identifiers, timings, and node outcomes''], [Lit ''Identificadores, tiempos y resultados de nodos'']),
     ([Lit ''Release summary''], [Lit ''Resumen de publicaci^00F3n'']),
     ([Lit ''Add source''], [Lit ''A^00F1adir origen'']),
     ([Lit ''VLESS Reality Vision''], [Lit ''VLESS Reality Vision'']),
     ([Lit ''Name (optional)''], [Lit ''Nombre (opcional)'']),
     ([Lit ''Audit event reports an error''], [Lit ''El evento de auditor^00EDa informa de un error'']),
     ([Lit ''Audit verification failed''], [Lit ''Fall^00F3 la verificaci^00F3n de auditor^00EDa'']),
     ([Lit ''CONTROL PLANE''], [Lit ''PLANO DE CONTROL'']),
     ([Lit ''Export failed''], [Lit ''Fall^00F3 la exportaci^00F3n'']),
     ([Lit ''Node reports an error''], [Lit ''El nodo informa de un error'']),
     ([Lit ''Operation failed''], [Lit ''Fall^00F3 la operaci^00F3n'']),
     ([Lit ''Proxy snapshot warning''], [Lit ''Advertencia de instant^00E1nea del proxy'']),
     ([Lit ''Refresh failed''], [Lit ''Fall^00F3 la actualizaci^00F3n'']),
     ([Lit ''Sign in failed''], [Lit ''Fall^00F3 el inicio de sesi^00F3n''])]"

definition messages_es_2553 :: dictionary where
  "messages_es_2553 =
    [([Lit ''ACCESS GUIDE''], [Lit ''GU^00CDA DE ACCESO'']),
     ([Lit ''Proxy access''], [Lit ''Acceso al proxy'']),
     ([Lit ''Test environment''], [Lit ''Entorno de prueba'']),
     ([Lit ''Production environment''], [Lit ''Entorno de producci^00F3n'']),
     ([Lit ''Configure the Grouproxy HTTP CONNECT endpoint on a workstation, verify the route, and return to a direct connection when finished.''], [Lit ''Configura el extremo HTTP CONNECT de Grouproxy en una estaci^00F3n, verifica la ruta y vuelve a la conexi^00F3n directa al terminar.'']),
     ([Lit ''OVERVIEW''], [Lit ''RESUMEN'']),
     ([Lit ''QUICK START''], [Lit ''INICIO R^00C1PIDO'']),
     ([Lit ''WINDOWS''], [Lit ''WINDOWS'']),
     ([Lit ''MACOS''], [Lit ''MACOS'']),
     ([Lit ''LINUX''], [Lit ''LINUX'']),
     ([Lit ''VERIFY''], [Lit ''VERIFICAR'']),
     ([Lit ''NOTES''], [Lit ''NOTAS'']),
     ([Lit ''Proxy endpoint''], [Lit ''Extremo del proxy'']),
     ([Lit ''The proxy service is exposed directly on port 3128. Dashboard access is separate and does not require an NGINX forwarding layer.''], [Lit ''El proxy se expone directamente en el puerto 3128. El panel es independiente y no necesita una capa de reenv^00EDo NGINX.'']),
     ([Lit ''HTTP CONNECT''], [Lit ''HTTP CONNECT'']),
     ([Lit ''Environment''], [Lit ''Entorno'']),
     ([Lit ''Port''], [Lit ''Puerto'']),
     ([Lit ''Configure a shell in one line''], [Lit ''Configurar el shell en una l^00EDnea'']),
     ([Lit ''The variables apply to this terminal and the processes started from it.''], [Lit ''Las variables se aplican a este terminal y a los procesos que se inicien desde ^00E9l.'']),
     ([Lit ''Paste the command into a new terminal.''], [Lit ''Pega el comando en un terminal nuevo.'']),
     ([Lit ''Run the verification command below before opening applications.''], [Lit ''Ejecuta el comando de verificaci^00F3n antes de abrir aplicaciones.'']),
     ([Lit ''Close the terminal or run the disable command to return to direct access.''], [Lit ''Cierra el terminal o ejecuta el comando de desactivaci^00F3n para volver al acceso directo.'']),
     ([Lit ''Windows one-click setup''], [Lit ''Configuraci^00F3n de Windows en un clic'']),
     ([Lit ''The pre-generated PowerShell asset configures the current Windows user and keeps a backup for a reversible disable operation.''], [Lit ''El script PowerShell pre-generado configura el usuario actual de Windows y guarda una copia para poder revertirlo.'']),
     ([Lit ''Download ready''], [Lit ''Descarga disponible'']),
     ([Lit ''Download the script, then open PowerShell in its download folder.''], [Lit ''Descarga el script y abre PowerShell en su carpeta.'']),
     ([Lit ''macOS shortcut''], [Lit ''Atajo de macOS'']),
     ([Lit ''Download the shortcut, import it into the Shortcuts app, and run it.''], [Lit ''Descarga el atajo, imp^00F3rtalo en la app Atajos y ejec^00FAtalo.'']),
     ([Lit ''This macOS shortcut is in development.''], [Lit ''Este atajo de macOS est^00E1 en desarrollo.'']),
     ([Lit ''Feature in development''], [Lit ''Funci^00F3n en desarrollo'']),
     ([Lit ''Get shortcut''], [Lit ''Obtener atajo'']),
     ([Lit ''Opens Apple Shortcuts in a new tab.''], [Lit ''Abre Atajos de Apple en una pesta^00F1a nueva.'']),
     ([Lit ''Review the actions and add the shortcut to the Shortcuts app.''], [Lit ''Revisa las acciones y a^00F1ade el atajo a la app Atajos.'']),
     ([Lit ''Run it from Shortcuts and follow the prompts shown by macOS.''], [Lit ''Ejec^00FAtalo desde Atajos y sigue las indicaciones de macOS.'']),
     ([Lit ''Linux desktop and shell setup''], [Lit ''Configuraci^00F3n de escritorio y shell de Linux'']),
     ([Lit ''The repository-provided script configures shell variables and GNOME or KDE settings when available.''], [Lit ''El script del repositorio configura variables del shell y los ajustes de GNOME o KDE cuando est^00E1n disponibles.'']),
     ([Lit ''Download the script and make it executable.''], [Lit ''Descarga el script y dale permiso de ejecuci^00F3n.'']),
     ([Lit ''Run it as the current user for shell and desktop settings.''], [Lit ''Ejec^00FAtalo como el usuario actual para configurar el shell y el escritorio.'']),
     ([Lit ''Test the actual proxy route''], [Lit ''Probar la ruta real del proxy'']),
     ([Lit ''These commands make a real HTTPS request through HTTP CONNECT and show the proxy exit address.''], [Lit ''Estos comandos realizan una solicitud HTTPS real mediante HTTP CONNECT y muestran la direcci^00F3n de salida.'']),
     ([Lit ''Download PAC file''], [Lit ''Descargar archivo PAC'']),
     ([Lit ''The proxy is HTTP CONNECT on TCP 3128; HTTPS destinations remain encrypted end-to-end.''], [Lit ''El proxy usa HTTP CONNECT en TCP 3128; los destinos HTTPS permanecen cifrados de extremo a extremo.'']),
     ([Lit ''The endpoint has no proxy authentication layer. Network policy and site CIDRs control access.''], [Lit ''El extremo no tiene autenticaci^00F3n de proxy; el acceso lo controlan la pol^00EDtica de red y los CIDR del sitio.'']),
     ([Lit ''Existing applications may need to be restarted after enabling or disabling environment variables.''], [Lit ''Puede ser necesario reiniciar las aplicaciones abiertas tras activar o desactivar las variables de entorno.'']),
     ([Lit ''Enable proxy script''], [Lit ''Script para activar el proxy'']),
     ([Lit ''Disable proxy script''], [Lit ''Script para desactivar el proxy'']),
     ([Lit ''Linux enable''], [Lit ''Activar Linux'']),
     ([Lit ''Linux disable''], [Lit ''Desactivar Linux'']),
     ([Lit ''clipboard_unavailable''], [Lit ''El navegador no permiti^00F3 copiar. Selecciona el texto y c^00F3pialo manualmente.'']),
     ([Lit ''On this page''], [Lit ''En esta p^00E1gina'']),
     ([Lit ''Overview''], [Lit ''Resumen'']),
     ([Lit ''Quick start''], [Lit ''Inicio r^00E1pido'']),
     ([Lit ''Verification''], [Lit ''Verificaci^00F3n'']),
     ([Lit ''Notes''], [Lit ''Notas''])]"

definition messages_es_2686 :: dictionary where
  "messages_es_2686 =
    [([Lit ''Connect your workstation, verify the route, and maintain source access from one place.''], [Lit ''Conecta la estaci^00F3n de trabajo, verifica la ruta y administra el acceso de origen desde un solo lugar.'']),
     ([Lit ''Choose an operating system and use the shortest supported setup path.''], [Lit ''Elige un sistema operativo y usa la ruta de configuraci^00F3n compatible m^00E1s breve.'']),
     ([Lit ''Windows''], [Lit ''Windows'']),
     ([Lit ''macOS''], [Lit ''macOS'']),
     ([Lit ''Linux''], [Lit ''Linux'']),
     ([Lit ''Use the downloaded script to turn the current user's Windows system proxy on or off.''], [Lit ''Usa el script descargado para activar o desactivar el proxy del sistema del usuario actual de Windows.'']),
     ([Lit ''Shortcut links are placeholders until the macOS workflows are published.''], [Lit ''Los enlaces de atajos son marcadores de posici^00F3n hasta que se publiquen los flujos de macOS.'']),
     ([Lit ''Download the setup script and run it as the current user.''], [Lit ''Descarga el script de configuraci^00F3n y ejec^00FAtalo como el usuario actual.'']),
     ([Lit ''Testing and validation''], [Lit ''Pruebas y validaci^00F3n'']),
     ([Lit ''Allowlist''], [Lit ''Lista de permitidos'']),
     ([Lit ''Confirm the listener and proxy route, then use the returned address to maintain source access.''], [Lit ''Confirma el listener y la ruta del proxy; despu^00E9s usa la direcci^00F3n devuelta para mantener el acceso de origen.'']),
     ([Lit ''Check the listener and return the address seen through the proxy.''], [Lit ''Comprueba el listener y devuelve la direcci^00F3n observada a trav^00E9s del proxy.'']),
     ([Lit ''Manage source CIDRs''], [Lit ''Administrar CIDR de origen'']),
     ([Lit ''Use the returned address to locate or add the matching source CIDR.''], [Lit ''Usa la direcci^00F3n devuelta para localizar o a^00F1adir el CIDR de origen correspondiente.'']),
     ([Lit ''Shortcut links are placeholders for the test and production workflows.''], [Lit ''Los enlaces de atajos son marcadores de posici^00F3n para los flujos de prueba y producci^00F3n.'']),
     ([Lit ''Collect the proxy source address, then open site policy to maintain the allowlist.''], [Lit ''Obt^00E9n la direcci^00F3n de origen del proxy y abre la pol^00EDtica del sitio para mantener la lista de permitidos.'']),
     ([Lit ''Connect your workstation, verify the route, and use reusable setup scripts from one place.''], [Lit ''Conecta la estaci^00F3n de trabajo, verifica la ruta y usa scripts de configuraci^00F3n reutilizables desde un solo lugar.'']),
     ([Lit ''Set proxy variables for the current shell.''], [Lit ''Configura variables de proxy para el shell actual.'']),
     ([Lit ''These variables apply to the current shell and its child processes.''], [Lit ''Estas variables solo se aplican al shell actual y a sus procesos hijos.'']),
     ([Lit ''Set the current user's Windows system proxy directly.''], [Lit ''Configura directamente el proxy del sistema del usuario actual de Windows.'']),
     ([Lit ''Set ProxyEnable to 0 in the same location to turn the proxy off.''], [Lit ''Establece ProxyEnable en 0 en la misma ubicaci^00F3n para desactivar el proxy.'']),
     ([Lit ''Confirm the listener and the actual HTTP CONNECT route.''], [Lit ''Confirma el listener y la ruta HTTP CONNECT real.'']),
     ([Lit ''Check the listener and verify traffic reaches the network through the proxy.''], [Lit ''Comprueba el listener y verifica que el tr^00E1fico llegue a la red mediante el proxy.'']),
     ([Lit ''Reusable scripts''], [Lit ''Scripts reutilizables'']),
     ([Lit ''Download a ready-made script when persistent setup or a quick reset is needed.''], [Lit ''Descarga un script listo para usar cuando necesites configuraci^00F3n persistente o un restablecimiento r^00E1pido.'']),
     ([Lit ''Apply shell and desktop settings, or remove only Grouproxy-managed settings.''], [Lit ''Aplica ajustes de shell y escritorio, o elimina solo los ajustes administrados por Grouproxy.'']),
     ([Lit ''Switch the current user's system proxy on or off with the reusable script.''], [Lit ''Activa o desactiva el proxy del sistema del usuario actual con el script reutilizable.'']),
     ([Lit ''Reusable setup script''], [Lit ''Script de configuraci^00F3n reutilizable'']),
     ([Lit ''Bash script''], [Lit ''Script de Bash'']),
     ([Lit ''PowerShell script''], [Lit ''Script de PowerShell'']),
     ([Lit ''grouproxy-linux-setup.sh''], [Lit ''grouproxy-linux-setup.sh'']),
     ([Lit ''grouproxy-windows-setup.ps1''], [Lit ''grouproxy-windows-setup.ps1'']),
     ([Lit ''Download the script once, then run the same file whenever you need to switch the proxy on or off.''], [Lit ''Descarga el script una vez y ejecuta el mismo archivo cada vez que necesites activar o desactivar el proxy.'']),
     ([Lit ''Toggle proxy settings for the current user without command-line parameters.''], [Lit ''Alterna la configuraci^00F3n de proxy del usuario actual sin par^00E1metros de l^00EDnea de comandos.'']),
     ([Lit ''After downloading, make the file executable and run it. Each run checks the current proxy state and switches it to the opposite state; then reopen the terminal and affected applications.''], [Lit ''Despu^00E9s de descargarlo, concede permiso de ejecuci^00F3n al archivo y ejec^00FAtalo. Cada ejecuci^00F3n comprueba el estado actual del proxy y lo cambia al estado opuesto; luego vuelve a abrir el terminal y las aplicaciones afectadas.'']),
     ([Lit ''After downloading, run it directly from PowerShell. Each run checks the current proxy state and switches it to the opposite state; then restart affected applications.''], [Lit ''Despu^00E9s de descargarlo, ejec^00FAtalo directamente desde PowerShell. Cada ejecuci^00F3n comprueba el estado actual del proxy y lo cambia al estado opuesto; luego reinicia las aplicaciones afectadas.''])]"

definition messages_es_2750 :: dictionary where
  "messages_es_2750 =
    [([Lit ''Temporarily allow a source CIDR or IP for every site.''], [Lit ''Permite temporalmente un CIDR o IP de origen para todos los sitios.'']),
     ([Lit ''Block a domain, IP address, or CIDR in every generated bundle.''], [Lit ''Bloquea un dominio, una direcci^00F3n IP o un CIDR en cada paquete generado.'']),
     ([Lit ''Add a source network to this site's access boundary.''], [Lit ''A^00F1ade una red de origen al l^00EDmite de acceso de este sitio.'']),
     ([Lit ''Wrap lines''], [Lit ''Ajustar l^00EDneas'']),
     ([Lit ''No wrap''], [Lit ''Sin ajuste'']),
     ([Lit ''Queued and running releases''], [Lit ''Publicaciones en cola y en ejecuci^00F3n'']),
     ([Lit ''Source content''], [Lit ''Contenido de origen'']),
     ([Lit ''Continue''], [Lit ''Continuar'']),
     ([Lit ''Choose a subscription site connection or paste one VLESS / VMess node.''], [Lit ''Elige una conexi^00F3n de sitio de suscripci^00F3n o pega un nodo VLESS / VMess.'']),
     ([Lit ''Review the selected source and choose one or more deployment sites.''], [Lit ''Revisa el origen seleccionado y elige uno o m^00E1s sitios de despliegue.''])]"

definition messages_es_2888 :: dictionary where
  "messages_es_2888 =
    [([Lit ''Host name''], [Lit ''Nombre de host'']),
     ([Lit '', then run''], [Lit '', y ejecuta'']),
     ([Lit ''Connection behavior''], [Lit ''Comportamiento de la conexi^00F3n'']),
     ([Lit ''Keep these details in mind when troubleshooting workstation access.''], [Lit ''Ten en cuenta estos detalles al resolver problemas de acceso desde la estaci^00F3n de trabajo.'']),
     ([Lit ''Unable to load nodes.''], [Lit ''No se pueden cargar los nodos.'']),
     ([Lit ''Operation completed''], [Lit ''Operaci^00F3n completada'']),
     ([Lit ''The operation could not be completed.''], [Lit ''No se pudo completar la operaci^00F3n.'']),
     ([Lit ''Dismiss notification''], [Lit ''Cerrar notificaci^00F3n'']),
     ([Lit ''Unable to copy.''], [Lit ''No se pudo copiar.'']),
     ([Lit ''Version flow''], [Lit ''Flujo de versiones'']),
     ([Lit ''Diff view''], [Lit ''Vista de diferencias'']),
     ([Lit ''The structured configuration diff is available from the draft workspace.''], [Lit ''La diferencia estructurada de configuraci^00F3n est^00E1 disponible en el espacio de trabajo del borrador.'']),
     ([Lit ''Config diff''], [Lit ''Diferencia de configuraci^00F3n'']),
     ([Lit ''Republish''], [Lit ''Volver a publicar'']),
     ([Lit ''Republish from the original draft to preserve release history.''], [Lit ''Vuelve a publicar desde el borrador original para conservar el historial de publicaciones.'']),
     ([Lit ''Rollback history''], [Lit ''Historial de reversi^00F3n'']),
     ([Lit ''Choose a previous release from the release history list.''], [Lit ''Elige una publicaci^00F3n anterior de la lista de historial.'']),
     ([Lit ''ACK rate''], [Lit ''Tasa de ACK'']),
     ([Hole ''value'', Lit ''% acknowledged''], [Hole ''value'', Lit ''% confirmado'']),
     ([Lit ''Target nodes acknowledged''], [Lit ''Nodos objetivo confirmados'']),
     ([Lit ''Target bundle hash''], [Lit ''Hash del paquete objetivo'']),
     ([Lit ''Desired release bundle''], [Lit ''Paquete de publicaci^00F3n deseado'']),
     ([Lit ''Core component status''], [Lit ''Estado de componentes principales'']),
     ([Lit ''Healthy''], [Lit ''Correcto'']),
     ([Lit ''health probe''], [Lit ''sonda de estado'']),
     ([Lit ''Completed at''], [Lit ''Completado el'']),
     ([Lit ''In progress''], [Lit ''En curso'']),
     ([Lit ''Release completed''], [Lit ''Publicaci^00F3n completada'']),
     ([Lit ''Awaiting final ACK''], [Lit ''Esperando el ACK final'']),
     ([Lit ''Nodes and probes''], [Lit ''Nodos y pruebas'']),
     ([Lit ''Full trace''], [Lit ''Traza completa'']),
     ([Lit ''Live coordination''], [Lit ''Coordinaci^00F3n en vivo'']),
     ([Lit ''Target node''], [Lit ''Nodo objetivo'']),
     ([Lit ''Version state''], [Lit ''Estado de versi^00F3n'']),
     ([Lit ''Component checks''], [Lit ''Comprobaciones de componentes'']),
     ([Lit ''ACK''], [Lit ''ACK'']),
     ([Lit ''Applied''], [Lit ''Aplicado'']),
     ([Lit ''Desired''], [Lit ''Deseado'']),
     ([Lit ''Node execution and probe trace''], [Lit ''Traza de ejecuci^00F3n y prueba del nodo'']),
     ([Lit ''Waiting for execution events...''], [Lit ''Esperando eventos de ejecuci^00F3n...'']),
     ([Lit ''Task ID''], [Lit ''ID de tarea'']),
     ([Lit ''Baseline''], [Lit ''L^00EDnea base'']),
     ([Lit ''Coordination''], [Lit ''Coordinaci^00F3n'']),
     ([Lit ''Converged''], [Lit ''Convergido'']),
     ([Lit ''Trigger''], [Lit ''Desencadenante'']),
     ([Lit ''Manual''], [Lit ''Manual'']),
     ([Lit ''Add a subscription site or a single node.''], [Lit ''A^00F1ade una conexi^00F3n de sitio de suscripci^00F3n o un nodo individual.'']),
     ([Lit ''Deployment sites''], [Lit ''Sitios de despliegue'']),
     ([Lit ''archived''], [Lit ''Archivado'']),
     ([Lit ''pass''], [Lit ''correcto'']),
     ([Lit ''fail''], [Lit ''fallido'']),
     ([Lit ''Release '', Hole ''releaseId'', Lit '' created for '', Hole ''count'', Lit '' nodes.''], [Lit ''Se cre^00F3 la publicaci^00F3n '', Hole ''releaseId'', Lit '' para '', Hole ''count'', Lit '' nodos.'']),
     ([Lit ''Task '', Hole ''taskId'', Lit '' entered '', Hole ''status'', Lit '' state.''], [Lit ''La tarea '', Hole ''taskId'', Lit '' entr^00F3 en el estado '', Hole ''status'', Lit ''.'']),
     ([Lit ''Node acknowledgement received: '', Hole ''stage'', Lit ''; sing-box='', Hole ''singbox'', Lit '', nftables='', Hole ''nftables'', Lit '', health='', Hole ''health'', Lit ''.''], [Lit ''Se recibi^00F3 la confirmaci^00F3n del nodo: '', Hole ''stage'', Lit ''; sing-box='', Hole ''singbox'', Lit '', nftables='', Hole ''nftables'', Lit '', estado='', Hole ''health'', Lit ''.'']),
     ([Lit ''Release completed with status '', Hole ''status'', Lit ''.''], [Lit ''La publicaci^00F3n se complet^00F3 con el estado '', Hole ''status'', Lit ''.'']),
     ([Lit ''Release orchestrator''], [Lit ''Orquestador de publicaciones'']),
     ([Lit ''Task worker''], [Lit ''Procesador de tareas'']),
     ([Lit ''Release coordinator''], [Lit ''Coordinador de publicaciones'']),
     ([Lit ''Node agent: '', Hole ''node''], [Lit ''Agente del nodo: '', Hole ''node''])]"

definition messages_es_3125 :: dictionary where
  "messages_es_3125 =
    [([Lit ''success''], [Lit ''Correcto'']),
     ([Lit ''cancelled''], [Lit ''Cancelada'']),
     ([Lit ''dead_letter''], [Lit ''Carta muerta'']),
     ([Lit ''retry_scheduled''], [Lit ''Reintento programado'']),
     ([Lit ''probing''], [Lit ''Sondeando'']),
     ([Lit ''unknown''], [Lit ''Desconocido'']),
     ([Lit ''not_configured''], [Lit ''Sin configurar'']),
     ([Lit ''probe_failed''], [Lit ''Sondeo fallido'']),
     ([Lit ''proxy_config_unavailable''], [Lit ''La configuraci^00F3n del proxy no est^00E1 disponible'']),
     ([Lit ''half_open_probe_failed''], [Lit ''Fall^00F3 el sondeo de recuperaci^00F3n semiabierto'']),
     ([Lit ''failure_threshold''], [Lit ''Se alcanz^00F3 el umbral de fallos'']),
     ([Lit ''cooldown_elapsed''], [Lit ''Finaliz^00F3 el periodo de enfriamiento'']),
     ([Lit ''recovery_success_threshold''], [Lit ''Se alcanz^00F3 el umbral de recuperaci^00F3n correcta'']),
     ([Lit ''refresh_failed''], [Lit ''Actualizaci^00F3n fallida'']),
     ([Lit ''apply_failed''], [Lit ''Aplicaci^00F3n fallida'']),
     ([Lit ''rollback_failed''], [Lit ''Reversi^00F3n fallida'']),
     ([Lit ''config.publish''], [Lit ''Publicar configuraci^00F3n'']),
     ([Lit ''subscription.refresh''], [Lit ''Actualizar suscripci^00F3n'']),
     ([Lit ''node.probe''], [Lit ''Sondear nodo'']),
     ([Lit ''backup.create''], [Lit ''Crear copia de seguridad'']),
     ([Lit ''backup.restore''], [Lit ''Restaurar copia de seguridad'']),
     ([Lit ''auth.verification.request''], [Lit ''Solicitar c^00F3digo de verificaci^00F3n'']),
     ([Lit ''auth.register''], [Lit ''Registrar cuenta'']),
     ([Lit ''auth.password.change''], [Lit ''Cambiar contrase^00F1a'']),
     ([Lit ''auth.login.password''], [Lit ''Iniciar sesi^00F3n con contrase^00F1a'']),
     ([Lit ''auth.login.gquan''], [Lit ''Iniciar sesi^00F3n con GQuan'']),
     ([Lit ''auth.logout''], [Lit ''Cerrar sesi^00F3n'']),
     ([Lit ''site.rename''], [Lit ''Renombrar sitio'']),
     ([Lit ''site.shutdown''], [Lit ''Apagar sitio'']),
     ([Lit ''site.restore''], [Lit ''Restaurar sitio'']),
     ([Lit ''node.create''], [Lit ''Crear nodo'']),
     ([Lit ''node.rename''], [Lit ''Renombrar nodo'']),
     ([Lit ''cidr.create''], [Lit ''Acci^00F3n de pol^00EDtica hist^00F3rica'']),
     ([Lit ''cidr.delete''], [Lit ''Acci^00F3n de pol^00EDtica hist^00F3rica'']),
     ([Lit ''exception.create''], [Lit ''Acci^00F3n de pol^00EDtica hist^00F3rica'']),
     ([Lit ''exception.delete''], [Lit ''Acci^00F3n de pol^00EDtica hist^00F3rica'']),
     ([Lit ''cross_site.update''], [Lit ''Acci^00F3n de pol^00EDtica hist^00F3rica'']),
     ([Lit ''blacklist.create''], [Lit ''Acci^00F3n de pol^00EDtica hist^00F3rica'']),
     ([Lit ''blacklist.delete''], [Lit ''Acci^00F3n de pol^00EDtica hist^00F3rica'']),
     ([Lit ''subscription_source.create''], [Lit ''Crear origen de suscripci^00F3n'']),
     ([Lit ''subscription.upload''], [Lit ''Cargar suscripci^00F3n'']),
     ([Lit ''subscription.single_node.create''], [Lit ''A^00F1adir suscripci^00F3n de un solo nodo'']),
     ([Lit ''config_draft.create''], [Lit ''Crear borrador de configuraci^00F3n'']),
     ([Lit ''config_release.create''], [Lit ''Crear publicaci^00F3n de configuraci^00F3n'']),
     ([Lit ''subscription.publish''], [Lit ''Publicar suscripci^00F3n'']),
     ([Lit ''subscription.rollback''], [Lit ''Revertir suscripci^00F3n'']),
     ([Lit ''task.cancel''], [Lit ''Cancelar tarea'']),
     ([Lit ''proxy_selection.update''], [Lit ''Actualizar selecci^00F3n de proxy'']),
     ([Lit ''node.probe.create''], [Lit ''Crear sondeo de nodo'']),
     ([Lit ''agent.logs.ingest''], [Lit ''Ingerir registros del nodo'']),
     ([Lit ''audit.export''], [Lit ''Exportar registros de auditor^00EDa'']),
     ([Lit ''backup.create.request''], [Lit ''Solicitar creaci^00F3n de copia'']),
     ([Lit ''backup.restore.request''], [Lit ''Solicitar restauraci^00F3n de copia'']),
     ([Lit ''subscription.refresh.failed''], [Lit ''Actualizaci^00F3n de suscripci^00F3n fallida'']),
     ([Lit ''backup.schedule''], [Lit ''Programar copia'']),
     ([Lit ''backup.rehearsal.schedule''], [Lit ''Programar ensayo de restauraci^00F3n'']),
     ([Lit ''backup.retention.delete''], [Lit ''Eliminar copia por pol^00EDtica de retenci^00F3n'']),
     ([Lit ''backup.restore.rehearsal''], [Lit ''Ejecutar ensayo de restauraci^00F3n'']),
     ([Lit ''backup.failed''], [Lit ''Copia fallida'']),
     ([Lit ''admin_user''], [Lit ''Cuenta de administrador'']),
     ([Lit ''site''], [Lit ''Sitio'']),
     ([Lit ''node''], [Lit ''Nodo'']),
     ([Lit ''site_cidr''], [Lit ''Registro de pol^00EDtica hist^00F3rica'']),
     ([Lit ''travel_exception''], [Lit ''Registro de pol^00EDtica hist^00F3rica'']),
     ([Lit ''cross_site_allow''], [Lit ''Registro de pol^00EDtica hist^00F3rica'']),
     ([Lit ''destination_blacklist''], [Lit ''Registro de pol^00EDtica hist^00F3rica'']),
     ([Lit ''subscription_source''], [Lit ''Origen de suscripci^00F3n'']),
     ([Lit ''subscription_version''], [Lit ''Versi^00F3n de suscripci^00F3n'']),
     ([Lit ''config_draft''], [Lit ''Borrador de configuraci^00F3n'']),
     ([Lit ''config_release''], [Lit ''Publicaci^00F3n de configuraci^00F3n'']),
     ([Lit ''task''], [Lit ''Tarea'']),
     ([Lit ''audit''], [Lit ''Auditor^00EDa'']),
     ([Lit ''backup''], [Lit ''Copia de seguridad'']),
     ([Lit ''task_lease_expired''], [Lit ''La concesi^00F3n de la tarea caduc^00F3.'']),
     ([Lit ''subscription_refresh_unexpected_error''], [Lit ''La actualizaci^00F3n de la suscripci^00F3n tuvo un error inesperado.'']),
     ([Lit ''subscription_ssrf_blocked''], [Lit ''La URL de la suscripci^00F3n apunta a una red restringida.'']),
     ([Lit ''subscription_clash_invalid''], [Lit ''El contenido de la suscripci^00F3n Clash no es v^00E1lido.'']),
     ([Lit ''subscription_clash_profile_unsupported''], [Lit ''Esto es un perfil de cliente Clash completo, no una lista de nodos. Usa la URL de suscripci^00F3n sing-box.'']),
     ([Lit ''subscription_outbound_type_invalid''], [Lit ''La suscripci^00F3n contiene un tipo de salida no compatible.'']),
     ([Lit ''Backup maintenance failed''], [Lit ''El mantenimiento de la copia fall^00F3'']),
     ([Lit ''Backup verification failed''], [Lit ''La verificaci^00F3n de la copia fall^00F3'']),
     ([Lit ''The automatic backup maintenance cycle did not complete.''], [Lit ''El ciclo autom^00E1tico de mantenimiento de copias no se complet^00F3.'']),
     ([Hole ''site'', Lit '': '', Hole ''recent'', Lit '' denies in the last '', Hole ''window'', Lit ''s (baseline '', Hole ''baseline'', Lit '')''], [Hole ''site'', Lit '': '', Hole ''recent'', Lit '' solicitudes de origen bloqueadas en los ^00FAltimos '', Hole ''window'', Lit ''s (referencia '', Hole ''baseline'', Lit '')'']),
     ([Hole ''site'', Lit '': '', Hole ''recent'', Lit '' source requests denied in the last '', Hole ''window'', Lit ''s (baseline '', Hole ''baseline'', Lit '')''], [Hole ''site'', Lit '': '', Hole ''recent'', Lit '' solicitudes de origen bloqueadas en los ^00FAltimos '', Hole ''window'', Lit ''s (referencia '', Hole ''baseline'', Lit '')''])]"

definition messages_es_3224 :: dictionary where
  "messages_es_3224 =
    [([Lit ''All types''], [Lit ''Todos los tipos'']),
     ([Lit ''Change the source type or state filter.''], [Lit ''Cambia el filtro de tipo o estado del origen.'']),
     ([Lit ''Filter sources''], [Lit ''Filtrar or^00EDgenes'']),
     ([Lit ''No matching sources''], [Lit ''No hay or^00EDgenes coincidentes''])]"

definition messages_es_3241 :: dictionary where
  "messages_es_3241 =
    [([Lit ''source_blacklist.create''], [Lit ''A^00F1adir regla de lista negra de origen'']),
     ([Lit ''source_blacklist.delete''], [Lit ''Eliminar regla de lista negra de origen'']),
     ([Lit ''source_blacklist''], [Lit ''Regla de lista negra de origen''])]"

definition messages_es_3386 :: dictionary where
  "messages_es_3386 =
    [([Lit ''Blacklist''], [Lit ''Lista negra'']),
     ([Lit ''Add blacklist rule''], [Lit ''A^00F1adir regla de lista negra'']),
     ([Lit ''Requests are allowed by default. Add an IP, CIDR, or domain rule per node only when it should be blocked.''], [Lit ''Las solicitudes se permiten de forma predeterminada. A^00F1ade una regla de IP, CIDR o dominio por nodo solo cuando deba bloquearse.'']),
     ([Hole ''count'', Lit '' blacklist rules''], [Hole ''count'', Lit '' reglas de lista negra'']),
     ([Lit ''Rules are delivered only to the selected nodes.''], [Lit ''Las reglas se entregan solo a los nodos seleccionados.'']),
     ([Lit ''Direction''], [Lit ''Direcci^00F3n'']),
     ([Lit ''source''], [Lit ''origen'']),
     ([Lit ''destination''], [Lit ''destino'']),
     ([Lit ''Delete blacklist rule''], [Lit ''Eliminar regla de lista negra'']),
     ([Lit ''Unable to load blacklist.''], [Lit ''No se puede cargar la lista negra.'']),
     ([Lit ''No blacklist rules are blocking requests.''], [Lit ''No hay reglas de lista negra bloqueando solicitudes.'']),
     ([Lit ''Block a source or destination IP, CIDR, or domain on the selected nodes.''], [Lit ''Bloquea una IP, CIDR o dominio de origen o destino en los nodos seleccionados.'']),
     ([Lit ''Remove blacklist rule''], [Lit ''Quitar regla de lista negra'']),
     ([Lit ''Remove '', Hole ''value'', Lit '' from the blacklist. The change is released automatically.''], [Lit ''Quita '', Hole ''value'', Lit '' de la lista negra. El cambio se publica autom^00E1ticamente.'']),
     ([Lit ''Root administrator''], [Lit ''Administrador ra^00EDz'']),
     ([Lit ''Administrator''], [Lit ''Administrador'']),
     ([Lit ''Roles''], [Lit ''Roles'']),
     ([Lit ''zhangle is the root administrator. Other accounts can be granted the same administrator privileges.''], [Lit ''zhangle es el administrador ra^00EDz. Otras cuentas pueden recibir los mismos privilegios de administrador.'']),
     ([Hole ''count'', Lit '' accounts''], [Hole ''count'', Lit '' cuentas'']),
     ([Lit ''Administrators and the root administrator have the same management permissions.''], [Lit ''Los administradores y el administrador ra^00EDz tienen los mismos permisos de gesti^00F3n.'']),
     ([Lit ''Account''], [Lit ''Cuenta'']),
     ([Lit ''Role''], [Lit ''Rol'']),
     ([Lit ''Immutable''], [Lit ''Inmutable'']),
     ([Lit ''Revoke administrator''], [Lit ''Revocar administrador'']),
     ([Lit ''Grant administrator''], [Lit ''Conceder administrador'']),
     ([Lit ''No accounts''], [Lit ''No hay cuentas'']),
     ([Lit ''Manage blacklist''], [Lit ''Gestionar lista negra'']),
     ([Lit ''sing-box live sessions''], [Lit ''sesiones activas de sing-box'']),
     ([Lit ''Upload rate''], [Lit ''Velocidad de subida'']),
     ([Lit ''Download rate''], [Lit ''Velocidad de bajada'']),
     ([Lit ''Across enrolled nodes''], [Lit ''En todos los nodos registrados'']),
     ([Hole ''count'', Lit '' connections''], [Hole ''count'', Lit '' conexiones'']),
     ([Lit ''Live sing-box sessions and recent connection summaries.''], [Lit ''Sesiones activas de sing-box y res^00FAmenes de conexi^00F3n recientes.'']),
     ([Lit ''Node traffic''], [Lit ''Tr^00E1fico del nodo'']),
     ([Hole ''count'', Lit '' nodes''], [Hole ''count'', Lit '' nodos'']),
     ([Lit ''Rate''], [Lit ''Velocidad'']),
     ([Lit ''Live connections''], [Lit ''Conexiones activas'']),
     ([Lit ''Live''], [Lit ''En vivo'']),
     ([Lit ''Connection view''], [Lit ''Vista de conexiones'']),
     ([Lit ''Live connection information''], [Lit ''Informaci^00F3n de conexiones en vivo'']),
     ([Lit ''Historical connection records''], [Lit ''Registros hist^00F3ricos de conexiones'']),
     ([Lit ''Live connection information and retained history for audit.''], [Lit ''Informaci^00F3n de conexiones en vivo e historial conservado para auditor^00EDa.'']),
     ([Hole ''count'', Lit '' sessions''], [Hole ''count'', Lit '' sesiones'']),
     ([Hole ''count'', Lit '' snapshots ^00B7 '', Hole ''rows'', Lit '' observed rows''], [Hole ''count'', Lit '' instant^00E1neas ^00B7 '', Hole ''rows'', Lit '' registros observados'']),
     ([Lit ''Search connection history''], [Lit ''Buscar en el historial de conexiones'']),
     ([Lit ''All protocols''], [Lit ''Todos los protocolos'']),
     ([Lit ''Snapshot summary''], [Lit ''Resumen de instant^00E1nea'']),
     ([Lit ''Showing '', Hole ''from'', Lit ''-'', Hole ''to'', Lit '' of '', Hole ''count'', Lit '' snapshots''], [Lit ''Mostrando '', Hole ''from'', Lit ''-'', Hole ''to'', Lit '' de '', Hole ''count'', Lit '' instant^00E1neas'']),
     ([Lit ''Previous''], [Lit ''Anterior'']),
     ([Lit ''Next''], [Lit ''Siguiente'']),
     ([Lit ''Unable to load live connections.''], [Lit ''No se puede cargar la informaci^00F3n de conexiones en vivo.'']),
     ([Lit ''Unable to load connection history.''], [Lit ''No se puede cargar el historial de conexiones.'']),
     ([Lit ''No connection history recorded.''], [Lit ''No hay registros hist^00F3ricos de conexiones.'']),
     ([Lit ''Source''], [Lit ''Origen'']),
     ([Lit ''Destination''], [Lit ''Destino'']),
     ([Lit ''Outbound''], [Lit ''Salida'']),
     ([Lit ''No live connections recorded.''], [Lit ''No hay conexiones activas registradas.'']),
     ([Lit ''Unable to load connection snapshots.''], [Lit ''No se pueden cargar los res^00FAmenes de conexiones.'']),
     ([Lit ''user.role.update''], [Lit ''Actualizar rol de cuenta'']),
     ([Lit ''root_role_immutable''], [Lit ''El rol de administrador ra^00EDz no se puede cambiar.'']),
     ([Lit ''account_not_found''], [Lit ''La cuenta no existe.'']),
     ([Lit ''preview_target_required''], [Lit ''Proporciona una direcci^00F3n de origen o un host de destino.'']),
     ([Lit ''CIDR''], [Lit ''CIDR'']),
     ([Lit ''blacklist_node_required''], [Lit ''Selecciona al menos un nodo para esta regla.'']),
     ([Lit ''Protocol''], [Lit ''Protocolo'']),
     ([Lit ''Subscription URL''], [Lit ''URL de suscripci^00F3n'']),
     ([Lit ''subscription_url_scheme_not_allowed''], [Lit ''Las URL de suscripci^00F3n solo admiten HTTP o HTTPS.''])]"

definition messages_es_3552 :: dictionary where
  "messages_es_3552 =
    [([Lit ''Created '', Hole ''date''], [Lit ''Creado '', Hole ''date'']),
     ([Hole ''subscription'', Lit '' ^2192 '', Hole ''node''], [Hole ''subscription'', Lit '' ^2192 '', Hole ''node'']),
     ([Lit ''No subscription''], [Lit ''Sin suscripci^00F3n'']),
     ([Lit ''No nodes''], [Lit ''Sin nodos'']),
     ([Lit ''TARGETS''], [Lit ''OBJETIVOS'']),
     ([Lit ''Traffic overview''], [Lit ''Resumen de tr^00E1fico'']),
     ([Lit ''Total '', Hole ''value''], [Lit ''Total '', Hole ''value'']),
     ([Lit ''No traffic samples''], [Lit ''No hay muestras de tr^00E1fico'']),
     ([Lit ''Live sing-box sessions and per-node traffic overview.''], [Lit ''Sesiones activas de sing-box y resumen de tr^00E1fico por nodo.'']),
     ([Lit ''Service quality''], [Lit ''Calidad del servicio'']),
     ([Lit ''Average latency and availability for every subscription outbound.''], [Lit ''Latencia media y disponibilidad de cada salida de suscripci^00F3n.'']),
     ([Lit ''Subscription outbound performance''], [Lit ''Rendimiento de las salidas de suscripci^00F3n'']),
     ([Hole ''count'', Lit '' services''], [Hole ''count'', Lit '' servicios'']),
     ([Hole ''count'', Lit '' samples''], [Hole ''count'', Lit '' muestras'']),
     ([Lit ''View mode''], [Lit ''Modo de vista'']),
     ([Lit ''Statistics chart''], [Lit ''Gr^00E1fico estad^00EDstico'']),
     ([Lit ''Table''], [Lit ''Tabla'']),
     ([Lit ''Latency quality''], [Lit ''Calidad de latencia'']),
     ([Lit ''Good (<=100 ms)''], [Lit ''Verde (<=100 ms)'']),
     ([Lit ''Acceptable (101-200 ms)''], [Lit ''Amarillo (101-200 ms)'']),
     ([Lit ''High (>200 ms) or unavailable''], [Lit ''Rojo (>200 ms) o no disponible'']),
     ([Lit ''Service quality table''], [Lit ''Tabla de calidad del servicio'']),
     ([Lit ''Unable to load service quality.''], [Lit ''No se puede cargar la calidad del servicio.'']),
     ([Lit ''No service quality samples.''], [Lit ''No hay muestras de calidad del servicio.'']),
     ([Lit ''The monitor will report subscription outbound latency after its next proxy snapshot.''], [Lit ''El monitor informar^00E1 la latencia de las salidas de suscripci^00F3n despu^00E9s de su pr^00F3ximo snapshot de proxy.'']),
     ([Lit ''AVERAGE LATENCY''], [Lit ''LATENCIA MEDIA'']),
     ([Lit ''Subscription: outbound comparison''], [Lit ''Suscripci^00F3n: comparaci^00F3n de salidas'']),
     ([Lit ''Lower is better''], [Lit ''Cuanto menor, mejor'']),
     ([Lit ''Average latency by node and subscription outbound''], [Lit ''Latencia media por nodo y salida de suscripci^00F3n'']),
     ([Lit ''No samples''], [Lit ''Sin muestras'']),
     ([Lit ''Availability is calculated from monitor reports.''], [Lit ''La disponibilidad se calcula a partir de los informes del monitor.'']),
     ([Lit ''Sortable quality list''], [Lit ''Lista de calidad ordenable'']),
     ([Lit ''Select a column to sort''], [Lit ''Selecciona una columna para ordenar'']),
     ([Lit ''Subscription outbound''], [Lit ''Salida de suscripci^00F3n'']),
     ([Lit ''Average latency''], [Lit ''Latencia media'']),
     ([Lit ''Availability''], [Lit ''Disponibilidad'']),
     ([Lit ''Range''], [Lit ''Rango'']),
     ([Lit ''Last sample''], [Lit ''^00DAltima muestra'']),
     ([Lit ''Last''], [Lit ''^00DAltimo'']),
     ([Lit ''Success / failed''], [Lit ''^00C9xito / fallos'']),
     ([Lit ''Min''], [Lit ''M^00EDnimo'']),
     ([Lit ''Max''], [Lit ''M^00E1ximo'']),
     ([Lit ''Ascending''], [Lit ''Ascendente'']),
     ([Lit ''Descending''], [Lit ''Descendente'']),
     ([Lit ''Sort''], [Lit ''Ordenar'']),
     ([Lit ''Last hour''], [Lit ''^00DAltima hora''])]"

definition messages_es_3677 :: dictionary where
  "messages_es_3677 =
    [([Lit ''system_settings.update''], [Lit ''Actualizar la configuraci^00F3n del sistema'']),
     ([Lit ''system_settings''], [Lit ''Configuraci^00F3n del sistema'']),
     ([Lit ''Settings''], [Lit ''Configuraci^00F3n'']),
     ([Lit ''Manage global control-plane behavior.''], [Lit ''Gestiona el comportamiento global del plano de control.'']),
     ([Lit ''Administrator access required''], [Lit ''Se requieren permisos de administrador'']),
     ([Lit ''Only system administrators can manage system settings.''], [Lit ''Solo los administradores del sistema pueden gestionar la configuraci^00F3n del sistema.'']),
     ([Lit ''Return to Access''], [Lit ''Volver a Acceso'']),
     ([Lit ''SYSTEM SETTINGS''], [Lit ''CONFIGURACI^00D3N DEL SISTEMA'']),
     ([Lit ''Service quality definition''], [Lit ''Definici^00F3n de calidad del servicio'']),
     ([Lit ''Define the latency boundaries used to classify service quality statistics.''], [Lit ''Define los l^00EDmites de latencia usados para clasificar las estad^00EDsticas de calidad del servicio.'']),
     ([Lit ''Green boundary''], [Lit ''L^00EDmite verde'']),
     ([Lit ''Values at or below this boundary are green.''], [Lit ''Los valores iguales o inferiores a este l^00EDmite son verdes.'']),
     ([Lit ''Yellow boundary''], [Lit ''L^00EDmite amarillo'']),
     ([Lit ''Values above green and at or below this boundary are yellow.''], [Lit ''Los valores superiores al verde y hasta este l^00EDmite son amarillos.'']),
     ([Lit ''Default probe URL''], [Lit ''URL de prueba predeterminada'']),
     ([Lit ''Prefilled on the outbound probes page; you can change it for each probe.''], [Lit ''Se completa en la p^00E1gina de pruebas de salida y puedes cambiarla en cada prueba.'']),
     ([Lit ''Enter a valid HTTP or HTTPS probe URL.''], [Lit ''Introduce una URL de prueba HTTP o HTTPS v^00E1lida.'']),
     ([Lit ''Current classification''], [Lit ''Clasificaci^00F3n actual'']),
     ([Lit ''Green''], [Lit ''Verde'']),
     ([Lit ''Yellow''], [Lit ''Amarillo'']),
     ([Lit ''Red''], [Lit ''Rojo'']),
     ([Lit ''ms''], [Lit ''ms'']),
     ([Lit ''or unavailable''], [Lit ''o no disponible'']),
     ([Lit ''Green: <= '', Hole ''value'', Lit '' ms''], [Lit ''Verde: <= '', Hole ''value'', Lit '' ms'']),
     ([Lit ''Yellow: '', Hole ''from'', Lit ''-'', Hole ''to'', Lit '' ms''], [Lit ''Amarillo: '', Hole ''from'', Lit ''-'', Hole ''to'', Lit '' ms'']),
     ([Lit ''Red: > '', Hole ''value'', Lit '' ms or unavailable''], [Lit ''Rojo: > '', Hole ''value'', Lit '' ms o no disponible'']),
     ([Lit ''Enter a whole number from 0 to 300000 ms.''], [Lit ''Introduce un n^00FAmero entero de 0 a 300000 ms.'']),
     ([Lit ''The yellow boundary must be greater than the green boundary.''], [Lit ''El l^00EDmite amarillo debe ser mayor que el l^00EDmite verde.'']),
     ([Lit ''System settings saved.''], [Lit ''Configuraci^00F3n del sistema guardada.'']),
     ([Lit ''Unable to load system settings.''], [Lit ''No se puede cargar la configuraci^00F3n del sistema.'']),
     ([Lit ''Unable to save system settings.''], [Lit ''No se puede guardar la configuraci^00F3n del sistema.'']),
     ([Lit ''Saving...''], [Lit ''Guardando...'']),
     ([Lit ''Save settings''], [Lit ''Guardar configuraci^00F3n'']),
     ([Lit ''Good (<= '', Hole ''value'', Lit '' ms)''], [Lit ''Verde (<= '', Hole ''value'', Lit '' ms)'']),
     ([Lit ''Acceptable ('', Hole ''from'', Lit ''-'', Hole ''to'', Lit '' ms)''], [Lit ''Amarillo ('', Hole ''from'', Lit ''-'', Hole ''to'', Lit '' ms)'']),
     ([Lit ''High (>'', Hole ''value'', Lit '' ms) or unavailable''], [Lit ''Rojo (> '', Hole ''value'', Lit '' ms) o no disponible''])]"

text \<open>Every entry keeps the placeholders of its key.\<close>

lemma messages_es_472_ok: "list_all entry_ok messages_es_472"
  by (simp add: messages_es_472_def entry_ok_def name_ok_def)

lemma messages_es_584_ok: "list_all entry_ok messages_es_584"
  by (simp add: messages_es_584_def entry_ok_def name_ok_def)

lemma messages_es_696_ok: "list_all entry_ok messages_es_696"
  by (simp add: messages_es_696_def entry_ok_def name_ok_def)

lemma messages_es_808_ok: "list_all entry_ok messages_es_808"
  by (simp add: messages_es_808_def entry_ok_def name_ok_def)

lemma messages_es_1292_ok: "list_all entry_ok messages_es_1292"
  by (simp add: messages_es_1292_def entry_ok_def name_ok_def)

lemma messages_es_1483_ok: "list_all entry_ok messages_es_1483"
  by (simp add: messages_es_1483_def entry_ok_def name_ok_def)

lemma messages_es_1620_ok: "list_all entry_ok messages_es_1620"
  by (simp add: messages_es_1620_def entry_ok_def name_ok_def)

lemma messages_es_1735_ok: "list_all entry_ok messages_es_1735"
  by (simp add: messages_es_1735_def entry_ok_def name_ok_def)

lemma messages_es_1795_ok: "list_all entry_ok messages_es_1795"
  by (simp add: messages_es_1795_def entry_ok_def name_ok_def)

lemma messages_es_1915_ok: "list_all entry_ok messages_es_1915"
  by (simp add: messages_es_1915_def entry_ok_def name_ok_def)

lemma messages_es_1981_ok: "list_all entry_ok messages_es_1981"
  by (simp add: messages_es_1981_def entry_ok_def name_ok_def)

lemma messages_es_2036_ok: "list_all entry_ok messages_es_2036"
  by (simp add: messages_es_2036_def entry_ok_def name_ok_def)

lemma messages_es_2099_ok: "list_all entry_ok messages_es_2099"
  by (simp add: messages_es_2099_def entry_ok_def name_ok_def)

lemma messages_es_2147_ok: "list_all entry_ok messages_es_2147"
  by (simp add: messages_es_2147_def entry_ok_def name_ok_def)

lemma messages_es_2219_ok: "list_all entry_ok messages_es_2219"
  by (simp add: messages_es_2219_def entry_ok_def name_ok_def)

lemma messages_es_2276_ok: "list_all entry_ok messages_es_2276"
  by (simp add: messages_es_2276_def entry_ok_def name_ok_def)

lemma messages_es_2394_ok: "list_all entry_ok messages_es_2394"
  by (simp add: messages_es_2394_def entry_ok_def name_ok_def)

lemma messages_es_2553_ok: "list_all entry_ok messages_es_2553"
  by (simp add: messages_es_2553_def entry_ok_def name_ok_def)

lemma messages_es_2686_ok: "list_all entry_ok messages_es_2686"
  by (simp add: messages_es_2686_def entry_ok_def name_ok_def)

lemma messages_es_2750_ok: "list_all entry_ok messages_es_2750"
  by (simp add: messages_es_2750_def entry_ok_def name_ok_def)

lemma messages_es_2888_ok: "list_all entry_ok messages_es_2888"
  by (simp add: messages_es_2888_def entry_ok_def name_ok_def)

lemma messages_es_3125_ok: "list_all entry_ok messages_es_3125"
  by (simp add: messages_es_3125_def entry_ok_def name_ok_def)

lemma messages_es_3224_ok: "list_all entry_ok messages_es_3224"
  by (simp add: messages_es_3224_def entry_ok_def name_ok_def)

lemma messages_es_3241_ok: "list_all entry_ok messages_es_3241"
  by (simp add: messages_es_3241_def entry_ok_def name_ok_def)

lemma messages_es_3386_ok: "list_all entry_ok messages_es_3386"
  by (simp add: messages_es_3386_def entry_ok_def name_ok_def)

lemma messages_es_3552_ok: "list_all entry_ok messages_es_3552"
  by (simp add: messages_es_3552_def entry_ok_def name_ok_def)

lemma messages_es_3677_ok: "list_all entry_ok messages_es_3677"
  by (simp add: messages_es_3677_def entry_ok_def name_ok_def)

definition messages_es :: dictionary where
  "messages_es =
     messages_es_472 @
     messages_es_584 @
     messages_es_696 @
     messages_es_808 @
     messages_es_1292 @
     messages_es_1483 @
     messages_es_1620 @
     messages_es_1735 @
     messages_es_1795 @
     messages_es_1915 @
     messages_es_1981 @
     messages_es_2036 @
     messages_es_2099 @
     messages_es_2147 @
     messages_es_2219 @
     messages_es_2276 @
     messages_es_2394 @
     messages_es_2553 @
     messages_es_2686 @
     messages_es_2750 @
     messages_es_2888 @
     messages_es_3125 @
     messages_es_3224 @
     messages_es_3241 @
     messages_es_3386 @
     messages_es_3552 @
     messages_es_3677"

lemmas messages_es_parts =
  messages_es_472_ok
  messages_es_584_ok
  messages_es_696_ok
  messages_es_808_ok
  messages_es_1292_ok
  messages_es_1483_ok
  messages_es_1620_ok
  messages_es_1735_ok
  messages_es_1795_ok
  messages_es_1915_ok
  messages_es_1981_ok
  messages_es_2036_ok
  messages_es_2099_ok
  messages_es_2147_ok
  messages_es_2219_ok
  messages_es_2276_ok
  messages_es_2394_ok
  messages_es_2553_ok
  messages_es_2686_ok
  messages_es_2750_ok
  messages_es_2888_ok
  messages_es_3125_ok
  messages_es_3224_ok
  messages_es_3241_ok
  messages_es_3386_ok
  messages_es_3552_ok
  messages_es_3677_ok

lemma messages_es_ok: "list_all entry_ok messages_es"
  by (simp add: messages_es_def messages_es_parts)

end
