(* ===== verification/Dictionary.thy ===== *)
theory Dictionary
  imports Messages_Zh Messages_En Messages_Es
begin

text \<open>
  The object \<^verbatim>\<open>messages\<close> of \<^verbatim>\<open>src/frontend/lib/preferences.tsx\<close>, and \<open>translate\<close> on it: with the dictionaries of
  the console in place of its parameter, translation fills every placeholder of every message in
  every language.
\<close>

definition message_entries :: "Locale \<Rightarrow> dictionary" where
  "message_entries loc =
     (case loc of LocaleZh \<Rightarrow> messages_zh | LocaleEn \<Rightarrow> messages_en | LocaleEs \<Rightarrow> messages_es)"

definition messages :: "(string \<Rightarrow> string) \<Rightarrow> Locale \<Rightarrow> string \<Rightarrow> string option" where
  "messages ec loc key = dictionary_get ec (message_entries loc) key"

section \<open>Every placeholder is filled\<close>

lemma message_entries_ok: "list_all entry_ok (message_entries loc)"
  by (simp add: message_entries_def messages_zh_ok messages_en_ok messages_es_ok split: Locale.splits)

lemma entry_for_ok: "entry_for ec (message_entries loc) key = Some (k, v) \<Longrightarrow> entry_ok (k, v)"
  using message_entries_ok [of loc] by (auto simp: list_all_iff dest: entry_for_Some)

lemma lookup_entry:
  assumes "entry_for ec (message_entries loc) key = Some (k, v)" "holes k \<noteq> []"
  shows "lookup_message (messages ec) loc key = read_text ec v"
proof -
  have "holes v \<noteq> []" using entry_ok_holes [OF entry_for_ok [OF assms(1)]] assms(2) by auto
  then show ?thesis
    using assms hole_nonempty [of v ec]
    by (simp add: lookup_message_def messages_def dictionary_get_def truthy_str_def)
qed

lemma entry_pieces_ok:
  assumes "entry_for ec (message_entries loc) key = Some (k, v)" "holes k \<noteq> []" "esc_ok ec"
  shows "\<forall>p \<in> set (map (read_piece ec) v). piece_ok p"
  using entry_for_ok [OF assms(1)] assms(2,3) by (auto simp: entry_ok_def list_all_iff intro: read_piece_ok)

text \<open>C36: a message with placeholders, in any of the three languages: when the caller gives a value for
  each placeholder of the key, the text is the translation with every placeholder replaced by its value, and
  none is left over.\<close>

theorem every_placeholder_filled:
  assumes "esc_ok ec"
    and "entry_for ec (message_entries loc) key = Some (k, v)" "holes k \<noteq> []"
    and "set (holes k) \<subseteq> fst ` set values"
    and "\<forall>(n, x) \<in> set values. name_ok n \<and> value_ok x"
  shows "translate (messages ec) loc key values = template_text (map (fill values) (map (read_piece ec) v)) \<and>
         list_all is_lit (map (fill values) (map (read_piece ec) v))"
proof
  have "translate (messages ec) loc key values =
      fold (\<lambda>(name, value) message. replaceAll (placeholder name) value message) values
        (template_text (map (read_piece ec) v))"
    by (simp add: translate_def lookup_entry [OF assms(2,3)] read_text_def)
  also have "\<dots> = template_text (map (fill values) (map (read_piece ec) v))"
    using fold_replace_template [OF entry_pieces_ok [OF assms(2,3,1)] assms(5)] .
  finally show "translate (messages ec) loc key values = template_text (map (fill values) (map (read_piece ec) v))" .
  show "list_all is_lit (map (fill values) (map (read_piece ec) v))"
    using assms(4) entry_ok_holes [OF entry_for_ok [OF assms(2)]] by (intro filled_closed) simp
qed

lemma last_entry_example:
  "entry_for (\<lambda>h. CHR ''^'' # h) (message_entries LocaleEs) ''High (>{value} ms) or unavailable'' =
     Some ([Lit ''High (>'', Hole ''value'', Lit '' ms) or unavailable''],
           [Lit ''Rojo (> '', Hole ''value'', Lit '' ms) o no disponible''])"
  by (simp add: entry_for_def message_entries_def messages_es_def messages_es_3677_def find_first_def
      read_text_def placeholder_def)

theorem every_placeholder_filled_witness:
  "translate (messages (\<lambda>h. CHR ''^'' # h)) LocaleEs ''High (>{value} ms) or unavailable'' [(''value'', ''250'')] =
     ''Rojo (> 250 ms) o no disponible''"
proof -
  have "esc_ok (\<lambda>h. CHR ''^'' # h)" by (simp add: esc_ok_def)
  from every_placeholder_filled [OF this last_entry_example, of "[(''value'', ''250'')]"]
  show ?thesis by (simp add: name_ok_def value_ok_def)
qed

section \<open>Which keys are translated\<close>

text \<open>A text that differs from a written one before any escape and any placeholder.\<close>

fun differs :: "string \<Rightarrow> string \<Rightarrow> bool" where
  "differs (c # cs) (d # ds) = (if c = CHR ''^'' then False else if c = d then differs cs ds else True)"
| "differs (c # cs) [] = (c \<noteq> CHR ''^'')"
| "differs [] ds = False"

fun key_differs :: "string \<Rightarrow> piece list \<Rightarrow> bool" where
  "key_differs key [] = (key \<noteq> [])"
| "key_differs key (Hole n # ps) = (hd (key @ ''{'') \<noteq> CHR ''{'')"
| "key_differs key (Lit s # ps) =
     (if hd (s @ '' '') = CHR ''^'' then 5 \<le> length s else if ps = [] \<and> s = take (length s) key then s \<noteq> key \<and> CHR ''^'' \<notin> set s
      else differs s key)"

text \<open>No escaped character begins like the key.\<close>

definition esc_apart :: "(string \<Rightarrow> string) \<Rightarrow> string \<Rightarrow> bool" where
  "esc_apart ec key \<longleftrightarrow> (\<forall>h. ec h \<noteq> [] \<and> hd (ec h) \<noteq> hd key)"

lemma differs_read: "differs s key \<Longrightarrow> read_escapes ec s @ rest \<noteq> key"
  by (induction s key rule: differs.induct) (auto split: if_splits)

lemma read_escapes_id: "CHR ''^'' \<notin> set s \<Longrightarrow> read_escapes ec s = s"
  by (induction s) auto

lemma escape_read:
  assumes "esc_apart ec key" "hd (s @ '' '') = CHR ''^''" "5 \<le> length s"
  shows "read_escapes ec s @ rest \<noteq> key"
proof -
  obtain cs where s: "s = CHR ''^'' # cs" "4 \<le> length cs" using assms(2,3) by (cases s) auto
  then have "hd (read_escapes ec s @ rest) = hd (ec (take 4 cs))"
    using assms(1) by (simp add: esc_apart_def hd_append)
  then show ?thesis using assms(1) by (auto simp: esc_apart_def)
qed

lemma key_differs_read: "key_differs key k \<Longrightarrow> esc_apart ec key \<Longrightarrow> key \<noteq> [] \<Longrightarrow> read_text ec k \<noteq> key"
proof (induction key k rule: key_differs.induct)
  case (2 key n ps)
  then show ?case by (cases key) (auto simp: read_text_def placeholder_def)
next
  case (3 key s ps)
  then show ?case
    by (auto simp: read_text_def read_escapes_id differs_read escape_read split: if_splits)
qed (simp add: read_text_def)

lemma untranslated:
  assumes "list_all (\<lambda>(k, v). key_differs key k) (message_entries loc)" "esc_apart ec key" "key \<noteq> []"
  shows "messages ec loc key = None"
  using assms by (fastforce simp: messages_def dictionary_get_def entry_for_def list_all_iff dest: key_differs_read)

lemma messages_es_472_no_access_groups: "list_all (\<lambda>(k, v). key_differs ''Access groups'' k) messages_es_472"
  by (simp add: messages_es_472_def)

lemma messages_es_584_no_access_groups: "list_all (\<lambda>(k, v). key_differs ''Access groups'' k) messages_es_584"
  by (simp add: messages_es_584_def)

lemma messages_es_696_no_access_groups: "list_all (\<lambda>(k, v). key_differs ''Access groups'' k) messages_es_696"
  by (simp add: messages_es_696_def)

lemma messages_es_808_no_access_groups: "list_all (\<lambda>(k, v). key_differs ''Access groups'' k) messages_es_808"
  by (simp add: messages_es_808_def)

lemma messages_es_1292_no_access_groups: "list_all (\<lambda>(k, v). key_differs ''Access groups'' k) messages_es_1292"
  by (simp add: messages_es_1292_def)

lemma messages_es_1483_no_access_groups: "list_all (\<lambda>(k, v). key_differs ''Access groups'' k) messages_es_1483"
  by (simp add: messages_es_1483_def)

lemma messages_es_1620_no_access_groups: "list_all (\<lambda>(k, v). key_differs ''Access groups'' k) messages_es_1620"
  by (simp add: messages_es_1620_def)

lemma messages_es_1735_no_access_groups: "list_all (\<lambda>(k, v). key_differs ''Access groups'' k) messages_es_1735"
  by (simp add: messages_es_1735_def)

lemma messages_es_1795_no_access_groups: "list_all (\<lambda>(k, v). key_differs ''Access groups'' k) messages_es_1795"
  by (simp add: messages_es_1795_def)

lemma messages_es_1915_no_access_groups: "list_all (\<lambda>(k, v). key_differs ''Access groups'' k) messages_es_1915"
  by (simp add: messages_es_1915_def)

lemma messages_es_1981_no_access_groups: "list_all (\<lambda>(k, v). key_differs ''Access groups'' k) messages_es_1981"
  by (simp add: messages_es_1981_def)

lemma messages_es_2036_no_access_groups: "list_all (\<lambda>(k, v). key_differs ''Access groups'' k) messages_es_2036"
  by (simp add: messages_es_2036_def)

lemma messages_es_2099_no_access_groups: "list_all (\<lambda>(k, v). key_differs ''Access groups'' k) messages_es_2099"
  by (simp add: messages_es_2099_def)

lemma messages_es_2147_no_access_groups: "list_all (\<lambda>(k, v). key_differs ''Access groups'' k) messages_es_2147"
  by (simp add: messages_es_2147_def)

lemma messages_es_2219_no_access_groups: "list_all (\<lambda>(k, v). key_differs ''Access groups'' k) messages_es_2219"
  by (simp add: messages_es_2219_def)

lemma messages_es_2276_no_access_groups: "list_all (\<lambda>(k, v). key_differs ''Access groups'' k) messages_es_2276"
  by (simp add: messages_es_2276_def)

lemma messages_es_2394_no_access_groups: "list_all (\<lambda>(k, v). key_differs ''Access groups'' k) messages_es_2394"
  by (simp add: messages_es_2394_def)

lemma messages_es_2553_no_access_groups: "list_all (\<lambda>(k, v). key_differs ''Access groups'' k) messages_es_2553"
  by (simp add: messages_es_2553_def)

lemma messages_es_2686_no_access_groups: "list_all (\<lambda>(k, v). key_differs ''Access groups'' k) messages_es_2686"
  by (simp add: messages_es_2686_def)

lemma messages_es_2750_no_access_groups: "list_all (\<lambda>(k, v). key_differs ''Access groups'' k) messages_es_2750"
  by (simp add: messages_es_2750_def)

lemma messages_es_2888_no_access_groups: "list_all (\<lambda>(k, v). key_differs ''Access groups'' k) messages_es_2888"
  by (simp add: messages_es_2888_def)

lemma messages_es_3125_no_access_groups: "list_all (\<lambda>(k, v). key_differs ''Access groups'' k) messages_es_3125"
  by (simp add: messages_es_3125_def)

lemma messages_es_3224_no_access_groups: "list_all (\<lambda>(k, v). key_differs ''Access groups'' k) messages_es_3224"
  by (simp add: messages_es_3224_def)

lemma messages_es_3241_no_access_groups: "list_all (\<lambda>(k, v). key_differs ''Access groups'' k) messages_es_3241"
  by (simp add: messages_es_3241_def)

lemma messages_es_3386_no_access_groups: "list_all (\<lambda>(k, v). key_differs ''Access groups'' k) messages_es_3386"
  by (simp add: messages_es_3386_def)

lemma messages_es_3552_no_access_groups: "list_all (\<lambda>(k, v). key_differs ''Access groups'' k) messages_es_3552"
  by (simp add: messages_es_3552_def)

lemma messages_es_3677_no_access_groups: "list_all (\<lambda>(k, v). key_differs ''Access groups'' k) messages_es_3677"
  by (simp add: messages_es_3677_def)

lemmas no_access_groups =
  messages_es_472_no_access_groups
  messages_es_584_no_access_groups
  messages_es_696_no_access_groups
  messages_es_808_no_access_groups
  messages_es_1292_no_access_groups
  messages_es_1483_no_access_groups
  messages_es_1620_no_access_groups
  messages_es_1735_no_access_groups
  messages_es_1795_no_access_groups
  messages_es_1915_no_access_groups
  messages_es_1981_no_access_groups
  messages_es_2036_no_access_groups
  messages_es_2099_no_access_groups
  messages_es_2147_no_access_groups
  messages_es_2219_no_access_groups
  messages_es_2276_no_access_groups
  messages_es_2394_no_access_groups
  messages_es_2553_no_access_groups
  messages_es_2686_no_access_groups
  messages_es_2750_no_access_groups
  messages_es_2888_no_access_groups
  messages_es_3125_no_access_groups
  messages_es_3224_no_access_groups
  messages_es_3241_no_access_groups
  messages_es_3386_no_access_groups
  messages_es_3552_no_access_groups
  messages_es_3677_no_access_groups

text \<open>The Spanish dictionary has no entry for the heading of the page of access groups, so a user who chose
  Spanish sees the English key.\<close>

theorem spanish_lacks_access_groups:
  assumes "esc_apart ec ''Access groups''"
  shows "translate (messages ec) LocaleEs ''Access groups'' [] = ''Access groups''"
proof -
  have "messages ec LocaleEs ''Access groups'' = None"
    using assms by (intro untranslated) (simp_all add: message_entries_def messages_es_def no_access_groups)
  moreover have "normalizeMessageKey ''Access groups'' = ''Access groups''" by code_simp
  ultimately show ?thesis by (simp add: translate_def lookup_message_def truthy_str_def)
qed

end
