(* ===== verification/Standalone.thy ===== *)
theory Standalone
  imports Prelude "HOL-Library.Word" "HOL-Library.Sublist" "HOL-Library.Multiset"
begin

unbundle bit_operations_syntax

text \<open>
  The script that completes a build: \<^verbatim>\<open>src/frontend/scripts/prepare-standalone.mjs\<close>.

  The file system is a list of absolute paths, each a list of names, with what is found there; the
  order is the one in which a directory is listed.  Modes are those of \<^verbatim>\<open>lstat\<close>, with the kind of the
  entry in the upper bits, which \<^verbatim>\<open>chmod\<close> leaves alone.  Links and devices are \<open>EOther\<close>; the
  script never follows them below its root, and its root is taken to be a directory or a file.
\<close>

type_synonym path = "string list"
type_synonym mode = "32 word"

datatype fs_entry = EDir mode | EFile mode string | EOther mode

type_synonym files = "(path \<times> fs_entry) list"

section \<open>What the script uses of \<^verbatim>\<open>node:path\<close> and \<^verbatim>\<open>node:fs\<close>\<close>

fun resolve_name :: "path \<Rightarrow> string \<Rightarrow> path" where
  "resolve_name p n = (if n = [] \<or> n = ''.'' then p else if n = ''..'' then butlast p else p @ [n])"

definition resolve :: "path \<Rightarrow> string \<Rightarrow> path" where
  "resolve cwd s = foldl resolve_name (if starts_with ''/'' s then [] else cwd) (split_char (CHR ''/'') s)"

definition basename :: "path \<Rightarrow> string" where
  "basename p = (if p = [] then [] else last p)"

definition path_text :: "path \<Rightarrow> string" where
  "path_text p = CHR ''/'' # join ''/'' p"

definition lstat :: "files \<Rightarrow> path \<Rightarrow> fs_entry option" where
  "lstat fs p = map_of fs p"

fun entry_mode :: "fs_entry \<Rightarrow> mode" where
  "entry_mode (EDir m) = m"
| "entry_mode (EFile m c) = m"
| "entry_mode (EOther m) = m"

definition chmod_bits :: "mode \<Rightarrow> mode \<Rightarrow> mode" where
  "chmod_bits old m = (old AND NOT 0xFFF) OR (m AND 0xFFF)"

fun chmod_entry :: "mode \<Rightarrow> fs_entry \<Rightarrow> fs_entry" where
  "chmod_entry m (EDir old) = EDir (chmod_bits old m)"
| "chmod_entry m (EFile old c) = EFile (chmod_bits old m) c"
| "chmod_entry m (EOther old) = EOther (chmod_bits old m)"

definition chmod :: "path \<Rightarrow> mode \<Rightarrow> files \<Rightarrow> files" where
  "chmod p m fs = map (\<lambda>(q, e). (q, if q = p then chmod_entry m e else e)) fs"

definition readdir :: "path \<Rightarrow> files \<Rightarrow> string + (string \<times> fs_entry) list" where
  "readdir d fs =
     (case lstat fs d of
        Some (EDir m) \<Rightarrow> Inr (map (\<lambda>(p, e). (last p, e)) (filter (\<lambda>(p, e). p \<noteq> [] \<and> butlast p = d) fs))
      | Some e \<Rightarrow> Inl ''ENOTDIR''
      | None \<Rightarrow> Inl ''ENOENT'')"

definition rm_tree :: "path \<Rightarrow> files \<Rightarrow> files" where
  "rm_tree p fs = filter (\<lambda>(q, e). \<not> prefix p q) fs"

text \<open>A directory that has to be made gets the mode \<open>dm\<close> of the process.\<close>

fun mkdir_from :: "mode \<Rightarrow> path \<Rightarrow> path \<Rightarrow> files \<Rightarrow> string + files" where
  "mkdir_from dm p [] fs = Inr fs"
| "mkdir_from dm p (n # ns) fs =
     (case lstat fs (p @ [n]) of
        None \<Rightarrow> mkdir_from dm (p @ [n]) ns (fs @ [(p @ [n], EDir dm)])
      | Some (EDir m) \<Rightarrow> mkdir_from dm (p @ [n]) ns fs
      | Some e \<Rightarrow> Inl ''ENOTDIR'')"

definition cp_tree :: "path \<Rightarrow> path \<Rightarrow> files \<Rightarrow> string + files" where
  "cp_tree src dst fs =
     (if lstat fs src = None then Inl ''ENOENT''
      else if prefix src dst then Inl ''ERR_FS_CP_EINVAL''
      else Inr (fs @ map (\<lambda>(p, e). (dst @ drop (length src) p, e)) (filter (\<lambda>(p, e). prefix src p) fs)))"

section \<open>The script\<close>

definition copyDirectory :: "mode \<Rightarrow> path \<Rightarrow> path \<Rightarrow> bool \<Rightarrow> files \<Rightarrow> string + files" where
  "copyDirectory dm source destination optional fs =
     (if lstat fs source = None then
        (if optional then Inr fs else Inl (''Missing standalone build input: '' @ path_text source))
      else (case mkdir_from dm [] (butlast destination) (rm_tree destination fs) of
              Inl err \<Rightarrow> Inl err
            | Inr fs' \<Rightarrow> cp_tree source destination fs'))"

definition readable_file_mode :: "mode \<Rightarrow> mode" where
  "readable_file_mode m = m OR 0x124 OR (if m AND 0x49 \<noteq> 0 then 0x49 else 0)"

text \<open>The loop over the entries of one directory: \<open>dirs\<close> is the stack it pushes on.\<close>

fun visit_entries :: "path \<Rightarrow> (string \<times> fs_entry) list \<Rightarrow> files \<Rightarrow> path list \<Rightarrow> string + files \<times> path list" where
  "visit_entries d [] fs dirs = Inr (fs, dirs)"
| "visit_entries d ((name, e) # es) fs dirs =
     (let p = d @ [name]
      in case e of
           EDir m \<Rightarrow> visit_entries d es fs (dirs @ [p])
         | EFile m c \<Rightarrow>
             (case lstat fs p of
                None \<Rightarrow> Inl ''ENOENT''
              | Some e' \<Rightarrow> visit_entries d es (chmod p (readable_file_mode (entry_mode e')) fs) dirs)
         | EOther m \<Rightarrow> visit_entries d es fs dirs)"

partial_function (option) readable_loop :: "files \<Rightarrow> path list \<Rightarrow> (string + files) option" where
  "readable_loop fs dirs =
     (if dirs = [] then Some (Inr fs)
      else (case lstat fs (last dirs) of
              None \<Rightarrow> Some (Inl ''ENOENT'')
            | Some e \<Rightarrow>
                (let fs1 = chmod (last dirs) (entry_mode e OR 0x16D) fs
                 in case readdir (last dirs) fs1 of
                      Inl err \<Rightarrow> Some (Inl err)
                    | Inr es \<Rightarrow>
                        (case visit_entries (last dirs) es fs1 (butlast dirs) of
                           Inl err \<Rightarrow> Some (Inl err)
                         | Inr (fs2, dirs2) \<Rightarrow> readable_loop fs2 dirs2))))"

definition makeTreeReadable :: "path \<Rightarrow> files \<Rightarrow> (string + files) option" where
  "makeTreeReadable root fs = readable_loop fs [root]"

definition distDir :: "path \<Rightarrow> string \<Rightarrow> path" where
  "distDir cwd env = resolve cwd (or_str env ''.next'')"

definition standaloneDir :: "path \<Rightarrow> string \<Rightarrow> path" where
  "standaloneDir cwd env = distDir cwd env @ [''standalone'']"

definition standaloneDistDir :: "path \<Rightarrow> string \<Rightarrow> path" where
  "standaloneDistDir cwd env = resolve_name (standaloneDir cwd env) (basename (distDir cwd env))"

definition prepare_standalone :: "mode \<Rightarrow> path \<Rightarrow> string \<Rightarrow> files \<Rightarrow> (string + files) option" where
  "prepare_standalone dm cwd env fs =
     (if lstat fs (standaloneDir cwd env @ [''server.js'']) = None then Some (Inl ''ENOENT'')
      else (case copyDirectory dm (distDir cwd env @ [''static'']) (standaloneDistDir cwd env @ [''static'']) False fs of
              Inl err \<Rightarrow> Some (Inl err)
            | Inr fs1 \<Rightarrow>
                (case copyDirectory dm (resolve cwd ''public'') (standaloneDir cwd env @ [''public'']) True fs1 of
                   Inl err \<Rightarrow> Some (Inl err)
                 | Inr fs2 \<Rightarrow> makeTreeReadable (standaloneDir cwd env) fs2)))"

section \<open>Modes\<close>

text \<open>The entry with the mode the script gives it.\<close>

fun readable_entry :: "fs_entry \<Rightarrow> fs_entry" where
  "readable_entry (EDir m) = EDir (m OR 0x16D)"
| "readable_entry (EFile m c) = EFile (readable_file_mode m) c"
| "readable_entry (EOther m) = EOther m"

text \<open>What is asked of the modes, by their bits: 8, 5 and 2 let the owner, the group and the others read; 6, 3 and 0 let
  them run a file or enter a directory.  An entry may only gain such bits.\<close>

definition read_bits :: "nat set" where "read_bits = {2, 5, 8}"

definition run_bits :: "nat set" where "run_bits = {0, 3, 6}"

fun made_readable :: "fs_entry \<Rightarrow> fs_entry \<Rightarrow> bool" where
  "made_readable (EDir m) (EDir m') \<longleftrightarrow> (\<forall>n. bit m' n \<longleftrightarrow> bit m n \<or> n \<in> read_bits \<or> n \<in> run_bits)"
| "made_readable (EFile m c) (EFile m' c') \<longleftrightarrow>
     c' = c \<and>
     (\<forall>n. bit m' n \<longleftrightarrow> bit m n \<or> n \<in> read_bits \<or> n \<in> run_bits \<and> (\<exists>k \<in> run_bits. bit m k))"
| "made_readable (EOther m) e \<longleftrightarrow> e = EOther m"
| "made_readable _ _ \<longleftrightarrow> False"

fun open_to_all :: "fs_entry \<Rightarrow> bool" where
  "open_to_all (EDir m) \<longleftrightarrow> (\<forall>n \<in> read_bits \<union> run_bits. bit m n)"
| "open_to_all (EFile m c) \<longleftrightarrow>
     (\<forall>n \<in> read_bits. bit m n) \<and> ((\<forall>n \<in> run_bits. bit m n) \<or> (\<forall>n \<in> run_bits. \<not> bit m n))"
| "open_to_all (EOther m) \<longleftrightarrow> True"

lemma mode_bits:
  "bit (0x124 :: mode) n \<longleftrightarrow> n \<in> read_bits" "bit (0x49 :: mode) n \<longleftrightarrow> n \<in> run_bits"
  "bit (0x16D :: mode) n \<longleftrightarrow> n \<in> read_bits \<or> n \<in> run_bits"
proof -
  have masks: "(0x124 :: mode) = 2 ^ 2 OR 2 ^ 5 OR 2 ^ 8" "(0x49 :: mode) = 2 ^ 0 OR 2 ^ 3 OR 2 ^ 6" "(0x16D :: mode) = 0x124 OR 0x49"
    by simp_all
  show r: "bit (0x124 :: mode) n \<longleftrightarrow> n \<in> read_bits" and x: "bit (0x49 :: mode) n \<longleftrightarrow> n \<in> run_bits"
    unfolding masks(1,2) bit_or_iff bit_exp_iff read_bits_def run_bits_def by auto
  show "bit (0x16D :: mode) n \<longleftrightarrow> n \<in> read_bits \<or> n \<in> run_bits"
    unfolding masks(3) bit_or_iff r x ..
qed

lemma bit_dir_mode: "bit (m OR (0x16D :: mode)) n \<longleftrightarrow> bit m n \<or> n \<in> read_bits \<or> n \<in> run_bits"
  unfolding bit_or_iff mode_bits ..

lemma runs_iff: "m AND 0x49 \<noteq> (0 :: mode) \<longleftrightarrow> (\<exists>k \<in> run_bits. bit m k)"
proof -
  have b: "bit (m AND 0x49) n \<longleftrightarrow> bit m n \<and> n \<in> run_bits" for n
    unfolding bit_and_iff mode_bits ..
  have "m AND 0x49 = 0" if "\<forall>k \<in> run_bits. \<not> bit m k"
    by (rule bit_word_eqI) (use that in \<open>auto simp: b\<close>)
  moreover have "\<not> bit m k" if "m AND 0x49 = 0" "k \<in> run_bits" for k
    using b [of k] that by simp
  ultimately show ?thesis by blast
qed

lemma bit_readable_file_mode:
  "bit (readable_file_mode m) n \<longleftrightarrow> bit m n \<or> n \<in> read_bits \<or> n \<in> run_bits \<and> (\<exists>k \<in> run_bits. bit m k)"
proof -
  have "bit (if b then 0x49 else (0 :: mode)) n \<longleftrightarrow> b \<and> n \<in> run_bits" for b
    using mode_bits(2) [of n] by (cases b) simp_all
  then show ?thesis unfolding readable_file_mode_def runs_iff bit_or_iff mode_bits by blast
qed

lemma made_readable_entry: "made_readable e (readable_entry e)"
  by (cases e) (simp_all add: bit_readable_file_mode bit_dir_mode)

lemma open_to_all_entry: "open_to_all (readable_entry e)"
proof (cases e)
  case (EFile m c)
  moreover have "n \<notin> read_bits" if "n \<in> run_bits" for n using that by (auto simp: read_bits_def run_bits_def)
  ultimately show ?thesis by (auto simp: bit_readable_file_mode)
qed (simp_all add: bit_dir_mode)

lemma chmod_bits_or: "a AND 0xFFF = a \<Longrightarrow> chmod_bits m (m OR a) = m OR a"
proof -
  assume a: "a AND 0xFFF = a"
  have "bit (0xFFF :: mode) n" if "bit a n" for n
    using that a by (metis bit_and_iff)
  then show ?thesis by (intro bit_word_eqI) (auto simp: chmod_bits_def bit_simps)
qed

lemma chmod_dir_mode: "chmod_bits m (m OR 0x16D) = m OR 0x16D"
  by (rule chmod_bits_or) simp

lemma chmod_file_mode: "chmod_bits m (readable_file_mode m) = readable_file_mode m"
proof -
  have "readable_file_mode m = m OR (0x124 OR (if m AND 0x49 \<noteq> 0 then 0x49 else 0))"
    by (simp add: readable_file_mode_def or.assoc)
  moreover have "(0x124 OR (if m AND 0x49 \<noteq> 0 then 0x49 else 0)) AND 0xFFF = 0x124 OR (if m AND 0x49 \<noteq> 0 then 0x49 else (0 :: mode))"
    by simp
  ultimately show ?thesis by (metis chmod_bits_or)
qed

lemma or_absorbs: "(m AND a) OR a = (a :: mode)"
  by (rule bit_word_eqI) (auto simp: bit_or_iff bit_and_iff)

lemma readable_file_mode_idem [simp]: "readable_file_mode (readable_file_mode m) = readable_file_mode m"
proof (cases "m AND 0x49 = 0")
  case True
  moreover have "(m OR 0x124) AND 0x49 = m AND 0x49"
    by (simp add: bit.conj_disj_distrib2)
  ultimately show ?thesis by (simp add: readable_file_mode_def or.assoc)
next
  case False
  have *: "(m OR 0x16D) AND 0x49 = 0x49"
    using or_absorbs [of m "0x49"] by (simp add: bit.conj_disj_distrib2)
  then show ?thesis using False by (simp add: readable_file_mode_def or.assoc)
qed

lemma readable_entry_idem [simp]: "readable_entry (readable_entry e) = readable_entry e"
  by (cases e) (simp_all add: or.assoc)

section \<open>The walk\<close>

definition tree_ok :: "files \<Rightarrow> bool" where
  "tree_ok fs \<longleftrightarrow> distinct (map fst fs) \<and>
     (\<forall>p n. lstat fs (p @ [n]) \<noteq> None \<longrightarrow> (\<exists>m. lstat fs p = Some (EDir m)))"

definition fix_at :: "path set \<Rightarrow> files \<Rightarrow> files" where
  "fix_at S fs = map (\<lambda>(q, e). (q, if q \<in> S then readable_entry e else e)) fs"

lemma fix_at_simps [simp]:
  "fix_at {} fs = fs"
  "map fst (fix_at S fs) = map fst fs"
  "fst ` set (fix_at S fs) = fst ` set fs"
  "fix_at S (fix_at T fs) = fix_at (S \<union> T) fs"
  by (auto simp: fix_at_def comp_def case_prod_beta image_image)

lemma lstat_fix_at: "lstat (fix_at S fs) p = map_option (\<lambda>e. if p \<in> S then readable_entry e else e) (lstat fs p)"
  by (induction fs) (auto simp: fix_at_def lstat_def)

lemma lstat_fix_at_dir: "(\<exists>m. lstat (fix_at S fs) p = Some (EDir m)) \<longleftrightarrow> (\<exists>m. lstat fs p = Some (EDir m))"
proof (cases "lstat fs p")
  case (Some e)
  then show ?thesis by (cases e) (auto simp: lstat_fix_at)
qed (simp add: lstat_fix_at)

lemma tree_ok_fix_at: "tree_ok fs \<Longrightarrow> tree_ok (fix_at S fs)"
  unfolding tree_ok_def lstat_fix_at_dir by (simp add: lstat_fix_at)

lemma lstat_iff: "distinct (map fst fs) \<Longrightarrow> lstat fs p = Some e \<longleftrightarrow> (p, e) \<in> set fs"
  by (simp add: lstat_def)

lemma fix_at_cong:
  assumes "\<And>p e. (p, e) \<in> set fs \<Longrightarrow> readable_entry e = e \<or> (p \<in> S \<longleftrightarrow> p \<in> T)"
  shows "fix_at S fs = fix_at T fs"
  unfolding fix_at_def using assms by (fastforce intro!: map_cong)

text \<open>Changing the mode of one entry.\<close>

lemma chmod_is_fix:
  assumes "distinct (map fst fs)" "lstat fs p = Some e" "chmod_entry m e = readable_entry e"
  shows "chmod p m fs = fix_at {p} fs"
proof -
  have "e' = e" if "(p, e') \<in> set fs" for e' using that assms(1,2) by (simp add: lstat_iff eq_key_imp_eq_value)
  then show ?thesis unfolding chmod_def fix_at_def using assms(3) by (auto intro!: map_cong)
qed

definition child_files :: "path \<Rightarrow> (string \<times> fs_entry) list \<Rightarrow> path set" where
  "child_files d es = {d @ [n] | n m c. (n, EFile m c) \<in> set es}"

definition child_dirs :: "path \<Rightarrow> (string \<times> fs_entry) list \<Rightarrow> path list" where
  "child_dirs d es = map (\<lambda>(n, e). d @ [n]) (filter (\<lambda>(n, e). case e of EDir m \<Rightarrow> True | _ \<Rightarrow> False) es)"

lemma child_files_Cons:
  "child_files d ((n, e) # es) = (case e of EFile m c \<Rightarrow> {d @ [n]} | _ \<Rightarrow> {}) \<union> child_files d es"
  by (auto simp: child_files_def split: fs_entry.splits)

lemma visit_entries_result:
  assumes "distinct (map fst fs)" "\<And>n m c. (n, EFile m c) \<in> set es \<Longrightarrow> \<exists>m c. lstat fs (d @ [n]) = Some (EFile m c)"
  shows "visit_entries d es fs dirs = Inr (fix_at (child_files d es) fs, dirs @ child_dirs d es)"
  using assms
proof (induction es arbitrary: fs dirs)
  case Nil
  then show ?case by (simp add: child_files_def child_dirs_def)
next
  case (Cons x es)
  obtain n e where x: "x = (n, e)" by (cases x)
  show ?case
  proof (cases e)
    case (EFile m c)
    then obtain m' c' where l: "lstat fs (d @ [n]) = Some (EFile m' c')" using Cons.prems(2) x by force
    have f: "chmod (d @ [n]) (readable_file_mode m') fs = fix_at {d @ [n]} fs"
      by (rule chmod_is_fix [OF Cons.prems(1) l]) (simp add: chmod_file_mode)
    have "\<exists>m c. lstat (fix_at {d @ [n]} fs) (d @ [k]) = Some (EFile m c)" if k: "(k, EFile a b) \<in> set es" for k a b
    proof -
      obtain m c where "lstat fs (d @ [k]) = Some (EFile m c)" using Cons.prems(2) [of k a b] k by auto
      then show ?thesis by (simp add: lstat_fix_at)
    qed
    then show ?thesis using Cons.IH [of "fix_at {d @ [n]} fs"] Cons.prems(1) l EFile x
      by (simp add: f Let_def child_files_Cons child_dirs_def Un_commute)
  qed (use Cons x in \<open>auto simp: child_files_Cons child_dirs_def\<close>)
qed

lemma tree_okD: "tree_ok fs \<Longrightarrow> lstat fs (p @ [n]) \<noteq> None \<Longrightarrow> \<exists>m. lstat fs p = Some (EDir m)"
  unfolding tree_ok_def by blast

lemma ancestor_is_dir:
  "tree_ok fs \<Longrightarrow> lstat fs (p @ q) \<noteq> None \<Longrightarrow> q \<noteq> [] \<Longrightarrow> \<exists>m. lstat fs p = Some (EDir m)"
proof (induction q rule: rev_induct)
  case (snoc n q)
  then have *: "\<exists>m. lstat fs (p @ q) = Some (EDir m)" using tree_okD [of fs "p @ q" n] by simp
  show ?case
  proof (cases "q = []")
    case False
    with snoc * show ?thesis by auto
  qed (use * in simp)
qed simp

text \<open>The listing of a directory.\<close>

lemma readdir_listed:
  assumes "tree_ok fs" "lstat fs d = Some (EDir m)"
  obtains es where "readdir d fs = Inr es" "\<And>n e. (n, e) \<in> set es \<longleftrightarrow> lstat fs (d @ [n]) = Some e"
proof
  let ?es = "map (\<lambda>(p, e). (last p, e)) (filter (\<lambda>(p, e). p \<noteq> [] \<and> butlast p = d) fs)"
  show "readdir d fs = Inr ?es" using assms(2) by (simp add: readdir_def)
  fix n e
  have "(n, e) \<in> set ?es \<longleftrightarrow> (\<exists>p. (p, e) \<in> set fs \<and> p \<noteq> [] \<and> butlast p = d \<and> last p = n)" by force
  also have "\<dots> \<longleftrightarrow> (d @ [n], e) \<in> set fs" by (metis append_butlast_last_id butlast_snoc last_snoc snoc_eq_iff_butlast)
  finally show "(n, e) \<in> set ?es \<longleftrightarrow> lstat fs (d @ [n]) = Some e"
    using assms(1) by (simp add: tree_ok_def lstat_iff)
qed

lemma child_dirs_iff: "p \<in> set (child_dirs d es) \<longleftrightarrow> (\<exists>n m. p = d @ [n] \<and> (n, EDir m) \<in> set es)"
  by (force simp: child_dirs_def split: fs_entry.splits)

definition under :: "path list \<Rightarrow> path set" where
  "under dirs = {p. \<exists>d \<in> set dirs. prefix d p}"

text \<open>What lies below a directory is the directory, its files, and what lies below its directories.\<close>

lemma below_directory:
  assumes "tree_ok fs" "(p, e) \<in> set fs" "readable_entry e \<noteq> e"
    and es: "\<And>n e. (n, e) \<in> set es \<longleftrightarrow> lstat fs (d @ [n]) = Some e"
  shows "prefix d p \<longleftrightarrow> p \<in> under (child_dirs d es) \<union> child_files d es \<union> {d}"
proof
  assume "prefix d p"
  then obtain q where q: "p = d @ q" by (auto simp: prefix_def)
  have l: "lstat fs p = Some e" using assms(1,2) by (simp add: tree_ok_def lstat_iff)
  show "p \<in> under (child_dirs d es) \<union> child_files d es \<union> {d}"
  proof (cases q)
    case (Cons n r)
    show ?thesis
    proof (cases r)
      case Nil
      then have "(n, e) \<in> set es" using l q Cons es by simp
      then show ?thesis using assms(3) q Cons Nil
        by (cases e) (auto simp: under_def child_files_def child_dirs_iff intro!: bexI [of _ "d @ [n]"])
    next
      case (Cons x r')
      then obtain m where "lstat fs (d @ [n]) = Some (EDir m)"
        using ancestor_is_dir [OF assms(1), of "d @ [n]" r] l q \<open>q = n # r\<close> by auto
      then have "d @ [n] \<in> set (child_dirs d es)" by (auto simp: child_dirs_iff es)
      moreover have "prefix (d @ [n]) p" using q \<open>q = n # r\<close> by simp
      ultimately show ?thesis unfolding under_def by blast
    qed
  qed (simp add: q)
qed (auto simp: under_def child_dirs_iff child_files_def prefix_def)

text \<open>One round of the loop.\<close>

lemma readable_loop_round:
  assumes "tree_ok fs" "lstat fs d = Some (EDir m)"
  obtains fs' cs where "readable_loop fs (rest @ [d]) = readable_loop fs' (rest @ cs)"
    and "fix_at (under (rest @ cs)) fs' = fix_at (under (rest @ [d])) fs"
    and "\<exists>S. fs' = fix_at S fs"
    and "\<And>c. c \<in> set cs \<Longrightarrow> (\<exists>n. c = d @ [n]) \<and> (\<exists>m. lstat fs' c = Some (EDir m))"
proof -
  let ?fs1 = "fix_at {d} fs"
  have c: "chmod d (m OR 0x16D) fs = ?fs1"
    using assms by (intro chmod_is_fix) (auto simp: tree_ok_def chmod_dir_mode)
  have ok: "tree_ok ?fs1" "lstat ?fs1 d = Some (EDir (m OR 0x16D))"
    using assms by (simp_all add: tree_ok_fix_at lstat_fix_at)
  from readdir_listed [OF ok] obtain es where es: "readdir d ?fs1 = Inr es"
    "\<And>n e. (n, e) \<in> set es \<longleftrightarrow> lstat ?fs1 (d @ [n]) = Some e" by blast
  let ?fs' = "fix_at (child_files d es) ?fs1"
  have v: "visit_entries d es ?fs1 rest = Inr (?fs', rest @ child_dirs d es)"
    using ok(1) es(2) by (intro visit_entries_result) (auto simp: tree_ok_def simp del: fix_at_simps(4))
  have es': "(n, e) \<in> set es \<longleftrightarrow> lstat fs (d @ [n]) = Some e" for n e using es(2) by (simp add: lstat_fix_at)
  show thesis
  proof
    show "readable_loop fs (rest @ [d]) = readable_loop ?fs' (rest @ child_dirs d es)"
      using assms(2) c es(1) v by (subst readable_loop.simps) (simp add: Let_def del: fix_at_simps(4))
    have "fix_at (under (rest @ child_dirs d es) \<union> (child_files d es \<union> {d})) fs = fix_at (under (rest @ [d])) fs"
    proof (rule fix_at_cong)
      fix p e assume "(p, e) \<in> set fs"
      then show "readable_entry e = e \<or> (p \<in> under (rest @ child_dirs d es) \<union> (child_files d es \<union> {d})) = (p \<in> under (rest @ [d]))"
        using below_directory [OF assms(1) _ _ es', of p e] by (auto simp: under_def)
    qed
    then show "fix_at (under (rest @ child_dirs d es)) ?fs' = fix_at (under (rest @ [d])) fs" by simp
    show "\<exists>S. ?fs' = fix_at S fs" by auto
    fix c assume "c \<in> set (child_dirs d es)"
    then show "(\<exists>n. c = d @ [n]) \<and> (\<exists>m. lstat ?fs' c = Some (EDir m))"
      by (auto simp: child_dirs_iff es' lstat_fix_at_dir simp del: fix_at_simps(4))
  qed
qed

text \<open>The loop ends, because directories are replaced by directories that lie deeper, and no path is
  longer than the longest one.\<close>

lemma readable_loop_result:
  assumes "tree_ok fs" "\<forall>p \<in> fst ` set fs. length p \<le> h" "\<forall>d \<in> set dirs. \<exists>m. lstat fs d = Some (EDir m)"
  shows "readable_loop fs dirs = Some (Inr (fix_at (under dirs) fs))"
  using assms
proof (induction "mset dirs" arbitrary: fs dirs rule: wf_induct_rule [OF wf_mult [OF wf_measure [of "\<lambda>d. h - length d"]]])
  case 1
  show ?case
  proof (cases dirs rule: rev_cases)
    case Nil
    then show ?thesis by (simp add: readable_loop.simps under_def)
  next
    case (snoc rest d)
    then obtain m where d: "lstat fs d = Some (EDir m)" using 1(4) by auto
    from readable_loop_round [OF 1(2) d, of rest] obtain fs' cs S where
      r: "readable_loop fs (rest @ [d]) = readable_loop fs' (rest @ cs)"
      "fix_at (under (rest @ cs)) fs' = fix_at (under (rest @ [d])) fs" "fs' = fix_at S fs"
      "\<And>c. c \<in> set cs \<Longrightarrow> (\<exists>n. c = d @ [n]) \<and> (\<exists>m. lstat fs' c = Some (EDir m))" by metis
    have len: "length c \<le> h" if "c \<in> set cs" for c
    proof -
      have "c \<in> fst ` set fs'" using r(4) [OF that] by (auto simp: lstat_def dest!: map_of_SomeD intro: rev_image_eqI)
      then show ?thesis using 1(3) r(3) by auto
    qed
    have "(mset (rest @ cs), mset dirs) \<in> mult (measure (\<lambda>d. h - length d))"
      unfolding snoc mset_append using r(4) len by (intro one_step_implies_mult) fastforce+
    moreover have "\<forall>c \<in> set (rest @ cs). \<exists>m. lstat fs' c = Some (EDir m)"
      using 1(4) r(3,4) snoc by (auto simp: lstat_fix_at_dir)
    ultimately have "readable_loop fs' (rest @ cs) = Some (Inr (fix_at (under (rest @ cs)) fs'))"
      using 1(1) [of "rest @ cs" fs'] 1(2,3) r(3) by (simp add: tree_ok_fix_at)
    then show ?thesis using r(1,2) snoc by simp
  qed
qed

section \<open>Copying\<close>

lemma lstat_rm_tree: "lstat (rm_tree p fs) q = (if prefix p q then None else lstat fs q)"
  by (induction fs) (auto simp: rm_tree_def lstat_def)

lemma tree_ok_rm_tree: "tree_ok fs \<Longrightarrow> tree_ok (rm_tree p fs)"
proof -
  assume ok: "tree_ok fs"
  then have "distinct (map fst (rm_tree p fs))" by (simp add: tree_ok_def rm_tree_def distinct_map_filter)
  then show ?thesis using tree_okD [OF ok] by (auto simp: tree_ok_def lstat_rm_tree)
qed

lemma lstat_append: "lstat (fs @ gs) q = (case lstat fs q of Some e \<Rightarrow> Some e | None \<Rightarrow> lstat gs q)"
  by (simp add: lstat_def map_add_def split: option.splits)

lemma lstat_single: "lstat [(p, e)] q = (if q = p then Some e else None)"
  by (simp add: lstat_def)

lemma lstat_None: "lstat fs p = None \<longleftrightarrow> p \<notin> fst ` set fs"
  by (simp add: lstat_def map_of_eq_None_iff)

text \<open>A grown file system: nothing that was there has changed.\<close>

definition grown :: "files \<Rightarrow> files \<Rightarrow> bool" where
  "grown fs fs' \<longleftrightarrow> (\<forall>q e. lstat fs q = Some e \<longrightarrow> lstat fs' q = Some e)"

lemma tree_ok_snoc:
  assumes "tree_ok fs" "lstat fs p = Some (EDir m)" "lstat fs (p @ [n]) = None"
  shows "tree_ok (fs @ [(p @ [n], e)])"
proof -
  have "\<exists>m. lstat (fs @ [(p @ [n], e)]) q = Some (EDir m)" if "lstat (fs @ [(p @ [n], e)]) (q @ [k]) \<noteq> None" for q k
    using that assms tree_okD [OF assms(1), of q k]
    by (fastforce simp: lstat_append lstat_single split: option.splits if_splits)
  then show ?thesis using assms(1,3) by (auto simp: tree_ok_def lstat_None)
qed

lemma mkdir_from_result:
  assumes "tree_ok fs" "lstat fs p = Some (EDir m)"
    and "\<And>q. prefix q (p @ ns) \<Longrightarrow> lstat fs q = None \<or> (\<exists>m. lstat fs q = Some (EDir m))"
  shows "\<exists>fs' m'. mkdir_from dm p ns fs = Inr fs' \<and> tree_ok fs' \<and> grown fs fs' \<and> lstat fs' (p @ ns) = Some (EDir m') \<and>
           (\<forall>q. lstat fs' q \<noteq> None \<longrightarrow> lstat fs q \<noteq> None \<or> prefix q (p @ ns))"
  using assms
proof (induction ns arbitrary: p m fs)
  case Nil
  then show ?case by (auto simp: grown_def)
next
  case (Cons n ns)
  show ?case
  proof (cases "lstat fs (p @ [n])")
    case None
    let ?fs = "fs @ [(p @ [n], EDir dm)]"
    have n: "lstat ?fs q = (if q = p @ [n] then Some (EDir dm) else lstat fs q)" for q
      using None by (auto simp: lstat_append lstat_single split: option.splits)
    have "prefix q ((p @ [n]) @ ns) \<Longrightarrow> lstat ?fs q = None \<or> (\<exists>m. lstat ?fs q = Some (EDir m))" for q
      using Cons.prems(3) [of q] by (simp add: n)
    from Cons.IH [of ?fs "p @ [n]" dm, OF tree_ok_snoc [OF Cons.prems(1,2) None] _ this]
    obtain fs' m' where r: "mkdir_from dm (p @ [n]) ns ?fs = Inr fs'" "tree_ok fs'" "grown ?fs fs'"
      "lstat fs' (p @ n # ns) = Some (EDir m')" "\<And>q. lstat fs' q \<noteq> None \<Longrightarrow> lstat ?fs q \<noteq> None \<or> prefix q (p @ n # ns)"
      by (auto simp: n)
    have "grown fs fs'" using r(3) by (simp add: grown_def lstat_append)
    moreover have "lstat fs q \<noteq> None \<or> prefix q (p @ n # ns)" if "lstat fs' q \<noteq> None" for q
      using r(5) [OF that] by (auto simp: n split: if_splits)
    ultimately show ?thesis using None r(1,2,4) by auto
  next
    case (Some e)
    then obtain k where k: "lstat fs (p @ [n]) = Some (EDir k)" using Cons.prems(3) [of "p @ [n]"] by auto
    then show ?thesis using Cons.IH [OF Cons.prems(1) k] Cons.prems(3) by simp
  qed
qed

lemma lstat_relocated:
  "lstat (map (\<lambda>(p, e). (dst @ drop (length src) p, e)) (filter (\<lambda>(p, e). prefix src p) fs)) q =
     (if prefix dst q then lstat fs (src @ drop (length dst) q) else None)"
  by (induction fs) (auto simp: lstat_def prefix_def)

lemma lstat_cp_tree:
  assumes "cp_tree src dst fs = Inr fs'" "\<And>q. prefix dst q \<Longrightarrow> lstat fs q = None"
  shows "lstat fs' q = (if prefix dst q then lstat fs (src @ drop (length dst) q) else lstat fs q)"
  using assms
  by (auto simp: cp_tree_def lstat_append lstat_relocated split: if_splits option.splits)

lemma tree_ok_cp_tree:
  assumes "cp_tree src dst fs = Inr fs'" "\<And>q. prefix dst q \<Longrightarrow> lstat fs q = None"
    and "tree_ok fs" "dst \<noteq> []" "lstat fs (butlast dst) = Some (EDir m)"
  shows "tree_ok fs'"
proof -
  let ?gs = "map (\<lambda>(p, e). (dst @ drop (length src) p, e)) (filter (\<lambda>(p, e). prefix src p) fs)"
  have fs': "fs' = fs @ ?gs" using assms(1) by (auto simp: cp_tree_def split: if_splits)
  have "inj_on (\<lambda>p. dst @ drop (length src) p) {p. prefix src p}" by (auto simp: inj_on_def prefix_def)
  then have "distinct (map fst ?gs)"
    using assms(3) unfolding tree_ok_def
    by (auto simp: distinct_map inj_on_def case_prod_beta)
  moreover have "fst ` set fs \<inter> fst ` set ?gs = {}"
  proof -
    have "prefix dst q" if "q \<in> fst ` set ?gs" for q using that by auto
    with assms(2) have "q \<notin> fst ` set fs" if "q \<in> fst ` set ?gs" for q using that by (metis lstat_None)
    then show ?thesis by blast
  qed
  ultimately have "distinct (map fst fs')" using assms(3) by (simp add: fs' tree_ok_def image_image)
  moreover have "\<exists>m. lstat fs' p = Some (EDir m)" if e: "lstat fs' (p @ [n]) \<noteq> None" for p n
  proof (cases "prefix dst (p @ [n])")
    case True
    show ?thesis
    proof (cases "dst = p @ [n]")
      case False
      with True have "prefix dst p" by simp
      then obtain r where "p = dst @ r" by (auto simp: prefix_def)
      then show ?thesis using e tree_okD [OF assms(3), of "src @ r" n] by (simp add: lstat_cp_tree [OF assms(1,2)])
    qed (use assms(5) in \<open>simp add: lstat_cp_tree [OF assms(1,2)]\<close>)
  next
    case False
    then show ?thesis using e tree_okD [OF assms(3), of p n]
      by (auto simp: lstat_cp_tree [OF assms(1,2)])
  qed
  ultimately show ?thesis by (simp add: tree_ok_def)
qed

lemma copyDirectory_result:
  assumes "tree_ok fs" "lstat fs src \<noteq> None" "dst \<noteq> []" "\<not> prefix src dst" "\<not> prefix dst src"
    and "\<And>q. prefix q (butlast dst) \<Longrightarrow> lstat fs q = None \<or> (\<exists>m. lstat fs q = Some (EDir m))"
  obtains fs' where "copyDirectory dm src dst opt fs = Inr fs'" "tree_ok fs'"
    and "\<And>r e. lstat fs (src @ r) = Some e \<Longrightarrow> lstat fs' (dst @ r) = Some e"
    and "\<And>q e. \<not> prefix dst q \<Longrightarrow> lstat fs q = Some e \<Longrightarrow> lstat fs' q = Some e"
proof -
  let ?fs1 = "rm_tree dst fs"
  have src: "src \<noteq> []" using assms(4) by auto
  then obtain m where "lstat fs [] = Some (EDir m)"
    using ancestor_is_dir [OF assms(1), of "[]" src] assms(2) by auto
  then have root: "lstat ?fs1 [] = Some (EDir m)" using assms(3) by (simp add: lstat_rm_tree)
  have free: "lstat ?fs1 q = None \<or> (\<exists>m. lstat ?fs1 q = Some (EDir m))" if "prefix q ([] @ butlast dst)" for q
    using assms(6) [of q] that by (simp add: lstat_rm_tree)
  from mkdir_from_result [of ?fs1 "[]" m "butlast dst" dm, OF tree_ok_rm_tree [OF assms(1)] root free]
  obtain fs2 m2 where fs2: "mkdir_from dm [] (butlast dst) ?fs1 = Inr fs2" "tree_ok fs2" "grown ?fs1 fs2"
    "lstat fs2 (butlast dst) = Some (EDir m2)"
    "\<And>q. lstat fs2 q \<noteq> None \<Longrightarrow> lstat ?fs1 q \<noteq> None \<or> prefix q (butlast dst)" by auto
  have keep: "lstat fs2 q = Some e" if "\<not> prefix dst q" "lstat fs q = Some e" for q e
    using fs2(3) that by (simp add: grown_def lstat_rm_tree)
  have "\<not> prefix dst q" if "prefix q (butlast dst)" for q
  proof -
    have "length q < length dst" using prefix_length_le [OF that] assms(3) unfolding length_butlast by (cases "length dst") auto
    then show ?thesis using prefix_length_le [of dst q] by auto
  qed
  then have empty: "lstat fs2 q = None" if "prefix dst q" for q
    using fs2(5) [of q] that by (cases "lstat fs2 q") (auto simp: lstat_rm_tree)
  obtain fs3 where fs3: "cp_tree src dst fs2 = Inr fs3"
    using assms(2,4,5) keep by (fastforce simp: cp_tree_def)
  show thesis
  proof
    show "copyDirectory dm src dst opt fs = Inr fs3" using assms(2) fs2(1) fs3 by (auto simp: copyDirectory_def)
    show "tree_ok fs3" by (rule tree_ok_cp_tree [OF fs3 empty fs2(2) assms(3) fs2(4)])
    show "lstat fs3 q = Some e" if "\<not> prefix dst q" "lstat fs q = Some e" for q e
      using keep [OF that] that(1) by (simp add: lstat_cp_tree [OF fs3 empty])
    show "lstat fs3 (dst @ r) = Some e" if "lstat fs (src @ r) = Some e" for r e
    proof -
      have "\<not> prefix dst (src @ r)" using assms(4,5) by (metis prefixI prefix_same_cases)
      then show ?thesis using keep that by (simp add: lstat_cp_tree [OF fs3 empty])
    qed
  qed
qed

section \<open>The prepared tree\<close>

lemma makeTreeReadable_result:
  assumes "tree_ok fs" "lstat fs root = Some (EDir m)"
  shows "makeTreeReadable root fs = Some (Inr (fix_at (under [root]) fs))"
proof -
  have "\<forall>p \<in> fst ` set fs. length p \<le> Max (length ` fst ` set fs)" by simp
  from readable_loop_result [OF assms(1) this, of "[root]"] show ?thesis
    using assms(2) by (simp add: makeTreeReadable_def)
qed

text \<open>The directories above an entry are there, so only the last one of a destination can be in the way.\<close>

lemma destination_free:
  assumes "tree_ok fs" "lstat fs (p @ [x]) \<noteq> None" "prefix q (p @ ns)"
    and "ns = [] \<or> (\<exists>b. ns = [b] \<and> (lstat fs (p @ [b]) = None \<or> (\<exists>m. lstat fs (p @ [b]) = Some (EDir m))))"
  shows "lstat fs q = None \<or> (\<exists>m. lstat fs q = Some (EDir m))"
proof (cases "prefix q p")
  case True
  then obtain r where "p = q @ r" by (auto simp: prefix_def)
  then show ?thesis using ancestor_is_dir [OF assms(1), of q "r @ [x]"] assms(2) by simp
next
  case False
  then show ?thesis using assms(3,4) by (auto simp: prefix_snoc)
qed

lemma static_copied:
  assumes "tree_ok fs" "lstat fs (sa @ [x]) \<noteq> None" "lstat fs src \<noteq> None" "\<not> prefix src (sa @ [b, n])" "\<not> prefix (sa @ [b, n]) src"
    and "lstat fs (sa @ [b]) = None \<or> (\<exists>m. lstat fs (sa @ [b]) = Some (EDir m))"
  obtains fs' where "copyDirectory dm src (sa @ [b, n]) opt fs = Inr fs'" "tree_ok fs'"
    and "\<And>r e. lstat fs (src @ r) = Some e \<Longrightarrow> lstat fs' (sa @ b # n # r) = Some e"
    and "\<And>q e. \<not> prefix (sa @ [b, n]) q \<Longrightarrow> lstat fs q = Some e \<Longrightarrow> lstat fs' q = Some e"
proof (rule copyDirectory_result [of fs src "sa @ [b, n]" dm opt])
  show "lstat fs q = None \<or> (\<exists>m. lstat fs q = Some (EDir m))" if "prefix q (butlast (sa @ [b, n]))" for q
    using that assms(6) by (intro destination_free [OF assms(1,2), of q "[b]"]) (simp_all add: butlast_append)
qed (use assms that in auto)

lemma public_copied:
  assumes "tree_ok fs" "lstat fs (sa @ [x]) \<noteq> None" "pub \<parallel> (sa @ [n])"
  obtains fs' where "copyDirectory dm pub (sa @ [n]) True fs = Inr fs'" "tree_ok fs'"
    and "\<And>r e. lstat fs (pub @ r) = Some e \<Longrightarrow> lstat fs' (sa @ n # r) = Some e"
    and "\<And>q e. \<not> prefix (sa @ [n]) q \<Longrightarrow> lstat fs q = Some e \<Longrightarrow> lstat fs' q = Some e"
proof (cases "lstat fs pub = None")
  case True
  then have "lstat fs (pub @ r) = None" for r
    using ancestor_is_dir [OF assms(1), of pub r] by (cases "r = []"; cases "lstat fs (pub @ r)") auto
  then show thesis using that [of fs] True assms(1) by (simp add: copyDirectory_def)
next
  case False
  show thesis
  proof (rule copyDirectory_result [of fs pub "sa @ [n]" dm True])
    show "lstat fs q = None \<or> (\<exists>m. lstat fs q = Some (EDir m))" if "prefix q (butlast (sa @ [n]))" for q
      using that by (intro destination_free [OF assms(1,2), of q "[]"]) (simp_all add: butlast_append)
  qed (use assms that False in \<open>auto simp: parallel_def\<close>)
qed

text \<open>What the script expects of a build: the server and the static files, and places to copy to that are
  not occupied by a file and do not overlap with the public files.\<close>

definition build_ok :: "path \<Rightarrow> string \<Rightarrow> files \<Rightarrow> bool" where
  "build_ok cwd env fs \<longleftrightarrow>
     (let sa = standaloneDir cwd env; sd = standaloneDistDir cwd env; pub = resolve cwd ''public''
      in tree_ok fs \<and> lstat fs (sa @ [''server.js'']) \<noteq> None \<and> lstat fs (distDir cwd env @ [''static'']) \<noteq> None \<and>
         basename (distDir cwd env) \<notin> {[], ''.'', ''..'', ''public'', ''server.js''} \<and>
         (lstat fs sd = None \<or> (\<exists>m. lstat fs sd = Some (EDir m))) \<and>
         pub \<parallel> (sd @ [''static'']) \<and> pub \<parallel> (sa @ [''public'']))"

text \<open>C29: a build whose parts are there is prepared: the static files and the public files are at the places
  where the server looks for them and the server is still there, each with its contents and with no bit of its mode changed
  except that all may read it and, if it is a directory or could be run by anyone, all may enter or run it; and every directory
  below the standalone directory can be listed and entered by all, every file there read by all, and run by all or by
  nobody.\<close>

theorem standalone_prepared:
  assumes "build_ok cwd env fs"
  shows "\<exists>fs'. prepare_standalone dm cwd env fs = Some (Inr fs') \<and>
           (\<forall>r e. lstat fs (distDir cwd env @ ''static'' # r) = Some e \<longrightarrow>
              (\<exists>e'. lstat fs' (standaloneDistDir cwd env @ ''static'' # r) = Some e' \<and> made_readable e e')) \<and>
           (\<forall>r e. lstat fs (resolve cwd ''public'' @ r) = Some e \<longrightarrow>
              (\<exists>e'. lstat fs' (standaloneDir cwd env @ ''public'' # r) = Some e' \<and> made_readable e e')) \<and>
           (\<forall>e. lstat fs (standaloneDir cwd env @ [''server.js'']) = Some e \<longrightarrow>
              (\<exists>e'. lstat fs' (standaloneDir cwd env @ [''server.js'']) = Some e' \<and> made_readable e e')) \<and>
           (\<forall>p e. prefix (standaloneDir cwd env) p \<longrightarrow> lstat fs' p = Some e \<longrightarrow> open_to_all e)"
proof -
  define sa pub b where "sa = standaloneDir cwd env" and "pub = resolve cwd ''public''" and "b = basename (distDir cwd env)"
  have b: "standaloneDistDir cwd env = sa @ [b]" "b \<noteq> ''public''" "b \<noteq> ''server.js''"
    and sa: "sa = distDir cwd env @ [''standalone'']"
    using assms by (auto simp: build_ok_def Let_def standaloneDistDir_def standaloneDir_def sa_def b_def)
  have ok: "tree_ok fs" "lstat fs (sa @ [''server.js'']) \<noteq> None" "lstat fs (distDir cwd env @ [''static'']) \<noteq> None"
      "lstat fs (sa @ [b]) = None \<or> (\<exists>m. lstat fs (sa @ [b]) = Some (EDir m))"
    and par: "pub \<parallel> (sa @ [b, ''static''])" "pub \<parallel> (sa @ [''public''])"
    using assms by (auto simp: build_ok_def Let_def b sa_def [symmetric] pub_def [symmetric])
  from static_copied [OF ok(1,2,3) _ _ ok(4), of "''static''" dm False]
  obtain f1 where f1: "copyDirectory dm (distDir cwd env @ [''static'']) (sa @ [b, ''static'']) False fs = Inr f1" "tree_ok f1"
    "\<And>r e. lstat fs (distDir cwd env @ ''static'' # r) = Some e \<Longrightarrow> lstat f1 (sa @ b # ''static'' # r) = Some e"
    "\<And>q e. \<not> prefix (sa @ [b, ''static'']) q \<Longrightarrow> lstat fs q = Some e \<Longrightarrow> lstat f1 q = Some e"
    by (auto simp: sa)
  have server: "lstat f1 (sa @ [''server.js'']) \<noteq> None" using f1(4) ok(2) by auto
  from public_copied [OF f1(2) server par(2), of dm]
  obtain f2 where f2: "copyDirectory dm pub (sa @ [''public'']) True f1 = Inr f2" "tree_ok f2"
    "\<And>r e. lstat f1 (pub @ r) = Some e \<Longrightarrow> lstat f2 (sa @ ''public'' # r) = Some e"
    "\<And>q e. \<not> prefix (sa @ [''public'']) q \<Longrightarrow> lstat f1 q = Some e \<Longrightarrow> lstat f2 q = Some e" by blast
  have "lstat f2 (sa @ [''server.js'']) \<noteq> None" using f2(4) server by auto
  then obtain m where m: "lstat f2 sa = Some (EDir m)" using tree_okD [OF f2(2)] by blast
  have result: "prepare_standalone dm cwd env fs = Some (Inr (fix_at (under [sa]) f2))"
    using ok(2) f1(1) f2(1) makeTreeReadable_result [OF f2(2) m]
    by (simp add: prepare_standalone_def b(1) sa_def [symmetric] pub_def [symmetric])
  have copied: "lstat (fix_at (under [sa]) f2) (sa @ q) = Some (readable_entry e)" if "lstat f2 (sa @ q) = Some e" for q e
    using that by (simp add: lstat_fix_at under_def)
  have 1: "lstat (fix_at (under [sa]) f2) (sa @ b # ''static'' # r) = Some (readable_entry e)"
    if "lstat fs (distDir cwd env @ ''static'' # r) = Some e" for r e
    using f1(3) [OF that] b(2) by (intro copied f2(4)) simp_all
  have 2: "lstat (fix_at (under [sa]) f2) (sa @ ''public'' # r) = Some (readable_entry e)"
    if "lstat fs (pub @ r) = Some e" for r e
    using parallelD2 [OF parallel_append [OF par(1), of r "[]"]] that by (intro copied f2(3) f1(4)) simp_all
  have 3: "lstat (fix_at (under [sa]) f2) (sa @ [''server.js'']) = Some (readable_entry e)"
    if "lstat fs (sa @ [''server.js'']) = Some e" for e
    using that b(3) by (intro copied f2(4) f1(4)) simp_all
  have 4: "open_to_all e" if "prefix sa p" "lstat (fix_at (under [sa]) f2) p = Some e" for p e
    using that by (auto simp: lstat_fix_at under_def open_to_all_entry)
  show ?thesis using result 1 2 3 4 made_readable_entry by (simp add: b(1) sa_def [symmetric] pub_def [symmetric])
qed

text \<open>An example: a static file that only its owner may read, a program, and no public files.\<close>

definition example_build :: files where
  "example_build =
     [([], EDir 0x41ED), ([''w''], EDir 0x41ED), ([''w'', ''.next''], EDir 0x41C0),
      ([''w'', ''.next'', ''static''], EDir 0x41C0), ([''w'', ''.next'', ''static'', ''a.js''], EFile 0x8180 ''x''),
      ([''w'', ''.next'', ''standalone''], EDir 0x41C0), ([''w'', ''.next'', ''standalone'', ''server.js''], EFile 0x81C0 ''y'')]"

lemma tree_okI:
  assumes "distinct (map fst fs)" "list_all (\<lambda>(p, e). p = [] \<or> (case lstat fs (butlast p) of Some (EDir m) \<Rightarrow> True | _ \<Rightarrow> False)) fs"
  shows "tree_ok fs"
proof -
  have "\<exists>m. lstat fs p = Some (EDir m)" if l: "lstat fs (p @ [n]) \<noteq> None" for p n
  proof -
    obtain e where "(p @ [n], e) \<in> set fs" using l assms(1) by (auto simp: lstat_iff)
    then show ?thesis using assms(2) by (auto simp: list_all_iff split: option.splits fs_entry.splits)
  qed
  then show ?thesis using assms(1) by (simp add: tree_ok_def)
qed

lemma example_paths:
  "distDir [''w''] [] = [''w'', ''.next'']" "standaloneDir [''w''] [] = [''w'', ''.next'', ''standalone'']"
  "standaloneDistDir [''w''] [] = [''w'', ''.next'', ''standalone'', ''.next'']" "resolve [''w''] ''public'' = [''w'', ''public'']"
  by code_simp+

lemma example_build_ok: "build_ok [''w''] [] example_build"
proof -
  have "tree_ok example_build" by (rule tree_okI) (simp_all add: example_build_def lstat_def)
  then show ?thesis
    unfolding build_ok_def Let_def example_paths
    by (auto simp: basename_def example_build_def lstat_def)
qed

text \<open>A mode is determined by its bits, so the example has exactly the modes that are asked for.\<close>

lemma made_readable_unique: "made_readable e e' \<Longrightarrow> e' = readable_entry e"
  using made_readable_entry [of e] by (cases e; cases e') (auto simp: bit_eq_iff)

theorem standalone_prepared_witness:
  "\<exists>fs'. prepare_standalone 0x41ED [''w''] [] example_build = Some (Inr fs') \<and>
     lstat fs' [''w'', ''.next'', ''standalone'', ''.next'', ''static'', ''a.js''] = Some (EFile 0x81A4 ''x'') \<and>
     lstat fs' [''w'', ''.next'', ''standalone'', ''server.js''] = Some (EFile 0x81ED ''y'')"
proof -
  have "lstat example_build [''w'', ''.next'', ''static'', ''a.js''] = Some (EFile 0x8180 ''x'')"
    "lstat example_build [''w'', ''.next'', ''standalone'', ''server.js''] = Some (EFile 0x81C0 ''y'')"
    by (simp_all add: example_build_def lstat_def)
  with standalone_prepared [OF example_build_ok, of "0x41ED"] show ?thesis
    unfolding example_paths by (fastforce simp: readable_file_mode_def dest!: made_readable_unique)
qed

end
