(* ===== verification/Next_Config.thy ===== *)
theory Next_Config
  imports Http_Client Standalone
begin

text \<open>
  The server of the console: \<^verbatim>\<open>src/frontend/next.config.mjs\<close>.  It hands requests for the control
  plane on (\<^verbatim>\<open>rewrites\<close>) and sends the security headers (\<^verbatim>\<open>headers\<close>).  How \<^verbatim>\<open>next\<close> matches a rule is the parameter
  \<open>mt\<close>: the address that a rule gives for a path, if it applies.
\<close>

section \<open>The configuration\<close>

record route_rule =
  rule_source :: string
  rule_destination :: string

definition backendApiUrl :: "string \<Rightarrow> string" where
  "backendApiUrl env = baseURL (or_str env ''http://127.0.0.1:8000'')"

definition config_distDir :: "string \<Rightarrow> string \<Rightarrow> string" where
  "config_distDir env nodeEnv = or_str env (if nodeEnv = ''development'' then ''.next-dev'' else ''.next'')"

definition quoted :: "string \<Rightarrow> string" where
  "quoted s = CHR 0x27 # s @ [CHR 0x27]"

definition csp_lines :: "string list" where
  "csp_lines =
     [''default-src '' @ quoted ''self'',
      ''script-src '' @ quoted ''self'' @ '' '' @ quoted ''unsafe-inline'' @ '' '' @ quoted ''unsafe-eval'',
      ''style-src '' @ quoted ''self'' @ '' '' @ quoted ''unsafe-inline'',
      ''img-src '' @ quoted ''self'' @ '' data: blob:'',
      ''font-src '' @ quoted ''self'' @ '' data:'',
      ''connect-src '' @ quoted ''self'',
      ''frame-ancestors '' @ quoted ''none'']"

definition security_headers :: "(string \<times> string) list" where
  "security_headers =
     [(''X-Frame-Options'', ''DENY''),
      (''X-Content-Type-Options'', ''nosniff''),
      (''X-XSS-Protection'', ''1; mode=block''),
      (''Referrer-Policy'', ''strict-origin-when-cross-origin''),
      (''Permissions-Policy'', ''geolocation=(), microphone=(), camera=()''),
      (''Content-Security-Policy'', join ''; '' csp_lines)]"

definition config_headers :: "(string \<times> (string \<times> string) list) list" where
  "config_headers = [(''/:path*'', security_headers)]"

definition config_rewrites :: "string \<Rightarrow> route_rule list" where
  "config_rewrites backend =
     [\<lparr>rule_source = ''/healthz'', rule_destination = backend @ ''/healthz''\<rparr>,
      \<lparr>rule_source = ''/readyz'', rule_destination = backend @ ''/readyz''\<rparr>,
      \<lparr>rule_source = ''/api/:path*'', rule_destination = backend @ ''/api/:path*''\<rparr>]"

section \<open>Requests are handed on unchanged\<close>

text \<open>The first rule that applies counts.\<close>

fun proxied :: "(route_rule \<Rightarrow> string \<Rightarrow> string option) \<Rightarrow> route_rule list \<Rightarrow> string \<Rightarrow> string option" where
  "proxied mt [] path = None"
| "proxied mt (r # rs) path = (case mt r path of Some url \<Rightarrow> Some url | None \<Rightarrow> proxied mt rs path)"

text \<open>What is documented about a rule: a source without a parameter matches that path alone, and
  \<^verbatim>\<open>:path*\<close> at the end stands for the rest of the path, in the destination as well.  The rest is taken to be
  names of letters, digits, underscores and hyphens, which need no encoding and have none undone.\<close>

definition plain_rest :: "string \<Rightarrow> bool" where
  "plain_rest s \<longleftrightarrow> list_all (\<lambda>n. n \<noteq> [] \<and> list_all (\<lambda>c. is_word_char c \<or> c = CHR ''-'') n) (split_char (CHR ''/'') s)"

definition matching_ok :: "(route_rule \<Rightarrow> string \<Rightarrow> string option) \<Rightarrow> bool" where
  "matching_ok mt \<longleftrightarrow>
     (\<forall>r path. CHR '':'' \<notin> set (rule_source r) \<longrightarrow>
        mt r path = (if path = rule_source r then Some (rule_destination r) else None)) \<and>
     (\<forall>p q rest. CHR '':'' \<notin> set p \<longrightarrow> plain_rest rest \<longrightarrow>
        mt \<lparr>rule_source = p @ '':path*'', rule_destination = q @ '':path*''\<rparr> (p @ rest) = Some (q @ rest))"

definition example_matching :: "route_rule \<Rightarrow> string \<Rightarrow> string option" where
  "example_matching r path =
     (let s = rule_source r; k = length s - 6
      in if CHR '':'' \<notin> set s then (if path = s then Some (rule_destination r) else None)
         else if drop k s = '':path*'' \<and> starts_with (take k s) path then
           Some (take (length (rule_destination r) - 6) (rule_destination r) @ drop k path)
         else None)"

lemma example_matching_ok: "matching_ok example_matching"
  by (auto simp: matching_ok_def example_matching_def Let_def)

text \<open>With no base address configured, what the console fetches at \<^verbatim>\<open>/api/...\<close> arrives at the control plane
  under the same path.\<close>

theorem api_request_reaches_backend:
  assumes "matching_ok mt" "plain_rest rest"
  shows "proxied mt (config_rewrites (backendApiUrl env)) (fetch_target (baseURL []) (''/api/'' @ rest)) =
           Some (backendApiUrl env @ ''/api/'' @ rest)"
proof -
  have lit: "mt \<lparr>rule_source = s, rule_destination = d\<rparr> (''/api/'' @ rest) = None" if "s = ''/healthz'' \<or> s = ''/readyz''" for s d
    using assms(1) that by (auto simp: matching_ok_def)
  have "mt \<lparr>rule_source = ''/api/'' @ '':path*'', rule_destination = (b @ ''/api/'') @ '':path*''\<rparr> (''/api/'' @ rest) =
      Some ((b @ ''/api/'') @ rest)" for b
    using assms(1) [unfolded matching_ok_def, THEN conjunct2, rule_format, of "''/api/''" rest "b @ ''/api/''"] assms(2)
    by simp
  then show ?thesis
    using lit by (simp add: config_rewrites_def fetch_target_def baseURL_def)
qed

lemma api_request_example:
  "proxied example_matching (config_rewrites (backendApiUrl ''http://10.0.0.1:8000/'')) (fetch_target (baseURL []) ''/api/v1/nodes'') =
     Some ''http://10.0.0.1:8000/api/v1/nodes''"
proof -
  have "plain_rest ''v1/nodes''" "backendApiUrl ''http://10.0.0.1:8000/'' = ''http://10.0.0.1:8000''" by code_simp+
  with api_request_reaches_backend [OF example_matching_ok, of "''v1/nodes''" "''http://10.0.0.1:8000/''"] show ?thesis by simp
qed

lemma default_backend: "backendApiUrl [] = ''http://127.0.0.1:8000''"
  by code_simp

text \<open>A build for production and the script that completes it agree on the directory.\<close>

lemma build_directory_agrees:
  "nodeEnv \<noteq> ''development'' \<Longrightarrow> resolve cwd (config_distDir env nodeEnv) = distDir cwd env"
  by (simp add: config_distDir_def distDir_def)

section \<open>The content security policy\<close>

text \<open>How a browser reads the policy: directives between semicolons, each a name and its sources.\<close>

definition csp_directives :: "string \<Rightarrow> (string \<times> string list) list" where
  "csp_directives s =
     map (\<lambda>d. let ws = filter (\<lambda>w. w \<noteq> []) (split_char (CHR '' '') d) in (hd ws, tl ws)) (split_char (CHR '';'') s)"

definition same_origin :: "string \<Rightarrow> string \<Rightarrow> bool" where
  "same_origin origin url \<longleftrightarrow>
     url = origin \<or> starts_with (origin @ ''/'') url \<or> (starts_with ''/'' url \<and> \<not> starts_with ''//'' url)"

text \<open>A request may be made when \<^verbatim>\<open>connect-src\<close> names a source for it; the policy here has no other
  source than the own origin.\<close>

definition connect_allowed :: "(string \<times> string) list \<Rightarrow> string \<Rightarrow> string \<Rightarrow> bool" where
  "connect_allowed hs origin url \<longleftrightarrow>
     (case map_of hs ''Content-Security-Policy'' of
        None \<Rightarrow> True
      | Some csp \<Rightarrow>
          (case map_of (csp_directives csp) ''connect-src'' of
             None \<Rightarrow> True
           | Some srcs \<Rightarrow> list_ex (\<lambda>s. s = quoted ''self'' \<and> same_origin origin url) srcs))"

lemma policy_read_back:
  "map_of (csp_directives (join ''; '' csp_lines)) ''connect-src'' = Some [quoted ''self'']"
  "map_of (csp_directives (join ''; '' csp_lines)) ''frame-ancestors'' = Some [quoted ''none'']"
  by code_simp+

lemma connect_allowed_iff: "connect_allowed security_headers origin url \<longleftrightarrow> same_origin origin url"
  by (simp add: connect_allowed_def security_headers_def policy_read_back)

text \<open>The policy lets the console make its requests as long as no other base address is configured.\<close>

lemma relative_request_allowed:
  "rest = [] \<or> hd rest \<noteq> CHR ''/'' \<Longrightarrow>
     connect_allowed security_headers origin (fetch_target (baseURL []) (''/'' @ rest))"
  by (cases rest) (auto simp: connect_allowed_iff same_origin_def fetch_target_def baseURL_def)

text \<open>A base address of another origin, which the client supports, is blocked by the policy: no request of
  the console would be made.\<close>

lemma other_origin_blocked:
  "connect_allowed security_headers ''https://console.example''
      (fetch_target (baseURL ''https://api.example/'') ''/api/v1/nodes'') = False"
  unfolding connect_allowed_iff by code_simp

end
