(* ===== verification/Spec2Isabelle.thy ===== *)
theory Spec2Isabelle
  imports
    Doubles Formatters Preferences Release_Text Clipboard Console_Session App_Shell
    Routing_Page Access_Rules_Page Access_Groups_Page Subscriptions_Page
    Connections_Page Proxies_Page Service_Quality_Page Overview_Page
    Access_Page Settings_Page Alerts_Page Probes_Page Releases_Page
    Employees_Page Backups_Page Tasks_Page Sites_Page Nodes_Page Logs_Page Audit_Page Redirects
    Resource_Paths Dictionary Standalone Next_Config
begin

text \<open>
  A verification development for the operations console of \<^verbatim>\<open>grouproxy\<close>, the TypeScript program under
  \<^verbatim>\<open>src/frontend\<close>: a browser application that shows and changes the state of a fleet of proxy nodes
  through the HTTP interface of a control plane.

  \<^bold>\<open>The program and its model.\<close>  The console has four layers.  A library talks to the control plane and keeps
  the management session in the storage of the browser (\<^verbatim>\<open>lib/api.ts\<close>).  Small libraries translate,
  format, copy and notify.  Shared components give the pages their dialogs, lists and gates.  Pages
  hold the state of one screen each, with queries and mutations of React Query.  Every layer is modelled from its source:

  \<^item> \<open>Prelude\<close>, \<open>Encoding\<close>, \<open>Json\<close>, \<open>Dates\<close>, \<open>Doubles\<close>: the part of the JavaScript library that the source uses
    (texts, \<^verbatim>\<open>Map\<close>, \<^verbatim>\<open>||\<close>, percent encoding, \<^verbatim>\<open>JSON.stringify\<close>, \<^verbatim>\<open>toISOString\<close>,
    the rounding of numbers to doubles), as executable functions with the
    lemmas that reading undoes writing.
  \<^item> \<open>Api_Types\<close>, \<open>Session\<close>, \<open>Http_Client\<close>, \<open>Endpoints\<close>, \<open>Resource_Paths\<close>, \<open>Console_Session\<close>: \<^verbatim>\<open>lib/api.ts\<close>.  The browser
    (both storages, the address, the redirects) is an explicit state; a request function is split where
    it awaits the answer, so that \<open>Console_Session\<close> can interleave requests, answers, sign-ins,
    sign-outs and time as an inductive step relation; every endpoint is the request it makes.
  \<^item> \<open>Formatters\<close> (\<^verbatim>\<open>lib/utils.ts\<close>), \<open>Preferences\<close> (\<^verbatim>\<open>lib/preferences.tsx\<close>), \<open>Clipboard\<close> (\<^verbatim>\<open>lib/clipboard.ts\<close>),
    \<open>Release_Text\<close> (\<^verbatim>\<open>lib/release-events.ts\<close>, \<^verbatim>\<open>lib/release-categories.ts\<close>), \<open>Toasts\<close> (\<^verbatim>\<open>components/toast.tsx\<close>,
    \<^verbatim>\<open>app/providers.tsx\<close>).
  \<^item> \<open>View\<close>, \<open>Ui_Components\<close>, \<open>List_Controls\<close>, \<open>Page_Kit\<close>, \<open>Dialog_Kit\<close>, \<open>Query\<close>, \<open>Keyed_Query\<close>: what is rendered, as a
    tree of texts, buttons and fields with the conditions under which they can be used; the
    components of \<^verbatim>\<open>components/\<close>; and what React Query promises about queries, mutations and
    \<^verbatim>\<open>keepPreviousData\<close>.
  \<^item> \<open>Messages\<close>, \<open>Messages_Zh\<close>, \<open>Messages_En\<close>, \<open>Messages_Es\<close>, \<open>Dictionary\<close>: the message dictionaries of \<^verbatim>\<open>lib/preferences.tsx\<close>, entry
    by entry, in the order in which the source assigns them, and translation on them.
  \<^item> \<open>Standalone\<close> (\<^verbatim>\<open>scripts/prepare-standalone.mjs\<close>, over a file system with modes) and \<open>Next_Config\<close>
    (\<^verbatim>\<open>next.config.mjs\<close>): the completion of a build, and the server that hands requests on.
  \<^item> One theory for every page of \<^verbatim>\<open>app/\<close>: \<open>Login_Page\<close>, \<open>App_Shell\<close> (the frame), \<open>Overview_Page\<close> with \<open>Traffic_Series\<close> and
    \<open>Topology\<close>, \<open>Sites_Page\<close>, \<open>Nodes_Page\<close>, \<open>Proxies_Page\<close>, \<open>Connections_Page\<close>, \<open>Service_Quality_Page\<close> with \<open>Sorting\<close>,
    \<open>Routing_Page\<close>, \<open>Access_Rules_Page\<close>, \<open>Access_Groups_Page\<close>, \<open>Subscriptions_Page\<close> with \<open>Source_Document\<close>,
    \<open>Releases_Page\<close> with \<open>Release_Detail\<close>, \<open>Tasks_Page\<close>, \<open>Probes_Page\<close>, \<open>Alerts_Page\<close>, \<open>Logs_Page\<close>, \<open>Audit_Page\<close>, \<open>Backups_Page\<close>,
    \<open>Employees_Page\<close>, \<open>Settings_Page\<close>, \<open>Access_Page\<close> with \<open>Access_Commands\<close> and \<open>Code_Highlight\<close>, and \<open>Redirects\<close>.

  \<^bold>\<open>Conventions.\<close>  The state of a page is a record with one field for each \<^verbatim>\<open>useState\<close>, \<^verbatim>\<open>useRef\<close>, query and
  mutation; names of the source are kept, with a prefix where two records would clash.  A handler
  that awaits is two functions, one up to the \<^verbatim>\<open>await\<close> and one for the continuation, which gets the
  result or the message of the error; the moments in between are open to every other event.  An
  effect is a function that is run when its dependencies change.  \<open>*_on_click\<close>, \<open>*_on_edit\<close> and
  \<open>*_on_message\<close> answer the events, and the guard of a user event is that the rendered view offers it
  (\<open>can_click\<close>, \<open>can_edit\<close>), so a dropped \<^verbatim>\<open>disabled\<close> or a missing condition in the markup shows in the
  theorems.  A modal dialog disables what lies behind it.  Errors are values of \<open>string + 'a\<close>, of \<open>client_error\<close> or of \<open>option\<close>.

  \<^bold>\<open>Interfaces.\<close>  \<open>web_storage\<close> is what the session relies on in a storage (interpreted as \<open>ls\<close>);
  \<open>authenticated_call\<close> what every authenticated request function does with the session, its header included (\<open>rq\<close>, \<open>rt\<close>, \<open>rf\<close>);
  \<open>component\<close> is a page in use, with reachable states and their invariant (interpreted once for every page: \<open>lg\<close>,
  \<open>re\<close>, \<open>ar\<close>, \<open>ag\<close>, \<open>sp\<close>, \<open>sh\<close>, \<open>so\<close>, \<open>cn\<close>, \<open>px\<close>, \<open>sq\<close>, \<open>ov\<close>, \<open>ac\<close>, \<open>st\<close>, \<open>pb\<close>, \<open>rp\<close>, \<open>em\<close>, \<open>bp\<close>, \<open>tk\<close>, \<open>si\<close>, \<open>np\<close>, \<open>lp\<close>, \<open>au\<close>);
  \<open>confirmed_operation\<close> is a request behind a confirmation dialog (\<open>pw\<close>, \<open>rh\<close>, \<open>rs\<close>, \<open>ct\<close>); \<open>sliding_window\<close> bounds the
  two notification queues (\<open>pq\<close>, \<open>iq\<close>); \<open>consistent_comparison\<close> and \<open>collation\<close> are what sorting needs of a
  comparison (\<open>cu\<close>, \<open>qs\<close>, \<open>bk\<close>).

  \<^bold>\<open>What the theorems show.\<close>  The session: its keys are stored together, no expired or foreign token is
  ever sent, only a rejection as the source names it ends a session, and the login page says why.  The requests:
  addresses, as the URL parser of \<open>fetch\<close> leaves them, read back as the resource the page meant (for identifiers that are not dots, and
  plain ones where the source does not encode), idempotency keys identify what they protect.  The
  pages: every request is the one that was confirmed on screen, at most one at a time, with valid
  fields, and the state stays well formed in every reachable state; root accounts keep their role,
  live data are only overwritten from the restore dialog, publications name the confirmed draft.
  The algorithms: sorting is a stable sorted permutation by the chosen column, the traffic series implements its specification,
  highlighting loses no character, the shell commands run as meant in a model of the shell, polling
  and paging end and miss nothing, selections settle after two renders.  The texts: every entry of every dictionary
  keeps the placeholders of its key, so translation leaves none over.  The build: the script ends, and what the
  server needs is in place and readable.  Some theorems state behaviour
  that contradicts what the code means to do: node counts that grow with every render, a probe that
  is left behind and blocks the page, a policy that follows the operator to another site, and the
  detail of one release under the header of another.

  \<^bold>\<open>Termination, bounds and parameters.\<close>  All functions are total; recursion that is not structural
  has a measure (\<open>scale_bytes\<close>, \<open>walk_pages\<close>, the scanners, \<open>decodeURIComponent\<close>, the shell).  The shell takes
  the length of its script as fuel, which is enough because every line consumes a character; the
  polling of a refresh runs along a given stream of answers and is shown to return at the first
  decisive one, and the walk over a directory tree (\<open>readable_loop\<close>) is partial and shown to end on every file system
  that is a tree, because directories on its stack are replaced by deeper ones.  JavaScript integers are \<open>int\<close>, fractions \<open>rat\<close>; where a page shows the result of a
  division (the formatters, the scaling of bytes, the rate of acknowledgement) every operation is rounded as on
  doubles by \<open>dbl\<close>, while the coordinates of drawings stay exact; the one place where the safe range matters
  (\<open>parseBoundary\<close>) tests it.  Text is a list of Latin-1 code units; texts with other characters (arrows)
  are parameters, and what such a character of a dictionary becomes is a parameter too.  Code outside the repository is a parameter with what is documented about it:
  \<^verbatim>\<open>Intl\<close>, \<^verbatim>\<open>Date.parse\<close>, the rule matching of \<^verbatim>\<open>next\<close>, \<^verbatim>\<open>localeCompare\<close>, \<^verbatim>\<open>toFixed\<close>, the protocol of an address (\<^verbatim>\<open>new URL\<close> on the settings page), the clock, the random part of idempotency
  keys, the browser's clipboard, and the answers of the control plane.

  \<^bold>\<open>Not modelled.\<close>  Class names, icons and other decoration of the markup; the static document
  frame \<^verbatim>\<open>app/layout.tsx\<close>; the test scripts, which run a compiler and a browser; the Python control plane and the Go
  monitor, which the console only sees as answers to requests.  React Query is modelled as far as it
  is documented; the time that a success handler waits for lists to be read again counts as part of
  the call, except on the releases page, where it is a step of its own.
\<close>

end
